(* ===== verification/Go_Prelude.thy ===== *)
theory Go_Prelude
  imports Main "HOL-Library.Char_ord" "HOL-Library.List_Lexorder" "HOL-Library.Multiset"
    "HOL-Library.Word" "HOL-Library.Sublist" "HOL-Library.Code_Target_Nat"
begin

text \<open>
  What the components share of Go and its standard library: three-way comparison functions
  (\<open>cmp.Compare\<close>, \<open>cmp.Or\<close>), the sorts of package \<open>slices\<close>, the string functions the sources
  call, decimal conversion, and 64-bit durations.

  A Go \<open>string\<close> is a \<^typ>\<open>string\<close> (a list of bytes), compared byte by byte, which is the
  lexicographic order of \<open>List_Lexorder\<close> over \<open>Char_ord\<close>. A Go \<open>map[string]string\<close> is a
  partial function, so that \<open>nil\<close> and an empty map are the same value, as they are for every
  read the sources make.
\<close>

named_theorems go_defs \<open>definitions of the shared Go helpers, for unfolding\<close>

type_synonym string_map = "string \<rightharpoonup> string"

section \<open>Definitions\<close>

subsection \<open>Comparison functions and sorting\<close>

definition go_compare :: "'a::linorder \<Rightarrow> 'a \<Rightarrow> int" where
  "go_compare x y = (if x < y then -1 else if y < x then 1 else 0)"

definition cmp_or :: "int \<Rightarrow> int \<Rightarrow> int" where
  "cmp_or a b = (if a \<noteq> 0 then a else b)"

fun insert_by :: "('a \<Rightarrow> 'a \<Rightarrow> int) \<Rightarrow> 'a \<Rightarrow> 'a list \<Rightarrow> 'a list" where
  "insert_by c x [] = [x]"
| "insert_by c x (y # ys) = (if c x y \<le> 0 then x # y # ys else y # insert_by c x ys)"

text \<open>
  \<open>slices.SortStableFunc\<close>. \<open>slices.SortFunc\<close> may return equal elements in any order; where the
  sources call it the model takes the stable result, and \<open>sorted_perm_unique\<close> below shows that
  every sort gives the same list when no two elements compare equal.
\<close>

fun sort_by :: "('a \<Rightarrow> 'a \<Rightarrow> int) \<Rightarrow> 'a list \<Rightarrow> 'a list" where
  "sort_by c [] = []"
| "sort_by c (x # xs) = insert_by c x (sort_by c xs)"

subsection \<open>Maps\<close>

definition map_get :: "string_map \<Rightarrow> string \<Rightarrow> string" where
  "map_get m k = (case m k of None \<Rightarrow> '''' | Some v \<Rightarrow> v)"

subsection \<open>Strings\<close>

fun go_join :: "string \<Rightarrow> string list \<Rightarrow> string" where
  "go_join sep [] = ''''"
| "go_join sep [x] = x"
| "go_join sep (x # y # xs) = x @ sep @ go_join sep (y # xs)"

fun split_on :: "char \<Rightarrow> string \<Rightarrow> string list" where
  "split_on c [] = [[]]"
| "split_on c (x # xs) =
     (if x = c then [] # split_on c xs
      else (case split_on c xs of [] \<Rightarrow> [[x]] | w # ws \<Rightarrow> (x # w) # ws))"

definition cut_at :: "char \<Rightarrow> string \<Rightarrow> string \<times> string option" where
  "cut_at c s =
     (case dropWhile (\<lambda>x. x \<noteq> c) s of
        [] \<Rightarrow> (s, None)
      | _ # rest \<Rightarrow> (takeWhile (\<lambda>x. x \<noteq> c) s, Some rest))"

definition is_space :: "char \<Rightarrow> bool" where
  "is_space c \<longleftrightarrow> c \<in> {CHR 0x09, CHR 0x0A, CHR 0x0B, CHR 0x0C, CHR 0x0D, CHR 0x20}"

definition trim_space :: "string \<Rightarrow> string" where
  "trim_space s = rev (dropWhile is_space (rev (dropWhile is_space s)))"

definition is_digit :: "char \<Rightarrow> bool" where
  "is_digit c \<longleftrightarrow> 48 \<le> (of_char c :: nat) \<and> (of_char c :: nat) \<le> 57"

definition is_alpha :: "char \<Rightarrow> bool" where
  "is_alpha c \<longleftrightarrow>
     65 \<le> (of_char c :: nat) \<and> (of_char c :: nat) \<le> 90 \<or>
     97 \<le> (of_char c :: nat) \<and> (of_char c :: nat) \<le> 122"

definition lower_char :: "char \<Rightarrow> char" where
  "lower_char c =
     (if 65 \<le> (of_char c :: nat) \<and> (of_char c :: nat) \<le> 90 then char_of ((of_char c :: nat) + 32)
      else c)"

subsection \<open>Decimal numbers\<close>

definition digit_char :: "nat \<Rightarrow> char" where
  "digit_char d = char_of (48 + d)"

fun show_nat :: "nat \<Rightarrow> string" where
  "show_nat n =
     (if n < 10 then [digit_char n] else show_nat (n div 10) @ [digit_char (n mod 10)])"

declare show_nat.simps [simp del]

definition show_int :: "int \<Rightarrow> string" where
  "show_int i = (if i < 0 then ''-'' @ show_nat (nat (- i)) else show_nat (nat i))"

definition digit_val :: "char \<Rightarrow> nat" where
  "digit_val c = of_char c - 48"

definition digits_val :: "string \<Rightarrow> nat" where
  "digits_val s = foldl (\<lambda>acc c. acc * 10 + digit_val c) 0 s"

subsection \<open>Quoting\<close>

definition hex_char :: "nat \<Rightarrow> char" where
  "hex_char d = (if d < 10 then char_of (48 + d) else char_of (87 + d))"

text \<open>
  The verb \<open>%q\<close>. Bytes above 0x7F are kept: they belong to printable runes in the names and
  messages the sources quote.
\<close>

definition quote_char :: "char \<Rightarrow> string" where
  "quote_char c =
     (let n = (of_char c :: nat) in
      if c = CHR 0x22 then [CHR 0x5C, CHR 0x22]
      else if c = CHR 0x5C then [CHR 0x5C, CHR 0x5C]
      else if c = CHR 0x07 then [CHR 0x5C, CHR ''a'']
      else if c = CHR 0x08 then [CHR 0x5C, CHR ''b'']
      else if c = CHR 0x0C then [CHR 0x5C, CHR ''f'']
      else if c = CHR 0x0A then [CHR 0x5C, CHR ''n'']
      else if c = CHR 0x0D then [CHR 0x5C, CHR ''r'']
      else if c = CHR 0x09 then [CHR 0x5C, CHR ''t'']
      else if c = CHR 0x0B then [CHR 0x5C, CHR ''v'']
      else if n < 32 \<or> n = 127 then
        [CHR 0x5C, CHR ''x'', hex_char (n div 16), hex_char (n mod 16)]
      else [c])"

definition go_quote :: "string \<Rightarrow> string" where
  "go_quote s = [CHR 0x22] @ concat (map quote_char s) @ [CHR 0x22]"

definition show_strings :: "string list \<Rightarrow> string" where
  "show_strings xs = ''['' @ go_join '' '' xs @ '']''"

subsection \<open>64-bit signed integers\<close>

text \<open>
  \<open>time.Duration\<close> is an \<open>int64\<close> of nanoseconds: its product wraps around, and the difference
  of two instants (\<open>Time.Sub\<close>) saturates.
\<close>

definition wrap64 :: "int \<Rightarrow> int" where
  "wrap64 x = (x + 2 ^ 63) mod 2 ^ 64 - 2 ^ 63"

definition sat64 :: "int \<Rightarrow> int" where
  "sat64 x = max (- (2 ^ 63)) (min (2 ^ 63 - 1) x)"

definition minute_ns :: int where
  "minute_ns = 60000000000"

definition second_ns :: int where
  "second_ns = 1000000000"

declare go_compare_def [go_defs] cmp_or_def [go_defs] map_get_def [go_defs]

section \<open>Lemmas\<close>

subsection \<open>The contract of a comparison function\<close>

text \<open>
  What \<open>slices.SortFunc\<close> asks of its argument: a total preorder whose sign is antisymmetric.
  The components instantiate it with the comparison functions of the sources.
\<close>

locale comparison =
  fixes cmp :: "'a \<Rightarrow> 'a \<Rightarrow> int"
  assumes cmp_swap: "cmp x y \<le> 0 \<longleftrightarrow> 0 \<le> cmp y x"
    and cmp_trans: "cmp x y \<le> 0 \<Longrightarrow> cmp y z \<le> 0 \<Longrightarrow> cmp x z \<le> 0"
begin

lemma cmp_refl [simp]: "cmp x x = 0"
  using cmp_swap [of x x] by linarith

lemma cmp_total: "cmp x y \<le> 0 \<or> cmp y x \<le> 0"
  using cmp_swap [of x y] cmp_swap [of y x] by linarith

lemma cmp_eq_sym: "cmp x y = 0 \<longleftrightarrow> cmp y x = 0"
  using cmp_swap [of x y] cmp_swap [of y x] by linarith

lemma cmp_eq_le: "cmp x y = 0 \<Longrightarrow> cmp x z \<le> 0 \<longleftrightarrow> cmp y z \<le> 0"
  using cmp_trans [of x y z] cmp_trans [of y x z] cmp_eq_sym [of x y] by auto

lemma mset_insert_by: "mset (insert_by cmp x xs) = add_mset x (mset xs)"
  by (induction xs) auto

lemma mset_sort_by: "mset (sort_by cmp xs) = mset xs"
  by (induction xs) (auto simp: mset_insert_by)

lemma set_sort_by: "set (sort_by cmp xs) = set xs"
  using mset_sort_by [of xs] by (metis set_mset_mset)

lemma length_sort_by: "length (sort_by cmp xs) = length xs"
  using mset_sort_by [of xs] by (metis size_mset)

lemma set_insert_by: "set (insert_by cmp x xs) = insert x (set xs)"
  using mset_insert_by [of x xs] by (metis set_mset_add_mset_insert set_mset_mset)

lemma sorted_insert_by:
  "sorted_wrt (\<lambda>a b. cmp a b \<le> 0) xs \<Longrightarrow> sorted_wrt (\<lambda>a b. cmp a b \<le> 0) (insert_by cmp x xs)"
proof (induction xs)
  case (Cons y ys)
  show ?case
  proof (cases "cmp x y \<le> 0")
    case True
    with Cons.prems show ?thesis by (auto intro: cmp_trans)
  next
    case False
    then have "cmp y x \<le> 0" using cmp_total by blast
    with Cons False show ?thesis by (auto simp: set_insert_by)
  qed
qed simp

lemma sorted_sort_by: "sorted_wrt (\<lambda>a b. cmp a b \<le> 0) (sort_by cmp xs)"
  by (induction xs) (auto simp: sorted_insert_by)

lemma hd_sort_by_least:
  assumes "y \<in> set xs"
  shows "cmp (hd (sort_by cmp xs)) y \<le> 0"
proof (cases "sort_by cmp xs")
  case Nil
  with assms show ?thesis using set_sort_by [of xs] by auto
next
  case (Cons z zs)
  with assms have "y = z \<or> y \<in> set zs"
    using set_sort_by [of xs] by auto
  with Cons show ?thesis
    using sorted_sort_by [of xs] by auto
qed

lemma last_sorted_greatest:
  assumes "sorted_wrt (\<lambda>a b. cmp a b \<le> 0) xs" and "x \<in> set xs"
  shows "cmp x (last xs) \<le> 0"
  using assms by (cases xs rule: rev_cases) (auto simp: sorted_wrt_append)

lemma hd_sort_by_in: "xs \<noteq> [] \<Longrightarrow> hd (sort_by cmp xs) \<in> set xs"
  using set_sort_by [of xs] length_sort_by [of xs]
  by (metis hd_in_set length_0_conv)

lemma sort_by_eq_Nil [simp]: "sort_by cmp xs = [] \<longleftrightarrow> xs = []"
  using length_sort_by [of xs] by (metis length_0_conv)

lemma insert_by_filter_eq:
  "filter (\<lambda>b. cmp a b = 0) (insert_by cmp x xs) =
     (if cmp a x = 0 then x # filter (\<lambda>b. cmp a b = 0) xs else filter (\<lambda>b. cmp a b = 0) xs)"
proof (induction xs)
  case (Cons y ys)
  have "\<not> (cmp a x = 0 \<and> cmp a y = 0)" if "\<not> cmp x y \<le> 0"
    using that cmp_eq_le [of a x y] by auto
  with Cons show ?case by auto
qed simp

text \<open>Stability: elements that compare equal keep their order.\<close>

lemma sort_by_stable:
  "filter (\<lambda>b. cmp a b = 0) (sort_by cmp xs) = filter (\<lambda>b. cmp a b = 0) xs"
  by (induction xs) (auto simp: insert_by_filter_eq)

text \<open>
  A sorted permutation of a list without compare-equal elements is unique, so that the result
  of a sort does not depend on the algorithm nor on the order of its input.
\<close>

lemma sorted_perm_unique:
  assumes "mset xs = mset ys"
    and "sorted_wrt (\<lambda>a b. cmp a b \<le> 0) xs" and "sorted_wrt (\<lambda>a b. cmp a b \<le> 0) ys"
    and "\<And>a b. a \<in> set xs \<Longrightarrow> b \<in> set xs \<Longrightarrow> cmp a b = 0 \<Longrightarrow> a = b"
  shows "xs = ys"
  using assms
proof (induction xs arbitrary: ys)
  case Nil
  then show ?case by simp
next
  case (Cons x xs)
  then obtain y ys' where ys: "ys = y # ys'" by (cases ys) auto
  have "set (x # xs) = set ys" using Cons.prems(1) by (metis set_mset_mset)
  then have "y \<in> set (x # xs)" and "x \<in> set (y # ys')" using ys by auto
  then have "cmp x y \<le> 0" and "cmp y x \<le> 0"
    using Cons.prems(2,3) ys by auto
  then have "cmp x y = 0" using cmp_swap [of y x] by linarith
  then have xy: "x = y" using Cons.prems(4) \<open>y \<in> set (x # xs)\<close> by auto
  moreover have "xs = ys'"
    using Cons.IH [of ys'] Cons.prems ys xy by auto
  ultimately show ?case using ys by simp
qed

lemma sort_by_perm_invariant:
  assumes "mset xs = mset ys"
    and "\<And>a b. a \<in> set xs \<Longrightarrow> b \<in> set xs \<Longrightarrow> cmp a b = 0 \<Longrightarrow> a = b"
  shows "sort_by cmp xs = sort_by cmp ys"
  using assms by (intro sorted_perm_unique) (auto simp: mset_sort_by sorted_sort_by set_sort_by)

end

lemma comparison_go_compare: "comparison (go_compare :: 'a::linorder \<Rightarrow> 'a \<Rightarrow> int)"
  by unfold_locales (auto simp: go_compare_def split: if_splits)

lemma comparison_pullback: "comparison c \<Longrightarrow> comparison (\<lambda>x y. c (f x) (f y))"
  unfolding comparison_def by blast

lemma comparison_flip: "comparison c \<Longrightarrow> comparison (\<lambda>x y. c y x)"
  unfolding comparison_def by metis

lemma comparison_lex:
  assumes "comparison c" and "comparison d"
  shows "comparison (\<lambda>x y. cmp_or (c x y) (d x y))"
proof -
  have c: "c x y \<le> 0 \<longleftrightarrow> 0 \<le> c y x" and d: "d x y \<le> 0 \<longleftrightarrow> 0 \<le> d y x" for x y
    using comparison.cmp_swap assms by metis+
  have ct: "c x y \<le> 0 \<Longrightarrow> c y z \<le> 0 \<Longrightarrow> c x z \<le> 0"
    and dt: "d x y \<le> 0 \<Longrightarrow> d y z \<le> 0 \<Longrightarrow> d x z \<le> 0" for x y z
    using comparison.cmp_trans assms by metis+
  show ?thesis
  proof
    fix x y z
    show "cmp_or (c x y) (d x y) \<le> 0 \<longleftrightarrow> 0 \<le> cmp_or (c y x) (d y x)"
      using c [of x y] c [of y x] d [of x y] by (auto simp: cmp_or_def)
    assume "cmp_or (c x y) (d x y) \<le> 0" and "cmp_or (c y z) (d y z) \<le> 0"
    then show "cmp_or (c x z) (d x z) \<le> 0"
      using ct [of x y z] ct [of z x y] ct [of y z x] dt [of x y z]
        c [of x y] c [of y x] c [of y z] c [of z y] c [of x z] c [of z x]
      by (auto simp: cmp_or_def split: if_splits)
  qed
qed

lemma go_compare_eq_0 [simp]: "go_compare x y = 0 \<longleftrightarrow> x = y"
  by (auto simp: go_compare_def)

lemma go_compare_refl [simp]: "go_compare x x = 0"
  by (simp add: go_compare_def)

lemma go_compare_le_0 [simp]: "go_compare x y \<le> 0 \<longleftrightarrow> x \<le> y"
  by (auto simp: go_compare_def)

lemma cmp_or_eq_0 [simp]: "cmp_or a b = 0 \<longleftrightarrow> a = 0 \<and> b = 0"
  by (auto simp: cmp_or_def)

interpretation go_cmp: comparison "go_compare :: 'a::linorder \<Rightarrow> 'a \<Rightarrow> int"
  by (rule comparison_go_compare)

subsection \<open>Splitting and joining\<close>

lemma mset_concat_map: "mset (concat (map f xs)) = (\<Sum>x \<in># mset xs. mset (f x))"
  by (induction xs) auto

lemma split_on_not_Nil [simp]: "split_on c s \<noteq> []"
  by (induction s) (auto split: list.splits)

lemma split_on_no_sep: "c \<notin> set s \<Longrightarrow> split_on c s = [s]"
  by (induction s) auto

lemma split_on_append_sep: "c \<notin> set s \<Longrightarrow> split_on c (s @ c # t) = s # split_on c t"
  by (induction s) auto

lemma go_join_Cons_char: "go_join sep ((x # w) # ws) = x # go_join sep (w # ws)"
  by (cases ws) auto

lemma split_on_join:
  "xs \<noteq> [] \<Longrightarrow> (\<And>x. x \<in> set xs \<Longrightarrow> c \<notin> set x) \<Longrightarrow> split_on c (go_join [c] xs) = xs"
proof (induction xs)
  case (Cons x xs)
  then show ?case
    by (cases xs) (auto simp: split_on_no_sep split_on_append_sep)
qed simp

lemma join_split_on: "go_join [c] (split_on c s) = s"
proof (induction s)
  case (Cons x s)
  obtain w ws where "split_on c s = w # ws"
    by (metis split_on_not_Nil neq_Nil_conv)
  with Cons show ?case by (auto simp: go_join_Cons_char)
qed simp

lemma split_on_parts: "w \<in> set (split_on c s) \<Longrightarrow> c \<notin> set w"
  by (induction s arbitrary: w) (auto split: if_splits list.splits)

lemma set_go_join: "set (go_join sep xs) \<subseteq> \<Union> (set ` set xs) \<union> set sep"
  by (induction sep xs rule: go_join.induct) auto

lemma takeWhile_no_hit: "c \<notin> set s \<Longrightarrow> takeWhile (\<lambda>x. x \<noteq> c) s = s"
  by (induction s) auto

lemma dropWhile_no_hit: "c \<notin> set s \<Longrightarrow> dropWhile (\<lambda>x. x \<noteq> c) s = []"
  by (induction s) auto

lemma cut_at_none: "c \<notin> set s \<Longrightarrow> cut_at c s = (s, None)"
  by (simp add: cut_at_def dropWhile_no_hit)

lemma cut_at_some:
  assumes "c \<notin> set s"
  shows "cut_at c (s @ c # t) = (s, Some t)"
proof -
  have "dropWhile (\<lambda>x. x \<noteq> c) (s @ c # t) = c # t" and "takeWhile (\<lambda>x. x \<noteq> c) (s @ c # t) = s"
    using assms by (induction s) auto
  then show ?thesis by (simp add: cut_at_def)
qed

subsection \<open>Decimal numbers\<close>

lemma of_char_digit_char: "d < 10 \<Longrightarrow> of_char (digit_char d) = (48 + d :: nat)"
  by (simp add: digit_char_def)

lemma is_digit_digit_char: "d < 10 \<Longrightarrow> is_digit (digit_char d)"
  by (simp add: is_digit_def of_char_digit_char)

lemma digit_val_digit_char: "d < 10 \<Longrightarrow> digit_val (digit_char d) = d"
  by (simp add: digit_val_def of_char_digit_char)

lemma show_nat_not_Nil [simp]: "show_nat n \<noteq> []"
  by (subst show_nat.simps) simp

lemma show_nat_digits: "c \<in> set (show_nat n) \<Longrightarrow> is_digit c"
proof (induction n rule: show_nat.induct)
  case (1 n)
  then show ?case
    by (cases "n < 10") (auto simp: show_nat.simps [of n] is_digit_digit_char)
qed

lemma digits_val_snoc: "digits_val (s @ [c]) = digits_val s * 10 + digit_val c"
  by (simp add: digits_val_def)

lemma digits_val_show_nat: "digits_val (show_nat n) = n"
proof (induction n rule: show_nat.induct)
  case (1 n)
  show ?case
  proof (cases "n < 10")
    case True
    then show ?thesis
      by (simp add: show_nat.simps [of n] digits_val_def digit_val_digit_char)
  next
    case False
    with 1 show ?thesis
      by (simp add: show_nat.simps [of n] digits_val_snoc digit_val_digit_char)
  qed
qed

lemma show_nat_no_leading_zero: "length (show_nat n) > 1 \<Longrightarrow> hd (show_nat n) \<noteq> CHR ''0''"
proof (induction n rule: show_nat.induct)
  case (1 n)
  then have n: "\<not> n < 10" by (auto simp: show_nat.simps [of n] split: if_splits)
  show ?case
  proof (cases "n div 10 < 10")
    case True
    then have "hd (show_nat n) = digit_char (n div 10)"
      using n by (simp add: show_nat.simps [of n] show_nat.simps [of "n div 10"])
    moreover have "of_char (digit_char (n div 10)) \<noteq> (of_char CHR ''0'' :: nat)"
      using n True by (simp add: of_char_digit_char)
    ultimately show ?thesis by metis
  next
    case False
    then have "length (show_nat (n div 10)) > 1"
      by (simp add: show_nat.simps [of "n div 10"] Suc_le_eq)
    with 1 n show ?thesis by (simp add: show_nat.simps [of n])
  qed
qed

lemma show_nat_inject [simp]: "show_nat m = show_nat n \<longleftrightarrow> m = n"
  by (metis digits_val_show_nat)

subsection \<open>64-bit arithmetic\<close>

lemma wrap64_id: "- (2 ^ 63) \<le> x \<Longrightarrow> x < 2 ^ 63 \<Longrightarrow> wrap64 x = x"
  by (simp add: wrap64_def)

lemma sat64_id: "- (2 ^ 63) \<le> x \<Longrightarrow> x < 2 ^ 63 \<Longrightarrow> sat64 x = x"
  by (simp add: sat64_def)

lemma sat64_range: "- (2 ^ 63) \<le> sat64 x \<and> sat64 x < 2 ^ 63"
  by (simp add: sat64_def)

lemma sat64_le_0 [simp]: "sat64 x \<le> 0 \<longleftrightarrow> x \<le> 0"
  by (auto simp: sat64_def)

subsection \<open>Maps\<close>

lemma map_get_simps [simp]:
  "m k = Some v \<Longrightarrow> map_get m k = v"
  "m k = None \<Longrightarrow> map_get m k = ''''"
  by (simp_all add: map_get_def)

lemma map_get_upd [simp]: "map_get (m(k \<mapsto> v)) l = (if l = k then v else map_get m l)"
  by (simp add: map_get_def)

end
