(* ===== verification/Go_Errors.thy ===== *)
theory Go_Errors
  imports Go_Prelude
begin

text \<open>
  Go error values as the operator builds and inspects them: \<open>errors.New\<close>, \<open>fmt.Errorf\<close> with the
  verb \<open>%w\<close>, \<open>errors.Join\<close>, the API machinery's status errors, controller-runtime's
  \<open>reconcile.TerminalError\<close>, and the repository's own \<open>terminalErrorWithReason\<close>
  (\<open>internal/shared/util/error/terminal.go\<close>); and the stripping of ephemeral addresses from network
  errors (\<open>internal/shared/util/error/sanitize.go\<close>).
\<close>

section \<open>Definitions\<close>

subsection \<open>Error values\<close>

datatype api_reason = NotFound | AlreadyExists | Conflict | Invalid | OtherReason

text \<open>
  \<open>ErrWrap p e s\<close> is \<open>fmt.Errorf("p%ws", e)\<close>. The field of \<open>ErrTerminal\<close> is optional because
  \<open>reconcile.TerminalError(nil)\<close> is a value the code uses as the target of \<open>errors.Is\<close>.
\<close>

datatype go_error =
    ErrText string
  | ErrWrap string go_error string
  | ErrJoin "go_error list"
  | ErrApi api_reason string
  | ErrTerminal "go_error option"
  | ErrTerminalReason string go_error

type_synonym 'a result = "go_error + 'a"

fun err_string :: "go_error \<Rightarrow> string" where
  "err_string (ErrText s) = s"
| "err_string (ErrWrap p e s) = p @ err_string e @ s"
| "err_string (ErrJoin es) = go_join [CHR 0x0A] (map err_string es)"
| "err_string (ErrApi r s) = s"
| "err_string (ErrTerminal None) = ''nil terminal error''"
| "err_string (ErrTerminal (Some e)) = ''terminal error: '' @ err_string e"
| "err_string (ErrTerminalReason r e) = err_string e"

text \<open>\<open>errors.Unwrap\<close>: it does not look into joined errors.\<close>

fun errors_Unwrap :: "go_error \<Rightarrow> go_error option" where
  "errors_Unwrap (ErrWrap p e s) = Some e"
| "errors_Unwrap (ErrTerminal x) = x"
| "errors_Unwrap (ErrTerminalReason r e) = Some e"
| "errors_Unwrap (ErrText s) = None"
| "errors_Unwrap (ErrJoin es) = None"
| "errors_Unwrap (ErrApi r s) = None"

text \<open>\<open>errors.Is(err, reconcile.TerminalError(nil))\<close>: a terminal error anywhere in the tree.\<close>

fun is_terminal :: "go_error \<Rightarrow> bool" where
  "is_terminal (ErrText s) = False"
| "is_terminal (ErrWrap p e s) = is_terminal e"
| "is_terminal (ErrJoin es) = list_ex is_terminal es"
| "is_terminal (ErrApi r s) = False"
| "is_terminal (ErrTerminal x) = True"
| "is_terminal (ErrTerminalReason r e) = is_terminal e"

text \<open>\<open>errors.As\<close> with a target of type \<open>*terminalErrorWithReason\<close>: the first one in preorder.\<close>

fun as_terminal_reason :: "go_error \<Rightarrow> string option"
  and as_terminal_reason_list :: "go_error list \<Rightarrow> string option" where
  "as_terminal_reason (ErrText s) = None"
| "as_terminal_reason (ErrWrap p e s) = as_terminal_reason e"
| "as_terminal_reason (ErrJoin es) = as_terminal_reason_list es"
| "as_terminal_reason (ErrApi r s) = None"
| "as_terminal_reason (ErrTerminal None) = None"
| "as_terminal_reason (ErrTerminal (Some e)) = as_terminal_reason e"
| "as_terminal_reason (ErrTerminalReason r e) = Some r"
| "as_terminal_reason_list [] = None"
| "as_terminal_reason_list (e # es) =
     (case as_terminal_reason e of Some r \<Rightarrow> Some r | None \<Rightarrow> as_terminal_reason_list es)"

text \<open>\<open>apierrors.ReasonForError\<close> looks for a status error with \<open>errors.As\<close>.\<close>

fun api_reason_of :: "go_error \<Rightarrow> api_reason option"
  and api_reason_of_list :: "go_error list \<Rightarrow> api_reason option" where
  "api_reason_of (ErrText s) = None"
| "api_reason_of (ErrWrap p e s) = api_reason_of e"
| "api_reason_of (ErrJoin es) = api_reason_of_list es"
| "api_reason_of (ErrApi r s) = Some r"
| "api_reason_of (ErrTerminal None) = None"
| "api_reason_of (ErrTerminal (Some e)) = api_reason_of e"
| "api_reason_of (ErrTerminalReason r e) = api_reason_of e"
| "api_reason_of_list [] = None"
| "api_reason_of_list (e # es) =
     (case api_reason_of e of Some r \<Rightarrow> Some r | None \<Rightarrow> api_reason_of_list es)"

definition IsNotFound :: "go_error \<Rightarrow> bool" where
  "IsNotFound e \<longleftrightarrow> api_reason_of e = Some NotFound"

definition IsAlreadyExists :: "go_error \<Rightarrow> bool" where
  "IsAlreadyExists e \<longleftrightarrow> api_reason_of e = Some AlreadyExists"

definition ignore_not_found :: "go_error option \<Rightarrow> go_error option" where
  "ignore_not_found x = (case x of None \<Rightarrow> None | Some e \<Rightarrow> if IsNotFound e then None else Some e)"

text \<open>\<open>errors.Join\<close> drops nil errors and gives nil when all are.\<close>

definition errors_Join :: "go_error option list \<Rightarrow> go_error option" where
  "errors_Join xs =
     (case List.map_filter id xs of [] \<Rightarrow> None | es \<Rightarrow> Some (ErrJoin es))"

subsection \<open>Terminal errors with a reason\<close>

definition NewTerminalError :: "string \<Rightarrow> go_error \<Rightarrow> go_error" where
  "NewTerminalError reason err = ErrTerminal (Some (ErrTerminalReason reason err))"

definition ExtractTerminalReason :: "go_error option \<Rightarrow> string option" where
  "ExtractTerminalReason err =
     (case err of
        None \<Rightarrow> None
      | Some e \<Rightarrow>
          (case errors_Unwrap e of
             None \<Rightarrow> None
           | Some unwrapped \<Rightarrow> as_terminal_reason unwrapped))"

definition WrapTerminal :: "go_error option \<Rightarrow> bool \<Rightarrow> go_error option" where
  "WrapTerminal err isTerminal =
     (if \<not> isTerminal \<or> err = None then err else Some (ErrTerminal err))"

definition UnwrapTerminal :: "go_error option \<Rightarrow> go_error option" where
  "UnwrapTerminal err =
     (case err of
        None \<Rightarrow> None
      | Some e \<Rightarrow>
          if is_terminal e then
            (case errors_Unwrap e of Some unwrapped \<Rightarrow> Some unwrapped | None \<Rightarrow> Some e)
          else Some e)"

subsection \<open>Sanitizing network errors\<close>

text \<open>
  The regular expression \<open>ephemeralNetworkErrorPattern\<close> as a scanner that returns what is left of
  the input after a match at its start. Each greedy choice of the expression is the only one that
  can lead to a match (no character class overlaps the literal that follows it), so that the
  scanner does not have to backtrack.
\<close>

fun strip_prefix :: "string \<Rightarrow> string \<Rightarrow> string option" where
  "strip_prefix [] s = Some s"
| "strip_prefix (c # cs) [] = None"
| "strip_prefix (c # cs) (x # s) = (if c = x then strip_prefix cs s else None)"

definition is_hex :: "char \<Rightarrow> bool" where
  "is_hex c \<longleftrightarrow> is_digit c \<or>
     65 \<le> (of_char c :: nat) \<and> (of_char c :: nat) \<le> 70 \<or>
     97 \<le> (of_char c :: nat) \<and> (of_char c :: nat) \<le> 102"

definition strip_octet :: "string \<Rightarrow> string option" where
  "strip_octet s =
     (let ds = takeWhile is_digit (take 3 s) in
      if ds = [] then None else Some (drop (length ds) s))"

definition strip_ipv4 :: "string \<Rightarrow> string option" where
  "strip_ipv4 s =
     Option.bind (strip_octet s) (\<lambda>s. Option.bind (strip_prefix ''.'' s)
     (\<lambda>s. Option.bind (strip_octet s) (\<lambda>s. Option.bind (strip_prefix ''.'' s)
     (\<lambda>s. Option.bind (strip_octet s) (\<lambda>s. Option.bind (strip_prefix ''.'' s) strip_octet)))))"

definition strip_ipv6 :: "string \<Rightarrow> string option" where
  "strip_ipv6 s =
     Option.bind (strip_prefix ''['' s) (\<lambda>s.
       let hs = takeWhile (\<lambda>c. is_hex c \<or> c = CHR '':'') s in
       if hs = [] then None else strip_prefix '']'' (drop (length hs) s))"

definition strip_port :: "string \<Rightarrow> string" where
  "strip_port s =
     (case strip_prefix '':'' s of
        None \<Rightarrow> s
      | Some t \<Rightarrow>
          (let ds = takeWhile is_digit t in if ds = [] then s else drop (length ds) t))"

definition strip_addr :: "string \<Rightarrow> string option" where
  "strip_addr s =
     map_option strip_port (case strip_ipv4 s of Some t \<Rightarrow> Some t | None \<Rightarrow> strip_ipv6 s)"

definition strip_either :: "string \<Rightarrow> string \<Rightarrow> string \<Rightarrow> string option" where
  "strip_either a b s =
     (case strip_prefix a s of Some t \<Rightarrow> Some t | None \<Rightarrow> strip_prefix b s)"

definition ephemeralNetworkErrorPattern :: "string \<Rightarrow> string option" where
  "ephemeralNetworkErrorPattern s =
     Option.bind (strip_either ''read '' ''write '' s) (\<lambda>s.
     Option.bind (strip_either ''tcp '' ''udp '' s) (\<lambda>s.
     Option.bind (strip_addr s) (\<lambda>s.
     Option.bind (strip_prefix ''->'' s) (\<lambda>s.
     map_option (\<lambda>t. case strip_prefix '': '' t of Some u \<Rightarrow> u | None \<Rightarrow> t) (strip_addr s)))))"

text \<open>
  \<open>ReplaceAllString(s, "")\<close>: matches are taken from left to right and do not overlap. The fuel
  is the number of bytes left, which every step decreases.
\<close>

fun replace_all :: "nat \<Rightarrow> string \<Rightarrow> string" where
  "replace_all 0 s = s"
| "replace_all (Suc n) [] = []"
| "replace_all (Suc n) (c # s) =
     (case ephemeralNetworkErrorPattern (c # s) of
        Some rest \<Rightarrow> replace_all n rest
      | None \<Rightarrow> c # replace_all n s)"

definition SanitizeNetworkError :: "go_error option \<Rightarrow> string" where
  "SanitizeNetworkError err =
     (case err of None \<Rightarrow> '''' | Some e \<Rightarrow> replace_all (length (err_string e)) (err_string e))"

subsection \<open>Messages of the resolver\<close>

text \<open>
  The texts the sanitizer is meant for: dotted decimal addresses with a port, the socket
  operation between two of them, and a prefix in which no match starts.
\<close>

definition show_ipv4 :: "nat \<times> nat \<times> nat \<times> nat \<Rightarrow> nat \<Rightarrow> string" where
  "show_ipv4 a port =
     (case a of (p, q, r, s) \<Rightarrow>
        show_nat p @ ''.'' @ show_nat q @ ''.'' @ show_nat r @ ''.'' @ show_nat s @ '':'' @ show_nat port)"

definition octets_ok :: "nat \<times> nat \<times> nat \<times> nat \<Rightarrow> bool" where
  "octets_ok a \<longleftrightarrow> (case a of (p, q, r, s) \<Rightarrow> p < 256 \<and> q < 256 \<and> r < 256 \<and> s < 256)"

definition socket_text :: "bool \<Rightarrow> bool \<Rightarrow> nat \<times> nat \<times> nat \<times> nat \<Rightarrow> nat \<Rightarrow>
    nat \<times> nat \<times> nat \<times> nat \<Rightarrow> nat \<Rightarrow> string" where
  "socket_text rd tcp a p b q =
     (if rd then ''read '' else ''write '') @ (if tcp then ''tcp '' else ''udp '') @
     show_ipv4 a p @ ''->'' @ show_ipv4 b q @ '': ''"

primrec no_match_in :: "string \<Rightarrow> string \<Rightarrow> bool" where
  "no_match_in [] s \<longleftrightarrow> True"
| "no_match_in (c # pre) s \<longleftrightarrow>
     ephemeralNetworkErrorPattern (c # pre @ s) = None \<and> no_match_in pre s"

section \<open>Lemmas\<close>

lemma is_terminal_NewTerminalError [simp]: "is_terminal (NewTerminalError r e)"
  by (simp add: NewTerminalError_def)

lemma ExtractTerminalReason_New [simp]: "ExtractTerminalReason (Some (NewTerminalError r e)) = Some r"
  by (simp add: NewTerminalError_def ExtractTerminalReason_def)

lemma UnwrapTerminal_New [simp]:
  "map_option err_string (UnwrapTerminal (Some (NewTerminalError r e))) = Some (err_string e)"
  by (simp add: NewTerminalError_def UnwrapTerminal_def)

lemma WrapTerminal_None [simp]: "WrapTerminal err b = None \<longleftrightarrow> err = None"
  by (simp add: WrapTerminal_def)

lemma WrapTerminal_terminal: "WrapTerminal err b = Some e \<Longrightarrow> b \<Longrightarrow> is_terminal e"
  by (auto simp: WrapTerminal_def split: if_splits)

lemma UnwrapTerminal_None [simp]: "UnwrapTerminal err = None \<longleftrightarrow> err = None"
  by (auto simp: UnwrapTerminal_def split: option.splits)

lemma UnwrapTerminal_not_terminal: "\<not> is_terminal e \<Longrightarrow> UnwrapTerminal (Some e) = Some e"
  by (simp add: UnwrapTerminal_def)

lemma as_terminal_reason_Unwrap:
  "errors_Unwrap e = Some u \<Longrightarrow> as_terminal_reason u = Some r \<Longrightarrow>
   \<exists>r'. as_terminal_reason e = Some r'"
  by (cases e rule: errors_Unwrap.cases) (auto split: option.splits)

lemma ExtractTerminalReason_wrap:
  "ExtractTerminalReason (Some (ErrWrap p e s)) = as_terminal_reason e"
  by (simp add: ExtractTerminalReason_def)

lemma ignore_not_found_Some: "ignore_not_found x = Some e \<longleftrightarrow> x = Some e \<and> \<not> IsNotFound e"
  by (auto simp: ignore_not_found_def split: option.splits)

lemma errors_Join_None [simp]: "errors_Join xs = None \<longleftrightarrow> (\<forall>x. x \<in> set xs \<longrightarrow> x = None)"
proof -
  have "List.map_filter id xs = [] \<longleftrightarrow> (\<forall>x. x \<in> set xs \<longrightarrow> x = None)"
    by (induction xs) (auto simp: List.map_filter_simps split: option.splits)
  then show ?thesis by (auto simp: errors_Join_def split: list.splits)
qed

subsection \<open>The sanitizer\<close>

lemma strip_prefix_append [simp]: "strip_prefix p (p @ s) = Some s"
  by (induction p) auto

lemma strip_prefix_Some: "strip_prefix p s = Some t \<longleftrightarrow> s = p @ t"
  by (induction p s rule: strip_prefix.induct) auto

lemma strip_prefix_length: "strip_prefix p s = Some t \<Longrightarrow> length t \<le> length s"
  by (auto simp: strip_prefix_Some)

lemma strip_octet_length: "strip_octet s = Some t \<Longrightarrow> length t \<le> length s"
  by (auto simp: strip_octet_def Let_def split: if_splits)

lemma strip_ipv4_length: "strip_ipv4 s = Some t \<Longrightarrow> length t \<le> length s"
  by (fastforce simp: strip_ipv4_def bind_eq_Some_conv dest!: strip_octet_length strip_prefix_length)

lemma strip_ipv6_length: "strip_ipv6 s = Some t \<Longrightarrow> length t \<le> length s"
  by (fastforce simp: strip_ipv6_def bind_eq_Some_conv Let_def dest!: strip_prefix_length
      split: if_splits)

lemma strip_port_length: "length (strip_port s) \<le> length s"
  by (auto simp: strip_port_def Let_def dest!: strip_prefix_length split: option.splits)

lemma strip_addr_length: "strip_addr s = Some t \<Longrightarrow> length t \<le> length s"
  using strip_port_length
  by (fastforce simp: strip_addr_def dest!: strip_ipv4_length strip_ipv6_length
      intro: order_trans split: option.splits)

lemma pattern_shrinks:
  assumes "ephemeralNetworkErrorPattern s = Some t"
  shows "length t < length s"
proof -
  obtain s1 where 1: "strip_either ''read '' ''write '' s = Some s1"
    and "Option.bind (strip_either ''tcp '' ''udp '' s1) (\<lambda>s.
     Option.bind (strip_addr s) (\<lambda>s.
     Option.bind (strip_prefix ''->'' s) (\<lambda>s.
     map_option (\<lambda>t. case strip_prefix '': '' t of Some u \<Rightarrow> u | None \<Rightarrow> t) (strip_addr s)))) = Some t"
    using assms by (auto simp: ephemeralNetworkErrorPattern_def bind_eq_Some_conv)
  then obtain s2 s3 s4 s5 where "strip_either ''tcp '' ''udp '' s1 = Some s2"
    and 3: "strip_addr s2 = Some s3" and 4: "strip_prefix ''->'' s3 = Some s4"
    and 5: "strip_addr s4 = Some s5"
    and t: "t = (case strip_prefix '': '' s5 of Some u \<Rightarrow> u | None \<Rightarrow> s5)"
    by (auto simp: bind_eq_Some_conv)
  then have "length s2 \<le> length s1"
    by (auto simp: strip_either_def dest: strip_prefix_length split: option.splits)
  moreover have "length s1 < length s"
    using 1 by (auto simp: strip_either_def strip_prefix_Some split: option.splits)
  moreover have "length t \<le> length s5"
    using t by (auto dest: strip_prefix_length split: option.splits)
  ultimately show ?thesis
    using strip_addr_length [OF 3] strip_addr_length [OF 5] strip_prefix_length [OF 4] by linarith
qed

lemma replace_all_Nil [simp]: "replace_all n [] = []"
  by (cases n) auto

text \<open>The fuel is enough: more of it does not change the result.\<close>

lemma replace_all_fuel:
  "length s \<le> n \<Longrightarrow> length s \<le> m \<Longrightarrow> replace_all n s = replace_all m s"
proof (induction n s arbitrary: m rule: replace_all.induct)
  case (2 n)
  then show ?case by (cases m) auto
next
  case (3 n c s)
  then obtain k where m: "m = Suc k" by (cases m) auto
  show ?case
  proof (cases "ephemeralNetworkErrorPattern (c # s)")
    case None
    have "replace_all n s = replace_all k s"
      by (rule "3.IH"(1) [OF None]) (use "3.prems" m in auto)
    with None m show ?thesis by simp
  next
    case (Some rest)
    then have "length rest \<le> length s" using pattern_shrinks by fastforce
    then have "replace_all n rest = replace_all k rest"
      by (intro "3.IH"(2) [OF Some]) (use "3.prems" m in auto)
    with Some m show ?thesis by simp
  qed
qed auto

lemma replace_all_match:
  assumes "ephemeralNetworkErrorPattern s = Some t"
  shows "replace_all (length s) s = replace_all (length t) t"
proof -
  obtain c s' where s: "s = c # s'"
    using pattern_shrinks [OF assms] by (cases s) auto
  then have "length t \<le> length s'"
    using pattern_shrinks [OF assms] by simp
  then have "replace_all (length s') t = replace_all (length t) t"
    by (intro replace_all_fuel) auto
  with assms s show ?thesis by simp
qed

lemma replace_all_prefix:
  "no_match_in pre s \<Longrightarrow>
   replace_all (length (pre @ s)) (pre @ s) = pre @ replace_all (length s) s"
  by (induction pre) auto

lemma length_show_nat: "n < 1000 \<Longrightarrow> length (show_nat n) \<le> 3"
  by (simp add: show_nat.simps [of n] show_nat.simps [of "n div 10"] show_nat.simps [of "n div 10 div 10"])

lemma takeWhile_show_nat:
  "\<not> is_digit c \<Longrightarrow> takeWhile is_digit (show_nat n @ c # s) = show_nat n"
  by (simp add: takeWhile_tail show_nat_digits)

lemma strip_octet_show:
  assumes "n < 256" and "\<not> is_digit c"
  shows "strip_octet (show_nat n @ c # s) = Some (c # s)"
proof -
  have "length (show_nat n) \<le> 3" using assms(1) by (simp add: length_show_nat)
  then obtain k where k: "take 3 (show_nat n @ c # s) = show_nat n @ take k (c # s)"
    by simp
  have "takeWhile is_digit (take 3 (show_nat n @ c # s)) = show_nat n"
    unfolding k using assms(2) by (cases k) (auto simp: takeWhile_show_nat show_nat_digits takeWhile_eq_all_conv)
  then show ?thesis by (simp add: strip_octet_def Let_def)
qed

lemma strip_addr_show_ipv4:
  assumes "octets_ok a" and "\<not> is_digit c"
  shows "strip_addr (show_ipv4 a port @ c # s) = Some (c # s)"
proof -
  obtain p q r t where a: "a = (p, q, r, t)" by (cases a)
  have nd: "\<not> is_digit CHR ''.''" "\<not> is_digit CHR '':''"
    by (simp_all add: is_digit_def)
  have "strip_ipv4 (show_ipv4 a port @ c # s) = Some (CHR '':'' # show_nat port @ c # s)"
    using assms(1) a nd by (simp add: strip_ipv4_def show_ipv4_def octets_ok_def strip_octet_show)
  moreover have "strip_port (CHR '':'' # show_nat port @ c # s) = c # s"
    using assms(2) by (simp add: strip_port_def takeWhile_show_nat)
  ultimately show ?thesis by (simp add: strip_addr_def)
qed

lemma pattern_socket_text:
  assumes "octets_ok a" and "octets_ok b"
  shows "ephemeralNetworkErrorPattern (socket_text rd tcp a p b q @ s) = Some s"
proof -
  have nd: "\<not> is_digit CHR ''-''" "\<not> is_digit CHR '':''"
    by (simp_all add: is_digit_def)
  have "strip_addr (show_ipv4 a p @ ''->'' @ t) = Some (''->'' @ t)" for t
    using strip_addr_show_ipv4 [OF assms(1) nd(1)] by simp
  moreover have "strip_addr (show_ipv4 b q @ '': '' @ s) = Some ('': '' @ s)"
    using strip_addr_show_ipv4 [OF assms(2) nd(2)] by simp
  ultimately show ?thesis
    by (simp add: ephemeralNetworkErrorPattern_def socket_text_def strip_either_def)
qed

section \<open>Properties\<close>

text \<open>
  Sanitized messages are stable across retries: two errors that differ only in the ephemeral
  addresses and ports of a socket operation give the same message, in which the operation is
  removed and the text before it is kept.
\<close>

theorem sanitize_ephemeral:
  assumes "octets_ok a" and "octets_ok b" and "no_match_in pre (socket_text rd tcp a p b q @ post)"
  shows "SanitizeNetworkError (Some (ErrText (pre @ socket_text rd tcp a p b q @ post))) =
     pre @ SanitizeNetworkError (Some (ErrText post))"
  using replace_all_prefix [OF assms(3)]
    replace_all_match [OF pattern_socket_text [OF assms(1,2)], of rd tcp p q post]
  by (simp add: SanitizeNetworkError_def)

theorem sanitize_ephemeral_witness:
  "SanitizeNetworkError (Some (ErrText (''lookup registry on 10.96.0.10:53: '' @
       socket_text True False (10, 244, 0, 8) 46753 (10, 96, 0, 10) 53 @ ''i/o timeout''))) =
     ''lookup registry on 10.96.0.10:53: '' @ SanitizeNetworkError (Some (ErrText ''i/o timeout''))"
proof (rule sanitize_ephemeral)
  show "octets_ok (10, 244, 0, 8)" "octets_ok (10, 96, 0, 10)" by (simp_all add: octets_ok_def)
  show "no_match_in ''lookup registry on 10.96.0.10:53: ''
      (socket_text True False (10, 244, 0, 8) 46753 (10, 96, 0, 10) 53 @ ''i/o timeout'')"
    by code_simp
qed

end
