(* ===== verification/Semver.thy ===== *)
theory Semver
  imports Go_Errors
begin

text \<open>
  Semantic versions (\<open>vendor/github.com/blang/semver/v4/semver.go\<close>) and the version-release pairs
  built on them (\<open>vendor/github.com/operator-framework/operator-registry/alpha/model/versionrelease.go\<close>):
  parsing, printing and precedence. Numbers keep their width, 64 bits.
\<close>

section \<open>Definitions\<close>

subsection \<open>Versions\<close>

record prversion =
  VersionStr :: string
  VersionNum :: "64 word"
  IsNum :: bool

record version =
  Major :: "64 word"
  Minor :: "64 word"
  Patch :: "64 word"
  Pre :: "prversion list"
  Build :: "string list"

definition PRVersion_String :: "prversion \<Rightarrow> string" where
  "PRVersion_String v = (if IsNum v then show_nat (unat (VersionNum v)) else VersionStr v)"

definition Version_String :: "version \<Rightarrow> string" where
  "Version_String v =
     show_nat (unat (Major v)) @ ''.'' @ show_nat (unat (Minor v)) @ ''.'' @ show_nat (unat (Patch v)) @
     (if Pre v \<noteq> [] then ''-'' @ go_join ''.'' (map PRVersion_String (Pre v)) else '''') @
     (if Build v \<noteq> [] then ''+'' @ go_join ''.'' (Build v) else '''')"

definition PRVersion_Compare :: "prversion \<Rightarrow> prversion \<Rightarrow> int" where
  "PRVersion_Compare v w =
     (if IsNum v \<and> \<not> IsNum w then -1
      else if \<not> IsNum v \<and> IsNum w then 1
      else if IsNum v \<and> IsNum w then
        (if VersionNum v = VersionNum w then 0 else if VersionNum v > VersionNum w then 1 else -1)
      else
        (if VersionStr v = VersionStr w then 0 else if VersionStr v > VersionStr w then 1 else -1))"

text \<open>The loop over the prerelease identifiers and the length test after it.\<close>

fun compare_prs :: "prversion list \<Rightarrow> prversion list \<Rightarrow> int" where
  "compare_prs [] [] = 0"
| "compare_prs [] (w # ws) = -1"
| "compare_prs (v # vs) [] = 1"
| "compare_prs (v # vs) (w # ws) =
     (let comp = PRVersion_Compare v w in
      if comp = 0 then compare_prs vs ws else if comp = 1 then 1 else -1)"

definition Version_Compare :: "version \<Rightarrow> version \<Rightarrow> int" where
  "Version_Compare v w =
     (if Major v \<noteq> Major w then (if Major v > Major w then 1 else -1)
      else if Minor v \<noteq> Minor w then (if Minor v > Minor w then 1 else -1)
      else if Patch v \<noteq> Patch w then (if Patch v > Patch w then 1 else -1)
      else if Pre v = [] \<and> Pre w = [] then 0
      else if Pre v = [] \<and> Pre w \<noteq> [] then 1
      else if Pre v \<noteq> [] \<and> Pre w = [] then -1
      else compare_prs (Pre v) (Pre w))"

definition Version_EQ :: "version \<Rightarrow> version \<Rightarrow> bool" where
  "Version_EQ v w \<longleftrightarrow> Version_Compare v w = 0"

definition Version_GTE :: "version \<Rightarrow> version \<Rightarrow> bool" where
  "Version_GTE v w \<longleftrightarrow> Version_Compare v w \<ge> 0"

definition Version_LT :: "version \<Rightarrow> version \<Rightarrow> bool" where
  "Version_LT v w \<longleftrightarrow> Version_Compare v w = -1"

subsection \<open>Parsing\<close>

definition is_alphanum :: "char \<Rightarrow> bool" where
  "is_alphanum c \<longleftrightarrow> is_digit c \<or> is_alpha c \<or> c = CHR ''-''"

definition hasLeadingZeroes :: "string \<Rightarrow> bool" where
  "hasLeadingZeroes s \<longleftrightarrow> length s > 1 \<and> hd s = CHR ''0''"

definition ParseUint :: "string \<Rightarrow> (64 word) result" where
  "ParseUint s =
     (if s = [] \<or> \<not> list_all is_digit s then
        Inl (ErrText (''strconv.ParseUint: parsing '' @ go_quote s @ '': invalid syntax''))
      else if digits_val s \<ge> 2 ^ 64 then
        Inl (ErrText (''strconv.ParseUint: parsing '' @ go_quote s @ '': value out of range''))
      else Inr (of_nat (digits_val s)))"

text \<open>One of the three number components: the character test, the leading-zero test, the conversion.\<close>

definition parse_number :: "string \<Rightarrow> string \<Rightarrow> string \<Rightarrow> (64 word) result" where
  "parse_number what What s =
     (if \<not> list_all is_digit s then
        Inl (ErrText (''Invalid character(s) found in '' @ what @ '' number '' @ go_quote s))
      else if hasLeadingZeroes s then
        Inl (ErrText (What @ '' number must not contain leading zeroes '' @ go_quote s))
      else ParseUint s)"

definition NewPRVersion :: "string \<Rightarrow> prversion result" where
  "NewPRVersion s =
     (if s = [] then Inl (ErrText ''Prerelease is empty'')
      else if list_all is_digit s then
        (if hasLeadingZeroes s then
           Inl (ErrText (''Numeric PreRelease version must not contain leading zeroes '' @ go_quote s))
         else
           (case ParseUint s of
              Inl e \<Rightarrow> Inl e
            | Inr num \<Rightarrow> Inr \<lparr>VersionStr = '''', VersionNum = num, IsNum = True\<rparr>))
      else if list_all is_alphanum s then
        Inr \<lparr>VersionStr = s, VersionNum = 0, IsNum = False\<rparr>
      else Inl (ErrText (''Invalid character(s) found in prerelease '' @ go_quote s)))"

fun parse_prs :: "string list \<Rightarrow> (prversion list) result" where
  "parse_prs [] = Inr []"
| "parse_prs (s # ss) =
     (case NewPRVersion s of
        Inl e \<Rightarrow> Inl e
      | Inr p \<Rightarrow> (case parse_prs ss of Inl e \<Rightarrow> Inl e | Inr ps \<Rightarrow> Inr (p # ps)))"

fun parse_builds :: "string list \<Rightarrow> (string list) result" where
  "parse_builds [] = Inr []"
| "parse_builds (s # ss) =
     (if s = [] then Inl (ErrText ''Build meta data is empty'')
      else if \<not> list_all is_alphanum s then
        Inl (ErrText (''Invalid character(s) found in build meta data '' @ go_quote s))
      else (case parse_builds ss of Inl e \<Rightarrow> Inl e | Inr bs \<Rightarrow> Inr (s # bs)))"

text \<open>The patch component with its prerelease and build parts.\<close>

definition split_list :: "string option \<Rightarrow> string list" where
  "split_list x = (case x of None \<Rightarrow> [] | Some s \<Rightarrow> split_on CHR ''.'' s)"

definition parse_patch ::
  "64 word \<Rightarrow> 64 word \<Rightarrow> string \<Rightarrow> version result" where
  "parse_patch major minor s =
     (let (s1, build) = cut_at CHR ''+'' s;
          (s2, prerelease) = cut_at CHR ''-'' s1 in
      case parse_number ''patch'' ''Patch'' s2 of
        Inl e \<Rightarrow> Inl e
      | Inr patch \<Rightarrow>
          (case parse_prs (split_list prerelease) of
             Inl e \<Rightarrow> Inl e
           | Inr pre \<Rightarrow>
               (case parse_builds (split_list build) of
                  Inl e \<Rightarrow> Inl e
                | Inr bs \<Rightarrow>
                    Inr \<lparr>Major = major, Minor = minor, Patch = patch, Pre = pre, Build = bs\<rparr>)))"

definition Parse :: "string \<Rightarrow> version result" where
  "Parse s =
     (if s = [] then Inl (ErrText ''Version string empty'')
      else
        (case cut_at CHR ''.'' s of
           (a, None) \<Rightarrow> Inl (ErrText ''No Major.Minor.Patch elements found'')
         | (a, Some t) \<Rightarrow>
             (case cut_at CHR ''.'' t of
                (b, None) \<Rightarrow> Inl (ErrText ''No Major.Minor.Patch elements found'')
              | (b, Some c) \<Rightarrow>
                  (case parse_number ''major'' ''Major'' a of
                     Inl e \<Rightarrow> Inl e
                   | Inr major \<Rightarrow>
                       (case parse_number ''minor'' ''Minor'' b of
                          Inl e \<Rightarrow> Inl e
                        | Inr minor \<Rightarrow> parse_patch major minor c)))))"

subsection \<open>Releases\<close>

text \<open>A nil \<open>Release\<close> is \<open>None\<close>; the sources tell it from an empty one.\<close>

type_synonym release = "prversion list option"

definition rel_list :: "release \<Rightarrow> prversion list" where
  "rel_list r = (case r of None \<Rightarrow> [] | Some ps \<Rightarrow> ps)"

definition versionReleaseMaxLength :: nat where
  "versionReleaseMaxLength = 20"

definition Release_String :: "release \<Rightarrow> string" where
  "Release_String r =
     (if rel_list r = [] then '''' else go_join ''.'' (map PRVersion_String (rel_list r)))"

definition Release_Compare :: "release \<Rightarrow> release \<Rightarrow> int" where
  "Release_Compare r s =
     (if rel_list r = [] \<and> rel_list s \<noteq> [] then -1
      else if rel_list s = [] \<and> rel_list r \<noteq> [] then 1
      else Version_Compare
        \<lparr>Major = 0, Minor = 0, Patch = 0, Pre = rel_list r, Build = []\<rparr>
        \<lparr>Major = 0, Minor = 0, Patch = 0, Pre = rel_list s, Build = []\<rparr>)"

text \<open>The loop of \<open>NewRelease\<close>: it goes on after a bad segment and collects every error.\<close>

fun release_segments :: "nat \<Rightarrow> string list \<Rightarrow> prversion list \<times> go_error list" where
  "release_segments i [] = ([], [])"
| "release_segments i (s # ss) =
     (let (r, errs) = release_segments (Suc i) ss in
      case NewPRVersion s of
        Inl e \<Rightarrow> (r, ErrText (''segment '' @ show_nat i @ '': '' @ err_string e) # errs)
      | Inr p \<Rightarrow> (p # r, errs))"

definition NewRelease :: "string \<Rightarrow> release result" where
  "NewRelease relStr =
     (if relStr = [] then Inr None
      else if length relStr > versionReleaseMaxLength then
        Inl (ErrText (''invalid release '' @ go_quote relStr @
          '': exceeds maximum length of '' @ show_nat versionReleaseMaxLength @ '' characters''))
      else
        (let (r, errs) = release_segments 0 (split_on CHR ''.'' relStr) in
         if errs \<noteq> [] then
           Inl (ErrText (''invalid release '' @ go_quote relStr @ '': '' @ err_string (ErrJoin errs)))
         else Inr (Some r)))"

record version_release =
  vr_Version :: version
  vr_Release :: release

definition VersionRelease_Compare :: "version_release \<Rightarrow> version_release \<Rightarrow> int" where
  "VersionRelease_Compare vr other =
     (let c = Version_Compare (vr_Version vr) (vr_Version other) in
      if c \<noteq> 0 then c else Release_Compare (vr_Release vr) (vr_Release other))"

subsection \<open>Well-formedness\<close>

text \<open>The values the parsers return.\<close>

definition wf_prversion :: "prversion \<Rightarrow> bool" where
  "wf_prversion p \<longleftrightarrow>
     (if IsNum p then VersionStr p = ''''
      else VersionNum p = 0 \<and> VersionStr p \<noteq> [] \<and> list_all is_alphanum (VersionStr p) \<and>
        \<not> list_all is_digit (VersionStr p))"

definition wf_version :: "version \<Rightarrow> bool" where
  "wf_version v \<longleftrightarrow> list_all wf_prversion (Pre v) \<and>
     list_all (\<lambda>b. b \<noteq> [] \<and> list_all is_alphanum b) (Build v)"

section \<open>Lemmas\<close>

subsection \<open>Precedence is a total preorder\<close>

lemma comparison_PRVersion: "comparison PRVersion_Compare"
  by unfold_locales (auto simp: PRVersion_Compare_def split: if_splits)

interpretation pr_cmp: comparison PRVersion_Compare
  by (rule comparison_PRVersion)

lemma PRVersion_Compare_vals: "PRVersion_Compare v w \<in> {-1, 0, 1}"
  by (simp add: PRVersion_Compare_def)

lemma compare_prs_Cons:
  "compare_prs (v # vs) (w # ws) = cmp_or (PRVersion_Compare v w) (compare_prs vs ws)"
  using PRVersion_Compare_vals [of v w] by (auto simp: cmp_or_def Let_def)

declare compare_prs.simps(4) [simp del]
declare compare_prs_Cons [simp]

lemma compare_prs_swap: "compare_prs vs ws \<le> 0 \<longleftrightarrow> 0 \<le> compare_prs ws vs"
proof (induction vs ws rule: compare_prs.induct)
  case (4 v vs w ws)
  then show ?case
    using pr_cmp.cmp_swap [of v w] pr_cmp.cmp_swap [of w v] by (auto simp: cmp_or_def)
qed auto

lemma compare_prs_trans:
  "compare_prs us vs \<le> 0 \<Longrightarrow> compare_prs vs ws \<le> 0 \<Longrightarrow> compare_prs us ws \<le> 0"
proof (induction us vs arbitrary: ws rule: compare_prs.induct)
  case (2 v vs)
  then show ?case by (cases ws) auto
next
  case (4 u us v vs)
  then obtain w ws' where ws: "ws = w # ws'" by (cases ws) auto
  note p = pr_cmp.cmp_trans [of u v w] pr_cmp.cmp_trans [of w u v] pr_cmp.cmp_trans [of v w u]
    pr_cmp.cmp_swap [of u v] pr_cmp.cmp_swap [of v u] pr_cmp.cmp_swap [of v w]
    pr_cmp.cmp_swap [of w v] pr_cmp.cmp_swap [of u w] pr_cmp.cmp_swap [of w u]
  show ?case
    using 4 ws p by (auto simp: cmp_or_def PRVersion_Compare_vals Let_def split: if_splits)
qed auto

lemma comparison_prs: "comparison compare_prs"
  using compare_prs_swap compare_prs_trans by (intro comparison.intro)

text \<open>
  The precedence of the semver specification: the three numbers, then a version with no
  prerelease above every prerelease of it, then the prerelease identifiers.
\<close>

lemma Version_Compare_lex:
  "Version_Compare v w =
     cmp_or (go_compare (Major v) (Major w)) (cmp_or (go_compare (Minor v) (Minor w))
     (cmp_or (go_compare (Patch v) (Patch w)) (cmp_or (go_compare (Pre v = []) (Pre w = []))
     (compare_prs (Pre v) (Pre w)))))"
  by (auto simp: Version_Compare_def cmp_or_def go_compare_def)

lemma comparison_Version: "comparison Version_Compare"
  unfolding Version_Compare_lex [abs_def]
  by (intro comparison_lex comparison_pullback [OF comparison_go_compare]
      comparison_pullback [OF comparison_prs])

interpretation ver_cmp: comparison Version_Compare
  by (rule comparison_Version)

lemma Release_Compare_lex:
  "Release_Compare r s =
     cmp_or (go_compare (rel_list r \<noteq> []) (rel_list s \<noteq> [])) (compare_prs (rel_list r) (rel_list s))"
  by (cases "rel_list r"; cases "rel_list s")
    (simp_all add: Release_Compare_def Version_Compare_def cmp_or_def go_compare_def)

lemma comparison_Release: "comparison Release_Compare"
  unfolding Release_Compare_lex [abs_def]
  by (intro comparison_lex comparison_pullback [OF comparison_go_compare]
      comparison_pullback [OF comparison_prs])

interpretation rel_cmp: comparison Release_Compare
  by (rule comparison_Release)

lemma VersionRelease_Compare_lex:
  "VersionRelease_Compare v w =
     cmp_or (Version_Compare (vr_Version v) (vr_Version w)) (Release_Compare (vr_Release v) (vr_Release w))"
  by (simp add: VersionRelease_Compare_def cmp_or_def Let_def)

lemma comparison_VersionRelease: "comparison VersionRelease_Compare"
  unfolding VersionRelease_Compare_lex [abs_def]
  by (intro comparison_lex comparison_pullback [OF comparison_Version]
      comparison_pullback [OF comparison_Release])

interpretation vr_cmp: comparison VersionRelease_Compare
  by (rule comparison_VersionRelease)

lemma compare_prs_vals: "compare_prs vs ws \<in> {-1, 0, 1}"
  using PRVersion_Compare_vals
  by (induction vs ws rule: compare_prs.induct) (auto simp: cmp_or_def)

lemma Version_Compare_vals: "Version_Compare v w \<in> {-1, 0, 1}"
  using compare_prs_vals [of "Pre v" "Pre w"] by (auto simp: Version_Compare_def)

text \<open>Equality of precedence is equality of everything but the build metadata.\<close>

lemma PRVersion_Compare_eq_0:
  "wf_prversion v \<Longrightarrow> wf_prversion w \<Longrightarrow> PRVersion_Compare v w = 0 \<longleftrightarrow> v = w"
  by (cases v; cases w) (auto simp: PRVersion_Compare_def wf_prversion_def split: if_splits)

lemma compare_prs_eq_0:
  "list_all wf_prversion vs \<Longrightarrow> list_all wf_prversion ws \<Longrightarrow> compare_prs vs ws = 0 \<longleftrightarrow> vs = ws"
  by (induction vs ws rule: compare_prs.induct) (auto simp: PRVersion_Compare_eq_0)

lemma Version_Compare_eq_0:
  assumes "wf_version v" and "wf_version w"
  shows "Version_Compare v w = 0 \<longleftrightarrow> v\<lparr>Build := []\<rparr> = w\<lparr>Build := []\<rparr>"
  using assms compare_prs_eq_0 [of "Pre v" "Pre w"]
  by (cases v; cases w) (auto simp: Version_Compare_lex wf_version_def)

subsection \<open>Numbers\<close>

lemma digits_val_Cons:
  "digits_val (c # s) = digit_val c * 10 ^ length s + digits_val s"
proof -
  have "foldl (\<lambda>acc c. acc * 10 + digit_val c) a s =
      a * 10 ^ length s + foldl (\<lambda>acc c. acc * 10 + digit_val c) 0 s" for a
  proof (induction s arbitrary: a)
    case (Cons d s)
    show ?case using Cons [of "a * 10 + digit_val d"] Cons [of "digit_val d"]
      by (simp add: algebra_simps)
  qed simp
  from this [of "digit_val c"] show ?thesis by (simp add: digits_val_def)
qed

lemma digit_char_val: "is_digit c \<Longrightarrow> digit_char (digit_val c) = c"
  by (simp add: is_digit_def digit_char_def digit_val_def)

lemma digit_val_less: "is_digit c \<Longrightarrow> digit_val c < 10"
  unfolding is_digit_def digit_val_def by linarith

lemma show_nat_step:
  "0 < q \<Longrightarrow> d < 10 \<Longrightarrow> show_nat (q * 10 + d) = show_nat q @ [digit_char d]"
  by (subst show_nat.simps) simp

lemma digits_val_pos:
  "s \<noteq> [] \<Longrightarrow> list_all is_digit s \<Longrightarrow> hd s \<noteq> CHR ''0'' \<Longrightarrow> 0 < digits_val s"
proof (cases s)
  case (Cons c t)
  assume "list_all is_digit s" and "hd s \<noteq> CHR ''0''"
  then have c: "is_digit c" "c \<noteq> CHR ''0''" using Cons by auto
  have "of_char (digit_char 0) = (of_char CHR ''0'' :: nat)" by (simp add: of_char_digit_char)
  then have "digit_char 0 = CHR ''0''" by (simp only: of_char_eq_iff)
  with c have "digit_val c \<noteq> 0"
    using digit_char_val [OF c(1)] by metis
  then show ?thesis using Cons by (simp add: digits_val_Cons)
qed simp

lemma show_nat_digits_val:
  "s \<noteq> [] \<Longrightarrow> list_all is_digit s \<Longrightarrow> \<not> hasLeadingZeroes s \<Longrightarrow> show_nat (digits_val s) = s"
proof (induction s rule: rev_induct)
  case (snoc c s)
  then have c: "is_digit c" and s: "list_all is_digit s" by auto
  show ?case
  proof (cases s)
    case Nil
    then show ?thesis
      using c digit_val_less [OF c] digit_char_val [OF c]
      by (simp add: digits_val_def show_nat.simps)
  next
    case (Cons d t)
    with snoc.prems have "hd s \<noteq> CHR ''0''" by (auto simp: hasLeadingZeroes_def)
    then have "0 < digits_val s" and "\<not> hasLeadingZeroes s"
      using digits_val_pos s Cons by (auto simp: hasLeadingZeroes_def)
    moreover have "show_nat (digits_val s) = s"
      using snoc.IH s Cons \<open>\<not> hasLeadingZeroes s\<close> by simp
    ultimately show ?thesis
      using digit_val_less [OF c] digit_char_val [OF c] by (simp add: digits_val_snoc show_nat_step)
  qed
qed simp

lemma show_nat_all_digits [simp]: "list_all is_digit (show_nat n)"
  by (simp add: list_all_iff show_nat_digits)

lemma show_nat_no_leading [simp]: "\<not> hasLeadingZeroes (show_nat n)"
  using show_nat_no_leading_zero by (auto simp: hasLeadingZeroes_def)

lemma unat64_less: "unat (w :: 64 word) < 2 ^ 64"
  using unsigned_less [of w] by simp

lemma ParseUint_show [simp]: "ParseUint (show_nat (unat w)) = Inr w"
  using unat64_less [of w] by (simp add: ParseUint_def digits_val_show_nat)

lemma parse_number_show [simp]: "parse_number a b (show_nat (unat w)) = Inr w"
  by (simp add: parse_number_def)

lemma ParseUint_Inr:
  assumes "ParseUint s = Inr w" and "\<not> hasLeadingZeroes s"
  shows "show_nat (unat w) = s"
  using assms show_nat_digits_val [of s]
  by (auto simp: ParseUint_def unsigned_of_nat take_bit_nat_eq_self not_le split: if_splits)

lemma parse_number_Inr: "parse_number a b s = Inr w \<Longrightarrow> show_nat (unat w) = s"
  using ParseUint_Inr [of s w] by (auto simp: parse_number_def split: if_splits)

subsection \<open>Parsing inverts printing\<close>

lemma digit_not_punct:
  "is_digit c \<Longrightarrow> c \<noteq> CHR ''.'' \<and> c \<noteq> CHR ''-'' \<and> c \<noteq> CHR ''+''"
  by (auto simp: is_digit_def)

lemma alphanum_not_punct: "is_alphanum c \<Longrightarrow> c \<noteq> CHR ''.'' \<and> c \<noteq> CHR ''+''"
  by (auto simp: is_alphanum_def is_digit_def is_alpha_def)

lemma show_nat_no_punct [simp]:
  "CHR ''.'' \<notin> set (show_nat n)" "CHR ''-'' \<notin> set (show_nat n)" "CHR ''+'' \<notin> set (show_nat n)"
  using show_nat_digits digit_not_punct by blast+

lemma digit_alphanum: "is_digit c \<Longrightarrow> is_alphanum c"
  by (simp add: is_alphanum_def)

lemma PRVersion_String_alphanum:
  "wf_prversion p \<Longrightarrow> list_all is_alphanum (PRVersion_String p)"
  using show_nat_all_digits [of "unat (VersionNum p)"]
  by (auto simp: wf_prversion_def PRVersion_String_def list_all_iff digit_alphanum split: if_splits)

lemma NewPRVersion_String: "wf_prversion p \<Longrightarrow> NewPRVersion (PRVersion_String p) = Inr p"
  by (cases p) (auto simp: wf_prversion_def PRVersion_String_def NewPRVersion_def split: if_splits)

lemma NewPRVersion_Inr:
  assumes "NewPRVersion s = Inr p"
  shows "wf_prversion p \<and> PRVersion_String p = s"
proof (cases "list_all is_digit s")
  case True
  with assms obtain w where w: "ParseUint s = Inr w" "\<not> hasLeadingZeroes s"
    and p: "p = \<lparr>VersionStr = '''', VersionNum = w, IsNum = True\<rparr>"
    by (auto simp: NewPRVersion_def split: if_splits sum.splits)
  then show ?thesis
    using ParseUint_Inr [OF w] by (simp add: wf_prversion_def PRVersion_String_def)
next
  case False
  with assms show ?thesis
    by (auto simp: NewPRVersion_def wf_prversion_def PRVersion_String_def split: if_splits)
qed

lemma parse_prs_String:
  "list_all wf_prversion ps \<Longrightarrow> parse_prs (map PRVersion_String ps) = Inr ps"
  by (induction ps) (auto simp: NewPRVersion_String)

lemma parse_prs_Inr:
  "parse_prs ss = Inr ps \<Longrightarrow> list_all wf_prversion ps \<and> map PRVersion_String ps = ss"
  by (induction ss arbitrary: ps) (auto split: sum.splits dest!: NewPRVersion_Inr)

lemma parse_builds_id:
  "list_all (\<lambda>b. b \<noteq> [] \<and> list_all is_alphanum b) bs \<Longrightarrow> parse_builds bs = Inr bs"
  by (induction bs) auto

lemma parse_builds_Inr:
  "parse_builds ss = Inr bs \<Longrightarrow>
   bs = ss \<and> list_all (\<lambda>b. b \<noteq> [] \<and> list_all is_alphanum b) bs"
  by (induction ss arbitrary: bs) (auto split: sum.splits if_splits)

lemma alphanum_no_dot:
  "list_all is_alphanum s \<Longrightarrow> CHR ''.'' \<notin> set s \<and> CHR ''+'' \<notin> set s"
  using alphanum_not_punct by (auto simp: list_all_iff)

lemma join_no_plus:
  assumes "\<And>x. x \<in> set xs \<Longrightarrow> CHR ''+'' \<notin> set x"
  shows "CHR ''+'' \<notin> set (go_join ''.'' xs)"
  using set_go_join [of "''.''" xs] assms by auto

lemma split_prs:
  assumes "list_all wf_prversion ps" and "ps \<noteq> []"
  shows "split_on CHR ''.'' (go_join ''.'' (map PRVersion_String ps)) = map PRVersion_String ps"
  using assms PRVersion_String_alphanum alphanum_no_dot
  by (intro split_on_join) (auto simp: list_all_iff)

lemma split_builds:
  assumes "list_all (\<lambda>b. b \<noteq> [] \<and> list_all is_alphanum b) bs" and "bs \<noteq> []"
  shows "split_on CHR ''.'' (go_join ''.'' bs) = bs"
  using assms alphanum_no_dot by (intro split_on_join) (auto simp: list_all_iff)

lemma cut_pre:
  "cut_at CHR ''-'' (show_nat n @ (if ps \<noteq> [] then ''-'' @ t else '''')) =
     (show_nat n, if ps \<noteq> [] then Some t else None)"
  using cut_at_some [of "CHR ''-''" "show_nat n" t] cut_at_none [of "CHR ''-''" "show_nat n"]
  by auto

lemma cut_build:
  "CHR ''+'' \<notin> set s \<Longrightarrow>
   cut_at CHR ''+'' (s @ (if bs \<noteq> [] then ''+'' @ t else '''')) =
     (s, if bs \<noteq> [] then Some t else None)"
  using cut_at_some [of "CHR ''+''" s t] cut_at_none [of "CHR ''+''" s] by auto

lemma parse_patch_String:
  assumes "wf_version v"
  shows "parse_patch (Major v) (Minor v)
      (show_nat (unat (Patch v)) @
       (if Pre v \<noteq> [] then ''-'' @ go_join ''.'' (map PRVersion_String (Pre v)) else '''') @
       (if Build v \<noteq> [] then ''+'' @ go_join ''.'' (Build v) else '''')) = Inr v"
proof -
  let ?pre = "show_nat (unat (Patch v)) @
     (if Pre v \<noteq> [] then ''-'' @ go_join ''.'' (map PRVersion_String (Pre v)) else '''')"
  have pre: "list_all wf_prversion (Pre v)"
    and build: "list_all (\<lambda>b. b \<noteq> [] \<and> list_all is_alphanum b) (Build v)"
    using assms by (auto simp: wf_version_def)
  have "CHR ''+'' \<notin> set (go_join ''.'' (map PRVersion_String (Pre v)))"
    using pre PRVersion_String_alphanum alphanum_no_dot
    by (intro join_no_plus) (auto simp: list_all_iff)
  then have "CHR ''+'' \<notin> set ?pre" by auto
  note cuts = cut_build [OF this, of "Build v" "go_join ''.'' (Build v)"]
    cut_pre [of "unat (Patch v)" "Pre v" "go_join ''.'' (map PRVersion_String (Pre v))"]
  have p: "parse_prs (split_list (if Pre v \<noteq> [] then Some (go_join ''.'' (map PRVersion_String (Pre v))) else None))
      = Inr (Pre v)"
    using pre by (simp add: split_list_def split_prs parse_prs_String)
  have b: "parse_builds (split_list (if Build v \<noteq> [] then Some (go_join ''.'' (Build v)) else None))
      = Inr (Build v)"
    using build by (simp add: split_list_def split_builds parse_builds_id)
  show ?thesis
    unfolding parse_patch_def append_assoc [symmetric] cuts Let_def prod.case p b by simp
qed

lemma Parse_String:
  assumes "wf_version v"
  shows "Parse (Version_String v) = Inr v"
proof -
  note cut = cut_at_some [of "CHR ''.''" "show_nat n" for n, OF show_nat_no_punct(1)]
  show ?thesis
    using parse_patch_String [OF assms] by (simp add: Parse_def Version_String_def cut)
qed

lemma cut_at_inv:
  "cut_at c s = (a, x) \<Longrightarrow> s = a @ (case x of None \<Rightarrow> [] | Some t \<Rightarrow> c # t)"
proof -
  assume cut: "cut_at c s = (a, x)"
  have hd: "hd (dropWhile (\<lambda>x. x \<noteq> c) s) = c" if "dropWhile (\<lambda>x. x \<noteq> c) s \<noteq> []"
    using hd_dropWhile [OF that] by simp
  show ?thesis
  proof (cases "dropWhile (\<lambda>x. x \<noteq> c) s")
    case Nil
    with cut show ?thesis by (simp add: cut_at_def)
  next
    case (Cons d t)
    then have a: "a = takeWhile (\<lambda>x. x \<noteq> c) s" and x: "x = Some t" and d: "d = c"
      using cut hd by (auto simp: cut_at_def)
    have "s = takeWhile (\<lambda>x. x \<noteq> c) s @ dropWhile (\<lambda>x. x \<noteq> c) s"
      by (rule takeWhile_dropWhile_id [symmetric])
    then show ?thesis unfolding Cons d a [symmetric] by (simp add: x)
  qed
qed

lemma split_list_Inr: "go_join ''.'' (split_list (Some s)) = s"
  by (simp add: split_list_def join_split_on)

lemma parse_patch_Inr:
  assumes "parse_patch major minor s = Inr v"
  shows "wf_version v \<and> Major v = major \<and> Minor v = minor \<and>
    s = show_nat (unat (Patch v)) @
       (if Pre v \<noteq> [] then ''-'' @ go_join ''.'' (map PRVersion_String (Pre v)) else '''') @
       (if Build v \<noteq> [] then ''+'' @ go_join ''.'' (Build v) else '''')"
proof -
  obtain s1 build where 1: "cut_at CHR ''+'' s = (s1, build)" by (cases "cut_at CHR ''+'' s")
  obtain s2 pre where 2: "cut_at CHR ''-'' s1 = (s2, pre)" by (cases "cut_at CHR ''-'' s1")
  from assms 1 2 obtain w ps bs where w: "parse_number ''patch'' ''Patch'' s2 = Inr w"
    and ps: "parse_prs (split_list pre) = Inr ps" and bs: "parse_builds (split_list build) = Inr bs"
    and v: "v = \<lparr>Major = major, Minor = minor, Patch = w, Pre = ps, Build = bs\<rparr>"
    by (auto simp: parse_patch_def split: sum.splits)
  note psD = parse_prs_Inr [OF ps] and bsD = parse_builds_Inr [OF bs]
  have len: "length ps = length (split_list pre)" using psD by (metis length_map)
  have "pre = None \<longleftrightarrow> ps = []" and "build = None \<longleftrightarrow> bs = []"
    using len bsD by (auto simp: split_list_def split: option.splits)
  moreover have "pre = Some t \<Longrightarrow> go_join ''.'' (map PRVersion_String ps) = t" for t
    using psD split_list_Inr by simp
  moreover have "build = Some t \<Longrightarrow> go_join ''.'' bs = t" for t
    using bsD split_list_Inr by simp
  ultimately show ?thesis
    using cut_at_inv [OF 1] cut_at_inv [OF 2] parse_number_Inr [OF w] psD bsD v
    by (auto simp: wf_version_def split: option.splits)
qed

lemma Parse_Inr:
  assumes "Parse s = Inr v"
  shows "wf_version v \<and> Version_String v = s"
proof -
  obtain a b c t major minor where 1: "cut_at CHR ''.'' s = (a, Some t)"
    and 2: "cut_at CHR ''.'' t = (b, Some c)"
    and 3: "parse_number ''major'' ''Major'' a = Inr major"
    and 4: "parse_number ''minor'' ''Minor'' b = Inr minor"
    and 5: "parse_patch major minor c = Inr v"
    using assms by (auto simp: Parse_def split: if_splits prod.splits option.splits sum.splits)
  show ?thesis
    using parse_patch_Inr [OF 5] cut_at_inv [OF 1] cut_at_inv [OF 2]
      parse_number_Inr [OF 3] parse_number_Inr [OF 4]
    by (simp add: Version_String_def)
qed

lemma Version_String_inject:
  "wf_version v \<Longrightarrow> wf_version w \<Longrightarrow> Version_String v = Version_String w \<longleftrightarrow> v = w"
  by (metis Parse_String sum.inject(2))

subsection \<open>Releases\<close>

lemma release_segments_ok:
  "release_segments i ss = (r, []) \<longleftrightarrow> parse_prs ss = Inr r"
proof (induction ss arbitrary: i r)
  case (Cons s ss)
  obtain q errs where q: "release_segments (Suc i) ss = (q, errs)"
    by (cases "release_segments (Suc i) ss")
  have IH: "parse_prs ss = Inr p \<longleftrightarrow> q = p \<and> errs = []" for p
    using Cons.IH [of "Suc i" p] unfolding q by blast
  show ?case
  proof (cases "NewPRVersion s")
    case (Inl e)
    with q show ?thesis by simp
  next
    case (Inr p)
    have "parse_prs (s # ss) = Inr r \<longleftrightarrow> (\<exists>ps. parse_prs ss = Inr ps \<and> r = p # ps)"
      using Inr by (auto split: sum.splits)
    with Inr q show ?thesis unfolding IH by auto
  qed
qed auto

lemma NewRelease_Inr:
  assumes "NewRelease s = Inr r"
  shows "list_all wf_prversion (rel_list r) \<and> Release_String r = s \<and> (r = None \<longleftrightarrow> s = []) \<and>
    (rel_list r = [] \<longleftrightarrow> s = []) \<and> length s \<le> versionReleaseMaxLength"
proof (cases "s = []")
  case True
  with assms show ?thesis by (simp add: NewRelease_def rel_list_def Release_String_def)
next
  case False
  with assms obtain ps where r: "r = Some ps" and len: "length s \<le> versionReleaseMaxLength"
    and "release_segments 0 (split_on CHR ''.'' s) = (ps, [])"
    by (auto simp: NewRelease_def split: if_splits prod.splits)
  then have "parse_prs (split_on CHR ''.'' s) = Inr ps" by (simp add: release_segments_ok)
  from parse_prs_Inr [OF this] have wf: "list_all wf_prversion ps"
    and ps: "map PRVersion_String ps = split_on CHR ''.'' s" by auto
  moreover have "go_join ''.'' (map PRVersion_String ps) = s"
    using ps by (simp add: join_split_on)
  moreover have "ps \<noteq> []" using ps by (metis list.map(1) split_on_not_Nil)
  ultimately show ?thesis
    using r False len by (simp add: rel_list_def Release_String_def)
qed

lemma NewRelease_String:
  assumes "list_all wf_prversion ps" and "ps \<noteq> []"
    and "length (go_join ''.'' (map PRVersion_String ps)) \<le> versionReleaseMaxLength"
  shows "NewRelease (Release_String (Some ps)) = Inr (Some ps)"
proof -
  let ?s = "go_join ''.'' (map PRVersion_String ps)"
  have split: "split_on CHR ''.'' ?s = map PRVersion_String ps"
    using assms(1,2) by (rule split_prs)
  then have "release_segments 0 (split_on CHR ''.'' ?s) = (ps, [])"
    using assms(1) by (simp add: release_segments_ok parse_prs_String)
  moreover have "?s \<noteq> []"
  proof
    assume "?s = []"
    then have "map PRVersion_String ps = [[]]" using split by simp
    then obtain p where p: "ps = [p]" and "PRVersion_String p = []" by auto
    then show False
      using assms(1) by (auto simp: PRVersion_String_def wf_prversion_def split: if_splits)
  qed
  ultimately show ?thesis
    using assms by (simp add: NewRelease_def Release_String_def rel_list_def)
qed

section \<open>Properties\<close>

text \<open>
  C16: Parsing and printing of versions are inverse to each other: \<open>Parse\<close> accepts exactly the
  printed form of well-formed versions and returns the version printed. In particular no version
  number overflows 64 bits unnoticed.
\<close>

theorem semver_parse_print: "Parse s = Inr v \<longleftrightarrow> wf_version v \<and> Version_String v = s"
  using Parse_Inr Parse_String by blast

text \<open>
  \<open>VersionRelease.Compare\<close> is a total preorder, as the sort of candidates requires: the sign
  of the result is antisymmetric, the order is transitive, and versions that parsers return
  compare equal exactly when they differ in build metadata at most.
\<close>

theorem version_release_order:
  "(VersionRelease_Compare u v \<le> 0 \<longleftrightarrow> 0 \<le> VersionRelease_Compare v u) \<and>
   (VersionRelease_Compare u v \<le> 0 \<longrightarrow> VersionRelease_Compare v w \<le> 0 \<longrightarrow>
      VersionRelease_Compare u w \<le> 0) \<and>
   (wf_version (vr_Version u) \<longrightarrow> wf_version (vr_Version v) \<longrightarrow>
      VersionRelease_Compare u v = 0 \<longrightarrow> (vr_Version u)\<lparr>Build := []\<rparr> = (vr_Version v)\<lparr>Build := []\<rparr>)"
  using vr_cmp.cmp_swap vr_cmp.cmp_trans Version_Compare_eq_0
  by (auto simp: VersionRelease_Compare_lex)

definition sample_vr :: "64 word \<Rightarrow> string list \<Rightarrow> version_release" where
  "sample_vr n b = \<lparr>vr_Version = \<lparr>Major = n, Minor = 0, Patch = 0, Pre = [], Build = b\<rparr>, vr_Release = None\<rparr>"

theorem version_release_order_witness:
  "VersionRelease_Compare (sample_vr 1 [''a'']) (sample_vr 3 []) \<le> 0 \<and>
   (vr_Version (sample_vr 1 [''a'']))\<lparr>Build := []\<rparr> = (vr_Version (sample_vr 1 []))\<lparr>Build := []\<rparr>"
proof -
  have "VersionRelease_Compare (sample_vr 1 [''a'']) (sample_vr 1 []) = 0"
    "VersionRelease_Compare (sample_vr 1 []) (sample_vr 3 []) \<le> 0"
    "wf_version (vr_Version (sample_vr 1 [''a'']))" "wf_version (vr_Version (sample_vr 1 []))"
    by code_simp+
  then show ?thesis
    using version_release_order [of "sample_vr 1 [''a'']" "sample_vr 1 []" "sample_vr 3 []"] by simp
qed

end
