(* ===== verification/Status_Conditions.thy ===== *)
theory Status_Conditions
  imports Go_Errors
begin

text \<open>
  Status conditions: the API machinery's operations on a list of \<open>metav1.Condition\<close>
  (\<open>vendor/k8s.io/apimachinery/pkg/api/meta/conditions.go\<close>) and the wrapper the controllers use,
  which bounds the message (\<open>controllers/common_controller.go\<close>).
\<close>

section \<open>Definitions\<close>

datatype condition_status = ConditionTrue | ConditionFalse | ConditionUnknown

text \<open>The zero \<open>metav1.Time\<close> is \<open>None\<close>; other instants are nanoseconds.\<close>

record condition =
  cond_type :: string
  cond_status :: condition_status
  cond_observedGeneration :: int
  cond_lastTransitionTime :: "int option"
  cond_reason :: string
  cond_message :: string

definition mk_condition ::
  "string \<Rightarrow> condition_status \<Rightarrow> string \<Rightarrow> string \<Rightarrow> int \<Rightarrow> condition" where
  "mk_condition t st r m gen =
     \<lparr>cond_type = t, cond_status = st, cond_observedGeneration = gen,
      cond_lastTransitionTime = None, cond_reason = r, cond_message = m\<rparr>"

definition FindStatusCondition :: "condition list \<Rightarrow> string \<Rightarrow> condition option" where
  "FindStatusCondition cs t = find (\<lambda>c. cond_type c = t) cs"

definition IsStatusConditionPresentAndEqual ::
  "condition list \<Rightarrow> string \<Rightarrow> condition_status \<Rightarrow> bool" where
  "IsStatusConditionPresentAndEqual cs t st =
     (case FindStatusCondition cs t of None \<Rightarrow> False | Some c \<Rightarrow> cond_status c = st)"

definition IsStatusConditionTrue :: "condition list \<Rightarrow> string \<Rightarrow> bool" where
  "IsStatusConditionTrue cs t = IsStatusConditionPresentAndEqual cs t ConditionTrue"

text \<open>How an existing condition is updated, and whether the update changed it.\<close>

definition update_condition :: "int \<Rightarrow> condition \<Rightarrow> condition \<Rightarrow> condition" where
  "update_condition now new old =
     \<lparr>cond_type = cond_type old,
      cond_status = cond_status new,
      cond_observedGeneration = cond_observedGeneration new,
      cond_lastTransitionTime =
        (if cond_status old \<noteq> cond_status new then
           (case cond_lastTransitionTime new of Some t \<Rightarrow> Some t | None \<Rightarrow> Some now)
         else cond_lastTransitionTime old),
      cond_reason = cond_reason new,
      cond_message = cond_message new\<rparr>"

definition condition_differs :: "condition \<Rightarrow> condition \<Rightarrow> bool" where
  "condition_differs new old \<longleftrightarrow>
     cond_status old \<noteq> cond_status new \<or> cond_reason old \<noteq> cond_reason new \<or>
     cond_message old \<noteq> cond_message new \<or>
     cond_observedGeneration old \<noteq> cond_observedGeneration new"

text \<open>
  \<open>apimeta.SetStatusCondition\<close>: the pointer \<open>FindStatusCondition\<close> returns is to the first entry
  of the type, which is updated in place; otherwise the condition is appended. The second
  component is the \<open>changed\<close> result.
\<close>

fun apimeta_SetStatusCondition ::
  "int \<Rightarrow> condition list \<Rightarrow> condition \<Rightarrow> condition list \<times> bool" where
  "apimeta_SetStatusCondition now [] new =
     ([new\<lparr>cond_lastTransitionTime :=
         (case cond_lastTransitionTime new of Some t \<Rightarrow> Some t | None \<Rightarrow> Some now)\<rparr>], True)"
| "apimeta_SetStatusCondition now (c # cs) new =
     (if cond_type c = cond_type new then
        (update_condition now new c # cs, condition_differs new c)
      else (let (cs', changed) = apimeta_SetStatusCondition now cs new in (c # cs', changed)))"

definition RemoveStatusCondition :: "condition list \<Rightarrow> string \<Rightarrow> condition list \<times> bool" where
  "RemoveStatusCondition cs t =
     (let cs' = filter (\<lambda>c. cond_type c \<noteq> t) cs in (cs', length cs \<noteq> length cs'))"

definition maxConditionMessageLength :: nat where
  "maxConditionMessageLength = 32768"

definition truncationSuffix :: string where
  "truncationSuffix = [CHR 0x0A, CHR 0x0A] @ ''... [message truncated]''"

definition truncateMessage :: "string \<Rightarrow> string" where
  "truncateMessage message =
     (if length message \<le> maxConditionMessageLength then message
      else (let maxContent = maxConditionMessageLength - length truncationSuffix in
            take maxContent message @ truncationSuffix))"

definition SetStatusCondition :: "int \<Rightarrow> condition list \<Rightarrow> condition \<Rightarrow> condition list" where
  "SetStatusCondition now cs c =
     fst (apimeta_SetStatusCondition now cs (c\<lparr>cond_message := truncateMessage (cond_message c)\<rparr>))"

section \<open>Lemmas\<close>

lemma mk_condition_simps [simp]:
  "cond_type (mk_condition t st r m g) = t"
  "cond_status (mk_condition t st r m g) = st"
  "cond_reason (mk_condition t st r m g) = r"
  "cond_message (mk_condition t st r m g) = m"
  "cond_observedGeneration (mk_condition t st r m g) = g"
  "cond_lastTransitionTime (mk_condition t st r m g) = None"
  by (simp_all add: mk_condition_def)

lemma truncateMessage_length: "length (truncateMessage m) \<le> maxConditionMessageLength"
  by (simp add: truncateMessage_def truncationSuffix_def maxConditionMessageLength_def)

lemma truncateMessage_short: "length m \<le> maxConditionMessageLength \<Longrightarrow> truncateMessage m = m"
  by (simp add: truncateMessage_def)

lemma truncateMessage_idem: "truncateMessage (truncateMessage m) = truncateMessage m"
  using truncateMessage_length truncateMessage_short by blast

lemma Find_Nil [simp]: "FindStatusCondition [] t = None"
  by (simp add: FindStatusCondition_def)

lemma Find_Cons [simp]:
  "FindStatusCondition (c # cs) t = (if cond_type c = t then Some c else FindStatusCondition cs t)"
  by (simp add: FindStatusCondition_def)

lemma Find_append:
  "FindStatusCondition (xs @ ys) t =
     (case FindStatusCondition xs t of Some c \<Rightarrow> Some c | None \<Rightarrow> FindStatusCondition ys t)"
  by (induction xs) auto

lemma Find_type: "FindStatusCondition cs t = Some c \<Longrightarrow> cond_type c = t"
  by (induction cs) (auto split: if_splits)

lemma Find_in_set: "FindStatusCondition cs t = Some c \<Longrightarrow> c \<in> set cs"
  by (induction cs) (auto split: if_splits)

lemma Find_None: "FindStatusCondition cs t = None \<longleftrightarrow> t \<notin> cond_type ` set cs"
  by (induction cs) auto

lemma update_condition_type [simp]: "cond_type (update_condition now new old) = cond_type old"
  by (simp add: update_condition_def)

lemma apimeta_Find_other:
  "t \<noteq> cond_type new \<Longrightarrow>
   FindStatusCondition (fst (apimeta_SetStatusCondition now cs new)) t = FindStatusCondition cs t"
  by (induction cs) (auto split: prod.splits)

lemma apimeta_Find_same:
  "FindStatusCondition (fst (apimeta_SetStatusCondition now cs new)) (cond_type new) =
     Some (case FindStatusCondition cs (cond_type new) of
             Some old \<Rightarrow> update_condition now new old
           | None \<Rightarrow> new\<lparr>cond_lastTransitionTime :=
                (case cond_lastTransitionTime new of Some t \<Rightarrow> Some t | None \<Rightarrow> Some now)\<rparr>)"
  by (induction cs) (auto split: prod.splits)

lemma apimeta_types:
  "map cond_type (fst (apimeta_SetStatusCondition now cs new)) =
     map cond_type cs @ (if FindStatusCondition cs (cond_type new) = None then [cond_type new] else [])"
  by (induction cs) (auto split: prod.splits)

lemma Set_Find_other [simp]:
  "t \<noteq> cond_type c \<Longrightarrow>
   FindStatusCondition (SetStatusCondition now cs c) t = FindStatusCondition cs t"
  by (simp add: SetStatusCondition_def apimeta_Find_other)

lemma Set_Find:
  "FindStatusCondition (SetStatusCondition now cs c) (cond_type c) =
     Some (case FindStatusCondition cs (cond_type c) of
             Some old \<Rightarrow>
               update_condition now (c\<lparr>cond_message := truncateMessage (cond_message c)\<rparr>) old
           | None \<Rightarrow> c\<lparr>cond_message := truncateMessage (cond_message c), cond_lastTransitionTime :=
                (case cond_lastTransitionTime c of Some t \<Rightarrow> Some t | None \<Rightarrow> Some now)\<rparr>)"
  using apimeta_Find_same [of now cs "c\<lparr>cond_message := truncateMessage (cond_message c)\<rparr>"]
  by (simp add: SetStatusCondition_def split: option.split)

lemma Set_Find_same:
  "\<exists>d. FindStatusCondition (SetStatusCondition now cs c) (cond_type c) = Some d \<and>
     cond_type d = cond_type c \<and> cond_status d = cond_status c \<and> cond_reason d = cond_reason c \<and>
     cond_message d = truncateMessage (cond_message c) \<and>
     cond_observedGeneration d = cond_observedGeneration c"
proof (cases "FindStatusCondition cs (cond_type c)")
  case None
  then show ?thesis by (simp add: Set_Find)
next
  case (Some old)
  then show ?thesis using Find_type [OF Some] by (simp add: Set_Find update_condition_def)
qed

lemma Set_distinct_types:
  assumes "distinct (map cond_type cs)"
  shows "distinct (map cond_type (SetStatusCondition now cs c))"
  using assms by (simp add: SetStatusCondition_def apimeta_types Find_None)

lemma Set_types:
  "cond_type ` set (SetStatusCondition now cs c) = insert (cond_type c) (cond_type ` set cs)"
proof -
  have "cond_type ` set (SetStatusCondition now cs c) =
      set (map cond_type (SetStatusCondition now cs c))" by simp
  also have "\<dots> = insert (cond_type c) (cond_type ` set cs)"
    unfolding SetStatusCondition_def apimeta_types Find_None by auto
  finally show ?thesis .
qed

lemma Set_transition_kept:
  assumes "FindStatusCondition cs (cond_type c) = Some old" and "cond_status old = cond_status c"
  shows "\<exists>d. FindStatusCondition (SetStatusCondition now cs c) (cond_type c) = Some d \<and>
     cond_lastTransitionTime d = cond_lastTransitionTime old"
  using assms by (simp add: Set_Find update_condition_def)

text \<open>The values a reader of the status sees: status, reason and message of a type.\<close>

definition cond_view :: "condition list \<Rightarrow> string \<Rightarrow> (condition_status \<times> string \<times> string) option" where
  "cond_view cs t =
     map_option (\<lambda>c. (cond_status c, cond_reason c, cond_message c)) (FindStatusCondition cs t)"

lemma cond_view_Set [simp]:
  "cond_view (SetStatusCondition now cs c) t =
     (if t = cond_type c then Some (cond_status c, cond_reason c, truncateMessage (cond_message c))
      else cond_view cs t)"
  using Set_Find_same [of now cs c] by (auto simp: cond_view_def)

lemma IsTrue_view:
  "IsStatusConditionTrue cs t \<longleftrightarrow> (\<exists>r m. cond_view cs t = Some (ConditionTrue, r, m))"
  by (auto simp: IsStatusConditionTrue_def IsStatusConditionPresentAndEqual_def cond_view_def
      split: option.splits)

lemma apimeta_view:
  "cond_view (fst (apimeta_SetStatusCondition now cs c)) t =
     (if t = cond_type c then Some (cond_status c, cond_reason c, cond_message c) else cond_view cs t)"
proof (cases "t = cond_type c")
  case True
  then show ?thesis
    by (cases "FindStatusCondition cs (cond_type c)")
      (simp_all add: cond_view_def apimeta_Find_same update_condition_def)
next
  case False
  then show ?thesis by (simp add: cond_view_def apimeta_Find_other)
qed

lemma Remove_Find [simp]:
  "FindStatusCondition (fst (RemoveStatusCondition cs t)) t' =
     (if t' = t then None else FindStatusCondition cs t')"
  by (induction cs) (auto simp: RemoveStatusCondition_def Let_def)

text \<open>Setting the same condition twice changes nothing.\<close>

lemma apimeta_Set_idem:
  assumes "apimeta_SetStatusCondition now cs new = (cs', b)"
  shows "apimeta_SetStatusCondition later cs' new = (cs', False)"
  using assms
proof (induction cs arbitrary: cs' b)
  case Nil
  then show ?case by (auto simp: update_condition_def condition_differs_def)
next
  case (Cons c cs)
  then show ?case
    by (auto simp: update_condition_def condition_differs_def split: if_splits prod.splits)
qed

lemma apimeta_unchanged:
  "apimeta_SetStatusCondition now cs new = (cs', False) \<Longrightarrow> cs' = cs"
proof (induction cs arbitrary: cs')
  case (Cons c cs)
  then show ?case
    by (auto simp: update_condition_def condition_differs_def split: if_splits prod.splits)
qed simp

section \<open>Properties\<close>

text \<open>
  Setting a condition: afterwards the condition of that type has the new status, reason and
  generation, and a message of at most 32768 bytes, which is the new one if that is short enough;
  its transition time is kept when the status is the same and set to now when it changes;
  conditions of other types are untouched, and no type appears twice if none did before.
\<close>

theorem set_condition_correct:
  assumes "distinct (map cond_type cs)" and "cond_lastTransitionTime c = None"
  shows "\<exists>d. FindStatusCondition (SetStatusCondition now cs c) (cond_type c) = Some d \<and>
     cond_status d = cond_status c \<and> cond_reason d = cond_reason c \<and>
     cond_observedGeneration d = cond_observedGeneration c \<and>
     length (cond_message d) \<le> 32768 \<and>
     (length (cond_message c) \<le> 32768 \<longrightarrow> cond_message d = cond_message c) \<and>
     cond_lastTransitionTime d =
       (case FindStatusCondition cs (cond_type c) of
          None \<Rightarrow> Some now
        | Some old \<Rightarrow> if cond_status old = cond_status c then cond_lastTransitionTime old else Some now) \<and>
     (\<forall>t. t \<noteq> cond_type c \<longrightarrow>
        FindStatusCondition (SetStatusCondition now cs c) t = FindStatusCondition cs t) \<and>
     distinct (map cond_type (SetStatusCondition now cs c))"
  using truncateMessage_length [of "cond_message c"] truncateMessage_short [of "cond_message c"]
    Set_distinct_types [OF assms(1)] assms(2)
  by (auto simp: Set_Find update_condition_def maxConditionMessageLength_def split: option.split)

definition sample_condition :: "condition_status \<Rightarrow> condition" where
  "sample_condition st = mk_condition ''Ready'' st ''Reason'' ''message'' 3"

theorem set_condition_correct_witness:
  "\<exists>d. FindStatusCondition
       (SetStatusCondition 7 [(sample_condition ConditionTrue)\<lparr>cond_lastTransitionTime := Some 5\<rparr>]
         (sample_condition ConditionFalse)) (cond_type (sample_condition ConditionFalse)) = Some d \<and>
     cond_status d = ConditionFalse \<and> cond_lastTransitionTime d = Some 7"
  using set_condition_correct [of "[(sample_condition ConditionTrue)\<lparr>cond_lastTransitionTime := Some 5\<rparr>]"
      "sample_condition ConditionFalse" 7]
  by (auto simp: sample_condition_def)

end
