(* ===== verification/Api_Types.thy ===== *)
theory Api_Types
  imports Status_Conditions
begin

text \<open>
  The API types of the repository (\<open>api/v1\<close>) with the fields the controllers read and write, the
  label and annotation keys (\<open>internal/operator-controller/labels\<close>), and unstructured objects
  (decoded JSON). String-typed enumerations stay strings, because the code compares them as
  strings and the empty string (the field is unset) is one of their values. A pointer is an
  option. An \<open>int32\<close> or \<open>int64\<close> field is an \<^typ>\<open>int\<close>: the components that compute with one state
  its width.
\<close>

section \<open>Constants\<close>

subsection \<open>Condition types and reasons\<close>

abbreviation TypeInstalled :: string where "TypeInstalled \<equiv> ''Installed''"
abbreviation TypeProgressing :: string where "TypeProgressing \<equiv> ''Progressing''"
abbreviation ReasonAbsent :: string where "ReasonAbsent \<equiv> ''Absent''"
abbreviation ReasonRollingOut :: string where "ReasonRollingOut \<equiv> ''RollingOut''"
abbreviation ReasonRetrying :: string where "ReasonRetrying \<equiv> ''Retrying''"
abbreviation ReasonBlocked :: string where "ReasonBlocked \<equiv> ''Blocked''"
abbreviation ReasonInvalidConfiguration :: string
  where "ReasonInvalidConfiguration \<equiv> ''InvalidConfiguration''"
abbreviation ReasonDeprecated :: string where "ReasonDeprecated \<equiv> ''Deprecated''"
abbreviation ReasonNotDeprecated :: string where "ReasonNotDeprecated \<equiv> ''NotDeprecated''"
abbreviation ReasonDeprecationStatusUnknown :: string
  where "ReasonDeprecationStatusUnknown \<equiv> ''DeprecationStatusUnknown''"
abbreviation ReasonSucceeded :: string where "ReasonSucceeded \<equiv> ''Succeeded''"
abbreviation ReasonFailed :: string where "ReasonFailed \<equiv> ''Failed''"
abbreviation ReasonProgressDeadlineExceeded :: string
  where "ReasonProgressDeadlineExceeded \<equiv> ''ProgressDeadlineExceeded''"

abbreviation TypeDeprecated :: string where "TypeDeprecated \<equiv> ''Deprecated''"
abbreviation TypePackageDeprecated :: string where "TypePackageDeprecated \<equiv> ''PackageDeprecated''"
abbreviation TypeChannelDeprecated :: string where "TypeChannelDeprecated \<equiv> ''ChannelDeprecated''"
abbreviation TypeBundleDeprecated :: string where "TypeBundleDeprecated \<equiv> ''BundleDeprecated''"

abbreviation ClusterObjectSetTypeAvailable :: string
  where "ClusterObjectSetTypeAvailable \<equiv> ''Available''"
abbreviation ClusterObjectSetTypeProgressing :: string
  where "ClusterObjectSetTypeProgressing \<equiv> ''Progressing''"
abbreviation ClusterObjectSetTypeSucceeded :: string
  where "ClusterObjectSetTypeSucceeded \<equiv> ''Succeeded''"
abbreviation ClusterObjectSetReasonArchived :: string
  where "ClusterObjectSetReasonArchived \<equiv> ''Archived''"
abbreviation ClusterObjectSetReasonBlocked :: string
  where "ClusterObjectSetReasonBlocked \<equiv> ''Blocked''"
abbreviation ClusterObjectSetReasonProbeFailure :: string
  where "ClusterObjectSetReasonProbeFailure \<equiv> ''ProbeFailure''"
abbreviation ClusterObjectSetReasonProbesSucceeded :: string
  where "ClusterObjectSetReasonProbesSucceeded \<equiv> ''ProbesSucceeded''"
abbreviation ClusterObjectSetReasonReconciling :: string
  where "ClusterObjectSetReasonReconciling \<equiv> ''Reconciling''"
abbreviation ClusterObjectSetReasonRetrying :: string
  where "ClusterObjectSetReasonRetrying \<equiv> ''Retrying''"

abbreviation ClusterExtensionKind :: string where "ClusterExtensionKind \<equiv> ''ClusterExtension''"
abbreviation ClusterObjectSetKind :: string where "ClusterObjectSetKind \<equiv> ''ClusterObjectSet''"

definition ConditionTypes :: "string list" where
  "ConditionTypes =
     [TypeInstalled, TypeDeprecated, TypePackageDeprecated, TypeChannelDeprecated,
      TypeBundleDeprecated, TypeProgressing]"

subsection \<open>String enumerations\<close>

abbreviation UpgradeConstraintPolicyCatalogProvided :: string
  where "UpgradeConstraintPolicyCatalogProvided \<equiv> ''CatalogProvided''"
abbreviation UpgradeConstraintPolicySelfCertified :: string
  where "UpgradeConstraintPolicySelfCertified \<equiv> ''SelfCertified''"
abbreviation AvailabilityModeAvailable :: string where "AvailabilityModeAvailable \<equiv> ''Available''"
abbreviation AvailabilityModeUnavailable :: string
  where "AvailabilityModeUnavailable \<equiv> ''Unavailable''"
abbreviation ClusterObjectSetLifecycleStateActive :: string
  where "ClusterObjectSetLifecycleStateActive \<equiv> ''Active''"
abbreviation ClusterObjectSetLifecycleStateArchived :: string
  where "ClusterObjectSetLifecycleStateArchived \<equiv> ''Archived''"
abbreviation CollisionProtectionPrevent :: string where "CollisionProtectionPrevent \<equiv> ''Prevent''"
abbreviation CollisionProtectionIfNoController :: string
  where "CollisionProtectionIfNoController \<equiv> ''IfNoController''"
abbreviation CollisionProtectionNone :: string where "CollisionProtectionNone \<equiv> ''None''"
abbreviation SelectorTypeGroupKind :: string where "SelectorTypeGroupKind \<equiv> ''GroupKind''"
abbreviation SelectorTypeLabel :: string where "SelectorTypeLabel \<equiv> ''Label''"
abbreviation ProbeTypeConditionEqual :: string where "ProbeTypeConditionEqual \<equiv> ''ConditionEqual''"
abbreviation ProbeTypeFieldsEqual :: string where "ProbeTypeFieldsEqual \<equiv> ''FieldsEqual''"
abbreviation ProbeTypeFieldValue :: string where "ProbeTypeFieldValue \<equiv> ''FieldValue''"

subsection \<open>Labels and annotations\<close>

definition SecretTypeObjectData :: string where
  "SecretTypeObjectData = ''olm.operatorframework.io/object-data''"
definition OwnerKindKey :: string where
  "OwnerKindKey = ''olm.operatorframework.io/owner-kind''"
definition OwnerNameKey :: string where
  "OwnerNameKey = ''olm.operatorframework.io/owner-name''"
definition PackageNameKey :: string where
  "PackageNameKey = ''olm.operatorframework.io/package-name''"
definition BundleNameKey :: string where
  "BundleNameKey = ''olm.operatorframework.io/bundle-name''"
definition BundleVersionKey :: string where
  "BundleVersionKey = ''olm.operatorframework.io/bundle-version''"
definition BundleReleaseKey :: string where
  "BundleReleaseKey = ''olm.operatorframework.io/bundle-release''"
definition BundleReferenceKey :: string where
  "BundleReferenceKey = ''olm.operatorframework.io/bundle-reference''"
definition ServiceAccountNameKey :: string where
  "ServiceAccountNameKey = ''olm.operatorframework.io/service-account-name''"
definition ServiceAccountNamespaceKey :: string where
  "ServiceAccountNamespaceKey = ''olm.operatorframework.io/service-account-namespace''"
definition RevisionNameKey :: string where
  "RevisionNameKey = ''olm.operatorframework.io/revision-name''"
definition MigratedFromHelmKey :: string where
  "MigratedFromHelmKey = ''olm.operatorframework.io/migrated-from-helm''"
definition MetadataNameLabel :: string where
  "MetadataNameLabel = ''olm.operatorframework.io/metadata.name''"

lemmas label_keys = OwnerKindKey_def OwnerNameKey_def PackageNameKey_def BundleNameKey_def
  BundleVersionKey_def BundleReleaseKey_def BundleReferenceKey_def ServiceAccountNameKey_def
  ServiceAccountNamespaceKey_def RevisionNameKey_def MigratedFromHelmKey_def

section \<open>Objects\<close>

subsection \<open>JSON and unstructured objects\<close>

text \<open>
  Decoded JSON. The fields of an object are an association list: a Go map has no order, and the
  definitions that print one sort its keys.
\<close>

datatype json =
    JNull
  | JBool bool
  | JNum int
  | JStr string
  | JArr "json list"
  | JObj "(string \<times> json) list"

fun json_field :: "json \<Rightarrow> string \<Rightarrow> json option" where
  "json_field (JObj fs) k = map_of fs k"
| "json_field _ k = None"

fun json_path :: "json \<Rightarrow> string list \<Rightarrow> json option" where
  "json_path j [] = Some j"
| "json_path j (k # ks) = (case json_field j k of None \<Rightarrow> None | Some j' \<Rightarrow> json_path j' ks)"

fun json_str :: "json option \<Rightarrow> string" where
  "json_str (Some (JStr s)) = s"
| "json_str _ = ''''"

definition json_string_at :: "json \<Rightarrow> string list \<Rightarrow> string" where
  "json_string_at j path = json_str (json_path j path)"

subsection \<open>Object metadata\<close>

record owner_reference =
  or_APIVersion :: string
  or_Kind :: string
  or_Name :: string
  or_UID :: string
  or_Controller :: "bool option"
  or_BlockOwnerDeletion :: "bool option"

record namespaced_name =
  nn_Namespace :: string
  nn_Name :: string

record object_meta =
  meta_Name :: string
  meta_Namespace :: string
  meta_UID :: string
  meta_Generation :: int
  meta_Labels :: string_map
  meta_Annotations :: string_map
  meta_OwnerReferences :: "owner_reference list"
  meta_Finalizers :: "string list"
  meta_CreationTimestamp :: int
  meta_DeletionTimestamp :: "int option"

record label_selector_requirement =
  req_Key :: string
  req_Operator :: string
  req_Values :: "string list"

record label_selector =
  sel_MatchLabels :: "(string \<times> string) list"
  sel_MatchExpressions :: "label_selector_requirement list"

record group_kind =
  gk_Group :: string
  gk_Kind :: string

subsection \<open>ClusterExtension\<close>

record bundle_metadata =
  bm_Name :: string
  bm_Version :: string
  bm_Release :: "string option"

record catalog_filter =
  cf_PackageName :: string
  cf_Version :: string
  cf_Channels :: "string list"
  cf_Selector :: "label_selector option"
  cf_UpgradeConstraintPolicy :: string

record source_config =
  src_SourceType :: string
  src_Catalog :: "catalog_filter option"

record crd_upgrade_safety_preflight_config =
  crdpf_Enforcement :: string

record preflight_config =
  pf_CRDUpgradeSafety :: "crd_upgrade_safety_preflight_config option"

record cluster_extension_install_config =
  ic_Preflight :: "preflight_config option"

record cluster_extension_config =
  cfg_ConfigType :: string
  cfg_Inline :: "string option"

record cluster_extension_spec =
  exts_Namespace :: string
  exts_ServiceAccount :: string
  exts_Source :: source_config
  exts_Install :: "cluster_extension_install_config option"
  exts_Config :: "cluster_extension_config option"
  exts_ProgressDeadlineMinutes :: int

record revision_status =
  rvs_Name :: string
  rvs_Conditions :: "condition list"

record cluster_extension_status =
  extst_Conditions :: "condition list"
  extst_Install :: "bundle_metadata option"
  extst_ActiveRevisions :: "revision_status list"

record cluster_extension =
  ext_Meta :: object_meta
  ext_Spec :: cluster_extension_spec
  ext_Status :: cluster_extension_status

subsection \<open>ClusterCatalog\<close>

record image_source =
  img_Ref :: string
  img_PollIntervalMinutes :: "int option"

record catalog_source =
  cs_Type :: string
  cs_Image :: "image_source option"

record resolved_image_source =
  rimg_Ref :: string

record resolved_catalog_source =
  rcs_Type :: string
  rcs_Image :: "resolved_image_source option"

record cluster_catalog_spec =
  ccs_Source :: catalog_source
  ccs_Priority :: int
  ccs_AvailabilityMode :: string

record cluster_catalog_status =
  ccst_Conditions :: "condition list"
  ccst_ResolvedSource :: "resolved_catalog_source option"
  ccst_URLs :: "string option"
  ccst_LastUnpacked :: "int option"

record cluster_catalog =
  cc_Meta :: object_meta
  cc_Spec :: cluster_catalog_spec
  cc_Status :: cluster_catalog_status

subsection \<open>ClusterObjectSet\<close>

record object_source_ref =
  ref_Name :: string
  ref_Namespace :: string
  ref_Key :: string

text \<open>\<open>Object.Object == nil\<close> is \<open>None\<close>: the object is not inline.\<close>

record cluster_object_set_object =
  coso_Object :: "json option"
  coso_Ref :: object_source_ref
  coso_CollisionProtection :: string

record cluster_object_set_phase =
  cosp_Name :: string
  cosp_Objects :: "cluster_object_set_object list"
  cosp_CollisionProtection :: string

record object_selector =
  osel_Type :: string
  osel_GroupKind :: group_kind
  osel_Label :: label_selector

record condition_equal_probe =
  cep_Type :: string
  cep_Status :: string

record fields_equal_probe =
  fep_FieldA :: string
  fep_FieldB :: string

record field_value_probe =
  fvp_FieldPath :: string
  fvp_Value :: string

record assertion =
  as_Type :: string
  as_ConditionEqual :: condition_equal_probe
  as_FieldsEqual :: fields_equal_probe
  as_FieldValue :: field_value_probe

record progression_probe =
  pp_Selector :: object_selector
  pp_Assertions :: "assertion list"

record cluster_object_set_spec =
  coss_LifecycleState :: string
  coss_Revision :: int
  coss_Phases :: "cluster_object_set_phase list"
  coss_ProgressDeadlineMinutes :: int
  coss_ProgressionProbes :: "progression_probe list"
  coss_CollisionProtection :: string

record observed_phase =
  op_Name :: string
  op_Digest :: string

record cluster_object_set_status =
  cosst_Conditions :: "condition list"
  cosst_ObservedPhases :: "observed_phase list"

record cluster_object_set =
  cos_Meta :: object_meta
  cos_Spec :: cluster_object_set_spec
  cos_Status :: cluster_object_set_status

subsection \<open>RBAC rules, references to roles, and subjects\<close>

record policy_rule =
  pr_Verbs :: "string list"
  pr_APIGroups :: "string list"
  pr_Resources :: "string list"
  pr_ResourceNames :: "string list"
  pr_NonResourceURLs :: "string list"

record role_ref =
  rr_APIGroup :: string
  rr_Kind :: string
  rr_Name :: string

record rbac_subject =
  sbj_Kind :: string
  sbj_Namespace :: string
  sbj_Name :: string

subsection \<open>File-based catalogs\<close>

record fbc_property =
  prop_Type :: string
  prop_Value :: json

record channel_entry =
  ce_Name :: string
  ce_Replaces :: string
  ce_Skips :: "string list"
  ce_SkipRange :: string

record fbc_channel =
  ch_Name :: string
  ch_Package :: string
  ch_Entries :: "channel_entry list"

record fbc_bundle =
  b_Name :: string
  b_Package :: string
  b_Image :: string
  b_Properties :: "fbc_property list"

record deprecation_entry =
  de_Schema :: string
  de_Name :: string
  de_Message :: string

record fbc_deprecation =
  dep_Package :: string
  dep_Entries :: "deprecation_entry list"

record declarative_config =
  fbc_Packages :: "string list"
  fbc_Channels :: "fbc_channel list"
  fbc_Bundles :: "fbc_bundle list"
  fbc_Deprecations :: "fbc_deprecation list"
  fbc_Others :: "json list"

abbreviation SchemaPackage :: string where "SchemaPackage \<equiv> ''olm.package''"
abbreviation SchemaChannel :: string where "SchemaChannel \<equiv> ''olm.channel''"
abbreviation SchemaBundle :: string where "SchemaBundle \<equiv> ''olm.bundle''"
abbreviation PropertyTypePackage :: string where "PropertyTypePackage \<equiv> ''olm.package''"

end
