(* ===== verification/Bundle_Util.thy ===== *)
theory Bundle_Util
  imports Semver Api_Types
begin

text \<open>
  The version and release of a bundle (\<open>internal/operator-controller/bundleutil/bundle.go\<close>): reading
  them from the package property, from a registry+v1 version string, or from separate fields, and
  writing them to the metadata that is stored in the status of a ClusterExtension. The first
  argument \<open>brs\<close> of a definition is the feature gate \<open>BundleReleaseSupport\<close>.
\<close>

section \<open>Definitions\<close>

subsection \<open>Decoding string fields of a JSON object\<close>

text \<open>
  \<open>json.Unmarshal\<close> into a struct of string fields: a key selects the field of that name, or else
  the field whose name is equal up to case; the last occurrence wins; a value that is not a string
  leaves the field and the first such error is returned; \<open>null\<close> leaves a string and clears a
  pointer.
\<close>

definition fold_eq :: "string \<Rightarrow> string \<Rightarrow> bool" where
  "fold_eq a b \<longleftrightarrow> map lower_char a = map lower_char b"

definition json_match_field :: "string list \<Rightarrow> string \<Rightarrow> string option" where
  "json_match_field names k =
     (if k \<in> set names then Some k else find (\<lambda>n. fold_eq n k) names)"

fun json_kind :: "json \<Rightarrow> string" where
  "json_kind JNull = ''null''"
| "json_kind (JBool b) = ''bool''"
| "json_kind (JNum i) = ''number''"
| "json_kind (JStr s) = ''string''"
| "json_kind (JArr js) = ''array''"
| "json_kind (JObj fs) = ''object''"

fun decode_fields ::
  "bool \<Rightarrow> string \<Rightarrow> string list \<Rightarrow> (string \<times> json) list \<Rightarrow> string_map \<Rightarrow> go_error option \<Rightarrow>
   string_map result" where
  "decode_fields ptr struct names [] m err = (case err of None \<Rightarrow> Inr m | Some e \<Rightarrow> Inl e)"
| "decode_fields ptr struct names ((k, v) # fs) m err =
     (case json_match_field names k of
        None \<Rightarrow> decode_fields ptr struct names fs m err
      | Some n \<Rightarrow>
          (case v of
             JStr s \<Rightarrow> decode_fields ptr struct names fs (m(n \<mapsto> s)) err
           | JNull \<Rightarrow> decode_fields ptr struct names fs (if ptr then m(n := None) else m) err
           | _ \<Rightarrow> decode_fields ptr struct names fs m
               (case err of
                  Some e \<Rightarrow> Some e
                | None \<Rightarrow> Some (ErrText (''json: cannot unmarshal '' @ json_kind v @
                    '' into Go struct field '' @ struct @ ''.'' @ n @ '' of type string'')))))"

definition decode_object ::
  "bool \<Rightarrow> string \<Rightarrow> string \<Rightarrow> string list \<Rightarrow> json \<Rightarrow> string_map result" where
  "decode_object ptr struct goType names j =
     (case j of
        JObj fs \<Rightarrow> decode_fields ptr struct names fs Map.empty None
      | JNull \<Rightarrow> Inr Map.empty
      | _ \<Rightarrow> Inl (ErrText (''json: cannot unmarshal '' @ json_kind j @ '' into Go value of type '' @ goType)))"

subsection \<open>Versions and releases\<close>

definition ParseLegacyVersionRelease :: "string \<Rightarrow> version_release result" where
  "ParseLegacyVersionRelease vStr =
     (case Parse vStr of
        Inl e \<Rightarrow> Inl e
      | Inr vers \<Rightarrow>
          (let vr = \<lparr>vr_Version = vers, vr_Release = None\<rparr>;
               buildMetadata = go_join ''.'' (Build vers) in
           case NewRelease buildMetadata of
             Inl e \<Rightarrow> Inr vr
           | Inr rel \<Rightarrow>
               if rel_list rel \<noteq> [] then
                 Inr \<lparr>vr_Version = vers\<lparr>Build := []\<rparr>, vr_Release = rel\<rparr>
               else Inr vr))"

definition ParseExplicitRelease :: "string \<Rightarrow> string \<Rightarrow> version_release result" where
  "ParseExplicitRelease vstr releaseStr =
     (case Parse vstr of
        Inl e \<Rightarrow> Inl (ErrWrap (''error parsing version '' @ go_quote vstr @ '': '') e '''')
      | Inr vers \<Rightarrow>
          if releaseStr = '''' then Inr \<lparr>vr_Version = vers, vr_Release = Some []\<rparr>
          else
            (case NewRelease releaseStr of
               Inl e \<Rightarrow> Inl (ErrWrap (''error parsing release '' @ go_quote releaseStr @ '': '') e '''')
             | Inr rel \<Rightarrow> Inr \<lparr>vr_Version = vers, vr_Release = rel\<rparr>))"

definition parseVersionRelease :: "bool \<Rightarrow> json \<Rightarrow> version_release result" where
  "parseVersionRelease brs pkgData =
     (case decode_object False ''Package'' ''property.Package''
             [''packageName'', ''version'', ''release''] pkgData of
        Inl e \<Rightarrow> Inl (ErrWrap ''error unmarshalling package property: '' e '''')
      | Inr pkg \<Rightarrow>
          (case decode_object True '''' ''struct { Release *string }'' [''release''] pkgData of
             Inl e \<Rightarrow> Inl (ErrWrap ''error unmarshalling package release field: '' e '''')
           | Inr releaseField \<Rightarrow>
               (case releaseField ''release'' of
                  Some r \<Rightarrow>
                    if brs then ParseExplicitRelease (map_get pkg ''version'') r
                    else ParseLegacyVersionRelease (map_get pkg ''version'')
                | None \<Rightarrow> ParseLegacyVersionRelease (map_get pkg ''version''))))"

definition GetVersionAndRelease :: "bool \<Rightarrow> fbc_bundle \<Rightarrow> version_release result" where
  "GetVersionAndRelease brs b =
     (case find (\<lambda>p. prop_Type p = PropertyTypePackage) (b_Properties b) of
        Some p \<Rightarrow> parseVersionRelease brs (prop_Value p)
      | None \<Rightarrow> Inl (ErrText (''no package property found in bundle '' @ go_quote (b_Name b))))"

subsection \<open>Bundle metadata\<close>

definition asLegacyRegistryV1Version :: "version_release \<Rightarrow> version" where
  "asLegacyRegistryV1Version vr =
     (let v = \<lparr>Major = Major (vr_Version vr), Minor = Minor (vr_Version vr),
               Patch = Patch (vr_Version vr), Pre = Pre (vr_Version vr),
               Build = Build (vr_Version vr)\<rparr> in
      if rel_list (vr_Release vr) \<noteq> []
      then v\<lparr>Build := map PRVersion_String (rel_list (vr_Release vr))\<rparr>
      else v)"

definition MetadataFor :: "bool \<Rightarrow> string \<Rightarrow> version_release \<Rightarrow> bundle_metadata" where
  "MetadataFor brs bundleName vr =
     (if brs then
        \<lparr>bm_Name = bundleName, bm_Version = Version_String (vr_Version vr),
         bm_Release = (case vr_Release vr of
                         None \<Rightarrow> None
                       | Some r \<Rightarrow> Some (Release_String (vr_Release vr)))\<rparr>
      else
        \<lparr>bm_Name = bundleName, bm_Version = Version_String (asLegacyRegistryV1Version vr),
         bm_Release = None\<rparr>)"

section \<open>Lemmas\<close>

text \<open>
  The version-release pairs the two parsers return. A legacy pair has either a release and no
  build metadata, or build metadata that is not a release.
\<close>

definition wf_release :: "release \<Rightarrow> bool" where
  "wf_release r \<longleftrightarrow> list_all wf_prversion (rel_list r) \<and>
     length (go_join ''.'' (map PRVersion_String (rel_list r))) \<le> versionReleaseMaxLength"

definition wf_legacy :: "version_release \<Rightarrow> bool" where
  "wf_legacy vr \<longleftrightarrow> wf_version (vr_Version vr) \<and> wf_release (vr_Release vr) \<and>
     (case vr_Release vr of
        None \<Rightarrow> Build (vr_Version vr) = [] \<or>
          (\<forall>r. NewRelease (go_join ''.'' (Build (vr_Version vr))) \<noteq> Inr r)
      | Some ps \<Rightarrow> ps \<noteq> [] \<and> Build (vr_Version vr) = [])"

definition wf_explicit :: "version_release \<Rightarrow> bool" where
  "wf_explicit vr \<longleftrightarrow> wf_version (vr_Version vr) \<and> wf_release (vr_Release vr) \<and>
     vr_Release vr \<noteq> None"

lemma join_builds_Nil:
  "list_all (\<lambda>b. b \<noteq> [] \<and> list_all is_alphanum b) bs \<Longrightarrow> go_join ''.'' bs = [] \<longleftrightarrow> bs = []"
  by (cases bs rule: list.exhaust; cases "tl bs") auto

lemma Release_String_join:
  "Release_String r = go_join ''.'' (map PRVersion_String (rel_list r))"
  by (simp add: Release_String_def)

lemma ParseLegacy_wf:
  assumes "ParseLegacyVersionRelease s = Inr vr"
  shows "wf_legacy vr"
proof -
  obtain vers where v: "Parse s = Inr vers"
    using assms by (auto simp: ParseLegacyVersionRelease_def split: sum.splits)
  then have wf: "wf_version vers" using Parse_Inr by blast
  then have bs: "go_join ''.'' (Build vers) = [] \<longleftrightarrow> Build vers = []"
    by (simp add: wf_version_def join_builds_Nil)
  show ?thesis
  proof (cases "NewRelease (go_join ''.'' (Build vers))")
    case (Inl e)
    then show ?thesis
      using assms v wf
      by (auto simp: ParseLegacyVersionRelease_def wf_legacy_def wf_release_def rel_list_def)
  next
    case (Inr rel)
    note N = NewRelease_Inr [OF Inr]
    show ?thesis
    proof (cases "rel_list rel = []")
      case True
      then show ?thesis
        using assms v wf Inr N bs
        by (auto simp: ParseLegacyVersionRelease_def wf_legacy_def wf_release_def rel_list_def)
    next
      case False
      then have "vr = \<lparr>vr_Version = vers\<lparr>Build := []\<rparr>, vr_Release = rel\<rparr>"
        using assms v Inr by (simp add: ParseLegacyVersionRelease_def)
      moreover have "length (go_join ''.'' (map PRVersion_String (rel_list rel))) \<le> versionReleaseMaxLength"
        using N by (metis Release_String_join)
      ultimately show ?thesis
        using False N wf
        by (auto simp: wf_legacy_def wf_release_def wf_version_def rel_list_def split: option.splits)
    qed
  qed
qed

lemma ParseExplicit_wf:
  assumes "ParseExplicitRelease s r = Inr vr"
  shows "wf_explicit vr"
proof -
  obtain vers where v: "Parse s = Inr vers"
    using assms by (auto simp: ParseExplicitRelease_def split: sum.splits)
  then have wf: "wf_version vers" using Parse_Inr by blast
  show ?thesis
  proof (cases "r = ''''")
    case True
    with assms v wf show ?thesis
      by (auto simp: ParseExplicitRelease_def wf_explicit_def wf_release_def rel_list_def)
  next
    case False
    with assms v obtain rel where rel: "NewRelease r = Inr rel"
      and vr: "vr = \<lparr>vr_Version = vers, vr_Release = rel\<rparr>"
      by (auto simp: ParseExplicitRelease_def split: sum.splits)
    note N = NewRelease_Inr [OF rel]
    then have "length (go_join ''.'' (map PRVersion_String (rel_list rel))) \<le> versionReleaseMaxLength"
      by (metis Release_String_join)
    with vr wf N False show ?thesis
      by (simp add: wf_explicit_def wf_release_def)
  qed
qed

lemma GetVersionAndRelease_wf:
  assumes "GetVersionAndRelease brs b = Inr vr"
  shows "wf_legacy vr \<or> brs \<and> wf_explicit vr"
  using assms ParseLegacy_wf ParseExplicit_wf
  by (auto simp: GetVersionAndRelease_def parseVersionRelease_def split: option.splits sum.splits if_splits)

lemma asLegacy_Build:
  "asLegacyRegistryV1Version vr =
     (vr_Version vr)\<lparr>Build := (if rel_list (vr_Release vr) \<noteq> []
        then map PRVersion_String (rel_list (vr_Release vr)) else Build (vr_Version vr))\<rparr>"
  by (cases "vr_Version vr") (simp add: asLegacyRegistryV1Version_def)

lemma wf_asLegacy:
  assumes "wf_version (vr_Version vr)" and "list_all wf_prversion (rel_list (vr_Release vr))"
  shows "wf_version (asLegacyRegistryV1Version vr)"
proof -
  have "PRVersion_String p \<noteq> [] \<and> list_all is_alphanum (PRVersion_String p)" if "wf_prversion p" for p
    using that PRVersion_String_alphanum [OF that]
    by (auto simp: PRVersion_String_def wf_prversion_def split: if_splits)
  with assms show ?thesis
    by (auto simp: asLegacy_Build wf_version_def list_all_iff)
qed

text \<open>Metadata written without the feature gate reads back to the pair it was made from.\<close>

lemma legacy_metadata_roundtrip:
  assumes "wf_legacy vr"
  shows "ParseLegacyVersionRelease (bm_Version (MetadataFor False n vr)) = Inr vr"
proof -
  have wf: "wf_version (vr_Version vr)" "list_all wf_prversion (rel_list (vr_Release vr))"
    using assms by (auto simp: wf_legacy_def wf_release_def)
  have P: "Parse (bm_Version (MetadataFor False n vr)) = Inr (asLegacyRegistryV1Version vr)"
    using Parse_String [OF wf_asLegacy [OF wf]] by (simp add: MetadataFor_def)
  show ?thesis
  proof (cases "vr_Release vr")
    case None
    then have "asLegacyRegistryV1Version vr = vr_Version vr"
      by (simp add: asLegacy_Build rel_list_def)
    moreover have "NewRelease (go_join ''.'' (Build (vr_Version vr))) = Inr r \<Longrightarrow> rel_list r = []" for r
      using assms None by (auto simp: wf_legacy_def NewRelease_def rel_list_def)
    ultimately show ?thesis
      using None P by (cases vr) (auto simp: ParseLegacyVersionRelease_def Let_def split: sum.split)
  next
    case (Some ps)
    then have ps: "ps \<noteq> []" and b: "Build (vr_Version vr) = []" and wr: "wf_release (Some ps)"
      using assms by (auto simp: wf_legacy_def)
    then have N: "NewRelease (go_join ''.'' (map PRVersion_String ps)) = Inr (Some ps)"
      using NewRelease_String [of ps] by (simp add: wf_release_def Release_String_join rel_list_def)
    show ?thesis
      using P N Some ps b
      by (cases vr) (simp add: ParseLegacyVersionRelease_def asLegacy_Build rel_list_def)
  qed
qed

lemma explicit_metadata_roundtrip:
  assumes "wf_explicit vr"
  shows "\<exists>r. bm_Release (MetadataFor True n vr) = Some r \<and>
     ParseExplicitRelease (bm_Version (MetadataFor True n vr)) r = Inr vr"
proof -
  obtain ps where ps: "vr_Release vr = Some ps" using assms by (auto simp: wf_explicit_def)
  have P: "Parse (bm_Version (MetadataFor True n vr)) = Inr (vr_Version vr)"
    using assms Parse_String by (simp add: MetadataFor_def wf_explicit_def)
  have wr: "wf_release (Some ps)" using assms ps by (simp add: wf_explicit_def)
  show ?thesis
  proof (cases "ps = []")
    case True
    with ps P show ?thesis
      by (cases vr) (simp add: MetadataFor_def Release_String_def rel_list_def ParseExplicitRelease_def)
  next
    case False
    then have N: "NewRelease (Release_String (Some ps)) = Inr (Some ps)"
      using NewRelease_String [of ps] wr by (simp add: wf_release_def rel_list_def)
    then have "Release_String (Some ps) \<noteq> ''''" by (auto simp: NewRelease_def)
    with N ps P show ?thesis
      by (cases vr) (simp add: MetadataFor_def ParseExplicitRelease_def)
  qed
qed

end
