(* ===== verification/Catalog_Filter.thy ===== *)
theory Catalog_Filter
  imports Bundle_Util
begin

text \<open>
  Predicates on bundles and their order: \<open>internal/shared/util/filter/filter.go\<close>, and
  \<open>bundle_predicates.go\<close>, \<open>successors.go\<close> and \<open>compare.go\<close> under
  \<open>internal/operator-controller/catalogmetadata\<close>. The two range parsers the sources call
  (\<open>Masterminds/semver\<close> for the version the user asks for, \<open>blang/semver\<close> for the skip range of a
  channel entry) are parameters, the record \<open>range_libs\<close>.
\<close>

section \<open>Definitions\<close>

record mm_version =
  mm_Major :: "64 word"
  mm_Minor :: "64 word"
  mm_Patch :: "64 word"
  mm_Pre :: string
  mm_Metadata :: string

record range_libs =
  mm_NewConstraint :: "string \<Rightarrow> (mm_version \<Rightarrow> bool) result"
  bsemver_ParseRange :: "string \<Rightarrow> (version \<Rightarrow> bool) result"

subsection \<open>Predicates\<close>

type_synonym 'a predicate = "'a \<Rightarrow> bool"

fun filter_And :: "'a predicate list \<Rightarrow> 'a predicate" where
  "filter_And [] obj = True"
| "filter_And (p # ps) obj = (if \<not> p obj then False else filter_And ps obj)"

fun filter_Or :: "'a predicate list \<Rightarrow> 'a predicate" where
  "filter_Or [] obj = False"
| "filter_Or (p # ps) obj = (if p obj then True else filter_Or ps obj)"

definition filter_Not :: "'a predicate \<Rightarrow> 'a predicate" where
  "filter_Not p obj = (\<not> p obj)"

fun filter_Filter :: "'a list \<Rightarrow> 'a predicate \<Rightarrow> 'a list" where
  "filter_Filter [] test = []"
| "filter_Filter (x # xs) test =
     (if test x then x # filter_Filter xs test else filter_Filter xs test)"

text \<open>
  \<open>slices.DeleteFunc\<close> keeps the elements for which \<open>del\<close> is false in the same backing array and
  zeroes the rest of it: the second component is what the caller's own slice, of the old length,
  shows afterwards.
\<close>

definition slices_DeleteFunc :: "'a \<Rightarrow> 'a list \<Rightarrow> 'a predicate \<Rightarrow> 'a list \<times> 'a list" where
  "slices_DeleteFunc zero xs del =
     (let kept = filter (\<lambda>x. \<not> del x) xs in
      (kept, kept @ replicate (length xs - length kept) zero))"

definition filter_InPlace :: "'a \<Rightarrow> 'a list \<Rightarrow> 'a predicate \<Rightarrow> 'a list" where
  "filter_InPlace zero xs test = fst (slices_DeleteFunc zero xs (filter_Not test))"

definition ExactVersionRelease :: "bool \<Rightarrow> version_release \<Rightarrow> fbc_bundle predicate" where
  "ExactVersionRelease brs expect b =
     (case GetVersionAndRelease brs b of
        Inl e \<Rightarrow> False
      | Inr actual \<Rightarrow> VersionRelease_Compare expect actual = 0)"

definition InSemverRange :: "bool \<Rightarrow> (version \<Rightarrow> bool) \<Rightarrow> fbc_bundle predicate" where
  "InSemverRange brs versionRange b =
     (case GetVersionAndRelease brs b of
        Inl e \<Rightarrow> False
      | Inr vr \<Rightarrow> versionRange (vr_Version vr))"

definition InAnyChannel :: "fbc_channel list \<Rightarrow> fbc_bundle predicate" where
  "InAnyChannel channels bundle \<longleftrightarrow>
     list_ex (\<lambda>ch. list_ex (\<lambda>entry. ce_Name entry = b_Name bundle) (ch_Entries ch)) channels"

subsection \<open>Version ranges\<close>

definition newMastermindsRange :: "range_libs \<Rightarrow> string \<Rightarrow> (version \<Rightarrow> bool) result" where
  "newMastermindsRange libs versionRange =
     (case mm_NewConstraint libs versionRange of
        Inl e \<Rightarrow> Inl e
      | Inr check \<Rightarrow>
          Inr (\<lambda>v. check
            \<lparr>mm_Major = Major v, mm_Minor = Minor v, mm_Patch = Patch v,
             mm_Pre = go_join ''.'' (map PRVersion_String (Pre v)),
             mm_Metadata = go_join ''.'' (Build v)\<rparr>))"

definition NewVersionRange :: "range_libs \<Rightarrow> string \<Rightarrow> (version \<Rightarrow> bool) result" where
  "NewVersionRange libs versionRange = newMastermindsRange libs versionRange"

subsection \<open>Successors\<close>

definition parseInstalledBundleVersionRelease :: "bundle_metadata \<Rightarrow> version_release result" where
  "parseInstalledBundleVersionRelease installedBundle =
     (case bm_Release installedBundle of
        None \<Rightarrow>
          (case ParseLegacyVersionRelease (bm_Version installedBundle) of
             Inl e \<Rightarrow> Inl (ErrWrap ''failed to get version and release of installed bundle: '' e '''')
           | Inr vr \<Rightarrow> Inr vr)
      | Some release \<Rightarrow>
          (case ParseExplicitRelease (bm_Version installedBundle) release of
             Inl e \<Rightarrow> Inl (ErrWrap ''failed to parse installed bundle version and release: '' e '''')
           | Inr vr \<Rightarrow> Inr vr))"

definition isSuccessor :: "range_libs \<Rightarrow> bundle_metadata \<Rightarrow> version \<Rightarrow> channel_entry \<Rightarrow> bool" where
  "isSuccessor libs installedBundle installedBundleVersion entry =
     (if ce_Replaces entry = bm_Name installedBundle then True
      else if list_ex (\<lambda>skip. skip = bm_Name installedBundle) (ce_Skips entry) then True
      else if ce_SkipRange entry \<noteq> '''' then
        (case bsemver_ParseRange libs (ce_SkipRange entry) of
           Inl e \<Rightarrow> False
         | Inr skipRange \<Rightarrow> skipRange installedBundleVersion)
      else False)"

definition legacySuccessor ::
  "range_libs \<Rightarrow> bundle_metadata \<Rightarrow> fbc_channel list \<Rightarrow> (fbc_bundle predicate) result" where
  "legacySuccessor libs installedBundle channels =
     (case Parse (bm_Version installedBundle) of
        Inl e \<Rightarrow> Inl (ErrWrap ''error parsing installed bundle version: '' e '''')
      | Inr installedBundleVersion \<Rightarrow>
          Inr (\<lambda>candidate. list_ex (\<lambda>ch. list_ex (\<lambda>chEntry.
            b_Name candidate = ce_Name chEntry \<and>
            isSuccessor libs installedBundle installedBundleVersion chEntry) (ch_Entries ch)) channels))"

definition SuccessorsOf ::
  "range_libs \<Rightarrow> bool \<Rightarrow> bundle_metadata \<Rightarrow> fbc_channel list \<Rightarrow> (fbc_bundle predicate) result" where
  "SuccessorsOf libs brs installedBundle channels =
     (case parseInstalledBundleVersionRelease installedBundle of
        Inl e \<Rightarrow> Inl e
      | Inr installedVersionRelease \<Rightarrow>
          (case legacySuccessor libs installedBundle channels of
             Inl e \<Rightarrow> Inl (ErrWrap ''getting successorsPredicate: '' e '''')
           | Inr successorsPredicate \<Rightarrow>
               Inr (filter_Or [successorsPredicate, ExactVersionRelease brs installedVersionRelease])))"

subsection \<open>Order\<close>

definition compareErrors :: "go_error option \<Rightarrow> go_error option \<Rightarrow> int" where
  "compareErrors err1 err2 =
     (if err1 \<noteq> None \<and> err2 = None then -1
      else if err1 = None \<and> err2 \<noteq> None then 1
      else 0)"

definition result_err :: "'a result \<Rightarrow> go_error option" where
  "result_err r = (case r of Inl e \<Rightarrow> Some e | Inr x \<Rightarrow> None)"

definition ByVersionAndRelease :: "bool \<Rightarrow> fbc_bundle \<Rightarrow> fbc_bundle \<Rightarrow> int" where
  "ByVersionAndRelease brs b1 b2 =
     (case (GetVersionAndRelease brs b1, GetVersionAndRelease brs b2) of
        (Inr vr1, Inr vr2) \<Rightarrow> VersionRelease_Compare vr2 vr1
      | (r1, r2) \<Rightarrow> compareErrors (result_err r2) (result_err r1))"

definition deprecatedBundles :: "fbc_deprecation \<Rightarrow> string set" where
  "deprecatedBundles deprecation =
     set (map de_Name (filter (\<lambda>entry. de_Schema entry = SchemaBundle) (dep_Entries deprecation)))"

definition ByDeprecationFunc :: "fbc_deprecation \<Rightarrow> fbc_bundle \<Rightarrow> fbc_bundle \<Rightarrow> int" where
  "ByDeprecationFunc deprecation a b =
     (let aDeprecated = b_Name a \<in> deprecatedBundles deprecation;
          bDeprecated = b_Name b \<in> deprecatedBundles deprecation in
      if aDeprecated \<and> \<not> bDeprecated then 1
      else if \<not> aDeprecated \<and> bDeprecated then -1
      else 0)"

section \<open>Lemmas\<close>

lemma filter_And_iff [simp]: "filter_And ps x \<longleftrightarrow> list_all (\<lambda>p. p x) ps"
  by (induction ps) auto

lemma filter_Or_iff [simp]: "filter_Or ps x \<longleftrightarrow> list_ex (\<lambda>p. p x) ps"
  by (induction ps) auto

lemma filter_Filter_eq [simp]: "filter_Filter xs test = filter test xs"
  by (induction xs) auto

lemma DeleteFunc_fst [simp]: "fst (slices_DeleteFunc z xs del) = filter (\<lambda>x. \<not> del x) xs"
  by (simp add: slices_DeleteFunc_def Let_def)

lemma DeleteFunc_snd:
  "snd (slices_DeleteFunc z xs del) =
     filter (\<lambda>x. \<not> del x) xs @ replicate (length xs - length (filter (\<lambda>x. \<not> del x) xs)) z"
  by (simp add: slices_DeleteFunc_def Let_def)

lemma DeleteFunc_length: "length (snd (slices_DeleteFunc z xs del)) = length xs"
  by (simp add: DeleteFunc_snd)

lemma InPlace_eq [simp]: "filter_InPlace z xs test = filter test xs"
  by (simp add: filter_InPlace_def filter_Not_def)

text \<open>
  A channel with no entry adds nothing to the successors, so the zeroed tail that
  \<open>slices.DeleteFunc\<close> leaves in the channels of a package is harmless.
\<close>

lemma legacySuccessor_zeroed:
  assumes "ch_Entries zero = []"
  shows "legacySuccessor libs inst (chs @ replicate n zero) = legacySuccessor libs inst chs"
proof -
  have "list_ex (\<lambda>ch. list_ex P (ch_Entries ch)) (chs @ replicate n zero) =
      list_ex (\<lambda>ch. list_ex P (ch_Entries ch)) chs" for P
    using assms by (induction n) auto
  then show ?thesis by (simp only: legacySuccessor_def)
qed

lemma SuccessorsOf_zeroed:
  assumes "ch_Entries zero = []"
  shows "SuccessorsOf libs brs inst (chs @ replicate n zero) = SuccessorsOf libs brs inst chs"
  by (simp only: SuccessorsOf_def legacySuccessor_zeroed [OF assms])

subsection \<open>Orders\<close>

text \<open>Versions before errors, higher versions first.\<close>

definition vr_result_compare :: "version_release result \<Rightarrow> version_release result \<Rightarrow> int" where
  "vr_result_compare x y =
     (case (x, y) of
        (Inr v, Inr w) \<Rightarrow> VersionRelease_Compare v w
      | (Inl e, Inr w) \<Rightarrow> -1
      | (Inr v, Inl e) \<Rightarrow> 1
      | (Inl e, Inl f) \<Rightarrow> 0)"

lemma comparison_vr_result: "comparison vr_result_compare"
proof
  fix x y z :: "version_release result"
  show "vr_result_compare x y \<le> 0 \<longleftrightarrow> 0 \<le> vr_result_compare y x"
    by (cases x; cases y) (simp_all add: vr_result_compare_def vr_cmp.cmp_swap)
  assume "vr_result_compare x y \<le> 0" "vr_result_compare y z \<le> 0"
  then show "vr_result_compare x z \<le> 0"
    using vr_cmp.cmp_trans [of "projr x" "projr y" "projr z"]
    by (cases x; cases y; cases z) (auto simp: vr_result_compare_def)
qed

lemma ByVersionAndRelease_eq:
  "ByVersionAndRelease brs b1 b2 =
     vr_result_compare (GetVersionAndRelease brs b2) (GetVersionAndRelease brs b1)"
  by (cases "GetVersionAndRelease brs b1"; cases "GetVersionAndRelease brs b2")
    (simp_all add: ByVersionAndRelease_def vr_result_compare_def compareErrors_def result_err_def)

lemma comparison_ByVersionAndRelease: "comparison (ByVersionAndRelease brs)"
  unfolding ByVersionAndRelease_eq [abs_def]
  by (rule comparison_flip [OF comparison_pullback [OF comparison_vr_result,
        of "GetVersionAndRelease brs"]])

interpretation bvr_cmp: comparison "ByVersionAndRelease brs" for brs
  by (rule comparison_ByVersionAndRelease)

lemma ByDeprecationFunc_eq:
  "ByDeprecationFunc d a b =
     go_compare (b_Name a \<in> deprecatedBundles d) (b_Name b \<in> deprecatedBundles d)"
  by (auto simp: ByDeprecationFunc_def go_compare_def)

lemma comparison_ByDeprecation: "comparison (ByDeprecationFunc d)"
  unfolding ByDeprecationFunc_eq [abs_def]
  by (intro comparison_pullback [OF comparison_go_compare])

interpretation bdep_cmp: comparison "ByDeprecationFunc d" for d
  by (rule comparison_ByDeprecation)

subsection \<open>The installed bundle\<close>

text \<open>
  What the operator stores for a bundle it resolved reads back, with the feature gate as it was,
  to a version and release that compare equal to the bundle's own.
\<close>

lemma installed_metadata_exact:
  assumes get: "GetVersionAndRelease brs b = Inr vr"
  shows "\<exists>ivr. parseInstalledBundleVersionRelease (MetadataFor brs n vr) = Inr ivr \<and>
     ExactVersionRelease brs ivr b"
proof -
  have "\<exists>ivr. parseInstalledBundleVersionRelease (MetadataFor brs n vr) = Inr ivr \<and>
      VersionRelease_Compare ivr vr = 0"
  proof (cases brs)
    case False
    then have "wf_legacy vr" using GetVersionAndRelease_wf [OF get] by simp
    from legacy_metadata_roundtrip [OF this, of n] False show ?thesis
      by (simp add: parseInstalledBundleVersionRelease_def MetadataFor_def)
  next
    case True
    show ?thesis
    proof (cases "vr_Release vr")
      case (Some ps)
      then have "wf_explicit vr"
        using GetVersionAndRelease_wf [OF get] by (auto simp: wf_legacy_def wf_explicit_def)
      from explicit_metadata_roundtrip [OF this, of n] True show ?thesis
        by (auto simp: parseInstalledBundleVersionRelease_def)
    next
      case None
      then have wf: "wf_legacy vr"
        using GetVersionAndRelease_wf [OF get] by (auto simp: wf_explicit_def)
      have "bm_Version (MetadataFor True n vr) = bm_Version (MetadataFor False n vr)"
        using None by (simp add: MetadataFor_def asLegacy_Build rel_list_def)
      with legacy_metadata_roundtrip [OF wf, of n] True None show ?thesis
        by (simp add: parseInstalledBundleVersionRelease_def MetadataFor_def)
    qed
  qed
  with get show ?thesis by (auto simp: ExactVersionRelease_def)
qed

section \<open>Properties\<close>

text \<open>
  The installed bundle stays installable. For the metadata the operator stores for a bundle of
  a catalog, with the same feature gate, the successor predicate can be built and accepts that
  bundle, whatever the channels are: an installed bundle is never rejected for want of an upgrade
  edge.
\<close>

theorem installed_bundle_accepted:
  assumes "GetVersionAndRelease brs b = Inr vr"
  shows "\<exists>p. SuccessorsOf libs brs (MetadataFor brs n vr) channels = Inr p \<and> p b"
proof -
  obtain ivr where ivr: "parseInstalledBundleVersionRelease (MetadataFor brs n vr) = Inr ivr"
    "ExactVersionRelease brs ivr b"
    using installed_metadata_exact [OF assms] by blast
  then obtain v where "Parse (bm_Version (MetadataFor brs n vr)) = Inr v"
    by (auto simp: parseInstalledBundleVersionRelease_def ParseLegacyVersionRelease_def
        ParseExplicitRelease_def split: option.splits sum.splits)
  then obtain q where "legacySuccessor libs (MetadataFor brs n vr) channels = Inr q"
    by (simp add: legacySuccessor_def)
  with ivr show ?thesis by (simp add: SuccessorsOf_def)
qed

definition sample_bundle :: fbc_bundle where
  "sample_bundle = \<lparr>b_Name = ''p.v1'', b_Package = ''p'', b_Image = '''', b_Properties =
     [\<lparr>prop_Type = PropertyTypePackage,
       prop_Value = JObj [(''version'', JStr ''1.0.0+2''), (''release'', JStr ''alpha.1'')]\<rparr>]\<rparr>"

definition sample_bundle_vr :: version_release where
  "sample_bundle_vr =
     \<lparr>vr_Version = \<lparr>Major = 1, Minor = 0, Patch = 0, Pre = [], Build = [''2'']\<rparr>,
      vr_Release = Some [\<lparr>VersionStr = ''alpha'', VersionNum = 0, IsNum = False\<rparr>,
                         \<lparr>VersionStr = '''', VersionNum = 1, IsNum = True\<rparr>]\<rparr>"

theorem installed_bundle_accepted_witness:
  "\<exists>p. SuccessorsOf \<lparr>mm_NewConstraint = (\<lambda>s. Inl (ErrText s)), bsemver_ParseRange = (\<lambda>s. Inl (ErrText s))\<rparr>
       True (MetadataFor True ''p.v1'' sample_bundle_vr) [] = Inr p \<and> p sample_bundle"
  by (rule installed_bundle_accepted) code_simp

end
