(* ===== verification/Catalog_Resolve.thy ===== *)
theory Catalog_Resolve
  imports Catalog_Filter
begin

text \<open>
  Resolution of a ClusterExtension to a bundle of a catalog
  (\<open>internal/operator-controller/resolve/catalog.go\<close>, \<open>validation.go\<close>). The catalogs of the cluster,
  the contents of a package, the conversion of label selectors and the validations are fields of
  \<open>resolver_env\<close>. Logging, and the statistics that are only logged, are left out.
\<close>

section \<open>Definitions\<close>

datatype label_sel = SelNothing | SelEverything | SelRequirements label_selector

record resolver_env =
  re_libs :: range_libs
  re_brs :: bool
  re_LabelSelectorAsSelector :: "label_selector option \<Rightarrow> label_sel result"
  re_listCatalogs :: "label_sel \<Rightarrow> cluster_catalog list result"
  re_getPackage :: "cluster_catalog \<Rightarrow> string \<Rightarrow> declarative_config option result"
  re_Validations :: "(fbc_bundle \<Rightarrow> go_error option) list"

record foundBundle =
  fb_bundle :: fbc_bundle
  fb_catalog :: string
  fb_priority :: int

definition isFBCEmpty :: "declarative_config option \<Rightarrow> bool" where
  "isFBCEmpty fbc =
     (case fbc of
        None \<Rightarrow> True
      | Some f \<Rightarrow> fbc_Packages f = [] \<and> fbc_Channels f = [] \<and> fbc_Bundles f = [] \<and>
          fbc_Deprecations f = [] \<and> fbc_Others f = [])"

definition isDeprecated :: "fbc_bundle \<Rightarrow> fbc_deprecation option \<Rightarrow> bool" where
  "isDeprecated bundle deprecation =
     (case deprecation of
        None \<Rightarrow> False
      | Some d \<Rightarrow> list_ex (\<lambda>entry. de_Schema entry = SchemaBundle \<and> de_Name entry = b_Name bundle)
          (dep_Entries d))"

subsection \<open>The candidates of one catalog\<close>

definition zero_channel :: fbc_channel where
  "zero_channel = \<lparr>ch_Name = '''', ch_Package = '''', ch_Entries = []\<rparr>"

definition zero_bundle :: fbc_bundle where
  "zero_bundle = \<lparr>b_Name = '''', b_Package = '''', b_Image = '''', b_Properties = []\<rparr>"

text \<open>
  The predicates, in the order the code appends them. \<open>slices.DeleteFunc\<close> works in the array of
  \<open>packageFBC.Channels\<close>, so the call of \<open>SuccessorsOf\<close> that follows sees the channels it left there.
\<close>

definition bundle_predicates ::
  "resolver_env \<Rightarrow> catalog_filter \<Rightarrow> (version \<Rightarrow> bool) option \<Rightarrow> bundle_metadata option \<Rightarrow>
   declarative_config \<Rightarrow> (fbc_bundle predicate list) result" where
  "bundle_predicates env cf versionRangeConstraints installedBundle packageFBC =
     (let (filteredChannels, channels) =
            (if cf_Channels cf \<noteq> [] then
               slices_DeleteFunc zero_channel (fbc_Channels packageFBC)
                 (\<lambda>c. ch_Name c \<notin> set (cf_Channels cf))
             else ([], fbc_Channels packageFBC));
          ps1 = (if cf_Channels cf \<noteq> [] then [InAnyChannel filteredChannels] else []);
          ps2 = (case versionRangeConstraints of
                   None \<Rightarrow> []
                 | Some vrange \<Rightarrow> [InSemverRange (re_brs env) vrange]) in
      (case installedBundle of
         Some inst \<Rightarrow>
           if cf_UpgradeConstraintPolicy cf \<noteq> UpgradeConstraintPolicySelfCertified then
             (case SuccessorsOf (re_libs env) (re_brs env) inst channels of
                Inl e \<Rightarrow> Inl (ErrWrap ''error finding upgrade edges: '' e '''')
              | Inr successorPredicate \<Rightarrow> Inr (ps1 @ ps2 @ [successorPredicate]))
           else Inr (ps1 @ ps2)
       | None \<Rightarrow> Inr (ps1 @ ps2)))"

definition candidate_order :: "bool \<Rightarrow> fbc_deprecation option \<Rightarrow> fbc_bundle \<Rightarrow> fbc_bundle \<Rightarrow> int" where
  "candidate_order brs thisDeprecation a b =
     (let lessDep = (case thisDeprecation of None \<Rightarrow> 0 | Some d \<Rightarrow> ByDeprecationFunc d a b) in
      if lessDep \<noteq> 0 then lessDep else ByVersionAndRelease brs a b)"

definition this_deprecation :: "declarative_config \<Rightarrow> fbc_deprecation option" where
  "this_deprecation packageFBC =
     (case fbc_Deprecations packageFBC of [] \<Rightarrow> None | d # ds \<Rightarrow> Some d)"

text \<open>The walk function up to \<open>thisBundle\<close>: \<open>None\<close> where it returns early without a candidate.\<close>

definition best_candidate ::
  "resolver_env \<Rightarrow> catalog_filter \<Rightarrow> (version \<Rightarrow> bool) option \<Rightarrow> bundle_metadata option \<Rightarrow>
   cluster_catalog \<Rightarrow> (declarative_config option) result \<Rightarrow>
   (foundBundle \<times> fbc_deprecation option) option result" where
  "best_candidate env cf versionRangeConstraints installedBundle cat pkg =
     (case pkg of
        Inl e \<Rightarrow> Inl (ErrWrap (''error getting package '' @ go_quote (cf_PackageName cf) @
            '' from catalog '' @ go_quote (meta_Name (cc_Meta cat)) @ '': '') e '''')
      | Inr fbc \<Rightarrow>
          (case fbc of
             None \<Rightarrow> Inr None
           | Some packageFBC \<Rightarrow>
               if isFBCEmpty fbc then Inr None
               else
                 (case bundle_predicates env cf versionRangeConstraints installedBundle packageFBC of
                    Inl e \<Rightarrow> Inl e
                  | Inr predicates \<Rightarrow>
                      (let bundles = filter_InPlace zero_bundle (fbc_Bundles packageFBC) (filter_And predicates);
                           thisDeprecation = this_deprecation packageFBC in
                       case sort_by (candidate_order (re_brs env) thisDeprecation) bundles of
                         [] \<Rightarrow> Inr None
                       | thisBundle # rest \<Rightarrow>
                           Inr (Some (\<lparr>fb_bundle = thisBundle, fb_catalog = meta_Name (cc_Meta cat),
                                       fb_priority = ccs_Priority (cc_Spec cat)\<rparr>, thisDeprecation))))))"

subsection \<open>The walk over the catalogs\<close>

record walk_state =
  resolvedBundles :: "foundBundle list"
  priorDeprecation :: "fbc_deprecation option"

definition merge_candidate :: "foundBundle \<times> fbc_deprecation option \<Rightarrow> walk_state \<Rightarrow> walk_state" where
  "merge_candidate cand st =
     (let (this, thisDeprecation) = cand;
          found = resolvedBundles st;
          currentIsDeprecated = isDeprecated (fb_bundle this) thisDeprecation;
          priorIsDeprecated = isDeprecated (fb_bundle (last found)) (priorDeprecation st) in
      if found \<noteq> [] \<and> currentIsDeprecated \<and> \<not> priorIsDeprecated then st
      else
        \<lparr>resolvedBundles =
           (if found \<noteq> [] \<and> \<not> currentIsDeprecated \<and> priorIsDeprecated then [] else found) @ [this],
         priorDeprecation = thisDeprecation\<rparr>)"

fun walk_catalogs ::
  "(cluster_catalog \<Rightarrow> walk_state \<Rightarrow> walk_state result) \<Rightarrow> cluster_catalog list \<Rightarrow> walk_state \<Rightarrow>
   walk_state result" where
  "walk_catalogs f [] st = Inr st"
| "walk_catalogs f (cat # cats) st =
     (case f cat st of Inl e \<Rightarrow> Inl e | Inr st' \<Rightarrow> walk_catalogs f cats st')"

definition enabled_catalogs :: "cluster_catalog list \<Rightarrow> cluster_catalog list" where
  "enabled_catalogs cats =
     filter (\<lambda>c. \<not> ccs_AvailabilityMode (cc_Spec c) = AvailabilityModeUnavailable) cats"

definition CatalogWalker ::
  "(label_sel \<Rightarrow> cluster_catalog list result) \<Rightarrow>
   (cluster_catalog \<Rightarrow> string \<Rightarrow> declarative_config option result) \<Rightarrow> string \<Rightarrow>
   (cluster_catalog \<Rightarrow> declarative_config option result \<Rightarrow> walk_state \<Rightarrow> walk_state result) \<Rightarrow>
   label_sel \<Rightarrow> walk_state \<Rightarrow> walk_state result" where
  "CatalogWalker listCatalogs getPackage packageName f selector st =
     (case listCatalogs selector of
        Inl e \<Rightarrow> Inl (ErrWrap ''error listing catalogs: '' e '''')
      | Inr catalogs \<Rightarrow>
          walk_catalogs (\<lambda>cat. f cat (getPackage cat packageName)) (enabled_catalogs catalogs) st)"

definition walk_fn ::
  "resolver_env \<Rightarrow> catalog_filter \<Rightarrow> (version \<Rightarrow> bool) option \<Rightarrow> bundle_metadata option \<Rightarrow>
   cluster_catalog \<Rightarrow> declarative_config option result \<Rightarrow> walk_state \<Rightarrow> walk_state result" where
  "walk_fn env cf versionRangeConstraints installedBundle cat pkg st =
     (case best_candidate env cf versionRangeConstraints installedBundle cat pkg of
        Inl e \<Rightarrow> Inl e
      | Inr None \<Rightarrow> Inr st
      | Inr (Some cand) \<Rightarrow> Inr (merge_candidate cand st))"

subsection \<open>Choosing among the catalogs\<close>

definition by_priority :: "foundBundle \<Rightarrow> foundBundle \<Rightarrow> int" where
  "by_priority a b = go_compare (fb_priority b) (fb_priority a)"

definition resolve_priority :: "foundBundle list \<Rightarrow> foundBundle list" where
  "resolve_priority found =
     (if length found > 1 then
        (let sorted = sort_by by_priority found in
         if fb_priority (sorted ! 0) \<noteq> fb_priority (sorted ! 1) then [sorted ! 0] else sorted)
      else found)"

definition resolutionError ::
  "string \<Rightarrow> string \<Rightarrow> string list \<Rightarrow> bundle_metadata option \<Rightarrow> foundBundle list \<Rightarrow> string" where
  "resolutionError packageName vers channels installedBundle found =
     (let matchedCatalogs = sort (map fb_catalog found) in
      trim_space
        ((case installedBundle of
            None \<Rightarrow> ''''
          | Some b \<Rightarrow> ''error upgrading from currently installed version '' @ go_quote (bm_Version b) @ '': '') @
         (if length found > 1 then ''found bundles for package '' @ go_quote packageName @ '' ''
          else ''no bundles found for package '' @ go_quote packageName @ '' '') @
         (if vers \<noteq> '''' then ''matching version '' @ go_quote vers @ '' '' else '''') @
         (if channels \<noteq> [] then ''in channels '' @ show_strings channels @ '' '' else '''') @
         (if length matchedCatalogs > 1 then
            ''in multiple catalogs with the same priority '' @ show_strings matchedCatalogs @ '' ''
          else '''')))"

fun run_validations :: "(fbc_bundle \<Rightarrow> go_error option) list \<Rightarrow> fbc_bundle \<Rightarrow> go_error option" where
  "run_validations [] b = None"
| "run_validations (v # vs) b = (case v b of Some e \<Rightarrow> Some e | None \<Rightarrow> run_validations vs b)"

definition desired_selector :: "resolver_env \<Rightarrow> catalog_filter \<Rightarrow> label_sel result" where
  "desired_selector env cf =
     (case re_LabelSelectorAsSelector env (cf_Selector cf) of
        Inl e \<Rightarrow> Inl (ErrWrap ''desired catalog selector is invalid: '' e '''')
      | Inr selector \<Rightarrow> Inr (case selector of SelNothing \<Rightarrow> SelEverything | _ \<Rightarrow> selector))"

definition desired_range :: "resolver_env \<Rightarrow> catalog_filter \<Rightarrow> ((version \<Rightarrow> bool) option) result" where
  "desired_range env cf =
     (if cf_Version cf \<noteq> '''' then
        (case NewVersionRange (re_libs env) (cf_Version cf) of
           Inl e \<Rightarrow> Inl (ErrWrap (''desired version range '' @ go_quote (cf_Version cf) @ '' is invalid: '') e '''')
         | Inr r \<Rightarrow> Inr (Some r))
      else Inr None)"

text \<open>\<open>Resolve\<close> from the walk on.\<close>

definition finish_resolution ::
  "resolver_env \<Rightarrow> catalog_filter \<Rightarrow> bundle_metadata option \<Rightarrow> walk_state \<Rightarrow>
   (fbc_bundle \<times> version_release \<times> fbc_deprecation option) result" where
  "finish_resolution env cf installedBundle st =
     (case resolve_priority (resolvedBundles st) of
        [only] \<Rightarrow>
          (case GetVersionAndRelease (re_brs env) (fb_bundle only) of
             Inl e \<Rightarrow> Inl (ErrWrap (''error getting resolved bundle version for bundle '' @
                 go_quote (b_Name (fb_bundle only)) @ '': '') e '''')
           | Inr vr \<Rightarrow>
               (case run_validations (re_Validations env) (fb_bundle only) of
                  Some e \<Rightarrow> Inl (ErrWrap (''validating bundle '' @ go_quote (b_Name (fb_bundle only)) @ '': '') e '''')
                | None \<Rightarrow> Inr (fb_bundle only, vr, priorDeprecation st)))
      | found \<Rightarrow>
          Inl (ErrText (resolutionError (cf_PackageName cf) (cf_Version cf) (cf_Channels cf)
            installedBundle found)))"

definition resolve_catalog ::
  "resolver_env \<Rightarrow> catalog_filter \<Rightarrow> bundle_metadata option \<Rightarrow>
   (fbc_bundle \<times> version_release \<times> fbc_deprecation option) result" where
  "resolve_catalog env cf installedBundle =
     (case desired_selector env cf of
        Inl e \<Rightarrow> Inl e
      | Inr selector \<Rightarrow>
          (case desired_range env cf of
             Inl e \<Rightarrow> Inl e
           | Inr versionRangeConstraints \<Rightarrow>
               (case CatalogWalker (re_listCatalogs env) (re_getPackage env) (cf_PackageName cf)
                       (walk_fn env cf versionRangeConstraints installedBundle) selector
                       \<lparr>resolvedBundles = [], priorDeprecation = None\<rparr> of
                  Inl e \<Rightarrow> Inl (ErrWrap ''error walking catalogs: '' e '''')
                | Inr st \<Rightarrow> finish_resolution env cf installedBundle st)))"

text \<open>
  \<open>Resolve\<close> reads the fields of \<open>ext.Spec.Source.Catalog\<close> before it tests it for nil: \<open>None\<close> is
  the panic of that dereference.
\<close>

definition Resolve ::
  "resolver_env \<Rightarrow> cluster_extension \<Rightarrow> bundle_metadata option \<Rightarrow>
   (fbc_bundle \<times> version_release \<times> fbc_deprecation option) result option" where
  "Resolve env ext installedBundle =
     (case src_Catalog (exts_Source (ext_Spec ext)) of
        None \<Rightarrow> None
      | Some cf \<Rightarrow> Some (resolve_catalog env cf installedBundle))"

subsection \<open>Validation\<close>

definition NoDependencyValidation :: "fbc_bundle \<Rightarrow> go_error option" where
  "NoDependencyValidation bundle =
     (case find (\<lambda>p. prop_Type p \<in> {''olm.package.required'', ''olm.gvk.required'', ''olm.constraint''})
             (b_Properties bundle) of
        None \<Rightarrow> None
      | Some p \<Rightarrow> Some (ErrText (''bundle '' @ go_quote (b_Name bundle) @
          '' has a dependency declared via property '' @ go_quote (prop_Type p) @
          '' which is currently not supported'')))"

subsection \<open>Specification\<close>

text \<open>
  What a resolution should select, without state: the best candidate of each enabled catalog in
  turn, the non-deprecated ones among them if there is any, and the one of strictly highest
  priority.
\<close>

definition not_deprecated :: "foundBundle \<times> fbc_deprecation option \<Rightarrow> bool" where
  "not_deprecated c \<longleftrightarrow> \<not> isDeprecated (fb_bundle (fst c)) (snd c)"

definition preferred ::
  "(foundBundle \<times> fbc_deprecation option) list \<Rightarrow> (foundBundle \<times> fbc_deprecation option) list" where
  "preferred cs = (if list_ex not_deprecated cs then filter not_deprecated cs else cs)"

fun candidates ::
  "(cluster_catalog \<Rightarrow> (foundBundle \<times> fbc_deprecation option) option result) \<Rightarrow>
   cluster_catalog list \<Rightarrow> (foundBundle \<times> fbc_deprecation option) list result" where
  "candidates f [] = Inr []"
| "candidates f (cat # cats) =
     (case f cat of
        Inl e \<Rightarrow> Inl e
      | Inr x \<Rightarrow>
          (case candidates f cats of
             Inl e \<Rightarrow> Inl e
           | Inr cs \<Rightarrow> Inr (case x of None \<Rightarrow> cs | Some c \<Rightarrow> c # cs)))"

definition walk_of :: "(foundBundle \<times> fbc_deprecation option) list \<Rightarrow> walk_state" where
  "walk_of cs =
     \<lparr>resolvedBundles = map fst (preferred cs),
      priorDeprecation = (if cs = [] then None else snd (last (preferred cs)))\<rparr>"

definition unique_top :: "foundBundle list \<Rightarrow> foundBundle \<Rightarrow> bool" where
  "unique_top found x \<longleftrightarrow>
     (\<exists>pre post. found = pre @ x # post \<and> (\<forall>y \<in> set (pre @ post). fb_priority y < fb_priority x))"

section \<open>Lemmas\<close>

subsection \<open>The order of candidates\<close>

lemma isDeprecated_Some [simp]: "isDeprecated b (Some d) \<longleftrightarrow> b_Name b \<in> deprecatedBundles d"
  by (force simp: isDeprecated_def deprecatedBundles_def list_ex_iff image_iff)

lemma isDeprecated_None [simp]: "\<not> isDeprecated b None"
  by (simp add: isDeprecated_def)

lemma candidate_order_eq:
  "candidate_order brs d a b =
     cmp_or (go_compare (isDeprecated a d) (isDeprecated b d)) (ByVersionAndRelease brs a b)"
  by (cases d) (auto simp: candidate_order_def cmp_or_def ByDeprecationFunc_eq Let_def)

lemma comparison_candidate_order: "comparison (candidate_order brs d)"
  unfolding candidate_order_eq [abs_def]
  by (intro comparison_lex comparison_ByVersionAndRelease comparison_pullback [OF comparison_go_compare])

interpretation cand_cmp: comparison "candidate_order brs d" for brs d
  by (rule comparison_candidate_order)

lemma comparison_by_priority: "comparison by_priority"
  unfolding by_priority_def [abs_def]
  by (rule comparison_flip [OF comparison_pullback [OF comparison_go_compare, of fb_priority]])

interpretation prio_cmp: comparison by_priority
  by (rule comparison_by_priority)

subsection \<open>The walk implements the specification\<close>

lemma preferred_not_Nil [simp]: "preferred cs = [] \<longleftrightarrow> cs = []"
  by (auto simp: preferred_def list_ex_iff filter_empty_conv)

lemma preferred_subset: "set (preferred cs) \<subseteq> set cs"
  by (auto simp: preferred_def)

lemma preferred_last_deprecated:
  assumes "cs \<noteq> []"
  shows "not_deprecated (last (preferred cs)) \<longleftrightarrow> list_ex not_deprecated cs"
proof -
  have "last (preferred cs) \<in> set (preferred cs)" using assms by simp
  then show ?thesis by (auto simp: preferred_def list_ex_iff split: if_splits)
qed

lemma preferred_snoc:
  "preferred (cs @ [c]) =
     (if cs \<noteq> [] \<and> \<not> not_deprecated c \<and> list_ex not_deprecated cs then preferred cs
      else if cs \<noteq> [] \<and> not_deprecated c \<and> \<not> list_ex not_deprecated cs then [c]
      else preferred cs @ [c])"
proof -
  have "\<not> list_ex not_deprecated cs \<Longrightarrow> filter not_deprecated cs = []"
    by (auto simp: list_ex_iff filter_empty_conv)
  then show ?thesis by (auto simp: preferred_def)
qed

lemma last_resolved_deprecated:
  assumes "cs \<noteq> []"
  shows "isDeprecated (fb_bundle (last (map fst (preferred cs)))) (snd (last (preferred cs))) \<longleftrightarrow>
    \<not> list_ex not_deprecated cs"
  using preferred_last_deprecated [OF assms] assms by (auto simp: not_deprecated_def last_map)

lemma merge_candidate_spec: "merge_candidate c (walk_of cs) = walk_of (cs @ [c])"
proof (cases "cs = []")
  case True
  then show ?thesis by (cases c) (simp add: merge_candidate_def walk_of_def preferred_def)
next
  case False
  have c: "isDeprecated (fb_bundle (fst c)) (snd c) \<longleftrightarrow> \<not> not_deprecated c"
    by (simp add: not_deprecated_def)
  show ?thesis
    using False last_resolved_deprecated [OF False] c
    by (cases c) (auto simp: merge_candidate_def walk_of_def preferred_snoc Let_def)
qed

lemma walk_catalogs_spec:
  assumes "\<And>cat st. f cat st =
     (case g cat of Inl e \<Rightarrow> Inl e | Inr None \<Rightarrow> Inr st | Inr (Some c) \<Rightarrow> Inr (merge_candidate c st))"
  shows "walk_catalogs f cats (walk_of cs) =
     (case candidates g cats of Inl e \<Rightarrow> Inl e | Inr cs' \<Rightarrow> Inr (walk_of (cs @ cs')))"
proof (induction cats arbitrary: cs)
  case (Cons cat cats)
  show ?case
  proof (cases "g cat")
    case (Inr x)
    then show ?thesis
      using Cons assms by (cases x) (auto simp: merge_candidate_spec split: sum.splits)
  qed (simp add: assms)
qed simp

lemma walk_of_Nil: "walk_of [] = \<lparr>resolvedBundles = [], priorDeprecation = None\<rparr>"
  by (simp add: walk_of_def preferred_def)

lemma candidates_mem:
  "candidates f cats = Inr cs \<Longrightarrow> c \<in> set cs \<longleftrightarrow> (\<exists>cat \<in> set cats. f cat = Inr (Some c))"
  by (induction cats arbitrary: cs) (auto split: sum.splits option.splits)

subsection \<open>Priority\<close>

lemma by_priority_le [simp]: "by_priority a b \<le> 0 \<longleftrightarrow> fb_priority b \<le> fb_priority a"
  by (simp add: by_priority_def)

lemma unique_top_mset:
  "unique_top found x \<longleftrightarrow> (\<exists>M. mset found = add_mset x M \<and> (\<forall>y \<in># M. fb_priority y < fb_priority x))"
proof
  assume "unique_top found x"
  then obtain pre post where "found = pre @ x # post"
    and "\<forall>y \<in> set (pre @ post). fb_priority y < fb_priority x" by (auto simp: unique_top_def)
  then show "\<exists>M. mset found = add_mset x M \<and> (\<forall>y \<in># M. fb_priority y < fb_priority x)"
    by (intro exI [of _ "mset (pre @ post)"]) auto
next
  assume "\<exists>M. mset found = add_mset x M \<and> (\<forall>y \<in># M. fb_priority y < fb_priority x)"
  then obtain M where M: "mset found = add_mset x M" "\<forall>y \<in># M. fb_priority y < fb_priority x" by blast
  then have "x \<in> set found" by (metis set_mset_mset union_single_eq_member)
  then obtain pre post where f: "found = pre @ x # post" by (meson split_list)
  then have "mset (pre @ post) = M" using M(1) by simp
  then have "set (pre @ post) = set_mset M" by (metis set_mset_mset)
  with f M(2) show "unique_top found x" unfolding unique_top_def by blast
qed

lemma resolve_priority_single: "resolve_priority found = [x] \<longleftrightarrow> unique_top found x"
proof (cases "length found > 1")
  case False
  then consider "found = []" | y where "found = [y]" by (cases found) auto
  then show ?thesis
    by cases (auto simp: resolve_priority_def unique_top_mset)
next
  case True
  then have len: "length (sort_by by_priority found) > 1"
    by (simp add: prio_cmp.length_sort_by)
  then obtain s0 s1 rest where s: "sort_by by_priority found = s0 # s1 # rest"
    by (metis One_nat_def Suc_less_eq length_Cons list.exhaust list.size(3) not_less_zero zero_less_Suc)
  have sorted: "\<forall>y \<in> set (s1 # rest). fb_priority y \<le> fb_priority s0"
    "\<forall>y \<in> set rest. fb_priority y \<le> fb_priority s1"
    using prio_cmp.sorted_sort_by [of found] s by auto
  have m: "mset found = add_mset s0 (mset (s1 # rest))"
    using prio_cmp.mset_sort_by [of found] s by simp
  have top: "unique_top found x \<longleftrightarrow> fb_priority s0 \<noteq> fb_priority s1 \<and> x = s0"
  proof
    assume "unique_top found x"
    then obtain M where M: "mset found = add_mset x M" "\<forall>y \<in># M. fb_priority y < fb_priority x"
      by (auto simp: unique_top_mset)
    have "x = s0"
    proof (rule ccontr)
      assume "x \<noteq> s0"
      moreover have "add_mset x M = add_mset s0 (mset (s1 # rest))" using M(1) m by simp
      ultimately obtain K where "M = add_mset s0 K" and K: "mset (s1 # rest) = add_mset x K"
        unfolding add_eq_conv_ex by blast
      moreover have "x \<in> set (s1 # rest)"
        using K by (metis set_mset_mset union_single_eq_member)
      ultimately show False using M(2) sorted(1) by fastforce
    qed
    moreover have "s1 \<in># M" using M(1) m \<open>x = s0\<close> by auto
    ultimately show "fb_priority s0 \<noteq> fb_priority s1 \<and> x = s0" using M(2) by auto
  next
    assume a: "fb_priority s0 \<noteq> fb_priority s1 \<and> x = s0"
    then have "fb_priority s1 < fb_priority s0" using sorted(1) by auto
    then have "\<forall>y \<in> set (s1 # rest). fb_priority y < fb_priority s0" using sorted(2) by auto
    then show "unique_top found x" using m a by (auto simp: unique_top_mset)
  qed
  show ?thesis
    unfolding top using True s by (auto simp: resolve_priority_def Let_def)
qed

subsection \<open>What a resolution returns\<close>

lemma walk_fn_spec:
  "CatalogWalker ls gp p (walk_fn env cf rng inst) sel \<lparr>resolvedBundles = [], priorDeprecation = None\<rparr> =
     (case ls sel of
        Inl e \<Rightarrow> Inl (ErrWrap ''error listing catalogs: '' e '''')
      | Inr cats \<Rightarrow>
          (case candidates (\<lambda>cat. best_candidate env cf rng inst cat (gp cat p)) (enabled_catalogs cats) of
             Inl e \<Rightarrow> Inl e
           | Inr cs \<Rightarrow> Inr (walk_of cs)))"
proof (cases "ls sel")
  case (Inr cats)
  let ?g = "\<lambda>cat. best_candidate env cf rng inst cat (gp cat p)"
  have "walk_fn env cf rng inst cat (gp cat p) st =
     (case ?g cat of Inl e \<Rightarrow> Inl e | Inr None \<Rightarrow> Inr st | Inr (Some c) \<Rightarrow> Inr (merge_candidate c st))"
    for cat st
    by (simp add: walk_fn_def split: sum.split option.split)
  from walk_catalogs_spec [of "\<lambda>cat. walk_fn env cf rng inst cat (gp cat p)", OF this, of _ "[]"] Inr
  show ?thesis by (simp add: CatalogWalker_def walk_of_Nil split: sum.split)
qed (simp add: CatalogWalker_def)

lemma finish_Inr:
  assumes "finish_resolution env cf inst st = Inr (b, vr, d)"
  shows "\<exists>x. unique_top (resolvedBundles st) x \<and> b = fb_bundle x \<and>
     GetVersionAndRelease (re_brs env) b = Inr vr \<and> run_validations (re_Validations env) b = None \<and>
     d = priorDeprecation st"
proof -
  obtain x where "resolve_priority (resolvedBundles st) = [x]"
    using assms by (auto simp: finish_resolution_def split: list.splits)
  moreover from this have "unique_top (resolvedBundles st) x"
    by (simp only: resolve_priority_single)
  ultimately show ?thesis
    using assms by (auto simp: finish_resolution_def split: sum.splits option.splits)
qed

lemma resolve_Inr:
  assumes "resolve_catalog env cf inst = Inr (b, vr, d)"
  obtains sel rng cats cs x where
    "desired_selector env cf = Inr sel" "desired_range env cf = Inr rng"
    "re_listCatalogs env sel = Inr cats"
    "candidates (\<lambda>cat. best_candidate env cf rng inst cat (re_getPackage env cat (cf_PackageName cf)))
       (enabled_catalogs cats) = Inr cs"
    "unique_top (map fst (preferred cs)) x" "b = fb_bundle x"
    "GetVersionAndRelease (re_brs env) b = Inr vr" "run_validations (re_Validations env) b = None"
    "d = snd (last (preferred cs))"
proof -
  obtain sel where sel: "desired_selector env cf = Inr sel"
    using assms by (auto simp: resolve_catalog_def split: sum.splits)
  obtain rng where rng: "desired_range env cf = Inr rng"
    using assms sel by (auto simp: resolve_catalog_def split: sum.splits)
  obtain cats where cats: "re_listCatalogs env sel = Inr cats"
    using assms sel rng by (auto simp: resolve_catalog_def walk_fn_spec split: sum.splits)
  obtain cs where cs: "candidates (\<lambda>cat. best_candidate env cf rng inst cat
      (re_getPackage env cat (cf_PackageName cf))) (enabled_catalogs cats) = Inr cs"
    using assms sel rng cats by (auto simp: resolve_catalog_def walk_fn_spec split: sum.splits)
  have f: "finish_resolution env cf inst (walk_of cs) = Inr (b, vr, d)"
    using assms sel rng cats cs by (simp add: resolve_catalog_def walk_fn_spec)
  then obtain x where x: "unique_top (map fst (preferred cs)) x" "b = fb_bundle x"
    "GetVersionAndRelease (re_brs env) b = Inr vr" "run_validations (re_Validations env) b = None"
    "d = priorDeprecation (walk_of cs)"
    using finish_Inr by (fastforce simp: walk_of_def)
  moreover have "cs \<noteq> []" using x(1) by (auto simp: unique_top_def preferred_def)
  ultimately show ?thesis using that sel rng cats cs by (simp add: walk_of_def)
qed

text \<open>The candidate of a catalog is admissible and the best of the admissible bundles there.\<close>

definition admissible ::
  "resolver_env \<Rightarrow> catalog_filter \<Rightarrow> (version \<Rightarrow> bool) option \<Rightarrow> bundle_metadata option \<Rightarrow>
   declarative_config \<Rightarrow> fbc_bundle \<Rightarrow> bool" where
  "admissible env cf rng inst fbc b \<longleftrightarrow>
     b \<in> set (fbc_Bundles fbc) \<and>
     (cf_Channels cf \<noteq> [] \<longrightarrow>
        (\<exists>ch \<in> set (fbc_Channels fbc). ch_Name ch \<in> set (cf_Channels cf) \<and>
           (\<exists>e \<in> set (ch_Entries ch). ce_Name e = b_Name b))) \<and>
     (\<forall>r. rng = Some r \<longrightarrow> InSemverRange (re_brs env) r b) \<and>
     (\<forall>i. inst = Some i \<and> cf_UpgradeConstraintPolicy cf \<noteq> UpgradeConstraintPolicySelfCertified \<longrightarrow>
        (\<exists>succ. SuccessorsOf (re_libs env) (re_brs env) i
            (if cf_Channels cf \<noteq> [] then filter (\<lambda>c. ch_Name c \<in> set (cf_Channels cf)) (fbc_Channels fbc)
             else fbc_Channels fbc) = Inr succ \<and> succ b))"

lemma bundle_predicates_admissible:
  assumes "bundle_predicates env cf rng inst fbc = Inr ps"
  shows "b \<in> set (filter (filter_And ps) (fbc_Bundles fbc)) \<longleftrightarrow> admissible env cf rng inst fbc b"
proof -
  let ?sel = "filter (\<lambda>c. ch_Name c \<in> set (cf_Channels cf)) (fbc_Channels fbc)"
  have zero: "ch_Entries zero_channel = []" by (simp add: zero_channel_def)
  have del: "slices_DeleteFunc zero_channel (fbc_Channels fbc) (\<lambda>c. ch_Name c \<notin> set (cf_Channels cf)) =
      (?sel, ?sel @ replicate (length (fbc_Channels fbc) - length ?sel) zero_channel)"
    by (simp add: slices_DeleteFunc_def Let_def)
  have chan: "InAnyChannel ?sel b \<longleftrightarrow>
      (\<exists>ch \<in> set (fbc_Channels fbc). ch_Name ch \<in> set (cf_Channels cf) \<and>
         (\<exists>e \<in> set (ch_Entries ch). ce_Name e = b_Name b))"
    by (auto simp: InAnyChannel_def list_ex_iff)
  show ?thesis
    using assms
    by (auto simp: bundle_predicates_def del chan [symmetric] admissible_def
        SuccessorsOf_zeroed [OF zero] Let_def split: if_splits option.splits sum.splits)
qed

lemma best_candidate_Inr:
  assumes "best_candidate env cf rng inst cat pkg = Inr (Some (x, d))"
  obtains fbc where "pkg = Inr (Some fbc)" "d = this_deprecation fbc"
    "fb_catalog x = meta_Name (cc_Meta cat)" "fb_priority x = ccs_Priority (cc_Spec cat)"
    "admissible env cf rng inst fbc (fb_bundle x)"
    "\<And>b. admissible env cf rng inst fbc b \<Longrightarrow> candidate_order (re_brs env) d (fb_bundle x) b \<le> 0"
proof -
  obtain fbc where pkg: "pkg = Inr (Some fbc)"
    using assms by (auto simp: best_candidate_def split: sum.splits option.splits)
  obtain ps where ps: "bundle_predicates env cf rng inst fbc = Inr ps"
    using assms pkg by (auto simp: best_candidate_def split: sum.splits if_splits)
  let ?bs = "filter (filter_And ps) (fbc_Bundles fbc)"
  let ?ord = "candidate_order (re_brs env) (this_deprecation fbc)"
  obtain hd rest where s: "sort_by ?ord ?bs = hd # rest"
    and x: "x = \<lparr>fb_bundle = hd, fb_catalog = meta_Name (cc_Meta cat), fb_priority = ccs_Priority (cc_Spec cat)\<rparr>"
    and d: "d = this_deprecation fbc"
    using assms pkg ps by (auto simp: best_candidate_def Let_def split: if_splits list.splits)
  have "hd \<in> set ?bs" using s cand_cmp.set_sort_by by (metis list.set_intros(1))
  moreover have "candidate_order (re_brs env) d hd b \<le> 0" if "b \<in> set ?bs" for b
    using cand_cmp.hd_sort_by_least [OF that, of "re_brs env" "this_deprecation fbc"] s d by simp
  ultimately show ?thesis
    using that [OF pkg d] x bundle_predicates_admissible [OF ps] by simp
qed

lemma run_validations_None: "run_validations vs b = None \<longleftrightarrow> (\<forall>v \<in> set vs. v b = None)"
  by (induction vs) (auto split: option.splits)

lemma best_candidate_exists:
  assumes "best_candidate env cf rng inst cat (Inr (Some fbc)) = Inr x"
    and "admissible env cf rng inst fbc b"
  shows "\<exists>c. x = Some (c, this_deprecation fbc)"
proof -
  have "fbc_Bundles fbc \<noteq> []" using assms(2) by (auto simp: admissible_def)
  then have ne: "\<not> isFBCEmpty (Some fbc)" by (simp add: isFBCEmpty_def)
  then obtain ps where ps: "bundle_predicates env cf rng inst fbc = Inr ps"
    using assms(1) by (auto simp: best_candidate_def split: sum.splits)
  let ?s = "sort_by (candidate_order (re_brs env) (this_deprecation fbc)) (filter (filter_And ps) (fbc_Bundles fbc))"
  have "?s \<noteq> []"
    using bundle_predicates_admissible [OF ps, of b] assms(2) by (auto simp: filter_empty_conv)
  then show ?thesis
    using assms(1) ne ps by (auto simp: best_candidate_def Let_def split: list.splits)
qed

lemma candidate_order_le:
  "candidate_order brs d a b \<le> 0 \<Longrightarrow>
     (isDeprecated a d \<longrightarrow> isDeprecated b d) \<and>
     (isDeprecated a d = isDeprecated b d \<longrightarrow> ByVersionAndRelease brs a b \<le> 0)"
  by (auto simp: candidate_order_eq cmp_or_def go_compare_def split: if_splits)

lemma ByVersionAndRelease_le:
  "GetVersionAndRelease brs a = Inr v \<Longrightarrow> ByVersionAndRelease brs a b \<le> 0 \<Longrightarrow>
   GetVersionAndRelease brs b = Inr w \<Longrightarrow> VersionRelease_Compare w v \<le> 0"
  by (simp add: ByVersionAndRelease_def)

text \<open>The catalog a resolution came from, with the facts the properties below share.\<close>

lemma resolve_source:
  assumes "resolve_catalog env cf inst = Inr (b, vr, d)"
  obtains sel rng cats cs x dx cat fbc where
    "desired_selector env cf = Inr sel" "desired_range env cf = Inr rng"
    "re_listCatalogs env sel = Inr cats"
    "candidates (\<lambda>cat. best_candidate env cf rng inst cat (re_getPackage env cat (cf_PackageName cf)))
       (enabled_catalogs cats) = Inr cs"
    "unique_top (map fst (preferred cs)) x" "b = fb_bundle x" "(x, dx) \<in> set (preferred cs)"
    "cat \<in> set (enabled_catalogs cats)"
    "best_candidate env cf rng inst cat (re_getPackage env cat (cf_PackageName cf)) = Inr (Some (x, dx))"
    "re_getPackage env cat (cf_PackageName cf) = Inr (Some fbc)" "dx = this_deprecation fbc"
    "fb_catalog x = meta_Name (cc_Meta cat)" "fb_priority x = ccs_Priority (cc_Spec cat)"
    "admissible env cf rng inst fbc b"
    "\<And>b'. admissible env cf rng inst fbc b' \<Longrightarrow> candidate_order (re_brs env) dx b b' \<le> 0"
proof -
  from assms obtain sel rng cats cs x where r:
    "desired_selector env cf = Inr sel" "desired_range env cf = Inr rng"
    "re_listCatalogs env sel = Inr cats"
    "candidates (\<lambda>cat. best_candidate env cf rng inst cat (re_getPackage env cat (cf_PackageName cf)))
       (enabled_catalogs cats) = Inr cs"
    "unique_top (map fst (preferred cs)) x" "b = fb_bundle x"
    by (rule resolve_Inr) blast
  from r(5) have "x \<in> set (map fst (preferred cs))"
    unfolding unique_top_def by (metis in_set_conv_decomp)
  then obtain dx where dx: "(x, dx) \<in> set (preferred cs)" by auto
  then have "(x, dx) \<in> set cs" using preferred_subset by blast
  then obtain cat where cat: "cat \<in> set (enabled_catalogs cats)"
    "best_candidate env cf rng inst cat (re_getPackage env cat (cf_PackageName cf)) = Inr (Some (x, dx))"
    using candidates_mem [OF r(4)] by blast
  from cat(2) obtain fbc where "re_getPackage env cat (cf_PackageName cf) = Inr (Some fbc)"
    "dx = this_deprecation fbc" "fb_catalog x = meta_Name (cc_Meta cat)"
    "fb_priority x = ccs_Priority (cc_Spec cat)" "admissible env cf rng inst fbc (fb_bundle x)"
    "\<And>b'. admissible env cf rng inst fbc b' \<Longrightarrow> candidate_order (re_brs env) dx (fb_bundle x) b' \<le> 0"
    by (rule best_candidate_Inr) blast
  with that r dx cat show ?thesis by blast
qed

lemma candidates_all_Inr:
  "candidates f cats = Inr cs \<Longrightarrow> cat \<in> set cats \<Longrightarrow> \<exists>x. f cat = Inr x"
  by (induction cats arbitrary: cs) (auto split: sum.splits)

lemma other_candidate:
  assumes cs: "candidates (\<lambda>cat. best_candidate env cf rng inst cat (re_getPackage env cat p)) cats = Inr cs"
    and cat: "cat \<in> set cats" and fbc: "re_getPackage env cat p = Inr (Some fbc)"
    and adm: "admissible env cf rng inst fbc b"
  obtains y where "(y, this_deprecation fbc) \<in> set cs" "fb_catalog y = meta_Name (cc_Meta cat)"
    "fb_priority y = ccs_Priority (cc_Spec cat)"
    "candidate_order (re_brs env) (this_deprecation fbc) (fb_bundle y) b \<le> 0"
proof -
  from candidates_all_Inr [OF cs cat] fbc obtain x where
    x: "best_candidate env cf rng inst cat (Inr (Some fbc)) = Inr x" by auto
  then obtain y where y: "x = Some (y, this_deprecation fbc)"
    using best_candidate_exists adm by blast
  moreover have "best_candidate env cf rng inst cat (re_getPackage env cat p) =
      Inr (Some (y, this_deprecation fbc))"
    using x y fbc by simp
  ultimately have "(y, this_deprecation fbc) \<in> set cs"
    using candidates_mem [OF cs] cat by blast
  moreover from x y obtain fbc' where "Inr (Some fbc) = (Inr (Some fbc') :: declarative_config option result)"
    "fb_catalog y = meta_Name (cc_Meta cat)" "fb_priority y = ccs_Priority (cc_Spec cat)"
    "\<And>b'. admissible env cf rng inst fbc' b' \<Longrightarrow>
       candidate_order (re_brs env) (this_deprecation fbc) (fb_bundle y) b' \<le> 0"
    by (auto elim: best_candidate_Inr)
  ultimately show ?thesis using that adm by blast
qed

section \<open>A sample cluster\<close>

text \<open>
  Two catalogs with the same package at different priorities, in the first of which the package
  is deprecated. It instantiates the parameters for the properties below.
\<close>

definition ex_meta :: "string \<Rightarrow> object_meta" where
  "ex_meta n =
     \<lparr>meta_Name = n, meta_Namespace = '''', meta_UID = n, meta_Generation = 1,
      meta_Labels = Map.empty, meta_Annotations = Map.empty, meta_OwnerReferences = [],
      meta_Finalizers = [], meta_CreationTimestamp = 0, meta_DeletionTimestamp = None\<rparr>"

definition ex_bundle :: "string \<Rightarrow> string \<Rightarrow> fbc_bundle" where
  "ex_bundle n v =
     \<lparr>b_Name = n, b_Package = ''p'', b_Image = n, b_Properties =
        [\<lparr>prop_Type = PropertyTypePackage,
          prop_Value = JObj [(''packageName'', JStr ''p''), (''version'', JStr v)]\<rparr>]\<rparr>"

definition ex_catalog :: "string \<Rightarrow> int \<Rightarrow> cluster_catalog" where
  "ex_catalog n p =
     \<lparr>cc_Meta = ex_meta n,
      cc_Spec = \<lparr>ccs_Source = \<lparr>cs_Type = ''Image'', cs_Image = None\<rparr>, ccs_Priority = p,
        ccs_AvailabilityMode = AvailabilityModeAvailable\<rparr>,
      cc_Status = \<lparr>ccst_Conditions = [], ccst_ResolvedSource = None, ccst_URLs = None,
        ccst_LastUnpacked = None\<rparr>\<rparr>"

definition ex_dep :: fbc_deprecation where
  "ex_dep = \<lparr>dep_Package = ''p'', dep_Entries =
     [\<lparr>de_Schema = SchemaPackage, de_Name = '''', de_Message = ''old''\<rparr>]\<rparr>"

definition ex_fbc :: "fbc_deprecation list \<Rightarrow> declarative_config" where
  "ex_fbc ds =
     \<lparr>fbc_Packages = [''p''],
      fbc_Channels = [\<lparr>ch_Name = ''stable'', ch_Package = ''p'', ch_Entries =
         [\<lparr>ce_Name = ''p.v1'', ce_Replaces = '''', ce_Skips = [], ce_SkipRange = ''''\<rparr>,
          \<lparr>ce_Name = ''p.v2'', ce_Replaces = ''p.v1'', ce_Skips = [], ce_SkipRange = ''''\<rparr>]\<rparr>],
      fbc_Bundles = [ex_bundle ''p.v1'' ''1.0.0'', ex_bundle ''p.v2'' ''2.0.0''],
      fbc_Deprecations = ds, fbc_Others = []\<rparr>"

definition ex_env :: resolver_env where
  "ex_env =
     \<lparr>re_libs = \<lparr>mm_NewConstraint = (\<lambda>s. Inr (\<lambda>v. mm_Major v \<ge> 1)),
        bsemver_ParseRange = (\<lambda>s. Inl (ErrText ''no range''))\<rparr>,
      re_brs = False,
      re_LabelSelectorAsSelector = (\<lambda>s. Inr SelEverything),
      re_listCatalogs = (\<lambda>s. Inr [ex_catalog ''a'' 10, ex_catalog ''b'' 0]),
      re_getPackage =
        (\<lambda>c p. Inr (Some (ex_fbc (if meta_Name (cc_Meta c) = ''a'' then [ex_dep] else [])))),
      re_Validations = [NoDependencyValidation]\<rparr>"

definition ex_filter :: catalog_filter where
  "ex_filter =
     \<lparr>cf_PackageName = ''p'', cf_Version = ''>=1'', cf_Channels = [''stable''], cf_Selector = None,
      cf_UpgradeConstraintPolicy = UpgradeConstraintPolicyCatalogProvided\<rparr>"

definition ex_installed :: bundle_metadata where
  "ex_installed = \<lparr>bm_Name = ''p.v1'', bm_Version = ''1.0.0'', bm_Release = None\<rparr>"

definition ex_ext :: cluster_extension where
  "ex_ext =
     \<lparr>ext_Meta = ex_meta ''e'',
      ext_Spec = \<lparr>exts_Namespace = ''ns'', exts_ServiceAccount = ''sa'',
        exts_Source = \<lparr>src_SourceType = ''Catalog'', src_Catalog = Some ex_filter\<rparr>,
        exts_Install = None, exts_Config = None, exts_ProgressDeadlineMinutes = 0\<rparr>,
      ext_Status = \<lparr>extst_Conditions = [], extst_Install = None, extst_ActiveRevisions = []\<rparr>\<rparr>"

definition ex_vr :: "64 word \<Rightarrow> version_release" where
  "ex_vr n = \<lparr>vr_Version = \<lparr>Major = n, Minor = 0, Patch = 0, Pre = [], Build = []\<rparr>, vr_Release = None\<rparr>"

lemma ex_resolves:
  "resolve_catalog ex_env ex_filter (Some ex_installed) = Inr (ex_bundle ''p.v2'' ''2.0.0'', ex_vr 2, None)"
  by code_simp

lemma ex_Resolve:
  "Resolve ex_env ex_ext (Some ex_installed) = Some (Inr (ex_bundle ''p.v2'' ''2.0.0'', ex_vr 2, None))"
  by (simp add: Resolve_def ex_ext_def ex_resolves)

section \<open>Properties\<close>

text \<open>
  C1: Whenever \<open>Resolve\<close> returns a bundle, that bundle comes from an enabled catalog of those the
  selector lists; it is in one of the requested channels, in the requested version range, and,
  unless the policy is SelfCertified, either a successor of the installed bundle along the
  channels that were requested or the installed version itself; it passes every validation; and
  the version returned is the bundle's own.
\<close>

theorem resolve_sound:
  assumes "Resolve env ext inst = Some (Inr (b, vr, d))"
  shows "\<exists>cf sel rng cats cat fbc.
     src_Catalog (exts_Source (ext_Spec ext)) = Some cf \<and>
     desired_selector env cf = Inr sel \<and> desired_range env cf = Inr rng \<and>
     re_listCatalogs env sel = Inr cats \<and> cat \<in> set cats \<and>
     ccs_AvailabilityMode (cc_Spec cat) \<noteq> AvailabilityModeUnavailable \<and>
     re_getPackage env cat (cf_PackageName cf) = Inr (Some fbc) \<and>
     admissible env cf rng inst fbc b \<and>
     (\<forall>v \<in> set (re_Validations env). v b = None) \<and>
     GetVersionAndRelease (re_brs env) b = Inr vr"
proof -
  from assms obtain cf where cf: "src_Catalog (exts_Source (ext_Spec ext)) = Some cf"
    and r: "resolve_catalog env cf inst = Inr (b, vr, d)"
    by (auto simp: Resolve_def split: option.splits)
  from r obtain sel rng cats cat fbc where
    "desired_selector env cf = Inr sel" "desired_range env cf = Inr rng" "re_listCatalogs env sel = Inr cats"
    "cat \<in> set (enabled_catalogs cats)" "re_getPackage env cat (cf_PackageName cf) = Inr (Some fbc)"
    "admissible env cf rng inst fbc b"
    by (rule resolve_source) blast
  moreover from r have "run_validations (re_Validations env) b = None"
    "GetVersionAndRelease (re_brs env) b = Inr vr" by (auto elim: resolve_Inr)
  ultimately show ?thesis
    using cf unfolding run_validations_None enabled_catalogs_def by (intro exI conjI) auto
qed

theorem resolve_sound_witness:
  "\<exists>cf sel rng cats cat fbc.
     src_Catalog (exts_Source (ext_Spec ex_ext)) = Some cf \<and>
     desired_selector ex_env cf = Inr sel \<and> desired_range ex_env cf = Inr rng \<and>
     re_listCatalogs ex_env sel = Inr cats \<and> cat \<in> set cats \<and>
     ccs_AvailabilityMode (cc_Spec cat) \<noteq> AvailabilityModeUnavailable \<and>
     re_getPackage ex_env cat (cf_PackageName cf) = Inr (Some fbc) \<and>
     admissible ex_env cf rng (Some ex_installed) fbc (ex_bundle ''p.v2'' ''2.0.0'') \<and>
     (\<forall>v \<in> set (re_Validations ex_env). v (ex_bundle ''p.v2'' ''2.0.0'') = None) \<and>
     GetVersionAndRelease (re_brs ex_env) (ex_bundle ''p.v2'' ''2.0.0'') = Inr (ex_vr 2)"
  by (rule resolve_sound [OF ex_Resolve])

text \<open>
  C2: The resolved bundle is optimal. If it is deprecated in its catalog, then so is every
  admissible bundle of every enabled catalog; and among the admissible bundles of its own catalog
  with the same deprecation status none has a higher version and release.
\<close>

theorem resolve_optimal:
  assumes "resolve_catalog env cf inst = Inr (b, vr, d)"
  shows "\<exists>sel rng cats cat fbc.
     desired_selector env cf = Inr sel \<and> desired_range env cf = Inr rng \<and>
     re_listCatalogs env sel = Inr cats \<and> cat \<in> set (enabled_catalogs cats) \<and>
     re_getPackage env cat (cf_PackageName cf) = Inr (Some fbc) \<and> admissible env cf rng inst fbc b \<and>
     (isDeprecated b (this_deprecation fbc) \<longrightarrow>
        (\<forall>cat' \<in> set (enabled_catalogs cats). \<forall>fbc' b'.
           re_getPackage env cat' (cf_PackageName cf) = Inr (Some fbc') \<longrightarrow>
           admissible env cf rng inst fbc' b' \<longrightarrow> isDeprecated b' (this_deprecation fbc'))) \<and>
     (\<forall>b' w. admissible env cf rng inst fbc b' \<longrightarrow>
        isDeprecated b' (this_deprecation fbc) = isDeprecated b (this_deprecation fbc) \<longrightarrow>
        GetVersionAndRelease (re_brs env) b' = Inr w \<longrightarrow> VersionRelease_Compare w vr \<le> 0)"
proof -
  from assms have vr: "GetVersionAndRelease (re_brs env) b = Inr vr" by (auto elim: resolve_Inr)
  from assms obtain sel rng cats cs x dx cat fbc where
    s: "desired_selector env cf = Inr sel" "desired_range env cf = Inr rng" "re_listCatalogs env sel = Inr cats"
    and cs: "candidates (\<lambda>cat. best_candidate env cf rng inst cat
       (re_getPackage env cat (cf_PackageName cf))) (enabled_catalogs cats) = Inr cs"
    and x: "b = fb_bundle x" "(x, dx) \<in> set (preferred cs)" and cat: "cat \<in> set (enabled_catalogs cats)"
    and fbc: "re_getPackage env cat (cf_PackageName cf) = Inr (Some fbc)" "dx = this_deprecation fbc"
    and adm: "admissible env cf rng inst fbc b"
    and best: "\<And>b'. admissible env cf rng inst fbc b' \<Longrightarrow> candidate_order (re_brs env) dx b b' \<le> 0"
    by (rule resolve_source) blast
  have "isDeprecated b' (this_deprecation fbc')"
    if dep: "isDeprecated b (this_deprecation fbc)" and c: "cat' \<in> set (enabled_catalogs cats)"
      "re_getPackage env cat' (cf_PackageName cf) = Inr (Some fbc')" "admissible env cf rng inst fbc' b'"
    for cat' fbc' b'
  proof -
    have "\<not> list_ex not_deprecated cs"
      using dep x fbc(2) by (auto simp: preferred_def not_deprecated_def split: if_splits)
    moreover from cs c obtain y where "(y, this_deprecation fbc') \<in> set cs"
      and y: "candidate_order (re_brs env) (this_deprecation fbc') (fb_bundle y) b' \<le> 0"
      by (rule other_candidate) blast
    ultimately have "isDeprecated (fb_bundle y) (this_deprecation fbc')"
      by (force simp: list_ex_iff not_deprecated_def)
    then show ?thesis using candidate_order_le [OF y] by blast
  qed
  moreover have "VersionRelease_Compare w vr \<le> 0"
    if "admissible env cf rng inst fbc b'"
      "isDeprecated b' (this_deprecation fbc) = isDeprecated b (this_deprecation fbc)"
      "GetVersionAndRelease (re_brs env) b' = Inr w" for b' w
    using candidate_order_le [OF best [OF that(1)]] that(2,3) fbc(2) ByVersionAndRelease_le [OF vr] by blast
  ultimately show ?thesis using s cat fbc(1) adm by blast
qed

theorem resolve_optimal_witness:
  "\<exists>sel rng cats cat fbc.
     desired_selector ex_env ex_filter = Inr sel \<and> desired_range ex_env ex_filter = Inr rng \<and>
     re_listCatalogs ex_env sel = Inr cats \<and> cat \<in> set (enabled_catalogs cats) \<and>
     re_getPackage ex_env cat (cf_PackageName ex_filter) = Inr (Some fbc) \<and>
     admissible ex_env ex_filter rng (Some ex_installed) fbc (ex_bundle ''p.v2'' ''2.0.0'')"
  using resolve_optimal [OF ex_resolves] by blast

text \<open>
  C3: Resolution across catalogs implements the stateless specification: when the candidates of
  the enabled catalogs can be determined, a bundle is returned exactly when one candidate among the
  preferred ones has strictly the highest priority, its version can be read and it passes the
  validations; otherwise the result is an error.
\<close>

theorem resolve_refines_choice:
  assumes "desired_selector env cf = Inr sel" and "desired_range env cf = Inr rng"
    and "re_listCatalogs env sel = Inr cats"
    and "candidates (\<lambda>cat. best_candidate env cf rng inst cat (re_getPackage env cat (cf_PackageName cf)))
       (enabled_catalogs cats) = Inr cs"
  shows "(\<exists>d. resolve_catalog env cf inst = Inr (b, vr, d)) \<longleftrightarrow>
     (\<exists>x. unique_top (map fst (preferred cs)) x \<and> b = fb_bundle x \<and>
        GetVersionAndRelease (re_brs env) b = Inr vr \<and> run_validations (re_Validations env) b = None)"
    (is "?L \<longleftrightarrow> ?R")
proof
  assume ?L
  then obtain d where "resolve_catalog env cf inst = Inr (b, vr, d)" ..
  then show ?R using assms by (auto elim!: resolve_Inr)
next
  assume ?R
  then obtain x where "resolve_priority (map fst (preferred cs)) = [x]" and b: "b = fb_bundle x"
    and "GetVersionAndRelease (re_brs env) b = Inr vr" "run_validations (re_Validations env) b = None"
    by (auto simp: resolve_priority_single)
  then have "finish_resolution env cf inst (walk_of cs) = Inr (b, vr, priorDeprecation (walk_of cs))"
    by (simp add: finish_resolution_def walk_of_def)
  then show ?L using assms by (simp add: resolve_catalog_def walk_fn_spec)
qed

lemma ex_candidates:
  "desired_selector ex_env ex_filter = Inr SelEverything"
  "\<exists>rng cs. desired_range ex_env ex_filter = Inr rng \<and>
     candidates (\<lambda>cat. best_candidate ex_env ex_filter rng (Some ex_installed) cat
       (re_getPackage ex_env cat (cf_PackageName ex_filter)))
       (enabled_catalogs [ex_catalog ''a'' 10, ex_catalog ''b'' 0]) = Inr cs"
  "re_listCatalogs ex_env SelEverything = Inr [ex_catalog ''a'' 10, ex_catalog ''b'' 0]"
proof -
  show "desired_selector ex_env ex_filter = Inr SelEverything"
    by (simp add: desired_selector_def ex_env_def)
  show l: "re_listCatalogs ex_env SelEverything = Inr [ex_catalog ''a'' 10, ex_catalog ''b'' 0]"
    by (simp add: ex_env_def)
  from ex_resolves obtain sel rng cats cs where
    "desired_selector ex_env ex_filter = Inr sel" "desired_range ex_env ex_filter = Inr rng"
    "re_listCatalogs ex_env sel = Inr cats"
    "candidates (\<lambda>cat. best_candidate ex_env ex_filter rng (Some ex_installed) cat
       (re_getPackage ex_env cat (cf_PackageName ex_filter))) (enabled_catalogs cats) = Inr cs"
    by (rule resolve_Inr) blast
  with l show "\<exists>rng cs. desired_range ex_env ex_filter = Inr rng \<and>
     candidates (\<lambda>cat. best_candidate ex_env ex_filter rng (Some ex_installed) cat
       (re_getPackage ex_env cat (cf_PackageName ex_filter)))
       (enabled_catalogs [ex_catalog ''a'' 10, ex_catalog ''b'' 0]) = Inr cs"
    by (auto simp: ex_env_def)
qed

theorem resolve_refines_choice_witness:
  "\<exists>cs x. unique_top (map fst (preferred cs)) x \<and> ex_bundle ''p.v2'' ''2.0.0'' = fb_bundle x \<and>
     GetVersionAndRelease (re_brs ex_env) (ex_bundle ''p.v2'' ''2.0.0'') = Inr (ex_vr 2)"
proof -
  obtain rng cs where r: "desired_range ex_env ex_filter = Inr rng"
    and c: "candidates (\<lambda>cat. best_candidate ex_env ex_filter rng (Some ex_installed) cat
       (re_getPackage ex_env cat (cf_PackageName ex_filter)))
       (enabled_catalogs [ex_catalog ''a'' 10, ex_catalog ''b'' 0]) = Inr cs"
    using ex_candidates(2) by blast
  show ?thesis
    using resolve_refines_choice [OF ex_candidates(1) r ex_candidates(3) c] ex_resolves by blast
qed

text \<open>
  Priority decides between catalogs: the catalog of the resolved bundle has a strictly higher
  priority than every other enabled catalog with an admissible bundle that is not deprecated
  there, and, when the resolved bundle is deprecated itself, than every other enabled catalog with
  an admissible bundle.
\<close>

theorem resolve_priority_strict:
  assumes "resolve_catalog env cf inst = Inr (b, vr, d)"
  shows "\<exists>sel rng cats cat fbc.
     desired_selector env cf = Inr sel \<and> desired_range env cf = Inr rng \<and>
     re_listCatalogs env sel = Inr cats \<and> cat \<in> set (enabled_catalogs cats) \<and>
     re_getPackage env cat (cf_PackageName cf) = Inr (Some fbc) \<and> admissible env cf rng inst fbc b \<and>
     (\<forall>cat' \<in> set (enabled_catalogs cats). \<forall>fbc' b'.
        meta_Name (cc_Meta cat') \<noteq> meta_Name (cc_Meta cat) \<longrightarrow>
        re_getPackage env cat' (cf_PackageName cf) = Inr (Some fbc') \<longrightarrow>
        admissible env cf rng inst fbc' b' \<longrightarrow>
        \<not> isDeprecated b' (this_deprecation fbc') \<or> isDeprecated b (this_deprecation fbc) \<longrightarrow>
        ccs_Priority (cc_Spec cat') < ccs_Priority (cc_Spec cat))"
proof -
  from assms obtain sel rng cats cs x dx cat fbc where
    s: "desired_selector env cf = Inr sel" "desired_range env cf = Inr rng" "re_listCatalogs env sel = Inr cats"
    and cs: "candidates (\<lambda>cat. best_candidate env cf rng inst cat
       (re_getPackage env cat (cf_PackageName cf))) (enabled_catalogs cats) = Inr cs"
    and top: "unique_top (map fst (preferred cs)) x" and x: "b = fb_bundle x" "(x, dx) \<in> set (preferred cs)"
    and cat: "cat \<in> set (enabled_catalogs cats)"
    and fbc: "re_getPackage env cat (cf_PackageName cf) = Inr (Some fbc)" "dx = this_deprecation fbc"
    and adm: "admissible env cf rng inst fbc b"
    and nm: "fb_catalog x = meta_Name (cc_Meta cat)" "fb_priority x = ccs_Priority (cc_Spec cat)"
    by (rule resolve_source) blast
  have "ccs_Priority (cc_Spec cat') < ccs_Priority (cc_Spec cat)"
    if c: "cat' \<in> set (enabled_catalogs cats)" and ne: "meta_Name (cc_Meta cat') \<noteq> meta_Name (cc_Meta cat)"
      and f: "re_getPackage env cat' (cf_PackageName cf) = Inr (Some fbc')"
      and a: "admissible env cf rng inst fbc' b'"
      and dep: "\<not> isDeprecated b' (this_deprecation fbc') \<or> isDeprecated b (this_deprecation fbc)"
    for cat' fbc' b'
  proof -
    from cs c f a obtain y where y: "(y, this_deprecation fbc') \<in> set cs"
      "fb_catalog y = meta_Name (cc_Meta cat')" "fb_priority y = ccs_Priority (cc_Spec cat')"
      "candidate_order (re_brs env) (this_deprecation fbc') (fb_bundle y) b' \<le> 0"
      by (rule other_candidate)
    have "(y, this_deprecation fbc') \<in> set (preferred cs)"
      using dep y(1) candidate_order_le [OF y(4)] x fbc(2)
      by (auto simp: preferred_def not_deprecated_def split: if_splits)
    then have "y \<in> set (map fst (preferred cs))" by force
    moreover have "y \<noteq> x" using ne nm(1) y(2) by auto
    ultimately have "fb_priority y < fb_priority x"
      using top by (auto simp: unique_top_def simp del: set_map)
    then show ?thesis using y(3) nm(2) by simp
  qed
  then show ?thesis using s cat fbc(1) adm by blast
qed

theorem resolve_priority_strict_witness:
  "\<exists>sel rng cats cat fbc.
     desired_selector ex_env ex_filter = Inr sel \<and> desired_range ex_env ex_filter = Inr rng \<and>
     re_listCatalogs ex_env sel = Inr cats \<and> cat \<in> set (enabled_catalogs cats) \<and>
     re_getPackage ex_env cat (cf_PackageName ex_filter) = Inr (Some fbc) \<and>
     admissible ex_env ex_filter rng (Some ex_installed) fbc (ex_bundle ''p.v2'' ''2.0.0'')"
  using resolve_priority_strict [OF ex_resolves] by blast

text \<open>
  The deprecation that \<open>Resolve\<close> returns is that of the last catalog it kept, not that of the
  catalog whose bundle it returns: in the sample cluster the bundle of the higher-priority catalog
  is returned, where the package is deprecated, without its deprecation.
\<close>

theorem resolve_deprecation_of_other_catalog:
  "resolve_catalog ex_env ex_filter None = Inr (ex_bundle ''p.v2'' ''2.0.0'', ex_vr 2, None) \<and>
   best_candidate ex_env ex_filter None None (ex_catalog ''a'' 10)
       (re_getPackage ex_env (ex_catalog ''a'' 10) ''p'') =
     Inr (Some (\<lparr>fb_bundle = ex_bundle ''p.v2'' ''2.0.0'', fb_catalog = ''a'', fb_priority = 10\<rparr>,
       Some ex_dep)) \<and>
   resolve_priority [\<lparr>fb_bundle = ex_bundle ''p.v2'' ''2.0.0'', fb_catalog = ''a'', fb_priority = 10\<rparr>,
       \<lparr>fb_bundle = ex_bundle ''p.v2'' ''2.0.0'', fb_catalog = ''b'', fb_priority = 0\<rparr>] =
     [\<lparr>fb_bundle = ex_bundle ''p.v2'' ''2.0.0'', fb_catalog = ''a'', fb_priority = 10\<rparr>]"
proof (intro conjI)
  show "resolve_catalog ex_env ex_filter None = Inr (ex_bundle ''p.v2'' ''2.0.0'', ex_vr 2, None)"
    by code_simp
  show "best_candidate ex_env ex_filter None None (ex_catalog ''a'' 10)
       (re_getPackage ex_env (ex_catalog ''a'' 10) ''p'') =
     Inr (Some (\<lparr>fb_bundle = ex_bundle ''p.v2'' ''2.0.0'', fb_catalog = ''a'', fb_priority = 10\<rparr>,
       Some ex_dep))"
    by code_simp
qed (simp add: resolve_priority_def by_priority_def go_compare_def Let_def)

end
