(* ===== verification/Phase_Sort.thy ===== *)
theory Phase_Sort
  imports Api_Types
begin

text \<open>
  The rollout phases of a revision (\<open>internal/operator-controller/applier/phase.go\<close>): the phase of
  an object from its group and kind, and the partition of a set of manifests into ordered phases.
\<close>

section \<open>Definitions\<close>

subsection \<open>Group, version and kind of an unstructured object\<close>

record group_version_kind =
  gvk_Group :: string
  gvk_Version :: string
  gvk_Kind :: string

text \<open>\<open>schema.ParseGroupVersion\<close>; \<open>None\<close> is its error.\<close>

definition ParseGroupVersion :: "string \<Rightarrow> (string \<times> string) option" where
  "ParseGroupVersion gv =
     (if gv = '''' \<or> gv = ''/'' then Some ('''', '''')
      else (case split_on CHR ''/'' gv of
              [v] \<Rightarrow> Some ('''', v)
            | [g, v] \<Rightarrow> Some (g, v)
            | _ \<Rightarrow> None))"

definition GroupVersionKind :: "json \<Rightarrow> group_version_kind" where
  "GroupVersionKind obj =
     (case ParseGroupVersion (json_string_at obj [''apiVersion'']) of
        None \<Rightarrow> \<lparr>gvk_Group = '''', gvk_Version = '''', gvk_Kind = ''''\<rparr>
      | Some (g, v) \<Rightarrow> \<lparr>gvk_Group = g, gvk_Version = v, gvk_Kind = json_string_at obj [''kind'']\<rparr>)"

definition GetNamespace :: "json \<Rightarrow> string" where
  "GetNamespace obj = json_string_at obj [''metadata'', ''namespace'']"

definition GetName :: "json \<Rightarrow> string" where
  "GetName obj = json_string_at obj [''metadata'', ''name'']"

subsection \<open>Phases\<close>

abbreviation PhaseDeploy :: string where "PhaseDeploy \<equiv> ''deploy''"

definition defaultPhaseOrder :: "string list" where
  "defaultPhaseOrder =
     [''namespaces'', ''policies'', ''identity'', ''configuration'', ''storage'', ''crds'', ''roles'',
      ''bindings'', ''infrastructure'', PhaseDeploy, ''scaling'', ''publish'', ''admission'']"

definition gk :: "string \<Rightarrow> string \<Rightarrow> group_kind" where
  "gk g k = \<lparr>gk_Group = g, gk_Kind = k\<rparr>"

definition phaseGKMap :: "(string \<times> group_kind list) list" where
  "phaseGKMap =
     [(''namespaces'', [gk '''' ''Namespace'']),
      (''policies'',
        [gk ''networking.k8s.io'' ''NetworkPolicy'', gk ''policy'' ''PodDisruptionBudget'',
         gk ''scheduling.k8s.io'' ''PriorityClass'']),
      (''identity'', [gk '''' ''ServiceAccount'']),
      (''configuration'', [gk '''' ''Secret'', gk '''' ''ConfigMap'']),
      (''storage'',
        [gk '''' ''PersistentVolume'', gk '''' ''PersistentVolumeClaim'',
         gk ''storage.k8s.io'' ''StorageClass'']),
      (''crds'', [gk ''apiextensions.k8s.io'' ''CustomResourceDefinition'']),
      (''roles'',
        [gk ''rbac.authorization.k8s.io'' ''ClusterRole'', gk ''rbac.authorization.k8s.io'' ''Role'']),
      (''bindings'',
        [gk ''rbac.authorization.k8s.io'' ''ClusterRoleBinding'',
         gk ''rbac.authorization.k8s.io'' ''RoleBinding'']),
      (''infrastructure'',
        [gk '''' ''Service'', gk ''cert-manager.io'' ''Issuer'', gk ''cert-manager.io'' ''Certificate'']),
      (PhaseDeploy, [gk ''apps'' ''Deployment'']),
      (''scaling'', [gk ''autoscaling.k8s.io'' ''VerticalPodAutoscaler'']),
      (''publish'',
        [gk ''monitoring.coreos.com'' ''PrometheusRule'', gk ''monitoring.coreos.com'' ''ServiceMonitor'',
         gk ''monitoring.coreos.com'' ''PodMonitor'', gk ''networking.k8s.io'' ''Ingress'',
         gk ''route.openshift.io'' ''Route'', gk ''console.openshift.io'' ''ConsoleYAMLSample'',
         gk ''console.openshift.io'' ''ConsoleQuickStart'', gk ''console.openshift.io'' ''ConsoleCLIDownload'',
         gk ''console.openshift.io'' ''ConsoleLink'', gk ''console.openshift.io'' ''ConsolePlugin'']),
      (''admission'',
        [gk ''admissionregistration.k8s.io'' ''ValidatingWebhookConfiguration'',
         gk ''admissionregistration.k8s.io'' ''MutatingWebhookConfiguration''])]"

text \<open>
  The init function: it ranges over a Go map, whose order is unspecified, and overwrites. The
  argument is the order in which the entries come.
\<close>

definition gk_entries :: "(string \<times> group_kind list) list \<Rightarrow> (group_kind \<times> string) list" where
  "gk_entries entries = concat (map (\<lambda>(phase, gks). map (\<lambda>g. (g, phase)) gks) entries)"

definition init_gkPhaseMap :: "(string \<times> group_kind list) list \<Rightarrow> group_kind \<rightharpoonup> string" where
  "init_gkPhaseMap entries = foldl (\<lambda>m (g, phase). m(g \<mapsto> phase)) Map.empty (gk_entries entries)"

definition determinePhase :: "group_kind \<Rightarrow> string" where
  "determinePhase g =
     (case init_gkPhaseMap phaseGKMap g of None \<Rightarrow> PhaseDeploy | Some phase \<Rightarrow> phase)"

subsection \<open>Sorting into phases\<close>

text \<open>Both callers of \<open>PhaseSort\<close> give every entry an object, so the other case is never read.\<close>

definition obj_of :: "cluster_object_set_object \<Rightarrow> json" where
  "obj_of o1 = (case coso_Object o1 of Some j \<Rightarrow> j | None \<Rightarrow> JObj [])"

definition object_phase :: "cluster_object_set_object \<Rightarrow> string" where
  "object_phase o1 =
     (let gvk = GroupVersionKind (obj_of o1) in determinePhase (gk (gvk_Group gvk) (gvk_Kind gvk)))"

definition compareClusterObjectSetObjectApplyConfigurations ::
  "cluster_object_set_object \<Rightarrow> cluster_object_set_object \<Rightarrow> int" where
  "compareClusterObjectSetObjectApplyConfigurations a b =
     (let aGVK = GroupVersionKind (obj_of a); bGVK = GroupVersionKind (obj_of b) in
      cmp_or (go_compare (gvk_Group aGVK) (gvk_Group bGVK))
      (cmp_or (go_compare (gvk_Version aGVK) (gvk_Version bGVK))
      (cmp_or (go_compare (gvk_Kind aGVK) (gvk_Kind bGVK))
      (cmp_or (go_compare (GetNamespace (obj_of a)) (GetNamespace (obj_of b)))
       (go_compare (GetName (obj_of a)) (GetName (obj_of b)))))))"

fun build_phaseMap ::
  "cluster_object_set_object list \<Rightarrow> (string \<rightharpoonup> cluster_object_set_object list) \<Rightarrow>
   (string \<rightharpoonup> cluster_object_set_object list)" where
  "build_phaseMap [] m = m"
| "build_phaseMap (o1 # os) m =
     (let phase = object_phase o1 in
      build_phaseMap os (m(phase \<mapsto> (case m phase of None \<Rightarrow> [] | Some xs \<Rightarrow> xs) @ [o1])))"

definition PhaseSort :: "cluster_object_set_object list \<Rightarrow> cluster_object_set_phase list" where
  "PhaseSort unsortedObjs =
     (let phaseMap = build_phaseMap unsortedObjs Map.empty in
      List.map_filter (\<lambda>phaseName.
        case phaseMap phaseName of
          None \<Rightarrow> None
        | Some objs \<Rightarrow>
            Some \<lparr>cosp_Name = phaseName,
                  cosp_Objects = sort_by compareClusterObjectSetObjectApplyConfigurations objs,
                  cosp_CollisionProtection = ''''\<rparr>) defaultPhaseOrder)"

section \<open>Lemmas\<close>

subsection \<open>The map from group and kind to phase\<close>

lemma foldl_upd_map_of:
  "distinct (map fst xs) \<Longrightarrow> foldl (\<lambda>m (k, v). m(k \<mapsto> v)) m0 xs k =
     (case map_of xs k of None \<Rightarrow> m0 k | Some v \<Rightarrow> Some v)"
proof (induction xs arbitrary: m0)
  case (Cons x xs)
  then have "map_of xs (fst x) = None" by (simp add: map_of_eq_None_iff)
  with Cons show ?case by (cases x) (auto split: option.splits)
qed simp

lemma gk_inject [simp]: "gk a b = gk c d \<longleftrightarrow> a = c \<and> b = d"
  by (simp add: gk_def)

lemma gk_entries_distinct: "distinct (map fst (gk_entries phaseGKMap))"
  by (simp add: gk_entries_def phaseGKMap_def)

text \<open>The order in which \<open>init\<close> ranges over the map does not matter.\<close>

lemma init_order_irrelevant:
  assumes "mset entries = mset phaseGKMap"
  shows "init_gkPhaseMap entries = init_gkPhaseMap phaseGKMap"
proof -
  have m: "mset (gk_entries entries) = mset (gk_entries phaseGKMap)"
    using assms by (simp only: gk_entries_def mset_concat_map)
  then have "mset (map fst (gk_entries entries)) = mset (map fst (gk_entries phaseGKMap))"
    by (simp add: mset_map)
  then have d: "distinct (map fst (gk_entries entries))"
    using gk_entries_distinct mset_eq_imp_distinct_iff by blast
  have "map_of (gk_entries entries) = map_of (gk_entries phaseGKMap)"
    using m d gk_entries_distinct
    by (intro map_of_inject_set [THEN iffD2]) (auto dest: mset_eq_setD)
  then show ?thesis
    using d gk_entries_distinct by (auto simp: init_gkPhaseMap_def foldl_upd_map_of)
qed

lemma determinePhase_map_of:
  "determinePhase g = (case map_of (gk_entries phaseGKMap) g of None \<Rightarrow> PhaseDeploy | Some p \<Rightarrow> p)"
  by (simp add: determinePhase_def init_gkPhaseMap_def foldl_upd_map_of [OF gk_entries_distinct]
      split: option.splits)

lemma determinePhase_in_order: "determinePhase g \<in> set defaultPhaseOrder"
proof (cases "map_of (gk_entries phaseGKMap) g")
  case None
  then show ?thesis by (simp add: determinePhase_map_of defaultPhaseOrder_def)
next
  case (Some p)
  then have "(g, p) \<in> set (gk_entries phaseGKMap)" by (rule map_of_SomeD)
  then have "p \<in> set (map fst phaseGKMap)" by (force simp: gk_entries_def)
  then have "p \<in> set defaultPhaseOrder" by (simp add: phaseGKMap_def defaultPhaseOrder_def)
  with Some show ?thesis by (simp add: determinePhase_map_of)
qed

lemma object_phase_in_order: "object_phase x \<in> set defaultPhaseOrder"
  by (simp add: object_phase_def determinePhase_in_order Let_def)

lemma distinct_defaultPhaseOrder: "distinct defaultPhaseOrder"
  by (simp add: defaultPhaseOrder_def)

subsection \<open>The order within a phase\<close>

lemma comparison_objects: "comparison compareClusterObjectSetObjectApplyConfigurations"
  unfolding compareClusterObjectSetObjectApplyConfigurations_def [abs_def] Let_def
  by (intro comparison_lex comparison_pullback [OF comparison_go_compare])

interpretation obj_cmp: comparison compareClusterObjectSetObjectApplyConfigurations
  by (rule comparison_objects)

subsection \<open>The phases\<close>

lemma build_phaseMap_eq:
  "build_phaseMap os m p =
     (if filter (\<lambda>x. object_phase x = p) os = [] then m p
      else Some ((case m p of None \<Rightarrow> [] | Some xs \<Rightarrow> xs) @ filter (\<lambda>x. object_phase x = p) os))"
  by (induction os arbitrary: m) (auto simp: Let_def)

definition phase_objects :: "cluster_object_set_object list \<Rightarrow> string \<Rightarrow> cluster_object_set_object list" where
  "phase_objects os p = filter (\<lambda>x. object_phase x = p) os"

lemma PhaseSort_eq:
  "PhaseSort os =
     map (\<lambda>p. \<lparr>cosp_Name = p,
         cosp_Objects = sort_by compareClusterObjectSetObjectApplyConfigurations (phase_objects os p),
         cosp_CollisionProtection = ''''\<rparr>)
       (filter (\<lambda>p. phase_objects os p \<noteq> []) defaultPhaseOrder)"
proof -
  have "List.map_filter (\<lambda>p. case build_phaseMap os Map.empty p of None \<Rightarrow> None | Some objs \<Rightarrow> Some (f p objs)) ps =
      map (\<lambda>p. f p (phase_objects os p)) (filter (\<lambda>p. phase_objects os p \<noteq> []) ps)" for f ps
    by (induction ps) (auto simp: List.map_filter_simps build_phaseMap_eq phase_objects_def)
  then show ?thesis by (simp add: PhaseSort_def Let_def)
qed

lemma mset_by_key:
  "distinct ks \<Longrightarrow> (\<forall>x \<in> set xs. f x \<in> set ks) \<Longrightarrow>
   mset (concat (map (\<lambda>k. filter (\<lambda>x. f x = k) xs) ks)) = mset xs"
proof (induction ks arbitrary: xs)
  case (Cons k ks)
  let ?rest = "filter (\<lambda>x. f x \<noteq> k) xs"
  have "filter (\<lambda>x. f x = k') xs = filter (\<lambda>x. f x = k') ?rest" if "k' \<in> set ks" for k'
    using that Cons.prems(1) by (auto intro!: filter_cong)
  then have "concat (map (\<lambda>k'. filter (\<lambda>x. f x = k') xs) ks) =
      concat (map (\<lambda>k'. filter (\<lambda>x. f x = k') ?rest) ks)"
    by (intro arg_cong [of _ _ concat] map_cong refl)
  moreover have "mset (concat (map (\<lambda>k'. filter (\<lambda>x. f x = k') ?rest) ks)) = mset ?rest"
    using Cons.prems by (intro Cons.IH) auto
  moreover have "mset (filter (\<lambda>x. f x = k) xs) + mset ?rest = mset xs"
    by (induction xs) auto
  ultimately show ?case by simp
qed simp

lemma concat_filter_Nil: "concat (map f (filter (\<lambda>p. f p \<noteq> []) ps)) = concat (map f ps)"
  by (induction ps) auto

lemma phase_objects_mset:
  "mset os = mset os' \<Longrightarrow> mset (phase_objects os p) = mset (phase_objects os' p)"
  by (simp add: phase_objects_def mset_filter)

lemma sort_phase_objects_Nil:
  "(sort_by compareClusterObjectSetObjectApplyConfigurations (phase_objects os p) \<noteq> []) =
     (phase_objects os p \<noteq> [])"
  by simp

lemma mset_PhaseSort: "mset (concat (map cosp_Objects (PhaseSort os))) = mset os"
proof -
  let ?sort = "sort_by compareClusterObjectSetObjectApplyConfigurations"
  have "mset (concat (map cosp_Objects (PhaseSort os))) =
      mset (concat (map (\<lambda>p. ?sort (phase_objects os p)) (filter (\<lambda>p. phase_objects os p \<noteq> []) defaultPhaseOrder)))"
    by (simp add: PhaseSort_eq comp_def)
  also have "\<dots> = mset (concat (map (\<lambda>p. phase_objects os p) (filter (\<lambda>p. phase_objects os p \<noteq> []) defaultPhaseOrder)))"
    by (simp only: mset_concat_map obj_cmp.mset_sort_by)
  also have "\<dots> = mset (concat (map (phase_objects os) defaultPhaseOrder))"
    by (simp add: concat_filter_Nil)
  also have "\<dots> = mset os"
    using mset_by_key [OF distinct_defaultPhaseOrder, of os object_phase] object_phase_in_order
    by (simp add: phase_objects_def [abs_def])
  finally show ?thesis .
qed

section \<open>Properties\<close>

text \<open>
  The phases partition the manifests: together they hold exactly the objects given, with
  multiplicity.
\<close>

theorem PhaseSort_permutation: "mset (concat (map cosp_Objects (PhaseSort os))) = mset os"
  by (rule mset_PhaseSort)

text \<open>
  The phases come in the well-known order and without repetition; none is empty; each
  contains only objects whose group and kind belong to it; and its objects are sorted by group,
  version, kind, namespace and name.
\<close>

theorem PhaseSort_ordered:
  "subseq (map cosp_Name (PhaseSort os)) defaultPhaseOrder \<and>
   list_all (\<lambda>p. cosp_Objects p \<noteq> [] \<and>
     list_all (\<lambda>x. object_phase x = cosp_Name p) (cosp_Objects p) \<and>
     sorted_wrt (\<lambda>a b. compareClusterObjectSetObjectApplyConfigurations a b \<le> 0) (cosp_Objects p))
     (PhaseSort os)"
proof
  show "subseq (map cosp_Name (PhaseSort os)) defaultPhaseOrder"
    by (simp add: PhaseSort_eq comp_def)
qed (auto simp: PhaseSort_eq list_all_iff obj_cmp.sorted_sort_by obj_cmp.set_sort_by phase_objects_def)

text \<open>
  The phases do not depend on the order of the manifests: two permutations of the same
  manifests, no two of which share group, version, kind, namespace and name, give identical
  phases. This is what makes a revision built from a Helm release equal to one built from the
  bundle.
\<close>

theorem PhaseSort_order_independent:
  assumes "mset os = mset os'"
    and "\<And>a b. a \<in> set os \<Longrightarrow> b \<in> set os \<Longrightarrow>
       compareClusterObjectSetObjectApplyConfigurations a b = 0 \<Longrightarrow> a = b"
  shows "PhaseSort os = PhaseSort os'"
proof -
  have "sort_by compareClusterObjectSetObjectApplyConfigurations (phase_objects os p) =
      sort_by compareClusterObjectSetObjectApplyConfigurations (phase_objects os' p)" for p
    using assms(2) phase_objects_mset [OF assms(1)]
    by (intro obj_cmp.sort_by_perm_invariant) (auto simp: phase_objects_def)
  moreover have "phase_objects os p = [] \<longleftrightarrow> phase_objects os' p = []" for p
    using phase_objects_mset [OF assms(1), of p] by (metis mset_zero_iff)
  ultimately show ?thesis by (simp add: PhaseSort_eq)
qed

definition sample_object :: "string \<Rightarrow> string \<Rightarrow> string \<Rightarrow> cluster_object_set_object" where
  "sample_object apiVersion kind name =
     \<lparr>coso_Object = Some (JObj [(''apiVersion'', JStr apiVersion), (''kind'', JStr kind),
        (''metadata'', JObj [(''name'', JStr name)])]),
      coso_Ref = \<lparr>ref_Name = '''', ref_Namespace = '''', ref_Key = ''''\<rparr>, coso_CollisionProtection = ''''\<rparr>"

theorem PhaseSort_order_independent_witness:
  "PhaseSort [sample_object ''apps/v1'' ''Deployment'' ''d'', sample_object ''v1'' ''Namespace'' ''n''] =
   PhaseSort [sample_object ''v1'' ''Namespace'' ''n'', sample_object ''apps/v1'' ''Deployment'' ''d'']"
proof (rule PhaseSort_order_independent)
  have ne: "compareClusterObjectSetObjectApplyConfigurations
      (sample_object ''apps/v1'' ''Deployment'' ''d'') (sample_object ''v1'' ''Namespace'' ''n'') = 1"
    "compareClusterObjectSetObjectApplyConfigurations
      (sample_object ''v1'' ''Namespace'' ''n'') (sample_object ''apps/v1'' ''Deployment'' ''d'') = -1"
    by code_simp+
  fix a b
  assume "a \<in> set [sample_object ''apps/v1'' ''Deployment'' ''d'', sample_object ''v1'' ''Namespace'' ''n'']"
    "b \<in> set [sample_object ''apps/v1'' ''Deployment'' ''d'', sample_object ''v1'' ''Namespace'' ''n'']"
    "compareClusterObjectSetObjectApplyConfigurations a b = 0"
  then show "a = b" using ne by auto
qed simp

end
