(* ===== verification/Secret_Packer.thy ===== *)
theory Secret_Packer
  imports Api_Types
begin

text \<open>
  Externalizing the objects of a revision into immutable Secrets
  (\<open>internal/operator-controller/applier/secretpacker.go\<close>). JSON encoding, gzip, SHA-256 and
  base64url are the fields of the parameter \<open>codec\<close>; \<open>codec_ok\<close> states what the operator relies
  on. Byte strings are strings.
\<close>

section \<open>Definitions\<close>

record codec =
  json_Marshal :: "json \<Rightarrow> string result"
  json_Unmarshal :: "string \<Rightarrow> json result"
  gzip_compress :: "string \<Rightarrow> string result"
  gzip_NewReader :: "string \<Rightarrow> unit result"
  gzip_ReadAll :: "string \<Rightarrow> string result"
  sha256_Sum :: "string \<Rightarrow> string"
  base64url :: "string \<Rightarrow> string"

record secret =
  sec_Name :: string
  sec_Namespace :: string
  sec_Labels :: string_map
  sec_OwnerReferences :: "owner_reference list"
  sec_Immutable :: "bool option"
  sec_Type :: string
  sec_Data :: "(string \<times> string) list"

definition maxSecretDataSize :: nat where
  "maxSecretDataSize = 900 * 1024"

definition gzipThreshold :: nat where
  "gzipThreshold = 900 * 1024"

record secret_packer =
  sp_RevisionName :: string
  sp_OwnerName :: string
  sp_SystemNamespace :: string

record pack_result =
  pr_Secrets :: "secret list"
  pr_Refs :: "nat \<times> nat \<rightharpoonup> object_source_ref"

definition hex_string :: "string \<Rightarrow> string" where
  "hex_string s = concat (map (\<lambda>c. let n = of_char c in [hex_char (n div 16), hex_char (n mod 16)]) s)"

definition contentHash :: "codec \<Rightarrow> string \<Rightarrow> string" where
  "contentHash cd data = base64url cd (sha256_Sum cd data)"

text \<open>
  The bytes that are hashed: keys and values in the order of the keys. \<open>data\<close> is a Go map, here
  an association list with distinct keys.
\<close>

definition secretNameFromData :: "codec \<Rightarrow> secret_packer \<Rightarrow> (string \<times> string) list \<Rightarrow> string" where
  "secretNameFromData cd p data =
     (let keys = sort (map fst data);
          bytes = concat (map (\<lambda>k. k @ (case map_of data k of None \<Rightarrow> '''' | Some v \<Rightarrow> v)) keys) in
      sp_RevisionName p @ ''-'' @ hex_string (take 8 (sha256_Sum cd bytes)))"

definition newSecret :: "codec \<Rightarrow> secret_packer \<Rightarrow> (string \<times> string) list \<Rightarrow> secret" where
  "newSecret cd p data =
     \<lparr>sec_Name = secretNameFromData cd p data,
      sec_Namespace = sp_SystemNamespace p,
      sec_Labels = [RevisionNameKey \<mapsto> sp_RevisionName p, OwnerNameKey \<mapsto> sp_OwnerName p],
      sec_OwnerReferences = [],
      sec_Immutable = Some True,
      sec_Type = SecretTypeObjectData,
      sec_Data = data\<rparr>"

subsection \<open>Packing\<close>

record pack_state =
  ps_result :: pack_result
  ps_data :: "(string \<times> string) list"
  ps_size :: nat
  ps_pending :: "((nat \<times> nat) \<times> string) list"

definition finalizeCurrent :: "codec \<Rightarrow> secret_packer \<Rightarrow> pack_state \<Rightarrow> pack_state" where
  "finalizeCurrent cd p st =
     (if ps_data st = [] then st
      else
        (let s = newSecret cd p (ps_data st);
             refs = foldl (\<lambda>m (pos, key). m(pos \<mapsto>
                 \<lparr>ref_Name = sec_Name s, ref_Namespace = sp_SystemNamespace p, ref_Key = key\<rparr>))
               (pr_Refs (ps_result st)) (ps_pending st) in
         \<lparr>ps_result = \<lparr>pr_Secrets = pr_Secrets (ps_result st) @ [s], pr_Refs = refs\<rparr>,
          ps_data = [], ps_size = 0, ps_pending = []\<rparr>))"

text \<open>What is stored for an object: its JSON, compressed when it is large.\<close>

definition object_data :: "codec \<Rightarrow> nat \<times> nat \<Rightarrow> json \<Rightarrow> string result" where
  "object_data cd pos obj =
     (case json_Marshal cd obj of
        Inl e \<Rightarrow> Inl (ErrWrap (''serializing object in phase '' @ show_nat (fst pos) @ '' index '' @
            show_nat (snd pos) @ '': '') e '''')
      | Inr data \<Rightarrow>
          if length data > gzipThreshold then
            (case gzip_compress cd data of
               Inl e \<Rightarrow> Inl (ErrWrap (''compressing object in phase '' @ show_nat (fst pos) @ '' index '' @
                   show_nat (snd pos) @ '': '') e '''')
             | Inr compressed \<Rightarrow> Inr compressed)
          else Inr data)"

definition pack_object ::
  "codec \<Rightarrow> secret_packer \<Rightarrow> nat \<times> nat \<Rightarrow> json \<Rightarrow> pack_state \<Rightarrow> pack_state result" where
  "pack_object cd p pos obj st =
     (case object_data cd pos obj of
        Inl e \<Rightarrow> Inl e
      | Inr data \<Rightarrow>
          if length data > maxSecretDataSize then
            Inl (ErrText (''object in phase '' @ show_nat (fst pos) @ '' index '' @ show_nat (snd pos) @
              '' exceeds maximum Secret data size ('' @ show_nat (length data) @ '' bytes > '' @
              show_nat maxSecretDataSize @ '' bytes) even after compression''))
          else
            (let key = contentHash cd data;
                 st1 =
                   (case map_of (ps_data st) key of
                      Some d \<Rightarrow> st
                    | None \<Rightarrow>
                        (let st' = (if ps_size st + length data > maxSecretDataSize \<and> ps_data st \<noteq> []
                                    then finalizeCurrent cd p st else st) in
                         st'\<lparr>ps_data := ps_data st' @ [(key, data)],
                             ps_size := ps_size st' + length data\<rparr>)) in
             Inr (st1\<lparr>ps_pending := ps_pending st1 @ [(pos, key)]\<rparr>)))"

definition positions :: "cluster_object_set_phase list \<Rightarrow> ((nat \<times> nat) \<times> cluster_object_set_object) list" where
  "positions phases =
     concat (map (\<lambda>(i, ph). map (\<lambda>(j, o1). ((i, j), o1)) (enumerate 0 (cosp_Objects ph))) (enumerate 0 phases))"

fun pack_loop ::
  "codec \<Rightarrow> secret_packer \<Rightarrow> ((nat \<times> nat) \<times> cluster_object_set_object) list \<Rightarrow> pack_state \<Rightarrow>
   pack_state result" where
  "pack_loop cd p [] st = Inr st"
| "pack_loop cd p ((pos, o1) # rest) st =
     (case coso_Object o1 of
        None \<Rightarrow> pack_loop cd p rest st
      | Some obj \<Rightarrow>
          (case pack_object cd p pos obj st of
             Inl e \<Rightarrow> Inl e
           | Inr st' \<Rightarrow> pack_loop cd p rest st'))"

definition pack_init :: pack_state where
  "pack_init = \<lparr>ps_result = \<lparr>pr_Secrets = [], pr_Refs = Map.empty\<rparr>, ps_data = [], ps_size = 0, ps_pending = []\<rparr>"

definition Pack :: "codec \<Rightarrow> secret_packer \<Rightarrow> cluster_object_set_phase list \<Rightarrow> pack_result result" where
  "Pack cd p phases =
     (case pack_loop cd p (positions phases) pack_init of
        Inl e \<Rightarrow> Inl e
      | Inr st \<Rightarrow> Inr (ps_result (finalizeCurrent cd p st)))"

subsection \<open>What the operator relies on\<close>

text \<open>
  Decoding inverts encoding; compressed data starts with the two magic bytes of gzip, and the JSON
  of an object does not.
\<close>

definition has_gzip_magic :: "string \<Rightarrow> bool" where
  "has_gzip_magic d \<longleftrightarrow> length d \<ge> 2 \<and> d ! 0 = CHR 0x1F \<and> d ! 1 = CHR 0x8B"

definition codec_ok :: "codec \<Rightarrow> json \<Rightarrow> bool" where
  "codec_ok cd obj \<longleftrightarrow>
     (case json_Marshal cd obj of
        Inl e \<Rightarrow> True
      | Inr d \<Rightarrow> json_Unmarshal cd d = Inr obj \<and> \<not> has_gzip_magic d \<and>
          (case gzip_compress cd d of
             Inl e \<Rightarrow> True
           | Inr z \<Rightarrow> has_gzip_magic z \<and> gzip_NewReader cd z = Inr () \<and> gzip_ReadAll cd z = Inr d))"

section \<open>Lemmas\<close>

definition data_size :: "(string \<times> string) list \<Rightarrow> nat" where
  "data_size data = sum_list (map (length \<circ> snd) data)"

definition secret_ok :: "codec \<Rightarrow> secret_packer \<Rightarrow> secret \<Rightarrow> bool" where
  "secret_ok cd p s \<longleftrightarrow>
     s = newSecret cd p (sec_Data s) \<and> sec_Data s \<noteq> [] \<and> distinct (map fst (sec_Data s)) \<and>
     data_size (sec_Data s) \<le> maxSecretDataSize"

text \<open>The ref of a position points to a packed Secret that holds the data of the object there.\<close>

definition ref_ok ::
  "codec \<Rightarrow> secret_packer \<Rightarrow> string set \<Rightarrow> pack_result \<Rightarrow> nat \<times> nat \<Rightarrow> string \<Rightarrow> bool" where
  "ref_ok cd p D res pos data \<longleftrightarrow>
     (\<exists>s \<in> set (pr_Secrets res). \<exists>d \<in> D.
        pr_Refs res pos = Some \<lparr>ref_Name = sec_Name s, ref_Namespace = sp_SystemNamespace p,
          ref_Key = contentHash cd data\<rparr> \<and>
        map_of (sec_Data s) (contentHash cd data) = Some d \<and> contentHash cd d = contentHash cd data)"

definition entries_ok :: "codec \<Rightarrow> string set \<Rightarrow> (string \<times> string) list \<Rightarrow> bool" where
  "entries_ok cd D data \<longleftrightarrow>
     distinct (map fst data) \<and> (\<forall>(k, d) \<in> set data. k = contentHash cd d \<and> d \<in> D)"

definition pack_inv :: "codec \<Rightarrow> secret_packer \<Rightarrow> ((nat \<times> nat) \<times> string) list \<Rightarrow> pack_state \<Rightarrow> bool" where
  "pack_inv cd p dn st \<longleftrightarrow>
     (\<forall>s \<in> set (pr_Secrets (ps_result st)). secret_ok cd p s) \<and>
     entries_ok cd (snd ` set dn) (ps_data st) \<and>
     ps_size st = data_size (ps_data st) \<and> ps_size st \<le> maxSecretDataSize \<and>
     distinct (map fst (ps_pending st)) \<and>
     (\<forall>(pos, key) \<in> set (ps_pending st). key \<in> fst ` set (ps_data st)) \<and>
     (\<forall>(pos, d) \<in> set dn.
        (pos, contentHash cd d) \<in> set (ps_pending st) \<or>
        pos \<notin> fst ` set (ps_pending st) \<and> ref_ok cd p (snd ` set dn) (ps_result st) pos d) \<and>
     fst ` set (ps_pending st) \<subseteq> fst ` set dn \<and>
     dom (pr_Refs (ps_result st)) \<subseteq> fst ` set dn"

lemma foldl_refs:
  assumes "distinct (map fst pend)"
  shows "foldl (\<lambda>m (pos, key). m(pos \<mapsto> f key)) m0 pend pos =
     (case map_of pend pos of None \<Rightarrow> m0 pos | Some key \<Rightarrow> Some (f key))"
  using assms
proof (induction pend arbitrary: m0)
  case (Cons x pend)
  then have "map_of pend (fst x) = None" by (simp add: map_of_eq_None_iff)
  with Cons show ?case by (cases x) (auto split: option.splits)
qed simp

lemma map_of_hash:
  assumes "entries_ok cd D data" and "k \<in> fst ` set data"
  shows "\<exists>d \<in> D. map_of data k = Some d \<and> contentHash cd d = k"
proof -
  obtain d where d: "map_of data k = Some d" using assms(2) by (metis map_of_eq_None_iff not_None_eq)
  moreover from d have "(k, d) \<in> set data" by (rule map_of_SomeD)
  ultimately show ?thesis using assms(1) by (auto simp: entries_ok_def)
qed

lemma entries_ok_mono: "entries_ok cd D data \<Longrightarrow> D \<subseteq> E \<Longrightarrow> entries_ok cd E data"
  by (auto simp: entries_ok_def)

lemma ref_ok_mono: "ref_ok cd p D res pos d \<Longrightarrow> D \<subseteq> E \<Longrightarrow> ref_ok cd p E res pos d"
  by (auto simp: ref_ok_def)

lemma pack_inv_init: "pack_inv cd p [] pack_init"
  by (simp add: pack_inv_def pack_init_def entries_ok_def data_size_def)

lemma newSecret_simps [simp]:
  "sec_Data (newSecret cd p data) = data" "sec_Name (newSecret cd p data) = secretNameFromData cd p data"
  "sec_Immutable (newSecret cd p data) = Some True" "sec_Namespace (newSecret cd p data) = sp_SystemNamespace p"
  by (simp_all add: newSecret_def)

lemma finalize_refs:
  assumes "distinct (map fst (ps_pending st))" and "ps_data st \<noteq> []"
  shows "pr_Refs (ps_result (finalizeCurrent cd p st)) pos =
     (case map_of (ps_pending st) pos of
        None \<Rightarrow> pr_Refs (ps_result st) pos
      | Some key \<Rightarrow> Some \<lparr>ref_Name = secretNameFromData cd p (ps_data st),
          ref_Namespace = sp_SystemNamespace p, ref_Key = key\<rparr>)"
  using assms by (simp add: finalizeCurrent_def Let_def foldl_refs)

lemma finalize_data:
  "ps_data (finalizeCurrent cd p st) = []"
  "ps_data st \<noteq> [] \<Longrightarrow> ps_pending (finalizeCurrent cd p st) = []"
  "ps_data st \<noteq> [] \<Longrightarrow> ps_size (finalizeCurrent cd p st) = 0"
  "ps_data st \<noteq> [] \<Longrightarrow> pr_Secrets (ps_result (finalizeCurrent cd p st)) =
     pr_Secrets (ps_result st) @ [newSecret cd p (ps_data st)]"
  by (simp_all add: finalizeCurrent_def Let_def)

lemma finalize_ref_ok:
  assumes inv: "pack_inv cd p dn st" and ne: "ps_data st \<noteq> []" and mem: "(pos, d) \<in> set dn"
  shows "ref_ok cd p (snd ` set dn) (ps_result (finalizeCurrent cd p st)) pos d"
proof -
  have dist: "distinct (map fst (ps_pending st))" using inv by (simp add: pack_inv_def)
  consider "(pos, contentHash cd d) \<in> set (ps_pending st)"
    | "pos \<notin> fst ` set (ps_pending st)" "ref_ok cd p (snd ` set dn) (ps_result st) pos d"
    using inv mem by (auto simp: pack_inv_def)
  then show ?thesis
  proof cases
    case 1
    then have "map_of (ps_pending st) pos = Some (contentHash cd d)" using dist by simp
    moreover have "contentHash cd d \<in> fst ` set (ps_data st)" using inv 1 by (auto simp: pack_inv_def)
    then obtain d' where "d' \<in> snd ` set dn" "map_of (ps_data st) (contentHash cd d) = Some d'"
      "contentHash cd d' = contentHash cd d"
      using map_of_hash inv by (meson pack_inv_def)
    ultimately show ?thesis
      using ne dist by (auto simp: ref_ok_def finalize_refs finalize_data)
  next
    case 2
    then have "map_of (ps_pending st) pos = None" by (simp add: map_of_eq_None_iff)
    with 2(2) show ?thesis using ne dist by (auto simp: ref_ok_def finalize_refs finalize_data)
  qed
qed

lemma finalize_dom:
  assumes "pack_inv cd p dn st"
  shows "dom (pr_Refs (ps_result (finalizeCurrent cd p st))) \<subseteq> fst ` set dn"
proof (cases "ps_data st = []")
  case True
  with assms show ?thesis by (simp add: finalizeCurrent_def pack_inv_def)
next
  case False
  have d: "distinct (map fst (ps_pending st))" "fst ` set (ps_pending st) \<subseteq> fst ` set dn"
    "dom (pr_Refs (ps_result st)) \<subseteq> fst ` set dn"
    using assms by (auto simp: pack_inv_def)
  show ?thesis
  proof
    fix pos assume "pos \<in> dom (pr_Refs (ps_result (finalizeCurrent cd p st)))"
    then have "pos \<in> dom (pr_Refs (ps_result st)) \<or> pos \<in> fst ` set (ps_pending st)"
      using d(1) False
      by (cases "map_of (ps_pending st) pos") (auto simp: finalize_refs dest: map_of_SomeD intro: rev_image_eqI)
    then show "pos \<in> fst ` set dn" using d by blast
  qed
qed

lemma pack_inv_finalize:
  assumes inv: "pack_inv cd p dn st"
  shows "pack_inv cd p dn (finalizeCurrent cd p st)"
proof (cases "ps_data st = []")
  case True
  then show ?thesis using inv by (simp add: finalizeCurrent_def)
next
  case False
  then have "secret_ok cd p (newSecret cd p (ps_data st))"
    using inv by (auto simp: pack_inv_def secret_ok_def entries_ok_def)
  then show ?thesis
    using False inv finalize_ref_ok [OF inv False] finalize_dom [OF inv]
    by (auto simp: pack_inv_def finalize_data entries_ok_def data_size_def)
qed

lemma pack_inv_extend:
  assumes inv: "pack_inv cd p dn st" and new: "pos \<notin> fst ` set dn"
    and key: "contentHash cd data \<in> fst ` set (ps_data st)"
  shows "pack_inv cd p ((pos, data) # dn) (st\<lparr>ps_pending := ps_pending st @ [(pos, contentHash cd data)]\<rparr>)"
proof -
  have sub: "snd ` set dn \<subseteq> snd ` set ((pos, data) # dn)" by auto
  have "pos \<notin> fst ` set (ps_pending st)" using inv new by (auto simp: pack_inv_def)
  moreover have "(pos, d) \<notin> set dn" for d using new by (force simp: image_iff)
  ultimately show ?thesis
    using inv new key entries_ok_mono [OF _ sub] ref_ok_mono [OF _ sub]
    by (auto simp: pack_inv_def)
qed

lemma pack_inv_add_data:
  assumes inv: "pack_inv cd p dn st" and fresh: "contentHash cd data \<notin> fst ` set (ps_data st)"
    and fits: "ps_size st + length data \<le> maxSecretDataSize" and D: "data \<in> snd ` set dn"
  shows "pack_inv cd p dn (st\<lparr>ps_data := ps_data st @ [(contentHash cd data, data)],
     ps_size := ps_size st + length data\<rparr>)"
  using assms by (auto simp: pack_inv_def entries_ok_def data_size_def)

lemma pack_object_inv:
  assumes inv: "pack_inv cd p dn st" and new: "pos \<notin> fst ` set dn"
    and step: "pack_object cd p pos obj st = Inr st'"
  shows "\<exists>data. object_data cd pos obj = Inr data \<and> pack_inv cd p ((pos, data) # dn) st'"
proof -
  obtain data where data: "object_data cd pos obj = Inr data" and len: "length data \<le> maxSecretDataSize"
    using step by (auto simp: pack_object_def split: sum.splits if_splits)
  let ?key = "contentHash cd data" and ?dn = "(pos, data) # dn"
  have sub: "snd ` set dn \<subseteq> snd ` set ?dn" by auto
  show ?thesis
  proof (cases "map_of (ps_data st) ?key")
    case (Some d)
    then have "?key \<in> fst ` set (ps_data st)" by (metis domI dom_map_of_conv_image_fst)
    with pack_inv_extend [OF inv new this] Some data len step show ?thesis
      by (simp add: pack_object_def)
  next
    case None
    define st1 where "st1 = (if ps_size st + length data > maxSecretDataSize \<and> ps_data st \<noteq> []
      then finalizeCurrent cd p st else st)"
    have fits: "ps_size st1 + length data \<le> maxSecretDataSize"
      using len inv by (auto simp: st1_def finalize_data pack_inv_def data_size_def)
    have fresh: "?key \<notin> fst ` set (ps_data st1)"
      using None by (auto simp: st1_def finalize_data map_of_eq_None_iff)
    have inv1: "pack_inv cd p dn st1" using inv pack_inv_finalize by (simp add: st1_def)
    have st': "st' = st1\<lparr>ps_data := ps_data st1 @ [(?key, data)], ps_size := ps_size st1 + length data,
        ps_pending := ps_pending st1 @ [(pos, ?key)]\<rparr>"
      using step data len None by (simp add: pack_object_def st1_def Let_def)
    have "pos \<notin> fst ` set (ps_pending st1)" using inv1 new by (auto simp: pack_inv_def)
    moreover have "(pos, d) \<notin> set dn" for d using new by (force simp: image_iff)
    ultimately have "pack_inv cd p ?dn st'"
      unfolding st' using inv1 fits fresh entries_ok_mono [OF _ sub] ref_ok_mono [OF _ sub]
      by (auto simp: pack_inv_def entries_ok_def data_size_def)
    with data show ?thesis by blast
  qed
qed

lemma pack_loop_inv:
  assumes "pack_inv cd p dn st" and "distinct (map fst ps)"
    and "fst ` set ps \<inter> fst ` set dn = {}" and "pack_loop cd p ps st = Inr st'"
  shows "\<exists>dn'. pack_inv cd p dn' st' \<and> set dn \<subseteq> set dn' \<and>
     (\<forall>(pos, o1) \<in> set ps. \<forall>obj. coso_Object o1 = Some obj \<longrightarrow>
        (\<exists>data. object_data cd pos obj = Inr data \<and> (pos, data) \<in> set dn')) \<and>
     (\<forall>(pos, data) \<in> set dn'. (pos, data) \<in> set dn \<or>
        (\<exists>o1 obj. (pos, o1) \<in> set ps \<and> coso_Object o1 = Some obj \<and> object_data cd pos obj = Inr data))"
  using assms
proof (induction cd p ps st arbitrary: dn rule: pack_loop.induct)
  case (1 cd p st)
  then show ?case by auto
next
  case (2 cd p pos o1 rest st)
  show ?case
  proof (cases "coso_Object o1")
    case None
    have "distinct (map fst rest)" "fst ` set rest \<inter> fst ` set dn = {}"
      "pack_loop cd p rest st = Inr st'"
      using "2.prems" None by auto
    from "2.IH"(1) [OF None "2.prems"(1) this] obtain dn' where
      "pack_inv cd p dn' st'" "set dn \<subseteq> set dn'"
      "\<forall>(pos, o1) \<in> set rest. \<forall>obj. coso_Object o1 = Some obj \<longrightarrow>
        (\<exists>data. object_data cd pos obj = Inr data \<and> (pos, data) \<in> set dn')"
      "\<forall>(pos, data) \<in> set dn'. (pos, data) \<in> set dn \<or>
        (\<exists>o1 obj. (pos, o1) \<in> set rest \<and> coso_Object o1 = Some obj \<and> object_data cd pos obj = Inr data)"
      by blast
    with None show ?thesis by (intro exI [of _ dn'] conjI) fastforce+
  next
    case (Some obj)
    then obtain st1 where st1: "pack_object cd p pos obj st = Inr st1"
      and rest: "pack_loop cd p rest st1 = Inr st'"
      using "2.prems"(4) by (auto split: sum.splits)
    have new: "pos \<notin> fst ` set dn" using "2.prems"(3) by auto
    obtain data where data: "object_data cd pos obj = Inr data"
      and inv1: "pack_inv cd p ((pos, data) # dn) st1"
      using pack_object_inv [OF "2.prems"(1) new st1] by blast
    have disj: "fst ` set rest \<inter> fst ` set ((pos, data) # dn) = {}"
      using "2.prems"(2,3) by auto
    obtain dn' where dn': "pack_inv cd p dn' st'" "set ((pos, data) # dn) \<subseteq> set dn'"
      "\<forall>(pos, o1) \<in> set rest. \<forall>obj. coso_Object o1 = Some obj \<longrightarrow>
        (\<exists>data. object_data cd pos obj = Inr data \<and> (pos, data) \<in> set dn')"
      "\<forall>(pos', data') \<in> set dn'. (pos', data') \<in> set ((pos, data) # dn) \<or>
        (\<exists>o1 obj. (pos', o1) \<in> set rest \<and> coso_Object o1 = Some obj \<and> object_data cd pos' obj = Inr data')"
      using "2.IH"(2) [OF Some st1 inv1 _ disj rest] "2.prems"(2) by auto
    from dn'(4) Some data have "\<forall>(pos', data') \<in> set dn'. (pos', data') \<in> set dn \<or>
        (\<exists>o2 obj. (pos', o2) \<in> set ((pos, o1) # rest) \<and> coso_Object o2 = Some obj \<and>
           object_data cd pos' obj = Inr data')"
      by fastforce
    moreover from dn'(2,3) Some data have "\<forall>(pos', o2) \<in> set ((pos, o1) # rest). \<forall>obj.
        coso_Object o2 = Some obj \<longrightarrow>
        (\<exists>data. object_data cd pos' obj = Inr data \<and> (pos', data) \<in> set dn')"
      by auto
    ultimately show ?thesis using dn'(1,2) by (intro exI [of _ dn'] conjI) auto
  qed
qed

lemma positions_distinct: "distinct (map fst (positions phases))"
proof -
  have "distinct (concat (map (\<lambda>(i, ph). map (\<lambda>(j, o1). (i, j)) (enumerate 0 (cosp_Objects ph))) (enumerate n phases)))
      \<and> (\<forall>x \<in> set (concat (map (\<lambda>(i, ph). map (\<lambda>(j, o1). (i, j)) (enumerate 0 (cosp_Objects ph))) (enumerate n phases))).
          n \<le> fst x)" for n
  proof (induction phases arbitrary: n)
    case (Cons ph phases)
    have "distinct (map (\<lambda>(j, o1). (n, j)) (enumerate m xs))" for m and xs :: "cluster_object_set_object list"
      by (induction xs arbitrary: m) (auto simp: in_set_enumerate_eq)
    with Cons [of "Suc n"] show ?case by fastforce
  qed simp
  moreover have "map fst (positions phases) =
      concat (map (\<lambda>(i, ph). map (\<lambda>(j, o1). (i, j)) (enumerate 0 (cosp_Objects ph))) (enumerate 0 phases))"
    by (simp add: positions_def map_concat comp_def split_def)
  ultimately show ?thesis by simp
qed

lemma positions_nth:
  "((i, j), o1) \<in> set (positions phases) \<longleftrightarrow>
     i < length phases \<and> j < length (cosp_Objects (phases ! i)) \<and> o1 = cosp_Objects (phases ! i) ! j"
  by (auto simp: positions_def in_set_enumerate_eq image_iff Bex_def)

text \<open>The data of all inline objects of the phases.\<close>

definition packed_data :: "codec \<Rightarrow> cluster_object_set_phase list \<Rightarrow> string set" where
  "packed_data cd phases =
     {d. \<exists>pos o1 obj. (pos, o1) \<in> set (positions phases) \<and> coso_Object o1 = Some obj \<and>
        object_data cd pos obj = Inr d}"

lemma Pack_inv:
  assumes "Pack cd p phases = Inr res"
  obtains dn st where "pack_inv cd p dn st" "res = ps_result st" "ps_data st = []"
    "\<And>pos o1 obj. (pos, o1) \<in> set (positions phases) \<Longrightarrow> coso_Object o1 = Some obj \<Longrightarrow>
        \<exists>data. object_data cd pos obj = Inr data \<and> (pos, data) \<in> set dn"
    "\<And>pos data. (pos, data) \<in> set dn \<Longrightarrow>
        \<exists>o1 obj. (pos, o1) \<in> set (positions phases) \<and> coso_Object o1 = Some obj \<and>
          object_data cd pos obj = Inr data"
proof -
  obtain st where loop: "pack_loop cd p (positions phases) pack_init = Inr st"
    and res: "res = ps_result (finalizeCurrent cd p st)"
    using assms by (auto simp: Pack_def split: sum.splits)
  obtain dn where dn: "pack_inv cd p dn st"
    "\<forall>(pos, o1) \<in> set (positions phases). \<forall>obj. coso_Object o1 = Some obj \<longrightarrow>
        (\<exists>data. object_data cd pos obj = Inr data \<and> (pos, data) \<in> set dn)"
    "\<forall>(pos, data) \<in> set dn. (pos, data) \<in> set [] \<or>
        (\<exists>o1 obj. (pos, o1) \<in> set (positions phases) \<and> coso_Object o1 = Some obj \<and>
           object_data cd pos obj = Inr data)"
    using pack_loop_inv [OF pack_inv_init positions_distinct _ loop] by auto
  show ?thesis
    using that [OF pack_inv_finalize [OF dn(1)] res finalize_data(1)] dn(2,3) by fastforce
qed

lemma pack_inv_ref_ok:
  assumes "pack_inv cd p dn st" and "ps_data st = []" and "(pos, d) \<in> set dn"
  shows "ref_ok cd p (snd ` set dn) (ps_result st) pos d"
proof -
  have "\<forall>(pos, key) \<in> set (ps_pending st). key \<in> fst ` set (ps_data st)"
    using assms(1) by (simp add: pack_inv_def)
  then have "ps_pending st = []" using assms(2) by (cases "ps_pending st") (simp, fastforce)
  with assms show ?thesis by (auto simp: pack_inv_def)
qed

lemma Pack_ref:
  assumes "Pack cd p phases = Inr res" and "inj_on (contentHash cd) (packed_data cd phases)"
    and "((i, j), o1) \<in> set (positions phases)" and "coso_Object o1 = Some obj"
  shows "\<exists>s data. object_data cd (i, j) obj = Inr data \<and> s \<in> set (pr_Secrets res) \<and>
     pr_Refs res (i, j) = Some \<lparr>ref_Name = sec_Name s, ref_Namespace = sp_SystemNamespace p,
       ref_Key = contentHash cd data\<rparr> \<and>
     map_of (sec_Data s) (contentHash cd data) = Some data"
proof -
  from assms(1) obtain dn st where inv: "pack_inv cd p dn st" "res = ps_result st" "ps_data st = []"
    and a: "\<And>pos o1 obj. (pos, o1) \<in> set (positions phases) \<Longrightarrow> coso_Object o1 = Some obj \<Longrightarrow>
        \<exists>data. object_data cd pos obj = Inr data \<and> (pos, data) \<in> set dn"
    and b: "\<And>pos data. (pos, data) \<in> set dn \<Longrightarrow>
        \<exists>o1 obj. (pos, o1) \<in> set (positions phases) \<and> coso_Object o1 = Some obj \<and>
          object_data cd pos obj = Inr data"
    by (rule Pack_inv) blast
  obtain data where data: "object_data cd (i, j) obj = Inr data" "((i, j), data) \<in> set dn"
    using a assms(3,4) by blast
  have D: "snd ` set dn \<subseteq> packed_data cd phases" using b by (force simp: packed_data_def)
  obtain s d where s: "s \<in> set (pr_Secrets res)" "d \<in> snd ` set dn"
    "pr_Refs res (i, j) = Some \<lparr>ref_Name = sec_Name s, ref_Namespace = sp_SystemNamespace p,
       ref_Key = contentHash cd data\<rparr>"
    "map_of (sec_Data s) (contentHash cd data) = Some d" "contentHash cd d = contentHash cd data"
    using pack_inv_ref_ok [OF inv(1,3) data(2)] inv(2) by (auto simp: ref_ok_def)
  have "data \<in> snd ` set dn" using data(2) by force
  then have "d = data" using s(2,5) D assms(2) by (meson inj_onD subsetD)
  with s data(1) show ?thesis by blast
qed

text \<open>Every inline object has a reference to a packed Secret, whatever the hash.\<close>

lemma Pack_ref_secret:
  assumes "Pack cd p phases = Inr res"
    and "((i, j), o1) \<in> set (positions phases)" and "coso_Object o1 = Some obj"
  shows "\<exists>s ref. s \<in> set (pr_Secrets res) \<and> pr_Refs res (i, j) = Some ref \<and>
     ref_Name ref = sec_Name s \<and> ref_Namespace ref = sp_SystemNamespace p"
proof -
  from assms(1) obtain dn st where inv: "pack_inv cd p dn st" "res = ps_result st" "ps_data st = []"
    and a: "\<And>pos o1 obj. (pos, o1) \<in> set (positions phases) \<Longrightarrow> coso_Object o1 = Some obj \<Longrightarrow>
        \<exists>data. object_data cd pos obj = Inr data \<and> (pos, data) \<in> set dn"
    by (rule Pack_inv) blast
  obtain data where "((i, j), data) \<in> set dn" using a assms(2,3) by blast
  then show ?thesis using pack_inv_ref_ok [OF inv(1,3)] inv(2) by (fastforce simp: ref_ok_def)
qed

lemma Pack_secret_ok: "Pack cd p phases = Inr res \<Longrightarrow> s \<in> set (pr_Secrets res) \<Longrightarrow> secret_ok cd p s"
  by (erule Pack_inv) (auto simp: pack_inv_def)

lemma Pack_ref_dom:
  assumes "Pack cd p phases = Inr res" and "pr_Refs res pos = Some r"
  shows "\<exists>o1 obj. (pos, o1) \<in> set (positions phases) \<and> coso_Object o1 = Some obj"
proof -
  from assms(1) obtain dn st where "pack_inv cd p dn st" "res = ps_result st"
    and b: "\<And>pos data. (pos, data) \<in> set dn \<Longrightarrow>
        \<exists>o1 obj. (pos, o1) \<in> set (positions phases) \<and> coso_Object o1 = Some obj \<and>
          object_data cd pos obj = Inr data"
    by (rule Pack_inv) blast
  then have "pos \<in> fst ` set dn" using assms(2) by (auto simp: pack_inv_def)
  then show ?thesis using b by force
qed

section \<open>Properties\<close>

definition sample_codec :: codec where
  "sample_codec =
     \<lparr>json_Marshal = (\<lambda>j. case j of JObj [(k, JStr v)] \<Rightarrow> Inr (k @ '':'' @ v) | _ \<Rightarrow> Inl (ErrText ''unsupported'')),
      json_Unmarshal = (\<lambda>s. case cut_at CHR '':'' s of (k, Some v) \<Rightarrow> Inr (JObj [(k, JStr v)])
         | _ \<Rightarrow> Inl (ErrText ''unsupported'')),
      gzip_compress = (\<lambda>s. Inr ([CHR 0x1F, CHR 0x8B] @ s)),
      gzip_NewReader = (\<lambda>s. Inr ()), gzip_ReadAll = (\<lambda>s. Inr (drop 2 s)),
      sha256_Sum = (\<lambda>s. s), base64url = (\<lambda>s. s)\<rparr>"

definition sample_packer :: secret_packer where
  "sample_packer = \<lparr>sp_RevisionName = ''ext-1'', sp_OwnerName = ''ext'', sp_SystemNamespace = ''olm''\<rparr>"

definition sample_inline :: "string \<Rightarrow> cluster_object_set_object" where
  "sample_inline v =
     \<lparr>coso_Object = Some (JObj [(''kind'', JStr v)]),
      coso_Ref = \<lparr>ref_Name = '''', ref_Namespace = '''', ref_Key = ''''\<rparr>, coso_CollisionProtection = ''''\<rparr>"

definition sample_phases :: "cluster_object_set_phase list" where
  "sample_phases =
     [\<lparr>cosp_Name = ''deploy'', cosp_Objects = [sample_inline ''a'', sample_inline ''b''],
       cosp_CollisionProtection = ''''\<rparr>]"

lemma sample_Pack:
  "\<exists>res. Pack sample_codec sample_packer sample_phases = Inr res"
  "inj_on (contentHash sample_codec) (packed_data sample_codec sample_phases)"
  "((0, 1), sample_inline ''b'') \<in> set (positions sample_phases)"
proof -
  have "isl (Pack sample_codec sample_packer sample_phases) = False" by code_simp
  then show "\<exists>res. Pack sample_codec sample_packer sample_phases = Inr res"
    by (metis sum.collapse(2))
  show "inj_on (contentHash sample_codec) (packed_data sample_codec sample_phases)"
    by (simp add: inj_on_def contentHash_def sample_codec_def)
  show "((0, 1), sample_inline ''b'') \<in> set (positions sample_phases)"
    by (simp add: positions_def sample_phases_def)
qed

text \<open>
  When packing succeeds, every inline object of every phase has a reference, and the Secret of
  that name among the packed ones holds, under the key of the reference, exactly the encoded object
  (compressed when large), provided the content hash does not collide on the objects packed; and
  only inline objects have references.
\<close>

theorem Pack_refs_resolve:
  assumes "Pack cd p phases = Inr res" and "inj_on (contentHash cd) (packed_data cd phases)"
  shows "(\<forall>pos o1 obj. (pos, o1) \<in> set (positions phases) \<longrightarrow> coso_Object o1 = Some obj \<longrightarrow>
      (\<exists>s data. object_data cd pos obj = Inr data \<and> s \<in> set (pr_Secrets res) \<and>
         pr_Refs res pos = Some \<lparr>ref_Name = sec_Name s, ref_Namespace = sec_Namespace s,
           ref_Key = contentHash cd data\<rparr> \<and>
         map_of (sec_Data s) (contentHash cd data) = Some data)) \<and>
    (\<forall>pos. pr_Refs res pos \<noteq> None \<longrightarrow>
      (\<exists>o1. (pos, o1) \<in> set (positions phases) \<and> coso_Object o1 \<noteq> None))"
proof (intro conjI allI impI)
  fix pos o1 obj
  assume a: "(pos, o1) \<in> set (positions phases)" "coso_Object o1 = Some obj"
  obtain s data where s: "object_data cd pos obj = Inr data" "s \<in> set (pr_Secrets res)"
    "pr_Refs res pos = Some \<lparr>ref_Name = sec_Name s, ref_Namespace = sp_SystemNamespace p,
       ref_Key = contentHash cd data\<rparr>"
    "map_of (sec_Data s) (contentHash cd data) = Some data"
    using Pack_ref [OF assms, of "fst pos" "snd pos" o1 obj] a by auto
  moreover have "sec_Namespace s = sp_SystemNamespace p"
    using Pack_secret_ok [OF assms(1) s(2)] by (metis newSecret_simps(4) secret_ok_def)
  ultimately show "\<exists>s data. object_data cd pos obj = Inr data \<and> s \<in> set (pr_Secrets res) \<and>
         pr_Refs res pos = Some \<lparr>ref_Name = sec_Name s, ref_Namespace = sec_Namespace s,
           ref_Key = contentHash cd data\<rparr> \<and>
         map_of (sec_Data s) (contentHash cd data) = Some data" by auto
next
  fix pos
  assume "pr_Refs res pos \<noteq> None"
  then show "\<exists>o1. (pos, o1) \<in> set (positions phases) \<and> coso_Object o1 \<noteq> None"
    using Pack_ref_dom [OF assms(1)] by fastforce
qed

theorem Pack_refs_resolve_witness:
  "\<exists>res s data. Pack sample_codec sample_packer sample_phases = Inr res \<and> s \<in> set (pr_Secrets res) \<and>
     pr_Refs res (0, 1) = Some \<lparr>ref_Name = sec_Name s, ref_Namespace = sec_Namespace s,
       ref_Key = contentHash sample_codec data\<rparr> \<and>
     map_of (sec_Data s) (contentHash sample_codec data) = Some data"
proof -
  obtain res where res: "Pack sample_codec sample_packer sample_phases = Inr res"
    using sample_Pack(1) by blast
  have "coso_Object (sample_inline ''b'') = Some (JObj [(''kind'', JStr ''b'')])"
    by (simp add: sample_inline_def)
  with Pack_refs_resolve [OF res sample_Pack(2)] sample_Pack(3) res show ?thesis by blast
qed

text \<open>
  C15: Every packed Secret is immutable and of the object-data type, is in the system namespace and
  carries the labels of its revision and owner, holds at least one entry, and its data is at most
  900 KiB.
\<close>

theorem Pack_secrets_bounded:
  assumes "Pack cd p phases = Inr res" and "s \<in> set (pr_Secrets res)"
  shows "sec_Immutable s = Some True \<and> sec_Type s = SecretTypeObjectData \<and>
     sec_Namespace s = sp_SystemNamespace p \<and>
     sec_Labels s RevisionNameKey = Some (sp_RevisionName p) \<and> sec_Labels s OwnerNameKey = Some (sp_OwnerName p) \<and>
     sec_Data s \<noteq> [] \<and> sum_list (map (\<lambda>(k, d). length d) (sec_Data s)) \<le> 900 * 1024"
proof -
  have ok: "secret_ok cd p s" by (rule Pack_secret_ok [OF assms])
  then obtain data where s: "s = newSecret cd p data" and data: "data = sec_Data s"
    by (auto simp: secret_ok_def)
  have "sum_list (map (\<lambda>(k, d). length d) data) = data_size data"
    by (simp add: data_size_def comp_def split_def)
  then show ?thesis
    using ok data unfolding s
    by (auto simp: secret_ok_def newSecret_def maxSecretDataSize_def label_keys)
qed

theorem Pack_secrets_bounded_witness:
  "\<exists>res s. Pack sample_codec sample_packer sample_phases = Inr res \<and> s \<in> set (pr_Secrets res) \<and>
     sec_Immutable s = Some True \<and> sum_list (map (\<lambda>(k, d). length d) (sec_Data s)) \<le> 900 * 1024"
proof -
  obtain res where res: "Pack sample_codec sample_packer sample_phases = Inr res"
    using sample_Pack(1) by blast
  moreover obtain s where "s \<in> set (pr_Secrets res)"
    using Pack_ref [OF res sample_Pack(2,3)] by (auto simp: sample_inline_def)
  ultimately show ?thesis using Pack_secrets_bounded by blast
qed

end
