(* ===== verification/Cos_Phases.thy ===== *)
theory Cos_Phases
  imports Phase_Sort Secret_Packer Catalog_Resolve
begin

text \<open>
  The content of a ClusterObjectSet as its controller sees it
  (\<open>controllers/clusterobjectset_controller.go\<close>): the other revisions of its owner, the resolution
  of references to Secrets, the progression probes, collision protection, the digests of the phases
  and the checks that the content did not change. Calls to the API server and to libraries are
  fields of \<open>cos_env\<close>.
\<close>

section \<open>Definitions\<close>

subsection \<open>The results of the revision engine\<close>

record object_result =
  ores_Collision :: bool
  ores_String :: string
  ores_ProbeTrue :: bool
  ores_ProbeMessages :: "string list"
  ores_Kind :: string
  ores_GroupVersion :: string
  ores_Namespace :: string
  ores_Name :: string

record phase_result =
  pres_ValidationError :: "string option"
  pres_Objects :: "object_result list"
  pres_Complete :: bool

record revision_result =
  rres_ValidationError :: "string option"
  rres_Phases :: "phase_result list"
  rres_InTransition :: bool
  rres_Complete :: bool

datatype prober =
    ConditionProbe condition_equal_probe
  | FieldsEqualProbe fields_equal_probe
  | FieldValueProbe field_value_probe
  | ProbeAnd "prober list"
  | GroupKindSelector group_kind prober
  | LabelSelectorProbe label_sel prober
  | ObservedGenerationProbe prober

record boxcutter_phase =
  bp_Name :: string
  bp_Objects :: "json list"

record revision_options =
  ro_SiblingOwners :: "string list"
  ro_Probe :: prober
  ro_CollisionProtection :: "(json \<times> string) list"

record cos_env =
  ce_now :: int
  ce_codec :: codec
  ce_LabelSelectorAsSelector :: "label_selector option \<Rightarrow> label_sel result"
  ce_GetCOS :: "string \<Rightarrow> cluster_object_set result"
  ce_GetSecret :: "string \<Rightarrow> string \<Rightarrow> secret result"
  ce_ListRevisions :: "string \<Rightarrow> cluster_object_set list result"
  ce_CreateRevisionEngine :: "cluster_object_set \<Rightarrow> unit result"
  ce_Free :: "go_error option"
  ce_Watch :: "group_version_kind list \<Rightarrow> go_error option"
  ce_EngineReconcile :: "boxcutter_phase list \<Rightarrow> revision_options \<Rightarrow> revision_result result"
  ce_EngineTeardown :: "boxcutter_phase list \<Rightarrow> bool option result"
  ce_PatchFinalizers :: "string list \<Rightarrow> go_error option"
  ce_PatchArchived :: "string \<Rightarrow> go_error option"
  ce_UpdateStatus :: "cluster_object_set_status \<Rightarrow> go_error option"

subsection \<open>Sibling revisions\<close>

definition listOtherActiveRevisions ::
  "cos_env \<Rightarrow> cluster_object_set \<Rightarrow> (cluster_object_set \<Rightarrow> bool) \<Rightarrow> cluster_object_set list result" where
  "listOtherActiveRevisions env cos predicate =
     (case meta_Labels (cos_Meta cos) OwnerNameKey of
        None \<Rightarrow> Inr []
      | Some ownerLabel \<Rightarrow>
          (case ce_ListRevisions env ownerLabel of
             Inl e \<Rightarrow> Inl (ErrWrap ''listing revisions: '' e '''')
           | Inr items \<Rightarrow>
               Inr (filter (\<lambda>r.
                 \<not> meta_Name (cos_Meta r) = meta_Name (cos_Meta cos) \<and>
                 \<not> (coss_LifecycleState (cos_Spec r) = ClusterObjectSetLifecycleStateArchived \<or>
                    meta_DeletionTimestamp (cos_Meta r) \<noteq> None) \<and>
                 predicate r) items)))"

definition listSiblingRevisions :: "cos_env \<Rightarrow> cluster_object_set \<Rightarrow> cluster_object_set list result" where
  "listSiblingRevisions env cos = listOtherActiveRevisions env cos (\<lambda>r. True)"

definition listPreviousRevisions :: "cos_env \<Rightarrow> cluster_object_set \<Rightarrow> cluster_object_set list result" where
  "listPreviousRevisions env cos =
     listOtherActiveRevisions env cos (\<lambda>r. coss_Revision (cos_Spec r) < coss_Revision (cos_Spec cos))"

subsection \<open>References\<close>

definition maxDecompressedSize :: nat where
  "maxDecompressedSize = 10 * 1024 * 1024"

definition resolveObjectRef :: "cos_env \<Rightarrow> object_source_ref \<Rightarrow> json result" where
  "resolveObjectRef env ref =
     (let loc = ref_Namespace ref @ ''/'' @ ref_Name ref;
          kloc = ''key '' @ go_quote (ref_Key ref) @ '' in Secret '' @ loc;
          decode = (\<lambda>d. case json_Unmarshal (ce_codec env) d of
             Inl e \<Rightarrow> Inl (ErrWrap (''unmarshaling object from '' @ kloc @ '': '') e '''')
           | Inr obj \<Rightarrow> Inr obj) in
      case ce_GetSecret env (ref_Namespace ref) (ref_Name ref) of
        Inl e \<Rightarrow> Inl (ErrWrap (''getting Secret '' @ loc @ '': '') e '''')
      | Inr s \<Rightarrow>
          (case map_of (sec_Data s) (ref_Key ref) of
             None \<Rightarrow> Inl (ErrText (''key '' @ go_quote (ref_Key ref) @ '' not found in Secret '' @ loc))
           | Some d \<Rightarrow>
               if has_gzip_magic d then
                 (case gzip_NewReader (ce_codec env) d of
                    Inl e \<Rightarrow> Inl (ErrWrap (''creating gzip reader for '' @ kloc @ '': '') e '''')
                  | Inr u \<Rightarrow>
                      (case gzip_ReadAll (ce_codec env) d of
                         Inl e \<Rightarrow> Inl (ErrWrap (''decompressing '' @ kloc @ '': '') e '''')
                       | Inr decompressed \<Rightarrow>
                           if length decompressed > maxDecompressedSize then
                             Inl (ErrText (''decompressed data for '' @ kloc @ '' exceeds maximum size ('' @
                               show_nat maxDecompressedSize @ '' bytes)''))
                           else decode decompressed))
               else decode d))"

subsection \<open>Progression probes\<close>

fun build_assertions :: "assertion list \<Rightarrow> prober list result" where
  "build_assertions [] = Inr []"
| "build_assertions (a # as) =
     (case (if as_Type a = ProbeTypeConditionEqual then Inr (ConditionProbe (as_ConditionEqual a))
            else if as_Type a = ProbeTypeFieldsEqual then Inr (FieldsEqualProbe (as_FieldsEqual a))
            else if as_Type a = ProbeTypeFieldValue then Inr (FieldValueProbe (as_FieldValue a))
            else Inl (ErrText (''unknown progressionProbe assertion probe type: '' @ as_Type a))) of
        Inl e \<Rightarrow> Inl e
      | Inr p \<Rightarrow> (case build_assertions as of Inl e \<Rightarrow> Inl e | Inr ps \<Rightarrow> Inr (p # ps)))"

definition build_selector :: "cos_env \<Rightarrow> object_selector \<Rightarrow> prober \<Rightarrow> prober result" where
  "build_selector env sel assertions =
     (if osel_Type sel = SelectorTypeGroupKind then Inr (GroupKindSelector (osel_GroupKind sel) assertions)
      else if osel_Type sel = SelectorTypeLabel then
        (case ce_LabelSelectorAsSelector env (Some (osel_Label sel)) of
           Inl e \<Rightarrow> Inl (ErrWrap ''invalid label selector in progressionProbe: '' e '''')
         | Inr s \<Rightarrow> Inr (LabelSelectorProbe s assertions))
      else Inl (ErrText (''unknown progressionProbe selector type: '' @ osel_Type sel)))"

fun build_probe_list :: "cos_env \<Rightarrow> progression_probe list \<Rightarrow> prober list result" where
  "build_probe_list env [] = Inr []"
| "build_probe_list env (p # ps) =
     (case build_assertions (pp_Assertions p) of
        Inl e \<Rightarrow> Inl e
      | Inr as \<Rightarrow>
          (case build_selector env (pp_Selector p) (ProbeAnd as) of
             Inl e \<Rightarrow> Inl e
           | Inr q \<Rightarrow>
               (case build_probe_list env ps of
                  Inl e \<Rightarrow> Inl e
                | Inr qs \<Rightarrow> Inr (ObservedGenerationProbe q # qs))))"

definition buildProgressionProbes :: "cos_env \<Rightarrow> progression_probe list \<Rightarrow> prober result" where
  "buildProgressionProbes env probes =
     (case build_probe_list env probes of Inl e \<Rightarrow> Inl e | Inr qs \<Rightarrow> Inr (ProbeAnd qs))"

subsection \<open>Collision protection\<close>

definition EffectiveCollisionProtection :: "string list \<Rightarrow> string" where
  "EffectiveCollisionProtection cps =
     foldl (\<lambda>ecp c. if c \<noteq> '''' then c else ecp) CollisionProtectionPrevent cps"

subsection \<open>Labels and annotations of unstructured objects\<close>

text \<open>
  \<open>GetLabels\<close> and \<open>GetAnnotations\<close> give nil (here \<open>None\<close>) when the field is missing or is not a
  map of strings; the setters do nothing when \<open>metadata\<close> is not an object.
\<close>

fun json_put :: "(string \<times> json) list \<Rightarrow> string \<Rightarrow> json \<Rightarrow> (string \<times> json) list" where
  "json_put [] k v = [(k, v)]"
| "json_put ((k', v') # fs) k v = (if k' = k then (k, v) # fs else (k', v') # json_put fs k v)"

definition json_meta_map :: "json \<Rightarrow> string \<Rightarrow> (string \<times> string) list option" where
  "json_meta_map obj f =
     (case json_path obj [''metadata'', f] of
        Some (JObj fs) \<Rightarrow>
          if list_all (\<lambda>(k, v). case v of JStr s \<Rightarrow> True | _ \<Rightarrow> False) fs
          then Some (map (\<lambda>(k, v). (k, json_str (Some v))) fs) else None
      | _ \<Rightarrow> None)"

definition json_set_meta_map :: "json \<Rightarrow> string \<Rightarrow> (string \<times> string) list \<Rightarrow> json" where
  "json_set_meta_map obj f m =
     (let value = JObj (map (\<lambda>(k, v). (k, JStr v)) m) in
      case obj of
        JObj fs \<Rightarrow>
          (case map_of fs ''metadata'' of
             None \<Rightarrow> JObj (json_put fs ''metadata'' (JObj [(f, value)]))
           | Some (JObj ms) \<Rightarrow> JObj (json_put fs ''metadata'' (JObj (json_put ms f value)))
           | Some _ \<Rightarrow> obj)
      | _ \<Rightarrow> obj)"

definition json_labels :: "json \<Rightarrow> (string \<times> string) list" where
  "json_labels obj = (case json_meta_map obj ''labels'' of None \<Rightarrow> [] | Some m \<Rightarrow> m)"

fun alist_put :: "(string \<times> string) list \<Rightarrow> string \<Rightarrow> string \<Rightarrow> (string \<times> string) list" where
  "alist_put [] k v = [(k, v)]"
| "alist_put ((k', v') # fs) k v = (if k' = k then (k, v) # fs else (k', v') # alist_put fs k v)"

subsection \<open>Digests\<close>

definition computePhaseDigest :: "cos_env \<Rightarrow> string \<Rightarrow> json list \<Rightarrow> string result" where
  "computePhaseDigest env name objs =
     (case json_Marshal (ce_codec env) (JObj [(''name'', JStr name), (''objects'', JArr objs)]) of
        Inl e \<Rightarrow> Inl (ErrWrap (''marshaling phase '' @ go_quote name @ '': '') e '''')
      | Inr d \<Rightarrow> Inr (''sha256:'' @ hex_string (sha256_Sum (ce_codec env) d)))"

definition storedMap :: "observed_phase list \<Rightarrow> string_map" where
  "storedMap stored = foldl (\<lambda>m s. m(op_Name s \<mapsto> op_Digest s)) Map.empty stored"

definition phase_mismatches :: "observed_phase list \<Rightarrow> observed_phase list \<Rightarrow> string list" where
  "phase_mismatches stored current =
     List.map_filter (\<lambda>c.
       case storedMap stored (op_Name c) of
         None \<Rightarrow> None
       | Some prev \<Rightarrow>
           if prev \<noteq> op_Digest c then
             Some (''phase '' @ go_quote (op_Name c) @ '' (expected digest '' @ prev @ '', got '' @ op_Digest c @ '')'')
           else None) current"

definition verifyObservedPhases :: "observed_phase list \<Rightarrow> observed_phase list \<Rightarrow> go_error option" where
  "verifyObservedPhases stored current =
     (if stored = [] then Some (ErrText ''stored observedPhases is unexpectedly empty'')
      else if length stored \<noteq> length current then
        Some (ErrText (''number of phases has changed (expected '' @ show_nat (length stored) @
          '' phases, got '' @ show_nat (length current) @ '')''))
      else
        (let mismatches = phase_mismatches stored current in
         if mismatches \<noteq> [] then
           Some (ErrText (''resolved content of '' @ show_nat (length mismatches) @
             '' phase(s) has changed: '' @ go_join ''; '' mismatches @
             ''; a referenced object source may have been deleted and recreated with different content''))
         else None))"

subsection \<open>Referenced Secrets\<close>

definition secret_refs :: "cluster_object_set \<Rightarrow> (string \<times> string) list" where
  "secret_refs cos =
     foldl (\<lambda>refs o1.
       let ref = coso_Ref o1; sr = (ref_Name ref, ref_Namespace ref) in
       if ref_Name ref = '''' then refs
       else if sr \<in> set refs then refs else refs @ [sr])
       [] (concat (map cosp_Objects (coss_Phases (cos_Spec cos))))"

fun mutable_secrets :: "cos_env \<Rightarrow> (string \<times> string) list \<Rightarrow> string list result" where
  "mutable_secrets env [] = Inr []"
| "mutable_secrets env ((name, ns) # refs) =
     (case ce_GetSecret env ns name of
        Inl e \<Rightarrow>
          if IsNotFound e then mutable_secrets env refs
          else Inl (ErrWrap (''getting Secret '' @ ns @ ''/'' @ name @ '': '') e '''')
      | Inr s \<Rightarrow>
          (case mutable_secrets env refs of
             Inl e \<Rightarrow> Inl e
           | Inr ms \<Rightarrow>
               Inr (if sec_Immutable s \<noteq> Some True then (ns @ ''/'' @ name) # ms else ms)))"

definition verifyReferencedSecretsImmutable :: "cos_env \<Rightarrow> cluster_object_set \<Rightarrow> go_error option" where
  "verifyReferencedSecretsImmutable env cos =
     (case mutable_secrets env (secret_refs cos) of
        Inl e \<Rightarrow> Some e
      | Inr ms \<Rightarrow>
          if ms \<noteq> [] then
            Some (ErrText (''the following secrets are not immutable (referenced secrets must have immutable set to true): '' @
              go_join '', '' ms))
          else None)"

subsection \<open>Building the phases\<close>

fun phase_objs :: "cos_env \<Rightarrow> string \<Rightarrow> cluster_object_set_object list \<Rightarrow> json list result" where
  "phase_objs env phaseName [] = Inr []"
| "phase_objs env phaseName (specObj # rest) =
     (case
        (case coso_Object specObj of
           Some obj \<Rightarrow> Inr obj
         | None \<Rightarrow>
             if ref_Name (coso_Ref specObj) \<noteq> '''' then
               (case resolveObjectRef env (coso_Ref specObj) of
                  Inl e \<Rightarrow> Inl (ErrWrap (''resolving ref in phase '' @ go_quote phaseName @ '': '') e '''')
                | Inr obj \<Rightarrow> Inr obj)
             else Inl (ErrText (''object in phase '' @ go_quote phaseName @ '' has neither object nor ref''))) of
        Inl e \<Rightarrow> Inl e
      | Inr obj \<Rightarrow> (case phase_objs env phaseName rest of Inl e \<Rightarrow> Inl e | Inr objs \<Rightarrow> Inr (obj # objs)))"

text \<open>The owner label the controller adds; \<open>cos.Labels[...]\<close> of a missing label is the empty string.\<close>

definition label_object :: "cluster_object_set \<Rightarrow> json \<Rightarrow> json" where
  "label_object cos obj =
     json_set_meta_map obj ''labels''
       (alist_put (json_labels obj) OwnerNameKey (map_get (meta_Labels (cos_Meta cos)) OwnerNameKey))"

definition collision_options ::
  "cluster_object_set \<Rightarrow> cluster_object_set_phase \<Rightarrow> json list \<Rightarrow> (json \<times> string) list" where
  "collision_options cos specPhase objs =
     filter (\<lambda>(obj, cp). cp = CollisionProtectionIfNoController \<or> cp = CollisionProtectionNone)
       (map2 (\<lambda>obj specObj. (obj, EffectiveCollisionProtection
           [coss_CollisionProtection (cos_Spec cos), cosp_CollisionProtection specPhase,
            coso_CollisionProtection specObj]))
         objs (cosp_Objects specPhase))"

fun build_phases ::
  "cos_env \<Rightarrow> cluster_object_set \<Rightarrow> cluster_object_set_phase list \<Rightarrow>
   (boxcutter_phase list \<times> observed_phase list \<times> (json \<times> string) list) result" where
  "build_phases env cos [] = Inr ([], [], [])"
| "build_phases env cos (specPhase # rest) =
     (case phase_objs env (cosp_Name specPhase) (cosp_Objects specPhase) of
        Inl e \<Rightarrow> Inl e
      | Inr objs \<Rightarrow>
          (case computePhaseDigest env (cosp_Name specPhase) objs of
             Inl e \<Rightarrow> Inl (ErrWrap ''computing phase digest: '' e '''')
           | Inr digest \<Rightarrow>
               (let labelled = map (label_object cos) objs in
                case build_phases env cos rest of
                  Inl e \<Rightarrow> Inl e
                | Inr (phases, observed, opts) \<Rightarrow>
                    Inr (\<lparr>bp_Name = cosp_Name specPhase, bp_Objects = labelled\<rparr> # phases,
                         \<lparr>op_Name = cosp_Name specPhase, op_Digest = digest\<rparr> # observed,
                         collision_options cos specPhase labelled @ opts))))"

definition buildBoxcutterPhases ::
  "cos_env \<Rightarrow> cluster_object_set \<Rightarrow>
   (boxcutter_phase list \<times> observed_phase list \<times> revision_options) result" where
  "buildBoxcutterPhases env cos =
     (case listSiblingRevisions env cos of
        Inl e \<Rightarrow> Inl (ErrWrap ''listing sibling revisions: '' e '''')
      | Inr siblings \<Rightarrow>
          (case buildProgressionProbes env (coss_ProgressionProbes (cos_Spec cos)) of
             Inl e \<Rightarrow> Inl e
           | Inr probes \<Rightarrow>
               (case build_phases env cos (coss_Phases (cos_Spec cos)) of
                  Inl e \<Rightarrow> Inl e
                | Inr (phases, observed, cps) \<Rightarrow>
                    Inr (phases, observed,
                      \<lparr>ro_SiblingOwners = map (\<lambda>r. meta_Name (cos_Meta r)) siblings,
                       ro_Probe = probes, ro_CollisionProtection = cps\<rparr>))))"

section \<open>Lemmas\<close>

lemma map_of_json_put [simp]: "map_of (json_put fs k v) = (map_of fs)(k \<mapsto> v)"
  by (induction fs k v rule: json_put.induct) auto

lemma EffectiveCollisionProtection_three:
  "EffectiveCollisionProtection [spec, phase, obj] =
     (if obj \<noteq> '''' then obj else if phase \<noteq> '''' then phase else if spec \<noteq> '''' then spec
      else CollisionProtectionPrevent)"
  by (simp add: EffectiveCollisionProtection_def)

lemma storedMap_snoc [simp]: "storedMap (xs @ [x]) = (storedMap xs)(op_Name x \<mapsto> op_Digest x)"
  by (simp add: storedMap_def)

lemma storedMap_Some: "storedMap stored n = Some d \<Longrightarrow> \<exists>s \<in> set stored. op_Name s = n \<and> op_Digest s = d"
  by (induction stored rule: rev_induct) (auto simp: storedMap_def split: if_splits)

lemma storedMap_distinct:
  "distinct (map op_Name stored) \<Longrightarrow> s \<in> set stored \<Longrightarrow> storedMap stored (op_Name s) = Some (op_Digest s)"
proof (induction stored rule: rev_induct)
  case (snoc x xs)
  then show ?case by (cases "s = x") (auto simp: image_iff)
qed simp

lemma map_filter_Nil: "List.map_filter f xs = [] \<longleftrightarrow> (\<forall>x \<in> set xs. f x = None)"
  by (induction xs) (auto simp: List.map_filter_simps split: option.splits)

lemma phase_mismatches_Nil:
  "phase_mismatches stored current = [] \<longleftrightarrow>
     (\<forall>c \<in> set current. storedMap stored (op_Name c) \<in> {None, Some (op_Digest c)})"
  unfolding phase_mismatches_def map_filter_Nil
  by (intro ball_cong refl) (auto split: option.split)

lemma verifyObservedPhases_None:
  "verifyObservedPhases stored current = None \<longleftrightarrow>
     stored \<noteq> [] \<and> length stored = length current \<and>
     (\<forall>c \<in> set current. storedMap stored (op_Name c) \<in> {None, Some (op_Digest c)})"
  by (auto simp: verifyObservedPhases_def phase_mismatches_Nil Let_def)

lemma observed_phases_equal:
  assumes "distinct (map op_Name stored)" and "map op_Name current = map op_Name stored"
    and "verifyObservedPhases stored current = None"
  shows "current = stored"
proof (rule nth_equalityI)
  show len: "length current = length stored" using assms(2) by (metis length_map)
  fix i assume i: "i < length current"
  then have n: "op_Name (current ! i) = op_Name (stored ! i)"
    using assms(2) len by (metis nth_map)
  have "storedMap stored (op_Name (stored ! i)) = Some (op_Digest (stored ! i))"
    using storedMap_distinct [OF assms(1)] i len by simp
  then have "op_Digest (current ! i) = op_Digest (stored ! i)"
    using assms(3) nth_mem [OF i] n unfolding verifyObservedPhases_None by fastforce
  with n show "current ! i = stored ! i" by simp
qed

lemma secret_refs_fold:
  "set (foldl (\<lambda>refs o1.
       let ref = coso_Ref o1; sr = (ref_Name ref, ref_Namespace ref) in
       if ref_Name ref = '''' then refs
       else if sr \<in> set refs then refs else refs @ [sr]) acc os) =
     set acc \<union> {(ref_Name (coso_Ref o1), ref_Namespace (coso_Ref o1)) | o1.
        o1 \<in> set os \<and> ref_Name (coso_Ref o1) \<noteq> ''''}"
  by (induction os arbitrary: acc) (auto simp: Let_def)

lemma set_secret_refs:
  "set (secret_refs cos) =
     {(ref_Name (coso_Ref o1), ref_Namespace (coso_Ref o1)) | o1 ph.
        ph \<in> set (coss_Phases (cos_Spec cos)) \<and> o1 \<in> set (cosp_Objects ph) \<and> ref_Name (coso_Ref o1) \<noteq> ''''}"
  unfolding secret_refs_def secret_refs_fold by auto

lemma mutable_secrets_Nil:
  "mutable_secrets env refs = Inr [] \<longleftrightarrow>
     (\<forall>(name, ns) \<in> set refs.
        case ce_GetSecret env ns name of
          Inl e \<Rightarrow> IsNotFound e
        | Inr s \<Rightarrow> sec_Immutable s = Some True)"
proof (induction refs)
  case (Cons r refs)
  obtain name ns where r: "r = (name, ns)" by (cases r)
  show ?case
  proof (cases "ce_GetSecret env ns name")
    case (Inl e)
    with Cons r show ?thesis by auto
  next
    case (Inr s)
    then have "mutable_secrets env (r # refs) = Inr [] \<longleftrightarrow>
        sec_Immutable s = Some True \<and> mutable_secrets env refs = Inr []"
      using r by (cases "mutable_secrets env refs") auto
    with Cons.IH Inr r show ?thesis by simp
  qed
qed simp

lemma listOther_Inr:
  "listOtherActiveRevisions env cos P = Inr rs \<Longrightarrow> r \<in> set rs \<Longrightarrow>
     \<exists>owner items. meta_Labels (cos_Meta cos) OwnerNameKey = Some owner \<and>
       ce_ListRevisions env owner = Inr items \<and> r \<in> set items \<and>
       meta_Name (cos_Meta r) \<noteq> meta_Name (cos_Meta cos) \<and>
       coss_LifecycleState (cos_Spec r) \<noteq> ClusterObjectSetLifecycleStateArchived \<and>
       meta_DeletionTimestamp (cos_Meta r) = None \<and> P r"
  by (auto simp: listOtherActiveRevisions_def split: option.splits sum.splits)

lemma build_phases_observed:
  "build_phases env cos ps = Inr (phases, observed, opts) \<Longrightarrow> map op_Name observed = map cosp_Name ps"
  by (induction ps arbitrary: phases observed opts) (auto simp: Let_def split: sum.splits prod.splits)

section \<open>Properties\<close>

text \<open>
  The check of the observed phases detects every change of content: for phases with distinct
  names that are still the phases recorded, it succeeds exactly when every recorded digest is
  unchanged.
\<close>

theorem observed_phases_detect_change:
  assumes "stored \<noteq> []" and "distinct (map op_Name stored)" and "map op_Name current = map op_Name stored"
  shows "verifyObservedPhases stored current = None \<longleftrightarrow> current = stored"
  using assms observed_phases_equal [OF assms(2,3)] storedMap_distinct [OF assms(2)]
  by (auto simp: verifyObservedPhases_None)

theorem observed_phases_detect_change_witness:
  "verifyObservedPhases [\<lparr>op_Name = ''deploy'', op_Digest = ''a''\<rparr>] [\<lparr>op_Name = ''deploy'', op_Digest = ''b''\<rparr>] \<noteq> None"
  using observed_phases_detect_change [of "[\<lparr>op_Name = ''deploy'', op_Digest = ''a''\<rparr>]"
      "[\<lparr>op_Name = ''deploy'', op_Digest = ''b''\<rparr>]"] by simp

text \<open>
  The immutability check passes exactly when every Secret that an object of any phase refers to
  is either not found or immutable; one that cannot be read for another reason fails it.
\<close>

theorem secrets_immutable_iff:
  "verifyReferencedSecretsImmutable env cos = None \<longleftrightarrow>
     (\<forall>ph \<in> set (coss_Phases (cos_Spec cos)). \<forall>o1 \<in> set (cosp_Objects ph).
        ref_Name (coso_Ref o1) \<noteq> '''' \<longrightarrow>
        (case ce_GetSecret env (ref_Namespace (coso_Ref o1)) (ref_Name (coso_Ref o1)) of
           Inl e \<Rightarrow> IsNotFound e
         | Inr s \<Rightarrow> sec_Immutable s = Some True))"
proof -
  have "verifyReferencedSecretsImmutable env cos = None \<longleftrightarrow> mutable_secrets env (secret_refs cos) = Inr []"
    by (auto simp: verifyReferencedSecretsImmutable_def split: sum.splits)
  then show ?thesis
    unfolding mutable_secrets_Nil set_secret_refs by fastforce
qed

definition sample_secret :: secret where
  "sample_secret =
     \<lparr>sec_Name = ''s'', sec_Namespace = ''olm'', sec_Labels = Map.empty, sec_OwnerReferences = [],
      sec_Immutable = Some False, sec_Type = SecretTypeObjectData, sec_Data = []\<rparr>"

definition sample_env :: cos_env where
  "sample_env =
     \<lparr>ce_now = 0, ce_codec = sample_codec, ce_LabelSelectorAsSelector = (\<lambda>s. Inr SelEverything),
      ce_GetCOS = (\<lambda>n. Inl (ErrApi NotFound ''not found'')),
      ce_GetSecret = (\<lambda>ns n. if n = ''s'' then Inr sample_secret else Inl (ErrApi NotFound ''not found'')),
      ce_ListRevisions = (\<lambda>o1. Inr []), ce_CreateRevisionEngine = (\<lambda>c. Inr ()), ce_Free = None,
      ce_Watch = (\<lambda>g. None),
      ce_EngineReconcile = (\<lambda>ps opts. Inr \<lparr>rres_ValidationError = None, rres_Phases = [],
        rres_InTransition = False, rres_Complete = True\<rparr>),
      ce_EngineTeardown = (\<lambda>ps. Inr (Some True)), ce_PatchFinalizers = (\<lambda>f. None),
      ce_PatchArchived = (\<lambda>n. None), ce_UpdateStatus = (\<lambda>s. None)\<rparr>"

definition sample_ref_object :: "string \<Rightarrow> cluster_object_set_object" where
  "sample_ref_object n =
     \<lparr>coso_Object = None, coso_Ref = \<lparr>ref_Name = n, ref_Namespace = ''olm'', ref_Key = ''k''\<rparr>,
      coso_CollisionProtection = ''''\<rparr>"

definition sample_cos :: "cluster_object_set_object list \<Rightarrow> cluster_object_set" where
  "sample_cos os =
     \<lparr>cos_Meta = (ex_meta ''ext-1'')\<lparr>meta_Labels := [OwnerNameKey \<mapsto> ''ext'']\<rparr>,
      cos_Spec = \<lparr>coss_LifecycleState = ''Active'', coss_Revision = 1,
        coss_Phases = [\<lparr>cosp_Name = ''deploy'', cosp_Objects = os, cosp_CollisionProtection = ''''\<rparr>],
        coss_ProgressDeadlineMinutes = 10, coss_ProgressionProbes = [], coss_CollisionProtection = ''''\<rparr>,
      cos_Status = \<lparr>cosst_Conditions = [], cosst_ObservedPhases = []\<rparr>\<rparr>"

theorem secrets_immutable_iff_witness:
  "verifyReferencedSecretsImmutable sample_env (sample_cos [sample_ref_object ''s'']) \<noteq> None \<and>
   verifyReferencedSecretsImmutable sample_env (sample_cos [sample_ref_object ''missing'']) = None"
  using secrets_immutable_iff [of sample_env "sample_cos [sample_ref_object ''s'']"]
    secrets_immutable_iff [of sample_env "sample_cos [sample_ref_object ''missing'']"]
  by (simp add: sample_cos_def sample_ref_object_def sample_env_def sample_secret_def IsNotFound_def)

end
