(* ===== verification/Progress_Deadline.thy ===== *)
theory Progress_Deadline
  imports Api_Types
begin

text \<open>
  The progress deadline of a ClusterObjectSet and the rate limiter that respects it
  (\<open>internal/operator-controller/controllers/progress_deadline.go\<close>). Instants and durations are
  nanoseconds; a \<open>time.Duration\<close> is 64 bits wide.
\<close>

section \<open>Definitions\<close>

definition durationUntilDeadline :: "int \<Rightarrow> cluster_object_set \<Rightarrow> int \<times> bool" where
  "durationUntilDeadline now cos =
     (let pd = coss_ProgressDeadlineMinutes (cos_Spec cos) in
      if pd \<le> 0 then (0, False)
      else if IsStatusConditionTrue (cosst_Conditions (cos_Status cos)) ClusterObjectSetTypeSucceeded
      then (0, False)
      else if coss_LifecycleState (cos_Spec cos) = ClusterObjectSetLifecycleStateArchived then (0, False)
      else if meta_DeletionTimestamp (cos_Meta cos) \<noteq> None then (0, False)
      else
        (let deadline = meta_CreationTimestamp (cos_Meta cos) + wrap64 (pd * minute_ns) in
         (sat64 (deadline - now), True)))"

text \<open>
  The limiter's own state is the set of items past their deadline; the delegate is a stateful
  object whose operations are parameters.
\<close>

record 'd deadline_limiter =
  dl_delegate :: 'd
  dl_pastDeadline :: "string list"

record 'd limiter_delegate =
  del_When :: "'d \<Rightarrow> string \<Rightarrow> int \<times> 'd"
  del_Forget :: "'d \<Rightarrow> string \<Rightarrow> 'd"
  del_NumRequeues :: "'d \<Rightarrow> string \<Rightarrow> int"

definition limiter_When ::
  "'d limiter_delegate \<Rightarrow> (string \<Rightarrow> cluster_object_set result) \<Rightarrow> int \<Rightarrow> 'd deadline_limiter \<Rightarrow> string \<Rightarrow>
   int \<times> 'd deadline_limiter" where
  "limiter_When del get now r item =
     (let (backoff, d) = del_When del (dl_delegate r) item;
          r1 = r\<lparr>dl_delegate := d\<rparr> in
      case get item of
        Inl e \<Rightarrow> (backoff, r1)
      | Inr cos \<Rightarrow>
          (let (remaining, hasDeadline) = durationUntilDeadline now cos in
           if \<not> hasDeadline then (backoff, r1)
           else if remaining > 0 then (if remaining < backoff then remaining else backoff, r1)
           else if item \<notin> set (dl_pastDeadline r1) then
             (0, r1\<lparr>dl_pastDeadline := item # dl_pastDeadline r1\<rparr>)
           else (backoff, r1)))"

definition limiter_Forget ::
  "'d limiter_delegate \<Rightarrow> 'd deadline_limiter \<Rightarrow> string \<Rightarrow> 'd deadline_limiter" where
  "limiter_Forget del r item =
     \<lparr>dl_delegate = del_Forget del (dl_delegate r) item,
      dl_pastDeadline = filter (\<lambda>x. x \<noteq> item) (dl_pastDeadline r)\<rparr>"

definition limiter_NumRequeues :: "'d limiter_delegate \<Rightarrow> 'd deadline_limiter \<Rightarrow> string \<Rightarrow> int" where
  "limiter_NumRequeues del r item = del_NumRequeues del (dl_delegate r) item"

subsection \<open>Runs of the work queue\<close>

text \<open>
  The calls the work queue makes, in any order, with the cluster state and the time at which each
  happens. A run collects, for each call of \<open>When\<close>, the item and whether the answer was the
  immediate requeue of a passed deadline (zero where the delegate asked for a delay).
\<close>

datatype limiter_call =
    CallWhen string "string \<Rightarrow> cluster_object_set result" int
  | CallForget string

definition immediate :: "'d limiter_delegate \<Rightarrow> 'd deadline_limiter \<Rightarrow> string \<Rightarrow> int \<Rightarrow> bool" where
  "immediate del r item answer \<longleftrightarrow> answer \<le> 0 \<and> 0 < fst (del_When del (dl_delegate r) item)"

inductive limiter_run ::
  "'d limiter_delegate \<Rightarrow> 'd deadline_limiter \<Rightarrow> limiter_call list \<Rightarrow> (string \<times> bool) list \<Rightarrow>
   'd deadline_limiter \<Rightarrow> bool" for del where
  run_nil: "limiter_run del r [] [] r"
| run_when:
    "limiter_When del get now r item = (a, r') \<Longrightarrow> limiter_run del r' calls out r'' \<Longrightarrow>
     limiter_run del r (CallWhen item get now # calls) ((item, immediate del r item a) # out) r''"
| run_forget:
    "limiter_run del (limiter_Forget del r item) calls out r'' \<Longrightarrow>
     limiter_run del r (CallForget item # calls) out r''"

inductive_cases run_nilE: "limiter_run del r [] out r'"
inductive_cases run_whenE: "limiter_run del r (CallWhen item get now # calls) out r'"
inductive_cases run_forgetE: "limiter_run del r (CallForget item # calls) out r'"

fun forgets :: "string \<Rightarrow> limiter_call list \<Rightarrow> nat" where
  "forgets item [] = 0"
| "forgets item (CallForget i # cs) = (if i = item then 1 else 0) + forgets item cs"
| "forgets item (c # cs) = forgets item cs"

section \<open>Lemmas\<close>

lemma wrap64_minutes: "0 \<le> pd \<Longrightarrow> pd \<le> 153722867 \<Longrightarrow> wrap64 (pd * minute_ns) = pd * minute_ns"
  by (rule wrap64_id) (simp_all add: minute_ns_def)

lemma durationUntilDeadline_no:
  "snd (durationUntilDeadline now cos) = False \<Longrightarrow> durationUntilDeadline now cos = (0, False)"
  by (auto simp: durationUntilDeadline_def Let_def split: if_splits)

lemma limiter_When_cases:
  assumes "limiter_When del get now r item = (a, r')"
  shows "a = fst (del_When del (dl_delegate r) item) \<and> dl_pastDeadline r' = dl_pastDeadline r \<or>
     0 < a \<and> a < fst (del_When del (dl_delegate r) item) \<and> dl_pastDeadline r' = dl_pastDeadline r \<or>
     a = 0 \<and> item \<notin> set (dl_pastDeadline r) \<and> dl_pastDeadline r' = item # dl_pastDeadline r"
  using assms by (auto simp: limiter_When_def Let_def split: prod.splits sum.splits if_splits)

lemma immediate_marks:
  assumes "limiter_When del get now r item = (a, r')"
  shows "(immediate del r item a \<longrightarrow> item \<notin> set (dl_pastDeadline r)) \<and>
     set (dl_pastDeadline r) \<subseteq> set (dl_pastDeadline r') \<and>
     (immediate del r item a \<longrightarrow> item \<in> set (dl_pastDeadline r'))"
  using limiter_When_cases [OF assms] by (auto simp: immediate_def)

lemma limiter_run_count:
  "limiter_run del r calls out r'' \<Longrightarrow>
   length (filter (\<lambda>(i, b). i = item \<and> b) out) \<le>
     forgets item calls + (if item \<in> set (dl_pastDeadline r) then 0 else 1)"
proof (induction rule: limiter_run.induct)
  case (run_when get now r i a r' calls out r'')
  show ?case
  proof (cases "i = item \<and> immediate del r i a")
    case True
    then have "item \<notin> set (dl_pastDeadline r)" "item \<in> set (dl_pastDeadline r')"
      using immediate_marks [OF run_when.hyps(1)] by auto
    with run_when.IH True show ?thesis by simp
  next
    case False
    moreover have "set (dl_pastDeadline r) \<subseteq> set (dl_pastDeadline r')"
      using immediate_marks [OF run_when.hyps(1)] by simp
    ultimately show ?thesis using run_when.IH by (auto split: if_splits)
  qed
next
  case (run_forget r i calls out r'')
  then show ?case by (auto simp: limiter_Forget_def split: if_splits)
qed simp

section \<open>Properties\<close>

text \<open>
  For a deadline of at most 720 minutes, the range the API admits, the time until the
  deadline is computed without overflow: it is positive exactly when the creation time plus the
  deadline lies in the future. There is no deadline for a revision that is archived, succeeded or
  being deleted, or when none is set.
\<close>

theorem deadline_exact:
  assumes "coss_ProgressDeadlineMinutes (cos_Spec cos) \<le> 720"
  shows "(snd (durationUntilDeadline now cos) \<longleftrightarrow>
      0 < coss_ProgressDeadlineMinutes (cos_Spec cos) \<and>
      \<not> IsStatusConditionTrue (cosst_Conditions (cos_Status cos)) ClusterObjectSetTypeSucceeded \<and>
      coss_LifecycleState (cos_Spec cos) \<noteq> ClusterObjectSetLifecycleStateArchived \<and>
      meta_DeletionTimestamp (cos_Meta cos) = None) \<and>
    (snd (durationUntilDeadline now cos) \<longrightarrow>
      (fst (durationUntilDeadline now cos) \<le> 0 \<longleftrightarrow>
       meta_CreationTimestamp (cos_Meta cos) +
         coss_ProgressDeadlineMinutes (cos_Spec cos) * 60000000000 \<le> now))"
  using assms wrap64_minutes [of "coss_ProgressDeadlineMinutes (cos_Spec cos)"]
  by (auto simp: durationUntilDeadline_def Let_def minute_ns_def)

definition sample_deadline_cos :: cluster_object_set where
  "sample_deadline_cos =
     \<lparr>cos_Meta = \<lparr>meta_Name = ''ext-1'', meta_Namespace = '''', meta_UID = ''u'', meta_Generation = 1,
        meta_Labels = [OwnerNameKey \<mapsto> ''ext''], meta_Annotations = Map.empty, meta_OwnerReferences = [],
        meta_Finalizers = [], meta_CreationTimestamp = 0, meta_DeletionTimestamp = None\<rparr>,
      cos_Spec = \<lparr>coss_LifecycleState = ''Active'', coss_Revision = 1, coss_Phases = [],
        coss_ProgressDeadlineMinutes = 1, coss_ProgressionProbes = [], coss_CollisionProtection = ''''\<rparr>,
      cos_Status = \<lparr>cosst_Conditions = [], cosst_ObservedPhases = []\<rparr>\<rparr>"

theorem deadline_exact_witness:
  "snd (durationUntilDeadline 60000000001 sample_deadline_cos) \<and>
   fst (durationUntilDeadline 60000000001 sample_deadline_cos) \<le> 0"
  using deadline_exact [of sample_deadline_cos 60000000001]
  by (simp add: sample_deadline_cos_def IsStatusConditionTrue_def IsStatusConditionPresentAndEqual_def)

text \<open>
  The limiter never delays an item longer than its delegate asks, and, as long as the
  deadline is ahead, never beyond the deadline.
\<close>

theorem limiter_caps_backoff:
  assumes "limiter_When del get now r item = (a, r')" and "0 \<le> fst (del_When del (dl_delegate r) item)"
  shows "0 \<le> a \<and> a \<le> fst (del_When del (dl_delegate r) item) \<and>
     (\<forall>cos. get item = Inr cos \<longrightarrow> snd (durationUntilDeadline now cos) \<longrightarrow>
        0 < fst (durationUntilDeadline now cos) \<longrightarrow> a \<le> fst (durationUntilDeadline now cos))"
  using assms by (auto simp: limiter_When_def Let_def split: prod.splits sum.splits if_splits)

definition sample_delegate :: "unit limiter_delegate" where
  "sample_delegate = \<lparr>del_When = (\<lambda>d item. (120000000000, d)), del_Forget = (\<lambda>d item. d),
     del_NumRequeues = (\<lambda>d item. 0)\<rparr>"

theorem limiter_caps_backoff_witness:
  "limiter_When sample_delegate (\<lambda>i. Inr sample_deadline_cos) 0
      \<lparr>dl_delegate = (), dl_pastDeadline = []\<rparr> ''ext-1'' =
     (60000000000, \<lparr>dl_delegate = (), dl_pastDeadline = []\<rparr>) \<and>
   (60000000000::int) \<le> fst (durationUntilDeadline 0 sample_deadline_cos)"
proof -
  have w: "limiter_When sample_delegate (\<lambda>i. Inr sample_deadline_cos) 0
      \<lparr>dl_delegate = (), dl_pastDeadline = []\<rparr> ''ext-1'' =
     (60000000000, \<lparr>dl_delegate = (), dl_pastDeadline = []\<rparr>)"
    "snd (durationUntilDeadline 0 sample_deadline_cos)" "0 < fst (durationUntilDeadline 0 sample_deadline_cos)"
    by code_simp+
  moreover have "0 \<le> fst (del_When sample_delegate
      (dl_delegate \<lparr>dl_delegate = (), dl_pastDeadline = []\<rparr>) ''ext-1'')"
    by (simp add: sample_delegate_def)
  ultimately show ?thesis using limiter_caps_backoff [OF w(1)] by blast
qed


end
