(* ===== verification/Cos_Controller.thy ===== *)
theory Cos_Controller
  imports Cos_Phases Progress_Deadline
begin

text \<open>
  The reconciler of ClusterObjectSets (\<open>controllers/clusterobjectset_controller.go\<close>). A run takes
  the object and the environment \<open>cos_env\<close> and gives the object with its new status, the calls
  that change something in the order they were made, the requeue delay and the error. The
  finalizer patches are made with the merge patch the code builds; the response of the API server
  leaves the status the reconciler holds as it is.
\<close>

section \<open>Definitions\<close>

datatype cos_action =
    ActFree
  | ActPatchFinalizers "string list"
  | ActWatch "group_version_kind list"
  | ActEngineReconcile "boxcutter_phase list"
  | ActEngineTeardown "boxcutter_phase list"
  | ActArchive string
  | ActUpdateStatus cluster_object_set_status

record cos_out =
  co_cos :: cluster_object_set
  co_actions :: "cos_action list"
  co_requeueAfter :: int
  co_err :: "go_error option"

abbreviation cos_conditions :: "cluster_object_set \<Rightarrow> condition list" where
  "cos_conditions cos \<equiv> cosst_Conditions (cos_Status cos)"

definition clusterObjectSetTeardownFinalizer :: string where
  "clusterObjectSetTeardownFinalizer = ''olm.operatorframework.io/teardown''"

subsection \<open>Conditions\<close>

definition set_cos_condition ::
  "int \<Rightarrow> cluster_object_set \<Rightarrow> string \<Rightarrow> condition_status \<Rightarrow> string \<Rightarrow> string \<Rightarrow> cluster_object_set \<times> bool" where
  "set_cos_condition now cos t st reason message =
     (let (cs, changed) = apimeta_SetStatusCondition now (cos_conditions cos)
            (mk_condition t st reason message (meta_Generation (cos_Meta cos))) in
      (cos\<lparr>cos_Status := (cos_Status cos)\<lparr>cosst_Conditions := cs\<rparr>\<rparr>, changed))"

definition markAsNotProgressing :: "int \<Rightarrow> cluster_object_set \<Rightarrow> string \<Rightarrow> string \<Rightarrow> cluster_object_set \<times> bool" where
  "markAsNotProgressing now cos reason message =
     set_cos_condition now cos ClusterObjectSetTypeProgressing ConditionFalse reason message"

definition markAsProgressing :: "int \<Rightarrow> cluster_object_set \<Rightarrow> string \<Rightarrow> string \<Rightarrow> bool \<Rightarrow> cluster_object_set" where
  "markAsProgressing now cos reason message isDeadlineExceeded =
     (if reason \<noteq> ReasonSucceeded \<and> isDeadlineExceeded then
        fst (markAsNotProgressing now cos ReasonProgressDeadlineExceeded
          (''Revision has not rolled out for '' @
           show_int (coss_ProgressDeadlineMinutes (cos_Spec cos)) @ '' minute(s). Last status: '' @ message))
      else
        fst (set_cos_condition now cos ClusterObjectSetTypeProgressing ConditionTrue reason message))"

definition markAsAvailable :: "int \<Rightarrow> cluster_object_set \<Rightarrow> string \<Rightarrow> string \<Rightarrow> cluster_object_set \<times> bool" where
  "markAsAvailable now cos reason message =
     set_cos_condition now cos ClusterObjectSetTypeAvailable ConditionTrue reason message"

definition markAsUnavailable :: "int \<Rightarrow> cluster_object_set \<Rightarrow> string \<Rightarrow> string \<Rightarrow> cluster_object_set" where
  "markAsUnavailable now cos reason message =
     fst (set_cos_condition now cos ClusterObjectSetTypeAvailable ConditionFalse reason message)"

definition markAsAvailableUnknown :: "int \<Rightarrow> cluster_object_set \<Rightarrow> string \<Rightarrow> string \<Rightarrow> cluster_object_set \<times> bool" where
  "markAsAvailableUnknown now cos reason message =
     set_cos_condition now cos ClusterObjectSetTypeAvailable ConditionUnknown reason message"

definition markAsArchived :: "int \<Rightarrow> cluster_object_set \<Rightarrow> cluster_object_set \<times> bool" where
  "markAsArchived now cos =
     (let msg = ''revision is archived'';
          (cos1, updated) = markAsNotProgressing now cos ClusterObjectSetReasonArchived msg;
          (cos2, updated2) = markAsAvailableUnknown now cos1 ClusterObjectSetReasonArchived msg in
      (cos2, updated2 \<or> updated))"

definition setRetryingConditions :: "int \<Rightarrow> cluster_object_set \<Rightarrow> string \<Rightarrow> bool \<Rightarrow> cluster_object_set" where
  "setRetryingConditions now cos message isDeadlineExceeded =
     (let cos1 = markAsProgressing now cos ClusterObjectSetReasonRetrying message isDeadlineExceeded in
      if FindStatusCondition (cos_conditions cos1) ClusterObjectSetTypeAvailable \<noteq> None
      then fst (markAsAvailableUnknown now cos1 ClusterObjectSetReasonReconciling message)
      else cos1)"

subsection \<open>Finalizers\<close>

definition with_finalizers :: "cluster_object_set \<Rightarrow> string list \<Rightarrow> cluster_object_set" where
  "with_finalizers cos fs = cos\<lparr>cos_Meta := (cos_Meta cos)\<lparr>meta_Finalizers := fs\<rparr>\<rparr>"

definition ensureFinalizer ::
  "cos_env \<Rightarrow> cluster_object_set \<Rightarrow> string \<Rightarrow> cluster_object_set \<times> cos_action list \<times> go_error option" where
  "ensureFinalizer env cos finalizer =
     (let fs = meta_Finalizers (cos_Meta cos) in
      if finalizer \<in> set fs then (cos, [], None)
      else
        (let fs' = fs @ [finalizer] in
         (with_finalizers cos fs', [ActPatchFinalizers fs'],
          map_option (\<lambda>e. ErrWrap ''adding finalizer: '' e '''') (ce_PatchFinalizers env fs'))))"

definition removeFinalizer ::
  "cos_env \<Rightarrow> cluster_object_set \<Rightarrow> string \<Rightarrow> cluster_object_set \<times> cos_action list \<times> go_error option" where
  "removeFinalizer env cos finalizer =
     (let fs = meta_Finalizers (cos_Meta cos) in
      if finalizer \<notin> set fs then (cos, [], None)
      else
        (let fs' = filter (\<lambda>f. f \<noteq> finalizer) fs in
         (with_finalizers cos fs', [ActPatchFinalizers fs'],
          map_option (\<lambda>e. ErrWrap ''removing finalizer: '' e '''') (ce_PatchFinalizers env fs'))))"

subsection \<open>Deletion and archival\<close>

definition text_err :: "string \<Rightarrow> go_error \<Rightarrow> go_error" where
  "text_err pfx e = ErrText (pfx @ err_string e)"

definition cos_delete :: "cos_env \<Rightarrow> cluster_object_set \<Rightarrow> cos_out" where
  "cos_delete env cos =
     (case ce_Free env of
        Some e \<Rightarrow>
          \<lparr>co_cos = fst (markAsAvailableUnknown (ce_now env) cos ClusterObjectSetReasonReconciling (err_string e)),
           co_actions = [ActFree], co_requeueAfter = 0,
           co_err = Some (text_err ''error stopping informers: '' e)\<rparr>
      | None \<Rightarrow>
          (let (cos1, acts, err) = removeFinalizer env cos clusterObjectSetTeardownFinalizer in
           \<lparr>co_cos = cos1, co_actions = ActFree # acts, co_requeueAfter = 0,
            co_err = map_option (text_err ''error removing teardown finalizer: '') err\<rparr>))"

definition cos_archive :: "cos_env \<Rightarrow> cluster_object_set \<Rightarrow> boxcutter_phase list \<Rightarrow> cos_action list \<Rightarrow> cos_out" where
  "cos_archive env cos revision acts =
     (let acts1 = acts @ [ActEngineTeardown revision] in
      case ce_EngineTeardown env revision of
        Inl e \<Rightarrow>
          (let err = text_err ''error archiving revision: '' e in
           \<lparr>co_cos = setRetryingConditions (ce_now env) cos (err_string err) False,
            co_actions = acts1, co_requeueAfter = 0, co_err = Some err\<rparr>)
      | Inr tdres \<Rightarrow>
          if tdres = Some False then
            \<lparr>co_cos = setRetryingConditions (ce_now env) cos
               ''removing revision resources that are not owned by another revision'' False,
             co_actions = acts1, co_requeueAfter = 5 * second_ns, co_err = None\<rparr>
          else
            (let (cos1, changed) = markAsArchived (ce_now env) cos in
             if changed then
               \<lparr>co_cos = cos1, co_actions = acts1, co_requeueAfter = 0, co_err = None\<rparr>
             else
               (let (cos2, acts2, err) = removeFinalizer env cos1 clusterObjectSetTeardownFinalizer in
                \<lparr>co_cos = cos2, co_actions = acts1 @ acts2, co_requeueAfter = 0,
                 co_err = map_option (text_err ''error removing teardown finalizer: '') err\<rparr>)))"

subsection \<open>Rollout\<close>

text \<open>The first phase with a validation error or a collision, with the message to report.\<close>

fun phase_problem :: "nat \<Rightarrow> phase_result list \<Rightarrow> string option" where
  "phase_problem i [] = None"
| "phase_problem i (p # ps) =
     (case pres_ValidationError p of
        Some verr \<Rightarrow> Some (''phase '' @ show_nat i @ '' validation error: '' @ verr)
      | None \<Rightarrow>
          (let collidingObjs = map ores_String (filter ores_Collision (pres_Objects p)) in
           if collidingObjs \<noteq> [] then
             Some (''revision object collisions in phase '' @ show_nat i @ [CHR 0x0A] @
               go_join [CHR 0x0A, CHR 0x0A] collidingObjs)
           else phase_problem (Suc i) ps))"

definition probe_failure :: "object_result \<Rightarrow> string" where
  "probe_failure o1 =
     ''Object '' @ ores_Kind o1 @ ''.'' @ ores_GroupVersion o1 @ '' '' @ ores_Namespace o1 @ ''/'' @
     ores_Name o1 @ '': '' @ go_join '' and '' (ores_ProbeMessages o1)"

definition probeFailureMsgs :: "revision_result \<Rightarrow> string list" where
  "probeFailureMsgs rres =
     List.map_filter (\<lambda>p.
       if pres_Complete p then None
       else map_option probe_failure (find (\<lambda>o1. \<not> ores_ProbeTrue o1) (pres_Objects p))) (rres_Phases rres)"

text \<open>Archiving the previous revisions, up to the first error.\<close>

fun archive_previous :: "cos_env \<Rightarrow> cluster_object_set list \<Rightarrow> cos_action list \<times> go_error option" where
  "archive_previous env [] = ([], None)"
| "archive_previous env (a # as) =
     (let name = meta_Name (cos_Meta a) in
      case ce_PatchArchived env name of
        Some e \<Rightarrow> ([ActArchive name], Some (ErrWrap ''archive previous Revision: '' e ''''))
      | None \<Rightarrow> (let (acts, err) = archive_previous env as in (ActArchive name # acts, err)))"

text \<open>From the result of the engine to the end.\<close>

definition cos_conclude ::
  "cos_env \<Rightarrow> cluster_object_set \<Rightarrow> cos_action list \<Rightarrow> revision_result \<Rightarrow> int \<Rightarrow> bool \<Rightarrow> bool \<Rightarrow> cos_out" where
  "cos_conclude env cos acts rres remaining hasDeadline isDeadlineExceeded =
     (let now = ce_now env;
          revVersion = map_get (meta_Annotations (cos_Meta cos)) BundleVersionKey;
          rolling = ''Revision '' @ revVersion @ '' is rolling out.'';
          cos1 = (if rres_InTransition rres
                  then markAsProgressing now cos ReasonRollingOut rolling isDeadlineExceeded else cos) in
      if rres_Complete rres then
        (case listPreviousRevisions env cos1 of
           Inl e \<Rightarrow>
             \<lparr>co_cos = cos1, co_actions = acts, co_requeueAfter = 0,
              co_err = Some (text_err ''listing previous revisions: '' e)\<rparr>
         | Inr previous \<Rightarrow>
             (let (acts2, err) = archive_previous env previous in
              case err of
                Some e \<Rightarrow> \<lparr>co_cos = cos1, co_actions = acts @ acts2, co_requeueAfter = 0, co_err = Some e\<rparr>
              | None \<Rightarrow>
                  (let cos2 = markAsProgressing now cos1 ReasonSucceeded
                         (''Revision '' @ revVersion @ '' has rolled out.'') isDeadlineExceeded;
                       cos3 = fst (markAsAvailable now cos2 ClusterObjectSetReasonProbesSucceeded
                         ''Objects are available and pass all probes.'');
                       cos4 = fst (set_cos_condition now cos3 ClusterObjectSetTypeSucceeded ConditionTrue
                         ReasonSucceeded ''Revision succeeded rolling out.'') in
                   \<lparr>co_cos = cos4, co_actions = acts @ acts2, co_requeueAfter = 0, co_err = None\<rparr>)))
      else
        (let msgs = probeFailureMsgs rres;
             cos2 = (if msgs \<noteq> [] then
                       markAsUnavailable now cos1 ClusterObjectSetReasonProbeFailure (go_join [CHR 0x0A] msgs)
                     else markAsUnavailable now cos1 ReasonRollingOut rolling);
             cos3 = markAsProgressing now cos2 ReasonRollingOut rolling isDeadlineExceeded in
         \<lparr>co_cos = cos3, co_actions = acts,
          co_requeueAfter = (if hasDeadline \<and> \<not> isDeadlineExceeded then remaining else 0), co_err = None\<rparr>))"

definition cos_rollout ::
  "cos_env \<Rightarrow> cluster_object_set \<Rightarrow> boxcutter_phase list \<Rightarrow> revision_options \<Rightarrow> int \<Rightarrow> bool \<Rightarrow> bool \<Rightarrow> cos_out" where
  "cos_rollout env cos phases opts remaining hasDeadline isDeadlineExceeded =
     (let now = ce_now env;
          (cos1, acts1, ferr) = ensureFinalizer env cos clusterObjectSetTeardownFinalizer in
      case ferr of
        Some e \<Rightarrow>
          \<lparr>co_cos = cos1, co_actions = acts1, co_requeueAfter = 0,
           co_err = Some (text_err ''error ensuring teardown finalizer: '' e)\<rparr>
      | None \<Rightarrow>
          (let gvks = remdups (map GroupVersionKind (concat (map bp_Objects phases)));
               acts2 = acts1 @ [ActWatch gvks] in
           case ce_Watch env gvks of
             Some e \<Rightarrow>
               (let werr = text_err ''establish watch: '' e in
                \<lparr>co_cos = setRetryingConditions now cos1 (err_string werr) isDeadlineExceeded,
                 co_actions = acts2, co_requeueAfter = 0, co_err = Some werr\<rparr>)
           | None \<Rightarrow>
               (let acts3 = acts2 @ [ActEngineReconcile phases] in
                case ce_EngineReconcile env phases opts of
                  Inl e \<Rightarrow>
                    \<lparr>co_cos = setRetryingConditions now cos1 (err_string e) isDeadlineExceeded,
                     co_actions = acts3, co_requeueAfter = 0,
                     co_err = Some (text_err ''revision reconcile: '' e)\<rparr>
                | Inr rres \<Rightarrow>
                    (case (case rres_ValidationError rres of
                             Some verr \<Rightarrow> Some (''revision validation error: '' @ verr)
                           | None \<Rightarrow> phase_problem 0 (rres_Phases rres)) of
                       Some msg \<Rightarrow>
                         \<lparr>co_cos = setRetryingConditions now cos1 msg isDeadlineExceeded,
                          co_actions = acts3, co_requeueAfter = 10 * second_ns, co_err = None\<rparr>
                     | None \<Rightarrow> cos_conclude env cos1 acts3 rres remaining hasDeadline isDeadlineExceeded))))"

subsection \<open>Reconciliation\<close>

definition blocked_out :: "cos_env \<Rightarrow> cluster_object_set \<Rightarrow> go_error \<Rightarrow> cos_out" where
  "blocked_out env cos e =
     \<lparr>co_cos = fst (markAsNotProgressing (ce_now env) cos ClusterObjectSetReasonBlocked (err_string e)),
      co_actions = [], co_requeueAfter = 0, co_err = None\<rparr>"

definition retry_out :: "cos_env \<Rightarrow> cluster_object_set \<Rightarrow> bool \<Rightarrow> string \<Rightarrow> go_error \<Rightarrow> cos_out" where
  "retry_out env cos isDeadlineExceeded pfx e =
     \<lparr>co_cos = setRetryingConditions (ce_now env) cos (err_string e) isDeadlineExceeded,
      co_actions = [], co_requeueAfter = 0, co_err = Some (text_err pfx e)\<rparr>"

text \<open>From the creation of the engine on, with the observed phases recorded.\<close>

definition cos_proceed ::
  "cos_env \<Rightarrow> cluster_object_set \<Rightarrow> boxcutter_phase list \<Rightarrow> revision_options \<Rightarrow> int \<Rightarrow> bool \<Rightarrow> bool \<Rightarrow> cos_out" where
  "cos_proceed env cos phases opts remaining hasDeadline isDeadlineExceeded =
     (case ce_CreateRevisionEngine env cos of
        Inl e \<Rightarrow> retry_out env cos isDeadlineExceeded ''failed to create revision engine: '' e
      | Inr u \<Rightarrow>
          if coss_LifecycleState (cos_Spec cos) = ClusterObjectSetLifecycleStateArchived then
            (case ce_Free env of
               Some e \<Rightarrow>
                 \<lparr>co_cos = fst (markAsAvailableUnknown (ce_now env) cos
                    ClusterObjectSetReasonReconciling (err_string e)),
                  co_actions = [ActFree], co_requeueAfter = 0,
                  co_err = Some (text_err ''error stopping informers: '' e)\<rparr>
             | None \<Rightarrow> cos_archive env cos phases [ActFree])
          else cos_rollout env cos phases opts remaining hasDeadline isDeadlineExceeded)"

definition record_observed :: "cluster_object_set \<Rightarrow> observed_phase list \<Rightarrow> cluster_object_set" where
  "record_observed cos currentPhases =
     (if cosst_ObservedPhases (cos_Status cos) = []
      then cos\<lparr>cos_Status := (cos_Status cos)\<lparr>cosst_ObservedPhases := currentPhases\<rparr>\<rparr>
      else cos)"

definition cos_reconcile :: "cos_env \<Rightarrow> cluster_object_set \<Rightarrow> cos_out" where
  "cos_reconcile env cos =
     (if meta_DeletionTimestamp (cos_Meta cos) \<noteq> None then cos_delete env cos
      else
        (let (remaining, hasDeadline) = durationUntilDeadline (ce_now env) cos;
             isDeadlineExceeded = (hasDeadline \<and> remaining \<le> 0) in
         case verifyReferencedSecretsImmutable env cos of
           Some e \<Rightarrow> blocked_out env cos e
         | None \<Rightarrow>
             (case buildBoxcutterPhases env cos of
                Inl e \<Rightarrow> retry_out env cos isDeadlineExceeded ''converting to boxcutter revision: '' e
              | Inr (phases, currentPhases, opts) \<Rightarrow>
                  (case (if cosst_ObservedPhases (cos_Status cos) = [] then None
                         else verifyObservedPhases (cosst_ObservedPhases (cos_Status cos)) currentPhases) of
                     Some e \<Rightarrow> blocked_out env cos e
                   | None \<Rightarrow>
                       cos_proceed env (record_observed cos currentPhases) phases opts
                         remaining hasDeadline isDeadlineExceeded))))"

definition checkForUnexpectedClusterObjectSetFieldChange :: "cluster_object_set \<Rightarrow> cluster_object_set \<Rightarrow> bool" where
  "checkForUnexpectedClusterObjectSetFieldChange a b \<longleftrightarrow> cos_Spec a \<noteq> cos_Spec b"

text \<open>
  \<open>Reconcile\<close>: \<open>None\<close> is the panic on an unexpected change. Without the object there is nothing to
  return but the error.
\<close>

definition cos_Reconcile :: "cos_env \<Rightarrow> string \<Rightarrow> (cos_out + go_error option) option" where
  "cos_Reconcile env name =
     (case ce_GetCOS env name of
        Inl e \<Rightarrow> Some (Inr (ignore_not_found (Some e)))
      | Inr existing \<Rightarrow>
          (let out = cos_reconcile env existing in
           if checkForUnexpectedClusterObjectSetFieldChange existing (co_cos out) then None
           else if cos_Status existing \<noteq> cos_Status (co_cos out) then
             Some (Inl (out\<lparr>co_actions := co_actions out @ [ActUpdateStatus (cos_Status (co_cos out))],
               co_err := (case ce_UpdateStatus env (cos_Status (co_cos out)) of
                  None \<Rightarrow> co_err out
                | Some e \<Rightarrow> errors_Join [co_err out, Some (text_err ''error updating status: '' e)])\<rparr>))
           else Some (Inl out)))"

section \<open>Lemmas\<close>

subsection \<open>Operations that touch only conditions\<close>

text \<open>
  The contract of the functions that mark a condition: they leave specification, metadata and
  observed phases alone, never clear a Succeeded condition that is true, and change no condition
  but those of the given types.
\<close>

locale condition_marker =
  fixes mark :: "cluster_object_set \<Rightarrow> cluster_object_set"
    and types :: "string set"
  assumes keeps_spec: "cos_Spec (mark c) = cos_Spec c"
    and keeps_meta: "cos_Meta (mark c) = cos_Meta c"
    and keeps_observed: "cosst_ObservedPhases (cos_Status (mark c)) = cosst_ObservedPhases (cos_Status c)"
    and keeps_others: "t \<notin> types \<Longrightarrow> cond_view (cos_conditions (mark c)) t = cond_view (cos_conditions c) t"
    and keeps_success: "ClusterObjectSetTypeSucceeded \<in> types \<Longrightarrow>
       IsStatusConditionTrue (cos_conditions c) ClusterObjectSetTypeSucceeded \<Longrightarrow>
       IsStatusConditionTrue (cos_conditions (mark c)) ClusterObjectSetTypeSucceeded"
begin

lemma latch:
  "IsStatusConditionTrue (cos_conditions c) ClusterObjectSetTypeSucceeded \<Longrightarrow>
   IsStatusConditionTrue (cos_conditions (mark c)) ClusterObjectSetTypeSucceeded"
  using keeps_success keeps_others by (cases "ClusterObjectSetTypeSucceeded \<in> types") (auto simp: IsTrue_view)

lemma no_success:
  "ClusterObjectSetTypeSucceeded \<notin> types \<Longrightarrow>
   IsStatusConditionTrue (cos_conditions (mark c)) ClusterObjectSetTypeSucceeded =
   IsStatusConditionTrue (cos_conditions c) ClusterObjectSetTypeSucceeded"
  using keeps_others by (simp add: IsTrue_view)

end

lemma set_cos_condition_simps [simp]:
  "cos_Spec (fst (set_cos_condition now cos t st r m)) = cos_Spec cos"
  "cos_Meta (fst (set_cos_condition now cos t st r m)) = cos_Meta cos"
  "cosst_ObservedPhases (cos_Status (fst (set_cos_condition now cos t st r m))) =
     cosst_ObservedPhases (cos_Status cos)"
  "cond_view (cos_conditions (fst (set_cos_condition now cos t st r m))) t' =
     (if t' = t then Some (st, r, m) else cond_view (cos_conditions cos) t')"
  using apimeta_view [of now "cos_conditions cos" "mk_condition t st r m (meta_Generation (cos_Meta cos))" t']
  by (auto simp: set_cos_condition_def Let_def split: prod.splits)

lemma set_cos_condition_marker:
  "t = ClusterObjectSetTypeSucceeded \<longrightarrow> st = ConditionTrue \<Longrightarrow>
   condition_marker (\<lambda>c. fst (set_cos_condition now c t st r m)) {t}"
  by unfold_locales (auto simp: IsTrue_view)

lemmas mark_defs = markAsNotProgressing_def markAsProgressing_def markAsAvailable_def
  markAsUnavailable_def markAsAvailableUnknown_def

interpretation m_progressing: condition_marker
  "\<lambda>c. markAsProgressing now c reason message exceeded" "{ClusterObjectSetTypeProgressing}"
  for now reason message exceeded
  by unfold_locales (auto simp: mark_defs)

interpretation m_not_progressing: condition_marker
  "\<lambda>c. fst (markAsNotProgressing now c reason message)" "{ClusterObjectSetTypeProgressing}"
  for now reason message
  by unfold_locales (auto simp: mark_defs)

interpretation m_available: condition_marker
  "\<lambda>c. fst (markAsAvailable now c reason message)" "{ClusterObjectSetTypeAvailable}"
  for now reason message
  by unfold_locales (auto simp: mark_defs)

interpretation m_unavailable: condition_marker
  "\<lambda>c. markAsUnavailable now c reason message" "{ClusterObjectSetTypeAvailable}"
  for now reason message
  by unfold_locales (auto simp: mark_defs)

interpretation m_unknown: condition_marker
  "\<lambda>c. fst (markAsAvailableUnknown now c reason message)" "{ClusterObjectSetTypeAvailable}"
  for now reason message
  by unfold_locales (auto simp: mark_defs)

interpretation m_archived: condition_marker
  "\<lambda>c. fst (markAsArchived now c)" "{ClusterObjectSetTypeProgressing, ClusterObjectSetTypeAvailable}"
  for now
  by unfold_locales (auto simp: markAsArchived_def mark_defs Let_def case_prod_beta)

interpretation m_retrying: condition_marker
  "\<lambda>c. setRetryingConditions now c message exceeded"
  "{ClusterObjectSetTypeProgressing, ClusterObjectSetTypeAvailable}"
  for now message exceeded
  by unfold_locales (auto simp: setRetryingConditions_def mark_defs Let_def)

interpretation m_succeeded: condition_marker
  "\<lambda>c. fst (set_cos_condition now c ClusterObjectSetTypeSucceeded ConditionTrue reason message)"
  "{ClusterObjectSetTypeSucceeded}"
  for now reason message
  by (rule set_cos_condition_marker) simp

lemmas marker_spec [simp] = m_progressing.keeps_spec m_not_progressing.keeps_spec m_available.keeps_spec
  m_unavailable.keeps_spec m_unknown.keeps_spec m_archived.keeps_spec m_retrying.keeps_spec
lemmas marker_meta [simp] = m_progressing.keeps_meta m_not_progressing.keeps_meta m_available.keeps_meta
  m_unavailable.keeps_meta m_unknown.keeps_meta m_archived.keeps_meta m_retrying.keeps_meta
lemmas marker_observed [simp] = m_progressing.keeps_observed m_not_progressing.keeps_observed
  m_available.keeps_observed m_unavailable.keeps_observed m_unknown.keeps_observed
  m_archived.keeps_observed m_retrying.keeps_observed
lemmas marker_latch = m_progressing.latch m_not_progressing.latch m_available.latch m_unavailable.latch
  m_unknown.latch m_archived.latch m_retrying.latch m_succeeded.latch

lemma with_finalizers_simps [simp]:
  "cos_Spec (with_finalizers cos fs) = cos_Spec cos"
  "cos_Status (with_finalizers cos fs) = cos_Status cos"
  "meta_Labels (cos_Meta (with_finalizers cos fs)) = meta_Labels (cos_Meta cos)"
  "meta_Name (cos_Meta (with_finalizers cos fs)) = meta_Name (cos_Meta cos)"
  by (simp_all add: with_finalizers_def)

lemma ensureFinalizer_cos:
  "ensureFinalizer env cos f = (cos1, acts, err) \<Longrightarrow>
     cos_Spec cos1 = cos_Spec cos \<and> cos_Status cos1 = cos_Status cos \<and>
     meta_Labels (cos_Meta cos1) = meta_Labels (cos_Meta cos) \<and>
     meta_Name (cos_Meta cos1) = meta_Name (cos_Meta cos) \<and>
     (\<forall>a \<in> set acts. \<exists>fs. a = ActPatchFinalizers fs \<and> f \<in> set fs)"
  by (auto simp: ensureFinalizer_def Let_def split: if_splits)

lemma removeFinalizer_cos:
  "removeFinalizer env cos f = (cos1, acts, err) \<Longrightarrow>
     cos_Spec cos1 = cos_Spec cos \<and> cos_Status cos1 = cos_Status cos \<and>
     (\<forall>a \<in> set acts. \<exists>fs. a = ActPatchFinalizers fs \<and> f \<notin> set fs)"
  by (auto simp: removeFinalizer_def Let_def split: if_splits)

lemma archive_previous_acts:
  "archive_previous env rs = (acts, err) \<Longrightarrow>
     set acts \<subseteq> (\<lambda>r. ActArchive (meta_Name (cos_Meta r))) ` set rs \<and>
     (err = None \<longrightarrow> acts = map (\<lambda>r. ActArchive (meta_Name (cos_Meta r))) rs)"
  by (induction rs arbitrary: acts err) (auto simp: Let_def split: option.splits prod.splits)

subsection \<open>What a run keeps\<close>

text \<open>
  A run keeps the specification, never replaces observed phases once there are some, and never
  takes back a success.
\<close>

definition run_keeps :: "cluster_object_set \<Rightarrow> cluster_object_set \<Rightarrow> bool" where
  "run_keeps cos cos' \<longleftrightarrow>
     cos_Spec cos' = cos_Spec cos \<and>
     (cosst_ObservedPhases (cos_Status cos) \<noteq> [] \<longrightarrow>
        cosst_ObservedPhases (cos_Status cos') = cosst_ObservedPhases (cos_Status cos)) \<and>
     (IsStatusConditionTrue (cos_conditions cos) ClusterObjectSetTypeSucceeded \<longrightarrow>
        IsStatusConditionTrue (cos_conditions cos') ClusterObjectSetTypeSucceeded)"

lemma run_keeps_refl [simp]: "run_keeps cos cos"
  by (simp add: run_keeps_def)

lemma run_keeps_trans: "run_keeps a b \<Longrightarrow> run_keeps b c \<Longrightarrow> run_keeps a c"
  by (auto simp: run_keeps_def)

lemma run_keeps_mark:
  "run_keeps c (markAsProgressing now c r m x)" "run_keeps c (fst (markAsNotProgressing now c r m))"
  "run_keeps c (fst (markAsAvailable now c r m))" "run_keeps c (markAsUnavailable now c r m)"
  "run_keeps c (fst (markAsAvailableUnknown now c r m))" "run_keeps c (fst (markAsArchived now c))"
  "run_keeps c (setRetryingConditions now c m x)"
  "run_keeps c (fst (set_cos_condition now c ClusterObjectSetTypeSucceeded ConditionTrue r m))"
  by (auto simp: run_keeps_def marker_latch)

lemma run_keeps_status:
  "cos_Spec c' = cos_Spec c \<Longrightarrow> cos_Status c' = cos_Status c \<Longrightarrow> run_keeps c c'"
  by (simp add: run_keeps_def)

lemmas run_keeps_intros = run_keeps_mark run_keeps_trans [OF _ run_keeps_mark(1)]
  run_keeps_trans [OF _ run_keeps_mark(4)]

lemma cos_delete_keeps: "run_keeps cos (co_cos (cos_delete env cos))"
proof (cases "ce_Free env")
  case None
  obtain c1 acts err where r: "removeFinalizer env cos clusterObjectSetTeardownFinalizer = (c1, acts, err)"
    by (cases "removeFinalizer env cos clusterObjectSetTeardownFinalizer") auto
  with None show ?thesis
    using removeFinalizer_cos [OF r] by (simp add: cos_delete_def run_keeps_status)
qed (simp add: cos_delete_def run_keeps_mark)

lemma cos_archive_keeps: "run_keeps cos (co_cos (cos_archive env cos phs acts))"
proof -
  obtain c1 ch where m: "markAsArchived (ce_now env) cos = (c1, ch)"
    by (cases "markAsArchived (ce_now env) cos")
  then have c1: "run_keeps cos c1" using run_keeps_mark(6) [of cos "ce_now env"] by simp
  obtain c2 acts2 err where r: "removeFinalizer env c1 clusterObjectSetTeardownFinalizer = (c2, acts2, err)"
    by (cases "removeFinalizer env c1 clusterObjectSetTeardownFinalizer") auto
  then have "run_keeps c1 c2" using removeFinalizer_cos [OF r] by (simp add: run_keeps_status)
  with c1 have c2: "run_keeps cos c2" by (rule run_keeps_trans)
  show ?thesis
    using c1 c2 m r by (auto simp: cos_archive_def Let_def run_keeps_mark split: sum.split)
qed

lemma cos_conclude_keeps: "run_keeps cos (co_cos (cos_conclude env cos acts rres rmn dl ex))"
proof -
  define c1 where "c1 = (if rres_InTransition rres then markAsProgressing (ce_now env) cos ReasonRollingOut
      (''Revision '' @ map_get (meta_Annotations (cos_Meta cos)) BundleVersionKey @ '' is rolling out.'') ex else cos)"
  have c1: "run_keeps cos c1" by (simp add: c1_def run_keeps_mark)
  have mark: "run_keeps c1 (fst (set_cos_condition now (fst (markAsAvailable now' (markAsProgressing now'' c1 r m x) r' m'))
      ClusterObjectSetTypeSucceeded ConditionTrue r'' m''))" for now now' now'' r m x r' m' r'' m''
    by (meson run_keeps_mark run_keeps_trans)
  have unmark: "run_keeps c1 (markAsProgressing now (markAsUnavailable now' c1 r m) r' m' x)"
    for now now' r m r' m' x
    by (meson run_keeps_mark run_keeps_trans)
  show ?thesis
    using c1 run_keeps_trans [OF c1 mark] run_keeps_trans [OF c1 unmark]
    unfolding cos_conclude_def Let_def c1_def [symmetric]
    by (simp split: sum.split prod.split option.split)
qed

lemma cos_rollout_keeps: "run_keeps cos (co_cos (cos_rollout env cos phases opts rmn dl ex))"
proof -
  obtain c1 acts1 ferr where f: "ensureFinalizer env cos clusterObjectSetTeardownFinalizer = (c1, acts1, ferr)"
    by (cases "ensureFinalizer env cos clusterObjectSetTeardownFinalizer") auto
  have c1: "run_keeps cos c1" using ensureFinalizer_cos [OF f] by (simp add: run_keeps_status)
  show ?thesis
    using c1 run_keeps_trans [OF c1 run_keeps_mark(7)] run_keeps_trans [OF c1 cos_conclude_keeps] f
    by (auto simp: cos_rollout_def Let_def split: option.split sum.split)
qed

lemma cos_proceed_keeps: "run_keeps cos (co_cos (cos_proceed env cos phases opts rmn dl ex))"
  by (simp add: cos_proceed_def retry_out_def run_keeps_mark cos_archive_keeps cos_rollout_keeps
      split: sum.split option.split)

text \<open>The ways a run can go.\<close>

lemma cos_reconcile_cases:
  obtains
    (deleting) "meta_DeletionTimestamp (cos_Meta cos) \<noteq> None" "cos_reconcile env cos = cos_delete env cos"
  | (blocked) e where "meta_DeletionTimestamp (cos_Meta cos) = None"
      "cos_reconcile env cos = blocked_out env cos e"
      "verifyReferencedSecretsImmutable env cos = Some e \<or>
       (\<exists>phases currentPhases opts. buildBoxcutterPhases env cos = Inr (phases, currentPhases, opts) \<and>
          cosst_ObservedPhases (cos_Status cos) \<noteq> [] \<and>
          verifyObservedPhases (cosst_ObservedPhases (cos_Status cos)) currentPhases = Some e)"
  | (retry) e where "meta_DeletionTimestamp (cos_Meta cos) = None"
      "cos_reconcile env cos = retry_out env cos
         (snd (durationUntilDeadline (ce_now env) cos) \<and> fst (durationUntilDeadline (ce_now env) cos) \<le> 0)
         ''converting to boxcutter revision: '' e"
  | (proceed) phases currentPhases opts where "meta_DeletionTimestamp (cos_Meta cos) = None"
      "verifyReferencedSecretsImmutable env cos = None"
      "buildBoxcutterPhases env cos = Inr (phases, currentPhases, opts)"
      "cosst_ObservedPhases (cos_Status cos) = [] \<or>
       verifyObservedPhases (cosst_ObservedPhases (cos_Status cos)) currentPhases = None"
      "cos_reconcile env cos = cos_proceed env (record_observed cos currentPhases) phases opts
         (fst (durationUntilDeadline (ce_now env) cos)) (snd (durationUntilDeadline (ce_now env) cos))
         (snd (durationUntilDeadline (ce_now env) cos) \<and> fst (durationUntilDeadline (ce_now env) cos) \<le> 0)"
proof (cases "meta_DeletionTimestamp (cos_Meta cos) = None")
  case False
  then show ?thesis using deleting by (simp add: cos_reconcile_def)
next
  case del: True
  show ?thesis
  proof (cases "verifyReferencedSecretsImmutable env cos")
    case (Some e)
    with del show ?thesis using blocked [of e] by (simp add: cos_reconcile_def split: prod.split)
  next
    case v: None
    show ?thesis
    proof (cases "buildBoxcutterPhases env cos")
      case (Inl e)
      with del v show ?thesis using retry [of e] by (simp add: cos_reconcile_def split: prod.split)
    next
      case (Inr r)
      obtain phases cur opts where r: "r = (phases, cur, opts)" by (cases r)
      show ?thesis
      proof (cases "if cosst_ObservedPhases (cos_Status cos) = [] then None
          else verifyObservedPhases (cosst_ObservedPhases (cos_Status cos)) cur")
        case None
        then have "cosst_ObservedPhases (cos_Status cos) = [] \<or>
            verifyObservedPhases (cosst_ObservedPhases (cos_Status cos)) cur = None" by (simp split: if_splits)
        with del v Inr r None show ?thesis
          using proceed [of phases cur opts] by (simp add: cos_reconcile_def split: prod.split)
      next
        case (Some e)
        then have "cosst_ObservedPhases (cos_Status cos) \<noteq> []"
          "verifyObservedPhases (cosst_ObservedPhases (cos_Status cos)) cur = Some e"
          by (simp_all split: if_splits)
        with del v Inr r Some show ?thesis
          using blocked [of e] by (simp add: cos_reconcile_def split: prod.split)
      qed
    qed
  qed
qed

lemma record_observed_simps [simp]:
  "cos_Spec (record_observed cos ph) = cos_Spec cos" "cos_Meta (record_observed cos ph) = cos_Meta cos"
  "cos_conditions (record_observed cos ph) = cos_conditions cos"
  by (simp_all add: record_observed_def)

lemma record_observed_keeps: "run_keeps cos (record_observed cos ph)"
  by (simp add: run_keeps_def record_observed_def)

lemma cos_reconcile_keeps: "run_keeps cos (co_cos (cos_reconcile env cos))"
proof (cases rule: cos_reconcile_cases [of cos env])
  case deleting
  then show ?thesis by (simp add: cos_delete_keeps)
next
  case (blocked e)
  then show ?thesis by (simp add: blocked_out_def run_keeps_mark)
next
  case (retry e)
  then show ?thesis by (simp add: retry_out_def run_keeps_mark)
next
  case (proceed phases cur opts)
  then show ?thesis using run_keeps_trans [OF record_observed_keeps cos_proceed_keeps] by simp
qed

subsection \<open>What a rollout does\<close>

lemma listPreviousRevisions_cong:
  "cos_Spec c' = cos_Spec c \<Longrightarrow> meta_Labels (cos_Meta c') = meta_Labels (cos_Meta c) \<Longrightarrow>
   meta_Name (cos_Meta c') = meta_Name (cos_Meta c) \<Longrightarrow>
   listPreviousRevisions env c' = listPreviousRevisions env c"
  by (simp add: listPreviousRevisions_def listOtherActiveRevisions_def split: option.split sum.split)

text \<open>
  The rollout of a revision that succeeded: the engine reported the revision complete without a
  validation error or a collision, and every previous active revision was archived.
\<close>

definition rolled_out :: "cos_env \<Rightarrow> cluster_object_set \<Rightarrow> boxcutter_phase list \<Rightarrow> revision_options \<Rightarrow> bool" where
  "rolled_out env cos phases opts \<longleftrightarrow>
     coss_LifecycleState (cos_Spec cos) \<noteq> ClusterObjectSetLifecycleStateArchived \<and>
     (\<exists>rres. ce_EngineReconcile env phases opts = Inr rres \<and> rres_Complete rres \<and>
        rres_ValidationError rres = None \<and> phase_problem 0 (rres_Phases rres) = None)"

abbreviation succeeded :: "cluster_object_set \<Rightarrow> bool" where
  "succeeded cos \<equiv> IsStatusConditionTrue (cos_conditions cos) ClusterObjectSetTypeSucceeded"

lemma marker_no_success [simp]:
  "succeeded (markAsProgressing now c r m x) = succeeded c"
  "succeeded (fst (markAsNotProgressing now c r m)) = succeeded c"
  "succeeded (fst (markAsAvailable now c r m)) = succeeded c"
  "succeeded (markAsUnavailable now c r m) = succeeded c"
  "succeeded (fst (markAsAvailableUnknown now c r m)) = succeeded c"
  "succeeded (fst (markAsArchived now c)) = succeeded c"
  "succeeded (setRetryingConditions now c m x) = succeeded c"
  by (rule m_progressing.no_success m_not_progressing.no_success m_available.no_success
      m_unavailable.no_success m_unknown.no_success m_archived.no_success m_retrying.no_success,
      simp)+

text \<open>The ways the last part of a rollout ends.\<close>

lemma cos_conclude_cases:
  obtains
    (complete) previous where "rres_Complete rres" "listPreviousRevisions env cos = Inr previous"
      "snd (archive_previous env previous) = None"
      "co_actions (cos_conclude env cos acts rres rmn dl ex) = acts @ fst (archive_previous env previous)"
      "co_err (cos_conclude env cos acts rres rmn dl ex) = None"
      "succeeded (co_cos (cos_conclude env cos acts rres rmn dl ex))"
  | (failed) e where "rres_Complete rres" "listPreviousRevisions env cos = Inl e"
      "co_actions (cos_conclude env cos acts rres rmn dl ex) = acts"
      "co_err (cos_conclude env cos acts rres rmn dl ex) \<noteq> None"
      "succeeded (co_cos (cos_conclude env cos acts rres rmn dl ex)) = succeeded cos"
  | (interrupted) previous e where "rres_Complete rres" "listPreviousRevisions env cos = Inr previous"
      "snd (archive_previous env previous) = Some e"
      "co_actions (cos_conclude env cos acts rres rmn dl ex) = acts @ fst (archive_previous env previous)"
      "co_err (cos_conclude env cos acts rres rmn dl ex) = Some e"
      "succeeded (co_cos (cos_conclude env cos acts rres rmn dl ex)) = succeeded cos"
  | (incomplete) "\<not> rres_Complete rres"
      "co_actions (cos_conclude env cos acts rres rmn dl ex) = acts"
      "co_err (cos_conclude env cos acts rres rmn dl ex) = None"
      "succeeded (co_cos (cos_conclude env cos acts rres rmn dl ex)) = succeeded cos"
      "co_requeueAfter (cos_conclude env cos acts rres rmn dl ex) = (if dl \<and> \<not> ex then rmn else 0)"
proof -
  define c1 where "c1 = (if rres_InTransition rres then markAsProgressing (ce_now env) cos ReasonRollingOut
      (''Revision '' @ map_get (meta_Annotations (cos_Meta cos)) BundleVersionKey @ '' is rolling out.'') ex else cos)"
  define fin where "fin = fst (set_cos_condition (ce_now env) (fst (markAsAvailable (ce_now env)
      (markAsProgressing (ce_now env) c1 ReasonSucceeded
        (''Revision '' @ map_get (meta_Annotations (cos_Meta cos)) BundleVersionKey @ '' has rolled out.'') ex)
      ClusterObjectSetReasonProbesSucceeded ''Objects are available and pass all probes.''))
      ClusterObjectSetTypeSucceeded ConditionTrue ReasonSucceeded ''Revision succeeded rolling out.'')"
  have fin: "succeeded fin" by (simp add: fin_def IsTrue_view)
  note unf = cos_conclude_def Let_def c1_def [symmetric] fin_def [symmetric]
  have prev: "listPreviousRevisions env c1 = listPreviousRevisions env cos"
    by (rule listPreviousRevisions_cong) (simp_all add: c1_def)
  have c1: "succeeded c1 = succeeded cos" by (simp add: c1_def)
  show ?thesis
  proof (cases "rres_Complete rres")
    case False
    show ?thesis
      by (rule incomplete; (unfold unf)?) (use False c1 prev in simp_all)
  next
    case True
    show ?thesis
    proof (cases "listPreviousRevisions env cos")
      case (Inl e)
      show ?thesis
        by (rule failed [of e]; (unfold unf)?) (use True Inl c1 prev in simp_all)
    next
      case (Inr previous)
      obtain acts2 err where a: "archive_previous env previous = (acts2, err)"
        by (cases "archive_previous env previous")
      show ?thesis
      proof (cases err)
        case None
        show ?thesis
          by (rule complete [of previous]; (unfold unf)?) (use True Inr a None prev fin in simp_all)
      next
        case (Some e)
        show ?thesis
          by (rule interrupted [of previous e]; (unfold unf)?) (use True Inr a Some c1 prev in simp_all)
      qed
    qed
  qed
qed

text \<open>
  A rollout either stops before its last part, with no revision archived and the success
  unchanged, or goes on to it with a result of the engine that has no problem.
\<close>

lemma cos_rollout_cases:
  obtains
    (early) "\<forall>n. ActArchive n \<notin> set (co_actions (cos_rollout env cos phases opts rmn dl ex))"
      "succeeded (co_cos (cos_rollout env cos phases opts rmn dl ex)) = succeeded cos"
      "\<forall>fs. ActPatchFinalizers fs \<in> set (co_actions (cos_rollout env cos phases opts rmn dl ex)) \<longrightarrow>
         clusterObjectSetTeardownFinalizer \<in> set fs"
  | (conclude) c1 acts rres where
      "cos_rollout env cos phases opts rmn dl ex = cos_conclude env c1 acts rres rmn dl ex"
      "ce_EngineReconcile env phases opts = Inr rres" "rres_ValidationError rres = None"
      "phase_problem 0 (rres_Phases rres) = None" "succeeded c1 = succeeded cos"
      "listPreviousRevisions env c1 = listPreviousRevisions env cos"
      "ActEngineReconcile phases \<in> set acts" "\<forall>n. ActArchive n \<notin> set acts"
      "\<forall>fs. ActPatchFinalizers fs \<in> set acts \<longrightarrow> clusterObjectSetTeardownFinalizer \<in> set fs"
proof -
  obtain c1 acts1 ferr where f: "ensureFinalizer env cos clusterObjectSetTeardownFinalizer = (c1, acts1, ferr)"
    by (cases "ensureFinalizer env cos clusterObjectSetTeardownFinalizer") auto
  note c1 = ensureFinalizer_cos [OF f]
  have acts1: "\<forall>n. ActArchive n \<notin> set acts1"
    "\<forall>fs. ActPatchFinalizers fs \<in> set acts1 \<longrightarrow> clusterObjectSetTeardownFinalizer \<in> set fs"
    using c1 by auto
  define w where "w = remdups (map GroupVersionKind (concat (map bp_Objects phases)))"
  note unf = cos_rollout_def Let_def w_def [symmetric]
  have early': ?thesis
    if "co_actions (cos_rollout env cos phases opts rmn dl ex) \<in>
          {acts1, acts1 @ [ActWatch w], (acts1 @ [ActWatch w]) @ [ActEngineReconcile phases]}"
      and "succeeded (co_cos (cos_rollout env cos phases opts rmn dl ex)) = succeeded cos"
    by (rule early) (use that acts1 in auto)
  have s1: "succeeded c1 = succeeded cos" using c1 by simp
  show ?thesis
  proof (cases "ferr = None \<and> ce_Watch env w = None")
    case False
    then show ?thesis
      using f s1 by (intro early'; (unfold unf)?) (auto split: option.splits)
  next
    case ok: True
    show ?thesis
    proof (cases "ce_EngineReconcile env phases opts")
      case (Inl e)
      with f ok s1 show ?thesis by (intro early'; (unfold unf)?) simp_all
    next
      case (Inr rres)
      show ?thesis
      proof (cases "case rres_ValidationError rres of
          Some verr \<Rightarrow> Some (''revision validation error: '' @ verr) | None \<Rightarrow> phase_problem 0 (rres_Phases rres)")
        case (Some msg)
        with f ok Inr s1 show ?thesis by (intro early'; (unfold unf)?) simp_all
      next
        case None
        have eq: "cos_rollout env cos phases opts rmn dl ex =
            cos_conclude env c1 ((acts1 @ [ActWatch w]) @ [ActEngineReconcile phases]) rres rmn dl ex"
          unfolding unf using f ok Inr None by simp
        show ?thesis
          by (rule conclude [OF eq Inr]) (use None c1 acts1 in \<open>auto intro: listPreviousRevisions_cong split: option.splits\<close>)
      qed
    qed
  qed
qed

lemma markers_actions: "removeFinalizer env c f = (c', acts, err) \<Longrightarrow> ActArchive n \<notin> set acts"
  using removeFinalizer_cos [of env c f c' acts err] by auto

lemma cos_archive_no_archive:
  "\<forall>n. ActArchive n \<notin> set acts \<Longrightarrow> ActArchive n \<notin> set (co_actions (cos_archive env cos phases acts))"
  by (auto simp: cos_archive_def Let_def split: sum.splits prod.splits dest: markers_actions)

lemma cos_delete_no_archive: "ActArchive n \<notin> set (co_actions (cos_delete env cos))"
  by (auto simp: cos_delete_def split: option.splits prod.splits dest: markers_actions)

lemma removeFinalizer_succeeded: "removeFinalizer env c f = (c', acts, err) \<Longrightarrow> succeeded c' = succeeded c"
  using removeFinalizer_cos [of env c f c' acts err] by simp

lemma cos_archive_succeeded: "succeeded (co_cos (cos_archive env cos phases acts)) = succeeded cos"
proof -
  have "succeeded c1 = succeeded cos" if "markAsArchived (ce_now env) cos = (c1, ch)" for c1 ch
    using marker_no_success(6) [of "ce_now env" cos] that by simp
  then show ?thesis
    by (auto simp: cos_archive_def Let_def removeFinalizer_succeeded split: sum.split prod.split)
qed

lemma cos_delete_succeeded: "succeeded (co_cos (cos_delete env cos)) = succeeded cos"
  by (auto simp: cos_delete_def removeFinalizer_succeeded split: option.split prod.split)

lemma archive_previous_ok:
  "snd (archive_previous env rs) = None \<Longrightarrow>
     fst (archive_previous env rs) = map (\<lambda>r. ActArchive (meta_Name (cos_Meta r))) rs \<and>
     (\<forall>r \<in> set rs. ce_PatchArchived env (meta_Name (cos_Meta r)) = None)"
  by (induction rs) (auto simp: Let_def split: option.splits prod.splits)

text \<open>
  What it takes to proceed to the rollout of an active revision: nothing else archives revisions
  or reports success.
\<close>

lemma cos_reconcile_rollout:
  assumes "ActArchive n \<in> set (co_actions (cos_reconcile env cos)) \<or>
    \<not> succeeded cos \<and> succeeded (co_cos (cos_reconcile env cos))"
  obtains phases cur opts rmn dl ex where
    "buildBoxcutterPhases env cos = Inr (phases, cur, opts)"
    "coss_LifecycleState (cos_Spec cos) \<noteq> ClusterObjectSetLifecycleStateArchived"
    "cos_reconcile env cos = cos_rollout env (record_observed cos cur) phases opts rmn dl ex"
proof (cases rule: cos_reconcile_cases [of cos env])
  case deleting
  with assms show ?thesis by (simp add: cos_delete_no_archive cos_delete_succeeded)
next
  case (blocked e)
  with assms show ?thesis by (simp add: blocked_out_def)
next
  case (retry e)
  with assms show ?thesis by (simp add: retry_out_def)
next
  case (proceed phases cur opts)
  have no: "ActArchive n \<notin> set (co_actions (cos_archive env c ps [ActFree]))" for c ps
    by (rule cos_archive_no_archive) simp
  from assms proceed(3,5) show ?thesis
    using that [OF proceed(3)]
    by (auto simp: cos_proceed_def retry_out_def no cos_archive_succeeded split: sum.splits option.splits if_splits)
qed

lemma record_observed_previous:
  "listPreviousRevisions env (record_observed cos ph) = listPreviousRevisions env cos"
  by (rule listPreviousRevisions_cong) simp_all

subsection \<open>Past the deadline\<close>

text \<open>
  The Progressing condition after a step: true only if the revision has succeeded or the condition
  is as before.
\<close>

definition settled :: "cluster_object_set \<Rightarrow> cluster_object_set \<Rightarrow> bool" where
  "settled c c' \<longleftrightarrow>
     (case cond_view (cos_conditions c') ClusterObjectSetTypeProgressing of
        Some (ConditionTrue, r, m) \<Rightarrow>
          r = ReasonSucceeded \<or>
          cond_view (cos_conditions c) ClusterObjectSetTypeProgressing = Some (ConditionTrue, r, m)
      | _ \<Rightarrow> True)"

lemma settled_same:
  "cond_view (cos_conditions c') ClusterObjectSetTypeProgressing =
   cond_view (cos_conditions c) ClusterObjectSetTypeProgressing \<Longrightarrow> settled c c'"
  by (simp add: settled_def split: option.split condition_status.split)

lemma settled_cong:
  "cond_view (cos_conditions c2) ClusterObjectSetTypeProgressing =
   cond_view (cos_conditions c1) ClusterObjectSetTypeProgressing \<Longrightarrow> settled c c1 = settled c c2"
  by (simp add: settled_def)

lemma settled_trans: "settled a b \<Longrightarrow> settled b c \<Longrightarrow> settled a c"
  by (auto simp: settled_def split: option.splits condition_status.splits)

lemma keeps_progressing [simp]:
  "cond_view (cos_conditions (fst (markAsAvailable now c r m))) ClusterObjectSetTypeProgressing =
   cond_view (cos_conditions c) ClusterObjectSetTypeProgressing"
  "cond_view (cos_conditions (markAsUnavailable now c r m)) ClusterObjectSetTypeProgressing =
   cond_view (cos_conditions c) ClusterObjectSetTypeProgressing"
  "cond_view (cos_conditions (fst (markAsAvailableUnknown now c r m))) ClusterObjectSetTypeProgressing =
   cond_view (cos_conditions c) ClusterObjectSetTypeProgressing"
  "cond_view (cos_conditions (fst (set_cos_condition now c ClusterObjectSetTypeSucceeded st r m)))
     ClusterObjectSetTypeProgressing = cond_view (cos_conditions c) ClusterObjectSetTypeProgressing"
  by (simp_all add: m_available.keeps_others m_unavailable.keeps_others m_unknown.keeps_others)

lemma settled_mark:
  "settled c (markAsProgressing now c r m True)" "settled c (fst (markAsNotProgressing now c r m))"
  "settled c (setRetryingConditions now c m True)"
  by (simp_all add: settled_def mark_defs setRetryingConditions_def Let_def)

lemma settled_mark_trans:
  "settled c c1 \<Longrightarrow> settled c (markAsProgressing now c1 r m True)"
  "settled c c1 \<Longrightarrow> settled c (markAsUnavailable now c1 r m)"
  "settled c c1 \<Longrightarrow> settled c (fst (markAsAvailable now c1 r m))"
  "settled c c1 \<Longrightarrow> settled c (fst (set_cos_condition now c1 ClusterObjectSetTypeSucceeded st r m))"
  using settled_trans [OF _ settled_mark(1)] by (simp_all add: settled_def)

lemma cos_conclude_settled: "settled cos (co_cos (cos_conclude env cos acts rres rmn dl True))"
proof -
  define c1 where "c1 = (if rres_InTransition rres then markAsProgressing (ce_now env) cos ReasonRollingOut
      (''Revision '' @ map_get (meta_Annotations (cos_Meta cos)) BundleVersionKey @ '' is rolling out.'') True else cos)"
  have c1: "settled cos c1" by (simp add: c1_def settled_mark settled_same)
  show ?thesis
    unfolding cos_conclude_def Let_def c1_def [symmetric]
    by (simp add: c1 settled_mark_trans split: sum.split prod.split option.split)
qed

lemma cos_rollout_settled: "settled cos (co_cos (cos_rollout env cos phases opts rmn dl True))"
proof -
  obtain c1 acts1 ferr where f: "ensureFinalizer env cos clusterObjectSetTeardownFinalizer = (c1, acts1, ferr)"
    by (cases "ensureFinalizer env cos clusterObjectSetTeardownFinalizer") auto
  have c1: "settled cos c1" using ensureFinalizer_cos [OF f] by (simp add: settled_same)
  show ?thesis
    using c1 settled_trans [OF c1 settled_mark(3)] settled_trans [OF c1 cos_conclude_settled] f
    by (auto simp: cos_rollout_def Let_def split: option.split sum.split)
qed

subsection \<open>Finalizers\<close>

lemma set_cos_condition_unchanged:
  "\<not> snd (set_cos_condition now cos t st r m) \<Longrightarrow>
     fst (set_cos_condition now cos t st r m) = cos \<and> cond_view (cos_conditions cos) t = Some (st, r, m)"
proof -
  assume a: "\<not> snd (set_cos_condition now cos t st r m)"
  then have "fst (set_cos_condition now cos t st r m) = cos"
    by (auto simp: set_cos_condition_def Let_def dest: apimeta_unchanged split: prod.splits)
  then show ?thesis using set_cos_condition_simps(4) [of now cos t st r m t] by simp
qed

lemma markAsArchived_unchanged:
  assumes "markAsArchived now cos = (c1, False)"
  shows "cond_view (cos_conditions cos) ClusterObjectSetTypeProgressing =
      Some (ConditionFalse, ClusterObjectSetReasonArchived, ''revision is archived'') \<and>
    cond_view (cos_conditions cos) ClusterObjectSetTypeAvailable =
      Some (ConditionUnknown, ClusterObjectSetReasonArchived, ''revision is archived'')"
proof -
  let ?np = "markAsNotProgressing now cos ClusterObjectSetReasonArchived ''revision is archived''"
  have "\<not> snd ?np \<and> \<not> snd (markAsAvailableUnknown now (fst ?np) ClusterObjectSetReasonArchived ''revision is archived'')"
    using assms by (auto simp: markAsArchived_def Let_def case_prod_beta)
  then show ?thesis
    using set_cos_condition_unchanged [of now cos] by (auto simp: mark_defs dest: set_cos_condition_unchanged)
qed

abbreviation drops_teardown :: "cos_out \<Rightarrow> bool" where
  "drops_teardown out \<equiv>
     (\<exists>fs. ActPatchFinalizers fs \<in> set (co_actions out) \<and> clusterObjectSetTeardownFinalizer \<notin> set fs)"

lemma cos_delete_drops: "drops_teardown (cos_delete env cos) \<Longrightarrow> ce_Free env = None"
  by (auto simp: cos_delete_def split: option.splits)

lemma cos_archive_drops:
  assumes "drops_teardown (cos_archive env cos phases [ActFree])"
  shows "ActEngineTeardown phases \<in> set (co_actions (cos_archive env cos phases [ActFree])) \<and>
    (\<exists>tdres. ce_EngineTeardown env phases = Inr tdres \<and> tdres \<noteq> Some False) \<and>
    snd (markAsArchived (ce_now env) cos) = False"
  using assms by (auto simp: cos_archive_def Let_def split: sum.splits prod.splits if_splits)

lemma cos_rollout_drops: "\<not> drops_teardown (cos_rollout env cos phases opts rmn dl ex)"
proof (cases rule: cos_rollout_cases [of env cos phases opts rmn dl ex])
  case (conclude c1 acts rres)
  have a: "ActPatchFinalizers fs \<notin> set (fst (archive_previous env previous))" for fs previous
    using archive_previous_acts [of env previous] by (cases "archive_previous env previous") auto
  show ?thesis
    by (cases rule: cos_conclude_cases [of rres env c1 acts rmn dl ex]) (use conclude(1,9) a in auto)
qed auto

section \<open>Properties\<close>


text \<open>
  C8: A revision becomes Succeeded only when the engine reported it complete, without validation
  errors and collisions, for the phases built from its specification, and every active revision of
  the same owner with a lower number has been archived in the same run.
\<close>

theorem success_means_rolled_out:
  assumes "\<not> succeeded cos" and "succeeded (co_cos (cos_reconcile env cos))"
  shows "\<exists>phases cur opts previous.
     buildBoxcutterPhases env cos = Inr (phases, cur, opts) \<and> rolled_out env cos phases opts \<and>
     ActEngineReconcile phases \<in> set (co_actions (cos_reconcile env cos)) \<and>
     listPreviousRevisions env cos = Inr previous \<and>
     (\<forall>r \<in> set previous. ActArchive (meta_Name (cos_Meta r)) \<in> set (co_actions (cos_reconcile env cos)) \<and>
        ce_PatchArchived env (meta_Name (cos_Meta r)) = None) \<and>
     co_err (cos_reconcile env cos) = None"
proof -
  obtain phases cur opts rmn dl ex where r: "buildBoxcutterPhases env cos = Inr (phases, cur, opts)"
    "coss_LifecycleState (cos_Spec cos) \<noteq> ClusterObjectSetLifecycleStateArchived"
    "cos_reconcile env cos = cos_rollout env (record_observed cos cur) phases opts rmn dl ex"
    using cos_reconcile_rollout [of _ env cos] assms by metis
  show ?thesis
  proof (cases rule: cos_rollout_cases [of env "record_observed cos cur" phases opts rmn dl ex])
    case early
    with assms r(3) show ?thesis by simp
  next
    case (conclude c1 acts rres)
    with assms r have fresh: "\<not> succeeded c1" "succeeded (co_cos (cos_conclude env c1 acts rres rmn dl ex))"
      by simp_all
    show ?thesis
    proof (cases rule: cos_conclude_cases [of rres env c1 acts rmn dl ex])
      case (complete previous)
      have "rolled_out env cos phases opts" using r(2) conclude complete by (simp add: rolled_out_def)
      moreover have "listPreviousRevisions env cos = Inr previous"
        using conclude(6) complete(2) by (simp add: record_observed_previous)
      ultimately show ?thesis
        using r(1,3) conclude(1,7) complete(4,5) archive_previous_ok [OF complete(3)] by auto
    qed (use fresh in simp_all)
  qed
qed

text \<open>
  A run archives only active revisions of the same owner with a strictly lower revision number,
  and only after the engine has reported this revision complete.
\<close>

theorem archives_only_previous:
  assumes "ActArchive n \<in> set (co_actions (cos_reconcile env cos))"
  shows "\<exists>phases cur opts owner items r.
     buildBoxcutterPhases env cos = Inr (phases, cur, opts) \<and> rolled_out env cos phases opts \<and>
     ActEngineReconcile phases \<in> set (co_actions (cos_reconcile env cos)) \<and>
     meta_Labels (cos_Meta cos) OwnerNameKey = Some owner \<and> ce_ListRevisions env owner = Inr items \<and>
     r \<in> set items \<and> meta_Name (cos_Meta r) = n \<and> n \<noteq> meta_Name (cos_Meta cos) \<and>
     coss_Revision (cos_Spec r) < coss_Revision (cos_Spec cos) \<and>
     coss_LifecycleState (cos_Spec r) \<noteq> ClusterObjectSetLifecycleStateArchived \<and>
     meta_DeletionTimestamp (cos_Meta r) = None"
proof -
  obtain phases cur opts rmn dl ex where r: "buildBoxcutterPhases env cos = Inr (phases, cur, opts)"
    "coss_LifecycleState (cos_Spec cos) \<noteq> ClusterObjectSetLifecycleStateArchived"
    "cos_reconcile env cos = cos_rollout env (record_observed cos cur) phases opts rmn dl ex"
    using cos_reconcile_rollout [of n env cos] assms by metis
  show ?thesis
  proof (cases rule: cos_rollout_cases [of env "record_observed cos cur" phases opts rmn dl ex])
    case early
    with assms r(3) show ?thesis by simp
  next
    case (conclude c1 acts rres)
    have arch: "ActArchive n \<in> set (co_actions (cos_conclude env c1 acts rres rmn dl ex))"
      using assms r(3) conclude(1) by simp
    obtain previous where p: "rres_Complete rres" "listPreviousRevisions env c1 = Inr previous"
      "co_actions (cos_conclude env c1 acts rres rmn dl ex) = acts @ fst (archive_previous env previous)"
      by (cases rule: cos_conclude_cases [of rres env c1 acts rmn dl ex]) (use arch conclude(8) in auto)
    obtain p1 where p1: "p1 \<in> set previous" "meta_Name (cos_Meta p1) = n"
      using arch p(3) conclude(8) archive_previous_acts [of env previous] by (cases "archive_previous env previous") auto
    have prev: "listPreviousRevisions env cos = Inr previous"
      using conclude(6) p(2) by (simp add: record_observed_previous)
    have ro: "rolled_out env cos phases opts" using r(2) conclude p(1) by (simp add: rolled_out_def)
    have eng: "ActEngineReconcile phases \<in> set (co_actions (cos_reconcile env cos))"
      using r(3) conclude(1,7) p(3) by simp
    show ?thesis
      using prev p1 r(1) ro eng
      by (auto simp: listPreviousRevisions_def listOtherActiveRevisions_def split: option.splits sum.splits)
  qed
qed

text \<open>
  C9: Once the progress deadline has passed, a run sets Progressing to true only with the reason
  Succeeded: every other progress is reported as the deadline having been exceeded.
\<close>

theorem deadline_stops_progressing:
  assumes "durationUntilDeadline (ce_now env) cos = (remaining, True)" and "remaining \<le> 0"
    and "cond_view (cos_conditions (co_cos (cos_reconcile env cos))) ClusterObjectSetTypeProgressing =
      Some (ConditionTrue, reason, message)"
  shows "reason = ReasonSucceeded \<or>
    cond_view (cos_conditions cos) ClusterObjectSetTypeProgressing = Some (ConditionTrue, reason, message)"
proof -
  have live: "meta_DeletionTimestamp (cos_Meta cos) = None"
    "coss_LifecycleState (cos_Spec cos) \<noteq> ClusterObjectSetLifecycleStateArchived"
    using assms(1) by (auto simp: durationUntilDeadline_def Let_def split: if_splits)
  have "settled cos (co_cos (cos_reconcile env cos))"
  proof (cases rule: cos_reconcile_cases [of cos env])
    case deleting
    with live show ?thesis by simp
  next
    case (blocked e)
    then show ?thesis by (simp add: blocked_out_def settled_mark)
  next
    case (retry e)
    with assms(1,2) show ?thesis by (simp add: retry_out_def settled_mark)
  next
    case (proceed phases cur opts)
    let ?c = "record_observed cos cur"
    have "settled cos ?c" by (rule settled_same) simp
    moreover have "settled ?c (co_cos (cos_proceed env ?c phases opts remaining True True))"
      using live by (simp add: cos_proceed_def retry_out_def settled_mark cos_rollout_settled split: sum.split)
    ultimately show ?thesis using proceed(5) assms(1,2) by (simp add: settled_trans [of cos ?c])
  qed
  with assms(3) show ?thesis by (simp add: settled_def)
qed

text \<open>
  C10: The teardown finalizer is removed only after the informers were stopped, and only from a
  revision that is being deleted or from an archived one whose objects the engine has completely
  torn down and whose conditions already said so before this run.
\<close>

theorem teardown_finalizer_removal:
  assumes "ActPatchFinalizers fs \<in> set (co_actions (cos_reconcile env cos))"
    and "clusterObjectSetTeardownFinalizer \<notin> set fs"
  shows "ce_Free env = None \<and>
    (meta_DeletionTimestamp (cos_Meta cos) \<noteq> None \<or>
     coss_LifecycleState (cos_Spec cos) = ClusterObjectSetLifecycleStateArchived \<and>
     (\<exists>phases cur opts tdres. buildBoxcutterPhases env cos = Inr (phases, cur, opts) \<and>
        ActEngineTeardown phases \<in> set (co_actions (cos_reconcile env cos)) \<and>
        ce_EngineTeardown env phases = Inr tdres \<and> tdres \<noteq> Some False) \<and>
     cond_view (cos_conditions cos) ClusterObjectSetTypeProgressing =
       Some (ConditionFalse, ClusterObjectSetReasonArchived, ''revision is archived'') \<and>
     cond_view (cos_conditions cos) ClusterObjectSetTypeAvailable =
       Some (ConditionUnknown, ClusterObjectSetReasonArchived, ''revision is archived''))"
proof (cases rule: cos_reconcile_cases [of cos env])
  case deleting
  with assms show ?thesis using cos_delete_drops by metis
next
  case (blocked e)
  with assms(1) show ?thesis by (simp add: blocked_out_def)
next
  case (retry e)
  with assms(1) show ?thesis by (simp add: retry_out_def)
next
  case (proceed phases cur opts)
  let ?c = "record_observed cos cur"
  have d: "drops_teardown (cos_reconcile env cos)" using assms by blast
  then have a: "coss_LifecycleState (cos_Spec cos) = ClusterObjectSetLifecycleStateArchived" "ce_Free env = None"
    "cos_reconcile env cos = cos_archive env ?c phases [ActFree]"
    using proceed(5) cos_rollout_drops
    by (auto simp: cos_proceed_def retry_out_def split: sum.splits if_splits option.splits)
  obtain c1 where m: "markAsArchived (ce_now env) ?c = (c1, False)"
    using cos_archive_drops [of env ?c phases] d a(3) by (metis prod.collapse)
  show ?thesis
    using a cos_archive_drops [of env ?c phases] d proceed(3) markAsArchived_unchanged [OF m] by auto
qed

text \<open>
  A revision that refers to a Secret that is not immutable, or whose resolved content differs
  from what was recorded, is blocked: the run makes no call that changes anything, does not ask to
  be repeated and reports Progressing false with the reason Blocked.
\<close>

theorem changed_content_blocks:
  assumes "meta_DeletionTimestamp (cos_Meta cos) = None"
    and "verifyReferencedSecretsImmutable env cos = Some e \<or>
      verifyReferencedSecretsImmutable env cos = None \<and>
      buildBoxcutterPhases env cos = Inr (phases, currentPhases, opts) \<and>
      cosst_ObservedPhases (cos_Status cos) \<noteq> [] \<and>
      verifyObservedPhases (cosst_ObservedPhases (cos_Status cos)) currentPhases = Some e"
  shows "co_actions (cos_reconcile env cos) = [] \<and> co_err (cos_reconcile env cos) = None \<and>
    co_requeueAfter (cos_reconcile env cos) = 0 \<and>
    cond_view (cos_conditions (co_cos (cos_reconcile env cos))) ClusterObjectSetTypeProgressing =
      Some (ConditionFalse, ClusterObjectSetReasonBlocked, err_string e)"
proof -
  have "cos_reconcile env cos = blocked_out env cos e"
    using assms by (auto simp: cos_reconcile_def split: prod.split)
  then show ?thesis by (simp add: blocked_out_def mark_defs)
qed

text \<open>
  A Secret that cannot be read for a reason other than not being found blocks the revision in
  the same way: a transient failure of the API server is neither returned as an error nor retried,
  so nothing repeats the run.
\<close>

theorem unreadable_secret_blocks_without_retry:
  assumes "meta_DeletionTimestamp (cos_Meta cos) = None"
    and "(name, ns) \<in> set (secret_refs cos)" and "ce_GetSecret env ns name = Inl e" and "\<not> IsNotFound e"
  shows "co_actions (cos_reconcile env cos) = [] \<and> co_err (cos_reconcile env cos) = None \<and>
    co_requeueAfter (cos_reconcile env cos) = 0"
proof -
  have "\<exists>e'. mutable_secrets env refs = Inl e'" if "(name, ns) \<in> set refs" for refs
    using that assms(3,4) by (induction refs) (auto split: sum.split)
  with assms(2) obtain e' where "mutable_secrets env (secret_refs cos) = Inl e'" by blast
  then have "\<exists>e'. verifyReferencedSecretsImmutable env cos = Some e'"
    by (simp add: verifyReferencedSecretsImmutable_def)
  then show ?thesis using assms(1) by (auto simp: cos_reconcile_def blocked_out_def split: prod.split)
qed

section \<open>Witnesses\<close>

text \<open>A rollout of revision 1 beside an active revision 0 of the same owner, and an archived revision.\<close>

definition sample_prev :: cluster_object_set where
  "sample_prev = (sample_cos [])\<lparr>
     cos_Meta := (ex_meta ''ext-0'')\<lparr>meta_Labels := [OwnerNameKey \<mapsto> ''ext'']\<rparr>,
     cos_Spec := (cos_Spec (sample_cos []))\<lparr>coss_Revision := 0\<rparr>\<rparr>"

definition rollout_env :: cos_env where
  "rollout_env = sample_env\<lparr>ce_codec := sample_codec\<lparr>json_Marshal := (\<lambda>j. Inr ''phase'')\<rparr>,
     ce_GetCOS := (\<lambda>n. Inr (sample_cos [])),
     ce_ListRevisions := (\<lambda>o1. Inr [sample_prev, sample_cos []])\<rparr>"

definition archived_cos :: cluster_object_set where
  "archived_cos = (sample_cos [])\<lparr>
     cos_Meta := (ex_meta ''ext-1'')\<lparr>meta_Finalizers := [clusterObjectSetTeardownFinalizer]\<rparr>,
     cos_Spec := (cos_Spec (sample_cos []))\<lparr>coss_LifecycleState := ClusterObjectSetLifecycleStateArchived\<rparr>,
     cos_Status := \<lparr>cosst_Conditions =
       [mk_condition ClusterObjectSetTypeProgressing ConditionFalse ClusterObjectSetReasonArchived
          ''revision is archived'' (meta_Generation (ex_meta ''ext-1'')),
        mk_condition ClusterObjectSetTypeAvailable ConditionUnknown ClusterObjectSetReasonArchived
          ''revision is archived'' (meta_Generation (ex_meta ''ext-1''))],
       cosst_ObservedPhases = []\<rparr>\<rparr>"

definition flaky_env :: cos_env where
  "flaky_env = sample_env\<lparr>ce_GetSecret := (\<lambda>ns n. Inl (ErrText ''etcdserver: request timed out''))\<rparr>"

lemma secrets_not_immutable_sample:
  "\<exists>e. verifyReferencedSecretsImmutable sample_env (sample_cos [sample_ref_object ''s'']) = Some e"
proof -
  have "(case verifyReferencedSecretsImmutable sample_env (sample_cos [sample_ref_object ''s'']) of
      None \<Rightarrow> False | Some e \<Rightarrow> True)" by code_simp
  then show ?thesis by (simp split: option.splits)
qed


theorem success_means_rolled_out_witness:
  "\<exists>phases opts. rolled_out rollout_env (sample_cos []) phases opts"
proof -
  have "\<not> succeeded (sample_cos [])" by code_simp
  moreover have "succeeded (co_cos (cos_reconcile rollout_env (sample_cos [])))" by code_simp
  ultimately show ?thesis using success_means_rolled_out [of "sample_cos []" rollout_env] by blast
qed

theorem archives_only_previous_witness:
  "\<exists>r :: cluster_object_set. meta_Name (cos_Meta r) = ''ext-0'' \<and>
     coss_Revision (cos_Spec r) < coss_Revision (cos_Spec (sample_cos []))"
proof -
  have "ActArchive ''ext-0'' \<in> set (co_actions (cos_reconcile rollout_env (sample_cos [])))" by code_simp
  from archives_only_previous [OF this] show ?thesis by blast
qed

theorem deadline_stops_progressing_witness:
  "\<exists>reason message.
     cond_view (cos_conditions (co_cos (cos_reconcile (rollout_env\<lparr>ce_now := 660000000000\<rparr>) (sample_cos []))))
       ClusterObjectSetTypeProgressing = Some (ConditionTrue, reason, message) \<and> reason = ReasonSucceeded"
proof -
  let ?env = "rollout_env\<lparr>ce_now := 660000000000\<rparr>"
  have d: "durationUntilDeadline (ce_now ?env) (sample_cos []) = (-60000000000, True)" by code_simp
  have p: "cond_view (cos_conditions (co_cos (cos_reconcile ?env (sample_cos [])))) ClusterObjectSetTypeProgressing =
      Some (ConditionTrue, ReasonSucceeded, ''Revision  has rolled out.'')" by code_simp
  have "cond_view (cos_conditions (sample_cos [])) ClusterObjectSetTypeProgressing = None" by code_simp
  with deadline_stops_progressing [OF d _ p] p show ?thesis by simp
qed

theorem teardown_finalizer_removal_witness:
  "\<exists>phases cur opts. buildBoxcutterPhases rollout_env archived_cos = Inr (phases, cur, opts) \<and>
     ActEngineTeardown phases \<in> set (co_actions (cos_reconcile rollout_env archived_cos))"
proof -
  have "ActPatchFinalizers [] \<in> set (co_actions (cos_reconcile rollout_env archived_cos))" by code_simp
  moreover have "meta_DeletionTimestamp (cos_Meta archived_cos) = None" by code_simp
  ultimately show ?thesis using teardown_finalizer_removal [of "[]" rollout_env archived_cos] by auto
qed

theorem changed_content_blocks_witness:
  "co_actions (cos_reconcile sample_env (sample_cos [sample_ref_object ''s''])) = [] \<and>
   \<not> IsStatusConditionTrue (cos_conditions (co_cos (cos_reconcile sample_env (sample_cos [sample_ref_object ''s'']))))
     ClusterObjectSetTypeProgressing"
proof -
  have "meta_DeletionTimestamp (cos_Meta (sample_cos [sample_ref_object ''s''])) = None" by code_simp
  moreover obtain e where "verifyReferencedSecretsImmutable sample_env (sample_cos [sample_ref_object ''s'']) = Some e"
    using secrets_not_immutable_sample by blast
  ultimately show ?thesis
    using changed_content_blocks [of "sample_cos [sample_ref_object ''s'']" sample_env e] by (simp add: IsTrue_view)
qed

theorem unreadable_secret_blocks_without_retry_witness:
  "co_err (cos_reconcile flaky_env (sample_cos [sample_ref_object ''s''])) = None \<and>
   co_requeueAfter (cos_reconcile flaky_env (sample_cos [sample_ref_object ''s''])) = 0"
proof -
  have "meta_DeletionTimestamp (cos_Meta (sample_cos [sample_ref_object ''s''])) = None"
    "(''s'', ''olm'') \<in> set (secret_refs (sample_cos [sample_ref_object ''s'']))" by code_simp+
  moreover have "ce_GetSecret flaky_env ''olm'' ''s'' = Inl (ErrText ''etcdserver: request timed out'')"
    "\<not> IsNotFound (ErrText ''etcdserver: request timed out'')"
    by (simp_all add: flaky_env_def IsNotFound_def)
  ultimately show ?thesis using unreadable_secret_blocks_without_retry by blast
qed

end
