(* ===== verification/Extension_Status.thy ===== *)
theory Extension_Status
  imports Api_Types Go_Errors
begin

text \<open>
  The status of a ClusterExtension: the Installed and Progressing conditions
  (\<open>controllers/common_controller.go\<close>) and the four deprecation conditions
  (\<open>controllers/clusterextension_controller.go\<close>).
\<close>

section \<open>Definitions\<close>

record revision_metadata =
  rm_RevisionName :: string
  rm_Package :: string
  rm_Image :: string
  rm_Bundle :: bundle_metadata
  rm_Conditions :: "condition list"

record revision_states =
  rs_Installed :: "revision_metadata option"
  rs_RollingOut :: "revision_metadata list"

abbreviation ext_conditions :: "cluster_extension \<Rightarrow> condition list" where
  "ext_conditions ext \<equiv> extst_Conditions (ext_Status ext)"

definition set_ext_condition ::
  "int \<Rightarrow> cluster_extension \<Rightarrow> string \<Rightarrow> condition_status \<Rightarrow> string \<Rightarrow> string \<Rightarrow> cluster_extension" where
  "set_ext_condition now ext t st reason message =
     ext\<lparr>ext_Status := (ext_Status ext)\<lparr>extst_Conditions :=
       SetStatusCondition now (ext_conditions ext)
         (mk_condition t st reason message (meta_Generation (ext_Meta ext)))\<rparr>\<rparr>"

subsection \<open>Installed and Progressing\<close>

definition setInstallStatus :: "cluster_extension \<Rightarrow> bundle_metadata option \<Rightarrow> cluster_extension" where
  "setInstallStatus ext installStatus =
     ext\<lparr>ext_Status := (ext_Status ext)\<lparr>extst_Install := installStatus\<rparr>\<rparr>"

definition setInstalledStatusConditionSuccess :: "int \<Rightarrow> cluster_extension \<Rightarrow> string \<Rightarrow> cluster_extension" where
  "setInstalledStatusConditionSuccess now ext message =
     set_ext_condition now ext TypeInstalled ConditionTrue ReasonSucceeded message"

definition setInstalledStatusConditionFalse :: "int \<Rightarrow> cluster_extension \<Rightarrow> string \<Rightarrow> string \<Rightarrow> cluster_extension" where
  "setInstalledStatusConditionFalse now ext reason message =
     set_ext_condition now ext TypeInstalled ConditionFalse reason message"

definition setInstalledStatusConditionUnknown :: "int \<Rightarrow> cluster_extension \<Rightarrow> string \<Rightarrow> cluster_extension" where
  "setInstalledStatusConditionUnknown now ext message =
     set_ext_condition now ext TypeInstalled ConditionUnknown ReasonFailed message"

definition determineFailureReason :: "revision_metadata list \<Rightarrow> string" where
  "determineFailureReason rollingRevisions =
     (if rollingRevisions = [] then ReasonFailed
      else
        (case FindStatusCondition (rm_Conditions (last rollingRevisions)) ClusterObjectSetTypeProgressing of
           Some c \<Rightarrow> if cond_reason c = ClusterObjectSetReasonRetrying then ReasonFailed else ReasonAbsent
         | None \<Rightarrow> ReasonAbsent))"

definition setInstalledStatusFromRevisionStates ::
  "int \<Rightarrow> cluster_extension \<Rightarrow> revision_states \<Rightarrow> cluster_extension" where
  "setInstalledStatusFromRevisionStates now ext revisionStates =
     (case rs_Installed revisionStates of
        None \<Rightarrow>
          setInstalledStatusConditionFalse now (setInstallStatus ext None)
            (determineFailureReason (rs_RollingOut revisionStates)) ''No bundle installed''
      | Some i \<Rightarrow>
          setInstalledStatusConditionSuccess now (setInstallStatus ext (Some (rm_Bundle i)))
            (''Installed bundle '' @ rm_Image i @ '' successfully''))"

definition setStatusProgressing :: "int \<Rightarrow> cluster_extension \<Rightarrow> go_error option \<Rightarrow> cluster_extension" where
  "setStatusProgressing now ext err =
     (let message = (if err = None then ''Desired state reached'' else SanitizeNetworkError (UnwrapTerminal err));
          terminal = (case err of None \<Rightarrow> False | Some e \<Rightarrow> is_terminal e);
          status = (if terminal then ConditionFalse else ConditionTrue);
          reason =
            (if terminal then (case ExtractTerminalReason err of Some r \<Rightarrow> r | None \<Rightarrow> ReasonBlocked)
             else if err = None then ReasonSucceeded else ReasonRetrying) in
      set_ext_condition now ext TypeProgressing status reason message)"

subsection \<open>Failures\<close>

definition isDeprecationCondition :: "string \<Rightarrow> bool" where
  "isDeprecationCondition t \<longleftrightarrow>
     t \<in> {TypeDeprecated, TypePackageDeprecated, TypeChannelDeprecated, TypeBundleDeprecated}"

definition ensure_failure_condition ::
  "int \<Rightarrow> string \<Rightarrow> string \<Rightarrow> string \<Rightarrow> cluster_extension \<Rightarrow> cluster_extension" where
  "ensure_failure_condition now reason message condType ext =
     (if isDeprecationCondition condType then ext
      else if FindStatusCondition (ext_conditions ext) condType = None
      then set_ext_condition now ext condType ConditionFalse reason message
      else ext)"

definition ensureFailureConditionsWithReason ::
  "int \<Rightarrow> cluster_extension \<Rightarrow> string \<Rightarrow> string \<Rightarrow> cluster_extension" where
  "ensureFailureConditionsWithReason now ext reason message =
     fold (ensure_failure_condition now reason message) ConditionTypes ext"

subsection \<open>Deprecation\<close>

record deprecation_info =
  di_PackageEntries :: "deprecation_entry list"
  di_ChannelEntries :: "deprecation_entry list"
  di_BundleEntries :: "deprecation_entry list"
  di_BundleStatus :: condition_status

definition buildDeprecationInfo ::
  "cluster_extension \<Rightarrow> string \<Rightarrow> fbc_deprecation option \<Rightarrow> deprecation_info" where
  "buildDeprecationInfo ext installedBundleName deprecation =
     (let channelSet = (case src_Catalog (exts_Source (ext_Spec ext)) of
            None \<Rightarrow> [] | Some cf \<Rightarrow> cf_Channels cf);
          entries = (case deprecation of None \<Rightarrow> [] | Some d \<Rightarrow> dep_Entries d);
          bundleEntries = filter (\<lambda>e. de_Schema e = SchemaBundle \<and> installedBundleName \<noteq> '''' \<and>
            de_Name e = installedBundleName) entries in
      \<lparr>di_PackageEntries = filter (\<lambda>e. de_Schema e = SchemaPackage) entries,
       di_ChannelEntries = filter (\<lambda>e. de_Schema e = SchemaChannel \<and>
         (channelSet = [] \<or> de_Name e \<in> set channelSet)) entries,
       di_BundleEntries = bundleEntries,
       di_BundleStatus =
         (if installedBundleName \<noteq> '''' then
            (if bundleEntries \<noteq> [] then ConditionTrue else ConditionFalse)
          else ConditionUnknown)\<rparr>)"

definition collectDeprecationMessages :: "deprecation_entry list \<Rightarrow> string list" where
  "collectDeprecationMessages entries = filter (\<lambda>m. m \<noteq> '''') (map de_Message entries)"

definition deprecation_condition ::
  "int \<Rightarrow> string \<Rightarrow> string list \<Rightarrow> string \<Rightarrow> cluster_extension \<Rightarrow> cluster_extension" where
  "deprecation_condition now t messages none ext =
     (if messages \<noteq> [] then
        set_ext_condition now ext t ConditionTrue ReasonDeprecated (go_join [CHR 0x0A] messages)
      else set_ext_condition now ext t ConditionFalse ReasonNotDeprecated none)"

definition unknown_deprecation :: "int \<Rightarrow> string \<Rightarrow> cluster_extension \<Rightarrow> cluster_extension" where
  "unknown_deprecation now t ext =
     set_ext_condition now ext t ConditionUnknown ReasonDeprecationStatusUnknown
       ''deprecation status unknown: catalog data unavailable''"

definition SetDeprecationStatus ::
  "int \<Rightarrow> cluster_extension \<Rightarrow> string \<Rightarrow> fbc_deprecation option \<Rightarrow> bool \<Rightarrow> cluster_extension" where
  "SetDeprecationStatus now ext installedBundleName deprecation hasCatalogData =
     (let info = buildDeprecationInfo ext installedBundleName deprecation;
          packageMessages = collectDeprecationMessages (di_PackageEntries info);
          channelMessages = collectDeprecationMessages (di_ChannelEntries info);
          bundleMessages = collectDeprecationMessages (di_BundleEntries info) in
      if \<not> hasCatalogData then
        (let ext1 = unknown_deprecation now TypeDeprecated ext;
             ext2 = unknown_deprecation now TypePackageDeprecated ext1;
             ext3 = unknown_deprecation now TypeChannelDeprecated ext2 in
         if installedBundleName \<noteq> '''' then unknown_deprecation now TypeBundleDeprecated ext3
         else set_ext_condition now ext3 TypeBundleDeprecated ConditionUnknown ReasonAbsent ''no bundle installed yet'')
      else
        (let ext1 = deprecation_condition now TypeDeprecated
               (packageMessages @ channelMessages @ bundleMessages) ''not deprecated'' ext;
             ext2 = deprecation_condition now TypePackageDeprecated packageMessages ''package not deprecated'' ext1;
             ext3 = deprecation_condition now TypeChannelDeprecated channelMessages ''channel not deprecated'' ext2 in
         if di_BundleStatus info = ConditionUnknown
         then set_ext_condition now ext3 TypeBundleDeprecated ConditionUnknown ReasonAbsent ''no bundle installed yet''
         else deprecation_condition now TypeBundleDeprecated bundleMessages ''bundle not deprecated'' ext3))"

section \<open>Lemmas\<close>

text \<open>
  The contract of the functions that set conditions of an extension: specification and metadata
  stay, and no condition changes but those of the given types.
\<close>

locale ext_marker =
  fixes mark :: "cluster_extension \<Rightarrow> cluster_extension"
    and types :: "string set"
  assumes keeps_spec: "ext_Spec (mark e) = ext_Spec e"
    and keeps_meta: "ext_Meta (mark e) = ext_Meta e"
    and keeps_others: "t \<notin> types \<Longrightarrow> cond_view (ext_conditions (mark e)) t = cond_view (ext_conditions e) t"
begin

text \<open>Marking twice is marking with the union of the types.\<close>

lemma marker_comp:
  assumes "ext_marker mark2 types2"
  shows "ext_marker (\<lambda>e. mark2 (mark e)) (types \<union> types2)"
  using assms keeps_spec keeps_meta keeps_others unfolding ext_marker_def by simp

end

lemma set_ext_condition_simps [simp]:
  "ext_Spec (set_ext_condition now ext t st r m) = ext_Spec ext"
  "ext_Meta (set_ext_condition now ext t st r m) = ext_Meta ext"
  "extst_Install (ext_Status (set_ext_condition now ext t st r m)) = extst_Install (ext_Status ext)"
  "extst_ActiveRevisions (ext_Status (set_ext_condition now ext t st r m)) = extst_ActiveRevisions (ext_Status ext)"
  "cond_view (ext_conditions (set_ext_condition now ext t st r m)) t' =
     (if t' = t then Some (st, r, truncateMessage m) else cond_view (ext_conditions ext) t')"
  by (simp_all add: set_ext_condition_def SetStatusCondition_def apimeta_view mk_condition_def)

lemma setInstallStatus_simps [simp]:
  "ext_Spec (setInstallStatus ext i) = ext_Spec ext" "ext_Meta (setInstallStatus ext i) = ext_Meta ext"
  "ext_conditions (setInstallStatus ext i) = ext_conditions ext"
  "extst_Install (ext_Status (setInstallStatus ext i)) = i"
  by (simp_all add: setInstallStatus_def)

lemmas installed_defs = setInstalledStatusConditionSuccess_def setInstalledStatusConditionFalse_def
  setInstalledStatusConditionUnknown_def

interpretation e_progressing: ext_marker "\<lambda>e. setStatusProgressing now e err" "{TypeProgressing}" for now err
  by unfold_locales (simp_all add: setStatusProgressing_def Let_def)

interpretation e_unknown: ext_marker "\<lambda>e. setInstalledStatusConditionUnknown now e m" "{TypeInstalled}" for now m
  by unfold_locales (simp_all add: installed_defs)

interpretation e_installed: ext_marker "\<lambda>e. setInstalledStatusFromRevisionStates now e rs" "{TypeInstalled}" for now rs
  by unfold_locales (simp_all add: setInstalledStatusFromRevisionStates_def installed_defs split: option.split)

lemma ensure_failure_view:
  "ensure_failure_condition now r m t e =
     (if isDeprecationCondition t \<or> cond_view (ext_conditions e) t \<noteq> None then e
      else set_ext_condition now e t ConditionFalse r m)"
  by (simp add: ensure_failure_condition_def cond_view_def)

lemma ensure_failure_one:
  "ext_Spec (ensure_failure_condition now r m t e) = ext_Spec e"
  "ext_Meta (ensure_failure_condition now r m t e) = ext_Meta e"
  "cond_view (ext_conditions e) t' \<noteq> None \<or> isDeprecationCondition t' \<Longrightarrow>
   cond_view (ext_conditions (ensure_failure_condition now r m t e)) t' = cond_view (ext_conditions e) t'"
  "\<not> isDeprecationCondition t \<Longrightarrow> cond_view (ext_conditions (ensure_failure_condition now r m t e)) t \<noteq> None"
  by (auto simp: ensure_failure_view)

lemma ensure_failure_fold:
  "ext_Spec (fold (ensure_failure_condition now r m) ts e) = ext_Spec e"
  "ext_Meta (fold (ensure_failure_condition now r m) ts e) = ext_Meta e"
  "cond_view (ext_conditions e) t' \<noteq> None \<or> isDeprecationCondition t' \<Longrightarrow>
   cond_view (ext_conditions (fold (ensure_failure_condition now r m) ts e)) t' = cond_view (ext_conditions e) t'"
  by (induction ts arbitrary: e) (simp_all add: ensure_failure_one)

text \<open>It fills the missing conditions and leaves those that are there alone.\<close>

lemma ensureFailureConditions_fills:
  "cond_view (ext_conditions (ensureFailureConditionsWithReason now e r m)) TypeInstalled \<noteq> None"
  "cond_view (ext_conditions (ensureFailureConditionsWithReason now e r m)) TypeProgressing \<noteq> None"
  "cond_view (ext_conditions e) t \<noteq> None \<Longrightarrow>
   cond_view (ext_conditions (ensureFailureConditionsWithReason now e r m)) t = cond_view (ext_conditions e) t"
proof -
  have nd: "\<not> isDeprecationCondition TypeInstalled" "\<not> isDeprecationCondition TypeProgressing"
    by (simp_all add: isDeprecationCondition_def)
  have fills: "cond_view (ext_conditions (fold (ensure_failure_condition now r m) ts e')) t \<noteq> None"
    if "t \<in> set ts" "\<not> isDeprecationCondition t" for t ts e'
    using that
  proof (induction ts arbitrary: e')
    case (Cons a ts)
    show ?case
    proof (cases "t \<in> set ts")
      case False
      then have "cond_view (ext_conditions (ensure_failure_condition now r m a e')) t \<noteq> None"
        using Cons.prems ensure_failure_one(4) by simp
      then show ?thesis by (simp add: ensure_failure_fold(3))
    qed (use Cons in simp)
  qed simp
  show "cond_view (ext_conditions (ensureFailureConditionsWithReason now e r m)) TypeInstalled \<noteq> None"
    "cond_view (ext_conditions (ensureFailureConditionsWithReason now e r m)) TypeProgressing \<noteq> None"
    unfolding ensureFailureConditionsWithReason_def
    by (rule fills; simp add: ConditionTypes_def nd)+
  show "cond_view (ext_conditions e) t \<noteq> None \<Longrightarrow>
      cond_view (ext_conditions (ensureFailureConditionsWithReason now e r m)) t = cond_view (ext_conditions e) t"
    by (simp add: ensureFailureConditionsWithReason_def ensure_failure_fold(3))
qed

interpretation e_failure: ext_marker "\<lambda>e. ensureFailureConditionsWithReason now e r m"
  "- {t. isDeprecationCondition t}" for now r m
  by unfold_locales (simp_all add: ensureFailureConditionsWithReason_def ensure_failure_fold)

lemma deprecation_condition_simps [simp]:
  "ext_Spec (deprecation_condition now t ms none e) = ext_Spec e"
  "ext_Meta (deprecation_condition now t ms none e) = ext_Meta e"
  "cond_view (ext_conditions (deprecation_condition now t ms none e)) t' =
     (if t' = t then Some (if ms \<noteq> [] then (ConditionTrue, ReasonDeprecated, truncateMessage (go_join [CHR 0x0A] ms))
        else (ConditionFalse, ReasonNotDeprecated, truncateMessage none))
      else cond_view (ext_conditions e) t')"
  by (simp_all add: deprecation_condition_def)

lemma unknown_deprecation_simps [simp]:
  "ext_Spec (unknown_deprecation now t e) = ext_Spec e" "ext_Meta (unknown_deprecation now t e) = ext_Meta e"
  "cond_view (ext_conditions (unknown_deprecation now t e)) t' =
     (if t' = t then Some (ConditionUnknown, ReasonDeprecationStatusUnknown,
        truncateMessage ''deprecation status unknown: catalog data unavailable'')
      else cond_view (ext_conditions e) t')"
  by (simp_all add: unknown_deprecation_def)

interpretation e_deprecation: ext_marker "\<lambda>e. SetDeprecationStatus now e name dep has"
  "{t. isDeprecationCondition t}" for now name dep has
  by unfold_locales (auto simp: SetDeprecationStatus_def Let_def isDeprecationCondition_def)

lemma collect_Nil: "collectDeprecationMessages es \<noteq> [] \<longleftrightarrow> list_ex (\<lambda>e. de_Message e \<noteq> '''') es"
  by (induction es) (auto simp: collectDeprecationMessages_def)

lemma list_ex_filter: "list_ex P (filter Q xs) \<longleftrightarrow> list_ex (\<lambda>x. Q x \<and> P x) xs"
  by (induction xs) auto

section \<open>Properties\<close>

definition dep_view :: "cluster_extension \<Rightarrow> string \<Rightarrow> (condition_status \<times> string) option" where
  "dep_view ext t = map_option (\<lambda>(st, r, m). (st, r)) (cond_view (ext_conditions ext) t)"

definition dep_entries :: "fbc_deprecation option \<Rightarrow> deprecation_entry list" where
  "dep_entries dep = (case dep of None \<Rightarrow> [] | Some d \<Rightarrow> dep_Entries d)"

definition dep_truth :: "bool \<Rightarrow> condition_status \<times> string" where
  "dep_truth b = (if b then (ConditionTrue, ReasonDeprecated) else (ConditionFalse, ReasonNotDeprecated))"

definition package_deprecated :: "fbc_deprecation option \<Rightarrow> bool" where
  "package_deprecated dep = list_ex (\<lambda>e. de_Schema e = SchemaPackage \<and> de_Message e \<noteq> '''') (dep_entries dep)"

definition channel_deprecated :: "string list \<Rightarrow> fbc_deprecation option \<Rightarrow> bool" where
  "channel_deprecated chans dep =
     list_ex (\<lambda>e. (de_Schema e = SchemaChannel \<and> (chans = [] \<or> de_Name e \<in> set chans)) \<and> de_Message e \<noteq> '''')
       (dep_entries dep)"

definition bundle_deprecated :: "string \<Rightarrow> fbc_deprecation option \<Rightarrow> bool" where
  "bundle_deprecated name dep =
     list_ex (\<lambda>e. (de_Schema e = SchemaBundle \<and> name \<noteq> '''' \<and> de_Name e = name) \<and> de_Message e \<noteq> '''')
       (dep_entries dep)"

definition ext_channels :: "cluster_extension \<Rightarrow> string list" where
  "ext_channels ext = (case src_Catalog (exts_Source (ext_Spec ext)) of None \<Rightarrow> [] | Some cf \<Rightarrow> cf_Channels cf)"

abbreviation dep_unknown :: "condition_status \<times> string" where
  "dep_unknown \<equiv> (ConditionUnknown, ReasonDeprecationStatusUnknown)"

text \<open>
  The deprecation conditions are always set, and from the entries of the catalog alone: unknown
  without catalog data; otherwise the package, channel and bundle conditions are true exactly when
  there is an entry with a message for the package, for a channel of the specification (for any
  channel when it names none) and for the installed bundle, the bundle condition is unknown when
  nothing is installed, and the summary condition is true exactly when one of the entries counts.
\<close>

theorem deprecation_conditions:
  "dep_view (SetDeprecationStatus now ext name dep has) TypePackageDeprecated =
     Some (if has then dep_truth (package_deprecated dep) else dep_unknown) \<and>
   dep_view (SetDeprecationStatus now ext name dep has) TypeChannelDeprecated =
     Some (if has then dep_truth (channel_deprecated (ext_channels ext) dep) else dep_unknown) \<and>
   dep_view (SetDeprecationStatus now ext name dep has) TypeBundleDeprecated =
     Some (if name = '''' then (ConditionUnknown, ReasonAbsent)
       else if has then dep_truth (bundle_deprecated name dep) else dep_unknown) \<and>
   dep_view (SetDeprecationStatus now ext name dep has) TypeDeprecated =
     Some (if has then dep_truth (package_deprecated dep \<or> channel_deprecated (ext_channels ext) dep \<or>
         bundle_deprecated name dep) else dep_unknown)"
proof (cases has)
  case False
  then show ?thesis
    unfolding dep_view_def by (simp add: SetDeprecationStatus_def Let_def)
next
  case True
  let ?i = "buildDeprecationInfo ext name dep"
  have m: "collectDeprecationMessages (di_PackageEntries ?i) \<noteq> [] \<longleftrightarrow> package_deprecated dep"
    "collectDeprecationMessages (di_ChannelEntries ?i) \<noteq> [] \<longleftrightarrow> channel_deprecated (ext_channels ext) dep"
    "collectDeprecationMessages (di_BundleEntries ?i) \<noteq> [] \<longleftrightarrow> bundle_deprecated name dep"
    unfolding collect_Nil package_deprecated_def channel_deprecated_def bundle_deprecated_def ext_channels_def
    by (simp_all add: buildDeprecationInfo_def Let_def list_ex_filter dep_entries_def)
  have u: "di_BundleStatus ?i = ConditionUnknown \<longleftrightarrow> name = ''''"
    by (simp add: buildDeprecationInfo_def Let_def)
  show ?thesis
    using True m u unfolding dep_view_def dep_truth_def
    by (auto simp: SetDeprecationStatus_def Let_def)
qed

text \<open>
  A bundle that the catalog deprecates without giving a message is reported as not deprecated,
  although the information gathered for it says that it is.
\<close>

theorem deprecated_without_message:
  "di_BundleStatus (buildDeprecationInfo ext ''b.v1''
      (Some \<lparr>dep_Package = ''p'', dep_Entries = [\<lparr>de_Schema = SchemaBundle, de_Name = ''b.v1'', de_Message = ''''\<rparr>]\<rparr>)) =
     ConditionTrue \<and>
   dep_view (SetDeprecationStatus now ext ''b.v1''
      (Some \<lparr>dep_Package = ''p'', dep_Entries = [\<lparr>de_Schema = SchemaBundle, de_Name = ''b.v1'', de_Message = ''''\<rparr>]\<rparr>) True)
     TypeBundleDeprecated = Some (ConditionFalse, ReasonNotDeprecated)"
  by (simp add: buildDeprecationInfo_def Let_def dep_view_def SetDeprecationStatus_def collectDeprecationMessages_def)

end
