(* ===== verification/Revision_Generator.thy ===== *)
theory Revision_Generator
  imports Cos_Phases
begin

text \<open>
  The generator of revisions (\<open>SimpleRevisionGenerator\<close> of \<open>applier/boxcutter.go\<close>): from the
  manifests of a bundle, or from a Helm release, to the ClusterObjectSet to apply. Manifests are
  unstructured objects; reading the bundle, the scheme and the YAML decoder are parameters.
\<close>

section \<open>Definitions\<close>

subsection \<open>Objects\<close>

definition mergeStringMaps :: "(string \<times> string) list \<Rightarrow> (string \<times> string) list \<Rightarrow> (string \<times> string) list" where
  "mergeStringMaps m1 m2 = foldl (\<lambda>m (k, v). alist_put m k v) [] (m1 @ m2)"

definition SetLabels :: "json \<Rightarrow> (string \<times> string) list \<Rightarrow> json" where
  "SetLabels obj m = json_set_meta_map obj ''labels'' m"

definition GetAnnotations :: "json \<Rightarrow> (string \<times> string) list option" where
  "GetAnnotations obj = json_meta_map obj ''annotations''"

definition SetAnnotations :: "json \<Rightarrow> (string \<times> string) list option \<Rightarrow> json" where
  "SetAnnotations obj m =
     (case m of
        Some as \<Rightarrow> json_set_meta_map obj ''annotations'' as
      | None \<Rightarrow>
          (case obj of
             JObj fs \<Rightarrow>
               (case map_of fs ''metadata'' of
                  Some (JObj ms) \<Rightarrow>
                    JObj (json_put fs ''metadata'' (JObj (filter (\<lambda>(k, v). k \<noteq> ''annotations'') ms)))
                | _ \<Rightarrow> obj)
           | _ \<Rightarrow> obj))"

definition SetGroupVersionKind :: "json \<Rightarrow> group_version_kind \<Rightarrow> json" where
  "SetGroupVersionKind obj gvk =
     (case obj of
        JObj fs \<Rightarrow>
          JObj (json_put (json_put fs ''apiVersion''
            (JStr (if gvk_Group gvk = '''' then gvk_Version gvk else gvk_Group gvk @ ''/'' @ gvk_Version gvk)))
            ''kind'' (JStr (gvk_Kind gvk)))
      | _ \<Rightarrow> obj)"

definition lastAppliedKey :: string where
  "lastAppliedKey = ''kubectl.kubernetes.io/last-applied-configuration''"

definition stripAnnotations :: "json \<Rightarrow> json" where
  "stripAnnotations obj =
     (case GetAnnotations obj of
        None \<Rightarrow> obj
      | Some annotations \<Rightarrow>
          (let annotations' = filter (\<lambda>(k, v). k \<noteq> lastAppliedKey) annotations in
           if annotations' = [] then SetAnnotations obj None else SetAnnotations obj (Some annotations')))"

definition allowedMetadata :: "string list" where
  "allowedMetadata = [''annotations'', ''labels'', ''name'', ''namespace'']"

definition sanitizedUnstructured :: "json \<Rightarrow> json" where
  "sanitizedUnstructured unstr =
     (case unstr of
        JObj fs \<Rightarrow>
          (let obj = filter (\<lambda>(k, v). k \<noteq> ''status'') fs in
           case map_of obj ''metadata'' of
             Some (JObj ms) \<Rightarrow>
               JObj (json_put obj ''metadata'' (JObj (List.map_filter (\<lambda>key.
                 map_option (Pair key) (map_of ms key)) allowedMetadata)))
           | _ \<Rightarrow> JObj obj)
      | _ \<Rightarrow> unstr)"

definition annotate :: "json \<Rightarrow> (string \<times> string) list \<Rightarrow> json" where
  "annotate obj updates =
     (if updates \<noteq> [] then
        SetAnnotations obj (Some (mergeStringMaps
          (case GetAnnotations obj of None \<Rightarrow> [] | Some as \<Rightarrow> as) updates))
      else obj)"

definition non_empty :: "string_map \<Rightarrow> string \<Rightarrow> (string \<times> string) list" where
  "non_empty m k = (if map_get m k \<noteq> '''' then [(k, map_get m k)] else [])"

subsection \<open>Revisions\<close>

text \<open>The apply configuration of a ClusterObjectSet; a field that is not set has its zero value.\<close>

record cos_apply =
  ca_Name :: string
  ca_Labels :: string_map
  ca_Annotations :: string_map
  ca_OwnerReferences :: "owner_reference list"
  ca_Spec :: cluster_object_set_spec

record 'fs generator =
  gen_ManifestProvider :: "'fs \<Rightarrow> cluster_extension \<Rightarrow> json list result"
  gen_getBundleAnnotations :: "'fs \<Rightarrow> string_map result"
  gen_GVKForObject :: "json \<Rightarrow> group_version_kind result"
  gen_ToUnstructured :: "json \<Rightarrow> json result"
  gen_yaml_Unmarshal :: "string \<Rightarrow> json result"

definition gk_probe :: "string \<Rightarrow> string \<Rightarrow> assertion list \<Rightarrow> progression_probe" where
  "gk_probe g k as =
     \<lparr>pp_Selector = \<lparr>osel_Type = ''GroupKind'', osel_GroupKind = gk g k,
        osel_Label = \<lparr>sel_MatchLabels = [], sel_MatchExpressions = []\<rparr>\<rparr>,
      pp_Assertions = as\<rparr>"

abbreviation no_fields :: fields_equal_probe where "no_fields \<equiv> \<lparr>fep_FieldA = '''', fep_FieldB = ''''\<rparr>"
abbreviation no_value :: field_value_probe where "no_value \<equiv> \<lparr>fvp_FieldPath = '''', fvp_Value = ''''\<rparr>"
abbreviation no_condition :: condition_equal_probe where "no_condition \<equiv> \<lparr>cep_Type = '''', cep_Status = ''''\<rparr>"

definition condition_assertion :: "string \<Rightarrow> string \<Rightarrow> assertion" where
  "condition_assertion t st =
     \<lparr>as_Type = ''ConditionEqual'', as_ConditionEqual = \<lparr>cep_Type = t, cep_Status = st\<rparr>,
      as_FieldsEqual = no_fields, as_FieldValue = no_value\<rparr>"

definition value_assertion :: "string \<Rightarrow> string \<Rightarrow> assertion" where
  "value_assertion path v =
     \<lparr>as_Type = ''FieldValue'', as_ConditionEqual = no_condition,
      as_FieldsEqual = no_fields, as_FieldValue = \<lparr>fvp_FieldPath = path, fvp_Value = v\<rparr>\<rparr>"

definition readyConditionAssertion :: assertion where
  "readyConditionAssertion = condition_assertion ''Ready'' ''True''"

definition availableConditionAssertion :: assertion where
  "availableConditionAssertion = condition_assertion ''Available'' ''True''"

definition replicasUpdatedAssertion :: assertion where
  "replicasUpdatedAssertion =
     \<lparr>as_Type = ''FieldsEqual'', as_ConditionEqual = no_condition,
      as_FieldsEqual = \<lparr>fep_FieldA = ''status.updatedReplicas'', fep_FieldB = ''status.replicas''\<rparr>,
      as_FieldValue = no_value\<rparr>"

definition defaultProgressionProbes :: "progression_probe list" where
  "defaultProgressionProbes =
     [gk_probe ''apiextensions.k8s.io'' ''CustomResourceDefinition'' [condition_assertion ''Established'' ''True''],
      gk_probe ''cert-manager.io'' ''Certificate'' [readyConditionAssertion],
      gk_probe ''cert-manager.io'' ''Issuer'' [readyConditionAssertion],
      gk_probe '''' ''Namespace'' [value_assertion ''status.phase'' ''Active''],
      gk_probe '''' ''PersistentVolumeClaim'' [value_assertion ''status.phase'' ''Bound''],
      gk_probe ''apps'' ''StatefulSet'' [replicasUpdatedAssertion, availableConditionAssertion],
      gk_probe ''apps'' ''Deployment'' [replicasUpdatedAssertion, availableConditionAssertion]]"

definition buildClusterObjectSet ::
  "cluster_object_set_object list \<Rightarrow> cluster_extension \<Rightarrow> string_map \<Rightarrow> cos_apply" where
  "buildClusterObjectSet objects ext annotations =
     \<lparr>ca_Name = '''',
      ca_Labels = [OwnerKindKey \<mapsto> ''ClusterExtension'', OwnerNameKey \<mapsto> meta_Name (ext_Meta ext)],
      ca_Annotations = annotations(ServiceAccountNameKey \<mapsto> exts_ServiceAccount (ext_Spec ext),
        ServiceAccountNamespaceKey \<mapsto> exts_Namespace (ext_Spec ext)),
      ca_OwnerReferences = [],
      ca_Spec = \<lparr>coss_LifecycleState = ''Active'', coss_Revision = 0,
        coss_Phases = PhaseSort objects,
        coss_ProgressDeadlineMinutes =
          (if exts_ProgressDeadlineMinutes (ext_Spec ext) > 0
           then exts_ProgressDeadlineMinutes (ext_Spec ext) else 0),
        coss_ProgressionProbes = defaultProgressionProbes, coss_CollisionProtection = ''''\<rparr>\<rparr>"

definition inline_object :: "json \<Rightarrow> cluster_object_set_object" where
  "inline_object obj =
     \<lparr>coso_Object = Some obj, coso_Ref = \<lparr>ref_Name = '''', ref_Namespace = '''', ref_Key = ''''\<rparr>,
      coso_CollisionProtection = ''''\<rparr>"

definition generate_object ::
  "'fs generator \<Rightarrow> (string \<times> string) list \<Rightarrow> string_map \<Rightarrow> json \<Rightarrow> json result" where
  "generate_object g objectLabels revisionAnnotations obj =
     (let obj1 = SetLabels obj (mergeStringMaps (json_labels obj) objectLabels) in
      case gen_GVKForObject g obj1 of
        Inl e \<Rightarrow> Inl e
      | Inr gvk \<Rightarrow>
          (case gen_ToUnstructured g obj1 of
             Inl e \<Rightarrow> Inl e
           | Inr unstrObj \<Rightarrow>
               Inr (annotate (sanitizedUnstructured (stripAnnotations (SetGroupVersionKind unstrObj gvk)))
                 (non_empty revisionAnnotations BundleVersionKey @ non_empty revisionAnnotations PackageNameKey))))"

fun map_result :: "('a \<Rightarrow> 'b result) \<Rightarrow> 'a list \<Rightarrow> 'b list result" where
  "map_result f [] = Inr []"
| "map_result f (x # xs) =
     (case f x of
        Inl e \<Rightarrow> Inl e
      | Inr y \<Rightarrow> (case map_result f xs of Inl e \<Rightarrow> Inl e | Inr ys \<Rightarrow> Inr (y # ys)))"

definition PropertyOLMProperties :: string where
  "PropertyOLMProperties = ''olm.properties''"

definition GenerateRevision ::
  "'fs generator \<Rightarrow> 'fs \<Rightarrow> cluster_extension \<Rightarrow> (string \<times> string) list \<Rightarrow> string_map \<Rightarrow> cos_apply result" where
  "GenerateRevision g bundleFS ext objectLabels revisionAnnotations =
     (case gen_ManifestProvider g bundleFS ext of
        Inl e \<Rightarrow> Inl e
      | Inr plain \<Rightarrow>
          (case gen_getBundleAnnotations g bundleFS of
             Inl e \<Rightarrow> Inl (ErrWrap ''error getting bundle annotations: '' e '''')
           | Inr bundleAnnotations \<Rightarrow>
               (let anns = (case bundleAnnotations PropertyOLMProperties of
                      None \<Rightarrow> revisionAnnotations
                    | Some v \<Rightarrow> revisionAnnotations(PropertyOLMProperties \<mapsto> v)) in
                case map_result (generate_object g objectLabels anns) plain of
                  Inl e \<Rightarrow> Inl e
                | Inr objs \<Rightarrow>
                    (let rev = buildClusterObjectSet (map inline_object objs) ext anns in
                     Inr (rev\<lparr>ca_Spec := (ca_Spec rev)\<lparr>
                       coss_CollisionProtection := CollisionProtectionPrevent\<rparr>\<rparr>)))))"

subsection \<open>From a Helm release\<close>

record helm_release =
  hr_Name :: string
  hr_Version :: int
  hr_Status :: "string option"
  hr_Manifest :: string
  hr_Labels :: string_map

definition splitManifestDocuments :: "string \<Rightarrow> string list" where
  "splitManifestDocuments file = filter (\<lambda>d. d \<noteq> '''') (map trim_space (split_on CHR 0x0A file))"

definition release_object ::
  "'fs generator \<Rightarrow> (string \<times> string) list \<Rightarrow> string_map \<Rightarrow> string \<Rightarrow> json result" where
  "release_object g objectLabels releaseLabels doc =
     (case gen_yaml_Unmarshal g doc of
        Inl e \<Rightarrow> Inl e
      | Inr obj \<Rightarrow>
          Inr (annotate
            (sanitizedUnstructured (stripAnnotations (SetLabels obj (mergeStringMaps (json_labels obj) objectLabels))))
            (non_empty releaseLabels BundleVersionKey @
             (case releaseLabels BundleReleaseKey of None \<Rightarrow> [] | Some v \<Rightarrow> [(BundleReleaseKey, v)]) @
             non_empty releaseLabels PackageNameKey)))"

definition GenerateRevisionFromHelmRelease ::
  "'fs generator \<Rightarrow> helm_release \<Rightarrow> cluster_extension \<Rightarrow> (string \<times> string) list \<Rightarrow> cos_apply result" where
  "GenerateRevisionFromHelmRelease g rel ext objectLabels =
     (case map_result (release_object g objectLabels (hr_Labels rel)) (splitManifestDocuments (hr_Manifest rel)) of
        Inl e \<Rightarrow> Inl e
      | Inr objs \<Rightarrow>
          (let lbl = map_get (hr_Labels rel);
               anns = [BundleNameKey \<mapsto> lbl BundleNameKey, PackageNameKey \<mapsto> lbl PackageNameKey,
                       BundleVersionKey \<mapsto> lbl BundleVersionKey, BundleReferenceKey \<mapsto> lbl BundleReferenceKey];
               anns' = (case hr_Labels rel BundleReleaseKey of
                   None \<Rightarrow> anns | Some v \<Rightarrow> anns(BundleReleaseKey \<mapsto> v));
               rev = buildClusterObjectSet (map inline_object objs) ext anns' in
           Inr (rev\<lparr>ca_Name := meta_Name (ext_Meta ext) @ ''-1'',
             ca_Spec := (ca_Spec rev)\<lparr>coss_Revision := 1,
               coss_CollisionProtection := CollisionProtectionNone\<rparr>\<rparr>)))"

section \<open>Lemmas\<close>

lemma keys_json_put [simp]: "fst ` set (json_put fs k v) = insert k (fst ` set fs)"
  by (induction fs k v rule: json_put.induct) auto

lemma map_of_alist_put [simp]: "map_of (alist_put fs k v) = (map_of fs)(k \<mapsto> v)"
  by (induction fs k v rule: alist_put.induct) auto

lemma foldl_alist_put:
  "map_of (foldl (\<lambda>m (k, v). alist_put m k v) m0 xs) = map_of m0 ++ map_of (rev xs)"
  by (induction xs rule: rev_induct) (auto simp: map_add_def split: option.split)

lemma map_of_rev_distinct: "distinct (map fst xs) \<Longrightarrow> map_of (rev xs) = map_of xs"
  by (metis distinct_rev map_of_eqI map_of_is_SomeI map_of_SomeD rev_map set_rev ext not_Some_eq)

text \<open>The second map takes precedence.\<close>

lemma map_of_mergeStringMaps:
  "distinct (map fst m1) \<Longrightarrow> distinct (map fst m2) \<Longrightarrow>
   map_of (mergeStringMaps m1 m2) = map_of m1 ++ map_of m2"
  by (simp add: mergeStringMaps_def foldl_alist_put map_of_rev_distinct)

text \<open>An object with a \<open>metadata\<close> that is an object, or without one.\<close>

definition is_object :: "json \<Rightarrow> bool" where
  "is_object j =
     (case j of
        JObj fs \<Rightarrow> (case map_of fs ''metadata'' of None \<Rightarrow> True | Some (JObj ms) \<Rightarrow> True | _ \<Rightarrow> False)
      | _ \<Rightarrow> False)"

definition metadata_keys :: "json \<Rightarrow> string set" where
  "metadata_keys j = (case json_field j ''metadata'' of Some (JObj ms) \<Rightarrow> fst ` set ms | _ \<Rightarrow> {})"

definition clean :: "json \<Rightarrow> bool" where
  "clean j \<longleftrightarrow> json_field j ''status'' = None \<and> metadata_keys j \<subseteq> set allowedMetadata"

lemma map_of_filter_key: "k \<noteq> k' \<Longrightarrow> map_of (filter (\<lambda>(x, v). x \<noteq> k') fs) k = map_of fs k"
  by (induction fs) auto

lemma map_of_filter_out: "map_of (filter (\<lambda>(x, v). x \<noteq> k) fs) k = None"
  by (induction fs) auto

lemma clean_sanitized: "clean (sanitizedUnstructured j)"
proof (cases j)
  case (JObj fs)
  have "metadata_keys (JObj (json_put (filter (\<lambda>(k, v). k \<noteq> ''status'') fs) ''metadata''
      (JObj (List.map_filter (\<lambda>key. map_option (Pair key) (map_of ms key)) allowedMetadata)))) \<subseteq> set allowedMetadata" for ms
    by (auto simp: metadata_keys_def List.map_filter_def)
  with JObj show ?thesis
    by (auto simp: clean_def sanitizedUnstructured_def Let_def map_of_filter_out metadata_keys_def
        split: option.split json.split)
qed (simp_all add: clean_def sanitizedUnstructured_def metadata_keys_def)

lemma clean_set_meta_map:
  "clean j \<Longrightarrow> f \<in> set allowedMetadata \<Longrightarrow> clean (json_set_meta_map j f m)"
  by (force simp: clean_def json_set_meta_map_def metadata_keys_def Let_def split: json.splits option.splits)

lemma clean_annotate: "clean j \<Longrightarrow> clean (annotate j u)"
  by (simp add: annotate_def SetAnnotations_def clean_set_meta_map allowedMetadata_def)

subsection \<open>Labels\<close>

lemma json_meta_map_cong:
  "json_path j [''metadata'', f] = json_path j' [''metadata'', f] \<Longrightarrow> json_meta_map j f = json_meta_map j' f"
  by (simp add: json_meta_map_def)

lemma is_object_iff:
  "is_object j \<longleftrightarrow> (\<exists>fs. j = JObj fs \<and>
     (map_of fs ''metadata'' = None \<or> (\<exists>ms. map_of fs ''metadata'' = Some (JObj ms))))"
  by (cases j) (auto simp: is_object_def split: option.split json.split)

lemma labels_set_annotations [simp]:
  "json_meta_map (json_set_meta_map j ''annotations'' m) ''labels'' = json_meta_map j ''labels''"
  by (auto simp: json_meta_map_def json_set_meta_map_def Let_def split: json.splits option.splits)

lemma labels_SetAnnotations [simp]: "json_meta_map (SetAnnotations j m) ''labels'' = json_meta_map j ''labels''"
proof (cases m)
  case None
  then show ?thesis
    by (intro json_meta_map_cong)
      (auto simp: SetAnnotations_def map_of_filter_key split: option.split json.split)
qed (simp add: SetAnnotations_def)

lemma labels_strip [simp]: "json_meta_map (stripAnnotations j) ''labels'' = json_meta_map j ''labels''"
  by (simp add: stripAnnotations_def Let_def split: option.split)

lemma labels_annotate [simp]: "json_meta_map (annotate j u) ''labels'' = json_meta_map j ''labels''"
  by (simp add: annotate_def)

lemma labels_gvk [simp]: "json_meta_map (SetGroupVersionKind j gvk) ''labels'' = json_meta_map j ''labels''"
  by (simp add: SetGroupVersionKind_def json_meta_map_def split: json.split)

lemma labels_sanitized [simp]: "json_meta_map (sanitizedUnstructured j) ''labels'' = json_meta_map j ''labels''"
proof (cases j)
  case (JObj fs)
  have "map_of (List.map_filter (\<lambda>key. map_option (Pair key) (map_of ms key)) allowedMetadata) ''labels'' =
      map_of ms ''labels''" for ms :: "(string \<times> json) list"
    by (cases "map_of ms ''annotations''"; cases "map_of ms ''labels''"; cases "map_of ms ''name''";
        cases "map_of ms ''namespace''") (simp_all add: allowedMetadata_def)
  with JObj show ?thesis
    by (auto simp: sanitizedUnstructured_def json_meta_map_def Let_def map_of_filter_key split: option.split json.split)
qed (simp_all add: sanitizedUnstructured_def)

lemma json_str_map:
  "list_all (\<lambda>(k, v). case v of JStr s \<Rightarrow> True | _ \<Rightarrow> False) (map (\<lambda>(k, v). (k, JStr v)) m)"
  "map (\<lambda>(k, v). (k, json_str (Some v))) (map (\<lambda>(k, v). (k, JStr v)) m) = m"
  by (induction m) auto

lemma labels_SetLabels: "is_object j \<Longrightarrow> json_meta_map (SetLabels j m) ''labels'' = Some m"
proof -
  assume "is_object j"
  then obtain fs where j: "j = JObj fs"
    and "map_of fs ''metadata'' = None \<or> (\<exists>ms. map_of fs ''metadata'' = Some (JObj ms))"
    by (auto simp: is_object_iff)
  then show ?thesis
    by (auto simp: SetLabels_def json_set_meta_map_def json_meta_map_def Let_def json_str_map simp del: map_map)
qed

subsection \<open>Generated objects\<close>

lemma map_result_all:
  "map_result f xs = Inr ys \<Longrightarrow> length ys = length xs \<and> (\<forall>y \<in> set ys. \<exists>x \<in> set xs. f x = Inr y)"
  by (induction xs arbitrary: ys) (auto split: sum.splits)

lemma generate_object_clean:
  assumes "generate_object g ol anns obj = Inr u"
    and "is_object obj"
    and "\<And>j j'. gen_ToUnstructured g j = Inr j' \<Longrightarrow> json_meta_map j' ''labels'' = json_meta_map j ''labels''"
  shows "clean u \<and> json_labels u = mergeStringMaps (json_labels obj) ol"
proof -
  obtain j' gvk where "gen_ToUnstructured g (SetLabels obj (mergeStringMaps (json_labels obj) ol)) = Inr j'"
    and u: "u = annotate (sanitizedUnstructured (stripAnnotations (SetGroupVersionKind j' gvk)))
      (non_empty anns BundleVersionKey @ non_empty anns PackageNameKey)"
    using assms(1) by (auto simp: generate_object_def Let_def split: sum.splits)
  then have "json_meta_map j' ''labels'' = Some (mergeStringMaps (json_labels obj) ol)"
    using assms(3) labels_SetLabels [OF assms(2)] by simp
  then show ?thesis
    unfolding u by (simp add: clean_annotate clean_sanitized json_labels_def [of "annotate _ _"])
qed

lemma mergeStringMaps_second:
  "distinct (map fst m2) \<Longrightarrow> (k, v) \<in> set m2 \<Longrightarrow> map_of (mergeStringMaps m1 m2) k = Some v"
  by (simp add: mergeStringMaps_def foldl_alist_put map_of_rev_distinct map_add_find_right)

section \<open>Properties\<close>

text \<open>
  A revision generated from a bundle is active, prevents collisions, names its owner and holds
  exactly one inline object per manifest, sorted into the phases; each object carries every label
  asked for, has no status and no metadata besides annotations, labels, name and namespace. The
  conversion to an unstructured object is taken to keep the labels.
\<close>

theorem generated_revision:
  assumes "GenerateRevision g fs ext ol anns = Inr cos" and "gen_ManifestProvider g fs ext = Inr plain"
    and "\<And>j. j \<in> set plain \<Longrightarrow> is_object j"
    and "\<And>j j'. gen_ToUnstructured g j = Inr j' \<Longrightarrow> json_meta_map j' ''labels'' = json_meta_map j ''labels''"
    and "distinct (map fst ol)"
  shows "coss_LifecycleState (ca_Spec cos) = ClusterObjectSetLifecycleStateActive \<and>
    coss_CollisionProtection (ca_Spec cos) = CollisionProtectionPrevent \<and>
    ca_Labels cos OwnerNameKey = Some (meta_Name (ext_Meta ext)) \<and>
    length (concat (map cosp_Objects (coss_Phases (ca_Spec cos)))) = length plain \<and>
    (\<forall>o1 \<in> set (concat (map cosp_Objects (coss_Phases (ca_Spec cos)))).
       \<exists>j. coso_Object o1 = Some j \<and> clean j \<and> (\<forall>(k, v) \<in> set ol. map_of (json_labels j) k = Some v))"
proof -
  obtain bann anns' objs where objs: "map_result (generate_object g ol anns') plain = Inr objs"
    and cos: "cos = (buildClusterObjectSet (map inline_object objs) ext anns')\<lparr>ca_Spec :=
      (ca_Spec (buildClusterObjectSet (map inline_object objs) ext anns'))\<lparr>coss_CollisionProtection :=
        CollisionProtectionPrevent\<rparr>\<rparr>"
    using assms(1,2) by (auto simp: GenerateRevision_def Let_def split: sum.splits)
  let ?all = "concat (map cosp_Objects (coss_Phases (ca_Spec cos)))"
  have m: "mset ?all = mset (map inline_object objs)"
    by (simp add: cos buildClusterObjectSet_def mset_PhaseSort)
  note r = map_result_all [OF objs]
  have "length ?all = length plain" using m r by (metis length_map mset_eq_length)
  moreover have "\<exists>j. coso_Object o1 = Some j \<and> clean j \<and> (\<forall>(k, v) \<in> set ol. map_of (json_labels j) k = Some v)"
    if "o1 \<in> set ?all" for o1
  proof -
    have "o1 \<in> set (map inline_object objs)" using that m by (metis mset_eq_setD)
    then obtain j where j: "j \<in> set objs" "coso_Object o1 = Some j" by (auto simp: inline_object_def)
    with r obtain x where x: "x \<in> set plain" "generate_object g ol anns' x = Inr j" by auto
    show ?thesis
      using j(2) generate_object_clean [OF x(2) assms(3) [OF x(1)] assms(4)] mergeStringMaps_second [OF assms(5)]
      by auto
  qed
  ultimately show ?thesis by (simp add: cos buildClusterObjectSet_def label_keys)
qed

definition sample_generator :: "unit generator" where
  "sample_generator =
     \<lparr>gen_ManifestProvider = (\<lambda>fs ext. Inr [JObj [(''kind'', JStr ''ConfigMap''), (''status'', JNull)]]),
      gen_getBundleAnnotations = (\<lambda>fs. Inr Map.empty),
      gen_GVKForObject = (\<lambda>j. Inr \<lparr>gvk_Group = '''', gvk_Version = ''v1'', gvk_Kind = ''ConfigMap''\<rparr>),
      gen_ToUnstructured = (\<lambda>j. Inr j), gen_yaml_Unmarshal = (\<lambda>s. Inl (ErrText ''no document''))\<rparr>"

theorem generated_revision_witness:
  "\<exists>cos. GenerateRevision sample_generator () ex_ext [(''a'', ''b'')] Map.empty = Inr cos \<and>
     coss_LifecycleState (ca_Spec cos) = ClusterObjectSetLifecycleStateActive \<and>
     length (concat (map cosp_Objects (coss_Phases (ca_Spec cos)))) = 1"
proof -
  have gen: "gen_ManifestProvider sample_generator () ex_ext =
      Inr [JObj [(''kind'', JStr ''ConfigMap''), (''status'', JNull)]]"
    "gen_getBundleAnnotations sample_generator () = Inr Map.empty"
    "gen_GVKForObject sample_generator j = Inr \<lparr>gvk_Group = '''', gvk_Version = ''v1'', gvk_Kind = ''ConfigMap''\<rparr>"
    "gen_ToUnstructured sample_generator j = Inr j" for j
    by (simp_all add: sample_generator_def)
  obtain cos where cos: "GenerateRevision sample_generator () ex_ext [(''a'', ''b'')] Map.empty = Inr cos"
    by (simp add: GenerateRevision_def gen generate_object_def Let_def)
  from generated_revision [OF cos gen(1)] show ?thesis
    using cos gen(4) by (auto simp: is_object_iff)
qed

end
