(* ===== verification/Pre_Authorization.thy ===== *)
theory Pre_Authorization
  imports Api_Types
begin

text \<open>
  What both appliers share: the choice of preflight checks (\<open>applier/preflight.go\<close>) and the
  report of missing permissions (\<open>applier/helm.go\<close>). The checks themselves and the authorizer are
  parameters.
\<close>

section \<open>Definitions\<close>

subsection \<open>Preflights\<close>

record preflight =
  pfl_isCRDUpgradeSafety :: bool
  pfl_Install :: "json list \<Rightarrow> go_error option"
  pfl_Upgrade :: "json list \<Rightarrow> go_error option"

abbreviation StateNeedsInstall :: string where "StateNeedsInstall \<equiv> ''NeedsInstall''"
abbreviation StateNeedsUpgrade :: string where "StateNeedsUpgrade \<equiv> ''NeedsUpgrade''"
abbreviation StateUnchanged :: string where "StateUnchanged \<equiv> ''Unchanged''"
abbreviation StateError :: string where "StateError \<equiv> ''Error''"

definition crd_enforcement :: "cluster_extension \<Rightarrow> string option" where
  "crd_enforcement ext =
     (case exts_Install (ext_Spec ext) of
        None \<Rightarrow> None
      | Some inst \<Rightarrow>
          (case ic_Preflight inst of
             None \<Rightarrow> None
           | Some pf \<Rightarrow> map_option crdpf_Enforcement (pf_CRDUpgradeSafety pf)))"

definition shouldSkipPreflight :: "preflight \<Rightarrow> cluster_extension \<Rightarrow> string \<Rightarrow> bool" where
  "shouldSkipPreflight pf ext state \<longleftrightarrow>
     (case crd_enforcement ext of
        None \<Rightarrow> False
      | Some enforcement \<Rightarrow> pfl_isCRDUpgradeSafety pf \<and> enforcement = ''None'')"

fun run_preflights :: "preflight list \<Rightarrow> cluster_extension \<Rightarrow> string \<Rightarrow> json list \<Rightarrow> go_error option" where
  "run_preflights [] ext state objs = None"
| "run_preflights (pf # pfs) ext state objs =
     (if shouldSkipPreflight pf ext state then run_preflights pfs ext state objs
      else
        (case (if state = StateNeedsInstall then pfl_Install pf objs
               else if state = StateNeedsUpgrade then pfl_Upgrade pf objs
               else None) of
           Some e \<Rightarrow> Some e
         | None \<Rightarrow> run_preflights pfs ext state objs))"

subsection \<open>Permissions\<close>

record scoped_policy_rules =
  spr_Namespace :: string
  spr_MissingRules :: "policy_rule list"

record user_info =
  ui_Name :: string
  ui_Groups :: "string list"

record attributes_record =
  at_User :: user_info
  at_Verb :: string
  at_Namespace :: string
  at_APIGroup :: string
  at_APIVersion :: string
  at_Resource :: string
  at_Subresource :: string
  at_Name :: string
  at_ResourceRequest :: bool
  at_Path :: string

definition getUserInfo :: "cluster_extension \<Rightarrow> user_info" where
  "getUserInfo ext =
     \<lparr>ui_Name = ''system:serviceaccount:'' @ exts_Namespace (ext_Spec ext) @ '':'' @ exts_ServiceAccount (ext_Spec ext),
      ui_Groups = []\<rparr>"

definition finalizer_perms :: "user_info \<Rightarrow> string \<Rightarrow> string \<Rightarrow> attributes_record list" where
  "finalizer_perms user name resource =
     [\<lparr>at_User = user, at_Verb = ''update'', at_Namespace = '''', at_APIGroup = ''olm.operatorframework.io'',
       at_APIVersion = ''v1'', at_Resource = resource, at_Subresource = '''', at_Name = name, at_ResourceRequest = True,
       at_Path = ''''\<rparr>]"

definition extManagementPerms :: "cluster_extension \<Rightarrow> user_info \<Rightarrow> attributes_record list" where
  "extManagementPerms ext user = finalizer_perms user (meta_Name (ext_Meta ext)) ''clusterextensions/finalizers''"

definition rule_part :: "string \<Rightarrow> string list \<Rightarrow> string" where
  "rule_part what xs = (if xs \<noteq> [] then '' '' @ what @ '':['' @ go_join '','' (sort xs) @ '']'' else '''')"

definition ruleDescription :: "string \<Rightarrow> policy_rule \<Rightarrow> string" where
  "ruleDescription ns rule =
     ''Namespace:'' @ go_quote ns @ rule_part ''APIGroups'' (pr_APIGroups rule) @
     rule_part ''Resources'' (pr_Resources rule) @ rule_part ''ResourceNames'' (pr_ResourceNames rule) @
     rule_part ''Verbs'' (pr_Verbs rule) @ rule_part ''NonResourceURLs'' (pr_NonResourceURLs rule)"

definition missing_descriptions :: "scoped_policy_rules list \<Rightarrow> string list" where
  "missing_descriptions missingRules =
     sort (concat (map (\<lambda>r. map (ruleDescription (spr_Namespace r)) (spr_MissingRules r)) missingRules))"

definition formatPreAuthorizerOutput ::
  "scoped_policy_rules list \<Rightarrow> go_error option \<Rightarrow> go_error option" where
  "formatPreAuthorizerOutput missingRules authErr =
     (let missing = (if missingRules \<noteq> [] then
             [ErrText (''service account requires the following permissions to manage cluster extension:'' @
                [CHR 0x0A] @ ''  '' @ go_join ([CHR 0x0A] @ ''  '') (missing_descriptions missingRules))]
           else []);
          auth = (case authErr of None \<Rightarrow> [] | Some e \<Rightarrow> [ErrWrap ''authorization evaluation error: '' e '''']);
          preAuthErrors = missing @ auth in
      if preAuthErrors \<noteq> [] then
        Some (ErrText (''pre-authorization failed: '' @ err_string (ErrJoin preAuthErrors)))
      else None)"

section \<open>Lemmas\<close>

text \<open>The report does not depend on the order in which the authorizer found the missing rules.\<close>

lemma missing_descriptions_perm:
  "mset rs = mset rs' \<Longrightarrow> missing_descriptions rs = missing_descriptions rs'"
proof -
  assume "mset rs = mset rs'"
  then have "mset (concat (map f rs)) = mset (concat (map f rs'))" for f :: "scoped_policy_rules \<Rightarrow> string list"
    by (simp only: mset_concat_map)
  then show ?thesis
    unfolding missing_descriptions_def by (intro properties_for_sort) simp_all
qed

lemma formatPreAuthorizerOutput_None:
  "formatPreAuthorizerOutput rs err = None \<longleftrightarrow> rs = [] \<and> err = None"
  by (simp add: formatPreAuthorizerOutput_def Let_def split: option.split)

text \<open>
  Preflights pass exactly when every one that is not skipped passes; none runs when nothing
  changes.
\<close>

lemma run_preflights_None:
  "run_preflights pfs ext state objs = None \<longleftrightarrow>
     (\<forall>pf \<in> set pfs. shouldSkipPreflight pf ext state \<or>
        (state = StateNeedsInstall \<longrightarrow> pfl_Install pf objs = None) \<and>
        (state = StateNeedsUpgrade \<longrightarrow> pfl_Upgrade pf objs = None))"
  by (induction pfs) (auto split: option.split)

end
