(* ===== verification/Boxcutter_Applier.thy ===== *)
theory Boxcutter_Applier
  imports Revision_Generator Pre_Authorization Progress_Deadline
begin

text \<open>
  The applier that rolls an extension out as a sequence of ClusterObjectSets (\<open>Boxcutter\<close> of
  \<open>applier/boxcutter.go\<close>). A run gives the calls that change something in the cluster, in the order
  they are made, and its result; the answers of the API server are a parameter. Inline objects are
  moved to Secrets before a revision is applied.
\<close>

section \<open>Definitions\<close>

definition ClusterObjectSetRetentionLimit :: nat where
  "ClusterObjectSetRetentionLimit = 5"

definition no_ref :: object_source_ref where
  "no_ref = \<lparr>ref_Name = '''', ref_Namespace = '''', ref_Key = ''''\<rparr>"

subsection \<open>Externalizing objects\<close>

definition saveInlineObjects :: "cluster_object_set_phase list \<Rightarrow> json option list list" where
  "saveInlineObjects phases = map (\<lambda>p. map coso_Object (cosp_Objects p)) phases"

definition restore_row ::
  "cluster_object_set_object list \<Rightarrow> json option list \<Rightarrow> cluster_object_set_object list" where
  "restore_row os row =
     map2 (\<lambda>o1 x. o1\<lparr>coso_Object := x, coso_Ref := no_ref\<rparr>) os row @ drop (length row) os"

definition restoreInlineObjects ::
  "cluster_object_set_phase list \<Rightarrow> json option list list \<Rightarrow> cluster_object_set_phase list" where
  "restoreInlineObjects phases saved =
     map2 (\<lambda>p row. p\<lparr>cosp_Objects := restore_row (cosp_Objects p) row\<rparr>) phases saved @
     drop (length saved) phases"

definition extractPhasesForPacking :: "cluster_object_set_phase list \<Rightarrow> cluster_object_set_phase list" where
  "extractPhasesForPacking phases =
     map (\<lambda>p. \<lparr>cosp_Name = cosp_Name p,
       cosp_Objects = map (\<lambda>o1. o1\<lparr>coso_Ref := no_ref\<rparr>) (cosp_Objects p),
       cosp_CollisionProtection = ''''\<rparr>) phases"

definition replaceInlineWithRefs ::
  "cluster_object_set_phase list \<Rightarrow> pack_result \<Rightarrow> cluster_object_set_phase list" where
  "replaceInlineWithRefs phases pack =
     map (\<lambda>(i, p). p\<lparr>cosp_Objects := map (\<lambda>(j, o1).
         case pr_Refs pack (i, j) of
           None \<Rightarrow> o1
         | Some ref \<Rightarrow> o1\<lparr>coso_Object := None, coso_Ref := ref\<rparr>) (enumerate 0 (cosp_Objects p))\<rparr>)
       (enumerate 0 phases)"

definition getObjects :: "cluster_object_set_phase list \<Rightarrow> json list" where
  "getObjects phases = List.map_filter coso_Object (concat (map cosp_Objects phases))"

subsection \<open>The environment\<close>

datatype bx_action =
    BxApply cos_apply
  | BxCreate secret
  | BxDelete string
  | BxPatch secret

record 'fs boxcutter =
  bx_codec :: codec
  bx_generator :: "'fs generator"
  bx_SystemNamespace :: string
  bx_Preflights :: "preflight list"
  bx_PreAuthorizer :: "(user_info \<Rightarrow> string \<Rightarrow> attributes_record list \<Rightarrow> scoped_policy_rules list \<times> go_error option) option"
  bx_PrintObj :: "json \<Rightarrow> string result"
  bx_GVKForOwner :: "(string \<times> string) result"
  bx_List :: "string \<Rightarrow> cluster_object_set list result"
  bx_Get :: "string \<Rightarrow> cluster_object_set result"
  bx_ListSecrets :: "string \<Rightarrow> string \<Rightarrow> secret list result"
  bx_Apply :: "cos_apply \<Rightarrow> go_error option"
  bx_Create :: "secret \<Rightarrow> go_error option"
  bx_Delete :: "string \<Rightarrow> go_error option"
  bx_Patch :: "secret \<Rightarrow> go_error option"

definition IsInvalid :: "go_error \<Rightarrow> bool" where
  "IsInvalid e \<longleftrightarrow> api_reason_of e = Some Invalid"

subsection \<open>Existing revisions\<close>

definition compare_revision :: "cluster_object_set \<Rightarrow> cluster_object_set \<Rightarrow> int" where
  "compare_revision a b = go_compare (coss_Revision (cos_Spec a)) (coss_Revision (cos_Spec b))"

definition getExistingRevisions :: "'fs boxcutter \<Rightarrow> string \<Rightarrow> cluster_object_set list result" where
  "getExistingRevisions bx extName =
     (case bx_List bx extName of
        Inl e \<Rightarrow> Inl (ErrWrap ''listing revisions: '' e '''')
      | Inr items \<Rightarrow> Inr (sort_by compare_revision items))"

definition latestRevisionNumber :: "cluster_object_set list \<Rightarrow> int" where
  "latestRevisionNumber prevRevisions =
     (if prevRevisions = [] then 0 else coss_Revision (cos_Spec (last prevRevisions)))"

fun gc_loop :: "'fs boxcutter \<Rightarrow> nat \<Rightarrow> nat \<Rightarrow> cluster_object_set list \<Rightarrow> bx_action list \<times> go_error option" where
  "gc_loop bx n index [] = ([], None)"
| "gc_loop bx n index (r # rs) =
     (if int index < int n - int ClusterObjectSetRetentionLimit \<and>
         coss_LifecycleState (cos_Spec r) = ClusterObjectSetLifecycleStateArchived then
        (let name = meta_Name (cos_Meta r) in
         case ignore_not_found (bx_Delete bx name) of
           Some e \<Rightarrow> ([BxDelete name], Some (ErrWrap ''deleting archived revision: '' e ''''))
         | None \<Rightarrow> (let (acts, err) = gc_loop bx n (Suc index) rs in (BxDelete name # acts, err)))
      else gc_loop bx n (Suc index) rs)"

definition garbageCollectOldRevisions ::
  "'fs boxcutter \<Rightarrow> cluster_object_set list \<Rightarrow> bx_action list \<times> go_error option" where
  "garbageCollectOldRevisions bx revisionList = gc_loop bx (length revisionList) 0 revisionList"

subsection \<open>Owner references of the Secrets\<close>

definition has_owner :: "secret \<Rightarrow> string \<Rightarrow> bool" where
  "has_owner s uid = list_ex (\<lambda>r. or_UID r = uid) (sec_OwnerReferences s)"

fun patchOwnerRefsOnSecrets ::
  "'fs boxcutter \<Rightarrow> string \<Rightarrow> string \<Rightarrow> secret list \<Rightarrow> bx_action list \<times> go_error option" where
  "patchOwnerRefsOnSecrets bx cosName cosUID [] = ([], None)"
| "patchOwnerRefsOnSecrets bx cosName cosUID (s # ss) =
     (if has_owner s cosUID then patchOwnerRefsOnSecrets bx cosName cosUID ss
      else
        (let ownerRef = \<lparr>or_APIVersion = ''olm.operatorframework.io/v1'', or_Kind = ''ClusterObjectSet'',
               or_Name = cosName, or_UID = cosUID, or_Controller = Some True, or_BlockOwnerDeletion = Some True\<rparr>;
             s' = s\<lparr>sec_OwnerReferences := sec_OwnerReferences s @ [ownerRef]\<rparr> in
         case bx_Patch bx s' of
           Some e \<Rightarrow> ([BxPatch s'], Some (ErrWrap (''patching ownerReference on Secret '' @
               sec_Namespace s @ ''/'' @ sec_Name s @ '': '') e ''''))
         | None \<Rightarrow> (let (acts, err) = patchOwnerRefsOnSecrets bx cosName cosUID ss in (BxPatch s' # acts, err))))"

definition patchSecretOwnerReferences ::
  "'fs boxcutter \<Rightarrow> string \<Rightarrow> secret list \<Rightarrow> bx_action list \<times> go_error option" where
  "patchSecretOwnerReferences bx name secrets =
     (if secrets = [] then ([], None)
      else
        (case bx_Get bx name of
           Inl e \<Rightarrow> ([], Some (ErrWrap (''getting COS '' @ go_quote name @ '' for ownerReference: '') e ''''))
         | Inr cos \<Rightarrow> patchOwnerRefsOnSecrets bx (meta_Name (cos_Meta cos)) (meta_UID (cos_Meta cos)) secrets))"

definition ensureSecretOwnerReferences ::
  "'fs boxcutter \<Rightarrow> cluster_object_set \<Rightarrow> bx_action list \<times> go_error option" where
  "ensureSecretOwnerReferences bx cos =
     (let name = meta_Name (cos_Meta cos); uid = meta_UID (cos_Meta cos) in
      case bx_ListSecrets bx (bx_SystemNamespace bx) name of
        Inl e \<Rightarrow> ([], Some (ErrWrap (''listing ref Secrets for revision '' @ go_quote name @ '': '') e ''''))
      | Inr items \<Rightarrow> patchOwnerRefsOnSecrets bx name uid (filter (\<lambda>s. \<not> has_owner s uid) items))"

subsection \<open>Creating a revision\<close>

fun print_objects :: "'fs boxcutter \<Rightarrow> json list \<Rightarrow> string result" where
  "print_objects bx [] = Inr ''''"
| "print_objects bx (obj # objs) =
     (case bx_PrintObj bx obj of
        Inl e \<Rightarrow> Inl e
      | Inr txt \<Rightarrow>
          (case print_objects bx objs of
             Inl e \<Rightarrow> Inl e
           | Inr rest \<Rightarrow> Inr (''---'' @ [CHR 0x0A] @ txt @ rest)))"

definition revisionManagementPerms :: "cos_apply \<Rightarrow> user_info \<Rightarrow> attributes_record list" where
  "revisionManagementPerms r user = finalizer_perms user (ca_Name r) ''clusterobjectsets/finalizers''"

definition runPreAuthorizationChecks :: "'fs boxcutter \<Rightarrow> user_info \<Rightarrow> cos_apply \<Rightarrow> go_error option" where
  "runPreAuthorizationChecks bx user r =
     (case bx_PreAuthorizer bx of
        None \<Rightarrow> None
      | Some preAuthorize \<Rightarrow>
          (case print_objects bx (getObjects (coss_Phases (ca_Spec r))) of
             Inl e \<Rightarrow> Some e
           | Inr manifests \<Rightarrow>
               (let (missing, err) = preAuthorize user manifests (revisionManagementPerms r user) in
                formatPreAuthorizerOutput missing err)))"

fun create_secrets :: "'fs boxcutter \<Rightarrow> secret list \<Rightarrow> bx_action list \<times> go_error option" where
  "create_secrets bx [] = ([], None)"
| "create_secrets bx (s # ss) =
     (case (case bx_Create bx s of
              Some e \<Rightarrow> if IsAlreadyExists e then None else Some e
            | None \<Rightarrow> None) of
        Some e \<Rightarrow> ([BxCreate s], Some (ErrWrap (''creating ref Secret '' @ go_quote (sec_Name s) @ '': '') e ''''))
      | None \<Rightarrow> (let (acts, err) = create_secrets bx ss in (BxCreate s # acts, err)))"

definition with_phases :: "cos_apply \<Rightarrow> cluster_object_set_phase list \<Rightarrow> cos_apply" where
  "with_phases r phases = r\<lparr>ca_Spec := (ca_Spec r)\<lparr>coss_Phases := phases\<rparr>\<rparr>"

definition with_name :: "cos_apply \<Rightarrow> string \<Rightarrow> int \<Rightarrow> cos_apply" where
  "with_name r name revision = r\<lparr>ca_Name := name, ca_Spec := (ca_Spec r)\<lparr>coss_Revision := revision\<rparr>\<rparr>"

definition pack_revision :: "'fs boxcutter \<Rightarrow> cluster_extension \<Rightarrow> cos_apply \<Rightarrow> pack_result result" where
  "pack_revision bx ext r =
     Pack (bx_codec bx)
       \<lparr>sp_RevisionName = ca_Name r, sp_OwnerName = meta_Name (ext_Meta ext),
        sp_SystemNamespace = bx_SystemNamespace bx\<rparr>
       (extractPhasesForPacking (coss_Phases (ca_Spec r)))"

definition createExternalizedRevision ::
  "'fs boxcutter \<Rightarrow> cluster_extension \<Rightarrow> cos_apply \<Rightarrow> cluster_object_set list \<Rightarrow> bx_action list \<times> go_error option" where
  "createExternalizedRevision bx ext desiredRevision prevRevisions =
     (let revisionNumber = wrap64 (latestRevisionNumber prevRevisions + 1);
          revisionName = meta_Name (ext_Meta ext) @ ''-'' @ show_int revisionNumber;
          desired = with_name desiredRevision revisionName revisionNumber;
          (gcs, gcerr) = garbageCollectOldRevisions bx prevRevisions in
      case gcerr of
        Some e \<Rightarrow> (gcs, Some (ErrWrap ''garbage collecting old revisions: '' e ''''))
      | None \<Rightarrow>
          (case runPreAuthorizationChecks bx (getUserInfo ext) desired of
             Some e \<Rightarrow> (gcs, Some (ErrWrap ''creating new Revision: '' e ''''))
           | None \<Rightarrow>
               (case pack_revision bx ext desired of
                  Inl e \<Rightarrow> (gcs, Some (ErrWrap ''packing objects into Secrets: '' e ''''))
                | Inr packResult \<Rightarrow>
                    (let final = with_phases desired
                           (replaceInlineWithRefs (coss_Phases (ca_Spec desired)) packResult);
                         (cs, cerr) = create_secrets bx (pr_Secrets packResult) in
                     case cerr of
                       Some e \<Rightarrow> (gcs @ cs, Some e)
                     | None \<Rightarrow>
                         (case bx_Apply bx final of
                            Some e \<Rightarrow> (gcs @ cs @ [BxApply final], Some (ErrWrap ''creating new Revision: '' e ''''))
                          | None \<Rightarrow>
                              (let (ps, perr) = patchSecretOwnerReferences bx (ca_Name final) (pr_Secrets packResult) in
                               (gcs @ cs @ [BxApply final] @ ps,
                                map_option (\<lambda>e. ErrWrap ''patching ownerReferences on ref Secrets: '' e '''') perr)))))))"

subsection \<open>Applying\<close>

record bx_out =
  bo_succeeded :: bool
  bo_err :: "go_error option"
  bo_actions :: "bx_action list"

definition bx_fail :: "bx_action list \<Rightarrow> go_error \<Rightarrow> bx_out" where
  "bx_fail acts e = \<lparr>bo_succeeded = False, bo_err = Some e, bo_actions = acts\<rparr>"

definition bx_done :: "bx_action list \<Rightarrow> go_error option \<Rightarrow> bx_out" where
  "bx_done acts err =
     (case err of
        Some e \<Rightarrow> bx_fail acts e
      | None \<Rightarrow> \<lparr>bo_succeeded = True, bo_err = None, bo_actions = acts\<rparr>)"

definition owner_ref :: "string \<times> string \<Rightarrow> cluster_extension \<Rightarrow> owner_reference" where
  "owner_ref gvk ext =
     \<lparr>or_APIVersion = fst gvk, or_Kind = snd gvk, or_Name = meta_Name (ext_Meta ext),
      or_UID = meta_UID (ext_Meta ext), or_Controller = Some True, or_BlockOwnerDeletion = Some True\<rparr>"

text \<open>
  The comparison with the current revision: the state it gives, the calls made, and the desired
  revision with its inline objects restored.
\<close>

definition compare_current ::
  "'fs boxcutter \<Rightarrow> cluster_extension \<Rightarrow> cos_apply \<Rightarrow> cluster_object_set \<Rightarrow>
   bx_action list \<times> (string \<times> cos_apply) result" where
  "compare_current bx ext desiredRevision currentRevision =
     (let name = meta_Name (cos_Meta currentRevision);
          desired = with_name desiredRevision name (coss_Revision (cos_Spec currentRevision));
          savedInline = saveInlineObjects (coss_Phases (ca_Spec desired)) in
      case pack_revision bx ext desired of
        Inl e \<Rightarrow> ([], Inl (ErrWrap ''packing for SSA comparison: '' e ''''))
      | Inr packResult \<Rightarrow>
          (let packed = with_phases desired (replaceInlineWithRefs (coss_Phases (ca_Spec desired)) packResult);
               restored = with_phases packed (restoreInlineObjects (coss_Phases (ca_Spec packed)) savedInline) in
           ([BxApply packed],
            (case bx_Apply bx packed of
               None \<Rightarrow> Inr (StateUnchanged, restored)
             | Some e \<Rightarrow>
                 if IsInvalid e then Inr (StateNeedsUpgrade, restored)
                 else Inl (ErrWrap (''patching '' @ name @ '' Revision: '') e '''')))))"

text \<open>From the preflights on.\<close>

definition apply_rest ::
  "'fs boxcutter \<Rightarrow> cluster_extension \<Rightarrow> cluster_object_set list \<Rightarrow> bx_action list \<Rightarrow> string \<Rightarrow> cos_apply \<Rightarrow> bx_out" where
  "apply_rest bx ext revs acts state desired =
     (case run_preflights (bx_Preflights bx) ext state (getObjects (coss_Phases (ca_Spec desired))) of
        Some e \<Rightarrow> bx_fail acts e
      | None \<Rightarrow>
          if state \<noteq> StateUnchanged then
            (let (acts2, err) = createExternalizedRevision bx ext desired revs in bx_done (acts @ acts2) err)
          else if meta_Name (cos_Meta (last revs)) \<noteq> '''' then
            (let (acts2, err) = ensureSecretOwnerReferences bx (last revs) in
             bx_done (acts @ acts2) (map_option
               (\<lambda>e. ErrWrap ''ensuring ownerReferences on ref Secrets: '' e '''') err))
          else bx_done acts None)"

definition boxcutter_Apply ::
  "'fs boxcutter \<Rightarrow> 'fs option \<Rightarrow> cluster_extension \<Rightarrow> (string \<times> string) list \<Rightarrow> string_map \<Rightarrow> bx_out" where
  "boxcutter_Apply bx contentFS ext objectLabels revisionAnnotations =
     (case getExistingRevisions bx (meta_Name (ext_Meta ext)) of
        Inl e \<Rightarrow> bx_fail [] e
      | Inr existingRevisions \<Rightarrow>
          (case contentFS of
             None \<Rightarrow>
               if existingRevisions = []
               then bx_fail [] (ErrText ''catalog content unavailable and no revision installed'')
               else bx_done [] None
           | Some fs \<Rightarrow>
               (case GenerateRevision (bx_generator bx) fs ext objectLabels revisionAnnotations of
                  Inl e \<Rightarrow> bx_fail [] e
                | Inr desired0 \<Rightarrow>
                    (case bx_GVKForOwner bx of
                       Inl e \<Rightarrow> bx_fail [] (ErrWrap ''get GVK for owner: '' e '''')
                     | Inr gvk \<Rightarrow>
                         (let desired = desired0\<lparr>ca_OwnerReferences :=
                                ca_OwnerReferences desired0 @ [owner_ref gvk ext]\<rparr>;
                              (acts, cmp) =
                                (if existingRevisions \<noteq> []
                                 then compare_current bx ext desired (last existingRevisions)
                                 else ([], Inr (StateNeedsInstall, desired))) in
                          case cmp of
                            Inl e \<Rightarrow> bx_fail acts e
                          | Inr (state, desired') \<Rightarrow> apply_rest bx ext existingRevisions acts state desired')))))"

section \<open>Lemmas\<close>

subsection \<open>Saving and restoring\<close>

definition inline_only :: "cluster_object_set_phase list \<Rightarrow> bool" where
  "inline_only phases \<longleftrightarrow>
     (\<forall>p \<in> set phases. \<forall>o1 \<in> set (cosp_Objects p). coso_Object o1 \<noteq> None \<and> coso_Ref o1 = no_ref)"

lemma restore_row_replaced:
  "\<forall>o1 \<in> set os. coso_Ref o1 = no_ref \<Longrightarrow>
   restore_row (map (\<lambda>(j, o1). case refs j of None \<Rightarrow> o1 | Some ref \<Rightarrow> o1\<lparr>coso_Object := None, coso_Ref := ref\<rparr>)
     (enumerate n os)) (map coso_Object os) = os"
  by (induction os arbitrary: n) (auto simp: restore_row_def split: option.split)

lemma restore_replaced:
  assumes "\<forall>p \<in> set phases. \<forall>o1 \<in> set (cosp_Objects p). coso_Ref o1 = no_ref"
  shows "restoreInlineObjects (replaceInlineWithRefs phases pack) (saveInlineObjects phases) = phases"
proof -
  have "map2 (\<lambda>p row. p\<lparr>cosp_Objects := restore_row (cosp_Objects p) row\<rparr>)
      (map (\<lambda>(i, p). p\<lparr>cosp_Objects := map (\<lambda>(j, o1). case pr_Refs pack (i, j) of
           None \<Rightarrow> o1 | Some ref \<Rightarrow> o1\<lparr>coso_Object := None, coso_Ref := ref\<rparr>) (enumerate 0 (cosp_Objects p))\<rparr>)
        (enumerate n ps)) (map (\<lambda>p. map coso_Object (cosp_Objects p)) ps) = ps"
    if "\<forall>p \<in> set ps. \<forall>o1 \<in> set (cosp_Objects p). coso_Ref o1 = no_ref" for n ps
    using that by (induction ps arbitrary: n) (auto simp: restore_row_replaced)
  from this [OF assms, of 0] show ?thesis
    by (simp add: restoreInlineObjects_def replaceInlineWithRefs_def saveInlineObjects_def)
qed

subsection \<open>Externalized objects resolve\<close>

lemma replaceInlineWithRefs_nth:
  assumes "i < length phases"
  shows "replaceInlineWithRefs phases pack ! i = (phases ! i)\<lparr>cosp_Objects :=
     map (\<lambda>(j, o1). case pr_Refs pack (i, j) of
         None \<Rightarrow> o1 | Some ref \<Rightarrow> o1\<lparr>coso_Object := None, coso_Ref := ref\<rparr>)
       (enumerate 0 (cosp_Objects (phases ! i)))\<rparr>"
  using assms by (simp add: replaceInlineWithRefs_def nth_enumerate_eq)

lemma length_replaceInlineWithRefs [simp]: "length (replaceInlineWithRefs phases pack) = length phases"
  by (simp add: replaceInlineWithRefs_def)

definition resolves :: "cos_env \<Rightarrow> cluster_object_set_object \<Rightarrow> json \<Rightarrow> bool" where
  "resolves env o1 obj \<longleftrightarrow>
     (case coso_Object o1 of
        Some x \<Rightarrow> x = obj
      | None \<Rightarrow> ref_Name (coso_Ref o1) \<noteq> '''' \<and> resolveObjectRef env (coso_Ref o1) = Inr obj)"

lemma phase_objs_resolves:
  "list_all2 (resolves env) os objs \<Longrightarrow> phase_objs env name os = Inr objs"
  by (induction os objs rule: list_all2_induct) (auto simp: resolves_def split: option.splits)

lemma resolve_stored:
  assumes "object_data (ce_codec env) pos obj = Inr data" and "codec_ok (ce_codec env) obj"
    and "ce_GetSecret env (ref_Namespace ref) (ref_Name ref) = Inr s"
    and "map_of (sec_Data s) (ref_Key ref) = Some data"
    and "\<And>d. json_Marshal (ce_codec env) obj = Inr d \<Longrightarrow> length d \<le> maxDecompressedSize"
  shows "resolveObjectRef env ref = Inr obj"
proof -
  obtain d where d: "json_Marshal (ce_codec env) obj = Inr d"
    using assms(1) by (auto simp: object_data_def split: sum.splits)
  note ok = assms(2) [unfolded codec_ok_def d, simplified]
  show ?thesis
  proof (cases "length d > gzipThreshold")
    case True
    then have "gzip_compress (ce_codec env) d = Inr data"
      using assms(1) d by (auto simp: object_data_def split: sum.splits)
    with ok assms(3,4) assms(5) [OF d] show ?thesis by (simp add: resolveObjectRef_def Let_def)
  next
    case False
    then have "data = d" using assms(1) d by (auto simp: object_data_def)
    with ok assms(3,4) show ?thesis by (simp add: resolveObjectRef_def Let_def)
  qed
qed

lemma positions_extract:
  assumes "i < length phases" and "j < length (cosp_Objects (phases ! i))"
  shows "((i, j), (cosp_Objects (phases ! i) ! j)\<lparr>coso_Ref := no_ref\<rparr>) \<in> set (positions (extractPhasesForPacking phases))"
  using assms by (simp add: positions_nth extractPhasesForPacking_def)

lemma externalized_resolves:
  assumes pack: "pack_revision bx ext r = Inr pack"
    and inj: "inj_on (contentHash (bx_codec bx)) (packed_data (bx_codec bx) (extractPhasesForPacking (coss_Phases (ca_Spec r))))"
    and codec: "ce_codec env = bx_codec bx"
    and get: "\<And>s. s \<in> set (pr_Secrets pack) \<Longrightarrow> ce_GetSecret env (sec_Namespace s) (sec_Name s) = Inr s"
    and i: "i < length (coss_Phases (ca_Spec r))" "j < length (cosp_Objects (coss_Phases (ca_Spec r) ! i))"
    and obj: "coso_Object (cosp_Objects (coss_Phases (ca_Spec r) ! i) ! j) = Some obj"
    and ok: "codec_ok (bx_codec bx) obj"
    and small: "\<And>d. json_Marshal (bx_codec bx) obj = Inr d \<Longrightarrow> length d \<le> maxDecompressedSize"
  shows "resolves env (cosp_Objects (replaceInlineWithRefs (coss_Phases (ca_Spec r)) pack ! i) ! j) obj"
proof -
  let ?ph = "coss_Phases (ca_Spec r)" and ?cd = "bx_codec bx"
  let ?p = "\<lparr>sp_RevisionName = ca_Name r, sp_OwnerName = meta_Name (ext_Meta ext),
    sp_SystemNamespace = bx_SystemNamespace bx\<rparr>"
  have pk: "Pack ?cd ?p (extractPhasesForPacking ?ph) = Inr pack" using pack by (simp add: pack_revision_def)
  obtain s data where s: "object_data ?cd (i, j) obj = Inr data" "s \<in> set (pr_Secrets pack)"
    "pr_Refs pack (i, j) = Some \<lparr>ref_Name = sec_Name s, ref_Namespace = sp_SystemNamespace ?p,
       ref_Key = contentHash ?cd data\<rparr>"
    "map_of (sec_Data s) (contentHash ?cd data) = Some data"
    using Pack_ref [OF pk inj positions_extract [OF i]] obj by auto
  obtain sd where sd: "s = newSecret ?cd ?p sd" using Pack_secret_ok [OF pk s(2)] by (auto simp: secret_ok_def)
  have ns: "sec_Namespace s = sp_SystemNamespace ?p" and nm: "sec_Name s \<noteq> ''''"
    by (simp_all add: sd secretNameFromData_def)
  let ?ref = "\<lparr>ref_Name = sec_Name s, ref_Namespace = sec_Namespace s, ref_Key = contentHash ?cd data\<rparr>"
  have "resolveObjectRef env ?ref = Inr obj"
    by (rule resolve_stored [where s = s and data = data and pos = "(i, j)"])
      (use s codec ok small get in simp_all)
  moreover have "cosp_Objects (replaceInlineWithRefs ?ph pack ! i) ! j =
      (cosp_Objects (?ph ! i) ! j)\<lparr>coso_Object := None, coso_Ref := ?ref\<rparr>"
    using i s(3) ns by (simp add: replaceInlineWithRefs_nth nth_enumerate_eq)
  ultimately show ?thesis using nm by (simp add: resolves_def)
qed

subsection \<open>Revisions and their numbers\<close>

interpretation rev_cmp: comparison compare_revision
  unfolding compare_revision_def [abs_def] by (rule comparison_pullback [OF comparison_go_compare])

lemma getExistingRevisions_set:
  "getExistingRevisions bx n = Inr revs \<Longrightarrow> \<exists>items. bx_List bx n = Inr items \<and> set revs = set items"
  by (auto simp: getExistingRevisions_def rev_cmp.set_sort_by split: sum.splits)

lemma getExistingRevisions_last:
  assumes "getExistingRevisions bx n = Inr revs" and "c \<in> set revs"
  shows "coss_Revision (cos_Spec c) \<le> latestRevisionNumber revs"
proof -
  obtain items where revs: "revs = sort_by compare_revision items"
    using assms(1) by (auto simp: getExistingRevisions_def split: sum.splits)
  have "sorted_wrt (\<lambda>a b. compare_revision a b \<le> 0) revs" unfolding revs by (rule rev_cmp.sorted_sort_by)
  then have "compare_revision c (last revs) \<le> 0" using assms(2) by (rule rev_cmp.last_sorted_greatest)
  then show ?thesis using assms(2) by (auto simp: compare_revision_def latestRevisionNumber_def)
qed

lemma gc_loop_deletes:
  assumes "BxDelete n \<in> set (fst (gc_loop bx len index rs))"
  shows "\<exists>i < length rs. index + i + ClusterObjectSetRetentionLimit < len \<and> meta_Name (cos_Meta (rs ! i)) = n \<and>
     coss_LifecycleState (cos_Spec (rs ! i)) = ClusterObjectSetLifecycleStateArchived"
  using assms
proof (induction rs arbitrary: index)
  case (Cons r rs)
  show ?case
  proof (cases "BxDelete n \<in> set (fst (gc_loop bx len (Suc index) rs))")
    case True
    from Cons.IH [OF True] obtain i where "i < length rs" "Suc index + i + ClusterObjectSetRetentionLimit < len"
      "meta_Name (cos_Meta (rs ! i)) = n"
      "coss_LifecycleState (cos_Spec (rs ! i)) = ClusterObjectSetLifecycleStateArchived" by blast
    then show ?thesis by (intro exI [of _ "Suc i"]) simp
  next
    case False
    with Cons.prems have "int index < int len - int ClusterObjectSetRetentionLimit" "meta_Name (cos_Meta r) = n"
      "coss_LifecycleState (cos_Spec r) = ClusterObjectSetLifecycleStateArchived"
      by (auto simp: Let_def split: if_splits option.splits prod.splits)
    then show ?thesis by (intro exI [of _ 0]) simp
  qed
qed simp

lemma gc_loop_only_deletes: "a \<in> set (fst (gc_loop bx len index rs)) \<Longrightarrow> \<exists>n. a = BxDelete n"
  by (induction bx len index rs rule: gc_loop.induct)
    (auto simp: Let_def split: if_splits option.splits prod.splits)

lemma create_secrets_acts:
  "create_secrets bx ss = (acts, err) \<Longrightarrow>
     set acts \<subseteq> BxCreate ` set ss \<and>
     (err = None \<longrightarrow> acts = map BxCreate ss \<and>
        (\<forall>s \<in> set ss. \<forall>e. bx_Create bx s = Some e \<longrightarrow> IsAlreadyExists e))"
  by (induction ss arbitrary: acts err) (auto split: option.splits if_splits prod.splits)

lemma patch_acts: "a \<in> set (fst (patchOwnerRefsOnSecrets bx n u ss)) \<Longrightarrow> \<exists>s. a = BxPatch s"
  by (induction bx n u ss rule: patchOwnerRefsOnSecrets.induct)
    (auto simp: Let_def split: if_splits option.splits prod.splits)

lemma patchSecret_acts: "a \<in> set (fst (patchSecretOwnerReferences bx n ss)) \<Longrightarrow> \<exists>s. a = BxPatch s"
  by (auto simp: patchSecretOwnerReferences_def dest: patch_acts split: if_splits sum.splits)

lemma ensureSecret_acts: "a \<in> set (fst (ensureSecretOwnerReferences bx c)) \<Longrightarrow> \<exists>s. a = BxPatch s"
  by (auto simp: ensureSecretOwnerReferences_def Let_def dest: patch_acts split: sum.splits)

subsection \<open>The steps of creating a revision\<close>

definition new_name :: "cluster_extension \<Rightarrow> cos_apply \<Rightarrow> cluster_object_set list \<Rightarrow> cos_apply" where
  "new_name ext desired prevRevisions =
     (let n = wrap64 (latestRevisionNumber prevRevisions + 1) in
      with_name desired (meta_Name (ext_Meta ext) @ ''-'' @ show_int n) n)"

lemma create_cases:
  obtains
    (stopped)
      "\<And>r. BxApply r \<notin> set (fst (createExternalizedRevision bx ext desired prevs))"
      "\<And>n. BxDelete n \<in> set (fst (createExternalizedRevision bx ext desired prevs)) \<Longrightarrow>
         BxDelete n \<in> set (fst (garbageCollectOldRevisions bx prevs))"
      "snd (createExternalizedRevision bx ext desired prevs) \<noteq> None"
  | (applied) pack ps where
      "fst (createExternalizedRevision bx ext desired prevs) =
         fst (garbageCollectOldRevisions bx prevs) @ map BxCreate (pr_Secrets pack) @
         BxApply (with_phases (new_name ext desired prevs)
           (replaceInlineWithRefs (coss_Phases (ca_Spec desired)) pack)) # ps"
      "pack_revision bx ext (new_name ext desired prevs) = Inr pack"
      "runPreAuthorizationChecks bx (getUserInfo ext) (new_name ext desired prevs) = None"
      "\<And>s e. s \<in> set (pr_Secrets pack) \<Longrightarrow> bx_Create bx s = Some e \<Longrightarrow> IsAlreadyExists e"
      "\<And>a. a \<in> set ps \<Longrightarrow> \<exists>s. a = BxPatch s"
proof -
  let ?d = "new_name ext desired prevs"
  obtain gcs gcerr where gc: "garbageCollectOldRevisions bx prevs = (gcs, gcerr)"
    by (cases "garbageCollectOldRevisions bx prevs")
  have gcd: "a \<in> set gcs \<Longrightarrow> \<exists>n. a = BxDelete n" for a
    using gc gc_loop_only_deletes [of a bx "length prevs" 0 prevs] by (simp add: garbageCollectOldRevisions_def)
  have phases: "coss_Phases (ca_Spec ?d) = coss_Phases (ca_Spec desired)" "ca_Name (with_phases r phs) = ca_Name r"
    for r phs by (simp_all add: new_name_def Let_def with_name_def with_phases_def)
  note unf = createExternalizedRevision_def Let_def new_name_def [unfolded Let_def, symmetric] gc prod.case phases
  show ?thesis
  proof (cases "gcerr = None \<and> runPreAuthorizationChecks bx (getUserInfo ext) ?d = None \<and> (\<exists>p. pack_revision bx ext ?d = Inr p)")
    case False
    then show ?thesis
      by (intro stopped; unfold unf)
        (auto dest: gcd split: option.splits sum.splits)
  next
    case True
    then obtain pack where ok: "gcerr = None" "runPreAuthorizationChecks bx (getUserInfo ext) ?d = None"
      "pack_revision bx ext ?d = Inr pack" by blast
    obtain cs cerr where cs: "create_secrets bx (pr_Secrets pack) = (cs, cerr)"
      by (cases "create_secrets bx (pr_Secrets pack)")
    note csa = create_secrets_acts [OF cs]
    show ?thesis
    proof (cases cerr)
      case (Some e)
      then show ?thesis
        using ok cs csa by (intro stopped; unfold unf) (auto dest: gcd)
    next
      case None
      let ?f = "with_phases ?d (replaceInlineWithRefs (coss_Phases (ca_Spec desired)) pack)"
      obtain ps perr where ps: "patchSecretOwnerReferences bx (ca_Name ?f) (pr_Secrets pack) = (ps, perr)"
        by (cases "patchSecretOwnerReferences bx (ca_Name ?f) (pr_Secrets pack)")
      have "\<exists>ps. fst (createExternalizedRevision bx ext desired prevs) = gcs @ map BxCreate (pr_Secrets pack) @ BxApply ?f # ps \<and>
          (\<forall>a \<in> set ps. \<exists>s. a = BxPatch s)"
      proof (cases "bx_Apply bx ?f")
        case None
        then show ?thesis
          using ok cs csa \<open>cerr = None\<close> ps patchSecret_acts [of _ bx "ca_Name ?f" "pr_Secrets pack"]
          unfolding unf by (auto simp: phases)
      next
        case (Some e)
        then show ?thesis using ok cs csa \<open>cerr = None\<close> unfolding unf by (auto simp: phases)
      qed
      then obtain ps' where ps': "fst (createExternalizedRevision bx ext desired prevs) =
          gcs @ map BxCreate (pr_Secrets pack) @ BxApply ?f # ps'" "\<And>a. a \<in> set ps' \<Longrightarrow> \<exists>s. a = BxPatch s"
        by blast
      show ?thesis
        by (rule applied [of pack ps']) (use ps' ok csa None gc in auto)
    qed
  qed
qed

lemma bx_actions [simp]: "bo_actions (bx_fail acts e) = acts" "bo_actions (bx_done acts err) = acts"
  by (simp_all add: bx_fail_def bx_done_def split: option.split)

lemma apply_rest_actions:
  "set (bo_actions (apply_rest bx ext revs acts state desired)) \<subseteq>
     set acts \<union> (if state \<noteq> StateUnchanged then set (fst (createExternalizedRevision bx ext desired revs))
                 else set (fst (ensureSecretOwnerReferences bx (last revs))))"
  by (auto simp: apply_rest_def split: option.split prod.split)

lemma boxcutter_Apply_cases [consumes 1, case_names quiet install failed compared]:
  assumes "getExistingRevisions bx (meta_Name (ext_Meta ext)) = Inr revs"
  obtains
    (quiet) "bo_actions (boxcutter_Apply bx content ext ol anns) = []"
  | (install) desired where "revs = []"
      "boxcutter_Apply bx content ext ol anns = apply_rest bx ext revs [] StateNeedsInstall desired"
  | (failed) desired acts e where "revs \<noteq> []" "compare_current bx ext desired (last revs) = (acts, Inl e)"
      "boxcutter_Apply bx content ext ol anns = bx_fail acts e"
  | (compared) desired acts state desired' where "revs \<noteq> []"
      "compare_current bx ext desired (last revs) = (acts, Inr (state, desired'))"
      "boxcutter_Apply bx content ext ol anns = apply_rest bx ext revs acts state desired'"
proof (cases "\<exists>fs d gvk. content = Some fs \<and> GenerateRevision (bx_generator bx) fs ext ol anns = Inr d \<and>
    bx_GVKForOwner bx = Inr gvk")
  case False
  show ?thesis
    by (rule quiet) (use False assms in \<open>auto simp: boxcutter_Apply_def split: option.split sum.split\<close>)
next
  case True
  then obtain fs d0 gvk where g: "content = Some fs" "GenerateRevision (bx_generator bx) fs ext ol anns = Inr d0"
    "bx_GVKForOwner bx = Inr gvk" by blast
  define d where "d = d0\<lparr>ca_OwnerReferences := ca_OwnerReferences d0 @ [owner_ref gvk ext]\<rparr>"
  note unf = boxcutter_Apply_def Let_def d_def [symmetric]
  show ?thesis
  proof (cases "revs = []")
    case True
    have "boxcutter_Apply bx content ext ol anns = apply_rest bx ext revs [] StateNeedsInstall d"
      unfolding unf using assms g True by (simp add: d_def [symmetric])
    then show ?thesis by (rule install [OF True])
  next
    case False
    obtain acts cmp where c: "compare_current bx ext d (last revs) = (acts, cmp)"
      by (cases "compare_current bx ext d (last revs)")
    show ?thesis
    proof (cases cmp)
      case (Inl e)
      have "boxcutter_Apply bx content ext ol anns = bx_fail acts e"
        unfolding unf using assms g False c Inl by (simp add: d_def [symmetric])
      then show ?thesis using failed False c Inl by blast
    next
      case (Inr r)
      obtain state d' where r: "r = (state, d')" by (cases r)
      have "boxcutter_Apply bx content ext ol anns = apply_rest bx ext revs acts state d'"
        unfolding unf using assms g False c Inr r by (simp add: d_def [symmetric])
      then show ?thesis using compared False c Inr r by blast
    qed
  qed
qed

lemma compare_current_actions:
  "a \<in> set (fst (compare_current bx ext desired cur)) \<Longrightarrow>
     \<exists>r. a = BxApply r \<and> ca_Name r = meta_Name (cos_Meta cur) \<and>
       coss_Revision (ca_Spec r) = coss_Revision (cos_Spec cur)"
  by (auto simp: compare_current_def Let_def with_phases_def with_name_def split: sum.splits)

lemma compare_current_changed:
  assumes "compare_current bx ext desired cur = (acts, Inr (state, desired'))" and "state \<noteq> StateUnchanged"
  shows "\<exists>r e. acts = [BxApply r] \<and> bx_Apply bx r = Some e \<and> IsInvalid e"
  using assms by (auto simp: compare_current_def Let_def split: sum.splits option.splits if_splits)

text \<open>Where the calls of a run come from.\<close>

lemma apply_action_origin [consumes 2, case_names comparing creating patching]:
  assumes "getExistingRevisions bx (meta_Name (ext_Meta ext)) = Inr revs"
    and "a \<in> set (bo_actions (boxcutter_Apply bx content ext ol anns))"
  obtains
    (comparing) r where "revs \<noteq> []" "a = BxApply r" "ca_Name r = meta_Name (cos_Meta (last revs))"
      "coss_Revision (ca_Spec r) = coss_Revision (cos_Spec (last revs))"
  | (creating) desired where "a \<in> set (fst (createExternalizedRevision bx ext desired revs))"
      "revs = [] \<or> (\<exists>r e. BxApply r \<in> set (bo_actions (boxcutter_Apply bx content ext ol anns)) \<and>
         bx_Apply bx r = Some e \<and> IsInvalid e)"
  | (patching) s where "a = BxPatch s"
  using assms(1)
proof (cases rule: boxcutter_Apply_cases [where content = content and ol = ol and anns = anns])
  case quiet
  with assms(2) show ?thesis by simp
next
  case (install desired)
  then have "a \<in> set (fst (createExternalizedRevision bx ext desired revs))"
    using assms(2) apply_rest_actions [of bx ext revs "[]" StateNeedsInstall desired] by auto
  then show ?thesis using install(1) creating by blast
next
  case (failed desired acts e)
  then have "a \<in> set (fst (compare_current bx ext desired (last revs)))" using assms(2) by simp
  then show ?thesis using compare_current_actions failed(1) comparing by blast
next
  case (compared desired acts state desired')
  show ?thesis
  proof (cases "a \<in> set acts")
    case True
    then have "a \<in> set (fst (compare_current bx ext desired (last revs)))" using compared by simp
    then show ?thesis using compare_current_actions compared(1) comparing by blast
  next
    case False
    then have r: "a \<in> (if state \<noteq> StateUnchanged then set (fst (createExternalizedRevision bx ext desired' revs))
        else set (fst (ensureSecretOwnerReferences bx (last revs))))"
      using assms(2) compared(3) apply_rest_actions [of bx ext revs acts state desired'] by auto
    show ?thesis
    proof (cases "state = StateUnchanged")
      case True
      then show ?thesis using r ensureSecret_acts patching by auto
    next
      case False
      obtain q e where q: "acts = [BxApply q]" "bx_Apply bx q = Some e" "IsInvalid e"
        using compare_current_changed [OF compared(2) False] by blast
      have "set acts \<subseteq> set (bo_actions (boxcutter_Apply bx content ext ol anns))"
        unfolding compared(3) by (auto simp: apply_rest_def split: option.split prod.split)
      with q r False show ?thesis using creating [of desired'] by auto
    qed
  qed
qed

lemma split_unique_apply:
  assumes "xs @ BxApply r # ys = pre @ BxApply r' # post"
    and "\<forall>a \<in> set pre. \<nexists>q. a = BxApply q" and "\<forall>a \<in> set post. \<nexists>q. a = BxApply q"
  shows "xs = pre \<and> r = r' \<and> ys = post"
  using assms by (auto simp: append_eq_append_conv2 append_eq_Cons_conv Cons_eq_append_conv)

lemma replaced_has_secret:
  assumes "pack_revision bx ext r = Inr pack" and "inline_only (coss_Phases (ca_Spec r))"
    and "p \<in> set (replaceInlineWithRefs (coss_Phases (ca_Spec r)) pack)" and "o1 \<in> set (cosp_Objects p)"
  shows "coso_Object o1 = None \<and> (\<exists>s \<in> set (pr_Secrets pack). sec_Name s = ref_Name (coso_Ref o1) \<and>
    sec_Namespace s = ref_Namespace (coso_Ref o1))"
proof -
  let ?ph = "coss_Phases (ca_Spec r)" and ?cd = "bx_codec bx"
  let ?p = "\<lparr>sp_RevisionName = ca_Name r, sp_OwnerName = meta_Name (ext_Meta ext),
    sp_SystemNamespace = bx_SystemNamespace bx\<rparr>"
  have pk: "Pack ?cd ?p (extractPhasesForPacking ?ph) = Inr pack" using assms(1) by (simp add: pack_revision_def)
  obtain i where i: "i < length ?ph" "p = replaceInlineWithRefs ?ph pack ! i"
    using assms(3) by (metis in_set_conv_nth length_replaceInlineWithRefs)
  then obtain j where j: "j < length (cosp_Objects (?ph ! i))" "o1 = cosp_Objects p ! j"
    using assms(4) by (auto simp: in_set_conv_nth replaceInlineWithRefs_nth)
  obtain obj where "coso_Object (cosp_Objects (?ph ! i) ! j) = Some obj"
    using assms(2) i(1) j(1) unfolding inline_only_def by (meson nth_mem not_None_eq)
  then obtain s ref where s: "s \<in> set (pr_Secrets pack)" "pr_Refs pack (i, j) = Some ref"
    "ref_Name ref = sec_Name s" "ref_Namespace ref = sp_SystemNamespace ?p"
    using Pack_ref_secret [OF pk positions_extract [OF i(1) j(1)]] by auto
  have "sec_Namespace s = sp_SystemNamespace ?p"
    using Pack_secret_ok [OF pk s(1)] by (metis newSecret_simps(4) secret_ok_def)
  moreover have "o1 = (cosp_Objects (?ph ! i) ! j)\<lparr>coso_Object := None, coso_Ref := ref\<rparr>"
    using i j s(2) by (simp add: replaceInlineWithRefs_nth nth_enumerate_eq)
  ultimately show ?thesis using s by auto
qed

section \<open>Properties\<close>

text \<open>
  C11: Externalizing loses nothing: when the objects of a revision have been packed into Secrets and
  replaced by references, the resolution of the references by the ClusterObjectSet controller gives
  back exactly the original objects of every phase, in order, provided the Secrets can be read, the
  encoders are inverse to the decoders, the content hash does not collide on the packed data and
  no object is larger than the 10 MiB the controller accepts.
\<close>

theorem externalize_roundtrip:
  assumes "pack_revision bx ext r = Inr pack" and "inline_only (coss_Phases (ca_Spec r))"
    and "inj_on (contentHash (bx_codec bx)) (packed_data (bx_codec bx) (extractPhasesForPacking (coss_Phases (ca_Spec r))))"
    and "ce_codec env = bx_codec bx"
    and "\<And>s. s \<in> set (pr_Secrets pack) \<Longrightarrow> ce_GetSecret env (sec_Namespace s) (sec_Name s) = Inr s"
    and "\<And>obj. obj \<in> set (getObjects (coss_Phases (ca_Spec r))) \<Longrightarrow> codec_ok (bx_codec bx) obj \<and>
      (\<forall>d. json_Marshal (bx_codec bx) obj = Inr d \<longrightarrow> length d \<le> maxDecompressedSize)"
    and "i < length (coss_Phases (ca_Spec r))"
  shows "phase_objs env (cosp_Name (coss_Phases (ca_Spec r) ! i))
      (cosp_Objects (replaceInlineWithRefs (coss_Phases (ca_Spec r)) pack ! i)) =
    Inr (map (\<lambda>o1. the (coso_Object o1)) (cosp_Objects (coss_Phases (ca_Spec r) ! i)))"
proof (rule phase_objs_resolves, rule list_all2_all_nthI)
  let ?ph = "coss_Phases (ca_Spec r)"
  show "length (cosp_Objects (replaceInlineWithRefs ?ph pack ! i)) =
      length (map (\<lambda>o1. the (coso_Object o1)) (cosp_Objects (?ph ! i)))"
    using assms(7) by (simp add: replaceInlineWithRefs_nth)
  fix j
  assume "j < length (cosp_Objects (replaceInlineWithRefs ?ph pack ! i))"
  then have j: "j < length (cosp_Objects (?ph ! i))" using assms(7) by (simp add: replaceInlineWithRefs_nth)
  let ?o = "cosp_Objects (?ph ! i) ! j"
  have "?ph ! i \<in> set ?ph" "?o \<in> set (cosp_Objects (?ph ! i))" using assms(7) j by simp_all
  then obtain obj where obj: "coso_Object ?o = Some obj" "obj \<in> set (getObjects ?ph)"
    using assms(2) by (force simp: inline_only_def getObjects_def List.map_filter_def)
  show "resolves env (cosp_Objects (replaceInlineWithRefs ?ph pack ! i) ! j)
      (map (\<lambda>o1. the (coso_Object o1)) (cosp_Objects (?ph ! i)) ! j)"
    using externalized_resolves [OF assms(1,3,4,5,7) j obj(1)] assms(6) [OF obj(2)] j obj(1) by simp
qed

text \<open>
  C12: Old revisions are deleted only when they are archived and at least five newer revisions
  exist: active revisions and the five newest ones are never deleted by a run.
\<close>

theorem only_old_archived_deleted:
  assumes "getExistingRevisions bx (meta_Name (ext_Meta ext)) = Inr revs"
    and "BxDelete n \<in> set (bo_actions (boxcutter_Apply bx content ext ol anns))"
  shows "\<exists>i. i + 5 < length revs \<and> meta_Name (cos_Meta (revs ! i)) = n \<and>
    coss_LifecycleState (cos_Spec (revs ! i)) = ClusterObjectSetLifecycleStateArchived"
proof -
  have gc: "\<exists>i. i + 5 < length revs \<and> meta_Name (cos_Meta (revs ! i)) = n \<and>
      coss_LifecycleState (cos_Spec (revs ! i)) = ClusterObjectSetLifecycleStateArchived"
    if "BxDelete n \<in> set (fst (createExternalizedRevision bx ext d revs))" for d
  proof -
    have "BxDelete n \<in> set (fst (garbageCollectOldRevisions bx revs))"
      by (cases rule: create_cases [of bx ext d revs]) (use that in auto)
    then show ?thesis
      using gc_loop_deletes [of n bx "length revs" 0 revs]
      by (auto simp: garbageCollectOldRevisions_def ClusterObjectSetRetentionLimit_def)
  qed
  show ?thesis
    by (cases rule: apply_action_origin [OF assms]) (use gc in auto)
qed

text \<open>
  C13: Every ClusterObjectSet a run applies is either the current revision, under its own name and
  number, or a new one numbered one above the latest, hence above every existing revision, and
  named after the extension and that number.
\<close>

theorem applied_revision_numbers:
  assumes "getExistingRevisions bx (meta_Name (ext_Meta ext)) = Inr revs"
    and "BxApply r \<in> set (bo_actions (boxcutter_Apply bx content ext ol anns))"
    and "0 \<le> latestRevisionNumber revs" and "latestRevisionNumber revs < 2 ^ 63 - 1"
  shows "revs \<noteq> [] \<and> ca_Name r = meta_Name (cos_Meta (last revs)) \<and>
      coss_Revision (ca_Spec r) = coss_Revision (cos_Spec (last revs)) \<or>
    coss_Revision (ca_Spec r) = latestRevisionNumber revs + 1 \<and>
      (\<forall>c \<in> set revs. coss_Revision (cos_Spec c) < coss_Revision (ca_Spec r)) \<and>
      ca_Name r = meta_Name (ext_Meta ext) @ ''-'' @ show_int (coss_Revision (ca_Spec r))"
  using assms(1,2)
proof (cases rule: apply_action_origin)
  case (creating desired)
  have w: "wrap64 (latestRevisionNumber revs + 1) = latestRevisionNumber revs + 1"
    using assms(3,4) by (intro wrap64_id) simp_all
  have "BxApply r \<notin> set (fst (garbageCollectOldRevisions bx revs))"
    by (auto simp: garbageCollectOldRevisions_def dest: gc_loop_only_deletes)
  then have "coss_Revision (ca_Spec r) = latestRevisionNumber revs + 1 \<and>
      ca_Name r = meta_Name (ext_Meta ext) @ ''-'' @ show_int (latestRevisionNumber revs + 1)"
    by (cases rule: create_cases [of bx ext desired revs])
      (use creating(1) in \<open>auto simp: new_name_def with_name_def with_phases_def Let_def w\<close>)
  then show ?thesis using getExistingRevisions_last [OF assms(1)] by fastforce
qed auto

text \<open>
  While the API server accepts the desired content as the current revision, a run creates no
  revision and no Secret and deletes nothing: it only applies that revision and completes the
  owner references of its Secrets.
\<close>

theorem unchanged_creates_nothing:
  assumes "getExistingRevisions bx (meta_Name (ext_Meta ext)) = Inr revs" and "revs \<noteq> []"
    and "\<And>r e. bx_Apply bx r = Some e \<Longrightarrow> \<not> IsInvalid e"
    and "a \<in> set (bo_actions (boxcutter_Apply bx content ext ol anns))"
  shows "(\<exists>r. a = BxApply r \<and> ca_Name r = meta_Name (cos_Meta (last revs))) \<or> (\<exists>s. a = BxPatch s)"
  by (cases rule: apply_action_origin [OF assms(1,4)]) (use assms(2,3) in auto)

text \<open>
  C14: A new revision is created in a crash-safe order: before it is applied, every Secret that one
  of its objects refers to has been created or exists already; it has no inline object left; the
  service account has been found to have the permissions it needs; and afterwards only owner
  references are patched.
\<close>

theorem create_crash_safe:
  assumes "inline_only (coss_Phases (ca_Spec desired))"
    and "fst (createExternalizedRevision bx ext desired prevs) = xs @ BxApply r # ys"
  shows "runPreAuthorizationChecks bx (getUserInfo ext) (new_name ext desired prevs) = None \<and>
    (\<forall>p \<in> set (coss_Phases (ca_Spec r)). \<forall>o1 \<in> set (cosp_Objects p). coso_Object o1 = None \<and>
       (\<exists>s. BxCreate s \<in> set xs \<and> sec_Name s = ref_Name (coso_Ref o1) \<and>
          sec_Namespace s = ref_Namespace (coso_Ref o1) \<and>
          (\<forall>e. bx_Create bx s = Some e \<longrightarrow> IsAlreadyExists e))) \<and>
    (\<forall>a \<in> set ys. \<exists>s. a = BxPatch s)"
proof (cases rule: create_cases [of bx ext desired prevs])
  case stopped
  have "BxApply r \<in> set (fst (createExternalizedRevision bx ext desired prevs))" using assms(2) by simp
  with stopped(1) show ?thesis by blast
next
  case (applied pack ps)
  let ?ph = "coss_Phases (ca_Spec desired)"
  let ?pre = "fst (garbageCollectOldRevisions bx prevs) @ map BxCreate (pr_Secrets pack)"
  let ?r = "with_phases (new_name ext desired prevs) (replaceInlineWithRefs ?ph pack)"
  have "xs = ?pre \<and> r = ?r \<and> ys = ps"
  proof (rule split_unique_apply)
    show "xs @ BxApply r # ys = ?pre @ BxApply ?r # ps" using applied(1) assms(2) by simp
    show "\<forall>a \<in> set ?pre. \<nexists>q. a = BxApply q"
      by (auto simp: garbageCollectOldRevisions_def dest: gc_loop_only_deletes)
    show "\<forall>a \<in> set ps. \<nexists>q. a = BxApply q" using applied(5) by fastforce
  qed
  then have eq: "xs = ?pre" "r = ?r" "ys = ps" by blast+
  have refs: "coso_Object o1 = None \<and> (\<exists>s \<in> set (pr_Secrets pack). sec_Name s = ref_Name (coso_Ref o1) \<and>
      sec_Namespace s = ref_Namespace (coso_Ref o1))"
    if "p \<in> set (replaceInlineWithRefs ?ph pack)" "o1 \<in> set (cosp_Objects p)" for p o1
    using replaced_has_secret [OF applied(2), of p o1] that assms(1)
    by (simp add: new_name_def Let_def with_name_def)
  have created: "BxCreate s \<in> set xs \<and> (\<forall>e. bx_Create bx s = Some e \<longrightarrow> IsAlreadyExists e)"
    if "s \<in> set (pr_Secrets pack)" for s
    using that applied(4) eq(1) by auto
  have "coss_Phases (ca_Spec r) = replaceInlineWithRefs ?ph pack" by (simp add: eq(2) with_phases_def)
  then show ?thesis using applied(3,5) refs created eq(3) by metis
qed

text \<open>
  The comparison with the current revision leaves the desired objects as they were: after the
  references have been tried on the API server, every inline object is back in its place and no
  reference is left.
\<close>

theorem comparison_restores_objects:
  assumes "compare_current bx ext desired cur = (acts, Inr (state, desired'))"
    and "inline_only (coss_Phases (ca_Spec desired))"
  shows "coss_Phases (ca_Spec desired') = coss_Phases (ca_Spec desired)"
proof -
  have "\<exists>pack. coss_Phases (ca_Spec desired') =
      restoreInlineObjects (replaceInlineWithRefs (coss_Phases (ca_Spec desired)) pack)
        (saveInlineObjects (coss_Phases (ca_Spec desired)))"
    using assms(1) by (auto simp: compare_current_def Let_def with_phases_def with_name_def
        split: sum.splits option.splits if_splits)
  then show ?thesis using restore_replaced assms(2) by (auto simp: inline_only_def)
qed

section \<open>Witnesses\<close>

definition sample_boxcutter :: "unit boxcutter" where
  "sample_boxcutter =
     \<lparr>bx_codec = sample_codec\<lparr>json_Marshal := (\<lambda>j. case j of
          JObj [(k, JStr v)] \<Rightarrow> Inr (k @ '':'' @ v) | _ \<Rightarrow> Inr ''other'')\<rparr>,
      bx_generator = sample_generator, bx_SystemNamespace = ''olm'', bx_Preflights = [],
      bx_PreAuthorizer = None, bx_PrintObj = (\<lambda>j. Inr ''''),
      bx_GVKForOwner = Inr (''olm.operatorframework.io/v1'', ''ClusterExtension''),
      bx_List = (\<lambda>n. Inr []), bx_Get = (\<lambda>n. Inr (sample_cos [])), bx_ListSecrets = (\<lambda>ns n. Inr []),
      bx_Apply = (\<lambda>r. None), bx_Create = (\<lambda>s. None), bx_Delete = (\<lambda>n. None), bx_Patch = (\<lambda>s. None)\<rparr>"

definition sample_apply :: cos_apply where
  "sample_apply = with_phases (buildClusterObjectSet [] ex_ext Map.empty) sample_phases"

definition sample_revision :: "nat \<Rightarrow> cluster_object_set" where
  "sample_revision n =
     (sample_cos [])\<lparr>cos_Meta := ex_meta (''e-'' @ show_nat n),
       cos_Spec := (cos_Spec (sample_cos []))\<lparr>coss_Revision := int n,
         coss_LifecycleState := (if n < 7 then ClusterObjectSetLifecycleStateArchived
           else ClusterObjectSetLifecycleStateActive)\<rparr>\<rparr>"

definition busy_boxcutter :: "unit boxcutter" where
  "busy_boxcutter = sample_boxcutter\<lparr>bx_List := (\<lambda>n. Inr (map sample_revision [1, 2, 3, 4, 5, 6, 7])),
     bx_Apply := (\<lambda>r. if ca_Name r = ''e-7'' then Some (ErrApi Invalid ''immutable'') else None)\<rparr>"

lemma action_cases:
  "(case a of BxDelete n \<Rightarrow> P n | _ \<Rightarrow> False) \<longleftrightarrow> (\<exists>n. a = BxDelete n \<and> P n)"
  "(case a of BxApply r \<Rightarrow> Q r | _ \<Rightarrow> False) \<longleftrightarrow> (\<exists>r. a = BxApply r \<and> Q r)"
  by (cases a; simp)+

lemma busy_revisions:
  "\<exists>revs. getExistingRevisions busy_boxcutter (meta_Name (ext_Meta ex_ext)) = Inr revs \<and>
     latestRevisionNumber revs = 7 \<and> meta_Name (cos_Meta (last revs)) = ''e-7''"
proof -
  have "case getExistingRevisions busy_boxcutter (meta_Name (ext_Meta ex_ext)) of Inl e \<Rightarrow> False
      | Inr revs \<Rightarrow> latestRevisionNumber revs = 7 \<and> meta_Name (cos_Meta (last revs)) = ''e-7''"
    by code_simp
  then show ?thesis by (simp split: sum.splits)
qed

definition busy_out :: bx_out where
  "busy_out = boxcutter_Apply busy_boxcutter (Some ()) ex_ext [] Map.empty"

lemma busy_actions:
  "map (\<lambda>a. case a of BxApply r \<Rightarrow> ''apply '' @ ca_Name r | BxCreate s \<Rightarrow> ''create''
      | BxDelete n \<Rightarrow> ''delete '' @ n | BxPatch s \<Rightarrow> ''patch'') (bo_actions busy_out) =
   [''apply e-7'', ''delete e-1'', ''delete e-2'', ''create'', ''apply e-8'', ''patch'']"
  unfolding busy_out_def by code_simp

theorem only_old_archived_deleted_witness:
  "\<exists>revs i. getExistingRevisions busy_boxcutter (meta_Name (ext_Meta ex_ext)) = Inr revs \<and>
     i + 5 < length revs \<and> meta_Name (cos_Meta (revs ! i)) = ''e-2'' \<and>
     coss_LifecycleState (cos_Spec (revs ! i)) = ClusterObjectSetLifecycleStateArchived"
proof -
  have "list_ex (\<lambda>a. case a of BxDelete n \<Rightarrow> n = ''e-2'' | _ \<Rightarrow> False) (bo_actions busy_out)"
    unfolding busy_out_def by code_simp
  then have d: "BxDelete ''e-2'' \<in> set (bo_actions (boxcutter_Apply busy_boxcutter (Some ()) ex_ext [] Map.empty))"
    by (auto simp: list_ex_iff busy_out_def action_cases)
  obtain revs where "getExistingRevisions busy_boxcutter (meta_Name (ext_Meta ex_ext)) = Inr revs"
    using busy_revisions by blast
  with only_old_archived_deleted [OF this d] show ?thesis by blast
qed

theorem applied_revision_numbers_witness:
  "\<exists>revs. \<exists>r :: cos_apply. getExistingRevisions busy_boxcutter (meta_Name (ext_Meta ex_ext)) = Inr revs \<and>
     ca_Name r = ''e-8'' \<and>
     (\<forall>c \<in> set revs. coss_Revision (cos_Spec c) < coss_Revision (ca_Spec r))"
proof -
  have "list_ex (\<lambda>a. case a of BxApply r \<Rightarrow> ca_Name r = ''e-8'' | _ \<Rightarrow> False) (bo_actions busy_out)"
    unfolding busy_out_def by code_simp
  then obtain r where r: "ca_Name r = ''e-8''"
    "BxApply r \<in> set (bo_actions (boxcutter_Apply busy_boxcutter (Some ()) ex_ext [] Map.empty))"
    by (auto simp: list_ex_iff busy_out_def action_cases)
  obtain revs where revs: "getExistingRevisions busy_boxcutter (meta_Name (ext_Meta ex_ext)) = Inr revs"
    "latestRevisionNumber revs = 7"
    "meta_Name (cos_Meta (last revs)) = ''e-7''"
    using busy_revisions by blast
  have "\<forall>c \<in> set revs. coss_Revision (cos_Spec c) < coss_Revision (ca_Spec r)"
    using applied_revision_numbers [OF revs(1) r(2)] r(1) revs by auto
  then show ?thesis using r(1) revs(1) by blast
qed

theorem unchanged_creates_nothing_witness:
  "\<exists>revs. getExistingRevisions (busy_boxcutter\<lparr>bx_Apply := (\<lambda>r. None)\<rparr>) (meta_Name (ext_Meta ex_ext)) = Inr revs \<and>
     (\<forall>a \<in> set (bo_actions (boxcutter_Apply (busy_boxcutter\<lparr>bx_Apply := (\<lambda>r. None)\<rparr>) (Some ()) ex_ext [] Map.empty)).
        (\<exists>r. a = BxApply r \<and> ca_Name r = meta_Name (cos_Meta (last revs))) \<or> (\<exists>s. a = BxPatch s))"
proof -
  let ?bx = "busy_boxcutter\<lparr>bx_Apply := (\<lambda>r. None)\<rparr>"
  obtain revs where revs: "getExistingRevisions busy_boxcutter (meta_Name (ext_Meta ex_ext)) = Inr revs"
    "latestRevisionNumber revs = 7" using busy_revisions by blast
  have "getExistingRevisions ?bx (meta_Name (ext_Meta ex_ext)) = Inr revs"
    using revs(1) by (simp add: getExistingRevisions_def)
  moreover have "revs \<noteq> []" using revs(2) by (auto simp: latestRevisionNumber_def)
  ultimately show ?thesis using unchanged_creates_nothing [of ?bx ex_ext revs] by auto
qed

lemma sample_apply_inline: "inline_only (coss_Phases (ca_Spec sample_apply))"
  by (simp add: inline_only_def sample_apply_def with_phases_def sample_phases_def sample_inline_def no_ref_def)

lemma sample_apply_pack:
  "\<exists>pack s. pack_revision sample_boxcutter ex_ext sample_apply = Inr pack \<and> pr_Secrets pack = [s]"
proof -
  have "case pack_revision sample_boxcutter ex_ext sample_apply of Inl e \<Rightarrow> False
      | Inr pack \<Rightarrow> length (pr_Secrets pack) = 1" by code_simp
  then show ?thesis by (auto simp: length_Suc_conv split: sum.splits)
qed

lemma sample_apply_codec:
  "obj \<in> set (getObjects (coss_Phases (ca_Spec sample_apply))) \<Longrightarrow> codec_ok (bx_codec sample_boxcutter) obj \<and>
     (\<forall>d. json_Marshal (bx_codec sample_boxcutter) obj = Inr d \<longrightarrow> length d \<le> maxDecompressedSize)"
  by (auto simp: getObjects_def List.map_filter_def sample_apply_def with_phases_def sample_phases_def sample_inline_def
      codec_ok_def sample_boxcutter_def sample_codec_def cut_at_def has_gzip_magic_def maxDecompressedSize_def)

theorem externalize_roundtrip_witness:
  "\<exists>pack env. pack_revision sample_boxcutter ex_ext sample_apply = Inr pack \<and>
     phase_objs env ''deploy'' (cosp_Objects (replaceInlineWithRefs (coss_Phases (ca_Spec sample_apply)) pack ! 0)) =
       Inr [JObj [(''kind'', JStr ''a'')], JObj [(''kind'', JStr ''b'')]]"
proof -
  obtain pack s where pack: "pack_revision sample_boxcutter ex_ext sample_apply = Inr pack" "pr_Secrets pack = [s]"
    using sample_apply_pack by blast
  let ?env = "sample_env\<lparr>ce_codec := bx_codec sample_boxcutter, ce_GetSecret := (\<lambda>ns n. Inr s)\<rparr>"
  have inj: "inj_on (contentHash (bx_codec sample_boxcutter)) D" for D
    by (simp add: inj_on_def contentHash_def sample_boxcutter_def sample_codec_def)
  have "phase_objs ?env (cosp_Name (coss_Phases (ca_Spec sample_apply) ! 0))
      (cosp_Objects (replaceInlineWithRefs (coss_Phases (ca_Spec sample_apply)) pack ! 0)) =
    Inr (map (\<lambda>o1. the (coso_Object o1)) (cosp_Objects (coss_Phases (ca_Spec sample_apply) ! 0)))"
    by (rule externalize_roundtrip [OF pack(1) sample_apply_inline inj])
      (use pack(2) sample_apply_codec in \<open>simp_all add: sample_apply_def with_phases_def sample_phases_def\<close>)
  then show ?thesis
    using pack(1) by (auto simp: sample_apply_def with_phases_def sample_phases_def sample_inline_def)
qed

theorem create_crash_safe_witness:
  "\<exists>xs r ys. fst (createExternalizedRevision sample_boxcutter ex_ext sample_apply []) = xs @ BxApply r # ys \<and>
     (\<forall>p \<in> set (coss_Phases (ca_Spec r)). \<forall>o1 \<in> set (cosp_Objects p).
        coso_Object o1 = None \<and> (\<exists>s. BxCreate s \<in> set xs \<and> sec_Name s = ref_Name (coso_Ref o1)))"
proof -
  have "list_ex (\<lambda>a. case a of BxApply r \<Rightarrow> True | _ \<Rightarrow> False)
      (fst (createExternalizedRevision sample_boxcutter ex_ext sample_apply []))" by code_simp
  then obtain r where "BxApply r \<in> set (fst (createExternalizedRevision sample_boxcutter ex_ext sample_apply []))"
    by (auto simp: list_ex_iff action_cases)
  then obtain xs ys where e: "fst (createExternalizedRevision sample_boxcutter ex_ext sample_apply []) = xs @ BxApply r # ys"
    by (meson split_list)
  from create_crash_safe [OF sample_apply_inline e] show ?thesis using e by blast
qed

theorem comparison_restores_objects_witness:
  "\<exists>acts desired'. compare_current sample_boxcutter ex_ext sample_apply (sample_revision 7) =
      (acts, Inr (StateUnchanged, desired')) \<and>
    coss_Phases (ca_Spec desired') = coss_Phases (ca_Spec sample_apply)"
proof -
  have "case snd (compare_current sample_boxcutter ex_ext sample_apply (sample_revision 7)) of
      Inl e \<Rightarrow> False | Inr r \<Rightarrow> fst r = StateUnchanged" by code_simp
  then obtain acts desired' where
    "compare_current sample_boxcutter ex_ext sample_apply (sample_revision 7) = (acts, Inr (StateUnchanged, desired'))"
    by (cases "compare_current sample_boxcutter ex_ext sample_apply (sample_revision 7)") (auto split: sum.splits)
  then show ?thesis using comparison_restores_objects [OF _ sample_apply_inline] by blast
qed

end
