(* ===== verification/Storage_Migration.thy ===== *)
theory Storage_Migration
  imports Boxcutter_Applier
begin

text \<open>
  The migration of an extension from a Helm release to a ClusterObjectSet
  (\<open>BoxcutterStorageMigrator\<close> of \<open>applier/boxcutter.go\<close>). The Helm client and the API server are
  parameters; a run gives the calls that change something and the error.
\<close>

section \<open>Definitions\<close>

text \<open>
  An answer of the Helm client: \<open>HelmNotFound\<close> is an error for which
  \<open>errors.Is(err, driver.ErrReleaseNotFound)\<close> holds. \<open>hr_Status = None\<close> is a release without info.
\<close>

datatype 'a helm_result = HelmNotFound | HelmError go_error | HelmOk 'a

datatype mg_action = MgApply cos_apply | MgUpdateStatus cluster_object_set

record 'fs migrator =
  mg_generator :: "'fs generator"
  mg_now :: int
  mg_List :: "string \<Rightarrow> cluster_object_set list result"
  mg_Get :: "string \<Rightarrow> cluster_object_set result"
  mg_ActionClientFor :: "cluster_extension \<Rightarrow> unit result"
  mg_GetRelease :: "string \<Rightarrow> helm_release option helm_result"
  mg_History :: "string \<Rightarrow> helm_release option list helm_result"
  mg_GVKForOwner :: "(string \<times> string) result"
  mg_Apply :: "cos_apply \<Rightarrow> go_error option"
  mg_UpdateStatus :: "cluster_object_set \<Rightarrow> go_error option"

abbreviation StatusDeployed :: string where "StatusDeployed \<equiv> ''deployed''"

definition deployed :: "helm_release \<Rightarrow> bool" where
  "deployed rel \<longleftrightarrow> hr_Status rel = Some StatusDeployed"

fun latest_deployed :: "helm_release option \<Rightarrow> helm_release option list \<Rightarrow> helm_release option" where
  "latest_deployed latest [] = latest"
| "latest_deployed latest (None # rels) = latest_deployed latest rels"
| "latest_deployed latest (Some rel # rels) =
     (if \<not> deployed rel then latest_deployed latest rels
      else
        (case latest of
           None \<Rightarrow> latest_deployed (Some rel) rels
         | Some l \<Rightarrow> latest_deployed (if hr_Version rel > hr_Version l then Some rel else Some l) rels))"

definition findLatestDeployedRelease :: "'fs migrator \<Rightarrow> string \<Rightarrow> helm_release option result" where
  "findLatestDeployedRelease m name =
     (case mg_History m name of
        HelmNotFound \<Rightarrow> Inr None
      | HelmError e \<Rightarrow> Inl e
      | HelmOk history \<Rightarrow> Inr (latest_deployed None history))"

definition ensureRevisionStatus :: "'fs migrator \<Rightarrow> string \<Rightarrow> mg_action list \<times> go_error option" where
  "ensureRevisionStatus m name =
     (case mg_Get m name of
        Inl e \<Rightarrow> ([], Some (ErrWrap ''getting existing revision for status check: '' e ''''))
      | Inr cos \<Rightarrow>
          if map_get (meta_Labels (cos_Meta cos)) MigratedFromHelmKey \<noteq> ''true'' then ([], None)
          else if IsStatusConditionTrue (cosst_Conditions (cos_Status cos)) ClusterObjectSetTypeSucceeded then ([], None)
          else
            (let cs = fst (apimeta_SetStatusCondition (mg_now m) (cosst_Conditions (cos_Status cos))
                   (mk_condition ClusterObjectSetTypeSucceeded ConditionTrue ReasonSucceeded
                     ''Revision succeeded - migrated from Helm release'' (meta_Generation (cos_Meta cos))));
                 cos' = cos\<lparr>cos_Status := (cos_Status cos)\<lparr>cosst_Conditions := cs\<rparr>\<rparr> in
             ([MgUpdateStatus cos'],
              map_option (\<lambda>e. ErrWrap ''updating migrated revision status: '' e '''') (mg_UpdateStatus m cos'))))"

definition ensureMigratedRevisionStatus ::
  "'fs migrator \<Rightarrow> cluster_object_set list \<Rightarrow> mg_action list \<times> go_error option" where
  "ensureMigratedRevisionStatus m revisions =
     (case find (\<lambda>r. coss_Revision (cos_Spec r) = 1) revisions of
        None \<Rightarrow> ([], None)
      | Some r \<Rightarrow>
          if IsStatusConditionTrue (cosst_Conditions (cos_Status r)) ClusterObjectSetTypeSucceeded then ([], None)
          else ensureRevisionStatus m (meta_Name (cos_Meta r)))"

definition create_migrated ::
  "'fs migrator \<Rightarrow> cluster_extension \<Rightarrow> (string \<times> string) list \<Rightarrow> helm_release \<Rightarrow> mg_action list \<times> go_error option" where
  "create_migrated m ext objectLabels helmRelease =
     (case GenerateRevisionFromHelmRelease (mg_generator m) helmRelease ext objectLabels of
        Inl e \<Rightarrow> ([], Some e)
      | Inr rev0 \<Rightarrow>
          (case mg_GVKForOwner m of
             Inl e \<Rightarrow> ([], Some (ErrWrap ''get GVK for owner: '' e ''''))
           | Inr gvk \<Rightarrow>
               (let r = rev0\<lparr>ca_Labels := (ca_Labels rev0)(MigratedFromHelmKey \<mapsto> ''true''),
                      ca_OwnerReferences := ca_OwnerReferences rev0 @ [owner_ref gvk ext]\<rparr> in
                case mg_Apply m r of
                  Some e \<Rightarrow> ([MgApply r], Some e)
                | None \<Rightarrow> (let (acts, err) = ensureRevisionStatus m (ca_Name r) in (MgApply r # acts, err)))))"

definition Migrate ::
  "'fs migrator \<Rightarrow> cluster_extension \<Rightarrow> (string \<times> string) list \<Rightarrow> mg_action list \<times> go_error option" where
  "Migrate m ext objectLabels =
     (let name = meta_Name (ext_Meta ext) in
      case mg_List m name of
        Inl e \<Rightarrow> ([], Some (ErrWrap ''listing ClusterObjectSets before attempting migration: '' e ''''))
      | Inr items \<Rightarrow>
          if items \<noteq> [] then ensureMigratedRevisionStatus m items
          else
            (case mg_ActionClientFor m ext of
               Inl e \<Rightarrow> ([], Some e)
             | Inr ac \<Rightarrow>
                 (case mg_GetRelease m name of
                    HelmNotFound \<Rightarrow> ([], None)
                  | HelmError e \<Rightarrow> ([], Some e)
                  | HelmOk rel \<Rightarrow>
                      (case (if (case rel of None \<Rightarrow> False | Some r \<Rightarrow> deployed r) then Inr rel
                             else findLatestDeployedRelease m name) of
                         Inl e \<Rightarrow> ([], Some e)
                       | Inr None \<Rightarrow> ([], None)
                       | Inr (Some helmRelease) \<Rightarrow> create_migrated m ext objectLabels helmRelease))))"

section \<open>Lemmas\<close>

lemma latest_deployed_ok:
  "latest_deployed latest rels = Some rel \<Longrightarrow> (\<forall>l. latest = Some l \<longrightarrow> deployed l) \<Longrightarrow>
   (latest = Some rel \<or> Some rel \<in> set rels) \<and> deployed rel \<and>
   (\<forall>l. latest = Some l \<longrightarrow> hr_Version l \<le> hr_Version rel) \<and>
   (\<forall>r. Some r \<in> set rels \<longrightarrow> deployed r \<longrightarrow> hr_Version r \<le> hr_Version rel)"
  by (induction latest rels rule: latest_deployed.induct) (fastforce split: option.splits if_splits)+

lemma latest_deployed_Some: "latest \<noteq> None \<Longrightarrow> latest_deployed latest rels \<noteq> None"
  by (induction latest rels rule: latest_deployed.induct) (auto split: option.splits)

lemma latest_deployed_None:
  "latest_deployed None rels = None \<longleftrightarrow> (\<forall>r. Some r \<in> set rels \<longrightarrow> \<not> deployed r)"
  by (induction "None :: helm_release option" rels rule: latest_deployed.induct)
    (auto simp: latest_deployed_Some)

lemma ensureRevisionStatus_acts:
  assumes a: "a \<in> set (fst (ensureRevisionStatus m name))"
  shows "\<exists>cos cos'. a = MgUpdateStatus cos' \<and> mg_Get m name = Inr cos \<and>
       meta_Labels (cos_Meta cos) MigratedFromHelmKey = Some ''true'' \<and>
       cos_Spec cos' = cos_Spec cos \<and> cos_Meta cos' = cos_Meta cos \<and>
       \<not> IsStatusConditionTrue (cosst_Conditions (cos_Status cos)) ClusterObjectSetTypeSucceeded \<and>
       IsStatusConditionTrue (cosst_Conditions (cos_Status cos')) ClusterObjectSetTypeSucceeded"
proof -
  obtain cos where c: "mg_Get m name = Inr cos" "map_get (meta_Labels (cos_Meta cos)) MigratedFromHelmKey = ''true''"
    "\<not> IsStatusConditionTrue (cosst_Conditions (cos_Status cos)) ClusterObjectSetTypeSucceeded"
    using a by (auto simp: ensureRevisionStatus_def split: sum.splits if_splits)
  then have "meta_Labels (cos_Meta cos) MigratedFromHelmKey = Some ''true''"
    by (simp add: map_get_def split: option.splits)
  with a c show ?thesis
    by (auto simp: ensureRevisionStatus_def Let_def IsTrue_view apimeta_view mk_condition_def)
qed

lemma ensureMigrated_acts:
  "a \<in> set (fst (ensureMigratedRevisionStatus m revs)) \<Longrightarrow> \<exists>name. a \<in> set (fst (ensureRevisionStatus m name))"
  by (auto simp: ensureMigratedRevisionStatus_def split: option.splits if_splits)

lemma create_migrated_acts:
  assumes "a \<in> set (fst (create_migrated m ext ol rel))"
  shows "(\<exists>rev0 r. a = MgApply r \<and> GenerateRevisionFromHelmRelease (mg_generator m) rel ext ol = Inr rev0 \<and>
      ca_Spec r = ca_Spec rev0 \<and> ca_Name r = ca_Name rev0 \<and> ca_Labels r MigratedFromHelmKey = Some ''true'') \<or>
    (\<exists>name. a \<in> set (fst (ensureRevisionStatus m name)))"
proof -
  obtain rev0 gvk where g: "GenerateRevisionFromHelmRelease (mg_generator m) rel ext ol = Inr rev0"
    "mg_GVKForOwner m = Inr gvk"
    using assms by (auto simp: create_migrated_def split: sum.splits)
  let ?r = "rev0\<lparr>ca_Labels := (ca_Labels rev0)(MigratedFromHelmKey \<mapsto> ''true''),
    ca_OwnerReferences := ca_OwnerReferences rev0 @ [owner_ref gvk ext]\<rparr>"
  have "a = MgApply ?r \<or> a \<in> set (fst (ensureRevisionStatus m (ca_Name ?r)))"
    using assms g by (auto simp: create_migrated_def Let_def split: option.splits prod.splits)
  then show ?thesis using g(1) by auto
qed

text \<open>What a run that applies a revision has established.\<close>

lemma Migrate_apply:
  assumes "MgApply r \<in> set (fst (Migrate m ext ol))"
  obtains rel where "mg_List m (meta_Name (ext_Meta ext)) = Inr []" "MgApply r \<in> set (fst (create_migrated m ext ol rel))"
    "mg_GetRelease m (meta_Name (ext_Meta ext)) = HelmOk (Some rel) \<and> deployed rel \<or>
     (\<exists>history. mg_History m (meta_Name (ext_Meta ext)) = HelmOk history \<and> latest_deployed None history = Some rel)"
proof -
  have none: "MgApply r \<notin> set (fst (ensureMigratedRevisionStatus m revs))" for revs
    using ensureMigrated_acts ensureRevisionStatus_acts by blast
  show ?thesis
    using assms that none
    by (fastforce simp: Migrate_def Let_def findLatestDeployedRelease_def
        split: sum.splits if_splits helm_result.splits option.splits)
qed

lemma Migrate_update:
  assumes "MgUpdateStatus c \<in> set (fst (Migrate m ext ol))"
  shows "\<exists>name. MgUpdateStatus c \<in> set (fst (ensureRevisionStatus m name))"
  using assms create_migrated_acts [of "MgUpdateStatus c" m ext ol] ensureMigrated_acts [of "MgUpdateStatus c" m]
  by (auto simp: Migrate_def Let_def split: sum.splits if_splits helm_result.splits option.splits)

section \<open>Properties\<close>

text \<open>
  A migration applies a revision only when the extension has none yet, and then the one
  generated from a deployed Helm release, as revision 1, adopting existing objects and marked as
  migrated; when the latest release is not deployed, it is the deployed release with the highest
  version in the history.
\<close>

theorem migrates_deployed_release:
  assumes "MgApply r \<in> set (fst (Migrate m ext ol))"
  shows "mg_List m (meta_Name (ext_Meta ext)) = Inr [] \<and>
    coss_Revision (ca_Spec r) = 1 \<and> ca_Name r = meta_Name (ext_Meta ext) @ ''-1'' \<and>
    coss_CollisionProtection (ca_Spec r) = CollisionProtectionNone \<and>
    ca_Labels r MigratedFromHelmKey = Some ''true'' \<and>
    (\<exists>rel rev0. deployed rel \<and> GenerateRevisionFromHelmRelease (mg_generator m) rel ext ol = Inr rev0 \<and>
       ca_Spec r = ca_Spec rev0 \<and>
       (mg_GetRelease m (meta_Name (ext_Meta ext)) = HelmOk (Some rel) \<or>
        (\<exists>history. mg_History m (meta_Name (ext_Meta ext)) = HelmOk history \<and> Some rel \<in> set history \<and>
           (\<forall>r'. Some r' \<in> set history \<longrightarrow> deployed r' \<longrightarrow> hr_Version r' \<le> hr_Version rel))))"
proof -
  from assms obtain rel where m: "mg_List m (meta_Name (ext_Meta ext)) = Inr []"
    "MgApply r \<in> set (fst (create_migrated m ext ol rel))"
    "mg_GetRelease m (meta_Name (ext_Meta ext)) = HelmOk (Some rel) \<and> deployed rel \<or>
     (\<exists>history. mg_History m (meta_Name (ext_Meta ext)) = HelmOk history \<and> latest_deployed None history = Some rel)"
    by (rule Migrate_apply)
  obtain rev0 where r: "GenerateRevisionFromHelmRelease (mg_generator m) rel ext ol = Inr rev0"
    "ca_Spec r = ca_Spec rev0" "ca_Name r = ca_Name rev0" "ca_Labels r MigratedFromHelmKey = Some ''true''"
    using create_migrated_acts [OF m(2)] ensureRevisionStatus_acts by fastforce
  have rev0: "coss_Revision (ca_Spec rev0) = 1" "ca_Name rev0 = meta_Name (ext_Meta ext) @ ''-1''"
    "coss_CollisionProtection (ca_Spec rev0) = CollisionProtectionNone"
    using r(1) by (auto simp: GenerateRevisionFromHelmRelease_def Let_def split: sum.splits)
  have "deployed rel \<and> (mg_GetRelease m (meta_Name (ext_Meta ext)) = HelmOk (Some rel) \<or>
      (\<exists>history. mg_History m (meta_Name (ext_Meta ext)) = HelmOk history \<and> Some rel \<in> set history \<and>
         (\<forall>r'. Some r' \<in> set history \<longrightarrow> deployed r' \<longrightarrow> hr_Version r' \<le> hr_Version rel)))"
    using m(3) latest_deployed_ok [of None _ rel] by fastforce
  with m(1) r rev0 show ?thesis by auto
qed

text \<open>
  A migration declares success only for a revision that carries the mark of a migration and
  has not succeeded yet; it changes nothing but the conditions.
\<close>

theorem migration_success_only_migrated:
  assumes "MgUpdateStatus c \<in> set (fst (Migrate m ext ol))"
  shows "\<exists>name cos. mg_Get m name = Inr cos \<and> meta_Labels (cos_Meta cos) MigratedFromHelmKey = Some ''true'' \<and>
    \<not> IsStatusConditionTrue (cosst_Conditions (cos_Status cos)) ClusterObjectSetTypeSucceeded \<and>
    IsStatusConditionTrue (cosst_Conditions (cos_Status c)) ClusterObjectSetTypeSucceeded \<and>
    cos_Spec c = cos_Spec cos \<and> cos_Meta c = cos_Meta cos"
  using Migrate_update [OF assms] ensureRevisionStatus_acts [of "MgUpdateStatus c" m] by fastforce

section \<open>Witnesses\<close>

definition sample_release :: "string \<Rightarrow> int \<Rightarrow> helm_release" where
  "sample_release status v =
     \<lparr>hr_Name = ''e'', hr_Version = v, hr_Status = Some status, hr_Manifest = '''', hr_Labels = Map.empty\<rparr>"

definition sample_migrator :: "unit migrator" where
  "sample_migrator =
     \<lparr>mg_generator = sample_generator, mg_now = 0, mg_List = (\<lambda>n. Inr []),
      mg_Get = (\<lambda>n. Inr ((sample_cos [])\<lparr>cos_Meta := (ex_meta ''e-1'')\<lparr>meta_Labels := [MigratedFromHelmKey \<mapsto> ''true'']\<rparr>\<rparr>)),
      mg_ActionClientFor = (\<lambda>e. Inr ()), mg_GetRelease = (\<lambda>n. HelmOk (Some (sample_release ''failed'' 3))),
      mg_History = (\<lambda>n. HelmOk [Some (sample_release ''deployed'' 1), None, Some (sample_release ''deployed'' 2),
        Some (sample_release ''failed'' 3)]),
      mg_GVKForOwner = Inr (''olm.operatorframework.io/v1'', ''ClusterExtension''),
      mg_Apply = (\<lambda>r. None), mg_UpdateStatus = (\<lambda>c. None)\<rparr>"

lemma sample_migration:
  "\<exists>r c. fst (Migrate sample_migrator ex_ext []) = [MgApply r, MgUpdateStatus c]"
proof -
  have "case fst (Migrate sample_migrator ex_ext []) of [MgApply r, MgUpdateStatus c] \<Rightarrow> True | _ \<Rightarrow> False"
    by code_simp
  then show ?thesis by (auto split: list.splits mg_action.splits)
qed

theorem migrates_deployed_release_witness:
  "\<exists>r. MgApply r \<in> set (fst (Migrate sample_migrator ex_ext [])) \<and> coss_Revision (ca_Spec r) = 1"
  using sample_migration migrates_deployed_release [of _ sample_migrator ex_ext "[]"] by fastforce

theorem migration_success_only_migrated_witness:
  "\<exists>c. MgUpdateStatus c \<in> set (fst (Migrate sample_migrator ex_ext [])) \<and>
     IsStatusConditionTrue (cosst_Conditions (cos_Status c)) ClusterObjectSetTypeSucceeded"
  using sample_migration migration_success_only_migrated [of _ sample_migrator ex_ext "[]"] by fastforce

end
