(* ===== verification/Extension_Steps.thy ===== *)
theory Extension_Steps
  imports Extension_Status Storage_Migration
begin

text \<open>
  The reconciler of ClusterExtensions: its steps
  (\<open>controllers/clusterextension_reconcile_steps.go\<close>, \<open>controllers/boxcutter_reconcile_steps.go\<close>), the
  pipelines the operator builds from them (\<open>cmd/operator-controller/main.go\<close>) and \<open>Reconcile\<close>
  (\<open>controllers/clusterextension_controller.go\<close>). The collaborators the steps are given (finalizers,
  migrator, resolver, puller, applier) are fields of \<open>ext_env\<close>. A nil pointer that the code would
  dereference is the result \<open>StepPanic\<close>.
\<close>

section \<open>Definitions\<close>

record 'fs reconcile_state =
  st_revisionStates :: "revision_states option"
  st_resolved :: "revision_metadata option"
  st_imageFS :: "'fs option"
  st_resolvedDeprecation :: "fbc_deprecation option"
  st_hasCatalogData :: bool

datatype step_result = StepNext | StepStop | StepError go_error | StepPanic

text \<open>A list call of the API server; \<open>CatalogsNoMatch\<close> is an error for which \<open>IsNoMatchError\<close> holds.\<close>

datatype catalog_list = CatalogsNoMatch | CatalogsErr go_error | CatalogsOk "cluster_catalog list"

record 'fs ext_env =
  ee_now :: int
  ee_bundleReleaseSupport :: bool
  ee_Finalize :: "cluster_extension \<Rightarrow> cluster_extension \<times> bool \<times> bool \<times> go_error option"
  ee_GetServiceAccount :: "string \<Rightarrow> string \<Rightarrow> go_error option"
  ee_Migrate :: "cluster_extension \<Rightarrow> (string \<times> string) list \<Rightarrow> go_error option"
  ee_GetRevisionStates :: "cluster_extension \<Rightarrow> revision_states result"
  ee_Resolve :: "cluster_extension \<Rightarrow> bundle_metadata option \<Rightarrow>
    (fbc_bundle \<times> version_release) result \<times> fbc_deprecation option"
  ee_LabelSelectorAsSelector :: "label_selector \<Rightarrow> label_sel result"
  ee_ListCatalogs :: "label_sel option \<Rightarrow> catalog_list"
  ee_Pull :: "string \<Rightarrow> string \<Rightarrow> 'fs result"
  ee_Apply :: "'fs option \<Rightarrow> cluster_extension \<Rightarrow> (string \<times> string) list \<Rightarrow> string_map \<Rightarrow>
    bool \<times> string \<times> go_error option"
  ee_Get :: "string \<Rightarrow> cluster_extension result"
  ee_UpdateStatus :: "cluster_extension \<Rightarrow> go_error option"
  ee_PatchFinalizers :: "string list \<Rightarrow> go_error option"

type_synonym 'fs step_out = "'fs reconcile_state \<times> cluster_extension \<times> step_result"
type_synonym 'fs step = "'fs reconcile_state \<Rightarrow> cluster_extension \<Rightarrow> 'fs step_out"

subsection \<open>Finalizers and validation\<close>

definition HandleFinalizers :: "'fs ext_env \<Rightarrow> 'fs step" where
  "HandleFinalizers env s ext =
     (let (ext1, updated, statusUpdated, err) = ee_Finalize env ext in
      case err of
        Some e \<Rightarrow> (s, setStatusProgressing (ee_now env) ext1 (Some e), StepError e)
      | None \<Rightarrow>
          if updated \<or> statusUpdated then (s, ext1, StepStop)
          else if meta_DeletionTimestamp (ext_Meta ext1) \<noteq> None then (s, ext1, StepStop)
          else (s, ext1, StepNext))"

definition ServiceAccountValidator :: "'fs ext_env \<Rightarrow> cluster_extension \<Rightarrow> go_error option" where
  "ServiceAccountValidator env ext =
     (let sa = exts_ServiceAccount (ext_Spec ext); ns = exts_Namespace (ext_Spec ext) in
      case ee_GetServiceAccount env ns sa of
        None \<Rightarrow> None
      | Some e \<Rightarrow>
          if IsNotFound e
          then Some (ErrText (''service account '' @ go_quote sa @ '' not found in namespace '' @ go_quote ns))
          else Some (ErrWrap ''error getting service account: '' e ''''))"

definition ValidateClusterExtension ::
  "'fs ext_env \<Rightarrow> (cluster_extension \<Rightarrow> go_error option) list \<Rightarrow> 'fs step" where
  "ValidateClusterExtension env validators s ext =
     (case errors_Join (map (\<lambda>v. v ext) validators) of
        None \<Rightarrow> (s, ext, StepNext)
      | Some joined \<Rightarrow>
          (let err = ErrWrap ''operation cannot proceed due to the following validation error(s): '' joined '''';
               ext1 = setInstalledStatusConditionUnknown (ee_now env) ext (err_string err);
               ext2 = setStatusProgressing (ee_now env) ext1 (Some err) in
           (s, ext2, StepError err)))"

subsection \<open>Revision states\<close>

definition object_labels :: "cluster_extension \<Rightarrow> (string \<times> string) list" where
  "object_labels ext =
     [(OwnerKindKey, ClusterExtensionKind), (OwnerNameKey, meta_Name (ext_Meta ext))]"

definition MigrateStorage :: "'fs ext_env \<Rightarrow> 'fs step" where
  "MigrateStorage env s ext =
     (case ee_Migrate env ext (object_labels ext) of
        Some e \<Rightarrow> (s, ext, StepError (ErrWrap ''migrating storage: '' e ''''))
      | None \<Rightarrow> (s, ext, StepNext))"

definition RetrieveRevisionStates :: "'fs ext_env \<Rightarrow> 'fs step" where
  "RetrieveRevisionStates env s ext =
     (case ee_GetRevisionStates env ext of
        Inl e \<Rightarrow>
          (let ext1 = setInstallStatus ext None;
               ext2 = setInstalledStatusConditionUnknown (ee_now env) ext1 (err_string e);
               ext3 = setStatusProgressing (ee_now env) ext2 (Some (ErrText ''retrying to get installed bundle'')) in
           (s, ext3, StepError e))
      | Inr revisionStates \<Rightarrow> (s\<lparr>st_revisionStates := Some revisionStates\<rparr>, ext, StepNext))"

text \<open>The metadata a ClusterObjectSet was annotated with, and the states from all of them.\<close>

definition revision_metadata_of :: "cluster_object_set \<Rightarrow> revision_metadata" where
  "revision_metadata_of c =
     (let anns = meta_Annotations (cos_Meta c) in
      \<lparr>rm_RevisionName = meta_Name (cos_Meta c), rm_Package = map_get anns PackageNameKey,
       rm_Image = map_get anns BundleReferenceKey,
       rm_Bundle = \<lparr>bm_Name = map_get anns BundleNameKey, bm_Version = map_get anns BundleVersionKey,
         bm_Release = anns BundleReleaseKey\<rparr>,
       rm_Conditions = cosst_Conditions (cos_Status c)\<rparr>)"

definition add_revision :: "cluster_object_set \<Rightarrow> revision_states \<Rightarrow> revision_states" where
  "add_revision c rs =
     (if coss_LifecycleState (cos_Spec c) = ClusterObjectSetLifecycleStateArchived then rs
      else if IsStatusConditionTrue (cosst_Conditions (cos_Status c)) ClusterObjectSetTypeSucceeded
      then rs\<lparr>rs_Installed := Some (revision_metadata_of c)\<rparr>
      else rs\<lparr>rs_RollingOut := rs_RollingOut rs @ [revision_metadata_of c]\<rparr>)"

definition boxcutter_GetRevisionStates ::
  "(string \<Rightarrow> cluster_object_set list result) \<Rightarrow> cluster_extension \<Rightarrow> revision_states result" where
  "boxcutter_GetRevisionStates listRevisions ext =
     (case listRevisions (meta_Name (ext_Meta ext)) of
        Inl e \<Rightarrow> Inl (ErrWrap ''listing revisions: '' e '''')
      | Inr items \<Rightarrow>
          Inr (fold add_revision (sort_by compare_revision items) \<lparr>rs_Installed = None, rs_RollingOut = []\<rparr>))"

definition helm_GetRevisionStates ::
  "(cluster_extension \<Rightarrow> unit result) \<Rightarrow> (string \<Rightarrow> helm_release list helm_result) \<Rightarrow> cluster_extension \<Rightarrow>
   revision_states result" where
  "helm_GetRevisionStates actionClientFor history ext =
     (case actionClientFor ext of
        Inl e \<Rightarrow> Inl e
      | Inr cl \<Rightarrow>
          (case history (meta_Name (ext_Meta ext)) of
             HelmError e \<Rightarrow> Inl e
           | HelmNotFound \<Rightarrow> Inr \<lparr>rs_Installed = None, rs_RollingOut = []\<rparr>
           | HelmOk relhis \<Rightarrow>
               Inr \<lparr>rs_Installed = map_option (\<lambda>rel.
                  \<lparr>rm_RevisionName = '''', rm_Package = map_get (hr_Labels rel) PackageNameKey,
                   rm_Image = map_get (hr_Labels rel) BundleReferenceKey,
                   rm_Bundle = \<lparr>bm_Name = map_get (hr_Labels rel) BundleNameKey,
                     bm_Version = map_get (hr_Labels rel) BundleVersionKey, bm_Release = hr_Labels rel BundleReleaseKey\<rparr>,
                   rm_Conditions = []\<rparr>) (find deployed relhis),
                 rs_RollingOut = []\<rparr>))"

subsection \<open>Resolution\<close>

definition CheckCatalogsExist :: "'fs ext_env \<Rightarrow> cluster_extension \<Rightarrow> bool result" where
  "CheckCatalogsExist env ext =
     (let selector =
            (case src_Catalog (exts_Source (ext_Spec ext)) of
               None \<Rightarrow> Inr None
             | Some cf \<Rightarrow>
                 (case cf_Selector cf of
                    None \<Rightarrow> Inr None
                  | Some ls \<Rightarrow>
                      (case ee_LabelSelectorAsSelector env ls of
                         Inl e \<Rightarrow> Inl (ErrWrap ''invalid catalog selector: '' e '''')
                       | Inr sel \<Rightarrow> Inr (Some sel)))) in
      case selector of
        Inl e \<Rightarrow> Inl e
      | Inr sel \<Rightarrow>
          (case ee_ListCatalogs env sel of
             CatalogsNoMatch \<Rightarrow> Inr False
           | CatalogsErr e \<Rightarrow> Inl (ErrWrap ''failed to list ClusterCatalogs: '' e '''')
           | CatalogsOk items \<Rightarrow> Inr (items \<noteq> [])))"

definition resolution_failed ::
  "'fs ext_env \<Rightarrow> 'fs reconcile_state \<Rightarrow> revision_states \<Rightarrow> cluster_extension \<Rightarrow> string \<Rightarrow> go_error \<Rightarrow> 'fs step_out" where
  "resolution_failed env s rs ext msg err =
     (let ext1 = setStatusProgressing (ee_now env) ext (Some err);
          ext2 = setInstalledStatusFromRevisionStates (ee_now env) ext1 rs;
          ext3 = ensureFailureConditionsWithReason (ee_now env) ext2 ReasonRetrying msg in
      (s, ext3, StepError err))"

definition handleResolutionError ::
  "'fs ext_env \<Rightarrow> 'fs reconcile_state \<Rightarrow> revision_states \<Rightarrow> cluster_extension \<Rightarrow> go_error \<Rightarrow> 'fs step_out" where
  "handleResolutionError env s rs ext err =
     (case rs_Installed rs of
        None \<Rightarrow> resolution_failed env s rs ext (''failed to resolve bundle: '' @ err_string err) err
      | Some installed \<Rightarrow>
          (let specVersion = (case src_Catalog (exts_Source (ext_Spec ext)) of
                 None \<Rightarrow> '''' | Some cf \<Rightarrow> cf_Version cf);
               installedVersion = bm_Version (rm_Bundle installed) in
           if specVersion \<noteq> '''' \<and> specVersion \<noteq> installedVersion then
             resolution_failed env s rs ext (''unable to upgrade to version '' @ specVersion @ '': '' @
               err_string err @ '' (currently installed: '' @ installedVersion @ '')'') err
           else
             (case CheckCatalogsExist env ext of
                Inl e \<Rightarrow> resolution_failed env s rs ext (''failed to resolve bundle: '' @ err_string err) err
              | Inr True \<Rightarrow>
                  resolution_failed env s rs ext (''failed to resolve bundle, retrying: '' @ err_string err) err
              | Inr False \<Rightarrow>
                  (s\<lparr>st_resolved := Some installed\<rparr>,
                   setInstalledStatusFromRevisionStates (ee_now env) ext rs, StepNext))))"

definition ResolveBundle :: "'fs ext_env \<Rightarrow> 'fs step" where
  "ResolveBundle env s ext =
     (case st_revisionStates s of
        None \<Rightarrow> (s, ext, StepPanic)
      | Some rs \<Rightarrow>
          (let installedBundleName = (case rs_Installed rs of None \<Rightarrow> '''' | Some i \<Rightarrow> bm_Name (rm_Bundle i)) in
           case rs_RollingOut rs of
             r # rest \<Rightarrow>
               (s\<lparr>st_resolved := Some r\<rparr>,
                SetDeprecationStatus (ee_now env) ext installedBundleName None False, StepNext)
           | [] \<Rightarrow>
               (let bm = map_option rm_Bundle (rs_Installed rs);
                    (res, dep) = ee_Resolve env ext bm;
                    hasCatalogData = ((case res of Inl e \<Rightarrow> False | Inr b \<Rightarrow> True) \<or> dep \<noteq> None);
                    s1 = s\<lparr>st_resolvedDeprecation := dep, st_hasCatalogData := hasCatalogData\<rparr>;
                    ext1 = SetDeprecationStatus (ee_now env) ext installedBundleName dep hasCatalogData in
                case res of
                  Inl e \<Rightarrow> handleResolutionError env s1 rs ext1 e
                | Inr (bundle, version) \<Rightarrow>
                    (s1\<lparr>st_resolved := Some \<lparr>rm_RevisionName = '''', rm_Package = b_Package bundle,
                       rm_Image = b_Image bundle,
                       rm_Bundle = MetadataFor (ee_bundleReleaseSupport env) (b_Name bundle) version,
                       rm_Conditions = []\<rparr>\<rparr>, ext1, StepNext))))"

subsection \<open>Unpacking\<close>

definition wrapErrorWithResolutionInfo :: "bundle_metadata \<Rightarrow> go_error \<Rightarrow> go_error" where
  "wrapErrorWithResolutionInfo resolved err =
     (let info = ''error for resolved bundle '' @ go_quote (bm_Name resolved) @ '' with version '' @
            go_quote (bm_Version resolved) @ '': '' in
      if is_terminal err then
        (let inner = (case UnwrapTerminal (Some err) of Some e \<Rightarrow> e | None \<Rightarrow> err);
             wrapped = ErrWrap info inner '''' in
         case ExtractTerminalReason (Some err) of
           Some reason \<Rightarrow> NewTerminalError reason wrapped
         | None \<Rightarrow> ErrTerminal (Some wrapped))
      else ErrWrap info err '''')"

definition bundle_unchanged :: "'fs reconcile_state \<Rightarrow> revision_metadata \<Rightarrow> bool" where
  "bundle_unchanged s r \<longleftrightarrow>
     (case st_revisionStates s of
        None \<Rightarrow> False
      | Some rs \<Rightarrow>
          (case rs_Installed rs of
             None \<Rightarrow> False
           | Some i \<Rightarrow> bm_Name (rm_Bundle r) = bm_Name (rm_Bundle i) \<and> bm_Version (rm_Bundle r) = bm_Version (rm_Bundle i)))"

definition UnpackBundle :: "'fs ext_env \<Rightarrow> 'fs step" where
  "UnpackBundle env s ext =
     (case st_resolved s of
        None \<Rightarrow> (s, ext, StepError (ErrText ''unable to retrieve bundle information''))
      | Some r \<Rightarrow>
          (case ee_Pull env (meta_Name (ext_Meta ext)) (rm_Image r) of
             Inl e \<Rightarrow>
               if bundle_unchanged s r then (s\<lparr>st_imageFS := None\<rparr>, ext, StepNext)
               else
                 (let ext1 = setStatusProgressing (ee_now env) ext (Some (wrapErrorWithResolutionInfo (rm_Bundle r) e)) in
                  case st_revisionStates s of
                    None \<Rightarrow> (s, ext1, StepPanic)
                  | Some rs \<Rightarrow> (s, setInstalledStatusFromRevisionStates (ee_now env) ext1 rs, StepError e))
           | Inr imageFS \<Rightarrow> (s\<lparr>st_imageFS := Some imageFS\<rparr>, ext, StepNext)))"

subsection \<open>Applying\<close>

definition revision_annotations :: "revision_metadata \<Rightarrow> string_map" where
  "revision_annotations r =
     (let anns = [BundleNameKey \<mapsto> bm_Name (rm_Bundle r), PackageNameKey \<mapsto> rm_Package r,
            BundleVersionKey \<mapsto> bm_Version (rm_Bundle r), BundleReferenceKey \<mapsto> rm_Image r] in
      case bm_Release (rm_Bundle r) of
        None \<Rightarrow> anns
      | Some release \<Rightarrow> anns(BundleReleaseKey \<mapsto> release))"

text \<open>\<open>apimeta.SetStatusCondition\<close> on the conditions of the extension, without truncation.\<close>

definition put_ext_condition :: "int \<Rightarrow> cluster_extension \<Rightarrow> condition \<Rightarrow> cluster_extension" where
  "put_ext_condition now ext c =
     ext\<lparr>ext_Status := (ext_Status ext)\<lparr>extst_Conditions :=
       fst (apimeta_SetStatusCondition now (ext_conditions ext) c)\<rparr>\<rparr>"

definition ApplyBundle :: "'fs ext_env \<Rightarrow> 'fs step" where
  "ApplyBundle env s ext =
     (case (st_resolved s, st_revisionStates s) of
        (Some r, Some rs) \<Rightarrow>
          (let now = ee_now env;
               (rolloutSucceeded, rolloutStatus, err) =
                 ee_Apply env (st_imageFS s) ext (object_labels ext) (revision_annotations r);
               rs' = (if rolloutSucceeded then \<lparr>rs_Installed = Some r, rs_RollingOut = []\<rparr>
                      else if err = None \<and> rs_Installed rs = None \<and> rs_RollingOut rs = []
                      then \<lparr>rs_Installed = None, rs_RollingOut = [r]\<rparr>
                      else rs);
               s' = s\<lparr>st_revisionStates := Some rs'\<rparr>;
               ext1 = setInstalledStatusFromRevisionStates now ext rs';
               ext2 = (case (rolloutSucceeded, rs_Installed rs') of
                   (True, Some i) \<Rightarrow>
                     SetDeprecationStatus now ext1 (bm_Name (rm_Bundle i)) (st_resolvedDeprecation s) (st_hasCatalogData s)
                 | _ \<Rightarrow> ext1) in
           case err of
             Some e \<Rightarrow>
               (s', setStatusProgressing now ext2 (Some (wrapErrorWithResolutionInfo (rm_Bundle r) e)), StepError e)
           | None \<Rightarrow>
               if \<not> rolloutSucceeded then
                 (s', put_ext_condition now ext2
                    (mk_condition TypeProgressing ConditionTrue ReasonRollingOut rolloutStatus
                      (meta_Generation (ext_Meta ext2))), StepNext)
               else (s', setStatusProgressing now ext2 None, StepNext))
      | _ \<Rightarrow> (s, ext, StepPanic))"

definition mirrored :: "cluster_extension \<Rightarrow> revision_metadata \<Rightarrow> string \<Rightarrow> condition option" where
  "mirrored ext r t =
     map_option (\<lambda>c. c\<lparr>cond_observedGeneration := meta_Generation (ext_Meta ext)\<rparr>)
       (FindStatusCondition (rm_Conditions r) t)"

definition mirror_to_ext :: "int \<Rightarrow> revision_metadata \<Rightarrow> string \<Rightarrow> cluster_extension \<Rightarrow> cluster_extension" where
  "mirror_to_ext now r t ext =
     (case mirrored ext r t of None \<Rightarrow> ext | Some c \<Rightarrow> put_ext_condition now ext c)"

definition revision_status_of :: "int \<Rightarrow> cluster_extension \<Rightarrow> revision_metadata \<Rightarrow> revision_status" where
  "revision_status_of now ext r =
     \<lparr>rvs_Name = rm_RevisionName r,
      rvs_Conditions = fold (\<lambda>t cs. case mirrored ext r t of
          None \<Rightarrow> cs | Some c \<Rightarrow> fst (apimeta_SetStatusCondition now cs c))
        [ClusterObjectSetTypeAvailable, ClusterObjectSetTypeProgressing] []\<rparr>"

definition with_active :: "cluster_extension \<Rightarrow> revision_status list \<Rightarrow> cluster_extension" where
  "with_active ext rs = ext\<lparr>ext_Status := (ext_Status ext)\<lparr>extst_ActiveRevisions := rs\<rparr>\<rparr>"

fun mirror_rolling :: "int \<Rightarrow> revision_metadata list \<Rightarrow> cluster_extension \<Rightarrow> cluster_extension" where
  "mirror_rolling now [] ext = ext"
| "mirror_rolling now (r # rs) ext =
     (let status = revision_status_of now ext r;
          ext1 = (if rs = [] then mirror_to_ext now r ClusterObjectSetTypeProgressing ext else ext) in
      mirror_rolling now rs (with_active ext1 (extst_ActiveRevisions (ext_Status ext1) @ [status])))"

definition mirror_installed :: "int \<Rightarrow> revision_metadata option \<Rightarrow> cluster_extension \<Rightarrow> cluster_extension" where
  "mirror_installed now installed ext =
     (case installed of
        None \<Rightarrow> ext
      | Some i \<Rightarrow>
          (let ext1 = mirror_to_ext now i ClusterObjectSetTypeAvailable ext;
               ext2 = mirror_to_ext now i ClusterObjectSetTypeProgressing ext1;
               ext3 = setInstallStatus ext2 (Some (rm_Bundle i)) in
           with_active ext3 [\<lparr>rvs_Name = rm_RevisionName i, rvs_Conditions = []\<rparr>]))"

definition ApplyBundleWithBoxcutter :: "'fs ext_env \<Rightarrow> 'fs step" where
  "ApplyBundleWithBoxcutter env s ext =
     (case (st_resolved s, st_revisionStates s) of
        (Some r, Some rs) \<Rightarrow>
          (let now = ee_now env;
               (rolloutSucceeded, rolloutStatus, err) =
                 ee_Apply env (st_imageFS s) ext (object_labels ext) (revision_annotations r) in
           case err of
             Some e \<Rightarrow>
               (let ext1 = setStatusProgressing now ext (Some (wrapErrorWithResolutionInfo (rm_Bundle r) e)) in
                (s, (if \<not> is_terminal e then setInstalledStatusFromRevisionStates now ext1 rs else ext1), StepError e))
           | None \<Rightarrow>
               (let ext1 = with_active ext [];
                    ext2 = mirror_installed now (rs_Installed rs) ext1;
                    ext3 = mirror_rolling now (rs_RollingOut rs) ext2 in
                (s, setInstalledStatusFromRevisionStates now ext3 rs, StepNext)))
      | _ \<Rightarrow> (s, ext, StepPanic))"

subsection \<open>The pipelines\<close>

definition helm_steps :: "'fs ext_env \<Rightarrow> 'fs step list" where
  "helm_steps env =
     [HandleFinalizers env, ValidateClusterExtension env [ServiceAccountValidator env],
      RetrieveRevisionStates env, ResolveBundle env, UnpackBundle env, ApplyBundle env]"

definition boxcutter_steps :: "'fs ext_env \<Rightarrow> 'fs step list" where
  "boxcutter_steps env =
     [HandleFinalizers env, ValidateClusterExtension env [ServiceAccountValidator env], MigrateStorage env,
      RetrieveRevisionStates env, ResolveBundle env, UnpackBundle env, ApplyBundleWithBoxcutter env]"

definition init_state :: "'fs reconcile_state" where
  "init_state = \<lparr>st_revisionStates = None, st_resolved = None, st_imageFS = None,
     st_resolvedDeprecation = None, st_hasCatalogData = False\<rparr>"

fun run_steps :: "'fs step list \<Rightarrow> 'fs step" where
  "run_steps [] s ext = (s, ext, StepNext)"
| "run_steps (step # steps) s ext =
     (let (s1, ext1, res) = step s ext in
      case res of StepNext \<Rightarrow> run_steps steps s1 ext1 | _ \<Rightarrow> (s1, ext1, res))"

subsection \<open>Reconcile\<close>

definition CheckForUnexpectedFieldChange :: "cluster_extension \<Rightarrow> cluster_extension \<Rightarrow> bool" where
  "CheckForUnexpectedFieldChange a b \<longleftrightarrow>
     meta_Annotations (ext_Meta a) \<noteq> meta_Annotations (ext_Meta b) \<or>
     meta_Labels (ext_Meta a) \<noteq> meta_Labels (ext_Meta b) \<or> ext_Spec a \<noteq> ext_Spec b"

text \<open>\<open>None\<close> is a panic: a nil pointer, or the check for an unexpected change.\<close>

definition ext_Reconcile :: "'fs ext_env \<Rightarrow> 'fs step list \<Rightarrow> string \<Rightarrow> (cluster_extension option \<times> go_error option) option" where
  "ext_Reconcile env steps name =
     (case ee_Get env name of
        Inl e \<Rightarrow> Some (None, ignore_not_found (Some e))
      | Inr existingExt \<Rightarrow>
          (let (s, ext, res) = run_steps steps init_state existingExt in
           case res of
             StepPanic \<Rightarrow> None
           | _ \<Rightarrow>
               if CheckForUnexpectedFieldChange existingExt ext then None
               else
                 (let reconcileErr = (case res of StepError e \<Rightarrow> Some e | _ \<Rightarrow> None);
                      err1 = (if ext_Status existingExt \<noteq> ext_Status ext then
                          (case ee_UpdateStatus env ext of
                             None \<Rightarrow> reconcileErr
                           | Some e \<Rightarrow> errors_Join [reconcileErr, Some (ErrText (''error updating status: '' @ err_string e))])
                        else reconcileErr);
                      err2 = (if meta_Finalizers (ext_Meta existingExt) \<noteq> meta_Finalizers (ext_Meta ext) then
                          (case ee_PatchFinalizers env (meta_Finalizers (ext_Meta ext)) of
                             None \<Rightarrow> err1
                           | Some e \<Rightarrow> errors_Join [err1, Some (ErrText (''error updating finalizers: '' @ err_string e))])
                        else err1) in
                  Some (Some ext, err2))))"

section \<open>Lemmas\<close>

subsection \<open>The contract of a step\<close>

text \<open>
  What every step promises the next one: from a state it accepts it never panics, it keeps what
  \<open>Reconcile\<close> requires to be kept, and when it lets the pipeline go on, the state satisfies the
  precondition of the next step.
\<close>

definition ext_kept :: "cluster_extension \<Rightarrow> cluster_extension \<Rightarrow> bool" where
  "ext_kept ext ext' \<longleftrightarrow> ext_Spec ext' = ext_Spec ext \<and>
     meta_Annotations (ext_Meta ext') = meta_Annotations (ext_Meta ext) \<and>
     meta_Labels (ext_Meta ext') = meta_Labels (ext_Meta ext)"

lemma ext_kept_refl [simp]: "ext_kept ext ext"
  by (simp add: ext_kept_def)

lemma ext_kept_trans: "ext_kept a b \<Longrightarrow> ext_kept b c \<Longrightarrow> ext_kept a c"
  by (simp add: ext_kept_def)

locale pipeline_step =
  fixes step :: "'fs step"
    and pre :: "'fs reconcile_state \<Rightarrow> bool"
    and post :: "'fs reconcile_state \<Rightarrow> bool"
  assumes step_ok: "pre s \<Longrightarrow> step s ext = (s', ext', res) \<Longrightarrow>
    res \<noteq> StepPanic \<and> ext_kept ext ext' \<and> (res = StepNext \<longrightarrow> post s')"
begin

text \<open>A step followed by a pipeline that accepts what it leaves is again a step.\<close>

lemma followed_by:
  assumes "pipeline_step (run_steps steps) post post'"
  shows "pipeline_step (run_steps (step # steps)) pre post'"
proof
  fix s ext s' ext' res
  assume p: "pre s" and run: "run_steps (step # steps) s ext = (s', ext', res)"
  obtain s1 ext1 res1 where 1: "step s ext = (s1, ext1, res1)" by (cases "step s ext")
  note ok = step_ok [OF p 1]
  show "res \<noteq> StepPanic \<and> ext_kept ext ext' \<and> (res = StepNext \<longrightarrow> post' s')"
  proof (cases "res1 = StepNext")
    case True
    then have "run_steps steps s1 ext1 = (s', ext', res)" using run 1 by simp
    then show ?thesis using pipeline_step.step_ok [OF assms] ok True ext_kept_trans by blast
  next
    case False
    then have "s' = s1 \<and> ext' = ext1 \<and> res = res1" using run 1 by (cases res1) simp_all
    then show ?thesis using ok False by simp
  qed
qed

end

lemma no_steps: "pipeline_step (run_steps []) P P"
  by unfold_locales auto

abbreviation any_state :: "'fs reconcile_state \<Rightarrow> bool" where "any_state s \<equiv> True"
abbreviation has_states :: "'fs reconcile_state \<Rightarrow> bool" where "has_states s \<equiv> st_revisionStates s \<noteq> None"
abbreviation has_resolved :: "'fs reconcile_state \<Rightarrow> bool" where
  "has_resolved s \<equiv> st_revisionStates s \<noteq> None \<and> st_resolved s \<noteq> None"

lemma kept_marks [simp]:
  "ext_kept e (setStatusProgressing now e0 err) = ext_kept e e0"
  "ext_kept e (setInstalledStatusConditionUnknown now e0 m) = ext_kept e e0"
  "ext_kept e (setInstalledStatusFromRevisionStates now e0 rs) = ext_kept e e0"
  "ext_kept e (ensureFailureConditionsWithReason now e0 r m) = ext_kept e e0"
  "ext_kept e (SetDeprecationStatus now e0 n d h) = ext_kept e e0"
  "ext_kept e (setInstallStatus e0 i) = ext_kept e e0"
  "ext_kept e (put_ext_condition now e0 c) = ext_kept e e0"
  "ext_kept e (with_active e0 as) = ext_kept e e0"
  by (simp_all add: ext_kept_def e_progressing.keeps_spec e_progressing.keeps_meta e_unknown.keeps_spec
      e_unknown.keeps_meta e_installed.keeps_spec e_installed.keeps_meta e_failure.keeps_spec
      e_failure.keeps_meta e_deprecation.keeps_spec e_deprecation.keeps_meta put_ext_condition_def with_active_def)

lemma kept_mirror [simp]: "ext_kept e (mirror_to_ext now r t e0) = ext_kept e e0"
  by (simp add: mirror_to_ext_def split: option.split)

lemma kept_mirror_installed [simp]: "ext_kept e (mirror_installed now i e0) = ext_kept e e0"
  by (simp add: mirror_installed_def Let_def split: option.split)

lemma kept_from_deprecation [simp]: "ext_kept (SetDeprecationStatus now e0 n d h) e = ext_kept e0 e"
  by (simp add: ext_kept_def e_deprecation.keeps_spec e_deprecation.keeps_meta)

lemma kept_mirror_rolling [simp]: "ext_kept e (mirror_rolling now rs e0) = ext_kept e e0"
  by (induction now rs e0 rule: mirror_rolling.induct) (simp_all add: Let_def)

text \<open>What the finalizers of controller-runtime are relied on for.\<close>

definition finalize_ok :: "'fs ext_env \<Rightarrow> bool" where
  "finalize_ok env \<longleftrightarrow> (\<forall>ext. ext_kept ext (fst (ee_Finalize env ext)))"

lemma HandleFinalizers_step: "finalize_ok env \<Longrightarrow> pipeline_step (HandleFinalizers env) any_state any_state"
proof
  fix s s' :: "'a reconcile_state" and ext ext' res
  assume "finalize_ok env" and "HandleFinalizers env s ext = (s', ext', res)"
  moreover obtain ext1 u su err where "ee_Finalize env ext = (ext1, u, su, err)"
    by (cases "ee_Finalize env ext")
  ultimately show "res \<noteq> StepPanic \<and> ext_kept ext ext' \<and> (res = StepNext \<longrightarrow> True)"
    unfolding finalize_ok_def
    by (auto simp: HandleFinalizers_def split: option.splits if_splits dest: spec [of _ ext])
qed

interpretation validate_step: pipeline_step "ValidateClusterExtension env vs" any_state any_state for env vs
  by unfold_locales (auto simp: ValidateClusterExtension_def Let_def split: option.splits)

interpretation migrate_step: pipeline_step "MigrateStorage env" any_state any_state for env
  by unfold_locales (auto simp: MigrateStorage_def split: option.splits)

interpretation states_step: pipeline_step "RetrieveRevisionStates env" any_state has_states for env
  by unfold_locales (auto simp: RetrieveRevisionStates_def Let_def split: sum.splits)

lemma handleResolutionError_kept:
  "handleResolutionError env s rs ext err = (s', ext', res) \<Longrightarrow>
     res \<noteq> StepPanic \<and> ext_kept ext ext' \<and> st_revisionStates s' = st_revisionStates s \<and>
     (res = StepNext \<longrightarrow> st_resolved s' \<noteq> None)"
  by (auto simp: handleResolutionError_def resolution_failed_def Let_def
      split: option.splits if_splits sum.splits bool.splits)

interpretation resolve_step: pipeline_step "ResolveBundle env" has_states has_resolved for env
proof
  fix s s' :: "'a reconcile_state" and ext ext' res
  assume "has_states s" and "ResolveBundle env s ext = (s', ext', res)"
  then show "res \<noteq> StepPanic \<and> ext_kept ext ext' \<and> (res = StepNext \<longrightarrow> has_resolved s')"
    by (auto simp: ResolveBundle_def Let_def split: option.splits list.splits prod.splits sum.splits
        dest!: handleResolutionError_kept)
qed

interpretation unpack_step: pipeline_step "UnpackBundle env" has_resolved has_resolved for env
  by unfold_locales (auto simp: UnpackBundle_def Let_def split: option.splits sum.splits if_splits)

interpretation apply_step: pipeline_step "ApplyBundle env" has_resolved any_state for env
  by unfold_locales (auto simp: ApplyBundle_def Let_def split: option.splits prod.splits if_splits bool.splits)

interpretation boxcutter_apply_step: pipeline_step "ApplyBundleWithBoxcutter env" has_resolved any_state for env
  by unfold_locales
    (auto simp: ApplyBundleWithBoxcutter_def Let_def split: option.splits prod.splits if_splits)

lemma helm_pipeline: "finalize_ok env \<Longrightarrow> pipeline_step (run_steps (helm_steps env)) any_state any_state"
  unfolding helm_steps_def
  by (intro pipeline_step.followed_by [OF HandleFinalizers_step] validate_step.followed_by
      states_step.followed_by resolve_step.followed_by unpack_step.followed_by apply_step.followed_by no_steps)

lemma boxcutter_pipeline:
  "finalize_ok env \<Longrightarrow> pipeline_step (run_steps (boxcutter_steps env)) any_state any_state"
  unfolding boxcutter_steps_def
  by (intro pipeline_step.followed_by [OF HandleFinalizers_step] validate_step.followed_by
      migrate_step.followed_by states_step.followed_by resolve_step.followed_by unpack_step.followed_by
      boxcutter_apply_step.followed_by no_steps)

text \<open>A run that ends normally went through every step.\<close>

lemma run_steps_snoc:
  "run_steps (steps @ [step]) s ext = (s', ext', StepNext) \<longleftrightarrow>
     (\<exists>s1 ext1. run_steps steps s ext = (s1, ext1, StepNext) \<and> step s1 ext1 = (s', ext', StepNext))"
  by (induction steps arbitrary: s ext) (auto split: prod.splits step_result.splits)

subsection \<open>Steps that report their errors\<close>

definition reports_failure :: "cluster_extension \<Rightarrow> bool" where
  "reports_failure ext \<longleftrightarrow>
     (case cond_view (ext_conditions ext) TypeProgressing of
        Some (ConditionTrue, reason, m) \<Rightarrow> reason = ReasonRetrying
      | Some (ConditionFalse, reason, m) \<Rightarrow> True
      | _ \<Rightarrow> False)"

locale reporting_step = pipeline_step step pre post
  for step :: "'fs step" and pre :: "'fs reconcile_state \<Rightarrow> bool" and post :: "'fs reconcile_state \<Rightarrow> bool" +
  assumes reports: "pre s \<Longrightarrow> step s ext = (s', ext', StepError e) \<Longrightarrow> reports_failure ext'"
begin

lemma reporting_followed_by:
  assumes "reporting_step (run_steps steps) post post'"
  shows "reporting_step (run_steps (step # steps)) pre post'"
proof (intro reporting_step.intro reporting_step_axioms.intro)
  show "pipeline_step (run_steps (step # steps)) pre post'"
    using followed_by assms reporting_step.axioms(1) by blast
  fix s ext s' ext' e
  assume p: "pre s" and run: "run_steps (step # steps) s ext = (s', ext', StepError e)"
  obtain s1 ext1 res1 where 1: "step s ext = (s1, ext1, res1)" by (cases "step s ext")
  show "reports_failure ext'"
  proof (cases res1)
    case StepNext
    then have "run_steps steps s1 ext1 = (s', ext', StepError e)" using run 1 by simp
    then show ?thesis using reporting_step.reports [OF assms] step_ok [OF p 1] StepNext by blast
  qed (use run 1 reports [OF p] in auto)
qed

end

lemma no_steps_report: "reporting_step (run_steps []) P P"
  by unfold_locales auto

lemma progressing_reports [simp]: "reports_failure (setStatusProgressing now ext (Some err))"
  by (simp add: reports_failure_def setStatusProgressing_def Let_def)

lemma installed_reports [simp]:
  "reports_failure (setInstalledStatusFromRevisionStates now ext rs) = reports_failure ext"
  by (simp add: reports_failure_def e_installed.keeps_others)

lemma failure_conditions_report: "reports_failure ext \<Longrightarrow> reports_failure (ensureFailureConditionsWithReason now ext r m)"
  unfolding reports_failure_def
  by (subst ensureFailureConditions_fills(3)) (auto split: option.splits)

lemma resolution_failed_reports: "resolution_failed env s rs ext msg err = (s', ext', res) \<Longrightarrow> reports_failure ext'"
  by (auto simp: resolution_failed_def Let_def intro!: failure_conditions_report)

lemma HandleFinalizers_reports:
  "finalize_ok env \<Longrightarrow> reporting_step (HandleFinalizers env) any_state any_state"
  by (intro reporting_step.intro reporting_step_axioms.intro HandleFinalizers_step)
    (auto simp: HandleFinalizers_def split: option.splits if_splits prod.splits)

interpretation validate_report: reporting_step "ValidateClusterExtension env vs" any_state any_state for env vs
  by unfold_locales (auto simp: ValidateClusterExtension_def Let_def split: option.splits)

interpretation states_report: reporting_step "RetrieveRevisionStates env" any_state has_states for env
  by unfold_locales (auto simp: RetrieveRevisionStates_def Let_def split: sum.splits)

interpretation resolve_report: reporting_step "ResolveBundle env" has_states has_resolved for env
  by unfold_locales
    (auto simp: ResolveBundle_def handleResolutionError_def Let_def dest: resolution_failed_reports
      split: option.splits list.splits prod.splits sum.splits if_splits bool.splits)

interpretation unpack_report: reporting_step "UnpackBundle env" has_resolved has_resolved for env
  by unfold_locales (auto simp: UnpackBundle_def Let_def split: option.splits sum.splits if_splits)

interpretation apply_report: reporting_step "ApplyBundle env" has_resolved any_state for env
  by unfold_locales (auto simp: ApplyBundle_def Let_def split: option.splits prod.splits if_splits bool.splits)

interpretation boxcutter_apply_report: reporting_step "ApplyBundleWithBoxcutter env" has_resolved any_state for env
  by unfold_locales
    (auto simp: ApplyBundleWithBoxcutter_def Let_def split: option.splits prod.splits if_splits)

lemma helm_reports: "finalize_ok env \<Longrightarrow> reporting_step (run_steps (helm_steps env)) any_state any_state"
  unfolding helm_steps_def
  by (intro reporting_step.reporting_followed_by [OF HandleFinalizers_reports]
      validate_report.reporting_followed_by states_report.reporting_followed_by
      resolve_report.reporting_followed_by unpack_report.reporting_followed_by
      apply_report.reporting_followed_by no_steps_report)

subsection \<open>The states of the revisions\<close>

abbreviation active_revision :: "cluster_object_set \<Rightarrow> bool" where
  "active_revision c \<equiv> coss_LifecycleState (cos_Spec c) \<noteq> ClusterObjectSetLifecycleStateArchived"

abbreviation succeeded_revision :: "cluster_object_set \<Rightarrow> bool" where
  "succeeded_revision c \<equiv> IsStatusConditionTrue (cosst_Conditions (cos_Status c)) ClusterObjectSetTypeSucceeded"

lemma fold_add_revision:
  "rs_RollingOut (fold add_revision cs rs) =
     rs_RollingOut rs @ map revision_metadata_of (filter (\<lambda>c. active_revision c \<and> \<not> succeeded_revision c) cs)"
  "rs_Installed (fold add_revision cs rs) =
     (case filter (\<lambda>c. active_revision c \<and> succeeded_revision c) cs of
        [] \<Rightarrow> rs_Installed rs | xs \<Rightarrow> Some (revision_metadata_of (last xs)))"
  by (induction cs arbitrary: rs) (auto simp: add_revision_def split: list.splits)

lemma deprecation_install [simp]:
  "extst_Install (ext_Status (deprecation_condition now t ms none e)) = extst_Install (ext_Status e)"
  "extst_Install (ext_Status (unknown_deprecation now t e)) = extst_Install (ext_Status e)"
  by (simp_all add: deprecation_condition_def unknown_deprecation_def)

lemma install_kept:
  "extst_Install (ext_Status (setStatusProgressing now ext err)) = extst_Install (ext_Status ext)"
  "extst_Install (ext_Status (SetDeprecationStatus now ext name dep has)) = extst_Install (ext_Status ext)"
  by (simp_all add: setStatusProgressing_def SetDeprecationStatus_def Let_def)

lemma GenerateRevision_annotations:
  assumes "GenerateRevision g fs ext labels anns = Inr cos"
    and "k \<noteq> PropertyOLMProperties" "k \<noteq> ServiceAccountNameKey" "k \<noteq> ServiceAccountNamespaceKey"
  shows "ca_Annotations cos k = anns k"
  using assms by (auto simp: GenerateRevision_def Let_def buildClusterObjectSet_def split: sum.splits option.splits)

lemma helm_pipeline_success:
  assumes "run_steps (helm_steps env) init_state ext = (s', ext', StepNext)"
    and "cond_view (ext_conditions ext') TypeProgressing = Some (ConditionTrue, ReasonSucceeded, m)"
  shows "\<exists>r fs ext0 status. st_resolved s' = Some r \<and>
     ee_Apply env fs ext0 (object_labels ext0) (revision_annotations r) = (True, status, None) \<and>
     extst_Install (ext_Status ext') = Some (rm_Bundle r) \<and>
     IsStatusConditionTrue (ext_conditions ext') TypeInstalled"
proof -
  have "helm_steps env = [HandleFinalizers env, ValidateClusterExtension env [ServiceAccountValidator env],
      RetrieveRevisionStates env, ResolveBundle env, UnpackBundle env] @ [ApplyBundle env]"
    by (simp add: helm_steps_def)
  then obtain s1 ext1 where ap: "ApplyBundle env s1 ext1 = (s', ext', StepNext)"
    using assms(1) by (auto simp only: run_steps_snoc)
  then obtain r rs where 1: "st_resolved s1 = Some r" "st_revisionStates s1 = Some rs"
    by (auto simp: ApplyBundle_def split: option.splits)
  obtain ok status err where out: "ee_Apply env (st_imageFS s1) ext1 (object_labels ext1) (revision_annotations r) =
      (ok, status, err)" by (cases "ee_Apply env (st_imageFS s1) ext1 (object_labels ext1) (revision_annotations r)")
  note def = ap [unfolded ApplyBundle_def 1 out Let_def prod.case option.case]
  have "err = None" using def by (cases err) auto
  moreover have ok using def assms(2) calculation
    by (cases ok) (auto simp: put_ext_condition_def apimeta_view)
  ultimately show ?thesis
    using def 1 out
    by (intro exI [of _ r] exI [of _ "st_imageFS s1"] exI [of _ ext1] exI [of _ status])
      (auto simp: IsTrue_view e_progressing.keeps_others e_deprecation.keeps_others install_kept
        setInstalledStatusFromRevisionStates_def installed_defs isDeprecationCondition_def)
qed

section \<open>Properties\<close>

text \<open>
  C4: Neither pipeline can panic: when the extension exists, \<open>Reconcile\<close> returns, the
  specification, labels and annotations of the extension are those it read, and no step dereferences
  a nil pointer, whatever the resolver, the puller, the applier and the API server answer. The
  finalizers are taken to change nothing but the finalizer list and the status.
\<close>

theorem reconcile_never_panics:
  assumes "finalize_ok env" and "steps = helm_steps env \<or> steps = boxcutter_steps env"
    and "ee_Get env name = Inr ext"
  shows "\<exists>ext' err. ext_Reconcile env steps name = Some (Some ext', err) \<and> ext_Spec ext' = ext_Spec ext \<and>
     meta_Labels (ext_Meta ext') = meta_Labels (ext_Meta ext) \<and>
     meta_Annotations (ext_Meta ext') = meta_Annotations (ext_Meta ext)"
proof -
  obtain s' ext' res where run: "run_steps steps init_state ext = (s', ext', res)"
    by (cases "run_steps steps init_state ext")
  have "pipeline_step (run_steps steps) any_state any_state"
    using assms(1,2) helm_pipeline boxcutter_pipeline by blast
  then have "res \<noteq> StepPanic \<and> ext_kept ext ext'" using pipeline_step.step_ok run by blast
  then show ?thesis
    using assms(3) run
    by (cases res) (simp_all add: ext_Reconcile_def CheckForUnexpectedFieldChange_def ext_kept_def Let_def)
qed

text \<open>
  C5: No error of the Helm pipeline goes unreported: a run that ends with an error leaves a
  Progressing condition that is either true with reason Retrying or false.
\<close>

theorem helm_errors_reported:
  assumes "finalize_ok env" and "run_steps (helm_steps env) init_state ext = (s', ext', StepError e)"
  shows "\<exists>reason m. cond_view (ext_conditions ext') TypeProgressing = Some (ConditionTrue, ReasonRetrying, m) \<or>
     cond_view (ext_conditions ext') TypeProgressing = Some (ConditionFalse, reason, m)"
  using reporting_step.reports [OF helm_reports [OF assms(1)] _ assms(2)]
  by (auto simp: reports_failure_def split: option.splits prod.splits condition_status.splits)

text \<open>
  C6: Success means installed: when the Helm pipeline runs to its end and reports Progressing with
  reason Succeeded, the applier succeeded without an error, the bundle in the install status is the
  one the run resolved, and the Installed condition is true.
\<close>

theorem helm_success_means_installed:
  assumes "run_steps (helm_steps env) init_state ext = (s', ext', StepNext)"
    and "cond_view (ext_conditions ext') TypeProgressing = Some (ConditionTrue, ReasonSucceeded, m)"
  shows "\<exists>r fs ext0 status. st_resolved s' = Some r \<and>
     ee_Apply env fs ext0 (object_labels ext0) (revision_annotations r) = (True, status, None) \<and>
     extst_Install (ext_Status ext') = Some (rm_Bundle r) \<and>
     IsStatusConditionTrue (ext_conditions ext') TypeInstalled"
  using helm_pipeline_success [OF assms] .

text \<open>
  When resolution fails, the step goes on with the installed bundle exactly when there is one,
  the specification asks for no version or for that version, and there is certainly no catalog left to
  resolve from; in every other case the step ends with the resolver's error. The state then holds the
  installed bundle as the resolved one.
\<close>

theorem resolution_fallback_iff:
  assumes "st_revisionStates s = Some rs" and "rs_RollingOut rs = []"
    and "ee_Resolve env ext (map_option rm_Bundle (rs_Installed rs)) = (Inl err, dep)"
    and "ResolveBundle env s ext = (s', ext', res)"
  shows "(res = StepNext \<longleftrightarrow>
      (\<exists>i. rs_Installed rs = Some i \<and> CheckCatalogsExist env ext = Inr False \<and>
         (case src_Catalog (exts_Source (ext_Spec ext)) of None \<Rightarrow> True
          | Some cf \<Rightarrow> cf_Version cf = '''' \<or> cf_Version cf = bm_Version (rm_Bundle i)))) \<and>
    (res = StepNext \<longrightarrow> st_resolved s' = rs_Installed rs) \<and> (res \<noteq> StepNext \<longrightarrow> res = StepError err)"
proof -
  have "CheckCatalogsExist env (SetDeprecationStatus now ext n d h) = CheckCatalogsExist env ext" for now n d h
    by (simp add: CheckCatalogsExist_def e_deprecation.keeps_spec)
  then show ?thesis
    using assms
    by (auto simp: ResolveBundle_def handleResolutionError_def resolution_failed_def Let_def
        e_deprecation.keeps_spec split: option.splits if_splits sum.splits bool.splits)
qed

text \<open>
  The revision states read back from the cluster: the installed revision is the active revision
  with the greatest number among those that succeeded (and there is one when any active revision
  succeeded), and the rolling-out revisions are all other active revisions, in ascending order.
\<close>

theorem revision_states_from_cluster:
  assumes "listRevisions (meta_Name (ext_Meta ext)) = Inr items"
  shows "\<exists>states rolling. boxcutter_GetRevisionStates listRevisions ext = Inr states \<and>
     (case rs_Installed states of
        None \<Rightarrow> \<not> (\<exists>c \<in> set items. active_revision c \<and> succeeded_revision c)
      | Some m \<Rightarrow> \<exists>c \<in> set items. m = revision_metadata_of c \<and> active_revision c \<and> succeeded_revision c \<and>
          (\<forall>d \<in> set items. active_revision d \<and> succeeded_revision d \<longrightarrow>
             coss_Revision (cos_Spec d) \<le> coss_Revision (cos_Spec c))) \<and>
     rs_RollingOut states = map revision_metadata_of rolling \<and>
     mset rolling = filter_mset (\<lambda>c. active_revision c \<and> \<not> succeeded_revision c) (mset items) \<and>
     sorted (map (\<lambda>c. coss_Revision (cos_Spec c)) rolling)"
proof -
  let ?sorted = "sort_by compare_revision items"
  let ?ok = "\<lambda>c. active_revision c \<and> succeeded_revision c"
  let ?states = "fold add_revision ?sorted \<lparr>rs_Installed = None, rs_RollingOut = []\<rparr>"
  let ?rolling = "filter (\<lambda>c. active_revision c \<and> \<not> succeeded_revision c) ?sorted"
  have srt: "sorted_wrt (\<lambda>a b. compare_revision a b \<le> 0) ?sorted" by (rule rev_cmp.sorted_sort_by)
  have le: "compare_revision a b \<le> 0 \<longleftrightarrow> coss_Revision (cos_Spec a) \<le> coss_Revision (cos_Spec b)" for a b
    by (auto simp: compare_revision_def go_compare_def)
  have ms: "mset ?sorted = mset items" by (rule rev_cmp.mset_sort_by)
  then have mem: "set ?sorted = set items" by (rule mset_eq_setD)
  have inst: "case rs_Installed ?states of
        None \<Rightarrow> \<not> (\<exists>c \<in> set items. ?ok c)
      | Some m \<Rightarrow> \<exists>c \<in> set items. m = revision_metadata_of c \<and> ?ok c \<and>
          (\<forall>d \<in> set items. ?ok d \<longrightarrow> coss_Revision (cos_Spec d) \<le> coss_Revision (cos_Spec c))"
  proof (cases "filter ?ok ?sorted = []")
    case True
    then show ?thesis using mem by (simp add: fold_add_revision(2) filter_empty_conv)
  next
    case False
    let ?c = "last (filter ?ok ?sorted)"
    have "?c \<in> set (filter ?ok ?sorted)" using False by (rule last_in_set)
    moreover have "rs_Installed ?states = Some (revision_metadata_of ?c)"
      using False by (simp add: fold_add_revision(2) split: list.split)
    moreover have "sorted_wrt (\<lambda>a b. compare_revision a b \<le> 0) (filter ?ok ?sorted)"
      using srt by (rule sorted_wrt_filter)
    ultimately show ?thesis
      using rev_cmp.last_sorted_greatest mem le by (auto intro!: bexI [of _ ?c])
  qed
  have "sorted (map (\<lambda>c. coss_Revision (cos_Spec c)) ?rolling)"
    using sorted_wrt_filter [OF srt, of "\<lambda>c. active_revision c \<and> \<not> succeeded_revision c"]
    by (simp add: sorted_map le)
  moreover have "mset ?rolling = filter_mset (\<lambda>c. active_revision c \<and> \<not> succeeded_revision c) (mset items)"
    by (simp add: ms)
  ultimately show ?thesis
    using inst [unfolded conj_assoc] assms by (intro exI [of _ ?states] exI [of _ ?rolling])
      (simp add: boxcutter_GetRevisionStates_def fold_add_revision(1))
qed

text \<open>
  The bundle an extension resolved survives the round trip through the cluster: a revision
  generated with the annotations of a resolved bundle is read back as that bundle, package and image.
\<close>

theorem revision_metadata_roundtrip:
  assumes "GenerateRevision g fs ext labels (revision_annotations r) = Inr cos"
    and "meta_Annotations (cos_Meta c) = ca_Annotations cos"
  shows "rm_Bundle (revision_metadata_of c) = rm_Bundle r \<and> rm_Package (revision_metadata_of c) = rm_Package r \<and>
    rm_Image (revision_metadata_of c) = rm_Image r"
proof -
  have "ca_Annotations cos k = revision_annotations r k"
    if "k \<in> {BundleNameKey, PackageNameKey, BundleVersionKey, BundleReferenceKey, BundleReleaseKey}" for k
    using that GenerateRevision_annotations [OF assms(1), of k] by (auto simp: label_keys PropertyOLMProperties_def)
  then show ?thesis
    using assms(2)
    by (simp add: revision_metadata_of_def Let_def map_get_def revision_annotations_def label_keys split: option.split)
qed

subsection \<open>Concrete runs\<close>

definition ex_installed_rev :: revision_metadata where
  "ex_installed_rev = \<lparr>rm_RevisionName = '''', rm_Package = ''p'', rm_Image = ''img'',
     rm_Bundle = \<lparr>bm_Name = ''p.v1'', bm_Version = ''1.0.0'', bm_Release = None\<rparr>, rm_Conditions = []\<rparr>"

text \<open>Nothing can be resolved and no catalog is left; the applier succeeds or fails.\<close>

definition ex_step_env :: "go_error option \<Rightarrow> unit ext_env" where
  "ex_step_env applyErr =
     \<lparr>ee_now = 0, ee_bundleReleaseSupport = False,
      ee_Finalize = (\<lambda>ext. (ext, False, False, None)),
      ee_GetServiceAccount = (\<lambda>ns sa. None), ee_Migrate = (\<lambda>ext ls. None),
      ee_GetRevisionStates = (\<lambda>ext. Inr \<lparr>rs_Installed = Some ex_installed_rev, rs_RollingOut = []\<rparr>),
      ee_Resolve = (\<lambda>ext bm. (Inl (ErrText ''no bundles found''), None)),
      ee_LabelSelectorAsSelector = (\<lambda>ls. Inl (ErrText ''invalid'')),
      ee_ListCatalogs = (\<lambda>sel. CatalogsOk []),
      ee_Pull = (\<lambda>name img. Inl (ErrText ''unreachable'')),
      ee_Apply = (\<lambda>fs ext ls anns. (applyErr = None, '''', applyErr)),
      ee_Get = (\<lambda>name. Inr ex_ext), ee_UpdateStatus = (\<lambda>ext. None), ee_PatchFinalizers = (\<lambda>fs. None)\<rparr>"

lemma ex_finalize_ok: "finalize_ok (ex_step_env err)"
  by (simp add: finalize_ok_def ex_step_env_def)

theorem reconcile_never_panics_witness:
  "\<exists>ext' err. ext_Reconcile (ex_step_env None) (boxcutter_steps (ex_step_env None)) ''e'' = Some (Some ext', err) \<and>
     ext_Spec ext' = ext_Spec ex_ext"
  using reconcile_never_panics [OF ex_finalize_ok [of None], of "boxcutter_steps (ex_step_env None)" "''e''" ex_ext]
  by (auto simp: ex_step_env_def)

definition ex_step_ext :: cluster_extension where
  "ex_step_ext = ex_ext\<lparr>ext_Spec := (ext_Spec ex_ext)\<lparr>exts_Source :=
     \<lparr>src_SourceType = ''Catalog'', src_Catalog = None\<rparr>\<rparr>\<rparr>"

lemma ex_step_ext_simps: "meta_DeletionTimestamp (ext_Meta ex_step_ext) = None"
  "src_Catalog (exts_Source (ext_Spec ex_step_ext)) = None"
  by (simp_all add: ex_step_ext_def ex_ext_def ex_meta_def)

definition ex_run :: "go_error option \<Rightarrow> unit step_out" where
  "ex_run err = run_steps (helm_steps (ex_step_env err)) init_state ex_step_ext"

lemmas ex_run_simps = ex_run_def helm_steps_def HandleFinalizers_def ValidateClusterExtension_def
  ServiceAccountValidator_def RetrieveRevisionStates_def ResolveBundle_def handleResolutionError_def
  CheckCatalogsExist_def UnpackBundle_def bundle_unchanged_def ApplyBundle_def ex_step_env_def ex_step_ext_simps
  init_state_def Let_def e_deprecation.keeps_spec e_deprecation.keeps_meta errors_Join_def

lemma ex_run_fails: "snd (snd (ex_run (Some (ErrText ''conflict'')))) = StepError (ErrText ''conflict'')"
  by (simp add: ex_run_simps)

lemma ex_run_succeeds:
  "snd (snd (ex_run None)) = StepNext"
  "cond_view (ext_conditions (fst (snd (ex_run None)))) TypeProgressing =
     Some (ConditionTrue, ReasonSucceeded, truncateMessage ''Desired state reached'')"
  by (simp_all add: ex_run_simps setStatusProgressing_def)

theorem helm_errors_reported_witness:
  "\<exists>reason m. cond_view (ext_conditions (fst (snd (ex_run (Some (ErrText ''conflict'')))))) TypeProgressing =
       Some (ConditionTrue, ReasonRetrying, m) \<or>
     cond_view (ext_conditions (fst (snd (ex_run (Some (ErrText ''conflict'')))))) TypeProgressing =
       Some (ConditionFalse, reason, m)"
  using helm_errors_reported [OF ex_finalize_ok, of "Some (ErrText ''conflict'')" ex_step_ext
      "fst (ex_run (Some (ErrText ''conflict'')))" "fst (snd (ex_run (Some (ErrText ''conflict''))))"]
    ex_run_fails unfolding ex_run_def by (metis prod.collapse)

theorem helm_success_means_installed_witness:
  "\<exists>r. st_resolved (fst (ex_run None)) = Some r \<and>
     extst_Install (ext_Status (fst (snd (ex_run None)))) = Some (rm_Bundle r) \<and>
     IsStatusConditionTrue (ext_conditions (fst (snd (ex_run None)))) TypeInstalled"
  using helm_success_means_installed [of "ex_step_env None" ex_step_ext "fst (ex_run None)" "fst (snd (ex_run None))"]
    ex_run_succeeds unfolding ex_run_def by (metis prod.collapse)

theorem resolution_fallback_iff_witness:
  "snd (snd (ResolveBundle (ex_step_env None)
      (init_state\<lparr>st_revisionStates := Some \<lparr>rs_Installed = Some ex_installed_rev, rs_RollingOut = []\<rparr>\<rparr>)
      ex_step_ext)) = StepNext"
proof -
  let ?s = "init_state\<lparr>st_revisionStates := Some \<lparr>rs_Installed = Some ex_installed_rev, rs_RollingOut = []\<rparr>\<rparr>"
  obtain s' ext' res where run: "ResolveBundle (ex_step_env None) ?s ex_step_ext = (s', ext', res)"
    by (cases "ResolveBundle (ex_step_env None) ?s ex_step_ext")
  show ?thesis
    using resolution_fallback_iff [OF _ _ _ run, of "\<lparr>rs_Installed = Some ex_installed_rev, rs_RollingOut = []\<rparr>"
        "ErrText ''no bundles found''" None]
    by (simp add: run) (simp add: ex_step_env_def ex_step_ext_def CheckCatalogsExist_def)
qed

theorem revision_states_from_cluster_witness:
  "\<exists>states rolling. boxcutter_GetRevisionStates (\<lambda>name. Inr []) ex_ext = Inr states \<and> rs_Installed states = None \<and>
     rs_RollingOut states = map revision_metadata_of rolling \<and> rolling = []"
  using revision_states_from_cluster [of "\<lambda>name. Inr []" ex_ext "[]"]
  by (auto simp: boxcutter_GetRevisionStates_def)

theorem revision_metadata_roundtrip_witness:
  "\<exists>cos. GenerateRevision sample_generator () ex_ext [] (revision_annotations ex_installed_rev) = Inr cos \<and>
     (\<forall>c. meta_Annotations (cos_Meta c) = ca_Annotations cos \<longrightarrow>
        rm_Bundle (revision_metadata_of c) = \<lparr>bm_Name = ''p.v1'', bm_Version = ''1.0.0'', bm_Release = None\<rparr>)"
proof -
  obtain cos where cos: "GenerateRevision sample_generator () ex_ext [] (revision_annotations ex_installed_rev) = Inr cos"
    by (simp add: GenerateRevision_def sample_generator_def generate_object_def Let_def)
  then show ?thesis
    using revision_metadata_roundtrip [OF cos] by (auto simp: ex_installed_rev_def)
qed

end
