(* ===== verification/Helm_Applier.thy ===== *)
theory Helm_Applier
  imports Extension_Steps
begin

text \<open>
  The applier that installs a bundle as a Helm release (\<open>applier/helm.go\<close>). The action client of
  Helm, the chart loader, the pre-authorizer and the content manager are fields of \<open>helm\<close>; a run
  returns the calls that act on the cluster or on watches, in order, and its result. A nil pointer
  that the code would dereference is the result \<open>None\<close>.
\<close>

section \<open>Definitions\<close>

record install_opts =
  io_DryRun :: bool
  io_DryRunOption :: string
  io_ReleaseName :: string
  io_Replace :: bool
  io_ClientOnly :: bool
  io_IncludeCRDs :: bool
  io_IsUpgrade :: bool
  io_CreateNamespace :: bool
  io_Labels :: "string_map option"

record upgrade_opts =
  uo_DryRun :: bool
  uo_DryRunOption :: string
  uo_MaxHistory :: int
  uo_Labels :: "string_map option"

definition default_install :: install_opts where
  "default_install = \<lparr>io_DryRun = False, io_DryRunOption = '''', io_ReleaseName = '''', io_Replace = False,
     io_ClientOnly = False, io_IncludeCRDs = False, io_IsUpgrade = False, io_CreateNamespace = False,
     io_Labels = None\<rparr>"

definition default_upgrade :: upgrade_opts where
  "default_upgrade = \<lparr>uo_DryRun = False, uo_DryRunOption = '''', uo_MaxHistory = 0, uo_Labels = None\<rparr>"

definition maxHelmReleaseHistory :: int where
  "maxHelmReleaseHistory = 10"

datatype 'c helm_action =
    HaInstall install_opts 'c
  | HaUpgrade upgrade_opts 'c
  | HaReconcile helm_release
  | HaWatch "json list"

text \<open>\<open>hm_Manager\<close> and \<open>hm_Watcher\<close> may be nil; \<open>hm_IsBundleSourceChart\<close> gives name and version of a chart.\<close>

record ('fs, 'c) helm =
  hm_ActionClientFor :: "cluster_extension \<Rightarrow> go_error option"
  hm_Get :: "string \<Rightarrow> helm_release helm_result"
  hm_Install :: "install_opts \<Rightarrow> string \<Rightarrow> string \<Rightarrow> 'c \<Rightarrow> (string \<times> string) list \<Rightarrow> helm_release result"
  hm_Upgrade :: "upgrade_opts \<Rightarrow> string \<Rightarrow> string \<Rightarrow> 'c \<Rightarrow> (string \<times> string) list \<Rightarrow> helm_release result"
  hm_Reconcile :: "helm_release \<Rightarrow> go_error option"
  hm_Preflights :: "preflight list"
  hm_PreAuthorizer :: "(user_info \<Rightarrow> string \<Rightarrow> attributes_record list \<Rightarrow> scoped_policy_rules list \<times> go_error option) option"
  hm_HelmChartProvider :: "('fs \<Rightarrow> cluster_extension \<Rightarrow> 'c result) option"
  hm_HelmChartSupport :: bool
  hm_IsBundleSourceChart :: "'fs \<Rightarrow> (string \<times> string) option"
  hm_LoadChartFS :: "'fs \<Rightarrow> string \<Rightarrow> string \<Rightarrow> 'c result"
  hm_ManifestObjects :: "string \<Rightarrow> string \<Rightarrow> json list result"
  hm_Manager :: "(cluster_extension \<Rightarrow> go_error option) option"
  hm_Watcher :: "string option"
  hm_Watch :: "string option \<Rightarrow> json list \<Rightarrow> go_error option"

record 'c helm_out =
  ho_actions :: "'c helm_action list"
  ho_result :: "(bool \<times> string \<times> go_error option) option"

definition helm_done :: "'c helm_action list \<Rightarrow> bool \<Rightarrow> go_error option \<Rightarrow> 'c helm_out" where
  "helm_done acts ok err = \<lparr>ho_actions = acts, ho_result = Some (ok, '''', err)\<rparr>"

definition helm_panic :: "'c helm_action list \<Rightarrow> 'c helm_out" where
  "helm_panic acts = \<lparr>ho_actions = acts, ho_result = None\<rparr>"

subsection \<open>Charts and releases\<close>

definition release_objects :: "('fs, 'c) helm \<Rightarrow> helm_release \<Rightarrow> json list result" where
  "release_objects h rel = hm_ManifestObjects h (hr_Manifest rel) (hr_Name rel @ ''-release-manifest'')"

definition GetObjectsFromRelease :: "('fs, 'c) helm \<Rightarrow> helm_release option \<Rightarrow> json list result" where
  "GetObjectsFromRelease h rel =
     (case rel of
        None \<Rightarrow> Inr []
      | Some r \<Rightarrow>
          (case release_objects h r of
             Inl e \<Rightarrow> Inl (ErrWrap (''parsing release '' @ go_quote (hr_Name r) @ '' objects: '') e '''')
           | Inr objs \<Rightarrow> Inr objs))"

definition buildHelmChart :: "('fs, 'c) helm \<Rightarrow> 'fs \<Rightarrow> cluster_extension \<Rightarrow> 'c result" where
  "buildHelmChart h bundleFS ext =
     (case hm_HelmChartProvider h of
        None \<Rightarrow> Inl (ErrText ''HelmChartProvider is nil'')
      | Some provide \<Rightarrow>
          (case (if hm_HelmChartSupport h then hm_IsBundleSourceChart h bundleFS else None) of
             Some (name, version) \<Rightarrow>
               hm_LoadChartFS h bundleFS (name @ ''-'' @ version @ ''.tgz'') (exts_Namespace (ext_Spec ext))
           | None \<Rightarrow> provide bundleFS ext))"

abbreviation ext_name :: "cluster_extension \<Rightarrow> string" where "ext_name ext \<equiv> meta_Name (ext_Meta ext)"
abbreviation ext_namespace :: "cluster_extension \<Rightarrow> string" where "ext_namespace ext \<equiv> exts_Namespace (ext_Spec ext)"

definition renderClientOnlyRelease ::
  "('fs, 'c) helm \<Rightarrow> cluster_extension \<Rightarrow> 'c \<Rightarrow> (string \<times> string) list \<Rightarrow> 'c helm_action list \<times> helm_release result" where
  "renderClientOnlyRelease h ext chrt post =
     (case hm_ActionClientFor h ext of
        Some e \<Rightarrow> ([], Inl e)
      | None \<Rightarrow>
          (let current = hm_Get h (ext_name ext) in
           case current of
             HelmError e \<Rightarrow> ([], Inl e)
           | _ \<Rightarrow>
               (let isUpgrade = (case current of HelmOk rel \<Rightarrow> True | _ \<Rightarrow> False);
                    opts = default_install\<lparr>io_DryRun := True, io_ReleaseName := ext_name ext, io_Replace := True,
                      io_ClientOnly := True, io_IncludeCRDs := True, io_IsUpgrade := isUpgrade\<rparr> in
                ([HaInstall opts chrt], hm_Install h opts (ext_name ext) (ext_namespace ext) chrt post))))"

definition helm_runPreAuthorizationChecks ::
  "('fs, 'c) helm \<Rightarrow> (user_info \<Rightarrow> string \<Rightarrow> attributes_record list \<Rightarrow> scoped_policy_rules list \<times> go_error option) \<Rightarrow>
   cluster_extension \<Rightarrow> 'c \<Rightarrow> (string \<times> string) list \<Rightarrow> 'c helm_action list \<times> go_error option" where
  "helm_runPreAuthorizationChecks h preAuthorize ext chrt post =
     (let (acts, tmpl) = renderClientOnlyRelease h ext chrt post in
      case tmpl of
        Inl e \<Rightarrow> (acts, Some (ErrWrap ''error rendering content for pre-authorization checks: '' e ''''))
      | Inr tmplRel \<Rightarrow>
          (let user = getUserInfo ext;
               (missing, err) = preAuthorize user (hr_Manifest tmplRel) (extManagementPerms ext user) in
           (acts, formatPreAuthorizerOutput missing err)))"

abbreviation StatusFailed :: string where "StatusFailed \<equiv> ''failed''"
abbreviation StatusSuperseded :: string where "StatusSuperseded \<equiv> ''superseded''"

text \<open>
  The state of the release from a server-side dry run. Of the current release the status is read
  only when the manifests agree; without an \<open>Info\<close> that is a nil dereference (\<open>RsPanic\<close>).
\<close>

datatype release_state =
    RsError go_error
  | RsPanic
  | RsState "helm_release option" helm_release string

definition getReleaseState ::
  "('fs, 'c) helm \<Rightarrow> cluster_extension \<Rightarrow> 'c \<Rightarrow> (string \<times> string) list \<Rightarrow> 'c helm_action list \<times> release_state" where
  "getReleaseState h ext chrt post =
     (case hm_Get h (ext_name ext) of
        HelmNotFound \<Rightarrow>
          (let opts = default_install\<lparr>io_DryRun := True, io_DryRunOption := ''server''\<rparr> in
           ([HaInstall opts chrt],
            case hm_Install h opts (ext_name ext) (ext_namespace ext) chrt post of
              Inl e \<Rightarrow> RsError e
            | Inr desired \<Rightarrow> RsState None desired StateNeedsInstall))
      | HelmError e \<Rightarrow> ([], RsError e)
      | HelmOk current \<Rightarrow>
          (let opts = default_upgrade\<lparr>uo_MaxHistory := maxHelmReleaseHistory, uo_DryRun := True,
                 uo_DryRunOption := ''server''\<rparr> in
           ([HaUpgrade opts chrt],
            case hm_Upgrade h opts (ext_name ext) (ext_namespace ext) chrt post of
              Inl e \<Rightarrow> RsError e
            | Inr desired \<Rightarrow>
                if hr_Manifest desired \<noteq> hr_Manifest current
                then RsState (Some current) desired StateNeedsUpgrade
                else
                  (case hr_Status current of
                     None \<Rightarrow> RsPanic
                   | Some st \<Rightarrow>
                       RsState (Some current) desired
                         (if st = StatusFailed \<or> st = StatusSuperseded then StateNeedsUpgrade else StateUnchanged)))))"

subsection \<open>Apply\<close>

definition reconcileExistingRelease :: "('fs, 'c) helm \<Rightarrow> cluster_extension \<Rightarrow> 'c helm_out" where
  "reconcileExistingRelease h ext =
     (case hm_Get h (ext_name ext) of
        HelmNotFound \<Rightarrow>
          helm_done [] False (Some (ErrText ''catalog content unavailable and no release installed''))
      | HelmError e \<Rightarrow> helm_done [] False (Some (ErrWrap ''failed to get current release: '' e ''''))
      | HelmOk rel \<Rightarrow>
          (case hm_Reconcile h rel of
             Some e \<Rightarrow> helm_done [HaReconcile rel] False (Some e)
           | None \<Rightarrow>
               (case (release_objects h rel, hm_Manager h) of
                  (Inr objs, Some getCache) \<Rightarrow>
                    if getCache ext = None \<and> hm_Watcher h \<noteq> None
                    then helm_done [HaReconcile rel, HaWatch objs] True None
                    else helm_done [HaReconcile rel] True None
                | _ \<Rightarrow> helm_done [HaReconcile rel] True None)))"

text \<open>The change to the cluster that the state of the release asks for, and the resulting release.\<close>

definition perform_change ::
  "('fs, 'c) helm \<Rightarrow> cluster_extension \<Rightarrow> 'c \<Rightarrow> (string \<times> string) list \<Rightarrow> string_map \<Rightarrow> helm_release option \<Rightarrow> string \<Rightarrow>
   'c helm_action list \<times> helm_release option result" where
  "perform_change h ext chrt post storageLabels rel state =
     (if state = StateNeedsInstall then
        (let opts = default_install\<lparr>io_CreateNamespace := False, io_Labels := Some storageLabels\<rparr> in
         ([HaInstall opts chrt],
          case hm_Install h opts (ext_name ext) (ext_namespace ext) chrt post of Inl e \<Rightarrow> Inl e | Inr r \<Rightarrow> Inr (Some r)))
      else if state = StateNeedsUpgrade then
        (let opts = default_upgrade\<lparr>uo_MaxHistory := maxHelmReleaseHistory, uo_Labels := Some storageLabels\<rparr> in
         ([HaUpgrade opts chrt],
          case hm_Upgrade h opts (ext_name ext) (ext_namespace ext) chrt post of Inl e \<Rightarrow> Inl e | Inr r \<Rightarrow> Inr (Some r)))
      else if state = StateUnchanged then
        (case rel of
           None \<Rightarrow> ([], Inr None)
         | Some r \<Rightarrow>
             ([HaReconcile r], case hm_Reconcile h r of Some e \<Rightarrow> Inl e | None \<Rightarrow> Inr (Some r)))
      else ([], Inl (ErrText (''unexpected release state '' @ go_quote state))))"

text \<open>The watches on the objects of a release; the content manager is not checked for nil here.\<close>

definition watch_release :: "('fs, 'c) helm \<Rightarrow> cluster_extension \<Rightarrow> helm_release \<Rightarrow> 'c helm_out" where
  "watch_release h ext rel =
     (case release_objects h rel of
        Inl e \<Rightarrow> helm_done [] True (Some e)
      | Inr objs \<Rightarrow>
          (case hm_Manager h of
             None \<Rightarrow> helm_panic []
           | Some getCache \<Rightarrow>
               (case getCache ext of
                  Some e \<Rightarrow> helm_done [] True (Some e)
                | None \<Rightarrow> helm_done [HaWatch objs] True (hm_Watch h (hm_Watcher h) objs))))"

definition helm_prepend :: "'c helm_action list \<Rightarrow> 'c helm_out \<Rightarrow> 'c helm_out" where
  "helm_prepend acts out = \<lparr>ho_actions = acts @ ho_actions out, ho_result = ho_result out\<rparr>"

text \<open>From the state of the release on.\<close>

definition apply_release ::
  "('fs, 'c) helm \<Rightarrow> cluster_extension \<Rightarrow> 'c \<Rightarrow> (string \<times> string) list \<Rightarrow> string_map \<Rightarrow> 'c helm_out" where
  "apply_release h ext chrt post storageLabels =
     (case hm_ActionClientFor h ext of
        Some e \<Rightarrow> helm_done [] False (Some e)
      | None \<Rightarrow>
          (let (acts, st) = getReleaseState h ext chrt post in
           case st of
             RsPanic \<Rightarrow> helm_panic acts
           | RsError e \<Rightarrow>
               helm_done acts False (Some (ErrWrap ''failed to get release state using server-side dry-run: '' e ''''))
           | RsState rel desiredRel state \<Rightarrow>
               (case GetObjectsFromRelease h (Some desiredRel) of
                  Inl e \<Rightarrow> helm_done acts False (Some e)
                | Inr objs \<Rightarrow>
                    (case run_preflights (hm_Preflights h) ext state objs of
                       Some e \<Rightarrow> helm_done acts False (Some e)
                     | None \<Rightarrow>
                         (let (changes, changed) = perform_change h ext chrt post storageLabels rel state in
                          helm_prepend (acts @ changes)
                            (case changed of
                               Inl e \<Rightarrow> helm_done [] False (Some e)
                             | Inr None \<Rightarrow> helm_panic []
                             | Inr (Some rel') \<Rightarrow> watch_release h ext rel'))))))"

definition helm_Apply ::
  "('fs, 'c) helm \<Rightarrow> 'fs option \<Rightarrow> cluster_extension \<Rightarrow> (string \<times> string) list \<Rightarrow> string_map \<Rightarrow> 'c helm_out" where
  "helm_Apply h contentFS ext objectLabels storageLabels =
     (case contentFS of
        None \<Rightarrow>
          (case hm_ActionClientFor h ext of
             Some e \<Rightarrow> helm_done [] False (Some e)
           | None \<Rightarrow> reconcileExistingRelease h ext)
      | Some bundleFS \<Rightarrow>
          (case buildHelmChart h bundleFS ext of
             Inl e \<Rightarrow> helm_done [] False (Some e)
           | Inr chrt \<Rightarrow>
               (case hm_PreAuthorizer h of
                  None \<Rightarrow> apply_release h ext chrt objectLabels storageLabels
                | Some preAuthorize \<Rightarrow>
                    (let (acts, err) = helm_runPreAuthorizationChecks h preAuthorize ext chrt objectLabels in
                     case err of
                       Some e \<Rightarrow> helm_done acts False (Some e)
                     | None \<Rightarrow> helm_prepend acts (apply_release h ext chrt objectLabels storageLabels)))))"

subsection \<open>The post-renderer\<close>

text \<open>
  It labels every document of the rendered manifests. The decoder is given by the documents and
  errors it yields before the end of the stream, the encoder by \<open>marshal\<close>.
\<close>

fun postrenderer_Run ::
  "(json \<Rightarrow> string result) \<Rightarrow> (string \<times> string) list \<Rightarrow> json result list \<Rightarrow> string result" where
  "postrenderer_Run marshal labels [] = Inr ''''"
| "postrenderer_Run marshal labels (Inl e # docs) = Inl e"
| "postrenderer_Run marshal labels (Inr obj # docs) =
     (case marshal (SetLabels obj (mergeStringMaps (json_labels obj) labels)) of
        Inl e \<Rightarrow> Inl e
      | Inr b \<Rightarrow>
          (case postrenderer_Run marshal labels docs of Inl e \<Rightarrow> Inl e | Inr rest \<Rightarrow> Inr (b @ rest)))"

section \<open>Lemmas\<close>

subsection \<open>What changes the cluster\<close>

fun changes_cluster :: "'c helm_action \<Rightarrow> bool" where
  "changes_cluster (HaInstall opts c) \<longleftrightarrow> \<not> io_DryRun opts"
| "changes_cluster (HaUpgrade opts c) \<longleftrightarrow> \<not> uo_DryRun opts"
| "changes_cluster (HaReconcile rel) \<longleftrightarrow> True"
| "changes_cluster (HaWatch objs) \<longleftrightarrow> False"

fun change_succeeded :: "('fs, 'c) helm \<Rightarrow> cluster_extension \<Rightarrow> (string \<times> string) list \<Rightarrow> 'c helm_action \<Rightarrow> bool" where
  "change_succeeded h ext post (HaInstall opts c) \<longleftrightarrow>
     (\<exists>rel. hm_Install h opts (ext_name ext) (ext_namespace ext) c post = Inr rel)"
| "change_succeeded h ext post (HaUpgrade opts c) \<longleftrightarrow>
     (\<exists>rel. hm_Upgrade h opts (ext_name ext) (ext_namespace ext) c post = Inr rel)"
| "change_succeeded h ext post (HaReconcile rel) \<longleftrightarrow> hm_Reconcile h rel = None"
| "change_succeeded h ext post (HaWatch objs) \<longleftrightarrow> False"

abbreviation changes :: "'c helm_action list \<Rightarrow> 'c helm_action list" where
  "changes acts \<equiv> filter changes_cluster acts"

lemma helm_out_simps [simp]:
  "ho_actions (helm_done acts ok err) = acts" "ho_result (helm_done acts ok err) = Some (ok, '''', err)"
  "ho_actions (helm_panic acts) = acts" "ho_result (helm_panic acts) = None"
  "ho_actions (helm_prepend acts out) = acts @ ho_actions out" "ho_result (helm_prepend acts out) = ho_result out"
  by (simp_all add: helm_done_def helm_panic_def helm_prepend_def)

lemma dry_runs:
  "changes (fst (renderClientOnlyRelease h ext chrt post)) = []"
  "changes (fst (getReleaseState h ext chrt post)) = []"
  by (auto simp: renderClientOnlyRelease_def getReleaseState_def Let_def split: option.split helm_result.split)

lemma preauth_dry_run:
  "helm_runPreAuthorizationChecks h pa ext chrt post = (acts, err) \<Longrightarrow> changes acts = []"
  using dry_runs(1) [of h ext chrt post]
  by (auto simp: helm_runPreAuthorizationChecks_def Let_def split: prod.splits sum.splits)

text \<open>
  The contract of a run: at most one call changes the cluster; a successful rollout means that there
  was one and that it succeeded; a failed one has an error.
\<close>

definition one_change :: "('fs, 'c) helm \<Rightarrow> cluster_extension \<Rightarrow> (string \<times> string) list \<Rightarrow> 'c helm_out \<Rightarrow> bool" where
  "one_change h ext post out \<longleftrightarrow>
     length (changes (ho_actions out)) \<le> 1 \<and>
     (\<forall>m err. ho_result out = Some (True, m, err) \<longrightarrow>
        (\<exists>a. changes (ho_actions out) = [a] \<and> change_succeeded h ext post a)) \<and>
     (\<forall>m err. ho_result out = Some (False, m, err) \<longrightarrow> err \<noteq> None)"

lemma one_change_prepend: "changes acts = [] \<Longrightarrow> one_change h ext post (helm_prepend acts out) = one_change h ext post out"
  by (simp add: one_change_def)

lemma watch_release_out:
  "changes (ho_actions (watch_release h ext rel)) = []"
  "ho_result (watch_release h ext rel) = Some (ok, m, err) \<Longrightarrow> ok"
  by (auto simp: watch_release_def split: sum.splits option.splits)

lemma perform_change_out:
  assumes "perform_change h ext chrt post sl rel state = (acts, res)"
  shows "length (changes acts) \<le> 1"
    and "res = Inr (Some rel') \<Longrightarrow> \<exists>a. changes acts = [a] \<and> change_succeeded h ext post a"
  using assms by (auto simp: perform_change_def Let_def default_install_def default_upgrade_def
      split: if_splits option.splits sum.splits)

lemma one_change_watch:
  assumes "perform_change h ext chrt post sl rel state = (acts, Inr (Some rel'))"
  shows "one_change h ext post (helm_prepend acts (watch_release h ext rel'))"
  using perform_change_out [OF assms] watch_release_out [of h ext rel'] by (fastforce simp: one_change_def)

lemma apply_release_one_change: "one_change h ext post (apply_release h ext chrt post sl)"
proof (cases "hm_ActionClientFor h ext")
  case (Some e)
  then show ?thesis by (simp add: apply_release_def one_change_def)
next
  case None
  obtain acts st where st: "getReleaseState h ext chrt post = (acts, st)" by fastforce
  then have dry: "changes acts = []" using dry_runs(2) [of h ext chrt post] by simp
  have fin: "one_change h ext post (helm_done acts False (Some e))" "one_change h ext post (helm_panic acts)" for e
    using dry by (simp_all add: one_change_def)
  have change: "one_change h ext post (helm_prepend (acts @ cs) (case res of Inl e \<Rightarrow> helm_done [] False (Some e)
      | Inr None \<Rightarrow> helm_panic [] | Inr (Some rel') \<Rightarrow> watch_release h ext rel'))"
    if pc: "perform_change h ext chrt post sl rel state = (cs, res)" for cs res rel state
    using perform_change_out(1) [OF pc] one_change_watch [of h ext chrt post sl rel state cs] pc dry
    by (auto simp: one_change_def split: sum.split option.split)
  show ?thesis
    using None st fin change
    by (auto simp: apply_release_def split: release_state.split sum.split option.split prod.split)
qed

lemma reconcile_one_change: "one_change h ext post (reconcileExistingRelease h ext)"
  by (auto simp: reconcileExistingRelease_def one_change_def split: helm_result.splits option.splits sum.splits)

lemma helm_Apply_one_change: "one_change h ext ol (helm_Apply h fs ext ol sl)"
proof -
  have err: "one_change h ext ol (helm_done acts False (Some e))" if "changes acts = []" for acts e
    using that by (simp add: one_change_def)
  show ?thesis
    using apply_release_one_change [of h ext ol _ sl] reconcile_one_change [of h ext ol]
    by (auto simp: helm_Apply_def one_change_prepend err dest!: preauth_dry_run
        split: option.split sum.split prod.split)
qed

text \<open>Where a change comes from.\<close>

lemma apply_release_change:
  assumes "a \<in> set (ho_actions (apply_release h ext chrt post sl))" and "changes_cluster a"
  obtains acts rel desired state objs where
    "getReleaseState h ext chrt post = (acts, RsState rel desired state)"
    "GetObjectsFromRelease h (Some desired) = Inr objs" "run_preflights (hm_Preflights h) ext state objs = None"
    "a \<in> set (fst (perform_change h ext chrt post sl rel state))"
proof (cases "hm_ActionClientFor h ext")
  case (Some e)
  then show ?thesis using assms by (simp add: apply_release_def)
next
  case None
  obtain acts st where st: "getReleaseState h ext chrt post = (acts, st)" by fastforce
  then have dry: "a \<notin> set acts" using dry_runs(2) [of h ext chrt post] assms(2) by (auto simp: filter_empty_conv)
  have w: "a \<notin> set (ho_actions (watch_release h ext rel'))" for rel'
    using watch_release_out(1) [of h ext rel'] assms(2) by (auto simp: filter_empty_conv)
  show ?thesis
    using assms(1) None st dry w that
    by (auto simp: apply_release_def split: release_state.splits sum.splits option.splits prod.splits)
qed

lemma perform_change_kind:
  assumes "a \<in> set (fst (perform_change h ext chrt post sl rel state))"
  shows "(\<exists>opts. a = HaInstall opts chrt) \<longleftrightarrow> state = StateNeedsInstall"
    and "(\<exists>opts. a = HaUpgrade opts chrt) \<longleftrightarrow> state = StateNeedsUpgrade"
  using assms by (auto simp: perform_change_def Let_def split: if_splits option.splits)

lemma render_dry_run:
  assumes "renderClientOnlyRelease h ext chrt post = (acts, Inr tmpl)"
  shows "\<exists>opts. hm_Install h opts (ext_name ext) (ext_namespace ext) chrt post = Inr tmpl \<and> io_DryRun opts"
proof -
  let ?opts = "\<lambda>b. default_install\<lparr>io_DryRun := True, io_ReleaseName := ext_name ext, io_Replace := True,
      io_ClientOnly := True, io_IncludeCRDs := True, io_IsUpgrade := b\<rparr>"
  obtain b where "hm_Install h (?opts b) (ext_name ext) (ext_namespace ext) chrt post = Inr tmpl"
    using assms by (auto simp: renderClientOnlyRelease_def Let_def split: option.splits helm_result.splits)
  then show ?thesis by (intro exI [of _ "?opts b"]) simp
qed

lemma preauthorized:
  assumes "helm_runPreAuthorizationChecks h pa ext chrt post = (acts, None)"
  obtains opts tmpl where "io_DryRun opts" "hm_Install h opts (ext_name ext) (ext_namespace ext) chrt post = Inr tmpl"
    "pa (getUserInfo ext) (hr_Manifest tmpl) (extManagementPerms ext (getUserInfo ext)) = ([], None)"
  using assms
  by (auto simp: helm_runPreAuthorizationChecks_def Let_def formatPreAuthorizerOutput_None
      dest!: render_dry_run split: prod.splits sum.splits)

section \<open>Properties\<close>


text \<open>
  A run changes the cluster at most once. When it reports a successful rollout, exactly one call
  changed the cluster and it succeeded, even if setting up the watches failed afterwards; when it
  reports a failed rollout, it returns an error.
\<close>

theorem helm_rollout_means_changed:
  "length (changes (ho_actions (helm_Apply h fs ext ol sl))) \<le> 1 \<and>
   (\<forall>m err. ho_result (helm_Apply h fs ext ol sl) = Some (True, m, err) \<longrightarrow>
      (\<exists>a. changes (ho_actions (helm_Apply h fs ext ol sl)) = [a] \<and> change_succeeded h ext ol a)) \<and>
   (\<forall>m err. ho_result (helm_Apply h fs ext ol sl) = Some (False, m, err) \<longrightarrow> err \<noteq> None)"
  using helm_Apply_one_change [of h ext ol fs sl] unfolding one_change_def .

text \<open>
  Without bundle content the installed release is maintained and nothing else is done: the run
  succeeds exactly when there is a release and reconciling it succeeds, problems with the watches
  never fail it, and it never installs or upgrades.
\<close>

theorem helm_maintains_without_content:
  "(ho_result (helm_Apply h None ext ol sl) = Some (True, '''', None) \<longleftrightarrow>
      hm_ActionClientFor h ext = None \<and> (\<exists>rel. hm_Get h (ext_name ext) = HelmOk rel \<and> hm_Reconcile h rel = None)) \<and>
   (\<forall>a \<in> set (ho_actions (helm_Apply h None ext ol sl)).
      (\<exists>rel. a = HaReconcile rel \<and> hm_Get h (ext_name ext) = HelmOk rel) \<or> (\<exists>objs. a = HaWatch objs))"
  by (auto simp: helm_Apply_def reconcileExistingRelease_def split: option.split helm_result.split sum.split)

subsection \<open>Concrete runs\<close>

definition ex_release :: helm_release where
  "ex_release = \<lparr>hr_Name = ''e'', hr_Version = 1, hr_Status = Some StatusDeployed, hr_Manifest = ''m'', hr_Labels = Map.empty\<rparr>"

definition ex_helm :: "(unit, unit) helm" where
  "ex_helm =
     \<lparr>hm_ActionClientFor = (\<lambda>ext. None), hm_Get = (\<lambda>n. HelmNotFound),
      hm_Install = (\<lambda>opts n ns c ls. Inr ex_release), hm_Upgrade = (\<lambda>opts n ns c ls. Inr ex_release),
      hm_Reconcile = (\<lambda>rel. None), hm_Preflights = [],
      hm_PreAuthorizer = Some (\<lambda>user m perms. ([], None)),
      hm_HelmChartProvider = Some (\<lambda>fs ext. Inr ()), hm_HelmChartSupport = False,
      hm_IsBundleSourceChart = (\<lambda>fs. None), hm_LoadChartFS = (\<lambda>fs f ns. Inr ()),
      hm_ManifestObjects = (\<lambda>m n. Inr []), hm_Manager = Some (\<lambda>ext. None), hm_Watcher = Some ''w'',
      hm_Watch = (\<lambda>w objs. None)\<rparr>"

lemma nothing_missing: "formatPreAuthorizerOutput [] None = None"
  by (simp add: formatPreAuthorizerOutput_None)

lemmas ex_helm_simps = helm_Apply_def ex_helm_def buildHelmChart_def helm_runPreAuthorizationChecks_def
  renderClientOnlyRelease_def apply_release_def getReleaseState_def GetObjectsFromRelease_def release_objects_def
  perform_change_def watch_release_def nothing_missing Let_def

lemma ex_helm_run:
  "ho_result (helm_Apply ex_helm (Some ()) ex_ext [] Map.empty) = Some (True, '''', None)"
  "HaInstall (default_install\<lparr>io_CreateNamespace := False, io_Labels := Some Map.empty\<rparr>) () \<in>
     set (ho_actions (helm_Apply ex_helm (Some ()) ex_ext [] Map.empty))"
  by (simp_all add: ex_helm_simps)


theorem helm_rollout_means_changed_witness:
  "\<exists>a. changes (ho_actions (helm_Apply ex_helm (Some ()) ex_ext [] Map.empty)) = [a] \<and> change_succeeded ex_helm ex_ext [] a"
  using helm_rollout_means_changed [of ex_helm "Some ()" ex_ext "[]" Map.empty] ex_helm_run(1) by blast

theorem helm_maintains_without_content_witness:
  "ho_result (helm_Apply (ex_helm\<lparr>hm_Get := \<lambda>n. HelmOk ex_release\<rparr>) None ex_ext [] Map.empty) = Some (True, '''', None)"
  using helm_maintains_without_content [of "ex_helm\<lparr>hm_Get := \<lambda>n. HelmOk ex_release\<rparr>" ex_ext "[]" Map.empty]
  by (simp add: ex_helm_def)

end
