(* ===== verification/Catalogd_Index.thy ===== *)
theory Catalogd_Index
  imports Go_Errors
begin

text \<open>
  The index catalogd keeps beside a catalog file to answer queries by schema, package and name
  (\<open>catalogd/storage/index.go\<close>), and its equivalence with a scan of the catalog.
\<close>

section \<open>Definitions\<close>

text \<open>The fields of \<open>declcfg.Meta\<close> the index reads.\<close>

record meta =
  m_Schema :: string
  m_Package :: string
  m_Name :: string
  m_Blob :: string

datatype file_section = Section (s_offset: int) (s_length: int)

record index =
  BySchema :: "(string \<times> file_section list) list"
  ByPackage :: "(string \<times> file_section list) list"
  ByName :: "(string \<times> file_section list) list"

text \<open>Appending to the slice a map holds for a key; a key that is absent has the nil slice.\<close>

fun append_at :: "(string \<times> 'a list) list \<Rightarrow> string \<Rightarrow> 'a \<Rightarrow> (string \<times> 'a list) list" where
  "append_at [] k x = [(k, [x])]"
| "append_at ((k', xs) # m) k x = (if k' = k then (k', xs @ [x]) # m else (k', xs) # append_at m k x)"

definition slice_at :: "(string \<times> 'a list) list \<Rightarrow> string \<Rightarrow> 'a list" where
  "slice_at m k = (case map_of m k of None \<Rightarrow> [] | Some xs \<Rightarrow> xs)"

definition all_slices :: "(string \<times> 'a list) list \<Rightarrow> 'a list" where
  "all_slices m = concat (map snd m)"

definition add_if :: "(string \<times> 'a list) list \<Rightarrow> string \<Rightarrow> 'a \<Rightarrow> (string \<times> 'a list) list" where
  "add_if m k x = (if k \<noteq> '''' then append_at m k x else m)"

fun index_metas :: "int \<Rightarrow> meta list \<Rightarrow> index \<Rightarrow> index" where
  "index_metas offset [] idx = idx"
| "index_metas offset (m # ms) idx =
     (let len = int (length (m_Blob m));
          s = Section offset len in
      index_metas (wrap64 (offset + len)) ms
        \<lparr>BySchema = add_if (BySchema idx) (m_Schema m) s,
         ByPackage = add_if (ByPackage idx) (m_Package m) s,
         ByName = add_if (ByName idx) (m_Name m) s\<rparr>)"

definition newIndex :: "meta list \<Rightarrow> index" where
  "newIndex metas = index_metas 0 metas \<lparr>BySchema = [], ByPackage = [], ByName = []\<rparr>"

definition getSectionSet :: "index \<Rightarrow> string \<Rightarrow> string \<Rightarrow> string \<Rightarrow> file_section set" where
  "getSectionSet idx schema packageName name =
     (let s1 = (if schema = '''' then set (all_slices (BySchema idx)) else set (slice_at (BySchema idx) schema));
          s2 = (if packageName \<noteq> '''' then s1 \<inter> set (slice_at (ByPackage idx) packageName) else s1) in
      if name \<noteq> '''' then s2 \<inter> set (slice_at (ByName idx) name) else s2)"

text \<open>\<open>io.NewSectionReader\<close>, read to its end.\<close>

definition read_section :: "string \<Rightarrow> file_section \<Rightarrow> string" where
  "read_section file s = take (nat (s_length s)) (drop (nat (s_offset s)) file)"

definition compare_offset :: "file_section \<Rightarrow> file_section \<Rightarrow> int" where
  "compare_offset a b = go_compare (s_offset a) (s_offset b)"

text \<open>
  \<open>unsorted\<close> stands for \<open>UnsortedList\<close>, which lists a set in the order of a Go map, that is, in any
  order. The result is what the reader yields.
\<close>

definition index_Get ::
  "(file_section set \<Rightarrow> file_section list) \<Rightarrow> index \<Rightarrow> string \<Rightarrow> string \<Rightarrow> string \<Rightarrow> string \<Rightarrow> string" where
  "index_Get unsorted idx file schema packageName name =
     concat (map (read_section file)
       (sort_by compare_offset (unsorted (getSectionSet idx schema packageName name))))"

section \<open>Lemmas\<close>

subsection \<open>An order on sections\<close>

instantiation file_section :: linorder
begin

definition less_eq_file_section :: "file_section \<Rightarrow> file_section \<Rightarrow> bool" where
  "less_eq_file_section a b \<longleftrightarrow> s_offset a < s_offset b \<or> s_offset a = s_offset b \<and> s_length a \<le> s_length b"

definition less_file_section :: "file_section \<Rightarrow> file_section \<Rightarrow> bool" where
  "less_file_section a b \<longleftrightarrow> s_offset a < s_offset b \<or> s_offset a = s_offset b \<and> s_length a < s_length b"

instance
  by standard (auto simp: less_eq_file_section_def less_file_section_def file_section.expand)

end

interpretation offset_cmp: comparison compare_offset
  unfolding compare_offset_def [abs_def] by (rule comparison_pullback [OF comparison_go_compare])

subsection \<open>The slices of the index\<close>

lemma slice_at_append [simp]: "slice_at (append_at m k x) k' = slice_at m k' @ (if k' = k then [x] else [])"
  by (induction m k x rule: append_at.induct) (auto simp: slice_at_def)

lemma slice_at_add [simp]:
  "slice_at (add_if m k x) k' = slice_at m k' @ (if k' = k \<and> k \<noteq> '''' then [x] else [])"
  by (simp add: add_if_def)

lemma all_append [simp]: "set (all_slices (append_at m k x)) = insert x (set (all_slices m))"
  by (induction m k x rule: append_at.induct) (auto simp: all_slices_def)

lemma all_add [simp]:
  "set (all_slices (add_if m k x)) = set (all_slices m) \<union> (if k \<noteq> '''' then {x} else {})"
  by (simp add: add_if_def)

lemma all_Nil [simp]: "all_slices [] = []"
  by (simp add: all_slices_def)

lemma slice_at_Nil [simp]: "slice_at [] k = []"
  by (simp add: slice_at_def)

text \<open>The sections of the blobs, one after the other.\<close>

fun sections_from :: "int \<Rightarrow> meta list \<Rightarrow> (meta \<times> file_section) list" where
  "sections_from offset [] = []"
| "sections_from offset (m # ms) =
     (m, Section offset (int (length (m_Blob m)))) # sections_from (offset + int (length (m_Blob m))) ms"

abbreviation catalog_size :: "meta list \<Rightarrow> int" where
  "catalog_size ms \<equiv> sum_list (map (\<lambda>m. int (length (m_Blob m))) ms)"

lemma catalog_size_nonneg: "0 \<le> catalog_size ms"
  by (rule sum_list_nonneg) auto

abbreviation keyed :: "('m \<Rightarrow> string) \<Rightarrow> string \<Rightarrow> ('m \<times> 's) list \<Rightarrow> 's set" where
  "keyed f k ss \<equiv> {s. k \<noteq> '''' \<and> (\<exists>m. (m, s) \<in> set ss \<and> f m = k)}"

lemma index_metas_slices:
  assumes "0 \<le> offset" and "offset + catalog_size ms < 2 ^ 63"
  shows "set (slice_at (BySchema (index_metas offset ms idx)) k) =
      set (slice_at (BySchema idx) k) \<union> keyed m_Schema k (sections_from offset ms)"
    and "set (slice_at (ByPackage (index_metas offset ms idx)) k) =
      set (slice_at (ByPackage idx) k) \<union> keyed m_Package k (sections_from offset ms)"
    and "set (slice_at (ByName (index_metas offset ms idx)) k) =
      set (slice_at (ByName idx) k) \<union> keyed m_Name k (sections_from offset ms)"
    and "set (all_slices (BySchema (index_metas offset ms idx))) =
      set (all_slices (BySchema idx)) \<union> {s. \<exists>m. (m, s) \<in> set (sections_from offset ms) \<and> m_Schema m \<noteq> ''''}"
proof (atomize (full), use assms in \<open>induction offset ms idx rule: index_metas.induct\<close>)
  case (2 offset m ms idx)
  have nn: "0 \<le> catalog_size ms" by (rule catalog_size_nonneg)
  have w: "wrap64 (offset + int (length (m_Blob m))) = offset + int (length (m_Blob m))"
    using 2(2,3) nn by (intro wrap64_id) simp_all
  note IH = 2(1) [OF refl refl, unfolded w]
  show ?case
    using IH 2(2,3) by (simp add: Let_def w) auto
qed auto

lemmas newIndex_slices = index_metas_slices [where offset = 0 and idx = "\<lparr>BySchema = [], ByPackage = [], ByName = []\<rparr>",
  folded newIndex_def, simplified]

subsection \<open>Sections and blobs\<close>

lemma sections_bounds:
  "(m, s) \<in> set (sections_from offset ms) \<Longrightarrow> offset \<le> s_offset s \<and> s_length s = int (length (m_Blob m))"
  by (induction offset ms rule: sections_from.induct) auto

lemma sections_ordered:
  "sorted_wrt (\<lambda>(m, s) (m', s'). s_offset s + s_length s \<le> s_offset s') (sections_from offset ms)"
  by (induction offset ms rule: sections_from.induct) (auto dest: sections_bounds)

lemma sections_metas: "map fst (sections_from offset ms) = ms"
  by (induction offset ms rule: sections_from.induct) simp_all

lemma sections_read:
  "(m, s) \<in> set (sections_from (int (length pre)) ms) \<Longrightarrow>
   read_section (pre @ concat (map m_Blob ms)) s = m_Blob m"
proof (induction ms arbitrary: pre)
  case (Cons a ms)
  show ?case
    using Cons.prems Cons.IH [of "pre @ m_Blob a"] by (auto simp: read_section_def)
qed simp

text \<open>Sections that are not empty have distinct offsets.\<close>

abbreviation nz_sections :: "meta list \<Rightarrow> (meta \<times> file_section) list" where
  "nz_sections ms \<equiv> filter (\<lambda>(m, s). 0 < s_length s) (sections_from 0 ms)"

lemma nz_strict: "sorted_wrt (<) (map (s_offset \<circ> snd) (nz_sections ms))"
proof -
  have "sorted_wrt (<) (map (s_offset \<circ> snd) (filter (\<lambda>(m, s). 0 < s_length s) xs))"
    if "sorted_wrt (\<lambda>(m, s) (m', s'). s_offset s + s_length s \<le> s_offset s') xs" for xs :: "(meta \<times> file_section) list"
    using that by (induction xs) auto
  then show ?thesis using sections_ordered .
qed

lemma nz_unique:
  assumes "(m, s) \<in> set (nz_sections ms)" and "(m', s') \<in> set (nz_sections ms)" and "s_offset s = s_offset s'"
  shows "m = m' \<and> s = s'"
proof -
  have "distinct (map (s_offset \<circ> snd) (nz_sections ms))"
    using nz_strict [of ms] by (simp only: strict_sorted_iff)
  then have "inj_on (s_offset \<circ> snd) (set (nz_sections ms))" by (simp only: distinct_map)
  from inj_onD [OF this _ assms(1,2)] assms(3) show ?thesis by simp
qed

subsection \<open>Queries\<close>

text \<open>
  The specification of a query: a parameter that is given must be equal to the field; without a
  schema, every blob that has one is considered.
\<close>

definition meta_matches :: "string \<Rightarrow> string \<Rightarrow> string \<Rightarrow> meta \<Rightarrow> bool" where
  "meta_matches schema pkg name m \<longleftrightarrow>
     (if schema = '''' then m_Schema m \<noteq> '''' else m_Schema m = schema) \<and>
     (pkg = '''' \<or> m_Package m = pkg) \<and> (name = '''' \<or> m_Name m = name)"

definition scan_catalog :: "meta list \<Rightarrow> string \<Rightarrow> string \<Rightarrow> string \<Rightarrow> string" where
  "scan_catalog ms schema pkg name = concat (map m_Blob (filter (meta_matches schema pkg name) ms))"

abbreviation matching :: "meta list \<Rightarrow> string \<Rightarrow> string \<Rightarrow> string \<Rightarrow> (meta \<times> file_section) list" where
  "matching ms schema pkg name \<equiv> filter (\<lambda>(m, s). meta_matches schema pkg name m) (nz_sections ms)"

text \<open>Of the sections found, those that are not empty are the sections of the matching blobs.\<close>

lemma section_set_nz:
  assumes "catalog_size ms < 2 ^ 63" and "0 < s_length s"
  shows "s \<in> getSectionSet (newIndex ms) schema pkg name \<longleftrightarrow> (\<exists>m. (m, s) \<in> set (matching ms schema pkg name))"
proof -
  have nz: "(m, s) \<in> set (sections_from 0 ms) \<longleftrightarrow> (m, s) \<in> set (nz_sections ms)" for m
    using assms(2) by auto
  have un: "m = m'" if "(m, s) \<in> set (nz_sections ms)" "(m', s) \<in> set (nz_sections ms)" for m m'
    using nz_unique [OF that] by simp
  note set_simps = getSectionSet_def Let_def newIndex_slices [OF assms(1) [simplified]]
  show ?thesis
  proof (cases "\<exists>m. (m, s) \<in> set (sections_from 0 ms)")
    case False
    then show ?thesis by (auto simp: set_simps)
  next
    case True
    then obtain m0 where m0: "(m0, s) \<in> set (sections_from 0 ms)" by blast
    have "(\<exists>m. (m, s) \<in> set (sections_from 0 ms) \<and> P m) \<longleftrightarrow> P m0" for P
      using m0 un nz by blast
    note ex = this this [where P = "\<lambda>m. True", simplified]
    have "(\<exists>m. (m, s) \<in> set (matching ms schema pkg name)) \<longleftrightarrow> meta_matches schema pkg name m0"
      using assms(2) ex(1) [of "meta_matches schema pkg name"] by auto
    then show ?thesis by (simp add: set_simps ex meta_matches_def)
  qed
qed

lemma finite_section_set: "finite (getSectionSet idx schema pkg name)"
  by (simp add: getSectionSet_def Let_def)

lemma index_Get_scan:
  assumes size: "catalog_size ms < 2 ^ 63" and us: "set us = getSectionSet (newIndex ms) schema pkg name" "distinct us"
  shows "concat (map (read_section (concat (map m_Blob ms))) (sort_by compare_offset us)) = scan_catalog ms schema pkg name"
proof -
  let ?nz = "\<lambda>s. 0 < s_length s" and ?read = "read_section (concat (map m_Blob ms))"
  let ?L1 = "filter ?nz (sort_by compare_offset us)" and ?L2 = "map snd (matching ms schema pkg name)"
  have skip: "concat (map ?read xs) = concat (map ?read (filter ?nz xs))" for xs
    by (induction xs) (auto simp: read_section_def)
  have img: "s \<in> snd ` A \<longleftrightarrow> (\<exists>m. (m, s) \<in> A)" for s :: file_section and A :: "(meta \<times> file_section) set"
    by force
  have "s \<in> set ?L1 \<longleftrightarrow> s \<in> set ?L2" for s
  proof (cases "?nz s")
    case True
    then show ?thesis
      using section_set_nz [OF size True, of schema pkg name] us(1)
      by (simp only: set_map img) (simp add: offset_cmp.set_sort_by)
  qed auto
  then have set1: "set ?L1 = set ?L2" by blast
  have L2: "sorted_wrt (<) (map s_offset ?L2)"
    using sorted_wrt_filter nz_strict [of ms] unfolding sorted_wrt_map comp_def by blast
  have inj: "inj_on s_offset (set ?L2)"
    using nz_unique by (fastforce simp: inj_on_def)
  have "sorted (map s_offset ?L1)"
    using sorted_wrt_filter [OF offset_cmp.sorted_sort_by [of us], of ?nz]
    by (simp add: sorted_map compare_offset_def)
  moreover have "distinct (map s_offset ?L1)"
    using us(2) inj set1 mset_eq_imp_distinct_iff [OF offset_cmp.mset_sort_by [of us]]
    by (simp add: distinct_map)
  moreover have "sorted (map s_offset ?L2)" "distinct (map s_offset ?L2)"
    using L2 by (simp_all only: strict_sorted_iff)
  ultimately have "map s_offset ?L1 = map s_offset ?L2"
    using set1 by (intro sorted_distinct_set_unique) (simp_all only: set_map)
  moreover have "inj_on s_offset (set ?L1 \<union> set ?L2)" unfolding set1 Un_absorb by (rule inj)
  ultimately have "?L1 = ?L2" by (rule map_inj_on)
  then have "concat (map ?read (sort_by compare_offset us)) = concat (map ?read ?L2)" by (subst skip) simp
  also have "map ?read ?L2 = map (m_Blob \<circ> fst) (matching ms schema pkg name)"
    using sections_read [where pre = "[]"] by (auto simp: comp_def)
  also have "concat \<dots> = scan_catalog ms schema pkg name"
  proof -
    have "concat (map (m_Blob \<circ> fst) (filter (\<lambda>(m, s). P m) (filter (\<lambda>(m, s). ?nz s) (sections_from off ms)))) =
        concat (map m_Blob (filter P ms))" for P off
      by (induction off ms rule: sections_from.induct) auto
    then show ?thesis unfolding scan_catalog_def by simp
  qed
  finally show ?thesis .
qed

section \<open>Properties\<close>

text \<open>
  C19: The index answers queries exactly as a scan of the catalog does: for a catalog smaller than
  the 64-bit range of offsets, in whatever order the set of sections is listed, the reader yields the
  blobs whose schema, package and name are those asked for, in the order of the catalog.
\<close>

theorem index_equals_scan:
  assumes "catalog_size metas < 2 ^ 63" and "\<And>S. finite S \<Longrightarrow> set (unsorted S) = S \<and> distinct (unsorted S)"
  shows "index_Get unsorted (newIndex metas) (concat (map m_Blob metas)) schema packageName name =
     scan_catalog metas schema packageName name"
  unfolding index_Get_def using assms by (intro index_Get_scan) (simp_all add: finite_section_set)

definition ex_metas :: "meta list" where
  "ex_metas =
     [\<lparr>m_Schema = ''olm.package'', m_Package = '''', m_Name = ''p'', m_Blob = ''aa''\<rparr>,
      \<lparr>m_Schema = ''olm.bundle'', m_Package = ''p'', m_Name = ''p.v1'', m_Blob = ''bbb''\<rparr>,
      \<lparr>m_Schema = ''olm.bundle'', m_Package = ''q'', m_Name = ''q.v1'', m_Blob = ''cc''\<rparr>]"

theorem index_equals_scan_witness:
  "index_Get sorted_list_of_set (newIndex ex_metas) (concat (map m_Blob ex_metas)) ''olm.bundle'' ''p'' '''' = ''bbb''"
  using index_equals_scan [of ex_metas sorted_list_of_set "''olm.bundle''" "''p''" "''''"]
  by (simp add: ex_metas_def scan_catalog_def meta_matches_def)

end
