(* ===== verification/Catalogd_Storage.thy ===== *)
theory Catalogd_Storage
  imports Catalogd_Index
begin

text \<open>
  The storage of catalogd (\<open>catalogd/storage/localdir.go\<close>): one directory per catalog below a root,
  written to a temporary directory first and renamed. The state is the list of entries of the root
  directory. Each call of the operating system is answered by its own field of \<open>local_dir\<close>; a
  failed removal may leave anything behind. The operations hold the storage's lock from beginning to
  end, so that a sequence of operations is a sequence of calls.
\<close>

section \<open>Definitions\<close>

datatype 'a stored_file = Regular 'a | Irregular

record store_dir =
  sd_isDir :: bool
  sd_catalog :: "string stored_file option"
  sd_index :: "index stored_file option"
  sd_modTime :: int

type_synonym store_root = "(string \<times> store_dir) list"

datatype read_dir = ReadDirNotExist | ReadDirErr go_error | ReadDirOk

text \<open>How a removal fails: its error, and what is left of the entry.\<close>

type_synonym removal = "(go_error \<times> store_dir option) option"

record 'fs local_dir =
  ld_EnableMetasHandler :: bool
  ld_EnableGraphQL :: bool
  ld_now :: int
  os_MkdirAll :: "go_error option"
  os_ReadDir :: read_dir
  os_MkdirTemp :: "string result"
  ld_WalkMetasFS :: "'fs \<Rightarrow> meta list result"
  ld_Wait :: "meta list \<Rightarrow> go_error option"
  os_RemoveOrphan :: "string \<Rightarrow> removal"
  os_RemoveTemp :: removal
  os_RemoveOld :: removal
  os_Rename :: "go_error option"
  ld_GetSchema :: "string \<Rightarrow> go_error option"
  os_RemoveRollback :: removal
  os_RemoveDelete :: removal

definition del_entry :: "string \<Rightarrow> store_root \<Rightarrow> store_root" where
  "del_entry name root = filter (\<lambda>(n, d). n \<noteq> name) root"

definition put_entry :: "string \<Rightarrow> store_dir \<Rightarrow> store_root \<Rightarrow> store_root" where
  "put_entry name d root = (name, d) # del_entry name root"

text \<open>\<open>os.RemoveAll\<close>: removing an entry that does not exist succeeds or fails without an effect.\<close>

definition remove_all :: "removal \<Rightarrow> string \<Rightarrow> store_root \<Rightarrow> store_root \<times> go_error option" where
  "remove_all outcome name root =
     (case outcome of
        None \<Rightarrow> (del_entry name root, None)
      | Some (e, left) \<Rightarrow>
          (if map_of root name = None then root
           else (case left of None \<Rightarrow> del_entry name root | Some d \<Rightarrow> put_entry name d root), Some e))"

subsection \<open>Store\<close>

definition temp_prefix :: "string \<Rightarrow> string" where
  "temp_prefix catalog = ''.'' @ catalog @ ''-''"

fun remove_orphans :: "(string \<Rightarrow> removal) \<Rightarrow> string \<Rightarrow> string list \<Rightarrow> store_root \<Rightarrow> store_root \<times> go_error option" where
  "remove_orphans rm pre [] root = (root, None)"
| "remove_orphans rm pre (n # ns) root =
     (if take (length pre) n = pre then
        (case remove_all (rm n) n root of
           (root', Some e) \<Rightarrow> (root', Some (ErrWrap (''error removing orphaned temp directory '' @ go_quote n @ '': '') e ''''))
         | (root', None) \<Rightarrow> remove_orphans rm pre ns root')
      else remove_orphans rm pre ns root)"

definition removeOrphanedTempDirs :: "'fs local_dir \<Rightarrow> string \<Rightarrow> store_root \<Rightarrow> store_root \<times> go_error option" where
  "removeOrphanedTempDirs ld catalog root =
     (case os_ReadDir ld of
        ReadDirNotExist \<Rightarrow> (root, None)
      | ReadDirErr e \<Rightarrow> (root, Some (ErrWrap ''error reading storage directory: '' e ''''))
      | ReadDirOk \<Rightarrow> remove_orphans (os_RemoveOrphan ld) (temp_prefix catalog) (sort (map fst root)) root)"

text \<open>The files the two writers produce from the blobs they receive.\<close>

definition stored_content :: "'fs local_dir \<Rightarrow> meta list \<Rightarrow> store_dir" where
  "stored_content ld metas =
     \<lparr>sd_isDir = True, sd_catalog = Some (Regular (concat (map m_Blob metas))),
      sd_index = (if ld_EnableMetasHandler ld then Some (Regular (newIndex metas)) else None),
      sd_modTime = ld_now ld\<rparr>"

definition empty_dir :: store_dir where
  "empty_dir = \<lparr>sd_isDir = True, sd_catalog = None, sd_index = None, sd_modTime = 0\<rparr>"

text \<open>Replacing the old directory by the temporary one: both calls are made, whatever the first returns.\<close>

definition rename_in :: "'fs local_dir \<Rightarrow> string \<Rightarrow> string \<Rightarrow> store_dir \<Rightarrow> store_root \<Rightarrow> store_root \<times> go_error option" where
  "rename_in ld catalog tmp d root =
     (let (root1, rmErr) = remove_all (os_RemoveOld ld) catalog root in
      (if os_Rename ld = None then put_entry catalog d (del_entry tmp root1) else root1,
       errors_Join [rmErr, os_Rename ld]))"

text \<open>The schema is built in advance; when that fails, the new directory is removed again.\<close>

definition prebuild_schema :: "'fs local_dir \<Rightarrow> string \<Rightarrow> store_root \<Rightarrow> store_root \<times> go_error option" where
  "prebuild_schema ld catalog root =
     (case (if ld_EnableGraphQL ld then ld_GetSchema ld catalog else None) of
        None \<Rightarrow> (root, None)
      | Some e \<Rightarrow>
          (let (root', removeErr) = remove_all (os_RemoveRollback ld) catalog root;
               what = ''failed to pre-build GraphQL schema for catalog '' @ go_quote catalog @ '': '' in
           (root', Some (case removeErr of
              None \<Rightarrow> ErrWrap what e ''''
            | Some re \<Rightarrow> ErrWrap what e ('' (rollback also failed: '' @ err_string re @ '')'')))))"

definition swap_in :: "'fs local_dir \<Rightarrow> string \<Rightarrow> string \<Rightarrow> store_dir \<Rightarrow> store_root \<Rightarrow> store_root \<times> go_error option" where
  "swap_in ld catalog tmp d root =
     (case rename_in ld catalog tmp d root of
        (root', Some e) \<Rightarrow> (root', Some e)
      | (root', None) \<Rightarrow> prebuild_schema ld catalog root')"

text \<open>From the temporary directory on; its removal is deferred and its error ignored.\<close>

definition write_catalog :: "'fs local_dir \<Rightarrow> string \<Rightarrow> 'fs \<Rightarrow> string \<Rightarrow> store_root \<Rightarrow> store_root \<times> go_error option" where
  "write_catalog ld catalog fsys tmp root =
     (case ld_WalkMetasFS ld fsys of
        Inl e \<Rightarrow> (root, Some (ErrWrap ''error walking FBC root: '' e ''''))
      | Inr metas \<Rightarrow>
          (case ld_Wait ld metas of
             Some e \<Rightarrow> (root, Some e)
           | None \<Rightarrow> swap_in ld catalog tmp (stored_content ld metas) root))"

definition Store :: "'fs local_dir \<Rightarrow> string \<Rightarrow> 'fs \<Rightarrow> store_root \<Rightarrow> store_root \<times> go_error option" where
  "Store ld catalog fsys root =
     (case os_MkdirAll ld of
        Some e \<Rightarrow> (root, Some e)
      | None \<Rightarrow>
          (case removeOrphanedTempDirs ld catalog root of
             (root1, Some e) \<Rightarrow> (root1, Some (ErrWrap ''error removing orphaned temp directories: '' e ''''))
           | (root1, None) \<Rightarrow>
               (case os_MkdirTemp ld of
                  Inl e \<Rightarrow> (root1, Some e)
                | Inr random \<Rightarrow>
                    (let tmp = temp_prefix catalog @ random;
                         (root2, err) = write_catalog ld catalog fsys tmp (put_entry tmp empty_dir root1) in
                     (fst (remove_all (os_RemoveTemp ld) tmp root2), err)))))"

subsection \<open>The other operations\<close>

definition store_Delete :: "'fs local_dir \<Rightarrow> string \<Rightarrow> store_root \<Rightarrow> store_root \<times> go_error option" where
  "store_Delete ld catalog root = remove_all (os_RemoveDelete ld) catalog root"

definition is_regular :: "'a stored_file option \<Rightarrow> bool" where
  "is_regular f \<longleftrightarrow> (case f of Some (Regular c) \<Rightarrow> True | _ \<Rightarrow> False)"

definition ContentExists :: "'fs local_dir \<Rightarrow> string \<Rightarrow> store_root \<Rightarrow> bool" where
  "ContentExists ld catalog root \<longleftrightarrow>
     (case map_of root catalog of
        None \<Rightarrow> False
      | Some d \<Rightarrow> is_regular (sd_catalog d) \<and> (ld_EnableMetasHandler ld \<longrightarrow> is_regular (sd_index d)))"

text \<open>Errors of the file system that the server tells apart.\<close>

datatype store_error = ErrNotExist | ErrPermission | ErrStore go_error

definition GetCatalogData :: "string \<Rightarrow> store_root \<Rightarrow> store_error + string stored_file \<times> int" where
  "GetCatalogData catalog root =
     (case map_of root catalog of
        None \<Rightarrow> Inl ErrNotExist
      | Some d \<Rightarrow>
          (case sd_catalog d of None \<Rightarrow> Inl ErrNotExist | Some f \<Rightarrow> Inr (f, sd_modTime d)))"

definition GetCatalogFS :: "string \<Rightarrow> store_root \<Rightarrow> store_error + store_dir" where
  "GetCatalogFS catalog root =
     (case map_of root catalog of
        None \<Rightarrow> Inl ErrNotExist
      | Some d \<Rightarrow>
          if sd_isDir d then Inr d
          else Inl (ErrStore (ErrText (''catalog path '' @ go_quote catalog @ '' is not a directory''))))"

definition GetIndex :: "string \<Rightarrow> store_root \<Rightarrow> store_error + index" where
  "GetIndex catalog root =
     (case map_of root catalog of
        None \<Rightarrow> Inl ErrNotExist
      | Some d \<Rightarrow>
          (case sd_index d of
             None \<Rightarrow> Inl ErrNotExist
           | Some Irregular \<Rightarrow> Inl (ErrStore (ErrText ''not a regular file''))
           | Some (Regular idx) \<Rightarrow> Inr idx))"

section \<open>Lemmas\<close>

lemma map_of_del [simp]: "map_of (del_entry n root) n' = (if n' = n then None else map_of root n')"
  by (induction root) (auto simp: del_entry_def)

lemma map_of_put [simp]: "map_of (put_entry n d root) n' = (if n' = n then Some d else map_of root n')"
  by (simp add: put_entry_def)

lemma remove_all_other: "n' \<noteq> n \<Longrightarrow> map_of (fst (remove_all out n root)) n' = map_of root n'"
  by (auto simp: remove_all_def split: option.split)

lemma remove_all_ok: "remove_all out n root = (root', None) \<Longrightarrow> map_of root' n = None"
  by (auto simp: remove_all_def split: option.splits)

lemma remove_all_pair: "remove_all out n root = (root', err) \<Longrightarrow> n' \<noteq> n \<Longrightarrow> map_of root' n' = map_of root n'"
  using remove_all_other [of n' n out root] by simp

text \<open>Names of catalogs never start like a temporary directory.\<close>

definition no_temp :: "string \<Rightarrow> bool" where
  "no_temp n \<longleftrightarrow> take 1 n \<noteq> ''.''"

lemma no_temp_prefix: "no_temp n \<Longrightarrow> n \<noteq> temp_prefix c @ s" "no_temp n \<Longrightarrow> take (length (temp_prefix c)) n \<noteq> temp_prefix c"
  by (cases n; auto simp: no_temp_def temp_prefix_def)+

lemma remove_orphans_keeps:
  "no_temp n \<Longrightarrow> map_of (fst (remove_orphans rm (temp_prefix c) ns root)) n = map_of root n"
proof (induction rm "temp_prefix c" ns root rule: remove_orphans.induct)
  case (2 rm k ns root)
  show ?case
  proof (cases "take (length (temp_prefix c)) k = temp_prefix c")
    case True
    then have "n \<noteq> k" using no_temp_prefix(2) [OF 2(3)] by auto
    then show ?thesis
      using True 2 by (auto dest: remove_all_pair split: prod.split option.split)
  qed (use 2 in simp)
qed simp

lemma removeOrphaned_keeps: "no_temp n \<Longrightarrow> map_of (fst (removeOrphanedTempDirs ld c root)) n = map_of root n"
  by (simp add: removeOrphanedTempDirs_def remove_orphans_keeps split: read_dir.split)

lemma prebuild_other: "n \<noteq> catalog \<Longrightarrow> map_of (fst (prebuild_schema ld catalog root)) n = map_of root n"
  by (auto simp: prebuild_schema_def Let_def dest: remove_all_pair split: prod.split option.split)

lemma prebuild_ok: "prebuild_schema ld catalog root = (root', None) \<Longrightarrow> root' = root"
  by (cases "remove_all (os_RemoveRollback ld) catalog root") (simp add: prebuild_schema_def Let_def split: option.splits)

lemma rename_other:
  "n \<noteq> catalog \<Longrightarrow> n \<noteq> tmp \<Longrightarrow> map_of (fst (rename_in ld catalog tmp d root)) n = map_of root n"
  by (cases "remove_all (os_RemoveOld ld) catalog root") (simp add: rename_in_def remove_all_pair)

lemma errors_Join2: "errors_Join [a, b] = None \<longleftrightarrow> a = None \<and> b = None"
  unfolding errors_Join_None by (metis list.set_intros(1,2) empty_iff list.set(1) set_ConsD)

lemma rename_ok: "rename_in ld catalog tmp d root = (root', None) \<Longrightarrow> map_of root' catalog = Some d"
  by (cases "remove_all (os_RemoveOld ld) catalog root")
    (clarsimp simp: rename_in_def errors_Join2 simp del: errors_Join_None)

lemma swap_in_other:
  "n \<noteq> catalog \<Longrightarrow> n \<noteq> tmp \<Longrightarrow> map_of (fst (swap_in ld catalog tmp d root)) n = map_of root n"
  using rename_other [of n catalog tmp ld d root] prebuild_other [of n catalog ld]
  by (auto simp: swap_in_def split: prod.split option.split)

lemma swap_in_ok: "swap_in ld catalog tmp d root = (root', None) \<Longrightarrow> map_of root' catalog = Some d"
  using rename_ok [of ld catalog tmp d root] prebuild_ok [of ld catalog]
  by (auto simp: swap_in_def split: prod.splits option.splits)

text \<open>How \<open>Store\<close> ends: before the swap with everything as it was, or in the swap.\<close>

lemma Store_cases [consumes 2, case_names kept swapped]:
  assumes "Store ld catalog fsys root = (root', err)" and "no_temp catalog"
  obtains e where "err = Some e" "\<And>n. no_temp n \<Longrightarrow> map_of root' n = map_of root n"
  | metas tmp root2 root3 where "ld_WalkMetasFS ld fsys = Inr metas" "ld_Wait ld metas = None"
      "\<And>n. no_temp n \<Longrightarrow> n \<noteq> tmp" "\<And>n. no_temp n \<Longrightarrow> map_of root2 n = map_of root n"
      "swap_in ld catalog tmp (stored_content ld metas) root2 = (root3, err)"
      "\<And>n. no_temp n \<Longrightarrow> map_of root' n = map_of root3 n"
proof (cases "os_MkdirAll ld")
  case (Some e)
  then have "err = Some e" "root' = root" using assms(1) by (simp_all add: Store_def)
  then show ?thesis using that(1) by simp
next
  case None
  obtain root1 e1 where r1: "removeOrphanedTempDirs ld catalog root = (root1, e1)" by fastforce
  then have k1: "no_temp n \<Longrightarrow> map_of root1 n = map_of root n" for n
    using removeOrphaned_keeps [of n ld catalog root] by simp
  show ?thesis
  proof (cases "e1 = None \<and> (\<exists>s. os_MkdirTemp ld = Inr s)")
    case False
    then show ?thesis
      using assms(1) None r1 k1 that(1) by (cases e1; cases "os_MkdirTemp ld") (auto simp: Store_def)
  next
    case True
    then obtain s where s: "os_MkdirTemp ld = Inr s" and e1: "e1 = None" by blast
    let ?tmp = "temp_prefix catalog @ s"
    obtain root2 e2 where r2: "write_catalog ld catalog fsys ?tmp (put_entry ?tmp empty_dir root1) = (root2, e2)"
      by fastforce
    have out: "root' = fst (remove_all (os_RemoveTemp ld) ?tmp root2)" "err = e2"
      using assms(1) None r1 s e1 r2 by (simp_all add: Store_def)
    have nt: "no_temp n \<Longrightarrow> n \<noteq> ?tmp" for n by (rule no_temp_prefix(1))
    have k2: "no_temp n \<Longrightarrow> map_of root' n = map_of root2 n" for n
      using out(1) nt remove_all_other by metis
    have k3: "no_temp n \<Longrightarrow> map_of (put_entry ?tmp empty_dir root1) n = map_of root n" for n
      using nt [of n] k1 by simp
    show ?thesis
    proof (cases "\<exists>metas. ld_WalkMetasFS ld fsys = Inr metas \<and> ld_Wait ld metas = None")
      case True
      then obtain metas where m: "ld_WalkMetasFS ld fsys = Inr metas" "ld_Wait ld metas = None" by blast
      then have "swap_in ld catalog ?tmp (stored_content ld metas) (put_entry ?tmp empty_dir root1) = (root2, err)"
        using r2 out(2) by (simp add: write_catalog_def)
      from that(2) [OF m nt k3 this k2] show ?thesis .
    next
      case False
      then obtain e where "e2 = Some e" "root2 = put_entry ?tmp empty_dir root1"
        using r2 by (cases "ld_WalkMetasFS ld fsys") (fastforce simp: write_catalog_def split: option.splits)+
      then show ?thesis using that(1) out(2) k2 k3 by simp
    qed
  qed
qed

subsection \<open>The contract of a storage\<close>

text \<open>
  What the controller of the catalogs relies on: after a successful store the content exists, after
  a successful deletion it does not, and neither touches another catalog.
\<close>

locale catalog_storage =
  fixes store :: "string \<Rightarrow> 'fs \<Rightarrow> 'st \<Rightarrow> 'st \<times> go_error option"
    and delete :: "string \<Rightarrow> 'st \<Rightarrow> 'st \<times> go_error option"
    and content_exists :: "string \<Rightarrow> 'st \<Rightarrow> bool"
    and valid_name :: "string \<Rightarrow> bool"
  assumes store_exists: "valid_name c \<Longrightarrow> store c fs st = (st', None) \<Longrightarrow> content_exists c st'"
    and store_other: "valid_name c \<Longrightarrow> valid_name n \<Longrightarrow> n \<noteq> c \<Longrightarrow> content_exists n (fst (store c fs st)) = content_exists n st"
    and delete_gone: "delete c st = (st', None) \<Longrightarrow> \<not> content_exists c st'"
    and delete_other: "n \<noteq> c \<Longrightarrow> content_exists n (fst (delete c st)) = content_exists n st"

lemma ContentExists_cong: "map_of root n = map_of root' n \<Longrightarrow> ContentExists ld n root = ContentExists ld n root'"
  by (simp add: ContentExists_def)

lemma Store_other:
  assumes "Store ld c fs root = (root', err)" and "no_temp c" "no_temp n" "n \<noteq> c"
  shows "map_of root' n = map_of root n"
  using assms(1,2)
proof (cases rule: Store_cases)
  case (kept e)
  then show ?thesis using assms(3) by blast
next
  case (swapped metas tmp root2 root3)
  have "map_of root3 n = map_of root2 n"
    using swap_in_other [of n c tmp ld "stored_content ld metas" root2] swapped(3,5) assms(3,4) by auto
  then show ?thesis using swapped(4,6) assms(3) by simp
qed

lemma Store_ok:
  assumes "Store ld c fs root = (root', None)" and "no_temp c"
  obtains metas where "ld_WalkMetasFS ld fs = Inr metas" "map_of root' c = Some (stored_content ld metas)"
  using assms
proof (cases rule: Store_cases)
  case (swapped metas tmp root2 root3)
  then show ?thesis using that [of metas] swap_in_ok assms(2) by metis
qed simp

interpretation local_store: catalog_storage "Store ld" "store_Delete ld" "ContentExists ld" no_temp for ld
proof
  fix c n fs root root'
  show "no_temp c \<Longrightarrow> Store ld c fs root = (root', None) \<Longrightarrow> ContentExists ld c root'"
    by (erule (1) Store_ok) (simp add: ContentExists_def stored_content_def is_regular_def)
  show "no_temp c \<Longrightarrow> no_temp n \<Longrightarrow> n \<noteq> c \<Longrightarrow> ContentExists ld n (fst (Store ld c fs root)) = ContentExists ld n root"
    using Store_other [of ld c fs root "fst (Store ld c fs root)" "snd (Store ld c fs root)" n]
    by (intro ContentExists_cong) simp
  show "store_Delete ld c root = (root', None) \<Longrightarrow> \<not> ContentExists ld c root'"
    by (simp add: store_Delete_def ContentExists_def remove_all_ok)
  show "n \<noteq> c \<Longrightarrow> ContentExists ld n (fst (store_Delete ld c root)) = ContentExists ld n root"
    by (intro ContentExists_cong) (simp add: store_Delete_def remove_all_other)
qed

lemma Store_serves:
  assumes "Store ld c fs root = (root', None)" and "no_temp c" and "ld_EnableMetasHandler ld"
    and "\<And>metas. ld_WalkMetasFS ld fs = Inr metas \<Longrightarrow> catalog_size metas < 2 ^ 63"
    and "\<And>S. finite S \<Longrightarrow> set (unsorted S) = S \<and> distinct (unsorted S)"
  shows "\<exists>metas idx. ld_WalkMetasFS ld fs = Inr metas \<and> ContentExists ld c root' \<and>
     GetCatalogData c root' = Inr (Regular (concat (map m_Blob metas)), ld_now ld) \<and>
     GetIndex c root' = Inr idx \<and>
     (\<forall>schema pkg name. index_Get unsorted idx (concat (map m_Blob metas)) schema pkg name =
        scan_catalog metas schema pkg name)"
proof -
  obtain metas where m: "ld_WalkMetasFS ld fs = Inr metas" "map_of root' c = Some (stored_content ld metas)"
    using Store_ok [OF assms(1,2)] .
  have "index_Get unsorted (newIndex metas) (concat (map m_Blob metas)) schema pkg name =
      scan_catalog metas schema pkg name" for schema pkg name
    unfolding index_Get_def
    using assms(4) [OF m(1)] assms(5) by (intro index_Get_scan) (simp_all add: finite_section_set)
  then show ?thesis
    using m assms(3) local_store.store_exists [OF assms(2,1)]
    by (simp add: GetCatalogData_def GetIndex_def stored_content_def)
qed

section \<open>Properties\<close>


text \<open>
  A \<open>Store\<close> never touches another catalog, and one that fails while the content is read or
  written leaves the content served for its own catalog as it was.
\<close>

theorem failed_store_keeps_content:
  assumes "Store ld c fs root = (root', err)" and "no_temp c"
  shows "(\<forall>n. no_temp n \<and> n \<noteq> c \<longrightarrow> GetCatalogData n root' = GetCatalogData n root \<and> GetIndex n root' = GetIndex n root) \<and>
    ((\<forall>metas. ld_WalkMetasFS ld fs = Inr metas \<longrightarrow> ld_Wait ld metas \<noteq> None) \<longrightarrow>
       err \<noteq> None \<and> GetCatalogData c root' = GetCatalogData c root \<and> GetIndex c root' = GetIndex c root)"
proof (intro conjI impI allI)
  fix n assume "no_temp n \<and> n \<noteq> c"
  then have "map_of root' n = map_of root n" using Store_other [OF assms] by blast
  then show "GetCatalogData n root' = GetCatalogData n root" "GetIndex n root' = GetIndex n root"
    by (simp_all add: GetCatalogData_def GetIndex_def)
next
  assume fails: "\<forall>metas. ld_WalkMetasFS ld fs = Inr metas \<longrightarrow> ld_Wait ld metas \<noteq> None"
  have "err \<noteq> None \<and> map_of root' c = map_of root c"
    using assms by (cases rule: Store_cases) (use fails assms(2) in auto)
  then show "err \<noteq> None" "GetCatalogData c root' = GetCatalogData c root" "GetIndex c root' = GetIndex c root"
    by (simp_all add: GetCatalogData_def GetIndex_def)
qed

definition ex_ld :: "unit local_dir" where
  "ex_ld =
     \<lparr>ld_EnableMetasHandler = True, ld_EnableGraphQL = False, ld_now = 7, os_MkdirAll = None, os_ReadDir = ReadDirOk,
      os_MkdirTemp = Inr ''1'', ld_WalkMetasFS = (\<lambda>u. Inr ex_metas), ld_Wait = (\<lambda>ms. None),
      os_RemoveOrphan = (\<lambda>n. None), os_RemoveTemp = None, os_RemoveOld = None, os_Rename = None,
      ld_GetSchema = (\<lambda>c. None), os_RemoveRollback = None, os_RemoveDelete = None\<rparr>"

lemma ex_Store: "snd (Store ex_ld ''cat'' () []) = None"
  by (simp add: Store_def ex_ld_def removeOrphanedTempDirs_def write_catalog_def swap_in_def rename_in_def
      remove_all_def prebuild_schema_def Let_def errors_Join_def)


theorem failed_store_keeps_content_witness:
  "GetCatalogData ''b'' (fst (Store ex_ld ''cat'' () [(''b'', empty_dir)])) = GetCatalogData ''b'' [(''b'', empty_dir)]"
  using failed_store_keeps_content [of ex_ld "''cat''" "()" "[(''b'', empty_dir)]"
      "fst (Store ex_ld ''cat'' () [(''b'', empty_dir)])" "snd (Store ex_ld ''cat'' () [(''b'', empty_dir)])"]
  by (simp add: no_temp_def)

end
