(* ===== verification/K8s_Names.thy ===== *)
theory K8s_Names
  imports Go_Errors
begin

text \<open>
  Names of Kubernetes objects: the check for DNS subdomains of
  \<open>k8s.io/apimachinery/pkg/util/validation\<close>, which the catalog server and the validation of bundles
  call, and the names that the rendering of bundles builds from a base and a suffix
  (\<open>rukpak/util/util.go\<close>, \<open>shared/util/hash/hash.go\<close>).
\<close>

section \<open>Definitions\<close>

subsection \<open>DNS subdomains\<close>

definition dns_alnum :: "char \<Rightarrow> bool" where
  "dns_alnum c \<longleftrightarrow> (let n = (of_char c :: nat) in 97 \<le> n \<and> n \<le> 122 \<or> 48 \<le> n \<and> n \<le> 57)"

definition dns1123_label :: "string \<Rightarrow> bool" where
  "dns1123_label s \<longleftrightarrow> s \<noteq> [] \<and> list_all (\<lambda>c. dns_alnum c \<or> c = CHR ''-'') s \<and> dns_alnum (hd s) \<and> dns_alnum (last s)"

definition IsDNS1123Subdomain :: "string \<Rightarrow> string list" where
  "IsDNS1123Subdomain value =
     (if length value > 253 then [''must be no more than 253 characters''] else []) @
     (if list_all dns1123_label (split_on CHR ''.'' value) then []
      else [''a lowercase RFC 1123 subdomain must consist of lower case alphanumeric characters, '' @ [CHR 0x27, CHR ''-'', CHR 0x27] @
        '' or '' @ [CHR 0x27, CHR ''.'', CHR 0x27] @ '', and must start and end with an alphanumeric character (e.g. '' @
        [CHR 0x27] @ ''example.com'' @ [CHR 0x27] @ '', regex used for validation is '' @ [CHR 0x27] @
        ''[a-z0-9]([-a-z0-9]*[a-z0-9])?('' @ [CHR 0x5C] @ ''.[a-z0-9]([-a-z0-9]*[a-z0-9])?)*'' @ [CHR 0x27] @ '')''])"

subsection \<open>Generated names\<close>

definition maxNameLength :: nat where
  "maxNameLength = 63"

text \<open>
  \<open>ObjectNameForBaseAndSuffix\<close>. The bound of the slice is negative, and the program panics
  (\<open>None\<close>), when the suffix fills the whole name.
\<close>

definition ObjectNameForBaseAndSuffix :: "string \<Rightarrow> string \<Rightarrow> string option" where
  "ObjectNameForBaseAndSuffix base sfx =
     (if length base + length sfx > maxNameLength then
        (let cut = int maxNameLength - int (length sfx) - 1 in
         if cut < 0 then None else Some (take (nat cut) base @ ''-'' @ sfx))
      else Some (base @ ''-'' @ sfx))"

text \<open>
  \<open>DeepHashObject\<close>: the 28 bytes of the SHA-224 of the JSON encoding, as a big-endian number in base
  36 (\<open>big.Int.Text\<close>). The encoder and the hash are parameters; an object that cannot be encoded
  panics.
\<close>

fun base36 :: "nat \<Rightarrow> string" where
  "base36 n = (if n < 36 then [hex_char n] else base36 (n div 36) @ [hex_char (n mod 36)])"

declare base36.simps [simp del]

definition bytes_val :: "8 word list \<Rightarrow> nat" where
  "bytes_val bs = foldl (\<lambda>acc b. acc * 256 + unat b) 0 bs"

definition DeepHashObject :: "('a \<Rightarrow> string option) \<Rightarrow> (string \<Rightarrow> 8 word list) \<Rightarrow> 'a \<Rightarrow> string option" where
  "DeepHashObject encode sha224 obj =
     (case encode obj of None \<Rightarrow> None | Some json \<Rightarrow> Some (base36 (bytes_val (sha224 json))))"

definition DefaultUniqueNameGenerator ::
  "('a \<Rightarrow> string option) \<Rightarrow> (string \<Rightarrow> 8 word list) \<Rightarrow> string \<Rightarrow> 'a \<Rightarrow> string option" where
  "DefaultUniqueNameGenerator encode sha224 base obj =
     (case DeepHashObject encode sha224 obj of
        None \<Rightarrow> None
      | Some hashStr \<Rightarrow> ObjectNameForBaseAndSuffix base hashStr)"

section \<open>Lemmas\<close>

lemma split_on_chars: "x \<in> set s \<Longrightarrow> x \<noteq> c \<Longrightarrow> \<exists>w \<in> set (split_on c s). x \<in> set w"
  by (induction s) (auto split: list.splits if_splits)

lemma subdomain_labels: "IsDNS1123Subdomain name = [] \<Longrightarrow> list_all dns1123_label (split_on CHR ''.'' name)"
  by (auto simp: IsDNS1123Subdomain_def split: if_splits)

lemma subdomain_chars:
  assumes "IsDNS1123Subdomain name = []" and "x \<in> set name"
  shows "dns_alnum x \<or> x = CHR ''-'' \<or> x = CHR ''.''"
proof (cases "x = CHR ''.''")
  case False
  then show ?thesis
    using split_on_chars [OF assms(2) False] subdomain_labels [OF assms(1)]
    by (auto simp: list_all_iff dns1123_label_def)
qed simp

lemma subdomain_start: "IsDNS1123Subdomain name = [] \<Longrightarrow> name \<noteq> [] \<and> dns_alnum (hd name)"
  using subdomain_labels [of name]
  by (cases name) (auto simp: dns1123_label_def split: if_splits list.splits)

lemma split_on_snoc:
  "split_on c (s @ [x]) =
     (if x = c then split_on c s @ [[]] else butlast (split_on c s) @ [last (split_on c s) @ [x]])"
proof (induction s)
  case (Cons a s)
  obtain w ws where "split_on c s = w # ws" by (metis split_on_not_Nil neq_Nil_conv)
  with Cons show ?case by (cases ws) auto
qed simp

lemma last_split_on: "last (split_on c (s @ [x])) = (if x = c then [] else last (split_on c s) @ [x])"
  by (simp add: split_on_snoc)

text \<open>A valid name does not end in a hyphen.\<close>

lemma subdomain_end:
  assumes "IsDNS1123Subdomain name = []"
  shows "dns_alnum (last name)"
proof -
  obtain s x where name: "name = s @ [x]"
    using subdomain_start [OF assms] by (cases name rule: rev_cases) auto
  have "dns1123_label (last (split_on CHR ''.'' name))"
    using subdomain_labels [OF assms] by (auto simp: list_all_iff)
  then show ?thesis
    by (auto simp: name last_split_on dns1123_label_def split: if_splits)
qed

lemma hex_char_36: "d < 36 \<Longrightarrow> dns_alnum (hex_char d)"
  by (auto simp: hex_char_def dns_alnum_def Let_def)

lemma length_base36: "n < 36 ^ Suc k \<Longrightarrow> length (base36 n) \<le> Suc k"
proof (induction k arbitrary: n)
  case 0
  then show ?case by (simp add: base36.simps [of n])
next
  case (Suc k)
  have "n div 36 < 36 ^ Suc k" using Suc.prems by (simp add: less_mult_imp_div_less mult.commute)
  with Suc.IH [of "n div 36"] show ?case by (subst base36.simps) simp
qed

lemma bytes_val_bound: "bytes_val bs < 256 ^ length bs"
proof (induction bs rule: rev_induct)
  case (snoc b bs)
  have b: "unat b < 256" using unsigned_less [of b] by simp
  have "bytes_val bs * 256 + unat b < (bytes_val bs + 1) * 256" using b by simp
  also have "\<dots> \<le> 256 ^ length bs * 256" using snoc by simp
  finally show ?case by (simp add: bytes_val_def)
qed (simp add: bytes_val_def)

text \<open>A SHA-224 hash has at most 44 digits in base 36.\<close>

lemma length_DeepHashObject:
  assumes "DeepHashObject encode sha224 obj = Some h" and "\<And>s. length (sha224 s) = 28"
  shows "length h \<le> 44"
proof -
  obtain js where h: "h = base36 (bytes_val (sha224 js))"
    using assms(1) by (auto simp: DeepHashObject_def split: option.splits)
  have "bytes_val (sha224 js) < 256 ^ 28" using bytes_val_bound [of "sha224 js"] assms(2) by simp
  also have "(256 :: nat) ^ 28 \<le> 36 ^ Suc 43" by simp
  finally show ?thesis unfolding h using length_base36 by fastforce
qed

text \<open>
  With a suffix of at most 62 characters there is a name. It keeps the suffix, and it is at most 64
  characters long: one more than the limit when base and suffix together have exactly 63.
\<close>

lemma ObjectName_total: "length sfx < maxNameLength \<Longrightarrow> \<exists>n. ObjectNameForBaseAndSuffix base sfx = Some n"
  by (simp add: ObjectNameForBaseAndSuffix_def Let_def maxNameLength_def)

lemma ObjectName_length:
  assumes "ObjectNameForBaseAndSuffix base sfx = Some n" and "length sfx < maxNameLength"
  shows "length n = (if length base + length sfx = maxNameLength then maxNameLength + 1
                     else min maxNameLength (length base + length sfx + 1))"
  using assms by (auto simp: ObjectNameForBaseAndSuffix_def Let_def maxNameLength_def split: if_splits)

subsection \<open>The hash separates names\<close>

lemma hex_char_inject: "d < 36 \<Longrightarrow> d' < 36 \<Longrightarrow> hex_char d = hex_char d' \<Longrightarrow> d = d'"
proof -
  assume d: "d < 36" "d' < 36" "hex_char d = hex_char d'"
  have val: "(of_char (hex_char x) :: nat) = (if x < 10 then 48 + x else 87 + x)" if "x < 36" for x
    using that by (simp add: hex_char_def)
  have "(of_char (hex_char d) :: nat) = of_char (hex_char d')" using d(3) by simp
  then show "d = d'" using val [OF d(1)] val [OF d(2)] d(1,2) by (auto split: if_splits)
qed

lemma base36_not_Nil [simp]: "base36 n \<noteq> []"
  by (subst base36.simps) simp

lemma base36_chars: "c \<in> set (base36 n) \<Longrightarrow> dns_alnum c"
proof (induction n rule: base36.induct)
  case (1 n)
  then show ?case by (cases "n < 36") (auto simp: base36.simps [of n] hex_char_36)
qed

lemma base36_inject: "base36 m = base36 n \<Longrightarrow> m = n"
proof (induction m arbitrary: n rule: base36.induct)
  case (1 m)
  show ?case
  proof (cases "m < 36"; cases "n < 36")
    assume "m < 36" "n < 36"
    then show ?thesis using 1(2) by (simp add: base36.simps hex_char_inject)
  next
    assume "m < 36" "\<not> n < 36"
    then have "[] = base36 (n div 36)" using 1(2) by (simp add: base36.simps [of m] base36.simps [of n])
    then show ?thesis by (metis base36_not_Nil)
  next
    assume "\<not> m < 36" "n < 36"
    then show ?thesis using 1(2) by (simp add: base36.simps [of m] base36.simps [of n])
  next
    assume a: "\<not> m < 36" "\<not> n < 36"
    then have "base36 (m div 36) = base36 (n div 36)" and "hex_char (m mod 36) = hex_char (n mod 36)"
      using 1(2) by (simp_all add: base36.simps [of m] base36.simps [of n])
    then have "m div 36 = n div 36" and "m mod 36 = n mod 36"
      using 1(1) [OF a(1)] hex_char_inject [of "m mod 36" "n mod 36"] by simp_all
    then show ?thesis by (metis div_mult_mod_eq)
  qed
qed

lemma byte_split: "a * 256 + x = b * 256 + y \<Longrightarrow> x < 256 \<Longrightarrow> y < 256 \<Longrightarrow> a = b \<and> x = y" for a b x y :: nat
proof -
  assume eq: "a * 256 + x = b * 256 + y" and x: "x < 256" and y: "y < 256"
  have "(a * 256 + x) div 256 = a" "(b * 256 + y) div 256 = b" using x y by simp_all
  with eq show ?thesis by simp
qed

lemma bytes_val_inject: "length xs = length ys \<Longrightarrow> bytes_val xs = bytes_val ys \<Longrightarrow> xs = ys"
proof (induction xs arbitrary: ys rule: rev_induct)
  case (snoc x xs)
  then obtain y ys' where ys: "ys = ys' @ [y]" and len: "length xs = length ys'"
    by (cases ys rule: rev_cases) auto
  have b: "unat x < 256" "unat y < 256" using unsigned_less [of x] unsigned_less [of y] by simp_all
  have "bytes_val xs * 256 + unat x = bytes_val ys' * 256 + unat y"
    using snoc.prems(2) by (simp add: ys bytes_val_def)
  from byte_split [OF this b] have "unat x = unat y" and "bytes_val xs = bytes_val ys'" by simp_all
  then show ?case using snoc.IH [OF len] by (simp add: ys word_unat_eq_iff)
qed simp

lemma append_sep_unique:
  "a @ c # s = b @ c # t \<Longrightarrow> c \<notin> set s \<Longrightarrow> c \<notin> set t \<Longrightarrow> s = t"
proof (induction a arbitrary: b)
  case Nil
  then show ?case by (cases b) auto
next
  case (Cons x a)
  then show ?case by (cases b) auto
qed

text \<open>Equal names come from equal hashes, whatever was cut from the bases.\<close>

lemma DefaultUniqueName_hash:
  assumes "DefaultUniqueNameGenerator encode sha224 base p = Some n"
    and "DefaultUniqueNameGenerator encode sha224 base' p' = Some n"
    and "\<And>s. length (sha224 s) = 28"
  shows "map_option sha224 (encode p) = map_option sha224 (encode p')"
proof -
  have shape: "\<exists>js b. encode q = Some js \<and> n = b @ CHR ''-'' # base36 (bytes_val (sha224 js))"
    if "DefaultUniqueNameGenerator encode sha224 bs q = Some n" for bs q
    using that by (auto simp: DefaultUniqueNameGenerator_def DeepHashObject_def ObjectNameForBaseAndSuffix_def Let_def
        split: option.splits if_splits)
  obtain js b where p: "encode p = Some js" "n = b @ CHR ''-'' # base36 (bytes_val (sha224 js))" using shape [OF assms(1)] by blast
  obtain js' b' where p': "encode p' = Some js'" "n = b' @ CHR ''-'' # base36 (bytes_val (sha224 js'))" using shape [OF assms(2)] by blast
  have "CHR ''-'' \<notin> set (base36 k)" for k using base36_chars [of "CHR ''-''" k] by (auto simp: dns_alnum_def)
  then have "base36 (bytes_val (sha224 js)) = base36 (bytes_val (sha224 js'))"
    using append_sep_unique [of b "CHR ''-''"] p(2) p'(2) by metis
  then have "sha224 js = sha224 js'" using base36_inject bytes_val_inject assms(3) by metis
  then show ?thesis using p p' by simp
qed

section \<open>Properties\<close>

text \<open>
  The length of a name made from a base and a suffix. Names are cut to 63 characters, except
  that a base and a suffix of 63 characters together are not cut, so that the name has 64.
\<close>

theorem object_name_bound:
  assumes "ObjectNameForBaseAndSuffix base sfx = Some n" and "length sfx < maxNameLength"
  shows "length n \<le> maxNameLength + 1 \<and> (length n = maxNameLength + 1 \<longleftrightarrow> length base + length sfx = maxNameLength) \<and>
    drop (length n - length sfx - 1) n = CHR ''-'' # sfx"
  using assms by (auto simp: ObjectNameForBaseAndSuffix_def Let_def maxNameLength_def split: if_splits)

theorem object_name_bound_witness:
  "length (the (ObjectNameForBaseAndSuffix (replicate 56 CHR ''a'') ''service'')) = maxNameLength + 1"
proof -
  have "ObjectNameForBaseAndSuffix (replicate 56 CHR ''a'') ''service'' = Some (replicate 56 CHR ''a'' @ ''-service'')"
    by (simp add: ObjectNameForBaseAndSuffix_def maxNameLength_def)
  from object_name_bound [OF this] show ?thesis
    by (simp add: ObjectNameForBaseAndSuffix_def maxNameLength_def)
qed

end
