(* ===== verification/Catalogd_Server.thy ===== *)
theory Catalogd_Server
  imports Catalogd_Storage K8s_Names
begin

text \<open>
  The HTTP server of catalogd: evaluation of request preconditions
  (\<open>catalogd/server/http_preconditions_check.go\<close>) and the handlers (\<open>catalogd/server/handlers.go\<close>).
  A handler takes a response writer and returns it; the first status written counts, and what is
  written afterwards is appended to the body, as in \<open>net/http\<close>. Instants are nanoseconds since 1970.
\<close>

section \<open>Definitions\<close>

subsection \<open>Requests and responses\<close>

record http_request =
  rq_Method :: string
  rq_PathCatalog :: string
  rq_Header :: "string \<Rightarrow> string"
  rq_Query :: "(string \<times> string list) list"

record http_response =
  rw_Header :: string_map
  rw_Status :: "nat option"
  rw_Body :: string

abbreviation MethodGet :: string where "MethodGet \<equiv> ''GET''"
abbreviation MethodHead :: string where "MethodHead \<equiv> ''HEAD''"
abbreviation MethodPost :: string where "MethodPost \<equiv> ''POST''"

definition WriteHeader :: "nat \<Rightarrow> http_response \<Rightarrow> http_response" where
  "WriteHeader code w = (case rw_Status w of None \<Rightarrow> w\<lparr>rw_Status := Some code\<rparr> | Some c \<Rightarrow> w)"

definition set_header :: "string \<Rightarrow> string \<Rightarrow> http_response \<Rightarrow> http_response" where
  "set_header k v w = w\<lparr>rw_Header := (rw_Header w)(k \<mapsto> v)\<rparr>"

text \<open>\<open>Header.Add\<close> keeps the value that \<open>Header.Get\<close> returns when there is one.\<close>

definition add_header :: "string \<Rightarrow> string \<Rightarrow> http_response \<Rightarrow> http_response" where
  "add_header k v w = (if rw_Header w k = None then set_header k v w else w)"

definition del_header :: "string \<Rightarrow> http_response \<Rightarrow> http_response" where
  "del_header k w = w\<lparr>rw_Header := (rw_Header w)(k := None)\<rparr>"

definition rw_Write :: "string \<Rightarrow> http_response \<Rightarrow> http_response" where
  "rw_Write bs w = (let w1 = WriteHeader 200 w in w1\<lparr>rw_Body := rw_Body w1 @ bs\<rparr>)"

definition http_Error :: "string \<Rightarrow> nat \<Rightarrow> http_response \<Rightarrow> http_response" where
  "http_Error message code w =
     rw_Write (message @ [CHR 0x0A]) (WriteHeader code
       (set_header ''X-Content-Type-Options'' ''nosniff''
         (set_header ''Content-Type'' ''text/plain; charset=utf-8'' (del_header ''Content-Length'' w))))"

definition StatusText :: "nat \<Rightarrow> string" where
  "StatusText code =
     (if code = 400 then ''Bad Request'' else if code = 403 then ''Forbidden''
      else if code = 404 then ''Not Found'' else if code = 405 then ''Method Not Allowed''
      else if code = 500 then ''Internal Server Error'' else '''')"

datatype handler_error = HeStore store_error | HeInvalidParams | HeInvalidCatalogName string | HeOther go_error

definition httpError :: "handler_error \<Rightarrow> http_response \<Rightarrow> http_response" where
  "httpError err w =
     (let code = (case err of
            HeStore ErrNotExist \<Rightarrow> 404
          | HeStore ErrPermission \<Rightarrow> 403
          | HeInvalidParams \<Rightarrow> 400
          | HeInvalidCatalogName m \<Rightarrow> 400
          | _ \<Rightarrow> 500);
          message = (case err of
            HeInvalidCatalogName m \<Rightarrow> m
          | _ \<Rightarrow> show_nat code @ '' '' @ StatusText code) in
      http_Error message code w)"

subsection \<open>Names of catalogs\<close>

definition isValidCatalogName :: "string \<Rightarrow> handler_error option" where
  "isValidCatalogName name =
     (let errs = IsDNS1123Subdomain name in
      if errs = [] then None
      else Some (HeInvalidCatalogName (''invalid catalog name: '' @ go_join ''; '' errs)))"

subsection \<open>Entity tags\<close>

definition ascii_space :: "char \<Rightarrow> bool" where
  "ascii_space c \<longleftrightarrow> c \<in> {CHR '' '', CHR 0x09, CHR 0x0A, CHR 0x0D}"

definition TrimString :: "string \<Rightarrow> string" where
  "TrimString s = rev (dropWhile ascii_space (rev (dropWhile ascii_space s)))"

definition etag_char :: "char \<Rightarrow> bool" where
  "etag_char c \<longleftrightarrow> (let n = (of_char c :: nat) in n = 33 \<or> 35 \<le> n \<and> n \<le> 126 \<or> 128 \<le> n)"

text \<open>After the opening quote: the tag up to and including the closing quote, and what follows.\<close>

fun scan_body :: "string \<Rightarrow> (string \<times> string) option" where
  "scan_body [] = None"
| "scan_body (c # cs) =
     (if etag_char c then map_option (\<lambda>(a, b). (c # a, b)) (scan_body cs)
      else if c = CHR 0x22 then Some ([c], cs)
      else None)"

definition scanETag :: "string \<Rightarrow> string \<times> string" where
  "scanETag s0 =
     (let s = TrimString s0;
          start = (if take 2 s = ''W/'' then 2 else 0);
          t = drop start s in
      if length t < 2 \<or> hd t \<noteq> CHR 0x22 then ('''', '''')
      else
        (case scan_body (tl t) of
           None \<Rightarrow> ('''', '''')
         | Some (a, b) \<Rightarrow> (take (Suc start) s @ a, b)))"

lemma TrimString_length: "length (TrimString s) \<le> length s"
proof -
  have "length (dropWhile P xs) \<le> length xs" for P and xs :: string by (rule length_dropWhile_le)
  then show ?thesis unfolding TrimString_def by (metis (no_types, lifting) length_rev le_trans)
qed

lemma scan_body_shorter: "scan_body s = Some (a, b) \<Longrightarrow> length b < length s"
  by (induction s arbitrary: a b) (auto split: if_splits)

lemma scanETag_shorter:
  assumes "scanETag s = (etag, remain)" and "etag \<noteq> ''''"
  shows "length remain < length s"
proof -
  let ?t = "drop (if take 2 (TrimString s) = ''W/'' then 2 else 0) (TrimString s)"
  obtain a where "scan_body (tl ?t) = Some (a, remain)"
    using assms by (auto simp: scanETag_def Let_def split: if_splits option.splits)
  then have "length remain < length (tl ?t)" by (rule scan_body_shorter)
  also have "\<dots> \<le> length s" using TrimString_length [of s] by simp
  finally show ?thesis .
qed

subsection \<open>Preconditions\<close>

datatype condResult = condNone | condTrue | condFalse

text \<open>
  The list of entity tags of a header: \<open>star\<close> when an asterisk is met, \<open>other\<close> at its end or at
  something that is no tag. The tags themselves are not compared: the server sends none.
\<close>

function etag_loop :: "condResult \<Rightarrow> condResult \<Rightarrow> string \<Rightarrow> condResult" where
  "etag_loop star other buf0 =
     (let buf = TrimString buf0 in
      if buf = [] then other
      else if hd buf = CHR '','' then etag_loop star other (tl buf)
      else if hd buf = CHR ''*'' then star
      else
        (let (etag, remain) = scanETag buf in
         if etag = '''' then other else etag_loop star other remain))"
  by pat_completeness auto
termination
  by (relation "measure (\<lambda>(star, other, buf). length buf)")
    (use TrimString_length in \<open>auto dest!: scanETag_shorter [OF sym] simp: Suc_le_lessD less_le_trans
      intro: less_le_trans\<close>)

declare etag_loop.simps [simp del]

definition checkIfMatch :: "http_request \<Rightarrow> condResult" where
  "checkIfMatch r =
     (let im = rq_Header r ''If-Match'' in
      if im = '''' then condNone else etag_loop condTrue condFalse im)"

definition checkIfNoneMatch :: "http_request \<Rightarrow> condResult" where
  "checkIfNoneMatch r =
     (let inm = rq_Header r ''If-None-Match'' in
      if inm = '''' then condNone else etag_loop condFalse condTrue inm)"

text \<open>\<open>time.Parse\<close> and the formatting of instants.\<close>

record http_env =
  he_Parse :: "string \<Rightarrow> string \<Rightarrow> int result"
  he_Format :: "int \<Rightarrow> string"
  he_ServeContent :: "http_request \<Rightarrow> int \<Rightarrow> string stored_file \<Rightarrow> http_response \<Rightarrow> http_response"

definition timeFormat :: string where
  "timeFormat = ''Mon, 02 Jan 2006 15:04:05 GMT''"

definition timeFormats :: "string list" where
  "timeFormats = [timeFormat, ''Monday, 02-Jan-06 15:04:05 MST'', ''Mon Jan _2 15:04:05 2006'']"

fun parse_layouts :: "http_env \<Rightarrow> string list \<Rightarrow> string \<Rightarrow> int result" where
  "parse_layouts env [] text = Inr 0"
| "parse_layouts env [layout] text = he_Parse env layout text"
| "parse_layouts env (layout # ls) text =
     (case he_Parse env layout text of Inr t \<Rightarrow> Inr t | Inl e \<Rightarrow> parse_layouts env ls text)"

definition parseTime :: "http_env \<Rightarrow> string \<Rightarrow> int result" where
  "parseTime env text = parse_layouts env timeFormats text"

definition zero_time :: int where
  "zero_time = - 62135596800 * second_ns"

definition isZeroTime :: "int \<Rightarrow> bool" where
  "isZeroTime t \<longleftrightarrow> t = zero_time \<or> t = 0"

definition truncate_second :: "int \<Rightarrow> int" where
  "truncate_second t = t - t mod second_ns"

definition checkIfModifiedSince :: "http_env \<Rightarrow> http_request \<Rightarrow> http_response \<Rightarrow> int \<Rightarrow> http_response \<times> condResult" where
  "checkIfModifiedSince env r w modtime =
     (let ims = rq_Header r ''If-Modified-Since'' in
      if ims = '''' \<or> isZeroTime modtime then (w, condTrue)
      else
        (case parseTime env ims of
           Inl e \<Rightarrow> (httpError (HeOther e) w, condNone)
         | Inr t \<Rightarrow> (w, if truncate_second modtime \<le> t then condFalse else condTrue)))"

definition checkIfUnmodifiedSince :: "http_env \<Rightarrow> http_request \<Rightarrow> int \<Rightarrow> condResult" where
  "checkIfUnmodifiedSince env r modtime =
     (let ius = rq_Header r ''If-Unmodified-Since'' in
      if ius = '''' \<or> isZeroTime modtime then condNone
      else
        (case parseTime env ius of
           Inl e \<Rightarrow> condNone
         | Inr t \<Rightarrow> if truncate_second modtime \<le> t then condTrue else condFalse))"

definition writeNotModified :: "http_response \<Rightarrow> http_response" where
  "writeNotModified w =
     (let w1 = del_header ''Content-Encoding'' (del_header ''Content-Length'' (del_header ''Content-Type'' w));
          w2 = (if map_get (rw_Header w1) ''Etag'' \<noteq> '''' then del_header ''Last-Modified'' w1 else w1) in
      WriteHeader 304 w2)"

definition checkPreconditions :: "http_env \<Rightarrow> http_request \<Rightarrow> http_response \<Rightarrow> int \<Rightarrow> http_response \<times> bool" where
  "checkPreconditions env r w modtime =
     (let ch = (case checkIfMatch r of condNone \<Rightarrow> checkIfUnmodifiedSince env r modtime | c \<Rightarrow> c) in
      if ch = condFalse then (WriteHeader 412 w, True)
      else
        (case checkIfNoneMatch r of
           condFalse \<Rightarrow>
             if rq_Method r = MethodGet \<or> rq_Method r = MethodHead then (writeNotModified w, True)
             else (WriteHeader 412 w, True)
         | condNone \<Rightarrow>
             (let (w1, c) = checkIfModifiedSince env r w modtime in
              if c = condFalse then (writeNotModified w1, True) else (w1, False))
         | condTrue \<Rightarrow> (w, False)))"

subsection \<open>Handlers\<close>

text \<open>
  The store the handlers read: contents with their modification time, file systems, and the reader
  of an index. \<open>gq_Decode\<close> decodes the body of a request, limited to 1 MiB.
\<close>

record 'r graphql_service =
  gq_ExecuteQuery :: "string \<Rightarrow> store_dir \<Rightarrow> string \<Rightarrow> handler_error + 'r"
  gq_Encode :: "'r \<Rightarrow> string result"

record 'r catalog_handlers =
  ch_GetCatalogData :: "string \<Rightarrow> store_error + string stored_file \<times> int"
  ch_GetCatalogFS :: "string \<Rightarrow> store_error + store_dir"
  ch_GetIndex :: "string \<Rightarrow> store_error + (string \<Rightarrow> string \<Rightarrow> string \<Rightarrow> string \<Rightarrow> string)"
  ch_graphqlSvc :: "'r graphql_service option"
  ch_DecodeBody :: "http_request \<Rightarrow> string result"
  ch_enableMetas :: bool
  ch_enableGraphQL :: bool

definition query_get :: "http_request \<Rightarrow> string \<Rightarrow> string" where
  "query_get r k = (case map_of (rq_Query r) k of Some (v # vs) \<Rightarrow> v | _ \<Rightarrow> '''')"

text \<open>Reading something that is no regular file fails.\<close>

definition serveJSONLines :: "http_request \<Rightarrow> string result \<Rightarrow> http_response \<Rightarrow> http_response" where
  "serveJSONLines r content w =
     (let w1 = add_header ''Content-Type'' ''application/jsonl'' w in
      if rq_Method r = MethodHead then w1
      else (case content of Inl e \<Rightarrow> httpError (HeOther e) w1 | Inr c \<Rightarrow> rw_Write c w1))"

definition file_content :: "string stored_file \<Rightarrow> string result" where
  "file_content f = (case f of Regular c \<Rightarrow> Inr c | Irregular \<Rightarrow> Inl (ErrText ''not a regular file''))"

definition handleV1All :: "http_env \<Rightarrow> 'r catalog_handlers \<Rightarrow> http_request \<Rightarrow> http_response \<Rightarrow> http_response" where
  "handleV1All env h r w =
     (case isValidCatalogName (rq_PathCatalog r) of
        Some e \<Rightarrow> httpError e w
      | None \<Rightarrow>
          (case ch_GetCatalogData h (rq_PathCatalog r) of
             Inl e \<Rightarrow> httpError (HeStore e) w
           | Inr (f, modtime) \<Rightarrow>
               he_ServeContent env r modtime f (add_header ''Content-Type'' ''application/jsonl'' w)))"

definition handleV1Metas :: "http_env \<Rightarrow> 'r catalog_handlers \<Rightarrow> http_request \<Rightarrow> http_response \<Rightarrow> http_response" where
  "handleV1Metas env h r w =
     (case isValidCatalogName (rq_PathCatalog r) of
        Some e \<Rightarrow> httpError e w
      | None \<Rightarrow>
          if list_ex (\<lambda>(k, vs). k \<notin> {''schema'', ''package'', ''name''}) (rq_Query r)
          then httpError HeInvalidParams w
          else
            (case ch_GetCatalogData h (rq_PathCatalog r) of
               Inl e \<Rightarrow> httpError (HeStore e) w
             | Inr (f, modtime) \<Rightarrow>
                 (let w1 = set_header ''Last-Modified'' (he_Format env modtime) w;
                      (w2, finished) = checkPreconditions env r w1 modtime in
                  if finished then w2
                  else
                    (let schema = query_get r ''schema''; pkg = query_get r ''package''; name = query_get r ''name'' in
                     if schema = '''' \<and> pkg = '''' \<and> name = '''' then serveJSONLines r (file_content f) w2
                     else
                       (case ch_GetIndex h (rq_PathCatalog r) of
                          Inl e \<Rightarrow> httpError (HeStore e) w2
                        | Inr get \<Rightarrow>
                            serveJSONLines r
                              (case file_content f of Inl e \<Rightarrow> Inl e | Inr c \<Rightarrow> Inr (get c schema pkg name)) w2)))))"

definition handleV1GraphQL :: "'r catalog_handlers \<Rightarrow> http_request \<Rightarrow> http_response \<Rightarrow> http_response" where
  "handleV1GraphQL h r w =
     (if rq_Method r \<noteq> MethodPost then http_Error ''Only POST is allowed'' 405 w
      else
        (case ch_graphqlSvc h of
           None \<Rightarrow> http_Error ''GraphQL queries are not enabled'' 503 w
         | Some svc \<Rightarrow>
             (case isValidCatalogName (rq_PathCatalog r) of
                Some e \<Rightarrow> httpError e w
              | None \<Rightarrow>
                  (case ch_DecodeBody h r of
                     Inl e \<Rightarrow> http_Error ''Invalid request body'' 400 w
                   | Inr query \<Rightarrow>
                       if query = '''' then http_Error ''Query cannot be empty'' 400 w
                       else if length query > 100000 then http_Error ''Query too large'' 400 w
                       else
                         (case ch_GetCatalogFS h (rq_PathCatalog r) of
                            Inl e \<Rightarrow> httpError (HeStore e) w
                          | Inr fs \<Rightarrow>
                              (case gq_ExecuteQuery svc (rq_PathCatalog r) fs query of
                                 Inl e \<Rightarrow> httpError e w
                               | Inr res \<Rightarrow>
                                   (let w1 = set_header ''Content-Type'' ''application/json'' w in
                                    case gq_Encode svc res of
                                      Inl e \<Rightarrow> httpError (HeOther e) w1
                                    | Inr body \<Rightarrow> rw_Write body w1)))))))"

definition methodRestrictedHandler ::
  "(http_request \<Rightarrow> http_response \<Rightarrow> http_response) \<Rightarrow> string list \<Rightarrow> http_request \<Rightarrow> http_response \<Rightarrow> http_response" where
  "methodRestrictedHandler handler allowedMethods r w =
     (if rq_Method r \<notin> set allowedMethods then http_Error (StatusText 405) 405 w else handler r w)"

text \<open>The routes by the last element of their path; the others are below the catalog's name.\<close>

definition Handler :: "http_env \<Rightarrow> 'r catalog_handlers \<Rightarrow> string \<Rightarrow> http_request \<Rightarrow> http_response \<Rightarrow> http_response" where
  "Handler env h route =
     (if route = ''all'' then methodRestrictedHandler (handleV1All env h) [MethodGet, MethodHead]
      else if route = ''metas'' \<and> ch_enableMetas h then methodRestrictedHandler (handleV1Metas env h) [MethodGet, MethodHead]
      else if route = ''graphql'' \<and> ch_enableGraphQL h then methodRestrictedHandler (handleV1GraphQL h) [MethodPost]
      else (\<lambda>r w. http_Error ''404 page not found'' 404 w))"

section \<open>Lemmas\<close>

lemma response_simps [simp]:
  "rw_Status (set_header k v w) = rw_Status w" "rw_Body (set_header k v w) = rw_Body w"
  "rw_Status (add_header k v w) = rw_Status w" "rw_Body (add_header k v w) = rw_Body w"
  "rw_Status (del_header k w) = rw_Status w" "rw_Body (del_header k w) = rw_Body w"
  "rw_Body (WriteHeader code w) = rw_Body w"
  "rw_Status (WriteHeader code w) = Some (case rw_Status w of None \<Rightarrow> code | Some c \<Rightarrow> c)"
  "rw_Status (rw_Write bs w) = Some (case rw_Status w of None \<Rightarrow> 200 | Some c \<Rightarrow> c)"
  "rw_Body (rw_Write bs w) = rw_Body w @ bs"
  "rw_Status (http_Error m code w) = Some (case rw_Status w of None \<Rightarrow> code | Some c \<Rightarrow> c)"
  "rw_Body (http_Error m code w) = rw_Body w @ m @ [CHR 0x0A]"
  by (simp_all add: set_header_def add_header_def del_header_def WriteHeader_def rw_Write_def http_Error_def Let_def
      split: option.split)

lemma writeNotModified_simps [simp]:
  "rw_Status (writeNotModified w) = Some (case rw_Status w of None \<Rightarrow> 304 | Some c \<Rightarrow> c)"
  "rw_Body (writeNotModified w) = rw_Body w"
  by (simp_all add: writeNotModified_def Let_def)

text \<open>Valid names of catalogs are harmless in a path.\<close>

lemma valid_name_subdomain: "isValidCatalogName name = None \<longleftrightarrow> IsDNS1123Subdomain name = []"
  by (simp add: isValidCatalogName_def Let_def)

lemma valid_name_chars:
  "isValidCatalogName name = None \<Longrightarrow> x \<in> set name \<Longrightarrow> dns_alnum x \<or> x = CHR ''-'' \<or> x = CHR ''.''"
  by (simp add: valid_name_subdomain subdomain_chars)

lemma valid_name_start: "isValidCatalogName name = None \<Longrightarrow> name \<noteq> [] \<and> dns_alnum (hd name)"
  by (simp add: valid_name_subdomain subdomain_start)

lemma valid_name_no_temp: "isValidCatalogName name = None \<Longrightarrow> no_temp name"
  using valid_name_start [of name] by (cases name) (auto simp: no_temp_def dns_alnum_def)

subsection \<open>Requests without preconditions\<close>

lemma no_preconditions:
  "(\<And>k. rq_Header r k = '''') \<Longrightarrow> checkPreconditions env r w modtime = (w, False)"
  by (simp add: checkPreconditions_def checkIfMatch_def checkIfUnmodifiedSince_def checkIfNoneMatch_def
      checkIfModifiedSince_def Let_def)

abbreviation known_params :: "http_request \<Rightarrow> bool" where
  "known_params r \<equiv> fst ` set (rq_Query r) \<subseteq> {''schema'', ''package'', ''name''}"

lemma known_params_list: "known_params r \<Longrightarrow> \<not> list_ex (\<lambda>(k, vs). k \<notin> {''schema'', ''package'', ''name''}) (rq_Query r)"
  by (force simp: list_ex_iff)

lemma show_nat_500: "show_nat 500 = ''500''"
  by code_simp

text \<open>The handlers on a root directory of the storage.\<close>

definition serves_root :: "(file_section set \<Rightarrow> file_section list) \<Rightarrow> 'r catalog_handlers \<Rightarrow> store_root \<Rightarrow> bool" where
  "serves_root unsorted h root \<longleftrightarrow>
     ch_GetCatalogData h = (\<lambda>c. GetCatalogData c root) \<and>
     ch_GetIndex h = (\<lambda>c. case GetIndex c root of Inl e \<Rightarrow> Inl e | Inr idx \<Rightarrow> Inr (index_Get unsorted idx))"

section \<open>Properties\<close>


text \<open>
  Preconditions only ever answer, never alter: when they decide the request, the response has
  status 304 or 412 and no body is added; when they do not and every date that is looked at parses,
  the response is untouched. A 304 is sent only if the client holds any version (an asterisk) or one
  from after the last modification.
\<close>

theorem preconditions_sound:
  assumes "checkPreconditions env r w modtime = (w', finished)" and "rw_Status w = None"
  shows "(finished \<longrightarrow> rw_Body w' = rw_Body w \<and> (rw_Status w' = Some 304 \<or> rw_Status w' = Some 412)) \<and>
    (\<not> finished \<and> (\<forall>e. parseTime env (rq_Header r ''If-Modified-Since'') \<noteq> Inl e) \<longrightarrow> w' = w) \<and>
    (rw_Status w' = Some 304 \<longrightarrow>
       etag_loop condFalse condTrue (rq_Header r ''If-None-Match'') = condFalse \<or>
       (\<exists>t. parseTime env (rq_Header r ''If-Modified-Since'') = Inr t \<and> truncate_second modtime \<le> t))"
proof -
  obtain w1 c where ims: "checkIfModifiedSince env r w modtime = (w1, c)" by fastforce
  have c: "c = condFalse \<longrightarrow> w1 = w \<and> (\<exists>t. parseTime env (rq_Header r ''If-Modified-Since'') = Inr t \<and> truncate_second modtime \<le> t)"
    "(\<forall>e. parseTime env (rq_Header r ''If-Modified-Since'') \<noteq> Inl e) \<longrightarrow> w1 = w"
    "w1 = w \<or> rw_Status w1 = Some 500"
    using ims assms(2)
    by (auto simp: checkIfModifiedSince_def Let_def httpError_def split: if_splits sum.splits)
  have n: "checkIfNoneMatch r = condFalse \<Longrightarrow> etag_loop condFalse condTrue (rq_Header r ''If-None-Match'') = condFalse"
    by (auto simp: checkIfNoneMatch_def Let_def split: if_splits)
  show ?thesis
    using assms c n ims
    by (cases "checkIfNoneMatch r"; cases c) (auto simp: checkPreconditions_def Let_def split: if_splits)
qed

text \<open>
  A date in \<open>If-Modified-Since\<close> that does not parse damages the response: the error is written
  with status 500, and then the content is appended to it as if nothing had happened.
\<close>

theorem malformed_date_damages_response:
  assumes "parseTime env (rq_Header r ''If-Modified-Since'') = Inl e" and "rq_Header r ''If-Modified-Since'' \<noteq> ''''"
    and "\<And>k. k \<noteq> ''If-Modified-Since'' \<Longrightarrow> rq_Header r k = ''''" and "\<not> isZeroTime modtime"
    and "isValidCatalogName (rq_PathCatalog r) = None" and "ch_GetCatalogData h (rq_PathCatalog r) = Inr (Regular content, modtime)"
    and "rq_Query r = []" and "rq_Method r = MethodGet" and "rw_Status w = None" and "rw_Body w = ''''"
  shows "rw_Status (handleV1Metas env h r w) = Some 500 \<and>
    rw_Body (handleV1Metas env h r w) = ''500 Internal Server Error'' @ [CHR 0x0A] @ content"
proof -
  have "checkPreconditions env r w1 modtime = (httpError (HeOther e) w1, False)" for w1
    using assms(1-4) by (simp add: checkPreconditions_def checkIfMatch_def checkIfUnmodifiedSince_def
        checkIfNoneMatch_def checkIfModifiedSince_def Let_def)
  then show ?thesis
    using assms(5-10)
    by (simp add: handleV1Metas_def Let_def query_get_def serveJSONLines_def file_content_def httpError_def
        StatusText_def show_nat_500)
qed

text \<open>
  A name that is no DNS subdomain never reaches the storage: the response is the same whatever
  the store holds, and a name that is accepted has no path separator and is not a temporary
  directory's.
\<close>

theorem catalog_names_confined:
  "(isValidCatalogName (rq_PathCatalog r) = Some e \<longrightarrow>
      handleV1All env h r w = handleV1All env h' r w \<and> handleV1Metas env h r w = handleV1Metas env h' r w \<and>
      (rw_Status w = None \<longrightarrow> rw_Status (handleV1Metas env h r w) = Some 400)) \<and>
   (isValidCatalogName (rq_PathCatalog r) = None \<longrightarrow>
      rq_PathCatalog r \<noteq> '''' \<and> CHR ''/'' \<notin> set (rq_PathCatalog r) \<and> no_temp (rq_PathCatalog r))"
proof (intro conjI impI)
  assume "isValidCatalogName (rq_PathCatalog r) = Some e"
  moreover from this obtain m where "e = HeInvalidCatalogName m"
    by (auto simp: isValidCatalogName_def Let_def split: if_splits)
  ultimately show "handleV1All env h r w = handleV1All env h' r w" "handleV1Metas env h r w = handleV1Metas env h' r w"
    "rw_Status w = None \<Longrightarrow> rw_Status (handleV1Metas env h r w) = Some 400"
    by (simp_all add: handleV1All_def handleV1Metas_def httpError_def)
next
  assume v: "isValidCatalogName (rq_PathCatalog r) = None"
  then show "rq_PathCatalog r \<noteq> ''''" "no_temp (rq_PathCatalog r)" using valid_name_start valid_name_no_temp by blast+
  show "CHR ''/'' \<notin> set (rq_PathCatalog r)"
    using valid_name_chars [OF v, of "CHR ''/''"] by (auto simp: dns_alnum_def)
qed

subsection \<open>Concrete requests\<close>

definition ex_request :: "string \<Rightarrow> (string \<times> string list) list \<Rightarrow> string \<Rightarrow> http_request" where
  "ex_request c q ims =
     \<lparr>rq_Method = MethodGet, rq_PathCatalog = c, rq_Header = (\<lambda>k. if k = ''If-Modified-Since'' then ims else ''''), rq_Query = q\<rparr>"

definition ex_writer :: http_response where
  "ex_writer = \<lparr>rw_Header = Map.empty, rw_Status = None, rw_Body = ''''\<rparr>"

definition ex_http :: http_env where
  "ex_http =
     \<lparr>he_Parse = (\<lambda>l t. if t = ''late'' then Inr (10 * second_ns) else Inl (ErrText ''no date'')), he_Format = (\<lambda>t. ''date''),
      he_ServeContent = (\<lambda>r m f w. w)\<rparr>"

definition ex_handlers :: "store_root \<Rightarrow> unit catalog_handlers" where
  "ex_handlers root =
     \<lparr>ch_GetCatalogData = (\<lambda>c. GetCatalogData c root), ch_GetCatalogFS = (\<lambda>c. GetCatalogFS c root),
      ch_GetIndex = (\<lambda>c. case GetIndex c root of Inl e \<Rightarrow> Inl e | Inr idx \<Rightarrow> Inr (index_Get sorted_list_of_set idx)),
      ch_graphqlSvc = None, ch_DecodeBody = (\<lambda>r. Inr ''''), ch_enableMetas = True, ch_enableGraphQL = False\<rparr>"

lemma ex_name: "isValidCatalogName ''cat'' = None"
  by (simp add: isValidCatalogName_def IsDNS1123Subdomain_def dns1123_label_def dns_alnum_def Let_def)


lemma ex_not_modified:
  "checkPreconditions ex_http (ex_request ''cat'' [] ''late'') ex_writer 7 = (writeNotModified ex_writer, True)"
  by (simp add: checkPreconditions_def checkIfMatch_def checkIfUnmodifiedSince_def checkIfNoneMatch_def
      checkIfModifiedSince_def parseTime_def timeFormats_def ex_request_def ex_http_def isZeroTime_def zero_time_def
      truncate_second_def second_ns_def Let_def)

theorem preconditions_sound_witness:
  "rw_Body (writeNotModified ex_writer) = '''' \<and> rw_Status (writeNotModified ex_writer) \<noteq> Some 500 \<and>
   (\<exists>t. parseTime ex_http ''late'' = Inr t \<and> truncate_second 7 \<le> t)"
proof -
  have e: "etag_loop condFalse condTrue '''' = condTrue" by (simp add: etag_loop.simps TrimString_def)
  show ?thesis
    using preconditions_sound [OF ex_not_modified] e by (auto simp: ex_writer_def ex_request_def)
qed

theorem malformed_date_damages_response_witness:
  "rw_Body (handleV1Metas ex_http (ex_handlers [(''cat'', stored_content ex_ld ex_metas)])
      (ex_request ''cat'' [] ''yesterday'') ex_writer) = ''500 Internal Server Error'' @ [CHR 0x0A] @ ''aabbbcc''"
  using malformed_date_damages_response [of ex_http "ex_request ''cat'' [] ''yesterday''" "ErrText ''no date''" 7
      "ex_handlers [(''cat'', stored_content ex_ld ex_metas)]" "''aabbbcc''" ex_writer]
  by (simp add: ex_name ex_request_def ex_http_def ex_handlers_def ex_writer_def parseTime_def timeFormats_def isZeroTime_def
      zero_time_def second_ns_def GetCatalogData_def stored_content_def ex_ld_def ex_metas_def)

theorem catalog_names_confined_witness:
  "rw_Status (handleV1Metas ex_http (ex_handlers []) (ex_request ''../x'' [] '''') ex_writer) = Some 400"
proof -
  obtain e where "isValidCatalogName (rq_PathCatalog (ex_request ''../x'' [] '''')) = Some e"
    by (simp add: ex_request_def isValidCatalogName_def IsDNS1123Subdomain_def dns1123_label_def Let_def)
  then show ?thesis
    using catalog_names_confined [of "ex_request ''../x'' [] ''''" e ex_http "ex_handlers []" ex_writer "ex_handlers []"]
    by (simp add: ex_writer_def)
qed

end
