(* ===== verification/Catalogd_Controller.thy ===== *)
theory Catalogd_Controller
  imports Catalogd_Storage Api_Types
begin

text \<open>
  The ClusterCatalog controller of catalogd
  (\<open>catalogd/controllers/core/clustercatalog_controller.go\<close>) and the garbage collection of its
  cache (\<open>catalogd/garbagecollection/garbage_collector.go\<close>). The state that lives across runs is the
  map of stored catalogs and the storage; the puller, the image cache, the storage and the clock are
  fields of \<open>cat_env\<close>. A nil pointer that the code would dereference, and the panic on an unexpected
  change, are the result \<open>None\<close>.
\<close>

section \<open>Definitions\<close>

definition fbcDeletionFinalizer :: string where
  "fbcDeletionFinalizer = ''olm.operatorframework.io/delete-server-cache''"

abbreviation TypeServing :: string where "TypeServing \<equiv> ''Serving''"
abbreviation ReasonAvailable :: string where "ReasonAvailable \<equiv> ''Available''"
abbreviation ReasonUnavailable :: string where "ReasonUnavailable \<equiv> ''Unavailable''"
abbreviation ReasonUserSpecifiedUnavailable :: string where
  "ReasonUserSpecifiedUnavailable \<equiv> ''UserSpecifiedUnavailable''"
abbreviation SourceTypeImage :: string where "SourceTypeImage \<equiv> ''Image''"

record stored_catalog =
  scd_ref :: string
  scd_lastUnpack :: int
  scd_lastSuccessfulPoll :: int
  scd_observedGeneration :: int

record 'st cat_state =
  cst_storedCatalogs :: "string \<rightharpoonup> stored_catalog"
  cst_storage :: 'st

text \<open>\<open>cx_now\<close> is the time of the run, \<open>cx_polled\<close> that of a successful poll, \<open>cx_until\<close> that of \<open>time.Until\<close>.\<close>

record ('fs, 'st) cat_env =
  cx_now :: int
  cx_polled :: int
  cx_until :: int
  cx_Jitter :: "int \<Rightarrow> int"
  cx_Get :: "string \<Rightarrow> cluster_catalog result"
  cx_Pull :: "string \<Rightarrow> string \<Rightarrow> ('fs \<times> string \<times> int) result"
  cx_ImageCacheDelete :: "string \<Rightarrow> go_error option"
  cx_Store :: "string \<Rightarrow> 'fs \<Rightarrow> 'st \<Rightarrow> 'st \<times> go_error option"
  cx_Delete :: "string \<Rightarrow> 'st \<Rightarrow> 'st \<times> go_error option"
  cx_ContentExists :: "string \<Rightarrow> 'st \<Rightarrow> bool"
  cx_BaseURL :: "string \<Rightarrow> string"
  cx_UpdateStatus :: "cluster_catalog \<Rightarrow> go_error option"
  cx_PatchFinalizers :: "string list \<Rightarrow> go_error option"

abbreviation cat_name :: "cluster_catalog \<Rightarrow> string" where "cat_name c \<equiv> meta_Name (cc_Meta c)"
abbreviation cat_gen :: "cluster_catalog \<Rightarrow> int" where "cat_gen c \<equiv> meta_Generation (cc_Meta c)"
abbreviation cat_conditions :: "cluster_catalog \<Rightarrow> condition list" where
  "cat_conditions c \<equiv> ccst_Conditions (cc_Status c)"

subsection \<open>Status\<close>

definition set_cat_condition :: "int \<Rightarrow> condition \<Rightarrow> cluster_catalog_status \<Rightarrow> cluster_catalog_status" where
  "set_cat_condition now c st = st\<lparr>ccst_Conditions := fst (apimeta_SetStatusCondition now (ccst_Conditions st) c)\<rparr>"

definition clearUnknownConditions :: "cluster_catalog_status \<Rightarrow> cluster_catalog_status" where
  "clearUnknownConditions st =
     st\<lparr>ccst_Conditions := filter (\<lambda>c. cond_type c \<in> {TypeServing, TypeProgressing}) (ccst_Conditions st)\<rparr>"

definition updateStatusProgressing ::
  "int \<Rightarrow> int \<Rightarrow> go_error option \<Rightarrow> cluster_catalog_status \<Rightarrow> cluster_catalog_status" where
  "updateStatusProgressing now generation err st =
     (let terminal = (case err of None \<Rightarrow> False | Some e \<Rightarrow> is_terminal e) in
      set_cat_condition now
        (mk_condition TypeProgressing
          (if terminal then ConditionFalse else ConditionTrue)
          (if terminal then ReasonBlocked else if err = None then ReasonSucceeded else ReasonRetrying)
          (if err = None then ''Successfully unpacked and stored content from resolved source'' else SanitizeNetworkError err)
          generation) st)"

definition updateStatusServing ::
  "int \<Rightarrow> string \<Rightarrow> int \<Rightarrow> string \<Rightarrow> int \<Rightarrow> cluster_catalog_status \<Rightarrow> cluster_catalog_status" where
  "updateStatusServing now ref modTime baseURL generation st =
     set_cat_condition now
       (mk_condition TypeServing ConditionTrue ReasonAvailable ''Serving desired content from resolved source'' generation)
       (st\<lparr>ccst_ResolvedSource := Some \<lparr>rcs_Type = SourceTypeImage, rcs_Image = Some \<lparr>rimg_Ref = ref\<rparr>\<rparr>,
           ccst_URLs := Some baseURL, ccst_LastUnpacked := Some (modTime - modTime mod second_ns)\<rparr>)"

definition updateStatusProgressingUserSpecifiedUnavailable ::
  "int \<Rightarrow> int \<Rightarrow> cluster_catalog_status \<Rightarrow> cluster_catalog_status" where
  "updateStatusProgressingUserSpecifiedUnavailable now generation st =
     set_cat_condition now
       (mk_condition TypeServing ConditionFalse ReasonUserSpecifiedUnavailable
         ''Catalog availability mode is set to Unavailable'' generation)
       (set_cat_condition now
         (mk_condition TypeProgressing ConditionTrue ReasonSucceeded
           ''Catalog availability mode is set to Unavailable'' generation) st)"

definition updateStatusNotServing :: "int \<Rightarrow> int \<Rightarrow> cluster_catalog_status \<Rightarrow> cluster_catalog_status" where
  "updateStatusNotServing now generation st =
     set_cat_condition now (mk_condition TypeServing ConditionFalse ReasonUnavailable '''' generation)
       (st\<lparr>ccst_ResolvedSource := None, ccst_URLs := None, ccst_LastUnpacked := None\<rparr>)"

definition with_cat_status ::
  "(cluster_catalog_status \<Rightarrow> cluster_catalog_status) \<Rightarrow> cluster_catalog \<Rightarrow> cluster_catalog" where
  "with_cat_status f c = c\<lparr>cc_Status := f (cc_Status c)\<rparr>"

subsection \<open>The cache of a catalog\<close>

definition deleteStoredCatalog :: "string \<Rightarrow> 'st cat_state \<Rightarrow> 'st cat_state" where
  "deleteStoredCatalog name st = st\<lparr>cst_storedCatalogs := (cst_storedCatalogs st)(name := None)\<rparr>"

definition deleteCatalogCache ::
  "('fs, 'st) cat_env \<Rightarrow> cluster_catalog \<Rightarrow> 'st cat_state \<Rightarrow> cluster_catalog \<times> 'st cat_state \<times> go_error option" where
  "deleteCatalogCache env c st =
     (let (storage, derr) = cx_Delete env (cat_name c) (cst_storage st);
          st1 = st\<lparr>cst_storage := storage\<rparr>;
          progressing = (\<lambda>e. with_cat_status (updateStatusProgressing (cx_now env) (cat_gen c) (Some e))) in
      case derr of
        Some e \<Rightarrow> (progressing e c, st1, Some e)
      | None \<Rightarrow>
          (let c1 = with_cat_status (updateStatusNotServing (cx_now env) (cat_gen c)) c in
           case cx_ImageCacheDelete env (cat_name c) of
             Some e \<Rightarrow> (progressing e c1, st1, Some e)
           | None \<Rightarrow> (c1, deleteStoredCatalog (cat_name c) st1, None)))"

definition with_finalizers :: "string list \<Rightarrow> cluster_catalog \<Rightarrow> cluster_catalog" where
  "with_finalizers fs c = c\<lparr>cc_Meta := (cc_Meta c)\<lparr>meta_Finalizers := fs\<rparr>\<rparr>"

definition RemoveFinalizer :: "string \<Rightarrow> cluster_catalog \<Rightarrow> cluster_catalog" where
  "RemoveFinalizer key c = with_finalizers (filter (\<lambda>f. f \<noteq> key) (meta_Finalizers (cc_Meta c))) c"

text \<open>\<open>Finalize\<close> of controller-runtime with the one finalizer that is registered.\<close>

record 'st finalize_out =
  fo_catalog :: cluster_catalog
  fo_state :: "'st cat_state"
  fo_changed :: bool
  fo_err :: "go_error option"

definition Finalize :: "('fs, 'st) cat_env \<Rightarrow> cluster_catalog \<Rightarrow> 'st cat_state \<Rightarrow> 'st finalize_out" where
  "Finalize env c st =
     (let fs = meta_Finalizers (cc_Meta c);
          has = fbcDeletionFinalizer \<in> set fs in
      if meta_DeletionTimestamp (cc_Meta c) = None then
        (if has then \<lparr>fo_catalog = c, fo_state = st, fo_changed = False, fo_err = None\<rparr>
         else \<lparr>fo_catalog = with_finalizers (fs @ [fbcDeletionFinalizer]) c, fo_state = st, fo_changed = True, fo_err = None\<rparr>)
      else if has then
        (let (c1, st1, err) = deleteCatalogCache env c st in
         case err of
           Some e \<Rightarrow>
             \<lparr>fo_catalog = c1, fo_state = st1, fo_changed = True,
              fo_err = Some (ErrJoin [ErrWrap (''finalizer '' @ go_quote fbcDeletionFinalizer @ '' failed: '') e ''''])\<rparr>
         | None \<Rightarrow>
             \<lparr>fo_catalog = RemoveFinalizer fbcDeletionFinalizer c1, fo_state = st1, fo_changed = True, fo_err = None\<rparr>)
      else \<lparr>fo_catalog = c, fo_state = st, fo_changed = False, fo_err = None\<rparr>)"

subsection \<open>Whether to unpack\<close>

definition expected_status :: "('fs, 'st) cat_env \<Rightarrow> cluster_catalog \<Rightarrow> 'st cat_state \<Rightarrow> cluster_catalog_status" where
  "expected_status env c st =
     (let s1 = clearUnknownConditions (cc_Status c) in
      case cst_storedCatalogs st (cat_name c) of
        None \<Rightarrow> s1
      | Some d \<Rightarrow>
          if cx_ContentExists env (cat_name c) (cst_storage st) then
            updateStatusProgressing (cx_now env) (scd_observedGeneration d) None
              (updateStatusServing (cx_now env) (scd_ref d) (scd_lastUnpack d) (cx_BaseURL env (cat_name c))
                (scd_observedGeneration d) s1)
          else s1)"

definition poll_ns :: "int \<Rightarrow> int" where
  "poll_ns minutes = wrap64 (minutes * minute_ns)"

text \<open>The image source is dereferenced without a check.\<close>

definition needsPoll :: "('fs, 'st) cat_env \<Rightarrow> int \<Rightarrow> cluster_catalog \<Rightarrow> bool option" where
  "needsPoll env lastSuccessfulPoll c =
     (case cs_Image (ccs_Source (cc_Spec c)) of
        None \<Rightarrow> None
      | Some img \<Rightarrow>
          Some (case img_PollIntervalMinutes img of
             None \<Rightarrow> False
           | Some m \<Rightarrow> lastSuccessfulPoll + poll_ns m < cx_now env))"

definition nextPollResult :: "('fs, 'st) cat_env \<Rightarrow> int \<Rightarrow> cluster_catalog \<Rightarrow> int" where
  "nextPollResult env lastSuccessfulPoll c =
     (if cs_Type (ccs_Source (cc_Spec c)) = SourceTypeImage then
        (case cs_Image (ccs_Source (cc_Spec c)) of
           Some img \<Rightarrow>
             (case img_PollIntervalMinutes img of
                Some m \<Rightarrow> sat64 (lastSuccessfulPoll + cx_Jitter env (poll_ns m) - cx_until env)
              | None \<Rightarrow> 0)
         | None \<Rightarrow> 0)
      else 0)"

text \<open>\<open>Some None\<close>: unpack; \<open>Some (Some d)\<close>: the stored catalog \<open>d\<close> is current; \<open>None\<close>: a panic.\<close>

definition up_to_date :: "('fs, 'st) cat_env \<Rightarrow> cluster_catalog \<Rightarrow> 'st cat_state \<Rightarrow> stored_catalog option option" where
  "up_to_date env c st =
     (case cst_storedCatalogs st (cat_name c) of
        None \<Rightarrow> Some None
      | Some d \<Rightarrow>
          if \<not> cx_ContentExists env (cat_name c) (cst_storage st) then Some None
          else if cc_Status c \<noteq> expected_status env c st then Some None
          else if cat_gen c \<noteq> scd_observedGeneration d then Some None
          else
            (case needsPoll env (scd_lastSuccessfulPoll d) c of
               None \<Rightarrow> None
             | Some True \<Rightarrow> Some None
             | Some False \<Rightarrow> Some (Some d)))"

subsection \<open>Reconcile\<close>

record 'st cat_out =
  cxo_catalog :: cluster_catalog
  cxo_state :: "'st cat_state"
  cxo_requeueAfter :: int
  cxo_err :: "go_error option"

definition cat_fail ::
  "('fs, 'st) cat_env \<Rightarrow> cluster_catalog \<Rightarrow> 'st cat_state \<Rightarrow> go_error \<Rightarrow> 'st cat_out" where
  "cat_fail env c st e =
     \<lparr>cxo_catalog = with_cat_status (updateStatusProgressing (cx_now env) (cat_gen c) (Some e)) c,
      cxo_state = st, cxo_requeueAfter = 0, cxo_err = Some e\<rparr>"

definition unpack_catalog :: "('fs, 'st) cat_env \<Rightarrow> cluster_catalog \<Rightarrow> 'st cat_state \<Rightarrow> 'st cat_out" where
  "unpack_catalog env c st =
     (let src = ccs_Source (cc_Spec c) in
      if cs_Type src \<noteq> SourceTypeImage then
        cat_fail env c st (ErrTerminal (Some (ErrText (''unknown source type '' @ go_quote (cs_Type src)))))
      else
        (case cs_Image src of
           None \<Rightarrow>
             cat_fail env c st (ErrTerminal (Some (ErrText (''error parsing ClusterCatalog '' @ go_quote (cat_name c) @
               '', image source is nil''))))
         | Some img \<Rightarrow>
             (case cx_Pull env (cat_name c) (img_Ref img) of
                Inl e \<Rightarrow> cat_fail env c st (ErrWrap ''source catalog content: '' e '''')
              | Inr (fsys, canonicalRef, unpackTime) \<Rightarrow>
                  (let (storage, serr) = cx_Store env (cat_name c) fsys (cst_storage st);
                       st1 = st\<lparr>cst_storage := storage\<rparr> in
                   case serr of
                     Some e \<Rightarrow> cat_fail env c st1 (ErrText (''error storing fbc: '' @ err_string e))
                   | None \<Rightarrow>
                       \<lparr>cxo_catalog = with_cat_status (\<lambda>s. updateStatusServing (cx_now env) canonicalRef unpackTime
                            (cx_BaseURL env (cat_name c)) (cat_gen c) (updateStatusProgressing (cx_now env) (cat_gen c) None s)) c,
                        cxo_state = st1\<lparr>cst_storedCatalogs := (cst_storedCatalogs st1)(cat_name c \<mapsto>
                          \<lparr>scd_ref = canonicalRef, scd_lastUnpack = unpackTime, scd_lastSuccessfulPoll = cx_polled env,
                           scd_observedGeneration = cat_gen c\<rparr>)\<rparr>,
                        cxo_requeueAfter = nextPollResult env (cx_polled env) c, cxo_err = None\<rparr>))))"

definition cat_reconcile :: "('fs, 'st) cat_env \<Rightarrow> cluster_catalog \<Rightarrow> 'st cat_state \<Rightarrow> 'st cat_out option" where
  "cat_reconcile env c st =
     (if ccs_AvailabilityMode (cc_Spec c) = AvailabilityModeUnavailable then
        (let (c1, st1, err) = deleteCatalogCache env c st in
         case err of
           Some e \<Rightarrow> Some \<lparr>cxo_catalog = c1, cxo_state = st1, cxo_requeueAfter = 0, cxo_err = Some e\<rparr>
         | None \<Rightarrow>
             Some \<lparr>cxo_catalog = RemoveFinalizer fbcDeletionFinalizer
                 (with_cat_status (updateStatusProgressingUserSpecifiedUnavailable (cx_now env) (cat_gen c1)) c1),
               cxo_state = st1, cxo_requeueAfter = 0, cxo_err = None\<rparr>)
      else
        (let f = Finalize env c st;
             stop = \<lparr>cxo_catalog = fo_catalog f, cxo_state = fo_state f, cxo_requeueAfter = 0, cxo_err = fo_err f\<rparr> in
         if fo_err f \<noteq> None \<or> fo_changed f \<or> meta_DeletionTimestamp (cc_Meta (fo_catalog f)) \<noteq> None then Some stop
         else
           (case up_to_date env (fo_catalog f) (fo_state f) of
              None \<Rightarrow> None
            | Some (Some d) \<Rightarrow>
                Some (stop\<lparr>cxo_requeueAfter := nextPollResult env (scd_lastSuccessfulPoll d) (fo_catalog f)\<rparr>)
            | Some None \<Rightarrow> Some (unpack_catalog env (fo_catalog f) (fo_state f)))))"

definition cat_unexpected_change :: "cluster_catalog \<Rightarrow> cluster_catalog \<Rightarrow> bool" where
  "cat_unexpected_change a b \<longleftrightarrow>
     meta_Annotations (cc_Meta a) \<noteq> meta_Annotations (cc_Meta b) \<or>
     meta_Labels (cc_Meta a) \<noteq> meta_Labels (cc_Meta b) \<or> cc_Spec a \<noteq> cc_Spec b"

definition cat_Reconcile ::
  "('fs, 'st) cat_env \<Rightarrow> string \<Rightarrow> 'st cat_state \<Rightarrow> (cluster_catalog option \<times> 'st cat_state \<times> int \<times> go_error option) option" where
  "cat_Reconcile env name st =
     (case cx_Get env name of
        Inl e \<Rightarrow> Some (None, st, 0, ignore_not_found (Some e))
      | Inr existing \<Rightarrow>
          (case cat_reconcile env existing st of
             None \<Rightarrow> None
           | Some out \<Rightarrow>
               (let c = cxo_catalog out;
                    st1 = (if cxo_err out \<noteq> None then deleteStoredCatalog (cat_name c) (cxo_state out) else cxo_state out) in
                if cat_unexpected_change existing c then None
                else
                  (let err1 = (if cc_Status existing \<noteq> cc_Status c then
                          (case cx_UpdateStatus env c of
                             None \<Rightarrow> cxo_err out
                           | Some e \<Rightarrow> errors_Join [cxo_err out, Some (ErrText (''error updating status: '' @ err_string e))])
                        else cxo_err out);
                       err2 = (if meta_Finalizers (cc_Meta existing) \<noteq> meta_Finalizers (cc_Meta c) then
                          (case cx_PatchFinalizers env (meta_Finalizers (cc_Meta c)) of
                             None \<Rightarrow> err1
                           | Some e \<Rightarrow> errors_Join [err1, Some (ErrText (''error updating finalizers: '' @ err_string e))])
                        else err1) in
                   Some (Some c, st1, cxo_requeueAfter out, err2)))))"

subsection \<open>Garbage collection\<close>

fun gc_entries ::
  "(string \<Rightarrow> removal) \<Rightarrow> string list \<Rightarrow> (string \<times> bool) list \<Rightarrow> store_root \<Rightarrow> store_root \<times> string list result" where
  "gc_entries rm expected [] root = (root, Inr [])"
| "gc_entries rm expected ((name, isDir) # es) root =
     (if isDir \<and> name \<in> set expected then gc_entries rm expected es root
      else
        (case remove_all (rm name) name root of
           (root', Some e) \<Rightarrow>
             (root', Inl (ErrWrap (''error removing cache directory entry '' @ go_quote name @ '': '') e ''  ''))
         | (root', None) \<Rightarrow>
             (case gc_entries rm expected es root' of
                (root'', Inl e) \<Rightarrow> (root'', Inl e)
              | (root'', Inr removed) \<Rightarrow> (root'', Inr (name # removed)))))"

definition runGarbageCollection ::
  "string list result \<Rightarrow> go_error option \<Rightarrow> (string \<Rightarrow> removal) \<Rightarrow> store_root \<Rightarrow> store_root \<times> string list result" where
  "runGarbageCollection catalogs readDirErr rm root =
     (case catalogs of
        Inl e \<Rightarrow> (root, Inl (ErrWrap ''error listing clustercatalogs: '' e ''''))
      | Inr expected \<Rightarrow>
          (case readDirErr of
             Some e \<Rightarrow> (root, Inl (ErrWrap ''error reading cache directory: '' e ''''))
           | None \<Rightarrow> gc_entries rm expected (map (\<lambda>(n, d). (n, sd_isDir d)) (sort_key fst root)) root))"

section \<open>Lemmas\<close>

subsection \<open>Status\<close>

lemma set_cat_view [simp]:
  "cond_view (ccst_Conditions (set_cat_condition now c st)) t =
     (if t = cond_type c then Some (cond_status c, cond_reason c, cond_message c) else cond_view (ccst_Conditions st) t)"
  "ccst_URLs (set_cat_condition now c st) = ccst_URLs st"
  "ccst_ResolvedSource (set_cat_condition now c st) = ccst_ResolvedSource st"
  by (simp_all add: set_cat_condition_def apimeta_view)

lemma with_cat_simps [simp]:
  "cc_Meta (with_cat_status f c) = cc_Meta c" "cc_Spec (with_cat_status f c) = cc_Spec c"
  "cc_Status (with_cat_status f c) = f (cc_Status c)"
  "cc_Spec (with_finalizers fs c) = cc_Spec c" "cc_Status (with_finalizers fs c) = cc_Status c"
  "cc_Meta (with_finalizers fs c) = (cc_Meta c)\<lparr>meta_Finalizers := fs\<rparr>"
  "cc_Spec (RemoveFinalizer k c) = cc_Spec c" "cc_Status (RemoveFinalizer k c) = cc_Status c"
  "k \<notin> set (meta_Finalizers (cc_Meta (RemoveFinalizer k c)))"
  by (simp_all add: with_cat_status_def with_finalizers_def RemoveFinalizer_def)

text \<open>What no run changes: the specification and the metadata other than the finalizers.\<close>

definition cat_kept :: "cluster_catalog \<Rightarrow> cluster_catalog \<Rightarrow> bool" where
  "cat_kept c c' \<longleftrightarrow> cc_Spec c' = cc_Spec c \<and>
     (cc_Meta c')\<lparr>meta_Finalizers := []\<rparr> = (cc_Meta c)\<lparr>meta_Finalizers := []\<rparr>"

lemma cat_kept_simps [simp]:
  "cat_kept c c" "cat_kept c (with_cat_status f c') = cat_kept c c'" "cat_kept c (with_finalizers fs c') = cat_kept c c'"
  "cat_kept c (RemoveFinalizer k c') = cat_kept c c'"
  by (simp_all add: cat_kept_def RemoveFinalizer_def)

lemma cat_kept_fields:
  assumes "cat_kept c c'"
  shows "cat_name c' = cat_name c" "cat_gen c' = cat_gen c" "cc_Spec c' = cc_Spec c" "\<not> cat_unexpected_change c c'"
    "meta_DeletionTimestamp (cc_Meta c') = meta_DeletionTimestamp (cc_Meta c)"
proof -
  have m: "(cc_Meta c')\<lparr>meta_Finalizers := []\<rparr> = (cc_Meta c)\<lparr>meta_Finalizers := []\<rparr>" and s: "cc_Spec c' = cc_Spec c"
    using assms by (simp_all add: cat_kept_def)
  from arg_cong [OF m, of meta_Name] arg_cong [OF m, of meta_Generation] arg_cong [OF m, of meta_Labels]
    arg_cong [OF m, of meta_Annotations] arg_cong [OF m, of meta_DeletionTimestamp] s
  show "cat_name c' = cat_name c" "cat_gen c' = cat_gen c" "cc_Spec c' = cc_Spec c" "\<not> cat_unexpected_change c c'"
    "meta_DeletionTimestamp (cc_Meta c') = meta_DeletionTimestamp (cc_Meta c)"
    by (simp_all add: cat_unexpected_change_def)
qed

lemma deleteCatalogCache_kept: "deleteCatalogCache env c st = (c', st', err) \<Longrightarrow> cat_kept c c'"
  by (auto simp: deleteCatalogCache_def Let_def split: prod.splits option.splits)

lemma Finalize_kept: "cat_kept c (fo_catalog (Finalize env c st))"
  by (auto simp: Finalize_def Let_def dest: deleteCatalogCache_kept split: prod.split option.split)

lemma unpack_kept: "cat_kept c (cxo_catalog (unpack_catalog env c st))"
  by (simp add: unpack_catalog_def cat_fail_def Let_def split: option.split sum.split prod.split)

lemma cat_kept_trans: "cat_kept a b \<Longrightarrow> cat_kept b c \<Longrightarrow> cat_kept a c"
  by (simp add: cat_kept_def)

lemma cat_reconcile_kept: "cat_reconcile env c st = Some out \<Longrightarrow> cat_kept c (cxo_catalog out)"
  using Finalize_kept [of c env st]
  by (auto simp: cat_reconcile_def Let_def dest: deleteCatalogCache_kept intro: cat_kept_trans [OF _ unpack_kept]
      split: if_splits prod.splits option.splits)

subsection \<open>The stored catalogs\<close>

text \<open>
  The invariant: a catalog recorded for the present generation has an image source, because only
  then it can have been pulled.
\<close>

definition stored_ok :: "cluster_catalog \<Rightarrow> 'st cat_state \<Rightarrow> bool" where
  "stored_ok c st \<longleftrightarrow>
     (\<forall>d. cst_storedCatalogs st (cat_name c) = Some d \<and> scd_observedGeneration d = cat_gen c \<longrightarrow>
        cs_Image (ccs_Source (cc_Spec c)) \<noteq> None)"

lemma stored_ok_kept: "cat_kept c c' \<Longrightarrow> stored_ok c' st = stored_ok c st"
  by (simp add: stored_ok_def cat_kept_fields)

lemma deleteCatalogCache_stored:
  "deleteCatalogCache env c st = (c', st', err) \<Longrightarrow>
   cst_storedCatalogs st' = (if err = None then (cst_storedCatalogs st)(cat_name c := None) else cst_storedCatalogs st)"
  by (auto simp: deleteCatalogCache_def deleteStoredCatalog_def Let_def split: prod.splits option.splits)

lemma Finalize_stored:
  "cst_storedCatalogs (fo_state (Finalize env c st)) = cst_storedCatalogs st \<or>
   cst_storedCatalogs (fo_state (Finalize env c st)) = (cst_storedCatalogs st)(cat_name c := None)"
  by (auto simp: Finalize_def Let_def dest: deleteCatalogCache_stored split: prod.split option.split)

lemma Finalize_idle:
  "\<not> fo_changed (Finalize env c st) \<Longrightarrow> fo_catalog (Finalize env c st) = c \<and> fo_state (Finalize env c st) = st"
  by (auto simp: Finalize_def Let_def split: if_splits prod.splits option.splits)

lemma up_to_date_ok: "stored_ok c st \<Longrightarrow> up_to_date env c st \<noteq> None"
  by (auto simp: up_to_date_def stored_ok_def needsPoll_def split: option.splits bool.splits)

lemma unpack_stored:
  "cst_storedCatalogs (cxo_state (unpack_catalog env c st)) n =
     (if n = cat_name c \<and> cxo_err (unpack_catalog env c st) = None
      then cst_storedCatalogs (cxo_state (unpack_catalog env c st)) (cat_name c) else cst_storedCatalogs st n)"
  by (auto simp: unpack_catalog_def cat_fail_def Let_def split: option.split sum.split prod.split)

lemma unpack_stored_image:
  "cxo_err (unpack_catalog env c st) = None \<Longrightarrow> cs_Image (ccs_Source (cc_Spec c)) \<noteq> None"
  by (auto simp: unpack_catalog_def cat_fail_def Let_def split: if_splits option.splits)

text \<open>The outcomes of a run.\<close>

lemma cat_reconcile_cases [consumes 1, case_names unavailable stopped current unpacked]:
  assumes "cat_reconcile env c st = Some out"
  obtains c1 err where "ccs_AvailabilityMode (cc_Spec c) = AvailabilityModeUnavailable"
      "deleteCatalogCache env c st = (c1, cxo_state out, err)" "cxo_err out = err"
      "err = None \<Longrightarrow> cxo_catalog out = RemoveFinalizer fbcDeletionFinalizer
         (with_cat_status (updateStatusProgressingUserSpecifiedUnavailable (cx_now env) (cat_gen c1)) c1)"
  | "ccs_AvailabilityMode (cc_Spec c) \<noteq> AvailabilityModeUnavailable"
      "fo_changed (Finalize env c st) \<or> meta_DeletionTimestamp (cc_Meta c) \<noteq> None"
      "cxo_catalog out = fo_catalog (Finalize env c st)" "cxo_state out = fo_state (Finalize env c st)"
      "cxo_err out = fo_err (Finalize env c st)"
  | d where "ccs_AvailabilityMode (cc_Spec c) \<noteq> AvailabilityModeUnavailable" "meta_DeletionTimestamp (cc_Meta c) = None"
      "up_to_date env c st = Some (Some d)" "cxo_catalog out = c" "cxo_state out = st" "cxo_err out = None"
      "cxo_requeueAfter out = nextPollResult env (scd_lastSuccessfulPoll d) c"
  | "ccs_AvailabilityMode (cc_Spec c) \<noteq> AvailabilityModeUnavailable" "meta_DeletionTimestamp (cc_Meta c) = None"
      "up_to_date env c st = Some None" "out = unpack_catalog env c st"
proof (cases "ccs_AvailabilityMode (cc_Spec c) = AvailabilityModeUnavailable")
  case True
  then show ?thesis
    using assms that(1) by (fastforce simp: cat_reconcile_def Let_def split: prod.splits option.splits)
next
  case avail: False
  let ?f = "Finalize env c st"
  have err: "\<not> fo_changed ?f \<longrightarrow> fo_err ?f = None"
    by (auto simp: Finalize_def Let_def split: if_splits prod.splits option.splits)
  show ?thesis
  proof (cases "fo_changed ?f \<or> meta_DeletionTimestamp (cc_Meta (fo_catalog ?f)) \<noteq> None")
    case True
    then show ?thesis
      using that(2) avail assms cat_kept_fields(5) [OF Finalize_kept [of c env st]] by (auto simp: cat_reconcile_def Let_def)
  next
    case False
    then have i: "fo_catalog ?f = c" "fo_state ?f = st" "\<not> fo_changed ?f" "fo_err ?f = None"
      using Finalize_idle [of env c st] err by auto
    then have dt: "meta_DeletionTimestamp (cc_Meta c) = None" using False by simp
    note run = assms [unfolded cat_reconcile_def Let_def i, simplified i(3) dt avail, simplified]
    show ?thesis
      using run avail dt that(3,4) by (cases "up_to_date env c st") (auto split: option.splits)
  qed
qed

lemma cat_reconcile_total: "stored_ok c st \<Longrightarrow> \<exists>out. cat_reconcile env c st = Some out"
proof -
  assume ok: "stored_ok c st"
  have "fo_changed (Finalize env c st) \<or> up_to_date env (fo_catalog (Finalize env c st)) (fo_state (Finalize env c st)) \<noteq> None"
    using Finalize_idle [of env c st] up_to_date_ok [OF ok, of env] by auto
  then show ?thesis
    by (auto simp: cat_reconcile_def Let_def split: prod.split option.split)
qed

lemma cat_reconcile_stored:
  assumes "cat_reconcile env c st = Some out"
  shows "cst_storedCatalogs (cxo_state out) (cat_name c) = cst_storedCatalogs st (cat_name c) \<or>
     cst_storedCatalogs (cxo_state out) (cat_name c) = None \<or>
     cxo_err out = None \<and> cs_Image (ccs_Source (cc_Spec c)) \<noteq> None \<and>
       (\<exists>d. cst_storedCatalogs (cxo_state out) (cat_name c) = Some d \<and> scd_observedGeneration d = cat_gen c)"
  using assms
proof (cases rule: cat_reconcile_cases)
  case (unavailable c1 err)
  then show ?thesis using deleteCatalogCache_stored [OF unavailable(2)] by simp
next
  case stopped
  then show ?thesis using Finalize_stored [of env c st] by auto
next
  case unpacked
  then show ?thesis
    by (auto simp: unpack_catalog_def cat_fail_def Let_def split: option.split sum.split prod.split)
qed simp

lemma cat_reconcile_other:
  assumes "cat_reconcile env c st = Some out" and "n \<noteq> cat_name c"
  shows "cst_storedCatalogs (cxo_state out) n = cst_storedCatalogs st n"
  using assms(1)
proof (cases rule: cat_reconcile_cases)
  case (unavailable c1 err)
  then show ?thesis using deleteCatalogCache_stored [OF unavailable(2)] assms(2) by simp
next
  case stopped
  then show ?thesis using Finalize_stored [of env c st] assms(2) by auto
next
  case unpacked
  then show ?thesis using unpack_stored [of env c st n] assms(2) by simp
qed simp

lemma cat_Reconcile_run:
  assumes "cat_Reconcile env name st = Some (Some c', st', r, err)" and "cx_Get env name = Inr c"
  obtains out where "cat_reconcile env c st = Some out" "c' = cxo_catalog out" "r = cxo_requeueAfter out"
    "st' = (if cxo_err out \<noteq> None then deleteStoredCatalog (cat_name c) (cxo_state out) else cxo_state out)"
    "cxo_err out \<noteq> None \<longrightarrow> err \<noteq> None"
proof -
  obtain out where out: "cat_reconcile env c st = Some out"
    using assms by (auto simp: cat_Reconcile_def split: option.splits)
  have name: "cat_name (cxo_catalog out) = cat_name c" using cat_kept_fields(1) [OF cat_reconcile_kept [OF out]] .
  have join: "errors_Join [x, Some e] \<noteq> None" for x e by simp blast
  have "c' = cxo_catalog out" "r = cxo_requeueAfter out"
    "st' = (if cxo_err out \<noteq> None then deleteStoredCatalog (cat_name c) (cxo_state out) else cxo_state out)"
    "cxo_err out \<noteq> None \<longrightarrow> err \<noteq> None"
    using assms out name join
    by (auto simp: cat_Reconcile_def Let_def simp del: errors_Join_None split: if_splits option.splits)
  then show ?thesis by (rule that [OF out])
qed

subsection \<open>Runs of the controller\<close>

text \<open>
  The life of a catalog: it starts with no catalog stored; its specification may change, which raises
  the generation; status and finalizers may change; and the controller runs for it or for another
  catalog, in one of the given environments.
\<close>

inductive cat_reachable :: "('fs, 'st) cat_env set \<Rightarrow> cluster_catalog \<Rightarrow> 'st cat_state \<Rightarrow> bool"
  for envs :: "('fs, 'st) cat_env set" where
  start: "cst_storedCatalogs st = Map.empty \<Longrightarrow> cat_reachable envs c st"
| edit: "cat_reachable envs c st \<Longrightarrow> cat_name c' = cat_name c \<Longrightarrow> cat_gen c < cat_gen c' \<Longrightarrow> cat_reachable envs c' st"
| touch: "cat_reachable envs c st \<Longrightarrow> cat_name c' = cat_name c \<Longrightarrow> cat_gen c' = cat_gen c \<Longrightarrow> cc_Spec c' = cc_Spec c \<Longrightarrow>
    cat_reachable envs c' st"
| run: "cat_reachable envs c st \<Longrightarrow> env \<in> envs \<Longrightarrow> cx_Get env name = Inr c \<Longrightarrow>
    cat_Reconcile env name st = Some (Some c', st', r, err) \<Longrightarrow> cat_reachable envs c' st'"
| other: "cat_reachable envs c st \<Longrightarrow> env \<in> envs \<Longrightarrow> cx_Get env name = Inr c2 \<Longrightarrow> cat_name c2 \<noteq> cat_name c \<Longrightarrow>
    cat_Reconcile env name st = Some (Some c', st', r, err) \<Longrightarrow> cat_reachable envs c st'"

lemma reachable_stored:
  "cat_reachable envs c st \<Longrightarrow> cst_storedCatalogs st (cat_name c) = Some d \<Longrightarrow>
   scd_observedGeneration d \<le> cat_gen c \<and> (scd_observedGeneration d = cat_gen c \<longrightarrow> cs_Image (ccs_Source (cc_Spec c)) \<noteq> None)"
proof (induction arbitrary: d rule: cat_reachable.induct)
  case (edit c st c')
  then show ?case by fastforce
next
  case (touch c st c')
  then show ?case by auto
next
  case (run c st env name c' st' r err)
  obtain out where out: "cat_reconcile env c st = Some out" "c' = cxo_catalog out"
    "st' = (if cxo_err out \<noteq> None then deleteStoredCatalog (cat_name c) (cxo_state out) else cxo_state out)"
    using cat_Reconcile_run [OF run(4,3)] by metis
  note k = cat_kept_fields [OF cat_reconcile_kept [OF out(1)]]
  have "cst_storedCatalogs (cxo_state out) (cat_name c) = Some d"
    using run.prems out(2,3) k(1) by (auto simp: deleteStoredCatalog_def split: if_splits)
  then show ?case
    using cat_reconcile_stored [OF out(1)] run.IH [of d] out(2) k by auto
next
  case (other c st env name c2 c' st' r err)
  obtain out where out: "cat_reconcile env c2 st = Some out"
    "st' = (if cxo_err out \<noteq> None then deleteStoredCatalog (cat_name c2) (cxo_state out) else cxo_state out)"
    using cat_Reconcile_run [OF other(5,3)] by metis
  then show ?case
    using other cat_reconcile_other [OF out(1), of "cat_name c"] by (auto simp: deleteStoredCatalog_def split: if_splits)
qed simp

lemma reachable_stored_ok: "cat_reachable envs c st \<Longrightarrow> stored_ok c st"
  using reachable_stored by (fastforce simp: stored_ok_def)

subsection \<open>The controller on a storage\<close>

locale catalog_controller =
  catalog_storage "cx_Store env" "cx_Delete env" "cx_ContentExists env" valid_name
  for env :: "('fs, 'st) cat_env" and valid_name :: "string \<Rightarrow> bool"
begin

lemma cache_deleted:
  assumes "deleteCatalogCache env c st = (c', st', None)"
  shows "\<not> cx_ContentExists env (cat_name c) (cst_storage st')" "cst_storedCatalogs st' (cat_name c) = None"
    "ccst_URLs (cc_Status c') = None" "ccst_ResolvedSource (cc_Status c') = None"
  using assms delete_gone
  by (auto simp: deleteCatalogCache_def deleteStoredCatalog_def updateStatusNotServing_def Let_def
      split: prod.splits option.splits)

lemma cache_other:
  assumes "deleteCatalogCache env c st = (c', st', err)" and "n \<noteq> cat_name c"
  shows "cx_ContentExists env n (cst_storage st') = cx_ContentExists env n (cst_storage st)"
proof -
  have "cst_storage st' = fst (cx_Delete env (cat_name c) (cst_storage st))"
    using assms(1) by (auto simp: deleteCatalogCache_def deleteStoredCatalog_def Let_def split: prod.splits option.splits)
  then show ?thesis using delete_other [OF assms(2)] by simp
qed

lemma finalize_other:
  "n \<noteq> cat_name c \<Longrightarrow>
   cx_ContentExists env n (cst_storage (fo_state (Finalize env c st))) = cx_ContentExists env n (cst_storage st)"
  by (auto simp: Finalize_def Let_def dest: cache_other split: prod.split option.split)

lemma unpack_other:
  assumes "n \<noteq> cat_name c" "valid_name n" "valid_name (cat_name c)"
  shows "cx_ContentExists env n (cst_storage (cxo_state (unpack_catalog env c st))) = cx_ContentExists env n (cst_storage st)"
proof -
  have "cst_storage (cxo_state (unpack_catalog env c st)) = cst_storage st \<or>
      (\<exists>fs. cst_storage (cxo_state (unpack_catalog env c st)) = fst (cx_Store env (cat_name c) fs (cst_storage st)))"
    by (auto simp: unpack_catalog_def cat_fail_def Let_def split: option.split sum.split prod.split) (metis fst_conv)+
  then show ?thesis using store_other [OF assms(3,2,1)] by auto
qed

text \<open>A run for one catalog leaves every other catalog alone.\<close>

lemma run_isolated:
  assumes "cat_reconcile env c st = Some out" and "n \<noteq> cat_name c" "valid_name n" "valid_name (cat_name c)"
  shows "cx_ContentExists env n (cst_storage (cxo_state out)) = cx_ContentExists env n (cst_storage st)"
  using assms(1)
proof (cases rule: cat_reconcile_cases)
  case (unavailable c1 err)
  then show ?thesis using cache_other assms(2) by metis
next
  case stopped
  then show ?thesis using finalize_other assms(2) by simp
next
  case unpacked
  then show ?thesis using unpack_other assms(2-4) by simp
qed simp

text \<open>A run that succeeds for an available catalog serves it.\<close>

lemma unpacked_serves:
  assumes "cxo_err (unpack_catalog env c st) = None" and "valid_name (cat_name c)"
  shows "cx_ContentExists env (cat_name c) (cst_storage (cxo_state (unpack_catalog env c st)))"
    "\<exists>m. cond_view (cat_conditions (cxo_catalog (unpack_catalog env c st))) TypeServing = Some (ConditionTrue, ReasonAvailable, m)"
    "\<exists>m. cond_view (cat_conditions (cxo_catalog (unpack_catalog env c st))) TypeProgressing = Some (ConditionTrue, ReasonSucceeded, m)"
    "ccst_URLs (cc_Status (cxo_catalog (unpack_catalog env c st))) = Some (cx_BaseURL env (cat_name c))"
    "\<exists>d. cst_storedCatalogs (cxo_state (unpack_catalog env c st)) (cat_name c) = Some d \<and> scd_observedGeneration d = cat_gen c"
  using assms store_exists [OF assms(2)]
  by (auto simp: unpack_catalog_def cat_fail_def updateStatusServing_def updateStatusProgressing_def Let_def
      split: option.splits sum.splits prod.splits if_splits)

lemma current_serves:
  assumes "up_to_date env c st = Some (Some d)"
  shows "cx_ContentExists env (cat_name c) (cst_storage st)"
    "\<exists>m. cond_view (cat_conditions c) TypeServing = Some (ConditionTrue, ReasonAvailable, m)"
    "\<exists>m. cond_view (cat_conditions c) TypeProgressing = Some (ConditionTrue, ReasonSucceeded, m)"
    "ccst_URLs (cc_Status c) = Some (cx_BaseURL env (cat_name c))"
    "\<exists>d. cst_storedCatalogs st (cat_name c) = Some d \<and> scd_observedGeneration d = cat_gen c"
proof -
  have d: "cst_storedCatalogs st (cat_name c) = Some d" "cx_ContentExists env (cat_name c) (cst_storage st)"
    "cc_Status c = expected_status env c st" "cat_gen c = scd_observedGeneration d"
    using assms by (auto simp: up_to_date_def split: option.splits if_splits bool.splits)
  then have s: "cc_Status c = updateStatusProgressing (cx_now env) (scd_observedGeneration d) None
      (updateStatusServing (cx_now env) (scd_ref d) (scd_lastUnpack d) (cx_BaseURL env (cat_name c))
        (scd_observedGeneration d) (clearUnknownConditions (cc_Status c)))"
    by (simp add: expected_status_def Let_def)
  show "cx_ContentExists env (cat_name c) (cst_storage st)" by (rule d(2))
  show "\<exists>d. cst_storedCatalogs st (cat_name c) = Some d \<and> scd_observedGeneration d = cat_gen c" using d by simp
  show "\<exists>m. cond_view (cat_conditions c) TypeServing = Some (ConditionTrue, ReasonAvailable, m)"
    "\<exists>m. cond_view (cat_conditions c) TypeProgressing = Some (ConditionTrue, ReasonSucceeded, m)"
    "ccst_URLs (cc_Status c) = Some (cx_BaseURL env (cat_name c))"
    by (subst s, simp add: updateStatusProgressing_def updateStatusServing_def Let_def)+
qed

end

text \<open>The controller with the storage of catalogd.\<close>

definition local_env :: "'fs local_dir \<Rightarrow> ('fs, store_root) cat_env \<Rightarrow> ('fs, store_root) cat_env" where
  "local_env ld env = env\<lparr>cx_Store := Store ld, cx_Delete := store_Delete ld, cx_ContentExists := ContentExists ld\<rparr>"

interpretation local_controller: catalog_controller "local_env ld env" no_temp for ld env
  unfolding local_env_def catalog_controller_def by (simp add: local_store.catalog_storage_axioms)

subsection \<open>Garbage collection\<close>

lemma gc_unlisted:
  "gc_entries rm expected es root = (root', res) \<Longrightarrow> n \<notin> fst ` set es \<Longrightarrow> map_of root' n = map_of root n"
  by (induction rm expected es root arbitrary: root' res rule: gc_entries.induct)
    (auto dest: remove_all_pair split: if_splits prod.splits option.splits sum.splits)

lemma gc_head:
  "remove_all out n root = (root1, None) \<Longrightarrow> gc_entries rm expected es root1 = (root', res) \<Longrightarrow> n \<notin> fst ` set es \<Longrightarrow>
   map_of root' n = None"
  using gc_unlisted remove_all_ok by metis

lemma gc_removed:
  "gc_entries rm expected es root = (root', Inr removed) \<Longrightarrow> distinct (map fst es) \<Longrightarrow>
   removed = map fst (filter (\<lambda>(n, isDir). \<not> (isDir \<and> n \<in> set expected)) es) \<and>
   (\<forall>n \<in> set removed. map_of root' n = None)"
  by (induction rm expected es root arbitrary: root' removed rule: gc_entries.induct)
    (auto intro: gc_head split: if_splits prod.splits option.splits sum.splits)

lemma gc_entries_keeps:
  "gc_entries rm expected es root = (root', res) \<Longrightarrow> (n, True) \<in> set es \<Longrightarrow> n \<in> set expected \<Longrightarrow> distinct (map fst es) \<Longrightarrow>
   map_of root' n = map_of root n"
proof (induction rm expected es root arbitrary: root' res rule: gc_entries.induct)
  case (2 rm expected name isDir es root)
  show ?case
  proof (cases "isDir \<and> name \<in> set expected")
    case True
    then show ?thesis using 2 by (cases "name = n") (auto simp: gc_unlisted)
  next
    case False
    then have "n \<noteq> name" using 2(4-6) by force
    then show ?thesis
      using 2 False by (auto dest: remove_all_pair split: prod.splits option.splits sum.splits)
  qed
qed simp

section \<open>Properties\<close>

text \<open>
  C22: No run of the catalog controller panics, however runs, edits and failures of the puller, the
  storage and the API server alternate: in every reachable state \<open>Reconcile\<close> returns, keeps the
  specification, and leads to a reachable state again. The image source that is dereferenced without
  a check is never nil there, because a catalog is recorded for a generation only after its image was
  pulled.
\<close>

theorem catalog_run_never_panics:
  assumes "cat_reachable envs c st" and "env \<in> envs" and "cx_Get env name = Inr c"
  shows "\<exists>c' st' r err. cat_Reconcile env name st = Some (Some c', st', r, err) \<and> cc_Spec c' = cc_Spec c \<and>
     cat_reachable envs c' st'"
proof -
  obtain out where out: "cat_reconcile env c st = Some out"
    using cat_reconcile_total reachable_stored_ok [OF assms(1)] by blast
  note k = cat_kept_fields [OF cat_reconcile_kept [OF out]]
  obtain st' r err where "cat_Reconcile env name st = Some (Some (cxo_catalog out), st', r, err)"
    using assms(3) out k(4) by (simp add: cat_Reconcile_def Let_def)
  then show ?thesis using cat_reachable.run [OF assms] k(3) by blast
qed

text \<open>
  C23: A catalog that is reported as served is served: when a run for an available catalog that is
  not being deleted and has its finalizer succeeds, its content is in the storage, the Serving and
  Progressing conditions say so, the URL is published, and the generation is recorded.
\<close>

theorem catalog_success_serves:
  assumes "cat_reconcile (local_env ld env) c st = Some out" and "cxo_err out = None" and "no_temp (cat_name c)"
    and "ccs_AvailabilityMode (cc_Spec c) \<noteq> AvailabilityModeUnavailable"
    and "meta_DeletionTimestamp (cc_Meta c) = None" and "fbcDeletionFinalizer \<in> set (meta_Finalizers (cc_Meta c))"
  shows "ContentExists ld (cat_name c) (cst_storage (cxo_state out)) \<and>
    IsStatusConditionTrue (cat_conditions (cxo_catalog out)) TypeServing \<and>
    (\<exists>m. cond_view (cat_conditions (cxo_catalog out)) TypeProgressing = Some (ConditionTrue, ReasonSucceeded, m)) \<and>
    ccst_URLs (cc_Status (cxo_catalog out)) = Some (cx_BaseURL env (cat_name c)) \<and>
    (\<exists>d. cst_storedCatalogs (cxo_state out) (cat_name c) = Some d \<and> scd_observedGeneration d = cat_gen c)"
proof -
  have env: "cx_ContentExists (local_env ld env) = ContentExists ld" "cx_BaseURL (local_env ld env) = cx_BaseURL env"
    by (simp_all add: local_env_def)
  show ?thesis
    using assms(1)
  proof (cases rule: cat_reconcile_cases)
    case stopped
    then show ?thesis using assms(5,6) by (simp add: Finalize_def)
  next
    case (current d)
    then show ?thesis
      using local_controller.current_serves [OF current(3)] by (auto simp: env IsTrue_view)
  next
    case unpacked
    then show ?thesis
      using local_controller.unpacked_serves [of ld env c st] assms(2,3) by (auto simp: env IsTrue_view)
  qed (use assms(4) in simp)
qed

text \<open>
  A catalog that its user makes unavailable is gone after a successful run: no content, no
  recorded catalog, no URL, no finalizer, and Serving is false with the reason UserSpecifiedUnavailable.
\<close>

theorem unavailable_catalog_removed:
  assumes "cat_reconcile (local_env ld env) c st = Some out" and "cxo_err out = None"
    and "ccs_AvailabilityMode (cc_Spec c) = AvailabilityModeUnavailable"
  shows "\<not> ContentExists ld (cat_name c) (cst_storage (cxo_state out)) \<and>
    cst_storedCatalogs (cxo_state out) (cat_name c) = None \<and> ccst_URLs (cc_Status (cxo_catalog out)) = None \<and>
    fbcDeletionFinalizer \<notin> set (meta_Finalizers (cc_Meta (cxo_catalog out))) \<and>
    (\<exists>m. cond_view (cat_conditions (cxo_catalog out)) TypeServing = Some (ConditionFalse, ReasonUserSpecifiedUnavailable, m))"
  using assms(1)
proof (cases rule: cat_reconcile_cases)
  case (unavailable c1 err)
  then have "deleteCatalogCache (local_env ld env) c st = (c1, cxo_state out, None)" using assms(2) by simp
  from local_controller.cache_deleted [OF this] unavailable(3,4) assms(2) show ?thesis
    by (simp add: local_env_def updateStatusProgressingUserSpecifiedUnavailable_def)
qed (use assms(3) in simp_all)

text \<open>
  A run for one catalog never affects the content or the record of another.
\<close>

theorem catalog_runs_isolated:
  assumes "cat_reconcile (local_env ld env) c st = Some out" and "n \<noteq> cat_name c" and "no_temp n" and "no_temp (cat_name c)"
  shows "ContentExists ld n (cst_storage (cxo_state out)) = ContentExists ld n (cst_storage st) \<and>
    cst_storedCatalogs (cxo_state out) n = cst_storedCatalogs st n"
  using local_controller.run_isolated [OF assms] cat_reconcile_other [OF assms(1,2)] by (simp add: local_env_def)

text \<open>
  A failed run is repeated from scratch: whatever went wrong, the record of the catalog is gone
  afterwards, so that a later run, in any environment, unpacks the catalog again.
\<close>

theorem failed_catalog_run_retried:
  assumes "cx_Get env name = Inr c" and "cat_Reconcile env name st = Some (Some c', st', r, err)"
    and "cat_reconcile env c st = Some out" and "cxo_err out = Some e"
  shows "err \<noteq> None \<and> cst_storedCatalogs st' (cat_name c) = None \<and> up_to_date env' c' st' = Some None"
proof -
  obtain out' where "cat_reconcile env c st = Some out'" "c' = cxo_catalog out'"
    "st' = (if cxo_err out' \<noteq> None then deleteStoredCatalog (cat_name c) (cxo_state out') else cxo_state out')"
    "cxo_err out' \<noteq> None \<longrightarrow> err \<noteq> None"
    using cat_Reconcile_run [OF assms(2,1)] by metis
  moreover have "cat_name (cxo_catalog out) = cat_name c"
    using cat_kept_fields(1) [OF cat_reconcile_kept [OF assms(3)]] .
  ultimately show ?thesis using assms(3,4) by (simp add: deleteStoredCatalog_def up_to_date_def)
qed

text \<open>
  Garbage collection removes exactly the entries that are not the directory of an existing
  catalog, and it never touches the directory of an existing catalog, even when it fails half-way.
\<close>

theorem gc_exact:
  assumes "runGarbageCollection (Inr expected) None rm root = (root', res)" and "distinct (map fst root)"
  shows "(\<forall>n d. map_of root n = Some d \<and> sd_isDir d \<and> n \<in> set expected \<longrightarrow> map_of root' n = Some d) \<and>
    (\<forall>removed. res = Inr removed \<longrightarrow>
       set removed = {n. \<exists>d. map_of root n = Some d \<and> \<not> (sd_isDir d \<and> n \<in> set expected)} \<and>
       (\<forall>n \<in> set removed. map_of root' n = None))"
proof -
  let ?es = "map (\<lambda>(n, d). (n, sd_isDir d)) (sort_key fst root)"
  have run: "gc_entries rm expected ?es root = (root', res)" using assms(1) by (simp add: runGarbageCollection_def)
  have names: "map fst ?es = map fst (sort_key fst root)" by (induction "sort_key fst root") (auto simp: comp_def split_def)
  have dist: "distinct (map fst ?es)"
    unfolding names using assms(2) mset_eq_imp_distinct_iff [of "map fst (sort_key fst root)" "map fst root"] by simp
  have mem: "(n, b) \<in> set ?es \<longleftrightarrow> (\<exists>d. map_of root n = Some d \<and> b = sd_isDir d)" for n b
    using assms(2) by (force simp: map_of_eq_Some_iff)
  show ?thesis
  proof (intro conjI allI impI)
    fix n d assume "map_of root n = Some d \<and> sd_isDir d \<and> n \<in> set expected"
    then show "map_of root' n = Some d" using gc_entries_keeps [OF run _ _ dist] mem by simp
  next
    fix removed assume "res = Inr removed"
    with gc_removed [OF _ dist] run have r: "removed = map fst (filter (\<lambda>(n, isDir). \<not> (isDir \<and> n \<in> set expected)) ?es)"
      "\<forall>n \<in> set removed. map_of root' n = None" by blast+
    have "n \<in> set removed \<longleftrightarrow> (\<exists>b. (n, b) \<in> set ?es \<and> \<not> (b \<and> n \<in> set expected))" for n
      unfolding r(1) by force
    then show "set removed = {n. \<exists>d. map_of root n = Some d \<and> \<not> (sd_isDir d \<and> n \<in> set expected)}"
      using mem by auto
    show "\<forall>n \<in> set removed. map_of root' n = None" by (rule r(2))
  qed
qed

subsection \<open>Concrete runs\<close>

definition ex_catalog :: "string \<Rightarrow> cluster_catalog" where
  "ex_catalog mode =
     \<lparr>cc_Meta = \<lparr>meta_Name = ''cat'', meta_Namespace = '''', meta_UID = ''u'', meta_Generation = 1, meta_Labels = Map.empty,
        meta_Annotations = Map.empty, meta_OwnerReferences = [], meta_Finalizers = [fbcDeletionFinalizer],
        meta_CreationTimestamp = 0, meta_DeletionTimestamp = None\<rparr>,
      cc_Spec = \<lparr>ccs_Source = \<lparr>cs_Type = SourceTypeImage, cs_Image = Some \<lparr>img_Ref = ''img'', img_PollIntervalMinutes = Some 5\<rparr>\<rparr>,
        ccs_Priority = 0, ccs_AvailabilityMode = mode\<rparr>,
      cc_Status = \<lparr>ccst_Conditions = [], ccst_ResolvedSource = None, ccst_URLs = None, ccst_LastUnpacked = None\<rparr>\<rparr>"

definition ex_cat_env :: "string \<Rightarrow> (unit \<times> string \<times> int) result \<Rightarrow> (unit, store_root) cat_env" where
  "ex_cat_env mode pulled =
     \<lparr>cx_now = 1, cx_polled = 2, cx_until = 3, cx_Jitter = (\<lambda>d. d), cx_Get = (\<lambda>n. Inr (ex_catalog mode)),
      cx_Pull = (\<lambda>n ref. pulled), cx_ImageCacheDelete = (\<lambda>n. None), cx_Store = Store ex_ld, cx_Delete = store_Delete ex_ld,
      cx_ContentExists = ContentExists ex_ld, cx_BaseURL = (\<lambda>n. ''https://x/'' @ n), cx_UpdateStatus = (\<lambda>c. None),
      cx_PatchFinalizers = (\<lambda>fs. None)\<rparr>"

definition ex_cat_state :: "store_root cat_state" where
  "ex_cat_state = \<lparr>cst_storedCatalogs = Map.empty, cst_storage = []\<rparr>"

abbreviation ex_pulled :: "(unit \<times> string \<times> int) result" where "ex_pulled \<equiv> Inr ((), ''img@sha256:1'', 9)"

lemma ex_local_env: "local_env ex_ld (ex_cat_env mode p) = ex_cat_env mode p"
  by (simp add: local_env_def ex_cat_env_def)

theorem catalog_run_never_panics_witness:
  "\<exists>c' st' r err. cat_Reconcile (ex_cat_env ''Available'' ex_pulled) ''cat'' ex_cat_state = Some (Some c', st', r, err) \<and>
     cc_Spec c' = cc_Spec (ex_catalog ''Available'')"
proof -
  let ?env = "ex_cat_env ''Available'' ex_pulled"
  have "cat_reachable {?env} (ex_catalog ''Available'') ex_cat_state"
    by (rule cat_reachable.start) (simp add: ex_cat_state_def)
  moreover have "cx_Get ?env ''cat'' = Inr (ex_catalog ''Available'')" by (simp add: ex_cat_env_def)
  ultimately show ?thesis using catalog_run_never_panics by blast
qed

lemma ex_cat_run:
  "\<exists>out. cat_reconcile (ex_cat_env ''Available'' ex_pulled) (ex_catalog ''Available'') ex_cat_state = Some out \<and> cxo_err out = None"
  using ex_Store
  by (auto simp: cat_reconcile_def ex_catalog_def ex_cat_env_def ex_cat_state_def Finalize_def up_to_date_def
      unpack_catalog_def Let_def split: prod.split)

theorem catalog_success_serves_witness:
  "\<exists>out. cat_reconcile (ex_cat_env ''Available'' ex_pulled) (ex_catalog ''Available'') ex_cat_state = Some out \<and>
     ContentExists ex_ld ''cat'' (cst_storage (cxo_state out)) \<and> ccst_URLs (cc_Status (cxo_catalog out)) = Some ''https://x/cat''"
proof -
  obtain out where out: "cat_reconcile (ex_cat_env ''Available'' ex_pulled) (ex_catalog ''Available'') ex_cat_state = Some out"
    "cxo_err out = None" using ex_cat_run by blast
  show ?thesis
    using catalog_success_serves [of ex_ld "ex_cat_env ''Available'' ex_pulled" "ex_catalog ''Available''" ex_cat_state out] out
    by (simp add: ex_local_env) (simp add: ex_catalog_def ex_cat_env_def no_temp_def)
qed

lemma ex_cat_unavailable:
  "\<exists>out. cat_reconcile (ex_cat_env ''Unavailable'' ex_pulled) (ex_catalog ''Unavailable'') ex_cat_state = Some out \<and> cxo_err out = None"
  by (simp add: cat_reconcile_def ex_catalog_def ex_cat_env_def ex_cat_state_def deleteCatalogCache_def store_Delete_def
      remove_all_def ex_ld_def Let_def)

theorem unavailable_catalog_removed_witness:
  "\<exists>out. cat_reconcile (ex_cat_env ''Unavailable'' ex_pulled) (ex_catalog ''Unavailable'') ex_cat_state = Some out \<and>
     fbcDeletionFinalizer \<notin> set (meta_Finalizers (cc_Meta (cxo_catalog out)))"
proof -
  obtain out where out: "cat_reconcile (ex_cat_env ''Unavailable'' ex_pulled) (ex_catalog ''Unavailable'') ex_cat_state = Some out"
    "cxo_err out = None" using ex_cat_unavailable by blast
  show ?thesis
    using unavailable_catalog_removed [of ex_ld "ex_cat_env ''Unavailable'' ex_pulled" "ex_catalog ''Unavailable''" ex_cat_state out] out
    by (simp add: ex_local_env) (simp add: ex_catalog_def)
qed

theorem catalog_runs_isolated_witness:
  "\<exists>out. cat_reconcile (ex_cat_env ''Available'' ex_pulled) (ex_catalog ''Available'') ex_cat_state = Some out \<and>
     ContentExists ex_ld ''b'' (cst_storage (cxo_state out)) = ContentExists ex_ld ''b'' []"
proof -
  obtain out where out: "cat_reconcile (ex_cat_env ''Available'' ex_pulled) (ex_catalog ''Available'') ex_cat_state = Some out"
    using ex_cat_run by blast
  then show ?thesis
    using catalog_runs_isolated [of ex_ld "ex_cat_env ''Available'' ex_pulled" "ex_catalog ''Available''" ex_cat_state out "''b''"]
    by (simp add: ex_local_env) (simp add: ex_catalog_def ex_cat_state_def no_temp_def)
qed

theorem failed_catalog_run_retried_witness:
  "\<exists>c' st' r err. cat_Reconcile (ex_cat_env ''Available'' (Inl (ErrText ''no registry''))) ''cat'' ex_cat_state =
       Some (Some c', st', r, err) \<and> err \<noteq> None \<and> up_to_date (ex_cat_env ''Available'' ex_pulled) c' st' = Some None"
proof -
  let ?env = "ex_cat_env ''Available'' (Inl (ErrText ''no registry''))" and ?c = "ex_catalog ''Available''"
  have get: "cx_Get ?env ''cat'' = Inr ?c" by (simp add: ex_cat_env_def)
  obtain out e where out: "cat_reconcile ?env ?c ex_cat_state = Some out" "cxo_err out = Some e"
    by (simp add: cat_reconcile_def ex_catalog_def ex_cat_env_def ex_cat_state_def Finalize_def up_to_date_def
        unpack_catalog_def cat_fail_def Let_def)
  obtain c' st' r err where run: "cat_Reconcile ?env ''cat'' ex_cat_state = Some (Some c', st', r, err)"
    using get out(1) cat_kept_fields(4) [OF cat_reconcile_kept [OF out(1)]] by (simp add: cat_Reconcile_def Let_def)
  from failed_catalog_run_retried [OF get run out, where env' = "ex_cat_env ''Available'' ex_pulled"] run show ?thesis by blast
qed

theorem gc_exact_witness:
  "map_of (fst (runGarbageCollection (Inr [''a'']) None (\<lambda>n. None) [(''a'', empty_dir), (''b'', empty_dir)])) ''a'' = Some empty_dir"
  using gc_exact [of "[''a'']" "\<lambda>n. None" "[(''a'', empty_dir), (''b'', empty_dir)]"
      "fst (runGarbageCollection (Inr [''a'']) None (\<lambda>n. None) [(''a'', empty_dir), (''b'', empty_dir)])"
      "snd (runGarbageCollection (Inr [''a'']) None (\<lambda>n. None) [(''a'', empty_dir), (''b'', empty_dir)])"]
  by (simp add: empty_dir_def)

end
