(* ===== verification/Registry_Bundle.thy ===== *)
theory Registry_Bundle
  imports Cos_Phases K8s_Names
begin

text \<open>
  The data of registry+v1 bundles: \<open>RegistryV1\<close> of \<open>rukpak/bundle/registryv1.go\<close> with what the
  rendering reads of the ClusterServiceVersion, of CustomResourceDefinitions and of Deployments, the
  configuration of deployments, and the helpers of \<open>rukpak/util/util.go\<close>. The nested
  specification of a ClusterServiceVersion is flattened into one record. Parts of Kubernetes
  objects that the code only copies or compares as a whole are JSON values.
\<close>

section \<open>Definitions\<close>

subsection \<open>ClusterServiceVersions\<close>

abbreviation InstallModeTypeOwnNamespace :: string where "InstallModeTypeOwnNamespace \<equiv> ''OwnNamespace''"
abbreviation InstallModeTypeSingleNamespace :: string where "InstallModeTypeSingleNamespace \<equiv> ''SingleNamespace''"
abbreviation InstallModeTypeMultiNamespace :: string where "InstallModeTypeMultiNamespace \<equiv> ''MultiNamespace''"
abbreviation InstallModeTypeAllNamespaces :: string where "InstallModeTypeAllNamespaces \<equiv> ''AllNamespaces''"

abbreviation ValidatingAdmissionWebhook :: string where "ValidatingAdmissionWebhook \<equiv> ''ValidatingAdmissionWebhook''"
abbreviation MutatingAdmissionWebhook :: string where "MutatingAdmissionWebhook \<equiv> ''MutatingAdmissionWebhook''"
abbreviation ConversionWebhook :: string where "ConversionWebhook \<equiv> ''ConversionWebhook''"

record install_mode =
  im_Type :: string
  im_Supported :: bool

record permission =
  perm_ServiceAccountName :: string
  perm_Rules :: "policy_rule list"

datatype int_or_string = IntPort int | StrPort string

record rule_with_operations =
  rwo_Operations :: "string list"
  rwo_APIGroups :: "string list"
  rwo_APIVersions :: "string list"
  rwo_Resources :: "string list"
  rwo_Scope :: "string option"

record webhook_description =
  wh_GenerateName :: string
  wh_Type :: string
  wh_DeploymentName :: string
  wh_ContainerPort :: int
  wh_TargetPort :: "int_or_string option"
  wh_Rules :: "rule_with_operations list"
  wh_FailurePolicy :: "string option"
  wh_MatchPolicy :: "string option"
  wh_ObjectSelector :: "label_selector option"
  wh_SideEffects :: "string option"
  wh_TimeoutSeconds :: "int option"
  wh_AdmissionReviewVersions :: "string list"
  wh_ReinvocationPolicy :: "string option"
  wh_WebhookPath :: "string option"
  wh_ConversionCRDs :: "string list"

subsection \<open>Pods and deployments\<close>

record env_var =
  ev_Name :: string
  ev_Value :: string
  ev_ValueFrom :: "json option"

datatype volume_source = SecretSource string "(string \<times> string) list" | OtherSource json

record volume =
  vol_Name :: string
  vol_Source :: volume_source

text \<open>\<open>vm_Other\<close> holds the fields besides name and path; \<open>None\<close> when all of them are zero.\<close>

record volume_mount =
  vm_Name :: string
  vm_MountPath :: string
  vm_Other :: "json option"

record container =
  ct_Name :: string
  ct_Env :: "env_var list"
  ct_EnvFrom :: "json list"
  ct_VolumeMounts :: "volume_mount list"
  ct_Resources :: json
  ct_Other :: json

text \<open>
  \<open>na_Required\<close> are the terms of the node selector, if there is one; the terms themselves are only
  copied.
\<close>

record node_affinity =
  na_Required :: "json list option"
  na_Preferred :: "json list"

record pod_affinity =
  pa_Required :: "json list"
  pa_Preferred :: "json list"

record affinity =
  af_NodeAffinity :: "node_affinity option"
  af_PodAffinity :: "pod_affinity option"
  af_PodAntiAffinity :: "pod_affinity option"

record pod_spec =
  pod_Volumes :: "volume list"
  pod_Containers :: "container list"
  pod_Tolerations :: "json list"
  pod_NodeSelector :: string_map
  pod_Affinity :: "affinity option"
  pod_Other :: json

record pod_template =
  pt_Annotations :: string_map
  pt_Labels :: string_map
  pt_Spec :: pod_spec

record deployment_spec =
  ds_Selector :: "label_selector option"
  ds_Template :: pod_template
  ds_RevisionHistoryLimit :: "int option"
  ds_Other :: json

record deployment =
  dpl_Name :: string
  dpl_Namespace :: string
  dpl_Labels :: string_map
  dpl_Annotations :: string_map
  dpl_Spec :: deployment_spec

record strategy_deployment =
  sd_Name :: string
  sd_Spec :: deployment_spec
  sd_Label :: string_map

text \<open>
  \<open>DeploymentConfig\<close>, the \<open>SubscriptionConfig\<close> of the operator API without its unused selector. The
  fields that the code compares with nil are optional.
\<close>

record deployment_config =
  dc_Env :: "env_var list"
  dc_EnvFrom :: "json list"
  dc_Volumes :: "volume list"
  dc_VolumeMounts :: "volume_mount list"
  dc_Tolerations :: "json list"
  dc_Resources :: "json option"
  dc_NodeSelector :: "string_map option"
  dc_Affinity :: "affinity option"
  dc_Annotations :: string_map

subsection \<open>Bundles\<close>

record service_reference =
  svr_Namespace :: string
  svr_Name :: string
  svr_Path :: "string option"
  svr_Port :: "int option"

record crd_conversion =
  conv_Strategy :: string
  conv_Service :: "service_reference option"
  conv_ConversionReviewVersions :: "string list"

record custom_resource_definition =
  crd_Name :: string
  crd_Annotations :: string_map
  crd_PreserveUnknownFields :: bool
  crd_Conversion :: "crd_conversion option"
  crd_Other :: json

record cluster_service_version =
  csv_Name :: string
  csv_Annotations :: string_map
  csv_InstallModes :: "install_mode list"
  csv_DeploymentSpecs :: "strategy_deployment list"
  csv_Permissions :: "permission list"
  csv_ClusterPermissions :: "permission list"
  csv_WebhookDefinitions :: "webhook_description list"
  csv_OwnedCRDs :: "string list"
  csv_OwnedAPIServices :: "json list"

record registry_v1 =
  rv1_PackageName :: string
  rv1_CSV :: cluster_service_version
  rv1_CRDs :: "custom_resource_definition list"
  rv1_Others :: "json list"

abbreviation rv1_deployments :: "registry_v1 \<Rightarrow> strategy_deployment list" where
  "rv1_deployments rv1 \<equiv> csv_DeploymentSpecs (rv1_CSV rv1)"

abbreviation rv1_webhooks :: "registry_v1 \<Rightarrow> webhook_description list" where
  "rv1_webhooks rv1 \<equiv> csv_WebhookDefinitions (rv1_CSV rv1)"

subsection \<open>Supported kinds\<close>

text \<open>\<open>supportedResources\<close> of the operator registry: the kinds, and whether they are namespaced.\<close>

definition supportedResources :: "(string \<times> bool) list" where
  "supportedResources =
     [(''ClusterServiceVersion'', True), (''CustomResourceDefinition'', False), (''ClusterRole'', False),
      (''ClusterRoleBinding'', False), (''Service'', True), (''ServiceAccount'', True), (''Role'', True),
      (''RoleBinding'', True), (''PrometheusRule'', True), (''ServiceMonitor'', True), (''Secret'', True),
      (''ConfigMap'', True), (''PodDisruptionBudget'', True), (''PriorityClass'', False),
      (''VerticalPodAutoscaler'', False), (''ConsoleYAMLSample'', False), (''ConsoleQuickStart'', False),
      (''ConsoleCLIDownload'', False), (''ConsoleLink'', False), (''ConsolePlugin'', False),
      (''NetworkPolicy'', True), (''PodMonitor'', True)]"

definition IsSupported :: "string \<Rightarrow> bool \<times> bool" where
  "IsSupported kind =
     (case map_of supportedResources kind of None \<Rightarrow> (False, False) | Some namespaced \<Rightarrow> (True, namespaced))"

subsection \<open>Helpers\<close>

definition MergeMaps :: "string_map list \<Rightarrow> string_map" where
  "MergeMaps maps = foldl (++) Map.empty maps"

text \<open>
  \<open>SetNamespace\<close> of unstructured objects: an empty namespace removes the field, and nothing happens
  when the metadata is not an object.
\<close>

definition SetNamespace :: "json \<Rightarrow> string \<Rightarrow> json" where
  "SetNamespace obj namespace =
     (case obj of
        JObj fs \<Rightarrow>
          (case map_of fs ''metadata'' of
             None \<Rightarrow>
               if namespace = '''' then obj
               else JObj (json_put fs ''metadata'' (JObj [(''namespace'', JStr namespace)]))
           | Some (JObj ms) \<Rightarrow>
               JObj (json_put fs ''metadata'' (JObj
                 (if namespace = '''' then filter (\<lambda>(k, v). k \<noteq> ''namespace'') ms
                  else json_put ms ''namespace'' (JStr namespace))))
           | Some _ \<Rightarrow> obj)
      | _ \<Rightarrow> obj)"

text \<open>\<open>GetKind\<close> of unstructured objects reads the field \<open>kind\<close>.\<close>

definition GetKind :: "json \<Rightarrow> string" where
  "GetKind obj = json_string_at obj [''kind'']"

section \<open>Lemmas\<close>

lemma MergeMaps_simps [simp]:
  "MergeMaps [] = Map.empty"
  "MergeMaps [m] = m"
  "MergeMaps [m, n] = m ++ n"
  by (simp_all add: MergeMaps_def)

text \<open>A well-formed object: its metadata, if there is one, is an object.\<close>

definition has_metadata :: "json \<Rightarrow> bool" where
  "has_metadata obj =
     (case obj of JObj fs \<Rightarrow> (case map_of fs ''metadata'' of None \<Rightarrow> True | Some (JObj ms) \<Rightarrow> True | _ \<Rightarrow> False)
                | _ \<Rightarrow> False)"

lemma GetNamespace_SetNamespace:
  assumes "has_metadata obj"
  shows "GetNamespace (SetNamespace obj namespace) = namespace"
proof -
  obtain fs where obj: "obj = JObj fs" using assms by (cases obj) (auto simp: has_metadata_def)
  have filt: "map_of (filter (\<lambda>(k, v). k \<noteq> ''namespace'') ms) ''namespace'' = None" for ms :: "(string \<times> json) list"
    by (induction ms) auto
  show ?thesis
    using assms
    by (auto simp: obj has_metadata_def SetNamespace_def GetNamespace_def json_string_at_def filt
        split: option.splits json.splits)
qed

lemma SetNamespace_keeps:
  assumes "k \<noteq> ''metadata''"
  shows "json_field (SetNamespace obj namespace) k = json_field obj k"
  using assms by (auto simp: SetNamespace_def split: json.split option.split)

lemma SetNamespace_GetKind [simp]: "GetKind (SetNamespace obj namespace) = GetKind obj"
  by (simp add: GetKind_def json_string_at_def SetNamespace_keeps)

lemma SetNamespace_GetName [simp]: "GetName (SetNamespace obj namespace) = GetName obj"
proof -
  have filt: "map_of (filter (\<lambda>(k, v). k \<noteq> ''namespace'') ms) ''name'' = map_of ms ''name''" for ms :: "(string \<times> json) list"
    by (induction ms) auto
  show ?thesis
    by (auto simp: SetNamespace_def GetName_def json_string_at_def filt split: json.split option.split)
qed

end
