(* ===== verification/Bundle_Validators.thy ===== *)
theory Bundle_Validators
  imports Registry_Bundle "HOL-Library.AList"
begin

text \<open>
  The validation of registry+v1 bundles (\<open>rukpak/render/registryv1/validators/validator.go\<close> and the
  list of checks of \<open>registryv1.go\<close>). Go maps that are iterated are association lists, and Go sets
  are sets; the code sorts the keys before it reports them, so that the order in which a map is
  iterated does not show. The sort of a webhook's CRD names in place is not seen elsewhere: every
  other use of these names ignores their order.
\<close>

section \<open>Definitions\<close>

subsection \<open>Shared pieces\<close>

definition squote :: "string \<Rightarrow> string" where
  "squote s = [CHR 0x27] @ s @ [CHR 0x27]"

definition sorted_keys :: "('k::linorder \<times> 'v) list \<Rightarrow> 'k list" where
  "sorted_keys m = sorted_list_of_set (fst ` set m)"

definition get_or :: "'v \<Rightarrow> ('k \<times> 'v) list \<Rightarrow> 'k \<Rightarrow> 'v" where
  "get_or z m k = (case map_of m k of None \<Rightarrow> z | Some v \<Rightarrow> v)"

text \<open>The loop that collects the names that occur more than once.\<close>

fun duplicate_names :: "string set \<Rightarrow> string set \<Rightarrow> string list \<Rightarrow> string set" where
  "duplicate_names seen dups [] = dups"
| "duplicate_names seen dups (n # ns) =
     duplicate_names (insert n seen) (if n \<in> seen then insert n dups else dups) ns"

definition supportedBundleInstallModes :: "registry_v1 \<Rightarrow> string set" where
  "supportedBundleInstallModes rv1 = set (map im_Type (filter im_Supported (csv_InstallModes (rv1_CSV rv1))))"

subsection \<open>The checks\<close>

definition CheckDeploymentSpecUniqueness :: "registry_v1 \<Rightarrow> go_error list" where
  "CheckDeploymentSpecUniqueness rv1 =
     map (\<lambda>d. ErrText (''cluster service version contains duplicate strategy deployment spec '' @ squote d))
       (sorted_list_of_set (duplicate_names {} {} (map sd_Name (rv1_deployments rv1))))"

definition invalid_names :: "string list \<Rightarrow> (string \<times> string list) list" where
  "invalid_names ns =
     foldl (\<lambda>m n. let errs = IsDNS1123Subdomain n in if errs \<noteq> [] then AList.update n (sort errs) m else m) [] ns"

definition CheckDeploymentNameIsDNS1123SubDomain :: "registry_v1 \<Rightarrow> go_error list" where
  "CheckDeploymentNameIsDNS1123SubDomain rv1 =
     (let m = invalid_names (map sd_Name (rv1_deployments rv1)) in
      map (\<lambda>d. ErrText (''invalid cluster service version strategy deployment name '' @ squote d @ '': '' @
          go_join '', '' (get_or [] m d))) (sorted_keys m))"

definition CheckOwnedCRDExistence :: "registry_v1 \<Rightarrow> go_error list" where
  "CheckOwnedCRDExistence rv1 =
     (let crdsNames = set (map crd_Name (rv1_CRDs rv1));
          missing = set (filter (\<lambda>n. n \<notin> crdsNames) (csv_OwnedCRDs (rv1_CSV rv1))) in
      map (\<lambda>n. ErrText (''cluster service definition references owned custom resource definition '' @ squote n @
          '' not found in bundle'')) (sorted_list_of_set missing))"

definition CheckCRDResourceUniqueness :: "registry_v1 \<Rightarrow> go_error list" where
  "CheckCRDResourceUniqueness rv1 =
     map (\<lambda>n. ErrText (''bundle contains duplicate custom resource definition '' @ squote n))
       (sorted_list_of_set (duplicate_names {} {} (map crd_Name (rv1_CRDs rv1))))"

definition CheckPackageNameNotEmpty :: "registry_v1 \<Rightarrow> go_error list" where
  "CheckPackageNameNotEmpty rv1 =
     (if rv1_PackageName rv1 = '''' then [ErrText ''package name is empty''] else [])"

definition CheckConversionWebhookSupport :: "registry_v1 \<Rightarrow> go_error list" where
  "CheckConversionWebhookSupport rv1 =
     (let names = map wh_GenerateName (filter (\<lambda>wh. wh_Type wh = ConversionWebhook) (rv1_webhooks rv1)) in
      if names = [] then []
      else
        (let modes = supportedBundleInstallModes rv1 in
         if card modes \<noteq> 1 \<or> InstallModeTypeAllNamespaces \<notin> modes then
           map (\<lambda>n. ErrText (''bundle contains conversion webhook '' @ go_quote n @ '' and supports install modes '' @
               show_strings (sorted_list_of_set modes) @
               '' - conversion webhooks are only supported for bundles that only support AllNamespaces install mode''))
             names
         else []))"

definition webhooks_by_deployment :: "webhook_description list \<Rightarrow> (string \<times> webhook_description list) list" where
  "webhooks_by_deployment whs =
     foldl (\<lambda>m wh. AList.update (wh_DeploymentName wh) (get_or [] m (wh_DeploymentName wh) @ [wh]) m) [] whs"

definition compare_webhooks :: "webhook_description \<Rightarrow> webhook_description \<Rightarrow> int" where
  "compare_webhooks a b =
     cmp_or (go_compare (wh_Type a) (wh_Type b)) (go_compare (wh_GenerateName a) (wh_GenerateName b))"

definition CheckWebhookDeploymentReferentialIntegrity :: "registry_v1 \<Rightarrow> go_error list" where
  "CheckWebhookDeploymentReferentialIntegrity rv1 =
     (let m = foldl (\<lambda>m d. AList.delete (sd_Name d) m) (webhooks_by_deployment (rv1_webhooks rv1)) (rv1_deployments rv1) in
      if (\<Sum>(d, whs) \<leftarrow> m. length whs) = 0 then []
      else concat (map (\<lambda>d. map (\<lambda>wh. ErrText (''webhook of type '' @ squote (wh_Type wh) @ '' with name '' @
              squote (wh_GenerateName wh) @ '' references non-existent deployment '' @ squote (wh_DeploymentName wh)))
            (sort_by compare_webhooks (get_or [] m d))) (sorted_keys m)))"

fun duplicate_webhooks ::
  "(string \<times> string set) list \<Rightarrow> (string \<times> string set) list \<Rightarrow> webhook_description list \<Rightarrow> (string \<times> string set) list" where
  "duplicate_webhooks names dups [] = dups"
| "duplicate_webhooks names dups (wh # whs) =
     (let t = wh_Type wh; n = wh_GenerateName wh; seen = get_or {} names t;
          dups' = (if n \<in> seen then AList.update t (insert n (get_or {} dups t)) dups else dups) in
      duplicate_webhooks (AList.update t (insert n seen) names) dups' whs)"

definition CheckWebhookNameUniqueness :: "registry_v1 \<Rightarrow> go_error list" where
  "CheckWebhookNameUniqueness rv1 =
     (let m = duplicate_webhooks [] [] (rv1_webhooks rv1) in
      if (\<Sum>(t, ns) \<leftarrow> m. card ns) = 0 then []
      else concat (map (\<lambda>t. map (\<lambda>n. ErrText (''duplicate webhook '' @ squote n @ '' of type '' @ squote t))
            (sorted_list_of_set (get_or {} m t))) (sorted_keys m)))"

definition CheckConversionWebhooksReferenceOwnedCRDs :: "registry_v1 \<Rightarrow> go_error list" where
  "CheckConversionWebhooksReferenceOwnedCRDs rv1 =
     (let conversionWebhooks = filter (\<lambda>wh. wh_Type wh = ConversionWebhook) (rv1_webhooks rv1) in
      if conversionWebhooks = [] then []
      else
        (let owned = set (csv_OwnedCRDs (rv1_CSV rv1)) in
         concat (map (\<lambda>wh. map (\<lambda>crd. ErrText (''conversion webhook '' @ squote (wh_GenerateName wh) @
                 '' references custom resource definition '' @ squote crd @ '' not owned bundle''))
               (filter (\<lambda>crd. crd \<notin> owned) (sort (wh_ConversionCRDs wh))))
             (sort_by (\<lambda>a b. go_compare (wh_GenerateName a) (wh_GenerateName b)) conversionWebhooks))))"

definition webhooks_by_crd :: "webhook_description list \<Rightarrow> (string \<times> string list) list" where
  "webhooks_by_crd whs =
     foldl (\<lambda>m wh. if wh_Type wh \<noteq> ConversionWebhook then m
        else foldl (\<lambda>m crd. AList.update crd (get_or [] m crd @ [wh_GenerateName wh]) m) m (wh_ConversionCRDs wh)) [] whs"

definition CheckConversionWebhookCRDReferenceUniqueness :: "registry_v1 \<Rightarrow> go_error list" where
  "CheckConversionWebhookCRDReferenceUniqueness rv1 =
     (let m = filter (\<lambda>(crd, whs). length whs \<noteq> 1) (webhooks_by_crd (rv1_webhooks rv1)) in
      map (\<lambda>crd. ErrText (''conversion webhooks ['' @ go_join '','' (sort (get_or [] m crd)) @
          ''] reference same custom resource definition '' @ squote crd)) (sorted_keys m))"

definition invalid_webhooks :: "webhook_description list \<Rightarrow> (string \<times> (string \<times> string list) list) list" where
  "invalid_webhooks whs =
     foldl (\<lambda>m wh. let t = wh_Type wh; n = wh_GenerateName wh; names = get_or [] m t; errs = IsDNS1123Subdomain n in
        AList.update t (if errs \<noteq> [] then AList.update n (sort errs) names else names) m) [] whs"

definition CheckWebhookNameIsDNS1123SubDomain :: "registry_v1 \<Rightarrow> go_error list" where
  "CheckWebhookNameIsDNS1123SubDomain rv1 =
     (let m = invalid_webhooks (rv1_webhooks rv1) in
      if (\<Sum>(t, ns) \<leftarrow> m. length ns) = 0 then []
      else concat (map (\<lambda>t. map (\<lambda>n. ErrText (''webhook of type '' @ squote t @ '' has invalid name '' @ squote n @ '': '' @
              go_join '','' (get_or [] (get_or [] m t) n))) (sorted_keys (get_or [] m t))) (sorted_keys m)))"

definition forbiddenWebhookRuleAPIGroups :: "string set" where
  "forbiddenWebhookRuleAPIGroups = {''olm.operatorframework.io'', ''*''}"

definition forbiddenAdmissionRegistrationResources :: "string set" where
  "forbiddenAdmissionRegistrationResources =
     {''*'', ''mutatingwebhookconfiguration'', ''mutatingwebhookconfigurations'',
      ''validatingwebhookconfiguration'', ''validatingwebhookconfigurations''}"

definition rule_errors :: "string \<Rightarrow> rule_with_operations \<Rightarrow> go_error list" where
  "rule_errors webhookName rule =
     concat (map (\<lambda>apiGroup.
        (if apiGroup \<in> forbiddenWebhookRuleAPIGroups
         then [ErrText (''webhook '' @ go_quote webhookName @
           '' contains forbidden rule: admission webhook rules cannot reference API group '' @ go_quote apiGroup)] else []) @
        (if apiGroup = ''admissionregistration.k8s.io'' then
           map (\<lambda>r. ErrText (''webhook '' @ go_quote webhookName @
               '' contains forbidden rule: admission webhook rules cannot reference resource '' @ go_quote r @
               '' for API group '' @ go_quote apiGroup))
             (filter (\<lambda>r. map lower_char r \<in> forbiddenAdmissionRegistrationResources) (rwo_Resources rule))
         else [])) (rwo_APIGroups rule))"

definition CheckWebhookRules :: "registry_v1 \<Rightarrow> go_error list" where
  "CheckWebhookRules rv1 =
     concat (map (\<lambda>wh. concat (map (rule_errors (wh_GenerateName wh)) (wh_Rules wh)))
       (filter (\<lambda>wh. wh_Type wh \<noteq> ConversionWebhook) (rv1_webhooks rv1)))"

definition CheckObjectSupport :: "registry_v1 \<Rightarrow> go_error list" where
  "CheckObjectSupport rv1 =
     concat (map (\<lambda>obj. let kind = gvk_Kind (GroupVersionKind obj) in
        if fst (IsSupported kind) then []
        else [ErrText (''unsupported resource '' @ go_quote (GetName obj) @ '' with kind '' @ go_quote kind)]) (rv1_Others rv1))"

subsection \<open>The validator\<close>

type_synonym bundle_validator = "(registry_v1 \<Rightarrow> go_error list) list"

definition Validate :: "bundle_validator \<Rightarrow> registry_v1 \<Rightarrow> go_error option" where
  "Validate v rv1 = errors_Join (map Some (concat (map (\<lambda>validator. validator rv1) v)))"

definition BundleValidator :: bundle_validator where
  "BundleValidator =
     [CheckDeploymentSpecUniqueness, CheckDeploymentNameIsDNS1123SubDomain, CheckCRDResourceUniqueness,
      CheckOwnedCRDExistence, CheckPackageNameNotEmpty, CheckConversionWebhookSupport,
      CheckWebhookDeploymentReferentialIntegrity, CheckWebhookNameUniqueness, CheckWebhookNameIsDNS1123SubDomain,
      CheckConversionWebhookCRDReferenceUniqueness, CheckConversionWebhooksReferenceOwnedCRDs, CheckWebhookRules,
      CheckObjectSupport]"

section \<open>Lemmas\<close>

subsection \<open>Association lists\<close>

lemma get_or_simps [simp]:
  "get_or z [] k = z"
  "get_or z (AList.update k' v m) k = (if k = k' then v else get_or z m k)"
  by (simp_all add: get_or_def update_conv')

lemma update_not_Nil [simp]: "AList.update k v m \<noteq> []"
  by (cases m) auto

lemma alist_empty_iff: "m = [] \<longleftrightarrow> (\<forall>k. map_of m k = None)"
proof (cases m)
  case (Cons kv ms)
  then have "map_of m (fst kv) = Some (snd kv)" by (cases kv) simp
  with Cons show ?thesis by (metis list.distinct(1) option.distinct(1))
qed simp

lemma map_of_foldl_delete:
  "map_of (foldl (\<lambda>m d. AList.delete (f d) m) m ds) k = (if k \<in> f ` set ds then None else map_of m k)"
  by (induction ds arbitrary: m) (auto simp: delete_conv')

lemma distinct_foldl_delete:
  "distinct (map fst m) \<Longrightarrow> distinct (map fst (foldl (\<lambda>m d. AList.delete (f d) m) m ds))"
  by (induction ds arbitrary: m) (simp_all add: distinct_delete)

lemma sorted_keys_Nil [simp]: "sorted_keys m = [] \<longleftrightarrow> m = []"
  by (simp add: sorted_keys_def)

lemma set_sorted_keys [simp]: "set (sorted_keys m) = fst ` set m"
  by (simp add: sorted_keys_def)

text \<open>Grouping values by their keys: the maps of webhooks by deployment and by CRD are built so.\<close>

definition group_put :: "('k \<times> 'v list) list \<Rightarrow> 'k \<times> 'v \<Rightarrow> ('k \<times> 'v list) list" where
  "group_put m kv = AList.update (fst kv) (get_or [] m (fst kv) @ [snd kv]) m"

lemma map_of_group:
  "map_of (foldl group_put [] kvs) k =
     (let vs = map snd (filter (\<lambda>kv. fst kv = k) kvs) in if vs = [] then None else Some vs)"
  by (induction kvs rule: rev_induct) (auto simp: group_put_def update_conv' get_or_def Let_def filter_empty_conv)

lemma distinct_group: "distinct (map fst (foldl group_put [] kvs))"
  by (induction kvs rule: rev_induct) (simp_all add: group_put_def distinct_update)

lemma webhooks_by_deployment_group:
  "webhooks_by_deployment whs = foldl group_put [] (map (\<lambda>wh. (wh_DeploymentName wh, wh)) whs)"
  by (simp add: webhooks_by_deployment_def group_put_def foldl_map)

definition crd_references :: "webhook_description list \<Rightarrow> (string \<times> string) list" where
  "crd_references whs =
     concat (map (\<lambda>wh. map (\<lambda>crd. (crd, wh_GenerateName wh)) (wh_ConversionCRDs wh))
       (filter (\<lambda>wh. wh_Type wh = ConversionWebhook) whs))"

lemma webhooks_by_crd_group: "webhooks_by_crd whs = foldl group_put [] (crd_references whs)"
proof -
  have inner: "foldl (\<lambda>m crd. AList.update crd (get_or [] m crd @ [n]) m) m crds =
      foldl group_put m (map (\<lambda>crd. (crd, n)) crds)" for m :: "(string \<times> string list) list" and n crds
    by (simp add: group_put_def foldl_map)
  show ?thesis
    unfolding webhooks_by_crd_def crd_references_def
    by (induction whs rule: rev_induct) (simp_all add: inner)
qed

subsection \<open>Duplicates\<close>

lemma finite_duplicate_names: "finite dups \<Longrightarrow> finite (duplicate_names seen dups ns)"
  by (induction seen dups ns rule: duplicate_names.induct) auto

lemma duplicate_names_empty:
  "duplicate_names seen dups ns = {} \<longleftrightarrow> dups = {} \<and> distinct ns \<and> (\<forall>n \<in> set ns. n \<notin> seen)"
  by (induction seen dups ns rule: duplicate_names.induct) auto

lemma duplicate_webhooks_empty:
  "duplicate_webhooks names dups whs = [] \<longleftrightarrow>
     dups = [] \<and> distinct (map (\<lambda>wh. (wh_Type wh, wh_GenerateName wh)) whs) \<and>
     (\<forall>wh \<in> set whs. wh_GenerateName wh \<notin> get_or {} names (wh_Type wh))"
proof (induction names dups whs rule: duplicate_webhooks.induct)
  case (2 names dups wh whs)
  let ?t = "wh_Type wh" and ?n = "wh_GenerateName wh"
  let ?names = "AList.update ?t (insert ?n (get_or {} names ?t)) names"
  have pt: "wh_GenerateName w \<notin> get_or {} ?names (wh_Type w) \<longleftrightarrow>
      (?t, ?n) \<noteq> (wh_Type w, wh_GenerateName w) \<and> wh_GenerateName w \<notin> get_or {} names (wh_Type w)" for w
    by (cases "wh_Type w = ?t") auto
  have upd: "(\<forall>w \<in> set whs. wh_GenerateName w \<notin> get_or {} ?names (wh_Type w)) \<longleftrightarrow>
      (?t, ?n) \<notin> (\<lambda>w. (wh_Type w, wh_GenerateName w)) ` set whs \<and>
      (\<forall>w \<in> set whs. wh_GenerateName w \<notin> get_or {} names (wh_Type w))"
    unfolding pt by blast
  show ?case
    unfolding duplicate_webhooks.simps Let_def
    by (subst 2 [OF refl refl refl refl], subst upd) (cases "?n \<in> get_or {} names ?t"; simp add: conj_ac)
qed simp

lemma snd_update: "kv \<in> set (AList.update k v m) \<Longrightarrow> snd kv = v \<or> kv \<in> set m"
  by (induction m) (auto split: if_splits)

lemma get_or_in: "get_or z m k = z \<or> (k, get_or z m k) \<in> set m"
  by (auto simp: get_or_def dest: map_of_SomeD split: option.split)

lemma duplicate_webhooks_values:
  assumes "\<forall>kv \<in> set dups. finite (snd kv) \<and> snd kv \<noteq> {}" and "kv \<in> set (duplicate_webhooks names dups whs)"
  shows "finite (snd kv) \<and> snd kv \<noteq> {}"
  using assms
proof (induction names dups whs rule: duplicate_webhooks.induct)
  case (2 names dups wh whs)
  have fin: "finite (get_or {} dups (wh_Type wh))"
    using get_or_in [of "{}" dups "wh_Type wh"] 2(2) by fastforce
  have "\<forall>kv \<in> set (if wh_GenerateName wh \<in> get_or {} names (wh_Type wh)
          then AList.update (wh_Type wh) (insert (wh_GenerateName wh) (get_or {} dups (wh_Type wh))) dups else dups).
        finite (snd kv) \<and> snd kv \<noteq> {}"
    using 2(2) fin by (auto dest!: snd_update)
  from 2(1) [OF refl refl refl refl this] 2(3) show ?case by (simp add: Let_def)
qed simp

lemma invalid_names_empty: "invalid_names ns = [] \<longleftrightarrow> (\<forall>n \<in> set ns. IsDNS1123Subdomain n = [])"
  by (induction ns rule: rev_induct) (auto simp: invalid_names_def Let_def)

lemma get_invalid_webhooks:
  "get_or [] (invalid_webhooks whs) t = invalid_names (map wh_GenerateName (filter (\<lambda>wh. wh_Type wh = t) whs))"
  by (induction whs rule: rev_induct) (auto simp: invalid_webhooks_def invalid_names_def Let_def)

lemma distinct_invalid_webhooks: "distinct (map fst (invalid_webhooks whs))"
  by (induction whs rule: rev_induct) (simp_all add: invalid_webhooks_def Let_def distinct_update)

lemma distinct_get_or: "distinct (map fst m) \<Longrightarrow> (k, v) \<in> set m \<Longrightarrow> get_or z m k = v"
  by (simp add: get_or_def)

subsection \<open>What each check accepts\<close>

lemma CheckDeploymentSpecUniqueness_ok:
  "CheckDeploymentSpecUniqueness rv1 = [] \<longleftrightarrow> distinct (map sd_Name (rv1_deployments rv1))"
  by (simp add: CheckDeploymentSpecUniqueness_def finite_duplicate_names duplicate_names_empty)

lemma CheckDeploymentName_ok:
  "CheckDeploymentNameIsDNS1123SubDomain rv1 = [] \<longleftrightarrow>
     (\<forall>d \<in> set (rv1_deployments rv1). IsDNS1123Subdomain (sd_Name d) = [])"
  by (simp add: CheckDeploymentNameIsDNS1123SubDomain_def Let_def invalid_names_empty)

lemma CheckOwnedCRDExistence_ok:
  "CheckOwnedCRDExistence rv1 = [] \<longleftrightarrow> set (csv_OwnedCRDs (rv1_CSV rv1)) \<subseteq> crd_Name ` set (rv1_CRDs rv1)"
proof -
  have "set (filter (\<lambda>n. n \<notin> S) xs) = {} \<longleftrightarrow> set xs \<subseteq> S" for S and xs :: "string list" by auto
  then show ?thesis by (simp add: CheckOwnedCRDExistence_def Let_def del: set_filter)
qed

lemma CheckCRDResourceUniqueness_ok:
  "CheckCRDResourceUniqueness rv1 = [] \<longleftrightarrow> distinct (map crd_Name (rv1_CRDs rv1))"
  by (simp add: CheckCRDResourceUniqueness_def finite_duplicate_names duplicate_names_empty)

lemma CheckPackageNameNotEmpty_ok: "CheckPackageNameNotEmpty rv1 = [] \<longleftrightarrow> rv1_PackageName rv1 \<noteq> ''''"
  by (simp add: CheckPackageNameNotEmpty_def)

lemma CheckConversionWebhookSupport_ok:
  "CheckConversionWebhookSupport rv1 = [] \<longleftrightarrow>
     (\<forall>wh \<in> set (rv1_webhooks rv1). wh_Type wh = ConversionWebhook \<longrightarrow>
        supportedBundleInstallModes rv1 = {InstallModeTypeAllNamespaces})"
proof -
  have "card S = 1 \<and> x \<in> S \<longleftrightarrow> S = {x}" for S and x :: string by (auto simp: card_1_singleton_iff)
  then show ?thesis by (auto simp: CheckConversionWebhookSupport_def Let_def filter_empty_conv)
qed

interpretation webhook_order: comparison compare_webhooks
  unfolding compare_webhooks_def [abs_def]
  by (rule comparison_lex [OF comparison_pullback [OF comparison_go_compare, of wh_Type]
      comparison_pullback [OF comparison_go_compare, of wh_GenerateName]])

interpretation webhook_name_order: comparison "\<lambda>a b. go_compare (wh_GenerateName a) (wh_GenerateName b)"
  by (rule comparison_pullback [OF comparison_go_compare])

lemma CheckWebhookDeployment_ok:
  "CheckWebhookDeploymentReferentialIntegrity rv1 = [] \<longleftrightarrow>
     (\<forall>wh \<in> set (rv1_webhooks rv1). wh_DeploymentName wh \<in> sd_Name ` set (rv1_deployments rv1))"
proof -
  define m where "m = foldl (\<lambda>m d. AList.delete (sd_Name d) m) (webhooks_by_deployment (rv1_webhooks rv1)) (rv1_deployments rv1)"
  have lookup: "map_of m k = (let whs = filter (\<lambda>wh. wh_DeploymentName wh = k) (rv1_webhooks rv1) in
      if k \<in> sd_Name ` set (rv1_deployments rv1) \<or> whs = [] then None else Some whs)" for k
    by (auto simp: m_def map_of_foldl_delete webhooks_by_deployment_group map_of_group Let_def filter_map comp_def)
  have nonempty: "get_or [] m k \<noteq> []" if "k \<in> fst ` set m" for k
  proof -
    have "map_of m k \<noteq> None" using that by (simp add: map_of_eq_None_iff)
    then show ?thesis using lookup [of k] by (auto simp: get_or_def Let_def split: if_splits)
  qed
  have distinct_m: "distinct (map fst m)"
    by (simp add: m_def distinct_foldl_delete webhooks_by_deployment_group distinct_group)
  have "CheckWebhookDeploymentReferentialIntegrity rv1 = [] \<longleftrightarrow> m = []"
  proof
    assume check: "CheckWebhookDeploymentReferentialIntegrity rv1 = []"
    have "get_or [] m k = []" if kv: "(k, v) \<in> set m" for k v
    proof (cases "(\<Sum>(d, whs) \<leftarrow> m. length whs) = 0")
      case True
      then show ?thesis using kv distinct_get_or [OF distinct_m kv] by auto
    next
      case False
      show ?thesis
        using check kv
        unfolding CheckWebhookDeploymentReferentialIntegrity_def m_def [symmetric] Let_def if_not_P [OF False]
        by (force simp: webhook_order.sort_by_eq_Nil)
    qed
    then show "m = []" using nonempty by (cases m) fastforce+
  qed (simp add: CheckWebhookDeploymentReferentialIntegrity_def m_def [symmetric])
  then show ?thesis by (auto simp: alist_empty_iff lookup Let_def filter_empty_conv)
qed

lemma CheckWebhookNameUniqueness_ok:
  "CheckWebhookNameUniqueness rv1 = [] \<longleftrightarrow>
     distinct (map (\<lambda>wh. (wh_Type wh, wh_GenerateName wh)) (rv1_webhooks rv1))"
proof -
  define m where "m = duplicate_webhooks [] [] (rv1_webhooks rv1)"
  have vals: "finite (snd kv) \<and> snd kv \<noteq> {}" if "kv \<in> set m" for kv
    using that duplicate_webhooks_values [of "[]" kv "[]" "rv1_webhooks rv1"] by (simp add: m_def)
  have "CheckWebhookNameUniqueness rv1 = [] \<longleftrightarrow> m = []"
  proof
    assume check: "CheckWebhookNameUniqueness rv1 = []"
    show "m = []"
    proof (cases m)
      case (Cons kv kvs)
      have nz: "card (snd kv) \<noteq> 0" using vals [of kv] Cons by simp
      have get: "get_or {} m (fst kv) = snd kv" using Cons by (cases kv) (simp add: get_or_def)
      from nz have sum: "(\<Sum>(t, ns) \<leftarrow> m. card ns) \<noteq> 0" using Cons by (simp add: case_prod_unfold)
      have "fst kv \<in> set (sorted_keys m)" using Cons by simp
      then have "sorted_list_of_set (get_or {} m (fst kv)) = []"
        using check unfolding CheckWebhookNameUniqueness_def m_def [symmetric] Let_def if_not_P [OF sum] by auto
      with get vals [of kv] Cons show ?thesis by simp
    qed
  qed (simp add: CheckWebhookNameUniqueness_def m_def [symmetric])
  then show ?thesis by (simp add: m_def duplicate_webhooks_empty)
qed

lemma CheckWebhookName_ok:
  "CheckWebhookNameIsDNS1123SubDomain rv1 = [] \<longleftrightarrow>
     (\<forall>wh \<in> set (rv1_webhooks rv1). IsDNS1123Subdomain (wh_GenerateName wh) = [])"
proof -
  define m where "m = invalid_webhooks (rv1_webhooks rv1)"
  have "CheckWebhookNameIsDNS1123SubDomain rv1 = [] \<longleftrightarrow> (\<forall>kv \<in> set m. snd kv = [])"
  proof
    assume check: "CheckWebhookNameIsDNS1123SubDomain rv1 = []"
    show "\<forall>kv \<in> set m. snd kv = []"
    proof (cases "(\<Sum>(t, ns) \<leftarrow> m. length ns) = 0")
      case True
      then show ?thesis by (auto simp: case_prod_unfold)
    next
      case False
      have "\<forall>t \<in> fst ` set m. get_or [] m t = []"
        using check unfolding CheckWebhookNameIsDNS1123SubDomain_def m_def [symmetric] Let_def if_not_P [OF False] by simp
      then show ?thesis
        using distinct_get_or [of m] distinct_invalid_webhooks [of "rv1_webhooks rv1"]
        by (fastforce simp: m_def [symmetric])
    qed
  qed (auto simp: CheckWebhookNameIsDNS1123SubDomain_def m_def [symmetric] case_prod_unfold)
  also have "\<dots> \<longleftrightarrow> (\<forall>t. get_or [] m t = [])"
  proof
    assume "\<forall>kv \<in> set m. snd kv = []"
    then show "\<forall>t. get_or [] m t = []" by (metis get_or_in snd_conv)
  next
    assume "\<forall>t. get_or [] m t = []"
    then show "\<forall>kv \<in> set m. snd kv = []"
      by (metis distinct_get_or distinct_invalid_webhooks m_def prod.collapse)
  qed
  also have "\<dots> \<longleftrightarrow> (\<forall>wh \<in> set (rv1_webhooks rv1). IsDNS1123Subdomain (wh_GenerateName wh) = [])"
    by (auto simp: m_def get_invalid_webhooks invalid_names_empty)
  finally show ?thesis .
qed

lemma crd_references_fst:
  "map fst (crd_references whs) = concat (map wh_ConversionCRDs (filter (\<lambda>wh. wh_Type wh = ConversionWebhook) whs))"
  by (induction whs) (auto simp: crd_references_def comp_def)

lemma CheckConversionWebhooksReferenceOwnedCRDs_ok:
  "CheckConversionWebhooksReferenceOwnedCRDs rv1 = [] \<longleftrightarrow>
     set (map fst (crd_references (rv1_webhooks rv1))) \<subseteq> set (csv_OwnedCRDs (rv1_CSV rv1))"
  unfolding crd_references_fst
  by (auto simp: CheckConversionWebhooksReferenceOwnedCRDs_def Let_def filter_empty_conv webhook_name_order.set_sort_by)

lemma group_sizes_distinct:
  "(\<forall>kv \<in> set (foldl group_put [] kvs). length (snd kv) = 1) \<longleftrightarrow> distinct (map fst kvs)"
proof -
  have count: "length (filter (\<lambda>kv. fst kv = k) kvs) = count (mset (map fst kvs)) k" for k
    by (induction kvs) auto
  have "(\<forall>kv \<in> set (foldl group_put [] kvs). length (snd kv) = 1) \<longleftrightarrow>
      (\<forall>k v. map_of (foldl group_put [] kvs) k = Some v \<longrightarrow> length v = 1)"
    using distinct_group [of kvs] by (metis map_of_SomeD map_of_eq_Some_iff prod.collapse snd_conv)
  also have "\<dots> \<longleftrightarrow> (\<forall>k. count (mset (map fst kvs)) k = (if k \<in> set (map fst kvs) then 1 else 0))"
    unfolding count [symmetric] by (auto simp: map_of_group Let_def filter_empty_conv)
  also have "\<dots> \<longleftrightarrow> distinct (map fst kvs)"
    by (simp only: distinct_count_atmost_1)
  finally show ?thesis .
qed

lemma CheckConversionWebhookCRDReferenceUniqueness_ok:
  "CheckConversionWebhookCRDReferenceUniqueness rv1 = [] \<longleftrightarrow> distinct (map fst (crd_references (rv1_webhooks rv1)))"
  by (simp add: CheckConversionWebhookCRDReferenceUniqueness_def Let_def webhooks_by_crd_group filter_empty_conv
      group_sizes_distinct [symmetric] case_prod_unfold)

text \<open>What a rule of an admission webhook may not ask for.\<close>

definition allowed_rule :: "rule_with_operations \<Rightarrow> bool" where
  "allowed_rule rule \<longleftrightarrow>
     (\<forall>g \<in> set (rwo_APIGroups rule). g \<noteq> ''*'' \<and> g \<noteq> ''olm.operatorframework.io'' \<and>
        (g = ''admissionregistration.k8s.io'' \<longrightarrow>
           (\<forall>r \<in> set (rwo_Resources rule). map lower_char r \<notin> forbiddenAdmissionRegistrationResources)))"

lemma CheckWebhookRules_ok:
  "CheckWebhookRules rv1 = [] \<longleftrightarrow>
     (\<forall>wh \<in> set (rv1_webhooks rv1). wh_Type wh \<noteq> ConversionWebhook \<longrightarrow> (\<forall>rule \<in> set (wh_Rules wh). allowed_rule rule))"
proof -
  have "rule_errors n rule = [] \<longleftrightarrow> allowed_rule rule" for n rule
    by (simp add: rule_errors_def allowed_rule_def filter_empty_conv forbiddenWebhookRuleAPIGroups_def) blast
  then show ?thesis by (simp add: CheckWebhookRules_def) blast
qed

lemma CheckObjectSupport_ok:
  "CheckObjectSupport rv1 = [] \<longleftrightarrow>
     (\<forall>obj \<in> set (rv1_Others rv1). gvk_Kind (GroupVersionKind obj) \<in> fst ` set supportedResources)"
proof -
  have "fst (IsSupported k) \<longleftrightarrow> k \<in> fst ` set supportedResources" for k
    using map_of_eq_None_iff [of supportedResources k] by (auto simp: IsSupported_def split: option.splits)
  then show ?thesis by (auto simp: CheckObjectSupport_def Let_def)
qed

lemmas checks_ok = CheckDeploymentSpecUniqueness_ok CheckDeploymentName_ok CheckOwnedCRDExistence_ok
  CheckCRDResourceUniqueness_ok CheckPackageNameNotEmpty_ok CheckConversionWebhookSupport_ok
  CheckWebhookDeployment_ok CheckWebhookNameUniqueness_ok CheckWebhookName_ok
  CheckConversionWebhooksReferenceOwnedCRDs_ok CheckConversionWebhookCRDReferenceUniqueness_ok
  CheckWebhookRules_ok CheckObjectSupport_ok

lemma Validate_None: "Validate v rv1 = None \<longleftrightarrow> (\<forall>check \<in> set v. check rv1 = [])"
proof -
  have "errors_Join (map Some xs) = None \<longleftrightarrow> xs = []" for xs
    by (cases xs) (simp_all add: errors_Join_def List.map_filter_simps)
  then show ?thesis unfolding Validate_def by (simp del: errors_Join_None)
qed

text \<open>
  A well-formed bundle: names of deployments and CRDs are unique and names of deployments and webhooks are DNS
  subdomains; every owned CRD is in the bundle; webhooks belong to deployments of the bundle and are
  unique by type and name; conversion webhooks convert owned CRDs, each CRD at most once, and only in bundles for
  all namespaces; admission webhooks do not intercept the operator's own objects, all groups or
  webhook configurations; the other objects are of supported kinds.
\<close>

definition well_formed_bundle :: "registry_v1 \<Rightarrow> bool" where
  "well_formed_bundle rv1 \<longleftrightarrow>
     rv1_PackageName rv1 \<noteq> '''' \<and>
     distinct (map sd_Name (rv1_deployments rv1)) \<and>
     (\<forall>d \<in> set (rv1_deployments rv1). IsDNS1123Subdomain (sd_Name d) = []) \<and>
     distinct (map crd_Name (rv1_CRDs rv1)) \<and>
     set (csv_OwnedCRDs (rv1_CSV rv1)) \<subseteq> crd_Name ` set (rv1_CRDs rv1) \<and>
     distinct (map (\<lambda>wh. (wh_Type wh, wh_GenerateName wh)) (rv1_webhooks rv1)) \<and>
     (\<forall>wh \<in> set (rv1_webhooks rv1). IsDNS1123Subdomain (wh_GenerateName wh) = [] \<and>
        wh_DeploymentName wh \<in> sd_Name ` set (rv1_deployments rv1) \<and>
        (if wh_Type wh = ConversionWebhook then supportedBundleInstallModes rv1 = {InstallModeTypeAllNamespaces}
         else \<forall>rule \<in> set (wh_Rules wh). allowed_rule rule)) \<and>
     (let crds = concat (map wh_ConversionCRDs (filter (\<lambda>wh. wh_Type wh = ConversionWebhook) (rv1_webhooks rv1))) in
      distinct crds \<and> set crds \<subseteq> set (csv_OwnedCRDs (rv1_CSV rv1))) \<and>
     (\<forall>obj \<in> set (rv1_Others rv1). gvk_Kind (GroupVersionKind obj) \<in> fst ` set supportedResources)"

lemma Validate_well_formed: "Validate BundleValidator rv1 = None \<longleftrightarrow> well_formed_bundle rv1"
  unfolding Validate_None BundleValidator_def well_formed_bundle_def Let_def crd_references_fst [symmetric]
  by (simp add: checks_ok del: set_map) blast

text \<open>
  A rule on the resource \<open>*/*\<close>, which matches every resource and subresource, is allowed for the
  API group of admission registration.
\<close>

lemma wildcard_subresources_allowed:
  "allowed_rule \<lparr>rwo_Operations = [''*''], rwo_APIGroups = [''admissionregistration.k8s.io''], rwo_APIVersions = [''*''],
     rwo_Resources = [''*/*''], rwo_Scope = None\<rparr>"
  by (simp add: allowed_rule_def forbiddenAdmissionRegistrationResources_def lower_char_def)

section \<open>Properties\<close>

text \<open>
  The validator accepts a bundle exactly if it has a package name, deployments and CRDs with
  unique names, valid deployment and webhook names, all owned CRDs, webhooks with a unique name for
  their type that run in a deployment of the bundle, admission rules that leave out the forbidden groups
  and resources, conversion webhooks only with the install mode AllNamespaces and for owned CRDs that
  no other webhook converts, and other objects of supported kinds only.
\<close>

theorem validate_exact: "Validate BundleValidator rv1 = None \<longleftrightarrow> well_formed_bundle rv1"
  by (rule Validate_well_formed)

end
