(* ===== verification/Deployment_Config.thy ===== *)
theory Deployment_Config
  imports Registry_Bundle
begin

text \<open>
  What the generator of Deployments does to a Deployment of a bundle
  (\<open>rukpak/render/registryv1/generators/generators.go\<close>): the volumes with the certificates of
  webhook servers, and the user's configuration of deployments. Functions that mutate a Deployment
  return it.
\<close>

section \<open>Definitions\<close>

subsection \<open>Updating parts of a Deployment\<close>

definition map_pod :: "(pod_spec \<Rightarrow> pod_spec) \<Rightarrow> deployment \<Rightarrow> deployment" where
  "map_pod f dep =
     (let spec = dpl_Spec dep; tmpl = ds_Template spec in
      dep\<lparr>dpl_Spec := spec\<lparr>ds_Template := tmpl\<lparr>pt_Spec := f (pt_Spec tmpl)\<rparr>\<rparr>\<rparr>)"

definition map_containers :: "(container \<Rightarrow> container) \<Rightarrow> deployment \<Rightarrow> deployment" where
  "map_containers f = map_pod (\<lambda>p. p\<lparr>pod_Containers := map f (pod_Containers p)\<rparr>)"

abbreviation dpl_pod :: "deployment \<Rightarrow> pod_spec" where
  "dpl_pod dep \<equiv> pt_Spec (ds_Template (dpl_Spec dep))"

subsection \<open>Certificate volumes\<close>

record cert_volume_config =
  cvc_Name :: string
  cvc_Path :: string
  cvc_TLSCertPath :: string
  cvc_TLSKeyPath :: string

definition certVolumeConfigs :: "cert_volume_config list" where
  "certVolumeConfigs =
     [\<lparr>cvc_Name = ''webhook-cert'', cvc_Path = ''/tmp/k8s-webhook-server/serving-certs'',
       cvc_TLSCertPath = ''tls.crt'', cvc_TLSKeyPath = ''tls.key''\<rparr>,
      \<lparr>cvc_Name = ''apiservice-cert'', cvc_Path = ''/apiserver.local.config/certificates'',
       cvc_TLSCertPath = ''apiserver.crt'', cvc_TLSKeyPath = ''apiserver.key''\<rparr>]"

record cert_secret_info =
  csi_SecretName :: string
  csi_CertificateKey :: string
  csi_PrivateKeyKey :: string

definition cert_volume :: "cert_secret_info \<Rightarrow> cert_volume_config \<Rightarrow> volume" where
  "cert_volume info cfg =
     \<lparr>vol_Name = cvc_Name cfg,
      vol_Source = SecretSource (csi_SecretName info)
        [(csi_CertificateKey info, cvc_TLSCertPath cfg), (csi_PrivateKeyKey info, cvc_TLSKeyPath cfg)]\<rparr>"

definition cert_mount :: "cert_volume_config \<Rightarrow> volume_mount" where
  "cert_mount cfg = \<lparr>vm_Name = cvc_Name cfg, vm_MountPath = cvc_Path cfg, vm_Other = None\<rparr>"

definition volumes_to_remove :: "deployment \<Rightarrow> string set" where
  "volumes_to_remove dep =
     set (map cvc_Name certVolumeConfigs) \<union>
     set (map vm_Name (filter (\<lambda>m. vm_MountPath m \<in> set (map cvc_Path certVolumeConfigs))
       (concat (map ct_VolumeMounts (pod_Containers (dpl_pod dep))))))"

definition ensureCorrectDeploymentCertVolumes :: "deployment \<Rightarrow> cert_secret_info \<Rightarrow> deployment" where
  "ensureCorrectDeploymentCertVolumes dep certSecretInfo =
     (let volumesToRemove = volumes_to_remove dep;
          certVolumes = map (cert_volume certSecretInfo) certVolumeConfigs;
          certVolumeMounts = map cert_mount certVolumeConfigs;
          dep1 = map_pod (\<lambda>p. p\<lparr>pod_Volumes :=
            filter (\<lambda>v. vol_Name v \<notin> volumesToRemove) (pod_Volumes p) @ certVolumes\<rparr>) dep in
      map_containers (\<lambda>c. c\<lparr>ct_VolumeMounts :=
        filter (\<lambda>m. vm_Name m \<notin> volumesToRemove) (ct_VolumeMounts c) @ certVolumeMounts\<rparr>) dep1)"

subsection \<open>The user's configuration\<close>

text \<open>
  The loops that override by name: the index of every existing name is recorded first (the last one
  when a name occurs more than once), and then each configured entry replaces the entry at that index
  or is appended. The index is not extended while entries are appended.
\<close>

definition index_of_names :: "('a \<Rightarrow> string) \<Rightarrow> 'a list \<Rightarrow> string \<rightharpoonup> nat" where
  "index_of_names name xs = foldl (\<lambda>m (i, x). m(name x \<mapsto> i)) Map.empty (enumerate 0 xs)"

definition override_named :: "('a \<Rightarrow> string) \<Rightarrow> 'a list \<Rightarrow> 'a list \<Rightarrow> 'a list" where
  "override_named name existing cfg =
     (let idx = index_of_names name existing in
      foldl (\<lambda>xs c. case idx (name c) of Some i \<Rightarrow> xs[i := c] | None \<Rightarrow> xs @ [c]) existing cfg)"

definition append_missing :: "'a list \<Rightarrow> 'a list \<Rightarrow> 'a list" where
  "append_missing existing cfg = foldl (\<lambda>xs c. if c \<in> set xs then xs else xs @ [c]) existing cfg"

definition applyEnvironmentConfig :: "deployment \<Rightarrow> deployment_config \<Rightarrow> deployment" where
  "applyEnvironmentConfig dep cfg =
     (if dc_Env cfg = [] then dep
      else map_containers (\<lambda>c. c\<lparr>ct_Env := override_named ev_Name (ct_Env c) (dc_Env cfg)\<rparr>) dep)"

definition applyEnvironmentFromConfig :: "deployment \<Rightarrow> deployment_config \<Rightarrow> deployment" where
  "applyEnvironmentFromConfig dep cfg =
     (if dc_EnvFrom cfg = [] then dep
      else map_containers (\<lambda>c. c\<lparr>ct_EnvFrom := append_missing (ct_EnvFrom c) (dc_EnvFrom cfg)\<rparr>) dep)"

definition applyVolumeConfig :: "deployment \<Rightarrow> deployment_config \<Rightarrow> deployment" where
  "applyVolumeConfig dep cfg =
     (if dc_Volumes cfg = [] then dep
      else map_pod (\<lambda>p. p\<lparr>pod_Volumes := override_named vol_Name (pod_Volumes p) (dc_Volumes cfg)\<rparr>) dep)"

definition applyVolumeMountConfig :: "deployment \<Rightarrow> deployment_config \<Rightarrow> deployment" where
  "applyVolumeMountConfig dep cfg =
     (if dc_VolumeMounts cfg = [] then dep
      else map_containers (\<lambda>c. c\<lparr>ct_VolumeMounts := override_named vm_Name (ct_VolumeMounts c) (dc_VolumeMounts cfg)\<rparr>) dep)"

definition applyTolerationsConfig :: "deployment \<Rightarrow> deployment_config \<Rightarrow> deployment" where
  "applyTolerationsConfig dep cfg =
     (if dc_Tolerations cfg = [] then dep
      else map_pod (\<lambda>p. p\<lparr>pod_Tolerations := append_missing (pod_Tolerations p) (dc_Tolerations cfg)\<rparr>) dep)"

definition applyResourcesConfig :: "deployment \<Rightarrow> deployment_config \<Rightarrow> deployment" where
  "applyResourcesConfig dep cfg =
     (case dc_Resources cfg of
        None \<Rightarrow> dep
      | Some r \<Rightarrow> map_containers (\<lambda>c. c\<lparr>ct_Resources := r\<rparr>) dep)"

definition applyNodeSelectorConfig :: "deployment \<Rightarrow> deployment_config \<Rightarrow> deployment" where
  "applyNodeSelectorConfig dep cfg =
     (case dc_NodeSelector cfg of
        None \<Rightarrow> dep
      | Some sel \<Rightarrow> map_pod (\<lambda>p. p\<lparr>pod_NodeSelector := sel\<rparr>) dep)"

definition isNodeAffinityEmpty :: "node_affinity option \<Rightarrow> bool" where
  "isNodeAffinityEmpty na =
     (case na of
        None \<Rightarrow> True
      | Some a \<Rightarrow>
          (let requiredEmpty = (case na_Required a of None \<Rightarrow> True | Some terms \<Rightarrow> terms = []) in
           requiredEmpty \<and> na_Preferred a = []))"

definition isPodAffinityEmpty :: "pod_affinity option \<Rightarrow> bool" where
  "isPodAffinityEmpty pa =
     (case pa of None \<Rightarrow> True | Some a \<Rightarrow> pa_Required a = [] \<and> pa_Preferred a = [])"

definition isPodAntiAffinityEmpty :: "pod_affinity option \<Rightarrow> bool" where
  "isPodAntiAffinityEmpty paa =
     (case paa of None \<Rightarrow> True | Some a \<Rightarrow> pa_Required a = [] \<and> pa_Preferred a = [])"

definition isAffinityEmpty :: "affinity option \<Rightarrow> bool" where
  "isAffinityEmpty a =
     (case a of
        None \<Rightarrow> True
      | Some af \<Rightarrow>
          isNodeAffinityEmpty (af_NodeAffinity af) \<and> isPodAffinityEmpty (af_PodAffinity af) \<and>
          isPodAntiAffinityEmpty (af_PodAntiAffinity af))"

definition merge_affinity :: "affinity option \<Rightarrow> affinity \<Rightarrow> affinity" where
  "merge_affinity existing cfg =
     (let a0 = (case existing of
             None \<Rightarrow> \<lparr>af_NodeAffinity = None, af_PodAffinity = None, af_PodAntiAffinity = None\<rparr>
           | Some a \<Rightarrow> a);
          a1 = (if af_NodeAffinity cfg = None then a0
                else a0\<lparr>af_NodeAffinity := if isNodeAffinityEmpty (af_NodeAffinity cfg) then None else af_NodeAffinity cfg\<rparr>);
          a2 = (if af_PodAffinity cfg = None then a1
                else a1\<lparr>af_PodAffinity := if isPodAffinityEmpty (af_PodAffinity cfg) then None else af_PodAffinity cfg\<rparr>) in
      if af_PodAntiAffinity cfg = None then a2
      else a2\<lparr>af_PodAntiAffinity :=
        if isPodAntiAffinityEmpty (af_PodAntiAffinity cfg) then None else af_PodAntiAffinity cfg\<rparr>)"

definition apply_affinity :: "affinity option \<Rightarrow> affinity \<Rightarrow> affinity option" where
  "apply_affinity existing cfg =
     (let configHasNoFields = (af_NodeAffinity cfg = None \<and> af_PodAffinity cfg = None \<and> af_PodAntiAffinity cfg = None) in
      if configHasNoFields then None
      else
        (let a = merge_affinity existing cfg in
         if isAffinityEmpty (Some a) then None else Some a))"

definition applyAffinityConfig :: "deployment \<Rightarrow> deployment_config \<Rightarrow> deployment" where
  "applyAffinityConfig dep cfg =
     (case dc_Affinity cfg of
        None \<Rightarrow> dep
      | Some a \<Rightarrow> map_pod (\<lambda>p. p\<lparr>pod_Affinity := apply_affinity (pod_Affinity p) a\<rparr>) dep)"

text \<open>
  Existing annotations win over configured ones. Without configured annotations the loops, which the
  code then skips, would do nothing.
\<close>

definition applyAnnotationsConfig :: "deployment \<Rightarrow> deployment_config \<Rightarrow> deployment" where
  "applyAnnotationsConfig dep cfg =
     (let dep1 = dep\<lparr>dpl_Annotations := dc_Annotations cfg ++ dpl_Annotations dep\<rparr>;
          spec = dpl_Spec dep1; tmpl = ds_Template spec in
      dep1\<lparr>dpl_Spec := spec\<lparr>ds_Template := tmpl\<lparr>pt_Annotations := dc_Annotations cfg ++ pt_Annotations tmpl\<rparr>\<rparr>\<rparr>)"

definition applyCustomConfigToDeployment :: "deployment \<Rightarrow> deployment_config option \<Rightarrow> deployment" where
  "applyCustomConfigToDeployment dep config =
     (case config of
        None \<Rightarrow> dep
      | Some cfg \<Rightarrow>
          (let d1 = applyEnvironmentConfig dep cfg;
               d2 = applyEnvironmentFromConfig d1 cfg;
               d3 = applyVolumeConfig d2 cfg;
               d4 = applyVolumeMountConfig d3 cfg;
               d5 = applyTolerationsConfig d4 cfg;
               d6 = applyResourcesConfig d5 cfg;
               d7 = applyNodeSelectorConfig d6 cfg;
               d8 = applyAffinityConfig d7 cfg in
           applyAnnotationsConfig d8 cfg))"

section \<open>Lemmas\<close>

lemma map_pod_simps [simp]:
  "dpl_pod (map_pod f dep) = f (dpl_pod dep)"
  "dpl_Name (map_pod f dep) = dpl_Name dep"
  "dpl_Namespace (map_pod f dep) = dpl_Namespace dep"
  "dpl_Labels (map_pod f dep) = dpl_Labels dep"
  "dpl_Annotations (map_pod f dep) = dpl_Annotations dep"
  "pt_Annotations (ds_Template (dpl_Spec (map_pod f dep))) = pt_Annotations (ds_Template (dpl_Spec dep))"
  "ds_RevisionHistoryLimit (dpl_Spec (map_pod f dep)) = ds_RevisionHistoryLimit (dpl_Spec dep)"
  by (simp_all add: map_pod_def Let_def)

lemma map_containers_simps [simp]:
  "dpl_pod (map_containers f dep) = (dpl_pod dep)\<lparr>pod_Containers := map f (pod_Containers (dpl_pod dep))\<rparr>"
  "dpl_Name (map_containers f dep) = dpl_Name dep"
  "dpl_Namespace (map_containers f dep) = dpl_Namespace dep"
  "dpl_Annotations (map_containers f dep) = dpl_Annotations dep"
  "pt_Annotations (ds_Template (dpl_Spec (map_containers f dep))) = pt_Annotations (ds_Template (dpl_Spec dep))"
  by (simp_all add: map_containers_def)

subsection \<open>Overriding by name\<close>

text \<open>What a list of named entries means: the last entry with a name counts.\<close>

definition named_values :: "('a \<Rightarrow> string) \<Rightarrow> 'a list \<Rightarrow> string \<rightharpoonup> 'a" where
  "named_values name xs = map_of (rev (map (\<lambda>x. (name x, x)) xs))"

lemma named_values_simps [simp]:
  "named_values name [] = Map.empty"
  "named_values name (xs @ ys) = named_values name xs ++ named_values name ys"
  "named_values name [x] = [name x \<mapsto> x]"
  by (simp_all add: named_values_def)

lemma named_values_snoc: "named_values name (xs @ [x]) = (named_values name xs)(name x \<mapsto> x)"
  by (simp add: named_values_def)

lemma named_values_None: "named_values name xs n = None \<longleftrightarrow> n \<notin> name ` set xs"
  by (simp add: named_values_def map_of_eq_None_iff image_image)

lemma named_values_update:
  assumes "i < length ys" and "name (ys ! i) = name c" and "name c \<notin> name ` set (drop (Suc i) ys)"
  shows "named_values name (ys[i := c]) = (named_values name ys)(name c \<mapsto> c)"
proof -
  let ?us = "take i ys" and ?vs = "drop (Suc i) ys"
  have "ys = ?us @ [ys ! i] @ ?vs" using assms(1) by (simp add: id_take_nth_drop)
  then have "named_values name ys = named_values name ?us ++ [name c \<mapsto> ys ! i] ++ named_values name ?vs"
    using assms(2) by (metis named_values_simps(2,3) append_assoc)
  moreover have "ys[i := c] = ?us @ [c] @ ?vs" using assms(1) by (simp add: upd_conv_take_nth_drop)
  then have "named_values name (ys[i := c]) = named_values name ?us ++ [name c \<mapsto> c] ++ named_values name ?vs"
    by (metis named_values_simps(2,3) append_assoc)
  moreover have "named_values name ?vs (name c) = None" using assms(3) by (simp add: named_values_None)
  ultimately show ?thesis by (auto simp: fun_eq_iff map_add_def split: option.split)
qed

lemma index_of_names_snoc:
  "index_of_names name (xs @ [x]) = (index_of_names name xs)(name x \<mapsto> length xs)"
  by (simp add: index_of_names_def enumerate_append_eq)

lemma index_of_names_None: "index_of_names name xs n = None \<longleftrightarrow> n \<notin> name ` set xs"
  by (induction xs rule: rev_induct) (auto simp: index_of_names_snoc, simp add: index_of_names_def)

lemma index_of_names_Some:
  "index_of_names name xs n = Some i \<Longrightarrow>
     i < length xs \<and> name (xs ! i) = n \<and> n \<notin> name ` set (drop (Suc i) xs)"
proof (induction xs rule: rev_induct)
  case Nil
  then show ?case by (simp add: index_of_names_def)
next
  case (snoc x xs)
  then show ?case
    by (cases "n = name x") (auto simp: index_of_names_snoc nth_append less_Suc_eq)
qed

lemma override_named_snoc:
  "override_named name xs (cfg @ [c]) =
     (case index_of_names name xs (name c) of
        Some i \<Rightarrow> (override_named name xs cfg)[i := c] | None \<Rightarrow> override_named name xs cfg @ [c])"
  by (simp add: override_named_def Let_def split: option.split)

lemma override_named_names:
  "map name (override_named name xs cfg) = map name xs @ map name (filter (\<lambda>c. name c \<notin> name ` set xs) cfg)"
proof (induction cfg rule: rev_induct)
  case Nil
  then show ?case by (simp add: override_named_def)
next
  case (snoc c cfg)
  show ?case
  proof (cases "index_of_names name xs (name c)")
    case None
    then have "name c \<notin> name ` set xs" by (simp add: index_of_names_None)
    with None snoc show ?thesis by (simp add: override_named_snoc)
  next
    case (Some i)
    let ?ys = "override_named name xs cfg"
    have i: "i < length xs" "name (xs ! i) = name c" using index_of_names_Some [OF Some] by simp_all
    have "map name ?ys ! i = name c" using i by (simp add: snoc nth_append)
    then have "map name (?ys[i := c]) = map name ?ys" by (metis list_update_id map_update)
    moreover have "name c \<in> name ` set xs" using i by (metis image_eqI nth_mem)
    ultimately show ?thesis using Some snoc by (simp add: override_named_snoc)
  qed
qed

text \<open>Overriding refines the update of a map: configured entries win, the others stay.\<close>

lemma override_named_values:
  "named_values name (override_named name xs cfg) = named_values name xs ++ named_values name cfg"
proof (induction cfg rule: rev_induct)
  case Nil
  then show ?case by (simp add: override_named_def)
next
  case (snoc c cfg)
  let ?ys = "override_named name xs cfg"
  show ?case
  proof (cases "index_of_names name xs (name c)")
    case None
    then have "override_named name xs (cfg @ [c]) = ?ys @ [c]" by (simp add: override_named_snoc)
    then show ?thesis by (simp only: named_values_snoc snoc map_add_upd)
  next
    case (Some i)
    have i: "i < length xs" "name (xs ! i) = name c" "name c \<notin> name ` set (drop (Suc i) xs)"
      using index_of_names_Some [OF Some] by simp_all
    have names: "map name ?ys = map name xs @ map name (filter (\<lambda>c. name c \<notin> name ` set xs) cfg)"
      by (rule override_named_names)
    then have len: "length xs \<le> length ?ys" by (metis length_append length_map le_add1)
    have "map name ?ys ! i = name c" using i by (simp add: names nth_append)
    then have at: "name (?ys ! i) = name c" using i(1) len by simp
    have "name c \<in> name ` set xs" using i by (metis image_eqI nth_mem)
    then have "name c \<notin> set (drop (Suc i) (map name ?ys))"
      unfolding names using i(1,3) by (auto simp: drop_map)
    then have "name c \<notin> name ` set (drop (Suc i) ?ys)" by (simp add: drop_map)
    then have "named_values name (?ys[i := c]) = (named_values name ?ys)(name c \<mapsto> c)"
      using named_values_update [of i ?ys name c] i(1) len at by simp
    moreover have "override_named name xs (cfg @ [c]) = ?ys[i := c]" using Some by (simp add: override_named_snoc)
    ultimately show ?thesis by (simp only: named_values_snoc snoc map_add_upd)
  qed
qed

lemma set_append_missing: "set (append_missing xs cfg) = set xs \<union> set cfg"
  by (induction cfg rule: rev_induct) (auto simp: append_missing_def)

lemma prefix_append_missing: "prefix xs (append_missing xs cfg)"
  by (induction cfg rule: rev_induct) (auto simp: append_missing_def intro: prefix_order.trans)

lemma distinct_append_missing: "distinct xs \<Longrightarrow> distinct (append_missing xs cfg)"
  by (induction cfg rule: rev_induct) (auto simp: append_missing_def)

text \<open>Names stay unique, as Kubernetes demands of volumes and mounts.\<close>

lemma override_named_distinct:
  assumes "distinct (map name xs)" and "distinct (map name cfg)"
  shows "distinct (map name (override_named name xs cfg))"
proof -
  have "distinct (map name (filter (\<lambda>c. name c \<notin> name ` set xs) cfg))" by (rule distinct_map_filter [OF assms(2)])
  then show ?thesis unfolding override_named_names distinct_append using assms(1) by (auto simp: image_iff)
qed

subsection \<open>Affinity\<close>

text \<open>What an affinity means: empty parts do not count.\<close>

definition effective_affinity :: "affinity option \<Rightarrow> node_affinity option \<times> pod_affinity option \<times> pod_affinity option" where
  "effective_affinity a =
     (case a of
        None \<Rightarrow> (None, None, None)
      | Some af \<Rightarrow>
          (if isNodeAffinityEmpty (af_NodeAffinity af) then None else af_NodeAffinity af,
           if isPodAffinityEmpty (af_PodAffinity af) then None else af_PodAffinity af,
           if isPodAntiAffinityEmpty (af_PodAntiAffinity af) then None else af_PodAntiAffinity af))"

definition overridden_affinity ::
  "affinity option \<Rightarrow> affinity \<Rightarrow> node_affinity option \<times> pod_affinity option \<times> pod_affinity option" where
  "overridden_affinity existing cfg =
     (let (n, p, q) = effective_affinity existing; (n', p', q') = effective_affinity (Some cfg) in
      if af_NodeAffinity cfg = None \<and> af_PodAffinity cfg = None \<and> af_PodAntiAffinity cfg = None then (None, None, None)
      else (if af_NodeAffinity cfg = None then n else n', if af_PodAffinity cfg = None then p else p',
            if af_PodAntiAffinity cfg = None then q else q'))"

lemma empty_None [simp]: "isNodeAffinityEmpty None" "isPodAffinityEmpty None" "isPodAntiAffinityEmpty None"
  by (simp_all add: isNodeAffinityEmpty_def isPodAffinityEmpty_def isPodAntiAffinityEmpty_def)

lemma merge_affinity_parts:
  "af_NodeAffinity (merge_affinity existing cfg) =
     (if af_NodeAffinity cfg = None then Option.bind existing af_NodeAffinity
      else if isNodeAffinityEmpty (af_NodeAffinity cfg) then None else af_NodeAffinity cfg)"
  "af_PodAffinity (merge_affinity existing cfg) =
     (if af_PodAffinity cfg = None then Option.bind existing af_PodAffinity
      else if isPodAffinityEmpty (af_PodAffinity cfg) then None else af_PodAffinity cfg)"
  "af_PodAntiAffinity (merge_affinity existing cfg) =
     (if af_PodAntiAffinity cfg = None then Option.bind existing af_PodAntiAffinity
      else if isPodAntiAffinityEmpty (af_PodAntiAffinity cfg) then None else af_PodAntiAffinity cfg)"
  by (cases existing; simp add: merge_affinity_def Let_def)+

lemma apply_affinity_effective: "effective_affinity (apply_affinity existing cfg) = overridden_affinity existing cfg"
proof (cases "af_NodeAffinity cfg = None \<and> af_PodAffinity cfg = None \<and> af_PodAntiAffinity cfg = None")
  case True
  then show ?thesis by (simp add: apply_affinity_def overridden_affinity_def effective_affinity_def Let_def split: prod.split)
next
  case False
  have "effective_affinity (if isAffinityEmpty (Some a) then None else Some a) = effective_affinity (Some a)" for a
    by (simp add: effective_affinity_def isAffinityEmpty_def)
  then have "effective_affinity (apply_affinity existing cfg) = effective_affinity (Some (merge_affinity existing cfg))"
    unfolding apply_affinity_def Let_def if_not_P [OF False] .
  also have "\<dots> = overridden_affinity existing cfg"
    unfolding overridden_affinity_def if_not_P [OF False]
    by (cases existing) (simp_all add: effective_affinity_def merge_affinity_parts)
  finally show ?thesis .
qed

lemma apply_affinity_not_empty:
  assumes "apply_affinity existing cfg = Some a"
  shows "\<not> isAffinityEmpty (Some a)"
proof (cases "isAffinityEmpty (Some (merge_affinity existing cfg))")
  case True
  then have "apply_affinity existing cfg = None" unfolding apply_affinity_def Let_def by simp
  with assms show ?thesis by simp
next
  case False
  have "a = merge_affinity existing cfg" using assms unfolding apply_affinity_def Let_def if_not_P [OF False]
    by (simp split: if_split_asm)
  with False show ?thesis by simp
qed

subsection \<open>Certificate volumes\<close>

definition mounts_resolved :: "deployment \<Rightarrow> bool" where
  "mounts_resolved dep \<longleftrightarrow>
     (\<forall>c \<in> set (pod_Containers (dpl_pod dep)). vm_Name ` set (ct_VolumeMounts c) \<subseteq> vol_Name ` set (pod_Volumes (dpl_pod dep)))"

definition cert_related :: "volume_mount \<Rightarrow> bool" where
  "cert_related m \<longleftrightarrow> vm_Name m \<in> cvc_Name ` set certVolumeConfigs \<or> vm_MountPath m \<in> cvc_Path ` set certVolumeConfigs"

lemma ensure_cert_pod:
  "dpl_pod (ensureCorrectDeploymentCertVolumes dep info) = (dpl_pod dep)\<lparr>
     pod_Volumes := filter (\<lambda>v. vol_Name v \<notin> volumes_to_remove dep) (pod_Volumes (dpl_pod dep)) @
       map (cert_volume info) certVolumeConfigs,
     pod_Containers := map (\<lambda>c. c\<lparr>ct_VolumeMounts :=
       filter (\<lambda>m. vm_Name m \<notin> volumes_to_remove dep) (ct_VolumeMounts c) @ map cert_mount certVolumeConfigs\<rparr>)
       (pod_Containers (dpl_pod dep))\<rparr>"
  by (simp add: ensureCorrectDeploymentCertVolumes_def Let_def)

lemma cert_related_removed:
  "c \<in> set (pod_Containers (dpl_pod dep)) \<Longrightarrow> m \<in> set (ct_VolumeMounts c) \<Longrightarrow> cert_related m \<Longrightarrow>
     vm_Name m \<in> volumes_to_remove dep"
  by (auto simp: cert_related_def volumes_to_remove_def)

lemma cert_names_removed: "cvc_Name ` set certVolumeConfigs \<subseteq> volumes_to_remove dep"
  by (auto simp: volumes_to_remove_def)

lemma ensure_cert_resolved:
  assumes "mounts_resolved dep"
  shows "mounts_resolved (ensureCorrectDeploymentCertVolumes dep info)"
  unfolding mounts_resolved_def
proof (intro ballI subsetI)
  let ?vols = "pod_Volumes (dpl_pod (ensureCorrectDeploymentCertVolumes dep info))"
  fix c n
  assume "c \<in> set (pod_Containers (dpl_pod (ensureCorrectDeploymentCertVolumes dep info)))"
    and n: "n \<in> vm_Name ` set (ct_VolumeMounts c)"
  then obtain c0 where c0: "c0 \<in> set (pod_Containers (dpl_pod dep))" and c: "ct_VolumeMounts c =
      filter (\<lambda>m. vm_Name m \<notin> volumes_to_remove dep) (ct_VolumeMounts c0) @ map cert_mount certVolumeConfigs"
    by (auto simp: ensure_cert_pod)
  show "n \<in> vol_Name ` set ?vols"
  proof (cases "n \<in> cvc_Name ` set certVolumeConfigs")
    case True
    then obtain cfg where cfg: "cfg \<in> set certVolumeConfigs" "n = cvc_Name cfg" by blast
    then have "cert_volume info cfg \<in> set ?vols" by (simp add: ensure_cert_pod)
    then show ?thesis by (rule image_eqI [rotated]) (simp add: cert_volume_def cfg)
  next
    case False
    then obtain m where "m \<in> set (ct_VolumeMounts c0)" "vm_Name m = n" "n \<notin> volumes_to_remove dep"
      using n by (auto simp: c cert_mount_def)
    note m = this
    have "n \<in> vol_Name ` set (pod_Volumes (dpl_pod dep))"
      using assms c0 m(1,2) unfolding mounts_resolved_def by (metis image_eqI subsetD)
    then show ?thesis using m(3) by (auto simp: ensure_cert_pod)
  qed
qed

text \<open>
  A Deployment that serves webhooks mounts its certificate as it should: afterwards the protected
  volume names carry exactly the certificate of the given Secret, each container has at the protected
  paths, and under the protected names, exactly the two certificate mounts, and no mount that had a
  volume lost it.
\<close>

theorem cert_volumes_exact:
  assumes "mounts_resolved dep"
  shows "filter (\<lambda>v. vol_Name v \<in> cvc_Name ` set certVolumeConfigs)
       (pod_Volumes (dpl_pod (ensureCorrectDeploymentCertVolumes dep info))) = map (cert_volume info) certVolumeConfigs \<and>
     (\<forall>c \<in> set (pod_Containers (dpl_pod (ensureCorrectDeploymentCertVolumes dep info))).
        filter cert_related (ct_VolumeMounts c) = map cert_mount certVolumeConfigs) \<and>
     mounts_resolved (ensureCorrectDeploymentCertVolumes dep info)"
proof (intro conjI ballI)
  have "filter (\<lambda>v. vol_Name v \<in> cvc_Name ` set certVolumeConfigs)
      (filter (\<lambda>v. vol_Name v \<notin> volumes_to_remove dep) (pod_Volumes (dpl_pod dep))) = []"
    using cert_names_removed [of dep] by (auto simp: filter_empty_conv)
  then show "filter (\<lambda>v. vol_Name v \<in> cvc_Name ` set certVolumeConfigs)
      (pod_Volumes (dpl_pod (ensureCorrectDeploymentCertVolumes dep info))) = map (cert_volume info) certVolumeConfigs"
    by (simp only: ensure_cert_pod) (simp add: cert_volume_def certVolumeConfigs_def)
next
  fix c assume "c \<in> set (pod_Containers (dpl_pod (ensureCorrectDeploymentCertVolumes dep info)))"
  then obtain c0 where c0: "c0 \<in> set (pod_Containers (dpl_pod dep))" and c: "ct_VolumeMounts c =
      filter (\<lambda>m. vm_Name m \<notin> volumes_to_remove dep) (ct_VolumeMounts c0) @ map cert_mount certVolumeConfigs"
    by (auto simp: ensure_cert_pod)
  have "filter cert_related (filter (\<lambda>m. vm_Name m \<notin> volumes_to_remove dep) (ct_VolumeMounts c0)) = []"
    using cert_related_removed [OF c0] by (auto simp: filter_empty_conv)
  moreover have "filter cert_related (map cert_mount certVolumeConfigs) = map cert_mount certVolumeConfigs"
    by (auto simp: filter_id_conv cert_related_def cert_mount_def)
  ultimately show "filter cert_related (ct_VolumeMounts c) = map cert_mount certVolumeConfigs" by (simp add: c)
next
  show "mounts_resolved (ensureCorrectDeploymentCertVolumes dep info)"
    by (rule ensure_cert_resolved [OF assms])
qed

subsection \<open>The configuration as a whole\<close>

definition container_configured :: "deployment_config \<Rightarrow> container \<Rightarrow> container \<Rightarrow> bool" where
  "container_configured cfg c c' \<longleftrightarrow>
     ct_Name c' = ct_Name c \<and> ct_Other c' = ct_Other c \<and>
     named_values ev_Name (ct_Env c') = named_values ev_Name (ct_Env c) ++ named_values ev_Name (dc_Env cfg) \<and>
     set (ct_EnvFrom c') = set (ct_EnvFrom c) \<union> set (dc_EnvFrom cfg) \<and> prefix (ct_EnvFrom c) (ct_EnvFrom c') \<and>
     named_values vm_Name (ct_VolumeMounts c') =
       named_values vm_Name (ct_VolumeMounts c) ++ named_values vm_Name (dc_VolumeMounts cfg) \<and>
     ct_Resources c' = (case dc_Resources cfg of None \<Rightarrow> ct_Resources c | Some r \<Rightarrow> r)"

definition pod_configured :: "deployment_config \<Rightarrow> pod_spec \<Rightarrow> pod_spec \<Rightarrow> bool" where
  "pod_configured cfg p p' \<longleftrightarrow>
     list_all2 (container_configured cfg) (pod_Containers p) (pod_Containers p') \<and>
     named_values vol_Name (pod_Volumes p') = named_values vol_Name (pod_Volumes p) ++ named_values vol_Name (dc_Volumes cfg) \<and>
     set (pod_Tolerations p') = set (pod_Tolerations p) \<union> set (dc_Tolerations cfg) \<and>
     prefix (pod_Tolerations p) (pod_Tolerations p') \<and>
     pod_NodeSelector p' = (case dc_NodeSelector cfg of None \<Rightarrow> pod_NodeSelector p | Some sel \<Rightarrow> sel) \<and>
     effective_affinity (pod_Affinity p') =
       (case dc_Affinity cfg of None \<Rightarrow> effective_affinity (pod_Affinity p) | Some a \<Rightarrow> overridden_affinity (pod_Affinity p) a) \<and>
     pod_Other p' = pod_Other p"

lemma override_named_Nil [simp]: "override_named name xs [] = xs"
  by (simp add: override_named_def)

lemma append_missing_Nil [simp]: "append_missing xs [] = xs"
  by (simp add: append_missing_def)

lemma apply_config_pods:
  "dpl_pod (applyEnvironmentConfig dep cfg) = (dpl_pod dep)\<lparr>pod_Containers :=
     map (\<lambda>c. c\<lparr>ct_Env := override_named ev_Name (ct_Env c) (dc_Env cfg)\<rparr>) (pod_Containers (dpl_pod dep))\<rparr>"
  "dpl_pod (applyEnvironmentFromConfig dep cfg) = (dpl_pod dep)\<lparr>pod_Containers :=
     map (\<lambda>c. c\<lparr>ct_EnvFrom := append_missing (ct_EnvFrom c) (dc_EnvFrom cfg)\<rparr>) (pod_Containers (dpl_pod dep))\<rparr>"
  "dpl_pod (applyVolumeConfig dep cfg) = (dpl_pod dep)\<lparr>pod_Volumes :=
     override_named vol_Name (pod_Volumes (dpl_pod dep)) (dc_Volumes cfg)\<rparr>"
  "dpl_pod (applyVolumeMountConfig dep cfg) = (dpl_pod dep)\<lparr>pod_Containers :=
     map (\<lambda>c. c\<lparr>ct_VolumeMounts := override_named vm_Name (ct_VolumeMounts c) (dc_VolumeMounts cfg)\<rparr>) (pod_Containers (dpl_pod dep))\<rparr>"
  "dpl_pod (applyTolerationsConfig dep cfg) = (dpl_pod dep)\<lparr>pod_Tolerations :=
     append_missing (pod_Tolerations (dpl_pod dep)) (dc_Tolerations cfg)\<rparr>"
  by (cases "dc_Env cfg = []", simp_all add: applyEnvironmentConfig_def)
    (cases "dc_EnvFrom cfg = []", simp_all add: applyEnvironmentFromConfig_def,
     cases "dc_Volumes cfg = []", simp_all add: applyVolumeConfig_def,
     cases "dc_VolumeMounts cfg = []", simp_all add: applyVolumeMountConfig_def,
     cases "dc_Tolerations cfg = []", simp_all add: applyTolerationsConfig_def)

lemma apply_config_pods':
  "dpl_pod (applyResourcesConfig dep cfg) = (dpl_pod dep)\<lparr>pod_Containers :=
     map (\<lambda>c. c\<lparr>ct_Resources := case dc_Resources cfg of None \<Rightarrow> ct_Resources c | Some r \<Rightarrow> r\<rparr>) (pod_Containers (dpl_pod dep))\<rparr>"
  "dpl_pod (applyNodeSelectorConfig dep cfg) = (dpl_pod dep)\<lparr>pod_NodeSelector :=
     case dc_NodeSelector cfg of None \<Rightarrow> pod_NodeSelector (dpl_pod dep) | Some sel \<Rightarrow> sel\<rparr>"
  "dpl_pod (applyAffinityConfig dep cfg) = (dpl_pod dep)\<lparr>pod_Affinity :=
     case dc_Affinity cfg of None \<Rightarrow> pod_Affinity (dpl_pod dep) | Some a \<Rightarrow> apply_affinity (pod_Affinity (dpl_pod dep)) a\<rparr>"
  "dpl_pod (applyAnnotationsConfig dep cfg) = dpl_pod dep"
  by (simp_all add: applyResourcesConfig_def applyNodeSelectorConfig_def applyAffinityConfig_def
      applyAnnotationsConfig_def Let_def split: option.split)

definition configured_container :: "deployment_config \<Rightarrow> container \<Rightarrow> container" where
  "configured_container cfg c = c\<lparr>
     ct_Env := override_named ev_Name (ct_Env c) (dc_Env cfg),
     ct_EnvFrom := append_missing (ct_EnvFrom c) (dc_EnvFrom cfg),
     ct_VolumeMounts := override_named vm_Name (ct_VolumeMounts c) (dc_VolumeMounts cfg),
     ct_Resources := case dc_Resources cfg of None \<Rightarrow> ct_Resources c | Some r \<Rightarrow> r\<rparr>"

lemma applied_pod:
  "dpl_pod (applyCustomConfigToDeployment dep (Some cfg)) = (dpl_pod dep)\<lparr>
     pod_Volumes := override_named vol_Name (pod_Volumes (dpl_pod dep)) (dc_Volumes cfg),
     pod_Containers := map (configured_container cfg) (pod_Containers (dpl_pod dep)),
     pod_Tolerations := append_missing (pod_Tolerations (dpl_pod dep)) (dc_Tolerations cfg),
     pod_NodeSelector := (case dc_NodeSelector cfg of None \<Rightarrow> pod_NodeSelector (dpl_pod dep) | Some sel \<Rightarrow> sel),
     pod_Affinity := (case dc_Affinity cfg of None \<Rightarrow> pod_Affinity (dpl_pod dep)
       | Some a \<Rightarrow> apply_affinity (pod_Affinity (dpl_pod dep)) a)\<rparr>"
  by (cases "dc_NodeSelector cfg"; cases "dc_Affinity cfg"; cases "dc_Resources cfg";
      simp add: applyCustomConfigToDeployment_def Let_def apply_config_pods apply_config_pods'
        configured_container_def [abs_def] comp_def)

lemma configured_container_ok: "container_configured cfg c (configured_container cfg c)"
  by (simp add: container_configured_def configured_container_def override_named_values set_append_missing
      prefix_append_missing split: option.split)

lemma applied_annotations:
  "dpl_Annotations (applyCustomConfigToDeployment dep (Some cfg)) = dc_Annotations cfg ++ dpl_Annotations dep"
  "pt_Annotations (ds_Template (dpl_Spec (applyCustomConfigToDeployment dep (Some cfg)))) =
     dc_Annotations cfg ++ pt_Annotations (ds_Template (dpl_Spec dep))"
  by (simp_all add: applyCustomConfigToDeployment_def Let_def applyAnnotationsConfig_def applyAffinityConfig_def
      applyNodeSelectorConfig_def applyResourcesConfig_def applyTolerationsConfig_def applyVolumeMountConfig_def
      applyVolumeConfig_def applyEnvironmentFromConfig_def applyEnvironmentConfig_def split: option.split)

text \<open>
  The configuration of deployments refines map updates: read as maps from names, the environment
  variables and mounts of every container and the volumes of the pod are the old ones overridden by
  the configured ones; sources and tolerations are added once, after the existing ones; resources and
  node selector are replaced when configured; affinity is overridden part by part, with empty parts
  erasing; configured annotations yield to existing ones; nothing else of the pod changes.
\<close>

theorem deployment_config_applied:
  "pod_configured cfg (dpl_pod dep) (dpl_pod (applyCustomConfigToDeployment dep (Some cfg))) \<and>
   dpl_Annotations (applyCustomConfigToDeployment dep (Some cfg)) = dc_Annotations cfg ++ dpl_Annotations dep \<and>
   pt_Annotations (ds_Template (dpl_Spec (applyCustomConfigToDeployment dep (Some cfg)))) =
     dc_Annotations cfg ++ pt_Annotations (ds_Template (dpl_Spec dep)) \<and>
   applyCustomConfigToDeployment dep None = dep"
proof (intro conjI)
  have "list_all2 (container_configured cfg) cs (map (configured_container cfg) cs)" for cs
    by (simp add: list_all2_map2 list_all2_same configured_container_ok)
  then show "pod_configured cfg (dpl_pod dep) (dpl_pod (applyCustomConfigToDeployment dep (Some cfg)))"
    unfolding applied_pod pod_configured_def
    by (simp add: override_named_values set_append_missing prefix_append_missing apply_affinity_effective split: option.split)
qed (simp_all add: applied_annotations applyCustomConfigToDeployment_def [of dep None])

definition sample_pod :: pod_spec where
  "sample_pod =
     \<lparr>pod_Volumes = [\<lparr>vol_Name = ''certs'', vol_Source = OtherSource JNull\<rparr>, \<lparr>vol_Name = ''data'', vol_Source = OtherSource JNull\<rparr>],
      pod_Containers = [\<lparr>ct_Name = ''manager'', ct_Env = [], ct_EnvFrom = [],
        ct_VolumeMounts = [\<lparr>vm_Name = ''certs'', vm_MountPath = ''/tmp/k8s-webhook-server/serving-certs'', vm_Other = None\<rparr>,
          \<lparr>vm_Name = ''data'', vm_MountPath = ''/data'', vm_Other = None\<rparr>],
        ct_Resources = JObj [], ct_Other = JNull\<rparr>],
      pod_Tolerations = [], pod_NodeSelector = Map.empty, pod_Affinity = None, pod_Other = JNull\<rparr>"

definition sample_deployment :: deployment where
  "sample_deployment =
     \<lparr>dpl_Name = ''operator'', dpl_Namespace = ''ns'', dpl_Labels = Map.empty, dpl_Annotations = Map.empty,
      dpl_Spec = \<lparr>ds_Selector = None, ds_Template = \<lparr>pt_Annotations = Map.empty, pt_Labels = Map.empty, pt_Spec = sample_pod\<rparr>,
        ds_RevisionHistoryLimit = None, ds_Other = JNull\<rparr>\<rparr>"

theorem cert_volumes_exact_witness:
  "mounts_resolved sample_deployment \<and>
   map vol_Name (pod_Volumes (dpl_pod (ensureCorrectDeploymentCertVolumes sample_deployment
     \<lparr>csi_SecretName = ''s'', csi_CertificateKey = ''tls.crt'', csi_PrivateKeyKey = ''tls.key''\<rparr>))) =
     [''data'', ''webhook-cert'', ''apiservice-cert''] \<and>
   mounts_resolved (ensureCorrectDeploymentCertVolumes sample_deployment
     \<lparr>csi_SecretName = ''s'', csi_CertificateKey = ''tls.crt'', csi_PrivateKeyKey = ''tls.key''\<rparr>)"
proof -
  have "mounts_resolved sample_deployment"
    by (simp add: mounts_resolved_def sample_deployment_def sample_pod_def)
  with cert_volumes_exact [OF this] show ?thesis
    by (simp add: ensure_cert_pod) (simp add: sample_deployment_def sample_pod_def volumes_to_remove_def
      certVolumeConfigs_def cert_volume_def)
qed

end
