(* ===== verification/Bundle_Generators.thy ===== *)
theory Bundle_Generators
  imports Bundle_Validators Deployment_Config
begin

text \<open>
  The generators of the objects of a registry+v1 bundle
  (\<open>rukpak/render/registryv1/generators/generators.go\<close>, \<open>resources.go\<close>) and the certificate
  provisioner they use (\<open>rukpak/render/certprovider.go\<close>). A generator returns objects or an error;
  \<open>None\<close> is a panic. The order in which Go lists a set is a parameter.
\<close>

section \<open>Definitions\<close>

subsection \<open>Results and objects\<close>

type_synonym 'a gen = "'a result option"

definition gen_bind :: "'a gen \<Rightarrow> ('a \<Rightarrow> 'b gen) \<Rightarrow> 'b gen" where
  "gen_bind g f = (case g of None \<Rightarrow> None | Some (Inl e) \<Rightarrow> Some (Inl e) | Some (Inr x) \<Rightarrow> f x)"

fun gen_map :: "('a \<Rightarrow> 'b gen) \<Rightarrow> 'a list \<Rightarrow> 'b list gen" where
  "gen_map f [] = Some (Inr [])"
| "gen_map f (x # xs) = gen_bind (f x) (\<lambda>y. gen_bind (gen_map f xs) (\<lambda>ys. Some (Inr (y # ys))))"

record res_meta =
  rm_Name :: string
  rm_Namespace :: string
  rm_Labels :: string_map
  rm_Annotations :: string_map

record service_port =
  sp_Name :: string
  sp_Port :: int
  sp_TargetPort :: int_or_string

record service_spec =
  svs_Ports :: "service_port list"
  svs_Selector :: "(string \<times> string) list"

record admission_webhook =
  aw_Name :: string
  aw_Rules :: "rule_with_operations list"
  aw_FailurePolicy :: "string option"
  aw_MatchPolicy :: "string option"
  aw_ObjectSelector :: "label_selector option"
  aw_SideEffects :: "string option"
  aw_TimeoutSeconds :: "int option"
  aw_AdmissionReviewVersions :: "string list"
  aw_Service :: service_reference
  aw_ReinvocationPolicy :: "string option"
  aw_NamespaceSelector :: "label_selector option"

datatype client_object =
    ObjServiceAccount res_meta
  | ObjRole res_meta "policy_rule list"
  | ObjClusterRole res_meta "policy_rule list"
  | ObjRoleBinding res_meta "rbac_subject list" "role_ref option"
  | ObjClusterRoleBinding res_meta "rbac_subject list" "role_ref option"
  | ObjDeployment deployment
  | ObjCrd custom_resource_definition
  | ObjService res_meta "service_spec option"
  | ObjValidatingWebhook res_meta "admission_webhook list"
  | ObjMutatingWebhook res_meta "admission_webhook list"
  | ObjUnstructured json

subsection \<open>Creating resources\<close>

text \<open>An option changes an object or panics because of its type.\<close>

type_synonym creator_option = "client_object \<Rightarrow> client_object option"

definition WithSubjects :: "rbac_subject list \<Rightarrow> creator_option" where
  "WithSubjects subjects obj =
     (case obj of
        ObjRoleBinding m _ r \<Rightarrow> Some (ObjRoleBinding m subjects r)
      | ObjClusterRoleBinding m _ r \<Rightarrow> Some (ObjClusterRoleBinding m subjects r)
      | _ \<Rightarrow> None)"

definition WithRoleRef :: "role_ref \<Rightarrow> creator_option" where
  "WithRoleRef roleRef obj =
     (case obj of
        ObjRoleBinding m s _ \<Rightarrow> Some (ObjRoleBinding m s (Some roleRef))
      | ObjClusterRoleBinding m s _ \<Rightarrow> Some (ObjClusterRoleBinding m s (Some roleRef))
      | _ \<Rightarrow> None)"

definition WithRules :: "policy_rule list \<Rightarrow> creator_option" where
  "WithRules rules obj =
     (case obj of
        ObjRole m _ \<Rightarrow> Some (ObjRole m rules)
      | ObjClusterRole m _ \<Rightarrow> Some (ObjClusterRole m rules)
      | _ \<Rightarrow> None)"

definition WithDeploymentSpec :: "deployment_spec \<Rightarrow> creator_option" where
  "WithDeploymentSpec depSpec obj =
     (case obj of ObjDeployment d \<Rightarrow> Some (ObjDeployment (d\<lparr>dpl_Spec := depSpec\<rparr>)) | _ \<Rightarrow> None)"

text \<open>\<open>WithLabels\<close> applies to every kind; it is used for Deployments.\<close>

definition WithLabels :: "string_map \<Rightarrow> creator_option" where
  "WithLabels labels obj =
     Some (case obj of ObjDeployment d \<Rightarrow> ObjDeployment (d\<lparr>dpl_Labels := labels\<rparr>)
           | ObjServiceAccount m \<Rightarrow> ObjServiceAccount (m\<lparr>rm_Labels := labels\<rparr>)
           | ObjRole m r \<Rightarrow> ObjRole (m\<lparr>rm_Labels := labels\<rparr>) r
           | ObjClusterRole m r \<Rightarrow> ObjClusterRole (m\<lparr>rm_Labels := labels\<rparr>) r
           | ObjRoleBinding m s r \<Rightarrow> ObjRoleBinding (m\<lparr>rm_Labels := labels\<rparr>) s r
           | ObjClusterRoleBinding m s r \<Rightarrow> ObjClusterRoleBinding (m\<lparr>rm_Labels := labels\<rparr>) s r
           | ObjService m s \<Rightarrow> ObjService (m\<lparr>rm_Labels := labels\<rparr>) s
           | ObjValidatingWebhook m w \<Rightarrow> ObjValidatingWebhook (m\<lparr>rm_Labels := labels\<rparr>) w
           | ObjMutatingWebhook m w \<Rightarrow> ObjMutatingWebhook (m\<lparr>rm_Labels := labels\<rparr>) w
           | _ \<Rightarrow> obj)"

definition WithServiceSpec :: "service_spec \<Rightarrow> creator_option" where
  "WithServiceSpec serviceSpec obj =
     Some (case obj of ObjService m _ \<Rightarrow> ObjService m (Some serviceSpec) | _ \<Rightarrow> obj)"

definition WithValidatingWebhooks :: "admission_webhook list \<Rightarrow> creator_option" where
  "WithValidatingWebhooks webhooks obj =
     Some (case obj of ObjValidatingWebhook m _ \<Rightarrow> ObjValidatingWebhook m webhooks | _ \<Rightarrow> obj)"

definition WithMutatingWebhooks :: "admission_webhook list \<Rightarrow> creator_option" where
  "WithMutatingWebhooks webhooks obj =
     Some (case obj of ObjMutatingWebhook m _ \<Rightarrow> ObjMutatingWebhook m webhooks | _ \<Rightarrow> obj)"

fun ApplyTo :: "creator_option list \<Rightarrow> client_object \<Rightarrow> client_object option" where
  "ApplyTo [] obj = Some obj"
| "ApplyTo (opt # opts) obj = (case opt obj of None \<Rightarrow> None | Some obj' \<Rightarrow> ApplyTo opts obj')"

definition new_meta :: "string \<Rightarrow> string \<Rightarrow> res_meta" where
  "new_meta name namespace =
     \<lparr>rm_Name = name, rm_Namespace = namespace, rm_Labels = Map.empty, rm_Annotations = Map.empty\<rparr>"

definition CreateServiceAccountResource :: "string \<Rightarrow> string \<Rightarrow> creator_option list \<Rightarrow> client_object option" where
  "CreateServiceAccountResource name namespace opts = ApplyTo opts (ObjServiceAccount (new_meta name namespace))"

definition CreateRoleResource :: "string \<Rightarrow> string \<Rightarrow> creator_option list \<Rightarrow> client_object option" where
  "CreateRoleResource name namespace opts = ApplyTo opts (ObjRole (new_meta name namespace) [])"

definition CreateClusterRoleResource :: "string \<Rightarrow> creator_option list \<Rightarrow> client_object option" where
  "CreateClusterRoleResource name opts = ApplyTo opts (ObjClusterRole (new_meta name '''') [])"

definition CreateClusterRoleBindingResource :: "string \<Rightarrow> creator_option list \<Rightarrow> client_object option" where
  "CreateClusterRoleBindingResource name opts = ApplyTo opts (ObjClusterRoleBinding (new_meta name '''') [] None)"

definition CreateRoleBindingResource :: "string \<Rightarrow> string \<Rightarrow> creator_option list \<Rightarrow> client_object option" where
  "CreateRoleBindingResource name namespace opts = ApplyTo opts (ObjRoleBinding (new_meta name namespace) [] None)"

definition empty_deployment_spec :: deployment_spec where
  "empty_deployment_spec =
     \<lparr>ds_Selector = None,
      ds_Template = \<lparr>pt_Annotations = Map.empty, pt_Labels = Map.empty,
        pt_Spec = \<lparr>pod_Volumes = [], pod_Containers = [], pod_Tolerations = [], pod_NodeSelector = Map.empty,
          pod_Affinity = None, pod_Other = JObj []\<rparr>\<rparr>,
      ds_RevisionHistoryLimit = None, ds_Other = JObj []\<rparr>"

definition CreateDeploymentResource :: "string \<Rightarrow> string \<Rightarrow> creator_option list \<Rightarrow> client_object option" where
  "CreateDeploymentResource name namespace opts =
     ApplyTo opts (ObjDeployment \<lparr>dpl_Name = name, dpl_Namespace = namespace, dpl_Labels = Map.empty,
       dpl_Annotations = Map.empty, dpl_Spec = empty_deployment_spec\<rparr>)"

definition CreateValidatingWebhookConfigurationResource ::
  "string \<Rightarrow> string \<Rightarrow> creator_option list \<Rightarrow> client_object option" where
  "CreateValidatingWebhookConfigurationResource name namespace opts =
     ApplyTo opts (ObjValidatingWebhook (new_meta name namespace) [])"

definition CreateMutatingWebhookConfigurationResource ::
  "string \<Rightarrow> string \<Rightarrow> creator_option list \<Rightarrow> client_object option" where
  "CreateMutatingWebhookConfigurationResource name namespace opts =
     ApplyTo opts (ObjMutatingWebhook (new_meta name namespace) [])"

definition CreateServiceResource :: "string \<Rightarrow> string \<Rightarrow> creator_option list \<Rightarrow> client_object option" where
  "CreateServiceResource name namespace opts = ApplyTo opts (ObjService (new_meta name namespace) None)"

subsection \<open>Certificate provisioners and options\<close>

record cert_config =
  cc_ServiceName :: string
  cc_CertName :: string
  cc_Namespace :: string

text \<open>\<open>InjectCABundle\<close> mutates an object; the model returns it.\<close>

record certificate_provider =
  cp_InjectCABundle :: "client_object \<Rightarrow> cert_config \<Rightarrow> client_object result"
  cp_AdditionalObjects :: "cert_config \<Rightarrow> json list result"
  cp_GetCertSecretInfo :: "cert_config \<Rightarrow> cert_secret_info"

record certificate_provisioner =
  pv_Config :: cert_config
  pv_CertProvider :: "certificate_provider option"

record render_options =
  ro_InstallNamespace :: string
  ro_TargetNamespaces :: "string list"
  ro_UniqueNameGenerator :: "(string \<Rightarrow> permission \<Rightarrow> string option) option"
  ro_CertificateProvider :: "certificate_provider option"
  ro_DeploymentConfig :: "deployment_config option"

definition InjectCABundle :: "certificate_provisioner \<Rightarrow> client_object \<Rightarrow> client_object result" where
  "InjectCABundle c obj =
     (case pv_CertProvider c of None \<Rightarrow> Inr obj | Some p \<Rightarrow> cp_InjectCABundle p obj (pv_Config c))"

definition AdditionalObjects :: "certificate_provisioner \<Rightarrow> json list result" where
  "AdditionalObjects c =
     (case pv_CertProvider c of None \<Rightarrow> Inr [] | Some p \<Rightarrow> cp_AdditionalObjects p (pv_Config c))"

definition GetCertSecretInfo :: "certificate_provisioner \<Rightarrow> cert_secret_info option" where
  "GetCertSecretInfo c =
     (case pv_CertProvider c of None \<Rightarrow> None | Some p \<Rightarrow> Some (cp_GetCertSecretInfo p (pv_Config c)))"

definition CertProvisionerFor :: "string \<Rightarrow> render_options \<Rightarrow> certificate_provisioner option" where
  "CertProvisionerFor deploymentName opts =
     (case ObjectNameForBaseAndSuffix (map (\<lambda>c. if c = CHR ''.'' then CHR ''-'' else c) deploymentName) ''service'' of
        None \<Rightarrow> None
      | Some webhookServiceName \<Rightarrow>
          (case ObjectNameForBaseAndSuffix webhookServiceName ''cert'' of
             None \<Rightarrow> None
           | Some certName \<Rightarrow>
               Some \<lparr>pv_Config = \<lparr>cc_ServiceName = webhookServiceName, cc_CertName = certName,
                       cc_Namespace = ro_InstallNamespace opts\<rparr>,
                     pv_CertProvider = ro_CertificateProvider opts\<rparr>))"

subsection \<open>The generators\<close>

text \<open>The order in which \<open>UnsortedList\<close> lists sets of names and of ports.\<close>

record listing =
  ls_names :: "string set \<Rightarrow> string list"
  ls_ports :: "service_port set \<Rightarrow> service_port list"

type_synonym resource_generator = "listing \<Rightarrow> registry_v1 option \<Rightarrow> render_options \<Rightarrow> client_object list gen"

definition nil_bundle :: "'a gen" where
  "nil_bundle = Some (Inl (ErrText ''bundle cannot be nil''))"

definition deployment_object ::
  "cluster_service_version \<Rightarrow> render_options \<Rightarrow> string set \<Rightarrow> strategy_deployment \<Rightarrow> client_object gen" where
  "deployment_object csv opts webhookDeployments depSpec =
     (let tmpl = ds_Template (sd_Spec depSpec);
          annotations = (MergeMaps [csv_Annotations csv, pt_Annotations tmpl])
            (''olm.targetNamespaces'' \<mapsto> go_join '','' (ro_TargetNamespaces opts));
          spec = (sd_Spec depSpec)\<lparr>ds_Template := tmpl\<lparr>pt_Annotations := annotations\<rparr>, ds_RevisionHistoryLimit := Some 1\<rparr> in
      case CreateDeploymentResource (sd_Name depSpec) (ro_InstallNamespace opts)
             [WithDeploymentSpec spec, WithLabels (sd_Label depSpec)] of
        Some (ObjDeployment d) \<Rightarrow>
          (case CertProvisionerFor (sd_Name depSpec) opts of
             None \<Rightarrow> None
           | Some prov \<Rightarrow>
               (let d1 = (case GetCertSecretInfo prov of
                      Some secretInfo \<Rightarrow>
                        if sd_Name depSpec \<in> webhookDeployments then ensureCorrectDeploymentCertVolumes d secretInfo else d
                    | None \<Rightarrow> d) in
                Some (Inr (ObjDeployment (applyCustomConfigToDeployment d1 (ro_DeploymentConfig opts))))))
      | _ \<Rightarrow> None)"

definition BundleCSVDeploymentGenerator :: resource_generator where
  "BundleCSVDeploymentGenerator ls rv1 opts =
     (case rv1 of
        None \<Rightarrow> nil_bundle
      | Some b \<Rightarrow>
          gen_map (deployment_object (rv1_CSV b) opts (set (map wh_DeploymentName (rv1_webhooks b)))) (rv1_deployments b))"

definition saNameOrDefault :: "string \<Rightarrow> string" where
  "saNameOrDefault saName = (if saName \<noteq> '''' then saName else ''default'')"

definition all_namespaces :: "render_options \<Rightarrow> bool" where
  "all_namespaces opts \<longleftrightarrow> ro_TargetNamespaces opts = ['''']"

text \<open>A call of a nil function panics.\<close>

definition unique_name :: "render_options \<Rightarrow> string \<Rightarrow> permission \<Rightarrow> string option" where
  "unique_name opts base p =
     (case ro_UniqueNameGenerator opts of None \<Rightarrow> None | Some gen \<Rightarrow> gen base p)"

definition role_objects ::
  "cluster_service_version \<Rightarrow> render_options \<Rightarrow> string \<Rightarrow> permission \<Rightarrow> client_object list gen" where
  "role_objects csv opts ns p =
     (let saName = saNameOrDefault (perm_ServiceAccountName p) in
      case unique_name opts (csv_Name csv @ ''-'' @ saName) p of
        None \<Rightarrow> None
      | Some name \<Rightarrow>
          (case (CreateRoleResource name ns [WithRules (perm_Rules p)],
                 CreateRoleBindingResource name ns
                   [WithSubjects [\<lparr>sbj_Kind = ''ServiceAccount'', sbj_Namespace = ro_InstallNamespace opts, sbj_Name = saName\<rparr>],
                    WithRoleRef \<lparr>rr_APIGroup = ''rbac.authorization.k8s.io'', rr_Kind = ''Role'', rr_Name = name\<rparr>]) of
             (Some r, Some rb) \<Rightarrow> Some (Inr [r, rb])
           | _ \<Rightarrow> None))"

definition BundleCSVPermissionsGenerator :: resource_generator where
  "BundleCSVPermissionsGenerator ls rv1 opts =
     (case rv1 of
        None \<Rightarrow> nil_bundle
      | Some b \<Rightarrow>
          if all_namespaces opts then Some (Inr [])
          else gen_bind (gen_map (\<lambda>(ns, p). role_objects (rv1_CSV b) opts ns p)
                 (concat (map (\<lambda>ns. map (\<lambda>p. (ns, p)) (csv_Permissions (rv1_CSV b))) (ro_TargetNamespaces opts))))
                 (\<lambda>objs. Some (Inr (concat objs))))"

definition namespace_rule :: policy_rule where
  "namespace_rule =
     \<lparr>pr_Verbs = [''get'', ''list'', ''watch''], pr_APIGroups = [''''], pr_Resources = [''namespaces''],
      pr_ResourceNames = [], pr_NonResourceURLs = []\<rparr>"

definition cluster_role_objects :: "cluster_service_version \<Rightarrow> render_options \<Rightarrow> permission \<Rightarrow> client_object list gen" where
  "cluster_role_objects csv opts p =
     (let saName = saNameOrDefault (perm_ServiceAccountName p) in
      case unique_name opts (csv_Name csv @ ''-'' @ saName) p of
        None \<Rightarrow> None
      | Some name \<Rightarrow>
          (case (CreateClusterRoleResource name [WithRules (perm_Rules p)],
                 CreateClusterRoleBindingResource name
                   [WithSubjects [\<lparr>sbj_Kind = ''ServiceAccount'', sbj_Namespace = ro_InstallNamespace opts, sbj_Name = saName\<rparr>],
                    WithRoleRef \<lparr>rr_APIGroup = ''rbac.authorization.k8s.io'', rr_Kind = ''ClusterRole'', rr_Name = name\<rparr>]) of
             (Some r, Some rb) \<Rightarrow> Some (Inr [r, rb])
           | _ \<Rightarrow> None))"

definition cluster_permissions :: "cluster_service_version \<Rightarrow> render_options \<Rightarrow> permission list" where
  "cluster_permissions csv opts =
     csv_ClusterPermissions csv @
     (if all_namespaces opts then map (\<lambda>p. p\<lparr>perm_Rules := perm_Rules p @ [namespace_rule]\<rparr>) (csv_Permissions csv) else [])"

definition BundleCSVClusterPermissionsGenerator :: resource_generator where
  "BundleCSVClusterPermissionsGenerator ls rv1 opts =
     (case rv1 of
        None \<Rightarrow> nil_bundle
      | Some b \<Rightarrow>
          gen_bind (gen_map (cluster_role_objects (rv1_CSV b) opts) (cluster_permissions (rv1_CSV b) opts))
            (\<lambda>objs. Some (Inr (concat objs))))"

definition service_account_names :: "cluster_service_version \<Rightarrow> string set" where
  "service_account_names csv =
     set (map (\<lambda>p. saNameOrDefault (perm_ServiceAccountName p)) (csv_Permissions csv @ csv_ClusterPermissions csv))"

definition BundleCSVServiceAccountGenerator :: resource_generator where
  "BundleCSVServiceAccountGenerator ls rv1 opts =
     (case rv1 of
        None \<Rightarrow> nil_bundle
      | Some b \<Rightarrow>
          gen_map (\<lambda>n. case CreateServiceAccountResource n (ro_InstallNamespace opts) [] of
               None \<Rightarrow> None | Some sa \<Rightarrow> Some (Inr sa))
            (filter (\<lambda>n. n \<noteq> ''default'') (ls_names ls (service_account_names (rv1_CSV b)))))"

text \<open>
  The webhooks that convert the CRDs, from the flattened loops over conversion webhooks and their CRDs.
\<close>

fun crd_webhooks ::
  "(string \<times> webhook_description) list \<Rightarrow> (string \<times> webhook_description) list \<Rightarrow>
   (string \<times> webhook_description) list result" where
  "crd_webhooks m [] = Inr m"
| "crd_webhooks m ((crdName, wh) # rs) =
     (if map_of m crdName \<noteq> None then
        Inl (ErrText (''custom resource definition '' @ squote crdName @
          '' is referenced by multiple conversion webhook definitions''))
      else crd_webhooks (AList.update crdName wh m) rs)"

definition conversion_references :: "webhook_description list \<Rightarrow> (string \<times> webhook_description) list" where
  "conversion_references whs =
     concat (map (\<lambda>wh. map (\<lambda>crd. (crd, wh)) (wh_ConversionCRDs wh)) (filter (\<lambda>wh. wh_Type wh = ConversionWebhook) whs))"

definition crd_object ::
  "render_options \<Rightarrow> (string \<times> webhook_description) list \<Rightarrow> custom_resource_definition \<Rightarrow> client_object gen" where
  "crd_object opts crdToDeploymentMap crd =
     (case map_of crdToDeploymentMap (crd_Name crd) of
        None \<Rightarrow> Some (Inr (ObjCrd crd))
      | Some cw \<Rightarrow>
          if crd_PreserveUnknownFields crd then
            Some (Inl (ErrText (''custom resource definition '' @ squote (crd_Name crd) @
              '' must have .spec.preserveUnknownFields set to false to let API Server call webhook to do the conversion'')))
          else
            (case CertProvisionerFor (wh_DeploymentName cw) opts of
               None \<Rightarrow> None
             | Some prov \<Rightarrow>
                 (let path = (case wh_WebhookPath cw of None \<Rightarrow> ''/'' | Some p \<Rightarrow> p);
                      conv = \<lparr>conv_Strategy = ''Webhook'',
                        conv_Service = Some \<lparr>svr_Namespace = ro_InstallNamespace opts,
                          svr_Name = cc_ServiceName (pv_Config prov), svr_Path = Some path, svr_Port = Some (wh_ContainerPort cw)\<rparr>,
                        conv_ConversionReviewVersions = wh_AdmissionReviewVersions cw\<rparr> in
                  Some (InjectCABundle prov (ObjCrd (crd\<lparr>crd_Conversion := Some conv\<rparr>))))))"

definition BundleCRDGenerator :: resource_generator where
  "BundleCRDGenerator ls rv1 opts =
     (case rv1 of
        None \<Rightarrow> nil_bundle
      | Some b \<Rightarrow>
          (case crd_webhooks [] (conversion_references (rv1_webhooks b)) of
             Inl e \<Rightarrow> Some (Inl e)
           | Inr m \<Rightarrow> gen_map (crd_object opts m) (rv1_CRDs b)))"

definition BundleAdditionalResourcesGenerator :: resource_generator where
  "BundleAdditionalResourcesGenerator ls rv1 opts =
     (case rv1 of
        None \<Rightarrow> nil_bundle
      | Some b \<Rightarrow>
          gen_map (\<lambda>res. let (supported, namespaced) = IsSupported (GetKind res) in
             if \<not> supported then
               Some (Inl (ErrText (''bundle contains unsupported resource: Name: '' @ GetName res @ '', Kind: '' @ GetKind res)))
             else Some (Inr (ObjUnstructured (if namespaced then SetNamespace res (ro_InstallNamespace opts) else res))))
            (rv1_Others b))"

definition TrimHyphen :: "string \<Rightarrow> string" where
  "TrimHyphen s = (if s \<noteq> [] \<and> last s = CHR ''-'' then butlast s else s)"

definition getWebhookNamespaceSelector :: "string list \<Rightarrow> label_selector option" where
  "getWebhookNamespaceSelector targetNamespaces =
     (if targetNamespaces \<noteq> [] \<and> '''' \<notin> set targetNamespaces then
        Some \<lparr>sel_MatchLabels = [],
          sel_MatchExpressions = [\<lparr>req_Key = ''kubernetes.io/metadata.name'', req_Operator = ''In'', req_Values = targetNamespaces\<rparr>]\<rparr>
      else None)"

definition admission_webhook_of :: "webhook_description \<Rightarrow> render_options \<Rightarrow> certificate_provisioner \<Rightarrow> admission_webhook" where
  "admission_webhook_of wh opts prov =
     \<lparr>aw_Name = TrimHyphen (wh_GenerateName wh), aw_Rules = wh_Rules wh, aw_FailurePolicy = wh_FailurePolicy wh,
      aw_MatchPolicy = wh_MatchPolicy wh, aw_ObjectSelector = wh_ObjectSelector wh, aw_SideEffects = wh_SideEffects wh,
      aw_TimeoutSeconds = wh_TimeoutSeconds wh, aw_AdmissionReviewVersions = wh_AdmissionReviewVersions wh,
      aw_Service = \<lparr>svr_Namespace = ro_InstallNamespace opts, svr_Name = cc_ServiceName (pv_Config prov),
        svr_Path = wh_WebhookPath wh, svr_Port = Some (wh_ContainerPort wh)\<rparr>,
      aw_ReinvocationPolicy = None,
      aw_NamespaceSelector = getWebhookNamespaceSelector (ro_TargetNamespaces opts)\<rparr>"

definition validating_object :: "render_options \<Rightarrow> webhook_description \<Rightarrow> client_object gen" where
  "validating_object opts wh =
     (case CertProvisionerFor (wh_DeploymentName wh) opts of
        None \<Rightarrow> None
      | Some prov \<Rightarrow>
          (case CreateValidatingWebhookConfigurationResource (TrimHyphen (wh_GenerateName wh)) (ro_InstallNamespace opts)
                  [WithValidatingWebhooks [admission_webhook_of wh opts prov]] of
             None \<Rightarrow> None
           | Some obj \<Rightarrow> Some (InjectCABundle prov obj)))"

definition BundleValidatingWebhookResourceGenerator :: resource_generator where
  "BundleValidatingWebhookResourceGenerator ls rv1 opts =
     (case rv1 of
        None \<Rightarrow> nil_bundle
      | Some b \<Rightarrow>
          gen_map (validating_object opts) (filter (\<lambda>wh. wh_Type wh = ValidatingAdmissionWebhook) (rv1_webhooks b)))"

definition mutating_object :: "render_options \<Rightarrow> webhook_description \<Rightarrow> client_object gen" where
  "mutating_object opts wh =
     (case CertProvisionerFor (wh_DeploymentName wh) opts of
        None \<Rightarrow> None
      | Some prov \<Rightarrow>
          (case CreateMutatingWebhookConfigurationResource (TrimHyphen (wh_GenerateName wh)) (ro_InstallNamespace opts)
                  [WithMutatingWebhooks [(admission_webhook_of wh opts prov)\<lparr>aw_ReinvocationPolicy := wh_ReinvocationPolicy wh\<rparr>]] of
             None \<Rightarrow> None
           | Some obj \<Rightarrow> Some (InjectCABundle prov obj)))"

definition BundleMutatingWebhookResourceGenerator :: resource_generator where
  "BundleMutatingWebhookResourceGenerator ls rv1 opts =
     (case rv1 of
        None \<Rightarrow> nil_bundle
      | Some b \<Rightarrow>
          gen_map (mutating_object opts) (filter (\<lambda>wh. wh_Type wh = MutatingAdmissionWebhook) (rv1_webhooks b)))"

definition getWebhookServicePort :: "webhook_description \<Rightarrow> service_port" where
  "getWebhookServicePort wh =
     (let containerPort = (if wh_ContainerPort wh > 0 then wh_ContainerPort wh else 443);
          targetPort = (case wh_TargetPort wh of None \<Rightarrow> IntPort containerPort | Some p \<Rightarrow> p) in
      \<lparr>sp_Name = show_int containerPort, sp_Port = containerPort, sp_TargetPort = targetPort\<rparr>)"

text \<open>
  \<open>IntOrString.IntValue\<close>: of a string, what \<open>strconv.Atoi\<close> returns, which is 0 for a syntax error and
  the nearest 64-bit integer for a number out of range.
\<close>

fun parse_uint :: "nat \<Rightarrow> string \<Rightarrow> nat option" where
  "parse_uint n [] = Some n"
| "parse_uint n (c # cs) =
     (if \<not> is_digit c then None
      else if n * 10 + digit_val c \<ge> 2 ^ 64 then Some (2 ^ 64 - 1)
      else parse_uint (n * 10 + digit_val c) cs)"

definition go_Atoi :: "string \<Rightarrow> int" where
  "go_Atoi s =
     (let neg = (s \<noteq> [] \<and> hd s = CHR ''-'');
          digits = (if s \<noteq> [] \<and> (hd s = CHR ''-'' \<or> hd s = CHR ''+'') then tl s else s) in
      if digits = [] then 0
      else (case parse_uint 0 digits of
              None \<Rightarrow> 0
            | Some n \<Rightarrow> sat64 (if neg then - int n else int n)))"

definition IntValue :: "int_or_string \<Rightarrow> int" where
  "IntValue p = (case p of IntPort i \<Rightarrow> i | StrPort s \<Rightarrow> go_Atoi s)"

definition compare_ports :: "service_port \<Rightarrow> service_port \<Rightarrow> int" where
  "compare_ports a b =
     cmp_or (go_compare (sp_Port a) (sp_Port b)) (go_compare (IntValue (sp_TargetPort a)) (IntValue (sp_TargetPort b)))"

definition service_ports :: "webhook_description list \<Rightarrow> (string \<times> service_port set) list" where
  "service_ports whs =
     foldl (\<lambda>m wh. AList.update (wh_DeploymentName wh)
        (insert (getWebhookServicePort wh) (get_or {} m (wh_DeploymentName wh))) m) [] whs"

definition service_object ::
  "listing \<Rightarrow> render_options \<Rightarrow> strategy_deployment \<Rightarrow> service_port set \<Rightarrow> client_object gen" where
  "service_object ls opts d servicePorts =
     (let ports = sort_by compare_ports (ls_ports ls servicePorts);
          labelSelector = (case ds_Selector (sd_Spec d) of None \<Rightarrow> [] | Some sel \<Rightarrow> sel_MatchLabels sel) in
      case CertProvisionerFor (sd_Name d) opts of
        None \<Rightarrow> None
      | Some prov \<Rightarrow>
          (case CreateServiceResource (cc_ServiceName (pv_Config prov)) (ro_InstallNamespace opts)
                  [WithServiceSpec \<lparr>svs_Ports = ports, svs_Selector = labelSelector\<rparr>] of
             None \<Rightarrow> None
           | Some obj \<Rightarrow> Some (InjectCABundle prov obj)))"

definition BundleDeploymentServiceResourceGenerator :: resource_generator where
  "BundleDeploymentServiceResourceGenerator ls rv1 opts =
     (case rv1 of
        None \<Rightarrow> nil_bundle
      | Some b \<Rightarrow>
          (let m = service_ports (rv1_webhooks b) in
           gen_map (\<lambda>d. service_object ls opts d (get_or {} m (sd_Name d)))
             (filter (\<lambda>d. map_of m (sd_Name d) \<noteq> None) (rv1_deployments b))))"

text \<open>This generator does not check that there is a bundle.\<close>

definition CertProviderResourceGenerator :: resource_generator where
  "CertProviderResourceGenerator ls rv1 opts =
     (case rv1 of
        None \<Rightarrow> None
      | Some b \<Rightarrow>
          gen_bind (gen_map (\<lambda>depName. case CertProvisionerFor depName opts of
               None \<Rightarrow> None | Some prov \<Rightarrow> Some (AdditionalObjects prov))
             (ls_names ls (set (map wh_DeploymentName (rv1_webhooks b)))))
            (\<lambda>objs. Some (Inr (map ObjUnstructured (concat objs)))))"

definition ResourceGenerators :: "resource_generator list" where
  "ResourceGenerators =
     [BundleCSVServiceAccountGenerator, BundleCSVPermissionsGenerator, BundleCSVClusterPermissionsGenerator,
      BundleCRDGenerator, BundleAdditionalResourcesGenerator, BundleCSVDeploymentGenerator,
      BundleValidatingWebhookResourceGenerator, BundleMutatingWebhookResourceGenerator,
      BundleDeploymentServiceResourceGenerator, CertProviderResourceGenerator]"

definition GenerateResources ::
  "resource_generator list \<Rightarrow> listing \<Rightarrow> registry_v1 option \<Rightarrow> render_options \<Rightarrow> client_object list gen" where
  "GenerateResources gens ls rv1 opts =
     gen_bind (gen_map (\<lambda>g. g ls rv1 opts) gens) (\<lambda>objs. Some (Inr (concat objs)))"

section \<open>Lemmas\<close>

subsection \<open>The monad of results\<close>

lemma gen_bind_simps [simp]:
  "gen_bind None f = None"
  "gen_bind (Some (Inl e)) f = Some (Inl e)"
  "gen_bind (Some (Inr x)) f = f x"
  by (simp_all add: gen_bind_def)

lemma gen_bind_ok: "gen_bind g f = Some (Inr y) \<longleftrightarrow> (\<exists>x. g = Some (Inr x) \<and> f x = Some (Inr y))"
  by (auto simp: gen_bind_def split: option.splits sum.splits)

lemma gen_map_ok: "gen_map f xs = Some (Inr ys) \<longleftrightarrow> list_all2 (\<lambda>x y. f x = Some (Inr y)) xs ys"
  by (induction xs arbitrary: ys) (auto simp: gen_bind_ok list_all2_Cons1)

lemma gen_map_total: "(\<And>x. x \<in> set xs \<Longrightarrow> \<exists>y. f x = Some (Inr y)) \<Longrightarrow> \<exists>ys. gen_map f xs = Some (Inr ys)"
  by (induction xs) (fastforce simp: gen_bind_ok)+

lemma gen_map_no_panic: "(\<And>x. x \<in> set xs \<Longrightarrow> f x \<noteq> None) \<Longrightarrow> gen_map f xs \<noteq> None"
  by (induction xs) (auto simp: gen_bind_def split: sum.splits option.splits)

lemma gen_map_pure: "(\<And>x. x \<in> set xs \<Longrightarrow> f x = Some (Inr (h x))) \<Longrightarrow> gen_map f xs = Some (Inr (map h xs))"
  by (induction xs) auto

lemma gen_map_mem:
  assumes "gen_map f xs = Some (Inr ys)"
  shows "y \<in> set ys \<longleftrightarrow> (\<exists>x \<in> set xs. f x = Some (Inr y))"
  using assms unfolding gen_map_ok
  by (induction rule: list_all2_induct) auto

subsection \<open>Names of services and certificates\<close>

definition service_name :: "string \<Rightarrow> string" where
  "service_name d = the (ObjectNameForBaseAndSuffix (map (\<lambda>c. if c = CHR ''.'' then CHR ''-'' else c) d) ''service'')"

definition cert_name :: "string \<Rightarrow> string" where
  "cert_name d = the (ObjectNameForBaseAndSuffix (service_name d) ''cert'')"

definition provisioner :: "string \<Rightarrow> render_options \<Rightarrow> certificate_provisioner" where
  "provisioner d opts =
     \<lparr>pv_Config = \<lparr>cc_ServiceName = service_name d, cc_CertName = cert_name d, cc_Namespace = ro_InstallNamespace opts\<rparr>,
      pv_CertProvider = ro_CertificateProvider opts\<rparr>"

text \<open>The suffixes are short, so that the names always exist.\<close>

lemma CertProvisionerFor_eq [simp]: "CertProvisionerFor d opts = Some (provisioner d opts)"
proof -
  have "\<exists>n. ObjectNameForBaseAndSuffix base ''service'' = Some n"
    and "\<exists>n. ObjectNameForBaseAndSuffix base ''cert'' = Some n" for base
    by (rule ObjectName_total, simp add: maxNameLength_def)+
  then obtain s c where "ObjectNameForBaseAndSuffix (map (\<lambda>c. if c = CHR ''.'' then CHR ''-'' else c) d) ''service'' = Some s"
    and "ObjectNameForBaseAndSuffix s ''cert'' = Some c" by metis
  then show ?thesis by (simp add: CertProvisionerFor_def provisioner_def service_name_def cert_name_def)
qed

lemma provisioner_simps [simp]:
  "cc_ServiceName (pv_Config (provisioner d opts)) = service_name d"
  "cc_CertName (pv_Config (provisioner d opts)) = cert_name d"
  "cc_Namespace (pv_Config (provisioner d opts)) = ro_InstallNamespace opts"
  "pv_CertProvider (provisioner d opts) = ro_CertificateProvider opts"
  by (simp_all add: provisioner_def)

text \<open>Two deployments with different valid names can share the name of their service.\<close>

lemma service_names_collide:
  "IsDNS1123Subdomain ''op.mgr'' = []" "IsDNS1123Subdomain ''op-mgr'' = []" "service_name ''op.mgr'' = service_name ''op-mgr''"
  by (simp_all add: IsDNS1123Subdomain_def dns1123_label_def dns_alnum_def service_name_def)

subsection \<open>Closed forms of the generators\<close>

lemmas resource_defs = CreateServiceAccountResource_def CreateRoleResource_def CreateClusterRoleResource_def
  CreateClusterRoleBindingResource_def CreateRoleBindingResource_def CreateDeploymentResource_def
  CreateValidatingWebhookConfigurationResource_def CreateMutatingWebhookConfigurationResource_def
  CreateServiceResource_def WithSubjects_def WithRoleRef_def WithRules_def WithDeploymentSpec_def WithLabels_def
  WithServiceSpec_def WithValidatingWebhooks_def WithMutatingWebhooks_def

definition account_subject :: "render_options \<Rightarrow> permission \<Rightarrow> rbac_subject" where
  "account_subject opts p =
     \<lparr>sbj_Kind = ''ServiceAccount'', sbj_Namespace = ro_InstallNamespace opts, sbj_Name = saNameOrDefault (perm_ServiceAccountName p)\<rparr>"

abbreviation permission_name :: "cluster_service_version \<Rightarrow> render_options \<Rightarrow> permission \<Rightarrow> string option" where
  "permission_name csv opts p \<equiv> unique_name opts (csv_Name csv @ ''-'' @ saNameOrDefault (perm_ServiceAccountName p)) p"

lemma role_objects_eq:
  "role_objects csv opts ns p =
     map_option (\<lambda>name. Inr
       [ObjRole (new_meta name ns) (perm_Rules p),
        ObjRoleBinding (new_meta name ns) [account_subject opts p]
          (Some \<lparr>rr_APIGroup = ''rbac.authorization.k8s.io'', rr_Kind = ''Role'', rr_Name = name\<rparr>)]) (permission_name csv opts p)"
  by (simp add: role_objects_def Let_def resource_defs account_subject_def split: option.split)

lemma cluster_role_objects_eq:
  "cluster_role_objects csv opts p =
     map_option (\<lambda>name. Inr
       [ObjClusterRole (new_meta name '''') (perm_Rules p),
        ObjClusterRoleBinding (new_meta name '''') [account_subject opts p]
          (Some \<lparr>rr_APIGroup = ''rbac.authorization.k8s.io'', rr_Kind = ''ClusterRole'', rr_Name = name\<rparr>)]) (permission_name csv opts p)"
  by (simp add: cluster_role_objects_def Let_def resource_defs account_subject_def split: option.split)

lemma service_accounts_eq:
  "BundleCSVServiceAccountGenerator ls (Some b) opts =
     Some (Inr (map (\<lambda>n. ObjServiceAccount (new_meta n (ro_InstallNamespace opts)))
       (filter (\<lambda>n. n \<noteq> ''default'') (ls_names ls (service_account_names (rv1_CSV b))))))"
  unfolding BundleCSVServiceAccountGenerator_def
  by (simp, rule gen_map_pure) (simp add: resource_defs)

lemma validating_object_eq:
  "validating_object opts wh = Some (InjectCABundle (provisioner (wh_DeploymentName wh) opts)
     (ObjValidatingWebhook (new_meta (TrimHyphen (wh_GenerateName wh)) (ro_InstallNamespace opts))
       [admission_webhook_of wh opts (provisioner (wh_DeploymentName wh) opts)]))"
  by (simp add: validating_object_def resource_defs)

lemma mutating_object_eq:
  "mutating_object opts wh = Some (InjectCABundle (provisioner (wh_DeploymentName wh) opts)
     (ObjMutatingWebhook (new_meta (TrimHyphen (wh_GenerateName wh)) (ro_InstallNamespace opts))
       [(admission_webhook_of wh opts (provisioner (wh_DeploymentName wh) opts))\<lparr>aw_ReinvocationPolicy := wh_ReinvocationPolicy wh\<rparr>]))"
  by (simp add: mutating_object_def resource_defs)

lemma service_object_eq:
  "service_object ls opts d ports = Some (InjectCABundle (provisioner (sd_Name d) opts)
     (ObjService (new_meta (service_name (sd_Name d)) (ro_InstallNamespace opts))
       (Some \<lparr>svs_Ports = sort_by compare_ports (ls_ports ls ports),
         svs_Selector = (case ds_Selector (sd_Spec d) of None \<Rightarrow> [] | Some sel \<Rightarrow> sel_MatchLabels sel)\<rparr>)))"
  by (simp add: service_object_def Let_def resource_defs)

definition csv_deployment :: "cluster_service_version \<Rightarrow> render_options \<Rightarrow> strategy_deployment \<Rightarrow> deployment" where
  "csv_deployment csv opts d =
     (let tmpl = ds_Template (sd_Spec d) in
      \<lparr>dpl_Name = sd_Name d, dpl_Namespace = ro_InstallNamespace opts, dpl_Labels = sd_Label d, dpl_Annotations = Map.empty,
       dpl_Spec = (sd_Spec d)\<lparr>ds_Template := tmpl\<lparr>pt_Annotations :=
           (csv_Annotations csv ++ pt_Annotations tmpl)(''olm.targetNamespaces'' \<mapsto> go_join '','' (ro_TargetNamespaces opts))\<rparr>,
         ds_RevisionHistoryLimit := Some 1\<rparr>\<rparr>)"

lemma deployment_object_eq:
  "deployment_object csv opts whd d = Some (Inr (ObjDeployment (applyCustomConfigToDeployment
     (case GetCertSecretInfo (provisioner (sd_Name d) opts) of
        Some info \<Rightarrow> if sd_Name d \<in> whd then ensureCorrectDeploymentCertVolumes (csv_deployment csv opts d) info
                     else csv_deployment csv opts d
      | None \<Rightarrow> csv_deployment csv opts d) (ro_DeploymentConfig opts))))"
  by (cases "GetCertSecretInfo (provisioner (sd_Name d) opts)")
    (simp_all add: deployment_object_def Let_def resource_defs csv_deployment_def)

subsection \<open>Which permissions the rendered objects grant\<close>

text \<open>
  The grants of a list of objects: a service account holds a rule in a namespace, or in the whole
  cluster (\<open>None\<close>), when a binding of the list names the account and a role of the list that has the
  rule.
\<close>

type_synonym grant = "string option \<times> string \<times> string \<times> policy_rule"

definition namespace_grants :: "client_object set \<Rightarrow> grant set" where
  "namespace_grants objs =
     {(Some (rm_Namespace m), sbj_Namespace s, sbj_Name s, rule) |m s rule.
        \<exists>subs ref rm rules. ObjRoleBinding m subs (Some ref) \<in> objs \<and> ObjRole rm rules \<in> objs \<and>
          rr_Kind ref = ''Role'' \<and> rm_Namespace rm = rm_Namespace m \<and> rm_Name rm = rr_Name ref \<and>
          s \<in> set subs \<and> sbj_Kind s = ''ServiceAccount'' \<and> rule \<in> set rules}"

definition cluster_grants :: "client_object set \<Rightarrow> grant set" where
  "cluster_grants objs =
     {(None, sbj_Namespace s, sbj_Name s, rule) |s rule.
        \<exists>m subs ref rm rules. ObjClusterRoleBinding m subs (Some ref) \<in> objs \<and> ObjClusterRole rm rules \<in> objs \<and>
          rr_Kind ref = ''ClusterRole'' \<and> rm_Name rm = rr_Name ref \<and>
          s \<in> set subs \<and> sbj_Kind s = ''ServiceAccount'' \<and> rule \<in> set rules}"

definition grants :: "client_object set \<Rightarrow> grant set" where
  "grants objs = namespace_grants objs \<union> cluster_grants objs"

lemma namespace_grantI:
  "ObjRoleBinding m subs (Some ref) \<in> objs \<Longrightarrow> ObjRole rm rules \<in> objs \<Longrightarrow> rr_Kind ref = ''Role'' \<Longrightarrow>
   rm_Namespace rm = rm_Namespace m \<Longrightarrow> rm_Name rm = rr_Name ref \<Longrightarrow> s \<in> set subs \<Longrightarrow>
   sbj_Kind s = ''ServiceAccount'' \<Longrightarrow> rule \<in> set rules \<Longrightarrow>
   (Some (rm_Namespace m), sbj_Namespace s, sbj_Name s, rule) \<in> namespace_grants objs"
  unfolding namespace_grants_def by blast

lemma cluster_grantI:
  "ObjClusterRoleBinding m subs (Some ref) \<in> objs \<Longrightarrow> ObjClusterRole rm rules \<in> objs \<Longrightarrow> rr_Kind ref = ''ClusterRole'' \<Longrightarrow>
   rm_Name rm = rr_Name ref \<Longrightarrow> s \<in> set subs \<Longrightarrow> sbj_Kind s = ''ServiceAccount'' \<Longrightarrow> rule \<in> set rules \<Longrightarrow>
   (None, sbj_Namespace s, sbj_Name s, rule) \<in> cluster_grants objs"
  unfolding cluster_grants_def by blast

lemma new_meta_simps [simp]:
  "rm_Name (new_meta n ns) = n" "rm_Namespace (new_meta n ns) = ns"
  "new_meta n ns = new_meta n' ns' \<longleftrightarrow> n = n' \<and> ns = ns'"
  by (auto simp: new_meta_def)

definition rbac_ref :: "string \<Rightarrow> string \<Rightarrow> role_ref" where
  "rbac_ref kind name = \<lparr>rr_APIGroup = ''rbac.authorization.k8s.io'', rr_Kind = kind, rr_Name = name\<rparr>"

lemma rbac_ref_simps [simp]: "rr_Kind (rbac_ref k n) = k" "rr_Name (rbac_ref k n) = n"
  by (simp_all add: rbac_ref_def)

lemma mem_concat_gen_map:
  assumes "gen_map f xs = Some (Inr oss)"
  shows "obj \<in> set (concat oss) \<longleftrightarrow> (\<exists>x \<in> set xs. \<exists>os. f x = Some (Inr os) \<and> obj \<in> set os)"
  by (simp add: Bex_def gen_map_mem [OF assms]) blast

lemma gen_map_all_ok:
  assumes "gen_map f xs = Some (Inr ys)" and "x \<in> set xs"
  shows "\<exists>y. f x = Some (Inr y)"
  using assms by (induction xs arbitrary: ys) (auto simp: gen_bind_ok)

lemma BundleCSVPermissions_mem:
  assumes "BundleCSVPermissionsGenerator ls (Some b) opts = Some (Inr objs)" and "\<not> all_namespaces opts"
  shows "obj \<in> set objs \<longleftrightarrow> (\<exists>ns \<in> set (ro_TargetNamespaces opts). \<exists>p \<in> set (csv_Permissions (rv1_CSV b)). \<exists>name.
     permission_name (rv1_CSV b) opts p = Some name \<and>
     (obj = ObjRole (new_meta name ns) (perm_Rules p) \<or>
      obj = ObjRoleBinding (new_meta name ns) [account_subject opts p] (Some (rbac_ref ''Role'' name))))"
proof -
  obtain oss where oss: "gen_map (\<lambda>(ns, p). role_objects (rv1_CSV b) opts ns p)
      (concat (map (\<lambda>ns. map (\<lambda>p. (ns, p)) (csv_Permissions (rv1_CSV b))) (ro_TargetNamespaces opts))) = Some (Inr oss)"
    and objs: "objs = concat oss"
    using assms by (auto simp: BundleCSVPermissionsGenerator_def gen_bind_ok)
  have "(\<exists>os. role_objects (rv1_CSV b) opts ns p = Some (Inr os) \<and> obj \<in> set os) \<longleftrightarrow>
      (\<exists>name. permission_name (rv1_CSV b) opts p = Some name \<and>
        (obj = ObjRole (new_meta name ns) (perm_Rules p) \<or>
         obj = ObjRoleBinding (new_meta name ns) [account_subject opts p] (Some (rbac_ref ''Role'' name))))" for ns p
    by (cases "permission_name (rv1_CSV b) opts p") (simp_all add: role_objects_eq rbac_ref_def)
  then show ?thesis unfolding objs mem_concat_gen_map [OF oss] by (simp add: bex_UN)
qed

lemma BundleCSVClusterPermissions_mem:
  assumes "BundleCSVClusterPermissionsGenerator ls (Some b) opts = Some (Inr objs)"
  shows "obj \<in> set objs \<longleftrightarrow> (\<exists>p \<in> set (cluster_permissions (rv1_CSV b) opts). \<exists>name.
     permission_name (rv1_CSV b) opts p = Some name \<and>
     (obj = ObjClusterRole (new_meta name '''') (perm_Rules p) \<or>
      obj = ObjClusterRoleBinding (new_meta name '''') [account_subject opts p] (Some (rbac_ref ''ClusterRole'' name))))"
proof -
  obtain oss where oss: "gen_map (cluster_role_objects (rv1_CSV b) opts) (cluster_permissions (rv1_CSV b) opts) = Some (Inr oss)"
    and objs: "objs = concat oss"
    using assms by (auto simp: BundleCSVClusterPermissionsGenerator_def gen_bind_ok)
  have "(\<exists>os. cluster_role_objects (rv1_CSV b) opts p = Some (Inr os) \<and> obj \<in> set os) \<longleftrightarrow>
      (\<exists>name. permission_name (rv1_CSV b) opts p = Some name \<and>
        (obj = ObjClusterRole (new_meta name '''') (perm_Rules p) \<or>
         obj = ObjClusterRoleBinding (new_meta name '''') [account_subject opts p] (Some (rbac_ref ''ClusterRole'' name))))" for p
    by (cases "permission_name (rv1_CSV b) opts p") (simp_all add: cluster_role_objects_eq rbac_ref_def)
  then show ?thesis unfolding objs mem_concat_gen_map [OF oss] by simp
qed

lemma BundleCSVPermissions_named:
  assumes "BundleCSVPermissionsGenerator ls (Some b) opts = Some (Inr objs)" and "\<not> all_namespaces opts"
    and "ns \<in> set (ro_TargetNamespaces opts)" and "p \<in> set (csv_Permissions (rv1_CSV b))"
  shows "\<exists>name. permission_name (rv1_CSV b) opts p = Some name"
proof -
  obtain oss where oss: "gen_map (\<lambda>(ns, p). role_objects (rv1_CSV b) opts ns p)
      (concat (map (\<lambda>ns. map (\<lambda>p. (ns, p)) (csv_Permissions (rv1_CSV b))) (ro_TargetNamespaces opts))) = Some (Inr oss)"
    using assms(1,2) by (auto simp: BundleCSVPermissionsGenerator_def gen_bind_ok)
  have "(ns, p) \<in> set (concat (map (\<lambda>ns. map (\<lambda>p. (ns, p)) (csv_Permissions (rv1_CSV b))) (ro_TargetNamespaces opts)))"
    using assms(3,4) by auto
  from gen_map_all_ok [OF oss this] show ?thesis by (auto simp: role_objects_eq)
qed

lemma BundleCSVClusterPermissions_named:
  assumes "BundleCSVClusterPermissionsGenerator ls (Some b) opts = Some (Inr objs)"
    and "p \<in> set (cluster_permissions (rv1_CSV b) opts)"
  shows "\<exists>name. permission_name (rv1_CSV b) opts p = Some name"
proof -
  obtain oss where oss: "gen_map (cluster_role_objects (rv1_CSV b) opts) (cluster_permissions (rv1_CSV b) opts) = Some (Inr oss)"
    using assms(1) by (auto simp: BundleCSVClusterPermissionsGenerator_def gen_bind_ok)
  from gen_map_all_ok [OF oss assms(2)] show ?thesis by (auto simp: cluster_role_objects_eq)
qed

lemma account_subject_simps [simp]:
  "sbj_Kind (account_subject opts p) = ''ServiceAccount''"
  "sbj_Namespace (account_subject opts p) = ro_InstallNamespace opts"
  "sbj_Name (account_subject opts p) = saNameOrDefault (perm_ServiceAccountName p)"
  by (simp_all add: account_subject_def)

text \<open>No two permissions of the bundle share a name: the hash in the name separates them.\<close>

definition separates_permissions :: "cluster_service_version \<Rightarrow> render_options \<Rightarrow> bool" where
  "separates_permissions csv opts \<longleftrightarrow>
     (\<forall>ps \<in> {csv_Permissions csv, cluster_permissions csv opts}. \<forall>p \<in> set ps. \<forall>p' \<in> set ps. \<forall>n.
        permission_name csv opts p = Some n \<longrightarrow> permission_name csv opts p' = Some n \<longrightarrow> p = p')"

lemma namespace_grants_eq:
  assumes gen: "BundleCSVPermissionsGenerator ls (Some b) opts = Some (Inr objs)"
    and nall: "\<not> all_namespaces opts" and uniq: "separates_permissions (rv1_CSV b) opts"
  shows "grants (set objs) =
     {(Some ns, ro_InstallNamespace opts, saNameOrDefault (perm_ServiceAccountName p), rule) |ns p rule.
        ns \<in> set (ro_TargetNamespaces opts) \<and> p \<in> set (csv_Permissions (rv1_CSV b)) \<and> rule \<in> set (perm_Rules p)}"
    (is "_ = ?G")
proof -
  note mem = BundleCSVPermissions_mem [OF gen nall]
  have "namespace_grants (set objs) \<subseteq> ?G"
  proof
    fix g assume "g \<in> namespace_grants (set objs)"
    then obtain m subs ref rm rules s rule where g: "g = (Some (rm_Namespace m), sbj_Namespace s, sbj_Name s, rule)"
      and bnd: "ObjRoleBinding m subs (Some ref) \<in> set objs" and rl: "ObjRole rm rules \<in> set objs"
      and eq: "rm_Namespace rm = rm_Namespace m" "rm_Name rm = rr_Name ref" and s: "s \<in> set subs" and r: "rule \<in> set rules"
      unfolding namespace_grants_def by blast
    from bnd obtain ns p name where b1: "ns \<in> set (ro_TargetNamespaces opts)" "p \<in> set (csv_Permissions (rv1_CSV b))"
      "permission_name (rv1_CSV b) opts p = Some name" "m = new_meta name ns" "subs = [account_subject opts p]"
      "ref = rbac_ref ''Role'' name" unfolding mem by auto
    from rl obtain ns' p' name' where b2: "permission_name (rv1_CSV b) opts p' = Some name'" "rm = new_meta name' ns'"
      "rules = perm_Rules p'" "p' \<in> set (csv_Permissions (rv1_CSV b))" unfolding mem by auto
    have "name' = name" using eq b1 b2 by simp
    then have "p' = p" using uniq b1(2,3) b2(1,4) unfolding separates_permissions_def by blast
    then show "g \<in> ?G" using g s r b1 b2 by auto
  qed
  moreover have "?G \<subseteq> namespace_grants (set objs)"
  proof
    fix g assume "g \<in> ?G"
    then obtain ns p rule where g: "g = (Some ns, ro_InstallNamespace opts, saNameOrDefault (perm_ServiceAccountName p), rule)"
      and p: "ns \<in> set (ro_TargetNamespaces opts)" "p \<in> set (csv_Permissions (rv1_CSV b))" "rule \<in> set (perm_Rules p)" by blast
    obtain name where name: "permission_name (rv1_CSV b) opts p = Some name"
      using BundleCSVPermissions_named [OF gen nall p(1,2)] by blast
    have "ObjRole (new_meta name ns) (perm_Rules p) \<in> set objs"
      and "ObjRoleBinding (new_meta name ns) [account_subject opts p] (Some (rbac_ref ''Role'' name)) \<in> set objs"
      unfolding mem using p name by blast+
    note objs = this
    show "g \<in> namespace_grants (set objs)"
      using namespace_grantI [OF objs(2,1), of "account_subject opts p" rule] p(3) by (simp add: g)
  qed
  moreover have "cluster_grants (set objs) = {}" unfolding cluster_grants_def mem by blast
  ultimately show ?thesis unfolding grants_def by blast
qed

lemma cluster_grants_eq:
  assumes gen: "BundleCSVClusterPermissionsGenerator ls (Some b) opts = Some (Inr objs)"
    and uniq: "separates_permissions (rv1_CSV b) opts"
  shows "grants (set objs) =
     {(None, ro_InstallNamespace opts, saNameOrDefault (perm_ServiceAccountName p), rule) |p rule.
        p \<in> set (cluster_permissions (rv1_CSV b) opts) \<and> rule \<in> set (perm_Rules p)}"
    (is "_ = ?G")
proof -
  note mem = BundleCSVClusterPermissions_mem [OF gen]
  have "cluster_grants (set objs) \<subseteq> ?G"
  proof
    fix g assume "g \<in> cluster_grants (set objs)"
    then obtain m subs ref rm rules s rule where g: "g = (None, sbj_Namespace s, sbj_Name s, rule)"
      and bnd: "ObjClusterRoleBinding m subs (Some ref) \<in> set objs" and rl: "ObjClusterRole rm rules \<in> set objs"
      and eq: "rm_Name rm = rr_Name ref" and s: "s \<in> set subs" and r: "rule \<in> set rules"
      unfolding cluster_grants_def by blast
    from bnd obtain p name where b1: "p \<in> set (cluster_permissions (rv1_CSV b) opts)"
      "permission_name (rv1_CSV b) opts p = Some name" "subs = [account_subject opts p]"
      "ref = rbac_ref ''ClusterRole'' name" unfolding mem by auto
    from rl obtain p' name' where b2: "permission_name (rv1_CSV b) opts p' = Some name'" "rm = new_meta name' ''''"
      "rules = perm_Rules p'" "p' \<in> set (cluster_permissions (rv1_CSV b) opts)" unfolding mem by auto
    have "name' = name" using eq b1 b2 by simp
    then have "p' = p" using uniq b1(1,2) b2(1,4) unfolding separates_permissions_def by blast
    then show "g \<in> ?G" using g s r b1 b2 by auto
  qed
  moreover have "?G \<subseteq> cluster_grants (set objs)"
  proof
    fix g assume "g \<in> ?G"
    then obtain p rule where g: "g = (None, ro_InstallNamespace opts, saNameOrDefault (perm_ServiceAccountName p), rule)"
      and p: "p \<in> set (cluster_permissions (rv1_CSV b) opts)" "rule \<in> set (perm_Rules p)" by blast
    obtain name where name: "permission_name (rv1_CSV b) opts p = Some name"
      using BundleCSVClusterPermissions_named [OF gen p(1)] by blast
    have "ObjClusterRole (new_meta name '''') (perm_Rules p) \<in> set objs"
      and "ObjClusterRoleBinding (new_meta name '''') [account_subject opts p] (Some (rbac_ref ''ClusterRole'' name)) \<in> set objs"
      unfolding mem using p name by blast+
    note objs = this
    show "g \<in> cluster_grants (set objs)"
      using cluster_grantI [OF objs(2,1), of "account_subject opts p" rule] p(2) by (simp add: g)
  qed
  moreover have "namespace_grants (set objs) = {}" unfolding namespace_grants_def mem by blast
  ultimately show ?thesis unfolding grants_def by blast
qed

subsection \<open>The contract of certificate providers\<close>

fun erase_annotations :: "client_object \<Rightarrow> client_object" where
  "erase_annotations (ObjServiceAccount m) = ObjServiceAccount (m\<lparr>rm_Annotations := Map.empty\<rparr>)"
| "erase_annotations (ObjRole m r) = ObjRole (m\<lparr>rm_Annotations := Map.empty\<rparr>) r"
| "erase_annotations (ObjClusterRole m r) = ObjClusterRole (m\<lparr>rm_Annotations := Map.empty\<rparr>) r"
| "erase_annotations (ObjRoleBinding m s r) = ObjRoleBinding (m\<lparr>rm_Annotations := Map.empty\<rparr>) s r"
| "erase_annotations (ObjClusterRoleBinding m s r) = ObjClusterRoleBinding (m\<lparr>rm_Annotations := Map.empty\<rparr>) s r"
| "erase_annotations (ObjDeployment d) = ObjDeployment (d\<lparr>dpl_Annotations := Map.empty\<rparr>)"
| "erase_annotations (ObjCrd c) = ObjCrd (c\<lparr>crd_Annotations := Map.empty\<rparr>)"
| "erase_annotations (ObjService m s) = ObjService (m\<lparr>rm_Annotations := Map.empty\<rparr>) s"
| "erase_annotations (ObjValidatingWebhook m w) = ObjValidatingWebhook (m\<lparr>rm_Annotations := Map.empty\<rparr>) w"
| "erase_annotations (ObjMutatingWebhook m w) = ObjMutatingWebhook (m\<lparr>rm_Annotations := Map.empty\<rparr>) w"
| "erase_annotations (ObjUnstructured j) = ObjUnstructured j"

lemma erased_meta:
  "(m :: res_meta)\<lparr>rm_Annotations := a\<rparr> = m'\<lparr>rm_Annotations := a\<rparr> \<longleftrightarrow>
     rm_Name m = rm_Name m' \<and> rm_Namespace m = rm_Namespace m' \<and> rm_Labels m = rm_Labels m'"
  by (cases m; cases m') auto

lemma erased_crd:
  "(c :: custom_resource_definition)\<lparr>crd_Annotations := a\<rparr> = c'\<lparr>crd_Annotations := a\<rparr> \<longleftrightarrow>
     crd_Name c = crd_Name c' \<and> crd_PreserveUnknownFields c = crd_PreserveUnknownFields c' \<and>
     crd_Conversion c = crd_Conversion c' \<and> crd_Other c = crd_Other c'"
  by (cases c; cases c') auto

text \<open>
  What the generators rely on: injecting a CA bundle succeeds and changes nothing but annotations.
\<close>

locale annotation_injector =
  fixes prov :: certificate_provider
  assumes injects: "\<exists>obj'. cp_InjectCABundle prov obj cfg = Inr obj'"
    and keeps: "cp_InjectCABundle prov obj cfg = Inr obj' \<Longrightarrow> erase_annotations obj' = erase_annotations obj"
begin

lemma inject_erased: "\<exists>obj'. cp_InjectCABundle prov obj cfg = Inr obj' \<and> erase_annotations obj' = erase_annotations obj"
  using injects [of obj cfg] keeps by blast

end

text \<open>The provider of the options, if there is one, keeps the contract.\<close>

definition lawful_provider :: "render_options \<Rightarrow> bool" where
  "lawful_provider opts \<longleftrightarrow> (\<forall>p. ro_CertificateProvider opts = Some p \<longrightarrow> annotation_injector p)"

lemma lawful_injects:
  assumes "lawful_provider opts"
  shows "\<exists>obj'. InjectCABundle (provisioner d opts) obj = Inr obj' \<and> erase_annotations obj' = erase_annotations obj"
proof (cases "ro_CertificateProvider opts")
  case None
  then show ?thesis by (simp add: InjectCABundle_def)
next
  case (Some p)
  then have p: "annotation_injector p" using assms by (simp add: lawful_provider_def)
  show ?thesis using annotation_injector.inject_erased [OF p] Some by (simp add: InjectCABundle_def)
qed

lemma lawful_service:
  assumes "lawful_provider opts"
  shows "\<exists>m'. InjectCABundle (provisioner d opts) (ObjService m s) = Inr (ObjService m' s) \<and>
     rm_Name m' = rm_Name m \<and> rm_Namespace m' = rm_Namespace m"
proof -
  obtain obj where "InjectCABundle (provisioner d opts) (ObjService m s) = Inr obj"
    and "erase_annotations obj = erase_annotations (ObjService m s)" using lawful_injects [OF assms] by blast
  then show ?thesis by (cases obj) (auto simp: erased_meta)
qed

lemma lawful_validating:
  assumes "lawful_provider opts"
  shows "\<exists>m'. InjectCABundle (provisioner d opts) (ObjValidatingWebhook m w) = Inr (ObjValidatingWebhook m' w) \<and>
     rm_Name m' = rm_Name m \<and> rm_Namespace m' = rm_Namespace m"
proof -
  obtain obj where "InjectCABundle (provisioner d opts) (ObjValidatingWebhook m w) = Inr obj"
    and "erase_annotations obj = erase_annotations (ObjValidatingWebhook m w)" using lawful_injects [OF assms] by blast
  then show ?thesis by (cases obj) (auto simp: erased_meta)
qed

lemma lawful_mutating:
  assumes "lawful_provider opts"
  shows "\<exists>m'. InjectCABundle (provisioner d opts) (ObjMutatingWebhook m w) = Inr (ObjMutatingWebhook m' w) \<and>
     rm_Name m' = rm_Name m \<and> rm_Namespace m' = rm_Namespace m"
proof -
  obtain obj where "InjectCABundle (provisioner d opts) (ObjMutatingWebhook m w) = Inr obj"
    and "erase_annotations obj = erase_annotations (ObjMutatingWebhook m w)" using lawful_injects [OF assms] by blast
  then show ?thesis by (cases obj) (auto simp: erased_meta)
qed

lemma lawful_crd:
  assumes "lawful_provider opts"
  shows "\<exists>c'. InjectCABundle (provisioner d opts) (ObjCrd c) = Inr (ObjCrd c') \<and>
     crd_Name c' = crd_Name c \<and> crd_Conversion c' = crd_Conversion c"
proof -
  obtain obj where "InjectCABundle (provisioner d opts) (ObjCrd c) = Inr obj"
    and "erase_annotations obj = erase_annotations (ObjCrd c)" using lawful_injects [OF assms] by blast
  then show ?thesis by (cases obj) (auto simp: erased_crd)
qed

subsection \<open>The generated objects by kind\<close>

definition is_rbac :: "client_object \<Rightarrow> bool" where
  "is_rbac obj =
     (case obj of ObjRole _ _ \<Rightarrow> True | ObjClusterRole _ _ \<Rightarrow> True | ObjRoleBinding _ _ _ \<Rightarrow> True
                | ObjClusterRoleBinding _ _ _ \<Rightarrow> True | _ \<Rightarrow> False)"

lemma grants_rbac_only:
  assumes "\<And>obj. obj \<in> S \<Longrightarrow> is_rbac obj \<Longrightarrow> obj \<in> T" and "T \<subseteq> S"
  shows "grants S = grants T"
proof -
  have iff: "obj \<in> S \<longleftrightarrow> obj \<in> T" if "is_rbac obj" for obj using assms that by blast
  show ?thesis
    unfolding grants_def namespace_grants_def cluster_grants_def
    by (simp add: iff is_rbac_def)
qed

lemma grants_disjoint:
  assumes "\<And>obj. obj \<in> S \<Longrightarrow> (\<exists>m r. obj = ObjRole m r) \<or> (\<exists>m s r. obj = ObjRoleBinding m s r)"
    and "\<And>obj. obj \<in> T \<Longrightarrow> (\<exists>m r. obj = ObjClusterRole m r) \<or> (\<exists>m s r. obj = ObjClusterRoleBinding m s r)"
  shows "grants (S \<union> T) = grants S \<union> grants T"
proof -
  have "namespace_grants (S \<union> T) = namespace_grants S" and "cluster_grants (S \<union> T) = cluster_grants T"
    and "namespace_grants T = {}" and "cluster_grants S = {}"
    using assms unfolding namespace_grants_def cluster_grants_def by blast+
  then show ?thesis by (simp add: grants_def)
qed

end
