(* ===== verification/Bundle_Render.thy ===== *)
theory Bundle_Render
  imports Bundle_Generators
begin

text \<open>
  The rendering of registry+v1 bundles (\<open>rukpak/render/render.go\<close>, \<open>registryv1.go\<close>) and the two
  certificate providers (\<open>rukpak/render/certproviders\<close>). The JSON encoder, SHA-224, the order in which
  sets are listed and the conversion of cert-manager objects to unstructured ones are parameters.
\<close>

section \<open>Definitions\<close>

subsection \<open>cert-manager\<close>

record cert_manager_spec =
  cms_SecretName :: string
  cms_CommonName :: string
  cms_Usages :: "string list"
  cms_IsCA :: bool
  cms_DNSNames :: "string list"
  cms_IssuerRef :: string
  cms_Duration :: int
  cms_RenewBefore :: int

text \<open>An issuer (name and namespace, self-signed) or a certificate.\<close>

datatype cert_manager_object = CmIssuer string string | CmCertificate string string cert_manager_spec

definition set_annotation :: "string \<Rightarrow> string \<Rightarrow> string_map \<Rightarrow> string_map" where
  "set_annotation k v m = MergeMaps [m, [k \<mapsto> v]]"

definition certManagerInjectCAAnnotation :: string where
  "certManagerInjectCAAnnotation = ''cert-manager.io/inject-ca-from''"

definition certmanager_InjectCABundle :: "client_object \<Rightarrow> cert_config \<Rightarrow> client_object result" where
  "certmanager_InjectCABundle obj cfg =
     (let add = (\<lambda>m. set_annotation certManagerInjectCAAnnotation (cc_Namespace cfg @ ''/'' @ cc_CertName cfg) m) in
      Inr (case obj of
             ObjValidatingWebhook m w \<Rightarrow> ObjValidatingWebhook (m\<lparr>rm_Annotations := add (rm_Annotations m)\<rparr>) w
           | ObjMutatingWebhook m w \<Rightarrow> ObjMutatingWebhook (m\<lparr>rm_Annotations := add (rm_Annotations m)\<rparr>) w
           | ObjCrd c \<Rightarrow> ObjCrd (c\<lparr>crd_Annotations := add (crd_Annotations c)\<rparr>)
           | _ \<Rightarrow> obj))"

definition tls_secret :: "cert_config \<Rightarrow> cert_secret_info" where
  "tls_secret cfg = \<lparr>csi_SecretName = cc_CertName cfg, csi_CertificateKey = ''tls.crt'', csi_PrivateKeyKey = ''tls.key''\<rparr>"

definition hour_ns :: int where
  "hour_ns = 3600 * second_ns"

definition olmv0RotationPeriod :: int where
  "olmv0RotationPeriod = 730 * 24 * hour_ns"

definition olmv0RenewBefore :: int where
  "olmv0RenewBefore = 24 * hour_ns"

text \<open>The name of the issuer always exists, since its suffix is short; a missing name would panic.\<close>

definition issuer_name :: "cert_config \<Rightarrow> string option" where
  "issuer_name cfg = ObjectNameForBaseAndSuffix (cc_CertName cfg) ''selfsigned-issuer''"

definition certmanager_certificate :: "cert_config \<Rightarrow> string \<Rightarrow> cert_manager_object" where
  "certmanager_certificate cfg issuer =
     (let host = cc_ServiceName cfg @ ''.'' @ cc_Namespace cfg in
      CmCertificate (cc_CertName cfg) (cc_Namespace cfg)
        \<lparr>cms_SecretName = cc_CertName cfg, cms_CommonName = host, cms_Usages = [''server auth''], cms_IsCA = False,
         cms_DNSNames = [host, host @ ''.svc'', host @ ''.svc.cluster.local''], cms_IssuerRef = issuer,
         cms_Duration = olmv0RotationPeriod, cms_RenewBefore = olmv0RenewBefore\<rparr>)"

definition certmanager_AdditionalObjects ::
  "(cert_manager_object \<Rightarrow> json result) \<Rightarrow> cert_config \<Rightarrow> json list result" where
  "certmanager_AdditionalObjects toUnstructured cfg =
     (let issuer = the (issuer_name cfg);
          objs = map toUnstructured [CmIssuer issuer (cc_Namespace cfg), certmanager_certificate cfg issuer];
          errs = List.map_filter (\<lambda>r. case r of Inl e \<Rightarrow> Some e | Inr _ \<Rightarrow> None) objs in
      if errs \<noteq> [] then Inl (ErrJoin errs)
      else Inr (List.map_filter (\<lambda>r. case r of Inl _ \<Rightarrow> None | Inr j \<Rightarrow> Some j) objs))"

definition CertManagerCertificateProvider :: "(cert_manager_object \<Rightarrow> json result) \<Rightarrow> certificate_provider" where
  "CertManagerCertificateProvider toUnstructured =
     \<lparr>cp_InjectCABundle = certmanager_InjectCABundle, cp_AdditionalObjects = certmanager_AdditionalObjects toUnstructured,
      cp_GetCertSecretInfo = tls_secret\<rparr>"

subsection \<open>The service CA of OpenShift\<close>

definition openshift_InjectCABundle :: "client_object \<Rightarrow> cert_config \<Rightarrow> client_object result" where
  "openshift_InjectCABundle obj cfg =
     (let add = (\<lambda>m. set_annotation ''service.beta.openshift.io/inject-cabundle'' ''true'' m) in
      Inr (case obj of
             ObjValidatingWebhook m w \<Rightarrow> ObjValidatingWebhook (m\<lparr>rm_Annotations := add (rm_Annotations m)\<rparr>) w
           | ObjMutatingWebhook m w \<Rightarrow> ObjMutatingWebhook (m\<lparr>rm_Annotations := add (rm_Annotations m)\<rparr>) w
           | ObjCrd c \<Rightarrow> ObjCrd (c\<lparr>crd_Annotations := add (crd_Annotations c)\<rparr>)
           | ObjService m s \<Rightarrow> ObjService (m\<lparr>rm_Annotations :=
               set_annotation ''service.beta.openshift.io/serving-cert-secret-name'' (cc_CertName cfg) (rm_Annotations m)\<rparr>) s
           | _ \<Rightarrow> obj))"

definition OpenshiftServiceCaCertificateProvider :: certificate_provider where
  "OpenshiftServiceCaCertificateProvider =
     \<lparr>cp_InjectCABundle = openshift_InjectCABundle, cp_AdditionalObjects = \<lambda>cfg. Inr [], cp_GetCertSecretInfo = tls_secret\<rparr>"

subsection \<open>Options\<close>

type_synonym render_option = "render_options \<Rightarrow> render_options"

definition WithTargetNamespaces :: "string list \<Rightarrow> render_option" where
  "WithTargetNamespaces namespaces ro = (if namespaces \<noteq> [] then ro\<lparr>ro_TargetNamespaces := namespaces\<rparr> else ro)"

definition WithUniqueNameGenerator :: "(string \<Rightarrow> permission \<Rightarrow> string option) option \<Rightarrow> render_option" where
  "WithUniqueNameGenerator generator ro = ro\<lparr>ro_UniqueNameGenerator := generator\<rparr>"

definition WithCertificateProvider :: "certificate_provider option \<Rightarrow> render_option" where
  "WithCertificateProvider provider ro = ro\<lparr>ro_CertificateProvider := provider\<rparr>"

definition WithDeploymentConfig :: "deployment_config option \<Rightarrow> render_option" where
  "WithDeploymentConfig deploymentConfig ro = ro\<lparr>ro_DeploymentConfig := deploymentConfig\<rparr>"

text \<open>Options that are nil are skipped.\<close>

definition apply_options :: "render_option option list \<Rightarrow> render_options \<Rightarrow> render_options" where
  "apply_options opts ro = foldl (\<lambda>acc opt. case opt of None \<Rightarrow> acc | Some f \<Rightarrow> f acc) ro opts"

definition validateTargetNamespaces :: "registry_v1 \<Rightarrow> string \<Rightarrow> string list \<Rightarrow> go_error option" where
  "validateTargetNamespaces rv1 installNamespace targetNamespaces =
     (let modes = supportedBundleInstallModes rv1;
          S = set targetNamespaces;
          shown = ''supported install modes '' @ show_strings (sorted_list_of_set modes);
          unsupported = Some (ErrText (shown @ '' do not support target namespaces '' @ show_strings targetNamespaces)) in
      if card S = 0 then
        (if InstallModeTypeMultiNamespace \<in> modes then Some (ErrText ''at least one target namespace must be specified'')
         else Some (ErrText ''exactly one target namespace must be specified''))
      else if card S = 1 \<and> '''' \<in> S then
        (if InstallModeTypeAllNamespaces \<in> modes then None
         else Some (ErrText (shown @ '' do not support targeting all namespaces'')))
      else if card S = 1 \<and> '''' \<notin> S then
        (if targetNamespaces ! 0 = installNamespace then
           (if InstallModeTypeOwnNamespace \<notin> modes then Some (ErrText (shown @ '' do not support targeting own namespace''))
            else None)
         else if InstallModeTypeSingleNamespace \<in> modes then None
         else unsupported)
      else
        (if InstallModeTypeOwnNamespace \<notin> modes \<and> installNamespace \<in> S then
           Some (ErrText (shown @ '' do not support targeting own namespace''))
         else if InstallModeTypeMultiNamespace \<in> modes \<and> '''' \<notin> S then None
         else unsupported))"

definition defaultTargetNamespacesForBundle :: "registry_v1 \<Rightarrow> string list" where
  "defaultTargetNamespacesForBundle rv1 =
     (if InstallModeTypeAllNamespaces \<in> supportedBundleInstallModes rv1 then [''''] else [])"

definition validate_options :: "render_options \<Rightarrow> registry_v1 \<Rightarrow> go_error list" where
  "validate_options ro rv1 =
     (if ro_UniqueNameGenerator ro = None then [ErrText ''unique name generator must be specified''] else []) @
     (case validateTargetNamespaces rv1 (ro_InstallNamespace ro) (ro_TargetNamespaces ro) of
        None \<Rightarrow> []
      | Some err \<Rightarrow> [ErrWrap (''invalid target namespaces '' @ show_strings (ro_TargetNamespaces ro) @ '': '') err ''''])"

subsection \<open>Rendering\<close>

record bundle_renderer =
  br_BundleValidator :: bundle_validator
  br_ResourceGenerators :: "resource_generator list"

record render_env =
  rn_encode :: "permission \<Rightarrow> string option"
  rn_sha224 :: "string \<Rightarrow> 8 word list"
  rn_listing :: listing

definition render_settings :: "render_env \<Rightarrow> registry_v1 \<Rightarrow> string \<Rightarrow> render_option option list \<Rightarrow> render_options" where
  "render_settings env rv1 installNamespace opts =
     apply_options opts
       \<lparr>ro_InstallNamespace = installNamespace, ro_TargetNamespaces = defaultTargetNamespacesForBundle rv1,
        ro_UniqueNameGenerator = Some (DefaultUniqueNameGenerator (rn_encode env) (rn_sha224 env)),
        ro_CertificateProvider = None, ro_DeploymentConfig = None\<rparr>"

definition Render ::
  "bundle_renderer \<Rightarrow> render_env \<Rightarrow> registry_v1 \<Rightarrow> string \<Rightarrow> render_option option list \<Rightarrow> client_object list gen" where
  "Render r env rv1 installNamespace opts =
     (case Validate (br_BundleValidator r) rv1 of
        Some err \<Rightarrow> Some (Inl err)
      | None \<Rightarrow>
          (let genOpts = render_settings env rv1 installNamespace opts; errs = validate_options genOpts rv1 in
           if errs \<noteq> [] then Some (Inl (ErrWrap ''invalid option(s): '' (ErrJoin errs) ''''))
           else GenerateResources (br_ResourceGenerators r) (rn_listing env) (Some rv1) genOpts))"

definition Renderer :: bundle_renderer where
  "Renderer = \<lparr>br_BundleValidator = BundleValidator, br_ResourceGenerators = ResourceGenerators\<rparr>"

section \<open>Lemmas\<close>

subsection \<open>The certificate providers keep their contract\<close>

lemma certmanager_keeps: "certmanager_InjectCABundle obj cfg = Inr obj' \<Longrightarrow> erase_annotations obj' = erase_annotations obj"
  by (cases obj) (auto simp: certmanager_InjectCABundle_def Let_def)

lemma openshift_keeps: "openshift_InjectCABundle obj cfg = Inr obj' \<Longrightarrow> erase_annotations obj' = erase_annotations obj"
  by (cases obj) (auto simp: openshift_InjectCABundle_def Let_def)

interpretation cert_manager: annotation_injector "CertManagerCertificateProvider toUnstructured" for toUnstructured
  by unfold_locales
    (simp_all add: CertManagerCertificateProvider_def certmanager_keeps, simp add: certmanager_InjectCABundle_def Let_def)

interpretation service_ca: annotation_injector OpenshiftServiceCaCertificateProvider
  by unfold_locales
    (simp_all add: OpenshiftServiceCaCertificateProvider_def openshift_keeps, simp add: openshift_InjectCABundle_def Let_def)

lemma issuer_name_exists: "\<exists>n. issuer_name cfg = Some n"
  unfolding issuer_name_def by (rule ObjectName_total) (simp add: maxNameLength_def)

subsection \<open>Target namespaces\<close>

lemma target_namespaces_ok:
  "validateTargetNamespaces rv1 ns targets = None \<longleftrightarrow>
     (let modes = supportedBundleInstallModes rv1; S = set targets in
      S = {''''} \<and> InstallModeTypeAllNamespaces \<in> modes \<or>
      (\<exists>t. S = {t} \<and> t \<noteq> '''' \<and> (if t = ns then InstallModeTypeOwnNamespace \<in> modes else InstallModeTypeSingleNamespace \<in> modes)) \<or>
      card S \<ge> 2 \<and> '''' \<notin> S \<and> InstallModeTypeMultiNamespace \<in> modes \<and> (ns \<in> S \<longrightarrow> InstallModeTypeOwnNamespace \<in> modes))"
proof (cases "card (set targets) \<le> 1")
  case False
  then have big: "card (set targets) \<ge> 2" and card: "card (set targets) \<noteq> 0" "card (set targets) \<noteq> 1" by linarith+
  have single: "set targets \<noteq> {t}" for t
  proof
    assume "set targets = {t}"
    with big show False by simp
  qed
  show ?thesis
    unfolding validateTargetNamespaces_def Let_def using card big
    by (simp add: single del: card_0_eq) blast
next
  case True
  show ?thesis
  proof (cases targets)
    case Nil
    then show ?thesis by (simp add: validateTargetNamespaces_def Let_def)
  next
    case (Cons t ts)
    have "\<forall>x \<in> set targets. \<forall>y \<in> set targets. x = y"
      using True card_le_Suc0_iff_eq [of "set targets"] by simp
    moreover have t: "t \<in> set targets" using Cons by simp
    ultimately have S: "set targets = {t}" by blast
    have nth: "targets ! 0 = t" by (simp add: Cons)
    show ?thesis unfolding validateTargetNamespaces_def Let_def S nth by simp
  qed
qed

subsection \<open>The parts of a rendering\<close>

record rendered =
  rd_accounts :: "client_object list"
  rd_roles :: "client_object list"
  rd_cluster_roles :: "client_object list"
  rd_crds :: "client_object list"
  rd_others :: "client_object list"
  rd_deployments :: "client_object list"
  rd_validating :: "client_object list"
  rd_mutating :: "client_object list"
  rd_services :: "client_object list"
  rd_certs :: "client_object list"

definition rendered_objects :: "rendered \<Rightarrow> client_object list" where
  "rendered_objects r = rd_accounts r @ rd_roles r @ rd_cluster_roles r @ rd_crds r @ rd_others r @ rd_deployments r @
     rd_validating r @ rd_mutating r @ rd_services r @ rd_certs r"

definition rendered_by :: "listing \<Rightarrow> registry_v1 \<Rightarrow> render_options \<Rightarrow> rendered \<Rightarrow> bool" where
  "rendered_by ls b opts r \<longleftrightarrow>
     BundleCSVServiceAccountGenerator ls (Some b) opts = Some (Inr (rd_accounts r)) \<and>
     BundleCSVPermissionsGenerator ls (Some b) opts = Some (Inr (rd_roles r)) \<and>
     BundleCSVClusterPermissionsGenerator ls (Some b) opts = Some (Inr (rd_cluster_roles r)) \<and>
     BundleCRDGenerator ls (Some b) opts = Some (Inr (rd_crds r)) \<and>
     BundleAdditionalResourcesGenerator ls (Some b) opts = Some (Inr (rd_others r)) \<and>
     BundleCSVDeploymentGenerator ls (Some b) opts = Some (Inr (rd_deployments r)) \<and>
     BundleValidatingWebhookResourceGenerator ls (Some b) opts = Some (Inr (rd_validating r)) \<and>
     BundleMutatingWebhookResourceGenerator ls (Some b) opts = Some (Inr (rd_mutating r)) \<and>
     BundleDeploymentServiceResourceGenerator ls (Some b) opts = Some (Inr (rd_services r)) \<and>
     CertProviderResourceGenerator ls (Some b) opts = Some (Inr (rd_certs r))"

lemma GenerateResources_parts:
  assumes "GenerateResources ResourceGenerators ls (Some b) opts = Some (Inr objs)"
  obtains r where "rendered_by ls b opts r" and "objs = rendered_objects r"
proof -
  obtain oss where gen: "gen_map (\<lambda>g. g ls (Some b) opts) ResourceGenerators = Some (Inr oss)" and objs: "objs = concat oss"
    using assms by (auto simp: GenerateResources_def gen_bind_ok)
  then have "list_all2 (\<lambda>g ys. g ls (Some b) opts = Some (Inr ys)) ResourceGenerators oss" by (simp add: gen_map_ok)
  then obtain a1 a2 a3 a4 a5 a6 a7 a8 a9 a10 where oss: "oss = [a1, a2, a3, a4, a5, a6, a7, a8, a9, a10]"
    and r: "rendered_by ls b opts \<lparr>rd_accounts = a1, rd_roles = a2, rd_cluster_roles = a3, rd_crds = a4, rd_others = a5,
      rd_deployments = a6, rd_validating = a7, rd_mutating = a8, rd_services = a9, rd_certs = a10\<rparr>"
    unfolding ResourceGenerators_def list_all2_Cons1 list_all2_Nil rendered_by_def by (elim exE conjE) simp
  show thesis by (rule that [OF r]) (simp add: objs oss rendered_objects_def)
qed

lemma gen_map_memD: "gen_map f xs = Some (Inr ys) \<Longrightarrow> y \<in> set ys \<Longrightarrow> \<exists>x \<in> set xs. f x = Some (Inr y)"
  by (simp add: gen_map_mem)

lemma crds_kind:
  assumes "BundleCRDGenerator ls (Some b) opts = Some (Inr objs)" and "lawful_provider opts" and "obj \<in> set objs"
  shows "\<exists>c. obj = ObjCrd c"
proof -
  obtain m where "gen_map (crd_object opts m) (rv1_CRDs b) = Some (Inr objs)"
    using assms(1) by (auto simp: BundleCRDGenerator_def split: sum.splits)
  from gen_map_memD [OF this assms(3)] obtain crd where crd: "crd_object opts m crd = Some (Inr obj)" by blast
  show ?thesis
  proof (cases "map_of m (crd_Name crd)")
    case None
    with crd show ?thesis by (auto simp: crd_object_def)
  next
    case (Some cw)
    with crd obtain c where "InjectCABundle (provisioner (wh_DeploymentName cw) opts) (ObjCrd c) = Inr obj"
      by (auto simp: crd_object_def Let_def split: if_splits)
    then show ?thesis using lawful_crd [OF assms(2)] by (metis sum.inject(2))
  qed
qed

lemma others_kind:
  assumes "BundleAdditionalResourcesGenerator ls (Some b) opts = Some (Inr objs)" and "obj \<in> set objs"
  shows "\<exists>j. obj = ObjUnstructured j"
proof -
  obtain res where "(let (supported, namespaced) = IsSupported (GetKind res) in
      if \<not> supported then
        Some (Inl (ErrText (''bundle contains unsupported resource: Name: '' @ GetName res @ '', Kind: '' @ GetKind res)))
      else Some (Inr (ObjUnstructured (if namespaced then SetNamespace res (ro_InstallNamespace opts) else res)))) = Some (Inr obj)"
    using gen_map_memD [OF assms(1) [unfolded BundleAdditionalResourcesGenerator_def option.case(2)] assms(2)] by blast
  then show ?thesis by (auto simp: Let_def split: prod.splits if_splits)
qed

lemma deployments_kind:
  assumes "BundleCSVDeploymentGenerator ls (Some b) opts = Some (Inr objs)" and "obj \<in> set objs"
  shows "\<exists>d. obj = ObjDeployment d"
  using gen_map_memD [OF assms(1) [unfolded BundleCSVDeploymentGenerator_def option.case(2)] assms(2)]
  by (auto simp: deployment_object_eq)

lemma validating_kind:
  assumes "BundleValidatingWebhookResourceGenerator ls (Some b) opts = Some (Inr objs)" and "lawful_provider opts"
    and "obj \<in> set objs"
  shows "\<exists>m w. obj = ObjValidatingWebhook m w"
proof -
  obtain wh where "validating_object opts wh = Some (Inr obj)"
    using gen_map_memD [OF assms(1) [unfolded BundleValidatingWebhookResourceGenerator_def option.case(2)] assms(3)] by blast
  then show ?thesis unfolding validating_object_eq using lawful_validating [OF assms(2)] by (metis option.inject sum.inject(2))
qed

lemma mutating_kind:
  assumes "BundleMutatingWebhookResourceGenerator ls (Some b) opts = Some (Inr objs)" and "lawful_provider opts"
    and "obj \<in> set objs"
  shows "\<exists>m w. obj = ObjMutatingWebhook m w"
proof -
  obtain wh where "mutating_object opts wh = Some (Inr obj)"
    using gen_map_memD [OF assms(1) [unfolded BundleMutatingWebhookResourceGenerator_def option.case(2)] assms(3)] by blast
  then show ?thesis unfolding mutating_object_eq using lawful_mutating [OF assms(2)] by (metis option.inject sum.inject(2))
qed

lemma services_kind:
  assumes "BundleDeploymentServiceResourceGenerator ls (Some b) opts = Some (Inr objs)" and "lawful_provider opts"
    and "obj \<in> set objs"
  shows "\<exists>m s. obj = ObjService m s"
proof -
  obtain d ports where "service_object ls opts d ports = Some (Inr obj)"
    using gen_map_memD [OF assms(1) [unfolded BundleDeploymentServiceResourceGenerator_def option.case(2) Let_def] assms(3)] by blast
  then show ?thesis unfolding service_object_eq using lawful_service [OF assms(2)] by (metis option.inject sum.inject(2))
qed

lemma certs_kind:
  assumes "CertProviderResourceGenerator ls (Some b) opts = Some (Inr objs)" and "obj \<in> set objs"
  shows "\<exists>j. obj = ObjUnstructured j"
  using assms by (auto simp: CertProviderResourceGenerator_def gen_bind_ok)

lemma accounts_kind:
  assumes "BundleCSVServiceAccountGenerator ls (Some b) opts = Some (Inr objs)" and "obj \<in> set objs"
  shows "\<exists>m. obj = ObjServiceAccount m"
  using assms by (auto simp: service_accounts_eq)

subsection \<open>What a rendering grants\<close>

lemma roles_kind:
  assumes "BundleCSVPermissionsGenerator ls (Some b) opts = Some (Inr objs)" and "obj \<in> set objs"
  shows "(\<exists>m r. obj = ObjRole m r) \<or> (\<exists>m s r. obj = ObjRoleBinding m s r)"
proof (cases "all_namespaces opts")
  case True
  with assms show ?thesis by (simp add: BundleCSVPermissionsGenerator_def)
next
  case False
  from assms(2) show ?thesis unfolding BundleCSVPermissions_mem [OF assms(1) False] by blast
qed

lemma cluster_roles_kind:
  assumes "BundleCSVClusterPermissionsGenerator ls (Some b) opts = Some (Inr objs)" and "obj \<in> set objs"
  shows "(\<exists>m r. obj = ObjClusterRole m r) \<or> (\<exists>m s r. obj = ObjClusterRoleBinding m s r)"
  using assms(2) unfolding BundleCSVClusterPermissions_mem [OF assms(1)] by blast

text \<open>Every object of a rendering is in the part of its kind.\<close>

definition in_its_part :: "rendered \<Rightarrow> client_object \<Rightarrow> bool" where
  "in_its_part r obj =
     (case obj of
        ObjServiceAccount _ \<Rightarrow> obj \<in> set (rd_accounts r)
      | ObjRole _ _ \<Rightarrow> obj \<in> set (rd_roles r)
      | ObjRoleBinding _ _ _ \<Rightarrow> obj \<in> set (rd_roles r)
      | ObjClusterRole _ _ \<Rightarrow> obj \<in> set (rd_cluster_roles r)
      | ObjClusterRoleBinding _ _ _ \<Rightarrow> obj \<in> set (rd_cluster_roles r)
      | ObjCrd _ \<Rightarrow> obj \<in> set (rd_crds r)
      | ObjDeployment _ \<Rightarrow> obj \<in> set (rd_deployments r)
      | ObjValidatingWebhook _ _ \<Rightarrow> obj \<in> set (rd_validating r)
      | ObjMutatingWebhook _ _ \<Rightarrow> obj \<in> set (rd_mutating r)
      | ObjService _ _ \<Rightarrow> obj \<in> set (rd_services r)
      | ObjUnstructured _ \<Rightarrow> obj \<in> set (rd_others r) \<union> set (rd_certs r))"

lemma rendered_kinds:
  assumes "rendered_by ls b opts r" and "lawful_provider opts" and "obj \<in> set (rendered_objects r)"
  shows "in_its_part r obj"
proof -
  note parts = assms(1) [unfolded rendered_by_def]
  consider "obj \<in> set (rd_roles r)" | "obj \<in> set (rd_cluster_roles r)" | "obj \<in> set (rd_accounts r)" | "obj \<in> set (rd_crds r)"
    | "obj \<in> set (rd_others r)" | "obj \<in> set (rd_deployments r)" | "obj \<in> set (rd_validating r)"
    | "obj \<in> set (rd_mutating r)" | "obj \<in> set (rd_services r)" | "obj \<in> set (rd_certs r)"
    using assms(3) by (auto simp: rendered_objects_def)
  then show ?thesis
  proof cases
    case 1 then show ?thesis using roles_kind parts by (fastforce simp: in_its_part_def)
  next
    case 2 then show ?thesis using cluster_roles_kind parts by (fastforce simp: in_its_part_def)
  next
    case 3 then show ?thesis using accounts_kind parts by (fastforce simp: in_its_part_def)
  next
    case 4 then show ?thesis using crds_kind [OF _ assms(2)] parts by (fastforce simp: in_its_part_def)
  next
    case 5 then show ?thesis using others_kind parts by (fastforce simp: in_its_part_def)
  next
    case 6 then show ?thesis using deployments_kind parts by (fastforce simp: in_its_part_def)
  next
    case 7 then show ?thesis using validating_kind [OF _ assms(2)] parts by (fastforce simp: in_its_part_def)
  next
    case 8 then show ?thesis using mutating_kind [OF _ assms(2)] parts by (fastforce simp: in_its_part_def)
  next
    case 9 then show ?thesis using services_kind [OF _ assms(2)] parts by (fastforce simp: in_its_part_def)
  next
    case 10 then show ?thesis using certs_kind parts by (fastforce simp: in_its_part_def)
  qed
qed

lemma rendered_not_rbac:
  assumes "rendered_by ls b opts r" and "lawful_provider opts" and "obj \<in> set (rendered_objects r)" and "is_rbac obj"
  shows "obj \<in> set (rd_roles r) \<union> set (rd_cluster_roles r)"
  using rendered_kinds [OF assms(1,2,3)] assms(4) by (auto simp: in_its_part_def is_rbac_def split: client_object.splits)

text \<open>What the bundle asks for, given the target namespaces.\<close>

definition requested_grants :: "cluster_service_version \<Rightarrow> string \<Rightarrow> string list \<Rightarrow> grant set" where
  "requested_grants csv ns targets =
     {(None, ns, saNameOrDefault (perm_ServiceAccountName p), rule) |p rule.
        p \<in> set (csv_ClusterPermissions csv) \<and> rule \<in> set (perm_Rules p)} \<union>
     (if targets = [''''] then
        {(None, ns, saNameOrDefault (perm_ServiceAccountName p), rule) |p rule.
           p \<in> set (csv_Permissions csv) \<and> (rule \<in> set (perm_Rules p) \<or> rule = namespace_rule)}
      else
        {(Some t, ns, saNameOrDefault (perm_ServiceAccountName p), rule) |t p rule.
           t \<in> set targets \<and> p \<in> set (csv_Permissions csv) \<and> rule \<in> set (perm_Rules p)})"

lemma all_namespaces_rules:
  assumes "all_namespaces opts"
  shows "(\<exists>q \<in> set (cluster_permissions csv opts). a = saNameOrDefault (perm_ServiceAccountName q) \<and> rule \<in> set (perm_Rules q)) \<longleftrightarrow>
     (\<exists>p \<in> set (csv_ClusterPermissions csv). a = saNameOrDefault (perm_ServiceAccountName p) \<and> rule \<in> set (perm_Rules p)) \<or>
     (\<exists>p \<in> set (csv_Permissions csv). a = saNameOrDefault (perm_ServiceAccountName p) \<and>
        (rule \<in> set (perm_Rules p) \<or> rule = namespace_rule))"
  using assms by (simp add: cluster_permissions_def bex_Un) blast

lemma rendered_grants:
  assumes "rendered_by ls b opts r" and "lawful_provider opts" and "separates_permissions (rv1_CSV b) opts"
  shows "grants (set (rendered_objects r)) =
    requested_grants (rv1_CSV b) (ro_InstallNamespace opts) (ro_TargetNamespaces opts)"
proof -
  note parts = assms(1) [unfolded rendered_by_def]
  have rg: "BundleCSVPermissionsGenerator ls (Some b) opts = Some (Inr (rd_roles r))"
    and cg: "BundleCSVClusterPermissionsGenerator ls (Some b) opts = Some (Inr (rd_cluster_roles r))" using parts by simp_all
  have "grants (set (rendered_objects r)) = grants (set (rd_roles r) \<union> set (rd_cluster_roles r))"
    by (rule grants_rbac_only [OF rendered_not_rbac [OF assms(1,2)]]) (auto simp: rendered_objects_def)
  also have "\<dots> = grants (set (rd_roles r)) \<union> grants (set (rd_cluster_roles r))"
    by (rule grants_disjoint [OF roles_kind [OF rg] cluster_roles_kind [OF cg]])
  also have "grants (set (rd_cluster_roles r)) =
      {(None, ro_InstallNamespace opts, saNameOrDefault (perm_ServiceAccountName p), rule) |p rule.
        p \<in> set (cluster_permissions (rv1_CSV b) opts) \<and> rule \<in> set (perm_Rules p)}"
    by (rule cluster_grants_eq [OF cg assms(3)])
  finally have all: "grants (set (rendered_objects r)) = grants (set (rd_roles r)) \<union> \<dots>" .
  show ?thesis
  proof (cases "all_namespaces opts")
    case True
    then have "rd_roles r = []" using rg by (simp add: BundleCSVPermissionsGenerator_def)
    then have "grants (set (rd_roles r)) = {}" by (simp add: grants_def namespace_grants_def cluster_grants_def)
    moreover have "{(None :: string option, ns, saNameOrDefault (perm_ServiceAccountName p), rule) |p rule. p \<in> A \<and> Q p rule} =
        {(None, ns, a, rule) |a rule. \<exists>p \<in> A. a = saNameOrDefault (perm_ServiceAccountName p) \<and> Q p rule}"
      for ns :: string and A and Q :: "permission \<Rightarrow> policy_rule \<Rightarrow> bool"
      by blast
    ultimately have "grants (set (rendered_objects r)) =
        {(None, ro_InstallNamespace opts, a, rule) |a rule.
          \<exists>q \<in> set (cluster_permissions (rv1_CSV b) opts). a = saNameOrDefault (perm_ServiceAccountName q) \<and> rule \<in> set (perm_Rules q)}"
      using all by simp
    also have "\<dots> = requested_grants (rv1_CSV b) (ro_InstallNamespace opts) (ro_TargetNamespaces opts)"
      unfolding all_namespaces_rules [OF True] requested_grants_def if_P [OF True [unfolded all_namespaces_def]] by blast
    finally show ?thesis .
  next
    case False
    from all False show ?thesis unfolding namespace_grants_eq [OF rg False assms(3)]
      by (auto simp: requested_grants_def cluster_permissions_def all_namespaces_def)
  qed
qed

subsection \<open>Webhooks and their services\<close>

text \<open>The ports of the webhooks of a deployment, and that the listing of such a set has its elements.\<close>

definition webhook_ports :: "registry_v1 \<Rightarrow> string \<Rightarrow> service_port set" where
  "webhook_ports b d = getWebhookServicePort ` {wh \<in> set (rv1_webhooks b). wh_DeploymentName wh = d}"

definition lists_ports :: "listing \<Rightarrow> registry_v1 \<Rightarrow> bool" where
  "lists_ports ls b \<longleftrightarrow> (\<forall>d. set (ls_ports ls (webhook_ports b d)) = webhook_ports b d)"

lemma service_ports_lookup:
  "map_of (service_ports whs) d = None \<longleftrightarrow> d \<notin> wh_DeploymentName ` set whs"
  "get_or {} (service_ports whs) d = getWebhookServicePort ` {wh \<in> set whs. wh_DeploymentName wh = d}"
  by (induction whs rule: rev_induct) (auto simp: service_ports_def update_conv' get_or_def)

interpretation port_order: comparison compare_ports
  unfolding compare_ports_def [abs_def]
  by (rule comparison_lex [OF comparison_pullback [OF comparison_go_compare, of sp_Port]
      comparison_pullback [OF comparison_go_compare, of "\<lambda>p. IntValue (sp_TargetPort p)"]])

lemma rendered_service:
  assumes "rendered_by ls b opts r" and "lawful_provider opts" and "lists_ports ls b"
    and "d \<in> set (rv1_deployments b)" and "sd_Name d \<in> wh_DeploymentName ` set (rv1_webhooks b)"
  shows "\<exists>m spec. ObjService m (Some spec) \<in> set (rd_services r) \<and> rm_Name m = service_name (sd_Name d) \<and>
     rm_Namespace m = ro_InstallNamespace opts \<and>
     set (svs_Ports spec) = webhook_ports b (sd_Name d)"
proof -
  let ?m = "service_ports (rv1_webhooks b)"
  let ?ports = "get_or {} ?m (sd_Name d)"
  have gen: "gen_map (\<lambda>d. service_object ls opts d (get_or {} ?m (sd_Name d)))
      (filter (\<lambda>d. map_of ?m (sd_Name d) \<noteq> None) (rv1_deployments b)) = Some (Inr (rd_services r))"
    using assms(1) by (simp add: rendered_by_def BundleDeploymentServiceResourceGenerator_def Let_def)
  have "d \<in> set (filter (\<lambda>d. map_of ?m (sd_Name d) \<noteq> None) (rv1_deployments b))"
    using assms(4,5) by (simp add: service_ports_lookup(1))
  from gen_map_all_ok [OF gen this] obtain obj where obj: "service_object ls opts d ?ports = Some (Inr obj)" by blast
  then have mem: "obj \<in> set (rd_services r)"
    unfolding gen_map_mem [OF gen] using \<open>d \<in> set (filter _ _)\<close> by blast
  have ports: "?ports = webhook_ports b (sd_Name d)" by (simp add: service_ports_lookup(2) webhook_ports_def)
  define spec where "spec = \<lparr>svs_Ports = sort_by compare_ports (ls_ports ls ?ports),
      svs_Selector = (case ds_Selector (sd_Spec d) of None \<Rightarrow> [] | Some sel \<Rightarrow> sel_MatchLabels sel)\<rparr>"
  obtain m where m: "InjectCABundle (provisioner (sd_Name d) opts)
      (ObjService (new_meta (service_name (sd_Name d)) (ro_InstallNamespace opts)) (Some spec)) = Inr (ObjService m (Some spec))"
    "rm_Name m = service_name (sd_Name d)" "rm_Namespace m = ro_InstallNamespace opts"
    using lawful_service [OF assms(2), of "sd_Name d" "new_meta (service_name (sd_Name d)) (ro_InstallNamespace opts)" "Some spec"]
    by (elim exE conjE) simp
  have "obj = ObjService m (Some spec)" using obj m(1) by (simp add: service_object_eq spec_def)
  moreover have "set (svs_Ports spec) = webhook_ports b (sd_Name d)"
    using assms(3) by (simp add: port_order.set_sort_by lists_ports_def spec_def ports)
  ultimately show ?thesis using mem m(2,3) by blast
qed

lemma rendered_validating:
  assumes "rendered_by ls b opts r" and "lawful_provider opts" and "wh \<in> set (rv1_webhooks b)"
    and "wh_Type wh = ValidatingAdmissionWebhook"
  shows "\<exists>m. ObjValidatingWebhook m [admission_webhook_of wh opts (provisioner (wh_DeploymentName wh) opts)] \<in> set (rd_validating r) \<and>
     rm_Name m = TrimHyphen (wh_GenerateName wh)"
proof -
  have gen: "gen_map (validating_object opts) (filter (\<lambda>wh. wh_Type wh = ValidatingAdmissionWebhook) (rv1_webhooks b)) =
      Some (Inr (rd_validating r))"
    using assms(1) by (simp add: rendered_by_def BundleValidatingWebhookResourceGenerator_def)
  have wh: "wh \<in> set (filter (\<lambda>wh. wh_Type wh = ValidatingAdmissionWebhook) (rv1_webhooks b))" using assms(3,4) by simp
  obtain m where "validating_object opts wh = Some (Inr (ObjValidatingWebhook m
      [admission_webhook_of wh opts (provisioner (wh_DeploymentName wh) opts)]))" "rm_Name m = TrimHyphen (wh_GenerateName wh)"
    unfolding validating_object_eq using lawful_validating [OF assms(2)] by (metis new_meta_simps(1))
  then show ?thesis using wh gen_map_mem [OF gen] by blast
qed

lemma rendered_mutating:
  assumes "rendered_by ls b opts r" and "lawful_provider opts" and "wh \<in> set (rv1_webhooks b)"
    and "wh_Type wh = MutatingAdmissionWebhook"
  shows "\<exists>m. ObjMutatingWebhook m [(admission_webhook_of wh opts (provisioner (wh_DeploymentName wh) opts))
      \<lparr>aw_ReinvocationPolicy := wh_ReinvocationPolicy wh\<rparr>] \<in> set (rd_mutating r) \<and>
     rm_Name m = TrimHyphen (wh_GenerateName wh)"
proof -
  have gen: "gen_map (mutating_object opts) (filter (\<lambda>wh. wh_Type wh = MutatingAdmissionWebhook) (rv1_webhooks b)) =
      Some (Inr (rd_mutating r))"
    using assms(1) by (simp add: rendered_by_def BundleMutatingWebhookResourceGenerator_def)
  have wh: "wh \<in> set (filter (\<lambda>wh. wh_Type wh = MutatingAdmissionWebhook) (rv1_webhooks b))" using assms(3,4) by simp
  obtain m where "mutating_object opts wh = Some (Inr (ObjMutatingWebhook m
      [(admission_webhook_of wh opts (provisioner (wh_DeploymentName wh) opts))
        \<lparr>aw_ReinvocationPolicy := wh_ReinvocationPolicy wh\<rparr>]))" "rm_Name m = TrimHyphen (wh_GenerateName wh)"
    unfolding mutating_object_eq using lawful_mutating [OF assms(2)] by (metis new_meta_simps(1))
  then show ?thesis using wh gen_map_mem [OF gen] by blast
qed

lemma crd_webhooks_ok:
  assumes "distinct (map fst rs)" and "\<forall>k \<in> fst ` set rs. map_of m k = None"
  shows "\<exists>m'. crd_webhooks m rs = Inr m' \<and> (\<forall>k. map_of m' k = (case map_of rs k of Some w \<Rightarrow> Some w | None \<Rightarrow> map_of m k))"
  using assms
proof (induction m rs rule: crd_webhooks.induct)
  case (2 m crdName wh rs)
  have none: "map_of m crdName = None" using 2(3) by simp
  have "\<forall>k \<in> fst ` set rs. map_of (AList.update crdName wh m) k = None"
    using 2(2,3) by (auto simp: update_conv')
  with 2(1) 2(2) none obtain m' where m': "crd_webhooks (AList.update crdName wh m) rs = Inr m'"
    "\<And>k. map_of m' k = (case map_of rs k of Some w \<Rightarrow> Some w | None \<Rightarrow> map_of (AList.update crdName wh m) k)" by auto
  have "map_of rs crdName = None" using 2(2) by (simp add: map_of_eq_None_iff)
  then show ?case using m' none by (auto simp: update_conv' split: option.split)
qed simp


lemma conversion_references_fst:
  "map fst (conversion_references whs) = concat (map wh_ConversionCRDs (filter (\<lambda>wh. wh_Type wh = ConversionWebhook) whs))"
  by (induction whs) (auto simp: conversion_references_def comp_def)

subsection \<open>When rendering succeeds\<close>

text \<open>The CRDs that a conversion webhook converts do not preserve unknown fields.\<close>

definition conversion_crds :: "registry_v1 \<Rightarrow> string list" where
  "conversion_crds b = concat (map wh_ConversionCRDs (filter (\<lambda>wh. wh_Type wh = ConversionWebhook) (rv1_webhooks b)))"

definition convertible :: "registry_v1 \<Rightarrow> bool" where
  "convertible b \<longleftrightarrow> (\<forall>crd \<in> set (rv1_CRDs b). crd_Name crd \<in> set (conversion_crds b) \<longrightarrow> \<not> crd_PreserveUnknownFields crd)"

text \<open>What the rendering relies on: names exist, and the provider makes its objects.\<close>

definition total_options :: "render_options \<Rightarrow> bool" where
  "total_options opts \<longleftrightarrow> lawful_provider opts \<and> (\<forall>base p. unique_name opts base p \<noteq> None) \<and>
     (\<forall>p cfg. ro_CertificateProvider opts = Some p \<longrightarrow> (\<exists>js. cp_AdditionalObjects p cfg = Inr js))"

lemma conversion_map:
  assumes "well_formed_bundle b"
  obtains m where "crd_webhooks [] (conversion_references (rv1_webhooks b)) = Inr m"
    and "\<And>k. map_of m k = map_of (conversion_references (rv1_webhooks b)) k"
proof -
  have "distinct (map fst (conversion_references (rv1_webhooks b)))"
    using assms by (simp add: conversion_references_fst well_formed_bundle_def Let_def)
  from crd_webhooks_ok [OF this, of "[]"] obtain m where
    m: "crd_webhooks [] (conversion_references (rv1_webhooks b)) = Inr m"
    "\<And>k. map_of m k = (case map_of (conversion_references (rv1_webhooks b)) k of Some w \<Rightarrow> Some w | None \<Rightarrow> map_of [] k)" by auto
  show thesis
  proof (rule that [OF m(1)])
    show "map_of m k = map_of (conversion_references (rv1_webhooks b)) k" for k
      by (cases "map_of (conversion_references (rv1_webhooks b)) k") (simp_all add: m(2))
  qed
qed

lemma crd_object_outcome:
  assumes "lawful_provider opts"
  shows "crd_object opts m crd \<noteq> None"
    and "(\<exists>obj. crd_object opts m crd = Some (Inr obj)) \<longleftrightarrow> (map_of m (crd_Name crd) \<noteq> None \<longrightarrow> \<not> crd_PreserveUnknownFields crd)"
proof -
  have inj: "\<exists>obj'. InjectCABundle (provisioner d opts) obj = Inr obj'" for d obj using lawful_injects [OF assms] by blast
  show "crd_object opts m crd \<noteq> None" by (simp add: crd_object_def Let_def split: option.split)
  show "(\<exists>obj. crd_object opts m crd = Some (Inr obj)) \<longleftrightarrow> (map_of m (crd_Name crd) \<noteq> None \<longrightarrow> \<not> crd_PreserveUnknownFields crd)"
    by (cases "map_of m (crd_Name crd)") (simp_all add: crd_object_def Let_def inj)
qed

lemma gen_map_success: "(\<exists>ys. gen_map f xs = Some (Inr ys)) \<longleftrightarrow> (\<forall>x \<in> set xs. \<exists>y. f x = Some (Inr y))"
  by (meson gen_map_all_ok gen_map_total)

lemma crds_outcome:
  assumes "well_formed_bundle b" and "lawful_provider opts"
  shows "BundleCRDGenerator ls (Some b) opts \<noteq> None"
    and "(\<exists>objs. BundleCRDGenerator ls (Some b) opts = Some (Inr objs)) \<longleftrightarrow> convertible b"
proof -
  obtain m where m: "crd_webhooks [] (conversion_references (rv1_webhooks b)) = Inr m"
    "\<And>k. map_of m k = map_of (conversion_references (rv1_webhooks b)) k" using conversion_map [OF assms(1)] by blast
  show "BundleCRDGenerator ls (Some b) opts \<noteq> None"
    unfolding BundleCRDGenerator_def by (simp add: m(1) gen_map_no_panic crd_object_outcome(1) [OF assms(2)])
  have "map_of m k \<noteq> None \<longleftrightarrow> k \<in> set (conversion_crds b)" for k
    by (simp only: m(2) map_of_eq_None_iff conversion_crds_def conversion_references_fst [symmetric]) simp
  then show "(\<exists>objs. BundleCRDGenerator ls (Some b) opts = Some (Inr objs)) \<longleftrightarrow> convertible b"
    unfolding BundleCRDGenerator_def
    by (simp add: m(1) gen_map_success crd_object_outcome(2) [OF assms(2)] convertible_def del: not_None_eq)
qed

lemma others_succeed:
  assumes "well_formed_bundle b"
  shows "\<exists>objs. BundleAdditionalResourcesGenerator ls (Some b) opts = Some (Inr objs)"
proof -
  have "fst (IsSupported (GetKind obj))" if "obj \<in> set (rv1_Others b)" for obj
  proof -
    let ?k = "gvk_Kind (GroupVersionKind obj)"
    have k: "?k \<in> fst ` set supportedResources" using assms that by (simp add: well_formed_bundle_def Let_def)
    then have "?k \<noteq> ''''" by (auto simp: supportedResources_def)
    then have "?k = GetKind obj" by (auto simp: GroupVersionKind_def GetKind_def split: option.splits)
    then show ?thesis using k map_of_eq_None_iff [of supportedResources ?k] by (auto simp: IsSupported_def split: option.splits)
  qed
  then show ?thesis
    unfolding BundleAdditionalResourcesGenerator_def option.case(2) gen_map_success by (simp add: case_prod_beta Let_def)
qed

lemma permissions_succeed:
  assumes "total_options opts"
  shows "\<exists>objs. BundleCSVPermissionsGenerator ls (Some b) opts = Some (Inr objs)"
    and "\<exists>objs. BundleCSVClusterPermissionsGenerator ls (Some b) opts = Some (Inr objs)"
proof -
  have name: "\<exists>n. unique_name opts base p = Some n" for base p using assms by (simp add: total_options_def)
  then have "\<exists>os. role_objects csv opts ns p = Some (Inr os)" and c: "\<exists>os. cluster_role_objects csv opts p = Some (Inr os)" for csv ns p
    by (auto simp: role_objects_eq cluster_role_objects_eq)
  then have "\<exists>oss. gen_map (\<lambda>(ns, p). role_objects csv opts ns p) xs = Some (Inr oss)" for csv xs
    by (auto simp: gen_map_success)
  then show "\<exists>objs. BundleCSVPermissionsGenerator ls (Some b) opts = Some (Inr objs)"
    by (auto simp: BundleCSVPermissionsGenerator_def gen_bind_ok)
  have "\<exists>oss. gen_map (cluster_role_objects csv opts) xs = Some (Inr oss)" for csv xs
    using c by (auto simp: gen_map_success)
  then show "\<exists>objs. BundleCSVClusterPermissionsGenerator ls (Some b) opts = Some (Inr objs)"
    by (auto simp: BundleCSVClusterPermissionsGenerator_def gen_bind_ok)
qed

lemma webhooks_succeed:
  assumes "total_options opts"
  shows "\<exists>objs. BundleCSVDeploymentGenerator ls (Some b) opts = Some (Inr objs)"
    and "\<exists>objs. BundleValidatingWebhookResourceGenerator ls (Some b) opts = Some (Inr objs)"
    and "\<exists>objs. BundleMutatingWebhookResourceGenerator ls (Some b) opts = Some (Inr objs)"
    and "\<exists>objs. BundleDeploymentServiceResourceGenerator ls (Some b) opts = Some (Inr objs)"
    and "\<exists>objs. CertProviderResourceGenerator ls (Some b) opts = Some (Inr objs)"
proof -
  have "lawful_provider opts" using assms by (simp add: total_options_def)
  then have inj: "\<exists>obj'. InjectCABundle (provisioner d opts) obj = Inr obj'" for d obj using lawful_injects by blast
  have add: "\<exists>js. AdditionalObjects (provisioner d opts) = Inr js" for d
    using assms by (cases "ro_CertificateProvider opts") (simp_all add: AdditionalObjects_def total_options_def)
  show "\<exists>objs. BundleCSVDeploymentGenerator ls (Some b) opts = Some (Inr objs)"
    by (simp add: BundleCSVDeploymentGenerator_def gen_map_success deployment_object_eq)
  show "\<exists>objs. BundleValidatingWebhookResourceGenerator ls (Some b) opts = Some (Inr objs)"
    by (simp add: BundleValidatingWebhookResourceGenerator_def gen_map_success validating_object_eq inj)
  show "\<exists>objs. BundleMutatingWebhookResourceGenerator ls (Some b) opts = Some (Inr objs)"
    by (simp add: BundleMutatingWebhookResourceGenerator_def gen_map_success mutating_object_eq inj)
  show "\<exists>objs. BundleDeploymentServiceResourceGenerator ls (Some b) opts = Some (Inr objs)"
    by (simp add: BundleDeploymentServiceResourceGenerator_def Let_def gen_map_success service_object_eq inj)
  have "\<exists>oss. gen_map (\<lambda>depName. Some (AdditionalObjects (provisioner depName opts))) xs = Some (Inr oss)" for xs
    by (simp add: gen_map_success add)
  then show "\<exists>objs. CertProviderResourceGenerator ls (Some b) opts = Some (Inr objs)"
    by (auto simp: CertProviderResourceGenerator_def gen_bind_ok)
qed

lemma GenerateResources_outcome:
  assumes "well_formed_bundle b" and "total_options opts"
  shows "GenerateResources ResourceGenerators ls (Some b) opts \<noteq> None"
    and "(\<exists>objs. GenerateResources ResourceGenerators ls (Some b) opts = Some (Inr objs)) \<longleftrightarrow> convertible b"
proof -
  have law: "lawful_provider opts" using assms(2) by (simp add: total_options_def)
  note crds = crds_outcome [OF assms(1) law, of ls]
  have "\<exists>objs. g ls (Some b) opts = Some (Inr objs)" if "g \<in> set ResourceGenerators" "g \<noteq> BundleCRDGenerator" for g
    using that others_succeed [OF assms(1)] permissions_succeed [OF assms(2)] webhooks_succeed [OF assms(2)] service_accounts_eq
    unfolding ResourceGenerators_def by auto
  note rest = this
  have "g ls (Some b) opts \<noteq> None" if "g \<in> set ResourceGenerators" for g using rest [OF that] crds(1) by (cases "g = BundleCRDGenerator") auto
  then have "gen_map (\<lambda>g. g ls (Some b) opts) ResourceGenerators \<noteq> None" by (rule gen_map_no_panic)
  then show "GenerateResources ResourceGenerators ls (Some b) opts \<noteq> None"
    by (auto simp: GenerateResources_def gen_bind_def split: sum.splits)
  have "BundleCRDGenerator \<in> set ResourceGenerators" by (simp add: ResourceGenerators_def)
  then have "(\<forall>g \<in> set ResourceGenerators. \<exists>objs. g ls (Some b) opts = Some (Inr objs)) \<longleftrightarrow> convertible b"
    using rest crds(2) by blast
  then show "(\<exists>objs. GenerateResources ResourceGenerators ls (Some b) opts = Some (Inr objs)) \<longleftrightarrow> convertible b"
    unfolding GenerateResources_def gen_bind_ok gen_map_success [symmetric] by auto
qed

lemma Render_outcome:
  assumes "total_options (render_settings env b ns opts)"
  shows "Render Renderer env b ns opts \<noteq> None"
    and "(\<exists>objs. Render Renderer env b ns opts = Some (Inr objs)) \<longleftrightarrow>
       well_formed_bundle b \<and> validate_options (render_settings env b ns opts) b = [] \<and> convertible b"
proof -
  have R: "Render Renderer env b ns opts =
      (if \<not> well_formed_bundle b then Some (Inl (the (Validate BundleValidator b)))
       else if validate_options (render_settings env b ns opts) b \<noteq> [] then
         Some (Inl (ErrWrap ''invalid option(s): '' (ErrJoin (validate_options (render_settings env b ns opts) b)) ''''))
       else GenerateResources ResourceGenerators (rn_listing env) (Some b) (render_settings env b ns opts))"
    by (cases "Validate BundleValidator b")
      (simp_all add: Render_def Renderer_def Let_def flip: Validate_well_formed)
  show "Render Renderer env b ns opts \<noteq> None" unfolding R using GenerateResources_outcome(1) [OF _ assms] by simp
  show "(\<exists>objs. Render Renderer env b ns opts = Some (Inr objs)) \<longleftrightarrow>
       well_formed_bundle b \<and> validate_options (render_settings env b ns opts) b = [] \<and> convertible b"
    unfolding R using GenerateResources_outcome(2) [OF _ assms] by simp
qed

lemma Render_parts:
  assumes "Render Renderer env b ns opts = Some (Inr objs)"
  obtains r where "rendered_by (rn_listing env) b (render_settings env b ns opts) r" and "objs = rendered_objects r"
    and "well_formed_bundle b" and "validate_options (render_settings env b ns opts) b = []"
proof -
  have wf: "well_formed_bundle b" and v: "validate_options (render_settings env b ns opts) b = []"
    and g: "GenerateResources ResourceGenerators (rn_listing env) (Some b) (render_settings env b ns opts) = Some (Inr objs)"
    using assms by (auto simp: Render_def Renderer_def Let_def Validate_well_formed [symmetric] split: option.splits if_splits)
  show thesis by (rule GenerateResources_parts [OF g]) (rule that [OF _ _ wf v])
qed

subsection \<open>References to services\<close>

text \<open>
  The references to services that a rendering adds: those of the webhook configurations and of the CRDs
  that a conversion webhook of the bundle converts.
\<close>

inductive refers_to :: "registry_v1 \<Rightarrow> client_object set \<Rightarrow> webhook_description \<Rightarrow> service_reference \<Rightarrow> bool"
  for b objs where
  validating: "wh \<in> set (rv1_webhooks b) \<Longrightarrow> wh_Type wh = ValidatingAdmissionWebhook \<Longrightarrow>
     ObjValidatingWebhook m ws \<in> objs \<Longrightarrow> rm_Name m = TrimHyphen (wh_GenerateName wh) \<Longrightarrow> w \<in> set ws \<Longrightarrow>
     refers_to b objs wh (aw_Service w)"
| mutating: "wh \<in> set (rv1_webhooks b) \<Longrightarrow> wh_Type wh = MutatingAdmissionWebhook \<Longrightarrow>
     ObjMutatingWebhook m ws \<in> objs \<Longrightarrow> rm_Name m = TrimHyphen (wh_GenerateName wh) \<Longrightarrow> w \<in> set ws \<Longrightarrow>
     refers_to b objs wh (aw_Service w)"
| conversion: "wh \<in> set (rv1_webhooks b) \<Longrightarrow> wh_Type wh = ConversionWebhook \<Longrightarrow>
     ObjCrd c \<in> objs \<Longrightarrow> crd_Name c \<in> set (wh_ConversionCRDs wh) \<Longrightarrow> crd_Conversion c = Some conv \<Longrightarrow>
     conv_Service conv = Some ref \<Longrightarrow> refers_to b objs wh ref"

definition serves :: "client_object set \<Rightarrow> service_reference \<Rightarrow> bool" where
  "serves objs ref \<longleftrightarrow> (\<exists>m spec port. ObjService m (Some spec) \<in> objs \<and> rm_Name m = svr_Name ref \<and>
     rm_Namespace m = svr_Namespace ref \<and> port \<in> set (svs_Ports spec) \<and> svr_Port ref = Some (sp_Port port))"

lemma validating_from:
  assumes "rendered_by ls b opts r" and "lawful_provider opts" and "ObjValidatingWebhook m ws \<in> set (rd_validating r)"
  obtains wh where "wh \<in> set (rv1_webhooks b)" and "wh_Type wh = ValidatingAdmissionWebhook"
    and "rm_Name m = TrimHyphen (wh_GenerateName wh)"
    and "ws = [admission_webhook_of wh opts (provisioner (wh_DeploymentName wh) opts)]"
proof -
  have gen: "gen_map (validating_object opts) (filter (\<lambda>wh. wh_Type wh = ValidatingAdmissionWebhook) (rv1_webhooks b)) =
      Some (Inr (rd_validating r))"
    using assms(1) by (simp add: rendered_by_def BundleValidatingWebhookResourceGenerator_def)
  from gen_map_memD [OF gen assms(3)] obtain wh where wh: "wh \<in> set (rv1_webhooks b)" "wh_Type wh = ValidatingAdmissionWebhook"
    "validating_object opts wh = Some (Inr (ObjValidatingWebhook m ws))" by auto
  let ?w = "[admission_webhook_of wh opts (provisioner (wh_DeploymentName wh) opts)]"
  obtain m' where "InjectCABundle (provisioner (wh_DeploymentName wh) opts)
      (ObjValidatingWebhook (new_meta (TrimHyphen (wh_GenerateName wh)) (ro_InstallNamespace opts)) ?w) = Inr (ObjValidatingWebhook m' ?w)"
    "rm_Name m' = TrimHyphen (wh_GenerateName wh)"
    using lawful_validating [OF assms(2), of "wh_DeploymentName wh" "new_meta (TrimHyphen (wh_GenerateName wh)) (ro_InstallNamespace opts)" ?w]
    by (elim exE conjE) simp
  then show thesis using that wh by (simp add: validating_object_eq)
qed

lemma mutating_from:
  assumes "rendered_by ls b opts r" and "lawful_provider opts" and "ObjMutatingWebhook m ws \<in> set (rd_mutating r)"
  obtains wh where "wh \<in> set (rv1_webhooks b)" and "wh_Type wh = MutatingAdmissionWebhook"
    and "rm_Name m = TrimHyphen (wh_GenerateName wh)"
    and "ws = [(admission_webhook_of wh opts (provisioner (wh_DeploymentName wh) opts))\<lparr>aw_ReinvocationPolicy := wh_ReinvocationPolicy wh\<rparr>]"
proof -
  have gen: "gen_map (mutating_object opts) (filter (\<lambda>wh. wh_Type wh = MutatingAdmissionWebhook) (rv1_webhooks b)) =
      Some (Inr (rd_mutating r))"
    using assms(1) by (simp add: rendered_by_def BundleMutatingWebhookResourceGenerator_def)
  from gen_map_memD [OF gen assms(3)] obtain wh where wh: "wh \<in> set (rv1_webhooks b)" "wh_Type wh = MutatingAdmissionWebhook"
    "mutating_object opts wh = Some (Inr (ObjMutatingWebhook m ws))" by auto
  let ?w = "[(admission_webhook_of wh opts (provisioner (wh_DeploymentName wh) opts))\<lparr>aw_ReinvocationPolicy := wh_ReinvocationPolicy wh\<rparr>]"
  obtain m' where "InjectCABundle (provisioner (wh_DeploymentName wh) opts)
      (ObjMutatingWebhook (new_meta (TrimHyphen (wh_GenerateName wh)) (ro_InstallNamespace opts)) ?w) = Inr (ObjMutatingWebhook m' ?w)"
    "rm_Name m' = TrimHyphen (wh_GenerateName wh)"
    using lawful_mutating [OF assms(2), of "wh_DeploymentName wh" "new_meta (TrimHyphen (wh_GenerateName wh)) (ro_InstallNamespace opts)" ?w]
    by (elim exE conjE) simp
  then show thesis using that wh by (simp add: mutating_object_eq)
qed

lemma TrimHyphen_subdomain: "IsDNS1123Subdomain s = [] \<Longrightarrow> TrimHyphen s = s"
  using subdomain_end [of s] by (auto simp: TrimHyphen_def dns_alnum_def)

lemma distinct_map_inject: "distinct (map f xs) \<Longrightarrow> x \<in> set xs \<Longrightarrow> y \<in> set xs \<Longrightarrow> f x = f y \<Longrightarrow> x = y"
  by (simp add: distinct_map inj_on_def)

lemma webhook_by_name:
  assumes "well_formed_bundle b" and "wh \<in> set (rv1_webhooks b)" and "wh' \<in> set (rv1_webhooks b)"
    and "wh_Type wh = wh_Type wh'" and "TrimHyphen (wh_GenerateName wh) = TrimHyphen (wh_GenerateName wh')"
  shows "wh = wh'"
proof -
  have dns: "IsDNS1123Subdomain (wh_GenerateName w) = []" if "w \<in> set (rv1_webhooks b)" for w
    using assms(1) that by (simp add: well_formed_bundle_def)
  have "distinct (map (\<lambda>wh. (wh_Type wh, wh_GenerateName wh)) (rv1_webhooks b))"
    using assms(1) by (simp add: well_formed_bundle_def)
  from distinct_map_inject [OF this assms(2,3)] show ?thesis
    using assms(4,5) TrimHyphen_subdomain [OF dns [OF assms(2)]] TrimHyphen_subdomain [OF dns [OF assms(3)]] by simp
qed

text \<open>The conversion through a webhook.\<close>

definition conversion_of :: "render_options \<Rightarrow> webhook_description \<Rightarrow> crd_conversion" where
  "conversion_of opts wh =
     \<lparr>conv_Strategy = ''Webhook'',
      conv_Service = Some \<lparr>svr_Namespace = ro_InstallNamespace opts, svr_Name = service_name (wh_DeploymentName wh),
        svr_Path = Some (case wh_WebhookPath wh of None \<Rightarrow> ''/'' | Some p \<Rightarrow> p), svr_Port = Some (wh_ContainerPort wh)\<rparr>,
      conv_ConversionReviewVersions = wh_AdmissionReviewVersions wh\<rparr>"

lemma conversion_reference:
  assumes "rendered_by ls b opts r" and "lawful_provider opts" and "well_formed_bundle b" and "ObjCrd c \<in> set (rd_crds r)"
    and "wh \<in> set (rv1_webhooks b)" and "wh_Type wh = ConversionWebhook" and "crd_Name c \<in> set (wh_ConversionCRDs wh)"
  shows "crd_Conversion c = Some (conversion_of opts wh)"
proof -
  obtain m where m: "crd_webhooks [] (conversion_references (rv1_webhooks b)) = Inr m"
    "\<And>k. map_of m k = map_of (conversion_references (rv1_webhooks b)) k" using conversion_map [OF assms(3)] by blast
  have gen: "gen_map (crd_object opts m) (rv1_CRDs b) = Some (Inr (rd_crds r))"
    using assms(1) by (simp add: rendered_by_def BundleCRDGenerator_def m(1))
  from gen_map_memD [OF gen assms(4)] obtain crd where crd: "crd_object opts m crd = Some (Inr (ObjCrd c))" by blast
  have dist: "distinct (map fst (conversion_references (rv1_webhooks b)))"
    using assms(3) by (simp add: conversion_references_fst well_formed_bundle_def Let_def)
  have "(crd_Name c, wh) \<in> set (conversion_references (rv1_webhooks b))"
    using assms(5,6,7) by (auto simp: conversion_references_def)
  then have mem: "map_of m (crd_Name c) = Some wh" by (simp add: m(2) dist)
  have name: "crd_Name crd = crd_Name c"
  proof (cases "map_of m (crd_Name crd)")
    case None
    with crd show ?thesis by (simp add: crd_object_def)
  next
    case (Some cw)
    with crd obtain c0 where "InjectCABundle (provisioner (wh_DeploymentName cw) opts) (ObjCrd c0) = Inr (ObjCrd c)"
      "crd_Name c0 = crd_Name crd" by (auto simp: crd_object_def Let_def split: if_splits)
    then show ?thesis using lawful_crd [OF assms(2)] by (metis client_object.inject(7) sum.inject(2))
  qed
  have "InjectCABundle (provisioner (wh_DeploymentName wh) opts)
      (ObjCrd (crd\<lparr>crd_Conversion := Some (conversion_of opts wh)\<rparr>)) = Inr (ObjCrd c)"
    using crd mem name by (simp add: crd_object_def Let_def conversion_of_def split: if_splits)
  then show ?thesis
    using lawful_crd [OF assms(2), of "wh_DeploymentName wh" "crd\<lparr>crd_Conversion := Some (conversion_of opts wh)\<rparr>"] by auto
qed

lemma reference_of:
  assumes "rendered_by ls b opts r" and "lawful_provider opts" and "well_formed_bundle b"
    and "refers_to b (set (rendered_objects r)) wh ref"
  shows "svr_Namespace ref = ro_InstallNamespace opts \<and> svr_Name ref = service_name (wh_DeploymentName wh) \<and>
     svr_Port ref = Some (wh_ContainerPort wh)"
  using assms(4)
proof cases
  case (validating m ws w)
  then have "ObjValidatingWebhook m ws \<in> set (rd_validating r)"
    using rendered_kinds [OF assms(1,2)] by (fastforce simp: in_its_part_def)
  from validating_from [OF assms(1,2) this] obtain wh' where wh': "wh' \<in> set (rv1_webhooks b)" "wh_Type wh' = ValidatingAdmissionWebhook"
    "rm_Name m = TrimHyphen (wh_GenerateName wh')"
    "ws = [admission_webhook_of wh' opts (provisioner (wh_DeploymentName wh') opts)]" .
  have "wh = wh'" using webhook_by_name [OF assms(3) validating(2) wh'(1)] validating wh' by simp
  then show ?thesis using validating wh' by (simp add: admission_webhook_of_def)
next
  case (mutating m ws w)
  then have "ObjMutatingWebhook m ws \<in> set (rd_mutating r)"
    using rendered_kinds [OF assms(1,2)] by (fastforce simp: in_its_part_def)
  from mutating_from [OF assms(1,2) this] obtain wh' where wh': "wh' \<in> set (rv1_webhooks b)" "wh_Type wh' = MutatingAdmissionWebhook"
    "rm_Name m = TrimHyphen (wh_GenerateName wh')"
    "ws = [(admission_webhook_of wh' opts (provisioner (wh_DeploymentName wh') opts))\<lparr>aw_ReinvocationPolicy := wh_ReinvocationPolicy wh'\<rparr>]" .
  have "wh = wh'" using webhook_by_name [OF assms(3) mutating(2) wh'(1)] mutating wh' by simp
  then show ?thesis using mutating wh' by (simp add: admission_webhook_of_def)
next
  case (conversion c conv)
  then have "ObjCrd c \<in> set (rd_crds r)" using rendered_kinds [OF assms(1,2)] by (fastforce simp: in_its_part_def)
  from conversion_reference [OF assms(1-3) this conversion(1,2,4)] conversion show ?thesis by (auto simp: conversion_of_def)
qed

lemma service_port_positive: "sp_Port (getWebhookServicePort wh) > 0"
  by (simp add: getWebhookServicePort_def Let_def)

lemma services_from:
  assumes "rendered_by ls b opts r" and "lawful_provider opts" and "lists_ports ls b" and "ObjService m (Some spec) \<in> set (rd_services r)"
  shows "\<exists>d. set (svs_Ports spec) = webhook_ports b d"
proof -
  let ?m = "service_ports (rv1_webhooks b)"
  have gen: "gen_map (\<lambda>d. service_object ls opts d (get_or {} ?m (sd_Name d)))
      (filter (\<lambda>d. map_of ?m (sd_Name d) \<noteq> None) (rv1_deployments b)) = Some (Inr (rd_services r))"
    using assms(1) by (simp add: rendered_by_def BundleDeploymentServiceResourceGenerator_def Let_def)
  from gen_map_memD [OF gen assms(4)] obtain d where
    d: "service_object ls opts d (get_or {} ?m (sd_Name d)) = Some (Inr (ObjService m (Some spec)))" by blast
  have ports: "get_or {} ?m (sd_Name d) = webhook_ports b (sd_Name d)" by (simp add: service_ports_lookup(2) webhook_ports_def)
  let ?s = "Some \<lparr>svs_Ports = sort_by compare_ports (ls_ports ls (webhook_ports b (sd_Name d))),
      svs_Selector = (case ds_Selector (sd_Spec d) of None \<Rightarrow> [] | Some sel \<Rightarrow> sel_MatchLabels sel)\<rparr>"
  have "Some spec = ?s"
    using d lawful_service [OF assms(2), of "sd_Name d" "new_meta (service_name (sd_Name d)) (ro_InstallNamespace opts)" ?s]
    by (auto simp: service_object_eq ports)
  then show ?thesis using assms(3) by (auto simp: lists_ports_def port_order.set_sort_by)
qed

lemma reference_served:
  assumes "rendered_by ls b opts r" and "lawful_provider opts" and "well_formed_bundle b" and "lists_ports ls b"
    and "refers_to b (set (rendered_objects r)) wh ref" and "wh \<in> set (rv1_webhooks b)"
  shows "serves (set (rendered_objects r)) ref \<longleftrightarrow> 0 < wh_ContainerPort wh"
proof -
  note ref = reference_of [OF assms(1,2,3,5)]
  have "wh_DeploymentName wh \<in> sd_Name ` set (rv1_deployments b)" using assms(3,6) by (simp add: well_formed_bundle_def)
  then obtain d where d: "d \<in> set (rv1_deployments b)" "sd_Name d = wh_DeploymentName wh" by auto
  have "sd_Name d \<in> wh_DeploymentName ` set (rv1_webhooks b)" using d(2) assms(6) by simp
  from rendered_service [OF assms(1,2,4) d(1) this] obtain m spec where
    svc: "ObjService m (Some spec) \<in> set (rd_services r)" "rm_Name m = service_name (wh_DeploymentName wh)"
    "rm_Namespace m = ro_InstallNamespace opts" "set (svs_Ports spec) = webhook_ports b (wh_DeploymentName wh)" unfolding d(2) by blast
  have port: "getWebhookServicePort wh \<in> set (svs_Ports spec)" using svc(4) assms(6) by (auto simp: webhook_ports_def)
  have in_objs: "ObjService m (Some spec) \<in> set (rendered_objects r)" using svc(1) by (simp add: rendered_objects_def)
  show ?thesis
  proof
    assume "0 < wh_ContainerPort wh"
    then have "sp_Port (getWebhookServicePort wh) = wh_ContainerPort wh" by (simp add: getWebhookServicePort_def Let_def)
    then show "serves (set (rendered_objects r)) ref" unfolding serves_def using in_objs svc(2,3) port ref by metis
  next
    assume "serves (set (rendered_objects r)) ref"
    then obtain m' spec' p where s: "ObjService m' (Some spec') \<in> set (rendered_objects r)" "p \<in> set (svs_Ports spec')"
      "svr_Port ref = Some (sp_Port p)" unfolding serves_def by blast
    then have "ObjService m' (Some spec') \<in> set (rd_services r)" using rendered_kinds [OF assms(1,2)] by (fastforce simp: in_its_part_def)
    from services_from [OF assms(1,2,4) this] s(2) have "0 < sp_Port p" by (auto simp: webhook_ports_def service_port_positive)
    then show "0 < wh_ContainerPort wh" using s(3) ref by simp
  qed
qed

lemma refers_to_webhook: "refers_to b objs wh ref \<Longrightarrow> wh \<in> set (rv1_webhooks b)"
  by (auto elim: refers_to.cases)

lemma rendered_refers:
  assumes "rendered_by ls b opts r" and "lawful_provider opts" and "wh \<in> set (rv1_webhooks b)"
    and "wh_Type wh \<in> {ValidatingAdmissionWebhook, MutatingAdmissionWebhook}"
  shows "\<exists>ref. refers_to b (set (rendered_objects r)) wh ref"
proof (cases "wh_Type wh = ValidatingAdmissionWebhook")
  case True
  from rendered_validating [OF assms(1-3) True] obtain m where
    m: "ObjValidatingWebhook m [admission_webhook_of wh opts (provisioner (wh_DeploymentName wh) opts)] \<in> set (rd_validating r)"
    "rm_Name m = TrimHyphen (wh_GenerateName wh)" by blast
  then have "ObjValidatingWebhook m [admission_webhook_of wh opts (provisioner (wh_DeploymentName wh) opts)] \<in> set (rendered_objects r)"
    by (simp add: rendered_objects_def)
  from refers_to.validating [OF assms(3) True this m(2) list.set_intros(1)] show ?thesis ..
next
  case False
  with assms(4) have t: "wh_Type wh = MutatingAdmissionWebhook" by simp
  from rendered_mutating [OF assms(1-3) t] obtain m where
    m: "ObjMutatingWebhook m [(admission_webhook_of wh opts (provisioner (wh_DeploymentName wh) opts))
      \<lparr>aw_ReinvocationPolicy := wh_ReinvocationPolicy wh\<rparr>] \<in> set (rd_mutating r)"
    "rm_Name m = TrimHyphen (wh_GenerateName wh)" by blast
  then have "ObjMutatingWebhook m [(admission_webhook_of wh opts (provisioner (wh_DeploymentName wh) opts))
      \<lparr>aw_ReinvocationPolicy := wh_ReinvocationPolicy wh\<rparr>] \<in> set (rendered_objects r)" by (simp add: rendered_objects_def)
  from refers_to.mutating [OF assms(3) t this m(2) list.set_intros(1)] show ?thesis ..
qed

section \<open>Properties\<close>

lemma default_names_separate:
  assumes "ro_UniqueNameGenerator opts = Some (DefaultUniqueNameGenerator encode sha224)" and "\<And>s. length (sha224 s) = 28"
    and "inj_on (\<lambda>p. map_option sha224 (encode p)) (set (csv_Permissions csv) \<union> set (cluster_permissions csv opts))"
  shows "separates_permissions csv opts"
  unfolding separates_permissions_def
proof (intro ballI allI impI)
  fix ps p p' n assume ps: "ps \<in> {csv_Permissions csv, cluster_permissions csv opts}" and p: "p \<in> set ps" "p' \<in> set ps"
    and n: "permission_name csv opts p = Some n" "permission_name csv opts p' = Some n"
  have "map_option sha224 (encode p) = map_option sha224 (encode p')"
    by (rule DefaultUniqueName_hash [OF _ _ assms(2)]) (use n in \<open>simp_all add: unique_name_def assms(1)\<close>)
  then show "p = p'" using inj_onD [OF assms(3)] ps p by auto
qed

lemma default_names_total:
  assumes "ro_UniqueNameGenerator opts = Some (DefaultUniqueNameGenerator encode sha224)" and "\<And>s. length (sha224 s) = 28"
    and "\<And>p. encode p \<noteq> None"
  shows "unique_name opts base p \<noteq> None"
proof -
  obtain js where js: "encode p = Some js" using assms(3) by auto
  then obtain h where h: "DeepHashObject encode sha224 p = Some h" by (simp add: DeepHashObject_def)
  have "length h \<le> 44" using length_DeepHashObject [OF h] assms(2) by simp
  then have "length h < maxNameLength" by (simp add: maxNameLength_def)
  from ObjectName_total [OF this] show ?thesis by (simp add: unique_name_def assms(1) DefaultUniqueNameGenerator_def h)
qed


text \<open>
  When names and the objects of the certificate provider exist, rendering never panics, and it
  succeeds exactly for bundles that pass the validator, with options that fit the install modes of
  the bundle, and whose CRDs with a conversion webhook do not preserve unknown fields.
\<close>

theorem render_outcome:
  assumes "total_options (render_settings env b ns opts)"
  shows "Render Renderer env b ns opts \<noteq> None \<and>
    ((\<exists>objs. Render Renderer env b ns opts = Some (Inr objs)) \<longleftrightarrow>
       Validate BundleValidator b = None \<and> ro_UniqueNameGenerator (render_settings env b ns opts) \<noteq> None \<and>
       validateTargetNamespaces b (ro_InstallNamespace (render_settings env b ns opts))
         (ro_TargetNamespaces (render_settings env b ns opts)) = None \<and> convertible b)"
  using Render_outcome [OF assms]
  by (auto simp: Validate_well_formed validate_options_def split: option.splits)

text \<open>
  C26: Every validating and mutating webhook of a rendered bundle has its configuration. The
  references of webhook configurations and of converted CRDs name a Service that is rendered too
  and has their port, exactly if the webhook has a container port: for a port left out of the bundle
  the Service exposes 443, while the reference keeps port 0.
\<close>

theorem webhooks_reach_services:
  assumes "Render Renderer env b ns opts = Some (Inr objs)" and "lawful_provider (render_settings env b ns opts)"
    and "lists_ports (rn_listing env) b"
  shows "(\<forall>wh \<in> set (rv1_webhooks b). wh_Type wh \<in> {ValidatingAdmissionWebhook, MutatingAdmissionWebhook} \<longrightarrow>
           (\<exists>ref. refers_to b (set objs) wh ref)) \<and>
         (\<forall>wh ref. refers_to b (set objs) wh ref \<longrightarrow> (serves (set objs) ref \<longleftrightarrow> 0 < wh_ContainerPort wh))"
proof (rule Render_parts [OF assms(1)])
  fix r assume r: "rendered_by (rn_listing env) b (render_settings env b ns opts) r" and objs: "objs = rendered_objects r"
    and wf: "well_formed_bundle b"
  show ?thesis unfolding objs
    using rendered_refers [OF r assms(2)] reference_served [OF r assms(2) wf assms(3)] refers_to_webhook by blast
qed

text \<open>
  The target namespaces a bundle may be rendered for, from its install modes.
\<close>

theorem target_namespaces_exact:
  "validateTargetNamespaces rv1 ns targets = None \<longleftrightarrow>
     (let modes = supportedBundleInstallModes rv1; S = set targets in
      S = {''''} \<and> InstallModeTypeAllNamespaces \<in> modes \<or>
      S = {ns} \<and> ns \<noteq> '''' \<and> InstallModeTypeOwnNamespace \<in> modes \<or>
      (\<exists>t. S = {t} \<and> t \<noteq> '''' \<and> t \<noteq> ns \<and> InstallModeTypeSingleNamespace \<in> modes) \<or>
      card S \<ge> 2 \<and> '''' \<notin> S \<and> InstallModeTypeMultiNamespace \<in> modes \<and>
        (if ns \<in> S then InstallModeTypeOwnNamespace \<in> modes else True))"
  unfolding target_namespaces_ok Let_def by auto

subsection \<open>A bundle\<close>

definition sample_permission :: "string \<Rightarrow> permission" where
  "sample_permission sa = \<lparr>perm_ServiceAccountName = sa, perm_Rules =
     [\<lparr>pr_Verbs = [''get''], pr_APIGroups = [''''], pr_Resources = [''pods''], pr_ResourceNames = [], pr_NonResourceURLs = []\<rparr>]\<rparr>"

definition sample_webhook :: "string \<Rightarrow> string \<Rightarrow> int \<Rightarrow> string list \<Rightarrow> webhook_description" where
  "sample_webhook type name port crds =
     \<lparr>wh_GenerateName = name, wh_Type = type, wh_DeploymentName = ''mgr'', wh_ContainerPort = port, wh_TargetPort = None,
      wh_Rules = [], wh_FailurePolicy = None, wh_MatchPolicy = None, wh_ObjectSelector = None, wh_SideEffects = None,
      wh_TimeoutSeconds = None, wh_AdmissionReviewVersions = [''v1''], wh_ReinvocationPolicy = None, wh_WebhookPath = None,
      wh_ConversionCRDs = crds\<rparr>"

definition sample_bundle :: registry_v1 where
  "sample_bundle =
     \<lparr>rv1_PackageName = ''pkg'',
      rv1_CSV = \<lparr>csv_Name = ''op.v1'', csv_Annotations = Map.empty,
        csv_InstallModes = [\<lparr>im_Type = InstallModeTypeAllNamespaces, im_Supported = True\<rparr>],
        csv_DeploymentSpecs = [\<lparr>sd_Name = ''mgr'', sd_Spec = empty_deployment_spec, sd_Label = Map.empty\<rparr>],
        csv_Permissions = [sample_permission ''mgr''], csv_ClusterPermissions = [sample_permission ''''],
        csv_WebhookDefinitions = [sample_webhook ValidatingAdmissionWebhook ''v.x.io'' 8443 [],
          sample_webhook ConversionWebhook ''c.x.io'' 0 [''things.x.io'']],
        csv_OwnedCRDs = [''things.x.io''], csv_OwnedAPIServices = []\<rparr>,
      rv1_CRDs = [\<lparr>crd_Name = ''things.x.io'', crd_Annotations = Map.empty, crd_PreserveUnknownFields = False,
        crd_Conversion = None, crd_Other = JNull\<rparr>],
      rv1_Others = []\<rparr>"

definition sample_env :: render_env where
  "sample_env =
     \<lparr>rn_encode = \<lambda>p. Some (perm_ServiceAccountName p @ map (\<lambda>_. CHR ''r'') (perm_Rules p)),
      rn_sha224 = \<lambda>s. take 28 (map (\<lambda>c. of_nat (of_char c)) s @ replicate 28 0),
      rn_listing = \<lparr>ls_names = \<lambda>S. filter (\<lambda>n. n \<in> S) [''mgr'', ''default''],
        ls_ports = \<lambda>S. filter (\<lambda>p. p \<in> S) (map getWebhookServicePort (rv1_webhooks sample_bundle))\<rparr>\<rparr>"

definition sample_options :: "render_option option list" where
  "sample_options = [None, Some (WithCertificateProvider (Some OpenshiftServiceCaCertificateProvider))]"

abbreviation sample_settings :: render_options where
  "sample_settings \<equiv> render_settings sample_env sample_bundle ''olm'' sample_options"

lemma sample_settings:
  "ro_InstallNamespace sample_settings = ''olm''" "ro_TargetNamespaces sample_settings = ['''']"
  "ro_UniqueNameGenerator sample_settings = Some (DefaultUniqueNameGenerator (rn_encode sample_env) (rn_sha224 sample_env))"
  "ro_CertificateProvider sample_settings = Some OpenshiftServiceCaCertificateProvider"
  by (simp_all add: render_settings_def apply_options_def sample_options_def WithCertificateProvider_def
      defaultTargetNamespacesForBundle_def supportedBundleInstallModes_def sample_bundle_def)

lemma sample_lawful: "lawful_provider sample_settings"
  by (simp add: lawful_provider_def sample_settings service_ca.annotation_injector_axioms)

lemma sample_sha: "length (rn_sha224 sample_env s) = 28"
  by (simp add: sample_env_def)

lemma sample_total: "total_options sample_settings"
proof -
  have "rn_encode sample_env p \<noteq> None" for p by (simp add: sample_env_def)
  from default_names_total [OF sample_settings(3) sample_sha this] show ?thesis
    by (simp add: total_options_def sample_lawful) (simp add: sample_settings OpenshiftServiceCaCertificateProvider_def)
qed

lemma sample_well_formed: "well_formed_bundle sample_bundle"
  by (simp add: well_formed_bundle_def sample_bundle_def sample_webhook_def IsDNS1123Subdomain_def dns1123_label_def dns_alnum_def
      supportedBundleInstallModes_def)

lemma sample_targets: "validateTargetNamespaces sample_bundle ''olm'' [''''] = None"
  by (simp add: validateTargetNamespaces_def Let_def supportedBundleInstallModes_def sample_bundle_def)

lemma sample_convertible: "convertible sample_bundle"
  by (simp add: convertible_def sample_bundle_def)

lemma sample_rendered: "\<exists>objs. Render Renderer sample_env sample_bundle ''olm'' sample_options = Some (Inr objs)"
  using Render_outcome(2) [OF sample_total] sample_well_formed sample_convertible sample_targets
  by (simp add: validate_options_def sample_settings)

lemma sample_csv:
  "csv_Permissions (rv1_CSV sample_bundle) = [sample_permission ''mgr'']"
  "csv_ClusterPermissions (rv1_CSV sample_bundle) = [sample_permission '''']"
  by (simp_all add: sample_bundle_def)

lemma sample_hashes:
  "inj_on (\<lambda>p. map_option (rn_sha224 sample_env) (rn_encode sample_env p))
     (set (csv_Permissions (rv1_CSV sample_bundle)) \<union> set (cluster_permissions (rv1_CSV sample_bundle) sample_settings))"
proof -
  have ps: "set (csv_Permissions (rv1_CSV sample_bundle)) \<union> set (cluster_permissions (rv1_CSV sample_bundle) sample_settings) =
      {sample_permission ''mgr'', sample_permission '''',
       (sample_permission ''mgr'')\<lparr>perm_Rules := perm_Rules (sample_permission ''mgr'') @ [namespace_rule]\<rparr>}"
    by (auto simp: cluster_permissions_def all_namespaces_def sample_settings sample_csv)
  have "replicate 24 (0 :: 8 word) \<noteq> 114 # replicate 23 0" using replicate_Suc [of 23 "0 :: 8 word"] by simp
  then show ?thesis unfolding ps by (simp add: sample_env_def sample_permission_def)
qed


theorem render_outcome_witness:
  "Render Renderer sample_env sample_bundle ''olm'' sample_options \<noteq> None \<and>
   (\<exists>objs. Render Renderer sample_env sample_bundle ''olm'' sample_options = Some (Inr objs))"
  using render_outcome [OF sample_total] sample_well_formed sample_convertible sample_targets
  by (simp add: Validate_well_formed sample_settings)

lemma sample_lists_ports: "lists_ports (rn_listing sample_env) sample_bundle"
  by (auto simp: lists_ports_def webhook_ports_def sample_env_def)

theorem webhooks_reach_services_witness:
  "\<exists>objs ref. Render Renderer sample_env sample_bundle ''olm'' sample_options = Some (Inr objs) \<and>
     refers_to sample_bundle (set objs) (sample_webhook ValidatingAdmissionWebhook ''v.x.io'' 8443 []) ref \<and> serves (set objs) ref"
proof -
  obtain objs where objs: "Render Renderer sample_env sample_bundle ''olm'' sample_options = Some (Inr objs)"
    using sample_rendered by blast
  let ?wh = "sample_webhook ValidatingAdmissionWebhook ''v.x.io'' 8443 []"
  note reach = webhooks_reach_services [OF objs sample_lawful sample_lists_ports]
  have "?wh \<in> set (rv1_webhooks sample_bundle)" by (simp add: sample_bundle_def)
  with reach obtain ref where "refers_to sample_bundle (set objs) ?wh ref" by (fastforce simp: sample_webhook_def)
  moreover from this reach have "serves (set objs) ref" by (simp add: sample_webhook_def)
  ultimately show ?thesis using objs by blast
qed

end
