(* ===== verification/Bundle_Config.thy ===== *)
theory Bundle_Config
  imports Bundle_Render
begin

text \<open>
  The configuration of an extension (\<open>config/config.go\<close>) and the schema a registry+v1 bundle builds
  for it from its install modes (\<open>rukpak/bundle/registryv1.go\<close>). The YAML decoder, the JSON codec, the
  JSON schema compiler and the embedded base schema are fields of an environment.
\<close>

section \<open>Definitions\<close>

subsection \<open>The schema of a bundle\<close>

type_synonym schema = "(string \<times> json) list"

abbreviation FormatOwnNamespaceInstallMode :: string where "FormatOwnNamespaceInstallMode \<equiv> ''ownNamespaceInstallMode''"
abbreviation FormatSingleNamespaceInstallMode :: string where "FormatSingleNamespaceInstallMode \<equiv> ''singleNamespaceInstallMode''"
abbreviation watchNamespaceConfigKey :: string where "watchNamespaceConfigKey \<equiv> ''watchNamespace''"

definition namespaceNamePattern :: string where
  "namespaceNamePattern = ''^[a-z0-9]([-a-z0-9]*[a-z0-9])?$''"

definition namespaceNameMaxLength :: int where
  "namespaceNameMaxLength = 63"

definition json_delete :: "(string \<times> json) list \<Rightarrow> string \<Rightarrow> (string \<times> json) list" where
  "json_delete fs k = filter (\<lambda>(k', v). k' \<noteq> k) fs"

abbreviation supports :: "string \<Rightarrow> install_mode" where
  "supports mode \<equiv> \<lparr>im_Type = mode, im_Supported = True\<rparr>"

definition isWatchNamespaceConfigurable :: "install_mode set \<Rightarrow> bool" where
  "isWatchNamespaceConfigurable installModes \<longleftrightarrow>
     supports InstallModeTypeSingleNamespace \<in> installModes \<or> supports InstallModeTypeOwnNamespace \<in> installModes"

definition isWatchNamespaceConfigRequired :: "install_mode set \<Rightarrow> bool" where
  "isWatchNamespaceConfigRequired installModes \<longleftrightarrow>
     isWatchNamespaceConfigurable installModes \<and> supports InstallModeTypeAllNamespaces \<notin> installModes"

definition selectNamespaceFormat :: "bool \<Rightarrow> bool \<Rightarrow> string" where
  "selectNamespaceFormat hasOwnNamespace hasSingleNamespace =
     (if hasOwnNamespace \<and> \<not> hasSingleNamespace then FormatOwnNamespaceInstallMode
      else if hasSingleNamespace \<and> \<not> hasOwnNamespace then FormatSingleNamespaceInstallMode
      else '''')"

definition buildWatchNamespaceProperty :: "install_mode set \<Rightarrow> json \<times> bool" where
  "buildWatchNamespaceProperty installModes =
     (let description = JStr ''The namespace that the operator should watch for custom resources'';
          hasOwnNamespace = (supports InstallModeTypeOwnNamespace \<in> installModes);
          hasSingleNamespace = (supports InstallModeTypeSingleNamespace \<in> installModes);
          format = selectNamespaceFormat hasOwnNamespace hasSingleNamespace;
          watchNamespaceSchema =
            [(''type'', JStr ''string''), (''minLength'', JNum 1), (''maxLength'', JNum namespaceNameMaxLength),
             (''pattern'', JStr namespaceNamePattern)] @
            (if format \<noteq> '''' then [(''format'', JStr format)] else []) in
      if isWatchNamespaceConfigRequired installModes then
        (JObj (watchNamespaceSchema @ [(''description'', description)]), True)
      else
        (JObj [(''description'', description),
           (''anyOf'', JArr [JObj [(''type'', JStr ''null'')], JObj watchNamespaceSchema])], False))"

definition addToRequired :: "schema \<Rightarrow> string \<Rightarrow> schema" where
  "addToRequired schema fieldName =
     (case map_of schema ''required'' of
        Some (JArr existing) \<Rightarrow>
          if JStr fieldName \<in> set existing then schema
          else json_put schema ''required'' (JArr (existing @ [JStr fieldName]))
      | _ \<Rightarrow> json_put schema ''required'' (JArr [JStr fieldName]))"

definition removeFromRequired :: "schema \<Rightarrow> string \<Rightarrow> schema" where
  "removeFromRequired schema fieldName =
     (case map_of schema ''required'' of
        Some (JArr existing) \<Rightarrow>
          (let filtered = filter (\<lambda>f. f \<noteq> JStr fieldName) existing in
           if filtered \<noteq> [] then json_put schema ''required'' (JArr filtered) else json_delete schema ''required'')
      | _ \<Rightarrow> schema)"

text \<open>The base schema is the embedded file, decoded; decoding it may fail.\<close>

definition buildBundleConfigSchema :: "schema result \<Rightarrow> install_mode set \<Rightarrow> schema result" where
  "buildBundleConfigSchema base installModes =
     (case base of
        Inl err \<Rightarrow> Inl (ErrWrap ''failed to get base bundle config schema: '' err '''')
      | Inr baseSchema \<Rightarrow>
          (case map_of baseSchema ''properties'' of
             Some (JObj properties) \<Rightarrow>
               Inr (if isWatchNamespaceConfigurable installModes then
                      (let (prop, isRequired) = buildWatchNamespaceProperty installModes;
                           schema = json_put baseSchema ''properties'' (JObj (json_put properties watchNamespaceConfigKey prop)) in
                       if isRequired then addToRequired schema watchNamespaceConfigKey
                       else removeFromRequired schema watchNamespaceConfigKey)
                    else
                      removeFromRequired
                        (json_put baseSchema ''properties'' (JObj (json_delete properties watchNamespaceConfigKey)))
                        watchNamespaceConfigKey)
           | _ \<Rightarrow> Inl (ErrText ''base schema missing properties'')))"

definition GetConfigSchema :: "schema result \<Rightarrow> registry_v1 \<Rightarrow> schema result" where
  "GetConfigSchema base rv1 = buildBundleConfigSchema base (set (csv_InstallModes (rv1_CSV rv1)))"

subsection \<open>Errors of decoding and of validation\<close>

text \<open>
  An error of the decoder; \<open>ue_Type\<close> is the \<open>UnmarshalTypeError\<close> that \<open>errors.As\<close> finds in it: its
  field, type and value.
\<close>

record unmarshal_error =
  ue_Type :: "(string \<times> string \<times> string) option"
  ue_Error :: go_error

datatype output_kind =
    KindRequired | KindAdditionalProperties | KindType | KindFormat | KindAnyOf
  | KindMaxLength int int | KindMinLength int int | KindPattern string | KindOther

text \<open>A unit of the library's output: the kind of error with its message, if any, and where it is.\<close>

record output_unit =
  ou_Error :: "(output_kind \<times> string) option"
  ou_InstanceLocation :: string

datatype schema_error = ValidationError string "output_unit list" | PlainError go_error

text \<open>The innermost error of a chain of wrapped errors.\<close>

function core_error :: "go_error \<Rightarrow> go_error" where
  "core_error e = (case errors_Unwrap e of None \<Rightarrow> e | Some e' \<Rightarrow> core_error e')"
  by pat_completeness auto

lemma errors_Unwrap_smaller: "errors_Unwrap e = Some e' \<Longrightarrow> size e' < size e"
  by (induction e rule: errors_Unwrap.induct) auto

termination core_error
  by (relation "measure size") (auto dest: errors_Unwrap_smaller)

declare core_error.simps [simp del]

definition formatUnmarshalError :: "unmarshal_error \<Rightarrow> go_error" where
  "formatUnmarshalError err =
     (case ue_Type err of
        Some (field, type, value) \<Rightarrow>
          if field = '''' then ErrText ''input is not a valid JSON object''
          else ErrText (''invalid value type for field '' @ go_quote field @ '': expected '' @ go_quote type @
            '' but got '' @ go_quote value)
      | None \<Rightarrow>
          (let parts = split_on CHR '':'' (err_string (core_error (ue_Error err))) in
           ErrText (trim_space (last parts))))"

definition extractFieldNameFromMessage :: "string \<Rightarrow> string" where
  "extractFieldNameFromMessage msg =
     (case cut_at (CHR 0x27) msg of
        (_, None) \<Rightarrow> ''''
      | (_, Some remaining) \<Rightarrow>
          (case cut_at (CHR 0x27) remaining of (_, None) \<Rightarrow> '''' | (name, Some _) \<Rightarrow> name))"

definition buildFieldPath :: "string \<Rightarrow> string" where
  "buildFieldPath location =
     (if location = '''' \<or> location = ''/'' then ''''
      else map (\<lambda>c. if c = CHR ''/'' then CHR ''.'' else c) (if hd location = CHR ''/'' then tl location else location))"

fun str_contains :: "string \<Rightarrow> string \<Rightarrow> bool" where
  "str_contains [] sub \<longleftrightarrow> sub = []"
| "str_contains (c # s) sub \<longleftrightarrow> strip_prefix sub (c # s) \<noteq> None \<or> str_contains s sub"

definition formatSingleError :: "output_unit \<Rightarrow> string" where
  "formatSingleError errUnit =
     (case ou_Error errUnit of
        None \<Rightarrow> ''''
      | Some (kind, msg) \<Rightarrow>
          (let path = buildFieldPath (ou_InstanceLocation errUnit); field = extractFieldNameFromMessage msg in
           case kind of
             KindRequired \<Rightarrow>
               if field \<noteq> '''' then ''required field '' @ go_quote field @ '' is missing'' else ''required field is missing''
           | KindAdditionalProperties \<Rightarrow>
               if field \<noteq> '''' then ''unknown field '' @ go_quote field else ''unknown field''
           | KindType \<Rightarrow>
               if path \<noteq> '''' then
                 (if str_contains msg ''got null'' then ''required field '' @ go_quote path @ '' is missing''
                  else ''invalid type for field '' @ go_quote path @ '': '' @ msg)
               else ''invalid type: '' @ msg
           | KindFormat \<Rightarrow>
               if path \<noteq> '''' then ''invalid format for field '' @ go_quote path @ '': '' @ msg else ''invalid format: '' @ msg
           | KindAnyOf \<Rightarrow> if path \<noteq> '''' then ''invalid value for field '' @ go_quote path else ''invalid value''
           | KindMaxLength want got \<Rightarrow>
               if path \<noteq> '''' then ''field '' @ go_quote path @ '' must have maximum length of '' @ show_int want @
                 '' (len='' @ show_int got @ '')'' else msg
           | KindMinLength want got \<Rightarrow>
               if path \<noteq> '''' then ''field '' @ go_quote path @ '' must have minimum length of '' @ show_int want @
                 '' (len='' @ show_int got @ '')'' else msg
           | KindPattern want \<Rightarrow>
               if path \<noteq> '''' then ''field '' @ go_quote path @ '' must match pattern '' @ go_quote want else msg
           | KindOther \<Rightarrow> msg))"

definition formatSchemaError :: "schema_error \<Rightarrow> go_error" where
  "formatSchemaError err =
     (case err of
        PlainError e \<Rightarrow> e
      | ValidationError text units \<Rightarrow>
          if units = [] then ErrText text
          else
            (case filter (\<lambda>m. m \<noteq> '''') (map formatSingleError units) of
               [] \<Rightarrow> ErrWrap ''invalid configuration: '' (ErrText text) ''''
             | [m] \<Rightarrow> ErrText m
             | ms \<Rightarrow> ErrText (''multiple errors found:'' @ [CHR 0x0A] @ ''  - '' @ go_join (CHR 0x0A # ''  - '') ms)))"

subsection \<open>Validating and reading a configuration\<close>

type_synonym format_check = "json \<Rightarrow> go_error option"

record config_env =
  ce_yaml :: "string \<Rightarrow> unmarshal_error + json"
  ce_yaml_map :: "string \<Rightarrow> unmarshal_error + (string \<times> json) list"
  ce_AddResource :: "schema \<Rightarrow> go_error option"
  ce_Compile :: "(string \<times> format_check) list \<Rightarrow> schema \<Rightarrow> (json \<Rightarrow> schema_error option) result"
  ce_sprint :: "json \<Rightarrow> string"
  ce_marshal :: "json \<Rightarrow> string result"
  ce_decode_deployment :: "string \<Rightarrow> deployment_config result"
  ce_base_schema :: "schema result"

definition own_namespace_format :: "string \<Rightarrow> format_check" where
  "own_namespace_format installNamespace value =
     (if installNamespace = '''' then None
      else
        (case value of
           JStr str \<Rightarrow>
             if str \<noteq> installNamespace then
               Some (ErrText (''invalid value '' @ go_quote str @ '': must be '' @ go_quote installNamespace @
                 '' (the namespace where the operator is installed) because this operator only supports OwnNamespace install mode''))
             else None
         | _ \<Rightarrow> Some (ErrText ''value must be a string'')))"

definition single_namespace_format :: "string \<Rightarrow> format_check" where
  "single_namespace_format installNamespace value =
     (if installNamespace = '''' then None
      else
        (case value of
           JStr str \<Rightarrow>
             if str = installNamespace then
               Some (ErrText (''invalid value '' @ go_quote str @ '': must be different from '' @ go_quote installNamespace @
                 '' (the install namespace) because this operator uses SingleNamespace install mode to watch a different namespace''))
             else None
         | _ \<Rightarrow> Some (ErrText ''value must be a string'')))"

definition namespace_formats :: "string \<Rightarrow> (string \<times> format_check) list" where
  "namespace_formats installNamespace =
     [(FormatOwnNamespaceInstallMode, own_namespace_format installNamespace),
      (FormatSingleNamespaceInstallMode, single_namespace_format installNamespace)]"

definition validateConfigWithSchema :: "config_env \<Rightarrow> string \<Rightarrow> schema \<Rightarrow> string \<Rightarrow> go_error option" where
  "validateConfigWithSchema env configBytes schema installNamespace =
     (case ce_yaml env configBytes of
        Inl err \<Rightarrow> Some (formatUnmarshalError err)
      | Inr configData \<Rightarrow>
          (case ce_AddResource env schema of
             Some err \<Rightarrow> Some (ErrWrap ''failed to load schema: '' err '''')
           | None \<Rightarrow>
               (case ce_Compile env (namespace_formats installNamespace) schema of
                  Inl err \<Rightarrow> Some (ErrWrap ''failed to compile schema: '' err '''')
                | Inr validate \<Rightarrow> map_option formatSchemaError (validate configData))))"

text \<open>A configuration is a map of fields; a nil map reads like an empty one.\<close>

type_synonym config = "(string \<times> json) list"

definition UnmarshalConfig :: "config_env \<Rightarrow> string option \<Rightarrow> schema option \<Rightarrow> string \<Rightarrow> config result" where
  "UnmarshalConfig env bytes schema installNamespace =
     (let bs = (case bytes of None \<Rightarrow> ''{}'' | Some b \<Rightarrow> b) in
      case (case schema of None \<Rightarrow> None | Some s \<Rightarrow> validateConfigWithSchema env bs s installNamespace) of
        Some err \<Rightarrow> Inl (ErrWrap ''invalid configuration: '' err '''')
      | None \<Rightarrow>
          (case ce_yaml_map env bs of
             Inl err \<Rightarrow> Inl (ErrWrap ''error unmarshalling configuration: '' (formatUnmarshalError err) '''')
           | Inr configData \<Rightarrow> Inr configData))"

text \<open>\<open>fmt.Sprintf("%v", val)\<close> gives a string itself.\<close>

definition GetWatchNamespace :: "config_env \<Rightarrow> config \<Rightarrow> string option" where
  "GetWatchNamespace env c =
     (case map_of c ''watchNamespace'' of
        None \<Rightarrow> None
      | Some JNull \<Rightarrow> None
      | Some (JStr s) \<Rightarrow> Some s
      | Some val \<Rightarrow> Some (ce_sprint env val))"

definition GetDeploymentConfig :: "config_env \<Rightarrow> config \<Rightarrow> deployment_config option result" where
  "GetDeploymentConfig env c =
     (case map_of c ''deploymentConfig'' of
        None \<Rightarrow> Inr None
      | Some JNull \<Rightarrow> Inr None
      | Some val \<Rightarrow>
          (case ce_marshal env val of
             Inl err \<Rightarrow> Inl (ErrWrap ''failed to marshal deploymentConfig: '' err '''')
           | Inr data \<Rightarrow>
               (case ce_decode_deployment env data of
                  Inl err \<Rightarrow> Inl (ErrWrap ''failed to unmarshal deploymentConfig: '' err '''')
                | Inr dc \<Rightarrow> Inr (Some dc))))"

section \<open>Lemmas\<close>

subsection \<open>Wrapped errors\<close>

lemma core_error_leaf: "errors_Unwrap (core_error e) = None"
  by (induction e rule: core_error.induct) (subst core_error.simps, auto split: option.split)

text \<open>The iterations of the loop that unwraps an error.\<close>

definition unwrap_run :: "go_error \<Rightarrow> go_error list \<Rightarrow> bool" where
  "unwrap_run e es \<longleftrightarrow> es \<noteq> [] \<and> hd es = e \<and> successively (\<lambda>a b. errors_Unwrap a = Some b) es \<and> errors_Unwrap (last es) = None"

lemma unwrap_run_exists: "\<exists>es. unwrap_run e es \<and> last es = core_error e \<and> length es \<le> Suc (size e)"
proof (induction e rule: core_error.induct)
  case (1 e)
  show ?case
  proof (cases "errors_Unwrap e")
    case None
    then show ?thesis by (intro exI [of _ "[e]"]) (simp add: unwrap_run_def core_error.simps [of e])
  next
    case (Some e')
    with 1 obtain es where es: "unwrap_run e' es" "last es = core_error e'" "length es \<le> Suc (size e')" by blast
    have "size e' < size e" by (rule errors_Unwrap_smaller [OF Some])
    with es Some show ?thesis
      by (intro exI [of _ "e # es"]) (auto simp: unwrap_run_def core_error.simps [of e] successively_Cons)
  qed
qed

subsection \<open>What a JSON schema means\<close>

text \<open>
  Draft 7 of JSON Schema, for the keywords that occur in the schema of a bundle: the type and bounds of
  strings, the one pattern, registered formats, alternatives one level deep, and objects.
\<close>

definition json_type :: "json \<Rightarrow> string" where
  "json_type v = (case v of JNull \<Rightarrow> ''null'' | JBool _ \<Rightarrow> ''boolean'' | JNum _ \<Rightarrow> ''integer'' | JStr _ \<Rightarrow> ''string''
     | JArr _ \<Rightarrow> ''array'' | JObj _ \<Rightarrow> ''object'')"

definition leaf_valid :: "(string \<times> format_check) list \<Rightarrow> schema \<Rightarrow> json \<Rightarrow> bool" where
  "leaf_valid fm s v \<longleftrightarrow>
     (\<forall>t. map_of s ''type'' = Some (JStr t) \<longrightarrow> json_type v = t) \<and>
     (\<forall>str. v = JStr str \<longrightarrow>
        (\<forall>n. map_of s ''minLength'' = Some (JNum n) \<longrightarrow> n \<le> int (length str)) \<and>
        (\<forall>n. map_of s ''maxLength'' = Some (JNum n) \<longrightarrow> int (length str) \<le> n) \<and>
        (map_of s ''pattern'' = Some (JStr namespaceNamePattern) \<longrightarrow> dns1123_label str)) \<and>
     (\<forall>f check. map_of s ''format'' = Some (JStr f) \<longrightarrow> map_of fm f = Some check \<longrightarrow> check v = None)"

definition value_valid :: "(string \<times> format_check) list \<Rightarrow> json \<Rightarrow> json \<Rightarrow> bool" where
  "value_valid fm j v \<longleftrightarrow>
     (\<forall>s. j = JObj s \<longrightarrow> leaf_valid fm s v \<and>
        (\<forall>js. map_of s ''anyOf'' = Some (JArr js) \<longrightarrow> (\<exists>s'. JObj s' \<in> set js \<and> leaf_valid fm s' v)))"

definition object_valid :: "(string \<times> format_check) list \<Rightarrow> schema \<Rightarrow> json \<Rightarrow> bool" where
  "object_valid fm s v \<longleftrightarrow>
     (\<exists>fs. v = JObj fs \<and>
        (\<forall>rs r. map_of s ''required'' = Some (JArr rs) \<longrightarrow> JStr r \<in> set rs \<longrightarrow> map_of fs r \<noteq> None) \<and>
        (\<forall>ps. map_of s ''properties'' = Some (JObj ps) \<longrightarrow>
           (\<forall>k x. map_of fs k = Some x \<longrightarrow> (\<exists>p. map_of ps k = Some p \<and> (k = watchNamespaceConfigKey \<longrightarrow> value_valid fm p x)))))"

text \<open>
  The documented behaviour of the libraries that the code relies on: what a compiled schema accepts has
  the meaning above, and both ways of decoding a document agree.
\<close>

definition sound_schemas :: "config_env \<Rightarrow> bool" where
  "sound_schemas env \<longleftrightarrow>
     (\<forall>fm s validate v. ce_Compile env fm s = Inr validate \<longrightarrow> validate v = None \<longrightarrow>
        map_of s ''type'' = Some (JStr ''object'') \<longrightarrow> map_of s ''additionalProperties'' = Some (JBool False) \<longrightarrow> object_valid fm s v) \<and>
     (\<forall>b fs fs'. ce_yaml env b = Inr (JObj fs) \<longrightarrow> ce_yaml_map env b = Inr fs' \<longrightarrow> fs' = fs)"

text \<open>The embedded base schema describes an object with no other fields than its properties.\<close>

definition closed_base :: "config_env \<Rightarrow> bool" where
  "closed_base env \<longleftrightarrow>
     (\<forall>s. ce_base_schema env = Inr s \<longrightarrow>
        map_of s ''type'' = Some (JStr ''object'') \<and> map_of s ''additionalProperties'' = Some (JBool False))"

subsection \<open>The schema of a bundle\<close>

lemma map_of_json_delete [simp]: "map_of (json_delete fs k) = (map_of fs)(k := None)"
  by (induction fs) (auto simp: json_delete_def)

definition watch_schema :: "install_mode set \<Rightarrow> schema \<Rightarrow> bool" where
  "watch_schema modes s \<longleftrightarrow>
     map_of s ''type'' = Some (JStr ''object'') \<and> map_of s ''additionalProperties'' = Some (JBool False) \<and>
     (\<exists>ps. map_of s ''properties'' = Some (JObj ps) \<and>
        map_of ps watchNamespaceConfigKey =
          (if isWatchNamespaceConfigurable modes then Some (fst (buildWatchNamespaceProperty modes)) else None)) \<and>
     (isWatchNamespaceConfigRequired modes \<longrightarrow>
        (\<exists>rs. map_of s ''required'' = Some (JArr rs) \<and> JStr watchNamespaceConfigKey \<in> set rs))"

lemma addToRequired_simps:
  "k \<noteq> ''required'' \<Longrightarrow> map_of (addToRequired s f) k = map_of s k"
  "\<exists>rs. map_of (addToRequired s f) ''required'' = Some (JArr rs) \<and> JStr f \<in> set rs"
  by (auto simp: addToRequired_def split: option.splits json.splits)

lemma removeFromRequired_simps: "k \<noteq> ''required'' \<Longrightarrow> map_of (removeFromRequired s f) k = map_of s k"
  by (auto simp: removeFromRequired_def Let_def split: option.splits json.splits)

lemma required_flag: "snd (buildWatchNamespaceProperty modes) = isWatchNamespaceConfigRequired modes"
  by (simp add: buildWatchNamespaceProperty_def Let_def)

lemma built_schema:
  assumes "buildBundleConfigSchema (ce_base_schema env) modes = Inr s" and "closed_base env"
  shows "watch_schema modes s"
proof -
  obtain base ps where base: "ce_base_schema env = Inr base" and ps: "map_of base ''properties'' = Some (JObj ps)"
    using assms(1) by (auto simp: buildBundleConfigSchema_def split: sum.splits option.splits json.splits)
  have closed: "map_of base ''type'' = Some (JStr ''object'')" "map_of base ''additionalProperties'' = Some (JBool False)"
    using assms(2) base by (simp_all add: closed_base_def)
  obtain wprop req where pr: "buildWatchNamespaceProperty modes = (wprop, req)" by (cases "buildWatchNamespaceProperty modes")
  then have req: "req = isWatchNamespaceConfigRequired modes" using required_flag [of modes] by simp
  show ?thesis
  proof (cases "isWatchNamespaceConfigurable modes")
    case True
    let ?s = "json_put base ''properties'' (JObj (json_put ps watchNamespaceConfigKey wprop))"
    have s: "s = (if req then addToRequired ?s watchNamespaceConfigKey else removeFromRequired ?s watchNamespaceConfigKey)"
      using assms(1) True pr by (auto simp: buildBundleConfigSchema_def base ps Let_def)
    then show ?thesis using True pr req closed
      by (simp add: watch_schema_def addToRequired_simps removeFromRequired_simps)
  next
    case False
    then have "\<not> isWatchNamespaceConfigRequired modes" by (simp add: isWatchNamespaceConfigRequired_def)
    moreover have "s = removeFromRequired (json_put base ''properties'' (JObj (json_delete ps watchNamespaceConfigKey))) watchNamespaceConfigKey"
      using assms(1) False by (simp add: buildBundleConfigSchema_def base ps)
    ultimately show ?thesis using False closed by (simp add: watch_schema_def removeFromRequired_simps)
  qed
qed

subsection \<open>What an accepted configuration says about the watched namespace\<close>

text \<open>The values of \<open>watchNamespace\<close> that fit the install modes.\<close>

definition watch_fits :: "install_mode set \<Rightarrow> string \<Rightarrow> json option \<Rightarrow> bool" where
  "watch_fits modes ns w =
     (case w of
        None \<Rightarrow> \<not> isWatchNamespaceConfigRequired modes
      | Some JNull \<Rightarrow> isWatchNamespaceConfigurable modes \<and> \<not> isWatchNamespaceConfigRequired modes
      | Some (JStr t) \<Rightarrow> isWatchNamespaceConfigurable modes \<and> dns1123_label t \<and> length t \<le> 63 \<and>
          (supports InstallModeTypeSingleNamespace \<notin> modes \<longrightarrow> t = ns) \<and>
          (supports InstallModeTypeOwnNamespace \<notin> modes \<longrightarrow> t \<noteq> ns)
      | _ \<Rightarrow> False)"

definition watch_leaf :: "install_mode set \<Rightarrow> schema" where
  "watch_leaf modes =
     (let format = selectNamespaceFormat (supports InstallModeTypeOwnNamespace \<in> modes) (supports InstallModeTypeSingleNamespace \<in> modes) in
      [(''type'', JStr ''string''), (''minLength'', JNum 1), (''maxLength'', JNum namespaceNameMaxLength),
       (''pattern'', JStr namespaceNamePattern)] @ (if format \<noteq> '''' then [(''format'', JStr format)] else []))"

lemma leaf_fits:
  assumes "leaf_valid (namespace_formats ns) (watch_leaf modes @ rest) v" and "ns \<noteq> ''''" and "isWatchNamespaceConfigurable modes"
  shows "watch_fits modes ns (Some v)"
proof -
  let ?own = "supports InstallModeTypeOwnNamespace \<in> modes" and ?single = "supports InstallModeTypeSingleNamespace \<in> modes"
  have "json_type v = ''string''" using assms(1) by (simp add: leaf_valid_def watch_leaf_def Let_def)
  then obtain t where v: "v = JStr t" by (cases v) (auto simp: json_type_def)
  have str: "dns1123_label t" "length t \<le> 63"
    using assms(1) by (auto simp: leaf_valid_def watch_leaf_def Let_def v namespaceNameMaxLength_def)
  have fm: "check v = None" if "map_of (watch_leaf modes @ rest) ''format'' = Some (JStr f)" "map_of (namespace_formats ns) f = Some check" for f check
    using assms(1) that by (simp add: leaf_valid_def)
  have "t = ns" if "\<not> ?single"
  proof -
    have "?own" using that assms(3) by (simp add: isWatchNamespaceConfigurable_def)
    then have "own_namespace_format ns v = None"
      using that by (intro fm [of FormatOwnNamespaceInstallMode]) (simp_all add: watch_leaf_def selectNamespaceFormat_def namespace_formats_def)
    then show ?thesis using assms(2) by (simp add: own_namespace_format_def v split: if_splits)
  qed
  moreover have "t \<noteq> ns" if "\<not> ?own"
  proof -
    have "?single" using that assms(3) by (simp add: isWatchNamespaceConfigurable_def)
    then have "single_namespace_format ns v = None"
      using that by (intro fm [of FormatSingleNamespaceInstallMode]) (simp_all add: watch_leaf_def selectNamespaceFormat_def namespace_formats_def)
    then show ?thesis using assms(2) by (auto simp: single_namespace_format_def v split: if_splits)
  qed
  ultimately show ?thesis using str assms(3) by (simp add: watch_fits_def v)
qed

lemma property_eq:
  "fst (buildWatchNamespaceProperty modes) =
     (let description = JStr ''The namespace that the operator should watch for custom resources'' in
      if isWatchNamespaceConfigRequired modes then JObj (watch_leaf modes @ [(''description'', description)])
      else JObj [(''description'', description), (''anyOf'', JArr [JObj [(''type'', JStr ''null'')], JObj (watch_leaf modes)])])"
  by (simp add: buildWatchNamespaceProperty_def watch_leaf_def Let_def)

lemma property_fits:
  assumes "value_valid (namespace_formats ns) (fst (buildWatchNamespaceProperty modes)) v" and "ns \<noteq> ''''"
    and "isWatchNamespaceConfigurable modes"
  shows "watch_fits modes ns (Some v)"
proof (cases "isWatchNamespaceConfigRequired modes")
  case True
  have "leaf_valid (namespace_formats ns) (watch_leaf modes @ [(''description'', JStr ''The namespace that the operator should watch for custom resources'')]) v"
    using assms(1) True by (simp add: property_eq value_valid_def)
  then show ?thesis using leaf_fits assms(2,3) by blast
next
  case False
  then consider "leaf_valid (namespace_formats ns) [(''type'', JStr ''null'')] v" | "leaf_valid (namespace_formats ns) (watch_leaf modes) v"
    using assms(1) by (auto simp: property_eq value_valid_def)
  then show ?thesis
  proof cases
    case 1
    then have "json_type v = ''null''" by (simp add: leaf_valid_def)
    then have "v = JNull" by (cases v) (auto simp: json_type_def)
    then show ?thesis using False assms(3) by (simp add: watch_fits_def)
  next
    case 2
    then show ?thesis using leaf_fits [of ns modes "[]"] assms(2,3) by simp
  qed
qed

lemma accepted_fits:
  assumes "UnmarshalConfig env bytes (Some s) ns = Inr c" and "watch_schema modes s" and "sound_schemas env" and "ns \<noteq> ''''"
  shows "watch_fits modes ns (map_of c watchNamespaceConfigKey)"
proof -
  let ?b = "case bytes of None \<Rightarrow> ''{}'' | Some b \<Rightarrow> b"
  have ok: "validateConfigWithSchema env ?b s ns = None" and c: "ce_yaml_map env ?b = Inr c"
    using assms(1) by (auto simp: UnmarshalConfig_def Let_def split: option.splits sum.splits)
  then obtain v validate where v: "ce_yaml env ?b = Inr v" "ce_Compile env (namespace_formats ns) s = Inr validate" "validate v = None"
    by (auto simp: validateConfigWithSchema_def split: sum.splits option.splits)
  then have "object_valid (namespace_formats ns) s v"
    using assms(2,3) unfolding sound_schemas_def watch_schema_def by blast
  then obtain fs where fs: "v = JObj fs"
    and req: "\<forall>rs r. map_of s ''required'' = Some (JArr rs) \<longrightarrow> JStr r \<in> set rs \<longrightarrow> map_of fs r \<noteq> None"
    and props: "\<forall>ps. map_of s ''properties'' = Some (JObj ps) \<longrightarrow> (\<forall>k x. map_of fs k = Some x \<longrightarrow>
      (\<exists>p. map_of ps k = Some p \<and> (k = watchNamespaceConfigKey \<longrightarrow> value_valid (namespace_formats ns) p x)))"
    unfolding object_valid_def by (elim exE conjE)
  have cfs: "c = fs" using assms(3) v(1) c fs unfolding sound_schemas_def by blast
  show ?thesis
  proof (cases "map_of fs watchNamespaceConfigKey")
    case None
    then have "\<not> isWatchNamespaceConfigRequired modes" using req assms(2) unfolding watch_schema_def by blast
    then show ?thesis by (simp add: cfs None watch_fits_def)
  next
    case (Some x)
    obtain ps where ps: "map_of s ''properties'' = Some (JObj ps)"
      "map_of ps watchNamespaceConfigKey = (if isWatchNamespaceConfigurable modes then Some (fst (buildWatchNamespaceProperty modes)) else None)"
      using assms(2) unfolding watch_schema_def by blast
    from props [rule_format, OF ps(1) Some] obtain p where "map_of ps watchNamespaceConfigKey = Some p" "value_valid (namespace_formats ns) p x" by auto
    then have "isWatchNamespaceConfigurable modes" "value_valid (namespace_formats ns) (fst (buildWatchNamespaceProperty modes)) x"
      using ps(2) by (simp_all split: if_splits)
    then show ?thesis unfolding cfs Some by (intro property_fits assms(4))
  qed
qed

section \<open>Properties\<close>

text \<open>
  The loop that looks for the innermost error of a decoding error ends: from any error it takes
  at most as many steps as the error is large, and the error it stops at wraps no other.
\<close>

theorem unwrap_loop_ends:
  "\<exists>es. unwrap_run e es \<and> last es = core_error e \<and> errors_Unwrap (core_error e) = None \<and> length es \<le> Suc (size e)"
  using unwrap_run_exists [of e] core_error_leaf by blast

end
