(* ===== verification/Bundle_Source.thy ===== *)
theory Bundle_Source
  imports Registry_Bundle
begin

text \<open>
  Reading a registry+v1 bundle from its file system (\<open>rukpak/bundle/source/source.go\<close>). What the file
  system and the decoders return are fields of an environment; the walk over the directory of
  manifests is the list of entries it passes to its callback.
\<close>

section \<open>Definitions\<close>

datatype file_read = ReadOk string | ReadNotExist go_error | ReadFailed go_error

text \<open>
  An entry of the walk: an error, a directory, or a file with the error of opening it, the error of
  the object stream, and the objects or errors the stream yields.
\<close>

datatype walk_entry =
    WalkErr go_error
  | WalkDirectory string
  | WalkFile string "go_error option" "go_error option" "json result list"

record source_env =
  se_ReadFile :: "string \<Rightarrow> file_read"
  se_decode_package :: "string \<Rightarrow> string result"
  se_walk :: "walk_entry list"
  se_decode_csv :: "json \<Rightarrow> cluster_service_version result"
  se_decode_crd :: "json \<Rightarrow> custom_resource_definition result"
  se_decode_csv_properties :: "string \<Rightarrow> json list result"
  se_decode_metadata_properties :: "string \<Rightarrow> json list result"
  se_encode_properties :: "json list \<Rightarrow> string result"

text \<open>The bundle under construction and whether a ClusterServiceVersion was found.\<close>

type_synonym bundle_acc = "registry_v1 \<times> bool"

abbreviation manifestsDir :: string where "manifestsDir \<equiv> ''manifests''"
abbreviation PropertyOLMProperties :: string where "PropertyOLMProperties \<equiv> ''olm.properties''"

definition add_object :: "source_env \<Rightarrow> bundle_acc \<Rightarrow> json result \<Rightarrow> bundle_acc result" where
  "add_object env acc item =
     (case item of
        Inl err \<Rightarrow> Inl err
      | Inr obj \<Rightarrow>
          (let (reg, foundCSV) = acc; kind = gvk_Kind (GroupVersionKind obj) in
           if kind = ''ClusterServiceVersion'' then
             (case se_decode_csv env obj of Inl err \<Rightarrow> Inl err | Inr csv \<Rightarrow> Inr (reg\<lparr>rv1_CSV := csv\<rparr>, True))
           else if kind = ''CustomResourceDefinition'' then
             (case se_decode_crd env obj of Inl err \<Rightarrow> Inl err | Inr crd \<Rightarrow> Inr (reg\<lparr>rv1_CRDs := rv1_CRDs reg @ [crd]\<rparr>, foundCSV))
           else Inr (reg\<lparr>rv1_Others := rv1_Others reg @ [obj]\<rparr>, foundCSV)))"

fun add_objects :: "source_env \<Rightarrow> bundle_acc \<Rightarrow> json result list \<Rightarrow> bundle_acc result" where
  "add_objects env acc [] = Inr acc"
| "add_objects env acc (item # items) =
     (case add_object env acc item of Inl err \<Rightarrow> Inl err | Inr acc' \<Rightarrow> add_objects env acc' items)"

definition visit_entry :: "source_env \<Rightarrow> bundle_acc \<Rightarrow> walk_entry \<Rightarrow> bundle_acc result" where
  "visit_entry env acc entry =
     (case entry of
        WalkErr err \<Rightarrow> Inl err
      | WalkDirectory path \<Rightarrow>
          if path = manifestsDir then Inr acc
          else Inl (ErrText (''subdirectories are not allowed within the '' @ go_quote manifestsDir @
            '' directory of the bundle image filesystem: found '' @ go_quote path))
      | WalkFile path openErr streamErr items \<Rightarrow>
          (case openErr of
             Some err \<Rightarrow> Inl err
           | None \<Rightarrow>
               (case streamErr of
                  Some err \<Rightarrow> Inl err
                | None \<Rightarrow>
                    (case add_objects env acc items of
                       Inl err \<Rightarrow> Inl (ErrText (''error parsing objects in '' @ go_quote path @ '': '' @ err_string err))
                     | Inr acc' \<Rightarrow> Inr acc'))))"

fun walk_entries :: "source_env \<Rightarrow> bundle_acc \<Rightarrow> walk_entry list \<Rightarrow> bundle_acc result" where
  "walk_entries env acc [] = Inr acc"
| "walk_entries env acc (e # es) =
     (case visit_entry env acc e of Inl err \<Rightarrow> Inl err | Inr acc' \<Rightarrow> walk_entries env acc' es)"

definition csv_properties :: "source_env \<Rightarrow> cluster_service_version \<Rightarrow> json list result" where
  "csv_properties env csv =
     (case csv_Annotations csv PropertyOLMProperties of
        None \<Rightarrow> Inr []
      | Some js \<Rightarrow>
          (case se_decode_csv_properties env js of
             Inl err \<Rightarrow> Inl (ErrWrap (''failed to unmarshal csv.metadata.annotations['' @ [CHR 0x27] @ ''olm.properties'' @ [CHR 0x27] @ '']: '') err '''')
           | Inr ps \<Rightarrow> Inr ps))"

definition copyMetadataPropertiesToCSV :: "source_env \<Rightarrow> cluster_service_version \<Rightarrow> cluster_service_version result" where
  "copyMetadataPropertiesToCSV env csv =
     (case csv_properties env csv of
        Inl err \<Rightarrow> Inl err
      | Inr csvProperties \<Rightarrow>
          (case se_ReadFile env ''metadata/properties.yaml'' of
             ReadFailed err \<Rightarrow> Inl (ErrWrap ''failed to read properties.yaml file: '' err '''')
           | ReadNotExist _ \<Rightarrow> Inr csv
           | ReadOk data \<Rightarrow>
               if data = '''' then Inr csv
               else
                 (case se_decode_metadata_properties env data of
                    Inl err \<Rightarrow> Inl (ErrWrap ''failed to unmarshal metadata/properties.yaml: '' err '''')
                  | Inr metadataProperties \<Rightarrow>
                      (case se_encode_properties env (csvProperties @ metadataProperties) of
                         Inl err \<Rightarrow> Inl (ErrWrap ''failed to marshal registry+v1 properties to json: '' err '''')
                       | Inr allPropertiesJSON \<Rightarrow>
                           Inr (csv\<lparr>csv_Annotations := (csv_Annotations csv)(PropertyOLMProperties \<mapsto> allPropertiesJSON)\<rparr>)))))"

definition empty_csv :: cluster_service_version where
  "empty_csv =
     \<lparr>csv_Name = '''', csv_Annotations = Map.empty, csv_InstallModes = [], csv_DeploymentSpecs = [], csv_Permissions = [],
      csv_ClusterPermissions = [], csv_WebhookDefinitions = [], csv_OwnedCRDs = [], csv_OwnedAPIServices = []\<rparr>"

definition GetBundle :: "source_env \<Rightarrow> registry_v1 result" where
  "GetBundle env =
     (case se_ReadFile env ''metadata/annotations.yaml'' of
        ReadFailed err \<Rightarrow> Inl err
      | ReadNotExist err \<Rightarrow> Inl err
      | ReadOk data \<Rightarrow>
          (case se_decode_package env data of
             Inl err \<Rightarrow> Inl err
           | Inr package \<Rightarrow>
               (case walk_entries env (\<lparr>rv1_PackageName = package, rv1_CSV = empty_csv, rv1_CRDs = [], rv1_Others = []\<rparr>, False) (se_walk env) of
                  Inl err \<Rightarrow> Inl err
                | Inr (reg, foundCSV) \<Rightarrow>
                    if \<not> foundCSV then Inl (ErrText (''no ClusterServiceVersion found in '' @ go_quote manifestsDir))
                    else
                      (case copyMetadataPropertiesToCSV env (rv1_CSV reg) of
                         Inl err \<Rightarrow> Inl err
                       | Inr csv \<Rightarrow> Inr (reg\<lparr>rv1_CSV := csv\<rparr>)))))"

section \<open>Lemmas\<close>

subsection \<open>The objects of the manifests\<close>

text \<open>The objects of all files, in the order of the walk.\<close>

definition manifest_objects :: "walk_entry list \<Rightarrow> json list" where
  "manifest_objects es =
     concat (map (\<lambda>e. case e of WalkFile _ _ _ items \<Rightarrow> List.map_filter (\<lambda>r. case r of Inl _ \<Rightarrow> None | Inr j \<Rightarrow> Some j) items | _ \<Rightarrow> []) es)"

abbreviation kind_of_json :: "json \<Rightarrow> string" where
  "kind_of_json obj \<equiv> gvk_Kind (GroupVersionKind obj)"

text \<open>What reading the objects adds to a bundle: the last CSV, and CRDs and other objects in order.\<close>

definition collects :: "source_env \<Rightarrow> json list \<Rightarrow> bundle_acc \<Rightarrow> bundle_acc \<Rightarrow> bool" where
  "collects env objs acc acc' \<longleftrightarrow>
     (\<exists>crds. list_all2 (\<lambda>obj crd. se_decode_crd env obj = Inr crd) (filter (\<lambda>obj. kind_of_json obj = ''CustomResourceDefinition'') objs) crds \<and>
        rv1_CRDs (fst acc') = rv1_CRDs (fst acc) @ crds) \<and>
     rv1_Others (fst acc') = rv1_Others (fst acc) @
       filter (\<lambda>obj. kind_of_json obj \<noteq> ''ClusterServiceVersion'' \<and> kind_of_json obj \<noteq> ''CustomResourceDefinition'') objs \<and>
     rv1_PackageName (fst acc') = rv1_PackageName (fst acc) \<and>
     (let csvs = filter (\<lambda>obj. kind_of_json obj = ''ClusterServiceVersion'') objs in
      if csvs = [] then rv1_CSV (fst acc') = rv1_CSV (fst acc) \<and> snd acc' = snd acc
      else se_decode_csv env (last csvs) = Inr (rv1_CSV (fst acc')) \<and> snd acc')"

lemma collects_Nil: "collects env [] acc acc"
  by (simp add: collects_def)

lemma collects_append:
  assumes "collects env xs acc acc'" and "collects env ys acc' acc''"
  shows "collects env (xs @ ys) acc acc''"
proof -
  obtain c1 c2 where "list_all2 (\<lambda>obj crd. se_decode_crd env obj = Inr crd) (filter (\<lambda>obj. kind_of_json obj = ''CustomResourceDefinition'') xs) c1"
    "rv1_CRDs (fst acc') = rv1_CRDs (fst acc) @ c1"
    "list_all2 (\<lambda>obj crd. se_decode_crd env obj = Inr crd) (filter (\<lambda>obj. kind_of_json obj = ''CustomResourceDefinition'') ys) c2"
    "rv1_CRDs (fst acc'') = rv1_CRDs (fst acc') @ c2"
    using assms by (auto simp: collects_def)
  then have "\<exists>crds. list_all2 (\<lambda>obj crd. se_decode_crd env obj = Inr crd) (filter (\<lambda>obj. kind_of_json obj = ''CustomResourceDefinition'') (xs @ ys)) crds \<and>
      rv1_CRDs (fst acc'') = rv1_CRDs (fst acc) @ crds"
    by (intro exI [of _ "c1 @ c2"]) (simp add: list_all2_appendI)
  with assms show ?thesis unfolding collects_def Let_def filter_append by (auto split: if_splits)
qed

lemma add_object_collects:
  assumes "add_object env acc (Inr obj) = Inr acc'"
  shows "collects env [obj] acc acc'"
  using assms by (cases acc) (auto simp: add_object_def collects_def Let_def split: if_splits sum.splits)

lemma add_objects_collects:
  "add_objects env acc items = Inr acc' \<Longrightarrow>
     collects env (List.map_filter (\<lambda>r. case r of Inl _ \<Rightarrow> None | Inr j \<Rightarrow> Some j) items) acc acc'"
proof (induction env acc items rule: add_objects.induct)
  case (2 env acc item items)
  then obtain obj acc1 where step: "item = Inr obj" "add_object env acc (Inr obj) = Inr acc1" "add_objects env acc1 items = Inr acc'"
    by (cases item) (auto simp: add_object_def split: sum.splits)
  from 2(1) step have "collects env (List.map_filter (\<lambda>r. case r of Inl _ \<Rightarrow> None | Inr j \<Rightarrow> Some j) items) acc1 acc'" by simp
  from collects_append [OF add_object_collects [OF step(2)] this] show ?case by (simp add: step(1) List.map_filter_simps)
qed (simp add: collects_Nil List.map_filter_simps)

lemma walk_collects: "walk_entries env acc es = Inr acc' \<Longrightarrow> collects env (manifest_objects es) acc acc'"
proof (induction env acc es rule: walk_entries.induct)
  case (2 env acc e es)
  then obtain acc1 where v: "visit_entry env acc e = Inr acc1" and w: "walk_entries env acc1 es = Inr acc'" by (auto split: sum.splits)
  have "collects env (manifest_objects [e]) acc acc1"
    using v add_objects_collects collects_Nil
    by (fastforce simp: visit_entry_def manifest_objects_def split: walk_entry.splits if_splits option.splits sum.splits)
  from collects_append [OF this 2(1) [OF v w]] show ?case by (simp add: manifest_objects_def)
qed (simp add: collects_Nil manifest_objects_def)

subsection \<open>Properties of the bundle\<close>

text \<open>The properties of the metadata directory; none without a file.\<close>

definition metadata_properties :: "source_env \<Rightarrow> json list result" where
  "metadata_properties env =
     (case se_ReadFile env ''metadata/properties.yaml'' of
        ReadOk data \<Rightarrow> if data = '''' then Inr [] else se_decode_metadata_properties env data
      | _ \<Rightarrow> Inr [])"

lemma properties_copied:
  assumes "copyMetadataPropertiesToCSV env csv = Inr csv'"
    and "\<And>ps js. se_encode_properties env ps = Inr js \<Longrightarrow> se_decode_csv_properties env js = Inr ps"
  shows "\<exists>own meta. csv_properties env csv = Inr own \<and> metadata_properties env = Inr meta \<and> csv_properties env csv' = Inr (own @ meta)"
    and "csv'\<lparr>csv_Annotations := csv_Annotations csv\<rparr> = csv"
    and "k \<noteq> PropertyOLMProperties \<Longrightarrow> csv_Annotations csv' k = csv_Annotations csv k"
proof -
  obtain own where own: "csv_properties env csv = Inr own"
    using assms(1) by (auto simp: copyMetadataPropertiesToCSV_def split: sum.splits)
  consider (same) "csv' = csv" "metadata_properties env = Inr []"
    | (copied) meta js where "metadata_properties env = Inr meta" "se_encode_properties env (own @ meta) = Inr js"
      "csv' = csv\<lparr>csv_Annotations := (csv_Annotations csv)(PropertyOLMProperties \<mapsto> js)\<rparr>"
    using assms(1) own
    by (auto simp: copyMetadataPropertiesToCSV_def metadata_properties_def split: sum.splits file_read.splits if_splits)
  note cases = this
  from cases show "\<exists>own meta. csv_properties env csv = Inr own \<and> metadata_properties env = Inr meta \<and> csv_properties env csv' = Inr (own @ meta)"
  proof cases
    case same
    then show ?thesis using own by simp
  next
    case copied
    have "csv_properties env csv' = Inr (own @ meta)" by (simp add: csv_properties_def copied(3) assms(2) [OF copied(2)])
    then show ?thesis using own copied(1) by blast
  qed
  from cases show "csv'\<lparr>csv_Annotations := csv_Annotations csv\<rparr> = csv" by cases simp_all
  from cases show "k \<noteq> PropertyOLMProperties \<Longrightarrow> csv_Annotations csv' k = csv_Annotations csv k" by cases simp_all
qed

section \<open>Properties\<close>

text \<open>
  Reading a bundle gives the package name of its annotations, its CRDs and other objects in the
  order of the manifests, and the last ClusterServiceVersion of the manifests, unchanged except that
  its properties are followed by those of the metadata directory, when the encoding of properties
  can be read back.
\<close>

theorem bundle_read_exact:
  assumes "GetBundle env = Inr b"
    and "\<And>ps js. se_encode_properties env ps = Inr js \<Longrightarrow> se_decode_csv_properties env js = Inr ps"
  shows "(\<exists>data. se_ReadFile env ''metadata/annotations.yaml'' = ReadOk data \<and> se_decode_package env data = Inr (rv1_PackageName b)) \<and>
     list_all2 (\<lambda>obj crd. se_decode_crd env obj = Inr crd)
       (filter (\<lambda>obj. kind_of_json obj = ''CustomResourceDefinition'') (manifest_objects (se_walk env))) (rv1_CRDs b) \<and>
     rv1_Others b = filter (\<lambda>obj. kind_of_json obj \<notin> {''ClusterServiceVersion'', ''CustomResourceDefinition''}) (manifest_objects (se_walk env)) \<and>
     (\<exists>csv own meta. se_decode_csv env (last (filter (\<lambda>obj. kind_of_json obj = ''ClusterServiceVersion'') (manifest_objects (se_walk env)))) = Inr csv \<and>
        (rv1_CSV b)\<lparr>csv_Annotations := csv_Annotations csv\<rparr> = csv \<and>
        (\<forall>k. k \<noteq> PropertyOLMProperties \<longrightarrow> csv_Annotations (rv1_CSV b) k = csv_Annotations csv k) \<and>
        csv_properties env csv = Inr own \<and> metadata_properties env = Inr meta \<and> csv_properties env (rv1_CSV b) = Inr (own @ meta))"
proof -
  obtain data pkg reg csv where read: "se_ReadFile env ''metadata/annotations.yaml'' = ReadOk data" "se_decode_package env data = Inr pkg"
    and walk: "walk_entries env (\<lparr>rv1_PackageName = pkg, rv1_CSV = empty_csv, rv1_CRDs = [], rv1_Others = []\<rparr>, False) (se_walk env) = Inr (reg, True)"
    and copy: "copyMetadataPropertiesToCSV env (rv1_CSV reg) = Inr csv" and b: "b = reg\<lparr>rv1_CSV := csv\<rparr>"
    using assms(1) by (auto simp: GetBundle_def split: file_read.splits sum.splits if_splits)
  note c = walk_collects [OF walk, unfolded collects_def Let_def]
  have csvs: "se_decode_csv env (last (filter (\<lambda>obj. kind_of_json obj = ''ClusterServiceVersion'') (manifest_objects (se_walk env)))) = Inr (rv1_CSV reg)"
    using c by (auto split: if_splits)
  obtain own meta where "csv_properties env (rv1_CSV reg) = Inr own" "metadata_properties env = Inr meta" "csv_properties env csv = Inr (own @ meta)"
    using properties_copied(1) [OF copy assms(2)] by blast
  moreover note properties_copied(2,3) [OF copy assms(2)]
  ultimately show ?thesis using read c csvs by (simp add: b)
qed

definition sample_source :: source_env where
  "sample_source =
     \<lparr>se_ReadFile = \<lambda>p. if p = ''metadata/annotations.yaml'' then ReadOk ''pkg'' else if p = ''metadata/properties.yaml'' then ReadOk ''p''
        else ReadNotExist (ErrText ''missing''),
      se_decode_package = Inr,
      se_walk = [WalkDirectory ''manifests'',
        WalkFile ''manifests/csv.yaml'' None None [Inr (JObj [(''apiVersion'', JStr ''v1''), (''kind'', JStr ''ClusterServiceVersion'')])],
        WalkFile ''manifests/svc.yaml'' None None [Inr (JObj [(''apiVersion'', JStr ''v1''), (''kind'', JStr ''Service'')])]],
      se_decode_csv = \<lambda>j. Inr (empty_csv\<lparr>csv_Name := ''op.v1''\<rparr>),
      se_decode_crd = \<lambda>j. Inl (ErrText ''no CRDs''),
      se_decode_csv_properties = \<lambda>s. Inr (map (\<lambda>c. JStr [c]) s),
      se_decode_metadata_properties = \<lambda>s. Inr [JStr s],
      se_encode_properties = \<lambda>ps. if list_all (\<lambda>p. case p of JStr [c] \<Rightarrow> True | _ \<Rightarrow> False) ps then Inr (concat (map (\<lambda>p. json_str (Some p)) ps))
        else Inl (ErrText ''unsupported'')\<rparr>"

lemma sample_codec:
  "se_encode_properties sample_source ps = Inr js \<Longrightarrow> se_decode_csv_properties sample_source js = Inr ps"
proof -
  assume "se_encode_properties sample_source ps = Inr js"
  then have all: "list_all (\<lambda>p. case p of JStr [c] \<Rightarrow> True | _ \<Rightarrow> False) ps" and js: "js = concat (map (\<lambda>p. json_str (Some p)) ps)"
    by (auto simp: sample_source_def split: if_splits)
  have "map (\<lambda>c. JStr [c]) (concat (map (\<lambda>p. json_str (Some p)) ps)) = ps"
    using all by (induction ps) (auto split: json.splits list.splits)
  then show ?thesis by (simp add: sample_source_def js)
qed

theorem bundle_read_exact_witness:
  "\<exists>b. GetBundle sample_source = Inr b \<and> rv1_PackageName b = ''pkg'' \<and> length (rv1_Others b) = 1 \<and>
     csv_properties sample_source (rv1_CSV b) = Inr [JStr ''p'']"
proof -
  obtain b where b: "GetBundle sample_source = Inr b"
    by (simp add: GetBundle_def sample_source_def visit_entry_def add_object_def GroupVersionKind_def ParseGroupVersion_def json_string_at_def
        copyMetadataPropertiesToCSV_def csv_properties_def empty_csv_def)
  note r = bundle_read_exact [OF b sample_codec]
  have "rv1_PackageName b = ''pkg''" using r by (auto simp: sample_source_def)
  moreover have "length (rv1_Others b) = 1"
    using r by (simp add: sample_source_def manifest_objects_def List.map_filter_simps GroupVersionKind_def ParseGroupVersion_def json_string_at_def)
  moreover have "csv_properties sample_source (rv1_CSV b) = Inr [JStr ''p'']"
  proof -
    from r obtain csv own meta where "csv_properties sample_source csv = Inr own" "metadata_properties sample_source = Inr meta"
      "csv_properties sample_source (rv1_CSV b) = Inr (own @ meta)" "csv_Annotations csv = Map.empty"
      by (auto simp: sample_source_def empty_csv_def)
    then show ?thesis by (simp add: csv_properties_def metadata_properties_def) (simp add: sample_source_def)
  qed
  ultimately show ?thesis using b by blast
qed

end
