(* ===== verification/Manifest_Provider.thy ===== *)
theory Manifest_Provider
  imports Bundle_Config Bundle_Source
begin

text \<open>
  The manifest providers (\<open>applier/provider.go\<close>): from a bundle and the configuration of an extension to
  the objects to apply, and from those to a Helm chart. The JSON encoder, SHA-256 and the file
  functions of Helm's templates are parameters.
\<close>

section \<open>Definitions\<close>

abbreviation ClusterExtensionConfigTypeInline :: string where "ClusterExtensionConfigTypeInline \<equiv> ''Inline''"

record manifest_provider =
  mp_BundleRenderer :: bundle_renderer
  mp_CertificateProvider :: "certificate_provider option"
  mp_IsWebhookSupportEnabled :: bool
  mp_IsSingleOwnNamespaceEnabled :: bool
  mp_IsDeploymentConfigEnabled :: bool

definition extensionConfigBytes :: "cluster_extension \<Rightarrow> string option" where
  "extensionConfigBytes ext =
     (case exts_Config (ext_Spec ext) of
        None \<Rightarrow> None
      | Some cfg \<Rightarrow> if cfg_ConfigType cfg = ClusterExtensionConfigTypeInline then cfg_Inline cfg else None)"

definition drop_deployment_config :: "schema \<Rightarrow> schema" where
  "drop_deployment_config schema =
     (case map_of schema ''properties'' of
        Some (JObj props) \<Rightarrow> json_put schema ''properties'' (JObj (json_delete props ''deploymentConfig''))
      | _ \<Rightarrow> schema)"

definition invalid_configuration :: "string \<Rightarrow> go_error \<Rightarrow> go_error" where
  "invalid_configuration what err = NewTerminalError ReasonInvalidConfiguration (ErrWrap what err '''')"

definition extractBundleConfigOptions ::
  "manifest_provider \<Rightarrow> config_env \<Rightarrow> registry_v1 \<Rightarrow> cluster_extension \<Rightarrow> render_option list result" where
  "extractBundleConfigOptions r env rv1 ext =
     (case GetConfigSchema (ce_base_schema env) rv1 of
        Inl err \<Rightarrow> Inl (ErrWrap ''error getting configuration schema: '' err '''')
      | Inr schema0 \<Rightarrow>
          (let schema = (if mp_IsDeploymentConfigEnabled r then schema0 else drop_deployment_config schema0) in
           case UnmarshalConfig env (extensionConfigBytes ext) (Some schema) (exts_Namespace (ext_Spec ext)) of
             Inl err \<Rightarrow> Inl (invalid_configuration ''invalid ClusterExtension configuration: '' err)
           | Inr bundleConfig \<Rightarrow>
               (let opts = (case GetWatchNamespace env bundleConfig of None \<Rightarrow> [] | Some watchNS \<Rightarrow> [WithTargetNamespaces [watchNS]]) in
                if mp_IsDeploymentConfigEnabled r then
                  (case GetDeploymentConfig env bundleConfig of
                     Inl err \<Rightarrow> Inl (invalid_configuration ''invalid deploymentConfig: '' err)
                   | Inr None \<Rightarrow> Inr opts
                   | Inr (Some dc) \<Rightarrow> Inr (opts @ [WithDeploymentConfig (Some dc)]))
                else Inr opts)))"

text \<open>The checks of a bundle before it is rendered.\<close>

definition unsupported_bundle :: "manifest_provider \<Rightarrow> registry_v1 \<Rightarrow> go_error option" where
  "unsupported_bundle r rv1 =
     (let csv = rv1_CSV rv1; installModes = set (csv_InstallModes csv) in
      if csv_OwnedAPIServices csv \<noteq> [] then Some (ErrText ''unsupported bundle: apiServiceDefintions are not supported'')
      else if csv_WebhookDefinitions csv \<noteq> [] \<and> \<not> mp_IsWebhookSupportEnabled r then
        Some (ErrText ''unsupported bundle: webhookDefinitions are not supported'')
      else if csv_WebhookDefinitions csv \<noteq> [] \<and> mp_CertificateProvider r = None then
        Some (ErrText ''unsupported bundle: webhookDefinitions are not supported: certificate provider is nil'')
      else if \<not> mp_IsSingleOwnNamespaceEnabled r \<and> supports InstallModeTypeAllNamespaces \<notin> installModes then
        Some (ErrText ''unsupported bundle: bundle does not support AllNamespaces install mode'')
      else if supports InstallModeTypeAllNamespaces \<notin> installModes \<and> supports InstallModeTypeSingleNamespace \<notin> installModes \<and>
          supports InstallModeTypeOwnNamespace \<notin> installModes then
        Some (ErrText ''unsupported bundle: bundle must support at least one of [AllNamespaces SingleNamespace OwnNamespace] install modes'')
      else None)"

definition provider_options :: "manifest_provider \<Rightarrow> config_env \<Rightarrow> registry_v1 \<Rightarrow> cluster_extension \<Rightarrow> render_option list result" where
  "provider_options r cenv rv1 ext =
     (let opts = [WithCertificateProvider (mp_CertificateProvider r)] in
      if mp_IsSingleOwnNamespaceEnabled r \<or> exts_Config (ext_Spec ext) \<noteq> None then
        (case extractBundleConfigOptions r cenv rv1 ext of
           Inl err \<Rightarrow> Inl err
         | Inr configOpts \<Rightarrow> Inr (opts @ configOpts))
      else Inr opts)"

definition provider_Get ::
  "manifest_provider \<Rightarrow> config_env \<Rightarrow> render_env \<Rightarrow> source_env \<Rightarrow> cluster_extension \<Rightarrow> client_object list gen" where
  "provider_Get r cenv renv bundleFS ext =
     (case GetBundle bundleFS of
        Inl err \<Rightarrow> Some (Inl err)
      | Inr rv1 \<Rightarrow>
          (case unsupported_bundle r rv1 of
             Some err \<Rightarrow> Some (Inl err)
           | None \<Rightarrow>
               (case provider_options r cenv rv1 ext of
                  Inl err \<Rightarrow> Some (Inl err)
                | Inr opts \<Rightarrow> Render (mp_BundleRenderer r) renv rv1 (exts_Namespace (ext_Spec ext)) (map Some opts))))"

subsection \<open>Charts\<close>

record chart_file =
  chf_Name :: string
  chf_Data :: string

record chart =
  chrt_Annotations :: string_map
  chrt_Files :: "chart_file list"
  chrt_Templates :: "chart_file list"

record chart_env =
  chv_Marshal :: "client_object \<Rightarrow> string result"
  chv_sha256 :: "string \<Rightarrow> string"

definition object_file_name :: "chart_env \<Rightarrow> string \<Rightarrow> string" where
  "object_file_name env jsonData = ''object-'' @ hex_string (take 8 (chv_sha256 env jsonData)) @ ''.json''"

definition file_template :: "string \<Rightarrow> string" where
  "file_template name = ''{{.Files.Get '' @ [CHR 0x22] @ name @ [CHR 0x22] @ ''}}''"

definition add_chart_object :: "chart_env \<Rightarrow> chart \<Rightarrow> string \<Rightarrow> chart" where
  "add_chart_object env chrt jsonData =
     (let name = object_file_name env jsonData in
      chrt\<lparr>chrt_Files := chrt_Files chrt @ [\<lparr>chf_Name = name, chf_Data = jsonData\<rparr>],
           chrt_Templates := chrt_Templates chrt @ [\<lparr>chf_Name = name, chf_Data = file_template name\<rparr>]\<rparr>)"

fun add_chart_objects :: "chart_env \<Rightarrow> chart \<Rightarrow> client_object list \<Rightarrow> chart result" where
  "add_chart_objects env chrt [] = Inr chrt"
| "add_chart_objects env chrt (obj # objs) =
     (case chv_Marshal env obj of
        Inl err \<Rightarrow> Inl err
      | Inr jsonData \<Rightarrow> add_chart_objects env (add_chart_object env chrt jsonData) objs)"

type_synonym manifest_source = "source_env \<Rightarrow> cluster_extension \<Rightarrow> client_object list gen"

definition chart_Get :: "chart_env \<Rightarrow> manifest_source \<Rightarrow> source_env \<Rightarrow> cluster_extension \<Rightarrow> chart gen" where
  "chart_Get env manifestProvider bundleFS ext =
     gen_bind (manifestProvider bundleFS ext) (\<lambda>objs.
       Some (case GetBundle bundleFS of
               Inl err \<Rightarrow> Inl err
             | Inr rv1 \<Rightarrow>
                 add_chart_objects env \<lparr>chrt_Annotations = csv_Annotations (rv1_CSV rv1), chrt_Files = [], chrt_Templates = []\<rparr> objs))"

definition getBundleAnnotations :: "source_env \<Rightarrow> string_map result" where
  "getBundleAnnotations bundleFS =
     (case GetBundle bundleFS of Inl err \<Rightarrow> Inl err | Inr rv1 \<Rightarrow> Inr (csv_Annotations (rv1_CSV rv1)))"

section \<open>Lemmas\<close>

subsection \<open>Configurations that were accepted fit the bundle\<close>

lemma supported_modes: "supports m \<in> set (csv_InstallModes (rv1_CSV rv1)) \<longleftrightarrow> m \<in> supportedBundleInstallModes rv1"
proof -
  have "im_Supported im \<longleftrightarrow> im = supports (im_Type im)" for im by (cases im) simp
  then show ?thesis unfolding supportedBundleInstallModes_def by (auto simp: image_iff)
qed

lemma drop_deployment_config_watch: "watch_schema modes s \<Longrightarrow> watch_schema modes (drop_deployment_config s)"
  by (auto simp: watch_schema_def drop_deployment_config_def)

text \<open>The options that come from an accepted configuration.\<close>

lemma extracted_options:
  assumes "extractBundleConfigOptions r env rv1 ext = Inr opts" and "sound_schemas env" and "closed_base env"
    and "exts_Namespace (ext_Spec ext) \<noteq> ''''"
  obtains w dc where "opts = (case w of None \<Rightarrow> [] | Some t \<Rightarrow> [WithTargetNamespaces [t]]) @ (case dc of None \<Rightarrow> [] | Some d \<Rightarrow> [WithDeploymentConfig (Some d)])"
    and "watch_fits (set (csv_InstallModes (rv1_CSV rv1))) (exts_Namespace (ext_Spec ext)) (map_option JStr w) \<or>
         w = None \<and> watch_fits (set (csv_InstallModes (rv1_CSV rv1))) (exts_Namespace (ext_Spec ext)) (Some JNull)"
proof -
  let ?modes = "set (csv_InstallModes (rv1_CSV rv1))" and ?ns = "exts_Namespace (ext_Spec ext)"
  obtain s0 c where s0: "GetConfigSchema (ce_base_schema env) rv1 = Inr s0"
    and c: "UnmarshalConfig env (extensionConfigBytes ext) (Some (if mp_IsDeploymentConfigEnabled r then s0 else drop_deployment_config s0)) ?ns = Inr c"
    using assms(1) by (auto simp: extractBundleConfigOptions_def Let_def split: sum.splits if_splits)
  have "watch_schema ?modes s0" using built_schema [OF _ assms(3)] s0 by (simp add: GetConfigSchema_def)
  then have "watch_schema ?modes (if mp_IsDeploymentConfigEnabled r then s0 else drop_deployment_config s0)"
    by (simp add: drop_deployment_config_watch)
  from accepted_fits [OF c this assms(2,4)] have fits: "watch_fits ?modes ?ns (map_of c watchNamespaceConfigKey)" .
  obtain dc where opts: "opts = (case GetWatchNamespace env c of None \<Rightarrow> [] | Some t \<Rightarrow> [WithTargetNamespaces [t]]) @
      (case dc of None \<Rightarrow> [] | Some d \<Rightarrow> [WithDeploymentConfig (Some d)])"
  proof (cases "mp_IsDeploymentConfigEnabled r")
    case True
    with assms(1) s0 c obtain dc where dc: "GetDeploymentConfig env c = Inr dc"
      by (auto simp: extractBundleConfigOptions_def Let_def split: sum.splits)
    show thesis
      by (rule that [of dc], cases dc) (use True assms(1) s0 c dc in \<open>simp_all add: extractBundleConfigOptions_def Let_def\<close>)
  next
    case False
    with assms(1) s0 c show thesis by (intro that [of None]) (simp add: extractBundleConfigOptions_def Let_def)
  qed
  show thesis
    by (rule that [OF opts]) (use fits in \<open>auto simp: watch_fits_def GetWatchNamespace_def split: option.splits json.splits\<close>)
qed

lemma provider_settings:
  assumes "opts = [WithCertificateProvider p] @ (case w of None \<Rightarrow> [] | Some t \<Rightarrow> [WithTargetNamespaces [t]]) @
      (case dc of None \<Rightarrow> [] | Some d \<Rightarrow> [WithDeploymentConfig (Some d)])"
  shows "ro_TargetNamespaces (render_settings renv rv1 ns (map Some opts)) =
      (case w of None \<Rightarrow> defaultTargetNamespacesForBundle rv1 | Some t \<Rightarrow> [t])"
    and "ro_InstallNamespace (render_settings renv rv1 ns (map Some opts)) = ns"
    and "ro_UniqueNameGenerator (render_settings renv rv1 ns (map Some opts)) =
      Some (DefaultUniqueNameGenerator (rn_encode renv) (rn_sha224 renv))"
    and "ro_CertificateProvider (render_settings renv rv1 ns (map Some opts)) = p"
    and "ro_DeploymentConfig (render_settings renv rv1 ns (map Some opts)) = dc"
  by (cases w; cases dc; simp add: assms render_settings_def apply_options_def WithCertificateProvider_def WithTargetNamespaces_def
      WithDeploymentConfig_def)+

lemma options_shape:
  assumes "provider_options r env rv1 ext = Inr opts" and "unsupported_bundle r rv1 = None" and "sound_schemas env" and "closed_base env"
    and "exts_Namespace (ext_Spec ext) \<noteq> ''''"
  obtains w dc where "opts = [WithCertificateProvider (mp_CertificateProvider r)] @ (case w of None \<Rightarrow> [] | Some t \<Rightarrow> [WithTargetNamespaces [t]]) @
      (case dc of None \<Rightarrow> [] | Some d \<Rightarrow> [WithDeploymentConfig (Some d)])"
    and "case w of None \<Rightarrow> InstallModeTypeAllNamespaces \<in> supportedBundleInstallModes rv1
         | Some t \<Rightarrow> t \<noteq> '''' \<and> (if t = exts_Namespace (ext_Spec ext) then InstallModeTypeOwnNamespace \<in> supportedBundleInstallModes rv1
             else InstallModeTypeSingleNamespace \<in> supportedBundleInstallModes rv1)"
proof (cases "mp_IsSingleOwnNamespaceEnabled r \<or> exts_Config (ext_Spec ext) \<noteq> None")
  case True
  let ?modes = "set (csv_InstallModes (rv1_CSV rv1))" and ?ns = "exts_Namespace (ext_Spec ext)"
  obtain copts where copts: "extractBundleConfigOptions r env rv1 ext = Inr copts"
    and opts: "opts = [WithCertificateProvider (mp_CertificateProvider r)] @ copts"
    using assms(1) [unfolded provider_options_def Let_def if_P [OF True]] by (auto split: sum.splits)
  obtain w dc where c: "copts = (case w of None \<Rightarrow> [] | Some t \<Rightarrow> [WithTargetNamespaces [t]]) @ (case dc of None \<Rightarrow> [] | Some d \<Rightarrow> [WithDeploymentConfig (Some d)])"
    and fits: "watch_fits ?modes ?ns (map_option JStr w) \<or> w = None \<and> watch_fits ?modes ?ns (Some JNull)"
    by (rule extracted_options [OF copts assms(3-5)])
  have some: "supports InstallModeTypeAllNamespaces \<in> ?modes \<or> isWatchNamespaceConfigurable ?modes"
    using assms(2) by (auto simp: unsupported_bundle_def Let_def isWatchNamespaceConfigurable_def split: if_splits)
  show thesis
  proof (rule that [of w dc])
    show "opts = [WithCertificateProvider (mp_CertificateProvider r)] @ (case w of None \<Rightarrow> [] | Some t \<Rightarrow> [WithTargetNamespaces [t]]) @
      (case dc of None \<Rightarrow> [] | Some d \<Rightarrow> [WithDeploymentConfig (Some d)])" by (simp add: opts c)
    show "case w of None \<Rightarrow> InstallModeTypeAllNamespaces \<in> supportedBundleInstallModes rv1
        | Some t \<Rightarrow> t \<noteq> '''' \<and> (if t = ?ns then InstallModeTypeOwnNamespace \<in> supportedBundleInstallModes rv1
            else InstallModeTypeSingleNamespace \<in> supportedBundleInstallModes rv1)"
      using fits some
      by (cases w) (auto simp: watch_fits_def isWatchNamespaceConfigRequired_def dns1123_label_def supported_modes [symmetric])
  qed
next
  case False
  have "InstallModeTypeAllNamespaces \<in> supportedBundleInstallModes rv1"
    using assms(2) False by (auto simp: unsupported_bundle_def Let_def supported_modes split: if_splits)
  moreover have "opts = [WithCertificateProvider (mp_CertificateProvider r)]"
    using assms(1) [unfolded provider_options_def Let_def if_not_P [OF False]] by simp
  ultimately show thesis by (intro that [of None None]) simp_all
qed

lemma options_fit:
  assumes "provider_options r env rv1 ext = Inr opts" and "unsupported_bundle r rv1 = None" and "sound_schemas env" and "closed_base env"
    and "exts_Namespace (ext_Spec ext) \<noteq> ''''"
  shows "validate_options (render_settings renv rv1 (exts_Namespace (ext_Spec ext)) (map Some opts)) rv1 = []"
proof (rule options_shape [OF assms])
  fix w dc
  let ?ns = "exts_Namespace (ext_Spec ext)"
  assume opts: "opts = [WithCertificateProvider (mp_CertificateProvider r)] @ (case w of None \<Rightarrow> [] | Some t \<Rightarrow> [WithTargetNamespaces [t]]) @
      (case dc of None \<Rightarrow> [] | Some d \<Rightarrow> [WithDeploymentConfig (Some d)])"
    and w: "case w of None \<Rightarrow> InstallModeTypeAllNamespaces \<in> supportedBundleInstallModes rv1
         | Some t \<Rightarrow> t \<noteq> '''' \<and> (if t = ?ns then InstallModeTypeOwnNamespace \<in> supportedBundleInstallModes rv1
             else InstallModeTypeSingleNamespace \<in> supportedBundleInstallModes rv1)"
  have "validateTargetNamespaces rv1 ?ns (case w of None \<Rightarrow> defaultTargetNamespacesForBundle rv1 | Some t \<Rightarrow> [t]) = None"
    using w by (cases w) (simp_all add: target_namespaces_ok Let_def defaultTargetNamespacesForBundle_def)
  then show ?thesis by (simp add: validate_options_def provider_settings [OF opts])
qed

subsection \<open>Charts\<close>

lemma add_chart_objects_eq:
  "add_chart_objects env c objs = Inr c' \<Longrightarrow>
     \<exists>datas. list_all2 (\<lambda>obj data. chv_Marshal env obj = Inr data) objs datas \<and>
       chrt_Files c' = chrt_Files c @ map (\<lambda>data. \<lparr>chf_Name = object_file_name env data, chf_Data = data\<rparr>) datas \<and>
       chrt_Templates c' = chrt_Templates c @
         map (\<lambda>data. \<lparr>chf_Name = object_file_name env data, chf_Data = file_template (object_file_name env data)\<rparr>) datas \<and>
       chrt_Annotations c' = chrt_Annotations c"
proof (induction env c objs rule: add_chart_objects.induct)
  case (2 env c obj objs)
  then obtain data where data: "chv_Marshal env obj = Inr data" and rest: "add_chart_objects env (add_chart_object env c data) objs = Inr c'"
    by (auto split: sum.splits)
  from 2(1) [OF data rest] obtain datas where
    "list_all2 (\<lambda>obj data. chv_Marshal env obj = Inr data) objs datas"
    "chrt_Files c' = chrt_Files c @ map (\<lambda>data. \<lparr>chf_Name = object_file_name env data, chf_Data = data\<rparr>) (data # datas)"
    "chrt_Templates c' = chrt_Templates c @
         map (\<lambda>data. \<lparr>chf_Name = object_file_name env data, chf_Data = file_template (object_file_name env data)\<rparr>) (data # datas)"
    "chrt_Annotations c' = chrt_Annotations c"
    by (auto simp: add_chart_object_def Let_def)
  then show ?case using data by (intro exI [of _ "data # datas"]) simp
qed auto

text \<open>\<open>.Files.Get\<close> in a template: the files are collected into a map, so that the last of a name counts.\<close>

definition files_Get :: "chart_file list \<Rightarrow> string \<Rightarrow> string" where
  "files_Get files name = map_get (map_of (rev (map (\<lambda>f. (chf_Name f, chf_Data f)) files))) name"

lemma files_Get_data:
  assumes "data \<in> set datas" and "inj_on (object_file_name env) (set datas)"
  shows "files_Get (map (\<lambda>data. \<lparr>chf_Name = object_file_name env data, chf_Data = data\<rparr>) datas) (object_file_name env data) = data"
proof -
  let ?al = "rev (map (\<lambda>data. (object_file_name env data, data)) datas)"
  have "(object_file_name env data, data) \<in> set ?al" using assms(1) by auto
  then obtain d where d: "map_of ?al (object_file_name env data) = Some d" by (metis weak_map_of_SomeI)
  then have "(object_file_name env data, d) \<in> set ?al" by (rule map_of_SomeD)
  then have "d = data" using assms by (auto dest: inj_onD)
  then show ?thesis using d by (simp add: files_Get_def map_get_def comp_def)
qed

section \<open>Properties\<close>

text \<open>
  C27: Once the provider accepts a bundle and the configuration of an extension, rendering depends on the
  bundle alone: it never panics and never fails because of the watched namespace, and it succeeds
  exactly if the bundle passes the validator and its converted CRDs do not preserve unknown fields.
  The JSON schema library is assumed to implement the keywords of the schema.
\<close>

theorem accepted_config_renders:
  assumes "GetBundle bundleFS = Inr rv1" and "unsupported_bundle r rv1 = None" and "provider_options r cenv rv1 ext = Inr opts"
    and "mp_BundleRenderer r = Renderer" and "sound_schemas cenv" and "closed_base cenv" and "exts_Namespace (ext_Spec ext) \<noteq> ''''"
    and "total_options (render_settings renv rv1 (exts_Namespace (ext_Spec ext)) (map Some opts))"
  shows "provider_Get r cenv renv bundleFS ext \<noteq> None \<and>
    ((\<exists>objs. provider_Get r cenv renv bundleFS ext = Some (Inr objs)) \<longleftrightarrow> Validate BundleValidator rv1 = None \<and> convertible rv1)"
proof -
  have "provider_Get r cenv renv bundleFS ext = Render Renderer renv rv1 (exts_Namespace (ext_Spec ext)) (map Some opts)"
    using assms(1-4) by (simp add: provider_Get_def)
  then show ?thesis
    using Render_outcome [OF assms(8)] options_fit [OF assms(3,2,5,6,7)] by (simp add: Validate_well_formed)
qed

text \<open>
  The chart of a bundle carries its objects: it has one template for each object, in order, which
  inserts a file of the chart, and that file holds the JSON of the object, unless the shortened hashes
  of two different objects collide. The annotations are those of the ClusterServiceVersion.
\<close>

theorem chart_carries_objects:
  assumes "chart_Get env get bundleFS ext = Some (Inr chrt)" and "get bundleFS ext = Some (Inr objs)"
    and "inj_on (object_file_name env) {data. \<exists>obj \<in> set objs. chv_Marshal env obj = Inr data}"
  shows "list_all2 (\<lambda>obj t. chf_Data t = file_template (chf_Name t) \<and> chv_Marshal env obj = Inr (files_Get (chrt_Files chrt) (chf_Name t)))
     objs (chrt_Templates chrt) \<and> getBundleAnnotations bundleFS = Inr (chrt_Annotations chrt)"
proof -
  obtain rv1 where rv1: "GetBundle bundleFS = Inr rv1" and add:
    "add_chart_objects env \<lparr>chrt_Annotations = csv_Annotations (rv1_CSV rv1), chrt_Files = [], chrt_Templates = []\<rparr> objs = Inr chrt"
    using assms(1,2) by (auto simp: chart_Get_def split: sum.splits)
  from add_chart_objects_eq [OF add] obtain datas where datas: "list_all2 (\<lambda>obj data. chv_Marshal env obj = Inr data) objs datas"
    and files: "chrt_Files chrt = map (\<lambda>data. \<lparr>chf_Name = object_file_name env data, chf_Data = data\<rparr>) datas"
    and templates: "chrt_Templates chrt = map (\<lambda>data. \<lparr>chf_Name = object_file_name env data, chf_Data = file_template (object_file_name env data)\<rparr>) datas"
    and ann: "chrt_Annotations chrt = csv_Annotations (rv1_CSV rv1)" by auto
  have "set datas \<subseteq> {data. \<exists>obj \<in> set objs. chv_Marshal env obj = Inr data}"
    using datas by (induction rule: list_all2_induct) auto
  then have inj: "inj_on (object_file_name env) (set datas)" using assms(3) inj_on_subset by blast
  have "list_all2 (\<lambda>obj data. data \<in> set datas \<and> chv_Marshal env obj = Inr data) objs datas"
    using datas by (simp add: list_all2_conv_all_nth)
  then have "list_all2 (\<lambda>obj data. chv_Marshal env obj = Inr (files_Get (chrt_Files chrt) (object_file_name env data))) objs datas"
    by (rule list_all2_mono) (auto simp: files files_Get_data [OF _ inj])
  then show ?thesis using rv1 ann by (simp add: templates list_all2_map2 getBundleAnnotations_def)
qed

subsection \<open>An extension that watches its own namespace\<close>

definition own_bundle_source :: source_env where
  "own_bundle_source = sample_source\<lparr>se_decode_csv :=
     \<lambda>j. Inr (empty_csv\<lparr>csv_Name := ''op.v1'', csv_InstallModes := [supports InstallModeTypeOwnNamespace]\<rparr>)\<rparr>"

definition own_config_env :: config_env where
  "own_config_env =
     \<lparr>ce_yaml = \<lambda>b. Inr (JObj [(''watchNamespace'', JStr b)]),
      ce_yaml_map = \<lambda>b. Inr [(''watchNamespace'', JStr b)],
      ce_AddResource = \<lambda>s. None,
      ce_Compile = \<lambda>fm s. Inr (\<lambda>v. if object_valid fm s v then None else Some (PlainError (ErrText ''invalid''))),
      ce_sprint = \<lambda>j. '''',
      ce_marshal = \<lambda>j. Inl (ErrText ''unused''),
      ce_decode_deployment = \<lambda>s. Inl (ErrText ''unused''),
      ce_base_schema = Inr [(''type'', JStr ''object''), (''properties'', JObj [(''deploymentConfig'', JObj [])]),
        (''additionalProperties'', JBool False)]\<rparr>"

definition own_extension :: cluster_extension where
  "own_extension = ex_ext\<lparr>ext_Spec := (ext_Spec ex_ext)\<lparr>exts_Config :=
     Some \<lparr>cfg_ConfigType = ClusterExtensionConfigTypeInline, cfg_Inline = Some ''ns''\<rparr>\<rparr>\<rparr>"

definition own_provider :: manifest_provider where
  "own_provider = \<lparr>mp_BundleRenderer = Renderer, mp_CertificateProvider = None, mp_IsWebhookSupportEnabled = False,
     mp_IsSingleOwnNamespaceEnabled = True, mp_IsDeploymentConfigEnabled = False\<rparr>"

lemma own_libraries: "sound_schemas own_config_env" "closed_base own_config_env"
  by (auto simp: sound_schemas_def closed_base_def own_config_env_def split: if_splits)

lemma own_bundle:
  obtains b where "GetBundle own_bundle_source = Inr b" and "unsupported_bundle own_provider b = None"
    and "csv_InstallModes (rv1_CSV b) = [supports InstallModeTypeOwnNamespace]" and "Validate BundleValidator b = None"
    and "convertible b"
proof -
  obtain b where b: "GetBundle own_bundle_source = Inr b" and
    "csv_InstallModes (rv1_CSV b) = [supports InstallModeTypeOwnNamespace]" "csv_WebhookDefinitions (rv1_CSV b) = []"
    "csv_OwnedAPIServices (rv1_CSV b) = []" "csv_DeploymentSpecs (rv1_CSV b) = []" "csv_OwnedCRDs (rv1_CSV b) = []"
    "rv1_CRDs b = []" "rv1_PackageName b = ''pkg''" "rv1_Others b = [JObj [(''apiVersion'', JStr ''v1''), (''kind'', JStr ''Service'')]]"
    by (simp add: GetBundle_def own_bundle_source_def sample_source_def visit_entry_def add_object_def GroupVersionKind_def ParseGroupVersion_def
        json_string_at_def copyMetadataPropertiesToCSV_def csv_properties_def empty_csv_def)
  note facts = this
  have "unsupported_bundle own_provider b = None" by (simp add: unsupported_bundle_def Let_def own_provider_def facts)
  moreover have "Validate BundleValidator b = None"
    by (simp add: Validate_well_formed well_formed_bundle_def facts GroupVersionKind_def ParseGroupVersion_def json_string_at_def supportedResources_def)
  moreover have "convertible b" by (simp add: convertible_def facts)
  ultimately show thesis using that facts by blast
qed

lemma own_options:
  assumes "csv_InstallModes (rv1_CSV b) = [supports InstallModeTypeOwnNamespace]"
  shows "provider_options own_provider own_config_env b own_extension = Inr [WithCertificateProvider None, WithTargetNamespaces [''ns'']]"
proof -
  let ?m = "{supports InstallModeTypeOwnNamespace}"
  have ns: "exts_Namespace (ext_Spec own_extension) = ''ns''" "extensionConfigBytes own_extension = Some ''ns''"
    by (simp_all add: own_extension_def ex_ext_def extensionConfigBytes_def)
  let ?leaf = "[(''type'', JStr ''string''), (''minLength'', JNum 1), (''maxLength'', JNum namespaceNameMaxLength),
      (''pattern'', JStr namespaceNamePattern), (''format'', JStr FormatOwnNamespaceInstallMode),
      (''description'', JStr ''The namespace that the operator should watch for custom resources'')]"
  define s where "s = drop_deployment_config ([(''type'', JStr ''object''),
      (''properties'', JObj [(''deploymentConfig'', JObj []), (''watchNamespace'', JObj ?leaf)]), (''additionalProperties'', JBool False),
      (''required'', JArr [JStr ''watchNamespace''])])"
  have schema: "GetConfigSchema (ce_base_schema own_config_env) b = Inr [(''type'', JStr ''object''),
      (''properties'', JObj [(''deploymentConfig'', JObj []), (''watchNamespace'', JObj ?leaf)]), (''additionalProperties'', JBool False),
      (''required'', JArr [JStr ''watchNamespace''])]"
    by (simp add: GetConfigSchema_def buildBundleConfigSchema_def own_config_env_def assms isWatchNamespaceConfigurable_def
        isWatchNamespaceConfigRequired_def buildWatchNamespaceProperty_def Let_def selectNamespaceFormat_def addToRequired_def)
  have "leaf_valid (namespace_formats ''ns'') ?leaf (JStr ''ns'')"
    by (auto simp: leaf_valid_def json_type_def namespaceNameMaxLength_def dns1123_label_def dns_alnum_def namespace_formats_def own_namespace_format_def)
  then have "object_valid (namespace_formats ''ns'') s (JObj [(''watchNamespace'', JStr ''ns'')])"
    by (auto simp: object_valid_def s_def drop_deployment_config_def json_delete_def value_valid_def)
  then have "UnmarshalConfig own_config_env (Some ''ns'') (Some s) ''ns'' = Inr [(''watchNamespace'', JStr ''ns'')]"
    by (simp add: UnmarshalConfig_def validateConfigWithSchema_def own_config_env_def)
  then have "extractBundleConfigOptions own_provider own_config_env b own_extension = Inr [WithTargetNamespaces [''ns'']]"
    by (simp add: extractBundleConfigOptions_def schema ns s_def own_provider_def GetWatchNamespace_def)
  then show ?thesis by (simp add: provider_options_def) (simp add: own_provider_def)
qed

theorem accepted_config_renders_witness:
  "\<exists>objs. provider_Get own_provider own_config_env sample_env own_bundle_source own_extension = Some (Inr objs)"
proof (rule own_bundle)
  fix b assume b: "GetBundle own_bundle_source = Inr b" "unsupported_bundle own_provider b = None"
    "csv_InstallModes (rv1_CSV b) = [supports InstallModeTypeOwnNamespace]" "Validate BundleValidator b = None" "convertible b"
  let ?opts = "[WithCertificateProvider None, WithTargetNamespaces [''ns'']]"
  have "rn_encode sample_env p \<noteq> None" for p by (simp add: sample_env_def)
  moreover have set_eq: "ro_UniqueNameGenerator (render_settings sample_env b n (map Some ?opts)) =
      Some (DefaultUniqueNameGenerator (rn_encode sample_env) (rn_sha224 sample_env))"
    "ro_CertificateProvider (render_settings sample_env b n (map Some ?opts)) = None" for n
    by (simp_all add: render_settings_def apply_options_def WithCertificateProvider_def WithTargetNamespaces_def)
  ultimately have "total_options (render_settings sample_env b n (map Some ?opts))" for n
    using default_names_total [OF set_eq(1) sample_sha] by (simp add: total_options_def lawful_provider_def set_eq(2) del: list.map)
  moreover have "mp_BundleRenderer own_provider = Renderer" "exts_Namespace (ext_Spec own_extension) \<noteq> ''''"
    by (simp_all add: own_provider_def own_extension_def ex_ext_def)
  ultimately show ?thesis using accepted_config_renders [OF b(1,2) own_options [OF b(3)] _ own_libraries] b(4,5) by blast
qed

definition tiny_chart_env :: chart_env where
  "tiny_chart_env = \<lparr>chv_Marshal = \<lambda>obj. case obj of ObjUnstructured JNull \<Rightarrow> Inr ''null'' | _ \<Rightarrow> Inr ''true'', chv_sha256 = \<lambda>s. s @ s\<rparr>"

theorem chart_carries_objects_witness:
  "\<exists>chrt. chart_Get tiny_chart_env (\<lambda>fs ext. Some (Inr [ObjUnstructured JNull, ObjUnstructured (JBool True)])) own_bundle_source own_extension =
     Some (Inr chrt) \<and> map (\<lambda>t. files_Get (chrt_Files chrt) (chf_Name t)) (chrt_Templates chrt) = [''null'', ''true'']"
proof (rule own_bundle)
  fix b assume b: "GetBundle own_bundle_source = Inr b"
  let ?get = "\<lambda>fs ext. Some (Inr [ObjUnstructured JNull, ObjUnstructured (JBool True)])"
  obtain chrt where chrt: "chart_Get tiny_chart_env ?get own_bundle_source own_extension = Some (Inr chrt)"
    by (simp add: chart_Get_def b tiny_chart_env_def)
  have eq: "{data. \<exists>obj \<in> set [ObjUnstructured JNull, ObjUnstructured (JBool True)]. chv_Marshal tiny_chart_env obj = Inr data} = {''null'', ''true''}"
    by (auto simp: tiny_chart_env_def)
  have "inj_on (object_file_name tiny_chart_env)
      {data. \<exists>obj \<in> set [ObjUnstructured JNull, ObjUnstructured (JBool True)]. chv_Marshal tiny_chart_env obj = Inr data}"
    unfolding eq by (simp add: object_file_name_def tiny_chart_env_def hex_string_def hex_char_def)
  from chart_carries_objects [OF chrt _ this] have
    "list_all2 (\<lambda>obj t. chv_Marshal tiny_chart_env obj = Inr (files_Get (chrt_Files chrt) (chf_Name t)))
      [ObjUnstructured JNull, ObjUnstructured (JBool True)] (chrt_Templates chrt)"
    by (auto elim: list_all2_mono)
  then obtain t1 t2 where t: "chrt_Templates chrt = [t1, t2]"
    and get: "chv_Marshal tiny_chart_env (ObjUnstructured JNull) = Inr (files_Get (chrt_Files chrt) (chf_Name t1))"
    "chv_Marshal tiny_chart_env (ObjUnstructured (JBool True)) = Inr (files_Get (chrt_Files chrt) (chf_Name t2))"
    unfolding list_all2_Cons1 by (elim exE conjE) simp
  have m: "chv_Marshal tiny_chart_env (ObjUnstructured JNull) = Inr ''null''" "chv_Marshal tiny_chart_env (ObjUnstructured (JBool True)) = Inr ''true''"
    by (simp_all add: tiny_chart_env_def)
  have "map (\<lambda>t. files_Get (chrt_Files chrt) (chf_Name t)) (chrt_Templates chrt) = [''null'', ''true'']"
    using get m by (simp add: t)
  with chrt show ?thesis by (intro exI conjI)
qed

end
