(* ===== verification/Rbac_Rules.thy ===== *)
theory Rbac_Rules
  imports Pre_Authorization
begin

text \<open>
  The rules of Kubernetes RBAC as the pre-authorizer calls them: what a rule allows
  (\<open>rbac/v1/evaluation_helpers.go\<close>), when rules cover others (\<open>policy_comparator.go\<close>), compact rules and
  their text (\<open>policy_compact.go\<close>), which rules apply to a user and the check against escalation
  (\<open>registry/rbac/validation/rule.go\<close>, \<open>escalation_check.go\<close>), and the authorizer over them
  (\<open>plugin/pkg/auth/authorizer/rbac/rbac.go\<close>). The roles and bindings come from a client whose answers
  are the fields of \<open>rbac_getter\<close>, the type \<open>rbacGetter\<close> of \<open>authorization/rbac.go\<close>.
\<close>

section \<open>Definitions\<close>

subsection \<open>What a rule allows\<close>

definition VerbMatches :: "policy_rule \<Rightarrow> string \<Rightarrow> bool" where
  "VerbMatches rule requestedVerb \<longleftrightarrow> list_ex (\<lambda>v. v = ''*'' \<or> v = requestedVerb) (pr_Verbs rule)"

definition APIGroupMatches :: "policy_rule \<Rightarrow> string \<Rightarrow> bool" where
  "APIGroupMatches rule requestedGroup \<longleftrightarrow> list_ex (\<lambda>g. g = ''*'' \<or> g = requestedGroup) (pr_APIGroups rule)"

definition ends_with :: "string \<Rightarrow> string \<Rightarrow> bool" where
  "ends_with s e \<longleftrightarrow> prefix (rev e) (rev s)"

definition resource_matches :: "string \<Rightarrow> string \<Rightarrow> string \<Rightarrow> bool" where
  "resource_matches ruleResource combined requestedSubresource \<longleftrightarrow>
     ruleResource = ''*'' \<or> ruleResource = combined \<or>
     requestedSubresource \<noteq> '''' \<and> length ruleResource = length requestedSubresource + 2 \<and>
     prefix ''*/'' ruleResource \<and> ends_with ruleResource requestedSubresource"

definition ResourceMatches :: "policy_rule \<Rightarrow> string \<Rightarrow> string \<Rightarrow> bool" where
  "ResourceMatches rule combined requestedSubresource \<longleftrightarrow>
     list_ex (\<lambda>r. resource_matches r combined requestedSubresource) (pr_Resources rule)"

definition ResourceNameMatches :: "policy_rule \<Rightarrow> string \<Rightarrow> bool" where
  "ResourceNameMatches rule requestedName \<longleftrightarrow> pr_ResourceNames rule = [] \<or> requestedName \<in> set (pr_ResourceNames rule)"

definition trim_right_stars :: "string \<Rightarrow> string" where
  "trim_right_stars s = rev (dropWhile (\<lambda>c. c = CHR ''*'') (rev s))"

definition nonResourceURLCovers :: "string \<Rightarrow> string \<Rightarrow> bool" where
  "nonResourceURLCovers ownerPath subPath \<longleftrightarrow>
     ownerPath = subPath \<or> ends_with ownerPath ''*'' \<and> prefix (trim_right_stars ownerPath) subPath"

definition NonResourceURLMatches :: "policy_rule \<Rightarrow> string \<Rightarrow> bool" where
  "NonResourceURLMatches rule requestedURL \<longleftrightarrow>
     list_ex (\<lambda>u. u = ''*'' \<or> nonResourceURLCovers u requestedURL) (pr_NonResourceURLs rule)"

definition combined_resource :: "string \<Rightarrow> string \<Rightarrow> string" where
  "combined_resource resource sub = (if sub \<noteq> '''' then resource @ ''/'' @ sub else resource)"

definition RuleAllows :: "attributes_record \<Rightarrow> policy_rule \<Rightarrow> bool" where
  "RuleAllows attrs rule \<longleftrightarrow>
     (if at_ResourceRequest attrs then
        VerbMatches rule (at_Verb attrs) \<and> APIGroupMatches rule (at_APIGroup attrs) \<and>
        ResourceMatches rule (combined_resource (at_Resource attrs) (at_Subresource attrs)) (at_Subresource attrs) \<and>
        ResourceNameMatches rule (at_Name attrs)
      else VerbMatches rule (at_Verb attrs) \<and> NonResourceURLMatches rule (at_Path attrs))"

subsection \<open>When rules cover others\<close>

definition hasAll :: "string list \<Rightarrow> string list \<Rightarrow> bool" where
  "hasAll xs contains \<longleftrightarrow> list_all (\<lambda>e. e \<in> set xs) contains"

definition resourceCoversAll :: "string list \<Rightarrow> string list \<Rightarrow> bool" where
  "resourceCoversAll setResources coversResources \<longleftrightarrow>
     ''*'' \<in> set setResources \<or> hasAll setResources coversResources \<or>
     list_all (\<lambda>path. path \<in> set setResources \<or>
       (case snd (cut_at (CHR ''/'') path) of None \<Rightarrow> False | Some sub \<Rightarrow> ''*/'' @ sub \<in> set setResources))
       coversResources"

definition nonResourceURLsCoversAll :: "string list \<Rightarrow> string list \<Rightarrow> bool" where
  "nonResourceURLsCoversAll xs covers \<longleftrightarrow> list_all (\<lambda>path. list_ex (\<lambda>owner. nonResourceURLCovers owner path) xs) covers"

definition ruleCovers :: "policy_rule \<Rightarrow> policy_rule \<Rightarrow> bool" where
  "ruleCovers ownerRule subRule \<longleftrightarrow>
     (''*'' \<in> set (pr_Verbs ownerRule) \<or> hasAll (pr_Verbs ownerRule) (pr_Verbs subRule)) \<and>
     (''*'' \<in> set (pr_APIGroups ownerRule) \<or> hasAll (pr_APIGroups ownerRule) (pr_APIGroups subRule)) \<and>
     resourceCoversAll (pr_Resources ownerRule) (pr_Resources subRule) \<and>
     (if pr_ResourceNames subRule = [] then pr_ResourceNames ownerRule = []
      else pr_ResourceNames ownerRule = [] \<or> hasAll (pr_ResourceNames ownerRule) (pr_ResourceNames subRule)) \<and>
     nonResourceURLsCoversAll (pr_NonResourceURLs ownerRule) (pr_NonResourceURLs subRule)"

definition resource_rule :: "string list \<Rightarrow> string \<Rightarrow> string \<Rightarrow> string list \<Rightarrow> policy_rule" where
  "resource_rule verbs grp resource names =
     \<lparr>pr_Verbs = verbs, pr_APIGroups = [grp], pr_Resources = [resource], pr_ResourceNames = names,
      pr_NonResourceURLs = []\<rparr>"

definition url_rule :: "string list \<Rightarrow> string \<Rightarrow> policy_rule" where
  "url_rule verbs url =
     \<lparr>pr_Verbs = verbs, pr_APIGroups = [], pr_Resources = [], pr_ResourceNames = [], pr_NonResourceURLs = [url]\<rparr>"

definition BreakdownRule :: "policy_rule \<Rightarrow> policy_rule list" where
  "BreakdownRule rule =
     concat (map (\<lambda>grp. concat (map (\<lambda>resource. concat (map (\<lambda>verb.
       if pr_ResourceNames rule \<noteq> [] then map (\<lambda>name. resource_rule [verb] grp resource [name]) (pr_ResourceNames rule)
       else [resource_rule [verb] grp resource []])
       (pr_Verbs rule))) (pr_Resources rule))) (pr_APIGroups rule)) @
     concat (map (\<lambda>url. map (\<lambda>verb. url_rule [verb] url) (pr_Verbs rule)) (pr_NonResourceURLs rule))"

definition Covers :: "policy_rule list \<Rightarrow> policy_rule list \<Rightarrow> bool \<times> policy_rule list" where
  "Covers ownerRules servantRules =
     (let subrules = concat (map BreakdownRule servantRules);
          uncovered = filter (\<lambda>sub. \<not> list_ex (\<lambda>owner. ruleCovers owner sub) ownerRules) subrules in
      (uncovered = [], uncovered))"

subsection \<open>Compact rules\<close>

text \<open>
  The single group, the single resource and the resource name, if any, of a simple rule. An empty
  and a nil slice are the same list here: no rule that reaches \<open>CompactRules\<close> has an empty slice of
  URLs that is not nil.
\<close>

type_synonym simple_resource = "string \<times> string \<times> string option"

definition isSimpleResourceRule :: "policy_rule \<Rightarrow> simple_resource option" where
  "isSimpleResourceRule rule =
     (if length (pr_ResourceNames rule) > 1 \<or> pr_NonResourceURLs rule \<noteq> [] then None
      else
        (case (pr_APIGroups rule, pr_Resources rule) of
           ([g], [r]) \<Rightarrow> Some (g, r, case pr_ResourceNames rule of [] \<Rightarrow> None | n # _ \<Rightarrow> Some n)
         | _ \<Rightarrow> None))"

fun add_simple :: "(simple_resource \<times> policy_rule) list \<Rightarrow> simple_resource \<Rightarrow> policy_rule \<Rightarrow> (simple_resource \<times> policy_rule) list" where
  "add_simple [] resource rule = [(resource, rule)]"
| "add_simple ((k, existing) # rs) resource rule =
     (if k = resource then (k, existing\<lparr>pr_Verbs := pr_Verbs existing @ pr_Verbs rule\<rparr>) # rs
      else (k, existing) # add_simple rs resource rule)"

text \<open>
  The result is in no order: the simple rules come from a Go map. The model keeps the order of the
  first rule of each resource; every caller sorts the result.
\<close>

fun compact_loop ::
  "policy_rule list \<Rightarrow> policy_rule list \<Rightarrow> (simple_resource \<times> policy_rule) list \<Rightarrow>
   policy_rule list \<times> (simple_resource \<times> policy_rule) list" where
  "compact_loop [] compacted simple = (compacted, simple)"
| "compact_loop (rule # rules) compacted simple =
     (case isSimpleResourceRule rule of
        Some resource \<Rightarrow> compact_loop rules compacted (add_simple simple resource rule)
      | None \<Rightarrow> compact_loop rules (compacted @ [rule]) simple)"

definition CompactRules :: "policy_rule list \<Rightarrow> policy_rule list" where
  "CompactRules rules = (let (compacted, simple) = compact_loop rules [] [] in compacted @ map snd simple)"

definition compact_part :: "string \<Rightarrow> string list \<Rightarrow> string list" where
  "compact_part field xs = (if xs \<noteq> [] then [field @ '':'' @ show_strings (map go_quote xs)] else [])"

definition CompactString :: "policy_rule \<Rightarrow> string" where
  "CompactString r =
     ''{'' @ go_join '', '' (compact_part ''APIGroups'' (pr_APIGroups r) @ compact_part ''Resources'' (pr_Resources r) @
       compact_part ''NonResourceURLs'' (pr_NonResourceURLs r) @ compact_part ''ResourceNames'' (pr_ResourceNames r) @
       compact_part ''Verbs'' (pr_Verbs r)) @ ''}''"

definition rule_String :: "policy_rule \<Rightarrow> string" where
  "rule_String r =
     ''&PolicyRule{Verbs:'' @ show_strings (pr_Verbs r) @ '',APIGroups:'' @ show_strings (pr_APIGroups r) @
     '',Resources:'' @ show_strings (pr_Resources r) @ '',ResourceNames:'' @ show_strings (pr_ResourceNames r) @
     '',NonResourceURLs:'' @ show_strings (pr_NonResourceURLs r) @ '',}''"

subsection \<open>Roles, bindings and the rules of a user\<close>

record cluster_role =
  cr_Namespace :: string
  cr_Name :: string
  cr_Rules :: "policy_rule list"
  cr_AggregationRule :: "label_selector list option"

record rbac_role =
  rl_Namespace :: string
  rl_Name :: string
  rl_Rules :: "policy_rule list"

record cluster_role_binding =
  crb_Namespace :: string
  crb_Name :: string
  crb_Subjects :: "rbac_subject list"
  crb_RoleRef :: role_ref

record role_binding =
  rb_Namespace :: string
  rb_Name :: string
  rb_Subjects :: "rbac_subject list"
  rb_RoleRef :: role_ref

record rbac_getter =
  ListClusterRoleBindings :: "cluster_role_binding list result"
  GetClusterRole :: "string \<Rightarrow> cluster_role result"
  ListRoleBindings :: "string \<Rightarrow> role_binding list result"
  GetRole :: "string \<Rightarrow> string \<Rightarrow> rbac_role result"

definition MatchesUsername :: "string \<Rightarrow> string \<Rightarrow> string \<Rightarrow> bool" where
  "MatchesUsername namespace name username \<longleftrightarrow>
     (case strip_prefix ''system:serviceaccount:'' username of
        None \<Rightarrow> False
      | Some u \<Rightarrow>
          (case strip_prefix namespace u of
             None \<Rightarrow> False
           | Some u' \<Rightarrow> (case strip_prefix '':'' u' of None \<Rightarrow> False | Some u'' \<Rightarrow> u'' = name)))"

definition appliesToUser :: "user_info \<Rightarrow> rbac_subject \<Rightarrow> string \<Rightarrow> bool" where
  "appliesToUser user subject namespace \<longleftrightarrow>
     (if sbj_Kind subject = ''User'' then ui_Name user = sbj_Name subject
      else if sbj_Kind subject = ''Group'' then sbj_Name subject \<in> set (ui_Groups user)
      else if sbj_Kind subject = ''ServiceAccount'' then
        (let saNamespace = (if sbj_Namespace subject \<noteq> '''' then sbj_Namespace subject else namespace) in
         saNamespace \<noteq> '''' \<and> MatchesUsername saNamespace (sbj_Name subject) (ui_Name user))
      else False)"

definition GetRoleReferenceRules :: "rbac_getter \<Rightarrow> role_ref \<Rightarrow> string \<Rightarrow> policy_rule list result" where
  "GetRoleReferenceRules g roleRef bindingNamespace =
     (if rr_Kind roleRef = ''Role'' then
        (case GetRole g bindingNamespace (rr_Name roleRef) of Inl err \<Rightarrow> Inl err | Inr role \<Rightarrow> Inr (rl_Rules role))
      else if rr_Kind roleRef = ''ClusterRole'' then
        (case GetClusterRole g (rr_Name roleRef) of Inl err \<Rightarrow> Inl err | Inr role \<Rightarrow> Inr (cr_Rules role))
      else Inl (ErrText (''unsupported role reference kind: '' @ go_quote (rr_Kind roleRef))))"

definition describeSubject :: "rbac_subject \<Rightarrow> string \<Rightarrow> string" where
  "describeSubject s bindingNamespace =
     (if sbj_Kind s = ''ServiceAccount'' then
        sbj_Kind s @ '' '' @ go_quote (sbj_Name s @ ''/'' @
          (if sbj_Namespace s \<noteq> '''' then sbj_Namespace s else bindingNamespace))
      else sbj_Kind s @ '' '' @ go_quote (sbj_Name s))"

text \<open>What \<open>VisitRulesFor\<close> passes to its visitor: a rule with the text of its source, or an error.\<close>

datatype visited = VisitRule string policy_rule | VisitErr go_error

definition visit_role :: "rbac_getter \<Rightarrow> role_ref \<Rightarrow> string \<Rightarrow> string \<Rightarrow> visited list" where
  "visit_role g roleRef namespace source =
     (case GetRoleReferenceRules g roleRef namespace of
        Inl err \<Rightarrow> [VisitErr err]
      | Inr rules \<Rightarrow> map (VisitRule source) rules)"

definition visit_cluster_role_binding :: "rbac_getter \<Rightarrow> user_info \<Rightarrow> cluster_role_binding \<Rightarrow> visited list" where
  "visit_cluster_role_binding g user b =
     (case List.find (\<lambda>s. appliesToUser user s '''') (crb_Subjects b) of
        None \<Rightarrow> []
      | Some s \<Rightarrow> visit_role g (crb_RoleRef b) ''''
          (''ClusterRoleBinding '' @ go_quote (crb_Name b) @ '' of '' @ rr_Kind (crb_RoleRef b) @ '' '' @
           go_quote (rr_Name (crb_RoleRef b)) @ '' to '' @ describeSubject s ''''))"

definition visit_role_binding :: "rbac_getter \<Rightarrow> user_info \<Rightarrow> string \<Rightarrow> role_binding \<Rightarrow> visited list" where
  "visit_role_binding g user namespace b =
     (case List.find (\<lambda>s. appliesToUser user s namespace) (rb_Subjects b) of
        None \<Rightarrow> []
      | Some s \<Rightarrow> visit_role g (rb_RoleRef b) namespace
          (''RoleBinding '' @ go_quote (rb_Name b @ ''/'' @ rb_Namespace b) @ '' of '' @ rr_Kind (rb_RoleRef b) @ '' '' @
           go_quote (rr_Name (rb_RoleRef b)) @ '' to '' @ describeSubject s (rb_Namespace b)))"

definition VisitRulesFor :: "rbac_getter \<Rightarrow> user_info \<Rightarrow> string \<Rightarrow> visited list" where
  "VisitRulesFor g user namespace =
     (case ListClusterRoleBindings g of
        Inl err \<Rightarrow> [VisitErr err]
      | Inr bs \<Rightarrow> concat (map (visit_cluster_role_binding g user) bs)) @
     (if namespace \<noteq> '''' then
        (case ListRoleBindings g namespace of
           Inl err \<Rightarrow> [VisitErr err]
         | Inr bs \<Rightarrow> concat (map (visit_role_binding g user namespace) bs))
      else [])"

definition visited_rules :: "visited list \<Rightarrow> policy_rule list" where
  "visited_rules vs = List.map_filter (\<lambda>v. case v of VisitRule s r \<Rightarrow> Some r | VisitErr e \<Rightarrow> None) vs"

definition visited_errors :: "visited list \<Rightarrow> go_error list" where
  "visited_errors vs = List.map_filter (\<lambda>v. case v of VisitRule s r \<Rightarrow> None | VisitErr e \<Rightarrow> Some e) vs"

text \<open>\<open>utilerrors.NewAggregate\<close>: the messages once each, in the order of their first occurrence.\<close>

definition NewAggregate :: "go_error list \<Rightarrow> go_error option" where
  "NewAggregate errlist =
     (case errlist of
        [] \<Rightarrow> None
      | [e] \<Rightarrow> Some (ErrText (err_string e))
      | _ \<Rightarrow>
          (let msgs = rev (remdups (rev (map err_string errlist))) in
           Some (ErrText (if length msgs = 1 then go_join '', '' msgs else ''['' @ go_join '', '' msgs @ '']''))))"

definition RulesFor :: "rbac_getter \<Rightarrow> user_info \<Rightarrow> string \<Rightarrow> policy_rule list \<times> go_error option" where
  "RulesFor g user namespace =
     (let vs = VisitRulesFor g user namespace in (visited_rules vs, NewAggregate (visited_errors vs)))"

subsection \<open>The authorizer\<close>

datatype decision = DecisionDeny | DecisionAllow | DecisionNoOpinion

text \<open>
  The visitor stops at the first rule that allows the request. An error on the way is not returned:
  it only becomes the reason of a decision that is no opinion.
\<close>

fun authorizing_visit :: "attributes_record \<Rightarrow> visited list \<Rightarrow> go_error list \<Rightarrow> string + go_error list" where
  "authorizing_visit attrs [] errs = Inr errs"
| "authorizing_visit attrs (VisitRule source rule # vs) errs =
     (if RuleAllows attrs rule then Inl (''RBAC: allowed by '' @ source) else authorizing_visit attrs vs errs)"
| "authorizing_visit attrs (VisitErr err # vs) errs = authorizing_visit attrs vs (errs @ [err])"

definition Authorize :: "rbac_getter \<Rightarrow> attributes_record \<Rightarrow> decision \<times> string \<times> go_error option" where
  "Authorize g attrs =
     (case authorizing_visit attrs (VisitRulesFor g (at_User attrs) (at_Namespace attrs)) [] of
        Inl reason \<Rightarrow> (DecisionAllow, reason, None)
      | Inr errs \<Rightarrow>
          (DecisionNoOpinion,
           (case NewAggregate errs of None \<Rightarrow> '''' | Some e \<Rightarrow> ''RBAC: '' @ err_string e), None))"

subsection \<open>Escalation\<close>

definition EscalationAllowed :: "user_info \<Rightarrow> bool" where
  "EscalationAllowed user \<longleftrightarrow> ''system:masters'' \<in> set (ui_Groups user)"

text \<open>
  The request in the context names a resource of the RBAC group and neither an object nor a
  namespace.
\<close>

definition RoleEscalationAuthorized :: "rbac_getter \<Rightarrow> user_info \<Rightarrow> string \<Rightarrow> bool" where
  "RoleEscalationAuthorized g user resource \<longleftrightarrow>
     resource \<in> {''clusterroles'', ''roles''} \<and>
     fst (Authorize g \<lparr>at_User = user, at_Verb = ''escalate'', at_Namespace = '''',
       at_APIGroup = ''rbac.authorization.k8s.io'', at_APIVersion = ''*'', at_Resource = resource, at_Subresource = '''',
       at_Name = '''', at_ResourceRequest = True, at_Path = ''''\<rparr>) = DecisionAllow"

definition BindingAuthorized :: "rbac_getter \<Rightarrow> user_info \<Rightarrow> role_ref \<Rightarrow> string \<Rightarrow> bool" where
  "BindingAuthorized g user roleRef bindingNamespace \<longleftrightarrow>
     (let allowed = (\<lambda>resource. fst (Authorize g \<lparr>at_User = user, at_Verb = ''bind'', at_Namespace = bindingNamespace,
            at_APIGroup = rr_APIGroup roleRef, at_APIVersion = ''*'', at_Resource = resource, at_Subresource = '''',
            at_Name = rr_Name roleRef, at_ResourceRequest = True, at_Path = ''''\<rparr>) = DecisionAllow) in
      if rr_Kind roleRef = ''ClusterRole'' then allowed ''clusterroles''
      else if rr_Kind roleRef = ''Role'' then allowed ''roles''
      else False)"

definition escalation_prefix :: "user_info \<Rightarrow> string" where
  "escalation_prefix user =
     ''user '' @ go_quote (ui_Name user) @ '' (groups='' @ show_strings (map go_quote (ui_Groups user)) @
     '') is attempting to grant RBAC permissions not currently held:'' @ [CHR 0x0A]"

definition ConfirmNoEscalation :: "rbac_getter \<Rightarrow> user_info \<Rightarrow> string \<Rightarrow> policy_rule list \<Rightarrow> go_error option" where
  "ConfirmNoEscalation g user namespace rules =
     (let (ownerRules, err) = RulesFor g user namespace;
          (ownerRightsCover, missingRights) = Covers ownerRules rules in
      if \<not> ownerRightsCover then
        (let missingDescriptions = sort (remdups (map CompactString (CompactRules missingRights))) in
         Some (ErrText (escalation_prefix user @ go_join [CHR 0x0A] missingDescriptions @
           (case err of None \<Rightarrow> '''' | Some e \<Rightarrow> ''; resolution errors: ['' @ err_string e @ '']''))))
      else None)"

section \<open>Lemmas\<close>

subsection \<open>Covered rules allow nothing more\<close>

lemma ends_with_iff: "ends_with s e \<longleftrightarrow> (\<exists>p. s = p @ e)"
  by (auto simp: ends_with_def prefix_def) (metis rev_append rev_rev_ident)

lemma star_subresource_matches: "sub \<noteq> '''' \<Longrightarrow> resource_matches (''*/'' @ sub) combined sub"
  by (auto simp: resource_matches_def ends_with_iff)

lemma resource_matches_cases:
  assumes "resource_matches r combined sub"
  obtains "r = ''*''" | "r = combined" | "sub \<noteq> ''''" "r = ''*/'' @ sub"
proof -
  have "r = ''*/'' @ sub" if len: "length r = length sub + 2" and pre: "prefix ''*/'' r" and suf: "ends_with r sub"
  proof -
    from pre obtain t where t: "r = ''*/'' @ t" by (auto simp: prefix_def)
    from suf obtain p where p: "r = p @ sub" by (auto simp: ends_with_iff)
    have "length t = length sub" and "''*/'' @ t = p @ sub" using len t p by simp_all
    then have "t = sub" by (metis append_eq_append_conv)
    then show ?thesis by (simp add: t)
  qed
  then show thesis using assms that unfolding resource_matches_def by blast
qed

lemma resource_covered:
  assumes covers: "resourceCoversAll owned [r]"
    and matches: "resource_matches r (combined_resource resource sub) sub"
    and plain: "CHR ''/'' \<notin> set resource"
  shows "list_ex (\<lambda>r. resource_matches r (combined_resource resource sub) sub) owned"
proof -
  consider "''*'' \<in> set owned" | "r \<in> set owned" | t where "snd (cut_at (CHR ''/'') r) = Some t" "''*/'' @ t \<in> set owned"
    using covers by (auto simp: resourceCoversAll_def hasAll_def split: option.splits)
  then show ?thesis
  proof cases
    case 1
    then show ?thesis by (auto simp: list_ex_iff resource_matches_def)
  next
    case 2
    then show ?thesis using matches by (auto simp: list_ex_iff)
  next
    case 3
    have "sub \<noteq> '''' \<and> t = sub"
      using matches
    proof (cases rule: resource_matches_cases)
      case 1
      then show ?thesis using 3(1) by (simp add: cut_at_def)
    next
      case 2
      then show ?thesis using 3(1) plain
        by (cases "sub = ''''") (auto simp: combined_resource_def cut_at_none cut_at_some)
    next
      case 3
      then show ?thesis using \<open>snd (cut_at (CHR ''/'') r) = Some t\<close> by (simp add: cut_at_def)
    qed
    then show ?thesis using 3(2) star_subresource_matches by (auto simp: list_ex_iff)
  qed
qed

lemma prefix_trim_right_stars:
  assumes "prefix p u" and "p = '''' \<or> last p \<noteq> CHR ''*''"
  shows "prefix p (trim_right_stars u)"
proof -
  from assms(1) obtain t where u: "u = p @ t" by (auto simp: prefix_def)
  have "dropWhile (\<lambda>c. c = CHR ''*'') (rev p) = rev p"
    using assms(2) by (cases p rule: rev_cases) auto
  then show ?thesis by (auto simp: u trim_right_stars_def dropWhile_append)
qed

lemma trim_right_stars_last: "trim_right_stars s = '''' \<or> last (trim_right_stars s) \<noteq> CHR ''*''"
proof (cases "dropWhile (\<lambda>c. c = CHR ''*'') (rev s)")
  case (Cons c cs)
  then have "c \<noteq> CHR ''*''" by (metis (full_types) dropWhile_eq_Cons_conv)
  then show ?thesis by (simp add: trim_right_stars_def Cons)
qed (simp add: trim_right_stars_def)

lemma url_covered:
  assumes covers: "nonResourceURLCovers owner u" and matches: "u = ''*'' \<or> nonResourceURLCovers u path"
  shows "owner = ''*'' \<or> nonResourceURLCovers owner path"
proof (cases "owner = u")
  case False
  then have e: "ends_with owner ''*''" and p: "prefix (trim_right_stars owner) u"
    using covers by (auto simp: nonResourceURLCovers_def)
  have "prefix (trim_right_stars owner) (trim_right_stars u)"
    using p trim_right_stars_last by (rule prefix_trim_right_stars)
  moreover have "prefix (trim_right_stars u) path" if "u = ''*'' \<or> ends_with u ''*'' \<and> prefix (trim_right_stars u) path"
    using that by (auto simp: trim_right_stars_def)
  ultimately show ?thesis
    using matches e p by (auto simp: nonResourceURLCovers_def intro: prefix_order.trans)
qed (use matches in auto)

lemmas rule_match_defs =
  RuleAllows_def VerbMatches_def APIGroupMatches_def ResourceMatches_def ResourceNameMatches_def NonResourceURLMatches_def
  list_ex_iff

lemma BreakdownRule_cases:
  "sub \<in> set (BreakdownRule rule) \<longleftrightarrow>
     (\<exists>g \<in> set (pr_APIGroups rule). \<exists>r \<in> set (pr_Resources rule). \<exists>v \<in> set (pr_Verbs rule).
        if pr_ResourceNames rule = [] then sub = resource_rule [v] g r []
        else (\<exists>n \<in> set (pr_ResourceNames rule). sub = resource_rule [v] g r [n])) \<or>
     (\<exists>u \<in> set (pr_NonResourceURLs rule). \<exists>v \<in> set (pr_Verbs rule). sub = url_rule [v] u)"
  by (auto simp: BreakdownRule_def)

lemma RuleAllows_resource_rule:
  "RuleAllows attrs (resource_rule [v] g r names) \<longleftrightarrow>
     at_ResourceRequest attrs \<and> (v = ''*'' \<or> v = at_Verb attrs) \<and> (g = ''*'' \<or> g = at_APIGroup attrs) \<and>
     resource_matches r (combined_resource (at_Resource attrs) (at_Subresource attrs)) (at_Subresource attrs) \<and>
     (names = [] \<or> at_Name attrs \<in> set names)"
  by (auto simp: rule_match_defs resource_rule_def)

lemma RuleAllows_url_rule:
  "RuleAllows attrs (url_rule [v] u) \<longleftrightarrow>
     \<not> at_ResourceRequest attrs \<and> (v = ''*'' \<or> v = at_Verb attrs) \<and> (u = ''*'' \<or> nonResourceURLCovers u (at_Path attrs))"
  by (auto simp: rule_match_defs url_rule_def)

lemma Bex_BreakdownRule:
  "(\<exists>sub \<in> set (BreakdownRule rule). P sub) \<longleftrightarrow>
     (\<exists>g \<in> set (pr_APIGroups rule). \<exists>r \<in> set (pr_Resources rule). \<exists>v \<in> set (pr_Verbs rule).
        if pr_ResourceNames rule = [] then P (resource_rule [v] g r [])
        else (\<exists>n \<in> set (pr_ResourceNames rule). P (resource_rule [v] g r [n]))) \<or>
     (\<exists>u \<in> set (pr_NonResourceURLs rule). \<exists>v \<in> set (pr_Verbs rule). P (url_rule [v] u))"
  by (cases "pr_ResourceNames rule = []") (simp_all add: BreakdownRule_def bex_Un)

lemma ruleCovers_resource_rule:
  "ruleCovers owner (resource_rule [v] g r names) \<longleftrightarrow>
     (''*'' \<in> set (pr_Verbs owner) \<or> v \<in> set (pr_Verbs owner)) \<and>
     (''*'' \<in> set (pr_APIGroups owner) \<or> g \<in> set (pr_APIGroups owner)) \<and>
     resourceCoversAll (pr_Resources owner) [r] \<and>
     (pr_ResourceNames owner = [] \<or> names \<noteq> [] \<and> set names \<subseteq> set (pr_ResourceNames owner))"
  by (auto simp: ruleCovers_def resource_rule_def hasAll_def nonResourceURLsCoversAll_def list_all_iff)

lemma ruleCovers_url_rule:
  "ruleCovers owner (url_rule [v] u) \<longleftrightarrow>
     (''*'' \<in> set (pr_Verbs owner) \<or> v \<in> set (pr_Verbs owner)) \<and> pr_ResourceNames owner = [] \<and>
     (\<exists>p \<in> set (pr_NonResourceURLs owner). nonResourceURLCovers p u)"
  by (auto simp: ruleCovers_def url_rule_def hasAll_def nonResourceURLsCoversAll_def resourceCoversAll_def list_ex_iff)

text \<open>A rule allows what the rules it is broken down into allow.\<close>

lemma RuleAllows_BreakdownRule:
  "(\<exists>sub \<in> set (BreakdownRule rule). RuleAllows attrs sub) \<longleftrightarrow> RuleAllows attrs rule"
proof -
  let ?V = "\<lambda>v. v = ''*'' \<or> v = at_Verb attrs" and ?G = "\<lambda>g. g = ''*'' \<or> g = at_APIGroup attrs"
    and ?R = "\<lambda>r. resource_matches r (combined_resource (at_Resource attrs) (at_Subresource attrs)) (at_Subresource attrs)"
    and ?U = "\<lambda>u. u = ''*'' \<or> nonResourceURLCovers u (at_Path attrs)"
  have pull: "(\<exists>g \<in> A. \<exists>r \<in> B. \<exists>v \<in> C. Q v \<and> P g \<and> M r \<and> N) \<longleftrightarrow> (\<exists>v \<in> C. Q v) \<and> (\<exists>g \<in> A. P g) \<and> (\<exists>r \<in> B. M r) \<and> N"
    "(\<exists>u \<in> A. \<exists>v \<in> C. Q v \<and> P u) \<longleftrightarrow> (\<exists>v \<in> C. Q v) \<and> (\<exists>u \<in> A. P u)"
    for A B C :: "string set" and Q P M N by blast+
  have names: "(\<exists>n \<in> A. q \<and> p \<and> m \<and> n = x) \<longleftrightarrow> q \<and> p \<and> m \<and> x \<in> A" for A :: "string set" and q p m x by blast
  show ?thesis
    unfolding Bex_BreakdownRule RuleAllows_resource_rule RuleAllows_url_rule
    unfolding rule_match_defs
    using pull(1) [of "set (pr_APIGroups rule)" "set (pr_Resources rule)" "set (pr_Verbs rule)" ?V ?G ?R]
      pull(2) [of "set (pr_NonResourceURLs rule)" "set (pr_Verbs rule)" ?V ?U]
    by (cases "at_ResourceRequest attrs"; cases "pr_ResourceNames rule = []") (simp_all add: names eq_commute [of "at_Name attrs"])
qed

lemma ruleCovers_sound:
  assumes covers: "ruleCovers owner sub" and sub: "sub \<in> set (BreakdownRule rule)"
    and allows: "RuleAllows attrs sub" and plain: "CHR ''/'' \<notin> set (at_Resource attrs)"
  shows "RuleAllows attrs owner"
proof -
  consider v g r names where "sub = resource_rule [v] g r names" "length names \<le> 1" | v u where "sub = url_rule [v] u"
    using sub by (auto simp: BreakdownRule_cases split: if_splits)
  then show ?thesis
  proof cases
    case 1
    have "resourceCoversAll (pr_Resources owner) [r]"
      using covers by (simp add: 1(1) ruleCovers_resource_rule)
    with plain allows have "ResourceMatches owner (combined_resource (at_Resource attrs) (at_Subresource attrs)) (at_Subresource attrs)"
      unfolding ResourceMatches_def by (intro resource_covered) (auto simp: 1(1) RuleAllows_resource_rule)
    then show ?thesis
      using covers [unfolded 1(1) ruleCovers_resource_rule] allows [unfolded 1(1) RuleAllows_resource_rule]
      by (auto simp: RuleAllows_def VerbMatches_def APIGroupMatches_def ResourceNameMatches_def list_ex_iff)
  next
    case 2
    obtain p where "p \<in> set (pr_NonResourceURLs owner)" "nonResourceURLCovers p u"
      using covers by (auto simp: 2 ruleCovers_url_rule)
    then have "NonResourceURLMatches owner (at_Path attrs)"
      using url_covered [of p u "at_Path attrs"] allows
      by (auto simp: NonResourceURLMatches_def list_ex_iff 2 RuleAllows_url_rule)
    then show ?thesis
      using covers [unfolded 2 ruleCovers_url_rule] allows [unfolded 2 RuleAllows_url_rule]
      by (auto simp: RuleAllows_def VerbMatches_def list_ex_iff)
  qed
qed

text \<open>
  Rules that are covered allow no request that the covering rules do not: what the escalation check
  is for.
\<close>

lemma Covers_sound:
  assumes "fst (Covers owner rules)" and "\<exists>r \<in> set rules. RuleAllows attrs r"
    and "CHR ''/'' \<notin> set (at_Resource attrs)"
  shows "\<exists>r \<in> set owner. RuleAllows attrs r"
proof -
  from assms(2) obtain rule sub where "rule \<in> set rules" and sub: "sub \<in> set (BreakdownRule rule)" "RuleAllows attrs sub"
    using RuleAllows_BreakdownRule by blast
  then obtain r where "r \<in> set owner" "ruleCovers r sub"
    using assms(1) by (fastforce simp: Covers_def Let_def filter_empty_conv list_ex_iff)
  then show ?thesis using ruleCovers_sound sub assms(3) by blast
qed

lemma authorizing_visit_Inl:
  "(\<exists>s. authorizing_visit attrs vs errs = Inl s) \<longleftrightarrow> (\<exists>r \<in> set (visited_rules vs). RuleAllows attrs r)"
  by (induction attrs vs errs rule: authorizing_visit.induct) (auto simp: visited_rules_def List.map_filter_simps)

text \<open>The authorizer allows a request exactly when a rule of the user does, and it never fails.\<close>

lemma Authorize_allow:
  "fst (Authorize g attrs) = DecisionAllow \<longleftrightarrow>
     (\<exists>r \<in> set (fst (RulesFor g (at_User attrs) (at_Namespace attrs))). RuleAllows attrs r)"
  using authorizing_visit_Inl [of attrs "VisitRulesFor g (at_User attrs) (at_Namespace attrs)" "[]"]
  by (auto simp: Authorize_def RulesFor_def Let_def split: sum.split)

lemma Authorize_no_error: "snd (snd (Authorize g attrs)) = None"
  by (simp add: Authorize_def split: sum.split)

lemma ConfirmNoEscalation_None:
  "ConfirmNoEscalation g user ns rules = None \<longleftrightarrow> fst (Covers (fst (RulesFor g user ns)) rules)"
  by (simp add: ConfirmNoEscalation_def Let_def split: prod.split)

end
