(* ===== verification/Rbac_PreAuthorizer.thy ===== *)
theory Rbac_PreAuthorizer
  imports Rbac_Rules Phase_Sort "HOL-Library.AList"
begin

text \<open>
  The pre-authorizer of \<open>authorization/rbac.go\<close>: decoding a manifest, the permissions it takes to manage
  it, the checks against escalation for the roles and bindings in it, and the parser that gets the
  missing rules back out of the text of an escalation error.

  A Go map is an association list in the order in which its keys were first set: the results that
  depend on the order of a map are sorted before they are returned.
\<close>

section \<open>Definitions\<close>

subsection \<open>The pre-authorizer\<close>

record group_version_resource =
  gvr_Group :: string
  gvr_Version :: string
  gvr_Resource :: string

text \<open>What one call of the decoder gives: the end of the stream, an error, or an object.\<close>

datatype decoded = DecodeEOF | DecodeErr go_error | DecodeObj json

text \<open>
  The fields of the pre-authorizer, and what it calls outside the repository: the YAML decoder, a
  state machine over \<open>'d\<close>, and the converter to typed objects.
\<close>

record 'd rbac_pre_authorizer =
  pa_getter :: rbac_getter
  pa_RESTMapping :: "group_version_kind \<Rightarrow> group_version_resource result"
  pa_clusterCollectionVerbs :: "string list"
  pa_NewDecoder :: "string \<Rightarrow> 'd"
  pa_Decode :: "'d \<Rightarrow> 'd \<times> decoded"
  pa_ToClusterRole :: "json \<Rightarrow> cluster_role result"
  pa_ToClusterRoleBinding :: "json \<Rightarrow> cluster_role_binding result"
  pa_ToRole :: "json \<Rightarrow> rbac_role result"
  pa_ToRoleBinding :: "json \<Rightarrow> role_binding result"

definition objectVerbs :: "string list" where
  "objectVerbs = [''get'', ''patch'', ''update'', ''delete'']"

definition namespacedCollectionVerbs :: "string list" where
  "namespacedCollectionVerbs = [''create'']"

type_synonym 'd pre_authorizer_option = "'d rbac_pre_authorizer \<Rightarrow> 'd rbac_pre_authorizer"

definition WithClusterCollectionVerbs :: "string list \<Rightarrow> 'd pre_authorizer_option" where
  "WithClusterCollectionVerbs verbs a = a\<lparr>pa_clusterCollectionVerbs := verbs\<rparr>"

text \<open>The argument is the pre-authorizer over the client, before any option.\<close>

definition NewRBACPreAuthorizer :: "'d rbac_pre_authorizer \<Rightarrow> 'd pre_authorizer_option list \<Rightarrow> 'd rbac_pre_authorizer" where
  "NewRBACPreAuthorizer a opts = foldl (\<lambda>a opt. opt a) (a\<lparr>pa_clusterCollectionVerbs := []\<rparr>) opts"

subsection \<open>Decoding a manifest\<close>

record decoded_manifest =
  dm_gvrs :: "(group_version_resource \<times> namespaced_name list) list"
  dm_clusterRoles :: "(namespaced_name \<times> cluster_role) list"
  dm_roles :: "(namespaced_name \<times> rbac_role) list"
  dm_clusterRoleBindings :: "(namespaced_name \<times> cluster_role_binding) list"
  dm_roleBindings :: "(namespaced_name \<times> role_binding) list"

definition empty_manifest :: decoded_manifest where
  "empty_manifest =
     \<lparr>dm_gvrs = [], dm_clusterRoles = [], dm_roles = [], dm_clusterRoleBindings = [], dm_roleBindings = []\<rparr>"

definition append_to :: "('k \<times> 'v list) list \<Rightarrow> 'k \<Rightarrow> 'v list \<Rightarrow> ('k \<times> 'v list) list" where
  "append_to m k vs = AList.update k ((case map_of m k of None \<Rightarrow> [] | Some ws \<Rightarrow> ws) @ vs) m"

definition gvk_String :: "group_version_kind \<Rightarrow> string" where
  "gvk_String gvk = gvk_Group gvk @ ''/'' @ gvk_Version gvk @ '', Kind='' @ gvk_Kind gvk"

abbreviation rbac_group :: string where "rbac_group \<equiv> ''rbac.authorization.k8s.io''"

definition decode_failure :: "string \<Rightarrow> go_error \<Rightarrow> go_error" where
  "decode_failure as err = ErrWrap (''could not decode object 0 in manifest'' @ as @ '': '') err ''''"

text \<open>One object of the manifest: the manifest so far and the errors so far, with it added.\<close>

definition decode_manifest_object ::
  "'d rbac_pre_authorizer \<Rightarrow> json \<Rightarrow> decoded_manifest \<times> go_error list \<Rightarrow> decoded_manifest \<times> go_error list" where
  "decode_manifest_object a uObj acc =
     (let (dm, errs) = acc; gvk = GroupVersionKind uObj in
      case pa_RESTMapping a gvk of
        Inl err \<Rightarrow>
          (let objName = (if GetName uObj \<noteq> '''' then '' (name: '' @ GetName uObj @ '')'' else '''') in
           (dm, errs @ [ErrWrap (''could not get REST mapping for object 0 in manifest with GVK '' @ gvk_String gvk @ objName @ '': '') err '''']))
      | Inr gvr \<Rightarrow>
          (let key = \<lparr>nn_Namespace = GetNamespace uObj, nn_Name = GetName uObj\<rparr>;
               dm = dm\<lparr>dm_gvrs := append_to (dm_gvrs dm) gvr [key]\<rparr> in
           if gvr_Group gvr \<noteq> rbac_group then (dm, errs)
           else if gvr_Resource gvr = ''clusterroles'' then
             (case pa_ToClusterRole a uObj of
                Inl err \<Rightarrow> (dm, errs @ [decode_failure '' as ClusterRole'' err])
              | Inr obj \<Rightarrow>
                  (dm\<lparr>dm_clusterRoles := AList.update \<lparr>nn_Namespace = cr_Namespace obj, nn_Name = cr_Name obj\<rparr> obj (dm_clusterRoles dm)\<rparr>, errs))
           else if gvr_Resource gvr = ''clusterrolebindings'' then
             (case pa_ToClusterRoleBinding a uObj of
                Inl err \<Rightarrow> (dm, errs @ [decode_failure '' as ClusterRoleBinding'' err])
              | Inr obj \<Rightarrow>
                  (dm\<lparr>dm_clusterRoleBindings := AList.update \<lparr>nn_Namespace = crb_Namespace obj, nn_Name = crb_Name obj\<rparr> obj (dm_clusterRoleBindings dm)\<rparr>, errs))
           else if gvr_Resource gvr = ''roles'' then
             (case pa_ToRole a uObj of
                Inl err \<Rightarrow> (dm, errs @ [decode_failure '' as Role'' err])
              | Inr obj \<Rightarrow>
                  (dm\<lparr>dm_roles := AList.update \<lparr>nn_Namespace = rl_Namespace obj, nn_Name = rl_Name obj\<rparr> obj (dm_roles dm)\<rparr>, errs))
           else if gvr_Resource gvr = ''rolebindings'' then
             (case pa_ToRoleBinding a uObj of
                Inl err \<Rightarrow> (dm, errs @ [decode_failure '' as RoleBinding'' err])
              | Inr obj \<Rightarrow>
                  (dm\<lparr>dm_roleBindings := AList.update \<lparr>nn_Namespace = rb_Namespace obj, nn_Name = rb_Name obj\<rparr> obj (dm_roleBindings dm)\<rparr>, errs))
           else (dm, errs)))"

text \<open>
  The loop runs until the decoder reports the end of the stream; \<open>None\<close> is a run that never ends.
  The index that the messages name is never advanced: it is 0 for every object.
\<close>

partial_function (option) decode_loop ::
  "'d rbac_pre_authorizer \<Rightarrow> 'd \<Rightarrow> decoded_manifest \<times> go_error list \<Rightarrow> (decoded_manifest \<times> go_error list) option" where
  "decode_loop a d acc =
     (case snd (pa_Decode a d) of
        DecodeEOF \<Rightarrow> Some acc
      | DecodeErr err \<Rightarrow> decode_loop a (fst (pa_Decode a d)) (fst acc, snd acc @ [decode_failure '''' err])
      | DecodeObj uObj \<Rightarrow> decode_loop a (fst (pa_Decode a d)) (decode_manifest_object a uObj acc))"

definition decodeManifest :: "'d rbac_pre_authorizer \<Rightarrow> string \<Rightarrow> decoded_manifest result option" where
  "decodeManifest a manifest =
     map_option (\<lambda>(dm, errs). if errs \<noteq> [] then Inl (ErrJoin errs) else Inr dm)
       (decode_loop a (pa_NewDecoder a manifest) (empty_manifest, []))"

subsection \<open>The permissions a manifest takes\<close>

definition resource_attributes ::
  "user_info \<Rightarrow> group_version_resource \<Rightarrow> string \<Rightarrow> string \<Rightarrow> string \<Rightarrow> attributes_record" where
  "resource_attributes user gvr namespace name verb =
     \<lparr>at_User = user, at_Verb = verb, at_Namespace = namespace, at_APIGroup = gvr_Group gvr, at_APIVersion = gvr_Version gvr,
      at_Resource = gvr_Resource gvr, at_Subresource = '''', at_Name = name, at_ResourceRequest = True, at_Path = ''''\<rparr>"

definition gvr_records ::
  "user_info \<Rightarrow> string list \<Rightarrow> string list \<Rightarrow> group_version_resource \<times> namespaced_name list \<Rightarrow> attributes_record list" where
  "gvr_records user clusterVerbs namespacedVerbs entry =
     (let (gvr, keys) = entry;
          namespaces = sort (remdups (map nn_Namespace keys)) in
      concat (map (\<lambda>k. map (resource_attributes user gvr (nn_Namespace k) (nn_Name k)) objectVerbs) keys) @
      concat (map (\<lambda>ns. map (resource_attributes user gvr ns '''') namespacedVerbs) namespaces) @
      map (resource_attributes user gvr '''' '''') clusterVerbs)"

definition asAuthorizationAttributesRecordsForUser ::
  "decoded_manifest \<Rightarrow> user_info \<Rightarrow> string list \<Rightarrow> string list \<Rightarrow> attributes_record list" where
  "asAuthorizationAttributesRecordsForUser dm user clusterVerbs namespacedVerbs =
     concat (map (gvr_records user clusterVerbs namespacedVerbs) (dm_gvrs dm))"

definition attributesAllowed :: "'d rbac_pre_authorizer \<Rightarrow> attributes_record \<Rightarrow> bool result" where
  "attributesAllowed a attrs =
     (let (d, reason, err) = Authorize (pa_getter a) attrs in
      case err of
        Some e \<Rightarrow> Inl (if reason \<noteq> '''' then ErrWrap (reason @ '': '') e '''' else e)
      | None \<Rightarrow> Inr (d = DecisionAllow))"

definition policyRuleFromAttributesRecord :: "attributes_record \<Rightarrow> policy_rule" where
  "policyRuleFromAttributesRecord attrs =
     (let verbs = (if at_Verb attrs \<noteq> '''' then [at_Verb attrs] else []) in
      if \<not> at_ResourceRequest attrs then url_rule verbs (at_Path attrs)
      else
        resource_rule verbs (at_APIGroup attrs) (combined_resource (at_Resource attrs) (at_Subresource attrs))
          (if at_Name attrs \<noteq> '''' then [at_Name attrs] else []))"

type_synonym missing_rules = "(string \<times> policy_rule list) list"

fun authorizeAttributesRecords ::
  "'d rbac_pre_authorizer \<Rightarrow> attributes_record list \<Rightarrow> missing_rules \<Rightarrow> go_error list \<Rightarrow> missing_rules \<times> go_error list" where
  "authorizeAttributesRecords a [] missing errs = (missing, errs)"
| "authorizeAttributesRecords a (ar # ars) missing errs =
     (case attributesAllowed a ar of
        Inl err \<Rightarrow> authorizeAttributesRecords a ars missing (errs @ [err])
      | Inr allow \<Rightarrow>
          authorizeAttributesRecords a ars
            (if allow then missing else append_to missing (at_Namespace ar) [policyRuleFromAttributesRecord ar]) errs)"

subsection \<open>Escalation\<close>

datatype rbac_object =
    RbacClusterRole cluster_role
  | RbacRole rbac_role
  | RbacClusterRoleBinding cluster_role_binding
  | RbacRoleBinding role_binding

fun object_Namespace :: "rbac_object \<Rightarrow> string" where
  "object_Namespace (RbacClusterRole r) = cr_Namespace r"
| "object_Namespace (RbacRole r) = rl_Namespace r"
| "object_Namespace (RbacClusterRoleBinding b) = crb_Namespace b"
| "object_Namespace (RbacRoleBinding b) = rb_Namespace b"

definition rbacObjects :: "decoded_manifest \<Rightarrow> rbac_object list" where
  "rbacObjects dm =
     map (RbacClusterRole \<circ> snd) (dm_clusterRoles dm) @ map (RbacRole \<circ> snd) (dm_roles dm) @
     map (RbacClusterRoleBinding \<circ> snd) (dm_clusterRoleBindings dm) @ map (RbacRoleBinding \<circ> snd) (dm_roleBindings dm)"

definition fullAuthority :: "policy_rule list" where
  "fullAuthority =
     [\<lparr>pr_Verbs = [''*''], pr_APIGroups = [''*''], pr_Resources = [''*''], pr_ResourceNames = [], pr_NonResourceURLs = []\<rparr>,
      \<lparr>pr_Verbs = [''*''], pr_APIGroups = [], pr_Resources = [], pr_ResourceNames = [], pr_NonResourceURLs = [''*'']\<rparr>]"

definition hasAggregationRule :: "cluster_role \<Rightarrow> bool" where
  "hasAggregationRule r \<longleftrightarrow> (case cr_AggregationRule r of None \<Rightarrow> False | Some selectors \<Rightarrow> selectors \<noteq> [])"

text \<open>The escalation checker: the getter and the roles the manifest brings itself.\<close>

record escalation_checker =
  ec_getter :: rbac_getter
  ec_extraRoles :: "(namespaced_name \<times> rbac_role) list"
  ec_extraClusterRoles :: "(namespaced_name \<times> cluster_role) list"

definition escalationCheckerFor :: "'d rbac_pre_authorizer \<Rightarrow> decoded_manifest \<Rightarrow> escalation_checker" where
  "escalationCheckerFor a dm =
     \<lparr>ec_getter = pa_getter a, ec_extraRoles = dm_roles dm, ec_extraClusterRoles = dm_clusterRoles dm\<rparr>"

definition checkClusterRoleEscalation :: "escalation_checker \<Rightarrow> user_info \<Rightarrow> cluster_role \<Rightarrow> go_error option" where
  "checkClusterRoleEscalation ec user r =
     (if EscalationAllowed user \<or> RoleEscalationAuthorized (ec_getter ec) user ''clusterroles'' then None
      else
        (case (if hasAggregationRule r then ConfirmNoEscalation (ec_getter ec) user (cr_Namespace r) fullAuthority else None) of
           Some err \<Rightarrow> Some (ErrWrap ''must have cluster-admin privileges to use an aggregationRule: '' err '''')
         | None \<Rightarrow> ConfirmNoEscalation (ec_getter ec) user (cr_Namespace r) (cr_Rules r)))"

definition checkRoleEscalation :: "escalation_checker \<Rightarrow> user_info \<Rightarrow> rbac_role \<Rightarrow> go_error option" where
  "checkRoleEscalation ec user r =
     (if EscalationAllowed user \<or> RoleEscalationAuthorized (ec_getter ec) user ''roles'' then None
      else ConfirmNoEscalation (ec_getter ec) user (rl_Namespace r) (rl_Rules r))"

text \<open>The rules of a reference in the cluster; a role that does not exist there has none.\<close>

definition existing_rules :: "rbac_getter \<Rightarrow> role_ref \<Rightarrow> string \<Rightarrow> policy_rule list result" where
  "existing_rules g ref namespace =
     (case GetRoleReferenceRules g ref namespace of
        Inl err \<Rightarrow> if IsNotFound err then Inr [] else Inl err
      | Inr rules \<Rightarrow> Inr rules)"

definition extra_cluster_rules :: "escalation_checker \<Rightarrow> string \<Rightarrow> policy_rule list" where
  "extra_cluster_rules ec name =
     (case map_of (ec_extraClusterRoles ec) \<lparr>nn_Namespace = '''', nn_Name = name\<rparr> of None \<Rightarrow> [] | Some r \<Rightarrow> cr_Rules r)"

definition extra_rules :: "escalation_checker \<Rightarrow> string \<Rightarrow> string \<Rightarrow> policy_rule list" where
  "extra_rules ec namespace name =
     (case map_of (ec_extraRoles ec) \<lparr>nn_Namespace = namespace, nn_Name = name\<rparr> of None \<Rightarrow> [] | Some r \<Rightarrow> rl_Rules r)"

definition checkClusterRoleBindingEscalation :: "escalation_checker \<Rightarrow> user_info \<Rightarrow> cluster_role_binding \<Rightarrow> go_error option" where
  "checkClusterRoleBindingEscalation ec user b =
     (let ref = crb_RoleRef b in
      if EscalationAllowed user \<or> BindingAuthorized (ec_getter ec) user ref '''' then None
      else
        (case existing_rules (ec_getter ec) ref '''' of
           Inl err \<Rightarrow> Some err
         | Inr rules \<Rightarrow>
             ConfirmNoEscalation (ec_getter ec) user (crb_Namespace b)
               (rules @ (if rr_Kind ref = ''ClusterRole'' then extra_cluster_rules ec (rr_Name ref) else []))))"

definition checkRoleBindingEscalation :: "escalation_checker \<Rightarrow> user_info \<Rightarrow> role_binding \<Rightarrow> go_error option" where
  "checkRoleBindingEscalation ec user b =
     (let ref = rb_RoleRef b in
      if EscalationAllowed user \<or> BindingAuthorized (ec_getter ec) user ref (rb_Namespace b) then None
      else
        (case existing_rules (ec_getter ec) ref (rb_Namespace b) of
           Inl err \<Rightarrow> Some err
         | Inr rules \<Rightarrow>
             ConfirmNoEscalation (ec_getter ec) user (rb_Namespace b)
               (rules @
                (if rr_Kind ref = ''ClusterRole'' then extra_cluster_rules ec (rr_Name ref)
                 else if rr_Kind ref = ''Role'' then extra_rules ec (rb_Namespace b) (rr_Name ref)
                 else []))))"

fun checkEscalation :: "escalation_checker \<Rightarrow> user_info \<Rightarrow> rbac_object \<Rightarrow> go_error option" where
  "checkEscalation ec user (RbacRole r) = checkRoleEscalation ec user r"
| "checkEscalation ec user (RbacRoleBinding b) = checkRoleBindingEscalation ec user b"
| "checkEscalation ec user (RbacClusterRole r) = checkClusterRoleEscalation ec user r"
| "checkEscalation ec user (RbacClusterRoleBinding b) = checkClusterRoleBindingEscalation ec user b"

subsection \<open>Reading an escalation error\<close>

definition escalation_mark :: string where
  "escalation_mark = '') is attempting to grant RBAC permissions not currently held:'' @ [CHR 0x0A]"

fun after_first :: "string \<Rightarrow> string \<Rightarrow> string option" where
  "after_first sep [] = strip_prefix sep []"
| "after_first sep (c # s) = (case strip_prefix sep (c # s) of Some t \<Rightarrow> Some t | None \<Rightarrow> after_first sep s)"

text \<open>The two groups, from what follows the mark.\<close>

definition error_tail :: "string \<Rightarrow> (string \<times> string) option" where
  "error_tail t =
     (let group1 = takeWhile (\<lambda>c. c \<noteq> CHR '';'') t; rest = dropWhile (\<lambda>c. c \<noteq> CHR '';'') t in
      if group1 = '''' then None
      else if rest = '''' then Some (group1, '''')
      else map_option (Pair group1) (strip_prefix ''; resolution errors: '' rest))"

fun last_tail :: "string \<Rightarrow> (string \<times> string) option" where
  "last_tail [] = None"
| "last_tail (c # s) =
     (case last_tail s of
        Some m \<Rightarrow> Some m
      | None \<Rightarrow> Option.bind (strip_prefix escalation_mark (c # s)) error_tail)"

text \<open>
  The regular expression \<open>errRegex\<close> as a scanner for its two groups. Both wildcards are greedy, so
  that the match takes the last place where the mark and what follows it match; some occurrence of
  the text before the groups has to come first. Group 1 has no semicolon and what follows it starts
  with one, so that it is the longest prefix without.
\<close>

definition errRegex :: "string \<Rightarrow> (string \<times> string) option" where
  "errRegex s =
     Option.bind (strip_prefix (''user '' @ [CHR 0x22]) s) (\<lambda>t.
       Option.bind (after_first ([CHR 0x22] @ '' (groups='') t) last_tail)"

text \<open>
  All matches of an opening character, characters other than the closing one, and the closing one:
  \<open>ruleRegex\<close> and \<open>itemRegex\<close>.
\<close>

function find_delimited :: "char \<Rightarrow> char \<Rightarrow> string \<Rightarrow> string list" where
  "find_delimited a b s =
     (case dropWhile (\<lambda>c. c \<noteq> a) s of
        [] \<Rightarrow> []
      | _ # t \<Rightarrow>
          (case dropWhile (\<lambda>c. c \<noteq> b) t of
             [] \<Rightarrow> []
           | _ # rest \<Rightarrow> (a # takeWhile (\<lambda>c. c \<noteq> b) t @ [b]) # find_delimited a b rest))"
  by pat_completeness auto

lemma dropWhile_Cons_shorter: "dropWhile P xs = y # ys \<Longrightarrow> length ys < length xs"
  using length_dropWhile_le [of P xs] by simp

termination find_delimited
proof (relation "measure (\<lambda>(a, b, s). length s)")
  fix a b :: char and s y ys y' rest
  assume "dropWhile (\<lambda>c. c \<noteq> a) s = y # ys" and "dropWhile (\<lambda>c. c \<noteq> b) ys = y' # rest"
  then show "((a, b, rest), (a, b, s)) \<in> measure (\<lambda>(a, b, s). length s)"
    by (simp add: dropWhile_Cons_shorter less_trans [OF dropWhile_Cons_shorter dropWhile_Cons_shorter])
qed simp

declare find_delimited.simps [simp del]

abbreviation ruleRegex :: "string \<Rightarrow> string list" where "ruleRegex \<equiv> find_delimited (CHR ''{'') (CHR ''}'')"
abbreviation itemRegex :: "string \<Rightarrow> string list" where "itemRegex \<equiv> find_delimited (CHR 0x22) (CHR 0x22)"

definition trim_quotes :: "string \<Rightarrow> string" where
  "trim_quotes s = rev (dropWhile (\<lambda>c. c = CHR 0x22) (rev (dropWhile (\<lambda>c. c = CHR 0x22) s)))"

definition empty_rule :: policy_rule where
  "empty_rule = \<lparr>pr_Verbs = [], pr_APIGroups = [], pr_Resources = [], pr_ResourceNames = [], pr_NonResourceURLs = []\<rparr>"

definition parse_field :: "string \<Rightarrow> policy_rule \<Rightarrow> policy_rule result" where
  "parse_field item pr =
     (case cut_at (CHR '':'') item of
        (_, None) \<Rightarrow> Inl (ErrText (''unexpected item '' @ go_quote item @ '': expected <Type>:[<values>...]''))
      | (field, Some valuesStr) \<Rightarrow>
          (let values = map trim_quotes (itemRegex valuesStr) in
           if field = ''APIGroups'' then Inr (pr\<lparr>pr_APIGroups := values\<rparr>)
           else if field = ''Resources'' then Inr (pr\<lparr>pr_Resources := values\<rparr>)
           else if field = ''ResourceNames'' then Inr (pr\<lparr>pr_ResourceNames := values\<rparr>)
           else if field = ''NonResourceURLs'' then Inr (pr\<lparr>pr_NonResourceURLs := values\<rparr>)
           else if field = ''Verbs'' then Inr (pr\<lparr>pr_Verbs := values\<rparr>)
           else Inl (ErrText (''unexpected item '' @ go_quote item @ '': unknown field: '' @ go_quote field))))"

fun parse_fields :: "string list \<Rightarrow> policy_rule \<Rightarrow> policy_rule result" where
  "parse_fields [] pr = Inr pr"
| "parse_fields (item # items) pr = (case parse_field item pr of Inl err \<Rightarrow> Inl err | Inr pr' \<Rightarrow> parse_fields items pr')"

definition parseCompactRuleString :: "string \<Rightarrow> policy_rule result" where
  "parseCompactRuleString rule =
     (let ruleText = butlast (tl rule);
          fields = (if ruleText \<noteq> '''' then map trim_space (split_on (CHR '','') ruleText) else []) in
      parse_fields fields empty_rule)"

record parse_result =
  ps_MissingRules :: "policy_rule list"
  ps_ResolutionErrors :: "go_error option"

fun parse_rules :: "string list \<Rightarrow> policy_rule list \<Rightarrow> go_error list \<Rightarrow> policy_rule list \<times> go_error list" where
  "parse_rules [] rules errs = (rules, errs)"
| "parse_rules (rule # rest) rules errs =
     (case parseCompactRuleString rule of
        Inl err \<Rightarrow> parse_rules rest rules (errs @ [err])
      | Inr pr \<Rightarrow> parse_rules rest (rules @ [pr]) errs)"

definition parseEscalationErrorForMissingRules :: "go_error \<Rightarrow> parse_result \<times> go_error option" where
  "parseEscalationErrorForMissingRules ecError =
     (let errString = err_string ecError in
      case errRegex errString of
        None \<Rightarrow>
          (\<lparr>ps_MissingRules = [], ps_ResolutionErrors = None\<rparr>,
           Some (ErrText (''unexpected format of escalation check error string: '' @ go_quote errString)))
      | Some (missingPermissionsStr, resolutionErrorsStr) \<Rightarrow>
          (let (rules, errs) = parse_rules (ruleRegex missingPermissionsStr) [] [] in
           (\<lparr>ps_MissingRules = rules,
             ps_ResolutionErrors = (if resolutionErrorsStr \<noteq> '''' then Some (ErrText resolutionErrorsStr) else None)\<rparr>,
            errors_Join (map Some errs))))"

subsection \<open>The pre-authorization of a manifest\<close>

record escalation_state =
  es_missing :: missing_rules
  es_evaluationErrors :: "go_error option list"
  es_parseErrors :: "go_error option list"

definition check_object :: "escalation_checker \<Rightarrow> user_info \<Rightarrow> escalation_state \<Rightarrow> rbac_object \<Rightarrow> escalation_state" where
  "check_object ec user st obj =
     (case checkEscalation ec user obj of
        None \<Rightarrow> st
      | Some ecErr \<Rightarrow>
          (let (result, err) = parseEscalationErrorForMissingRules ecErr in
           \<lparr>es_missing = append_to (es_missing st) (object_Namespace obj) (ps_MissingRules result),
            es_evaluationErrors = es_evaluationErrors st @ [ps_ResolutionErrors result],
            es_parseErrors = es_parseErrors st @ [err]\<rparr>))"

definition dedup_verbs :: "policy_rule \<Rightarrow> policy_rule" where
  "dedup_verbs rule =
     rule\<lparr>pr_Verbs := (if ''*'' \<in> set (pr_Verbs rule) then [''*''] else sort (remdups (pr_Verbs rule)))\<rparr>"

definition scoped_rules :: "string \<times> policy_rule list \<Rightarrow> scoped_policy_rules" where
  "scoped_rules entry =
     \<lparr>spr_Namespace = fst entry,
      spr_MissingRules = sort_by (\<lambda>r r'. go_compare (rule_String r) (rule_String r')) (map dedup_verbs (CompactRules (snd entry)))\<rparr>"

definition all_missing :: "missing_rules \<Rightarrow> scoped_policy_rules list" where
  "all_missing missing =
     sort_by (\<lambda>s s'. go_compare (spr_Namespace s) (spr_Namespace s')) (map scoped_rules missing)"

definition incomplete_error :: "go_error option list \<Rightarrow> go_error option list \<Rightarrow> go_error option" where
  "incomplete_error parseErrors evaluationErrors =
     (let errs =
        [map_option (\<lambda>e. ErrText (''failed to parse escalation check error strings: '' @ err_string e)) (errors_Join parseErrors),
         map_option (\<lambda>e. ErrText (''failed to resolve or evaluate permissions: '' @ err_string e)) (errors_Join evaluationErrors)] in
      map_option (\<lambda>e. ErrWrap ''missing rules may be incomplete: '' e '''') (errors_Join errs))"

definition required_records ::
  "'d rbac_pre_authorizer \<Rightarrow> user_info \<Rightarrow> decoded_manifest \<Rightarrow> (user_info \<Rightarrow> attributes_record list) list \<Rightarrow> attributes_record list" where
  "required_records a user dm additional =
     asAuthorizationAttributesRecordsForUser dm user (pa_clusterCollectionVerbs a) namespacedCollectionVerbs @
     concat (map (\<lambda>fn. fn user) additional)"

definition preauthorize_decoded ::
  "'d rbac_pre_authorizer \<Rightarrow> user_info \<Rightarrow> decoded_manifest \<Rightarrow> (user_info \<Rightarrow> attributes_record list) list \<Rightarrow>
   scoped_policy_rules list \<times> go_error option" where
  "preauthorize_decoded a user dm additional =
     (let (missing, errs) = authorizeAttributesRecords a (required_records a user dm additional) [] [];
          st = foldl (check_object (escalationCheckerFor a dm) user)
                 \<lparr>es_missing = missing, es_evaluationErrors = [errors_Join (map Some errs)], es_parseErrors = []\<rparr>
                 (rbacObjects dm) in
      (all_missing (es_missing st), incomplete_error (es_parseErrors st) (es_evaluationErrors st)))"

definition PreAuthorize ::
  "'d rbac_pre_authorizer \<Rightarrow> user_info \<Rightarrow> string \<Rightarrow> (user_info \<Rightarrow> attributes_record list) list \<Rightarrow>
   (scoped_policy_rules list \<times> go_error option) option" where
  "PreAuthorize a user manifest additional =
     map_option (\<lambda>decoded. case decoded of Inl err \<Rightarrow> ([], Some err) | Inr dm \<Rightarrow> preauthorize_decoded a user dm additional)
       (decodeManifest a manifest)"

section \<open>Lemmas\<close>

subsection \<open>Decoding ends with the stream\<close>

definition reads :: "'d rbac_pre_authorizer \<Rightarrow> nat \<Rightarrow> 'd \<Rightarrow> 'd" where
  "reads a n d = ((\<lambda>d. fst (pa_Decode a d)) ^^ n) d"

lemma reads_simps [simp]: "reads a 0 d = d" "reads a (Suc n) d = reads a n (fst (pa_Decode a d))"
  by (simp_all add: reads_def funpow_Suc_right del: funpow.simps(2))

lemma decode_loop_reaches_EOF:
  "snd (pa_Decode a (reads a n d)) = DecodeEOF \<Longrightarrow> \<exists>y. decode_loop a d acc = Some y"
proof (induction n arbitrary: d acc)
  case 0
  then show ?case by (simp add: decode_loop.simps)
next
  case (Suc n)
  then have "\<exists>y. decode_loop a (fst (pa_Decode a d)) acc' = Some y" for acc'
    by simp
  then show ?case by (subst decode_loop.simps) (auto split: decoded.split)
qed

lemma decode_loop_EOF_reached:
  assumes "decode_loop a d acc = Some y"
  shows "\<exists>n. snd (pa_Decode a (reads a n d)) = DecodeEOF"
proof (rule decode_loop.raw_induct [where P = "\<lambda>a d acc y. \<exists>n. snd (pa_Decode a (reads a n d)) = DecodeEOF", OF _ assms])
  fix loop :: "'a rbac_pre_authorizer \<Rightarrow> 'a \<Rightarrow> decoded_manifest \<times> go_error list \<Rightarrow> (decoded_manifest \<times> go_error list) option"
    and a d acc y
  assume IH: "\<And>a d acc y. loop a d acc = Some y \<Longrightarrow> \<exists>n. snd (pa_Decode a (reads a n d)) = DecodeEOF"
    and step: "(case snd (pa_Decode a d) of
      DecodeEOF \<Rightarrow> Some acc
    | DecodeErr err \<Rightarrow> loop a (fst (pa_Decode a d)) (fst acc, snd acc @ [decode_failure '''' err])
    | DecodeObj uObj \<Rightarrow> loop a (fst (pa_Decode a d)) (decode_manifest_object a uObj acc)) = Some y"
  show "\<exists>n. snd (pa_Decode a (reads a n d)) = DecodeEOF"
  proof (cases "snd (pa_Decode a d) = DecodeEOF")
    case True
    then show ?thesis by (intro exI [of _ 0]) simp
  next
    case False
    then obtain acc' where "loop a (fst (pa_Decode a d)) acc' = Some y"
      using step by (auto split: decoded.splits)
    then obtain n where "snd (pa_Decode a (reads a n (fst (pa_Decode a d)))) = DecodeEOF"
      using IH by blast
    then show ?thesis by (intro exI [of _ "Suc n"]) simp
  qed
qed

lemma decodeManifest_returns:
  "(\<exists>res. decodeManifest a manifest = Some res) \<longleftrightarrow>
     (\<exists>n. snd (pa_Decode a (reads a n (pa_NewDecoder a manifest))) = DecodeEOF)"
  using decode_loop_reaches_EOF decode_loop_EOF_reached by (fastforce simp: decodeManifest_def)

text \<open>A decoder that stays at an error, as a JSON decoder does, keeps the loop running forever.\<close>

lemma stuck_decoder_never_returns:
  assumes "pa_Decode a d = (d, DecodeErr err)" and "pa_NewDecoder a manifest = d"
  shows "decodeManifest a manifest = None"
proof -
  have "reads a n d = d" for n
    by (induction n) (simp_all add: assms(1))
  then show ?thesis
    using decodeManifest_returns [of a manifest] assms by (metis decoded.distinct(1) not_Some_eq snd_conv)
qed

subsection \<open>The text of an escalation error\<close>

lemma after_first_some: "\<exists>z. after_first sep (x @ sep @ y) = Some (z @ y)"
proof (induction x)
  case Nil
  have "after_first sep (sep @ y) = Some y"
    by (cases "sep @ y") (simp_all, metis strip_prefix_append option.simps(5))
  then show ?case by (intro exI [of _ "''''"]) simp
next
  case (Cons c x)
  show ?case
  proof (cases "strip_prefix sep (c # x @ sep @ y)")
    case None
    then show ?thesis using Cons by simp
  next
    case (Some t)
    then have "c # x @ sep @ y = sep @ t" by (simp add: strip_prefix_Some)
    then have "length (x @ sep @ y) + 1 = length sep + length t" by (metis length_Cons length_append Suc_eq_plus1)
    then have "length y \<le> length t" by simp
    moreover have "sep @ t = (c # x @ sep) @ y" using \<open>c # x @ sep @ y = sep @ t\<close> by simp
    ultimately have "\<exists>z. t = z @ y"
      unfolding append_eq_append_conv2 by auto
    then show ?thesis using Some by auto
  qed
qed

lemma escalation_mark_lines:
  "takeWhile (\<lambda>c. c \<noteq> CHR 0x0A) (escalation_mark @ t) = '') is attempting to grant RBAC permissions not currently held:''"
  by (simp add: escalation_mark_def)

lemma no_mark_in_line:
  assumes "CHR 0x0A \<notin> set x" and "last x \<noteq> CHR '':''"
  shows "strip_prefix escalation_mark (x @ CHR 0x0A # y) = None"
proof (rule ccontr)
  assume "strip_prefix escalation_mark (x @ CHR 0x0A # y) \<noteq> None"
  then obtain t where "x @ CHR 0x0A # y = escalation_mark @ t"
    by (auto simp: strip_prefix_Some)
  then have "takeWhile (\<lambda>c. c \<noteq> CHR 0x0A) (x @ CHR 0x0A # y) = '') is attempting to grant RBAC permissions not currently held:''"
    by (simp only: escalation_mark_lines)
  moreover have "takeWhile (\<lambda>c. c \<noteq> CHR 0x0A) (x @ CHR 0x0A # y) = x"
    using assms(1) by (induction x) auto
  ultimately show False using assms(2) by simp
qed

lemma last_tail_skip_line:
  "CHR 0x0A \<notin> set x \<Longrightarrow> x = '''' \<or> last x \<noteq> CHR '':'' \<Longrightarrow> last_tail (x @ CHR 0x0A # y) = last_tail y"
proof (induction x)
  case Nil
  have "strip_prefix escalation_mark (CHR 0x0A # y) = None" by (simp add: escalation_mark_def)
  then show ?case by (simp split: option.split)
next
  case (Cons c x)
  have "strip_prefix escalation_mark ((c # x) @ CHR 0x0A # y) = None"
    using Cons.prems by (intro no_mark_in_line) auto
  moreover have "last_tail (x @ CHR 0x0A # y) = last_tail y"
    using Cons by (cases x) auto
  ultimately show ?case by (simp split: option.split)
qed

lemma last_tail_one_line: "CHR 0x0A \<notin> set x \<Longrightarrow> last_tail x = None"
proof (induction x)
  case (Cons c x)
  have "strip_prefix escalation_mark (c # x) = None"
  proof (rule ccontr)
    assume "strip_prefix escalation_mark (c # x) \<noteq> None"
    then obtain t where "c # x = escalation_mark @ t" by (auto simp: strip_prefix_Some)
    then have "CHR 0x0A \<in> set (c # x)" by (simp add: escalation_mark_def)
    then show False using Cons.prems by blast
  qed
  then show ?case using Cons by simp
qed simp

lemma last_tail_lines:
  "\<forall>d \<in> set ds. CHR 0x0A \<notin> set d \<and> d \<noteq> '''' \<and> last d \<noteq> CHR '':'' \<Longrightarrow> CHR 0x0A \<notin> set r \<Longrightarrow>
   last_tail (go_join [CHR 0x0A] ds @ r) = None"
proof (induction "[CHR 0x0A]" ds rule: go_join.induct)
  case (3 d d' ds)
  then show ?case using last_tail_skip_line [of d "go_join [CHR 0x0A] (d' # ds) @ r"] by simp
qed (simp_all add: last_tail_one_line)

lemma last_tail_no_paren: "CHR '')'' \<notin> set x \<Longrightarrow> last_tail s = None \<Longrightarrow> last_tail (x @ s) = None"
  by (induction x) (simp_all add: escalation_mark_def)

lemma last_tail_mark:
  assumes "last_tail t = None" and "error_tail t = Some m"
  shows "last_tail (z @ escalation_mark @ t) = Some m"
proof (induction z)
  case Nil
  obtain r where r: "escalation_mark = CHR '')'' # r" "CHR '')'' \<notin> set r" by (simp add: escalation_mark_def)
  then have "last_tail (r @ t) = None" using assms(1) by (simp add: last_tail_no_paren)
  moreover have "strip_prefix escalation_mark (CHR '')'' # r @ t) = Some t"
    using strip_prefix_append [of escalation_mark t] r(1) by (metis append_Cons)
  ultimately have "last_tail (CHR '')'' # r @ t) = Some m" using assms(2) by simp
  moreover have "[] @ escalation_mark @ t = CHR '')'' # r @ t" using r(1) by (metis append_Cons append_Nil)
  ultimately show ?case by (simp only:)
qed simp

text \<open>The text of an escalation error is read back as the lines of rules and the resolution errors.\<close>

lemma errRegex_escalation:
  assumes lines: "\<forall>d \<in> set ds. CHR 0x0A \<notin> set d \<and> CHR '';'' \<notin> set d \<and> d \<noteq> '''' \<and> last d \<noteq> CHR '':''"
    and "ds \<noteq> []" and "CHR 0x0A \<notin> set e"
  shows "errRegex (escalation_prefix user @ go_join [CHR 0x0A] ds @ (if e = '''' then '''' else ''; resolution errors: '' @ e)) =
    Some (go_join [CHR 0x0A] ds, e)"
proof -
  let ?t = "go_join [CHR 0x0A] ds @ (if e = '''' then '''' else ''; resolution errors: '' @ e)"
  let ?q = "[CHR 0x22]" and ?n = "concat (map quote_char (ui_Name user))" and ?gs = "show_strings (map go_quote (ui_Groups user))"
  have split: "escalation_prefix user @ ?t = (''user '' @ ?q) @ ?n @ (?q @ '' (groups='') @ ?gs @ escalation_mark @ ?t"
    by (simp add: escalation_prefix_def go_quote_def escalation_mark_def)
  have no_semicolon: "CHR '';'' \<notin> set (go_join [CHR 0x0A] ds)" using lines set_go_join [of "[CHR 0x0A]" ds] by fastforce
  have nonempty: "go_join [CHR 0x0A] ds \<noteq> ''''" using lines \<open>ds \<noteq> []\<close> by (cases ds rule: list.exhaust; cases "tl ds") auto
  have "last_tail ?t = None" using lines assms(3) by (intro last_tail_lines) auto
  moreover have "error_tail ?t = Some (go_join [CHR 0x0A] ds, e)"
    using no_semicolon nonempty
    by (cases "e = ''''") (simp_all add: error_tail_def takeWhile_no_hit dropWhile_no_hit takeWhile_append dropWhile_append)
  ultimately have "last_tail (z @ escalation_mark @ ?t) = Some (go_join [CHR 0x0A] ds, e)" for z
    by (rule last_tail_mark)
  moreover obtain z where "after_first (?q @ '' (groups='') (?n @ (?q @ '' (groups='') @ ?gs @ escalation_mark @ ?t) = Some (z @ ?gs @ escalation_mark @ ?t)"
    using after_first_some by blast
  ultimately show ?thesis
    unfolding errRegex_def split strip_prefix_append bind.bind_lunit
    by (simp del: append_assoc add: append_assoc [symmetric])
qed

subsection \<open>The text of a rule\<close>

text \<open>Characters that \<open>%q\<close> prints as they are and that no separator of the text is.\<close>

definition safe_char :: "char \<Rightarrow> bool" where
  "safe_char c \<longleftrightarrow> quote_char c = [c] \<and> c \<notin> {CHR '','', CHR ''}'', CHR '';''}"

definition safe_rule :: "policy_rule \<Rightarrow> bool" where
  "safe_rule r \<longleftrightarrow>
     list_all (list_all (list_all safe_char))
       [pr_Verbs r, pr_APIGroups r, pr_Resources r, pr_ResourceNames r, pr_NonResourceURLs r]"

lemma safe_char_neq:
  assumes "safe_char c"
  shows "c \<noteq> CHR 0x22" "c \<noteq> CHR '',''" "c \<noteq> CHR ''}''" "c \<noteq> CHR '';''" "c \<noteq> CHR 0x0A"
  using assms by (auto simp: safe_char_def quote_char_def)

lemma safe_string: "list_all safe_char s \<Longrightarrow> CHR 0x22 \<notin> set s \<and> CHR '','' \<notin> set s \<and> CHR ''}'' \<notin> set s \<and> CHR '';'' \<notin> set s \<and> CHR 0x0A \<notin> set s"
  using safe_char_neq by (fastforce simp: list_all_iff)

lemma go_quote_safe: "list_all safe_char s \<Longrightarrow> go_quote s = CHR 0x22 # s @ [CHR 0x22]"
proof -
  assume "list_all safe_char s"
  then have "concat (map quote_char s) = s" by (induction s) (simp_all add: safe_char_def)
  then show ?thesis by (simp add: go_quote_def)
qed

lemma find_delimited_none: "a \<notin> set x \<Longrightarrow> find_delimited a b x = []"
  by (subst find_delimited.simps) (simp add: dropWhile_no_hit)

lemma find_delimited_step:
  assumes "a \<notin> set x" and "b \<notin> set y"
  shows "find_delimited a b (x @ a # y @ b # rest) = (a # y @ [b]) # find_delimited a b rest"
proof -
  have "dropWhile (\<lambda>c. c \<noteq> a) (x @ a # y @ b # rest) = a # y @ b # rest" using assms(1) by (induction x) auto
  moreover have "dropWhile (\<lambda>c. c \<noteq> b) (y @ b # rest) = b # rest" "takeWhile (\<lambda>c. c \<noteq> b) (y @ b # rest) = y"
    using assms(2) by (induction y) auto
  ultimately show ?thesis by (subst find_delimited.simps) simp
qed

lemma find_delimited_joined:
  "a \<notin> set before \<Longrightarrow> a \<notin> set sep \<Longrightarrow> a \<notin> set after \<Longrightarrow> \<forall>y \<in> set ys. b \<notin> set y \<Longrightarrow>
   find_delimited a b (before @ go_join sep (map (\<lambda>y. a # y @ [b]) ys) @ after) = map (\<lambda>y. a # y @ [b]) ys"
proof (induction ys arbitrary: before)
  case Nil
  then show ?case by (simp add: find_delimited_none)
next
  case (Cons y ys)
  show ?case
  proof (cases ys)
    case Nil
    then show ?thesis using Cons.prems by (simp add: find_delimited_step find_delimited_none)
  next
    case (Cons y' ys')
    let ?rest = "go_join sep (map (\<lambda>y. a # y @ [b]) ys)"
    have "before @ go_join sep (map (\<lambda>y. a # y @ [b]) (y # ys)) @ after = before @ a # y @ b # (sep @ ?rest @ after)"
      by (simp add: Cons)
    then show ?thesis using Cons.IH [of sep] Cons.prems find_delimited_step [of a before b y "sep @ ?rest @ after"] by simp
  qed
qed

lemma trim_quotes_quoted: "CHR 0x22 \<notin> set s \<Longrightarrow> trim_quotes (CHR 0x22 # s @ [CHR 0x22]) = s"
proof (cases s)
  case (Cons c t)
  assume "CHR 0x22 \<notin> set s"
  moreover have "dropWhile (\<lambda>c. c = CHR 0x22) u = u" if "CHR 0x22 \<notin> set u" for u
    using that by (cases u) auto
  ultimately show ?thesis using Cons by (auto simp: trim_quotes_def)
qed (simp add: trim_quotes_def)

lemma read_items:
  assumes "list_all (list_all safe_char) xs"
  shows "map trim_quotes (itemRegex (show_strings (map go_quote xs))) = xs"
proof -
  have q: "CHR 0x22 \<notin> set x" if "x \<in> set xs" for x using that assms safe_string by (auto simp: list_all_iff)
  have quoted: "map go_quote xs = map (\<lambda>x. CHR 0x22 # x @ [CHR 0x22]) xs"
    using assms go_quote_safe by (auto simp: list_all_iff)
  have "itemRegex (show_strings (map go_quote xs)) = map (\<lambda>x. CHR 0x22 # x @ [CHR 0x22]) xs"
    unfolding quoted show_strings_def using find_delimited_joined [of "CHR 0x22" "''[''" "'' ''" "'']''" xs "CHR 0x22"] q by simp
  then show ?thesis using q trim_quotes_quoted by (simp add: map_idI)
qed

lemma map_trim_split_space: "map trim_space (split_on c (CHR 0x20 # s)) = map trim_space (split_on c s)" if "c \<noteq> CHR 0x20"
proof -
  obtain w ws where "split_on c s = w # ws" by (metis list.exhaust split_on_not_Nil)
  then show ?thesis using that by (simp add: trim_space_def is_space_def)
qed

definition tight :: "string \<Rightarrow> bool" where
  "tight p \<longleftrightarrow> CHR '','' \<notin> set p \<and> p \<noteq> '''' \<and> \<not> is_space (hd p) \<and> \<not> is_space (last p)"

lemma trim_space_tight: "tight p \<Longrightarrow> trim_space p = p"
proof -
  assume p: "tight p"
  then have "dropWhile is_space p = p" by (cases p) (auto simp: tight_def)
  moreover have "dropWhile is_space (rev p) = rev p" using p by (cases p rule: rev_cases) (auto simp: tight_def)
  ultimately show ?thesis by (simp add: trim_space_def)
qed

lemma split_joined_fields:
  "\<forall>p \<in> set ps. tight p \<Longrightarrow> ps \<noteq> [] \<Longrightarrow> map trim_space (split_on (CHR '','') (go_join '', '' ps)) = ps"
proof (induction "'', ''" ps rule: go_join.induct)
  case (2 p)
  then show ?case by (simp add: trim_space_tight split_on_no_sep tight_def)
next
  case (3 p q ps)
  have "split_on (CHR '','') (p @ CHR '','' # CHR 0x20 # go_join '', '' (q # ps)) = p # split_on (CHR '','') (CHR 0x20 # go_join '', '' (q # ps))"
    using 3(2) by (intro split_on_append_sep) (simp add: tight_def)
  moreover have "map trim_space (split_on (CHR '','') (CHR 0x20 # go_join '', '' (q # ps))) = q # ps"
    using 3 by (subst map_trim_split_space) simp_all
  ultimately show ?case using 3(2) by (simp add: trim_space_tight del: split_on.simps)
qed simp

definition rule_parts :: "policy_rule \<Rightarrow> string list" where
  "rule_parts r =
     compact_part ''APIGroups'' (pr_APIGroups r) @ compact_part ''Resources'' (pr_Resources r) @
     compact_part ''NonResourceURLs'' (pr_NonResourceURLs r) @ compact_part ''ResourceNames'' (pr_ResourceNames r) @
     compact_part ''Verbs'' (pr_Verbs r)"

lemma CompactString_parts: "CompactString r = CHR ''{'' # go_join '', '' (rule_parts r) @ ''}''"
  by (simp add: CompactString_def rule_parts_def)

lemma parse_part:
  assumes "list_all (list_all safe_char) xs"
  shows "parse_fields (compact_part ''APIGroups'' xs) pr = Inr (if xs = [] then pr else pr\<lparr>pr_APIGroups := xs\<rparr>)"
    and "parse_fields (compact_part ''Resources'' xs) pr = Inr (if xs = [] then pr else pr\<lparr>pr_Resources := xs\<rparr>)"
    and "parse_fields (compact_part ''NonResourceURLs'' xs) pr = Inr (if xs = [] then pr else pr\<lparr>pr_NonResourceURLs := xs\<rparr>)"
    and "parse_fields (compact_part ''ResourceNames'' xs) pr = Inr (if xs = [] then pr else pr\<lparr>pr_ResourceNames := xs\<rparr>)"
    and "parse_fields (compact_part ''Verbs'' xs) pr = Inr (if xs = [] then pr else pr\<lparr>pr_Verbs := xs\<rparr>)"
  using read_items [OF assms]
  by (simp_all add: compact_part_def parse_field_def cut_at_def)

lemma parse_fields_append:
  "parse_fields (xs @ ys) pr = (case parse_fields xs pr of Inl err \<Rightarrow> Inl err | Inr pr' \<Rightarrow> parse_fields ys pr')"
  by (induction xs pr rule: parse_fields.induct) (auto split: sum.split)

lemma parse_rule_parts: "safe_rule r \<Longrightarrow> parse_fields (rule_parts r) empty_rule = Inr r"
  by (simp add: rule_parts_def safe_rule_def parse_fields_append parse_part empty_rule_def)

lemma rule_parts_Nil: "rule_parts r = [] \<Longrightarrow> r = empty_rule"
  by (simp add: rule_parts_def compact_part_def empty_rule_def split: if_splits)

lemma set_show_strings:
  assumes "list_all (list_all safe_char) xs" and "c \<in> set (show_strings (map go_quote xs))"
  shows "safe_char c \<or> c = CHR 0x22"
proof -
  have "safe_char (CHR ''['') \<and> safe_char (CHR '']'') \<and> safe_char (CHR '' '')"
    by (simp add: safe_char_def quote_char_def)
  moreover have "set (go_join '' '' (map go_quote xs)) \<subseteq> \<Union> (set ` set (map go_quote xs)) \<union> {CHR '' ''}"
    using set_go_join [of "'' ''" "map go_quote xs"] by simp
  moreover have "safe_char d \<or> d = CHR 0x22" if "x \<in> set xs" "d \<in> set (go_quote x)" for x d
    using that assms(1) go_quote_safe [of x] by (auto simp: list_all_iff)
  ultimately show ?thesis using assms(2) by (auto simp: show_strings_def)
qed

definition plain_field :: "string \<Rightarrow> bool" where
  "plain_field f \<longleftrightarrow> f \<noteq> '''' \<and> list_all safe_char f \<and> \<not> is_space (hd f)"

lemma compact_part_chars:
  assumes "plain_field f" and "list_all (list_all safe_char) xs" and "p \<in> set (compact_part f xs)"
  shows "tight p \<and> (\<forall>c \<in> set p. safe_char c \<or> c = CHR 0x22)"
proof -
  have p: "p = f @ '':'' @ show_strings (map go_quote xs)" using assms(3) by (simp add: compact_part_def split: if_splits)
  have "safe_char (CHR '':'')" by (simp add: safe_char_def quote_char_def)
  then have chars: "\<forall>c \<in> set p. safe_char c \<or> c = CHR 0x22"
    using assms(1,2) set_show_strings by (auto simp: p plain_field_def list_all_iff)
  moreover have "last p = CHR '']''" "hd p = hd f" "p \<noteq> ''''"
    using assms(1) by (simp_all add: p show_strings_def plain_field_def)
  moreover have "\<not> is_space (CHR '']'')" by (simp add: is_space_def)
  ultimately show ?thesis
    using assms(1) safe_char_neq(2) by (fastforce simp: tight_def plain_field_def)
qed

lemma rule_parts_chars:
  assumes "safe_rule r" and "p \<in> set (rule_parts r)"
  shows "tight p \<and> (\<forall>c \<in> set p. safe_char c \<or> c = CHR 0x22)"
proof -
  have "plain_field ''APIGroups''" "plain_field ''Resources''" "plain_field ''NonResourceURLs''" "plain_field ''ResourceNames''"
    "plain_field ''Verbs''"
    by (simp_all add: plain_field_def safe_char_def quote_char_def is_space_def)
  note fields = this [THEN compact_part_chars]
  have safe: "list_all (list_all safe_char) (pr_APIGroups r)" "list_all (list_all safe_char) (pr_Resources r)"
    "list_all (list_all safe_char) (pr_NonResourceURLs r)" "list_all (list_all safe_char) (pr_ResourceNames r)"
    "list_all (list_all safe_char) (pr_Verbs r)"
    using assms(1) by (simp_all add: safe_rule_def)
  show ?thesis
    using assms(2) fields(1) [OF safe(1)] fields(2) [OF safe(2)] fields(3) [OF safe(3)] fields(4) [OF safe(4)] fields(5) [OF safe(5)]
    unfolding rule_parts_def set_append by blast
qed

lemma CompactString_chars:
  assumes "safe_rule r"
  shows "CHR ''}'' \<notin> set (go_join '', '' (rule_parts r))" and "CHR '';'' \<notin> set (CompactString r)" and "CHR 0x0A \<notin> set (CompactString r)"
proof -
  have "set (go_join '', '' (rule_parts r)) \<subseteq> \<Union> (set ` set (rule_parts r)) \<union> {CHR '','', CHR '' ''}"
    using set_go_join [of "'', ''"] by auto
  then have "safe_char c \<or> c = CHR 0x22 \<or> c = CHR '','' \<or> c = CHR '' ''" if "c \<in> set (go_join '', '' (rule_parts r))" for c
    using that rule_parts_chars [OF assms] by blast
  then have "CHR ''}'' \<notin> set (go_join '', '' (rule_parts r)) \<and> CHR '';'' \<notin> set (go_join '', '' (rule_parts r)) \<and>
    CHR 0x0A \<notin> set (go_join '', '' (rule_parts r))"
    using safe_char_neq(3-5) by fastforce
  then show "CHR ''}'' \<notin> set (go_join '', '' (rule_parts r))" "CHR '';'' \<notin> set (CompactString r)" "CHR 0x0A \<notin> set (CompactString r)"
    unfolding CompactString_parts by simp_all
qed

text \<open>The text of a rule is read back as the rule.\<close>

lemma parse_CompactString: "safe_rule r \<Longrightarrow> parseCompactRuleString (CompactString r) = Inr r"
proof (cases "rule_parts r = []")
  case True
  then show ?thesis using rule_parts_Nil [OF True] by (simp add: CompactString_parts parseCompactRuleString_def)
next
  case False
  assume r: "safe_rule r"
  have "go_join '', '' (rule_parts r) \<noteq> ''''"
    using False rule_parts_chars [OF r] by (cases "rule_parts r" rule: list.exhaust; cases "tl (rule_parts r)") (auto simp: tight_def)
  moreover have "map trim_space (split_on (CHR '','') (go_join '', '' (rule_parts r))) = rule_parts r"
    using False rule_parts_chars [OF r] by (intro split_joined_fields) auto
  ultimately show ?thesis
    using parse_rule_parts [OF r] by (simp add: CompactString_parts parseCompactRuleString_def butlast_append)
qed

subsection \<open>Compact rules\<close>

lemma set_add_simple:
  "\<forall>r \<in> snd ` set m. P r \<Longrightarrow> P rule \<Longrightarrow> (\<And>e. P e \<Longrightarrow> P (e\<lparr>pr_Verbs := pr_Verbs e @ pr_Verbs rule\<rparr>)) \<Longrightarrow>
   \<forall>r \<in> snd ` set (add_simple m k rule). P r"
  by (induction m k rule rule: add_simple.induct) auto

lemma add_simple_not_Nil [simp]: "add_simple m k rule \<noteq> []"
  by (induction m k rule rule: add_simple.induct) auto

lemma safe_more_verbs: "safe_rule e \<Longrightarrow> safe_rule rule \<Longrightarrow> safe_rule (e\<lparr>pr_Verbs := pr_Verbs e @ pr_Verbs rule\<rparr>)"
  by (simp add: safe_rule_def)

lemma CompactRules_eq: "CompactRules rules = fst (compact_loop rules [] []) @ map snd (snd (compact_loop rules [] []))"
  by (simp add: CompactRules_def case_prod_beta' Let_def)

lemma compact_loop_safe:
  "list_all safe_rule rules \<Longrightarrow> list_all safe_rule compacted \<Longrightarrow> \<forall>r \<in> snd ` set m. safe_rule r \<Longrightarrow>
   list_all safe_rule (fst (compact_loop rules compacted m)) \<and> (\<forall>r \<in> snd ` set (snd (compact_loop rules compacted m)). safe_rule r)"
proof (induction rules compacted m rule: compact_loop.induct)
  case (2 rule rules compacted m)
  show ?case
  proof (cases "isSimpleResourceRule rule")
    case None
    then show ?thesis using 2 by simp
  next
    case (Some k)
    have rule: "safe_rule rule" "list_all safe_rule rules" using 2(3) by simp_all
    have "\<forall>r \<in> snd ` set (add_simple m k rule). safe_rule r"
      using 2(5) rule(1) by (rule set_add_simple) (rule safe_more_verbs [OF _ rule(1)])
    from 2(2) [OF Some rule(2) 2(4) this] show ?thesis by (simp add: Some)
  qed
qed simp

lemma CompactRules_safe: "list_all safe_rule rules \<Longrightarrow> list_all safe_rule (CompactRules rules)"
  using compact_loop_safe [of rules "[]" "[]"] by (auto simp add: CompactRules_eq list_all_iff)

lemma compact_loop_Nil:
  "fst (compact_loop rules compacted m) = [] \<and> snd (compact_loop rules compacted m) = [] \<longleftrightarrow> rules = [] \<and> compacted = [] \<and> m = []"
  by (induction rules compacted m rule: compact_loop.induct) (auto split: option.splits)

lemma CompactRules_Nil [simp]: "CompactRules rules = [] \<longleftrightarrow> rules = []"
  using compact_loop_Nil [of rules "[]" "[]"] by (simp add: CompactRules_eq)

subsection \<open>An escalation error gives back the missing rules\<close>

lemma parse_rules_CompactString:
  "list_all safe_rule rs \<Longrightarrow> parse_rules (map CompactString rs) rules errs = (rules @ rs, errs)"
  by (induction rs arbitrary: rules) (simp_all add: parse_CompactString)

lemma ruleRegex_lines:
  assumes "list_all safe_rule rs"
  shows "ruleRegex (go_join [CHR 0x0A] (map CompactString rs)) = map CompactString rs"
proof -
  let ?inner = "\<lambda>r. go_join '', '' (rule_parts r)"
  have texts: "map CompactString rs = map (\<lambda>y. CHR ''{'' # y @ [CHR ''}'']) (map ?inner rs)"
    by (simp add: CompactString_parts)
  have "\<forall>y \<in> set (map ?inner rs). CHR ''}'' \<notin> set y"
    using assms CompactString_chars(1) by (auto simp: list_all_iff)
  then show ?thesis
    unfolding texts using find_delimited_joined [of "CHR ''{''" "''''" "[CHR 0x0A]" "''''" "map ?inner rs" "CHR ''}''"] by simp
qed

text \<open>Sorting and removing duplicates keeps the lines the texts of the same rules.\<close>

lemma described_rules:
  assumes "list_all safe_rule rs"
  obtains rs' where "sort (remdups (map CompactString rs)) = map CompactString rs'" "set rs' = set rs"
proof
  let ?read = "\<lambda>d. projr (parseCompactRuleString d)" and ?ds = "sort (remdups (map CompactString rs))"
  have read: "?read (CompactString r) = r" if "r \<in> set rs" for r
    using that assms parse_CompactString [of r] by (simp add: list_all_iff)
  show "?ds = map CompactString (map ?read ?ds)"
    using read by (auto simp: map_idI intro!: map_idI [symmetric])
  show "set (map ?read ?ds) = set rs"
    using read by (force simp: image_image)
qed

lemma safe_breakdown: "safe_rule rule \<Longrightarrow> sub \<in> set (BreakdownRule rule) \<Longrightarrow> safe_rule sub"
  unfolding BreakdownRule_cases
  by (auto simp: safe_rule_def resource_rule_def url_rule_def list_all_iff split: if_splits)

lemma safe_missing: "list_all safe_rule rules \<Longrightarrow> list_all safe_rule (snd (Covers owner rules))"
  using safe_breakdown by (fastforce simp: Covers_def Let_def list_all_iff)

lemma parse_escalation_text:
  assumes safe: "list_all safe_rule missing" and "missing \<noteq> []" and e: "CHR 0x0A \<notin> set e"
  shows "\<exists>rs. parseEscalationErrorForMissingRules (ErrText (escalation_prefix user @
        go_join [CHR 0x0A] (sort (remdups (map CompactString missing))) @ (if e = '''' then '''' else ''; resolution errors: '' @ e))) =
      (\<lparr>ps_MissingRules = rs, ps_ResolutionErrors = (if e = '''' then None else Some (ErrText e))\<rparr>, None) \<and> set rs = set missing"
proof -
  obtain rs where rs: "sort (remdups (map CompactString missing)) = map CompactString rs" "set rs = set missing"
    using described_rules [OF safe] by blast
  have safe': "list_all safe_rule rs" using safe rs(2) by (simp add: list_all_iff)
  have "rs \<noteq> []" using rs(2) \<open>missing \<noteq> []\<close> by auto
  have "\<forall>d \<in> set (map CompactString rs). CHR 0x0A \<notin> set d \<and> CHR '';'' \<notin> set d \<and> d \<noteq> '''' \<and> last d \<noteq> CHR '':''"
    using safe' CompactString_chars(2,3) by (auto simp: list_all_iff) (auto simp: CompactString_parts)
  from errRegex_escalation [OF this _ e, of user] \<open>rs \<noteq> []\<close>
  have "errRegex (escalation_prefix user @ go_join [CHR 0x0A] (map CompactString rs) @
      (if e = '''' then '''' else ''; resolution errors: '' @ e)) = Some (go_join [CHR 0x0A] (map CompactString rs), e)"
    by simp
  then show ?thesis
    using rs ruleRegex_lines [OF safe'] parse_rules_CompactString [OF safe']
    by (intro exI [of _ rs]) (simp add: parseEscalationErrorForMissingRules_def Let_def errors_Join_def List.map_filter_simps)
qed

text \<open>
  C30: The rules the parser reads out of an escalation error are the rules the user lacks, with
  the verbs of one resource together, and the resolution errors are those of the resolver; no part
  of the text is refused. It holds for rules whose strings have no character that is escaped or that
  the text uses as a separator, and for a resolution error on one line.
\<close>

theorem escalation_error_roundtrip:
  assumes err: "ConfirmNoEscalation g user ns rules = Some err"
    and safe: "list_all safe_rule rules"
    and line: "\<forall>e. snd (RulesFor g user ns) = Some e \<longrightarrow> CHR 0x0A \<notin> set (err_string e)"
  shows "\<exists>rs. parseEscalationErrorForMissingRules err =
      (\<lparr>ps_MissingRules = rs,
        ps_ResolutionErrors = map_option (\<lambda>e. ErrText (''['' @ err_string e @ '']'')) (snd (RulesFor g user ns))\<rparr>, None) \<and>
    set rs = set (CompactRules (snd (Covers (fst (RulesFor g user ns)) rules)))"
proof -
  let ?missing = "snd (Covers (fst (RulesFor g user ns)) rules)"
  let ?e = "case snd (RulesFor g user ns) of None \<Rightarrow> '''' | Some e \<Rightarrow> ''['' @ err_string e @ '']''"
  have shape: "err = ErrText (escalation_prefix user @ go_join [CHR 0x0A] (sort (remdups (map CompactString (CompactRules ?missing)))) @
      (if ?e = '''' then '''' else ''; resolution errors: '' @ ?e))" and "?missing \<noteq> []"
    using err by (auto simp: ConfirmNoEscalation_def Covers_def Let_def split: prod.splits option.splits if_splits)
  have e: "CHR 0x0A \<notin> set ?e" using line by (auto split: option.split)
  have "CompactRules ?missing \<noteq> []" using \<open>?missing \<noteq> []\<close> by simp
  from parse_escalation_text [OF CompactRules_safe [OF safe_missing [OF safe]] this e, of user] obtain rs
    where "parseEscalationErrorForMissingRules err =
      (\<lparr>ps_MissingRules = rs, ps_ResolutionErrors = (if ?e = '''' then None else Some (ErrText ?e))\<rparr>, None)"
    "set rs = set (CompactRules ?missing)"
    unfolding shape [symmetric] by blast
  then show ?thesis by (intro exI [of _ rs]) (auto split: option.split)
qed

subsection \<open>What a pre-authorization means\<close>

abbreviation user_rules :: "rbac_getter \<Rightarrow> user_info \<Rightarrow> string \<Rightarrow> policy_rule list" where
  "user_rules g user ns \<equiv> fst (RulesFor g user ns)"

definition allowed :: "rbac_getter \<Rightarrow> attributes_record \<Rightarrow> bool" where
  "allowed g attrs \<longleftrightarrow> (\<exists>r \<in> set (user_rules g (at_User attrs) (at_Namespace attrs)). RuleAllows attrs r)"

text \<open>The user may manage every object of the manifest and hold the verbs on whole resources.\<close>

definition manages :: "'d rbac_pre_authorizer \<Rightarrow> user_info \<Rightarrow> decoded_manifest \<Rightarrow> bool" where
  "manages a user dm \<longleftrightarrow>
     (\<forall>(gvr, keys) \<in> set (dm_gvrs dm).
        (\<forall>k \<in> set keys.
           (\<forall>v \<in> {''get'', ''patch'', ''update'', ''delete''}. allowed (pa_getter a) (resource_attributes user gvr (nn_Namespace k) (nn_Name k) v)) \<and>
           allowed (pa_getter a) (resource_attributes user gvr (nn_Namespace k) '''' ''create'')) \<and>
        (\<forall>v \<in> set (pa_clusterCollectionVerbs a). allowed (pa_getter a) (resource_attributes user gvr '''' '''' v)))"

text \<open>What the user would grant by creating an object, where the rules can be resolved.\<close>

fun granted :: "escalation_checker \<Rightarrow> rbac_object \<Rightarrow> policy_rule list option" where
  "granted ec (RbacRole r) = Some (rl_Rules r)"
| "granted ec (RbacClusterRole r) = Some ((if hasAggregationRule r then fullAuthority else []) @ cr_Rules r)"
| "granted ec (RbacRoleBinding b) =
     (case existing_rules (ec_getter ec) (rb_RoleRef b) (rb_Namespace b) of
        Inl err \<Rightarrow> None
      | Inr rules \<Rightarrow> Some (rules @
          (if rr_Kind (rb_RoleRef b) = ''ClusterRole'' then extra_cluster_rules ec (rr_Name (rb_RoleRef b))
           else if rr_Kind (rb_RoleRef b) = ''Role'' then extra_rules ec (rb_Namespace b) (rr_Name (rb_RoleRef b)) else [])))"
| "granted ec (RbacClusterRoleBinding b) =
     (case existing_rules (ec_getter ec) (crb_RoleRef b) '''' of
        Inl err \<Rightarrow> None
      | Inr rules \<Rightarrow> Some (rules @
          (if rr_Kind (crb_RoleRef b) = ''ClusterRole'' then extra_cluster_rules ec (rr_Name (crb_RoleRef b)) else [])))"

text \<open>The explicit permission to escalate or to bind.\<close>

fun may_grant :: "escalation_checker \<Rightarrow> user_info \<Rightarrow> rbac_object \<Rightarrow> bool" where
  "may_grant ec user (RbacRole r) \<longleftrightarrow> RoleEscalationAuthorized (ec_getter ec) user ''roles''"
| "may_grant ec user (RbacClusterRole r) \<longleftrightarrow> RoleEscalationAuthorized (ec_getter ec) user ''clusterroles''"
| "may_grant ec user (RbacRoleBinding b) \<longleftrightarrow> BindingAuthorized (ec_getter ec) user (rb_RoleRef b) (rb_Namespace b)"
| "may_grant ec user (RbacClusterRoleBinding b) \<longleftrightarrow> BindingAuthorized (ec_getter ec) user (crb_RoleRef b) ''''"

definition no_escalation :: "escalation_checker \<Rightarrow> user_info \<Rightarrow> rbac_object \<Rightarrow> bool" where
  "no_escalation ec user obj \<longleftrightarrow>
     EscalationAllowed user \<or> may_grant ec user obj \<or>
     (\<exists>rules. granted ec obj = Some rules \<and> fst (Covers (user_rules (ec_getter ec) user (object_Namespace obj)) rules))"

lemma Covers_append: "fst (Covers owner (xs @ ys)) \<longleftrightarrow> fst (Covers owner xs) \<and> fst (Covers owner ys)"
  by (auto simp: Covers_def Let_def)

lemma Covers_Nil [simp]: "fst (Covers owner [])"
  by (simp add: Covers_def)

lemma checkEscalation_None: "checkEscalation ec user obj = None \<longleftrightarrow> no_escalation ec user obj"
  by (cases obj)
    (auto simp: no_escalation_def checkRoleEscalation_def checkClusterRoleEscalation_def checkRoleBindingEscalation_def
      checkClusterRoleBindingEscalation_def ConfirmNoEscalation_None Covers_append Let_def split: sum.split option.split
      dest: ConfirmNoEscalation_None [THEN iffD2])

lemma attributesAllowed_eq: "attributesAllowed a attrs = Inr (allowed (pa_getter a) attrs)"
  using Authorize_no_error [of "pa_getter a" attrs] Authorize_allow [of "pa_getter a" attrs]
  by (auto simp: attributesAllowed_def allowed_def split: prod.split)

lemma append_to_not_Nil [simp]: "append_to m k vs \<noteq> []"
  by (cases m) (auto simp: append_to_def)

lemma authorizeAttributesRecords_errs [simp]: "snd (authorizeAttributesRecords a ars m errs) = errs"
  by (induction a ars m errs rule: authorizeAttributesRecords.induct) (simp_all add: attributesAllowed_eq)

lemma authorizeAttributesRecords_Nil:
  "fst (authorizeAttributesRecords a ars m errs) = [] \<longleftrightarrow> m = [] \<and> (\<forall>ar \<in> set ars. allowed (pa_getter a) ar)"
  by (induction a ars m errs rule: authorizeAttributesRecords.induct) (auto simp: attributesAllowed_eq)

lemma check_objects_Nil:
  "es_missing (foldl (check_object ec user) st objs) = [] \<longleftrightarrow> es_missing st = [] \<and> (\<forall>obj \<in> set objs. no_escalation ec user obj)"
  by (induction objs arbitrary: st)
    (auto simp: check_object_def checkEscalation_None [symmetric] split: option.split prod.split)

lemma check_objects_clean:
  "\<forall>obj \<in> set objs. no_escalation ec user obj \<Longrightarrow> foldl (check_object ec user) st objs = st"
  by (induction objs) (auto simp: check_object_def checkEscalation_None [symmetric])

lemma all_missing_Nil [simp]: "all_missing m = [] \<longleftrightarrow> m = []"
  using comparison.sort_by_eq_Nil [OF comparison_pullback [OF comparison_go_compare, of spr_Namespace], of "map scoped_rules m"]
  by (simp add: all_missing_def)

lemma incomplete_error_None: "incomplete_error [] [None] = None"
  by (simp add: incomplete_error_def errors_Join_def List.map_filter_simps)

lemma gvr_records_all:
  "(\<forall>ar \<in> set (gvr_records user clusterVerbs namespacedCollectionVerbs (gvr, keys)). P ar) \<longleftrightarrow>
     (\<forall>k \<in> set keys.
        (\<forall>v \<in> {''get'', ''patch'', ''update'', ''delete''}. P (resource_attributes user gvr (nn_Namespace k) (nn_Name k) v)) \<and>
        P (resource_attributes user gvr (nn_Namespace k) '''' ''create'')) \<and>
     (\<forall>v \<in> set clusterVerbs. P (resource_attributes user gvr '''' '''' v))"
  by (auto simp: gvr_records_def objectVerbs_def namespacedCollectionVerbs_def)

lemma required_records_allowed:
  "(\<forall>ar \<in> set (required_records a user dm additional). allowed (pa_getter a) ar) \<longleftrightarrow>
     manages a user dm \<and> (\<forall>fn \<in> set additional. \<forall>ar \<in> set (fn user). allowed (pa_getter a) ar)"
  unfolding required_records_def asAuthorizationAttributesRecordsForUser_def manages_def gvr_records_all [symmetric] split_def
  by (simp add: ball_Un split_def)

lemma preauthorize_decoded_clean:
  "preauthorize_decoded a user dm additional = ([], None) \<longleftrightarrow>
     manages a user dm \<and> (\<forall>fn \<in> set additional. \<forall>ar \<in> set (fn user). allowed (pa_getter a) ar) \<and>
     (\<forall>obj \<in> set (rbacObjects dm). no_escalation (escalationCheckerFor a dm) user obj)"
proof -
  let ?loop = "authorizeAttributesRecords a (required_records a user dm additional) [] []"
  let ?st = "\<lparr>es_missing = fst ?loop, es_evaluationErrors = [None], es_parseErrors = []\<rparr>"
  let ?st' = "foldl (check_object (escalationCheckerFor a dm) user) ?st (rbacObjects dm)"
  have "preauthorize_decoded a user dm additional = (all_missing (es_missing ?st'), incomplete_error (es_parseErrors ?st') (es_evaluationErrors ?st'))"
    by (simp add: preauthorize_decoded_def Let_def case_prod_beta' errors_Join_def List.map_filter_simps)
  then show ?thesis
    using check_objects_Nil [of "escalationCheckerFor a dm" user ?st "rbacObjects dm"] check_objects_clean [of "rbacObjects dm" "escalationCheckerFor a dm" user ?st]
      authorizeAttributesRecords_Nil [of a "required_records a user dm additional" "[]" "[]"] required_records_allowed [of a user dm additional]
    by (auto simp: incomplete_error_None)
qed

subsection \<open>What a refusal reports\<close>

definition allows :: "attributes_record \<Rightarrow> policy_rule list \<Rightarrow> bool" where
  "allows attrs rs \<longleftrightarrow> (\<exists>r \<in> set rs. RuleAllows attrs r)"

lemma allows_simps [simp]:
  "\<not> allows attrs []" "allows attrs (r # rs) \<longleftrightarrow> RuleAllows attrs r \<or> allows attrs rs"
  "allows attrs (rs @ rs') \<longleftrightarrow> allows attrs rs \<or> allows attrs rs'"
  by (auto simp: allows_def)

lemma isSimpleResourceRule_Some:
  "isSimpleResourceRule r = Some (g, res, name) \<Longrightarrow>
     pr_APIGroups r = [g] \<and> pr_Resources r = [res] \<and> pr_NonResourceURLs r = [] \<and>
     pr_ResourceNames r = (case name of None \<Rightarrow> [] | Some n \<Rightarrow> [n])"
  by (auto simp: isSimpleResourceRule_def split: if_splits list.splits option.splits)

lemma RuleAllows_more_verbs:
  assumes "isSimpleResourceRule r = Some k" and "isSimpleResourceRule r' = Some k"
  shows "RuleAllows attrs (r\<lparr>pr_Verbs := pr_Verbs r @ pr_Verbs r'\<rparr>) \<longleftrightarrow> RuleAllows attrs r \<or> RuleAllows attrs r'"
    and "isSimpleResourceRule (r\<lparr>pr_Verbs := vs\<rparr>) = Some k"
proof -
  obtain g res name where k: "k = (g, res, name)" by (cases k)
  note r = assms(1) [unfolded k, THEN isSimpleResourceRule_Some] and r' = assms(2) [unfolded k, THEN isSimpleResourceRule_Some]
  show "RuleAllows attrs (r\<lparr>pr_Verbs := pr_Verbs r @ pr_Verbs r'\<rparr>) \<longleftrightarrow> RuleAllows attrs r \<or> RuleAllows attrs r'"
    using r r' by (auto simp: RuleAllows_def VerbMatches_def APIGroupMatches_def ResourceMatches_def ResourceNameMatches_def NonResourceURLMatches_def)
  show "isSimpleResourceRule (r\<lparr>pr_Verbs := vs\<rparr>) = Some k"
    using r by (simp add: k isSimpleResourceRule_def split: option.split)
qed

definition keyed :: "(simple_resource \<times> policy_rule) list \<Rightarrow> bool" where
  "keyed m \<longleftrightarrow> list_all (\<lambda>(k, r). isSimpleResourceRule r = Some k) m"

lemma add_simple_allows:
  "keyed m \<Longrightarrow> isSimpleResourceRule rule = Some k \<Longrightarrow>
   keyed (add_simple m k rule) \<and> (allows attrs (map snd (add_simple m k rule)) \<longleftrightarrow> allows attrs (map snd m) \<or> RuleAllows attrs rule)"
proof (induction m k rule rule: add_simple.induct)
  case (2 k e rs res rule)
  show ?case
  proof (cases "k = res")
    case True
    then have e: "isSimpleResourceRule e = Some res" using 2(2) by (simp add: keyed_def)
    show ?thesis
      using True 2(2) RuleAllows_more_verbs(1) [OF e 2(3), of attrs] RuleAllows_more_verbs(2) [OF e 2(3), of "pr_Verbs e @ pr_Verbs rule"]
      by (auto simp: keyed_def)
  next
    case False
    then show ?thesis using 2 by (auto simp: keyed_def)
  qed
qed (simp add: keyed_def)

lemma compact_loop_allows:
  "keyed m \<Longrightarrow>
   allows attrs (fst (compact_loop rules compacted m)) \<or> allows attrs (map snd (snd (compact_loop rules compacted m))) \<longleftrightarrow>
   allows attrs rules \<or> allows attrs compacted \<or> allows attrs (map snd m)"
proof (induction rules compacted m rule: compact_loop.induct)
  case (2 rule rules compacted m)
  show ?case
  proof (cases "isSimpleResourceRule rule")
    case None
    then show ?thesis using 2(1) [OF None] 2(3) by auto
  next
    case (Some k)
    then show ?thesis using 2(2) [OF Some] add_simple_allows [OF 2(3) Some, of attrs] by auto
  qed
qed auto

text \<open>Compact rules allow what the rules they are made of allow.\<close>

lemma CompactRules_allows: "allows attrs (CompactRules rules) \<longleftrightarrow> allows attrs rules"
  using compact_loop_allows [of "[]" attrs rules "[]"] by (simp add: CompactRules_eq keyed_def)

lemma dedup_verbs_allows: "RuleAllows attrs r \<Longrightarrow> RuleAllows attrs (dedup_verbs r)"
proof -
  have "VerbMatches r v \<Longrightarrow> VerbMatches (dedup_verbs r) v" for v
    by (auto simp: VerbMatches_def dedup_verbs_def list_ex_iff)
  moreover assume "RuleAllows attrs r"
  moreover have "pr_APIGroups (dedup_verbs r) = pr_APIGroups r" "pr_Resources (dedup_verbs r) = pr_Resources r"
    "pr_ResourceNames (dedup_verbs r) = pr_ResourceNames r" "pr_NonResourceURLs (dedup_verbs r) = pr_NonResourceURLs r"
    by (simp_all add: dedup_verbs_def)
  ultimately show ?thesis
    by (cases "at_ResourceRequest attrs")
      (simp_all add: RuleAllows_def APIGroupMatches_def ResourceMatches_def ResourceNameMatches_def NonResourceURLMatches_def)
qed

lemma scoped_rules_allows: "allows attrs rs \<Longrightarrow> allows attrs (spr_MissingRules (scoped_rules (ns, rs)))"
  using CompactRules_allows [of attrs rs] dedup_verbs_allows [of attrs]
    comparison.set_sort_by [OF comparison_pullback [OF comparison_go_compare, of rule_String], of "map dedup_verbs (CompactRules rs)"]
  by (auto simp: allows_def scoped_rules_def)

lemma policyRuleFromAttributesRecord_allows:
  "at_Verb attrs \<noteq> '''' \<Longrightarrow> RuleAllows attrs (policyRuleFromAttributesRecord attrs)"
  by (simp add: policyRuleFromAttributesRecord_def Let_def RuleAllows_resource_rule RuleAllows_url_rule resource_matches_def nonResourceURLCovers_def)

definition missing_in :: "missing_rules \<Rightarrow> string \<Rightarrow> policy_rule list" where
  "missing_in m ns = (case map_of m ns of None \<Rightarrow> [] | Some rs \<Rightarrow> rs)"

lemma missing_in_append_to: "missing_in (append_to m k vs) ns = missing_in m ns @ (if ns = k then vs else [])"
  by (simp add: missing_in_def append_to_def update_conv')

lemma authorizeAttributesRecords_keeps:
  "set (missing_in m ns) \<subseteq> set (missing_in (fst (authorizeAttributesRecords a ars m errs)) ns)"
proof (induction ars arbitrary: m errs)
  case (Cons ar ars)
  from Cons [of "append_to m (at_Namespace ar) [policyRuleFromAttributesRecord ar]"] Cons [of m]
  show ?case by (auto simp: attributesAllowed_eq missing_in_append_to split: if_splits)
qed simp

lemma authorizeAttributesRecords_reports:
  "ar \<in> set ars \<Longrightarrow> \<not> allowed (pa_getter a) ar \<Longrightarrow>
   policyRuleFromAttributesRecord ar \<in> set (missing_in (fst (authorizeAttributesRecords a ars m errs)) (at_Namespace ar))"
proof (induction ars arbitrary: m errs)
  case (Cons x ars)
  show ?case
  proof (cases "ar = x")
    case True
    then show ?thesis
      using Cons.prems authorizeAttributesRecords_keeps [of "append_to m (at_Namespace x) [policyRuleFromAttributesRecord x]" "at_Namespace x" a ars errs]
      by (auto simp: attributesAllowed_eq missing_in_append_to)
  next
    case False
    then show ?thesis using Cons by (simp add: attributesAllowed_eq)
  qed
qed simp

lemma check_objects_keeps:
  "set (missing_in (es_missing st) ns) \<subseteq> set (missing_in (es_missing (foldl (check_object ec user) st objs)) ns)"
proof (induction objs arbitrary: st)
  case (Cons obj objs)
  have "set (missing_in (es_missing st) ns) \<subseteq> set (missing_in (es_missing (check_object ec user st obj)) ns)"
    by (auto simp: check_object_def missing_in_append_to split: option.split prod.split)
  also have "\<dots> \<subseteq> set (missing_in (es_missing (foldl (check_object ec user) st (obj # objs))) ns)"
    unfolding foldl_Cons by (rule Cons)
  finally show ?case .
qed simp

lemma all_missing_reports:
  assumes "r \<in> set (missing_in m ns)" and "RuleAllows attrs r"
  shows "\<exists>s \<in> set (all_missing m). spr_Namespace s = ns \<and> allows attrs (spr_MissingRules s)"
proof -
  obtain rs where rs: "(ns, rs) \<in> set m" "r \<in> set rs"
    using assms(1) by (cases "map_of m ns") (auto simp: missing_in_def dest: map_of_SomeD)
  then have "allows attrs (spr_MissingRules (scoped_rules (ns, rs)))"
    using assms(2) by (intro scoped_rules_allows) (auto simp: allows_def)
  moreover have "scoped_rules (ns, rs) \<in> set (all_missing m)"
    using rs(1) comparison.set_sort_by [OF comparison_pullback [OF comparison_go_compare, of spr_Namespace], of "map scoped_rules m"]
    by (simp add: all_missing_def)
  moreover have "spr_Namespace (scoped_rules (ns, rs)) = ns" by (simp add: scoped_rules_def)
  ultimately show ?thesis by blast
qed

section \<open>Properties\<close>

text \<open>
  C29: A manifest is pre-authorized, with nothing missing and no error, exactly when it decodes
  and the rules that apply to the user allow getting, patching, updating and deleting each of its
  objects, creating in the namespace of each, the configured verbs on each of its resources, and the
  additional requests, and each role or binding in it grants nothing beyond those rules, unless the
  user is a superuser or holds the verb escalate or bind for it.
\<close>

theorem preauthorized_exact:
  "PreAuthorize a user manifest additional = Some ([], None) \<longleftrightarrow>
     (\<exists>dm. decodeManifest a manifest = Some (Inr dm) \<and> manages a user dm \<and>
        (\<forall>fn \<in> set additional. \<forall>ar \<in> set (fn user). allowed (pa_getter a) ar) \<and>
        (\<forall>obj \<in> set (rbacObjects dm). no_escalation (escalationCheckerFor a dm) user obj))"
proof (cases "decodeManifest a manifest")
  case (Some res)
  then show ?thesis by (cases res) (simp_all add: PreAuthorize_def preauthorize_decoded_clean)
qed (simp add: PreAuthorize_def)

lemma RulesFor_cluster_wide: "set (user_rules g user '''') \<subseteq> set (user_rules g user ns)"
  by (auto simp: RulesFor_def Let_def VisitRulesFor_def visited_rules_def List.map_filter_def)

text \<open>
  C28: A pre-authorized manifest hands out no new permission: a request that a role in it, or the
  role of a binding in it, allows was allowed to the user before, in the namespace of the object, or
  in every namespace when the object has none; superusers and users who hold the verb escalate or
  bind for it apart. The request names its subresource apart from its resource.
\<close>

theorem preauthorized_grants_nothing_new:
  assumes pre: "PreAuthorize a user manifest additional = Some ([], None)"
    and dm: "decodeManifest a manifest = Some (Inr dm)" and obj: "obj \<in> set (rbacObjects dm)"
    and rules: "granted (escalationCheckerFor a dm) obj = Some rules" and "r \<in> set rules" and "RuleAllows attrs r"
    and attrs: "at_User attrs = user" "object_Namespace obj \<in> {'''', at_Namespace attrs}" "CHR ''/'' \<notin> set (at_Resource attrs)"
    and plain: "\<not> EscalationAllowed user" "\<not> may_grant (escalationCheckerFor a dm) user obj"
  shows "allowed (pa_getter a) attrs"
proof -
  have "preauthorize_decoded a user dm additional = ([], None)"
    using pre dm by (simp add: PreAuthorize_def)
  then have "no_escalation (escalationCheckerFor a dm) user obj"
    using obj by (simp add: preauthorize_decoded_clean)
  then have "fst (Covers (user_rules (pa_getter a) user (object_Namespace obj)) rules)"
    using plain rules by (simp add: no_escalation_def escalationCheckerFor_def)
  then have "\<exists>r \<in> set (user_rules (pa_getter a) user (object_Namespace obj)). RuleAllows attrs r"
    using Covers_sound [of _ rules attrs] assms(5,6) attrs(3) by metis
  then show ?thesis
    using attrs RulesFor_cluster_wide [of "pa_getter a" user "at_Namespace attrs"] by (auto simp: allowed_def)
qed

text \<open>
  C31: A refusal reports enough: for every request the manifest takes that the user's rules do
  not allow, the answer has, under the namespace of the request, a rule that allows it.
\<close>

theorem reported_rules_suffice:
  assumes dm: "decodeManifest a manifest = Some (Inr dm)" and res: "PreAuthorize a user manifest additional = Some (missing, err)"
    and ar: "ar \<in> set (required_records a user dm additional)" "\<not> allowed (pa_getter a) ar" "at_Verb ar \<noteq> ''''"
  shows "\<exists>s \<in> set missing. spr_Namespace s = at_Namespace ar \<and> (\<exists>r \<in> set (spr_MissingRules s). RuleAllows ar r)"
proof -
  let ?loop = "authorizeAttributesRecords a (required_records a user dm additional) [] []"
  let ?st = "\<lparr>es_missing = fst ?loop, es_evaluationErrors = [errors_Join (map Some (snd ?loop))], es_parseErrors = []\<rparr>"
  let ?st' = "foldl (check_object (escalationCheckerFor a dm) user) ?st (rbacObjects dm)"
  have "missing = all_missing (es_missing ?st')"
    using res dm by (simp add: PreAuthorize_def preauthorize_decoded_def Let_def case_prod_beta')
  moreover have "policyRuleFromAttributesRecord ar \<in> set (missing_in (es_missing ?st') (at_Namespace ar))"
    using authorizeAttributesRecords_reports [OF ar(1,2), of "[]" "[]"]
      check_objects_keeps [of ?st "at_Namespace ar" "escalationCheckerFor a dm" user "rbacObjects dm"] by (simp add: subset_iff)
  ultimately show ?thesis
    using all_missing_reports [OF _ policyRuleFromAttributesRecord_allows [OF ar(3)]] by (simp add: allows_def)
qed

text \<open>
  C32: Decoding a manifest returns exactly when the decoder comes to the end of its stream after
  some number of reads: an error that the decoder leaves behind is collected and the loop goes on.
\<close>

theorem decoding_ends_with_stream:
  "(\<exists>res. decodeManifest a manifest = Some res) \<longleftrightarrow>
     (\<exists>n. snd (pa_Decode a (reads a n (pa_NewDecoder a manifest))) = DecodeEOF)"
  by (rule decodeManifest_returns)

subsection \<open>Limits of the pre-authorization\<close>

text \<open>
  The error of a user who may not set an aggregation rule starts with a text of its own, so that the
  parser reads no missing rule from it and reports a format error instead.
\<close>

lemma aggregation_error_unread:
  assumes "checkClusterRoleEscalation ec user r = Some (ErrWrap ''must have cluster-admin privileges to use an aggregationRule: '' e '''')"
  shows "ps_MissingRules (fst (parseEscalationErrorForMissingRules
      (ErrWrap ''must have cluster-admin privileges to use an aggregationRule: '' e ''''))) = [] \<and>
    snd (parseEscalationErrorForMissingRules (ErrWrap ''must have cluster-admin privileges to use an aggregationRule: '' e '''')) \<noteq> None"
  by (simp add: parseEscalationErrorForMissingRules_def errRegex_def Let_def)

text \<open>
  A failure to list the bindings is not reported as an error: what the user's unread bindings allow
  is reported as missing.
\<close>

lemma listing_failure_unreported:
  assumes "rbacObjects dm = []"
  shows "snd (preauthorize_decoded a user dm additional) = None"
  using incomplete_error_None
  by (simp add: preauthorize_decoded_def Let_def case_prod_beta' assms errors_Join_def List.map_filter_simps)

text \<open>The verb escalate is asked for in no namespace, so that a role binding that grants it has no effect.\<close>

lemma escalate_needs_cluster_role_binding:
  "RoleEscalationAuthorized (g\<lparr>ListRoleBindings := bindings\<rparr>) user resource = RoleEscalationAuthorized g user resource"
proof -
  have "GetRoleReferenceRules (g\<lparr>ListRoleBindings := bindings\<rparr>) = GetRoleReferenceRules g"
    by (auto simp: GetRoleReferenceRules_def fun_eq_iff)
  then have "visit_cluster_role_binding (g\<lparr>ListRoleBindings := bindings\<rparr>) = visit_cluster_role_binding g"
    by (intro ext) (simp add: visit_cluster_role_binding_def visit_role_def split: option.split)
  then have "VisitRulesFor (g\<lparr>ListRoleBindings := bindings\<rparr>) user '''' = VisitRulesFor g user ''''"
    by (simp add: VisitRulesFor_def split: sum.split)
  then show ?thesis by (simp add: RoleEscalationAuthorized_def Authorize_def)
qed

text \<open>
  The request for the finalizers names the subresource within the resource, so that a rule for the
  subresource of every resource does not allow it.
\<close>

lemma finalizer_wildcard_ignored:
  assumes "ar \<in> set (extManagementPerms ext user)" and "set (pr_Resources r) \<subseteq> {''*/finalizers''}"
  shows "\<not> RuleAllows ar r"
  using assms by (auto simp: extManagementPerms_def finalizer_perms_def RuleAllows_def ResourceMatches_def resource_matches_def
    combined_resource_def list_ex_iff)

section \<open>An example\<close>

text \<open>
  A service account that may manage roles and read pods, and a manifest with one role. The decoder
  of the example gives the objects of a list.
\<close>

definition sample_user :: user_info where
  "sample_user = \<lparr>ui_Name = ''system:serviceaccount:ns:sa'', ui_Groups = []\<rparr>"

definition sample_getter :: rbac_getter where
  "sample_getter =
     \<lparr>ListClusterRoleBindings = Inr [\<lparr>crb_Namespace = '''', crb_Name = ''b'',
         crb_Subjects = [\<lparr>sbj_Kind = ''ServiceAccount'', sbj_Namespace = ''ns'', sbj_Name = ''sa''\<rparr>],
         crb_RoleRef = \<lparr>rr_APIGroup = rbac_group, rr_Kind = ''ClusterRole'', rr_Name = ''installer''\<rparr>\<rparr>],
      GetClusterRole = (\<lambda>name. if name = ''installer'' then
         Inr \<lparr>cr_Namespace = '''', cr_Name = ''installer'',
           cr_Rules = [resource_rule [''get'', ''patch'', ''update'', ''delete'', ''create''] rbac_group ''roles'' [],
             resource_rule [''get'', ''list''] '''' ''pods'' []],
           cr_AggregationRule = None\<rparr>
         else Inl (ErrApi NotFound ''not found'')),
      ListRoleBindings = (\<lambda>ns. Inr []), GetRole = (\<lambda>ns name. Inl (ErrApi NotFound ''not found''))\<rparr>"

definition sample_role :: "string list \<Rightarrow> rbac_role" where
  "sample_role verbs = \<lparr>rl_Namespace = ''ns'', rl_Name = ''r'', rl_Rules = [resource_rule verbs '''' ''pods'' []]\<rparr>"

definition sample_object :: json where
  "sample_object =
     JObj [(''apiVersion'', JStr ''rbac.authorization.k8s.io/v1''), (''kind'', JStr ''Role''),
       (''metadata'', JObj [(''namespace'', JStr ''ns''), (''name'', JStr ''r'')])]"

definition sample_authorizer :: "string list \<Rightarrow> json list rbac_pre_authorizer" where
  "sample_authorizer verbs =
     \<lparr>pa_getter = sample_getter,
      pa_RESTMapping = (\<lambda>gvk. Inr \<lparr>gvr_Group = gvk_Group gvk, gvr_Version = gvk_Version gvk, gvr_Resource = ''roles''\<rparr>),
      pa_clusterCollectionVerbs = [], pa_NewDecoder = (\<lambda>manifest. [sample_object]),
      pa_Decode = (\<lambda>objs. case objs of [] \<Rightarrow> ([], DecodeEOF) | obj # rest \<Rightarrow> (rest, DecodeObj obj)),
      pa_ToClusterRole = (\<lambda>obj. Inl (ErrText '''')), pa_ToClusterRoleBinding = (\<lambda>obj. Inl (ErrText '''')),
      pa_ToRole = (\<lambda>obj. Inr (sample_role verbs)), pa_ToRoleBinding = (\<lambda>obj. Inl (ErrText ''''))\<rparr>"

lemmas sample_defs = sample_user_def sample_getter_def sample_role_def sample_object_def sample_authorizer_def

definition sample_gvr :: group_version_resource where
  "sample_gvr = \<lparr>gvr_Group = rbac_group, gvr_Version = ''v1'', gvr_Resource = ''roles''\<rparr>"

definition sample_manifest :: "string list \<Rightarrow> decoded_manifest" where
  "sample_manifest verbs =
     empty_manifest\<lparr>dm_gvrs := [(sample_gvr, [\<lparr>nn_Namespace = ''ns'', nn_Name = ''r''\<rparr>])],
       dm_roles := [(\<lparr>nn_Namespace = ''ns'', nn_Name = ''r''\<rparr>, sample_role verbs)]\<rparr>"

lemma sample_decoded: "decodeManifest (sample_authorizer verbs) manifest = Some (Inr (sample_manifest verbs))"
proof -
  have "GroupVersionKind sample_object = \<lparr>gvk_Group = rbac_group, gvk_Version = ''v1'', gvk_Kind = ''Role''\<rparr>"
    "GetNamespace sample_object = ''ns''" "GetName sample_object = ''r''"
    by code_simp+
  then show ?thesis
    by (simp add: decodeManifest_def decode_loop.simps sample_authorizer_def decode_manifest_object_def sample_role_def sample_manifest_def
      sample_gvr_def empty_manifest_def append_to_def Let_def)
qed

lemma sample_user_rules:
  "user_rules sample_getter sample_user ns =
     [resource_rule [''get'', ''patch'', ''update'', ''delete'', ''create''] rbac_group ''roles'' [],
      resource_rule [''get'', ''list''] '''' ''pods'' []]"
  by (simp add: RulesFor_def VisitRulesFor_def visited_rules_def visit_cluster_role_binding_def visit_role_def GetRoleReferenceRules_def
    sample_getter_def sample_user_def appliesToUser_def MatchesUsername_def List.map_filter_simps Let_def)

lemma sample_preauthorized: "PreAuthorize (sample_authorizer [''get'']) sample_user manifest [] = Some ([], None)"
proof -
  have "manages (sample_authorizer [''get'']) sample_user (sample_manifest [''get''])"
    by (simp add: manages_def allowed_def sample_manifest_def sample_authorizer_def sample_user_rules resource_attributes_def
      RuleAllows_def VerbMatches_def APIGroupMatches_def ResourceMatches_def ResourceNameMatches_def resource_matches_def
      resource_rule_def combined_resource_def sample_gvr_def empty_manifest_def)
  moreover have "fst (Covers (user_rules sample_getter sample_user ''ns'') (rl_Rules (sample_role [''get''])))"
    unfolding sample_user_rules by code_simp
  then have "no_escalation (escalationCheckerFor (sample_authorizer [''get'']) (sample_manifest [''get''])) sample_user (RbacRole (sample_role [''get'']))"
    by (simp add: no_escalation_def escalationCheckerFor_def sample_authorizer_def sample_role_def)
  ultimately have "preauthorize_decoded (sample_authorizer [''get'']) sample_user (sample_manifest [''get'']) [] = ([], None)"
    by (simp add: preauthorize_decoded_clean rbacObjects_def sample_manifest_def empty_manifest_def)
  then show ?thesis by (simp add: PreAuthorize_def sample_decoded)
qed

theorem preauthorized_exact_witness:
  "PreAuthorize (sample_authorizer [''get'']) sample_user '''' [] = Some ([], None) \<and>
   (\<exists>dm. decodeManifest (sample_authorizer [''get'']) '''' = Some (Inr dm) \<and> manages (sample_authorizer [''get'']) sample_user dm)"
  using preauthorized_exact [of "sample_authorizer [''get'']" sample_user "''''" "[]"] sample_preauthorized [of "''''"] by blast

definition sample_request :: "string \<Rightarrow> attributes_record" where
  "sample_request verb =
     \<lparr>at_User = sample_user, at_Verb = verb, at_Namespace = ''ns'', at_APIGroup = '''', at_APIVersion = ''v1'',
      at_Resource = ''pods'', at_Subresource = '''', at_Name = '''', at_ResourceRequest = True, at_Path = ''''\<rparr>"

lemma sample_no_escalate: "\<not> RoleEscalationAuthorized sample_getter sample_user ''roles''"
  by (simp add: RoleEscalationAuthorized_def Authorize_allow sample_user_rules RuleAllows_def VerbMatches_def resource_rule_def)

theorem preauthorized_grants_nothing_new_witness: "allowed sample_getter (sample_request ''get'')"
proof -
  have "allowed (pa_getter (sample_authorizer [''get''])) (sample_request ''get'')"
  proof (rule preauthorized_grants_nothing_new [OF sample_preauthorized [of "''''"] sample_decoded, of "RbacRole (sample_role [''get''])"])
    show "RbacRole (sample_role [''get'']) \<in> set (rbacObjects (sample_manifest [''get'']))"
      by (simp add: rbacObjects_def sample_manifest_def empty_manifest_def)
    show "granted (escalationCheckerFor (sample_authorizer [''get'']) (sample_manifest [''get''])) (RbacRole (sample_role [''get''])) =
      Some [resource_rule [''get''] '''' ''pods'' []]"
      by (simp add: sample_role_def)
    show "RuleAllows (sample_request ''get'') (resource_rule [''get''] '''' ''pods'' [])"
      by (simp add: RuleAllows_resource_rule sample_request_def resource_matches_def combined_resource_def)
    show "\<not> may_grant (escalationCheckerFor (sample_authorizer [''get'']) (sample_manifest [''get''])) sample_user (RbacRole (sample_role [''get'']))"
      using sample_no_escalate by (simp add: escalationCheckerFor_def sample_authorizer_def)
    show "\<not> EscalationAllowed sample_user" by (simp add: EscalationAllowed_def sample_user_def)
  qed (simp_all add: sample_request_def sample_role_def)
  then show ?thesis by (simp add: sample_authorizer_def)
qed

theorem reported_rules_suffice_witness:
  "\<exists>missing err. PreAuthorize (sample_authorizer [''get'']) sample_user '''' [\<lambda>user. finalizer_perms user ''e'' ''clusterextensions/finalizers''] = Some (missing, err) \<and>
     (\<exists>s \<in> set missing. spr_Namespace s = '''' \<and> spr_MissingRules s \<noteq> [])"
proof -
  let ?extra = "[\<lambda>user. finalizer_perms user ''e'' ''clusterextensions/finalizers'']" and ?ar = "hd (finalizer_perms sample_user ''e'' ''clusterextensions/finalizers'')"
  obtain missing err where res: "PreAuthorize (sample_authorizer [''get'']) sample_user '''' ?extra = Some (missing, err)"
    by (metis (no_types, lifting) PreAuthorize_def option.simps(9) prod.exhaust sample_decoded)
  have "?ar \<in> set (required_records (sample_authorizer [''get'']) sample_user (sample_manifest [''get'']) ?extra)" "at_Verb ?ar \<noteq> ''''" "at_Namespace ?ar = ''''"
    by (simp_all add: required_records_def finalizer_perms_def)
  moreover have "\<not> allowed (pa_getter (sample_authorizer [''get''])) ?ar"
    by (simp add: allowed_def finalizer_perms_def sample_authorizer_def sample_user_rules RuleAllows_resource_rule
      RuleAllows_def APIGroupMatches_def resource_rule_def)
  ultimately show ?thesis
    using reported_rules_suffice [OF sample_decoded res, of ?ar] res by fastforce
qed

theorem escalation_error_roundtrip_witness:
  "\<exists>err rs. ConfirmNoEscalation sample_getter sample_user ''ns'' [resource_rule [''get'', ''delete''] '''' ''pods'' []] = Some err \<and>
     parseEscalationErrorForMissingRules err = (\<lparr>ps_MissingRules = rs, ps_ResolutionErrors = None\<rparr>, None) \<and>
     set rs = {resource_rule [''delete''] '''' ''pods'' []}"
proof -
  let ?rules = "[resource_rule [''get'', ''delete''] '''' ''pods'' []]"
  have missing: "Covers (user_rules sample_getter sample_user ''ns'') ?rules = (False, [resource_rule [''delete''] '''' ''pods'' []])"
    unfolding sample_user_rules by code_simp
  then obtain err where err: "ConfirmNoEscalation sample_getter sample_user ''ns'' ?rules = Some err"
    using ConfirmNoEscalation_None [of sample_getter sample_user "''ns''" ?rules] by fastforce
  have "snd (RulesFor sample_getter sample_user ''ns'') = None" "list_all safe_rule ?rules"
    "CompactRules [resource_rule [''delete''] '''' ''pods'' []] = [resource_rule [''delete''] '''' ''pods'' []]"
    by code_simp+
  then show ?thesis
    using escalation_error_roundtrip [OF err] missing err by auto
qed

end
