(* ===== verification/Catalog_Cache.thy ===== *)
theory Catalog_Cache
  imports Api_Types Catalogd_Index "HOL-Library.AList"
begin

text \<open>
  The cache of catalog contents in operator-controller (\<open>catalogmetadata/cache/cache.go\<close>), the client that
  fills and reads it (\<open>catalogmetadata/client/client.go\<close>) and the controller that keeps it up to date
  (\<open>controllers/clustercatalog_controller.go\<close>).

  The state of the file system is the list of its regular files, each with its cleaned absolute path
  as a list of components; a directory is there when a file below it is. Each call of the operating
  system is answered by its own field of \<open>cache_env\<close>, so that every one of them may fail. The
  operations hold the cache's lock from beginning to end.
\<close>

section \<open>Definitions\<close>

subsection \<open>Paths and files\<close>

type_synonym path = "string list"
type_synonym files = "(path \<times> string) list"

fun clean_onto :: "path \<Rightarrow> string list \<Rightarrow> path" where
  "clean_onto acc [] = acc"
| "clean_onto acc (c # cs) =
     (if c = '''' \<or> c = ''.'' then clean_onto acc cs
      else if c = ''..'' then clean_onto (butlast acc) cs
      else clean_onto (acc @ [c]) cs)"

text \<open>\<open>filepath.Join\<close> below a cleaned absolute path.\<close>

definition path_join :: "path \<Rightarrow> string list \<Rightarrow> path" where
  "path_join base elems = clean_onto base (concat (map (split_on (CHR ''/'')) elems))"

text \<open>How a removal fails: its error and the files it leaves; and how a write fails: with a partial file or none.\<close>

type_synonym removal_failure = "(go_error \<times> (path \<Rightarrow> bool)) option"
type_synonym write_failure = "(go_error \<times> string option) option"

definition remove_path :: "removal_failure \<Rightarrow> path \<Rightarrow> files \<Rightarrow> files \<times> go_error option" where
  "remove_path outcome d fs =
     (case outcome of
        None \<Rightarrow> (filter (\<lambda>(p, b). \<not> prefix d p) fs, None)
      | Some (e, keep) \<Rightarrow> (filter (\<lambda>(p, b). \<not> prefix d p \<or> keep p) fs, Some e))"

definition write_path :: "write_failure \<Rightarrow> path \<Rightarrow> string \<Rightarrow> files \<Rightarrow> files \<times> go_error option" where
  "write_path outcome p blob fs =
     (case outcome of
        None \<Rightarrow> (AList.update p blob fs, None)
      | Some (e, None) \<Rightarrow> (fs, Some e)
      | Some (e, Some part) \<Rightarrow> (AList.update p part fs, Some e))"

definition rename_path :: "path \<Rightarrow> path \<Rightarrow> files \<Rightarrow> files" where
  "rename_path d d' fs = map (\<lambda>(p, b). (if prefix d p then d' @ drop (length d) p else p, b)) fs"

definition dir_names :: "path \<Rightarrow> files \<Rightarrow> string list" where
  "dir_names d fs = sort (remdups (map (\<lambda>(p, b). p ! length d) (filter (\<lambda>(p, b). strict_prefix d p) fs)))"

subsection \<open>The cache\<close>

datatype dir_listing = ListingNotExist | ListingErr go_error | ListingOk

record cache_env =
  ch_cachePath :: path
  ch_ReadDir :: dir_listing
  ch_RemoveOrphan :: "string \<Rightarrow> removal_failure"
  ch_MkdirTemp :: "string result"
  ch_MkdirAll :: "path \<Rightarrow> go_error option"
  ch_WriteFile :: "path \<Rightarrow> write_failure"
  ch_RemoveOld :: removal_failure
  ch_Rename :: "go_error option"
  ch_RemoveTemp :: removal_failure
  ch_RemoveCache :: removal_failure

record cache_data =
  cd_Ref :: string
  cd_Error :: "go_error option"

record filesystem_cache =
  fsc_files :: files
  fsc_data :: "string \<rightharpoonup> cache_data"

definition cacheDir :: "cache_env \<Rightarrow> string \<Rightarrow> path" where
  "cacheDir env catalogName = path_join (ch_cachePath env) [catalogName]"

definition cache_temp_prefix :: "string \<Rightarrow> string" where
  "cache_temp_prefix catalogName = ''.'' @ catalogName @ ''-''"

fun remove_orphan_dirs :: "cache_env \<Rightarrow> string \<Rightarrow> string list \<Rightarrow> files \<Rightarrow> files \<times> go_error option" where
  "remove_orphan_dirs env pre [] fs = (fs, None)"
| "remove_orphan_dirs env pre (n # ns) fs =
     (if prefix pre n then
        (case remove_path (ch_RemoveOrphan env n) (ch_cachePath env @ [n]) fs of
           (fs', Some e) \<Rightarrow> (fs', Some (ErrWrap (''error removing orphaned temp directory '' @ go_quote n @ '': '') e ''''))
         | (fs', None) \<Rightarrow> remove_orphan_dirs env pre ns fs')
      else remove_orphan_dirs env pre ns fs)"

definition cache_removeOrphanedTempDirs :: "cache_env \<Rightarrow> string \<Rightarrow> files \<Rightarrow> files \<times> go_error option" where
  "cache_removeOrphanedTempDirs env catalogName fs =
     (case ch_ReadDir env of
        ListingNotExist \<Rightarrow> (fs, None)
      | ListingErr e \<Rightarrow> (fs, Some (ErrWrap ''error reading cache directory: '' e ''''))
      | ListingOk \<Rightarrow> remove_orphan_dirs env (cache_temp_prefix catalogName) (dir_names (ch_cachePath env) fs) fs)"

text \<open>Where the blob of a meta goes below the temporary directory.\<close>

definition meta_package :: "meta \<Rightarrow> string" where
  "meta_package m = (if m_Schema m = ''olm.package'' then m_Name m else m_Package m)"

definition meta_file :: "meta \<Rightarrow> string" where
  "meta_file m = (if m_Name m = '''' then m_Schema m else m_Name m) @ ''.json''"

definition meta_path :: "path \<Rightarrow> meta \<Rightarrow> path" where
  "meta_path tmpDir m = path_join tmpDir [meta_package m, m_Schema m, meta_file m]"

definition write_meta :: "cache_env \<Rightarrow> path \<Rightarrow> meta \<Rightarrow> files \<Rightarrow> files \<times> go_error option" where
  "write_meta env tmpDir m fs =
     (let metaPath = meta_path tmpDir m in
      case ch_MkdirAll env (butlast metaPath) of
        Some e \<Rightarrow> (fs, Some (ErrText (''error creating directory for catalog metadata: '' @ err_string e)))
      | None \<Rightarrow>
          (case write_path (ch_WriteFile env metaPath) metaPath (m_Blob m) fs of
             (fs', Some e) \<Rightarrow> (fs', Some (ErrText (''error writing catalog metadata to file: '' @ err_string e)))
           | (fs', None) \<Rightarrow> (fs', None)))"

text \<open>The stream of metas is a list of what the decoder gives; decoding ends at the first error.\<close>

fun write_metas :: "cache_env \<Rightarrow> path \<Rightarrow> meta result list \<Rightarrow> files \<Rightarrow> files \<times> go_error option" where
  "write_metas env tmpDir [] fs = (fs, None)"
| "write_metas env tmpDir (Inl err # source) fs = (fs, Some (ErrText (''error parsing catalog contents: '' @ err_string err)))"
| "write_metas env tmpDir (Inr m # source) fs =
     (case write_meta env tmpDir m fs of
        (fs', Some e) \<Rightarrow> (fs', Some e)
      | (fs', None) \<Rightarrow> write_metas env tmpDir source fs')"

definition swap_cache :: "cache_env \<Rightarrow> string \<Rightarrow> path \<Rightarrow> files \<Rightarrow> files \<times> go_error option" where
  "swap_cache env catalogName tmpDir fs =
     (case remove_path (ch_RemoveOld env) (cacheDir env catalogName) fs of
        (fs', Some e) \<Rightarrow> (fs', Some (ErrText (''error removing old cache directory: '' @ err_string e)))
      | (fs', None) \<Rightarrow>
          (case ch_Rename env of
             Some e \<Rightarrow> (fs', Some (ErrText (''error moving temporary directory to cache directory: '' @ err_string e)))
           | None \<Rightarrow> (rename_path tmpDir (cacheDir env catalogName) fs', None)))"

definition writeFS :: "cache_env \<Rightarrow> string \<Rightarrow> meta result list \<Rightarrow> files \<Rightarrow> files \<times> path result" where
  "writeFS env catalogName source fs =
     (case cache_removeOrphanedTempDirs env catalogName fs of
        (fs1, Some e) \<Rightarrow> (fs1, Inl e)
      | (fs1, None) \<Rightarrow>
          (case ch_MkdirTemp env of
             Inl e \<Rightarrow> (fs1, Inl (ErrText (''error creating temporary directory to unpack catalog metadata: '' @ err_string e)))
           | Inr random \<Rightarrow>
               (let tmpDir = ch_cachePath env @ [cache_temp_prefix catalogName @ random];
                    (fs2, err) = (case write_metas env tmpDir source fs1 of
                       (fs', Some e) \<Rightarrow> (fs', Some e)
                     | (fs', None) \<Rightarrow> swap_cache env catalogName tmpDir fs');
                    fs3 = fst (remove_path (ch_RemoveTemp env) tmpDir fs2) in
                (fs3, case err of Some e \<Rightarrow> Inl e | None \<Rightarrow> Inr (cacheDir env catalogName)))))"

text \<open>\<open>Put\<close> takes the content or the error to cache.\<close>

definition Put ::
  "cache_env \<Rightarrow> string \<Rightarrow> string \<Rightarrow> meta result list result \<Rightarrow> filesystem_cache \<Rightarrow> filesystem_cache \<times> path result" where
  "Put env catalogName resolvedRef source c =
     (let (fs, res) = (case source of Inl err \<Rightarrow> (fsc_files c, Inl err) | Inr content \<Rightarrow> writeFS env catalogName content (fsc_files c)) in
      (\<lparr>fsc_files = fs,
        fsc_data = (fsc_data c)(catalogName \<mapsto>
          \<lparr>cd_Ref = resolvedRef, cd_Error = (case res of Inl e \<Rightarrow> Some e | Inr d \<Rightarrow> None)\<rparr>)\<rparr>, res))"

definition cache_Get :: "cache_env \<Rightarrow> string \<Rightarrow> string \<Rightarrow> filesystem_cache \<Rightarrow> path option result" where
  "cache_Get env catalogName resolvedRef c =
     (case fsc_data c catalogName of
        None \<Rightarrow> Inr None
      | Some d \<Rightarrow>
          if resolvedRef = cd_Ref d then
            (case cd_Error d of Some e \<Rightarrow> Inl e | None \<Rightarrow> Inr (Some (cacheDir env catalogName)))
          else Inr None)"

definition Remove :: "cache_env \<Rightarrow> string \<Rightarrow> filesystem_cache \<Rightarrow> filesystem_cache \<times> go_error option" where
  "Remove env catalogName c =
     (if fsc_data c catalogName = None then (c, None)
      else
        (case remove_path (ch_RemoveCache env) (cacheDir env catalogName) (fsc_files c) of
           (fs, Some e) \<Rightarrow> (c\<lparr>fsc_files := fs\<rparr>, Some (ErrText (''error removing cache directory: '' @ err_string e)))
         | (fs, None) \<Rightarrow> (\<lparr>fsc_files = fs, fsc_data = (fsc_data c)(catalogName := None)\<rparr>, None)))"

subsection \<open>The client\<close>

datatype load_result = LoadNotExist | LoadErr go_error | LoadOk declarative_config

record http_response =
  hr_StatusCode :: int
  hr_Body :: "meta result list"

record client_env =
  cl_JoinPath :: "string \<Rightarrow> string \<Rightarrow> string result"
  cl_NewRequest :: "string \<Rightarrow> go_error option"
  cl_httpClient :: "go_error option"
  cl_Do :: "string \<Rightarrow> http_response result"
  cl_LoadFS :: "files \<Rightarrow> load_result"

definition validateCatalog :: "cluster_catalog option \<Rightarrow> go_error option" where
  "validateCatalog catalog =
     (case catalog of
        None \<Rightarrow> Some (ErrText ''error: provided catalog must be non-nil'')
      | Some c \<Rightarrow>
          (let name = go_quote (meta_Name (cc_Meta c)) in
           if \<not> IsStatusConditionPresentAndEqual (ccst_Conditions (cc_Status c)) ''Serving'' ConditionTrue then
             Some (ErrText (''catalog '' @ name @ '' is not being served''))
           else
             (case ccst_ResolvedSource (cc_Status c) of
                None \<Rightarrow> Some (ErrText (''error: catalog '' @ name @ '' has a nil status.resolvedSource value''))
              | Some src \<Rightarrow>
                  if rcs_Image src = None then
                    Some (ErrText (''error: catalog '' @ name @ '' has a nil status.resolvedSource.image value''))
                  else None)))"

text \<open>The reference of a catalog whose source is resolved.\<close>

definition resolved_ref :: "cluster_catalog \<Rightarrow> string" where
  "resolved_ref c =
     (case ccst_ResolvedSource (cc_Status c) of
        None \<Rightarrow> ''''
      | Some src \<Rightarrow> (case rcs_Image src of None \<Rightarrow> '''' | Some img \<Rightarrow> rimg_Ref img))"

definition ValidPath :: "string \<Rightarrow> bool" where
  "ValidPath name \<longleftrightarrow> name = ''.'' \<or> list_all (\<lambda>e. e \<notin> {'''', ''.'', ''..''}) (split_on (CHR ''/'') name)"

text \<open>The files of a directory, with their paths relative to it.\<close>

definition dir_view :: "path \<Rightarrow> files \<Rightarrow> files" where
  "dir_view d fs = map (\<lambda>(p, b). (drop (length d) p, b)) (filter (\<lambda>(p, b). prefix d p) fs)"

definition empty_config :: declarative_config where
  "empty_config = \<lparr>fbc_Packages = [], fbc_Channels = [], fbc_Bundles = [], fbc_Deprecations = [], fbc_Others = []\<rparr>"

definition GetPackage ::
  "cache_env \<Rightarrow> client_env \<Rightarrow> cluster_catalog \<Rightarrow> string \<Rightarrow> filesystem_cache \<Rightarrow> declarative_config result" where
  "GetPackage env cl catalog pkgName c =
     (case validateCatalog (Some catalog) of
        Some err \<Rightarrow> Inl err
      | None \<Rightarrow>
          (let name = meta_Name (cc_Meta catalog) in
           case cache_Get env name (resolved_ref catalog) c of
             Inl err \<Rightarrow> Inl (ErrText (''error retrieving cache for catalog '' @ go_quote name @ '': '' @ err_string err))
           | Inr None \<Rightarrow> Inl (ErrText (''cache for catalog '' @ go_quote name @ '' not found''))
           | Inr (Some d) \<Rightarrow>
               if \<not> ValidPath pkgName then
                 Inl (ErrText (''error getting package '' @ go_quote pkgName @ '': sub '' @ pkgName @ '': invalid argument''))
               else
                 (case cl_LoadFS cl (dir_view (path_join d [pkgName]) (fsc_files c)) of
                    LoadNotExist \<Rightarrow> Inr empty_config
                  | LoadErr e \<Rightarrow> Inl (ErrText (''error loading package '' @ go_quote pkgName @ '': '' @ err_string e))
                  | LoadOk cfg \<Rightarrow> Inr cfg)))"

definition doRequest :: "client_env \<Rightarrow> cluster_catalog \<Rightarrow> http_response result" where
  "doRequest cl catalog =
     (case ccst_URLs (cc_Status catalog) of
        None \<Rightarrow> Inl (ErrText (''error: catalog '' @ go_quote (meta_Name (cc_Meta catalog)) @ '' has a nil status.urls value''))
      | Some base \<Rightarrow>
          (case cl_JoinPath cl base ''api/v1/all'' of
             Inl e \<Rightarrow> Inl (ErrText (''error forming catalogd API endpoint: '' @ err_string e))
           | Inr url \<Rightarrow>
               (case cl_NewRequest cl url of
                  Some e \<Rightarrow> Inl (ErrText (''error forming request: '' @ err_string e))
                | None \<Rightarrow>
                    (case cl_httpClient cl of
                       Some e \<Rightarrow> Inl (ErrText (''error getting HTTP client: '' @ err_string e))
                     | None \<Rightarrow>
                         (case cl_Do cl url of
                            Inl e \<Rightarrow> Inl (ErrText (''error performing request: '' @ err_string e))
                          | Inr resp \<Rightarrow> Inr resp)))))"

definition PopulateCache ::
  "cache_env \<Rightarrow> client_env \<Rightarrow> cluster_catalog \<Rightarrow> filesystem_cache \<Rightarrow> filesystem_cache \<times> path result" where
  "PopulateCache env cl catalog c =
     (case validateCatalog (Some catalog) of
        Some err \<Rightarrow> (c, Inl err)
      | None \<Rightarrow>
          (let name = meta_Name (cc_Meta catalog); ref = resolved_ref catalog in
           case doRequest cl catalog of
             Inl err \<Rightarrow> Put env name ref (Inl err) c
           | Inr resp \<Rightarrow>
               if hr_StatusCode resp \<noteq> 200 then
                 (c, Inl (ErrText (''error: received unexpected response status code '' @ show_int (hr_StatusCode resp))))
               else Put env name ref (Inr (hr_Body resp)) c))"

subsection \<open>The controller\<close>

text \<open>\<open>get\<close> is the answer of the API server for the catalog of the request.\<close>

definition catalog_Reconcile ::
  "cache_env \<Rightarrow> client_env \<Rightarrow> cluster_catalog result \<Rightarrow> string \<Rightarrow> filesystem_cache \<Rightarrow> filesystem_cache \<times> go_error option" where
  "catalog_Reconcile env cl get reqName c =
     (case get of
        Inl err \<Rightarrow>
          if IsNotFound err then
            (case Remove env reqName c of
               (c', Some e) \<Rightarrow> (c', Some (ErrText (''error removing cache for catalog '' @ go_quote reqName @ '': '' @ err_string e)))
             | (c', None) \<Rightarrow> (c', None))
          else (c, Some err)
      | Inr existing \<Rightarrow>
          (let name = meta_Name (cc_Meta existing); ref = resolved_ref existing in
           if ref = '''' then (c, None)
           else if (case cache_Get env name ref c of Inl e \<Rightarrow> False | Inr d \<Rightarrow> d \<noteq> None) then (c, None)
           else
             (case PopulateCache env cl existing c of
                (c', Inl e) \<Rightarrow> (c', Some (ErrText (''error populating cache for catalog '' @ go_quote name @ '': '' @ err_string e)))
              | (c', Inr d) \<Rightarrow> (c', None))))"

section \<open>Lemmas\<close>

subsection \<open>The contract of a cache\<close>

text \<open>
  What the client and the controller rely on: a cache answers with the result of the last put of a
  catalog when the reference is the same, and has nothing for another reference; a put does not
  change the answers for other catalogs.
\<close>

locale metadata_cache =
  fixes put :: "string \<Rightarrow> string \<Rightarrow> 'src result \<Rightarrow> 'st \<Rightarrow> 'st \<times> 'dir result"
    and get :: "string \<Rightarrow> string \<Rightarrow> 'st \<Rightarrow> 'dir option result"
  assumes get_put: "put n ref src st = (st', res) \<Longrightarrow> get n ref st' = (case res of Inl e \<Rightarrow> Inl e | Inr d \<Rightarrow> Inr (Some d))"
    and get_put_stale: "put n ref src st = (st', res) \<Longrightarrow> ref' \<noteq> ref \<Longrightarrow> get n ref' st' = Inr None"
    and get_put_other: "put n ref src st = (st', res) \<Longrightarrow> n' \<noteq> n \<Longrightarrow> get n' ref' st' = get n' ref' st"
begin

lemma put_ok_found: "put n ref src st = (st', Inr d) \<Longrightarrow> get n ref st' = Inr (Some d)"
  using get_put by fastforce

lemma put_error_found: "put n ref src st = (st', Inl e) \<Longrightarrow> get n ref st' = Inl e"
  using get_put by fastforce

lemma found_only_latest:
  assumes "put n ref src st = (st', res)" and "get n ref' st' = Inr (Some d)"
  shows "ref' = ref \<and> res = Inr d"
proof -
  have "ref' = ref" using get_put_stale [OF assms(1)] assms(2) by fastforce
  then show ?thesis using get_put [OF assms(1)] assms(2) by (auto split: sum.splits)
qed

end

lemma writeFS_dir: "writeFS env n src fs = (fs', Inr d) \<Longrightarrow> d = cacheDir env n"
  by (auto simp: writeFS_def Let_def split: prod.splits option.splits sum.splits)

lemma Put_simps:
  assumes "Put env n ref src c = (c', res)"
  shows "fsc_data c' = (fsc_data c)(n \<mapsto> \<lparr>cd_Ref = ref, cd_Error = (case res of Inl e \<Rightarrow> Some e | Inr d \<Rightarrow> None)\<rparr>)"
    and "(fsc_files c', res) = (case src of Inl e \<Rightarrow> (fsc_files c, Inl e) | Inr content \<Rightarrow> writeFS env n content (fsc_files c))"
    and "res = Inr d \<Longrightarrow> d = cacheDir env n"
  using assms writeFS_dir [of env n _ "fsc_files c"] by (auto simp: Put_def Let_def split: prod.splits sum.splits)

interpretation fc: metadata_cache "Put env" "cache_Get env"
proof
  fix n ref src st st' res assume put: "Put env n ref src st = (st', res)"
  show "cache_Get env n ref st' = (case res of Inl e \<Rightarrow> Inl e | Inr d \<Rightarrow> Inr (Some d))"
    using Put_simps(1) [OF put] Put_simps(3) [OF put] by (auto simp: cache_Get_def split: sum.split)
  show "ref' \<noteq> ref \<Longrightarrow> cache_Get env n ref' st' = Inr None" for ref'
    using Put_simps(1) [OF put] by (simp add: cache_Get_def)
  show "n' \<noteq> n \<Longrightarrow> cache_Get env n' ref' st' = cache_Get env n' ref' st" for n' ref'
    using Put_simps(1) [OF put] by (simp add: cache_Get_def)
qed

subsection \<open>Plain names\<close>

definition plain :: "string \<Rightarrow> bool" where
  "plain s \<longleftrightarrow> s \<noteq> '''' \<and> CHR ''/'' \<notin> set s \<and> s \<noteq> ''.'' \<and> s \<noteq> ''..''"

definition plain_meta :: "meta \<Rightarrow> bool" where
  "plain_meta m \<longleftrightarrow>
     (meta_package m = '''' \<or> plain (meta_package m)) \<and> (m_Schema m = '''' \<or> plain (m_Schema m)) \<and> CHR ''/'' \<notin> set (m_Name m)"

definition valid_catalog :: "string \<Rightarrow> bool" where
  "valid_catalog n \<longleftrightarrow> plain n \<and> hd n \<noteq> CHR ''.''"

lemma clean_onto_plain: "\<forall>e \<in> set elems. e = '''' \<or> plain e \<Longrightarrow> clean_onto acc elems = acc @ filter (\<lambda>e. e \<noteq> '''') elems"
  by (induction acc elems rule: clean_onto.induct) (auto simp: plain_def)

lemma path_join_plain:
  assumes "\<forall>e \<in> set elems. e = '''' \<or> plain e"
  shows "path_join base elems = base @ filter (\<lambda>e. e \<noteq> '''') elems"
proof -
  have "split_on (CHR ''/'') e = [e]" if "e \<in> set elems" for e
    using bspec [OF assms that] unfolding plain_def by (elim disjE conjE) (simp_all add: split_on_no_sep)
  then have "concat (map (split_on (CHR ''/'')) elems) = elems"
    by (induction elems) simp_all
  then show ?thesis using clean_onto_plain [OF assms] by (simp add: path_join_def)
qed

lemma cacheDir_plain: "plain n \<Longrightarrow> cacheDir env n = ch_cachePath env @ [n]"
  by (simp add: cacheDir_def path_join_plain plain_def)

definition meta_rel :: "meta \<Rightarrow> path" where
  "meta_rel m = filter (\<lambda>e. e \<noteq> '''') [meta_package m, m_Schema m, meta_file m]"

lemma meta_path_plain: "plain_meta m \<Longrightarrow> meta_path d m = d @ meta_rel m"
proof -
  assume m: "plain_meta m"
  have "s @ ''.json'' \<noteq> ''.''" "s @ ''.json'' \<noteq> ''..''" for s :: string
    by (cases s rule: rev_cases; simp)+ 
  then have "plain (meta_file m)" using m by (auto simp: plain_meta_def meta_file_def plain_def)
  then show ?thesis
    using m unfolding meta_path_def meta_rel_def by (intro path_join_plain) (auto simp: plain_meta_def)
qed

subsection \<open>Directories apart\<close>

definition apart :: "path \<Rightarrow> path \<Rightarrow> bool" where
  "apart d d' \<longleftrightarrow> \<not> prefix d d' \<and> \<not> prefix d' d"

lemma apart_not_prefix: "apart d d' \<Longrightarrow> prefix d p \<Longrightarrow> \<not> prefix d' p"
  by (auto simp: apart_def dest: prefix_same_cases)

lemma apart_siblings: "n \<noteq> n' \<Longrightarrow> apart (cp @ [n]) (cp @ [n'])"
  by (simp add: apart_def)

lemma dir_view_update_in: "dir_view d (AList.update (d @ r) b fs) = AList.update r b (dir_view d fs)"
proof (induction fs)
  case (Cons f fs)
  obtain p b' where "f = (p, b')" by (cases f)
  then show ?case using Cons by (auto simp: dir_view_def prefix_def)
qed (simp add: dir_view_def)

lemma dir_view_update_out: "\<not> prefix d p \<Longrightarrow> dir_view d (AList.update p b fs) = dir_view d fs"
  by (induction fs) (auto simp: dir_view_def)

lemma dir_view_remove_out: "apart d d' \<Longrightarrow> dir_view d (fst (remove_path out d' fs)) = dir_view d fs"
proof -
  assume a: "apart d d'"
  have "filter (\<lambda>(p, b). prefix d p) (filter (\<lambda>(p, b). \<not> prefix d' p \<or> k p) fs) = filter (\<lambda>(p, b). prefix d p) fs" for k
    using apart_not_prefix [OF a] by (induction fs) auto
  from this [of "\<lambda>p. False"] this show ?thesis
    by (auto simp: remove_path_def dir_view_def split: option.split)
qed

lemma dir_view_remove_in: "remove_path out d fs = (fs', None) \<Longrightarrow> dir_view d fs' = []"
  by (auto simp: remove_path_def dir_view_def filter_empty_conv split: option.splits)

lemma dir_view_rename_in: "apart d d' \<Longrightarrow> dir_view d' fs = [] \<Longrightarrow> dir_view d' (rename_path d d' fs) = dir_view d fs"
proof (induction fs)
  case (Cons f fs)
  obtain p b where "f = (p, b)" by (cases f)
  then show ?case
    using Cons by (auto simp: dir_view_def rename_path_def split: if_splits)
qed (simp add: dir_view_def rename_path_def)

lemma dir_view_rename_out:
  assumes "apart e d" and "apart e d'"
  shows "dir_view e (rename_path d d' fs) = dir_view e fs"
proof -
  have new: "\<not> prefix e (d' @ q)" for q
    using apart_not_prefix [OF assms(2), of "d' @ q"] by auto
  show ?thesis
  proof (induction fs)
    case (Cons f fs)
    obtain p b where f: "f = (p, b)" by (cases f)
    show ?case
      using Cons new [of "drop (length d) p"] apart_not_prefix [OF assms(1), of p]
      by (cases "prefix d p") (auto simp: f dir_view_def rename_path_def)
  qed (simp add: dir_view_def rename_path_def)
qed

subsection \<open>Writing a catalog\<close>

text \<open>A temporary directory cannot be made where there is no directory.\<close>

definition os_consistent :: "cache_env \<Rightarrow> bool" where
  "os_consistent env \<longleftrightarrow> (ch_ReadDir env = ListingNotExist \<longrightarrow> (\<exists>e. ch_MkdirTemp env = Inl e))"

text \<open>The files of a stream of metas, the last one of each path.\<close>

definition layout :: "meta list \<Rightarrow> files" where
  "layout ms = foldl (\<lambda>fs m. AList.update (meta_rel m) (m_Blob m) fs) [] ms"

lemma map_of_layout: "map_of (layout ms) p = map_option m_Blob (find (\<lambda>m. meta_rel m = p) (rev ms))"
  by (induction ms rule: rev_induct) (auto simp: layout_def update_conv')

lemma remove_path_subset: "set (fst (remove_path out d fs)) \<subseteq> set fs"
  by (auto simp: remove_path_def split: option.split)

lemma remove_orphan_dirs_subset: "set (fst (remove_orphan_dirs env pre ns fs)) \<subseteq> set fs"
proof (induction env pre ns fs rule: remove_orphan_dirs.induct)
  case (2 env pre n ns fs)
  obtain fs1 e where r: "remove_path (ch_RemoveOrphan env n) (ch_cachePath env @ [n]) fs = (fs1, e)" by fastforce
  then have "set fs1 \<subseteq> set fs" using remove_path_subset [of "ch_RemoveOrphan env n" "ch_cachePath env @ [n]" fs] by simp
  then show ?case
    using 2(1) [OF _ r [symmetric]] 2(2) r by (cases "prefix pre n"; cases e) auto
qed simp

lemma remove_orphan_dirs_gone:
  "remove_orphan_dirs env pre ns fs = (fs', None) \<Longrightarrow> n \<in> set ns \<Longrightarrow> prefix pre n \<Longrightarrow> dir_view (ch_cachePath env @ [n]) fs' = []"
proof (induction env pre ns fs rule: remove_orphan_dirs.induct)
  case (2 env pre n' ns fs)
  show ?case
  proof (cases "prefix pre n'")
    case True
    obtain fs1 where fs1: "remove_path (ch_RemoveOrphan env n') (ch_cachePath env @ [n']) fs = (fs1, None)"
      "remove_orphan_dirs env pre ns fs1 = (fs', None)"
      using 2(3) True by (auto split: prod.splits option.splits)
    show ?thesis
    proof (cases "n = n'")
      case True
      have "dir_view (ch_cachePath env @ [n]) fs1 = []" using dir_view_remove_in [OF fs1(1)] True by simp
      moreover have "set fs' \<subseteq> set fs1" using remove_orphan_dirs_subset [of env pre ns fs1] fs1(2) by simp
      ultimately show ?thesis by (auto simp: dir_view_def filter_empty_conv)
    next
      case False
      then show ?thesis using 2(1) [OF \<open>prefix pre n'\<close> fs1(1) [symmetric] refl fs1(2)] 2(4,5) by auto
    qed
  next
    case False
    then have "n \<noteq> n'" using 2(5) by auto
    then show ?thesis using 2 False by auto
  qed
qed simp

lemma remove_orphan_dirs_other:
  "\<not> prefix pre n \<Longrightarrow> dir_view (ch_cachePath env @ [n]) (fst (remove_orphan_dirs env pre ns fs)) = dir_view (ch_cachePath env @ [n]) fs"
proof (induction env pre ns fs rule: remove_orphan_dirs.induct)
  case (2 env pre n' ns fs)
  show ?case
  proof (cases "prefix pre n'")
    case True
    then have "apart (ch_cachePath env @ [n]) (ch_cachePath env @ [n'])" using 2(3) by (intro apart_siblings) auto
    from dir_view_remove_out [OF this, of "ch_RemoveOrphan env n'" fs] True show ?thesis
      using 2(1) [OF True] 2(3)
      by (cases "remove_path (ch_RemoveOrphan env n') (ch_cachePath env @ [n']) fs") (auto split: option.split)
  next
    case False
    then show ?thesis using 2 by simp
  qed
qed simp

lemma temp_name_not_valid: "valid_catalog n \<Longrightarrow> \<not> prefix (cache_temp_prefix c) n"
  by (cases n) (auto simp: valid_catalog_def cache_temp_prefix_def)

lemma orphans_other:
  "valid_catalog n \<Longrightarrow> dir_view (ch_cachePath env @ [n]) (fst (cache_removeOrphanedTempDirs env c fs)) = dir_view (ch_cachePath env @ [n]) fs"
  using remove_orphan_dirs_other [OF temp_name_not_valid] by (auto simp: cache_removeOrphanedTempDirs_def split: dir_listing.split)

text \<open>After the orphans are gone, the name of the temporary directory is free.\<close>

lemma temp_dir_free:
  assumes "cache_removeOrphanedTempDirs env c fs = (fs1, None)" and "os_consistent env" and "ch_MkdirTemp env = Inr r"
  shows "dir_view (ch_cachePath env @ [cache_temp_prefix c @ r]) fs1 = []"
proof -
  let ?n = "cache_temp_prefix c @ r" and ?cp = "ch_cachePath env"
  have listing: "ch_ReadDir env = ListingOk"
    using assms by (auto simp: cache_removeOrphanedTempDirs_def os_consistent_def split: dir_listing.splits)
  then have run: "remove_orphan_dirs env (cache_temp_prefix c) (dir_names ?cp fs) fs = (fs1, None)"
    using assms(1) by (simp add: cache_removeOrphanedTempDirs_def)
  show ?thesis
  proof (rule ccontr)
    assume "dir_view (?cp @ [?n]) fs1 \<noteq> []"
    then obtain p b where p: "(p, b) \<in> set fs1" "prefix (?cp @ [?n]) p"
      by (auto simp: dir_view_def filter_empty_conv)
    then have "(p, b) \<in> set fs" using remove_orphan_dirs_subset [of env "cache_temp_prefix c" "dir_names ?cp fs" fs] run by auto
    moreover have "strict_prefix ?cp p" "p ! length ?cp = ?n"
      using p(2) by (auto simp: prefix_def strict_prefix_def nth_append)
    ultimately have "?n \<in> set (dir_names ?cp fs)" by (force simp: dir_names_def)
    from remove_orphan_dirs_gone [OF run this] show False
      using \<open>dir_view (?cp @ [?n]) fs1 \<noteq> []\<close> by simp
  qed
qed

lemma write_meta_view:
  assumes "plain_meta m" and "write_meta env d m fs = (fs', err)"
  shows "apart e d \<Longrightarrow> dir_view e fs' = dir_view e fs"
    and "err = None \<Longrightarrow> dir_view d fs' = AList.update (meta_rel m) (m_Blob m) (dir_view d fs)"
proof -
  have "\<not> prefix e (d @ meta_rel m)" if "apart e d"
    using apart_not_prefix [OF that, of "d @ meta_rel m"] by auto
  then show "dir_view e fs' = dir_view e fs" if "apart e d"
    using assms that dir_view_update_out
    by (auto simp: write_meta_def Let_def meta_path_plain write_path_def split: option.splits prod.splits)
  show "err = None \<Longrightarrow> dir_view d fs' = AList.update (meta_rel m) (m_Blob m) (dir_view d fs)"
    using assms
    by (auto simp: write_meta_def Let_def meta_path_plain write_path_def dir_view_update_in split: option.splits prod.splits)
qed

definition plain_source :: "meta result list \<Rightarrow> bool" where
  "plain_source src \<longleftrightarrow> (\<forall>m. Inr m \<in> set src \<longrightarrow> plain_meta m)"

lemma write_metas_other:
  "plain_source src \<Longrightarrow> apart e d \<Longrightarrow> dir_view e (fst (write_metas env d src fs)) = dir_view e fs"
proof (induction env d src fs rule: write_metas.induct)
  case (3 env d m src fs)
  then have m: "plain_meta m" "plain_source src" by (simp_all add: plain_source_def)
  obtain fs' err where w: "write_meta env d m fs = (fs', err)" by fastforce
  show ?case
    using write_meta_view(1) [OF m(1) w 3(3)] 3(1) [OF w [symmetric] _ m(2) 3(3)] by (cases err) (simp_all add: w)
qed simp_all

lemma write_metas_ok:
  "plain_source src \<Longrightarrow> write_metas env d src fs = (fs', None) \<Longrightarrow>
   \<exists>ms. src = map Inr ms \<and> dir_view d fs' = foldl (\<lambda>fs m. AList.update (meta_rel m) (m_Blob m) fs) (dir_view d fs) ms"
proof (induction env d src fs rule: write_metas.induct)
  case (1 env d fs)
  then show ?case by (intro exI [of _ "[]"]) simp
next
  case (3 env d m src fs)
  then have m: "plain_meta m" "plain_source src" by (simp_all add: plain_source_def)
  obtain fs1 where w: "write_meta env d m fs = (fs1, None)" "write_metas env d src fs1 = (fs', None)"
    using 3(3) by (auto split: prod.splits option.splits)
  then obtain ms where "src = map Inr ms" "dir_view d fs' = foldl (\<lambda>fs m. AList.update (meta_rel m) (m_Blob m) fs) (dir_view d fs1) ms"
    using 3(1) [OF w(1) [symmetric] refl m(2) w(2)] by blast
  then show ?case using write_meta_view(2) [OF m(1) w(1)] by (intro exI [of _ "m # ms"]) simp
qed simp

lemma swap_cache_view:
  assumes "plain n" and "apart (ch_cachePath env @ [n]) d" and "swap_cache env n d fs = (fs', err)"
  shows "apart e d \<Longrightarrow> apart e (ch_cachePath env @ [n]) \<Longrightarrow> dir_view e fs' = dir_view e fs"
    and "err = None \<Longrightarrow> dir_view (ch_cachePath env @ [n]) fs' = dir_view d fs"
proof -
  let ?c = "ch_cachePath env @ [n]"
  obtain fs1 e1 where r: "remove_path (ch_RemoveOld env) ?c fs = (fs1, e1)" by fastforce
  have d: "apart d ?c" using assms(2) by (simp add: apart_def)
  have keep: "dir_view d' fs1 = dir_view d' fs" if "apart d' ?c" for d'
    using dir_view_remove_out [OF that, of "ch_RemoveOld env" fs] r by simp
  show "dir_view e fs' = dir_view e fs" if "apart e d" "apart e ?c"
    using assms(3) keep [OF that(2)] dir_view_rename_out [OF that] r
    by (auto simp: swap_cache_def cacheDir_plain [OF assms(1)] split: option.splits)
  show "dir_view ?c fs' = dir_view d fs" if "err = None"
  proof -
    have "e1 = None" "fs' = rename_path d ?c fs1"
      using assms(3) that r by (auto simp: swap_cache_def cacheDir_plain [OF assms(1)] split: option.splits)
    then show ?thesis using dir_view_rename_in [OF d] dir_view_remove_in r keep [OF d] by auto
  qed
qed

lemma writeFS_view:
  assumes "writeFS env n src fs = (fs', res)" and n: "valid_catalog n" and "plain_source src" and os: "os_consistent env"
  shows "valid_catalog n' \<Longrightarrow> n' \<noteq> n \<Longrightarrow> dir_view (ch_cachePath env @ [n']) fs' = dir_view (ch_cachePath env @ [n']) fs"
    and "res = Inr d \<Longrightarrow> \<exists>ms. src = map Inr ms \<and> dir_view (ch_cachePath env @ [n]) fs' = layout ms"
proof -
  obtain fs1 e1 where o: "cache_removeOrphanedTempDirs env n fs = (fs1, e1)" by fastforce
  have keep1: "dir_view (ch_cachePath env @ [n']) fs1 = dir_view (ch_cachePath env @ [n']) fs" if "valid_catalog n'" for n'
    using orphans_other [OF that, of env n fs] o by simp
  consider (early) "fs' = fs1" "\<exists>e. res = Inl e" | (temp) r where "e1 = None" "ch_MkdirTemp env = Inr r"
    using assms(1) o by (cases e1; cases "ch_MkdirTemp env") (auto simp: writeFS_def)
  then have "(valid_catalog n' \<and> n' \<noteq> n \<longrightarrow> dir_view (ch_cachePath env @ [n']) fs' = dir_view (ch_cachePath env @ [n']) fs) \<and>
    (res = Inr d \<longrightarrow> (\<exists>ms. src = map Inr ms \<and> dir_view (ch_cachePath env @ [n]) fs' = layout ms))"
  proof cases
    case early
    then show ?thesis using keep1 by auto
  next
    case temp
    let ?tmp = "ch_cachePath env @ [cache_temp_prefix n @ r]" and ?c = "ch_cachePath env @ [n]"
    obtain fs2 e2 where w: "write_metas env ?tmp src fs1 = (fs2, e2)" by fastforce
    obtain fs3 e3 where s: "(case e2 of Some e \<Rightarrow> (fs2, Some e) | None \<Rightarrow> swap_cache env n ?tmp fs2) = (fs3, e3)" by fastforce
    have out: "fs' = fst (remove_path (ch_RemoveTemp env) ?tmp fs3)" "res = (case e3 of Some e \<Rightarrow> Inl e | None \<Rightarrow> Inr (cacheDir env n))"
      using assms(1) o temp w s by (auto simp: writeFS_def Let_def split: option.splits)
    have "plain n" using n by (simp add: valid_catalog_def)
    have aparts: "apart (ch_cachePath env @ [n']) ?tmp" if "valid_catalog n'" for n'
      using temp_name_not_valid [OF that, of n] by (intro apart_siblings) auto
    have view3: "dir_view (ch_cachePath env @ [n']) fs' = dir_view (ch_cachePath env @ [n']) fs3" if "valid_catalog n'" for n'
      using dir_view_remove_out [OF aparts [OF that]] out(1) by simp
    have view2: "dir_view (ch_cachePath env @ [n']) fs2 = dir_view (ch_cachePath env @ [n']) fs1" if "valid_catalog n'" for n'
      using write_metas_other [OF assms(3) aparts [OF that], of env fs1] w by simp
    have other: "dir_view (ch_cachePath env @ [n']) fs' = dir_view (ch_cachePath env @ [n']) fs" if "valid_catalog n'" "n' \<noteq> n"
      using view3 [OF that(1)] view2 [OF that(1)] keep1 [OF that(1)] s
        swap_cache_view(1) [OF \<open>plain n\<close> aparts [OF n] _ aparts [OF that(1)] apart_siblings [OF that(2)], of fs2 fs3]
      by (cases e2) auto
    have "\<exists>ms. src = map Inr ms \<and> dir_view ?c fs' = layout ms" if "res = Inr d"
    proof -
      have "e3 = None" using out(2) that by (cases e3) auto
      then have e2: "e2 = None" "swap_cache env n ?tmp fs2 = (fs3, None)" using s by (auto split: option.splits)
      obtain ms where "src = map Inr ms" "dir_view ?tmp fs2 = layout ms"
        using write_metas_ok [OF assms(3), of env ?tmp fs1 fs2] w e2(1) temp_dir_free [OF _ os temp(2)] o temp(1) by (auto simp: layout_def)
      then show ?thesis using swap_cache_view(2) [OF \<open>plain n\<close> aparts [OF n] e2(2)] view3 [OF n] by auto
    qed
    then show ?thesis using other by blast
  qed
  then show "valid_catalog n' \<Longrightarrow> n' \<noteq> n \<Longrightarrow> dir_view (ch_cachePath env @ [n']) fs' = dir_view (ch_cachePath env @ [n']) fs"
    and "res = Inr d \<Longrightarrow> \<exists>ms. src = map Inr ms \<and> dir_view (ch_cachePath env @ [n]) fs' = layout ms"
    by blast+
qed

subsection \<open>Runs of the cache\<close>

text \<open>
  The states a cache can reach from an empty memory and any files on disk, with the metas of the last
  put of each catalog if it succeeded. Each operation has its own answers of the operating system.
  Removals succeed.
\<close>

inductive cache_run :: "path \<Rightarrow> filesystem_cache \<Rightarrow> (string \<rightharpoonup> string \<times> meta list) \<Rightarrow> bool" for cp where
  start: "cache_run cp \<lparr>fsc_files = fs, fsc_data = Map.empty\<rparr> Map.empty"
| put_ok: "cache_run cp c g \<Longrightarrow> ch_cachePath env = cp \<Longrightarrow> os_consistent env \<Longrightarrow> valid_catalog n \<Longrightarrow>
     plain_source (map Inr ms) \<Longrightarrow> Put env n ref (Inr (map Inr ms)) c = (c', Inr d) \<Longrightarrow> cache_run cp c' (g(n \<mapsto> (ref, ms)))"
| put_failed: "cache_run cp c g \<Longrightarrow> ch_cachePath env = cp \<Longrightarrow> os_consistent env \<Longrightarrow> valid_catalog n \<Longrightarrow>
     (case src of Inl e \<Rightarrow> True | Inr content \<Rightarrow> plain_source content) \<Longrightarrow> Put env n ref src c = (c', Inl e) \<Longrightarrow> cache_run cp c' (g(n := None))"
| remove_ok: "cache_run cp c g \<Longrightarrow> ch_cachePath env = cp \<Longrightarrow> valid_catalog n \<Longrightarrow> Remove env n c = (c', None) \<Longrightarrow> cache_run cp c' (g(n := None))"

definition cache_ok :: "path \<Rightarrow> filesystem_cache \<Rightarrow> (string \<rightharpoonup> string \<times> meta list) \<Rightarrow> bool" where
  "cache_ok cp c g \<longleftrightarrow>
     (\<forall>n d. fsc_data c n = Some d \<and> cd_Error d = None \<longrightarrow>
        valid_catalog n \<and> (\<exists>ms. g n = Some (cd_Ref d, ms) \<and> dir_view (cp @ [n]) (fsc_files c) = layout ms))"

lemma put_view:
  assumes "Put env n ref src c = (c', res)" and "valid_catalog n" and "os_consistent env"
    and "case src of Inl e \<Rightarrow> True | Inr content \<Rightarrow> plain_source content"
  shows "valid_catalog n' \<Longrightarrow> n' \<noteq> n \<Longrightarrow> dir_view (ch_cachePath env @ [n']) (fsc_files c') = dir_view (ch_cachePath env @ [n']) (fsc_files c)"
    and "res = Inr d \<Longrightarrow> \<exists>ms. src = Inr (map Inr ms) \<and> dir_view (ch_cachePath env @ [n]) (fsc_files c') = layout ms"
  using Put_simps(2) [OF assms(1)] assms(2-4) writeFS_view(1) [of env n _ "fsc_files c" "fsc_files c'" res n']
    writeFS_view(2) [of env n _ "fsc_files c" "fsc_files c'" res d]
  by (cases src; fastforce)+

lemma cache_run_ok: "cache_run cp c g \<Longrightarrow> cache_ok cp c g"
proof (induction rule: cache_run.induct)
  case (start fs)
  then show ?case by (simp add: cache_ok_def)
next
  case (put_ok c g env n ms ref c' d)
  note view = put_view [OF put_ok.hyps(6,4,3)]
  have "dir_view (cp @ [n]) (fsc_files c') = layout ms"
    using view(2) [of d] put_ok.hyps(2,5) by (auto simp: inj_map_eq_map)
  moreover have "dir_view (cp @ [n']) (fsc_files c') = dir_view (cp @ [n']) (fsc_files c)" if "valid_catalog n'" "n' \<noteq> n" for n'
    using view(1) [OF _ that] put_ok.hyps(2,5) by simp
  ultimately show ?case
    using put_ok.IH put_ok.hyps(4) Put_simps(1) [OF put_ok.hyps(6)] unfolding cache_ok_def by (auto split: if_splits)
next
  case (put_failed c g env n src ref c' e)
  have "dir_view (cp @ [n']) (fsc_files c') = dir_view (cp @ [n']) (fsc_files c)" if "valid_catalog n'" "n' \<noteq> n" for n'
    using put_view(1) [OF put_failed.hyps(6,4,3,5) that] put_failed.hyps(2) by simp
  then show ?case
    using put_failed.IH Put_simps(1) [OF put_failed.hyps(6)] unfolding cache_ok_def by (auto split: if_splits)
next
  case (remove_ok c g env n c')
  have data: "fsc_data c' = (fsc_data c)(n := None)" and "\<exists>out. fsc_files c' = fst (remove_path out (cp @ [n]) (fsc_files c)) \<or> fsc_files c' = fsc_files c"
    using remove_ok.hyps(2,3,4) unfolding Remove_def
    by (auto simp: cacheDir_plain valid_catalog_def fun_upd_idem split: if_splits prod.splits option.splits) (metis fst_conv)
  then have "dir_view (cp @ [n']) (fsc_files c') = dir_view (cp @ [n']) (fsc_files c)" if "n' \<noteq> n" for n'
    using dir_view_remove_out [OF apart_siblings [OF that]] by metis
  then show ?case
    using remove_ok.IH data unfolding cache_ok_def by (auto split: if_splits)
qed

section \<open>Properties\<close>

lemma dir_view_view: "dir_view (d @ r) fs = dir_view r (dir_view d fs)"
proof (induction fs)
  case (Cons f fs)
  obtain p b where "f = (p, b)" by (cases f)
  then show ?case using Cons by (auto simp: dir_view_def prefix_def add.commute)
qed (simp add: dir_view_def)

lemma map_of_dir_view: "map_of (dir_view d fs) p = map_of fs (d @ p)"
proof (induction fs)
  case (Cons f fs)
  obtain q b where f: "f = (q, b)" by (cases f)
  show ?case
  proof (cases "prefix d q")
    case True
    then show ?thesis using Cons by (auto simp: f dir_view_def prefix_def)
  next
    case False
    then have "q \<noteq> d @ p" by auto
    then show ?thesis using Cons False by (simp add: f dir_view_def)
  qed
qed (simp add: dir_view_def)

lemma cache_Get_found:
  assumes "cache_Get env n ref c = Inr (Some d)"
  shows "d = cacheDir env n" and "\<exists>data. fsc_data c n = Some data \<and> cd_Error data = None \<and> cd_Ref data = ref"
  using assms by (auto simp: cache_Get_def split: option.splits if_splits)


text \<open>
  C34: A run of the catalog controller without an error leaves the cache filled for the reference the
  catalog has, and with nothing for any other reference it fetched over; a failed request is found
  in the cache, while an answer other than 200 leaves the cache as it was.
\<close>

theorem reconciled_catalog_cached:
  assumes "resolved_ref catalog \<noteq> ''''"
  shows "let name = meta_Name (cc_Meta catalog); ref = resolved_ref catalog; (c', err) = catalog_Reconcile env cl (Inr catalog) req c in
    if err = None then cache_Get env name ref c' = Inr (Some (cacheDir env name)) \<and> (c' = c \<or> (\<forall>ref'. ref' \<noteq> ref \<longrightarrow> cache_Get env name ref' c' = Inr None))
    else (\<exists>e. cache_Get env name ref c' = Inl e) \<or> c' = c"
proof -
  let ?n = "meta_Name (cc_Meta catalog)" and ?ref = "resolved_ref catalog"
  show ?thesis
  proof (cases "\<exists>d. cache_Get env ?n ?ref c = Inr (Some d)")
    case True
    then have "catalog_Reconcile env cl (Inr catalog) req c = (c, None)" by (auto simp: catalog_Reconcile_def Let_def assms)
    then show ?thesis using True cache_Get_found(1) by (auto simp: Let_def)
  next
    case False
    obtain c' res where p: "PopulateCache env cl catalog c = (c', res)" by fastforce
    have run: "catalog_Reconcile env cl (Inr catalog) req c =
      (c', case res of Inl e \<Rightarrow> Some (ErrText (''error populating cache for catalog '' @ go_quote ?n @ '': '' @ err_string e)) | Inr d \<Rightarrow> None)"
      using False p assms by (auto simp: catalog_Reconcile_def Let_def split: sum.splits)
    have put: "(\<exists>src. Put env ?n ?ref src c = (c', res)) \<or> c' = c \<and> (\<exists>e. res = Inl e)"
      using p by (auto simp: PopulateCache_def Let_def split: option.splits sum.splits if_splits)
    show ?thesis
    proof (cases res)
      case (Inl e)
      then show ?thesis using run put fc.put_error_found by (fastforce simp: Let_def)
    next
      case (Inr d)
      then obtain src where "Put env ?n ?ref src c = (c', Inr d)" using put by auto
      then show ?thesis
        using run Inr fc.put_ok_found fc.get_put_stale Put_simps(3) by (auto simp: Let_def)
    qed
  qed
qed

subsection \<open>Limits of the cache\<close>

text \<open>An error put for a reference replaces the content that was cached for it.\<close>

lemma put_error_replaces: "cache_Get env n ref (fst (Put env n ref (Inl e) c)) = Inl e"
  using fc.put_error_found [of env n ref "Inl e" c] by (simp add: Put_def)

text \<open>After a removal that fails half way, what is left is still served as the content of the catalog.\<close>

lemma failed_remove_serves_rest:
  assumes "cache_Get env n ref c = Inr (Some d)" and "ch_RemoveCache env = Some (e, \<lambda>p. False)"
  shows "snd (Remove env n c) \<noteq> None" and "cache_Get env n ref (fst (Remove env n c)) = Inr (Some d)"
    and "dir_view d (fsc_files (fst (Remove env n c))) = []"
  using assms cache_Get_found [OF assms(1)]
  by (auto simp: Remove_def cache_Get_def remove_path_def dir_view_def filter_empty_conv)

text \<open>A package whose name has a parent component is written into the directory of another catalog.\<close>

lemma package_name_escapes:
  "meta_path [''cache'', ''.a-1''] \<lparr>m_Schema = ''olm.bundle'', m_Package = ''../b/p'', m_Name = ''x'', m_Blob = ''''\<rparr> =
     [''cache'', ''b'', ''p'', ''olm.bundle'', ''x.json'']"
  by code_simp

section \<open>An example\<close>

definition sample_cache_env :: cache_env where
  "sample_cache_env =
     \<lparr>ch_cachePath = [''cache''], ch_ReadDir = ListingOk, ch_RemoveOrphan = (\<lambda>n. None), ch_MkdirTemp = Inr ''1'',
      ch_MkdirAll = (\<lambda>p. None), ch_WriteFile = (\<lambda>p. None), ch_RemoveOld = None, ch_Rename = None, ch_RemoveTemp = None,
      ch_RemoveCache = None\<rparr>"

definition sample_metas :: "meta list" where
  "sample_metas =
     [\<lparr>m_Schema = ''olm.package'', m_Package = '''', m_Name = ''p'', m_Blob = ''1''\<rparr>,
      \<lparr>m_Schema = ''olm.bundle'', m_Package = ''p'', m_Name = ''p.v1'', m_Blob = ''2''\<rparr>]"

definition sample_client :: client_env where
  "sample_client =
     \<lparr>cl_JoinPath = (\<lambda>base p. Inr (base @ p)), cl_NewRequest = (\<lambda>url. None), cl_httpClient = None,
      cl_Do = (\<lambda>url. Inr \<lparr>hr_StatusCode = 200, hr_Body = map Inr sample_metas\<rparr>),
      cl_LoadFS = (\<lambda>fs. if fs = [] then LoadNotExist else LoadOk empty_config)\<rparr>"

definition sample_catalog :: cluster_catalog where
  "sample_catalog =
     \<lparr>cc_Meta = \<lparr>meta_Name = ''a'', meta_Namespace = '''', meta_UID = '''', meta_Generation = 1, meta_Labels = Map.empty,
        meta_Annotations = Map.empty, meta_OwnerReferences = [], meta_Finalizers = [], meta_CreationTimestamp = 0, meta_DeletionTimestamp = None\<rparr>,
      cc_Spec = \<lparr>ccs_Source = \<lparr>cs_Type = ''Image'', cs_Image = None\<rparr>, ccs_Priority = 0, ccs_AvailabilityMode = ''Available''\<rparr>,
      cc_Status = \<lparr>ccst_Conditions = [mk_condition ''Serving'' ConditionTrue '''' '''' 1],
        ccst_ResolvedSource = Some \<lparr>rcs_Type = ''Image'', rcs_Image = Some \<lparr>rimg_Ref = ''r''\<rparr>\<rparr>,
        ccst_URLs = Some ''u'', ccst_LastUnpacked = None\<rparr>\<rparr>"

definition empty_cache :: filesystem_cache where
  "empty_cache = \<lparr>fsc_files = [], fsc_data = Map.empty\<rparr>"

definition sample_cache :: filesystem_cache where
  "sample_cache =
     \<lparr>fsc_files = [([''cache'', ''a'', ''p'', ''olm.package'', ''p.json''], ''1''), ([''cache'', ''a'', ''p'', ''olm.bundle'', ''p.v1.json''], ''2'')],
      fsc_data = [''a'' \<mapsto> \<lparr>cd_Ref = ''r'', cd_Error = None\<rparr>]\<rparr>"

lemma sample_put: "Put sample_cache_env ''a'' ''r'' (Inr (map Inr sample_metas)) empty_cache = (sample_cache, Inr [''cache'', ''a''])"
proof -
  have "writeFS sample_cache_env ''a'' (map Inr sample_metas) [] = (fsc_files sample_cache, Inr [''cache'', ''a''])"
    by code_simp
  then show ?thesis by (simp add: Put_def empty_cache_def sample_cache_def)
qed

lemma sample_cache_run: "cache_run [''cache''] sample_cache [''a'' \<mapsto> (''r'', sample_metas)]"
proof (rule cache_run.put_ok [OF _ _ _ _ _ sample_put])
  show "cache_run [''cache''] empty_cache Map.empty" unfolding empty_cache_def by (rule cache_run.start)
  show "ch_cachePath sample_cache_env = [''cache'']" "os_consistent sample_cache_env" by (simp_all add: sample_cache_env_def os_consistent_def)
  show "valid_catalog ''a''" by (simp add: valid_catalog_def plain_def)
  show "plain_source (map Inr sample_metas)"
    by (simp add: plain_source_def sample_metas_def plain_meta_def meta_package_def plain_def)
qed


theorem reconciled_catalog_cached_witness:
  "resolved_ref sample_catalog \<noteq> '''' \<and>
   cache_Get sample_cache_env ''a'' ''r'' (fst (catalog_Reconcile sample_cache_env sample_client (Inr sample_catalog) ''a'' empty_cache)) =
     Inr (Some (cacheDir sample_cache_env ''a''))"
proof -
  have facts: "validateCatalog (Some sample_catalog) = None" "resolved_ref sample_catalog = ''r''" "meta_Name (cc_Meta sample_catalog) = ''a''"
    "doRequest sample_client sample_catalog = Inr \<lparr>hr_StatusCode = 200, hr_Body = map Inr sample_metas\<rparr>"
    by code_simp+
  have "cache_Get sample_cache_env ''a'' ''r'' empty_cache = Inr None" by (simp add: cache_Get_def empty_cache_def)
  then have "catalog_Reconcile sample_cache_env sample_client (Inr sample_catalog) ''a'' empty_cache = (sample_cache, None)"
    using sample_put by (simp add: catalog_Reconcile_def PopulateCache_def facts)
  then show ?thesis
    using reconciled_catalog_cached [of sample_catalog sample_cache_env sample_client "''a''" empty_cache] by (simp add: facts Let_def)
qed

end
