(* ===== verification/Content_Manager.thy ===== *)
theory Content_Manager
  imports Phase_Sort "HOL-Library.AList"
begin

text \<open>
  Watching the content of an extension: the informer source of \<open>contentmanager/source/dynamicsource.go\<close>,
  the cache of sources of one extension (\<open>contentmanager/cache/cache.go\<close>) and the manager of the caches
  (\<open>contentmanager/contentmanager.go\<close>). Informers, REST mapping and the controller that starts a source are
  parameters: each call has an environment with their answers. The cache holds its lock during
  \<open>Watch\<close> and \<open>Close\<close> and during the callback of a source, so that these are single steps.
\<close>

section \<open>Definitions\<close>

subsection \<open>A dynamic informer source\<close>

text \<open>
  The channel that reports the first synchronization is unbuffered: the sender waits until somebody
  receives and closes the channel then.
\<close>

datatype sync_chan = SyncOpen | SyncOffered | SyncClosed

text \<open>
  The channel of errors is closed exactly when there is an error. The kind is the one the callback of
  the source was made for.
\<close>

record dyn_source =
  ds_gvk :: group_version_kind
  ds_started :: bool
  ds_cancelled :: bool
  ds_err :: "go_error option"
  ds_synced :: sync_chan

definition NewDynamicSource :: "group_version_kind \<Rightarrow> dyn_source" where
  "NewDynamicSource gvk = \<lparr>ds_gvk = gvk, ds_started = False, ds_cancelled = False, ds_err = None, ds_synced = SyncOpen\<rparr>"

text \<open>\<open>None\<close> is the panic of a second start.\<close>

definition ds_Start :: "go_error option \<Rightarrow> go_error option \<Rightarrow> dyn_source \<Rightarrow> (dyn_source \<times> go_error option) option" where
  "ds_Start setHandlerErr addHandlerErr s =
     (if ds_started s then None
      else
        (let s' = s\<lparr>ds_started := True\<rparr> in
         case setHandlerErr of
           Some e \<Rightarrow> Some (s', Some (ErrWrap ''setting WatchErrorHandler: '' e ''''))
         | None \<Rightarrow>
             (case addHandlerErr of
                Some e \<Rightarrow> Some (s', Some (ErrWrap ''adding event handler: '' e ''''))
              | None \<Rightarrow> Some (s', None))))"

text \<open>The poll finds that the informer has synchronized.\<close>

definition ds_poll :: "dyn_source \<Rightarrow> dyn_source" where
  "ds_poll s = (if ds_started s \<and> \<not> ds_cancelled s \<and> ds_synced s = SyncOpen then s\<lparr>ds_synced := SyncOffered\<rparr> else s)"

text \<open>Asking whether the source has synchronized receives what the sender offers.\<close>

definition hasSynced :: "dyn_source \<Rightarrow> dyn_source \<times> bool" where
  "hasSynced s =
     (case ds_synced s of
        SyncOpen \<Rightarrow> (s, False)
      | SyncOffered \<Rightarrow> (s\<lparr>ds_synced := SyncClosed\<rparr>, True)
      | SyncClosed \<Rightarrow> (s, True))"

text \<open>
  The handler of watch errors, up to its decision whether to call the callback and requeue the owner,
  and the cancellation with which it ends.
\<close>

definition watch_error :: "go_error \<Rightarrow> dyn_source \<Rightarrow> dyn_source \<times> bool" where
  "watch_error err s = hasSynced (if ds_err s = None then s\<lparr>ds_err := Some err\<rparr> else s)"

definition informerCancel :: "dyn_source \<Rightarrow> dyn_source" where
  "informerCancel s = s\<lparr>ds_cancelled := True\<rparr>"

text \<open>What a wait for the first synchronization returns, for each case of its \<open>select\<close>.\<close>

inductive WaitForSync :: "go_error option \<Rightarrow> dyn_source \<Rightarrow> dyn_source \<Rightarrow> go_error option \<Rightarrow> bool" for ctxErr s where
  not_started: "\<not> ds_started s \<Longrightarrow> WaitForSync ctxErr s s (Some (ErrText ''not yet started''))"
| ctx_done: "ds_started s \<Longrightarrow> ctxErr = Some e \<Longrightarrow> WaitForSync ctxErr s s (Some e)"
| errored: "ds_started s \<Longrightarrow> ds_err s = Some e \<Longrightarrow> WaitForSync ctxErr s s (Some e)"
| cancelled: "ds_started s \<Longrightarrow> ds_cancelled s \<Longrightarrow> WaitForSync ctxErr s s (Some (ErrText ''context canceled''))"
| synced: "ds_started s \<Longrightarrow> ds_synced s \<noteq> SyncOpen \<Longrightarrow> WaitForSync ctxErr s (s\<lparr>ds_synced := SyncClosed\<rparr>) None"

definition ds_Close :: "dyn_source \<Rightarrow> dyn_source result" where
  "ds_Close s = (if ds_started s then Inr (informerCancel s) else Inl (ErrText ''source has not yet started''))"

subsection \<open>Events of an informer\<close>

text \<open>What an informer hands to a handler, as Go values of any type.\<close>

datatype informer_obj = NilObj | ClientObj json | DeletedFinalStateUnknown informer_obj | OtherObj

record event_predicate =
  ep_Create :: "json \<Rightarrow> bool"
  ep_Update :: "json \<Rightarrow> json \<Rightarrow> bool"
  ep_Delete :: "json \<Rightarrow> bool \<Rightarrow> bool"

text \<open>The call of the handler that requeues the owner; a deletion says whether the last state is unknown.\<close>

datatype handler_call = HandlerCreate json | HandlerUpdate json json | HandlerDelete json bool

definition OnAdd :: "event_predicate list \<Rightarrow> informer_obj \<Rightarrow> handler_call option" where
  "OnAdd predicates obj =
     (case obj of
        ClientObj o1 \<Rightarrow> (if list_all (\<lambda>p. ep_Create p o1) predicates then Some (HandlerCreate o1) else None)
      | _ \<Rightarrow> None)"

definition OnUpdate :: "event_predicate list \<Rightarrow> informer_obj \<Rightarrow> informer_obj \<Rightarrow> handler_call option" where
  "OnUpdate predicates oldObj newObj =
     (case oldObj of
        ClientObj o1 \<Rightarrow>
          (case newObj of
             ClientObj o2 \<Rightarrow> (if list_all (\<lambda>p. ep_Update p o1 o2) predicates then Some (HandlerUpdate o1 o2) else None)
           | _ \<Rightarrow> None)
      | _ \<Rightarrow> None)"

definition OnDelete :: "event_predicate list \<Rightarrow> informer_obj \<Rightarrow> handler_call option" where
  "OnDelete predicates obj =
     (let call = (\<lambda>obj unknown.
            (case obj of
               ClientObj o1 \<Rightarrow> (if list_all (\<lambda>p. ep_Delete p o1 unknown) predicates then Some (HandlerDelete o1 unknown) else None)
             | _ \<Rightarrow> None)) in
      case obj of
        NilObj \<Rightarrow> None
      | ClientObj _ \<Rightarrow> call obj False
      | DeletedFinalStateUnknown obj' \<Rightarrow> call obj' True
      | OtherObj \<Rightarrow> None)"

subsection \<open>Making a source\<close>

definition source_predicates :: "event_predicate list" where
  "source_predicates = [\<lparr>ep_Create = (\<lambda>_. False), ep_Update = (\<lambda>_ _. True), ep_Delete = (\<lambda>_ _. True)\<rparr>]"

text \<open>The scheme of the program and the mapping of kinds to resources are parameters.\<close>

record sourcerer_env =
  se_AddToScheme :: "go_error option"
  se_RESTMapping :: "group_version_kind \<Rightarrow> go_error option"

definition gvk_text :: "group_version_kind \<Rightarrow> string" where
  "gvk_text gvk = gvk_Group gvk @ ''/'' @ gvk_Version gvk @ '', Kind='' @ gvk_Kind gvk"

definition Source :: "sourcerer_env \<Rightarrow> group_version_kind \<Rightarrow> dyn_source result" where
  "Source env gvk =
     (case se_AddToScheme env of
        Some e \<Rightarrow> Inl (ErrWrap ''building scheme: '' (ErrWrap ''adding operator controller APIs to scheme: '' e '''') '''')
      | None \<Rightarrow>
          (case se_RESTMapping env gvk of
             Some e \<Rightarrow> Inl (ErrWrap (''getting resource mapping for GVK '' @ go_quote (gvk_text gvk) @ '': '') e '''')
           | None \<Rightarrow> Inr (NewDynamicSource gvk)))"

subsection \<open>The cache of sources\<close>

text \<open>
  Sources live in a store of their own, under the numbers the cache gives them, so that a source the
  cache no longer knows is still there.
\<close>

record content_cache =
  cc_sources :: "(group_version_kind \<times> nat) list"
  cc_store :: "nat \<Rightarrow> dyn_source option"
  cc_next :: nat

definition NewCache :: content_cache where
  "NewCache = \<lparr>cc_sources = [], cc_store = Map.empty, cc_next = 0\<rparr>"

text \<open>
  How a controller takes a new source: it refuses it, starts it, with the errors of the two calls on
  the informer, or keeps it for later. What happens
  to a started source while the cache waits for it: nothing until the time is over, an error of the
  watch, or the first synchronization.
\<close>

datatype watch_outcome = WatchRefused go_error | WatchStart "go_error option" "go_error option" | WatchQueued
datatype sync_outcome = SyncTimeout go_error | SyncFailed go_error | SyncDone

record watch_env =
  we_Source :: sourcerer_env
  we_Watch :: "group_version_kind \<Rightarrow> watch_outcome"
  we_Sync :: "group_version_kind \<Rightarrow> sync_outcome"

fun gvksForObjects :: "json list \<Rightarrow> group_version_kind list result" where
  "gvksForObjects [] = Inr []"
| "gvksForObjects (obj # objs) =
     (let gvk = GroupVersionKind obj in
      if gvk_Kind gvk = '''' then Inl (ErrText (''adding '' @ GetName obj @ '' to set; object Kind is not defined''))
      else if gvk_Version gvk = '''' then Inl (ErrText (''adding '' @ GetName obj @ '' to set; object Version is not defined''))
      else (case gvksForObjects objs of Inl e \<Rightarrow> Inl e | Inr gvks \<Rightarrow> Inr (List.insert gvk gvks)))"

definition removeSource :: "group_version_kind \<Rightarrow> content_cache \<Rightarrow> content_cache \<times> go_error option" where
  "removeSource gvk c =
     (case map_of (cc_sources c) gvk of
        None \<Rightarrow> (c, None)
      | Some i \<Rightarrow>
          (case Option.bind (cc_store c i) (\<lambda>s. Some (ds_Close s)) of
             None \<Rightarrow> (c, None)
           | Some (Inl e) \<Rightarrow> (c, Some (ErrWrap (''closing source for GVK '' @ go_quote (gvk_text gvk) @ '': '') e ''''))
           | Some (Inr s) \<Rightarrow> (c\<lparr>cc_sources := AList.delete gvk (cc_sources c), cc_store := (cc_store c)(i \<mapsto> s)\<rparr>, None)))"

fun remove_sources :: "group_version_kind list \<Rightarrow> content_cache \<Rightarrow> content_cache \<times> go_error list" where
  "remove_sources [] c = (c, [])"
| "remove_sources (gvk # gvks) c =
     (let (c', err) = removeSource gvk c; (c'', errs) = remove_sources gvks c' in
      (c'', (case err of None \<Rightarrow> errs | Some e \<Rightarrow> e # errs)))"

definition join_sorted :: "go_error list \<Rightarrow> go_error option" where
  "join_sorted errs = errors_Join (map Some (sort_by (\<lambda>a b. go_compare (err_string a) (err_string b)) errs))"

definition removeStaleSources :: "group_version_kind list \<Rightarrow> content_cache \<Rightarrow> content_cache \<times> go_error option" where
  "removeStaleSources gvks c =
     (let (c', errs) = remove_sources (filter (\<lambda>g. g \<notin> set gvks) (map fst (cc_sources c))) c in
      (c', join_sorted errs))"

text \<open>The wait of \<open>startNewSource\<close>, as the relation above allows it.\<close>

definition await_sync :: "sync_outcome \<Rightarrow> dyn_source \<Rightarrow> dyn_source \<times> go_error option" where
  "await_sync outcome s =
     (if \<not> ds_started s then (s, Some (ErrText ''not yet started''))
      else
        (case outcome of
           SyncTimeout e \<Rightarrow> (s, Some e)
         | SyncFailed e \<Rightarrow> (informerCancel (fst (watch_error e s)), Some e)
         | SyncDone \<Rightarrow> ((ds_poll s)\<lparr>ds_synced := SyncClosed\<rparr>, None)))"

definition watcher_Watch :: "watch_outcome \<Rightarrow> dyn_source \<Rightarrow> dyn_source \<times> go_error option" where
  "watcher_Watch w s =
     (case w of
        WatchRefused e \<Rightarrow> (s, Some e)
      | WatchQueued \<Rightarrow> (s, None)
      | WatchStart e1 e2 \<Rightarrow> (case ds_Start e1 e2 s of None \<Rightarrow> (s, None) | Some r \<Rightarrow> r))"

definition startNewSource :: "watch_env \<Rightarrow> group_version_kind \<Rightarrow> content_cache \<Rightarrow> content_cache \<times> nat result" where
  "startNewSource env gvk c =
     (case Source (we_Source env) gvk of
        Inl e \<Rightarrow> (c, Inl (ErrWrap ''getting source: '' e ''''))
      | Inr s0 \<Rightarrow>
          (let i = cc_next c;
               put = (\<lambda>s. c\<lparr>cc_next := i + 1, cc_store := (cc_store c)(i \<mapsto> s)\<rparr>);
               (s, err) = watcher_Watch (we_Watch env gvk) s0 in
           case err of
             Some e \<Rightarrow> (put s, Inl (ErrWrap (''establishing watch for GVK '' @ go_quote (gvk_text gvk) @ '': '') e ''''))
           | None \<Rightarrow>
               (let (s', err) = await_sync (we_Sync env gvk) s in
                (put s', case err of Some e \<Rightarrow> Inl (ErrWrap ''waiting for sync: '' e '''') | None \<Rightarrow> Inr i))))"

text \<open>Adding a source whose kind is there already is the panic.\<close>

definition addSource :: "group_version_kind \<Rightarrow> nat \<Rightarrow> content_cache \<Rightarrow> content_cache option" where
  "addSource gvk i c = (if map_of (cc_sources c) gvk = None then Some (c\<lparr>cc_sources := cc_sources c @ [(gvk, i)]\<rparr>) else None)"

fun start_sources :: "watch_env \<Rightarrow> group_version_kind list \<Rightarrow> content_cache \<Rightarrow> (content_cache \<times> go_error list) option" where
  "start_sources env [] c = Some (c, [])"
| "start_sources env (gvk # gvks) c =
     (case startNewSource env gvk c of
        (c', Inl e) \<Rightarrow> map_option (\<lambda>(c'', errs). (c'', e # errs)) (start_sources env gvks c')
      | (c', Inr i) \<Rightarrow> Option.bind (addSource gvk i c') (start_sources env gvks))"

definition startNewSources :: "watch_env \<Rightarrow> group_version_kind list \<Rightarrow> content_cache \<Rightarrow> (content_cache \<times> go_error option) option" where
  "startNewSources env gvks c =
     map_option (\<lambda>(c', errs). (c', join_sorted errs))
       (start_sources env (filter (\<lambda>g. g \<notin> set (map fst (cc_sources c))) gvks) c)"

text \<open>\<open>None\<close> is the panic of \<open>addSource\<close>.\<close>

definition cache_Watch :: "watch_env \<Rightarrow> json list \<Rightarrow> content_cache \<Rightarrow> (content_cache \<times> go_error option) option" where
  "cache_Watch env objs c =
     (case gvksForObjects objs of
        Inl e \<Rightarrow> Some (c, Some (ErrWrap ''getting set of GVKs for managed objects: '' e ''''))
      | Inr gvks \<Rightarrow>
          (case removeStaleSources gvks c of
             (c', Some e) \<Rightarrow> Some (c', Some (ErrWrap ''removing stale sources: '' e ''''))
           | (c', None) \<Rightarrow> startNewSources env gvks c'))"

fun close_all :: "nat list \<Rightarrow> (nat \<Rightarrow> dyn_source option) \<Rightarrow> (nat \<Rightarrow> dyn_source option) \<times> go_error list" where
  "close_all [] st = (st, [])"
| "close_all (i # is) st =
     (case Option.bind (st i) (\<lambda>s. Some (ds_Close s)) of
        None \<Rightarrow> close_all is st
      | Some (Inr s) \<Rightarrow> close_all is (st(i \<mapsto> s))
      | Some (Inl e) \<Rightarrow> (let (st', errs) = close_all is st in (st', e # errs)))"

definition cache_Close :: "content_cache \<Rightarrow> content_cache \<times> go_error option" where
  "cache_Close c = (let (st, errs) = close_all (map snd (cc_sources c)) (cc_store c) in (c\<lparr>cc_store := st\<rparr>, join_sorted errs))"

text \<open>
  The callback that a source calls on an error after its first synchronization; its error is logged
  only. The handler of the source cancels the informer afterwards.
\<close>

definition post_sync_error :: "group_version_kind \<Rightarrow> content_cache \<Rightarrow> content_cache" where
  "post_sync_error gvk c = fst (removeSource gvk c)"

definition handler_ends :: "nat \<Rightarrow> content_cache \<Rightarrow> content_cache" where
  "handler_ends i c =
     (case cc_store c i of
        None \<Rightarrow> c
      | Some s \<Rightarrow>
          (let c' = post_sync_error (ds_gvk s) c in
           c'\<lparr>cc_store := (cc_store c')(i := map_option informerCancel (cc_store c' i))\<rparr>))"

subsection \<open>The manager\<close>

record manager_env =
  me_restConfig :: "string \<Rightarrow> go_error option"
  me_dynamicClient :: "go_error option"

type_synonym manager_impl = "(string \<times> content_cache) list"

definition mgr_Get :: "manager_env \<Rightarrow> string \<Rightarrow> manager_impl \<Rightarrow> manager_impl \<times> content_cache result" where
  "mgr_Get env name m =
     (case map_of m name of
        Some cache \<Rightarrow> (m, Inr cache)
      | None \<Rightarrow>
          (case me_restConfig env name of
             Some e \<Rightarrow> (m, Inl (ErrWrap ''getting rest.Config: '' e ''''))
           | None \<Rightarrow>
               (case me_dynamicClient env of
                  Some e \<Rightarrow> (m, Inl (ErrWrap ''getting dynamic client: '' e ''''))
                | None \<Rightarrow> (AList.update name NewCache m, Inr NewCache))))"

definition mgr_Delete :: "string \<Rightarrow> manager_impl \<Rightarrow> manager_impl \<times> go_error option" where
  "mgr_Delete name m =
     (case map_of m name of
        None \<Rightarrow> (m, None)
      | Some cache \<Rightarrow>
          (case cache_Close cache of
             (c', Some e) \<Rightarrow> (AList.update name c' m, Some (ErrWrap ''closing cache: '' e ''''))
           | (c', None) \<Rightarrow> (AList.delete name m, None)))"

section \<open>Lemmas\<close>

text \<open>
  The wait of the cache is one the source allows, after the events its outcome names, with a context
  that is done in the case of a timeout.
\<close>

lemma await_sync_allowed:
  assumes "ds_synced s = SyncOpen" and "\<not> ds_cancelled s" and "await_sync outcome s = (s', res)"
  shows "\<exists>ctxErr s1. (s1 = s \<or> s1 = ds_poll s \<or> (\<exists>e. s1 = informerCancel (fst (watch_error e s)))) \<and> WaitForSync ctxErr s1 s' res"
proof (cases "ds_started s")
  case False
  then show ?thesis using assms(3) WaitForSync.not_started [of s None] by (auto simp: await_sync_def)
next
  case True
  show ?thesis
  proof (cases outcome)
    case (SyncTimeout e)
    then show ?thesis using assms(3) True WaitForSync.ctx_done [of s "Some e" e] by (auto simp: await_sync_def)
  next
    case (SyncFailed e)
    let ?s = "informerCancel (fst (watch_error e s))"
    have "ds_started ?s" "\<exists>e'. ds_err ?s = Some e'"
      using True assms(1) by (auto simp: watch_error_def informerCancel_def hasSynced_def)
    then obtain e' where e': "ds_err ?s = Some e'" "ds_started ?s" by blast
    show ?thesis
    proof (cases "ds_err s")
      case None
      then have "ds_err ?s = Some e" using assms(1) by (simp add: watch_error_def informerCancel_def hasSynced_def)
      then have "WaitForSync None ?s ?s (Some e)" using e'(2) by (intro WaitForSync.errored)
      moreover have "s' = ?s" "res = Some e" using assms(3) True SyncFailed by (simp_all add: await_sync_def)
      ultimately show ?thesis by blast
    next
      case (Some e0)
      have "WaitForSync (Some e) ?s ?s (Some e)" using e'(2) by (intro WaitForSync.ctx_done) simp_all
      moreover have "s' = ?s" "res = Some e" using assms(3) True SyncFailed by (simp_all add: await_sync_def)
      ultimately show ?thesis by blast
    qed
  next
    case SyncDone
    have "ds_started (ds_poll s)" "ds_synced (ds_poll s) \<noteq> SyncOpen" using True assms(1,2) by (auto simp: ds_poll_def)
    from WaitForSync.synced [OF this, of None] show ?thesis
      using assms(3) True SyncDone by (fastforce simp: await_sync_def)
  qed
qed

text \<open>
  Of the events of an informer, exactly the updates and the deletions of objects requeue the owner,
  a deletion also when only its tombstone arrives; a creation never does.
\<close>

lemma events_that_requeue:
  "OnAdd source_predicates obj = None"
  "OnUpdate source_predicates old new = Some call \<longleftrightarrow> (\<exists>a b. old = ClientObj a \<and> new = ClientObj b \<and> call = HandlerUpdate a b)"
  "OnDelete source_predicates obj = Some call \<longleftrightarrow>
     (\<exists>a. obj = ClientObj a \<and> call = HandlerDelete a False \<or> obj = DeletedFinalStateUnknown (ClientObj a) \<and> call = HandlerDelete a True)"
  by (auto simp: OnAdd_def OnUpdate_def OnDelete_def source_predicates_def Let_def split: informer_obj.splits)

inductive_cases WaitForSync_okE: "WaitForSync ctxErr s s' None"

lemma WaitForSync_ok: "WaitForSync ctxErr s s' None \<Longrightarrow> ds_started s \<and> ds_synced s \<noteq> SyncOpen \<and> ds_synced s' = SyncClosed"
  by (erule WaitForSync_okE) simp

text \<open>The owner is requeued for an error exactly when the source had synchronized.\<close>

lemma watch_error_effect:
  "snd (watch_error e s) \<longleftrightarrow> ds_synced s \<noteq> SyncOpen" "ds_cancelled (fst (watch_error e s)) = ds_cancelled s" "ds_gvk (fst (watch_error e s)) = ds_gvk s"
  "ds_synced s = SyncClosed \<Longrightarrow> ds_synced (fst (watch_error e s)) = SyncClosed" "ds_started (fst (watch_error e s)) = ds_started s"
  by (simp_all add: watch_error_def hasSynced_def split: sync_chan.split)

subsection \<open>Invariant of the cache\<close>

definition healthy :: "dyn_source \<Rightarrow> bool" where
  "healthy s \<longleftrightarrow> ds_started s \<and> \<not> ds_cancelled s \<and> ds_synced s = SyncClosed"

definition cm_ok :: "content_cache \<Rightarrow> bool" where
  "cm_ok c \<longleftrightarrow>
     distinct (map fst (cc_sources c)) \<and> (\<forall>i \<ge> cc_next c. cc_store c i = None) \<and>
     (\<forall>(g, i) \<in> set (cc_sources c). i < cc_next c \<and> (\<exists>s. cc_store c i = Some s \<and> ds_gvk s = g \<and> healthy s))"

abbreviation tracked :: "content_cache \<Rightarrow> group_version_kind set" where
  "tracked c \<equiv> fst ` set (cc_sources c)"

definition closed :: "content_cache \<Rightarrow> nat \<Rightarrow> bool" where
  "closed c i \<longleftrightarrow> (case cc_store c i of None \<Rightarrow> False | Some s \<Rightarrow> ds_cancelled s)"

text \<open>A source that leaves the cache is closed, and a closed source stays so.\<close>

definition drops_closed :: "content_cache \<Rightarrow> content_cache \<Rightarrow> bool" where
  "drops_closed c c' \<longleftrightarrow> (\<forall>x \<in> set (cc_sources c). x \<notin> set (cc_sources c') \<longrightarrow> closed c' (snd x)) \<and> (\<forall>i. closed c i \<longrightarrow> closed c' i)"

lemma drops_closed_refl [simp]: "drops_closed c c"
  by (simp add: drops_closed_def)

lemma drops_closed_trans: "drops_closed a b \<Longrightarrow> drops_closed b c \<Longrightarrow> drops_closed a c"
  unfolding drops_closed_def by blast

lemma ds_Close_started: "ds_started s \<Longrightarrow> ds_Close s = Inr (informerCancel s)"
  by (simp add: ds_Close_def)

lemma cm_okD:
  "cm_ok c \<Longrightarrow> map_of (cc_sources c) g = Some i \<Longrightarrow> i < cc_next c \<and> (\<exists>s. cc_store c i = Some s \<and> ds_gvk s = g \<and> healthy s)"
  by (auto simp: cm_ok_def dest: map_of_SomeD)

lemma cm_ok_member:
  "cm_ok c \<Longrightarrow> (g, i) \<in> set (cc_sources c) \<Longrightarrow> i < cc_next c \<and> (\<exists>s. cc_store c i = Some s \<and> ds_gvk s = g \<and> healthy s)"
  by (auto simp: cm_ok_def)

lemma cm_ok_unique: "cm_ok c \<Longrightarrow> (g, i) \<in> set (cc_sources c) \<Longrightarrow> (g', i) \<in> set (cc_sources c) \<Longrightarrow> g' = g"
  using cm_ok_member [of c g i] cm_ok_member [of c g' i] by force

lemma removeSource_ok:
  assumes "cm_ok c"
  shows "\<exists>c'. removeSource g c = (c', None) \<and> cm_ok c' \<and> cc_sources c' = AList.delete g (cc_sources c) \<and> cc_next c' = cc_next c \<and> drops_closed c c'"
proof (cases "map_of (cc_sources c) g")
  case None
  then have "AList.delete g (cc_sources c) = cc_sources c"
    by (simp add: AList.delete_eq filter_id_conv map_of_eq_None_iff image_iff) force
  then show ?thesis using None assms by (simp add: removeSource_def)
next
  case (Some i)
  then obtain s where s: "cc_store c i = Some s" "healthy s" using cm_okD [OF assms] by blast
  let ?c = "c\<lparr>cc_sources := AList.delete g (cc_sources c), cc_store := (cc_store c)(i \<mapsto> informerCancel s)\<rparr>"
  have "removeSource g c = (?c, None)"
    using Some s by (simp add: removeSource_def ds_Close_started healthy_def)
  moreover have "j \<noteq> i" if "(g', j) \<in> set (cc_sources c)" "g' \<noteq> g" for g' j
  proof
    assume "j = i"
    then have "(g', i) \<in> set (cc_sources c)" "(g, i) \<in> set (cc_sources c)" using that(1) map_of_SomeD [OF Some] by simp_all
    then show False using assms that(2) using cm_ok_unique [OF assms] by blast
  qed
  then have "cm_ok ?c"
    using assms cm_okD [OF assms Some] by (auto simp: cm_ok_def AList.delete_eq distinct_map inj_on_def)
  moreover have "x = (g, i)" if "x \<in> set (cc_sources c)" "fst x = g" for x
  proof -
    have "distinct (map fst (cc_sources c))" using assms by (simp add: cm_ok_def)
    then have "map_of (cc_sources c) (fst x) = Some (snd x)" using that(1) by (simp add: map_of_eq_Some_iff)
    then show ?thesis using that(2) Some by (simp add: prod_eq_iff)
  qed
  then have "drops_closed c ?c"
    by (auto simp: drops_closed_def closed_def AList.delete_eq informerCancel_def)
  ultimately show ?thesis by auto
qed

lemma remove_sources_ok:
  "cm_ok c \<Longrightarrow> \<exists>c'. remove_sources gs c = (c', []) \<and> cm_ok c' \<and> cc_next c' = cc_next c \<and>
     cc_sources c' = filter (\<lambda>(g, i). g \<notin> set gs) (cc_sources c) \<and> drops_closed c c'"
proof (induction gs arbitrary: c)
  case (Cons g gs)
  obtain c1 where c1: "removeSource g c = (c1, None)" "cm_ok c1" "cc_sources c1 = AList.delete g (cc_sources c)" "cc_next c1 = cc_next c" "drops_closed c c1"
    using removeSource_ok [OF Cons.prems, of g] by blast
  obtain c2 where c2: "remove_sources gs c1 = (c2, [])" "cm_ok c2" "cc_next c2 = cc_next c1"
    "cc_sources c2 = filter (\<lambda>(g, i). g \<notin> set gs) (cc_sources c1)" "drops_closed c1 c2"
    using Cons.IH [OF c1(2)] by blast
  have "cc_sources c2 = filter (\<lambda>(g', i). g' \<notin> set (g # gs)) (cc_sources c)"
    unfolding c2(4) c1(3) by (auto simp: AList.delete_eq intro!: filter_cong)
  then show ?case using c1(1,4) c2(1-3) drops_closed_trans [OF c1(5) c2(5)] by simp
qed simp

lemma removeStaleSources_ok:
  assumes "cm_ok c"
  shows "\<exists>c'. removeStaleSources gvks c = (c', None) \<and> cm_ok c' \<and> cc_sources c' = filter (\<lambda>(g, i). g \<in> set gvks) (cc_sources c) \<and>
     drops_closed c c'"
proof -
  obtain c' where c': "remove_sources (filter (\<lambda>g. g \<notin> set gvks) (map fst (cc_sources c))) c = (c', [])" "cm_ok c'"
    "cc_sources c' = filter (\<lambda>(g, i). g \<notin> set (filter (\<lambda>g. g \<notin> set gvks) (map fst (cc_sources c)))) (cc_sources c)" "drops_closed c c'"
    using remove_sources_ok [OF assms] by blast
  moreover have "cc_sources c' = filter (\<lambda>(g, i). g \<in> set gvks) (cc_sources c)"
    unfolding c'(3) by (intro filter_cong) force+
  ultimately show ?thesis by (simp add: removeStaleSources_def join_sorted_def errors_Join_def List.map_filter_simps)
qed

definition starts :: "watch_env \<Rightarrow> group_version_kind \<Rightarrow> bool" where
  "starts env g \<longleftrightarrow> Source (we_Source env) g = Inr (NewDynamicSource g) \<and> we_Watch env g = WatchStart None None \<and> we_Sync env g = SyncDone"

lemma Source_new: "Source env g = Inr s \<Longrightarrow> s = NewDynamicSource g"
  by (auto simp: Source_def split: option.splits)

lemma startNewSource_cases:
  assumes "cm_ok c" and "startNewSource env g c = (c', res)"
  shows "cc_sources c' = cc_sources c" and "cm_ok c'" and "cc_next c \<le> cc_next c'"
    and "drops_closed c c'" and "starts env g \<Longrightarrow> res = Inr (cc_next c) \<and> cc_next c' = cc_next c + 1 \<and> (\<exists>s. cc_store c' (cc_next c) = Some s \<and> ds_gvk s = g \<and> healthy s)"
    and "\<not> starts env g \<Longrightarrow> \<exists>e. res = Inl e"
proof -
  have store: "cc_store c' i = cc_store c i" if "i < cc_next c" for i
    using assms(2) that by (auto simp: startNewSource_def Let_def split: sum.splits option.splits prod.splits)
  have new: "cc_store c' i = None" if "cc_next c' \<le> i" for i
    using assms that by (auto simp: cm_ok_def startNewSource_def Let_def split: sum.splits option.splits prod.splits)
  show src: "cc_sources c' = cc_sources c" and n: "cc_next c \<le> cc_next c'"
    using assms(2) by (auto simp: startNewSource_def Let_def split: sum.splits option.splits prod.splits)
  have "i < cc_next c" if "closed c i" for i
    using that assms(1) by (auto simp: closed_def cm_ok_def not_less [symmetric] split: option.splits)
  then show "drops_closed c c'" using store by (simp add: drops_closed_def src closed_def)
  show "cm_ok c'" unfolding cm_ok_def src
  proof (intro conjI ballI)
    show "distinct (map fst (cc_sources c))" using assms(1) by (simp add: cm_ok_def)
    show "\<forall>i \<ge> cc_next c'. cc_store c' i = None" using new by simp
    fix x assume "x \<in> set (cc_sources c)"
    moreover obtain h j where "x = (h, j)" by force
    ultimately show "case x of (g, i) \<Rightarrow> i < cc_next c' \<and> (\<exists>s. cc_store c' i = Some s \<and> ds_gvk s = g \<and> healthy s)"
      using cm_ok_member [OF assms(1), of h j] store [of j] n by auto
  qed
  show "starts env g \<Longrightarrow> res = Inr (cc_next c) \<and> cc_next c' = cc_next c + 1 \<and> (\<exists>s. cc_store c' (cc_next c) = Some s \<and> ds_gvk s = g \<and> healthy s)"
    using assms(2)
    by (auto simp: starts_def startNewSource_def Let_def watcher_Watch_def ds_Start_def await_sync_def ds_poll_def NewDynamicSource_def healthy_def)
  show "\<not> starts env g \<Longrightarrow> \<exists>e. res = Inl e"
    using assms(2)
    by (auto simp: starts_def startNewSource_def Let_def watcher_Watch_def ds_Start_def await_sync_def NewDynamicSource_def dest!: Source_new
      split: sum.splits option.splits watch_outcome.splits sync_outcome.splits if_splits prod.splits)
qed

lemma start_sources_ok:
  "cm_ok c \<Longrightarrow> distinct gs \<Longrightarrow> set gs \<inter> tracked c = {} \<Longrightarrow>
   \<exists>c' errs. start_sources env gs c = Some (c', errs) \<and> cm_ok c' \<and> (errs = [] \<longleftrightarrow> (\<forall>g \<in> set gs. starts env g)) \<and>
     tracked c' = tracked c \<union> {g \<in> set gs. starts env g} \<and> (\<forall>g \<in> tracked c. map_of (cc_sources c') g = map_of (cc_sources c) g) \<and> drops_closed c c'"
proof (induction gs arbitrary: c)
  case (Cons g gs)
  obtain c1 res where s: "startNewSource env g c = (c1, res)" by fastforce
  note cases = startNewSource_cases [OF Cons.prems(1) s]
  show ?case
  proof (cases "starts env g")
    case False
    then obtain e where "res = Inl e" using cases(6) by blast
    moreover obtain c' errs where "start_sources env gs c1 = Some (c', errs)" "cm_ok c'"
      "tracked c' = tracked c \<union> {g \<in> set gs. starts env g}" "\<forall>g \<in> tracked c. map_of (cc_sources c') g = map_of (cc_sources c) g"
      "drops_closed c1 c'"
      using Cons.IH [OF cases(2)] Cons.prems cases(1) by auto
    ultimately show ?thesis using False s drops_closed_trans [OF cases(4)] by (intro exI [of _ c'] exI [of _ "e # errs"]) auto
  next
    case True
    let ?i = "cc_next c" and ?c = "c1\<lparr>cc_sources := cc_sources c @ [(g, cc_next c)]\<rparr>"
    obtain st where st: "res = Inr ?i" "cc_next c1 = ?i + 1" "cc_store c1 ?i = Some st" "ds_gvk st = g" "healthy st" using cases(5) [OF True] by blast
    have fresh: "g \<notin> tracked c" using Cons.prems(3) by auto
    then have "addSource g ?i c1 = Some ?c" using cases(1) by (simp add: addSource_def map_of_eq_None_iff)
    moreover have "j < ?i" if "(g', j) \<in> set (cc_sources c)" for g' j
      using that Cons.prems(1) by (auto simp: cm_ok_def)
    then have ok: "cm_ok ?c"
      using cases(1,2) st fresh by (fastforce simp: cm_ok_def image_iff)
    moreover have "set gs \<inter> tracked ?c = {}" using Cons.prems(2,3) by auto
    ultimately obtain c' errs where "start_sources env (g # gs) c = Some (c', errs)" "cm_ok c'" "errs = [] \<longleftrightarrow> (\<forall>g \<in> set gs. starts env g)"
      "tracked c' = tracked ?c \<union> {g \<in> set gs. starts env g}" "\<forall>g \<in> tracked ?c. map_of (cc_sources c') g = map_of (cc_sources ?c) g" "drops_closed ?c c'"
      using Cons.IH [OF ok] Cons.prems(2) s st(1) by auto
    moreover have "drops_closed c ?c" using cases(4) by (auto simp: drops_closed_def closed_def)
    then have "drops_closed c c'" using drops_closed_trans calculation(6) by blast
    ultimately show ?thesis using True fresh by (intro exI [of _ c'] exI [of _ errs]) (auto simp: map_add_def map_of_eq_None_iff split: option.split)
  qed
qed simp

lemma join_sorted_None [simp]: "join_sorted errs = None \<longleftrightarrow> errs = []"
proof -
  have "insert_by f x xs \<noteq> []" for f x and xs :: "go_error list" by (cases xs) auto
  then have "sort_by f errs = [] \<longleftrightarrow> errs = []" for f by (cases errs) auto
  moreover have "errors_Join (map Some xs) = None \<longleftrightarrow> xs = []" for xs
    by (cases xs) (simp_all add: errors_Join_def List.map_filter_simps)
  ultimately show ?thesis unfolding join_sorted_def by (simp del: errors_Join_None)
qed

lemma join_sorted_Nil [simp]: "join_sorted [] = None"
  by simp

lemma gvksForObjects_distinct: "gvksForObjects objs = Inr gvks \<Longrightarrow> distinct gvks"
  by (induction objs arbitrary: gvks) (auto simp: Let_def split: if_splits sum.splits)

lemma map_of_filter_keys: "P k \<Longrightarrow> map_of (filter (\<lambda>(k, v). P k) xs) k = map_of xs k"
  by (induction xs) auto

lemma cache_Watch_ok:
  assumes ok: "cm_ok c" and gvks: "gvksForObjects objs = Inr gvks"
  shows "\<exists>c' err. cache_Watch env objs c = Some (c', err) \<and> cm_ok c' \<and>
    tracked c' = {g \<in> set gvks. g \<in> tracked c \<or> starts env g} \<and> (err = None \<longleftrightarrow> tracked c' = set gvks) \<and>
    (\<forall>g \<in> tracked c \<inter> set gvks. map_of (cc_sources c') g = map_of (cc_sources c) g) \<and> drops_closed c c'"
proof -
  obtain c1 where c1: "removeStaleSources gvks c = (c1, None)" "cm_ok c1" "drops_closed c c1"
    "cc_sources c1 = filter (\<lambda>(g, i). g \<in> set gvks) (cc_sources c)" using removeStaleSources_ok [OF ok] by blast
  have t1: "tracked c1 = tracked c \<inter> set gvks" unfolding c1(4) by force
  have m1: "map_of (cc_sources c1) g = map_of (cc_sources c) g" if "g \<in> set gvks" for g
    unfolding c1(4) using that by (rule map_of_filter_keys)
  let ?gs = "filter (\<lambda>g. g \<notin> set (map fst (cc_sources c1))) gvks"
  have "distinct ?gs" "set ?gs \<inter> tracked c1 = {}" using gvksForObjects_distinct [OF gvks] by auto
  from start_sources_ok [OF c1(2) this, of env] obtain c' errs where c':
    "start_sources env ?gs c1 = Some (c', errs)" "cm_ok c'" "errs = [] \<longleftrightarrow> (\<forall>g \<in> set ?gs. starts env g)"
    "tracked c' = tracked c1 \<union> {g \<in> set ?gs. starts env g}" "\<forall>g \<in> tracked c1. map_of (cc_sources c') g = map_of (cc_sources c1) g"
    "drops_closed c1 c'" by (elim exE conjE)
  have w: "cache_Watch env objs c = Some (c', join_sorted errs)"
    using gvks c1(1) c'(1) by (simp add: cache_Watch_def startNewSources_def)
  moreover have "tracked c' = {g \<in> set gvks. g \<in> tracked c \<or> starts env g}" using c'(4) t1 by auto
  moreover from this have "join_sorted errs = None \<longleftrightarrow> tracked c' = set gvks" using c'(3) t1 by auto
  moreover have "\<forall>g \<in> tracked c \<inter> set gvks. map_of (cc_sources c') g = map_of (cc_sources c) g" using c'(5) m1 t1 by auto
  ultimately show ?thesis using c'(2) drops_closed_trans [OF c1(3) c'(6)] by (intro exI [of _ c'] exI conjI)
qed

subsection \<open>Runs\<close>

text \<open>
  What can happen to a cache and its sources: calls of \<open>Watch\<close>, the start of a source that the
  controller had kept, the poll of a source, an error of its watch, and the rest of the handler of an
  error after the first synchronization, which waits for the lock of the cache; the set holds the
  sources whose handler waits.
\<close>

abbreviation put_source :: "nat \<Rightarrow> dyn_source \<Rightarrow> content_cache \<Rightarrow> content_cache" where
  "put_source i s c \<equiv> c\<lparr>cc_store := (cc_store c)(i \<mapsto> s)\<rparr>"

inductive cm_run :: "content_cache \<Rightarrow> nat set \<Rightarrow> bool" where
  run_new: "cm_run NewCache {}"
| run_watch: "cm_run c P \<Longrightarrow> cache_Watch env objs c = Some (c', err) \<Longrightarrow> cm_run c' P"
| run_start: "cm_run c P \<Longrightarrow> cc_store c i = Some s \<Longrightarrow> ds_Start e1 e2 s = Some (s', err) \<Longrightarrow> cm_run (put_source i s' c) P"
| run_poll: "cm_run c P \<Longrightarrow> cc_store c i = Some s \<Longrightarrow> cm_run (put_source i (ds_poll s) c) P"
| run_error: "cm_run c P \<Longrightarrow> cc_store c i = Some s \<Longrightarrow> watch_error e s = (s', False) \<Longrightarrow> cm_run (put_source i (informerCancel s') c) P"
| run_late_error: "cm_run c P \<Longrightarrow> cc_store c i = Some s \<Longrightarrow> watch_error e s = (s', True) \<Longrightarrow> cm_run (put_source i s' c) (insert i P)"
| run_handler: "cm_run c P \<Longrightarrow> i \<in> P \<Longrightarrow> cm_run (handler_ends i c) (P - {i})"

lemma cm_ok_put_source:
  assumes "cm_ok c" and "cc_store c i = Some s" and "ds_gvk s' = ds_gvk s" and "healthy s \<Longrightarrow> healthy s'"
  shows "cm_ok (put_source i s' c)"
proof -
  have "i < cc_next c" using assms(1,2) unfolding cm_ok_def by (metis not_less option.distinct(1))
  then show ?thesis using assms unfolding cm_ok_def by (fastforce split: prod.splits)
qed

lemma cache_Watch_run_ok: "cm_ok c \<Longrightarrow> cache_Watch env objs c = Some (c', err) \<Longrightarrow> cm_ok c'"
  using cache_Watch_ok [of c objs _ env] by (cases "gvksForObjects objs") (auto simp: cache_Watch_def)

lemma handler_ends_ok:
  assumes "cm_ok c"
  shows "cm_ok (handler_ends i c)"
proof (cases "cc_store c i")
  case (Some s)
  obtain c' where c': "removeSource (ds_gvk s) c = (c', None)" "cm_ok c'" "cc_sources c' = AList.delete (ds_gvk s) (cc_sources c)"
    using removeSource_ok [OF assms] by blast
  have untracked: "j \<noteq> i" if "(g, j) \<in> set (cc_sources c')" for g j
    using that c'(3) cm_ok_member [OF assms, of g j] Some by (auto simp: AList.delete_eq)
  show ?thesis
  proof (cases "cc_store c' i")
    case None
    then have "(cc_store c')(i := None) = cc_store c'" by auto
    then show ?thesis using c' Some None by (simp add: handler_ends_def post_sync_error_def)
  next
    case s': (Some s')
    have "i < cc_next c'" using c'(2) s' unfolding cm_ok_def by (metis not_less option.distinct(1))
    then have "cm_ok (put_source i (informerCancel s') c')"
      using c'(2) untracked unfolding cm_ok_def by (fastforce split: prod.splits)
    then show ?thesis using c' Some s' by (simp add: handler_ends_def post_sync_error_def)
  qed
qed (use assms in \<open>simp add: handler_ends_def\<close>)

lemma healthy_watch_error: "healthy s \<Longrightarrow> healthy (fst (watch_error e s))"
  by (simp add: healthy_def watch_error_effect)

lemma cm_run_ok: "cm_run c P \<Longrightarrow> cm_ok c"
proof (induction rule: cm_run.induct)
  case run_new
  show ?case by (simp add: cm_ok_def NewCache_def)
next
  case (run_watch c P env objs c' err)
  then show ?case using cache_Watch_run_ok by blast
next
  case (run_start c P i s e1 e2 s' err)
  then show ?case by (intro cm_ok_put_source [of c i s]) (auto simp: ds_Start_def healthy_def Let_def split: if_splits option.splits)
next
  case (run_poll c P i s)
  then show ?case by (intro cm_ok_put_source [of c i s]) (auto simp: ds_poll_def healthy_def)
next
  case (run_error c P i s e s')
  then have "\<not> healthy s" "ds_gvk s' = ds_gvk s"
    using watch_error_effect [where e = e and s = s] by (auto simp: healthy_def)
  then show ?case using run_error by (intro cm_ok_put_source [of c i s]) (auto simp: informerCancel_def)
next
  case (run_late_error c P i s e s')
  moreover have "ds_gvk s' = ds_gvk s" "healthy s \<Longrightarrow> healthy s'"
    using run_late_error(3) watch_error_effect(3) [of e s] healthy_watch_error [of s e] by simp_all
  ultimately show ?case by (intro cm_ok_put_source [of c i s]) simp_all
next
  case (run_handler c P i)
  then show ?case using handler_ends_ok by blast
qed

subsection \<open>Closing\<close>

lemma close_all_ok:
  "\<forall>i \<in> set is. \<exists>s. st i = Some s \<and> ds_started s \<Longrightarrow>
   \<exists>st'. close_all is st = (st', []) \<and> (\<forall>i \<in> set is. \<exists>s. st' i = Some s \<and> ds_cancelled s) \<and>
     (\<forall>i s. st i = Some s \<and> ds_cancelled s \<longrightarrow> (\<exists>s. st' i = Some s \<and> ds_cancelled s))"
proof (induction "is" arbitrary: st)
  case (Cons i "is")
  obtain s where s: "st i = Some s" "ds_started s" using Cons.prems by auto
  let ?st = "st(i \<mapsto> informerCancel s)"
  have "\<forall>j \<in> set is. \<exists>s. ?st j = Some s \<and> ds_started s" using Cons.prems s by (auto simp: informerCancel_def)
  from Cons.IH [OF this] obtain st' where st': "close_all is ?st = (st', [])" "\<forall>i \<in> set is. \<exists>s. st' i = Some s \<and> ds_cancelled s"
    "\<forall>j s. ?st j = Some s \<and> ds_cancelled s \<longrightarrow> (\<exists>s. st' j = Some s \<and> ds_cancelled s)" by (elim exE conjE)
  have keep: "\<exists>s. st' j = Some s \<and> ds_cancelled s" if "j = i \<or> st j = Some s' \<and> ds_cancelled s'" for j s'
    using that st'(3) [rule_format, of j] s by (cases "j = i") (auto simp: informerCancel_def)
  have "close_all (i # is) st = (st', [])" using s st'(1) by (simp add: ds_Close_started)
  then show ?case using st'(2) keep by auto
qed simp

lemma cache_Close_ok:
  assumes "cm_ok c"
  shows "snd (cache_Close c) = None" and "\<forall>(g, i) \<in> set (cc_sources c). closed (fst (cache_Close c)) i"
proof -
  have "\<forall>i \<in> set (map snd (cc_sources c)). \<exists>s. cc_store c i = Some s \<and> ds_started s"
    using cm_ok_member [OF assms] by (fastforce simp: healthy_def)
  from close_all_ok [OF this] obtain st' where st': "close_all (map snd (cc_sources c)) (cc_store c) = (st', [])"
    "\<forall>i \<in> set (map snd (cc_sources c)). \<exists>s. st' i = Some s \<and> ds_cancelled s" by (elim exE conjE)
  show "snd (cache_Close c) = None" using st'(1) by (simp add: cache_Close_def)
  show "\<forall>(g, i) \<in> set (cc_sources c). closed (fst (cache_Close c)) i"
  proof (clarify)
    fix g i assume "(g, i) \<in> set (cc_sources c)"
    then have "i \<in> set (map snd (cc_sources c))" by force
    then show "closed (fst (cache_Close c)) i" using st' by (auto simp: cache_Close_def closed_def)
  qed
qed

text \<open>Deleting the cache of an extension always succeeds, and the next request makes a new one.\<close>

lemma mgr_Delete_ok:
  "map_of m name = Some c \<Longrightarrow> cm_run c P \<Longrightarrow> mgr_Delete name m = (AList.delete name m, None)"
  using cache_Close_ok(1) [OF cm_run_ok, of c P] by (cases "cache_Close c") (simp add: mgr_Delete_def)

subsection \<open>Sources outside the cache\<close>

text \<open>
  A source that is started and does not synchronize in time is neither closed nor kept: its informer
  goes on, and nothing in the cache can stop it any more.
\<close>

lemma sync_timeout_leaks:
  assumes "cm_ok c" and "Source (we_Source env) g = Inr s0" and "we_Watch env g = WatchStart None None" and "we_Sync env g = SyncTimeout e"
    and "startNewSource env g c = (c', res)"
  shows "res = Inl (ErrWrap ''waiting for sync: '' e '''')" and "cc_next c \<notin> snd ` set (cc_sources c')"
    and "\<exists>s. cc_store c' (cc_next c) = Some s \<and> ds_started s \<and> \<not> ds_cancelled s"
proof -
  have "j < cc_next c" if "(h, j) \<in> set (cc_sources c)" for h j using cm_ok_member [OF assms(1) that] by simp
  then show "cc_next c \<notin> snd ` set (cc_sources c')" unfolding startNewSource_cases(1) [OF assms(1,5)] by force
  show "res = Inl (ErrWrap ''waiting for sync: '' e '''')" "\<exists>s. cc_store c' (cc_next c) = Some s \<and> ds_started s \<and> \<not> ds_cancelled s"
    using assms(2-5) Source_new [OF assms(2)]
    by (auto simp: startNewSource_def watcher_Watch_def ds_Start_def await_sync_def NewDynamicSource_def Let_def)
qed

definition example_env :: watch_env where
  "example_env = \<lparr>we_Source = \<lparr>se_AddToScheme = None, se_RESTMapping = (\<lambda>g. None)\<rparr>, we_Watch = (\<lambda>g. WatchStart None None), we_Sync = (\<lambda>g. SyncDone)\<rparr>"

definition example_object :: json where
  "example_object = JObj [(''apiVersion'', JStr ''v1''), (''kind'', JStr ''ConfigMap'')]"

definition example_gvk :: group_version_kind where
  "example_gvk = \<lparr>gvk_Group = '''', gvk_Version = ''v1'', gvk_Kind = ''ConfigMap''\<rparr>"

definition example_source :: dyn_source where
  "example_source = \<lparr>ds_gvk = example_gvk, ds_started = True, ds_cancelled = False, ds_err = None, ds_synced = SyncClosed\<rparr>"

lemma example_gvks: "gvksForObjects [example_object] = Inr [example_gvk]"
  by code_simp

lemma example_watch:
  "cache_Watch example_env [example_object] \<lparr>cc_sources = [], cc_store = st, cc_next = n\<rparr> =
     Some (\<lparr>cc_sources = [(example_gvk, n)], cc_store = st(n \<mapsto> example_source), cc_next = n + 1\<rparr>, None)"
  by (simp add: cache_Watch_def example_gvks removeStaleSources_def startNewSources_def startNewSource_def example_env_def Source_def
    watcher_Watch_def ds_Start_def await_sync_def ds_poll_def NewDynamicSource_def addSource_def example_source_def
    del: gvksForObjects.simps)

text \<open>
  The callback of a source names its kind only. When its handler waits for the lock while the cache
  drops the source and takes a new one for the kind, it closes and removes the new one, which is in
  order; the owner is requeued.
\<close>

lemma late_callback_closes_replacement:
  "\<exists>c P. cm_run c P \<and> 0 \<in> P \<and> map_of (cc_sources c) example_gvk = Some 1 \<and> cc_store c 1 = Some example_source \<and>
     map_of (cc_sources (handler_ends 0 c)) example_gvk = None \<and> closed (handler_ends 0 c) 1"
proof -
  let ?err = "ErrText ''watch closed''" and ?watch = "cache_Watch example_env"
  let ?failed = "example_source\<lparr>ds_err := Some (ErrText ''watch closed'')\<rparr>"
  let ?c1 = "\<lparr>cc_sources = [(example_gvk, 0)], cc_store = Map.empty(0 \<mapsto> example_source), cc_next = 1\<rparr>"
  let ?c2 = "put_source 0 ?failed ?c1"
  let ?c3 = "\<lparr>cc_sources = [], cc_store = Map.empty(0 \<mapsto> informerCancel ?failed), cc_next = 1\<rparr>"
  let ?c4 = "\<lparr>cc_sources = [(example_gvk, 1)], cc_store = [0 \<mapsto> informerCancel ?failed, 1 \<mapsto> example_source], cc_next = 2\<rparr>"
  have "cm_run ?c1 {}"
    using cm_run.run_watch [OF cm_run.run_new] example_watch [of Map.empty 0] by (simp add: NewCache_def)
  moreover have "watch_error ?err example_source = (?failed, True)"
    by (simp add: watch_error_def hasSynced_def example_source_def)
  ultimately have "cm_run ?c2 {0}" using cm_run.run_late_error [of ?c1 "{}" 0] by simp
  moreover have "?watch [] ?c2 = Some (?c3, None)"
    by (simp add: cache_Watch_def removeStaleSources_def removeSource_def ds_Close_def startNewSources_def example_source_def)
  ultimately have "cm_run ?c3 {0}" by (rule cm_run.run_watch)
  moreover have "?watch [example_object] ?c3 = Some (?c4, None)"
    unfolding example_watch by (simp add: numeral_2_eq_2)
  ultimately have "cm_run ?c4 {0}" by (rule cm_run.run_watch)
  moreover have "handler_ends 0 ?c4 = \<lparr>cc_sources = [],
      cc_store = [0 \<mapsto> informerCancel ?failed, 1 \<mapsto> informerCancel example_source], cc_next = 2\<rparr>"
    by (simp add: handler_ends_def post_sync_error_def removeSource_def ds_Close_def informerCancel_def example_source_def fun_upd_twist)
  ultimately show ?thesis by (intro exI [of _ ?c4] exI [of _ "{0}"]) (simp add: closed_def informerCancel_def)
qed

section \<open>Properties\<close>



text \<open>
  C36: a call of \<open>Watch\<close> on objects with kinds and versions never panics. Afterwards the cache holds
  the sources of exactly those kinds of the objects that it held already or that could be started, the
  error is absent exactly when that is all of them, a source that is still needed is not replaced, and
  a source that the cache no longer holds is closed.
\<close>

theorem watch_tracks_exactly:
  assumes "cm_run c P" and "gvksForObjects objs = Inr gvks"
  shows "\<exists>c' err. cache_Watch env objs c = Some (c', err) \<and>
    fst ` set (cc_sources c') = {g \<in> set gvks. map_of (cc_sources c) g \<noteq> None \<or> starts env g} \<and>
    (err = None \<longleftrightarrow> fst ` set (cc_sources c') = set gvks) \<and>
    (\<forall>g i. g \<in> set gvks \<and> map_of (cc_sources c) g = Some i \<longrightarrow> map_of (cc_sources c') g = Some i) \<and>
    (\<forall>g i. g \<notin> set gvks \<and> map_of (cc_sources c) g = Some i \<longrightarrow> closed c' i)"
proof -
  have dom: "g \<in> tracked c \<longleftrightarrow> map_of (cc_sources c) g \<noteq> None" for g by (auto simp: map_of_eq_None_iff)
  from cache_Watch_ok [OF cm_run_ok [OF assms(1)] assms(2), of env] obtain c' err where w:
    "cache_Watch env objs c = Some (c', err)" "cm_ok c'" "tracked c' = {g \<in> set gvks. g \<in> tracked c \<or> starts env g}"
    "err = None \<longleftrightarrow> tracked c' = set gvks" "\<forall>g \<in> tracked c \<inter> set gvks. map_of (cc_sources c') g = map_of (cc_sources c) g"
    "drops_closed c c'" by (elim exE conjE)
  have "closed c' i" if "g \<notin> set gvks" "map_of (cc_sources c) g = Some i" for g i
  proof -
    have "(g, i) \<notin> set (cc_sources c')" using that(1) w(3) by force
    then show ?thesis using map_of_SomeD [OF that(2)] w(6) by (force simp: drops_closed_def)
  qed
  then show ?thesis using w(1,3,4,5) dom by (intro exI [of _ c'] exI [of _ err]) auto
qed

theorem watch_tracks_exactly_witness:
  "cm_run NewCache {} \<and> gvksForObjects [example_object] = Inr [example_gvk] \<and>
   (\<exists>c' err. cache_Watch example_env [example_object] NewCache = Some (c', err) \<and> fst ` set (cc_sources c') = {example_gvk} \<and> err = None)"
proof -
  have "starts example_env example_gvk" by (simp add: starts_def example_env_def Source_def)
  then show ?thesis using watch_tracks_exactly [OF cm_run.run_new example_gvks, of example_env] cm_run.run_new example_gvks
    by (auto simp: NewCache_def simp del: gvksForObjects.simps)
qed

end
