(* ===== verification/Service_Tokens.thy ===== *)
theory Service_Tokens
  imports Revision_Generator
begin

text \<open>
  The identity under which the objects of an extension are managed: the cache of service account tokens
  and the round tripper that puts them into requests (\<open>authentication/tokengetter.go\<close>, \<open>tripper.go\<close>,
  \<open>synthetic.go\<close>), the REST configurations of an extension (\<open>action/restconfig.go\<close>) and the service
  account of a revision (\<open>controllers/revision_engine_factory.go\<close>). The clock, the API call that creates
  a token and the transport below the round tripper are parameters.
\<close>

section \<open>Definitions\<close>

subsection \<open>The token cache\<close>

text \<open>Times and durations are nanoseconds, times from the Unix epoch; the zero time is that of the year one.\<close>

definition year_one :: int where
  "year_one = - 62135596800 * 1000000000"

definition DefaultExpirationDuration :: int where
  "DefaultExpirationDuration = 5 * 60 * 1000000000"

text \<open>
  The product of the duration with the double nearest to 0.1, as the conversion to an integer
  truncates it. Rounding the product to a double does not change its integer part for durations
  below \<open>2 ^ 50\<close> nanoseconds, about thirteen days.
\<close>

definition rotationThreshold :: "int \<Rightarrow> int" where
  "rotationThreshold d = (let c = 3602879701896397 in if d < 0 then - ((- d) * c div 2 ^ 55) else d * c div 2 ^ 55)"

definition duration_seconds :: "int \<Rightarrow> int" where
  "duration_seconds d = (if d < 0 then - ((- d) div 1000000000) else d div 1000000000)"

record token_status =
  tk_Token :: string
  tk_ExpirationTimestamp :: int

record token_getter =
  tg_expirationDuration :: int
  tg_tokens :: "namespaced_name \<rightharpoonup> token_status"

definition NewTokenGetter :: token_getter where
  "NewTokenGetter = \<lparr>tg_expirationDuration = DefaultExpirationDuration, tg_tokens = Map.empty\<rparr>"

definition ServiceAccountNotFoundError :: "namespaced_name \<Rightarrow> go_error" where
  "ServiceAccountNotFoundError key =
     ErrText (''service account '' @ [CHR 0x22] @ nn_Name key @ [CHR 0x22] @ '' not found in namespace '' @ [CHR 0x22] @
       nn_Namespace key @ [CHR 0x22] @ '': unable to authenticate with the Kubernetes cluster.'')"

text \<open>
  The world of one request for a token: the clock when the threshold is computed, the clock when each
  token is looked at for expiry, and the API call, which is given the account and the lifetime in
  seconds.
\<close>

record token_env =
  te_now :: int
  te_reap_now :: "namespaced_name \<Rightarrow> int"
  te_CreateToken :: "namespaced_name \<Rightarrow> int \<Rightarrow> token_status result"

definition getToken :: "token_env \<Rightarrow> namespaced_name \<Rightarrow> token_getter \<Rightarrow> token_status result" where
  "getToken env key t =
     (case te_CreateToken env key (duration_seconds (tg_expirationDuration t)) of
        Inl e \<Rightarrow> Inl (if IsNotFound e then ServiceAccountNotFoundError key else e)
      | Inr status \<Rightarrow> Inr status)"

definition reapExpiredTokens :: "(namespaced_name \<Rightarrow> int) \<Rightarrow> token_getter \<Rightarrow> token_getter" where
  "reapExpiredTokens now t =
     t\<lparr>tg_tokens := (\<lambda>key. case tg_tokens t key of
        None \<Rightarrow> None
      | Some token \<Rightarrow> if now key - tk_ExpirationTimestamp token > 0 then None else Some token)\<rparr>"

text \<open>\<open>None\<close> is the dereference of a missing token, when the clock is before the year one.\<close>

definition token_Get :: "token_env \<Rightarrow> namespaced_name \<Rightarrow> token_getter \<Rightarrow> (token_getter \<times> string result) option" where
  "token_Get env key t =
     (let token = tg_tokens t key;
          expireTime = (case token of None \<Rightarrow> year_one | Some tk \<Rightarrow> tk_ExpirationTimestamp tk);
          rotationThresholdAfterNow = te_now env + rotationThreshold (tg_expirationDuration t) in
      if expireTime < rotationThresholdAfterNow then
        (case getToken env key t of
           Inl e \<Rightarrow> Some (t, Inl e)
         | Inr tk \<Rightarrow> Some (reapExpiredTokens (te_reap_now env) (t\<lparr>tg_tokens := (tg_tokens t)(key \<mapsto> tk)\<rparr>), Inr (tk_Token tk)))
      else
        (case token of
           None \<Rightarrow> None
         | Some tk \<Rightarrow> Some (reapExpiredTokens (te_reap_now env) t, Inr (tk_Token tk))))"

definition token_Delete :: "namespaced_name \<Rightarrow> token_getter \<Rightarrow> token_getter" where
  "token_Delete key t = t\<lparr>tg_tokens := (tg_tokens t)(key := None)\<rparr>"

subsection \<open>The round tripper\<close>

text \<open>
  The body of a request is what is left to read of it: the clone of a request has headers of its own
  and the same reader for the body. The transport returns what it left of the body.
\<close>

record http_req =
  hq_Method :: string
  hq_URL :: string
  hq_Header :: "string \<rightharpoonup> string list"
  hq_Body :: string

record http_resp =
  hp_StatusCode :: int
  hp_Body :: string

type_synonym transport = "http_req \<Rightarrow> string \<times> http_resp option \<times> go_error option"

record attempt =
  at_sent :: "http_req option"
  at_rest :: string
  at_resp :: "http_resp option"
  at_err :: "go_error option"

definition set_token :: "string \<Rightarrow> http_req \<Rightarrow> http_req" where
  "set_token token req = req\<lparr>hq_Header := (hq_Header req)(''Authorization'' \<mapsto> [''Bearer '' @ token])\<rparr>"

definition tripper_do :: "token_env \<Rightarrow> transport \<Rightarrow> namespaced_name \<Rightarrow> http_req \<Rightarrow> token_getter \<Rightarrow> (token_getter \<times> attempt) option" where
  "tripper_do env tripper key req t =
     (case token_Get env key t of
        None \<Rightarrow> None
      | Some (t', Inl e) \<Rightarrow> Some (t', \<lparr>at_sent = None, at_rest = hq_Body req, at_resp = None, at_err = Some e\<rparr>)
      | Some (t', Inr token) \<Rightarrow>
          (let reqClone = set_token token req;
               (rest, resp, err) = tripper reqClone in
           Some (t', \<lparr>at_sent = Some reqClone, at_rest = rest, at_resp = resp, at_err = err\<rparr>)))"

text \<open>The attempts of a round trip, the last of which gives its result.\<close>

definition RoundTrip ::
  "token_env \<Rightarrow> transport \<Rightarrow> token_env \<Rightarrow> transport \<Rightarrow> namespaced_name \<Rightarrow> http_req \<Rightarrow> token_getter \<Rightarrow> (token_getter \<times> attempt list) option" where
  "RoundTrip env tripper env' tripper' key req t =
     (case tripper_do env tripper key req t of
        None \<Rightarrow> None
      | Some (t1, a1) \<Rightarrow>
          (if (case at_resp a1 of None \<Rightarrow> False | Some resp \<Rightarrow> hp_StatusCode resp = 401) then
             (case tripper_do env' tripper' key (req\<lparr>hq_Body := at_rest a1\<rparr>) (token_Delete key t1) of
                None \<Rightarrow> None
              | Some (t2, a2) \<Rightarrow> Some (t2, [a1, a2]))
           else Some (t1, [a1])))"

subsection \<open>REST configurations\<close>

record impersonation =
  imp_UserName :: string
  imp_Groups :: "string list"

definition SyntheticImpersonationConfig :: "cluster_extension \<Rightarrow> impersonation" where
  "SyntheticImpersonationConfig ext =
     \<lparr>imp_UserName = ''olm:clusterextension:'' @ meta_Name (ext_Meta ext), imp_Groups = [''olm:clusterextensions'']\<rparr>"

text \<open>
  Of a REST configuration, the server, what authenticates its user, and the wrappers of its transport,
  the outermost last.
\<close>

datatype transport_wrapper = WrapToken namespaced_name | WrapImpersonate impersonation | WrapOther string

record rest_config =
  rc_Host :: string
  rc_Username :: string
  rc_Password :: string
  rc_BearerToken :: string
  rc_BearerTokenFile :: string
  rc_CertData :: string
  rc_WrapTransport :: "transport_wrapper list"

definition AnonymousClientConfig :: "rest_config \<Rightarrow> rest_config" where
  "AnonymousClientConfig c =
     \<lparr>rc_Host = rc_Host c, rc_Username = '''', rc_Password = '''', rc_BearerToken = '''', rc_BearerTokenFile = '''',
      rc_CertData = '''', rc_WrapTransport = []\<rparr>"

definition config_Wrap :: "transport_wrapper \<Rightarrow> rest_config \<Rightarrow> rest_config" where
  "config_Wrap w c = c\<lparr>rc_WrapTransport := rc_WrapTransport c @ [w]\<rparr>"

datatype mapper_object = ObjectNil | ObjectExtension cluster_extension | ObjectOther

definition validate_mapper :: "mapper_object \<Rightarrow> rest_config option \<Rightarrow> (cluster_extension \<times> rest_config) result" where
  "validate_mapper obj c =
     (case c of
        None \<Rightarrow> Inl (ErrText ''rest config is nil'')
      | Some cfg \<Rightarrow>
          (case obj of
             ObjectNil \<Rightarrow> Inl (ErrText ''object is nil'')
           | ObjectOther \<Rightarrow> Inl (ErrText ''object is not a ClusterExtension'')
           | ObjectExtension ext \<Rightarrow> Inr (ext, cfg)))"

type_synonym config_mapper = "mapper_object \<Rightarrow> rest_config option \<Rightarrow> rest_config result"

definition extension_key :: "cluster_extension \<Rightarrow> namespaced_name" where
  "extension_key ext = \<lparr>nn_Namespace = exts_Namespace (ext_Spec ext), nn_Name = exts_ServiceAccount (ext_Spec ext)\<rparr>"

definition ServiceAccountRestConfigMapper :: config_mapper where
  "ServiceAccountRestConfigMapper obj c =
     (case validate_mapper obj c of
        Inl e \<Rightarrow> Inl e
      | Inr (ext, cfg) \<Rightarrow> Inr (config_Wrap (WrapToken (extension_key ext)) (AnonymousClientConfig cfg)))"

definition syntheticServiceAccountName :: string where
  "syntheticServiceAccountName = ''olm.synthetic-user''"

definition SyntheticUserRestConfigMapper :: "config_mapper \<Rightarrow> config_mapper" where
  "SyntheticUserRestConfigMapper defaultAuthMapper obj c =
     (case validate_mapper obj c of
        Inl e \<Rightarrow> Inl e
      | Inr (ext, cfg) \<Rightarrow>
          (if exts_ServiceAccount (ext_Spec ext) \<noteq> syntheticServiceAccountName then defaultAuthMapper (ObjectExtension ext) c
           else Inr (config_Wrap (WrapImpersonate (SyntheticImpersonationConfig ext)) cfg)))"

subsection \<open>The service account of a revision\<close>

text \<open>The annotations of the revision, where \<open>None\<close> is the nil map, and its name.\<close>

definition getServiceAccount :: "string \<Rightarrow> string_map option \<Rightarrow> namespaced_name result" where
  "getServiceAccount name annotations =
     (case annotations of
        None \<Rightarrow> Inl (ErrText (''revision '' @ go_quote name @ '' is missing required annotations''))
      | Some m \<Rightarrow>
          (let saName = trim_space (map_get m ServiceAccountNameKey); saNamespace = trim_space (map_get m ServiceAccountNamespaceKey) in
           if saName = '''' then Inl (ErrText (''revision '' @ go_quote name @ '' is missing ServiceAccount name annotation''))
           else if saNamespace = '''' then Inl (ErrText (''revision '' @ go_quote name @ '' is missing ServiceAccount namespace annotation''))
           else Inr \<lparr>nn_Namespace = saNamespace, nn_Name = saName\<rparr>))"

definition createScopedClient :: "(rest_config \<Rightarrow> go_error option) \<Rightarrow> rest_config \<Rightarrow> namespaced_name \<Rightarrow> rest_config result" where
  "createScopedClient client_New base key =
     (let saConfig = config_Wrap (WrapToken key) (AnonymousClientConfig base) in
      case client_New saConfig of
        Some e \<Rightarrow> Inl (ErrWrap (''failed to create client for ServiceAccount '' @ nn_Namespace key @ ''/'' @ nn_Name key @ '': '') e '''')
      | None \<Rightarrow> Inr saConfig)"

text \<open>The configuration of the client that the engine for a revision gets.\<close>

definition CreateRevisionEngine :: "(rest_config \<Rightarrow> go_error option) \<Rightarrow> rest_config \<Rightarrow> string \<Rightarrow> string_map option \<Rightarrow> rest_config result" where
  "CreateRevisionEngine client_New base name annotations =
     (case getServiceAccount name annotations of
        Inl e \<Rightarrow> Inl e
      | Inr key \<Rightarrow> createScopedClient client_New base key)"

section \<open>Lemmas\<close>

text \<open>The threshold is a tenth of the duration.\<close>

lemma rotationThreshold_tenth:
  assumes "0 \<le> d" and "d < 2 ^ 50"
  shows "rotationThreshold d = d div 10"
proof -
  let ?c = "3602879701896397 :: int"
  define q r where "q = d div 10" and "r = d mod 10"
  have d: "d = 10 * q + r" "0 \<le> r" "r < 10" "0 \<le> q" "10 * q < 2 ^ 50" using assms by (auto simp: q_def r_def)
  have "d * ?c = 2 ^ 55 * q + (2 * q + r * ?c)" unfolding d(1) by (simp add: algebra_simps)
  moreover have "0 \<le> 2 * q + r * ?c" "2 * q + r * ?c < 2 ^ 55" using d(2-5) by auto
  ultimately have "d * ?c div 2 ^ 55 = q" by (simp add: int_div_pos_eq)
  then show ?thesis using assms(1) by (simp add: rotationThreshold_def q_def)
qed

lemma default_threshold: "rotationThreshold DefaultExpirationDuration = 30 * 1000000000"
  by (simp add: rotationThreshold_tenth DefaultExpirationDuration_def)

text \<open>
  The sections of the token cache under its lock: what concurrent requests do to it is an
  interleaving of these. \<open>issued\<close> tells which tokens the API server has issued for an account.
\<close>

inductive token_run :: "(namespaced_name \<Rightarrow> token_status \<Rightarrow> bool) \<Rightarrow> token_getter \<Rightarrow> bool" for issued where
  run_new: "tg_tokens t = Map.empty \<Longrightarrow> token_run issued t"
| run_store: "token_run issued t \<Longrightarrow> issued key tk \<Longrightarrow> token_run issued (t\<lparr>tg_tokens := (tg_tokens t)(key \<mapsto> tk)\<rparr>)"
| run_reap: "token_run issued t \<Longrightarrow> token_run issued (reapExpiredTokens now t)"
| run_delete: "token_run issued t \<Longrightarrow> token_run issued (token_Delete key t)"

lemma token_run_issued: "token_run issued t \<Longrightarrow> tg_tokens t key = Some tk \<Longrightarrow> issued key tk"
  by (induction arbitrary: key tk rule: token_run.induct)
    (auto simp: reapExpiredTokens_def token_Delete_def split: if_splits option.splits)

abbreviation issues :: "(namespaced_name \<Rightarrow> token_status \<Rightarrow> bool) \<Rightarrow> token_env \<Rightarrow> bool" where
  "issues issued env \<equiv> (\<forall>key d tk. te_CreateToken env key d = Inr tk \<longrightarrow> issued key tk)"

lemma getToken_issued: "issues issued env \<Longrightarrow> getToken env key t = Inr tk \<Longrightarrow> issued key tk"
  by (auto simp: getToken_def split: sum.splits)

lemma token_Get_run:
  assumes "token_run issued t" and "issues issued env" and "token_Get env key t = Some (t', res)"
  shows "token_run issued t'" and "res = Inr s \<Longrightarrow> \<exists>tk. issued key tk \<and> tk_Token tk = s"
  using assms token_run_issued [OF assms(1)] getToken_issued [OF assms(2), of key t]
  by (auto simp: token_Get_def Let_def intro: token_run.intros split: if_splits option.splits sum.splits)

lemma http_req_body_id: "req\<lparr>hq_Body := hq_Body req\<rparr> = req"
  by simp

lemma tripper_do_run:
  assumes "token_run issued t" and "issues issued env" and "tripper_do env tripper key req t = Some (t', a)"
  shows "token_run issued t'"
    and "at_sent a = Some r \<Longrightarrow> \<exists>tk. issued key tk \<and> r = set_token (tk_Token tk) req"
proof -
  obtain t1 res where g: "token_Get env key t = Some (t1, res)" using assms(3) by (auto simp: tripper_do_def split: option.splits)
  note run = token_Get_run [OF assms(1,2) g]
  show "token_run issued t'" using run(1) g assms(3) by (auto simp: tripper_do_def Let_def split: sum.splits prod.splits)
  assume "at_sent a = Some r"
  then obtain s where "res = Inr s" "r = set_token s req"
    using g assms(3) by (auto simp: tripper_do_def Let_def split: sum.splits prod.splits)
  then show "\<exists>tk. issued key tk \<and> r = set_token (tk_Token tk) req"
    using run(2) by blast
qed

lemma tripper_do_duration:
  "tripper_do env tripper key req t = Some (t', a) \<Longrightarrow> tg_expirationDuration t' = tg_expirationDuration t"
  by (auto simp: tripper_do_def token_Get_def reapExpiredTokens_def Let_def split: option.splits sum.splits prod.splits if_splits)

text \<open>After a token is deleted, the next attempt has a token created for it, or fails.\<close>

lemma token_Get_deleted:
  assumes "year_one < te_now env" and "0 \<le> tg_expirationDuration t" and "tg_expirationDuration t < 2 ^ 50"
  shows "\<exists>t'. token_Get env key (token_Delete key t) =
    Some (t', case getToken env key t of Inl e \<Rightarrow> Inl e | Inr tk \<Rightarrow> Inr (tk_Token tk))"
proof -
  have "year_one < te_now env + rotationThreshold (tg_expirationDuration t)"
    using assms by (simp add: rotationThreshold_tenth pos_imp_zdiv_nonneg_iff add_strict_increasing2)
  then show ?thesis by (auto simp: token_Get_def token_Delete_def getToken_def Let_def split: sum.split)
qed

text \<open>
  The retry after a rejected token sends what the first attempt left of the body: a transport that
  reads the whole body leaves nothing for the second request.
\<close>

lemma retry_body_consumed:
  assumes "tripper_do env tripper key req t = Some (t1, a1)" and "at_resp a1 = Some resp" and "hp_StatusCode resp = 401"
    and "at_rest a1 = ''''" and "RoundTrip env tripper env' tripper' key req t = Some (t2, [a1, a2])" and "at_sent a2 = Some r"
  shows "hq_Body r = ''''"
  using assms by (auto simp: RoundTrip_def tripper_do_def set_token_def Let_def split: option.splits sum.splits prod.splits)

text \<open>
  The configuration for a service account has none of the credentials of the operator, and its
  requests carry a token of the account of the extension; the synthetic user keeps the credentials
  and impersonates a user of its own for each extension.
\<close>

lemma account_config:
  "ServiceAccountRestConfigMapper (ObjectExtension ext) (Some c) = Inr cfg \<Longrightarrow>
     rc_Username cfg = '''' \<and> rc_Password cfg = '''' \<and> rc_BearerToken cfg = '''' \<and> rc_BearerTokenFile cfg = '''' \<and>
     rc_CertData cfg = '''' \<and> rc_Host cfg = rc_Host c \<and> rc_WrapTransport cfg = [WrapToken (extension_key ext)]"
  by (auto simp: ServiceAccountRestConfigMapper_def validate_mapper_def config_Wrap_def AnonymousClientConfig_def)

lemma synthetic_users_distinct:
  "SyntheticImpersonationConfig ext = SyntheticImpersonationConfig ext' \<longleftrightarrow> meta_Name (ext_Meta ext) = meta_Name (ext_Meta ext')"
  by (simp add: SyntheticImpersonationConfig_def)

text \<open>Every extension gets a configuration, whatever account it names.\<close>

lemma mappers_total: "\<exists>cfg. SyntheticUserRestConfigMapper ServiceAccountRestConfigMapper (ObjectExtension ext) (Some c) = Inr cfg"
  by (simp add: SyntheticUserRestConfigMapper_def ServiceAccountRestConfigMapper_def validate_mapper_def)

subsection \<open>An example\<close>

definition example_key :: namespaced_name where
  "example_key = \<lparr>nn_Namespace = ''ns'', nn_Name = ''sa''\<rparr>"

definition example_issued :: "namespaced_name \<Rightarrow> token_status \<Rightarrow> bool" where
  "example_issued key tk \<longleftrightarrow> tk_Token tk = ''token of '' @ nn_Name key"

definition example_token_env :: token_env where
  "example_token_env =
     \<lparr>te_now = 0, te_reap_now = (\<lambda>_. 0),
      te_CreateToken = (\<lambda>key seconds. Inr \<lparr>tk_Token = ''token of '' @ nn_Name key, tk_ExpirationTimestamp = seconds * 1000000000\<rparr>)\<rparr>"

definition example_transport :: transport where
  "example_transport req = ('''', Some \<lparr>hp_StatusCode = 401, hp_Body = ''''\<rparr>, None)"

definition example_request :: http_req where
  "example_request = \<lparr>hq_Method = ''PATCH'', hq_URL = ''/api'', hq_Header = Map.empty, hq_Body = ''{}''\<rparr>"

definition example_config :: rest_config where
  "example_config =
     \<lparr>rc_Host = ''https://api'', rc_Username = '''', rc_Password = '''', rc_BearerToken = ''operator'', rc_BearerTokenFile = '''',
      rc_CertData = '''', rc_WrapTransport = []\<rparr>"

definition example_extension :: "string \<Rightarrow> string \<Rightarrow> cluster_extension" where
  "example_extension account namespace =
     \<lparr>ext_Meta = \<lparr>meta_Name = ''e'', meta_Namespace = '''', meta_UID = ''u'', meta_Generation = 1, meta_Labels = Map.empty,
        meta_Annotations = Map.empty, meta_OwnerReferences = [], meta_Finalizers = [], meta_CreationTimestamp = 0,
        meta_DeletionTimestamp = None\<rparr>,
      ext_Spec = \<lparr>exts_Namespace = namespace, exts_ServiceAccount = account,
        exts_Source = \<lparr>src_SourceType = ''Catalog'', src_Catalog = None\<rparr>,
        exts_Install = None, exts_Config = None, exts_ProgressDeadlineMinutes = 0\<rparr>,
      ext_Status = \<lparr>extst_Conditions = [], extst_Install = None, extst_ActiveRevisions = []\<rparr>\<rparr>"

lemma example_issues: "issues example_issued example_token_env"
  by (auto simp: example_issued_def example_token_env_def)

lemmas example_defs = example_key_def example_token_env_def example_transport_def example_request_def

section \<open>Properties\<close>

text \<open>
  the token cache answers with the token it holds for the account exactly when that token is valid
  for at least a tenth of the lifetime longer, and otherwise with the result of a new request for a
  token; a missing account is reported by name. It never dereferences a missing token, and when it
  answers with a token, every token it still holds had not expired when it was looked at.
\<close>

theorem token_lookup_exact:
  assumes "year_one < te_now env" and "0 \<le> tg_expirationDuration t" and "tg_expirationDuration t < 2 ^ 50"
  shows "\<exists>t' res. token_Get env key t = Some (t', res) \<and>
    res = (case tg_tokens t key of
             Some tk \<Rightarrow>
               if te_now env + tg_expirationDuration t div 10 \<le> tk_ExpirationTimestamp tk then Inr (tk_Token tk)
               else map_sum id tk_Token (getToken env key t)
           | None \<Rightarrow> map_sum id tk_Token (getToken env key t)) \<and>
    (isl res \<longrightarrow> t' = t) \<and>
    (\<not> isl res \<longrightarrow> (\<forall>k tk. tg_tokens t' k = Some tk \<longrightarrow> te_reap_now env k \<le> tk_ExpirationTimestamp tk))"
proof -
  have tenth: "rotationThreshold (tg_expirationDuration t) = tg_expirationDuration t div 10"
    using assms(2,3) by (rule rotationThreshold_tenth)
  then have "year_one < te_now env + tg_expirationDuration t div 10"
    using assms(1,2) by (simp add: pos_imp_zdiv_nonneg_iff add_strict_increasing2)
  then show ?thesis
    by (auto simp: token_Get_def Let_def tenth reapExpiredTokens_def split: sum.splits option.splits if_splits)
qed

theorem token_lookup_exact_witness:
  "year_one < te_now example_token_env \<and> 0 \<le> tg_expirationDuration NewTokenGetter \<and> tg_expirationDuration NewTokenGetter < 2 ^ 50 \<and>
   (\<exists>t'. token_Get example_token_env example_key NewTokenGetter = Some (t', Inr ''token of sa''))"
proof -
  have "year_one < te_now example_token_env" "0 \<le> tg_expirationDuration NewTokenGetter" "tg_expirationDuration NewTokenGetter < 2 ^ 50"
    by (simp_all add: year_one_def example_token_env_def NewTokenGetter_def DefaultExpirationDuration_def)
  from this token_lookup_exact [OF this, of example_key] show ?thesis
    by (auto simp: NewTokenGetter_def getToken_def example_token_env_def example_key_def)
qed



text \<open>
  the engine that rolls out a revision generated for an extension gets a client whose requests carry
  tokens of the service account and namespace of that extension, and no credentials of the operator,
  when these two names have no white space around them and are not empty.
\<close>

theorem revision_engine_account:
  assumes "exts_ServiceAccount (ext_Spec ext) \<noteq> ''''" and "trim_space (exts_ServiceAccount (ext_Spec ext)) = exts_ServiceAccount (ext_Spec ext)"
    and "exts_Namespace (ext_Spec ext) \<noteq> ''''" and "trim_space (exts_Namespace (ext_Spec ext)) = exts_Namespace (ext_Spec ext)"
    and "client_New (config_Wrap (WrapToken (extension_key ext)) (AnonymousClientConfig base)) = None"
  shows "CreateRevisionEngine client_New base name (Some (ca_Annotations (buildClusterObjectSet objects ext annotations))) =
    ServiceAccountRestConfigMapper (ObjectExtension ext) (Some base)"
proof -
  have "ServiceAccountNameKey \<noteq> ServiceAccountNamespaceKey" by (simp add: ServiceAccountNameKey_def ServiceAccountNamespaceKey_def)
  then have "getServiceAccount name (Some (ca_Annotations (buildClusterObjectSet objects ext annotations))) = Inr (extension_key ext)"
    using assms(1-4) by (simp add: getServiceAccount_def buildClusterObjectSet_def map_get_def extension_key_def Let_def)
  then show ?thesis
    using assms(5) by (simp add: CreateRevisionEngine_def createScopedClient_def ServiceAccountRestConfigMapper_def validate_mapper_def Let_def)
qed

theorem revision_engine_account_witness:
  "CreateRevisionEngine (\<lambda>_. None) example_config ''rev-1''
     (Some (ca_Annotations (buildClusterObjectSet [] (example_extension ''sa'' ''ns'') Map.empty))) =
   ServiceAccountRestConfigMapper (ObjectExtension (example_extension ''sa'' ''ns'')) (Some example_config)"
  by (rule revision_engine_account) (simp_all add: example_extension_def trim_space_def is_space_def)

end
