(* ===== verification/Helm_Action.thy ===== *)
theory Helm_Action
  imports Go_Errors
begin

text \<open>
  The Helm client of the extension controller: the translation of Helm errors (\<open>action/error/errors.go\<close>),
  the wrapper that applies it to every call (\<open>action/helm.go\<close>) and the storage of releases in Secrets
  read through a cache (\<open>action/storagedriver.go\<close>). Helm itself, the selector parsers and the reader of
  the cluster are parameters.
\<close>

section \<open>Definitions\<close>

subsection \<open>Errors\<close>

definition is_word :: "char \<Rightarrow> bool" where
  "is_word c \<longleftrightarrow> is_digit c \<or> is_alpha c \<or> c = CHR ''_''"

text \<open>
  The ways to cut a text at an occurrence of a separator, so that what comes before has no line break:
  a group \<open>(.*)\<close> and what follows the separator, the longest group first as the matcher tries them.
\<close>

fun splits :: "string \<Rightarrow> string \<Rightarrow> (string \<times> string) list" where
  "splits sep [] = (case strip_prefix sep [] of None \<Rightarrow> [] | Some r \<Rightarrow> [([], r)])"
| "splits sep (c # s) =
     (if c = CHR 0x0A then [] else map (\<lambda>(a, r). (c # a, r)) (splits sep s)) @
     (case strip_prefix sep (c # s) of None \<Rightarrow> [] | Some r \<Rightarrow> [([], r)])"

fun first_some :: "('a \<Rightarrow> 'b option) \<Rightarrow> 'a list \<Rightarrow> 'b option" where
  "first_some f [] = None"
| "first_some f (x # xs) = (case f x of None \<Rightarrow> first_some f xs | Some y \<Rightarrow> Some y)"

definition conflict_start :: string where
  "conflict_start = ''Unable to continue with install: ''"

definition conflict_namespace :: string where
  "conflict_namespace = CHR 0x22 # '' in namespace '' @ [CHR 0x22]"

definition conflict_end :: string where
  "conflict_end = CHR 0x22 # '' exists and cannot be imported into the current release''"

text \<open>The groups of \<open>installConflictErrorPattern\<close> at the start of a text, and at the first place it matches.\<close>

definition conflict_at :: "string \<Rightarrow> (string \<times> string \<times> string) option" where
  "conflict_at s =
     Option.bind (strip_prefix conflict_start s) (\<lambda>s1.
     (let kind = takeWhile is_word s1 in
      if kind = '''' then None
      else Option.bind (strip_prefix [CHR 0x20, CHR 0x22] (drop (length kind) s1))
        (\<lambda>s2. first_some (\<lambda>(name, s3). first_some (\<lambda>(namespace, _). Some (kind, name, namespace)) (splits conflict_end s3))
          (splits conflict_namespace s2))))"

fun installConflictErrorPattern :: "string \<Rightarrow> (string \<times> string \<times> string) option" where
  "installConflictErrorPattern [] = conflict_at []"
| "installConflictErrorPattern (c # s) =
     (case conflict_at (c # s) of None \<Rightarrow> installConflictErrorPattern s | Some m \<Rightarrow> Some m)"

text \<open>The translated error cannot be unwrapped.\<close>

definition helmInstallConflictErr :: "go_error \<Rightarrow> go_error option" where
  "helmInstallConflictErr originalErr =
     (case installConflictErrorPattern (err_string originalErr) of
        None \<Rightarrow> None
      | Some (kind, name, namespace) \<Rightarrow>
          Some (ErrText (kind @ '' '' @ [CHR 0x27] @ name @ [CHR 0x27] @ '' already exists in namespace '' @ [CHR 0x27] @ namespace @ [CHR 0x27] @
            '' and cannot be managed by operator-controller'')))"

definition error_rules :: "(go_error \<Rightarrow> go_error option) list" where
  "error_rules = [helmInstallConflictErr]"

definition AsOlmErr :: "go_error option \<Rightarrow> go_error option" where
  "AsOlmErr originalErr =
     (case originalErr of
        None \<Rightarrow> None
      | Some e \<Rightarrow> (case first_some (\<lambda>rule. rule e) error_rules of Some e' \<Rightarrow> Some e' | None \<Rightarrow> Some e))"

subsection \<open>The action client\<close>

text \<open>What a call of the Helm client returns, a value and an error that may both be there.\<close>

type_synonym 'a action_result = "'a option \<times> go_error option"

record ('rel, 'resp) action_interface =
  ai_Install :: "string \<Rightarrow> string \<Rightarrow> 'rel action_result"
  ai_Upgrade :: "string \<Rightarrow> string \<Rightarrow> 'rel action_result"
  ai_Uninstall :: "string \<Rightarrow> 'resp action_result"
  ai_Get :: "string \<Rightarrow> 'rel action_result"
  ai_History :: "string \<Rightarrow> 'rel list action_result"
  ai_Reconcile :: "'rel \<Rightarrow> go_error option"

definition NewWrappedActionClient ::
  "('rel, 'resp) action_interface \<Rightarrow> (go_error option \<Rightarrow> go_error option) \<Rightarrow> ('rel, 'resp) action_interface" where
  "NewWrappedActionClient ca translate =
     \<lparr>ai_Install = (\<lambda>name ns. apsnd translate (ai_Install ca name ns)),
      ai_Upgrade = (\<lambda>name ns. apsnd translate (ai_Upgrade ca name ns)),
      ai_Uninstall = (\<lambda>name. apsnd translate (ai_Uninstall ca name)),
      ai_Get = (\<lambda>name. apsnd translate (ai_Get ca name)),
      ai_History = (\<lambda>name. apsnd translate (ai_History ca name)),
      ai_Reconcile = (\<lambda>rel. translate (ai_Reconcile ca rel))\<rparr>"

definition ActionClientFor :: "('rel, 'resp) action_interface result \<Rightarrow> ('rel, 'resp) action_interface result" where
  "ActionClientFor client = (case client of Inl e \<Rightarrow> Inl e | Inr ac \<Rightarrow> Inr (NewWrappedActionClient ac AsOlmErr))"

subsection \<open>The storage of releases\<close>

record chunked_secrets_config =
  csc_ChunkSize :: nat
  csc_MaxReadChunks :: nat
  csc_MaxWriteChunks :: nat

definition chunkedSecretsConfig :: chunked_secrets_config where
  "chunkedSecretsConfig = \<lparr>csc_ChunkSize = (1024 - 8) * 1024, csc_MaxReadChunks = 11, csc_MaxWriteChunks = 11\<rparr>"

record meta_list_options =
  mlo_LabelSelector :: string
  mlo_FieldSelector :: string
  mlo_Limit :: int
  mlo_Continue :: string
  mlo_ResourceVersion :: string

record ('l, 'f) client_list_options =
  clo_Namespace :: string
  clo_Limit :: int
  clo_Continue :: string
  clo_LabelSelector :: "'l option"
  clo_FieldSelector :: "'f option"
  clo_Raw :: meta_list_options

definition metaOptionsToClientOptions ::
  "(string \<Rightarrow> 'l result) \<Rightarrow> (string \<Rightarrow> 'f result) \<Rightarrow> string \<Rightarrow> meta_list_options \<Rightarrow> ('l, 'f) client_list_options result" where
  "metaOptionsToClientOptions parseLabels parseFields namespace opts =
     (case (if mlo_LabelSelector opts = '''' then Inr None else map_sum id Some (parseLabels (mlo_LabelSelector opts))) of
        Inl e \<Rightarrow> Inl e
      | Inr ls \<Rightarrow>
          (case (if mlo_FieldSelector opts = '''' then Inr None else map_sum id Some (parseFields (mlo_FieldSelector opts))) of
             Inl e \<Rightarrow> Inl e
           | Inr fs \<Rightarrow>
               Inr \<lparr>clo_Namespace = namespace, clo_Limit = mlo_Limit opts, clo_Continue = mlo_Continue opts,
                 clo_LabelSelector = ls, clo_FieldSelector = fs,
                 clo_Raw = opts\<lparr>mlo_LabelSelector := '''', mlo_FieldSelector := '''', mlo_Limit := 0, mlo_Continue := ''''\<rparr>\<rparr>))"

record ('s, 'l, 'f) secrets_reader =
  sr_Get :: "string \<Rightarrow> string \<Rightarrow> 's result"
  sr_List :: "('l, 'f) client_list_options \<Rightarrow> 's list result"

definition secrets_Get :: "('s, 'l, 'f) secrets_reader \<Rightarrow> string \<Rightarrow> string \<Rightarrow> 's result" where
  "secrets_Get reader namespace name = sr_Get reader namespace name"

definition secrets_List ::
  "(string \<Rightarrow> 'l result) \<Rightarrow> (string \<Rightarrow> 'f result) \<Rightarrow> ('s, 'l, 'f) secrets_reader \<Rightarrow> string \<Rightarrow> meta_list_options \<Rightarrow> 's list result" where
  "secrets_List parseLabels parseFields reader namespace opts =
     (case metaOptionsToClientOptions parseLabels parseFields namespace opts of
        Inl e \<Rightarrow> Inl e
      | Inr listOpts \<Rightarrow> sr_List reader listOpts)"

section \<open>Lemmas\<close>

lemma splits_prefix:
  "q \<notin> set a \<Longrightarrow> CHR 0x0A \<notin> set a \<Longrightarrow> splits (q # sep) (a @ s) = map (\<lambda>(b, r). (a @ b, r)) (splits (q # sep) s)"
  by (induction a) (auto simp: comp_def split_def)

lemma splits_prefix_None: "q \<notin> set a \<Longrightarrow> CHR 0x0A \<notin> set a \<Longrightarrow> splits (q # sep) s = [] \<Longrightarrow> splits (q # sep) (a @ s) = []"
  by (simp add: splits_prefix)

lemma splits_separator:
  assumes "q \<notin> set t" and "CHR 0x0A \<notin> set t" and "q \<noteq> CHR 0x0A" and "splits (q # t) s = []"
  shows "splits (q # t) (q # t @ s) = [([], s)]"
  using assms splits_prefix_None [of q t t s] by simp

lemma splits_conflict_end:
  assumes "CHR 0x22 \<notin> set ns" and "CHR 0x0A \<notin> set ns" and "splits conflict_end rest = []"
  shows "splits conflict_end (ns @ conflict_end @ rest) = [(ns, rest)]"
proof -
  define t where "t = '' exists and cannot be imported into the current release''"
  have t: "CHR 0x22 \<notin> set t" "CHR 0x0A \<notin> set t" "conflict_end = CHR 0x22 # t" by (simp_all add: t_def conflict_end_def)
  have "splits (CHR 0x22 # t) (CHR 0x22 # t @ rest) = [([], rest)]"
    using t assms(3) by (intro splits_separator) simp_all
  then show ?thesis using splits_prefix [OF assms(1,2), of t] by (simp add: t(3) del: splits.simps)
qed

lemma splits_conflict_namespace:
  assumes "CHR 0x22 \<notin> set name" and "CHR 0x0A \<notin> set name" and "CHR 0x22 \<notin> set ns" and "CHR 0x0A \<notin> set ns"
    and "CHR 0x20 \<notin> set ns" and "splits conflict_namespace rest = []"
  shows "splits conflict_namespace (name @ conflict_namespace @ ns @ conflict_end @ rest) = [(name, ns @ conflict_end @ rest)]"
proof -
  define u where "u = ''in namespace '' @ [CHR 0x22]"
  define v where "v = '' in namespace ''"
  define t where "t = '' exists and cannot be imported into the current release''"
  have sep: "conflict_namespace = CHR 0x22 # CHR 0x20 # u" "conflict_namespace = CHR 0x22 # v @ [CHR 0x22]"
    by (simp_all add: u_def v_def conflict_namespace_def)
  have v: "CHR 0x22 \<notin> set v" "CHR 0x0A \<notin> set v" by (simp_all add: v_def)
  have t: "CHR 0x22 \<notin> set t" "CHR 0x0A \<notin> set t" "conflict_end = CHR 0x22 # t" "strip_prefix (CHR 0x20 # u) t = None"
    by (simp_all add: t_def u_def conflict_end_def)
  have nt: "strip_prefix conflict_namespace (CHR 0x22 # t @ rest) = None" by (simp add: sep(1) t_def u_def)
  have "splits conflict_namespace (t @ rest) = []"
    using splits_prefix_None [OF t(1,2)] assms(6) unfolding sep(1) by blast
  then have "splits conflict_namespace (CHR 0x22 # t @ rest) = []" using nt by simp
  then have "splits conflict_namespace (ns @ conflict_end @ rest) = []"
    using splits_prefix_None [OF assms(3,4)] unfolding sep(1) t(3) by simp
  moreover have "strip_prefix conflict_namespace (CHR 0x22 # ns @ conflict_end @ rest) = None"
    using assms(5) unfolding sep(1) t(3) by (cases ns) auto
  ultimately have "splits conflict_namespace (CHR 0x22 # ns @ conflict_end @ rest) = []" by simp
  then have "splits conflict_namespace (v @ CHR 0x22 # ns @ conflict_end @ rest) = []"
    using splits_prefix_None [OF v] unfolding sep(1) by blast
  then have "splits conflict_namespace (conflict_namespace @ ns @ conflict_end @ rest) = [([], ns @ conflict_end @ rest)]"
    using strip_prefix_append [of conflict_namespace "ns @ conflict_end @ rest"] by (simp add: sep(2))
  then show ?thesis using splits_prefix [OF assms(1,2)] unfolding sep(1) by (simp del: splits.simps)
qed

text \<open>Nothing but a conflict is translated, and a translated error has no cause to unwrap.\<close>

lemma AsOlmErr_other: "installConflictErrorPattern (err_string e) = None \<Longrightarrow> AsOlmErr (Some e) = Some e"
  by (simp add: AsOlmErr_def error_rules_def helmInstallConflictErr_def)

lemma AsOlmErr_None [simp]: "AsOlmErr x = None \<longleftrightarrow> x = None"
  by (simp add: AsOlmErr_def split: option.split)

lemma conflict_not_unwrapped:
  "installConflictErrorPattern (err_string e) = Some m \<Longrightarrow> \<exists>e'. AsOlmErr (Some e) = Some e' \<and> errors_Unwrap e' = None"
  by (cases m) (simp add: AsOlmErr_def error_rules_def helmInstallConflictErr_def)

text \<open>The index Secret leaves eight kibibytes of its mebibyte, and a release may have more than ten mebibytes.\<close>

lemma chunk_capacity:
  "csc_ChunkSize chunkedSecretsConfig + 8 * 1024 = 1024 * 1024"
  "csc_ChunkSize chunkedSecretsConfig * csc_MaxWriteChunks chunkedSecretsConfig > 10 * 1024 * 1024"
  "csc_MaxWriteChunks chunkedSecretsConfig \<le> csc_MaxReadChunks chunkedSecretsConfig"
  by (simp_all add: chunkedSecretsConfig_def)

section \<open>Properties\<close>

text \<open>
  an error of Helm that reports an object which another owner has is translated to a message that
  names exactly the kind, name and namespace of that object, whatever text stands before and after, as
  long as the text before has no letter U, with which the message starts, the names have no quotes,
  spaces or line breaks, and the text after does not repeat the phrases of the message.
\<close>

theorem conflict_names_object:
  assumes "kind \<noteq> ''''" and "list_all is_word kind"
    and "CHR 0x22 \<notin> set name" and "CHR 0x0A \<notin> set name" and "CHR 0x22 \<notin> set ns" and "CHR 0x0A \<notin> set ns" and "CHR 0x20 \<notin> set ns"
    and "splits conflict_namespace rest = []" and "splits conflict_end rest = []"
    and "err_string e = before @ ''Unable to continue with install: '' @ kind @ '' '' @ [CHR 0x22] @ name @ [CHR 0x22] @ '' in namespace '' @
      [CHR 0x22] @ ns @ [CHR 0x22] @ '' exists and cannot be imported into the current release'' @ rest"
    and "CHR ''U'' \<notin> set before"
  shows "map_option err_string (AsOlmErr (Some e)) =
    Some (kind @ '' '' @ [CHR 0x27] @ name @ [CHR 0x27] @ '' already exists in namespace '' @ [CHR 0x27] @ ns @ [CHR 0x27] @
      '' and cannot be managed by operator-controller'')"
proof -
  let ?s = "conflict_start @ kind @ [CHR 0x20, CHR 0x22] @ name @ conflict_namespace @ ns @ conflict_end @ rest"
  have s: "err_string e = before @ ?s" using assms(10) by (simp add: conflict_start_def conflict_namespace_def conflict_end_def)
  have "takeWhile is_word (kind @ CHR 0x20 # x) = kind" for x
    using assms(2) by (simp add: takeWhile_append2 list_all_iff is_word_def is_digit_def is_alpha_def)
  then have at: "conflict_at ?s = Some (kind, name, ns)"
    using assms(1) splits_conflict_namespace [OF assms(3-8)] splits_conflict_end [OF assms(5,6,9)]
    by (simp add: conflict_at_def Let_def del: splits.simps)
  have "installConflictErrorPattern (b @ ?s) = Some (kind, name, ns)" if "CHR ''U'' \<notin> set b" for b
    using that
  proof (induction b)
    case Nil
    have "installConflictErrorPattern x = Some m" if "conflict_at x = Some m" for x m using that by (cases x) auto
    then show ?case using at by simp
  next
    case (Cons c b)
    then have "conflict_at (c # b @ ?s) = None" by (auto simp: conflict_at_def conflict_start_def)
    then show ?case using Cons by simp
  qed
  from this [OF assms(11)] show ?thesis by (simp add: AsOlmErr_def error_rules_def helmInstallConflictErr_def s)
qed

theorem conflict_names_object_witness:
  "map_option err_string (AsOlmErr (Some (ErrText (''Unable to continue with install: ConfigMap '' @ [CHR 0x22] @ ''cm'' @ [CHR 0x22] @
     '' in namespace '' @ [CHR 0x22] @ ''ns'' @ [CHR 0x22] @ '' exists and cannot be imported into the current release: invalid'')))) =
   Some (''ConfigMap '' @ [CHR 0x27] @ ''cm'' @ [CHR 0x27] @ '' already exists in namespace '' @ [CHR 0x27] @ ''ns'' @ [CHR 0x27] @
     '' and cannot be managed by operator-controller'')"
proof -
  have "list_all is_word ''ConfigMap''" by code_simp
  moreover have "splits conflict_namespace '': invalid'' = []" "splits conflict_end '': invalid'' = []" by code_simp+
  ultimately show ?thesis
    using conflict_names_object [of "''ConfigMap''" "''cm''" "''ns''" "'': invalid''" _ "''''"] by simp
qed

end
