(* ===== verification/Crd_Preflight.thy ===== *)
theory Crd_Preflight
  imports Helm_Applier Boxcutter_Applier Bundle_Config
begin

text \<open>
  The preflight check that the CRDs of an extension may be upgraded
  (\<open>rukpak/preflights/crdupgradesafety/crdupgradesafety.go\<close>) and its place in the two appliers. The comparison of
  two versions of a CRD is a library and a parameter, as are the conversion of objects and the client
  that reads the CRDs of the cluster.
\<close>

section \<open>Definitions\<close>

subsection \<open>Results of a comparison\<close>

record comparison_result =
  cr_Name :: string
  cr_Errors :: "string list"

record property_comparison_result =
  pcr_Property :: string
  pcr_ComparisonResults :: "comparison_result list"

record versioned_result =
  vpcr_Version :: string
  vpcr_PropertyComparisons :: "property_comparison_result list"

record runner_results =
  rr_CRDValidation :: "comparison_result list"
  rr_SameVersionValidation :: "versioned_result list"
  rr_ServedVersionValidation :: "versioned_result list"

definition has_property_failures :: "versioned_result list \<Rightarrow> bool" where
  "has_property_failures versions \<longleftrightarrow>
     list_ex (\<lambda>v. list_ex (\<lambda>p. list_ex (\<lambda>r. cr_Errors r \<noteq> []) (pcr_ComparisonResults p)) (vpcr_PropertyComparisons v)) versions"

definition HasFailures :: "runner_results \<Rightarrow> bool" where
  "HasFailures rr \<longleftrightarrow>
     list_ex (\<lambda>r. cr_Errors r \<noteq> []) (rr_CRDValidation rr) \<or> has_property_failures (rr_SameVersionValidation rr) \<or>
     has_property_failures (rr_ServedVersionValidation rr)"

subsection \<open>Short messages for unhandled changes\<close>

definition unhandledSummaryPrefix :: string where
  "unhandledSummaryPrefix = ''unhandled changes found''"

definition trim_comma :: "string \<Rightarrow> string" where
  "trim_comma s = (if s \<noteq> '''' \<and> last s = CHR '','' then butlast s else s)"

fun drop_v1 :: "string \<Rightarrow> string" where
  "drop_v1 [] = []"
| "drop_v1 (c # s) = (if take 3 (c # s) = ''v1.'' then drop_v1 (drop 2 s) else c # drop_v1 s)"

definition normalizeUnhandledValue :: "string \<Rightarrow> string" where
  "normalizeUnhandledValue value =
     (let value = trim_space (trim_comma value) in
      if value = '''' then ''<empty>''
      else if value = [CHR 0x22, CHR 0x22] then value
      else
        (let value = drop_v1 value in
         if str_contains value ''JSONSchemaProps'' then ''<complex value>'' else value))"

text \<open>An empty field stands for no field.\<close>

definition parseUnhandledDiffValue :: "string \<Rightarrow> string \<times> string \<times> string" where
  "parseUnhandledDiffValue fragment =
     (let cleaned = trim_space fragment;
          cleaned = (if cleaned \<noteq> '''' \<and> hd cleaned = CHR 0x09 then tl cleaned else cleaned);
          cleaned = trim_comma (trim_space cleaned) in
      case cut_at (CHR '':'') cleaned of
        (_, None) \<Rightarrow> ('''', '''', '''')
      | (f, Some v) \<Rightarrow>
          (let field = trim_space f; rawValue = trim_space v in
           if field = '''' then ('''', '''', '''') else (field, normalizeUnhandledValue rawValue, rawValue)))"

record diff_entry =
  de_before :: string
  de_after :: string
  de_beforeRaw :: string
  de_afterRaw :: string

definition no_diff :: diff_entry where
  "no_diff = \<lparr>de_before = '''', de_after = '''', de_beforeRaw = '''', de_afterRaw = ''''\<rparr>"

text \<open>The entries are kept in the order in which their fields appear first.\<close>

definition put_diff :: "bool \<Rightarrow> string \<Rightarrow> string \<Rightarrow> string \<Rightarrow> (string \<times> diff_entry) list \<Rightarrow> (string \<times> diff_entry) list" where
  "put_diff removed field value rawValue entries =
     (let entry = (case map_of entries field of None \<Rightarrow> no_diff | Some e \<Rightarrow> e) in
      AList.update field
        (if removed then entry\<lparr>de_before := value, de_beforeRaw := rawValue\<rparr> else entry\<lparr>de_after := value, de_afterRaw := rawValue\<rparr>)
        entries)"

fun read_diff :: "string list \<Rightarrow> (string \<times> diff_entry) list \<Rightarrow> (string \<times> diff_entry) list" where
  "read_diff [] entries = entries"
| "read_diff (line # ls) entries =
     (let trimmed = trim_space line in
      if length trimmed < 2 then read_diff ls entries
      else if hd trimmed \<noteq> CHR ''-'' \<and> hd trimmed \<noteq> CHR ''+'' then read_diff ls entries
      else
        (let (field, value, rawValue) = parseUnhandledDiffValue (tl trimmed) in
         if field = '''' then read_diff ls entries
         else read_diff ls (put_diff (hd trimmed = CHR ''-'') field value rawValue entries)))"

definition entry_detail :: "string \<times> diff_entry \<Rightarrow> string option" where
  "entry_detail = (\<lambda>(field, entry).
     if de_before entry = '''' \<and> de_after entry = '''' then None
     else if de_before entry = de_after entry \<and> de_beforeRaw entry = de_afterRaw entry then None
     else
       (let before = (if de_before entry = '''' then ''<empty>'' else de_before entry);
            after = (if de_after entry = '''' then ''<empty>'' else de_after entry);
            after = (if de_before entry = de_after entry \<and> de_beforeRaw entry \<noteq> de_afterRaw entry then after @ '' (changed)'' else after) in
        Some (field @ '' '' @ before @ '' -> '' @ after)))"

definition extractUnhandledDetails :: "string \<Rightarrow> string list" where
  "extractUnhandledDetails raw = List.map_filter entry_detail (read_diff (split_on (CHR 0x0A) raw) [])"

definition conciseUnhandledMessage :: "string \<Rightarrow> string" where
  "conciseUnhandledMessage raw =
     (if \<not> str_contains raw unhandledSummaryPrefix then raw
      else
        (let details = extractUnhandledDetails raw in
         if details = [] then unhandledSummaryPrefix
         else unhandledSummaryPrefix @ '' ('' @ go_join ''; '' details @ '')''))"

subsection \<open>Errors of a CRD\<close>

definition crdWideErrors :: "runner_results option \<Rightarrow> go_error list" where
  "crdWideErrors results =
     (case results of
        None \<Rightarrow> []
      | Some rr \<Rightarrow> concat (map (\<lambda>r. map (\<lambda>err. ErrText (cr_Name r @ '': '' @ err)) (cr_Errors r)) (rr_CRDValidation rr)))"

definition property_errors :: "versioned_result \<Rightarrow> go_error list" where
  "property_errors v =
     concat (map (\<lambda>p. concat (map (\<lambda>r. map (\<lambda>err.
       ErrText (vpcr_Version v @ '': '' @ pcr_Property p @ '': '' @ cr_Name r @ '': '' @
         (if cr_Name r = ''unhandled'' then conciseUnhandledMessage err else err)))
       (cr_Errors r)) (pcr_ComparisonResults p))) (vpcr_PropertyComparisons v))"

definition sameVersionErrors :: "runner_results option \<Rightarrow> go_error list" where
  "sameVersionErrors results = (case results of None \<Rightarrow> [] | Some rr \<Rightarrow> concat (map property_errors (rr_SameVersionValidation rr)))"

definition servedVersionErrors :: "runner_results option \<Rightarrow> go_error list" where
  "servedVersionErrors results = (case results of None \<Rightarrow> [] | Some rr \<Rightarrow> concat (map property_errors (rr_ServedVersionValidation rr)))"

subsection \<open>The preflight\<close>

record crd_env =
  ce_runner :: "(json \<Rightarrow> json \<Rightarrow> runner_results) result"
  ce_ToUnstructured :: "json \<Rightarrow> json result"
  ce_FromUnstructured :: "json \<Rightarrow> json result"
  ce_Get :: "string \<Rightarrow> json result"

definition crd_gvk :: group_version_kind where
  "crd_gvk = \<lparr>gvk_Group = ''apiextensions.k8s.io'', gvk_Version = ''v1'', gvk_Kind = ''CustomResourceDefinition''\<rparr>"

definition crd_errors :: "string \<Rightarrow> runner_results \<Rightarrow> go_error list" where
  "crd_errors name results =
     (if HasFailures results then
        (let resultErrs = crdWideErrors (Some results) @ sameVersionErrors (Some results) @ servedVersionErrors (Some results) in
         case errors_Join (map Some resultErrs) of
           None \<Rightarrow> []
         | Some joined \<Rightarrow> [ErrWrap (''validating upgrade for CRD '' @ go_quote name @ '': '') joined ''''])
      else [])"

text \<open>What one object contributes: an error that ends the check, or the errors found in it.\<close>

definition check_crd :: "crd_env \<Rightarrow> (json \<Rightarrow> json \<Rightarrow> runner_results) \<Rightarrow> json \<Rightarrow> go_error list result" where
  "check_crd env run obj =
     (if GroupVersionKind obj \<noteq> crd_gvk then Inr []
      else
        (case ce_ToUnstructured env obj of
           Inl e \<Rightarrow> Inl (ErrWrap (''converting object '' @ go_quote (GetName obj) @ '' to unstructured: '') e '''')
         | Inr uMap \<Rightarrow>
             (case ce_FromUnstructured env uMap of
                Inl e \<Rightarrow> Inl (ErrWrap ''converting unstructured to CRD object: '' e '''')
              | Inr newCrd \<Rightarrow>
                  (case ce_Get env (GetName newCrd) of
                     Inl e \<Rightarrow>
                       (if IsNotFound e then Inr []
                        else Inl (ErrWrap (''getting existing resource for CRD '' @ go_quote (GetName newCrd) @ '': '') e ''''))
                   | Inr oldCrd \<Rightarrow>
                       Inr (crd_errors (GetName newCrd) (run oldCrd newCrd))))))"

fun check_crds :: "crd_env \<Rightarrow> (json \<Rightarrow> json \<Rightarrow> runner_results) \<Rightarrow> json list \<Rightarrow> go_error list \<Rightarrow> go_error option" where
  "check_crds env run [] validateErrors = errors_Join (map Some validateErrors)"
| "check_crds env run (obj # objs) validateErrors =
     (case check_crd env run obj of
        Inl e \<Rightarrow> Some e
      | Inr errs \<Rightarrow> check_crds env run objs (validateErrors @ errs))"

definition runPreflight :: "crd_env \<Rightarrow> json list \<Rightarrow> go_error option" where
  "runPreflight env relObjects =
     (if relObjects = [] then None
      else
        (case ce_runner env of
           Inl e \<Rightarrow> Some (ErrWrap ''creating CRD validation runner: '' e '''')
         | Inr run \<Rightarrow> check_crds env run relObjects []))"

definition crd_preflight :: "crd_env \<Rightarrow> preflight" where
  "crd_preflight env = \<lparr>pfl_isCRDUpgradeSafety = True, pfl_Install = runPreflight env, pfl_Upgrade = runPreflight env\<rparr>"

section \<open>Lemmas\<close>

subsection \<open>Errors and failures\<close>

lemma property_errors_Nil: "concat (map property_errors versions) = [] \<longleftrightarrow> \<not> has_property_failures versions"
  by (auto simp: has_property_failures_def property_errors_def list_ex_iff)

lemma result_errors_Nil:
  "crdWideErrors (Some rr) @ sameVersionErrors (Some rr) @ servedVersionErrors (Some rr) = [] \<longleftrightarrow> \<not> HasFailures rr"
  unfolding HasFailures_def sameVersionErrors_def servedVersionErrors_def
  by (auto simp: crdWideErrors_def list_ex_iff property_errors_Nil [symmetric])

text \<open>An object passes when it is no CRD, a new CRD, or a CRD whose comparison finds no failure.\<close>

definition safe_object :: "crd_env \<Rightarrow> (json \<Rightarrow> json \<Rightarrow> runner_results) \<Rightarrow> json \<Rightarrow> bool" where
  "safe_object env run obj \<longleftrightarrow>
     GroupVersionKind obj = crd_gvk \<longrightarrow>
     (\<exists>u new. ce_ToUnstructured env obj = Inr u \<and> ce_FromUnstructured env u = Inr new \<and>
        (case ce_Get env (GetName new) of Inl e \<Rightarrow> IsNotFound e | Inr old \<Rightarrow> \<not> HasFailures (run old new)))"

lemma errors_Join_Some_None: "errors_Join (map Some xs) = None \<longleftrightarrow> xs = []"
  by (cases xs) (simp_all add: errors_Join_def List.map_filter_simps)

lemma crd_errors_Nil: "crd_errors name rr = [] \<longleftrightarrow> \<not> HasFailures rr"
proof -
  let ?errs = "crdWideErrors (Some rr) @ sameVersionErrors (Some rr) @ servedVersionErrors (Some rr)"
  have "errors_Join (map Some ?errs) = None \<longleftrightarrow> \<not> HasFailures rr" unfolding errors_Join_Some_None by (rule result_errors_Nil)
  then show ?thesis unfolding crd_errors_def Let_def by (cases "errors_Join (map Some ?errs)") simp_all
qed

lemma check_crd_ok: "check_crd env run obj = Inr [] \<longleftrightarrow> safe_object env run obj"
  unfolding check_crd_def safe_object_def by (simp add: crd_errors_Nil split: sum.split)

lemma check_crds_ok:
  "check_crds env run objs errs = None \<longleftrightarrow> errs = [] \<and> list_all (safe_object env run) objs"
proof (induction objs arbitrary: errs)
  case Nil
  show ?case using errors_Join_Some_None by (simp del: errors_Join_None)
next
  case (Cons obj objs)
  show ?case using check_crd_ok [of env run obj] Cons.IH by (cases "check_crd env run obj") auto
qed

lemma runPreflight_ok:
  "runPreflight env objs = None \<longleftrightarrow> objs = [] \<or> (\<exists>run. ce_runner env = Inr run \<and> list_all (safe_object env run) objs)"
  by (auto simp: runPreflight_def check_crds_ok split: sum.split)

lemma runPreflight_safe:
  "runPreflight env objs = None \<Longrightarrow> obj \<in> set objs \<Longrightarrow> \<exists>run. ce_runner env = Inr run \<and> safe_object env run obj"
  unfolding runPreflight_ok by (auto simp: list_all_iff)

lemma crd_preflight_runs:
  assumes "run_preflights pfs ext state objs = None" and "crd_preflight env \<in> set pfs" and "crd_enforcement ext \<noteq> Some ''None''"
    and "state = StateNeedsInstall \<or> state = StateNeedsUpgrade"
  shows "runPreflight env objs = None"
proof -
  have "\<not> shouldSkipPreflight (crd_preflight env) ext state" using assms(3) by (auto simp: shouldSkipPreflight_def split: option.splits)
  then have "(state = StateNeedsInstall \<longrightarrow> pfl_Install (crd_preflight env) objs = None) \<and>
      (state = StateNeedsUpgrade \<longrightarrow> pfl_Upgrade (crd_preflight env) objs = None)"
    using assms(1,2) unfolding run_preflights_None by blast
  then show ?thesis using assms(4) by (auto simp: crd_preflight_def)
qed

lemma helm_change_release:
  assumes "a \<in> set (ho_actions (helm_Apply h (Some fs) ext ol sl))" and "changes_cluster a"
  obtains chrt where "a \<in> set (ho_actions (apply_release h ext chrt ol sl))"
proof (cases "buildHelmChart h fs ext")
  case (Inl e)
  then show ?thesis using assms(1) by (simp add: helm_Apply_def)
next
  case (Inr chrt)
  have "a \<in> set (ho_actions (apply_release h ext chrt ol sl))"
  proof (cases "hm_PreAuthorizer h")
    case None
    then show ?thesis using assms(1) Inr by (simp add: helm_Apply_def)
  next
    case (Some pa)
    obtain acts err where pre: "helm_runPreAuthorizationChecks h pa ext chrt ol = (acts, err)" by fastforce
    have "a \<notin> set acts" using preauth_dry_run [OF pre] assms(2) by (auto simp: filter_empty_conv)
    then show ?thesis using assms(1) Inr Some pre by (cases err) (simp_all add: helm_Apply_def)
  qed
  then show ?thesis using that by blast
qed

subsection \<open>Short messages\<close>

lemma trim_space_set: "set (trim_space s) \<subseteq> set s"
  unfolding trim_space_def using set_dropWhileD by (metis subsetI set_rev)

lemma trim_comma_set: "set (trim_comma s) \<subseteq> set s"
  unfolding trim_comma_def by (auto dest: in_set_butlastD)

lemma drop_v1_set: "set (drop_v1 s) \<subseteq> set s"
  by (induction s rule: drop_v1.induct) (auto dest: in_set_dropD)

lemma normalize_one_line: "CHR 0x0A \<notin> set s \<Longrightarrow> CHR 0x0A \<notin> set (normalizeUnhandledValue s)"
  using drop_v1_set [of "trim_space (trim_comma s)"] trim_space_set [of "trim_comma s"] trim_comma_set [of s]
  by (auto simp: normalizeUnhandledValue_def Let_def)

lemma cut_at_set: "cut_at c s = (a, Some b) \<Longrightarrow> set a \<subseteq> set s \<and> set b \<subseteq> set s"
  unfolding cut_at_def
  by (auto split: list.splits dest: set_takeWhileD) (metis list.set_intros(2) set_dropWhileD)

lemma parse_one_line:
  assumes "CHR 0x0A \<notin> set s" and "parseUnhandledDiffValue s = (field, value, rawValue)"
  shows "CHR 0x0A \<notin> set field" and "CHR 0x0A \<notin> set value"
proof -
  define u where "u = trim_space s"
  define v where "v = (if u \<noteq> '''' \<and> hd u = CHR 0x09 then tl u else u)"
  define w where "w = trim_comma (trim_space v)"
  have "set u \<subseteq> set s" using trim_space_set by (simp add: u_def)
  moreover have "set v \<subseteq> set u" by (auto simp: v_def dest: list.set_sel(2))
  moreover have "set w \<subseteq> set v" using trim_comma_set trim_space_set unfolding w_def by blast
  ultimately have w: "CHR 0x0A \<notin> set w" using assms(1) by blast
  have p: "(field, value, rawValue) = (case cut_at (CHR '':'') w of (_, None) \<Rightarrow> ('''', '''', '''')
      | (f, Some v) \<Rightarrow> if trim_space f = '''' then ('''', '''', '''') else (trim_space f, normalizeUnhandledValue (trim_space v), trim_space v))"
    using assms(2) unfolding parseUnhandledDiffValue_def Let_def u_def v_def w_def by (rule sym)
  obtain f r where c: "cut_at (CHR '':'') w = (f, r)" by fastforce
  have "CHR 0x0A \<notin> set field \<and> CHR 0x0A \<notin> set value"
  proof (cases r)
    case None
    then show ?thesis using p c by simp
  next
    case (Some b)
    have "CHR 0x0A \<notin> set (trim_space f)" "CHR 0x0A \<notin> set (trim_space b)"
      using cut_at_set [of "CHR '':''" w f b] c Some w trim_space_set by blast+
    then show ?thesis using p c Some normalize_one_line by (auto split: if_splits)
  qed
  then show "CHR 0x0A \<notin> set field" "CHR 0x0A \<notin> set value" by simp_all
qed

definition one_line_entries :: "(string \<times> diff_entry) list \<Rightarrow> bool" where
  "one_line_entries es \<longleftrightarrow>
     list_all (\<lambda>(f, e). CHR 0x0A \<notin> set f \<and> CHR 0x0A \<notin> set (de_before e) \<and> CHR 0x0A \<notin> set (de_after e)) es"

lemma put_diff_one_line:
  assumes "one_line_entries es" and "CHR 0x0A \<notin> set field" and "CHR 0x0A \<notin> set value"
  shows "one_line_entries (put_diff removed field value rawValue es)"
proof -
  let ?ok = "\<lambda>(f, e). CHR 0x0A \<notin> set f \<and> CHR 0x0A \<notin> set (de_before e) \<and> CHR 0x0A \<notin> set (de_after e)"
  have old: "?ok (field, case map_of es field of None \<Rightarrow> no_diff | Some e \<Rightarrow> e)"
    using assms(1,2) by (auto simp: one_line_entries_def list_all_iff no_diff_def split: option.split dest!: map_of_SomeD)
  have upd: "list_all ?ok (AList.update k x ys)" if "list_all ?ok ys" "?ok (k, x)" for k x ys
    using that by (induction ys) auto
  show ?thesis unfolding one_line_entries_def put_diff_def Let_def
    by (rule upd) (use assms old in \<open>simp_all add: one_line_entries_def\<close>)
qed

lemma split_on_set: "p \<in> set (split_on c s) \<Longrightarrow> c \<notin> set p"
  by (induction s arbitrary: p) (auto split: if_splits list.splits)

lemma read_diff_one_line:
  "list_all (\<lambda>l. CHR 0x0A \<notin> set l) ls \<Longrightarrow> one_line_entries es \<Longrightarrow> one_line_entries (read_diff ls es)"
proof (induction ls arbitrary: es)
  case (Cons line ls)
  obtain f v r where p: "parseUnhandledDiffValue (tl (trim_space line)) = (f, v, r)" by (metis prod_cases3)
  have "CHR 0x0A \<notin> set (trim_space line)" using Cons.prems(1) trim_space_set [of line] by auto
  then have t: "CHR 0x0A \<notin> set (tl (trim_space line))" by (cases "trim_space line") auto
  have "one_line_entries (put_diff b f v r es)" for b
    using parse_one_line [OF t p] Cons.prems(2) by (intro put_diff_one_line)
  then show ?case using Cons p by (simp add: Let_def)
qed simp

lemma entry_detail_one_line:
  assumes "one_line_entries es" and "d \<in> set (List.map_filter entry_detail es)"
  shows "CHR 0x0A \<notin> set d"
proof -
  obtain f e where x: "(f, e) \<in> set es" "entry_detail (f, e) = Some d"
    using assms(2) by (auto simp: List.map_filter_def)
  then have "CHR 0x0A \<notin> set f" "CHR 0x0A \<notin> set (de_before e)" "CHR 0x0A \<notin> set (de_after e)"
    using assms(1) by (auto simp: one_line_entries_def list_all_iff)
  then show ?thesis using x(2) by (auto simp: entry_detail_def Let_def split: if_splits)
qed

lemma go_join_set: "set (go_join sep xs) \<subseteq> set sep \<union> \<Union> (set ` set xs)"
  by (induction sep xs rule: go_join.induct) auto

section \<open>Properties\<close>

text \<open>
  The preflight check accepts a list of objects exactly when it is empty, or the comparison could be
  set up and every CRD in it could be converted and is either new to the cluster or compared with the
  CRD that is there without a failure; failing to read the CRD of the cluster is not acceptance.
\<close>

theorem crd_preflight_exact:
  "runPreflight env objs = None \<longleftrightarrow>
     objs = [] \<or> (\<exists>run. ce_runner env = Inr run \<and>
       list_all (\<lambda>obj. \<exists>u new. ce_ToUnstructured env obj = Inr u \<and> ce_FromUnstructured env u = Inr new \<and>
            (case ce_Get env (GetName new) of Inl e \<Rightarrow> IsNotFound e | Inr old \<Rightarrow> \<not> HasFailures (run old new)))
         (filter (\<lambda>obj. GroupVersionKind obj = crd_gvk) objs))"
  unfolding runPreflight_ok safe_object_def list_all_iff by auto


definition example_crd :: json where
  "example_crd = JObj [(''apiVersion'', JStr ''apiextensions.k8s.io/v1''), (''kind'', JStr ''CustomResourceDefinition'')]"

definition example_crd_env :: crd_env where
  "example_crd_env =
     \<lparr>ce_runner = Inr (\<lambda>old new. \<lparr>rr_CRDValidation = [], rr_SameVersionValidation = [], rr_ServedVersionValidation = []\<rparr>),
      ce_ToUnstructured = Inr, ce_FromUnstructured = Inr, ce_Get = (\<lambda>name. Inr example_crd)\<rparr>"

lemma example_crd_kind: "GroupVersionKind example_crd = crd_gvk"
  by code_simp

lemma example_preflight: "runPreflight example_crd_env [example_crd] = None"
  unfolding runPreflight_ok by (simp add: safe_object_def example_crd_env_def HasFailures_def has_property_failures_def)


text \<open>
  The message about changes that no comparison handles is short: it is one line, whatever dump of
  the two schemas it was made from.
\<close>

theorem concise_message_one_line:
  assumes "str_contains raw unhandledSummaryPrefix"
  shows "CHR 0x0A \<notin> set (conciseUnhandledMessage raw)"
proof -
  have "list_all (\<lambda>l. CHR 0x0A \<notin> set l) (split_on (CHR 0x0A) raw)" using split_on_set by (auto simp: list_all_iff)
  then have "one_line_entries (read_diff (split_on (CHR 0x0A) raw) [])"
    by (rule read_diff_one_line) (simp add: one_line_entries_def)
  then have "CHR 0x0A \<notin> set d" if "d \<in> set (extractUnhandledDetails raw)" for d
    using that entry_detail_one_line unfolding extractUnhandledDetails_def by blast
  then have "CHR 0x0A \<notin> set (go_join ''; '' (extractUnhandledDetails raw))"
    using go_join_set [of "''; ''" "extractUnhandledDetails raw"] by auto
  then show ?thesis using assms by (simp add: conciseUnhandledMessage_def Let_def unhandledSummaryPrefix_def)
qed

end
