(* ===== verification/Image_Cache.thy ===== *)
theory Image_Cache
  imports Go_Errors "HOL-Library.AList"
begin

unbundle bit_operations_syntax

text \<open>
  Pulling the image of a bundle or catalog and unpacking it to disk: the filters of archive entries
  (\<open>image/filters.go\<close>), the cache of unpacked images with the directories it keeps (\<open>image/cache.go\<close>, \<open>fs/fs.go\<close>)
  and the puller (\<open>image/pull.go\<close>, with the charts of \<open>image/helm.go\<close>). The registry client, the unpacking of one
  archive, the loader of charts and the answers of the operating system are parameters; a failed
  operation says what it left behind. File modes are not part of the model.
\<close>

section \<open>Definitions\<close>

subsection \<open>Paths\<close>

fun clean_elems :: "bool \<Rightarrow> string list \<Rightarrow> string list \<Rightarrow> string list" where
  "clean_elems rooted acc [] = rev acc"
| "clean_elems rooted acc (e # es) =
     (if e = '''' \<or> e = ''.'' then clean_elems rooted acc es
      else if e = ''..'' then
        (case acc of
           [] \<Rightarrow> clean_elems rooted (if rooted then [] else [''..'']) es
         | a # acc' \<Rightarrow> if a = ''..'' then clean_elems rooted (''..'' # acc) es else clean_elems rooted acc' es)
      else clean_elems rooted (e # acc) es)"

record clean_path =
  cp_rooted :: bool
  cp_elems :: "string list"

definition path_Clean :: "string \<Rightarrow> clean_path" where
  "path_Clean s =
     (let rooted = (s \<noteq> '''' \<and> hd s = CHR ''/'') in \<lparr>cp_rooted = rooted, cp_elems = clean_elems rooted [] (split_on (CHR ''/'') s)\<rparr>)"

definition path_string :: "clean_path \<Rightarrow> string" where
  "path_string p =
     (if cp_rooted p then ''/'' @ go_join ''/'' (cp_elems p)
      else if cp_elems p = [] then ''.'' else go_join ''/'' (cp_elems p))"

fun strip_common :: "string list \<Rightarrow> string list \<Rightarrow> string list \<times> string list" where
  "strip_common (b # bs) (t # ts) = (if b = t then strip_common bs ts else (b # bs, t # ts))"
| "strip_common bs ts = (bs, ts)"

text \<open>The elements of the relative path; \<open>None\<close> is an error.\<close>

definition filepath_Rel :: "clean_path \<Rightarrow> clean_path \<Rightarrow> string list option" where
  "filepath_Rel base targ =
     (if base = targ then Some [''.'']
      else if cp_rooted base \<noteq> cp_rooted targ then None
      else
        (let words = (if cp_elems targ = [] \<and> \<not> cp_rooted targ then [''.''] else cp_elems targ);
             (bs, ts) = strip_common (cp_elems base) words in
         if bs \<noteq> [] \<and> hd bs = ''..'' \<and> ts \<noteq> [] then None
         else Some (replicate (length bs) ''..'' @ ts)))"

subsection \<open>Filters of archive entries\<close>

record tar_header =
  th_Name :: string
  th_Uid :: int
  th_Gid :: int
  th_Mode :: int
  th_PAXRecords :: "(string \<times> string) list"

type_synonym archive_filter = "tar_header \<Rightarrow> tar_header \<times> bool result"

definition forceOwnershipRWX :: "int \<Rightarrow> int \<Rightarrow> archive_filter" where
  "forceOwnershipRWX uid gid h =
     (h\<lparr>th_Uid := uid, th_Gid := gid, th_Mode := th_Mode h OR 448, th_PAXRecords := []\<rparr>, Inr True)"

definition trim_slash :: "string \<Rightarrow> string" where
  "trim_slash s = (if s \<noteq> '''' \<and> hd s = CHR ''/'' then tl s else s)"

definition onlyPath :: "string \<Rightarrow> archive_filter" where
  "onlyPath p h =
     (let wantPath = path_Clean (trim_slash p); headerPath = path_Clean (trim_slash (th_Name h)) in
      (h, case filepath_Rel wantPath headerPath of
            None \<Rightarrow>
              Inl (ErrWrap ''error getting relative path: ''
                (ErrText (''Rel: can'' @ [CHR 0x27] @ ''t make '' @ path_string headerPath @ '' relative to '' @ path_string wantPath)) '''')
          | Some rel \<Rightarrow> Inr (\<not> (rel \<noteq> [] \<and> hd rel = ''..''))))"

fun allFilters :: "archive_filter list \<Rightarrow> archive_filter" where
  "allFilters [] h = (h, Inr True)"
| "allFilters (f # fs) h =
     (case f h of
        (h', Inl e) \<Rightarrow> (h', Inl e)
      | (h', Inr keep) \<Rightarrow> if keep then allFilters fs h' else (h', Inr False))"

subsection \<open>Directories of images\<close>

text \<open>
  Under the base path there is a directory for each owner, and in it an entry for each digest: a
  directory with its time and files, or by accident a file.
\<close>

type_synonym image_files = "(string \<times> string) list"

datatype image_node = NodeFile | NodeDir int image_files

type_synonym image_disk = "string \<rightharpoonup> (string \<times> image_node) list"

text \<open>
  The answers of the operating system and of the archive libraries in one operation. A deletion that
  fails says what it leaves.
\<close>

record image_os =
  os_stat :: "go_error option"
  os_readDir :: "go_error option"
  os_delete :: "string \<Rightarrow> (go_error \<times> (image_node \<Rightarrow> image_node option)) option"
  os_deleteOwner :: "(go_error \<times> (string \<times> image_node) list) option"
  os_empty :: "(go_error \<times> image_files) option"
  os_notDir :: go_error
  os_mkdir :: "go_error option"
  os_setReadOnly :: "go_error option"
  os_modTime :: "int result"
  os_Apply :: "archive_filter option \<Rightarrow> string \<Rightarrow> image_files \<Rightarrow> image_files \<times> go_error option"
  os_inspectChart :: "string \<Rightarrow> (string \<times> string) result"
  os_tempFile :: "go_error option"
  os_copy :: "go_error option"
  os_seek :: "go_error option"
  os_replace :: "go_error option"

definition delete_entry :: "image_os \<Rightarrow> string \<Rightarrow> (string \<times> image_node) list \<Rightarrow> (string \<times> image_node) list \<times> go_error option" where
  "delete_entry os name entries =
     (case os_delete os name of
        None \<Rightarrow> (AList.delete name entries, None)
      | Some (e, left) \<Rightarrow>
          (case Option.bind (map_of entries name) left of
             None \<Rightarrow> AList.delete name entries
           | Some n \<Rightarrow> AList.update name n entries, Some e))"

definition delete_image :: "image_os \<Rightarrow> string \<Rightarrow> string \<Rightarrow> image_disk \<Rightarrow> image_disk \<times> go_error option" where
  "delete_image os owner digest disk =
     (case disk owner of
        None \<Rightarrow> (disk, map_option fst (os_delete os digest))
      | Some entries \<Rightarrow> (let (entries', err) = delete_entry os digest entries in (disk(owner \<mapsto> entries'), err)))"

definition image_at :: "image_disk \<Rightarrow> string \<Rightarrow> string \<Rightarrow> image_node option" where
  "image_at disk owner digest = Option.bind (disk owner) (\<lambda>entries. map_of entries digest)"

definition put_image :: "string \<Rightarrow> string \<Rightarrow> image_node \<Rightarrow> image_disk \<Rightarrow> image_disk" where
  "put_image owner digest n disk =
     disk(owner \<mapsto> AList.update digest n (case disk owner of None \<Rightarrow> [] | Some entries \<Rightarrow> entries))"

definition DeleteReadOnlyOwner :: "image_os \<Rightarrow> string \<Rightarrow> image_disk \<Rightarrow> image_disk \<times> go_error option" where
  "DeleteReadOnlyOwner os owner disk =
     (case os_deleteOwner os of
        None \<Rightarrow> (disk(owner := None), None)
      | Some (e, left) \<Rightarrow> (disk(owner \<mapsto> left), Some e))"

definition EnsureEmptyDirectory :: "image_os \<Rightarrow> string \<Rightarrow> string \<Rightarrow> image_disk \<Rightarrow> image_disk \<times> go_error option" where
  "EnsureEmptyDirectory os owner digest disk =
     (case os_readDir os of
        Some e \<Rightarrow> (disk, Some e)
      | None \<Rightarrow>
          (case image_at disk owner digest of
             Some NodeFile \<Rightarrow> (disk, Some (os_notDir os))
           | Some (NodeDir t files) \<Rightarrow>
               (case os_empty os of
                  Some (e, left) \<Rightarrow> (put_image owner digest (NodeDir t left) disk, Some e)
                | None \<Rightarrow> (put_image owner digest (NodeDir t []) disk, os_mkdir os))
           | None \<Rightarrow>
               (case os_mkdir os of
                  Some e \<Rightarrow> (disk, Some e)
                | None \<Rightarrow> (put_image owner digest (NodeDir 0 []) disk, None))))"

subsection \<open>The cache\<close>

definition ConfigDirLabel :: string where
  "ConfigDirLabel = ''operators.operatorframework.io.index.configs.v1''"

text \<open>Whether the reference of the specification has a digest, and the labels of the image, decide the filter.\<close>

definition filterForCatalogImage :: "int \<Rightarrow> int \<Rightarrow> bool \<Rightarrow> string_map \<Rightarrow> archive_filter result" where
  "filterForCatalogImage uid gid specIsCanonical labels =
     (case labels ConfigDirLabel of
        None \<Rightarrow>
          (let e = ErrText (''catalog image is missing the required label '' @ go_quote ConfigDirLabel) in
           Inl (case WrapTerminal (Some e) specIsCanonical of None \<Rightarrow> e | Some e' \<Rightarrow> e'))
      | Some dirToUnpack \<Rightarrow> Inr (allFilters [onlyPath dirToUnpack, forceOwnershipRWX uid gid]))"

definition filterForBundleImage :: "int \<Rightarrow> int \<Rightarrow> bool \<Rightarrow> string_map \<Rightarrow> archive_filter result" where
  "filterForBundleImage uid gid specIsCanonical labels = Inr (forceOwnershipRWX uid gid)"

type_synonym filter_func = "(bool \<Rightarrow> string_map \<Rightarrow> archive_filter result) option"

definition image_Fetch ::
  "image_os \<Rightarrow> string \<Rightarrow> string \<Rightarrow> image_disk \<Rightarrow> image_disk \<times> (image_files \<times> int) option result" where
  "image_Fetch os owner digest disk =
     (case os_stat os of
        Some e \<Rightarrow> (disk, Inl (ErrWrap ''error checking image content already unpacked: '' e ''''))
      | None \<Rightarrow>
          (case image_at disk owner digest of
             None \<Rightarrow> (disk, Inr None)
           | Some NodeFile \<Rightarrow>
               (let (disk', err) = delete_image os owner digest disk in (disk', case err of None \<Rightarrow> Inr None | Some e \<Rightarrow> Inl e))
           | Some (NodeDir t files) \<Rightarrow> (disk, Inr (Some (files, t)))))"

record layer_data =
  ly_Index :: nat
  ly_MediaType :: string
  ly_Content :: string
  ly_Err :: "go_error option"
  ly_ReadErr :: "go_error option"

definition ChartLayerMediaType :: string where
  "ChartLayerMediaType = ''application/vnd.cncf.helm.chart.content.v1.tar+gzip''"

definition storeChartLayer :: "image_os \<Rightarrow> layer_data \<Rightarrow> image_files \<Rightarrow> image_files \<times> go_error option" where
  "storeChartLayer os layer files =
     (case ly_Err layer of
        Some e \<Rightarrow> (files, Some (ErrWrap ''error found in layer data: '' e ''''))
      | None \<Rightarrow>
     (case ly_ReadErr layer of
        Some e \<Rightarrow> (files, Some (ErrWrap (''error reading layer['' @ show_nat (ly_Index layer) @ '']: '') e ''''))
      | None \<Rightarrow>
     (case os_inspectChart os (ly_Content layer) of
        Inl e \<Rightarrow> (files, Some (ErrWrap ''inspecting chart layer: '' e ''''))
      | Inr (name, version) \<Rightarrow>
     (case os_tempFile os of
        Some e \<Rightarrow> (files, Some (ErrWrap ''create temp file: '' e ''''))
      | None \<Rightarrow>
     (case os_copy os of
        Some e \<Rightarrow> (files, Some (ErrWrap ''copying chart archive: '' e ''''))
      | None \<Rightarrow>
     (case os_seek os of
        Some e \<Rightarrow> (files, Some (ErrWrap ''seek chart archive start: '' e ''''))
      | None \<Rightarrow>
     (case os_replace os of
        Some e \<Rightarrow> (files, Some e)
      | None \<Rightarrow> (AList.update (name @ ''-'' @ version @ ''.tgz'') (ly_Content layer) files, None))))))))"

definition layer_Unpack ::
  "bool \<Rightarrow> image_os \<Rightarrow> archive_filter option \<Rightarrow> layer_data \<Rightarrow> image_files \<Rightarrow> image_files \<times> go_error option" where
  "layer_Unpack helmChartSupport os flt layer files =
     (if helmChartSupport \<and> ly_MediaType layer = ChartLayerMediaType then
        (case storeChartLayer os layer files of
           (files', Some e) \<Rightarrow> (files', Some (ErrWrap (''error applying chart layer['' @ show_nat (ly_Index layer) @ '']: '') e ''''))
         | (files', None) \<Rightarrow> (files', None))
      else
        (case os_Apply os flt (ly_Content layer) files of
           (files', Some e) \<Rightarrow> (files', Some (ErrWrap (''error applying layer['' @ show_nat (ly_Index layer) @ '']: '') e ''''))
         | (files', None) \<Rightarrow> (files', None)))"

fun unpack_layers ::
  "bool \<Rightarrow> image_os \<Rightarrow> archive_filter option \<Rightarrow> layer_data list \<Rightarrow> image_files \<Rightarrow> image_files \<times> go_error option" where
  "unpack_layers helmChartSupport os flt [] files = (files, None)"
| "unpack_layers helmChartSupport os flt (layer # layers) files =
     (case ly_Err layer of
        Some e \<Rightarrow> (files, Some (ErrWrap (''error reading layer['' @ show_nat (ly_Index layer) @ '']: '') e ''''))
      | None \<Rightarrow>
          (case layer_Unpack helmChartSupport os flt layer files of
             (files', Some e) \<Rightarrow> (files', Some (ErrWrap ''unpacking layer: '' e ''''))
           | (files', None) \<Rightarrow> unpack_layers helmChartSupport os flt layers files'))"

definition unpack_image ::
  "bool \<Rightarrow> image_os \<Rightarrow> archive_filter option \<Rightarrow> layer_data list \<Rightarrow> image_files \<times> go_error option" where
  "unpack_image helmChartSupport os flt layers =
     (case unpack_layers helmChartSupport os flt layers [] of
        (files, Some e) \<Rightarrow> (files, Some e)
      | (files, None) \<Rightarrow>
          (files, case os_setReadOnly os of
                    Some e \<Rightarrow> Some (ErrWrap ''error making unpack directory read-only: '' e '''')
                  | None \<Rightarrow> None))"

definition image_filter :: "filter_func \<Rightarrow> bool \<Rightarrow> string_map \<Rightarrow> archive_filter option result" where
  "image_filter filterFunc specIsCanonical labels =
     (case filterFunc of None \<Rightarrow> Inr None | Some f \<Rightarrow> map_sum id Some (f specIsCanonical labels))"

definition image_Store ::
  "bool \<Rightarrow> filter_func \<Rightarrow> image_os \<Rightarrow> string \<Rightarrow> bool \<Rightarrow> string \<Rightarrow> string_map \<Rightarrow> layer_data list \<Rightarrow> image_disk \<Rightarrow>
   image_disk \<times> (image_files \<times> int) result" where
  "image_Store helmChartSupport filterFunc os owner specIsCanonical digest labels layers disk =
     (case image_filter filterFunc specIsCanonical labels of
        Inl e \<Rightarrow> (disk, Inl e)
      | Inr flt \<Rightarrow>
          (case EnsureEmptyDirectory os owner digest disk of
             (disk1, Some e) \<Rightarrow> (disk1, Inl (ErrWrap ''error ensuring empty unpack directory: '' e ''''))
           | (disk1, None) \<Rightarrow>
               (case unpack_image helmChartSupport os flt layers of
                  (files, Some e) \<Rightarrow>
                    (let (disk2, rmErr) = delete_image os owner digest (put_image owner digest (NodeDir 0 files) disk1) in
                     (disk2, Inl (case errors_Join [Some e, rmErr] of None \<Rightarrow> e | Some e' \<Rightarrow> e')))
                | (files, None) \<Rightarrow>
                    (case os_modTime os of
                       Inl e \<Rightarrow> (put_image owner digest (NodeDir 0 files) disk1, Inl (ErrWrap ''error getting mod time of unpack directory: '' e ''''))
                     | Inr t \<Rightarrow> (put_image owner digest (NodeDir t files) disk1, Inr (files, t))))))"

definition image_Delete :: "image_os \<Rightarrow> string \<Rightarrow> image_disk \<Rightarrow> image_disk \<times> go_error option" where
  "image_Delete os owner disk = DeleteReadOnlyOwner os owner disk"

fun gc_images :: "image_os \<Rightarrow> string list \<Rightarrow> (string \<times> image_node) list \<Rightarrow> (string \<times> image_node) list \<times> go_error option" where
  "gc_images os [] entries = (entries, None)"
| "gc_images os (name # names) entries =
     (case delete_entry os name entries of
        (entries', Some e) \<Rightarrow> (entries', Some (ErrWrap (''error removing entry '' @ name @ '': '') e ''''))
      | (entries', None) \<Rightarrow> gc_images os names entries')"

definition image_GarbageCollect :: "image_os \<Rightarrow> string \<Rightarrow> string \<Rightarrow> image_disk \<Rightarrow> image_disk \<times> go_error option" where
  "image_GarbageCollect os owner keep disk =
     (case os_readDir os of
        Some e \<Rightarrow> (disk, Some (ErrWrap ''error reading owner directory: '' e ''''))
      | None \<Rightarrow>
          (case disk owner of
             None \<Rightarrow> (disk, None)
           | Some entries \<Rightarrow>
               (case gc_images os (filter (\<lambda>n. n \<noteq> keep) (map fst entries)) entries of
                  (entries', Some e) \<Rightarrow> (disk(owner \<mapsto> entries'), Some e)
                | (entries', None) \<Rightarrow>
                    (if keep \<in> set (map fst entries) then (disk(owner \<mapsto> entries'), None)
                     else
                       (case DeleteReadOnlyOwner os owner (disk(owner \<mapsto> entries')) of
                          (disk', Some e) \<Rightarrow> (disk', Some (ErrWrap ''error deleting unused owner data: '' e ''''))
                        | (disk', None) \<Rightarrow> (disk', None))))))"

subsection \<open>The puller\<close>

record image_ref =
  ir_Name :: string
  ir_Tag :: "string option"
  ir_Digest :: "string option"

text \<open>The answers of the registry client in one pull; \<open>pe_close\<close> is the error of closing the image, which panics.\<close>

record pull_env =
  pe_SourceCtx :: "go_error option"
  pe_ParseNamed :: "string \<Rightarrow> image_ref result"
  pe_NewReference :: "image_ref \<Rightarrow> go_error option"
  pe_NewImageSource :: "go_error option"
  pe_GetManifest :: "string result"
  pe_Digest :: "string \<Rightarrow> string result"
  pe_WithDigest :: "go_error option"
  pe_MkdirTemp :: "go_error option"
  pe_layout :: "go_error option"
  pe_DefaultPolicy :: "go_error option"
  pe_InsecurePolicy :: "go_error option"
  pe_PolicyContext :: "go_error option"
  pe_copy :: "go_error option"
  pe_layoutSource :: "go_error option"
  pe_FromSource :: "(go_error \<times> go_error option) option"
  pe_close :: "go_error option"
  pe_hasChart :: bool
  pe_chartManifest :: "string result"
  pe_Unmarshal :: "string \<Rightarrow> layer_data list result"
  pe_OCIConfig :: "string_map result"
  pe_layers :: "layer_data list"

definition resolveCanonicalRef :: "pull_env \<Rightarrow> image_ref \<Rightarrow> image_ref result" where
  "resolveCanonicalRef env ref =
     (case ir_Digest ref of
        Some _ \<Rightarrow> Inr ref
      | None \<Rightarrow>
     (case pe_NewImageSource env of
        Some e \<Rightarrow> Inl (ErrWrap ''error creating image source: '' e '''')
      | None \<Rightarrow>
     (case pe_GetManifest env of
        Inl e \<Rightarrow> Inl (ErrWrap ''error getting manifest: '' e '''')
      | Inr blob \<Rightarrow>
     (case pe_Digest env blob of
        Inl e \<Rightarrow> Inl (ErrWrap ''error getting digest of manifest: '' e '''')
      | Inr digest \<Rightarrow>
     (case pe_WithDigest env of
        Some e \<Rightarrow> Inl (ErrWrap ''error creating canonical reference: '' e '''')
      | None \<Rightarrow> Inr \<lparr>ir_Name = ir_Name ref, ir_Tag = None, ir_Digest = Some digest\<rparr>)))))"

definition loadPolicyContext :: "pull_env \<Rightarrow> go_error option" where
  "loadPolicyContext env =
     (case (if pe_DefaultPolicy env = None then None else pe_InsecurePolicy env) of
        Some e \<Rightarrow> Some (ErrWrap ''error loading signature policy: '' e '''')
      | None \<Rightarrow> pe_PolicyContext env)"

definition ProvLayerMediaType :: string where
  "ProvLayerMediaType = ''application/vnd.cncf.helm.chart.provenance.v1.prov''"

text \<open>The layers of a chart, without its provenance.\<close>

definition chart_layers :: "pull_env \<Rightarrow> layer_data list result" where
  "chart_layers env =
     (case pe_chartManifest env of
        Inl e \<Rightarrow> Inl (ErrWrap ''get OCI helm chart manifest; '' e '''')
      | Inr raw \<Rightarrow>
          (case pe_Unmarshal env raw of
             Inl e \<Rightarrow> Inl (ErrWrap ''unmarshaling chart manifest; '' e '''')
           | Inr layers \<Rightarrow> Inr (filter (\<lambda>layer. ly_MediaType layer \<noteq> ProvLayerMediaType) layers)))"

text \<open>\<open>None\<close> is the panic of a failed close.\<close>

definition applyImage ::
  "bool \<Rightarrow> filter_func \<Rightarrow> pull_env \<Rightarrow> image_os \<Rightarrow> string \<Rightarrow> image_ref \<Rightarrow> string \<Rightarrow> image_disk \<Rightarrow>
   (image_disk \<times> (image_files \<times> int) result) option" where
  "applyImage helmChartSupport filterFunc env os owner srcRef digest disk =
     (case pe_layoutSource env of
        Some e \<Rightarrow> Some (disk, Inl (ErrWrap ''error creating image source: '' e ''''))
      | None \<Rightarrow>
          (case pe_FromSource env of
             Some (e, closeErr) \<Rightarrow>
               (let err = ErrWrap ''error reading image: '' e '''' in
                Some (disk, Inl (case errors_Join [Some err, closeErr] of None \<Rightarrow> err | Some e' \<Rightarrow> e')))
           | None \<Rightarrow>
               (let store = (\<lambda>labels layers.
                      image_Store helmChartSupport filterFunc os owner (ir_Digest srcRef \<noteq> None) digest labels layers disk);
                    res =
                      (if helmChartSupport \<and> pe_hasChart env then
                         (case chart_layers env of Inl e \<Rightarrow> (disk, Inl e) | Inr layers \<Rightarrow> store Map.empty layers)
                       else
                         (case pe_OCIConfig env of Inl e \<Rightarrow> (disk, Inl e) | Inr labels \<Rightarrow> store labels (pe_layers env))) in
                if pe_close env = None then Some res else None)))"

text \<open>The operating system may answer the operations of the cache differently in one pull.\<close>

definition pull ::
  "bool \<Rightarrow> filter_func \<Rightarrow> pull_env \<Rightarrow> image_os \<Rightarrow> image_os \<Rightarrow> image_os \<Rightarrow> string \<Rightarrow> image_ref \<Rightarrow> image_disk \<Rightarrow>
   (image_disk \<times> (image_files \<times> image_ref \<times> int) result) option" where
  "pull helmChartSupport filterFunc env fetch_os store_os gc_os owner ref disk =
     (case pe_NewReference env ref of
        Some e \<Rightarrow> Some (disk, Inl (ErrTerminal (Some (ErrWrap ''error creating reference: '' e ''''))))
      | None \<Rightarrow>
     (case resolveCanonicalRef env ref of
        Inl e \<Rightarrow> Some (disk, Inl e)
      | Inr canonicalRef \<Rightarrow>
     (let digest = (case ir_Digest canonicalRef of None \<Rightarrow> '''' | Some d \<Rightarrow> d) in
      case image_Fetch fetch_os owner digest disk of
        (disk1, Inl e) \<Rightarrow> Some (disk1, Inl (ErrWrap ''error checking cache for existing content: '' e ''''))
      | (disk1, Inr (Some (files, t))) \<Rightarrow> Some (disk1, Inr (files, canonicalRef, t))
      | (disk1, Inr None) \<Rightarrow>
     (case pe_MkdirTemp env of
        Some e \<Rightarrow> Some (disk1, Inl (ErrWrap ''error creating temporary directory: '' e ''''))
      | None \<Rightarrow>
     (case pe_layout env of
        Some e \<Rightarrow> Some (disk1, Inl (ErrWrap ''error creating reference: '' e ''''))
      | None \<Rightarrow>
     (case loadPolicyContext env of
        Some e \<Rightarrow> Some (disk1, Inl (ErrWrap ''error loading policy context: '' e ''''))
      | None \<Rightarrow>
     (case pe_copy env of
        Some e \<Rightarrow> Some (disk1, Inl (ErrWrap ''error copying image: '' e ''''))
      | None \<Rightarrow>
     (case applyImage helmChartSupport filterFunc env store_os owner ref digest disk1 of
        None \<Rightarrow> None
      | Some (disk2, Inl e) \<Rightarrow> Some (disk2, Inl (ErrWrap ''error applying image: '' e ''''))
      | Some (disk2, Inr (files, t)) \<Rightarrow>
     (case image_GarbageCollect gc_os owner digest disk2 of
        (disk3, Some e) \<Rightarrow> Some (disk3, Inl (ErrWrap ''error deleting old images: '' e ''''))
      | (disk3, None) \<Rightarrow> Some (disk3, Inr (files, canonicalRef, t)))))))))))"

definition image_Pull ::
  "bool \<Rightarrow> filter_func \<Rightarrow> pull_env \<Rightarrow> image_os \<Rightarrow> image_os \<Rightarrow> image_os \<Rightarrow> string \<Rightarrow> string \<Rightarrow> image_disk \<Rightarrow>
   (image_disk \<times> (image_files \<times> image_ref \<times> int) result) option" where
  "image_Pull helmChartSupport filterFunc env fetch_os store_os gc_os owner ref disk =
     (case pe_SourceCtx env of
        Some e \<Rightarrow> Some (disk, Inl e)
      | None \<Rightarrow>
          (case pe_ParseNamed env ref of
             Inl e \<Rightarrow> Some (disk, Inl (ErrTerminal (Some (ErrWrap (''error parsing image reference '' @ go_quote ref @ '': '') e ''''))))
           | Inr dockerRef \<Rightarrow> pull helmChartSupport filterFunc env fetch_os store_os gc_os owner dockerRef disk))"

section \<open>Lemmas\<close>

subsection \<open>Filters\<close>

lemma clean_elems_plain: "e \<in> set (clean_elems rooted acc es) \<Longrightarrow> e \<in> set acc \<or> e \<noteq> '''' \<and> e \<noteq> ''.''"
  by (induction rooted acc es rule: clean_elems.induct) (auto split: if_splits list.splits)

lemma path_Clean_plain: "e \<in> set (cp_elems (path_Clean s)) \<Longrightarrow> e \<noteq> ''.''"
  using clean_elems_plain [of e _ "[]"] by (auto simp: path_Clean_def Let_def)

lemma strip_common_split:
  "strip_common bs ts = (b, t) \<Longrightarrow> \<exists>c. bs = c @ b \<and> ts = c @ t \<and> (b = [] \<or> t = [] \<or> hd b \<noteq> hd t)"
proof (induction bs ts arbitrary: b t rule: strip_common.induct)
  case (1 x bs y ts)
  show ?case
  proof (cases "x = y")
    case True
    then obtain c where "bs = c @ b \<and> ts = c @ t \<and> (b = [] \<or> t = [] \<or> hd b \<noteq> hd t)" using 1 by auto
    then show ?thesis using True by (intro exI [of _ "x # c"]) simp
  next
    case False
    then show ?thesis using 1(2) by (intro exI [of _ "[]"]) auto
  qed
qed auto

text \<open>
  The path filter keeps exactly the entries at or below the wanted path, and nothing that leads out
  of the root of the archive, when the wanted path does not lead out itself and no path has more
  than one leading slash.
\<close>

lemma onlyPath_exact:
  assumes "\<not> cp_rooted (path_Clean (trim_slash p))" and "\<not> cp_rooted (path_Clean (trim_slash (th_Name h)))"
    and "''..'' \<notin> set (cp_elems (path_Clean (trim_slash p)))"
  shows "snd (onlyPath p h) =
    Inr (\<exists>rest. cp_elems (path_Clean (trim_slash (th_Name h))) = cp_elems (path_Clean (trim_slash p)) @ rest \<and> (rest = [] \<or> hd rest \<noteq> ''..''))"
proof -
  let ?w = "path_Clean (trim_slash p)" and ?h = "path_Clean (trim_slash (th_Name h))"
  let ?words = "if cp_elems ?h = [] then [''.''] else cp_elems ?h"
  have eq: "?w = ?h \<longleftrightarrow> cp_elems ?w = cp_elems ?h" using assms(1,2) by (cases ?w, cases ?h) auto
  obtain b t where st: "strip_common (cp_elems ?w) ?words = (b, t)" by fastforce
  then obtain c where c: "cp_elems ?w = c @ b" "?words = c @ t" "b = [] \<or> t = [] \<or> hd b \<noteq> hd t" using strip_common_split by blast
  have b: "b = [] \<or> hd b \<noteq> ''..''" using assms(3) c(1) by (cases b) auto
  show ?thesis
  proof (cases "cp_elems ?w = cp_elems ?h")
    case True
    then show ?thesis using eq by (simp add: onlyPath_def filepath_Rel_def)
  next
    case False
    have rel: "filepath_Rel ?w ?h = Some (replicate (length b) ''..'' @ t)"
      using False eq assms(1,2) st b by (auto simp: filepath_Rel_def)
    have "(replicate (length b) ''..'' @ t \<noteq> [] \<and> hd (replicate (length b) ''..'' @ t) = ''..'') \<longleftrightarrow>
      \<not> (\<exists>rest. cp_elems ?h = cp_elems ?w @ rest \<and> (rest = [] \<or> hd rest \<noteq> ''..''))"
    proof (cases b)
      case Nil
      show ?thesis
      proof (cases "cp_elems ?h = []")
        case True
        then have "cp_elems ?w = [''.''] \<or> cp_elems ?w = []" using c Nil by (cases c) auto
        then show ?thesis using False True path_Clean_plain [of "''.''" "trim_slash p"] by auto
      next
        case False
        then show ?thesis using c Nil by (cases t) auto
      qed
    next
      case (Cons x xs)
      have "cp_elems ?h \<noteq> cp_elems ?w @ rest" for rest
      proof
        assume h: "cp_elems ?h = cp_elems ?w @ rest"
        then have "?words = c @ (b @ rest)" using c(1) Cons by auto
        then have "t = b @ rest" using c(2) by simp
        then show False using c(3) Cons by auto
      qed
      then show ?thesis using Cons by simp
    qed
    then show ?thesis using rel by (simp add: onlyPath_def Let_def)
  qed
qed

subsection \<open>Images on disk\<close>

lemma image_at_put [simp]: "image_at (put_image o1 d1 n disk) o2 d2 = (if o1 = o2 \<and> d1 = d2 then Some n else image_at disk o2 d2)"
  by (auto simp: image_at_def put_image_def update_conv' split: option.split)

lemma put_image_other [simp]: "o2 \<noteq> o1 \<Longrightarrow> put_image o1 d1 n disk o2 = disk o2"
  by (simp add: put_image_def)

definition deletes :: "image_os \<Rightarrow> bool" where
  "deletes os \<longleftrightarrow> (\<forall>n. os_delete os n = None) \<and> os_deleteOwner os = None \<and> os_empty os = None \<and> os_mkdir os = None"

lemma delete_image_at:
  "(\<forall>n. os_delete os n = None) \<Longrightarrow> delete_image os o1 d1 disk = (disk', err) \<Longrightarrow>
   err = None \<and> image_at disk' o2 d2 = (if o1 = o2 \<and> d1 = d2 then None else image_at disk o2 d2)"
  by (auto simp: delete_image_def delete_entry_def image_at_def delete_conv' split: option.splits)

lemma delete_image_other: "delete_image os o1 d1 disk = (disk', err) \<Longrightarrow> o2 \<noteq> o1 \<Longrightarrow> disk' o2 = disk o2"
  by (auto simp: delete_image_def split: option.splits prod.splits)

lemma EnsureEmpty_at:
  "deletes os \<Longrightarrow> EnsureEmptyDirectory os o1 d1 disk = (disk', err) \<Longrightarrow>
   (err = None \<or> disk' = disk) \<and> (o1 \<noteq> o2 \<or> d1 \<noteq> d2 \<longrightarrow> image_at disk' o2 d2 = image_at disk o2 d2)"
  by (auto simp: EnsureEmptyDirectory_def deletes_def split: option.splits image_node.splits)

lemma EnsureEmpty_other: "EnsureEmptyDirectory os o1 d1 disk = (disk', err) \<Longrightarrow> o2 \<noteq> o1 \<Longrightarrow> disk' o2 = disk o2"
  by (auto simp: EnsureEmptyDirectory_def split: option.splits image_node.splits)

lemma gc_images_of:
  "gc_images os names entries = (entries', None) \<Longrightarrow> map_of entries' n = (if n \<in> set names then None else map_of entries n)"
proof (induction names arbitrary: entries)
  case (Cons m names)
  obtain es where "delete_entry os m entries = (es, None)" "gc_images os names es = (entries', None)"
    using Cons.prems by (auto split: prod.splits option.splits)
  moreover from this(1) have "map_of es = (map_of entries)(m := None)"
    by (auto simp: delete_entry_def delete_conv' split: option.splits prod.splits)
  ultimately show ?case using Cons.IH by simp
qed simp

lemma gc_images_deletes: "(\<forall>n. os_delete os n = None) \<Longrightarrow> snd (gc_images os names entries) = None"
  by (induction names arbitrary: entries) (auto simp: delete_entry_def)

subsection \<open>Runs\<close>

text \<open>
  The operations of the cache, as long as deletions and the making of directories succeed. \<open>complete\<close>
  tells of which images the unpacked files are; a store of an image makes them so.
\<close>

inductive image_run :: "(string \<Rightarrow> string \<Rightarrow> image_files \<Rightarrow> bool) \<Rightarrow> image_disk \<Rightarrow> bool" for complete where
  run_empty: "image_run complete Map.empty"
| run_fetch: "image_run complete disk \<Longrightarrow> deletes os \<Longrightarrow> image_Fetch os owner digest disk = (disk', res) \<Longrightarrow> image_run complete disk'"
| run_store: "image_run complete disk \<Longrightarrow> deletes os \<Longrightarrow>
    (\<forall>flt files. unpack_image hcs os flt layers = (files, None) \<longrightarrow> complete owner digest files) \<Longrightarrow>
    image_Store hcs filterFunc os owner canonical digest labels layers disk = (disk', res') \<Longrightarrow> image_run complete disk'"
| run_delete: "image_run complete disk \<Longrightarrow> deletes os \<Longrightarrow> image_Delete os owner disk = (disk', err) \<Longrightarrow> image_run complete disk'"
| run_gc: "image_run complete disk \<Longrightarrow> deletes os \<Longrightarrow> image_GarbageCollect os owner digest disk = (disk', err) \<Longrightarrow> image_run complete disk'"

lemma image_Store_result:
  assumes "image_Store hcs filterFunc os owner canonical digest labels layers disk = (disk', Inr (files, t))"
  shows "(\<exists>flt. unpack_image hcs os flt layers = (files, None)) \<and> image_at disk' owner digest = Some (NodeDir t files) \<and>
    (\<forall>o2. o2 \<noteq> owner \<longrightarrow> disk' o2 = disk o2)"
  using assms EnsureEmpty_other [of os owner digest disk]
  by (fastforce simp: image_Store_def Let_def split: sum.splits prod.splits option.splits)

lemma image_Store_at:
  assumes "deletes os" and "image_Store hcs filterFunc os owner canonical digest labels layers disk = (disk', res)"
    and "image_at disk' o2 d2 = Some (NodeDir t files)"
  shows "image_at disk o2 d2 = Some (NodeDir t files) \<or> o2 = owner \<and> d2 = digest \<and> (\<exists>flt. unpack_image hcs os flt layers = (files, None))"
proof (cases "image_filter filterFunc canonical labels")
  case (Inl e)
  then show ?thesis using assms(2,3) by (simp add: image_Store_def)
next
  case (Inr flt)
  obtain disk1 err where e: "EnsureEmptyDirectory os owner digest disk = (disk1, err)" by fastforce
  note at1 = EnsureEmpty_at [OF assms(1) e]
  show ?thesis
  proof (cases err)
    case (Some x)
    then show ?thesis using assms(2,3) Inr e at1 by (simp add: image_Store_def)
  next
    case None
    obtain fs uerr where u: "unpack_image hcs os flt layers = (fs, uerr)" by fastforce
    show ?thesis
    proof (cases uerr)
      case (Some x)
      obtain disk2 rm where d: "delete_image os owner digest (put_image owner digest (NodeDir 0 fs) disk1) = (disk2, rm)" by fastforce
      have "image_at disk2 o2 d2 = (if owner = o2 \<and> digest = d2 then None else image_at disk1 o2 d2)"
        using delete_image_at [OF _ d, of o2 d2] assms(1) by (auto simp: deletes_def)
      moreover have "disk' = disk2" using assms(2) Inr e None u Some d by (simp add: image_Store_def)
      ultimately show ?thesis using assms(3) at1 by (auto split: if_splits)
    next
      case uNone: None
      have "\<exists>t'. disk' = put_image owner digest (NodeDir t' fs) disk1"
        using assms(2) Inr e None u uNone by (auto simp: image_Store_def split: sum.splits)
      then show ?thesis using assms(3) at1 u uNone by (auto split: if_splits)
    qed
  qed
qed

lemma image_GC_at:
  assumes "deletes os" and "image_GarbageCollect os owner digest disk = (disk', err)" and "image_at disk' o2 d2 = Some n"
  shows "image_at disk o2 d2 = Some n"
proof (cases "os_readDir os")
  case (Some e)
  then show ?thesis using assms(2,3) by (simp add: image_GarbageCollect_def)
next
  case None
  show ?thesis
  proof (cases "disk owner")
    case None: None
    then show ?thesis using assms(2,3) \<open>os_readDir os = None\<close> by (simp add: image_GarbageCollect_def)
  next
    case (Some entries)
    obtain es gerr where g: "gc_images os (filter (\<lambda>n. n \<noteq> digest) (map fst entries)) entries = (es, gerr)" by fastforce
    have ok: "gerr = None" using gc_images_deletes [of os "filter (\<lambda>n. n \<noteq> digest) (map fst entries)" entries] assms(1) g by (simp add: deletes_def)
    have "disk' = disk(owner \<mapsto> es) \<or> disk' = disk(owner := None)"
      using assms(1,2) None Some g ok by (auto simp: image_GarbageCollect_def DeleteReadOnlyOwner_def deletes_def split: if_splits)
    then show ?thesis using assms(3) gc_images_of [of os _ entries es] g ok Some
      by (auto simp: image_at_def split: if_splits)
  qed
qed

lemma image_Fetch_at:
  assumes "deletes os" and "image_Fetch os owner digest disk = (disk', res)" and "image_at disk' o2 d2 = Some n"
  shows "image_at disk o2 d2 = Some n"
proof -
  obtain disk1 err where d: "delete_image os owner digest disk = (disk1, err)" by fastforce
  then have "disk' = disk \<or> disk' = disk1" using assms(2) by (auto simp: image_Fetch_def split: option.splits image_node.splits)
  then show ?thesis using assms(1,3) delete_image_at [OF _ d, of o2 d2] by (auto simp: deletes_def split: if_splits)
qed

lemma image_run_complete: "image_run complete disk \<Longrightarrow> image_at disk owner digest = Some (NodeDir t files) \<Longrightarrow> complete owner digest files"
proof (induction arbitrary: owner digest t files rule: image_run.induct)
  case run_empty
  then show ?case by (simp add: image_at_def)
next
  case (run_fetch disk os o1 d1 disk' res)
  then show ?case using image_Fetch_at by blast
next
  case (run_store disk os hcs layers o1 d1 filterFunc canonical labels disk' res)
  then show ?case using image_Store_at [OF run_store(2,4) run_store(6)] by blast
next
  case (run_delete disk os o1 disk' err)
  then show ?case by (auto simp: image_Delete_def DeleteReadOnlyOwner_def image_at_def deletes_def split: if_splits)
next
  case (run_gc disk os o1 d1 disk' err)
  then show ?case using image_GC_at by blast
qed

text \<open>
  The image is unpacked where it is looked for: after a crash in the middle of a store, a pull takes
  what is there for the whole image. The same holds when deleting an image that could not be
  unpacked fails.
\<close>

definition store_interrupted ::
  "bool \<Rightarrow> image_os \<Rightarrow> archive_filter option \<Rightarrow> string \<Rightarrow> string \<Rightarrow> nat \<Rightarrow> layer_data list \<Rightarrow> image_disk \<Rightarrow> image_disk" where
  "store_interrupted hcs os flt owner digest n layers disk =
     put_image owner digest (NodeDir 0 (fst (unpack_layers hcs os flt (take n layers) []))) (fst (EnsureEmptyDirectory os owner digest disk))"

lemma interrupted_store_served:
  assumes "os_stat os' = None"
  shows "snd (image_Fetch os' owner digest (store_interrupted hcs os flt owner digest n layers disk)) =
    Inr (Some (fst (unpack_layers hcs os flt (take n layers) []), 0))"
  using assms by (simp add: image_Fetch_def store_interrupted_def)

lemma failed_delete_served:
  assumes "image_filter filterFunc canonical labels = Inr flt" and "EnsureEmptyDirectory os owner digest disk = (disk1, None)"
    and "unpack_image hcs os flt layers = (files, Some e)" and "os_delete os digest = Some (e', Some)" and "os_stat os' = None"
  shows "snd (image_Fetch os' owner digest (fst (image_Store hcs filterFunc os owner canonical digest labels layers disk))) = Inr (Some (files, 0))"
  using assms by (simp add: image_Store_def delete_image_def delete_entry_def image_Fetch_def put_image_def image_at_def update_conv')

subsection \<open>Pulling\<close>

lemma image_GC_result:
  assumes "image_GarbageCollect os owner digest disk = (disk', None)" and "image_at disk owner digest = Some n"
  shows "image_at disk' owner d2 = (if d2 = digest then Some n else None)" and "o2 \<noteq> owner \<Longrightarrow> disk' o2 = disk o2"
proof -
  obtain entries where es: "disk owner = Some entries" "map_of entries digest = Some n"
    using assms(2) by (auto simp: image_at_def bind_eq_Some_conv)
  then have k: "digest \<in> set (map fst entries)" by (metis map_of_eq_None_iff option.distinct(1) set_map)
  obtain es' gerr where g: "gc_images os (filter (\<lambda>n. n \<noteq> digest) (map fst entries)) entries = (es', gerr)" by fastforce
  then have d: "gerr = None" "disk' = disk(owner \<mapsto> es')" using assms(1) es(1) k
    by (auto simp: image_GarbageCollect_def split: option.splits)
  have "map_of entries d2 = None" if "d2 \<notin> set (map fst entries)" using that by (simp add: map_of_eq_None_iff)
  then show "image_at disk' owner d2 = (if d2 = digest then Some n else None)"
    using gc_images_of [of os _ entries es' d2] g d es(2) by (auto simp: image_at_def)
  show "o2 \<noteq> owner \<Longrightarrow> disk' o2 = disk o2" using d(2) by simp
qed

lemma applyImage_result:
  assumes "applyImage hcs filterFunc env os owner ref digest disk = Some (disk', Inr (files, t))"
  shows "\<exists>flt layers. (layers = pe_layers env \<or> chart_layers env = Inr layers) \<and> unpack_image hcs os flt layers = (files, None)"
    and "image_at disk' owner digest = Some (NodeDir t files)" and "o2 \<noteq> owner \<Longrightarrow> disk' o2 = disk o2"
proof -
  obtain labels layers where l: "layers = pe_layers env \<or> chart_layers env = Inr layers"
    "image_Store hcs filterFunc os owner (ir_Digest ref \<noteq> None) digest labels layers disk = (disk', Inr (files, t))"
    using assms by (auto simp: applyImage_def Let_def split: option.splits sum.splits if_splits prod.splits)
  note r = image_Store_result [OF l(2)]
  show "\<exists>flt layers. (layers = pe_layers env \<or> chart_layers env = Inr layers) \<and> unpack_image hcs os flt layers = (files, None)"
    using l(1) r by blast
  show "image_at disk' owner digest = Some (NodeDir t files)" "o2 \<noteq> owner \<Longrightarrow> disk' o2 = disk o2" using r by blast+
qed

lemma resolveCanonicalRef_digest:
  "resolveCanonicalRef env ref = Inr ref' \<Longrightarrow> \<exists>d. ir_Digest ref' = Some d \<and> (ir_Digest ref \<noteq> None \<longrightarrow> ref' = ref)"
  by (auto simp: resolveCanonicalRef_def split: option.splits sum.splits)

lemma image_Fetch_result:
  "image_Fetch os owner digest disk = (disk', Inr res) \<Longrightarrow>
   (\<forall>o2. o2 \<noteq> owner \<longrightarrow> disk' o2 = disk o2) \<and>
   (\<forall>files t. res = Some (files, t) \<longrightarrow> disk' = disk \<and> image_at disk owner digest = Some (NodeDir t files))"
  using delete_image_other [of os owner digest disk]
  by (auto simp: image_Fetch_def Let_def split: option.splits image_node.splits prod.splits)

lemma pull_fresh:
  assumes "pull hcs filterFunc env fetch_os store_os gc_os owner ref disk = Some (disk', Inr (files, ref', t))"
    and "resolveCanonicalRef env ref = Inr canon" and "pe_NewReference env ref = None" and "ir_Digest canon = Some d"
    and "image_Fetch fetch_os owner d disk = (disk1, Inr None)"
  obtains disk2 where "applyImage hcs filterFunc env store_os owner ref d disk1 = Some (disk2, Inr (files, t))"
    and "image_GarbageCollect gc_os owner d disk2 = (disk', None)" and "ref' = canon"
proof -
  have env: "pe_MkdirTemp env = None" "pe_layout env = None" "loadPolicyContext env = None" "pe_copy env = None"
    using assms by (auto simp: pull_def split: option.splits)
  obtain disk2 r where a: "applyImage hcs filterFunc env store_os owner ref d disk1 = Some (disk2, r)"
    using assms env by (cases "applyImage hcs filterFunc env store_os owner ref d disk1") (auto simp: pull_def)
  obtain x where r: "r = Inr x" using assms env a by (cases r) (auto simp: pull_def)
  obtain disk3 gerr where g: "image_GarbageCollect gc_os owner d disk2 = (disk3, gerr)" by fastforce
  have "gerr = None \<and> disk3 = disk' \<and> x = (files, t) \<and> ref' = canon"
    using assms env a r g by (cases x; cases gerr) (simp_all add: pull_def)
  then show ?thesis using that a r g by blast
qed

subsection \<open>An example\<close>

definition example_os :: image_os where
  "example_os =
     \<lparr>os_stat = None, os_readDir = None, os_delete = (\<lambda>n. None), os_deleteOwner = None, os_empty = None,
      os_notDir = ErrText ''not a directory'', os_mkdir = None, os_setReadOnly = None, os_modTime = Inr 7,
      os_Apply = (\<lambda>flt content files. ((''a'', content) # files, None)), os_inspectChart = (\<lambda>c. Inr (''c'', ''1'')),
      os_tempFile = None, os_copy = None, os_seek = None, os_replace = None\<rparr>"

definition example_layer :: layer_data where
  "example_layer = \<lparr>ly_Index = 0, ly_MediaType = ''tar'', ly_Content = ''x'', ly_Err = None, ly_ReadErr = None\<rparr>"

definition example_pull :: pull_env where
  "example_pull =
     \<lparr>pe_SourceCtx = None, pe_ParseNamed = (\<lambda>s. Inr \<lparr>ir_Name = s, ir_Tag = Some ''1'', ir_Digest = None\<rparr>),
      pe_NewReference = (\<lambda>r. None), pe_NewImageSource = None, pe_GetManifest = Inr ''m'', pe_Digest = (\<lambda>m. Inr ''sha256:1''),
      pe_WithDigest = None, pe_MkdirTemp = None, pe_layout = None, pe_DefaultPolicy = None, pe_InsecurePolicy = None,
      pe_PolicyContext = None, pe_copy = None, pe_layoutSource = None, pe_FromSource = None, pe_close = None,
      pe_hasChart = False, pe_chartManifest = Inr ''m'', pe_Unmarshal = (\<lambda>m. Inr []), pe_OCIConfig = Inr Map.empty, pe_layers = [example_layer]\<rparr>"

lemma example_os_deletes: "deletes example_os"
  by (simp add: deletes_def example_os_def)

section \<open>Properties\<close>

text \<open>
  C40: whatever images a cache has stored, failed to store, fetched and collected, as long as deletions
  succeed and the process is not interrupted, an image that it hands out was unpacked to its last
  layer.
\<close>

theorem fetched_image_complete:
  assumes "image_run complete disk" and "image_Fetch os owner digest disk = (disk', Inr (Some (files, t)))"
  shows "complete owner digest files"
proof -
  have "image_at disk owner digest = Some (NodeDir t files)" using image_Fetch_result [OF assms(2)] by simp
  then show ?thesis by (rule image_run_complete [OF assms(1)])
qed

theorem fetched_image_complete_witness:
  "\<exists>disk. image_run (\<lambda>owner digest files. files = [(''a'', ''x'')]) disk \<and>
     snd (image_Fetch example_os ''o'' ''sha256:1'' disk) = Inr (Some ([(''a'', ''x'')], 7))"
proof -
  let ?c = "\<lambda>owner digest files. files = [(''a'', ''x'')]"
  have unpack: "unpack_image False example_os flt [example_layer] = (files, None) \<longrightarrow> files = [(''a'', ''x'')]" for flt files
    by (simp add: unpack_image_def layer_Unpack_def example_os_def example_layer_def)
  obtain disk where st: "image_Store False None example_os ''o'' True ''sha256:1'' Map.empty [example_layer] Map.empty = (disk, Inr ([(''a'', ''x'')], 7))"
    by (simp add: image_Store_def image_filter_def EnsureEmptyDirectory_def image_at_def unpack_image_def layer_Unpack_def example_os_def example_layer_def)
  have run: "image_run ?c disk"
    by (rule image_run.run_store [OF image_run.run_empty example_os_deletes _ st]) (use unpack in blast)
  obtain files t where f: "image_Fetch example_os ''o'' ''sha256:1'' disk = (disk, Inr (Some (files, t)))" "t = 7"
    using image_Store_result [OF st] by (auto simp: image_Fetch_def example_os_def)
  with fetched_image_complete [OF run f(1)] run show ?thesis by auto
qed

text \<open>
  C39: a successful pull hands out an image under a reference with a digest, the given one if it has a
  digest, and that image is on disk as it was handed out. Either it was there and nothing
  changed, or it was unpacked to the last layer and is now the only image of its owner; the images
  of other owners are untouched in any case.
\<close>

theorem pulled_image_exact:
  assumes "image_Pull hcs filterFunc env fetch_os store_os gc_os owner ref disk = Some (disk', Inr (files, ref', t))"
  shows "\<exists>parsed digest. pe_ParseNamed env ref = Inr parsed \<and> ir_Digest ref' = Some digest \<and> (ir_Digest parsed \<noteq> None \<longrightarrow> ref' = parsed) \<and>
    image_at disk' owner digest = Some (NodeDir t files) \<and> (\<forall>o2. o2 \<noteq> owner \<longrightarrow> disk' o2 = disk o2) \<and>
    (disk' = disk \<or>
     (\<exists>flt layers. (layers = pe_layers env \<or> chart_layers env = Inr layers) \<and> unpack_image hcs store_os flt layers = (files, None)) \<and>
     (\<forall>d2. d2 \<noteq> digest \<longrightarrow> image_at disk' owner d2 = None))"
proof -
  obtain parsed where p: "pe_ParseNamed env ref = Inr parsed" "pull hcs filterFunc env fetch_os store_os gc_os owner parsed disk = Some (disk', Inr (files, ref', t))"
    using assms by (auto simp: image_Pull_def split: option.splits sum.splits)
  obtain canon where c: "resolveCanonicalRef env parsed = Inr canon" "pe_NewReference env parsed = None"
    using p(2) by (auto simp: pull_def split: option.splits sum.splits)
  then obtain d where d: "ir_Digest canon = Some d" "ir_Digest parsed \<noteq> None \<longrightarrow> canon = parsed" using resolveCanonicalRef_digest by blast
  obtain disk1 res where f: "image_Fetch fetch_os owner d disk = (disk1, Inr res)"
    using p(2) c d(1) by (cases "image_Fetch fetch_os owner d disk") (auto simp: pull_def split: sum.splits)
  note fetched = image_Fetch_result [OF f]
  show ?thesis
  proof (cases res)
    case (Some r)
    then have "disk' = disk1" "ref' = canon" "res = Some (files, t)" using p(2) c d(1) f by (auto simp: pull_def split: prod.splits)
    then show ?thesis using p(1) d fetched by auto
  next
    case None
    obtain disk2 where a: "applyImage hcs filterFunc env store_os owner parsed d disk1 = Some (disk2, Inr (files, t))"
      and g: "image_GarbageCollect gc_os owner d disk2 = (disk', None)" and r: "ref' = canon"
      by (rule pull_fresh [OF p(2) c d(1) f [unfolded None]])
    note ap = applyImage_result [OF a]
    note gc = image_GC_result [OF g ap(2)]
    show ?thesis using p(1) d r ap gc fetched
      by (intro exI [of _ parsed] exI [of _ d] conjI disjI2) auto
  qed
qed

theorem pulled_image_exact_witness:
  "\<exists>disk' ref'. image_Pull False None example_pull example_os example_os example_os ''o'' ''r:1'' Map.empty =
     Some (disk', Inr ([(''a'', ''x'')], ref', 7)) \<and> ir_Digest ref' = Some ''sha256:1'' \<and>
     image_at disk' ''o'' ''sha256:1'' = Some (NodeDir 7 [(''a'', ''x'')])"
proof -
  obtain disk' ref' where p: "image_Pull False None example_pull example_os example_os example_os ''o'' ''r:1'' Map.empty =
     Some (disk', Inr ([(''a'', ''x'')], ref', 7))" "ir_Digest ref' = Some ''sha256:1''"
    by (simp add: image_Pull_def pull_def example_pull_def resolveCanonicalRef_def image_Fetch_def loadPolicyContext_def applyImage_def
      image_Store_def image_filter_def EnsureEmptyDirectory_def image_at_def unpack_image_def layer_Unpack_def example_os_def example_layer_def
      image_GarbageCollect_def put_image_def Let_def)
  from pulled_image_exact [OF p(1)] p show ?thesis by auto
qed

end
