(* ===== verification/Image_Charts.thy ===== *)
theory Image_Charts
  imports Helm_Action
begin

text \<open>
  Charts in the content of a bundle (\<open>internal/shared/util/image/helm.go\<close>): whether the content is a chart, loading
  it, and writing the installation namespace into its templates. The loader of chart archives and the
  validation of chart metadata are Helm's and parameters.
\<close>

section \<open>Definitions\<close>

record chart_metadata =
  cmd_Name :: string
  cmd_Version :: string

record helm_chart =
  hch_Metadata :: "chart_metadata option"
  hch_Templates :: "(string \<times> string) list"

definition IsValidChart :: "(chart_metadata \<Rightarrow> go_error option) \<Rightarrow> helm_chart \<Rightarrow> go_error option" where
  "IsValidChart validate chart =
     (case hch_Metadata chart of
        None \<Rightarrow> Some (ErrText ''chart metadata is missing'')
      | Some m \<Rightarrow>
          (if cmd_Name m = '''' then Some (ErrText ''chart name is required'')
           else if cmd_Version m = '''' then Some (ErrText ''chart version is required'')
           else validate m))"

record chart_inspection =
  ci_templatesExist :: bool
  ci_chartfileExists :: bool

text \<open>The second component is the metadata written to the caller's variable, when there are any.\<close>

definition inspectChart :: "(string \<Rightarrow> helm_chart result) \<Rightarrow> string \<Rightarrow> (chart_inspection \<times> chart_metadata option) result" where
  "inspectChart loadArchive data =
     (case loadArchive data of
        Inl e \<Rightarrow> Inl (ErrWrap ''loading chart archive: '' e '''')
      | Inr chart \<Rightarrow>
          Inr (\<lparr>ci_templatesExist = (hch_Templates chart \<noteq> []), ci_chartfileExists = (hch_Metadata chart \<noteq> None)\<rparr>, hch_Metadata chart))"

definition has_suffix :: "string \<Rightarrow> string \<Rightarrow> bool" where
  "has_suffix s suf \<longleftrightarrow> length suf \<le> length s \<and> drop (length s - length suf) s = suf"

text \<open>
  The content is the list of the entries of its root directory, in the order in which they are
  listed, with the files among them.
\<close>

record bundle_root =
  br_entries :: "string list"
  br_ReadFile :: "string \<Rightarrow> string result"

definition chart_path :: "bundle_root \<Rightarrow> string" where
  "chart_path root =
     (case List.find (\<lambda>name. has_suffix name ''.tgz'' \<or> has_suffix name ''.tar.gz'') (br_entries root) of None \<Rightarrow> '''' | Some name \<Rightarrow> name)"

definition IsBundleSourceChart :: "(string \<Rightarrow> helm_chart result) \<Rightarrow> bundle_root \<Rightarrow> (bool \<times> chart_metadata option) result" where
  "IsBundleSourceChart loadArchive root =
     (let chartPath = chart_path root in
      case br_ReadFile root chartPath of
        Inl e \<Rightarrow> Inl e
      | Inr chartData \<Rightarrow>
          (case inspectChart loadArchive chartData of
             Inl e \<Rightarrow> Inl (ErrWrap (''reading '' @ chartPath @ '' from fs: '') e '''')
           | Inr (result, metadata) \<Rightarrow> Inr (ci_templatesExist result \<and> ci_chartfileExists result, metadata)))"

definition loadChartFS :: "(string \<Rightarrow> helm_chart result) \<Rightarrow> bundle_root \<Rightarrow> string \<Rightarrow> helm_chart result" where
  "loadChartFS loadArchive root filename =
     (if filename = '''' then Inl (ErrText ''chart file name was not provided'')
      else
        (case br_ReadFile root filename of
           Inl e \<Rightarrow> Inl (ErrText (''reading chart '' @ filename @ ''; '' @ err_string e))
         | Inr tarball \<Rightarrow> loadArchive tarball))"

subsection \<open>The installation namespace\<close>

text \<open>
  The pattern \<open>{{\W+\.Release\.Namespace\W+}}\<close> at the start of a text, as what is left behind its match. The first
  run of non-word characters has to end with the dot, and of the last run the longest part is taken
  that is followed by two braces.
\<close>

definition last_close :: "string \<Rightarrow> nat option" where
  "last_close s = List.find (\<lambda>k. take 2 (drop k s) = ''}}'') (rev [1..<length s])"

definition namespace_match :: "string \<Rightarrow> string option" where
  "namespace_match s =
     Option.bind (strip_prefix ''{{'' s) (\<lambda>s1.
     (let gap = takeWhile (\<lambda>c. \<not> is_word c) s1 in
      if length gap < 2 \<or> last gap \<noteq> CHR ''.'' then None
      else
        Option.bind (strip_prefix ''Release.Namespace'' (drop (length gap) s1)) (\<lambda>s2.
        map_option (\<lambda>k. drop (k + 2) s2) (last_close (takeWhile (\<lambda>c. \<not> is_word c) s2)))))"

lemma strip_prefix_exact_length: "strip_prefix p s = Some r \<Longrightarrow> length s = length p + length r"
  by (induction p s rule: strip_prefix.induct) (auto split: if_splits)

lemma namespace_match_shorter: "namespace_match s = Some r \<Longrightarrow> length r < length s"
proof -
  assume "namespace_match s = Some r"
  then obtain s1 where s1: "strip_prefix ''{{'' s = Some s1"
    unfolding namespace_match_def bind_eq_Some_conv by (elim exE conjE)
  define gap where "gap = takeWhile (\<lambda>c. \<not> is_word c) s1"
  obtain s2 k where "strip_prefix ''Release.Namespace'' (drop (length gap) s1) = Some s2" "r = drop (k + 2) s2"
    using \<open>namespace_match s = Some r\<close> s1
    by (auto simp: namespace_match_def gap_def Let_def bind_eq_Some_conv split: if_splits)
  with s1 have "length s = 2 + length s1" "length s1 - length gap = 17 + length s2" "length r \<le> length s2"
    using strip_prefix_exact_length [of "''{{''" s s1] strip_prefix_exact_length [of "''Release.Namespace''" "drop (length gap) s1" s2] by simp_all
  then show "length r < length s" by linarith
qed

function replace_namespace :: "string \<Rightarrow> string \<Rightarrow> string" where
  "replace_namespace ns [] = []"
| "replace_namespace ns (c # s) =
     (case namespace_match (c # s) of
        Some rest \<Rightarrow> ns @ replace_namespace ns rest
      | None \<Rightarrow> c # replace_namespace ns s)"
  by pat_completeness auto
termination
  by (relation "measure (length \<circ> snd)") (auto dest: namespace_match_shorter)

definition WithInstallNamespace :: "string \<Rightarrow> helm_chart \<Rightarrow> helm_chart" where
  "WithInstallNamespace namespace chrt = chrt\<lparr>hch_Templates := map (\<lambda>(n, data). (n, replace_namespace namespace data)) (hch_Templates chrt)\<rparr>"

definition LoadChartFSWithOptions :: "(string \<Rightarrow> helm_chart result) \<Rightarrow> bundle_root \<Rightarrow> string \<Rightarrow> (helm_chart \<Rightarrow> helm_chart) list \<Rightarrow> helm_chart result" where
  "LoadChartFSWithOptions loadArchive root filename options =
     (case loadChartFS loadArchive root filename of
        Inl e \<Rightarrow> Inl e
      | Inr chart \<Rightarrow> Inr (fold (\<lambda>f c. f c) options chart))"

section \<open>Lemmas\<close>

text \<open>A bundle counts as a chart exactly when the first archive in its root loads with templates and metadata.\<close>

lemma IsBundleSourceChart_iff:
  "IsBundleSourceChart loadArchive root = Inr (True, m) \<longleftrightarrow>
     (\<exists>data chart. br_ReadFile root (chart_path root) = Inr data \<and> loadArchive data = Inr chart \<and>
        hch_Templates chart \<noteq> [] \<and> hch_Metadata chart = m \<and> m \<noteq> None)"
  by (auto simp: IsBundleSourceChart_def inspectChart_def Let_def split: sum.splits)

text \<open>
  The last run of non-word characters is matched greedily, up to the last two braces in it: in a
  template that nests the namespace in JSON, the quote and the braces behind it are lost.
\<close>

lemma namespace_swallows_braces:
  "replace_namespace ''ns'' (''{x:{n: '' @ ''{{ .Release.Namespace }}'' @ ''}}'') = ''{x:{n: ns''"
  by code_simp

lemma namespace_replaced:
  "replace_namespace ''ns'' (''a: {{ .Release.Namespace }}, b: {{.Release.Namespace}}'') = ''a: ns, b: {{.Release.Namespace}}''"
  by code_simp

end
