(* ===== verification/Pull_Secrets.thy ===== *)
theory Pull_Secrets
  imports Api_Types Go_Errors
begin

text \<open>
  The pull secrets of a program: the controller that merges the configured pull secret and those of the
  service account of the pod into one file (\<open>internal/shared/controllers/pull_secret_controller.go\<close>), and the name of that
  service account from its token (\<open>util/sa/serviceaccount.go\<close>). The client, the JSON library and the file system are
  parameters.
\<close>

section \<open>Definitions\<close>

record auth_entries =
  ae_Auth :: string
  ae_Email :: string

type_synonym docker_cfg = "string \<rightharpoonup> auth_entries"

record pull_secret =
  psec_Name :: string
  psec_Namespace :: string
  psec_Data :: "string \<rightharpoonup> string"

text \<open>The state: the file with the merged secrets, and the names of the secrets of the service account.\<close>

record pull_secret_reconciler =
  psr_SecretKey :: "namespaced_name option"
  psr_ServiceAccountKey :: namespaced_name
  psr_ServiceAccountPullSecrets :: "namespaced_name list"
  psr_AuthFile :: "string option"

record secret_env =
  se_GetSecret :: "namespaced_name \<Rightarrow> pull_secret result"
  se_GetServiceAccount :: "namespaced_name \<Rightarrow> string list result"
  se_UnmarshalConfigJSON :: "string \<Rightarrow> docker_cfg result"
  se_UnmarshalCfg :: "string \<Rightarrow> docker_cfg result"
  se_Marshal :: "docker_cfg \<Rightarrow> string result"
  se_WriteFile :: "go_error option"
  se_Remove :: "go_error option"

text \<open>A missing secret is no error.\<close>

definition getSecret :: "secret_env \<Rightarrow> namespaced_name \<Rightarrow> pull_secret option result" where
  "getSecret env nn = (case se_GetSecret env nn of Inl e \<Rightarrow> if IsNotFound e then Inr None else Inl e | Inr s \<Rightarrow> Inr (Some s))"

fun get_secrets :: "secret_env \<Rightarrow> namespaced_name list \<Rightarrow> pull_secret list result" where
  "get_secrets env [] = Inr []"
| "get_secrets env (nn # nns) =
     (case getSecret env nn of
        Inl e \<Rightarrow> Inl e
      | Inr found \<Rightarrow>
          (case get_secrets env nns of
             Inl e \<Rightarrow> Inl e
           | Inr secrets \<Rightarrow> Inr (case found of None \<Rightarrow> secrets | Some s \<Rightarrow> s # secrets)))"

text \<open>What one secret contributes.\<close>

definition secret_auths :: "secret_env \<Rightarrow> pull_secret \<Rightarrow> docker_cfg result" where
  "secret_auths env s =
     (case psec_Data s ''.dockerconfigjson'' of
        Some secretData \<Rightarrow> se_UnmarshalConfigJSON env secretData
      | None \<Rightarrow>
          (case psec_Data s ''.dockercfg'' of
             Some secretData \<Rightarrow> se_UnmarshalCfg env secretData
           | None \<Rightarrow> Inr Map.empty))"

fun merge_auths :: "secret_env \<Rightarrow> pull_secret list \<Rightarrow> docker_cfg \<Rightarrow> docker_cfg result" where
  "merge_auths env [] auths = Inr auths"
| "merge_auths env (s # secrets) auths =
     (case secret_auths env s of
        Inl e \<Rightarrow> Inl e
      | Inr m \<Rightarrow> merge_auths env secrets (auths ++ m))"

definition writeSecretToFile :: "secret_env \<Rightarrow> pull_secret list \<Rightarrow> pull_secret_reconciler \<Rightarrow> pull_secret_reconciler \<times> go_error option" where
  "writeSecretToFile env secrets r =
     (case merge_auths env secrets Map.empty of
        Inl e \<Rightarrow> (r, Some e)
      | Inr auths \<Rightarrow>
          (case se_Marshal env auths of
             Inl e \<Rightarrow> (r, Some (ErrWrap ''failed to marshal secret data: '' e ''''))
           | Inr data \<Rightarrow>
               (case se_WriteFile env of
                  Some e \<Rightarrow> (r, Some (ErrWrap ''failed to write secret data to file: '' e ''''))
                | None \<Rightarrow> (r\<lparr>psr_AuthFile := Some data\<rparr>, None))))"

definition deleteSecretFile :: "secret_env \<Rightarrow> pull_secret_reconciler \<Rightarrow> pull_secret_reconciler \<times> go_error option" where
  "deleteSecretFile env r =
     (if psr_AuthFile r = None then (r, None)
      else
        (case se_Remove env of
           Some e \<Rightarrow> (r, Some (ErrWrap ''failed to delete secret file: '' e ''''))
         | None \<Rightarrow> (r\<lparr>psr_AuthFile := None\<rparr>, None)))"

definition configured_secret :: "secret_env \<Rightarrow> pull_secret_reconciler \<Rightarrow> pull_secret list result" where
  "configured_secret env r = (case psr_SecretKey r of None \<Rightarrow> Inr [] | Some key \<Rightarrow> get_secrets env [key])"

definition secrets_Reconcile :: "secret_env \<Rightarrow> pull_secret_reconciler \<Rightarrow> pull_secret_reconciler \<times> go_error option" where
  "secrets_Reconcile env r =
     (case configured_secret env r of
        Inl e \<Rightarrow> (r, Some e)
      | Inr secrets \<Rightarrow>
          (let finish = (\<lambda>r secrets. if secrets = [] then deleteSecretFile env r else writeSecretToFile env secrets r) in
           case se_GetServiceAccount env (psr_ServiceAccountKey r) of
             Inl e \<Rightarrow> if IsNotFound e then finish r secrets else (r, Some e)
           | Inr names \<Rightarrow>
               (let pullSecrets = map (\<lambda>n. \<lparr>nn_Namespace = nn_Namespace (psr_ServiceAccountKey r), nn_Name = n\<rparr>) names in
                case get_secrets env pullSecrets of
                  Inl e \<Rightarrow> (r, Some e)
                | Inr others \<Rightarrow> finish (r\<lparr>psr_ServiceAccountPullSecrets := pullSecrets\<rparr>) (secrets @ others))))"

text \<open>The filters of the two watches, by the name of the object.\<close>

definition newSecretPredicate :: "pull_secret_reconciler \<Rightarrow> namespaced_name \<Rightarrow> bool" where
  "newSecretPredicate r nn \<longleftrightarrow> psr_SecretKey r = Some nn \<or> nn \<in> set (psr_ServiceAccountPullSecrets r)"

definition newNamespacedPredicate :: "namespaced_name \<Rightarrow> namespaced_name \<Rightarrow> bool" where
  "newNamespacedPredicate key nn \<longleftrightarrow> nn_Name nn = nn_Name key \<and> nn_Namespace nn = nn_Namespace key"

text \<open>The service account of the pod, from its token; the token is not verified.\<close>

definition getServiceAccountInternal :: "(string \<Rightarrow> string result) \<Rightarrow> string result \<Rightarrow> namespaced_name result" where
  "getServiceAccountInternal token_subject data =
     (case data of
        Inl e \<Rightarrow> Inl e
      | Inr token \<Rightarrow>
          (case token_subject token of
             Inl e \<Rightarrow> Inl e
           | Inr subject \<Rightarrow>
               (let subjects = split_on (CHR '':'') subject in
                if length subjects \<noteq> 4 \<or> subjects ! 2 = '''' \<or> subjects ! 3 = ''''
                then Inl (ErrText (''badly formatted subject: '' @ subject))
                else Inr \<lparr>nn_Namespace = subjects ! 2, nn_Name = subjects ! 3\<rparr>)))"

section \<open>Lemmas\<close>

lemma split_on_append: "c \<notin> set a \<Longrightarrow> split_on c (a @ c # s) = a # split_on c s"
  by (induction a) auto

lemma split_on_plain: "c \<notin> set a \<Longrightarrow> split_on c a = [a]"
  by (induction a) auto

lemma service_account_subject:
  assumes "CHR '':'' \<notin> set ns" and "CHR '':'' \<notin> set name" and "ns \<noteq> ''''" and "name \<noteq> ''''"
    and "token_subject token = Inr (''system:serviceaccount:'' @ ns @ '':'' @ name)"
  shows "getServiceAccountInternal token_subject (Inr token) = Inr \<lparr>nn_Namespace = ns, nn_Name = name\<rparr>"
proof -
  have "split_on (CHR '':'') (''system:serviceaccount:'' @ ns @ '':'' @ name) = [''system'', ''serviceaccount'', ns, name]"
    using split_on_append [of "CHR '':''" "''system''" "''serviceaccount:'' @ ns @ '':'' @ name"]
      split_on_append [of "CHR '':''" "''serviceaccount''" "ns @ '':'' @ name"]
      split_on_append [OF assms(1), of name] split_on_plain [OF assms(2)] by simp
  then show ?thesis using assms(3-5) by (simp add: getServiceAccountInternal_def Let_def numeral_2_eq_2 numeral_3_eq_3)
qed

text \<open>The keys that a reconciliation reads, in order.\<close>

definition secret_keys :: "secret_env \<Rightarrow> pull_secret_reconciler \<Rightarrow> namespaced_name list" where
  "secret_keys env r =
     (case psr_SecretKey r of None \<Rightarrow> [] | Some key \<Rightarrow> [key]) @
     (case se_GetServiceAccount env (psr_ServiceAccountKey r) of
        Inl e \<Rightarrow> []
      | Inr names \<Rightarrow> map (\<lambda>n. \<lparr>nn_Namespace = nn_Namespace (psr_ServiceAccountKey r), nn_Name = n\<rparr>) names)"

definition found_secrets :: "secret_env \<Rightarrow> namespaced_name list \<Rightarrow> pull_secret list" where
  "found_secrets env keys = List.map_filter (\<lambda>k. case se_GetSecret env k of Inl e \<Rightarrow> None | Inr s \<Rightarrow> Some s) keys"

lemma get_secrets_found: "get_secrets env keys = Inr secrets \<Longrightarrow> secrets = found_secrets env keys"
  by (induction keys arbitrary: secrets)
    (auto simp: found_secrets_def getSecret_def List.map_filter_simps split: sum.splits if_splits option.splits)

lemma found_secrets_append: "found_secrets env (xs @ ys) = found_secrets env xs @ found_secrets env ys"
  by (simp add: found_secrets_def List.map_filter_def)

text \<open>The value of a registry is that of the last secret that has it.\<close>

fun last_auth :: "secret_env \<Rightarrow> string \<Rightarrow> pull_secret list \<Rightarrow> auth_entries option" where
  "last_auth env reg [] = None"
| "last_auth env reg (s # secrets) =
     (case last_auth env reg secrets of
        Some a \<Rightarrow> Some a
      | None \<Rightarrow> (case secret_auths env s of Inl e \<Rightarrow> None | Inr m \<Rightarrow> m reg))"

lemma merge_auths_last:
  "merge_auths env secrets auths = Inr res \<Longrightarrow>
   res reg = (case last_auth env reg secrets of Some a \<Rightarrow> Some a | None \<Rightarrow> auths reg)"
  by (induction secrets arbitrary: auths) (auto simp: map_add_def split: sum.splits option.splits)

lemma reconcile_secrets:
  assumes "secrets_Reconcile env r = (r', None)"
  shows "\<exists>r1. psr_SecretKey r1 = psr_SecretKey r \<and> psr_AuthFile r1 = psr_AuthFile r \<and>
    (\<forall>names. se_GetServiceAccount env (psr_ServiceAccountKey r) = Inr names \<longrightarrow>
       psr_ServiceAccountPullSecrets r1 = map (\<lambda>n. \<lparr>nn_Namespace = nn_Namespace (psr_ServiceAccountKey r), nn_Name = n\<rparr>) names) \<and>
    (if found_secrets env (secret_keys env r) = [] then deleteSecretFile env r1
     else writeSecretToFile env (found_secrets env (secret_keys env r)) r1) = (r', None)"
proof -
  obtain secrets where c: "configured_secret env r = Inr secrets"
    using assms by (auto simp: secrets_Reconcile_def split: sum.splits)
  have s: "secrets = found_secrets env (case psr_SecretKey r of None \<Rightarrow> [] | Some key \<Rightarrow> [key])"
  proof (cases "psr_SecretKey r")
    case None
    then show ?thesis using c by (simp add: configured_secret_def found_secrets_def List.map_filter_simps)
  next
    case (Some key)
    then have "get_secrets env [key] = Inr secrets" using c by (simp add: configured_secret_def)
    then show ?thesis using Some get_secrets_found by simp
  qed
  show ?thesis
  proof (cases "se_GetServiceAccount env (psr_ServiceAccountKey r)")
    case (Inl e)
    then have "found_secrets env (secret_keys env r) = secrets" by (simp add: secret_keys_def s)
    then show ?thesis using assms c Inl by (intro exI [of _ r]) (auto simp: secrets_Reconcile_def Let_def split: if_splits)
  next
    case (Inr names)
    let ?ps = "map (\<lambda>n. \<lparr>nn_Namespace = nn_Namespace (psr_ServiceAccountKey r), nn_Name = n\<rparr>) names"
    obtain others where m: "get_secrets env ?ps = Inr others" using assms c Inr by (auto simp: secrets_Reconcile_def Let_def split: sum.splits)
    then have "found_secrets env (secret_keys env r) = secrets @ others"
      using get_secrets_found [OF m] by (simp add: secret_keys_def s Inr found_secrets_append)
    then show ?thesis using assms c Inr m
      by (intro exI [of _ "r\<lparr>psr_ServiceAccountPullSecrets := ?ps\<rparr>"]) (auto simp: secrets_Reconcile_def Let_def)
  qed
qed

lemma finish_keeps:
  "deleteSecretFile env r = (r', e) \<Longrightarrow> psr_ServiceAccountPullSecrets r' = psr_ServiceAccountPullSecrets r \<and> psr_SecretKey r' = psr_SecretKey r"
  "writeSecretToFile env secrets r = (r', e) \<Longrightarrow> psr_ServiceAccountPullSecrets r' = psr_ServiceAccountPullSecrets r \<and> psr_SecretKey r' = psr_SecretKey r"
  by (auto simp: deleteSecretFile_def writeSecretToFile_def split: if_splits option.splits sum.splits)

text \<open>A failed reconciliation never changes the file.\<close>

lemma failed_keeps_file: "secrets_Reconcile env r = (r', Some e) \<Longrightarrow> psr_AuthFile r' = psr_AuthFile r"
  by (auto simp: secrets_Reconcile_def deleteSecretFile_def writeSecretToFile_def Let_def split: sum.splits if_splits option.splits)

section \<open>Properties\<close>

text \<open>
  after a reconciliation without an error the file holds, for every registry, the credentials of
  the last of the found secrets that has the registry, the configured secret coming before those of
  the service account, or there is no file when no secret was found; and a change of any secret
  that was read, found or not, passes the filter of the watch.
\<close>

theorem pull_secret_file_exact:
  assumes "secrets_Reconcile env r = (r', None)"
  shows "(found_secrets env (secret_keys env r) = [] \<and> psr_AuthFile r' = None \<or>
     found_secrets env (secret_keys env r) \<noteq> [] \<and>
     (\<exists>auths data. psr_AuthFile r' = Some data \<and> se_Marshal env auths = Inr data \<and>
        (\<forall>reg. auths reg = last_auth env reg (found_secrets env (secret_keys env r))))) \<and>
    list_all (newSecretPredicate r') (secret_keys env r)"
proof -
  let ?found = "found_secrets env (secret_keys env r)"
  obtain r1 where r1: "psr_SecretKey r1 = psr_SecretKey r"
    "\<forall>names. se_GetServiceAccount env (psr_ServiceAccountKey r) = Inr names \<longrightarrow>
       psr_ServiceAccountPullSecrets r1 = map (\<lambda>n. \<lparr>nn_Namespace = nn_Namespace (psr_ServiceAccountKey r), nn_Name = n\<rparr>) names"
    and fin: "(if ?found = [] then deleteSecretFile env r1 else writeSecretToFile env ?found r1) = (r', None)"
    using reconcile_secrets [OF assms] by (elim exE conjE)
  have keep: "psr_ServiceAccountPullSecrets r' = psr_ServiceAccountPullSecrets r1" "psr_SecretKey r' = psr_SecretKey r"
    using fin finish_keeps r1(1) by (auto split: if_splits)
  have "list_all (newSecretPredicate r') (secret_keys env r)"
    using r1(2) keep
    by (cases "se_GetServiceAccount env (psr_ServiceAccountKey r)")
      (auto simp: secret_keys_def newSecretPredicate_def list_all_iff split: option.splits)
  moreover have "\<exists>auths data. psr_AuthFile r' = Some data \<and> se_Marshal env auths = Inr data \<and> (\<forall>reg. auths reg = last_auth env reg ?found)"
    if ne: "?found \<noteq> []"
  proof -
    obtain auths data where w: "merge_auths env ?found Map.empty = Inr auths" "se_Marshal env auths = Inr data" "psr_AuthFile r' = Some data"
      using fin ne by (auto simp: writeSecretToFile_def split: sum.splits option.splits)
    have "auths reg = last_auth env reg ?found" for reg using merge_auths_last [OF w(1), of reg] by (simp split: option.splits)
    then show ?thesis using w(2,3) by blast
  qed
  moreover have "psr_AuthFile r' = None" if "?found = []"
    using fin that by (auto simp: deleteSecretFile_def split: if_splits option.splits)
  ultimately show ?thesis by blast
qed

definition example_account :: namespaced_name where
  "example_account = \<lparr>nn_Namespace = ''olm'', nn_Name = ''sa''\<rparr>"

definition example_reconciler :: pull_secret_reconciler where
  "example_reconciler =
     \<lparr>psr_SecretKey = None, psr_ServiceAccountKey = example_account, psr_ServiceAccountPullSecrets = [], psr_AuthFile = None\<rparr>"

definition example_secrets :: secret_env where
  "example_secrets =
     \<lparr>se_GetSecret = (\<lambda>nn. Inr \<lparr>psec_Name = nn_Name nn, psec_Namespace = nn_Namespace nn, psec_Data = [''.dockercfg'' \<mapsto> ''c'']\<rparr>),
      se_GetServiceAccount = (\<lambda>nn. Inr [''pull'']),
      se_UnmarshalConfigJSON = (\<lambda>d. Inr Map.empty), se_UnmarshalCfg = (\<lambda>d. Inr [''reg'' \<mapsto> \<lparr>ae_Auth = d, ae_Email = ''''\<rparr>]),
      se_Marshal = (\<lambda>m. Inr (case m ''reg'' of None \<Rightarrow> '''' | Some a \<Rightarrow> ae_Auth a)), se_WriteFile = None, se_Remove = None\<rparr>"

theorem pull_secret_file_exact_witness:
  "\<exists>r'. secrets_Reconcile example_secrets example_reconciler = (r', None) \<and> psr_AuthFile r' = Some ''c'' \<and>
     newSecretPredicate r' \<lparr>nn_Namespace = ''olm'', nn_Name = ''pull''\<rparr>"
proof -
  obtain r' where r': "secrets_Reconcile example_secrets example_reconciler = (r', None)" "psr_AuthFile r' = Some ''c''"
    by (simp add: secrets_Reconcile_def configured_secret_def getSecret_def writeSecretToFile_def secret_auths_def
      example_secrets_def example_reconciler_def example_account_def Let_def)
  with pull_secret_file_exact [OF r'(1)] show ?thesis
    by (auto simp: secret_keys_def example_secrets_def example_reconciler_def example_account_def)
qed

end
