(* ===== verification/Catalogd_GraphQL.thy ===== *)
theory Catalogd_GraphQL
  imports Catalogd_Index Complex_Main "HOL-Library.AList"
begin

text \<open>
  GraphQL queries on a catalog: the schema that is made from the metas of the catalog
  (\<open>internal/catalogd/graphql/graphql.go\<close>) and the cache of schemas (\<open>internal/catalogd/service/graphql_service.go\<close>). JSON decoding
  and encoding, the reader of metas and the checks of the GraphQL library are parameters. Go ranges over a
  map in any order; the model takes the order of a list, so that a theorem for every list holds for
  every order.
\<close>

section \<open>Definitions\<close>

subsection \<open>Values\<close>

text \<open>What decoding JSON into an interface gives; a number is a double, an object a map.\<close>

datatype gvalue = GNull | GBool bool | GNum rat | GStr string | GArr "gvalue list" | GObj "(string \<times> gvalue) list"

type_synonym gobject = "(string \<times> gvalue) list"

datatype gkind = KString | KBool | KFloat64 | KMap | KSlice

fun kind_of :: "gvalue \<Rightarrow> gkind" where
  "kind_of (GBool _) = KBool"
| "kind_of (GNum _) = KFloat64"
| "kind_of (GStr _) = KString"
| "kind_of (GArr _) = KSlice"
| "kind_of (GObj _) = KMap"
| "kind_of GNull = KString"

subsection \<open>Names\<close>

definition name_char :: "char \<Rightarrow> bool" where
  "name_char c \<longleftrightarrow> is_digit c \<or> is_alpha c \<or> c = CHR ''_''"

definition upper_char :: "char \<Rightarrow> char" where
  "upper_char c = (if 97 \<le> (of_char c :: nat) \<and> (of_char c :: nat) \<le> 122 then char_of ((of_char c :: nat) - 32) else c)"

fun collapse_underscores :: "string \<Rightarrow> string" where
  "collapse_underscores (a # b # s) =
     (if a = CHR ''_'' \<and> b = CHR ''_'' then collapse_underscores (b # s) else a # collapse_underscores (b # s))"
| "collapse_underscores s = s"

fun camel_parts :: "bool \<Rightarrow> string list \<Rightarrow> string" where
  "camel_parts isFirst [] = ''''"
| "camel_parts isFirst (part # parts) =
     (case part of
        [] \<Rightarrow> camel_parts isFirst parts
      | c # cs \<Rightarrow>
          (if isFirst then
             (if map upper_char part = part then map lower_char part else lower_char c # cs) @ camel_parts False parts
           else (upper_char c # map lower_char cs) @ camel_parts False parts))"

definition remapFieldName :: "string \<Rightarrow> string" where
  "remapFieldName name =
     (if name = '''' then ''value''
      else
        (let clean = map (\<lambda>c. if name_char c then c else CHR ''_'') name;
             clean = dropWhile (\<lambda>c. c = CHR ''_'') (collapse_underscores clean);
             result = camel_parts True (split_on (CHR ''_'') clean) in
         if result = '''' \<or> \<not> is_alpha (hd result) then ''field_'' @ result else result))"

definition alnum :: "char \<Rightarrow> bool" where
  "alnum c \<longleftrightarrow> is_digit c \<or> is_alpha c"

fun title_parts :: "string list \<Rightarrow> string" where
  "title_parts [] = ''''"
| "title_parts (part # parts) =
     (case part of [] \<Rightarrow> title_parts parts | c # cs \<Rightarrow> (upper_char c # map lower_char cs) @ title_parts parts)"

definition sanitizeTypeName :: "string \<Rightarrow> string" where
  "sanitizeTypeName propType =
     (let clean = dropWhile is_digit (map (\<lambda>c. if alnum c then c else CHR ''_'') propType);
          result = title_parts (split_on (CHR ''_'') clean) in
      if result = '''' then ''Unknown'' else result)"

definition query_field :: "string \<Rightarrow> string" where
  "query_field schemaName = map lower_char (filter alnum schemaName) @ ''s''"

subsection \<open>Types\<close>

datatype gql_type = GqlString | GqlBoolean | GqlInt | GqlFloat | GqlList gql_type | GqlObject string "(string \<times> gql_type) list"

text \<open>A double equals its conversion to a 64-bit integer and back; out of range the conversion gives the least integer, as on amd64.\<close>

fun isIntegerValue :: "gvalue \<Rightarrow> bool" where
  "isIntegerValue (GNum r) \<longleftrightarrow> snd (quotient_of r) = 1 \<and> - (2 ^ 63) \<le> fst (quotient_of r) \<and> fst (quotient_of r) < 2 ^ 63"
| "isIntegerValue _ \<longleftrightarrow> False"

definition jsonTypeToGraphQL :: "gkind \<Rightarrow> bool \<Rightarrow> gvalue \<Rightarrow> gql_type" where
  "jsonTypeToGraphQL jsonType isArray sampleValue =
     (let baseType =
            (case jsonType of
               KString \<Rightarrow> GqlString
             | KBool \<Rightarrow> GqlBoolean
             | KFloat64 \<Rightarrow> if isIntegerValue sampleValue then GqlInt else GqlFloat
             | _ \<Rightarrow> GqlString) in
      if isArray then GqlList baseType else baseType)"

fun determineFieldType :: "gvalue \<Rightarrow> gkind \<times> bool" where
  "determineFieldType GNull = (KString, False)"
| "determineFieldType (GArr []) = (KString, True)"
| "determineFieldType (GArr (x # xs)) = (if x = GNull then (KString, True) else (kind_of x, True))"
| "determineFieldType v = (kind_of v, False)"

datatype field_info =
  FieldInfo (fi_Name: string) (fi_GraphQLType: gql_type) (fi_JSONType: gkind) (fi_IsArray: bool)
    (fi_SampleValues: "gvalue list") (fi_NestedFields: "(string \<times> field_info) list option")

fun array_sample :: "gvalue \<Rightarrow> gvalue" where
  "array_sample (GArr (x # xs)) = x"
| "array_sample v = v"

fun analyzeNestedObject :: "gobject \<Rightarrow> (string \<times> field_info) list" where
  "analyzeNestedObject [] = []"
| "analyzeNestedObject ((key, v) # obj) =
     (let fieldName = remapFieldName key; (jsonType, isArray) = determineFieldType v;
          sampleValue = (if isArray then array_sample v else v); rest = analyzeNestedObject obj in
      if map_of rest fieldName = None
      then (fieldName, FieldInfo fieldName (jsonTypeToGraphQL jsonType isArray sampleValue) jsonType isArray [v] None) # rest
      else rest)"

definition analyzeFieldValue :: "gvalue \<Rightarrow> gkind \<times> bool \<times> gvalue \<times> (string \<times> field_info) list option" where
  "analyzeFieldValue v =
     (case v of
        GNull \<Rightarrow> (KString, False, v, None)
      | GArr [] \<Rightarrow> (KString, True, v, None)
      | GArr (x # xs) \<Rightarrow>
          (case x of
             GNull \<Rightarrow> (KString, True, v, None)
           | GObj elemObj \<Rightarrow> (KMap, True, x, Some (analyzeNestedObject elemObj))
           | _ \<Rightarrow> (kind_of x, True, x, None))
      | _ \<Rightarrow> (kind_of v, False, v, None))"

definition appendUnique :: "(gvalue \<Rightarrow> string result) \<Rightarrow> gvalue list \<Rightarrow> gvalue \<Rightarrow> gvalue list" where
  "appendUnique marshal samples v =
     (case marshal v of
        Inl e \<Rightarrow> samples
      | Inr key \<Rightarrow> if list_ex (\<lambda>x. marshal x = Inr key) samples then samples else samples @ [v])"

definition mergeNestedFields ::
  "(gvalue \<Rightarrow> string result) \<Rightarrow> (string \<times> field_info) list \<Rightarrow> (string \<times> field_info) list \<Rightarrow> (string \<times> field_info) list" where
  "mergeNestedFields marshal existing new =
     fold (\<lambda>(fieldName, newInfo) fs.
       (case map_of fs fieldName of
          Some (FieldInfo n t k a samples nested) \<Rightarrow>
            AList.update fieldName
              (FieldInfo n t k a (fold (\<lambda>s acc. appendUnique marshal acc s) (fi_SampleValues newInfo) samples) nested) fs
        | None \<Rightarrow> fs @ [(fieldName, newInfo)])) new existing"

fun analyzeJSONObject :: "(gvalue \<Rightarrow> string result) \<Rightarrow> gobject \<Rightarrow> (string \<times> field_info) list \<Rightarrow> (string \<times> field_info) list" where
  "analyzeJSONObject marshal [] fs = fs"
| "analyzeJSONObject marshal ((key, v) # obj) fs =
     (let fieldName = remapFieldName key; (jsonType, isArray, sampleValue, nestedFields) = analyzeFieldValue v in
      analyzeJSONObject marshal obj
        (case map_of fs fieldName of
           None \<Rightarrow>
             fs @ [(fieldName, FieldInfo fieldName (jsonTypeToGraphQL jsonType isArray sampleValue) jsonType isArray [sampleValue] nestedFields)]
         | Some (FieldInfo n t k a samples nested) \<Rightarrow>
             AList.update fieldName
               (FieldInfo n t k a (appendUnique marshal samples sampleValue)
                 (case nestedFields of
                    None \<Rightarrow> nested
                  | Some new \<Rightarrow> (case nested of None \<Rightarrow> Some new | Some old \<Rightarrow> Some (mergeNestedFields marshal old new)))) fs))"

subsection \<open>Discovery\<close>

record schema_info =
  si_Fields :: "(string \<times> field_info) list"
  si_TotalObjects :: nat
  si_SampleObject :: "gobject option"

type_synonym catalog_schema = "(string \<times> schema_info) list"

text \<open>JSON codecs and the checks of the GraphQL library on the fields of the root query.\<close>

record graphql_env =
  ge_Unmarshal :: "string \<Rightarrow> gobject result"
  ge_Marshal :: "gvalue \<Rightarrow> string result"
  ge_NewSchema :: "(string \<times> gql_type) list \<Rightarrow> go_error option"
  ge_Format :: "gvalue \<Rightarrow> string"

definition discover_meta :: "graphql_env \<Rightarrow> meta \<Rightarrow> catalog_schema \<Rightarrow> catalog_schema" where
  "discover_meta env m schemas =
     (if m_Schema m = '''' then schemas
      else
        (let info = (case map_of schemas (m_Schema m) of None \<Rightarrow> \<lparr>si_Fields = [], si_TotalObjects = 0, si_SampleObject = None\<rparr> | Some i \<Rightarrow> i);
             info1 = info\<lparr>si_TotalObjects := si_TotalObjects info + 1\<rparr> in
         AList.update (m_Schema m)
           (case ge_Unmarshal env (m_Blob m) of
              Inl e \<Rightarrow> info1
            | Inr obj \<Rightarrow>
                info1\<lparr>si_SampleObject := (if si_SampleObject info1 = None then Some obj else si_SampleObject info1),
                  si_Fields := analyzeJSONObject (ge_Marshal env) obj (si_Fields info1)\<rparr>) schemas))"

definition DiscoverSchemaFromMetas :: "graphql_env \<Rightarrow> meta list \<Rightarrow> catalog_schema" where
  "DiscoverSchemaFromMetas env metas = fold (discover_meta env) metas []"

subsection \<open>Resolvers\<close>

fun marshalComplexValue :: "graphql_env \<Rightarrow> gvalue \<Rightarrow> gvalue" where
  "marshalComplexValue env (GArr vs) = GStr (case ge_Marshal env (GArr vs) of Inr s \<Rightarrow> s | Inl e \<Rightarrow> ge_Format env (GArr vs))"
| "marshalComplexValue env (GObj fs) = GStr (case ge_Marshal env (GObj fs) of Inr s \<Rightarrow> s | Inl e \<Rightarrow> ge_Format env (GObj fs))"
| "marshalComplexValue env v = v"

definition remapped :: "string \<Rightarrow> gobject \<Rightarrow> gvalue option" where
  "remapped fieldName source = map_option snd (List.find (\<lambda>(k, v). remapFieldName k = fieldName) source)"

fun createFieldResolver :: "graphql_env \<Rightarrow> string \<Rightarrow> gvalue \<Rightarrow> gvalue" where
  "createFieldResolver env fieldName (GObj source) = (case remapped fieldName source of None \<Rightarrow> GNull | Some v \<Rightarrow> marshalComplexValue env v)"
| "createFieldResolver env fieldName _ = GNull"

fun createNestedFieldResolver :: "string \<Rightarrow> gvalue \<Rightarrow> gvalue" where
  "createNestedFieldResolver fieldName (GObj source) = (case remapped fieldName source of None \<Rightarrow> GNull | Some v \<Rightarrow> v)"
| "createNestedFieldResolver fieldName _ = GNull"

fun nested_object_resolver :: "graphql_env \<Rightarrow> string \<Rightarrow> gvalue \<Rightarrow> gvalue" where
  "nested_object_resolver env fieldName (GObj source) =
     (case map_of source fieldName of
        Some v \<Rightarrow> marshalComplexValue env v
      | None \<Rightarrow> createFieldResolver env fieldName (GObj source))"
| "nested_object_resolver env fieldName _ = GNull"

definition createNestedObjectType :: "string \<Rightarrow> (string \<times> field_info) list \<Rightarrow> gql_type" where
  "createNestedObjectType typeName nested = GqlObject typeName (map (\<lambda>(n, i). (n, fi_GraphQLType i)) nested)"

definition field_nested :: "field_info \<Rightarrow> (string \<times> field_info) list" where
  "field_nested i = (case fi_NestedFields i of None \<Rightarrow> [] | Some nested \<Rightarrow> nested)"

definition buildGraphQLObjectType :: "string \<Rightarrow> schema_info \<Rightarrow> gql_type" where
  "buildGraphQLObjectType schemaName info =
     GqlObject (sanitizeTypeName schemaName)
       (map (\<lambda>(fieldName, i).
          (fieldName,
           if field_nested i \<noteq> []
           then GqlList (createNestedObjectType (sanitizeTypeName schemaName @ sanitizeTypeName fieldName) (field_nested i))
           else fi_GraphQLType i)) (si_Fields info))"

definition field_resolver :: "graphql_env \<Rightarrow> string \<Rightarrow> field_info \<Rightarrow> gvalue \<Rightarrow> gvalue" where
  "field_resolver env fieldName i =
     (if field_nested i \<noteq> [] then createNestedFieldResolver fieldName else createFieldResolver env fieldName)"

subsection \<open>The query root\<close>

record dynamic_schema =
  dy_CatalogSchema :: catalog_schema
  dy_ParsedObjects :: "(string \<times> gobject list) list"
  dy_Fields :: "(string \<times> gql_type) list"

definition parse_metas :: "graphql_env \<Rightarrow> meta list \<Rightarrow> gobject list" where
  "parse_metas env metas = List.map_filter (\<lambda>m. case ge_Unmarshal env (m_Blob m) of Inl e \<Rightarrow> None | Inr obj \<Rightarrow> Some obj) metas"

fun page_loop :: "nat \<Rightarrow> int \<Rightarrow> int \<Rightarrow> 'a list \<Rightarrow> 'a list \<Rightarrow> 'a list" where
  "page_loop i limit offset results [] = results"
| "page_loop i limit offset results (obj # objects) =
     (if int i < offset then page_loop (i + 1) limit offset results objects
      else if int (length results) \<ge> limit then results
      else page_loop (i + 1) limit offset (results @ [obj]) objects)"

definition page :: "int \<Rightarrow> int \<Rightarrow> 'a list \<Rightarrow> 'a list" where
  "page limit offset objects =
     (let limit = (if limit \<le> 0 \<or> limit > 100 then 100 else limit); offset = (if offset < 0 then 0 else offset) in
      page_loop 0 limit offset [] objects)"

text \<open>The last schema with a name wins the lookup of a query field.\<close>

definition fieldNameToSchema :: "catalog_schema \<Rightarrow> string \<Rightarrow> string option" where
  "fieldNameToSchema schemas fieldName = map_of (rev (map (\<lambda>(s, i). (query_field s, s)) schemas)) fieldName"

definition resolve_query :: "dynamic_schema \<Rightarrow> string \<Rightarrow> int \<Rightarrow> int \<Rightarrow> gobject list result" where
  "resolve_query d fieldName limit offset =
     (case fieldNameToSchema (dy_CatalogSchema d) fieldName of
        None \<Rightarrow> Inl (ErrText (''unknown schema for field '' @ fieldName))
      | Some schemaName \<Rightarrow>
          (case map_of (dy_ParsedObjects d) schemaName of
             None \<Rightarrow> Inr []
           | Some objects \<Rightarrow> Inr (page limit offset objects)))"

definition resolve_summary :: "dynamic_schema \<Rightarrow> nat \<times> (string \<times> nat \<times> nat) list" where
  "resolve_summary d =
     (length (dy_CatalogSchema d), map (\<lambda>(name, info). (name, si_TotalObjects info, length (si_Fields info))) (dy_CatalogSchema d))"

definition metas_by_schema :: "meta list \<Rightarrow> (string \<times> meta list) list" where
  "metas_by_schema metas =
     fold (\<lambda>m acc. if m_Schema m = '''' then acc
       else AList.update (m_Schema m) ((case map_of acc (m_Schema m) of None \<Rightarrow> [] | Some ms \<Rightarrow> ms) @ [m]) acc) metas []"

definition BuildDynamicGraphQLSchema :: "graphql_env \<Rightarrow> catalog_schema \<Rightarrow> (string \<times> meta list) list \<Rightarrow> dynamic_schema result" where
  "BuildDynamicGraphQLSchema env schemas metasBySchema =
     (let parsedObjects = map (\<lambda>(s, metas). (s, parse_metas env metas)) metasBySchema;
          summary = GqlObject ''CatalogSummary''
            [(''totalSchemas'', GqlInt),
             (''schemas'', GqlList (GqlObject ''SchemaSummary'' [(''name'', GqlString), (''totalObjects'', GqlInt), (''totalFields'', GqlInt)]))];
          queryFields = AList.update ''summary'' summary
            (fold (\<lambda>(s, info) fs. AList.update (query_field s) (GqlList (buildGraphQLObjectType s info)) fs) schemas []) in
      case ge_NewSchema env queryFields of
        Some e \<Rightarrow> Inl (ErrWrap ''failed to create GraphQL schema: '' e '''')
      | None \<Rightarrow> Inr \<lparr>dy_CatalogSchema = schemas, dy_ParsedObjects = parsedObjects, dy_Fields = queryFields\<rparr>)"

text \<open>What walking the metas of a file system gives, in the order in which the concurrent walk reached them.\<close>

definition buildSchemaFromFS :: "graphql_env \<Rightarrow> meta list result \<Rightarrow> dynamic_schema result" where
  "buildSchemaFromFS env walk =
     (case walk of
        Inl e \<Rightarrow> Inl (ErrWrap ''error walking catalog metas: '' e '''')
      | Inr metas \<Rightarrow>
          (case BuildDynamicGraphQLSchema env (DiscoverSchemaFromMetas env metas) (metas_by_schema metas) of
             Inl e \<Rightarrow> Inl (ErrWrap ''error building GraphQL schema: '' e '''')
           | Inr d \<Rightarrow> Inr d))"

text \<open>The same from the package's own entry point, whose walk takes no lock.\<close>

definition LoadAndSummarizeCatalogDynamic :: "graphql_env \<Rightarrow> meta list result \<Rightarrow> dynamic_schema result" where
  "LoadAndSummarizeCatalogDynamic env walk =
     (case walk of
        Inl e \<Rightarrow> Inl (ErrWrap ''error walking catalog metas: '' e '''')
      | Inr metas \<Rightarrow>
          (case BuildDynamicGraphQLSchema env (DiscoverSchemaFromMetas env metas) (metas_by_schema metas) of
             Inl e \<Rightarrow> Inl (ErrWrap ''error building GraphQL schema: '' e '''')
           | Inr d \<Rightarrow> Inr d))"

subsection \<open>The cache of schemas\<close>

type_synonym schema_cache = "string \<rightharpoonup> dynamic_schema"

text \<open>
  A request that misses the cache builds the schema without a lock and stores it under one; what
  other requests do in between is between the two.
\<close>

definition schema_lookup :: "string \<Rightarrow> schema_cache \<Rightarrow> dynamic_schema option" where
  "schema_lookup catalog cache = cache catalog"

definition schema_store :: "string \<Rightarrow> dynamic_schema result \<Rightarrow> schema_cache \<Rightarrow> schema_cache" where
  "schema_store catalog built cache = (case built of Inl e \<Rightarrow> cache | Inr d \<Rightarrow> cache(catalog \<mapsto> d))"

definition GetSchema :: "graphql_env \<Rightarrow> string \<Rightarrow> meta list result \<Rightarrow> schema_cache \<Rightarrow> schema_cache \<times> dynamic_schema result" where
  "GetSchema env catalog walk cache =
     (case schema_lookup catalog cache of
        Some d \<Rightarrow> (cache, Inr d)
      | None \<Rightarrow> (let built = buildSchemaFromFS env walk in (schema_store catalog built cache, built)))"

definition InvalidateCache :: "string \<Rightarrow> schema_cache \<Rightarrow> schema_cache" where
  "InvalidateCache catalog cache = cache(catalog := None)"

definition ExecuteQuery ::
  "graphql_env \<Rightarrow> (dynamic_schema \<Rightarrow> string \<Rightarrow> 'r) \<Rightarrow> string \<Rightarrow> meta list result \<Rightarrow> string \<Rightarrow> schema_cache \<Rightarrow> schema_cache \<times> 'r result" where
  "ExecuteQuery env graphql_Do catalog walk query cache =
     (case GetSchema env catalog walk cache of
        (cache', Inl e) \<Rightarrow> (cache', Inl (ErrWrap ''failed to get GraphQL schema: '' e ''''))
      | (cache', Inr d) \<Rightarrow> (cache', Inr (graphql_Do d query)))"

section \<open>Lemmas\<close>

subsection \<open>Names\<close>

text \<open>What the GraphQL library takes for a name.\<close>

definition gql_name :: "string \<Rightarrow> bool" where
  "gql_name s \<longleftrightarrow> s \<noteq> '''' \<and> (is_alpha (hd s) \<or> hd s = CHR ''_'') \<and> list_all name_char s"

lemma alnum_upper: "alnum c \<Longrightarrow> alnum (upper_char c)"
  by (auto simp: alnum_def is_digit_def is_alpha_def upper_char_def)

lemma alnum_lower: "alnum c \<Longrightarrow> alnum (lower_char c)"
  by (auto simp: alnum_def is_digit_def is_alpha_def lower_char_def)

lemma split_parts_subset: "\<forall>p \<in> set (split_on c s). set p \<subseteq> set s - {c}"
  by (induction s) (auto split: list.split)

lemma collapse_set: "set (collapse_underscores s) \<subseteq> set s"
  by (induction s rule: collapse_underscores.induct) auto

lemma camel_alnum: "\<forall>p \<in> set parts. \<forall>c \<in> set p. alnum c \<Longrightarrow> \<forall>c \<in> set (camel_parts b parts). alnum c"
proof (induction parts arbitrary: b)
  case (Cons part parts)
  note prems = Cons.prems
  have IH: "\<forall>c \<in> set (camel_parts b' parts). alnum c" for b' using Cons.IH prems by simp
  show ?case
  proof (cases part)
    case Nil
    then show ?thesis using IH by simp
  next
    case (Cons x xs)
    have part: "alnum x" "\<forall>c \<in> set xs. alnum c" using prems Cons by auto
    show ?thesis using part IH alnum_upper alnum_lower by (simp add: Cons) blast
  qed
qed simp

subsection \<open>Pages\<close>

lemma page_loop_eq:
  "int (length results) \<le> limit \<Longrightarrow>
   page_loop i limit offset results objects = results @ take (nat (limit - int (length results))) (drop (nat (offset - int i)) objects)"
proof (induction i limit offset results objects rule: page_loop.induct)
  case (2 i limit offset results obj objects)
  show ?case
  proof (cases "int i < offset")
    case True
    then have "nat (offset - int i) = Suc (nat (offset - int (i + 1)))" by linarith
    then show ?thesis using 2 True by simp
  next
    case False
    show ?thesis
    proof (cases "limit \<le> int (length results)")
      case True
      then show ?thesis using False by simp
    next
      case less: False
      then have "nat (limit - int (length results)) = Suc (nat (limit - int (length (results @ [obj]))))" by simp
      moreover have "nat (offset - int i) = 0" "nat (offset - int (i + 1)) = 0" using False by simp_all
      ultimately show ?thesis using 2(2) False less by simp
    qed
  qed
qed simp

lemma page_eq:
  "page limit offset objects = take (if limit \<le> 0 \<or> limit > 100 then 100 else nat limit) (drop (nat offset) objects)"
  by (auto simp: page_def page_loop_eq Let_def)

text \<open>Pages of one size up to a hundred give the whole list.\<close>

lemma pages_prefix:
  assumes "0 < l" and "l \<le> 100"
  shows "concat (map (\<lambda>k. page (int l) (int (k * l)) objects) [0..<n]) = take (n * l) objects"
proof (induction n)
  case (Suc n)
  have "page (int l) (int (n * l)) objects = take l (drop (n * l) objects)" using assms by (simp add: page_eq nat_mult_distrib)
  moreover have "take (Suc n * l) objects = take (n * l) objects @ take l (drop (n * l) objects)"
    using take_add [of "n * l" l objects] by (simp only: mult_Suc add.commute)
  ultimately show ?case using Suc by simp
qed simp

subsection \<open>Discovery\<close>

lemma update_keys: "fst ` set (AList.update k v xs) = insert k (fst ` set xs)"
  using dom_map_of_conv_image_fst [of "AList.update k v xs"] dom_map_of_conv_image_fst [of xs] update_conv' [of k v xs] by simp

lemma analyze_keys: "fst ` set (analyzeJSONObject marshal obj fs) = fst ` set fs \<union> remapFieldName ` fst ` set obj"
proof (induction obj arbitrary: fs)
  case (Cons kv obj)
  obtain key v where kv: "kv = (key, v)" by (cases kv)
  obtain k a s nested where v: "analyzeFieldValue v = (k, a, s, nested)" by (metis prod_cases4)
  show ?case
  proof (cases "map_of fs (remapFieldName key)")
    case None
    then show ?thesis using v kv by (simp add: Let_def Cons.IH)
  next
    case (Some i)
    then show ?thesis using v kv by (cases i) (simp add: Let_def Cons.IH update_keys)
  qed
qed simp

lemma discover_keys: "fst ` set (fold (discover_meta env) metas acc) = fst ` set acc \<union> (m_Schema ` set metas - {''''})"
  by (induction metas arbitrary: acc) (auto simp: discover_meta_def update_keys Let_def)

lemma discover_distinct: "distinct (map fst acc) \<Longrightarrow> distinct (map fst (fold (discover_meta env) metas acc))"
  by (induction metas arbitrary: acc) (auto simp: discover_meta_def Let_def distinct_update)

lemma discover_fields:
  assumes "m \<in> set metas" and "m_Schema m \<noteq> ''''" and "ge_Unmarshal env (m_Blob m) = Inr obj" and "k \<in> fst ` set obj"
  shows "\<exists>info. map_of (fold (discover_meta env) metas acc) (m_Schema m) = Some info \<and> remapFieldName k \<in> fst ` set (si_Fields info)"
proof -
  have keep: "\<exists>info'. map_of (fold (discover_meta env) ms a) s = Some info' \<and> fst ` set (si_Fields info) \<subseteq> fst ` set (si_Fields info')"
    if "map_of a s = Some info" for ms a s info using that
  proof (induction ms arbitrary: a info)
    case (Cons x ms)
    have "\<exists>info1. map_of (discover_meta env x a) s = Some info1 \<and> fst ` set (si_Fields info) \<subseteq> fst ` set (si_Fields info1)"
      using Cons.prems by (auto simp: discover_meta_def Let_def update_conv' analyze_keys split: sum.split)
    then show ?case using Cons.IH by fastforce
  qed auto
  obtain xs ys where split: "metas = xs @ m # ys" using assms(1) by (meson split_list)
  have "\<exists>info. map_of (discover_meta env m (fold (discover_meta env) xs acc)) (m_Schema m) = Some info \<and> remapFieldName k \<in> fst ` set (si_Fields info)"
    using assms(2-4) by (auto simp: discover_meta_def Let_def update_conv' analyze_keys)
  then obtain info where i: "map_of (discover_meta env m (fold (discover_meta env) xs acc)) (m_Schema m) = Some info"
    "remapFieldName k \<in> fst ` set (si_Fields info)" by blast
  from keep [OF i(1), of ys] i(2) show ?thesis by (auto simp: split)
qed

lemma metas_by_schema_of:
  "s \<noteq> '''' \<Longrightarrow> map_of (metas_by_schema metas) s =
     (if filter (\<lambda>m. m_Schema m = s) metas = [] then None else Some (filter (\<lambda>m. m_Schema m = s) metas))"
proof -
  let ?f = "\<lambda>m acc. if m_Schema m = '''' then acc
       else AList.update (m_Schema m) ((case map_of acc (m_Schema m) of None \<Rightarrow> [] | Some ms \<Rightarrow> ms) @ [m]) acc"
  assume s: "s \<noteq> ''''"
  have gen: "map_of (fold ?f ms acc) s =
      (if filter (\<lambda>m. m_Schema m = s) ms = [] then map_of acc s
       else Some ((case map_of acc s of None \<Rightarrow> [] | Some ns \<Rightarrow> ns) @ filter (\<lambda>m. m_Schema m = s) ms))" for ms acc
    using s by (induction ms arbitrary: acc) (auto simp: update_conv' filter_empty_conv split: option.splits)
  show ?thesis unfolding metas_by_schema_def using gen [of metas "[]"] by simp
qed

lemma fieldNameToSchema_inj:
  assumes "distinct (map fst schemas)" and "inj_on query_field (fst ` set schemas)" and "s \<in> fst ` set schemas"
  shows "fieldNameToSchema schemas (query_field s) = Some s"
proof -
  let ?xs = "rev (map (\<lambda>(s, i). (query_field s, s)) schemas)"
  have "map fst ?xs = rev (map query_field (map fst schemas))" by (simp add: rev_map comp_def split_def)
  then have "distinct (map fst ?xs)" using assms(1,2) by (simp add: distinct_map comp_inj_on)
  moreover have "(query_field s, s) \<in> set ?xs" using assms(3) by force
  ultimately show ?thesis unfolding fieldNameToSchema_def by (rule map_of_is_SomeI)
qed

text \<open>Both entry points build the same schema.\<close>

lemma load_is_build: "LoadAndSummarizeCatalogDynamic env walk = buildSchemaFromFS env walk"
  by (simp add: LoadAndSummarizeCatalogDynamic_def buildSchemaFromFS_def)

subsection \<open>Limits\<close>

text \<open>
  Names of types and of queries may start with a digit, and different schemas may get one query
  field: the library refuses such a schema, and with it the catalog.
\<close>

lemma type_name_may_start_with_digit: "sanitizeTypeName ''-1a'' = ''1a''" "\<not> gql_name (sanitizeTypeName ''-1a'')"
  by code_simp+

lemma query_field_may_start_with_digit: "query_field ''1x'' = ''1xs''" "\<not> gql_name (query_field ''1x'')"
  by code_simp+

lemma query_fields_collide: "query_field ''olm.bundle'' = query_field ''olm-bundle''" "sanitizeTypeName ''olm.bundle'' = sanitizeTypeName ''olm-bundle''"
  by code_simp+

text \<open>The type of a field is that of the first value seen, whatever comes later.\<close>

lemma first_value_fixes_type:
  "map_of fs (remapFieldName key) = Some i \<Longrightarrow>
   \<exists>i'. map_of (analyzeJSONObject marshal [(key, v)] fs) (remapFieldName key) = Some i' \<and> fi_GraphQLType i' = fi_GraphQLType i"
  by (cases i) (auto simp: Let_def update_conv' split: prod.split)

text \<open>
  A build that began before an invalidation stores its schema after it: later requests are answered
  with the schema and the objects of the old content.
\<close>

lemma stale_schema_cached:
  assumes "buildSchemaFromFS env old = Inr d"
  shows "GetSchema env catalog new (schema_store catalog (buildSchemaFromFS env old) (InvalidateCache catalog cache)) =
    (schema_store catalog (buildSchemaFromFS env old) (InvalidateCache catalog cache), Inr d)"
  using assms by (simp add: GetSchema_def schema_lookup_def schema_store_def)

section \<open>Properties\<close>

text \<open>Every key of every object gets a name that the GraphQL library takes.\<close>

theorem field_names_valid: "gql_name (remapFieldName key)"
proof (cases "key = ''''")
  case True
  have "gql_name ''value''" by code_simp
  then show ?thesis using True by (simp add: remapFieldName_def)
next
  case False
  let ?clean = "dropWhile (\<lambda>c. c = CHR ''_'') (collapse_underscores (map (\<lambda>c. if name_char c then c else CHR ''_'') key))"
  let ?res = "camel_parts True (split_on (CHR ''_'') ?clean)"
  have "set ?clean \<subseteq> set (map (\<lambda>c. if name_char c then c else CHR ''_'') key)"
    using collapse_set set_dropWhileD by (meson subset_iff)
  then have clean: "name_char c" if "c \<in> set ?clean" for c using that by (auto simp: name_char_def split: if_splits)
  have "alnum c" if "p \<in> set (split_on (CHR ''_'') ?clean)" "c \<in> set p" for p c
  proof -
    have "set p \<subseteq> set ?clean - {CHR ''_''}" using split_parts_subset that(1) by blast
    then show ?thesis using clean that(2) by (auto simp: name_char_def alnum_def)
  qed
  then have all: "list_all alnum ?res" unfolding list_all_iff by (intro camel_alnum) blast
  then have "list_all name_char ?res" by (auto simp: list_all_iff name_char_def alnum_def)
  moreover have "gql_name (''field_'' @ s)" if "list_all name_char s" for s
    using that by (simp add: gql_name_def name_char_def is_alpha_def)
  ultimately show ?thesis using False by (simp add: remapFieldName_def Let_def gql_name_def)
qed

text \<open>
  C24: the query for a schema of a catalog is answered with exactly the asked page, of at most a hundred
  objects, of the objects of that schema which could be decoded, in the order of the walk, and
  every key of every such object is a field of the type of the schema, when the names of the
  schemas give different query fields.
\<close>

theorem graphql_serves_catalog:
  assumes "buildSchemaFromFS env (Inr metas) = Inr d" and "inj_on query_field (m_Schema ` set metas - {''''})"
    and "m \<in> set metas" and "m_Schema m = s" and "s \<noteq> ''''"
  shows "resolve_query d (query_field s) limit offset =
      Inr (take (if limit \<le> 0 \<or> limit > 100 then 100 else nat limit) (drop (nat offset) (parse_metas env (filter (\<lambda>m. m_Schema m = s) metas)))) \<and>
    (\<exists>info. map_of (dy_CatalogSchema d) s = Some info \<and>
      (\<forall>obj. ge_Unmarshal env (m_Blob m) = Inr obj \<longrightarrow> remapFieldName ` fst ` set obj \<subseteq> fst ` set (si_Fields info)))"
proof -
  let ?schemas = "DiscoverSchemaFromMetas env metas"
  have d: "dy_CatalogSchema d = ?schemas" "dy_ParsedObjects d = map (\<lambda>(s, metas). (s, parse_metas env metas)) (metas_by_schema metas)"
    using assms(1) by (auto simp: buildSchemaFromFS_def BuildDynamicGraphQLSchema_def Let_def split: sum.splits option.splits)
  have keys: "fst ` set ?schemas = m_Schema ` set metas - {''''}" "distinct (map fst ?schemas)"
    unfolding DiscoverSchemaFromMetas_def by (simp_all add: discover_keys discover_distinct)
  then have "fieldNameToSchema ?schemas (query_field s) = Some s"
    using assms(2-5) by (intro fieldNameToSchema_inj) auto
  moreover have "map_of (dy_ParsedObjects d) s = Some (parse_metas env (filter (\<lambda>m. m_Schema m = s) metas))"
    using metas_by_schema_of [OF assms(5), of metas] assms(3,4) by (auto simp: d(2) map_of_map filter_empty_conv)
  ultimately have page: "resolve_query d (query_field s) limit offset =
      Inr (take (if limit \<le> 0 \<or> limit > 100 then 100 else nat limit) (drop (nat offset) (parse_metas env (filter (\<lambda>m. m_Schema m = s) metas))))"
    by (simp add: resolve_query_def d(1) page_eq)
  have "s \<in> fst ` set ?schemas" using keys(1) assms(3-5) by blast
  then obtain info where i: "map_of ?schemas s = Some info" by (metis map_of_eq_None_iff not_None_eq)
  have "remapFieldName k \<in> fst ` set (si_Fields info)" if "ge_Unmarshal env (m_Blob m) = Inr obj" "k \<in> fst ` set obj" for obj k
    using discover_fields [OF assms(3) _ that, of "[]"] assms(4,5) i unfolding DiscoverSchemaFromMetas_def by auto
  then show ?thesis using page i d(1) by auto
qed

definition example_graphql :: graphql_env where
  "example_graphql =
     \<lparr>ge_Unmarshal = (\<lambda>b. Inr [(''name'', GStr b)]), ge_Marshal = (\<lambda>v. Inr ''''), ge_NewSchema = (\<lambda>fs. None), ge_Format = (\<lambda>v. '''')\<rparr>"

definition example_meta :: meta where
  "example_meta = \<lparr>m_Schema = ''olm.bundle'', m_Package = ''p'', m_Name = ''n'', m_Blob = ''b''\<rparr>"

theorem graphql_serves_catalog_witness:
  "\<exists>d. buildSchemaFromFS example_graphql (Inr [example_meta]) = Inr d \<and>
     resolve_query d (query_field ''olm.bundle'') 0 0 = Inr [[(''name'', GStr ''b'')]]"
proof -
  obtain d where d: "buildSchemaFromFS example_graphql (Inr [example_meta]) = Inr d"
    by (simp add: buildSchemaFromFS_def BuildDynamicGraphQLSchema_def Let_def example_graphql_def)
  have "resolve_query d (query_field ''olm.bundle'') 0 0 =
      Inr (take 100 (parse_metas example_graphql (filter (\<lambda>m. m_Schema m = ''olm.bundle'') [example_meta])))"
    using graphql_serves_catalog [OF d, of example_meta "''olm.bundle''" 0 0] by (simp add: example_meta_def)
  then show ?thesis using d by (simp add: parse_metas_def example_meta_def example_graphql_def List.map_filter_simps)
qed

end
