(* ===== verification/Cert_Pool.thy ===== *)
theory Cert_Pool
  imports Bundle_Config
begin

text \<open>
  The pools of certificate authorities: reading a directory of certificates
  (\<open>internal/shared/util/http/certutil.go\<close>) and the watcher that keeps the pool up to date
  (\<open>certpoolwatcher.go\<close>). The system's pool, the file system and the parser of certificates are
  parameters; logging is left out. Directories are clean paths, so that joining a name to one puts a slash between.
\<close>

section \<open>Definitions\<close>

subsection \<open>Reading a pool\<close>

text \<open>What the system answers at one moment. \<open>cf_Stat\<close> says whether a path is a directory.\<close>

record 'c cert_fs =
  cf_SystemCertPool :: "'c list result"
  cf_ReadDir :: "string \<Rightarrow> string list result"
  cf_Stat :: "string \<Rightarrow> bool result"
  cf_ReadFile :: "string \<Rightarrow> string result"
  cf_ParsePEM :: "string \<Rightarrow> 'c list"

text \<open>A pool keeps each certificate once and says whether the data had any.\<close>

definition AppendCertsFromPEM :: "'c list \<Rightarrow> 'c list \<Rightarrow> 'c list \<times> bool" where
  "AppendCertsFromPEM certs pool = (fold (\<lambda>c p. if c \<in> set p then p else p @ [c]) certs pool, certs \<noteq> [])"

fun read_certs :: "'c cert_fs \<Rightarrow> string \<Rightarrow> string list \<Rightarrow> 'c list \<Rightarrow> nat \<Rightarrow> ('c list \<times> nat) result" where
  "read_certs fs caDir [] pool found = Inr (pool, found)"
| "read_certs fs caDir (name # names) pool found =
     (let file = caDir @ ''/'' @ name in
      case cf_Stat fs file of
        Inl e \<Rightarrow> Inl e
      | Inr True \<Rightarrow> read_certs fs caDir names pool found
      | Inr False \<Rightarrow>
          (case cf_ReadFile fs file of
             Inl e \<Rightarrow> Inl (ErrWrap (''error reading cert file '' @ go_quote file @ '': '') e '''')
           | Inr data \<Rightarrow>
               (case AppendCertsFromPEM (cf_ParsePEM fs data) pool of
                  (pool', added) \<Rightarrow> read_certs fs caDir names pool' (if added then found + 1 else found))))"

definition NewCertPool :: "'c cert_fs \<Rightarrow> string \<Rightarrow> 'c list result" where
  "NewCertPool fs caDir =
     (case cf_SystemCertPool fs of
        Inl e \<Rightarrow> Inl e
      | Inr caCertPool \<Rightarrow>
          if caDir = '''' then Inr caCertPool
          else
            (case cf_ReadDir fs caDir of
               Inl e \<Rightarrow> Inl e
             | Inr dirEntries \<Rightarrow>
                 (case read_certs fs caDir dirEntries caCertPool 0 of
                    Inl e \<Rightarrow> Inl e
                  | Inr (pool, found) \<Rightarrow>
                      if found = 0 then Inl (ErrText (''no certificates found in '' @ go_quote caDir)) else Inr pool)))"

subsection \<open>The watcher\<close>

text \<open>
  \<open>cw_room\<close> says whether the array behind \<open>sslCertPaths\<close> has room for one more path: appending to the slice
  then writes into that array. A restart function says for a code whether it ends the process, as the
  function both programs install does. A watcher of the library is the list of its paths.
\<close>

record 'c cert_pool_watcher =
  cw_generation :: "64 word"
  cw_dir :: string
  cw_sslCertPaths :: "string list"
  cw_room :: bool
  cw_pool :: "'c list option"
  cw_watcher :: "string list option"
  cw_restart :: "(int \<Rightarrow> bool) option"

definition deleteEmptyStrings :: "'c cert_fs \<Rightarrow> string \<Rightarrow> bool" where
  "deleteEmptyStrings fs p \<longleftrightarrow> p = '''' \<or> (case cf_Stat fs p of Inl e \<Rightarrow> True | Inr d \<Rightarrow> False)"

text \<open>
  Splitting allocates exactly the parts; appending the file doubles the capacity, and deleting keeps it.
\<close>

definition NewCertPoolWatcher :: "'c cert_fs \<Rightarrow> string \<Rightarrow> string \<Rightarrow> string \<Rightarrow> 'c cert_pool_watcher" where
  "NewCertPoolWatcher fs sslCertDir sslCertFile caDir =
     (let parts = split_on (CHR '':'') sslCertDir;
          sslCertPaths = filter (\<lambda>p. \<not> deleteEmptyStrings fs p) (parts @ [sslCertFile]) in
      \<lparr>cw_generation = 1, cw_dir = caDir, cw_sslCertPaths = sslCertPaths, cw_room = (length sslCertPaths < 2 * length parts),
       cw_pool = None, cw_watcher = None, cw_restart = None\<rparr>)"

definition Restart :: "(int \<Rightarrow> bool) \<Rightarrow> 'c cert_pool_watcher \<Rightarrow> 'c cert_pool_watcher" where
  "Restart f w = w\<lparr>cw_restart := Some f\<rparr>"

definition cert_Get :: "'c cert_pool_watcher \<Rightarrow> ('c list \<times> 64 word) result" where
  "cert_Get w =
     (case cw_pool w of
        None \<Rightarrow> Inl (ErrText ''no certificate pool available'')
      | Some pool \<Rightarrow> Inr (pool, cw_generation w))"

text \<open>
  Deleting moves the kept elements to the front of the array and clears the rest; the paths of the
  watcher are the first elements of the same array when it had room.
\<close>

definition delete_in_place :: "(string \<Rightarrow> bool) \<Rightarrow> string list \<Rightarrow> string list \<times> string list" where
  "delete_in_place del xs =
     (let kept = filter (\<lambda>x. \<not> del x) xs in (kept, kept @ replicate (length xs - length kept) ''''))"

record watcher_lib =
  wl_NewWatcher :: "go_error option"
  wl_Add :: "string \<Rightarrow> go_error option"

definition cert_Start :: "watcher_lib \<Rightarrow> 'c cert_fs \<Rightarrow> 'c cert_pool_watcher \<Rightarrow> 'c cert_pool_watcher \<times> go_error option" where
  "cert_Start lib fs w =
     (case NewCertPool fs (cw_dir w) of
        Inl e \<Rightarrow> (w\<lparr>cw_pool := None\<rparr>, Some e)
      | Inr pool \<Rightarrow>
          (let (watchPaths, array) = delete_in_place (deleteEmptyStrings fs) (cw_sslCertPaths w @ [cw_dir w]);
               w1 = w\<lparr>cw_pool := Some pool,
                 cw_sslCertPaths := (if cw_room w then take (length (cw_sslCertPaths w)) array else cw_sslCertPaths w)\<rparr> in
           if watchPaths = [] then (w1, None)
           else
             (case wl_NewWatcher lib of
                Some e \<Rightarrow> (w1\<lparr>cw_watcher := None\<rparr>, Some e)
              | None \<Rightarrow>
                  (case List.find (\<lambda>p. wl_Add lib p \<noteq> None) watchPaths of
                     Some p \<Rightarrow> (w1\<lparr>cw_watcher := None\<rparr>, wl_Add lib p)
                   | None \<Rightarrow> (w1\<lparr>cw_watcher := Some watchPaths\<rparr>, None)))))"

subsection \<open>The loop\<close>

text \<open>Whether a change of a file ends the process.\<close>

definition checkForRestart :: "'c cert_pool_watcher \<Rightarrow> string \<Rightarrow> bool" where
  "checkForRestart w name =
     list_ex (\<lambda>p. str_contains name p \<and> (case cw_restart w of None \<Rightarrow> False | Some restart \<Rightarrow> restart 0)) (cw_sslCertPaths w)"

definition drainEvents :: "'c cert_pool_watcher \<Rightarrow> string list \<Rightarrow> bool" where
  "drainEvents w names = list_ex (checkForRestart w) names"

definition update_pool :: "'c cert_fs \<Rightarrow> 'c cert_pool_watcher \<Rightarrow> 'c cert_pool_watcher option" where
  "update_pool fs w =
     (case NewCertPool fs (cw_dir w) of
        Inl e \<Rightarrow> None
      | Inr pool \<Rightarrow> Some (w\<lparr>cw_pool := Some pool, cw_generation := cw_generation w + 1\<rparr>))"

text \<open>
  What the loop receives: an event, with those drained after it and the file system its update sees, an
  error of the watcher, the end of the context, or a signal from \<open>Done\<close>.
\<close>

datatype 'c loop_input = FsEvent string "string list" "'c cert_fs" | FsError go_error | CtxDone | DoneSignal

datatype 'c loop_state = Watching "'c cert_pool_watcher" | Exited int | LoopClosed "'c cert_pool_watcher" | Blocked "'c cert_pool_watcher"

text \<open>
  \<open>Done\<close> sends on a channel without a buffer that only the loop receives from: called by the loop
  itself it never returns.
\<close>

definition Done_in_loop :: "'c cert_pool_watcher \<Rightarrow> 'c loop_state" where
  "Done_in_loop w = (if cw_watcher w \<noteq> None then Blocked w else Watching w)"

fun watch_step :: "'c cert_pool_watcher \<Rightarrow> 'c loop_input \<Rightarrow> 'c loop_state" where
  "watch_step w (FsEvent name drained fs) =
     (if checkForRestart w name \<or> drainEvents w drained then Exited 0
      else (case update_pool fs w of None \<Rightarrow> Exited 1 | Some w' \<Rightarrow> Watching w'))"
| "watch_step w (FsError e) = Exited 1"
| "watch_step w CtxDone = Done_in_loop w"
| "watch_step w DoneSignal = LoopClosed w"

text \<open>
  The states of a started watcher, with the file system its pool was read from and the number of
  updates.
\<close>

inductive cert_run :: "'c cert_pool_watcher \<Rightarrow> 'c cert_fs \<Rightarrow> nat \<Rightarrow> bool" where
  started: "cert_Start lib fs w = (w', None) \<Longrightarrow> cw_generation w = 1 \<Longrightarrow> cert_run w' fs 0"
| updated: "cert_run w fs n \<Longrightarrow> cw_watcher w \<noteq> None \<Longrightarrow> watch_step w (FsEvent name drained fs') = Watching w' \<Longrightarrow> cert_run w' fs' (Suc n)"

section \<open>Lemmas\<close>

text \<open>The certificates in the files of a directory.\<close>

definition dir_certs :: "'c cert_fs \<Rightarrow> string \<Rightarrow> string list \<Rightarrow> 'c set" where
  "dir_certs fs caDir names =
     {c. \<exists>name \<in> set names. \<exists>data. cf_Stat fs (caDir @ ''/'' @ name) = Inr False \<and>
        cf_ReadFile fs (caDir @ ''/'' @ name) = Inr data \<and> c \<in> set (cf_ParsePEM fs data)}"

definition readable :: "'c cert_fs \<Rightarrow> string \<Rightarrow> string list \<Rightarrow> bool" where
  "readable fs caDir names \<longleftrightarrow>
     (\<forall>name \<in> set names. cf_Stat fs (caDir @ ''/'' @ name) = Inr True \<or>
        cf_Stat fs (caDir @ ''/'' @ name) = Inr False \<and> (\<exists>data. cf_ReadFile fs (caDir @ ''/'' @ name) = Inr data))"

lemma append_certs_set: "set (fst (AppendCertsFromPEM certs pool)) = set pool \<union> set certs"
  unfolding AppendCertsFromPEM_def by (induction certs arbitrary: pool) auto

lemma dir_certs_Cons:
  "dir_certs fs caDir (name # names) =
     (case cf_Stat fs (caDir @ ''/'' @ name) of
        Inr False \<Rightarrow> (case cf_ReadFile fs (caDir @ ''/'' @ name) of Inr data \<Rightarrow> set (cf_ParsePEM fs data) | Inl e \<Rightarrow> {})
      | _ \<Rightarrow> {}) \<union> dir_certs fs caDir names"
  by (auto simp: dir_certs_def split: sum.split bool.split)

lemma read_certs_ok:
  "read_certs fs caDir names pool found = Inr (pool', found') \<Longrightarrow>
   readable fs caDir names \<and> set pool' = set pool \<union> dir_certs fs caDir names \<and> found \<le> found' \<and> (found' = found \<longleftrightarrow> dir_certs fs caDir names = {})"
proof (induction names arbitrary: pool found)
  case Nil
  then show ?case by (simp add: readable_def dir_certs_def)
next
  case (Cons name names)
  let ?file = "caDir @ ''/'' @ name"
  consider (subdir) "cf_Stat fs ?file = Inr True" | (regular) data where "cf_Stat fs ?file = Inr False" "cf_ReadFile fs ?file = Inr data"
    using Cons.prems by (auto simp: Let_def split: sum.splits bool.splits)
  then show ?case
  proof cases
    case subdir
    then show ?thesis using Cons by (simp add: readable_def dir_certs_Cons)
  next
    case regular
    obtain p added where a: "AppendCertsFromPEM (cf_ParsePEM fs data) pool = (p, added)" by fastforce
    have p: "set p = set pool \<union> set (cf_ParsePEM fs data)" "added \<longleftrightarrow> cf_ParsePEM fs data \<noteq> []"
      using append_certs_set [of "cf_ParsePEM fs data" pool] a by (auto simp: AppendCertsFromPEM_def)
    have rest: "read_certs fs caDir names p (if added then found + 1 else found) = Inr (pool', found')"
      using Cons.prems regular a by (simp add: Let_def)
    show ?thesis using Cons.IH [OF rest] p regular
      by (cases added) (auto simp: readable_def dir_certs_Cons)
  qed
qed

lemma read_certs_returns: "readable fs caDir names \<Longrightarrow> \<exists>r. read_certs fs caDir names pool found = Inr r"
proof (induction names arbitrary: pool found)
  case (Cons name names)
  then have rest: "\<exists>r. read_certs fs caDir names pool' found' = Inr r" for pool' found' by (simp add: readable_def)
  show ?case using Cons.prems rest by (auto simp: readable_def Let_def split: prod.split)
qed simp

subsection \<open>Limits\<close>

text \<open>The end of the context blocks the loop, so that its watcher is never closed.\<close>

lemma context_end_blocks: "cw_watcher w = Some paths \<Longrightarrow> watch_step w CtxDone = Blocked w"
  by (simp add: Done_in_loop_def)

text \<open>
  A path that vanished between the making and the start of a watcher is overwritten by the directory of
  the certificates: later a change in that directory ends the process instead of updating the pool.
\<close>

lemma vanished_path_restarts:
  assumes w: "cw_sslCertPaths w = [p]" "cw_room w" "cw_dir w = d" "cw_restart w = Some (\<lambda>c. True)"
    and fs: "deleteEmptyStrings fs p" "\<not> deleteEmptyStrings fs d" "NewCertPool fs d = Inr pool"
    and lib: "wl_NewWatcher lib = None" "wl_Add lib d = None"
  shows "\<exists>w'. cert_Start lib fs w = (w', None) \<and> cw_sslCertPaths w' = [d] \<and> watch_step w' (FsEvent (d @ f) drained fs') = Exited 0"
proof -
  obtain w' where s: "cert_Start lib fs w = (w', None)" "cw_sslCertPaths w' = [d]" "cw_restart w' = Some (\<lambda>c. True)"
    using w fs lib by (simp add: cert_Start_def delete_in_place_def)
  have "strip_prefix d (d @ f) = Some f" by (induction d) auto
  then have "str_contains (d @ f) d" by (cases "d @ f") auto
  then show ?thesis using s by (simp add: checkForRestart_def)
qed

section \<open>Theorems\<close>

text \<open>
  A pool is made of a directory exactly when the system's pool can be had, every entry of the directory is a directory or
  can be read, and some file has a certificate; it has the certificates of the system and of all
  files, and no others.
\<close>

theorem cert_pool_exact:
  assumes "caDir \<noteq> ''''"
  shows "NewCertPool fs caDir = Inr pool \<Longrightarrow>
      \<exists>sys names. cf_SystemCertPool fs = Inr sys \<and> cf_ReadDir fs caDir = Inr names \<and> readable fs caDir names \<and>
        dir_certs fs caDir names \<noteq> {} \<and> set pool = set sys \<union> dir_certs fs caDir names"
    and "cf_SystemCertPool fs = Inr sys \<Longrightarrow> cf_ReadDir fs caDir = Inr names \<Longrightarrow> readable fs caDir names \<Longrightarrow>
      dir_certs fs caDir names \<noteq> {} \<Longrightarrow> \<exists>pool. NewCertPool fs caDir = Inr pool"
proof -
  assume new: "NewCertPool fs caDir = Inr pool"
  obtain sys names p found where r: "cf_SystemCertPool fs = Inr sys" "cf_ReadDir fs caDir = Inr names"
      "read_certs fs caDir names sys 0 = Inr (p, found)" "found \<noteq> 0" "p = pool"
    using new assms by (auto simp: NewCertPool_def split: sum.splits if_splits)
  show "\<exists>sys names. cf_SystemCertPool fs = Inr sys \<and> cf_ReadDir fs caDir = Inr names \<and> readable fs caDir names \<and>
      dir_certs fs caDir names \<noteq> {} \<and> set pool = set sys \<union> dir_certs fs caDir names"
    using read_certs_ok [OF r(3)] r by auto
next
  assume a: "cf_SystemCertPool fs = Inr sys" "cf_ReadDir fs caDir = Inr names" "readable fs caDir names" "dir_certs fs caDir names \<noteq> {}"
  obtain p found where r: "read_certs fs caDir names sys 0 = Inr (p, found)" using read_certs_returns [OF a(3)] by fastforce
  show "\<exists>pool. NewCertPool fs caDir = Inr pool" using read_certs_ok [OF r] a r assms by (auto simp: NewCertPool_def)
qed

text \<open>
  In every state of a started watcher a pool is served; it is the one read from the files at the
  last update, and its generation counts the updates.
\<close>

theorem served_pool_current:
  "cert_run w fs n \<Longrightarrow> \<exists>pool. cert_Get w = Inr (pool, of_nat (Suc n)) \<and> NewCertPool fs (cw_dir w) = Inr pool"
proof (induction rule: cert_run.induct)
  case (started lib fs w w')
  then show ?case by (auto simp: cert_Start_def cert_Get_def Let_def split: sum.splits if_splits option.splits prod.splits)
next
  case (updated w fs n name drained fs' w')
  then obtain pool where g: "cert_Get w = Inr (pool, of_nat (Suc n))" by blast
  have gen: "cw_generation w = of_nat (Suc n)" using g by (auto simp: cert_Get_def split: option.splits)
  show ?case using updated.hyps(3) gen
    by (auto simp: update_pool_def cert_Get_def split: if_splits sum.splits option.splits)
qed

end
