(* ===== verification/Tls_Profiles.thy ===== *)
theory Tls_Profiles
  imports Bundle_Config "HOL-Library.Word"
begin

text \<open>
  The TLS profiles of the servers and the flags that choose them (\<open>internal/shared/util/tlsprofiles\<close>). The tables of the
  \<open>crypto/tls\<close> package are written out; the CSV reader is a parameter.
\<close>

section \<open>Definitions\<close>

subsection \<open>Ciphers, curves and versions\<close>

definition CipherSuites :: "(string \<times> 16 word) list" where
  "CipherSuites =
    [(''TLS_AES_128_GCM_SHA256'', 0x1301),
     (''TLS_AES_256_GCM_SHA384'', 0x1302),
     (''TLS_CHACHA20_POLY1305_SHA256'', 0x1303),
     (''TLS_ECDHE_ECDSA_WITH_AES_128_CBC_SHA'', 0xC009),
     (''TLS_ECDHE_ECDSA_WITH_AES_256_CBC_SHA'', 0xC00A),
     (''TLS_ECDHE_RSA_WITH_AES_128_CBC_SHA'', 0xC013),
     (''TLS_ECDHE_RSA_WITH_AES_256_CBC_SHA'', 0xC014),
     (''TLS_ECDHE_ECDSA_WITH_AES_128_GCM_SHA256'', 0xC02B),
     (''TLS_ECDHE_ECDSA_WITH_AES_256_GCM_SHA384'', 0xC02C),
     (''TLS_ECDHE_RSA_WITH_AES_128_GCM_SHA256'', 0xC02F),
     (''TLS_ECDHE_RSA_WITH_AES_256_GCM_SHA384'', 0xC030),
     (''TLS_ECDHE_RSA_WITH_CHACHA20_POLY1305_SHA256'', 0xCCA8),
     (''TLS_ECDHE_ECDSA_WITH_CHACHA20_POLY1305_SHA256'', 0xCCA9)]"

definition InsecureCipherSuites :: "(string \<times> 16 word) list" where
  "InsecureCipherSuites =
    [(''TLS_RSA_WITH_RC4_128_SHA'', 0x0005),
     (''TLS_RSA_WITH_3DES_EDE_CBC_SHA'', 0x000A),
     (''TLS_RSA_WITH_AES_128_CBC_SHA'', 0x002F),
     (''TLS_RSA_WITH_AES_256_CBC_SHA'', 0x0035),
     (''TLS_RSA_WITH_AES_128_CBC_SHA256'', 0x003C),
     (''TLS_RSA_WITH_AES_128_GCM_SHA256'', 0x009C),
     (''TLS_RSA_WITH_AES_256_GCM_SHA384'', 0x009D),
     (''TLS_ECDHE_ECDSA_WITH_RC4_128_SHA'', 0xC007),
     (''TLS_ECDHE_RSA_WITH_RC4_128_SHA'', 0xC011),
     (''TLS_ECDHE_RSA_WITH_3DES_EDE_CBC_SHA'', 0xC012),
     (''TLS_ECDHE_ECDSA_WITH_AES_128_CBC_SHA256'', 0xC023),
     (''TLS_ECDHE_RSA_WITH_AES_128_CBC_SHA256'', 0xC027)]"

definition cipherSuiteId :: "string \<Rightarrow> 16 word" where
  "cipherSuiteId name =
     (case map_of CipherSuites name of
        Some i \<Rightarrow> i
      | None \<Rightarrow> (case map_of InsecureCipherSuites name of Some i \<Rightarrow> i | None \<Rightarrow> 0))"

definition tls_curves :: "(string \<times> 16 word) list" where
  "tls_curves =
    [(''X25519MLKEM768'', 4588), (''X25519'', 29), (''prime256v1'', 23), (''secp256r1'', 23), (''secp384r1'', 24),
     (''secp521r1'', 25), (''SecP256r1MLKEM768'', 4587), (''SecP384r1MLKEM1024'', 4589)]"

definition curveId :: "string \<Rightarrow> 16 word" where
  "curveId name = (case map_of tls_curves name of Some i \<Rightarrow> i | None \<Rightarrow> 0)"

definition tlsVersions :: "(string \<times> 16 word) list" where
  "tlsVersions = [(''TLSv1.0'', 0x0301), (''TLSv1.1'', 0x0302), (''TLSv1.2'', 0x0303), (''TLSv1.3'', 0x0304)]"

definition version_Set :: "string \<Rightarrow> (16 word) result" where
  "version_Set v = (case map_of tlsVersions v of None \<Rightarrow> Inl (ErrText (''unknown TLS version: '' @ go_quote v)) | Some n \<Rightarrow> Inr n)"

definition version_String :: "16 word \<Rightarrow> string" where
  "version_String v = (case List.find (\<lambda>(s, n). v = n) tlsVersions of Some (s, n) \<Rightarrow> s | None \<Rightarrow> '''')"

subsection \<open>Lists of names\<close>

text \<open>The lists of ciphers and of curves have the same operations, over their own lookup.\<close>

record id_slice =
  is_Nums :: "16 word list"
  is_Names :: "string list"

definition slice_Append :: "string \<Rightarrow> (string \<Rightarrow> 16 word) \<Rightarrow> string \<Rightarrow> id_slice \<Rightarrow> id_slice \<times> go_error option" where
  "slice_Append what idOf v s =
     (let num = idOf v in
      if num = 0 then (s, Some (ErrText (''unknown '' @ what @ '' '' @ go_quote v)))
      else (\<lparr>is_Nums = is_Nums s @ [num], is_Names = is_Names s @ [v]\<rparr>, None))"

fun append_all :: "string \<Rightarrow> (string \<Rightarrow> 16 word) \<Rightarrow> string list \<Rightarrow> id_slice \<Rightarrow> id_slice \<times> go_error option" where
  "append_all what idOf [] s = (s, None)"
| "append_all what idOf (v # vs) s =
     (case slice_Append what idOf v s of
        (s', Some e) \<Rightarrow> (s', Some e)
      | (s', None) \<Rightarrow> append_all what idOf vs s')"

definition slice_Replace :: "string \<Rightarrow> (string \<Rightarrow> 16 word) \<Rightarrow> string list \<Rightarrow> id_slice \<times> go_error option" where
  "slice_Replace what idOf vs = append_all what idOf vs \<lparr>is_Nums = [], is_Names = []\<rparr>"

definition readAsCSV :: "(string \<Rightarrow> string list result) \<Rightarrow> string \<Rightarrow> string list result" where
  "readAsCSV csv v = (if v = '''' then Inr [] else csv v)"

definition slice_Set ::
  "(string \<Rightarrow> string list result) \<Rightarrow> string \<Rightarrow> (string \<Rightarrow> 16 word) \<Rightarrow> string \<Rightarrow> id_slice \<Rightarrow> id_slice \<times> go_error option" where
  "slice_Set csv what idOf v s =
     (case readAsCSV csv v of Inl e \<Rightarrow> (s, Some e) | Inr vs \<Rightarrow> slice_Replace what idOf vs)"

abbreviation cipher_Append :: "string \<Rightarrow> id_slice \<Rightarrow> id_slice \<times> go_error option" where
  "cipher_Append \<equiv> slice_Append ''cipher'' cipherSuiteId"

abbreviation curve_Append :: "string \<Rightarrow> id_slice \<Rightarrow> id_slice \<times> go_error option" where
  "curve_Append \<equiv> slice_Append ''curve'' curveId"

definition cipher_Set :: "(string \<Rightarrow> string list result) \<Rightarrow> string \<Rightarrow> id_slice \<Rightarrow> id_slice \<times> go_error option" where
  "cipher_Set csv = slice_Set csv ''cipher'' cipherSuiteId"

definition curve_Set :: "(string \<Rightarrow> string list result) \<Rightarrow> string \<Rightarrow> id_slice \<Rightarrow> id_slice \<times> go_error option" where
  "curve_Set csv = slice_Set csv ''curve'' curveId"

subsection \<open>Profiles\<close>

record tls_profile =
  tp_ciphers :: id_slice
  tp_curves :: id_slice
  tp_minTLSVersion :: "16 word"

record mozilla_configuration =
  mz_Ciphersuites :: "string list"
  mz_IANA :: "string list"
  mz_TLSCurves :: "string list"
  mz_TLSVersions :: "string list"

text \<open>A panic is the message.\<close>

definition parseProfile :: "string \<Rightarrow> mozilla_configuration \<Rightarrow> string + (tls_profile \<times> string list \<times> string list)" where
  "parseProfile name cfg =
     (let names = mz_Ciphersuites cfg @ mz_IANA cfg;
          skippedC = filter (\<lambda>c. cipherSuiteId c = 0) names;
          cipherNums = filter (\<lambda>i. i \<noteq> 0) (map cipherSuiteId names);
          skippedK = filter (\<lambda>c. curveId c = 0) (mz_TLSCurves cfg);
          curveNums = filter (\<lambda>i. i \<noteq> 0) (map curveId (mz_TLSCurves cfg));
          profile = ''tlsprofiles: profile '' @ go_quote name in
      case mz_TLSVersions cfg of
        [] \<Rightarrow> Inl (profile @ '' has no tls_versions in embedded mozilla_data.json'')
      | v # vs \<Rightarrow>
          (case version_Set v of
             Inl e \<Rightarrow> Inl (profile @ '' has unrecognized tls_versions[0] '' @ go_quote v @ '': '' @ err_string e)
           | Inr version \<Rightarrow>
               if curveNums = [] then Inl (profile @ '' resolved no supported tls_curves from embedded mozilla_data.json'')
               else if version < 0x0304 \<and> cipherNums = [] then Inl (profile @ '' resolved no supported cipher suites from embedded mozilla_data.json'')
               else
                 Inr (\<lparr>tp_ciphers = \<lparr>is_Nums = cipherNums, is_Names = []\<rparr>, tp_curves = \<lparr>is_Nums = curveNums, is_Names = []\<rparr>,
                    tp_minTLSVersion = version\<rparr>, skippedC, skippedK)))"

record embedded_profiles =
  ep_modern :: tls_profile
  ep_intermediate :: tls_profile
  ep_skippedCiphers :: "string list"
  ep_skippedCurves :: "string list"

definition required_profile :: "(string \<times> mozilla_configuration) list \<Rightarrow> string \<Rightarrow> string + (tls_profile \<times> string list \<times> string list)" where
  "required_profile spec name =
     (case map_of spec name of
        None \<Rightarrow> Inl (''tlsprofiles: profile '' @ go_quote name @ '' not found in embedded mozilla_data.json'')
      | Some cfg \<Rightarrow> parseProfile name cfg)"

definition init_profiles :: "(string \<times> mozilla_configuration) list result \<Rightarrow> string + embedded_profiles" where
  "init_profiles decoded =
     (case decoded of
        Inl e \<Rightarrow> Inl (''tlsprofiles: failed to parse embedded mozilla_data.json: '' @ err_string e)
      | Inr spec \<Rightarrow>
          (case required_profile spec ''modern'' of
             Inl m \<Rightarrow> Inl m
           | Inr (modern, ciphers1, curves1) \<Rightarrow>
               (case required_profile spec ''intermediate'' of
                  Inl m \<Rightarrow> Inl m
                | Inr (intermediate, ciphers2, curves2) \<Rightarrow>
                    Inr \<lparr>ep_modern = modern, ep_intermediate = intermediate, ep_skippedCiphers = ciphers1 @ ciphers2,
                      ep_skippedCurves = curves1 @ curves2\<rparr>)))"

text \<open>The configurations of the embedded file.\<close>

definition mozilla_data :: "(string \<times> mozilla_configuration) list" where
  "mozilla_data =
    [(''modern'',
      \<lparr>mz_Ciphersuites = [''TLS_AES_128_GCM_SHA256'', ''TLS_AES_256_GCM_SHA384'', ''TLS_CHACHA20_POLY1305_SHA256''],
       mz_IANA = [], mz_TLSCurves = [''X25519MLKEM768'', ''X25519'', ''prime256v1'', ''secp384r1''], mz_TLSVersions = [''TLSv1.3'']\<rparr>),
     (''intermediate'',
      \<lparr>mz_Ciphersuites = [''TLS_AES_128_GCM_SHA256'', ''TLS_AES_256_GCM_SHA384'', ''TLS_CHACHA20_POLY1305_SHA256''],
       mz_IANA =
         [''TLS_ECDHE_ECDSA_WITH_AES_128_GCM_SHA256'', ''TLS_ECDHE_RSA_WITH_AES_128_GCM_SHA256'',
          ''TLS_ECDHE_ECDSA_WITH_AES_256_GCM_SHA384'', ''TLS_ECDHE_RSA_WITH_AES_256_GCM_SHA384'',
          ''TLS_ECDHE_ECDSA_WITH_CHACHA20_POLY1305_SHA256'', ''TLS_ECDHE_RSA_WITH_CHACHA20_POLY1305_SHA256''],
       mz_TLSCurves = [''X25519MLKEM768'', ''X25519'', ''prime256v1'', ''secp384r1''], mz_TLSVersions = [''TLSv1.2'', ''TLSv1.3'']\<rparr>)]"

definition oldTLSProfile :: tls_profile where
  "oldTLSProfile =
     \<lparr>tp_ciphers =
        \<lparr>is_Nums =
          [0x1301, 0x1302, 0x1303, 0xC02B, 0xC02F, 0xC02C, 0xC030, 0xCCA9, 0xCCA8, 0xC023, 0xC027,
           0xC009, 0xC013, 0xC00A, 0xC014, 0x009C, 0x009D, 0x003C, 0x002F, 0x0035, 0x000A],
         is_Names = []\<rparr>,
      tp_curves = \<lparr>is_Nums = [4588, 29, 23, 24], is_Names = []\<rparr>, tp_minTLSVersion = 0x0301\<rparr>"

subsection \<open>Flags\<close>

record tls_flags =
  tf_configuredProfile :: string
  tf_customTLSProfile :: tls_profile

definition default_flags :: tls_flags where
  "default_flags =
     \<lparr>tf_configuredProfile = ''intermediate'',
      tf_customTLSProfile =
        \<lparr>tp_ciphers = \<lparr>is_Nums = [], is_Names = []\<rparr>, tp_curves = \<lparr>is_Nums = [], is_Names = []\<rparr>, tp_minTLSVersion = 0x0303\<rparr>\<rparr>"

definition tls_profiles :: "embedded_profiles \<Rightarrow> tls_flags \<Rightarrow> (string \<times> tls_profile) list" where
  "tls_profiles ep f =
     [(''modern'', ep_modern ep), (''intermediate'', ep_intermediate ep), (''old'', oldTLSProfile), (''custom'', tf_customTLSProfile f)]"

definition findTLSProfile :: "embedded_profiles \<Rightarrow> tls_flags \<Rightarrow> string \<Rightarrow> tls_profile result" where
  "findTLSProfile ep f profile =
     (case map_of (tls_profiles ep f) (map lower_char profile) of
        None \<Rightarrow> Inl (ErrText (''unknown TLS profile: '' @ go_quote profile))
      | Some p \<Rightarrow> Inr p)"

definition profile_Set :: "embedded_profiles \<Rightarrow> string \<Rightarrow> tls_flags \<Rightarrow> tls_flags \<times> go_error option" where
  "profile_Set ep v f =
     (case findTLSProfile ep f v of
        Inl e \<Rightarrow> (f, Some e)
      | Inr p \<Rightarrow> (f\<lparr>tf_configuredProfile := v\<rparr>, None))"

datatype tls_flag = FlagProfile | FlagCiphers | FlagCurves | FlagVersion

definition set_flag :: "embedded_profiles \<Rightarrow> (string \<Rightarrow> string list result) \<Rightarrow> tls_flag \<Rightarrow> string \<Rightarrow> tls_flags \<Rightarrow> tls_flags \<times> go_error option" where
  "set_flag ep csv flag v f =
     (let custom = tf_customTLSProfile f in
      case flag of
        FlagProfile \<Rightarrow> profile_Set ep v f
      | FlagCiphers \<Rightarrow>
          (case cipher_Set csv v (tp_ciphers custom) of (s, e) \<Rightarrow> (f\<lparr>tf_customTLSProfile := custom\<lparr>tp_ciphers := s\<rparr>\<rparr>, e))
      | FlagCurves \<Rightarrow>
          (case curve_Set csv v (tp_curves custom) of (s, e) \<Rightarrow> (f\<lparr>tf_customTLSProfile := custom\<lparr>tp_curves := s\<rparr>\<rparr>, e))
      | FlagVersion \<Rightarrow>
          (case version_Set v of
             Inl e \<Rightarrow> (f, Some e)
           | Inr n \<Rightarrow> (f\<lparr>tf_customTLSProfile := custom\<lparr>tp_minTLSVersion := n\<rparr>\<rparr>, None)))"

record tls_config =
  tc_MinVersion :: "16 word"
  tc_CipherSuites :: "16 word list"
  tc_CurvePreferences :: "16 word list"

definition GetTLSConfigFunc :: "embedded_profiles \<Rightarrow> tls_flags \<Rightarrow> (tls_config \<Rightarrow> tls_config) result" where
  "GetTLSConfigFunc ep f =
     (case findTLSProfile ep f (tf_configuredProfile f) of
        Inl e \<Rightarrow> Inl e
      | Inr p \<Rightarrow>
          Inr (\<lambda>config. config\<lparr>tc_MinVersion := tp_minTLSVersion p, tc_CipherSuites := is_Nums (tp_ciphers p),
            tc_CurvePreferences := is_Nums (tp_curves p)\<rparr>))"

text \<open>The flags after any settings, refused ones included.\<close>

inductive flags_run :: "embedded_profiles \<Rightarrow> tls_flags \<Rightarrow> bool" for ep where
  initial: "flags_run ep default_flags"
| setting: "flags_run ep f \<Longrightarrow> flags_run ep (fst (set_flag ep csv flag v f))"

section \<open>Lemmas\<close>

text \<open>A list of names is kept with its numbers, all of them known.\<close>

definition slice_ok :: "(string \<Rightarrow> 16 word) \<Rightarrow> id_slice \<Rightarrow> bool" where
  "slice_ok idOf s \<longleftrightarrow> is_Nums s = map idOf (is_Names s) \<and> 0 \<notin> set (is_Nums s)"

lemma append_ok: "slice_ok idOf s \<Longrightarrow> slice_ok idOf (fst (slice_Append what idOf v s))"
  by (auto simp: slice_ok_def slice_Append_def Let_def)

lemma append_all_ok: "slice_ok idOf s \<Longrightarrow> slice_ok idOf (fst (append_all what idOf vs s))"
proof (induction vs arbitrary: s)
  case (Cons v vs)
  then show ?case using append_ok [of idOf s what v] by (auto split: prod.split option.split)
qed simp

lemma set_ok: "slice_ok idOf s \<Longrightarrow> slice_ok idOf (fst (slice_Set csv what idOf v s))"
  by (auto simp: slice_Set_def slice_Replace_def slice_ok_def [of _ "\<lparr>is_Nums = [], is_Names = []\<rparr>"] intro!: append_all_ok split: sum.split)

text \<open>Setting a list takes exactly the names, in their order, when all are known, and otherwise those before the first unknown one.\<close>

lemma append_all_names:
  "append_all what idOf vs s = (s', e) \<Longrightarrow>
   is_Names s' = is_Names s @ takeWhile (\<lambda>v. idOf v \<noteq> 0) vs \<and> (e = None \<longleftrightarrow> (\<forall>v \<in> set vs. idOf v \<noteq> 0))"
  by (induction vs arbitrary: s) (auto simp: slice_Append_def Let_def split: if_splits)

lemma version_known: "version_Set v = Inr n \<Longrightarrow> 0x0301 \<le> n \<and> n \<le> 0x0304"
  by (auto simp: version_Set_def tlsVersions_def split: option.splits if_splits)

lemma version_roundtrip: "version_Set v = Inr n \<Longrightarrow> version_String n = v"
  by (auto simp: version_Set_def version_String_def tlsVersions_def split: option.splits if_splits)

text \<open>A profile that is safe to serve with.\<close>

definition profile_ok :: "tls_profile \<Rightarrow> bool" where
  "profile_ok p \<longleftrightarrow> 0x0301 \<le> tp_minTLSVersion p \<and> tp_minTLSVersion p \<le> 0x0304 \<and> 0 \<notin> set (is_Nums (tp_ciphers p)) \<and> 0 \<notin> set (is_Nums (tp_curves p))"

lemma parsed_ok: "parseProfile name cfg = Inr (p, skippedC, skippedK) \<Longrightarrow> profile_ok p"
  using version_known by (auto simp: parseProfile_def Let_def profile_ok_def split: list.splits sum.splits if_splits)

lemma init_ok: "init_profiles decoded = Inr ep \<Longrightarrow> profile_ok (ep_modern ep) \<and> profile_ok (ep_intermediate ep)"
  using parsed_ok by (fastforce simp: init_profiles_def required_profile_def split: sum.splits option.splits)

lemma old_ok: "profile_ok oldTLSProfile"
  by code_simp

definition known_name :: "string \<Rightarrow> bool" where
  "known_name n \<longleftrightarrow> map lower_char n \<in> {''modern'', ''intermediate'', ''old'', ''custom''}"

lemma found_iff_known: "(\<exists>p. findTLSProfile ep f n = Inr p) \<longleftrightarrow> known_name n"
  by (auto simp: findTLSProfile_def tls_profiles_def known_name_def)

definition flags_ok :: "embedded_profiles \<Rightarrow> tls_flags \<Rightarrow> bool" where
  "flags_ok ep f \<longleftrightarrow> known_name (tf_configuredProfile f) \<and>
     slice_ok cipherSuiteId (tp_ciphers (tf_customTLSProfile f)) \<and> slice_ok curveId (tp_curves (tf_customTLSProfile f)) \<and>
     0x0301 \<le> tp_minTLSVersion (tf_customTLSProfile f) \<and> tp_minTLSVersion (tf_customTLSProfile f) \<le> 0x0304"

lemma default_ok: "flags_ok ep default_flags"
  by (simp add: flags_ok_def default_flags_def slice_ok_def known_name_def lower_char_def)

lemma set_flag_ok: "flags_ok ep f \<Longrightarrow> flags_ok ep (fst (set_flag ep csv flag v f))"
proof (cases flag)
  case FlagProfile
  assume "flags_ok ep f"
  then show ?thesis using FlagProfile found_iff_known [of ep f v]
    by (auto simp: set_flag_def profile_Set_def flags_ok_def Let_def split: sum.split)
next
  case FlagCiphers
  assume "flags_ok ep f"
  then show ?thesis using FlagCiphers set_ok [of cipherSuiteId "tp_ciphers (tf_customTLSProfile f)" csv "''cipher''" v]
    by (auto simp: set_flag_def cipher_Set_def flags_ok_def Let_def split: prod.split)
next
  case FlagCurves
  assume "flags_ok ep f"
  then show ?thesis using FlagCurves set_ok [of curveId "tp_curves (tf_customTLSProfile f)" csv "''curve''" v]
    by (auto simp: set_flag_def curve_Set_def flags_ok_def Let_def split: prod.split)
next
  case FlagVersion
  assume "flags_ok ep f"
  then show ?thesis using FlagVersion version_known by (auto simp: set_flag_def flags_ok_def Let_def split: sum.split)
qed

lemma flags_run_ok: "flags_run ep f \<Longrightarrow> flags_ok ep f"
  by (induction rule: flags_run.induct) (simp_all add: default_ok set_flag_ok)

section \<open>Theorems\<close>

text \<open>
  The embedded data never stops the program: both profiles are found, no cipher and no curve is
  skipped, the modern one takes version 1.3 only, the intermediate one 1.2 and later, and neither has an insecure cipher.
\<close>

theorem embedded_profiles_complete:
  "\<exists>ep. init_profiles (Inr mozilla_data) = Inr ep \<and> ep_skippedCiphers ep = [] \<and> ep_skippedCurves ep = [] \<and>
     tp_minTLSVersion (ep_modern ep) = 0x0304 \<and> tp_minTLSVersion (ep_intermediate ep) = 0x0303 \<and>
     list_all (\<lambda>i. i \<in> set (map snd CipherSuites)) (is_Nums (tp_ciphers (ep_modern ep)) @ is_Nums (tp_ciphers (ep_intermediate ep)))"
proof -
  have "case init_profiles (Inr mozilla_data) of Inl m \<Rightarrow> False | Inr ep \<Rightarrow>
      ep_skippedCiphers ep = [] \<and> ep_skippedCurves ep = [] \<and>
      tp_minTLSVersion (ep_modern ep) = 0x0304 \<and> tp_minTLSVersion (ep_intermediate ep) = 0x0303 \<and>
      list_all (\<lambda>i. i \<in> set (map snd CipherSuites)) (is_Nums (tp_ciphers (ep_modern ep)) @ is_Nums (tp_ciphers (ep_intermediate ep)))"
    by code_simp
  then show ?thesis by (cases "init_profiles (Inr mozilla_data)") auto
qed

text \<open>
  Whatever the flags are set to, also after refused settings, the servers get a configuration: its least version is a known
  one and its ciphers and curves are all known.
\<close>

theorem tls_config_known:
  assumes "init_profiles decoded = Inr ep" and "flags_run ep f"
  shows "\<exists>apply_to. GetTLSConfigFunc ep f = Inr apply_to \<and>
    (let c = apply_to config in 0x0301 \<le> tc_MinVersion c \<and> tc_MinVersion c \<le> 0x0304 \<and> 0 \<notin> set (tc_CipherSuites c) \<and> 0 \<notin> set (tc_CurvePreferences c))"
proof -
  have f: "flags_ok ep f" using flags_run_ok assms(2) .
  have custom: "profile_ok (tf_customTLSProfile f)" using f by (auto simp: flags_ok_def slice_ok_def profile_ok_def)
  obtain p where p: "findTLSProfile ep f (tf_configuredProfile f) = Inr p" "profile_ok p"
    using f custom old_ok init_ok [OF assms(1)] by (auto simp: flags_ok_def known_name_def findTLSProfile_def tls_profiles_def)
  then show ?thesis by (simp add: GetTLSConfigFunc_def profile_ok_def Let_def)
qed

end
