(* ===== verification/Spec2Isabelle.thy ===== *)
theory Spec2Isabelle
  imports Catalog_Resolve Cos_Controller Helm_Applier Catalogd_Server Catalogd_Controller Manifest_Provider Rbac_PreAuthorizer
    Catalog_Cache Content_Manager Service_Tokens Helm_Action Crd_Preflight Image_Cache Image_Charts Pull_Secrets Catalogd_GraphQL
    Cert_Pool Tls_Profiles
begin

text \<open>
  A model of operator-controller and catalogd, the two programs of OLM v1 that install and upgrade
  cluster extensions and serve the catalogs they come from, with theorems about them.

  \<^bold>\<open>The programs.\<close> catalogd (\<open>internal/catalogd\<close>) pulls the image of each ClusterCatalog, stores its
  content in a directory with an index, and serves it over HTTP. operator-controller
  (\<open>internal/operator-controller\<close>) copies the contents into a cache (\<open>catalogmetadata\<close>). For a
  ClusterExtension, which names a package, its extension controller (\<open>controllers\<close>) resolves the package
  against the catalogs (\<open>resolve\<close>, \<open>bundleutil\<close>), pulls the bundle (\<open>internal/shared/util/image\<close>), renders its
  manifests (\<open>rukpak\<close>, \<open>config\<close>), checks the permissions of the account that installs it (\<open>authorization\<close>)
  and applies it (\<open>applier\<close>), either as a Helm release (\<open>action\<close>, \<open>contentmanager\<close>) or as a
  ClusterObjectSet: a numbered revision whose objects, sorted into phases and packed into Secrets, a
  second controller rolls out through the revision engine of the boxcutter library and archives or
  deletes later.

  \<^bold>\<open>Theories and the code they model\<close> (paths below \<open>src/\<close>; those of operator-controller are
  relative to \<open>internal/operator-controller\<close>).

  Shared ground:
    \<^item> \<open>Go_Prelude\<close>: comparison functions and stable insertion sort of the \<open>slices\<close> package, maps,
      strings, results; the locale \<open>comparison\<close> of three-way comparisons.
    \<^item> \<open>Go_Errors\<close>: error values with wrapping and joining, \<open>terminal.go\<close> and \<open>sanitize.go\<close> of
      \<open>internal/shared/util/error\<close>.
    \<^item> \<open>Status_Conditions\<close>: condition lists of the API machinery and \<open>SetStatusCondition\<close> of
      \<open>controllers/common_controller.go\<close>.
    \<^item> \<open>Semver\<close>, \<open>Bundle_Util\<close>: versions with 64-bit components, releases, \<open>bundleutil/bundle.go\<close>.
    \<^item> \<open>Api_Types\<close>: the records of \<open>api/v1\<close> and the constants of labels, conditions and reasons.
    \<^item> \<open>K8s_Names\<close>: object names and hashes, \<open>rukpak/util/util.go\<close> and \<open>internal/shared/util/hash/hash.go\<close>.

  Resolution:
    \<^item> \<open>Catalog_Filter\<close>, \<open>Catalog_Resolve\<close>: predicates, successors, orders, and \<open>CatalogResolver.Resolve\<close>
      with the catalog walk.
    \<^item> \<open>Catalog_Cache\<close>: the cache of catalog contents on disk, the client that fills it
      (\<open>catalogmetadata/cache\<close>, \<open>catalogmetadata/client\<close>) and \<open>controllers/clustercatalog_controller.go\<close>.

  Bundles and their manifests:
    \<^item> \<open>Registry_Bundle\<close>, \<open>Bundle_Source\<close>: the data of a registry+v1 bundle and its reading from a file system
      (\<open>rukpak/bundle\<close>).
    \<^item> \<open>Bundle_Validators\<close>, \<open>Deployment_Config\<close>, \<open>Bundle_Generators\<close>, \<open>Bundle_Render\<close>: the checks, the generators of
      objects, the certificate providers and \<open>Render\<close> (\<open>rukpak/render\<close>).
    \<^item> \<open>Bundle_Config\<close>, \<open>Manifest_Provider\<close>: the configuration of an extension, its schema and errors
      (\<open>config/config.go\<close>), and \<open>applier/provider.go\<close>.

  Application of revisions and releases:
    \<^item> \<open>Phase_Sort\<close>, \<open>Secret_Packer\<close>: \<open>applier/phase.go\<close>, \<open>applier/secretpacker.go\<close>.
    \<^item> \<open>Revision_Generator\<close>, \<open>Pre_Authorization\<close>, \<open>Boxcutter_Applier\<close>, \<open>Storage_Migration\<close>:
      \<open>applier/boxcutter.go\<close>, \<open>applier/preflight.go\<close> and the permission report of \<open>applier/helm.go\<close>.
    \<^item> \<open>Helm_Applier\<close>, \<open>Helm_Action\<close>: \<open>applier/helm.go\<close>, and the action client, error translation and storage
      driver of \<open>action\<close>.
    \<^item> \<open>Crd_Preflight\<close>: \<open>rukpak/preflights/crdupgradesafety\<close> and its place in the Helm applier.
    \<^item> \<open>Rbac_Rules\<close>, \<open>Rbac_PreAuthorizer\<close>: \<open>authorization/rbac.go\<close> with the rule resolver, the authorizer and
      the coverage check of Kubernetes it calls.
    \<^item> \<open>Content_Manager\<close>: the informers of an extension's objects (\<open>contentmanager\<close>).
    \<^item> \<open>Service_Tokens\<close>: the tokens of service accounts (\<open>authentication\<close>, \<open>action/restconfig.go\<close>).
    \<^item> \<open>Image_Cache\<close>, \<open>Image_Charts\<close>, \<open>Pull_Secrets\<close>: \<open>internal/shared/util/image\<close> and the pull secret
      controller.
    \<^item> \<open>Cert_Pool\<close>, \<open>Tls_Profiles\<close>: \<open>internal/shared/util/http\<close> and \<open>internal/shared/util/tlsprofiles\<close>.

  Controllers:
    \<^item> \<open>Progress_Deadline\<close>: \<open>controllers/progress_deadline.go\<close>, with 64-bit durations.
    \<^item> \<open>Cos_Phases\<close>, \<open>Cos_Controller\<close>: \<open>controllers/clusterobjectset_controller.go\<close>; a run returns the
      object, the result and the list of its actions on the cluster.
    \<^item> \<open>Extension_Status\<close>, \<open>Extension_Steps\<close>: \<open>controllers/clusterextension_controller.go\<close>,
      \<open>clusterextension_reconcile_steps.go\<close>, \<open>boxcutter_reconcile_steps.go\<close>, and the order of the
      steps from \<open>cmd/operator-controller/main.go\<close>.

  catalogd:
    \<^item> \<open>Catalogd_Index\<close>, \<open>Catalogd_Storage\<close>: \<open>storage/index.go\<close> with 64-bit offsets, \<open>storage/localdir.go\<close>.
    \<^item> \<open>Catalogd_Server\<close>, \<open>Catalogd_GraphQL\<close>: the handlers and HTTP preconditions of \<open>server\<close>, the GraphQL
      schemas of \<open>graphql/graphql.go\<close> and their cache in \<open>service/graphql_service.go\<close>.
    \<^item> \<open>Catalogd_Controller\<close>: \<open>controllers/core/clustercatalog_controller.go\<close> and
      \<open>garbagecollection/garbage_collector.go\<close>.

  \<^bold>\<open>How code becomes definitions.\<close> Structs are records, enumerations of strings stay strings,
  errors are values of \<open>go_error\<close> and fallible functions return \<open>'a result\<close>. The API server, the
  revision engine, Helm, registries, the file system, clocks, gzip, hashes, JSON and YAML codecs and the
  other libraries are fields of environment records (\<open>resolver_env\<close>, \<open>cos_env\<close>, \<open>boxcutter\<close>, \<open>migrator\<close>,
  \<open>ext_env\<close>, \<open>helm\<close>, \<open>render_env\<close>, \<open>config_env\<close>, \<open>source_env\<close>, \<open>rbac_pre_authorizer\<close>, \<open>cache_env\<close>, \<open>client_env\<close>,
  \<open>watch_env\<close>, \<open>token_env\<close>, \<open>crd_env\<close>, \<open>image_os\<close>, \<open>pull_env\<close>, \<open>cat_env\<close>, \<open>graphql_env\<close> and others), so that
  a theorem holds for every answer they give. What a run does to the cluster is an explicit list of
  actions, and theorems about ordering are about that list; what a component keeps on disk or in memory is a
  state, passed and returned. Pointers that may be nil are options; a dereference of nil is a result of
  its own (\<open>StepPanic\<close>, \<open>None\<close>). Go ranges over maps in any order; where the order can be seen, the
  model takes the order of a list, for every list.

  \<^bold>\<open>Loops.\<close> Most loops run over finite lists and are structural recursions or folds. Others have
  their termination proved: unwrapping of validation errors (\<open>core_error\<close>), lists of entity tags
  (\<open>etag_loop\<close>), the search for delimited rules in an error text (\<open>find_delimited\<close>) and the
  replacement of placeholders (\<open>replace_namespace\<close>). Decoding a manifest may never end, when the decoder
  never reports the end of its stream: \<open>decode_loop\<close> is a partial function to options, and it is proved when it
  returns. Replacing patterns in network errors takes the length of the text as its fuel, and every
  replacement consumes a character. Long-running parts are \<open>inductive\<close> runs over calls and events:
  \<open>limiter_run\<close>, \<open>cat_reachable\<close>, \<open>cache_run\<close>, \<open>cm_run\<close>, \<open>token_run\<close>, \<open>image_run\<close>, \<open>cert_run\<close>, \<open>flags_run\<close>. Word arithmetic
  is used where the code can overflow: version components, durations, offsets, TLS numbers.

  \<^bold>\<open>What the lemmas show.\<close> Resolution: soundness, optimality, and refinement of a stateless
  choice. Packing and generating: round trips through Secrets and annotations, size bounds, order
  independence of phases. ClusterObjectSet controller: success and archival only after a complete
  rollout, deadline, finalizers, immutability of content. Appliers and migration: revision numbers,
  crash-safe order of creation, garbage collection, no Helm change without the checks. Extension
  controller: absence of panics, reporting of errors, meaning of success, fallback to the installed
  bundle. Rendering: exact grants, webhooks that reach their Services, success for accepted
  configurations. Permissions: a pre-authorized manifest hands out nothing new, the report is exact and
  sufficient, the error text round trip. Catalogs: the index equals a scan, stored content is served
  exactly, over HTTP and GraphQL and through the cache of the other program, and every successful run leaves it available.
  Informers, tokens, images, certificates: what is tracked is live, requests carry the account's token,
  images handed out are complete, served pools are current. Lemmas below \<open>Limits\<close> prove what the code does not give, with
  the interleavings and inputs that show it.

  The locales \<open>comparison\<close>, \<open>condition_marker\<close>, \<open>ext_marker\<close>, \<open>pipeline_step\<close>, \<open>reporting_step\<close>,
  \<open>annotation_injector\<close>, \<open>catalog_storage\<close>, \<open>catalog_controller\<close> and \<open>metadata_cache\<close> state the contracts
  between the parts; each is interpreted on the code's own definitions.

  \<^bold>\<open>Not modelled.\<close> The programs' flags, feature gates and wiring, the construction of HTTP servers,
  metrics, the webhook that defaults one label and the options of informer caches only hand values to
  libraries. Logging is left out. The comparison of CRDs, the revision engine, the
  version range syntax, JSON schema validation and the execution of GraphQL queries belong to
  libraries and are parameters. Generated code, tests and developer tools are left out.
\<close>

end
